(* ===== verification/Prelude.thy ===== *)
theory Prelude
  imports Main "HOL-Library.AList" "HOL-Library.List_Lexorder" "HOL-Library.Char_ord"
    "HOL-Library.Multiset"
begin

text \<open>
  The vocabulary every component theory shares: what the sources use of JavaScript's strings,
  arrays, \<open>Map\<close>, \<open>Set\<close> and plain objects, the shape of a method that may throw, and the loops
  that validate a list element by element.

  A JavaScript string is a \<^typ>\<open>string\<close>, a list of code units below 256. A JavaScript \<open>Map\<close> or a
  plain object used as a dictionary is a \<open>jsmap\<close>, an association list in insertion order, because
  the sources iterate over \<open>[...map.values()]\<close> and \<open>Object.entries\<close>. A method of a class is a
  function from the object's state to an \<open>outcome\<close>: a thrown error (\<open>Inl\<close>) or a result (\<open>Inr\<close>),
  paired with the state the object is left in. An exception does not undo earlier writes, so the
  state is part of both outcomes and atomicity is a theorem, never a convention of the types.
\<close>

named_theorems store_simps \<open>lookups after writes in JavaScript maps\<close>
named_theorems loop_simps \<open>characterisations of the validating loops\<close>

section \<open>Strings\<close>

text \<open>The white space \<open>String.prototype.trim\<close> removes, within the code units of the model.\<close>

definition js_whitespace :: "char \<Rightarrow> bool" where
  "js_whitespace c \<longleftrightarrow> c \<in> set [CHR 0x09, CHR 0x0A, CHR 0x0B, CHR 0x0C, CHR 0x0D, CHR '' '', CHR 0xA0]"

definition js_trim :: "string \<Rightarrow> string" where
  "js_trim s = rev (dropWhile js_whitespace (rev (dropWhile js_whitespace s)))"

text \<open>\<open>value.trim().length === 0\<close>\<close>

definition blank :: "string \<Rightarrow> bool" where
  "blank s \<longleftrightarrow> js_trim s = []"

text \<open>The truth value of an optional string: \<open>undefined\<close> and the empty string are falsy.\<close>

fun truthy :: "string option \<Rightarrow> bool" where
  "truthy None = False"
| "truthy (Some s) = (s \<noteq> [])"

text \<open>\<open>...(x ? { field: x } : {})\<close> keeps an optional field only when it is truthy.\<close>

definition keep_truthy :: "string option \<Rightarrow> string option" where
  "keep_truthy x = (if truthy x then x else None)"

lemma truthy_iff: "truthy x \<longleftrightarrow> (\<exists>v. x = Some v \<and> v \<noteq> [])"
  by (cases x) auto

lemma keep_truthy_Some_iff: "keep_truthy x = Some v \<longleftrightarrow> x = Some v \<and> v \<noteq> []"
  by (cases x) (auto simp: keep_truthy_def)

fun nullish :: "'a option \<Rightarrow> 'a \<Rightarrow> 'a" where
  "nullish None d = d"
| "nullish (Some x) d = x"

definition startsWith :: "string \<Rightarrow> string \<Rightarrow> bool" where
  "startsWith s p \<longleftrightarrow> take (length p) s = p"

fun includesSub :: "string \<Rightarrow> string \<Rightarrow> bool" where
  "includesSub [] p = (p = [])"
| "includesSub (c # s) p = (startsWith (c # s) p \<or> includesSub s p)"

definition replaceChar :: "char \<Rightarrow> char \<Rightarrow> string \<Rightarrow> string" where
  "replaceChar a b s = map (\<lambda>c. if c = a then b else c) s"

fun split_on :: "char \<Rightarrow> string \<Rightarrow> string list" where
  "split_on d [] = [[]]"
| "split_on d (c # s) =
     (if c = d then [] # split_on d s
      else (case split_on d s of [] \<Rightarrow> [[c]] | w # ws \<Rightarrow> (c # w) # ws))"

fun join_with :: "string \<Rightarrow> string list \<Rightarrow> string" where
  "join_with sep [] = []"
| "join_with sep [w] = w"
| "join_with sep (w # v # ws) = w @ sep @ join_with sep (v # ws)"

fun digit_char :: "nat \<Rightarrow> char" where
  "digit_char n = char_of (48 + n)"

text \<open>A non-negative integer inside a template literal.\<close>

function show_nat :: "nat \<Rightarrow> string" where
  "show_nat n = (if n < 10 then [digit_char n] else show_nat (n div 10) @ [digit_char (n mod 10)])"
  by pat_completeness auto
termination by (relation "measure id") auto

declare show_nat.simps [simp del]

lemma split_on_nonempty [simp]: "split_on d s \<noteq> []"
  by (induction s) (auto split: list.splits)

lemma join_split_on [simp]: "join_with [d] (split_on d s) = s"
proof (induction s)
  case (Cons c s)
  obtain w ws where ws: "split_on d s = w # ws"
    by (cases "split_on d s") auto
  with Cons.IH show ?case
    by (cases ws) auto
qed simp

lemma split_on_no_sep: "w \<in> set (split_on d s) \<Longrightarrow> d \<notin> set w"
proof (induction s arbitrary: w)
  case (Cons c s)
  then show ?case
    by (cases "split_on d s") (auto split: if_splits)
qed simp

lemma split_on_id: "d \<notin> set s \<Longrightarrow> split_on d s = [s]"
  by (induction s) auto

lemma split_on_append_sep: "split_on d (u @ d # v) = split_on d u @ split_on d v"
proof (induction u)
  case (Cons c u)
  show ?case
  proof (cases "split_on d u")
    case Nil
    then show ?thesis by simp
  next
    case (Cons w ws)
    then show ?thesis using Cons.IH by simp
  qed
qed simp

lemma split_join:
  "ws \<noteq> [] \<Longrightarrow> \<forall>w\<in>set ws. d \<notin> set w \<Longrightarrow> split_on d (join_with [d] ws) = ws"
proof (induction "[d]" ws rule: join_with.induct)
  case (3 w v ws)
  then have "split_on d (w @ d # join_with [d] (v # ws)) = split_on d w @ (v # ws)"
    by (simp add: split_on_append_sep)
  with 3 show ?case by (simp add: split_on_id)
qed (auto simp: split_on_id)

lemma join_with_Nil_iff: "\<forall>w\<in>set ws. w \<noteq> [] \<Longrightarrow> join_with sep ws = [] \<longleftrightarrow> ws = []"
  by (induction sep ws rule: join_with.induct) auto

lemma set_join_with: "set (join_with [d] ws) \<subseteq> insert d (\<Union>w\<in>set ws. set w)"
  by (induction "[d]" ws rule: join_with.induct) auto

lemma startsWith_iff: "startsWith s p \<longleftrightarrow> (\<exists>rest. s = p @ rest)"
  unfolding startsWith_def by (metis append_eq_conv_conj append_take_drop_id)

lemma includesSub_iff: "includesSub s p \<longleftrightarrow> (\<exists>a b. s = a @ p @ b)"
proof (induction s)
  case (Cons c s)
  show ?case
  proof
    assume "includesSub (c # s) p"
    then consider "\<exists>rest. c # s = [] @ p @ rest" | "\<exists>a b. c # s = (c # a) @ p @ b"
      using Cons.IH by (auto simp: startsWith_iff)
    then show "\<exists>a b. c # s = a @ p @ b" by cases blast+
  next
    assume "\<exists>a b. c # s = a @ p @ b"
    then obtain a b where ab: "c # s = a @ p @ b" by blast
    then have "startsWith (c # s) p \<or> includesSub s p"
      using Cons.IH by (cases a) (metis append_Nil startsWith_iff, auto)
    then show "includesSub (c # s) p" by simp
  qed
qed simp

lemma replaceChar_notin [simp]: "a \<noteq> b \<Longrightarrow> a \<notin> set (replaceChar a b s)"
  by (auto simp: replaceChar_def)

lemma replaceChar_id: "a \<notin> set s \<Longrightarrow> replaceChar a b s = s"
  unfolding replaceChar_def by (induction s) auto

lemma replaceChar_Nil [simp]: "replaceChar a b [] = []"
  by (simp add: replaceChar_def)

lemma replaceChar_eq_Nil [simp]: "replaceChar a b s = [] \<longleftrightarrow> s = []"
  by (simp add: replaceChar_def)

lemma dropWhile_idem [simp]: "dropWhile P (dropWhile P xs) = dropWhile P xs"
  by (induction xs) auto

lemma dropWhile_append_last:
  "xs \<noteq> [] \<Longrightarrow> \<not> P (last xs) \<Longrightarrow> dropWhile P (rev xs) = rev xs"
  by (cases xs rule: rev_cases) auto

lemma js_trim_Nil [simp]: "js_trim [] = []"
  by (simp add: js_trim_def)

lemma blank_Nil [simp]: "blank []"
  by (simp add: blank_def)

lemma dropWhile_rev_keeps_head:
  "ys = dropWhile P xs \<Longrightarrow> dropWhile P (rev (dropWhile P (rev ys))) = rev (dropWhile P (rev ys))"
proof -
  assume ys: "ys = dropWhile P xs"
  let ?zs = "rev (dropWhile P (rev ys))"
  show ?thesis
  proof (cases ?zs)
    case (Cons z zs)
    obtain ws where "rev ys = ws @ rev ?zs"
      by (metis rev_rev_ident takeWhile_dropWhile_id)
    then have "ys = ?zs @ rev ws"
      by (metis rev_append rev_rev_ident)
    with Cons have "hd ys = z" "ys \<noteq> []" by auto
    with ys have "\<not> P z"
      using hd_dropWhile by blast
    with Cons show ?thesis by simp
  next
    case Nil
    then show ?thesis by (simp only: dropWhile.simps)
  qed
qed

lemma js_trim_idem [simp]: "js_trim (js_trim s) = js_trim s"
  unfolding js_trim_def by (simp add: dropWhile_rev_keeps_head)

lemma blank_trim [simp]: "blank (js_trim s) = blank s"
  by (simp add: blank_def)

section \<open>Arrays and sets\<close>

text \<open>\<open>[...new Set(xs)]\<close> keeps the first occurrence of every element.\<close>

definition uniq :: "'a list \<Rightarrow> 'a list" where
  "uniq xs = rev (remdups (rev xs))"

lemma set_uniq [simp]: "set (uniq xs) = set xs"
  by (simp add: uniq_def)

lemma distinct_uniq [simp]: "distinct (uniq xs)"
  by (simp add: uniq_def)

lemma uniq_Nil [simp]: "uniq [] = []"
  by (simp add: uniq_def)

text \<open>\<open>new Set(xs).size !== xs.length\<close> tests for duplicates.\<close>

definition has_duplicates :: "'a list \<Rightarrow> bool" where
  "has_duplicates xs \<longleftrightarrow> length (uniq xs) \<noteq> length xs"

lemma has_duplicates_iff [simp]: "has_duplicates xs \<longleftrightarrow> \<not> distinct xs"
proof -
  have "length (remdups (rev xs)) = length (rev xs) \<longleftrightarrow> distinct (rev xs)"
    by (metis distinct_remdups length_remdups_eq remdups_id_iff_distinct)
  then show ?thesis by (simp add: has_duplicates_def uniq_def)
qed

text \<open>\<open>xs.find(p)\<close> is \<^const>\<open>find\<close>; \<open>[...xs].reverse().find(p)\<close> is the last match.\<close>

definition find_last :: "('a \<Rightarrow> bool) \<Rightarrow> 'a list \<Rightarrow> 'a option" where
  "find_last P xs = find P (rev xs)"

lemma find_last_Nil [simp]: "find_last P [] = None"
  by (simp add: find_last_def)

lemma find_last_snoc [simp]:
  "find_last P (xs @ [x]) = (if P x then Some x else find_last P xs)"
  by (simp add: find_last_def)

lemma find_last_None_iff: "find_last P xs = None \<longleftrightarrow> (\<forall>x\<in>set xs. \<not> P x)"
  by (auto simp: find_last_def find_None_iff)

lemma find_SomeD: "find P xs = Some x \<Longrightarrow> x \<in> set xs \<and> P x"
  by (auto simp: find_Some_iff)

lemma find_last_SomeD: "find_last P xs = Some x \<Longrightarrow> x \<in> set xs \<and> P x"
  unfolding find_last_def by (auto dest: find_SomeD)

section \<open>Maps in insertion order\<close>

type_synonym ('k, 'v) jsmap = "('k \<times> 'v) list"

definition get_key :: "('k, 'v) jsmap \<Rightarrow> 'k \<Rightarrow> 'v option" where
  "get_key m k = map_of m k"

text \<open>\<open>Map.set\<close> overwrites in place and appends a new key at the end.\<close>

definition set_key :: "'k \<Rightarrow> 'v \<Rightarrow> ('k, 'v) jsmap \<Rightarrow> ('k, 'v) jsmap" where
  "set_key k v m = AList.update k v m"

definition delete_key :: "'k \<Rightarrow> ('k, 'v) jsmap \<Rightarrow> ('k, 'v) jsmap" where
  "delete_key k m = AList.delete k m"

definition map_values :: "('k, 'v) jsmap \<Rightarrow> 'v list" where
  "map_values m = map snd m"

definition map_keys :: "('k, 'v) jsmap \<Rightarrow> 'k list" where
  "map_keys m = map fst m"

definition has_key :: "('k, 'v) jsmap \<Rightarrow> 'k \<Rightarrow> bool" where
  "has_key m k \<longleftrightarrow> get_key m k \<noteq> None"

text \<open>\<open>Object.fromEntries\<close> and \<open>new Map(entries)\<close>: a later entry wins.\<close>

definition from_entries :: "('k \<times> 'v) list \<Rightarrow> ('k, 'v) jsmap" where
  "from_entries es = foldl (\<lambda>m (k, v). set_key k v m) [] es"

text \<open>The laws a dictionary of the sources relies on.\<close>

locale keyed_store =
  fixes lookup :: "'m \<Rightarrow> 'k \<Rightarrow> 'v option"
    and store :: "'k \<Rightarrow> 'v \<Rightarrow> 'm \<Rightarrow> 'm"
    and remove :: "'k \<Rightarrow> 'm \<Rightarrow> 'm"
    and contents :: "'m \<Rightarrow> 'v list"
    and keys_ok :: "'m \<Rightarrow> bool"
  assumes lookup_store: "lookup (store k v m) k' = (if k' = k then Some v else lookup m k')"
    and lookup_remove: "lookup (remove k m) k' = (if k' = k then None else lookup m k')"
    and contents_lookup: "keys_ok m \<Longrightarrow> x \<in> set (contents m) \<longleftrightarrow> (\<exists>k. lookup m k = Some x)"
    and keys_ok_store: "keys_ok m \<Longrightarrow> keys_ok (store k v m)"
    and keys_ok_remove: "keys_ok m \<Longrightarrow> keys_ok (remove k m)"
begin

lemma contents_store:
  "keys_ok m \<Longrightarrow> x \<in> set (contents (store k v m))
     \<longleftrightarrow> x = v \<or> (\<exists>k'. k' \<noteq> k \<and> lookup m k' = Some x)"
  by (auto simp: contents_lookup keys_ok_store lookup_store)

lemma contents_store_subset:
  "keys_ok m \<Longrightarrow> set (contents (store k v m)) \<subseteq> insert v (set (contents m))"
  by (auto simp: contents_store contents_lookup)

lemma contents_store_fresh:
  "keys_ok m \<Longrightarrow> lookup m k = None \<Longrightarrow> set (contents (store k v m)) = insert v (set (contents m))"
  by (auto simp: contents_store contents_lookup) (metis option.distinct(1))

lemma ball_contents_store:
  "keys_ok m \<Longrightarrow> \<forall>x\<in>set (contents m). P x \<Longrightarrow> P v \<Longrightarrow> \<forall>x\<in>set (contents (store k v m)). P x"
  using contents_store_subset by fastforce

end

definition distinct_keys :: "('k, 'v) jsmap \<Rightarrow> bool" where
  "distinct_keys m \<longleftrightarrow> distinct (map fst m)"

interpretation jsm: keyed_store get_key set_key delete_key map_values distinct_keys
proof (unfold_locales, goal_cases)
  case 1
  show ?case by (simp add: get_key_def set_key_def update_conv')
next
  case 2
  show ?case by (simp add: get_key_def delete_key_def delete_conv')
next
  case (3 m x)
  then show ?case
    by (force simp: get_key_def map_values_def distinct_keys_def map_of_eq_Some_iff image_iff)
next
  case 4
  then show ?case by (simp add: distinct_keys_def set_key_def distinct_update)
next
  case 5
  then show ?case by (simp add: distinct_keys_def delete_key_def distinct_delete)
qed

lemmas [store_simps, simp] = jsm.lookup_store jsm.lookup_remove
lemmas [store_simps] = jsm.contents_store jsm.contents_lookup
declare jsm.keys_ok_store [simp, intro] and jsm.keys_ok_remove [simp, intro]

lemma get_key_Nil [simp]: "get_key [] k = None"
  by (simp add: get_key_def)

lemma distinct_keys_Nil [simp]: "distinct_keys []"
  by (simp add: distinct_keys_def)

lemma map_values_Nil [simp]: "map_values [] = []"
  by (simp add: map_values_def)

lemma has_key_set_key [simp]: "has_key (set_key k v m) k' \<longleftrightarrow> k' = k \<or> has_key m k'"
  by (simp add: has_key_def)

lemma set_key_same: "get_key m k = Some v \<Longrightarrow> set_key k v m = m"
  by (simp add: set_key_def get_key_def update_triv)

lemma set_key_fresh: "get_key m k = None \<Longrightarrow> set_key k v m = m @ [(k, v)]"
  unfolding set_key_def get_key_def by (induction m) (auto split: if_splits)

lemma set_key_twice [simp]: "set_key k v (set_key k w m) = set_key k v m"
  by (simp add: set_key_def)

lemma delete_set_fresh: "get_key m k = None \<Longrightarrow> delete_key k (set_key k v m) = m"
  unfolding set_key_def get_key_def delete_key_def
  by (simp add: delete_update_same map_of_eq_None_iff)

lemma get_key_mem: "get_key m k = Some v \<Longrightarrow> v \<in> set (map_values m)"
  by (auto simp: get_key_def map_values_def dest: map_of_SomeD intro: rev_image_eqI)

lemma map_keys_set_key:
  "map_keys (set_key k v m) = (if k \<in> set (map_keys m) then map_keys m else map_keys m @ [k])"
  by (simp add: map_keys_def set_key_def update_keys)

lemma get_key_None_iff: "get_key m k = None \<longleftrightarrow> k \<notin> set (map_keys m)"
  by (simp add: get_key_def map_keys_def map_of_eq_None_iff)

lemma get_foldl_set_key:
  "get_key (foldl (\<lambda>m (k, v). set_key k v m) m es) k
     = (case map_of (rev es) k of Some v \<Rightarrow> Some v | None \<Rightarrow> get_key m k)"
  by (induction es arbitrary: m) (auto simp: map_add_def split: option.splits)

lemma get_from_entries: "get_key (from_entries es) k = map_of (rev es) k"
  by (simp add: from_entries_def get_foldl_set_key split: option.split)

lemma distinct_keys_foldl: "distinct_keys m \<Longrightarrow> distinct_keys (foldl (\<lambda>m (k, v). set_key k v m) m es)"
  by (induction es arbitrary: m) auto

lemma distinct_keys_from_entries [simp]: "distinct_keys (from_entries es)"
  by (simp add: from_entries_def distinct_keys_foldl)

lemma map_of_rev_distinct:
  "distinct (map fst es) \<Longrightarrow> map_of (rev es) k = map_of es k"
  by (metis distinct_rev map_of_inject_set rev_map set_rev)

lemma get_from_entries_distinct:
  "distinct (map fst es) \<Longrightarrow> get_key (from_entries es) k = map_of es k"
  by (simp add: get_from_entries map_of_rev_distinct)

section \<open>Values of unknown type\<close>

text \<open>
  What a parameter of type \<open>unknown\<close> can hold. Reading a property that an object does not have gives
  \<open>JUndefined\<close>.
\<close>

datatype js_value =
    JUndefined
  | JNull
  | JBool bool
  | JNumber int
  | JString string
  | JArray "js_value list"
  | JObject "(string \<times> js_value) list"

definition js_field :: "(string \<times> js_value) list \<Rightarrow> string \<Rightarrow> js_value" where
  "js_field fields k = nullish (map_of fields k) JUndefined"

section \<open>Methods that may throw\<close>

type_synonym ('s, 'e, 'a) outcome = "('e + 'a) \<times> 's"

definition raise :: "'e \<Rightarrow> 's \<Rightarrow> ('s, 'e, 'a) outcome" where
  "raise e s = (Inl e, s)"

definition return :: "'a \<Rightarrow> 's \<Rightarrow> ('s, 'e, 'a) outcome" where
  "return a s = (Inr a, s)"

definition succeeded :: "('s, 'e, 'a) outcome \<Rightarrow> bool" where
  "succeeded r \<longleftrightarrow> (case fst r of Inl _ \<Rightarrow> False | Inr _ \<Rightarrow> True)"

text \<open>An outcome without its result, for running operations of different result types.\<close>

fun void :: "('s, 'e, 'a) outcome \<Rightarrow> ('s, 'e, unit) outcome" where
  "void (Inl e, s) = (Inl e, s)"
| "void (Inr a, s) = (Inr (), s)"

lemma snd_void [simp]: "snd (void r) = snd r"
  by (cases r rule: void.cases) auto

lemma fst_void_Inl [simp]: "fst (void r) = Inl e \<longleftrightarrow> fst r = Inl e"
  by (cases r rule: void.cases) auto

lemma succeeded_void [simp]: "succeeded (void r) = succeeded r"
  by (cases r rule: void.cases) (auto simp: succeeded_def)

lemma fst_raise [simp]: "fst (raise e s) = Inl e" and snd_raise [simp]: "snd (raise e s) = s"
  by (simp_all add: raise_def)

lemma fst_return [simp]: "fst (return a s) = Inr a" and snd_return [simp]: "snd (return a s) = s"
  by (simp_all add: return_def)

lemma raise_eq_iff [simp]:
  "raise e s = (Inl e', s') \<longleftrightarrow> e = e' \<and> s = s'" "raise e s = (Inr a, s') \<longleftrightarrow> False"
  by (auto simp: raise_def)

lemma return_eq_iff [simp]:
  "return a s = (Inr a', s') \<longleftrightarrow> a = a' \<and> s = s'" "return a s = (Inl e, s') \<longleftrightarrow> False"
  by (auto simp: return_def)

text \<open>
  A loop whose body only validates: it throws the error of the first element that fails. The body
  of \<open>check_loop\<close> gives the error, if any; \<open>first_some\<close> chains checks in the order of the source.
\<close>

fun check_loop :: "('a \<Rightarrow> 'e option) \<Rightarrow> 'a list \<Rightarrow> 'e option" where
  "check_loop f [] = None"
| "check_loop f (x # xs) = (case f x of Some e \<Rightarrow> Some e | None \<Rightarrow> check_loop f xs)"

fun or_else :: "'e option \<Rightarrow> 'e option \<Rightarrow> 'e option" where
  "or_else (Some e) _ = Some e"
| "or_else None y = y"

definition fail_if :: "bool \<Rightarrow> 'e \<Rightarrow> 'e option" where
  "fail_if b e = (if b then Some e else None)"

lemma check_loop_None [loop_simps]: "check_loop f xs = None \<longleftrightarrow> (\<forall>x\<in>set xs. f x = None)"
  by (induction xs) (auto split: option.splits)

lemma check_loop_SomeD: "check_loop f xs = Some e \<Longrightarrow> \<exists>x\<in>set xs. f x = Some e"
  by (induction xs) (auto split: option.splits)

lemma or_else_None [loop_simps]: "or_else x y = None \<longleftrightarrow> x = None \<and> y = None"
  by (cases x) auto

lemma or_else_Some [loop_simps]: "or_else x y = Some e \<longleftrightarrow> x = Some e \<or> x = None \<and> y = Some e"
  by (cases x) auto

lemma fail_if_None [loop_simps]: "fail_if b e = None \<longleftrightarrow> \<not> b"
  by (simp add: fail_if_def)

lemma fail_if_Some [loop_simps]: "fail_if b e = Some e' \<longleftrightarrow> b \<and> e' = e"
  by (auto simp: fail_if_def)

text \<open>A loop whose body may throw and computes a new accumulator.\<close>

fun fold_loop :: "('a \<Rightarrow> 'b \<Rightarrow> 'e + 'b) \<Rightarrow> 'a list \<Rightarrow> 'b \<Rightarrow> 'e + 'b" where
  "fold_loop f [] b = Inr b"
| "fold_loop f (x # xs) b = (case f x b of Inl e \<Rightarrow> Inl e | Inr b' \<Rightarrow> fold_loop f xs b')"

lemma fold_loop_Cons_Inr: "fold_loop f (x # xs) b = Inr r \<longleftrightarrow> (\<exists>b'. f x b = Inr b' \<and> fold_loop f xs b' = Inr r)"
  by (auto split: sum.splits)

lemma fold_loop_append:
  "fold_loop f (xs @ ys) b
     = (case fold_loop f xs b of Inl e \<Rightarrow> Inl e | Inr b' \<Rightarrow> fold_loop f ys b')"
  by (induction xs arbitrary: b) (auto split: sum.splits)

lemma fold_loop_invariant:
  assumes "\<And>x b b'. x \<in> set xs \<Longrightarrow> P b \<Longrightarrow> f x b = Inr b' \<Longrightarrow> P b'"
    and "P b" and "fold_loop f xs b = Inr r"
  shows "P r"
  using assms by (induction xs arbitrary: b) (auto split: sum.splits)

text \<open>The next statement of a method, reached when the one before did not throw.\<close>

fun and_then :: "('s, 'e, 'a) outcome \<Rightarrow> ('a \<Rightarrow> 's \<Rightarrow> ('s, 'e, 'b) outcome) \<Rightarrow> ('s, 'e, 'b) outcome" where
  "and_then (Inl e, s) f = (Inl e, s)"
| "and_then (Inr a, s) f = f a s"

text \<open>The same for functions without state, with the outcome of a check and the lifting of an error into a larger type.\<close>

fun sum_then :: "'e + 'a \<Rightarrow> ('a \<Rightarrow> 'e + 'b) \<Rightarrow> 'e + 'b" where
  "sum_then (Inl e) f = Inl e"
| "sum_then (Inr a) f = f a"

fun checked :: "'e option \<Rightarrow> 'e + unit" where
  "checked None = Inr ()"
| "checked (Some e) = Inl e"

fun lift_error :: "('e \<Rightarrow> 'f) \<Rightarrow> 'e + 'a \<Rightarrow> 'f + 'a" where
  "lift_error f (Inl e) = Inl (f e)"
| "lift_error f (Inr a) = Inr a"

lemma sum_then_Inr [loop_simps]: "sum_then x f = Inr b \<longleftrightarrow> (\<exists>a. x = Inr a \<and> f a = Inr b)"
  by (cases x) auto

lemma checked_Inr [loop_simps]: "checked x = Inr u \<longleftrightarrow> x = None"
  by (cases x) auto

lemma lift_error_Inr [loop_simps]: "lift_error f x = Inr a \<longleftrightarrow> x = Inr a"
  by (cases x) auto

end
