(* ===== verification/Machines.thy ===== *)
theory Machines
  imports Prelude
begin

text \<open>
  The coordinators of the program are objects whose methods are called one after another; a caller
  may go on after a thrown error. This theory holds what such call sequences have in common: running
  a list of operations, the operations whose environment assumptions hold at the moment they run
  (\<open>admissible\<close>), and three contracts a coordinator can offer: an invariant every operation keeps,
  operations that, from a state of the invariant, leave the state alone when they throw, and a state
  that only grows. Each contract
  is a locale, interpreted on the step function of every coordinator that offers it.
\<close>

fun run_ops :: "('op \<Rightarrow> 's \<Rightarrow> ('s, 'e, 'a) outcome) \<Rightarrow> 'op list \<Rightarrow> 's \<Rightarrow> 's" where
  "run_ops step [] s = s"
| "run_ops step (x # xs) s = run_ops step xs (snd (step x s))"

fun admissible :: "('s \<Rightarrow> 'op \<Rightarrow> bool) \<Rightarrow> ('op \<Rightarrow> 's \<Rightarrow> ('s, 'e, 'a) outcome) \<Rightarrow> 'op list \<Rightarrow> 's \<Rightarrow> bool" where
  "admissible ok step [] s = True"
| "admissible ok step (x # xs) s = (ok s x \<and> admissible ok step xs (snd (step x s)))"

text \<open>The operations of a run that do not throw.\<close>

fun effective :: "('op \<Rightarrow> 's \<Rightarrow> ('s, 'e, 'a) outcome) \<Rightarrow> 'op list \<Rightarrow> 's \<Rightarrow> 'op list" where
  "effective step [] s = []"
| "effective step (x # xs) s =
     (if succeeded (step x s) then [x] else []) @ effective step xs (snd (step x s))"

lemma run_ops_append [simp]: "run_ops step (xs @ ys) s = run_ops step ys (run_ops step xs s)"
  by (induction xs arbitrary: s) auto

lemma admissible_append [simp]:
  "admissible ok step (xs @ ys) s \<longleftrightarrow> admissible ok step xs s \<and> admissible ok step ys (run_ops step xs s)"
  by (induction xs arbitrary: s) auto

lemma admissible_True [simp]: "admissible (\<lambda>_ _. True) step xs s"
  by (induction xs arbitrary: s) auto

locale invariant_machine =
  fixes step :: "'op \<Rightarrow> 's \<Rightarrow> ('s, 'e, 'a) outcome"
    and ok :: "'s \<Rightarrow> 'op \<Rightarrow> bool"
    and inv :: "'s \<Rightarrow> bool"
  assumes step_inv: "inv s \<Longrightarrow> ok s x \<Longrightarrow> inv (snd (step x s))"
begin

lemma run_inv: "inv s \<Longrightarrow> admissible ok step xs s \<Longrightarrow> inv (run_ops step xs s)"
  by (induction xs arbitrary: s) (auto intro: step_inv)

end

locale atomic_machine = invariant_machine +
  assumes step_atomic: "inv s \<Longrightarrow> ok s x \<Longrightarrow> fst (step x s) = Inl e \<Longrightarrow> snd (step x s) = s"
begin

lemma failed_step: "inv s \<Longrightarrow> ok s x \<Longrightarrow> \<not> succeeded (step x s) \<Longrightarrow> snd (step x s) = s"
  by (auto simp: succeeded_def split: sum.splits intro: step_atomic)

lemma run_effective:
  "inv s \<Longrightarrow> admissible ok step xs s \<Longrightarrow> run_ops step (effective step xs s) s = run_ops step xs s"
proof (induction xs arbitrary: s)
  case (Cons x xs)
  then have "inv (snd (step x s))" by (auto intro: step_inv)
  with Cons show ?case by (auto simp: failed_step)
qed simp

end

locale growing_machine =
  fixes step :: "'op \<Rightarrow> 's \<Rightarrow> ('s, 'e, 'a) outcome"
    and ok :: "'s \<Rightarrow> 'op \<Rightarrow> bool"
    and before :: "'s \<Rightarrow> 's \<Rightarrow> bool"
  assumes before_refl: "before s s"
    and before_trans: "before s t \<Longrightarrow> before t u \<Longrightarrow> before s u"
    and step_grows: "ok s x \<Longrightarrow> before s (snd (step x s))"
begin

lemma run_grows: "admissible ok step xs s \<Longrightarrow> before s (run_ops step xs s)"
  by (induction xs arbitrary: s) (auto intro: before_refl before_trans step_grows)

end

end
