(* ===== verification/Contracts.thy ===== *)
theory Contracts
  imports Machines
begin

text \<open>
  The kernel contracts of \<open>src/src/kernel/contracts.ts\<close>: the records the components exchange and
  the pure functions of that file. Every record keeps the fields of its TypeScript type under a
  prefix that names the record; an optional field is an \<open>option\<close>. A \<open>protocol\<close> or \<open>version\<close> field has
  a single literal type and is left out. A \<open>Readonly<Record<string, string>>\<close> is a \<open>jsmap\<close>.

  \<open>opaqueId\<close> draws a random UUID. An operation that draws identifiers takes the sequence of UUIDs
  it draws, \<open>u 0\<close>, \<open>u 1\<close>, and so on, so a claim that depends on their freshness says so.
\<close>

section \<open>Shared enumerations and references\<close>

datatype SourceSpaceClassification = SpacePublic | SpaceInternal | SpaceRestricted | SpaceResultOnly

datatype DisclosureClassification = DPublic | DProject | DRestricted

datatype EvidenceOutcome = Passed | Failed | Stale | Indeterminate

record ActorRef =
  actor_principalId :: string
  actor_actorId :: string
  actor_sessionId :: string
  actor_clientId :: string

fun disclosure_text :: "DisclosureClassification \<Rightarrow> string" where
  "disclosure_text DPublic = ''public''"
| "disclosure_text DProject = ''project''"
| "disclosure_text DRestricted = ''restricted''"

record DisclosurePolicyRef =
  disc_projectionId :: string
  disc_classification :: DisclosureClassification

section \<open>Projects, revisions and views\<close>

record Project =
  proj_id :: string
  proj_name :: string
  proj_referenceType :: string
  proj_sourceSpaceIds :: "string list"

record SourceSpace =
  space_id :: string
  space_name :: string
  space_classification :: SourceSpaceClassification
  space_repositoryId :: "string option"

record ProjectRevision =
  prev_id :: string
  prev_projectId :: string
  prev_sourceSpaceSnapshots :: "(string, string) jsmap"
  prev_parentProjectRevisionId :: "string option"
  prev_landedChangeRevisionId :: "string option"
  prev_landedChangeRevisionIds :: "string list option"
  prev_landingCohortId :: "string option"

record ProjectView =
  view_id :: string
  view_projectId :: string
  view_projectRevisionId :: string
  view_projectionId :: string
  view_classification :: DisclosureClassification
  view_visibleSourceSpaceIds :: "string list"
  view_disclosedSourceSpaceSnapshots :: "(string, string) jsmap"

datatype ProjectViewProjectionErrorCode =
    RevisionProjectMismatch
  | UnknownSourceSpace
  | SourceSpaceNotInProject
  | MissingSourceSpaceSnapshot
  | DuplicateSourceSpace
  | DuplicateSourceSpaceCatalog
  | DisclosureClassificationMismatch

text \<open>The error's code and the Source Space it names; its prose message is left out.\<close>

record ProjectViewProjectionError =
  pvpe_code :: ProjectViewProjectionErrorCode
  pvpe_sourceSpaceId :: "string option"

section \<open>Changes, revisions, workspaces, conflicts and landings\<close>

datatype ChangeStatus =
  ChDraft | ChActive | ChSubmitted | ChLanded | ChBlocked | ChAbandoned

datatype ChangeOriginKind = OriginLocal | OriginMirror

datatype ExternalProposalKind = ProposalPullRequest | ProposalRef | ProposalCommit

record ChangeOrigin =
  orig_kind :: ChangeOriginKind
  orig_source :: string
  orig_mirrorId :: "string option"
  orig_remoteRepository :: "string option"
  orig_remoteRef :: "string option"
  orig_remoteCommit :: "string option"
  orig_remoteAuthor :: "(string \<times> string option) option"
  orig_externalProposalKey :: "string option"
  orig_externalProposalKind :: "ExternalProposalKind option"
  orig_externalProposalHead :: "string option"
  orig_externalProposalBase :: "string option"
  orig_externalProposalInstallation :: "string option"
  orig_externalProposalSourceIdentity :: "string option"
  orig_externalDeliveryId :: "string option"
  orig_disclosure :: DisclosureClassification
  orig_receipt :: string

record Change =
  ch_id :: string
  ch_projectId :: string
  ch_intentId :: string
  ch_baseProjectRevisionId :: string
  ch_status :: ChangeStatus
  ch_latestRevisionId :: "string option"
  ch_workspaceId :: "string option"
  ch_revertsChangeRevisionId :: "string option"
  ch_author :: "ActorRef option"
  ch_origin :: "ChangeOrigin option"

datatype ChangeRevisionKind =
  KindImplementation | KindRebase | KindConflictResolution | KindHandoff | KindRevert

text \<open>
  The two optional fields that carry Git observations of hosted publication
  (\<open>sourceSpaceObservations\<close>, \<open>mirrorRepositoryObservations\<close>) are never read or written by the
  components modelled here and are left out.
\<close>

record ChangeRevision =
  rev_id :: string
  rev_changeId :: string
  rev_projectRevisionId :: string
  rev_projectViewId :: string
  rev_sequence :: nat
  rev_parentRevisionId :: "string option"
  rev_declaredEffects :: "string list"
  rev_baseProjectRevisionId :: "string option"
  rev_workspaceId :: "string option"
  rev_sourceSpaceSnapshots :: "(string, string) jsmap option"
  rev_affectedSourceSpaceIds :: "string list option"
  rev_affectedModuleIds :: "string list option"
  rev_affectedTargetIds :: "string list option"
  rev_author :: "ActorRef option"
  rev_conflictIds :: "string list option"
  rev_kind :: "ChangeRevisionKind option"

record WorkspaceMount =
  wm_sourceSpaceId :: string
  wm_snapshotId :: string
  wm_mountPath :: string

datatype WorkspaceState = WsActive | WsBlocked | WsClosed

record Workspace =
  ws_id :: string
  ws_projectId :: string
  ws_projectRevisionId :: string
  ws_projectViewId :: string
  ws_mounts :: "WorkspaceMount list"
  ws_state :: WorkspaceState
  ws_changeId :: "string option"
  ws_pullRequestId :: "string option"
  ws_actorId :: "string option"

datatype ConflictKind =
    ConfTextual | ConfStructural | ConfSemantic | ConfSchema | ConfDependency | ConfPolicy | ConfDisclosure

datatype ConflictState = ConfOpen | ConfResolved

record Conflict =
  conf_id :: string
  conf_projectId :: string
  conf_changeId :: string
  conf_workspaceId :: string
  conf_kind :: ConflictKind
  conf_sourceSpaceIds :: "string list"
  conf_paths :: "string list"
  conf_description :: string
  conf_state :: ConflictState
  conf_resolutionRevisionId :: "string option"

record Landing =
  land_id :: string
  land_projectId :: string
  land_changeId :: string
  land_changeRevisionId :: string
  land_previousProjectRevisionId :: string
  land_projectRevisionId :: string
  land_receipt :: string
  land_cohortId :: "string option"
  land_changeIds :: "string list option"
  land_changeRevisionIds :: "string list option"

section \<open>Evidence\<close>

datatype EvidenceProducerKind = ProducerRun | ProducerReview | ProducerPolicy | ProducerAttestation

record EvidenceProducer =
  producer_kind :: EvidenceProducerKind
  producer_id :: string
  producer_version :: string

record Evidence =
  ev_id :: string
  ev_key :: string
  ev_criterion :: string
  ev_outcome :: EvidenceOutcome
  ev_validityKey :: string
  ev_actionId :: string
  ev_verifierId :: string
  ev_toolchainDigest :: string
  ev_dependencyDigest :: string
  ev_environmentDigest :: string
  ev_inputDigests :: "string list"
  ev_effectDigests :: "string list"
  ev_outputDigest :: string
  ev_createdAt :: string
  ev_producer :: EvidenceProducer
  ev_projectRevisionId :: string
  ev_projectViewId :: string
  ev_changeRevisionId :: "string option"
  ev_runId :: string
  ev_actor :: ActorRef
  ev_runnerId :: string
  ev_policyVersion :: string
  ev_authorizationEpoch :: string
  ev_capabilityGrantId :: string
  ev_disclosure :: DisclosurePolicyRef
  ev_receipt :: string
  ev_invalidators :: "string list"
  ev_owner :: string
  ev_residualRiskId :: "string option"
  ev_sourceSpaceSnapshots :: "(string, string) jsmap option"
  ev_actionContractDigest :: "string option"
  ev_verifierContractDigest :: "string option"
  ev_targetId :: "string option"
  ev_workspaceId :: "string option"

section \<open>The pure functions of the kernel\<close>

definition opaqueId :: "string \<Rightarrow> string \<Rightarrow> string" where
  "opaqueId pre uuid = pre @ '':'' @ uuid"

lemma opaqueId_inject [simp]: "opaqueId p u = opaqueId p v \<longleftrightarrow> u = v"
  by (simp add: opaqueId_def)

lemma opaqueId_nonempty [simp]: "opaqueId p u \<noteq> []"
  by (simp add: opaqueId_def)

record CreateProjectRevisionInput =
  cpr_projectId :: string
  cpr_sourceSpaceSnapshots :: "(string, string) jsmap"
  cpr_id :: "string option"
  cpr_parentProjectRevisionId :: "string option"
  cpr_landedChangeRevisionId :: "string option"
  cpr_landedChangeRevisionIds :: "string list option"
  cpr_landingCohortId :: "string option"

definition createProjectRevision :: "string \<Rightarrow> CreateProjectRevisionInput \<Rightarrow> ProjectRevision" where
  "createProjectRevision uuid input = \<lparr>
     prev_id = nullish (cpr_id input) (opaqueId ''project-revision'' uuid),
     prev_projectId = cpr_projectId input,
     prev_sourceSpaceSnapshots = cpr_sourceSpaceSnapshots input,
     prev_parentProjectRevisionId = keep_truthy (cpr_parentProjectRevisionId input),
     prev_landedChangeRevisionId = keep_truthy (cpr_landedChangeRevisionId input),
     prev_landedChangeRevisionIds = cpr_landedChangeRevisionIds input,
     prev_landingCohortId = keep_truthy (cpr_landingCohortId input)\<rparr>"

record DeriveViewInput =
  dv_project :: Project
  dv_revision :: ProjectRevision
  dv_sourceSpaces :: "SourceSpace list"
  dv_allowedSourceSpaceIds :: "string list"
  dv_projectionId :: string
  dv_classification :: "DisclosureClassification option"

definition projectionError :: "ProjectViewProjectionErrorCode \<Rightarrow> string option \<Rightarrow> ProjectViewProjectionError" where
  "projectionError c sid = \<lparr>pvpe_code = c, pvpe_sourceSpaceId = sid\<rparr>"

text \<open>The body of the loop over \<open>allowedSourceSpaceIds\<close>.\<close>

definition allowed_space_error :: "DeriveViewInput \<Rightarrow> string \<Rightarrow> ProjectViewProjectionError option" where
  "allowed_space_error input i =
     (let sourceSpaceById = from_entries (map (\<lambda>sp. (space_id sp, sp)) (dv_sourceSpaces input))
      in or_else (fail_if (\<not> has_key sourceSpaceById i) (projectionError UnknownSourceSpace (Some i)))
        (or_else (fail_if (i \<notin> set (proj_sourceSpaceIds (dv_project input)))
                    (projectionError SourceSpaceNotInProject (Some i)))
        (or_else (fail_if (\<not> has_key (prev_sourceSpaceSnapshots (dv_revision input)) i)
                    (projectionError MissingSourceSpaceSnapshot (Some i)))
        (fail_if (dv_classification input = Some DPublic
                    \<and> map_option space_classification (get_key sourceSpaceById i) \<noteq> Some SpacePublic)
                 (projectionError DisclosureClassificationMismatch (Some i))))))"

definition deriveProjectView :: "string \<Rightarrow> DeriveViewInput \<Rightarrow> ProjectViewProjectionError + ProjectView" where
  "deriveProjectView uuid input =
     (if prev_projectId (dv_revision input) \<noteq> proj_id (dv_project input)
      then Inl (projectionError RevisionProjectMismatch None)
      else if has_duplicates (map space_id (dv_sourceSpaces input))
      then Inl (projectionError DuplicateSourceSpaceCatalog None)
      else if has_duplicates (dv_allowedSourceSpaceIds input)
      then Inl (projectionError DuplicateSourceSpace None)
      else case check_loop (allowed_space_error input) (dv_allowedSourceSpaceIds input) of
        Some e \<Rightarrow> Inl e
      | None \<Rightarrow> Inr \<lparr>
          view_id = opaqueId ''project-view'' uuid,
          view_projectId = proj_id (dv_project input),
          view_projectRevisionId = prev_id (dv_revision input),
          view_projectionId = dv_projectionId input,
          view_classification = nullish (dv_classification input) DProject,
          view_visibleSourceSpaceIds = dv_allowedSourceSpaceIds input,
          view_disclosedSourceSpaceSnapshots = from_entries (concat (map (\<lambda>i.
            case get_key (prev_sourceSpaceSnapshots (dv_revision input)) i of
              None \<Rightarrow> [] | Some snapshot \<Rightarrow> [(i, snapshot)]) (dv_allowedSourceSpaceIds input)))\<rparr>)"

section \<open>What a Project View discloses\<close>

text \<open>The entries the view is built from, and the catalogue lookup of the loop.\<close>

lemma map_of_disclosed_entries:
  "map_of (concat (map (\<lambda>i. case f i of None \<Rightarrow> [] | Some s \<Rightarrow> [(i, s)]) xs)) k
     = (if k \<in> set xs then f k else None)"
  by (induction xs) (auto split: option.splits)

lemma disclosed_entries_distinct:
  "distinct xs \<Longrightarrow> distinct (map fst (concat (map (\<lambda>i. case f i of None \<Rightarrow> [] | Some s \<Rightarrow> [(i, s)]) xs)))"
  by (induction xs) (auto split: option.splits)

lemma get_disclosed_entries:
  "distinct xs \<Longrightarrow>
     get_key (from_entries (concat (map (\<lambda>i. case f i of None \<Rightarrow> [] | Some s \<Rightarrow> [(i, s)]) xs))) k
       = (if k \<in> set xs then f k else None)"
  by (simp add: get_from_entries_distinct disclosed_entries_distinct map_of_disclosed_entries)

lemma get_catalog:
  assumes "distinct (map space_id sps)"
  shows "get_key (from_entries (map (\<lambda>sp. (space_id sp, sp)) sps)) i
           = find (\<lambda>sp. space_id sp = i) sps"
proof -
  have "map_of (map (\<lambda>sp. (space_id sp, sp)) sps) i = find (\<lambda>sp. space_id sp = i) sps"
    by (induction sps) auto
  with assms show ?thesis by (simp add: get_from_entries_distinct comp_def)
qed

lemma find_by_id_distinct:
  "distinct (map g xs) \<Longrightarrow> find (\<lambda>x. g x = i) xs = Some y \<longleftrightarrow> y \<in> set xs \<and> g y = i"
  by (induction xs) (auto simp: find_None_iff)

lemma allowed_space_error_None:
  assumes "distinct (map space_id (dv_sourceSpaces input))"
  shows "allowed_space_error input i = None \<longleftrightarrow>
     i \<in> set (proj_sourceSpaceIds (dv_project input))
     \<and> has_key (prev_sourceSpaceSnapshots (dv_revision input)) i
     \<and> (\<exists>sp\<in>set (dv_sourceSpaces input). space_id sp = i
          \<and> (dv_classification input = Some DPublic \<longrightarrow> space_classification sp = SpacePublic))"
proof -
  let ?found = "find (\<lambda>sp. space_id sp = i) (dv_sourceSpaces input)"
  have "(\<exists>sp\<in>set (dv_sourceSpaces input). space_id sp = i \<and> Q sp)
          \<longleftrightarrow> (\<exists>sp. ?found = Some sp \<and> Q sp)" for Q
    using find_by_id_distinct [OF assms] by blast
  then show ?thesis
    unfolding allowed_space_error_def Let_def
    by (cases ?found) (auto simp: loop_simps has_key_def get_catalog [OF assms])
qed

lemma deriveProjectView_Inr_iff:
  "deriveProjectView uuid input = Inr v \<longleftrightarrow>
     prev_projectId (dv_revision input) = proj_id (dv_project input)
     \<and> distinct (map space_id (dv_sourceSpaces input))
     \<and> distinct (dv_allowedSourceSpaceIds input)
     \<and> (\<forall>i\<in>set (dv_allowedSourceSpaceIds input). allowed_space_error input i = None)
     \<and> v = \<lparr>
          view_id = opaqueId ''project-view'' uuid,
          view_projectId = proj_id (dv_project input),
          view_projectRevisionId = prev_id (dv_revision input),
          view_projectionId = dv_projectionId input,
          view_classification = nullish (dv_classification input) DProject,
          view_visibleSourceSpaceIds = dv_allowedSourceSpaceIds input,
          view_disclosedSourceSpaceSnapshots = from_entries (concat (map (\<lambda>i.
            case get_key (prev_sourceSpaceSnapshots (dv_revision input)) i of
              None \<Rightarrow> [] | Some snapshot \<Rightarrow> [(i, snapshot)]) (dv_allowedSourceSpaceIds input)))\<rparr>"
  unfolding deriveProjectView_def
  by (auto simp: check_loop_None dest: check_loop_SomeD split: option.splits)

lemma deriveProjectView_snapshots:
  assumes "deriveProjectView uuid input = Inr v"
  shows "get_key (view_disclosedSourceSpaceSnapshots v) i
     = (if i \<in> set (dv_allowedSourceSpaceIds input)
        then get_key (prev_sourceSpaceSnapshots (dv_revision input)) i else None)"
  using assms by (auto simp: deriveProjectView_Inr_iff get_disclosed_entries)

text \<open>
  A projection request succeeds exactly when the revision belongs to the project, neither the
  catalogue nor the request repeats a Source Space, and every requested Source Space is owned by the
  project, has a snapshot in the revision, is in the catalogue, and is classified public there when
  the view is to be public. There is no other way to succeed and no partial view.
\<close>

theorem deriveProjectView_succeeds_iff:
  "(\<exists>v. deriveProjectView uuid input = Inr v) \<longleftrightarrow>
     prev_projectId (dv_revision input) = proj_id (dv_project input)
     \<and> distinct (map space_id (dv_sourceSpaces input))
     \<and> distinct (dv_allowedSourceSpaceIds input)
     \<and> set (dv_allowedSourceSpaceIds input) \<subseteq>
         {i. i \<in> set (proj_sourceSpaceIds (dv_project input))
           \<and> has_key (prev_sourceSpaceSnapshots (dv_revision input)) i
           \<and> (\<exists>sp\<in>set (dv_sourceSpaces input). space_id sp = i
               \<and> (dv_classification input \<noteq> Some DPublic \<or> space_classification sp = SpacePublic))}"
  unfolding deriveProjectView_Inr_iff
  by (auto simp: allowed_space_error_None subset_iff)

text \<open>
  A view discloses, for every Source Space of the request, the snapshot of the exact revision, and
  nothing for any other Source Space: the disclosed snapshots are the restriction of the revision's
  snapshots to the request, and the visible identifiers are the request itself, without repetition.
\<close>

theorem deriveProjectView_discloses_exactly:
  assumes "deriveProjectView uuid input = Inr v"
  shows "(\<forall>i. get_key (view_disclosedSourceSpaceSnapshots v) i
            = (if i \<in> set (view_visibleSourceSpaceIds v)
               then get_key (prev_sourceSpaceSnapshots (dv_revision input)) i else None))
         \<and> view_visibleSourceSpaceIds v = dv_allowedSourceSpaceIds input
         \<and> distinct (view_visibleSourceSpaceIds v)
         \<and> set (map_keys (view_disclosedSourceSpaceSnapshots v)) = set (view_visibleSourceSpaceIds v)"
proof -
  have vis: "view_visibleSourceSpaceIds v = dv_allowedSourceSpaceIds input"
    and dist: "distinct (dv_allowedSourceSpaceIds input)"
    and cat: "distinct (map space_id (dv_sourceSpaces input))"
    and ok: "\<forall>i\<in>set (dv_allowedSourceSpaceIds input). allowed_space_error input i = None"
    using assms by (auto simp: deriveProjectView_Inr_iff)
  have "i \<in> set (map_keys (view_disclosedSourceSpaceSnapshots v)) \<longleftrightarrow> i \<in> set (dv_allowedSourceSpaceIds input)" for i
    using deriveProjectView_snapshots [OF assms, of i] ok
      get_key_None_iff [of "view_disclosedSourceSpaceSnapshots v" i]
    by (auto simp: allowed_space_error_None [OF cat] has_key_def split: if_splits)
  with vis dist deriveProjectView_snapshots [OF assms] show ?thesis by auto
qed

text \<open>
  Non-interference. Take two requests for the same project, projection, classification and Source
  Spaces, over duplicate-free catalogues and revisions that agree on the requested Source Spaces and differ
  arbitrarily elsewhere. The outcomes are the same, the errors included: nothing about a Source Space
  that was not requested, not even its existence, can be read from a view or from a refusal.
\<close>

theorem deriveProjectView_noninterference:
  assumes "dv_project a = dv_project b" and "dv_projectionId a = dv_projectionId b"
    and "dv_classification a = dv_classification b"
    and allowed: "dv_allowedSourceSpaceIds a = dv_allowedSourceSpaceIds b"
    and "prev_id (dv_revision a) = prev_id (dv_revision b)"
    and "prev_projectId (dv_revision a) = prev_projectId (dv_revision b)"
    and cats: "distinct (map space_id (dv_sourceSpaces a))" "distinct (map space_id (dv_sourceSpaces b))"
    and snaps: "\<forall>i\<in>set (dv_allowedSourceSpaceIds a).
      get_key (prev_sourceSpaceSnapshots (dv_revision a)) i = get_key (prev_sourceSpaceSnapshots (dv_revision b)) i"
    and spaces: "\<forall>i\<in>set (dv_allowedSourceSpaceIds a).
      find (\<lambda>sp. space_id sp = i) (dv_sourceSpaces a) = find (\<lambda>sp. space_id sp = i) (dv_sourceSpaces b)"
  shows "deriveProjectView uuid a = deriveProjectView uuid b"
proof -
  have "allowed_space_error a i = allowed_space_error b i" if "i \<in> set (dv_allowedSourceSpaceIds b)" for i
    using that assms by (simp add: allowed_space_error_def get_catalog has_key_def)
  then have "check_loop (allowed_space_error a) xs = check_loop (allowed_space_error b) xs"
    if "set xs \<subseteq> set (dv_allowedSourceSpaceIds b)" for xs
    using that by (induction xs) (auto split: option.splits)
  moreover have "concat (map (\<lambda>i. case get_key (prev_sourceSpaceSnapshots (dv_revision a)) i of
        None \<Rightarrow> [] | Some snapshot \<Rightarrow> [(i, snapshot)]) (dv_allowedSourceSpaceIds b))
      = concat (map (\<lambda>i. case get_key (prev_sourceSpaceSnapshots (dv_revision b)) i of
        None \<Rightarrow> [] | Some snapshot \<Rightarrow> [(i, snapshot)]) (dv_allowedSourceSpaceIds b))"
    using snaps allowed by (intro arg_cong [where f = concat] map_cong) auto
  ultimately show ?thesis using assms by (simp add: deriveProjectView_def split: option.split)
qed

section \<open>A concrete project\<close>

text \<open>A hybrid project with a public player and a restricted codec, used by the witnesses.\<close>

definition demo_project :: Project where
  "demo_project = \<lparr>proj_id = ''p'', proj_name = ''player'', proj_referenceType = ''hybrid'',
     proj_sourceSpaceIds = [''player'', ''codec'']\<rparr>"

definition demo_spaces :: "SourceSpace list" where
  "demo_spaces = [
     \<lparr>space_id = ''player'', space_name = ''Player'', space_classification = SpacePublic, space_repositoryId = None\<rparr>,
     \<lparr>space_id = ''codec'', space_name = ''Codec'', space_classification = SpaceRestricted, space_repositoryId = None\<rparr>]"

definition demo_revision :: ProjectRevision where
  "demo_revision = \<lparr>prev_id = ''r0'', prev_projectId = ''p'',
     prev_sourceSpaceSnapshots = [(''player'', ''s1''), (''codec'', ''s2'')],
     prev_parentProjectRevisionId = None, prev_landedChangeRevisionId = None,
     prev_landedChangeRevisionIds = None, prev_landingCohortId = None\<rparr>"

definition demo_request :: "string list \<Rightarrow> DeriveViewInput" where
  "demo_request ids = \<lparr>dv_project = demo_project, dv_revision = demo_revision, dv_sourceSpaces = demo_spaces,
     dv_allowedSourceSpaceIds = ids, dv_projectionId = ''public'', dv_classification = Some DPublic\<rparr>"

lemmas demo_defs = demo_project_def demo_spaces_def demo_revision_def demo_request_def

lemmas derive_eval = deriveProjectView_def allowed_space_error_def projectionError_def has_key_def
  from_entries_def set_key_def get_key_def has_duplicates_def uniq_def fail_if_def Let_def

definition demo_view :: ProjectView where
  "demo_view = \<lparr>
     view_id = ''project-view:v'', view_projectId = ''p'', view_projectRevisionId = ''r0'',
     view_projectionId = ''public'', view_classification = DPublic,
     view_visibleSourceSpaceIds = [''player''],
     view_disclosedSourceSpaceSnapshots = [(''player'', ''s1'')]\<rparr>"

lemma derive_demo_view: "deriveProjectView ''v'' (demo_request [''player'']) = Inr demo_view"
  by (simp add: derive_eval demo_defs opaqueId_def demo_view_def)

theorem deriveProjectView_discloses_exactly_witness:
  "deriveProjectView ''v'' (demo_request [''player'']) = Inr demo_view
     \<and> get_key (view_disclosedSourceSpaceSnapshots demo_view) ''player'' = Some ''s1''
     \<and> get_key (view_disclosedSourceSpaceSnapshots demo_view) ''codec'' = None"
proof -
  have vis: "view_visibleSourceSpaceIds demo_view = [''player'']" by (simp add: demo_view_def)
  have "get_key (view_disclosedSourceSpaceSnapshots demo_view) i
      = (if i = ''player'' then get_key (prev_sourceSpaceSnapshots demo_revision) i else None)" for i
    using deriveProjectView_discloses_exactly [OF derive_demo_view]
    by (simp add: vis demo_request_def)
  then show ?thesis by (simp add: derive_demo_view demo_revision_def get_key_def)
qed

theorem deriveProjectView_noninterference_witness:
  "deriveProjectView ''v'' (demo_request [''player''])
     = deriveProjectView ''v'' (demo_request [''player'']
         \<lparr>dv_revision := demo_revision\<lparr>prev_sourceSpaceSnapshots := [(''player'', ''s1''), (''secret'', ''s9'')]\<rparr>,
          dv_sourceSpaces := [hd demo_spaces]\<rparr>)"
  by (rule deriveProjectView_noninterference) (simp_all add: demo_defs get_key_def)

theorem deriveProjectView_succeeds_iff_witness:
  "(\<exists>v. deriveProjectView ''v'' (demo_request [''player'']) = Inr v)
     \<and> \<not> (\<exists>v. deriveProjectView ''v'' (demo_request [''player'', ''codec'']) = Inr v)"
  unfolding deriveProjectView_succeeds_iff by (simp add: demo_defs has_key_def get_key_def)

end
