(* ===== verification/Mounts.thy ===== *)
theory Mounts
  imports Contracts
begin

text \<open>
  \<open>src/src/kernel/workspace-mounts.ts\<close>: the validation that turns a list of mounts of unknown shape
  into a bijection between the disclosed Source Spaces and pairwise disjoint, traversal-free mount
  paths. \<open>String.prototype.normalize("NFKC")\<close> and \<open>toLowerCase\<close> are Unicode tables of the runtime;
  they are the parameters \<open>nfkc\<close> and \<open>lower\<close> of the definitions, and \<open>ascii_nfkc\<close> and
  \<open>ascii_lower\<close> are what they compute on ASCII strings.
\<close>

datatype WorkspaceMountValidationCode =
    SourceSpaceArrayInvalid
  | SourceSpaceEmpty
  | SourceSpaceDuplicate
  | MountArrayInvalid
  | MountCountMismatch
  | MountInvalid
  | MountSourceUndisclosed
  | MountSourceDuplicate
  | MountPathDuplicate
  | MountPathOverlap

record WorkspaceMountCandidate =
  wmc_sourceSpaceId :: string
  wmc_mountPath :: string

text \<open>The structured fields of the error; its message, recovery action and receipt are prose.\<close>

record WorkspaceMountValidationError =
  wmve_code :: WorkspaceMountValidationCode
  wmve_sourceSpaceId :: "string option"
  wmve_mountPath :: "string option"
  wmve_conflictingSourceSpaceId :: "string option"
  wmve_conflictingMountPath :: "string option"

definition mount_error :: "WorkspaceMountValidationCode \<Rightarrow> string option \<Rightarrow> string option \<Rightarrow> string option
    \<Rightarrow> string option \<Rightarrow> WorkspaceMountValidationError" where
  "mount_error c sid mp csid cmp = \<lparr>wmve_code = c, wmve_sourceSpaceId = sid, wmve_mountPath = mp,
     wmve_conflictingSourceSpaceId = csid, wmve_conflictingMountPath = cmp\<rparr>"

abbreviation mount_error_plain :: "WorkspaceMountValidationCode \<Rightarrow> WorkspaceMountValidationError" where
  "mount_error_plain c \<equiv> mount_error c None None None None"

section \<open>Normalisation of one mount\<close>

definition requiredSourceSpaceId :: "js_value \<Rightarrow> WorkspaceMountValidationError + string" where
  "requiredSourceSpaceId v =
     (case v of JString s \<Rightarrow> if blank s then Inl (mount_error_plain SourceSpaceEmpty) else Inr (js_trim s)
      | _ \<Rightarrow> Inl (mount_error_plain SourceSpaceEmpty))"

definition ascii_letter :: "char \<Rightarrow> bool" where
  "ascii_letter c \<longleftrightarrow> c \<in> set ''ABCDEFGHIJKLMNOPQRSTUVWXYZabcdefghijklmnopqrstuvwxyz''"

text \<open>\<open>/^[A-Za-z]:/u\<close>\<close>

fun drivePath :: "string \<Rightarrow> bool" where
  "drivePath (a # b # s) = (ascii_letter a \<and> b = CHR '':'')"
| "drivePath s = False"

definition invalid_segment :: "string \<Rightarrow> bool" where
  "invalid_segment segment \<longleftrightarrow> segment = [] \<or> segment = ''.'' \<or> segment = ''..''"

definition normalizedMountPath :: "(string \<Rightarrow> string) \<Rightarrow> js_value \<Rightarrow> WorkspaceMountValidationError + string" where
  "normalizedMountPath nfkc v =
     (case v of
        JString path \<Rightarrow>
          (let replaced = nfkc (replaceChar (CHR 0x5C) (CHR ''/'') path);
               segments = split_on (CHR ''/'') replaced
           in if replaced = [] \<or> drivePath replaced \<or> startsWith replaced ''/'' \<or> CHR 0x00 \<in> set replaced
                 \<or> find invalid_segment segments \<noteq> None
              then Inl (mount_error MountInvalid None (Some path) None None)
              else Inr (join_with ''/'' segments))
      | _ \<Rightarrow> Inl (mount_error_plain MountInvalid))"

definition collisionKey :: "(string \<Rightarrow> string) \<Rightarrow> (string \<Rightarrow> string) \<Rightarrow> string \<Rightarrow> string" where
  "collisionKey nfkc lower v = lower (nfkc v)"

definition overlaps :: "(string \<Rightarrow> string) \<Rightarrow> (string \<Rightarrow> string) \<Rightarrow> string \<Rightarrow> string \<Rightarrow> bool" where
  "overlaps nfkc lower left right =
     (let leftKey = collisionKey nfkc lower left; rightKey = collisionKey nfkc lower right
      in leftKey = rightKey \<or> startsWith leftKey (rightKey @ ''/'') \<or> startsWith rightKey (leftKey @ ''/''))"

section \<open>The validator\<close>

text \<open>The body of the loop over \<open>sourceSpaceIds\<close>; the accumulator is the array (and the set) built so far.\<close>

definition collect_source_space :: "js_value \<Rightarrow> string list \<Rightarrow> WorkspaceMountValidationError + string list" where
  "collect_source_space v sourceSpaceIds =
     (case requiredSourceSpaceId v of
        Inl e \<Rightarrow> Inl e
      | Inr sourceSpaceId \<Rightarrow>
          if sourceSpaceId \<in> set sourceSpaceIds
          then Inl (mount_error SourceSpaceDuplicate (Some sourceSpaceId) None None None)
          else Inr (sourceSpaceIds @ [sourceSpaceId]))"

type_synonym mounted = "(string, WorkspaceMountCandidate) jsmap \<times> WorkspaceMountCandidate list"

text \<open>The body of the loop over \<open>mounts\<close>, after the two fields of a candidate have been read.\<close>

definition place_mount :: "(string \<Rightarrow> string) \<Rightarrow> (string \<Rightarrow> string) \<Rightarrow> string list \<Rightarrow> string \<Rightarrow> string
    \<Rightarrow> mounted \<Rightarrow> WorkspaceMountValidationError + mounted" where
  "place_mount nfkc lower sourceSpaceIds sourceSpaceId mountPath acc =
     (case acc of (mountedSourceSpaces, mountedPaths) \<Rightarrow>
       if sourceSpaceId \<notin> set sourceSpaceIds
       then Inl (mount_error MountSourceUndisclosed (Some sourceSpaceId) (Some mountPath) None None)
       else case get_key mountedSourceSpaces sourceSpaceId of
         Some prior \<Rightarrow> Inl (mount_error MountSourceDuplicate (Some sourceSpaceId) (Some mountPath) None
                              (Some (wmc_mountPath prior)))
       | None \<Rightarrow>
           (case find (\<lambda>prior. overlaps nfkc lower (wmc_mountPath prior) mountPath) mountedPaths of
              Some prior \<Rightarrow>
                Inl (mount_error
                  (if collisionKey nfkc lower (wmc_mountPath prior) = collisionKey nfkc lower mountPath
                   then MountPathDuplicate else MountPathOverlap)
                  (Some sourceSpaceId) (Some mountPath)
                  (Some (wmc_sourceSpaceId prior)) (Some (wmc_mountPath prior)))
            | None \<Rightarrow>
                (let current = \<lparr>wmc_sourceSpaceId = sourceSpaceId, wmc_mountPath = mountPath\<rparr>
                 in Inr (set_key sourceSpaceId current mountedSourceSpaces, mountedPaths @ [current]))))"

definition collect_mount :: "(string \<Rightarrow> string) \<Rightarrow> (string \<Rightarrow> string) \<Rightarrow> string list \<Rightarrow> js_value
    \<Rightarrow> mounted \<Rightarrow> WorkspaceMountValidationError + mounted" where
  "collect_mount nfkc lower sourceSpaceIds v acc =
     (case v of
        JObject props \<Rightarrow>
          (case requiredSourceSpaceId (js_field props ''sourceSpaceId'') of
             Inl e \<Rightarrow> Inl e
           | Inr sourceSpaceId \<Rightarrow>
               (case normalizedMountPath nfkc (js_field props ''mountPath'') of
                  Inl e \<Rightarrow> Inl e
                | Inr mountPath \<Rightarrow> place_mount nfkc lower sourceSpaceIds sourceSpaceId mountPath acc))
      | _ \<Rightarrow> Inl (mount_error_plain MountInvalid))"

definition validateWorkspaceMounts :: "(string \<Rightarrow> string) \<Rightarrow> (string \<Rightarrow> string) \<Rightarrow> js_value \<Rightarrow> js_value
    \<Rightarrow> WorkspaceMountValidationError + WorkspaceMountCandidate list" where
  "validateWorkspaceMounts nfkc lower ids mounts =
     (case ids of
        JArray idValues \<Rightarrow>
          (case mounts of
             JArray mountValues \<Rightarrow>
               if length idValues = 0 then Inl (mount_error_plain SourceSpaceArrayInvalid)
               else (case fold_loop collect_source_space idValues [] of
                 Inl e \<Rightarrow> Inl e
               | Inr sourceSpaceIds \<Rightarrow>
                   (case fold_loop (collect_mount nfkc lower sourceSpaceIds) mountValues ([], []) of
                      Inl e \<Rightarrow> Inl e
                    | Inr (mountedSourceSpaces, mountedPaths) \<Rightarrow>
                        if length mountValues \<noteq> length sourceSpaceIds
                        then Inl (mount_error_plain MountCountMismatch)
                        else case find (\<lambda>i. \<not> has_key mountedSourceSpaces i) sourceSpaceIds of
                          Some i \<Rightarrow> Inl (mount_error MountCountMismatch (Some i) None None None)
                        | None \<Rightarrow> Inr mountedPaths))
           | _ \<Rightarrow> Inl (mount_error_plain MountArrayInvalid))
      | _ \<Rightarrow> Inl (mount_error_plain SourceSpaceArrayInvalid))"

text \<open>The positional form of the bootstrap envelopes.\<close>

definition validateWorkspaceMountPaths :: "(string \<Rightarrow> string) \<Rightarrow> (string \<Rightarrow> string) \<Rightarrow> js_value \<Rightarrow> js_value
    \<Rightarrow> WorkspaceMountValidationError + WorkspaceMountCandidate list" where
  "validateWorkspaceMountPaths nfkc lower ids paths =
     (case ids of
        JArray idValues \<Rightarrow>
          (case paths of
             JArray pathValues \<Rightarrow>
               if length pathValues \<noteq> length idValues then Inl (mount_error_plain MountCountMismatch)
               else validateWorkspaceMounts nfkc lower ids
                 (JArray (map (\<lambda>(i, p). JObject [(''sourceSpaceId'', i), (''mountPath'', p)])
                            (zip idValues pathValues)))
           | _ \<Rightarrow> Inl (mount_error_plain MountArrayInvalid))
      | _ \<Rightarrow> Inl (mount_error_plain SourceSpaceArrayInvalid))"

section \<open>What the loops establish\<close>

text \<open>A path without absolute, empty, dot or traversal segments, drive prefix or NUL.\<close>

definition safe_mount_path :: "string \<Rightarrow> bool" where
  "safe_mount_path p \<longleftrightarrow> p \<noteq> [] \<and> \<not> drivePath p \<and> \<not> startsWith p ''/'' \<and> CHR 0x00 \<notin> set p
     \<and> (\<forall>segment\<in>set (split_on (CHR ''/'') p). \<not> invalid_segment segment)"

text \<open>The candidate is what the validator reads from one element of \<open>mounts\<close>.\<close>

definition reads_as :: "(string \<Rightarrow> string) \<Rightarrow> js_value \<Rightarrow> WorkspaceMountCandidate \<Rightarrow> bool" where
  "reads_as nfkc v c \<longleftrightarrow> (\<exists>props. v = JObject props
     \<and> requiredSourceSpaceId (js_field props ''sourceSpaceId'') = Inr (wmc_sourceSpaceId c)
     \<and> normalizedMountPath nfkc (js_field props ''mountPath'') = Inr (wmc_mountPath c))"

definition disjoint_mounts :: "(string \<Rightarrow> string) \<Rightarrow> (string \<Rightarrow> string) \<Rightarrow> WorkspaceMountCandidate list \<Rightarrow> bool" where
  "disjoint_mounts nfkc lower cs \<longleftrightarrow>
     sorted_wrt (\<lambda>a b. \<not> overlaps nfkc lower (wmc_mountPath a) (wmc_mountPath b)) cs"

definition mounted_inv :: "(string \<Rightarrow> string) \<Rightarrow> (string \<Rightarrow> string) \<Rightarrow> string list \<Rightarrow> mounted \<Rightarrow> bool" where
  "mounted_inv nfkc lower ids acc \<longleftrightarrow> (case acc of (m, ps) \<Rightarrow>
     (\<forall>k. has_key m k \<longleftrightarrow> k \<in> set (map wmc_sourceSpaceId ps))
     \<and> distinct (map wmc_sourceSpaceId ps)
     \<and> set (map wmc_sourceSpaceId ps) \<subseteq> set ids
     \<and> disjoint_mounts nfkc lower ps
     \<and> (\<forall>c\<in>set ps. safe_mount_path (wmc_mountPath c)))"

lemma overlaps_sym: "overlaps nfkc lower a b = overlaps nfkc lower b a"
  by (auto simp: overlaps_def Let_def)

lemma normalizedMountPath_Inr:
  "normalizedMountPath nfkc v = Inr p \<longleftrightarrow>
     (\<exists>path. v = JString path \<and> p = nfkc (replaceChar (CHR 0x5C) (CHR ''/'') path) \<and> safe_mount_path p)"
  unfolding normalizedMountPath_def safe_mount_path_def Let_def
  by (auto simp: find_None_iff split: js_value.splits if_splits)

lemma requiredSourceSpaceId_Inr:
  "requiredSourceSpaceId v = Inr i \<longleftrightarrow> (\<exists>s. v = JString s \<and> \<not> blank s \<and> i = js_trim s)"
  unfolding requiredSourceSpaceId_def by (auto split: js_value.splits if_splits)

lemma place_mount_Inr:
  assumes "place_mount nfkc lower ids sid mp (m, ps) = Inr (m', ps')"
  shows "sid \<in> set ids \<and> get_key m sid = None
     \<and> (\<forall>prior\<in>set ps. \<not> overlaps nfkc lower (wmc_mountPath prior) mp)
     \<and> m' = set_key sid \<lparr>wmc_sourceSpaceId = sid, wmc_mountPath = mp\<rparr> m
     \<and> ps' = ps @ [\<lparr>wmc_sourceSpaceId = sid, wmc_mountPath = mp\<rparr>]"
  using assms unfolding place_mount_def Let_def
  by (auto simp: find_None_iff split: if_splits option.splits)

lemma collect_mount_inv:
  assumes "collect_mount nfkc lower ids v acc = Inr acc'" and "mounted_inv nfkc lower ids acc"
  shows "mounted_inv nfkc lower ids acc' \<and> (\<exists>c. snd acc' = snd acc @ [c] \<and> reads_as nfkc v c)"
proof -
  obtain m ps where acc: "acc = (m, ps)" by (cases acc)
  obtain m' ps' where acc': "acc' = (m', ps')" by (cases acc')
  from assms(1) obtain props sid mp where v: "v = JObject props"
    and sid: "requiredSourceSpaceId (js_field props ''sourceSpaceId'') = Inr sid"
    and mp: "normalizedMountPath nfkc (js_field props ''mountPath'') = Inr mp"
    and place: "place_mount nfkc lower ids sid mp (m, ps) = Inr (m', ps')"
    by (auto simp: collect_mount_def acc acc' split: js_value.splits sum.splits)
  let ?c = "\<lparr>wmc_sourceSpaceId = sid, wmc_mountPath = mp\<rparr>"
  note placed = place_mount_Inr [OF place]
  have "reads_as nfkc v ?c" using v sid mp by (simp add: reads_as_def)
  moreover have "safe_mount_path mp" using mp by (auto simp: normalizedMountPath_Inr)
  moreover have "\<not> has_key m sid" using placed by (simp add: has_key_def)
  ultimately show ?thesis
    using placed assms(2)
    by (auto simp: acc acc' mounted_inv_def disjoint_mounts_def sorted_wrt_append)
qed

lemma fold_mounts_inv:
  assumes "fold_loop (collect_mount nfkc lower ids) vs acc = Inr acc'" and "mounted_inv nfkc lower ids acc"
  shows "mounted_inv nfkc lower ids acc'
     \<and> (\<exists>cs. snd acc' = snd acc @ cs \<and> list_all2 (reads_as nfkc) vs cs)"
  using assms
proof (induction vs arbitrary: acc)
  case (Cons v vs)
  from Cons.prems(1) obtain acc1 where step: "collect_mount nfkc lower ids v acc = Inr acc1"
    and rest: "fold_loop (collect_mount nfkc lower ids) vs acc1 = Inr acc'"
    by (auto split: sum.splits)
  from collect_mount_inv [OF step Cons.prems(2)] obtain c where
    inv1: "mounted_inv nfkc lower ids acc1" and c: "snd acc1 = snd acc @ [c]" "reads_as nfkc v c"
    by blast
  from Cons.IH [OF rest inv1] obtain cs where "mounted_inv nfkc lower ids acc'"
    "snd acc' = snd acc1 @ cs" "list_all2 (reads_as nfkc) vs cs" by blast
  with c show ?case by (auto intro!: exI [of _ "c # cs"])
qed simp

lemma fold_source_spaces:
  assumes "fold_loop collect_source_space vs ids = Inr ids'" and "distinct ids"
  shows "distinct ids' \<and> (\<exists>new. ids' = ids @ new \<and> map requiredSourceSpaceId vs = map Inr new)"
  using assms
proof (induction vs arbitrary: ids)
  case (Cons v vs)
  then obtain ids1 where step: "collect_source_space v ids = Inr ids1"
    and rest: "fold_loop collect_source_space vs ids1 = Inr ids'"
    by (auto split: sum.splits)
  from step obtain i where "requiredSourceSpaceId v = Inr i" "i \<notin> set ids" "ids1 = ids @ [i]"
    by (auto simp: collect_source_space_def split: sum.splits if_splits)
  with Cons.IH [OF rest] Cons.prems(2) show ?case by auto
qed simp

lemma fold_source_spaces_complete:
  "map requiredSourceSpaceId vs = map Inr new \<Longrightarrow> distinct (ids @ new)
     \<Longrightarrow> fold_loop collect_source_space vs ids = Inr (ids @ new)"
proof (induction vs arbitrary: ids new)
  case (Cons v vs)
  then obtain i rest where "new = i # rest" "requiredSourceSpaceId v = Inr i"
    "map requiredSourceSpaceId vs = map Inr rest" by auto
  with Cons.IH [of rest "ids @ [i]"] Cons.prems(2) show ?case
    by (auto simp: collect_source_space_def)
qed simp

lemma place_mount_complete:
  assumes "mounted_inv nfkc lower ids (m, ps)" and "distinct (map wmc_sourceSpaceId (ps @ [c]))"
    and "wmc_sourceSpaceId c \<in> set ids" and "disjoint_mounts nfkc lower (ps @ [c])"
  shows "place_mount nfkc lower ids (wmc_sourceSpaceId c) (wmc_mountPath c) (m, ps)
           = Inr (set_key (wmc_sourceSpaceId c) c m, ps @ [c])"
proof -
  have "get_key m (wmc_sourceSpaceId c) = None"
    using assms by (auto simp: mounted_inv_def has_key_def)
  moreover have "find (\<lambda>prior. overlaps nfkc lower (wmc_mountPath prior) (wmc_mountPath c)) ps = None"
    using assms(4) by (auto simp: find_None_iff disjoint_mounts_def sorted_wrt_append)
  ultimately show ?thesis
    using assms(3) by (cases c) (simp add: place_mount_def Let_def)
qed

lemma fold_mounts_complete:
  assumes "list_all2 (reads_as nfkc) vs cs" and "mounted_inv nfkc lower ids (m, ps)"
    and "distinct (map wmc_sourceSpaceId (ps @ cs))" and "set (map wmc_sourceSpaceId cs) \<subseteq> set ids"
    and "disjoint_mounts nfkc lower (ps @ cs)"
  shows "\<exists>m'. fold_loop (collect_mount nfkc lower ids) vs (m, ps) = Inr (m', ps @ cs)"
  using assms
proof (induction vs arbitrary: cs m ps)
  case (Cons v vs)
  then obtain c rest where cs: "cs = c # rest" and c: "reads_as nfkc v c"
    and rest: "list_all2 (reads_as nfkc) vs rest" by (auto simp: list_all2_Cons1)
  have "place_mount nfkc lower ids (wmc_sourceSpaceId c) (wmc_mountPath c) (m, ps)
      = Inr (set_key (wmc_sourceSpaceId c) c m, ps @ [c])"
    using Cons.prems cs by (intro place_mount_complete) (auto simp: disjoint_mounts_def sorted_wrt_append)
  then have step: "collect_mount nfkc lower ids v (m, ps) = Inr (set_key (wmc_sourceSpaceId c) c m, ps @ [c])"
    using c by (auto simp: reads_as_def collect_mount_def)
  have "mounted_inv nfkc lower ids (set_key (wmc_sourceSpaceId c) c m, ps @ [c])"
    using collect_mount_inv [OF step Cons.prems(2)] by simp
  from Cons.IH [OF rest this] Cons.prems cs step show ?case by simp
qed simp

lemma validate_InrD:
  assumes "validateWorkspaceMounts nfkc lower ids mounts = Inr cs"
  obtains idValues mountValues sourceSpaceIds where
    "ids = JArray idValues" "mounts = JArray mountValues" "idValues \<noteq> []"
    "map requiredSourceSpaceId idValues = map Inr sourceSpaceIds" "distinct sourceSpaceIds"
    "list_all2 (reads_as nfkc) mountValues cs"
    "distinct (map wmc_sourceSpaceId cs)" "set (map wmc_sourceSpaceId cs) = set sourceSpaceIds"
    "disjoint_mounts nfkc lower cs" "\<forall>c\<in>set cs. safe_mount_path (wmc_mountPath c)"
proof -
  from assms obtain idValues mountValues sourceSpaceIds m where
    shape: "ids = JArray idValues" "mounts = JArray mountValues" "idValues \<noteq> []"
    and spaces: "fold_loop collect_source_space idValues [] = Inr sourceSpaceIds"
    and folded: "fold_loop (collect_mount nfkc lower sourceSpaceIds) mountValues ([], []) = Inr (m, cs)"
    and all: "find (\<lambda>i. \<not> has_key m i) sourceSpaceIds = None"
    unfolding validateWorkspaceMounts_def
    by (auto split: js_value.splits sum.splits if_splits option.splits prod.splits)
  have "mounted_inv nfkc lower sourceSpaceIds ([], [])"
    by (simp add: mounted_inv_def disjoint_mounts_def has_key_def)
  from fold_mounts_inv [OF folded this] have inv: "mounted_inv nfkc lower sourceSpaceIds (m, cs)"
    and reads: "list_all2 (reads_as nfkc) mountValues cs" by auto
  from fold_source_spaces [OF spaces] have "distinct sourceSpaceIds"
    "map requiredSourceSpaceId idValues = map Inr sourceSpaceIds" by auto
  with shape inv reads all that [of idValues mountValues sourceSpaceIds] show ?thesis
    by (auto simp: mounted_inv_def find_None_iff)
qed

section \<open>Properties\<close>

text \<open>
  C37. The validator accepts exactly the bijections, and returns them in mount order: the result is
  \<open>cs\<close> if and only if both inputs are arrays, at least one Source Space is disclosed, the trimmed
  identifiers are non-blank and distinct, every mount is an object whose fields normalise to the
  candidate at its position, the mounted Source Spaces are distinct and are exactly the disclosed
  ones, and no two mount paths collide or contain one another under the case-folded collision key.
\<close>

theorem validateWorkspaceMounts_iff:
  "validateWorkspaceMounts nfkc lower ids mounts = Inr cs \<longleftrightarrow>
     (\<exists>idValues mountValues sourceSpaceIds.
        ids = JArray idValues \<and> mounts = JArray mountValues \<and> idValues \<noteq> []
        \<and> map requiredSourceSpaceId idValues = map Inr sourceSpaceIds \<and> distinct sourceSpaceIds
        \<and> list_all2 (reads_as nfkc) mountValues cs
        \<and> distinct (map wmc_sourceSpaceId cs) \<and> set (map wmc_sourceSpaceId cs) = set sourceSpaceIds
        \<and> disjoint_mounts nfkc lower cs)"
  (is "_ \<longleftrightarrow> ?spec")
proof
  assume "validateWorkspaceMounts nfkc lower ids mounts = Inr cs"
  then show ?spec by (rule validate_InrD) blast
next
  assume ?spec
  then obtain idValues mountValues sourceSpaceIds where shape: "ids = JArray idValues" "mounts = JArray mountValues"
      "idValues \<noteq> []" and spaces: "map requiredSourceSpaceId idValues = map Inr sourceSpaceIds" "distinct sourceSpaceIds"
    and reads: "list_all2 (reads_as nfkc) mountValues cs"
    and sids: "distinct (map wmc_sourceSpaceId cs)" "set (map wmc_sourceSpaceId cs) = set sourceSpaceIds"
    and disj: "disjoint_mounts nfkc lower cs" by blast
  have init: "mounted_inv nfkc lower sourceSpaceIds ([], [])"
    by (simp add: mounted_inv_def disjoint_mounts_def has_key_def)
  from fold_mounts_complete [OF reads init] sids disj obtain m where
    folded: "fold_loop (collect_mount nfkc lower sourceSpaceIds) mountValues ([], []) = Inr (m, cs)" by auto
  from fold_mounts_inv [OF folded init] sids(2) have "find (\<lambda>i. \<not> has_key m i) sourceSpaceIds = None"
    by (auto simp: mounted_inv_def find_None_iff)
  moreover have "length mountValues = length sourceSpaceIds"
    using list_all2_lengthD [OF reads] sids spaces(2) by (metis distinct_card length_map)
  ultimately show "validateWorkspaceMounts nfkc lower ids mounts = Inr cs"
    using shape folded fold_source_spaces_complete [OF spaces(1), of "[]"] spaces(2)
    by (simp add: validateWorkspaceMounts_def)
qed

text \<open>
  Every accepted mount path stays below the Workspace root: it is a non-empty relative path with
  no drive prefix, no NUL and no empty, dot or dot-dot segment, and any two accepted mounts, in either
  order, have paths that neither collide nor nest under the collision key.
\<close>

theorem validated_mounts_safe:
  assumes "validateWorkspaceMounts nfkc lower ids mounts = Inr cs"
  shows "(\<forall>c\<in>set cs. safe_mount_path (wmc_mountPath c))
     \<and> (\<forall>i<length cs. \<forall>j<length cs. i \<noteq> j \<longrightarrow>
          \<not> overlaps nfkc lower (wmc_mountPath (cs ! i)) (wmc_mountPath (cs ! j)))"
  using assms
proof (rule validate_InrD)
  assume safe: "\<forall>c\<in>set cs. safe_mount_path (wmc_mountPath c)" and disj: "disjoint_mounts nfkc lower cs"
  have "\<not> overlaps nfkc lower (wmc_mountPath (cs ! i)) (wmc_mountPath (cs ! j))"
    if "i < length cs" "j < length cs" "i \<noteq> j" for i j
  proof (cases "i < j")
    case True
    then show ?thesis using disj that by (simp add: disjoint_mounts_def sorted_wrt_iff_nth_less)
  next
    case False
    then have "\<not> overlaps nfkc lower (wmc_mountPath (cs ! j)) (wmc_mountPath (cs ! i))"
      using disj that by (simp add: disjoint_mounts_def sorted_wrt_iff_nth_less)
    then show ?thesis by (simp add: overlaps_sym)
  qed
  with safe show ?thesis by blast
qed

definition mount_json :: "WorkspaceMountCandidate \<Rightarrow> js_value" where
  "mount_json c = JObject [(''sourceSpaceId'', JString (wmc_sourceSpaceId c)), (''mountPath'', JString (wmc_mountPath c))]"

lemma js_field_mount_json [simp]:
  "js_field [(''sourceSpaceId'', a), (''mountPath'', b)] ''sourceSpaceId'' = a"
  "js_field [(''sourceSpaceId'', a), (''mountPath'', b)] ''mountPath'' = b"
  by (simp_all add: js_field_def)

text \<open>
  Validation is a round trip on its own result: persisting the validated mounts and validating
  them again for the same disclosed Source Spaces returns the same mounts, provided NFKC is idempotent
  (as Unicode specifies) and no validated path contains a backslash.
\<close>

theorem revalidate_validated_mounts:
  assumes "validateWorkspaceMounts nfkc lower ids mounts = Inr cs"
    and "\<And>t. nfkc (nfkc t) = nfkc t"
    and "\<forall>c\<in>set cs. CHR 0x5C \<notin> set (wmc_mountPath c)"
  shows "validateWorkspaceMounts nfkc lower ids (JArray (map mount_json cs)) = Inr cs"
proof -
  have "reads_as nfkc (mount_json c) c" if "reads_as nfkc v c" "c \<in> set cs" for v c
  proof -
    have "nfkc (replaceChar (CHR 0x5C) (CHR ''/'') (wmc_mountPath c)) = wmc_mountPath c"
      using that assms(2,3) by (auto simp: reads_as_def normalizedMountPath_Inr replaceChar_id)
    with that show ?thesis
      by (auto simp: reads_as_def mount_json_def normalizedMountPath_Inr requiredSourceSpaceId_Inr)
  qed
  then have "list_all2 (reads_as nfkc) vs cs \<Longrightarrow> list_all2 (reads_as nfkc) (map mount_json cs) cs" for vs
    by (auto simp: list_all2_conv_all_nth)
  with assms(1) show ?thesis
    unfolding validateWorkspaceMounts_iff by auto
qed

text \<open>
  The separators are made canonical before the Unicode normalisation, not after it. A path
  without any backslash that NFKC turns into \<open>a\..\b\<close> (U+FF3C and U+FE68 are such characters) is
  therefore accepted and returned with its backslashes, and the persisted mount is refused as a
  traversal when it is validated again.
\<close>

theorem nfkc_backslash_survives_validation:
  assumes "CHR 0x5C \<notin> set path"
    and "nfkc path = ''a'' @ [CHR 0x5C] @ ''..'' @ [CHR 0x5C] @ ''b''"
    and "nfkc ''a/../b'' = ''a/../b''"
  shows "validateWorkspaceMounts nfkc lower (JArray [JString ''s''])
           (JArray [JObject [(''sourceSpaceId'', JString ''s''), (''mountPath'', JString path)]])
           = Inr [\<lparr>wmc_sourceSpaceId = ''s'', wmc_mountPath = nfkc path\<rparr>]
     \<and> validateWorkspaceMounts nfkc lower (JArray [JString ''s''])
           (JArray [mount_json \<lparr>wmc_sourceSpaceId = ''s'', wmc_mountPath = nfkc path\<rparr>])
           = Inl (mount_error MountInvalid None (Some (nfkc path)) None None)"
  using assms
  by (simp add: validateWorkspaceMounts_def collect_source_space_def requiredSourceSpaceId_def blank_def
      js_trim_def js_whitespace_def collect_mount_def place_mount_def normalizedMountPath_def replaceChar_id
      safe_mount_path_def invalid_segment_def startsWith_def has_key_def mount_json_def Let_def)
    (simp add: replaceChar_def invalid_segment_def)

section \<open>Witnesses\<close>

definition ascii_nfkc :: "string \<Rightarrow> string" where
  "ascii_nfkc s = s"

definition ascii_lower :: "string \<Rightarrow> string" where
  "ascii_lower s = map (\<lambda>c. nullish (map_of (zip ''ABCDEFGHIJKLMNOPQRSTUVWXYZ'' ''abcdefghijklmnopqrstuvwxyz'') c) c) s"

definition demo_mounts :: js_value where
  "demo_mounts = JArray [
     JObject [(''sourceSpaceId'', JString '' player ''), (''mountPath'', JString (''pkgs'' @ [CHR 0x5C] @ ''player''))],
     JObject [(''sourceSpaceId'', JString ''codec''), (''mountPath'', JString ''pkgs/codec'')]]"

definition demo_validated :: "WorkspaceMountCandidate list" where
  "demo_validated = [\<lparr>wmc_sourceSpaceId = ''player'', wmc_mountPath = ''pkgs/player''\<rparr>,
     \<lparr>wmc_sourceSpaceId = ''codec'', wmc_mountPath = ''pkgs/codec''\<rparr>]"

lemma demo_mounts_valid:
  "validateWorkspaceMounts ascii_nfkc ascii_lower (JArray [JString ''player'', JString ''codec'']) demo_mounts
     = Inr demo_validated"
  by code_simp

theorem validated_mounts_safe_witness:
  "list_all (\<lambda>c. safe_mount_path (wmc_mountPath c)) demo_validated
     \<and> \<not> overlaps ascii_nfkc ascii_lower (wmc_mountPath (demo_validated ! 0)) (wmc_mountPath (demo_validated ! 1))"
proof -
  have "length demo_validated = 2" by (simp add: demo_validated_def)
  then show ?thesis using validated_mounts_safe [OF demo_mounts_valid] by (simp add: list_all_iff)
qed

theorem revalidate_validated_mounts_witness:
  "validateWorkspaceMounts ascii_nfkc ascii_lower (JArray [JString ''player'', JString ''codec''])
     (JArray (map mount_json demo_validated)) = Inr demo_validated"
  by (rule revalidate_validated_mounts [OF demo_mounts_valid])
    (simp_all add: ascii_nfkc_def demo_validated_def)

text \<open>A stand-in for the NFKC table in which the code unit 0xFF is a compatibility form of the backslash.\<close>

definition fullwidth_nfkc :: "string \<Rightarrow> string" where
  "fullwidth_nfkc s = replaceChar (CHR 0xFF) (CHR 0x5C) s"

theorem nfkc_backslash_survives_validation_witness:
  "\<exists>path. CHR 0x5C \<notin> set path
     \<and> validateWorkspaceMounts fullwidth_nfkc ascii_lower (JArray [JString ''s''])
           (JArray [JObject [(''sourceSpaceId'', JString ''s''), (''mountPath'', JString path)]])
           = Inr [\<lparr>wmc_sourceSpaceId = ''s'', wmc_mountPath = fullwidth_nfkc path\<rparr>]"
proof (intro exI conjI)
  let ?path = "''a'' @ [CHR 0xFF] @ ''..'' @ [CHR 0xFF] @ ''b''"
  show "CHR 0x5C \<notin> set ?path" by simp
  show "validateWorkspaceMounts fullwidth_nfkc ascii_lower (JArray [JString ''s''])
      (JArray [JObject [(''sourceSpaceId'', JString ''s''), (''mountPath'', JString ?path)]])
      = Inr [\<lparr>wmc_sourceSpaceId = ''s'', wmc_mountPath = fullwidth_nfkc ?path\<rparr>]"
    by (rule nfkc_backslash_survives_validation [THEN conjunct1])
      (simp_all add: fullwidth_nfkc_def replaceChar_def)
qed

end
