(* ===== verification/Workspace_Files.thy ===== *)
theory Workspace_Files
  imports Mounts
begin

text \<open>
  The first half of \<open>src/src/change-control/local.ts\<close>: the errors of change control, the
  normalisation of source file paths, and the materialisation of a Project View as a directory.
  The path functions of \<open>node:path\<close> are modelled for POSIX. The file system is a map from the
  directories that exist to the files written below them; writes succeed (operating-system errors are
  not modelled), the staging directory and the rename are one write, and missing parent directories
  are not tracked.
\<close>

datatype ChangeControlErrorCode =
    CcProjectMismatch
  | CcUnknownProjectRevision
  | CcWorkspaceNotFound
  | CcWorkspaceState
  | CcWorkspaceSourceNotAuthorized
  | CcWorkspaceSourceMismatch
  | CcWorkspaceSourceMissing
  | CcWorkspaceSourceDuplicate
  | CcWorkspaceMountInvalid
  | CcWorkspaceMountCollision
  | CcWorkspaceFileInvalid
  | CcWorkspaceDirectoryExists
  | CcWorkspaceDirectoryNotEmpty
  | CcChangeNotFound
  | CcChangeWorkspaceMismatch
  | CcConflictNotFound
  | CcConflictOpen
  | CcConflictChangeMismatch
  | CcStaleCanonicalRevision
  | CcChangeRevisionNotFound
  | CcChangeRevisionNotLatest
  | CcChangeRevisionBaseMismatch
  | CcLandingSourceSpaceInvalid
  | CcLandingBlocked
  | CcRevertSourceNotFound

text \<open>The structured fields of the error; message, recovery action and receipt are prose for the reader.\<close>

record ChangeControlError =
  cce_code :: ChangeControlErrorCode
  cce_affectedObject :: string
  cce_conflictingIds :: "string list"

definition failure :: "ChangeControlErrorCode \<Rightarrow> string \<Rightarrow> ChangeControlError" where
  "failure c obj = \<lparr>cce_code = c, cce_affectedObject = obj, cce_conflictingIds = []\<rparr>"

section \<open>File paths\<close>

text \<open>
  \<open>posix.normalize\<close>: empty and dot segments vanish, a dot-dot segment removes the segment before it,
  or is kept at the front of a relative path; a trailing slash and a leading slash are kept.
\<close>

fun posix_resolve :: "bool \<Rightarrow> string list \<Rightarrow> string list \<Rightarrow> string list" where
  "posix_resolve allowAboveRoot acc [] = rev acc"
| "posix_resolve allowAboveRoot acc (segment # segments) =
     (if segment = [] \<or> segment = ''.'' then posix_resolve allowAboveRoot acc segments
      else if segment = ''..''
      then (if acc \<noteq> [] \<and> hd acc \<noteq> ''..'' then posix_resolve allowAboveRoot (tl acc) segments
            else if allowAboveRoot then posix_resolve allowAboveRoot (segment # acc) segments
            else posix_resolve allowAboveRoot acc segments)
      else posix_resolve allowAboveRoot (segment # acc) segments)"

definition posix_normalize :: "string \<Rightarrow> string" where
  "posix_normalize path =
     (if path = [] then ''.''
      else (let isAbsolute = (hd path = CHR ''/'');
                trailing = (last path = CHR ''/'');
                body = join_with ''/'' (posix_resolve (\<not> isAbsolute) [] (split_on (CHR ''/'') path))
            in if body = [] then (if isAbsolute then ''/'' else if trailing then ''./'' else ''.'')
               else (if isAbsolute then ''/'' else []) @ body @ (if trailing then ''/'' else [])))"

definition normalizedFilePath :: "string \<Rightarrow> ChangeControlError + string" where
  "normalizedFilePath v =
     (let replaced = replaceChar (CHR 0x5C) (CHR ''/'') v;
          posix = posix_normalize replaced;
          normalized = (if startsWith posix ''./'' then drop 2 posix else posix);
          containsTraversalSegment = (''..'' \<in> set (split_on (CHR ''/'') replaced))
      in if replaced = [] \<or> normalized = [] \<or> normalized = ''.'' \<or> startsWith normalized ''/''
            \<or> containsTraversalSegment \<or> normalized = ''..'' \<or> startsWith normalized ''../''
            \<or> includesSub normalized ''/../'' \<or> CHR 0x00 \<in> set normalized
         then Inl (failure CcWorkspaceFileInvalid ''workspace-file'')
         else Inr normalized)"

section \<open>Materialisation\<close>

record WorkspaceSource =
  src_sourceSpaceId :: string
  src_snapshotId :: string
  src_files :: "(string, string) jsmap"

type_synonym WorkspaceMountInput = WorkspaceMountCandidate

record MaterializeWorkspaceInput =
  mw_view :: ProjectView
  mw_sources :: "WorkspaceSource list"
  mw_mounts :: "WorkspaceMountInput list"
  mw_directory :: string
  mw_id :: "string option"
  mw_actorId :: "string option"

type_synonym filesystem = "(string, (string, string) jsmap) jsmap"

definition mapWorkspaceMountValidationError :: "WorkspaceMountValidationError \<Rightarrow> string \<Rightarrow> ChangeControlError" where
  "mapWorkspaceMountValidationError e viewId =
     failure (case wmve_code e of
         MountSourceUndisclosed \<Rightarrow> CcWorkspaceSourceNotAuthorized
       | SourceSpaceDuplicate \<Rightarrow> CcWorkspaceSourceDuplicate
       | MountInvalid \<Rightarrow> CcWorkspaceMountInvalid
       | SourceSpaceEmpty \<Rightarrow> CcWorkspaceMountInvalid
       | SourceSpaceArrayInvalid \<Rightarrow> CcWorkspaceMountInvalid
       | MountArrayInvalid \<Rightarrow> CcWorkspaceMountInvalid
       | MountCountMismatch \<Rightarrow> CcWorkspaceSourceMissing
       | _ \<Rightarrow> CcWorkspaceMountCollision) viewId"

text \<open>The loop that pairs every validated mount with the snapshot the view discloses.\<close>

definition mount_source_error :: "ProjectView \<Rightarrow> (string, WorkspaceSource) jsmap \<Rightarrow> WorkspaceMountInput \<Rightarrow> ChangeControlError option" where
  "mount_source_error view sourceById mountInput =
     (case get_key sourceById (wmc_sourceSpaceId mountInput) of
        None \<Rightarrow> Some (failure CcWorkspaceSourceMissing (view_id view))
      | Some source \<Rightarrow>
          fail_if (Some (src_snapshotId source)
                     \<noteq> get_key (view_disclosedSourceSpaceSnapshots view) (wmc_sourceSpaceId mountInput))
            (failure CcWorkspaceSourceMismatch (wmc_sourceSpaceId mountInput)))"

definition workspace_mount :: "(string, WorkspaceSource) jsmap \<Rightarrow> WorkspaceMountInput \<Rightarrow> WorkspaceMount" where
  "workspace_mount sourceById mountInput = \<lparr>
     wm_sourceSpaceId = wmc_sourceSpaceId mountInput,
     wm_snapshotId = (case get_key sourceById (wmc_sourceSpaceId mountInput) of
        None \<Rightarrow> [] | Some source \<Rightarrow> src_snapshotId source),
     wm_mountPath = wmc_mountPath mountInput\<rparr>"

definition mount_files :: "(string, WorkspaceSource) jsmap \<Rightarrow> WorkspaceMount \<Rightarrow> (string \<times> string) list" where
  "mount_files sourceById mount =
     (case get_key sourceById (wm_sourceSpaceId mount) of None \<Rightarrow> [] | Some source \<Rightarrow> src_files source)"

definition file_path_error :: "string \<Rightarrow> ChangeControlError option" where
  "file_path_error path = (case normalizedFilePath path of Inl e \<Rightarrow> Some e | Inr _ \<Rightarrow> None)"

definition strip_trailing_slash :: "string \<Rightarrow> string" where
  "strip_trailing_slash p = (if p \<noteq> [] \<and> last p = CHR ''/'' then butlast p else p)"

text \<open>\<open>relative(staging, normalize(join(staging, mountPath, normalizedFilePath(sourcePath))))\<close>\<close>

definition relative_destination :: "string \<Rightarrow> string \<Rightarrow> string" where
  "relative_destination mountPath normalized = strip_trailing_slash (posix_normalize (mountPath @ ''/'' @ normalized))"

definition write_file :: "WorkspaceMount \<Rightarrow> string \<times> string \<Rightarrow> (string, string) jsmap \<Rightarrow> ChangeControlError + (string, string) jsmap" where
  "write_file mount file tree =
     (case normalizedFilePath (fst file) of
        Inl e \<Rightarrow> Inl e
      | Inr normalized \<Rightarrow>
          (let destination = relative_destination (wm_mountPath mount) normalized
           in if startsWith destination ''..'' \<or> CHR 0x00 \<in> set destination
              then Inl (failure CcWorkspaceFileInvalid (wm_sourceSpaceId mount))
              else Inr (set_key destination (snd file) tree)))"

definition materializeWorkspace :: "(string \<Rightarrow> string) \<Rightarrow> (string \<Rightarrow> string) \<Rightarrow> string \<Rightarrow> Project
    \<Rightarrow> MaterializeWorkspaceInput \<Rightarrow> filesystem \<Rightarrow> (filesystem, ChangeControlError, Workspace) outcome" where
  "materializeWorkspace nfkc lower uuid project input fs =
     (let view = mw_view input;
          sourceById = from_entries (map (\<lambda>source. (src_sourceSpaceId source, source)) (mw_sources input))
      in if view_projectId view \<noteq> proj_id project then raise (failure CcProjectMismatch ''workspace'') fs
         else if has_duplicates (map src_sourceSpaceId (mw_sources input))
         then raise (failure CcWorkspaceSourceDuplicate (view_id view)) fs
         else case validateWorkspaceMounts nfkc lower (JArray (map JString (view_visibleSourceSpaceIds view)))
                     (JArray (map mount_json (mw_mounts input))) of
           Inl e \<Rightarrow> raise (mapWorkspaceMountValidationError e (view_id view)) fs
         | Inr validatedMounts \<Rightarrow>
             (case check_loop (mount_source_error view sourceById) validatedMounts of
                Some e \<Rightarrow> raise e fs
              | None \<Rightarrow>
                  (let mounts = map (workspace_mount sourceById) validatedMounts
                   in case check_loop (\<lambda>mount. check_loop (file_path_error \<circ> fst) (mount_files sourceById mount)) mounts of
                        Some e \<Rightarrow> raise e fs
                      | None \<Rightarrow>
                          if has_key fs (mw_directory input)
                          then raise (failure CcWorkspaceDirectoryExists (mw_directory input)) fs
                          else case fold_loop (\<lambda>mount. fold_loop (write_file mount) (mount_files sourceById mount)) mounts [] of
                            Inl e \<Rightarrow> raise e fs
                          | Inr tree \<Rightarrow>
                              return \<lparr>ws_id = nullish (mw_id input) (opaqueId ''workspace'' uuid),
                                ws_projectId = proj_id project,
                                ws_projectRevisionId = view_projectRevisionId view,
                                ws_projectViewId = view_id view,
                                ws_mounts = mounts,
                                ws_state = WsActive,
                                ws_changeId = None,
                                ws_pullRequestId = None,
                                ws_actorId = keep_truthy (mw_actorId input)\<rparr>
                                (set_key (mw_directory input) tree fs))))"

section \<open>Normalised file paths\<close>

definition file_segments :: "string \<Rightarrow> string list" where
  "file_segments v = filter (\<lambda>w. w \<noteq> [] \<and> w \<noteq> ''.'') (split_on (CHR ''/'') (replaceChar (CHR 0x5C) (CHR ''/'') v))"

definition trailing_slash :: "string \<Rightarrow> string" where
  "trailing_slash v = (if v \<noteq> [] \<and> last (replaceChar (CHR 0x5C) (CHR ''/'') v) = CHR ''/'' then ''/'' else [])"

lemma posix_resolve_no_dotdot:
  "''..'' \<notin> set segments \<Longrightarrow>
     posix_resolve up acc segments = rev acc @ filter (\<lambda>w. w \<noteq> [] \<and> w \<noteq> ''.'') segments"
  by (induction segments arbitrary: acc) auto

lemma file_segments_plain:
  "w \<in> set (file_segments v) \<Longrightarrow> w \<noteq> [] \<and> w \<noteq> ''.'' \<and> CHR ''/'' \<notin> set w"
  by (auto simp: file_segments_def dest: split_on_no_sep)

lemma split_file_path:
  assumes "file_segments v \<noteq> []"
  shows "split_on (CHR ''/'') (join_with ''/'' (file_segments v) @ trailing_slash v)
           = file_segments v @ (if trailing_slash v = [] then [] else [[]])"
  using assms file_segments_plain [of _ v] split_on_append_sep [of "CHR ''/''" "join_with ''/'' (file_segments v)" "[]"]
  by (auto simp: trailing_slash_def split_join)

lemma dotdot_segment:
  "startsWith p ''../'' \<or> includesSub p ''/../'' \<or> p = ''..'' \<Longrightarrow> ''..'' \<in> set (split_on (CHR ''/'') p)"
  by (auto simp: startsWith_iff includesSub_iff split_on_append_sep
      split_on_append_sep [where u = "[]", simplified])

lemma posix_normalize_relative:
  assumes "replaceChar (CHR 0x5C) (CHR ''/'') v = r" and "r \<noteq> []" and "hd r \<noteq> CHR ''/''" and "''..'' \<notin> set (split_on (CHR ''/'') r)"
  shows "posix_normalize r = (if file_segments v = [] then (if trailing_slash v = [] then ''.'' else ''./'')
           else join_with ''/'' (file_segments v) @ trailing_slash v)"
proof -
  have "v \<noteq> []" using assms(1,2) by auto
  moreover have "posix_resolve True [] (split_on (CHR ''/'') r) = file_segments v"
    using assms by (simp add: posix_resolve_no_dotdot file_segments_def)
  moreover have "join_with ''/'' (file_segments v) = [] \<longleftrightarrow> file_segments v = []"
    using file_segments_plain [of _ v] by (intro join_with_Nil_iff) auto
  ultimately show ?thesis
    using assms by (simp add: posix_normalize_def Let_def trailing_slash_def)
qed

lemma last_join:
  assumes "ws \<noteq> []" and "\<forall>w\<in>set ws. w \<noteq> []"
  shows "join_with sep ws \<noteq> [] \<and> last (join_with sep ws) = last (last ws)"
  using assms by (induction sep ws rule: join_with.induct) auto

lemma last_join_plain:
  assumes "ws \<noteq> []" and "\<forall>w\<in>set ws. w \<noteq> [] \<and> d \<notin> set w"
  shows "join_with sep ws \<noteq> [] \<and> last (join_with sep ws) \<noteq> d"
proof -
  have "last ws \<noteq> [] \<and> d \<notin> set (last ws)"
    using assms(2) last_in_set [OF assms(1)] by blast
  then have "last (last ws) \<noteq> d"
    using last_in_set [of "last ws"] by metis
  with last_join [of ws sep] assms show ?thesis by simp
qed

lemma file_path_head:
  assumes "file_segments v \<noteq> []"
  shows "\<not> startsWith (join_with ''/'' (file_segments v) @ trailing_slash v) ''./''
    \<and> \<not> startsWith (join_with ''/'' (file_segments v) @ trailing_slash v) ''/''
    \<and> join_with ''/'' (file_segments v) @ trailing_slash v \<noteq> ''.''"
proof -
  let ?p = "join_with ''/'' (file_segments v) @ trailing_slash v"
  have "hd (split_on (CHR ''/'') ?p) = hd (file_segments v)"
    using assms by (simp add: split_file_path)
  moreover have "hd (file_segments v) \<noteq> [] \<and> hd (file_segments v) \<noteq> ''.''"
    using assms file_segments_plain [of "hd (file_segments v)" v] by simp
  ultimately show ?thesis
    by (auto simp: startsWith_iff)
qed

lemma normalizedFilePath_Inr:
  "normalizedFilePath v = Inr q \<longleftrightarrow>
     hd (replaceChar (CHR 0x5C) (CHR ''/'') v) \<noteq> CHR ''/''
     \<and> ''..'' \<notin> set (split_on (CHR ''/'') (replaceChar (CHR 0x5C) (CHR ''/'') v))
     \<and> file_segments v \<noteq> []
     \<and> q = join_with ''/'' (file_segments v) @ trailing_slash v \<and> CHR 0x00 \<notin> set q"
  (is "_ \<longleftrightarrow> ?hd \<and> ?dots \<and> ?segs \<and> q = ?p \<and> _")
proof (cases "v \<noteq> [] \<and> ?hd \<and> ?dots")
  case True
  define r where "r = replaceChar (CHR 0x5C) (CHR ''/'') v"
  have norm: "posix_normalize r = (if file_segments v = [] then (if trailing_slash v = [] then ''.'' else ''./'') else ?p)"
    using True by (intro posix_normalize_relative) (auto simp: r_def)
  show ?thesis
  proof (cases "file_segments v = []")
    case True
    then show ?thesis
      by (auto simp: normalizedFilePath_def Let_def norm [unfolded r_def] startsWith_def)
  next
    case False
    have "''..'' \<notin> set (file_segments v)"
      using True by (auto simp: file_segments_def)
    then have "''..'' \<notin> set (split_on (CHR ''/'') ?p)"
      using False by (auto simp: split_file_path)
    then have "\<not> (startsWith ?p ''../'' \<or> includesSub ?p ''/../'' \<or> ?p = ''..'')"
      using dotdot_segment by blast
    moreover have "?p \<noteq> []"
      using False last_join [of "file_segments v" "''/''"] file_segments_plain [of _ v] by auto
    ultimately show ?thesis
      using True False file_path_head [OF False] norm
      by (auto simp: normalizedFilePath_def Let_def r_def)
  qed
next
  case False
  then consider "v = []" | "v \<noteq> []" "\<not> ?hd" | "\<not> ?dots" by blast
  then show ?thesis
  proof cases
    case 2
    then have "startsWith (posix_normalize (replaceChar (CHR 0x5C) (CHR ''/'') v)) ''/''"
      by (auto simp: posix_normalize_def Let_def startsWith_def)
    then have "normalizedFilePath v \<noteq> Inr q"
      by (auto simp: normalizedFilePath_def Let_def startsWith_iff)
    with 2 show ?thesis by blast
  qed (auto simp: normalizedFilePath_def Let_def file_segments_def)
qed

section \<open>Properties\<close>

text \<open>
  An accepted source file path is relative and free of traversal: it has no backslash and no NUL,
  does not start with a slash, and none of its segments is a dot or a dot-dot; only the last one may be
  empty (a trailing slash). Normalising an accepted path again returns it unchanged.
\<close>

theorem normalizedFilePath_safe:
  assumes "normalizedFilePath v = Inr q"
  shows "CHR 0x5C \<notin> set q \<and> CHR 0x00 \<notin> set q \<and> \<not> startsWith q ''/''
     \<and> (\<forall>w\<in>set (butlast (split_on (CHR ''/'') q)). w \<noteq> [])
     \<and> (\<forall>w\<in>set (split_on (CHR ''/'') q). w \<noteq> ''.'' \<and> w \<noteq> ''..'')
     \<and> normalizedFilePath q = Inr q"
proof -
  define r where "r = replaceChar (CHR 0x5C) (CHR ''/'') v"
  have segs: "file_segments v \<noteq> []" and q: "q = join_with ''/'' (file_segments v) @ trailing_slash v"
    and dots: "''..'' \<notin> set (file_segments v)" and nul: "CHR 0x00 \<notin> set q"
    using assms by (auto simp: normalizedFilePath_Inr) (auto simp: file_segments_def)
  have qsegs: "split_on (CHR ''/'') q = file_segments v @ (if trailing_slash v = [] then [] else [[]])"
    unfolding q by (rule split_file_path [OF segs])
  have plain: "w \<noteq> [] \<and> w \<noteq> ''.'' \<and> CHR ''/'' \<notin> set w" if "w \<in> set (file_segments v)" for w
    using that by (rule file_segments_plain)
  have "set q \<subseteq> insert (CHR ''/'') (set r)"
  proof -
    have "(\<Union>w\<in>set (split_on (CHR ''/'') s). set w) \<subseteq> set s" for s
    proof (induction s)
      case (Cons c s)
      then show ?case by (cases "split_on (CHR ''/'') s") auto
    qed simp
    then have "(\<Union>w\<in>set (file_segments v). set w) \<subseteq> set r"
      by (auto simp: file_segments_def r_def)
    with set_join_with [of "CHR ''/''" "file_segments v"] show ?thesis
      by (auto simp: q trailing_slash_def)
  qed
  then have noback: "CHR 0x5C \<notin> set q" by (auto simp: r_def)
  then have same: "replaceChar (CHR 0x5C) (CHR ''/'') q = q" by (rule replaceChar_id)
  have "file_segments q = file_segments v"
    using plain by (auto simp: file_segments_def [of q] same qsegs filter_id_conv)
  moreover have "trailing_slash q = trailing_slash v"
    using last_join_plain [OF segs, of "CHR ''/''" "''/''"] plain
    unfolding trailing_slash_def [of q] same by (auto simp: q) (auto simp: trailing_slash_def split: if_splits)
  moreover have "hd q \<noteq> CHR ''/''"
    using file_path_head [OF segs] last_join [OF segs, of "''/''"] plain
    by (cases q) (auto simp: q startsWith_iff)
  ultimately have "normalizedFilePath q = Inr q"
    using segs dots nul same by (simp add: normalizedFilePath_Inr q [symmetric] qsegs)
  moreover have "set (butlast (split_on (CHR ''/'') q)) \<subseteq> set (file_segments v)"
    using qsegs by (auto dest: in_set_butlastD)
  moreover have "set (split_on (CHR ''/'') q) \<subseteq> insert [] (set (file_segments v))"
    using qsegs by auto
  moreover have "\<not> startsWith q ''/''"
    using file_path_head [OF segs] by (simp add: q)
  ultimately show ?thesis
    using noback nul dots plain by blast
qed

lemma join_append:
  "xs \<noteq> [] \<Longrightarrow> ys \<noteq> [] \<Longrightarrow> join_with sep (xs @ ys) = join_with sep xs @ sep @ join_with sep ys"
proof (induction sep xs rule: join_with.induct)
  case (2 sep w)
  then show ?case by (cases ys) auto
qed auto

lemma posix_normalize_proper:
  assumes "ws \<noteq> []" and "\<forall>w\<in>set ws. w \<noteq> [] \<and> w \<noteq> ''.'' \<and> w \<noteq> ''..'' \<and> CHR ''/'' \<notin> set w"
    and "tr = [] \<or> tr = ''/''"
  shows "posix_normalize (join_with ''/'' ws @ tr) = join_with ''/'' ws @ tr"
proof -
  let ?p = "join_with ''/'' ws @ tr"
  have segs: "split_on (CHR ''/'') ?p = ws @ (if tr = [] then [] else [[]])"
    using assms split_on_append_sep [of "CHR ''/''" "join_with ''/'' ws" "[]"] by (auto simp: split_join)
  moreover have "filter (\<lambda>w. w \<noteq> [] \<and> w \<noteq> ''.'') ws = ws" and "''..'' \<notin> set ws"
    using assms(2) by (simp add: filter_id_conv, blast)
  ultimately have resolve: "posix_resolve up [] (split_on (CHR ''/'') ?p) = ws" for up
    by (simp add: posix_resolve_no_dotdot)
  have body: "join_with ''/'' ws \<noteq> []" and last: "last (join_with ''/'' ws) \<noteq> CHR ''/''"
    using last_join_plain [of ws "CHR ''/''" "''/''"] assms(1,2) by auto
  have "hd (split_on (CHR ''/'') ?p) \<noteq> []"
    using segs assms(1,2) by simp
  then have "hd ?p \<noteq> CHR ''/''"
    using body by (cases ?p) auto
  with assms(3) body last resolve show ?thesis
    by (auto simp: posix_normalize_def Let_def)
qed

lemma relative_destination_below:
  assumes "safe_mount_path mp" and "normalizedFilePath v = Inr q"
  shows "\<exists>rest. rest \<noteq> [] \<and> relative_destination mp q = mp @ ''/'' @ rest"
proof -
  have segs: "file_segments v \<noteq> []" and q: "q = join_with ''/'' (file_segments v) @ trailing_slash v"
    and dots: "''..'' \<notin> set (file_segments v)"
    using assms(2) by (auto simp: normalizedFilePath_Inr) (auto simp: file_segments_def)
  let ?ms = "split_on (CHR ''/'') mp"
  have "w \<noteq> [] \<and> w \<noteq> ''.'' \<and> w \<noteq> ''..'' \<and> CHR ''/'' \<notin> set w" if "w \<in> set (?ms @ file_segments v)" for w
    using that assms(1) dots by (auto simp: safe_mount_path_def invalid_segment_def dest: split_on_no_sep file_segments_plain)
  moreover have "trailing_slash v = [] \<or> trailing_slash v = ''/''" by (simp add: trailing_slash_def)
  moreover have "join_with ''/'' (?ms @ file_segments v) = mp @ ''/'' @ join_with ''/'' (file_segments v)"
    using segs by (simp add: join_append)
  ultimately have norm: "posix_normalize (mp @ ''/'' @ q) = mp @ ''/'' @ q"
    using posix_normalize_proper [of "?ms @ file_segments v" "trailing_slash v"] segs by (simp add: q)
  have body: "join_with ''/'' (file_segments v) \<noteq> []" "last (join_with ''/'' (file_segments v)) \<noteq> CHR ''/''"
    using last_join_plain [OF segs, of "CHR ''/''" "''/''"] file_segments_plain [of _ v] by auto
  show ?thesis
  proof (cases "trailing_slash v = ''/''")
    case True
    with norm body show ?thesis
      by (auto simp: relative_destination_def strip_trailing_slash_def q butlast_append)
  next
    case False
    then have "trailing_slash v = []" by (auto simp: trailing_slash_def split: if_splits)
    with norm body show ?thesis
      by (auto simp: relative_destination_def strip_trailing_slash_def q butlast_append)
  qed
qed

text \<open>Every path of a tree lies below the mount path of one of the mounts.\<close>

definition below_mounts :: "WorkspaceMount list \<Rightarrow> (string, string) jsmap \<Rightarrow> bool" where
  "below_mounts mounts tree \<longleftrightarrow> (\<forall>path\<in>set (map_keys tree). \<exists>mount\<in>set mounts. \<exists>rest.
     rest \<noteq> [] \<and> path = wm_mountPath mount @ ''/'' @ rest)"

lemma write_file_below:
  assumes "write_file mount file tree = Inr tree'" and "below_mounts mounts tree"
    and "mount \<in> set mounts" and "safe_mount_path (wm_mountPath mount)"
  shows "below_mounts mounts tree'"
proof -
  from assms(1) obtain q where q: "normalizedFilePath (fst file) = Inr q"
    and tree': "tree' = set_key (relative_destination (wm_mountPath mount) q) (snd file) tree"
    by (auto simp: write_file_def Let_def split: sum.splits if_splits)
  from relative_destination_below [OF assms(4) q] assms(2,3) show ?thesis
    unfolding tree' below_mounts_def map_keys_set_key by auto
qed

lemma write_tree_below:
  assumes "fold_loop (\<lambda>mount. fold_loop (write_file mount) (files mount)) mounts [] = Inr tree"
    and "\<forall>mount\<in>set mounts. safe_mount_path (wm_mountPath mount)"
  shows "below_mounts mounts tree"
proof (rule fold_loop_invariant [OF _ _ assms(1)])
  show "below_mounts mounts []" by (simp add: below_mounts_def map_keys_def)
next
  fix mount tree tree'
  assume "mount \<in> set mounts" and below: "below_mounts mounts tree"
    and files: "fold_loop (write_file mount) (files mount) tree = Inr tree'"
  show "below_mounts mounts tree'"
    by (rule fold_loop_invariant [where P = "below_mounts mounts", OF _ below files])
      (use \<open>mount \<in> set mounts\<close> assms(2) write_file_below in blast)
qed

lemma materialize_InrD:
  assumes "materializeWorkspace nfkc lower uuid project input fs = (Inr w, fs')"
  obtains cs tree where
    "view_projectId (mw_view input) = proj_id project"
    "validateWorkspaceMounts nfkc lower (JArray (map JString (view_visibleSourceSpaceIds (mw_view input))))
       (JArray (map mount_json (mw_mounts input))) = Inr cs"
    "\<forall>c\<in>set cs. mount_source_error (mw_view input)
       (from_entries (map (\<lambda>source. (src_sourceSpaceId source, source)) (mw_sources input))) c = None"
    "w = \<lparr>ws_id = nullish (mw_id input) (opaqueId ''workspace'' uuid), ws_projectId = proj_id project,
       ws_projectRevisionId = view_projectRevisionId (mw_view input), ws_projectViewId = view_id (mw_view input),
       ws_mounts = map (workspace_mount (from_entries (map (\<lambda>source. (src_sourceSpaceId source, source)) (mw_sources input)))) cs,
       ws_state = WsActive, ws_changeId = None, ws_pullRequestId = None, ws_actorId = keep_truthy (mw_actorId input)\<rparr>"
    "fold_loop (\<lambda>mount. fold_loop (write_file mount) (mount_files
       (from_entries (map (\<lambda>source. (src_sourceSpaceId source, source)) (mw_sources input))) mount)) (ws_mounts w) [] = Inr tree"
    "\<not> has_key fs (mw_directory input)" "fs' = set_key (mw_directory input) tree fs"
  using assms unfolding materializeWorkspace_def Let_def
  by (auto simp: check_loop_None split: if_splits sum.splits option.splits)

lemma materialize_InlD:
  "materializeWorkspace nfkc lower uuid project input fs = (Inl e, fs') \<Longrightarrow> fs' = fs"
  unfolding materializeWorkspace_def Let_def
  by (auto split: if_splits sum.splits option.splits)


text \<open>
  A mount path such as \<open>..assets\<close> passes the validation, since no segment of it is a dot-dot, but
  the check for files that escape the Workspace only looks at the first two characters of the
  destination, so the first file of that mount is refused as an escape.
\<close>

theorem dotted_mount_refused_as_escape:
  assumes "normalizedFilePath path = Inr q" and "safe_mount_path (''..'' @ suffix)"
  shows "write_file \<lparr>wm_sourceSpaceId = sid, wm_snapshotId = snap, wm_mountPath = ''..'' @ suffix\<rparr> (path, content) tree
           = Inl (failure CcWorkspaceFileInvalid sid)"
proof -
  from relative_destination_below [OF assms(2,1)] obtain rest where
    "relative_destination (''..'' @ suffix) q = (''..'' @ suffix) @ ''/'' @ rest" by blast
  then have "startsWith (relative_destination (''..'' @ suffix) q) ''..''"
    by (simp add: startsWith_iff)
  with assms(1) show ?thesis by (simp add: write_file_def Let_def)
qed

section \<open>Witnesses\<close>

theorem normalizedFilePath_safe_witness:
  "normalizedFilePath (''src'' @ [CHR 0x5C] @ ''.//main.ts'') = Inr ''src/main.ts''
     \<and> normalizedFilePath ''src/main.ts'' = Inr ''src/main.ts''"
proof -
  have ok: "normalizedFilePath (''src'' @ [CHR 0x5C] @ ''.//main.ts'') = Inr ''src/main.ts''" by code_simp
  then show ?thesis using normalizedFilePath_safe [OF ok] by blast
qed

theorem dotted_mount_refused_as_escape_witness:
  "safe_mount_path ''..assets''
     \<and> write_file \<lparr>wm_sourceSpaceId = ''s'', wm_snapshotId = ''1'', wm_mountPath = ''..assets''\<rparr> (''logo.svg'', ''<svg/>'') []
         = Inl (failure CcWorkspaceFileInvalid ''s'')"
proof -
  have path: "normalizedFilePath ''logo.svg'' = Inr ''logo.svg''" by code_simp
  have mount: "safe_mount_path (''..'' @ ''assets'')" by code_simp
  show ?thesis
    using mount dotted_mount_refused_as_escape [OF path mount, where sid = "''s''" and snap = "''1''" and tree = "[]"]
    by simp
qed

end
