(* ===== verification/Change_Control.thy ===== *)
theory Change_Control
  imports Workspace_Files
begin

text \<open>
  The class \<open>LocalChangeCoordinator\<close> of \<open>src/src/change-control/local.ts\<close>: the canonical Project
  Revision, the Workspaces, Changes, immutable Change Revisions and Conflicts of one project, and the
  operations on them up to the atomic Landing of an Integration Cohort. The object's private maps are
  the fields of a record; the file system the Workspaces are materialised into is one more field.
  Defensive copies are the identity, since values of the model are immutable.

  \<open>rebaseChange\<close> awaits the materialisation of its new Workspace, so other operations may run in the
  middle of it: it is modelled as a first part (\<open>rebase_begin\<close>), the awaited \<open>createWorkspace\<close>, and a
  second part (\<open>rebase_finish\<close>) that uses what the first part read; \<open>rebaseChange\<close> runs the three
  without interruption.
\<close>

section \<open>State and inputs\<close>

record Coordinator =
  cc_project :: Project
  cc_sourceSpaces :: "SourceSpace list"
  cc_canonical :: ProjectRevision
  cc_projectRevisions :: "(string, ProjectRevision) jsmap"
  cc_workspaces :: "(string, Workspace) jsmap"
  cc_changes :: "(string, Change) jsmap"
  cc_revisions :: "(string, ChangeRevision) jsmap"
  cc_conflicts :: "(string, Conflict) jsmap"
  cc_fs :: filesystem

type_synonym 'a cc_outcome = "(Coordinator, ChangeControlError, 'a) outcome"

record CreateChangeInput =
  cci_intentId :: string
  cci_workspaceId :: string
  cci_id :: "string option"
  cci_author :: "ActorRef option"
  cci_origin :: "ChangeOrigin option"

record RegisterConflictInput =
  rci_changeId :: string
  rci_workspaceId :: string
  rci_kind :: ConflictKind
  rci_sourceSpaceIds :: "string list"
  rci_paths :: "string list"
  rci_description :: string
  rci_id :: "string option"

record PublishRevisionInput =
  pri_changeId :: string
  pri_workspaceId :: "string option"
  pri_declaredEffects :: "string list"
  pri_sourceSpaceSnapshots :: "(string, string) jsmap option"
  pri_conflictIds :: "string list option"
  pri_kind :: "ChangeRevisionKind option"
  pri_actor :: "ActorRef option"
  pri_affectedModuleIds :: "string list option"
  pri_affectedTargetIds :: "string list option"

record RebaseChangeInput =
  rbi_changeId :: string
  rbi_view :: ProjectView
  rbi_sources :: "WorkspaceSource list"
  rbi_mounts :: "WorkspaceMountInput list"
  rbi_directory :: string
  rbi_actorId :: "string option"
  rbi_declaredEffects :: "string list"

record RevertChangeInput =
  rvi_landedChangeRevisionId :: string
  rvi_intentId :: string
  rvi_workspaceId :: "string option"
  rvi_id :: "string option"

record CohortMember =
  cm_changeId :: string
  cm_changeRevisionId :: string

record LandCohortInput =
  lci_cohortId :: "string option"
  lci_members :: "CohortMember list"
  lci_expectedCanonicalProjectRevisionId :: string

section \<open>Construction and queries\<close>

definition new_coordinator :: "Project \<Rightarrow> SourceSpace list \<Rightarrow> ProjectRevision \<Rightarrow> filesystem \<Rightarrow> ChangeControlError + Coordinator" where
  "new_coordinator project sourceSpaces canonicalRevision fs =
     (if prev_projectId canonicalRevision \<noteq> proj_id project
      then Inl (failure CcProjectMismatch (prev_id canonicalRevision))
      else Inr \<lparr>cc_project = project, cc_sourceSpaces = sourceSpaces, cc_canonical = canonicalRevision,
        cc_projectRevisions = [(prev_id canonicalRevision, canonicalRevision)],
        cc_workspaces = [], cc_changes = [], cc_revisions = [], cc_conflicts = [], cc_fs = fs\<rparr>)"

definition getWorkspace :: "Coordinator \<Rightarrow> string \<Rightarrow> Workspace option" where
  "getWorkspace s workspaceId = get_key (cc_workspaces s) workspaceId"

definition getChange :: "Coordinator \<Rightarrow> string \<Rightarrow> Change option" where
  "getChange s changeId = get_key (cc_changes s) changeId"

definition getRevision :: "Coordinator \<Rightarrow> string \<Rightarrow> ChangeRevision option" where
  "getRevision s revisionId = get_key (cc_revisions s) revisionId"

definition listConflicts :: "Coordinator \<Rightarrow> string \<Rightarrow> Conflict list" where
  "listConflicts s changeId = filter (\<lambda>conflict. conf_changeId conflict = changeId) (map_values (cc_conflicts s))"

definition requireWorkspace :: "Coordinator \<Rightarrow> string option \<Rightarrow> ChangeControlError + Workspace" where
  "requireWorkspace s workspaceId =
     (case workspaceId of
        None \<Rightarrow> Inl (failure CcWorkspaceNotFound ''change'')
      | Some i \<Rightarrow>
          if i = [] then Inl (failure CcWorkspaceNotFound ''change'')
          else case get_key (cc_workspaces s) i of
            None \<Rightarrow> Inl (failure CcWorkspaceNotFound i)
          | Some workspace \<Rightarrow> Inr workspace)"

definition requireChange :: "Coordinator \<Rightarrow> string \<Rightarrow> ChangeControlError + Change" where
  "requireChange s changeId =
     (case get_key (cc_changes s) changeId of
        None \<Rightarrow> Inl (failure CcChangeNotFound changeId)
      | Some change \<Rightarrow> Inr change)"

section \<open>Workspaces and changes\<close>

definition createWorkspace :: "(string \<Rightarrow> string) \<Rightarrow> (string \<Rightarrow> string) \<Rightarrow> string \<Rightarrow> MaterializeWorkspaceInput
    \<Rightarrow> Coordinator \<Rightarrow> Workspace cc_outcome" where
  "createWorkspace nfkc lower uuid input s =
     (let view = mw_view input
      in case get_key (cc_projectRevisions s) (view_projectRevisionId view) of
        None \<Rightarrow> raise (failure CcUnknownProjectRevision (view_id view)) s
      | Some projectRevision \<Rightarrow>
          if prev_projectId projectRevision \<noteq> proj_id (cc_project s)
          then raise (failure CcProjectMismatch (view_id view)) s
          else if \<not> list_all (\<lambda>sourceSpaceId. get_key (prev_sourceSpaceSnapshots projectRevision) sourceSpaceId
                     = get_key (view_disclosedSourceSpaceSnapshots view) sourceSpaceId) (view_visibleSourceSpaceIds view)
          then raise (failure CcWorkspaceSourceMismatch (view_id view)) s
          else case materializeWorkspace nfkc lower uuid (cc_project s) input (cc_fs s) of
            (Inl e, fs) \<Rightarrow> raise e (s\<lparr>cc_fs := fs\<rparr>)
          | (Inr workspace, fs) \<Rightarrow>
              return workspace (s\<lparr>cc_workspaces := set_key (ws_id workspace) workspace (cc_workspaces s), cc_fs := fs\<rparr>))"

definition createChange :: "string \<Rightarrow> CreateChangeInput \<Rightarrow> Coordinator \<Rightarrow> Change cc_outcome" where
  "createChange uuid input s =
     (case get_key (cc_workspaces s) (cci_workspaceId input) of
        None \<Rightarrow> raise (failure CcWorkspaceNotFound (cci_workspaceId input)) s
      | Some workspace \<Rightarrow>
          if ws_state workspace \<noteq> WsActive then raise (failure CcWorkspaceState (ws_id workspace)) s
          else if truthy (ws_changeId workspace) then raise (failure CcChangeWorkspaceMismatch (ws_id workspace)) s
          else (let change = \<lparr>ch_id = nullish (cci_id input) (opaqueId ''change'' uuid),
                      ch_projectId = proj_id (cc_project s),
                      ch_intentId = cci_intentId input,
                      ch_baseProjectRevisionId = ws_projectRevisionId workspace,
                      ch_status = ChActive,
                      ch_latestRevisionId = None,
                      ch_workspaceId = Some (ws_id workspace),
                      ch_revertsChangeRevisionId = None,
                      ch_author = cci_author input,
                      ch_origin = cci_origin input\<rparr>
                in return change (s\<lparr>cc_changes := set_key (ch_id change) change (cc_changes s),
                     cc_workspaces := set_key (ws_id workspace) (workspace\<lparr>ws_changeId := Some (ch_id change)\<rparr>) (cc_workspaces s)\<rparr>)))"

definition handoffChange :: "string \<Rightarrow> string \<Rightarrow> Coordinator \<Rightarrow> Workspace cc_outcome" where
  "handoffChange changeId actorId s =
     (case requireChange s changeId of
        Inl e \<Rightarrow> raise e s
      | Inr change \<Rightarrow>
          (case requireWorkspace s (ch_workspaceId change) of
             Inl e \<Rightarrow> raise e s
           | Inr workspace \<Rightarrow>
               (let updated = workspace\<lparr>ws_actorId := Some actorId\<rparr>
                in return updated (s\<lparr>cc_workspaces := set_key (ws_id updated) updated (cc_workspaces s)\<rparr>))))"

section \<open>Conflicts\<close>

definition conflict_space_error :: "Coordinator \<Rightarrow> Change \<Rightarrow> Workspace \<Rightarrow> string \<Rightarrow> ChangeControlError option" where
  "conflict_space_error s change workspace sourceSpaceId =
     or_else (fail_if (sourceSpaceId \<notin> set (proj_sourceSpaceIds (cc_project s)))
                (failure CcWorkspaceSourceNotAuthorized (ch_id change)))
       (fail_if (\<not> list_ex (\<lambda>mount. wm_sourceSpaceId mount = sourceSpaceId) (ws_mounts workspace))
          (failure CcWorkspaceSourceNotAuthorized (ch_id change)))"

definition registerConflict :: "string \<Rightarrow> RegisterConflictInput \<Rightarrow> Coordinator \<Rightarrow> Conflict cc_outcome" where
  "registerConflict uuid input s =
     (case requireChange s (rci_changeId input) of
        Inl e \<Rightarrow> raise e s
      | Inr change \<Rightarrow>
          (case requireWorkspace s (Some (rci_workspaceId input)) of
             Inl e \<Rightarrow> raise e s
           | Inr workspace \<Rightarrow>
               if ch_workspaceId change \<noteq> Some (ws_id workspace)
               then raise (failure CcChangeWorkspaceMismatch (ch_id change)) s
               else case check_loop (conflict_space_error s change workspace) (rci_sourceSpaceIds input) of
                 Some e \<Rightarrow> raise e s
               | None \<Rightarrow>
                   (case fold_loop (\<lambda>path acc. case normalizedFilePath path of Inl e \<Rightarrow> Inl e | Inr p \<Rightarrow> Inr (acc @ [p]))
                           (rci_paths input) [] of
                      Inl e \<Rightarrow> raise e s
                    | Inr paths \<Rightarrow>
                        (let conflict = \<lparr>conf_id = nullish (rci_id input) (opaqueId ''conflict'' uuid),
                               conf_projectId = proj_id (cc_project s),
                               conf_changeId = ch_id change,
                               conf_workspaceId = ws_id workspace,
                               conf_kind = rci_kind input,
                               conf_sourceSpaceIds = rci_sourceSpaceIds input,
                               conf_paths = paths,
                               conf_description = rci_description input,
                               conf_state = ConfOpen,
                               conf_resolutionRevisionId = None\<rparr>
                         in return conflict (s\<lparr>
                              cc_conflicts := set_key (conf_id conflict) conflict (cc_conflicts s),
                              cc_workspaces := set_key (ws_id workspace) (workspace\<lparr>ws_state := WsBlocked\<rparr>) (cc_workspaces s)\<rparr>)))))"

definition resolveConflict :: "string \<Rightarrow> Coordinator \<Rightarrow> Conflict cc_outcome" where
  "resolveConflict conflictId s =
     (case get_key (cc_conflicts s) conflictId of
        None \<Rightarrow> raise (failure CcConflictNotFound conflictId) s
      | Some conflict \<Rightarrow>
          (let updated = conflict\<lparr>conf_state := ConfResolved\<rparr>;
               conflicts = set_key (conf_id updated) updated (cc_conflicts s);
               workspaces = (case get_key (cc_workspaces s) (conf_workspaceId updated) of
                   None \<Rightarrow> cc_workspaces s
                 | Some workspace \<Rightarrow>
                     (let hasOpenConflict = list_ex (\<lambda>candidate. conf_workspaceId candidate = ws_id workspace
                            \<and> conf_state candidate = ConfOpen) (map_values conflicts)
                      in set_key (ws_id workspace)
                           (workspace\<lparr>ws_state := (if hasOpenConflict then WsBlocked else WsActive)\<rparr>) (cc_workspaces s)))
           in return updated (s\<lparr>cc_conflicts := conflicts, cc_workspaces := workspaces\<rparr>)))"

section \<open>Publishing revisions\<close>

definition relevant_conflicts :: "Coordinator \<Rightarrow> Change \<Rightarrow> Workspace \<Rightarrow> Conflict list" where
  "relevant_conflicts s change workspace =
     filter (\<lambda>conflict. conf_changeId conflict = ch_id change \<and> conf_workspaceId conflict = ws_id workspace)
       (map_values (cc_conflicts s))"

definition named_conflict_error :: "Coordinator \<Rightarrow> Change \<Rightarrow> Workspace \<Rightarrow> string \<Rightarrow> ChangeControlError option" where
  "named_conflict_error s change workspace conflictId =
     (case get_key (cc_conflicts s) conflictId of
        None \<Rightarrow> Some (failure CcConflictNotFound (ch_id change))
      | Some conflict \<Rightarrow>
          fail_if (conf_changeId conflict \<noteq> ch_id change \<or> conf_workspaceId conflict \<noteq> ws_id workspace)
            (failure CcConflictChangeMismatch (ch_id change)))"

text \<open>The checks of \<open>publishRevision\<close> once the change and the workspace are known, in the order of the code.\<close>

definition publish_error :: "PublishRevisionInput \<Rightarrow> Coordinator \<Rightarrow> Change \<Rightarrow> Workspace \<Rightarrow> ChangeControlError option" where
  "publish_error input s change workspace =
     (let openConflicts = filter (\<lambda>conflict. conf_state conflict = ConfOpen) (relevant_conflicts s change workspace);
          mountedSourceSpaceIds = map wm_sourceSpaceId (ws_mounts workspace)
      in or_else (fail_if (ch_workspaceId change \<noteq> Some (ws_id workspace)) (failure CcChangeWorkspaceMismatch (ch_id change)))
        (or_else (fail_if (ws_state workspace = WsClosed) (failure CcWorkspaceState (ws_id workspace)))
        (or_else (check_loop (named_conflict_error s change workspace) (nullish (pri_conflictIds input) []))
        (or_else (fail_if (length openConflicts > 0)
            \<lparr>cce_code = CcConflictOpen, cce_affectedObject = ch_id change, cce_conflictingIds = map conf_id openConflicts\<rparr>)
        (case pri_sourceSpaceSnapshots input of
           None \<Rightarrow> None
         | Some requestedSnapshots \<Rightarrow>
             fail_if (sort (map_keys requestedSnapshots) \<noteq> sort mountedSourceSpaceIds
                       \<or> list_ex blank (map_values requestedSnapshots))
               (failure CcWorkspaceSourceNotAuthorized (ch_id change)))))))"

definition prior_revision :: "Coordinator \<Rightarrow> Change \<Rightarrow> ChangeRevision option" where
  "prior_revision s change =
     (if truthy (ch_latestRevisionId change) then get_key (cc_revisions s) (the (ch_latestRevisionId change)) else None)"

definition revision_snapshots :: "PublishRevisionInput \<Rightarrow> Workspace \<Rightarrow> (string, string) jsmap" where
  "revision_snapshots input workspace =
     from_entries (map (\<lambda>mount. (wm_sourceSpaceId mount,
       nullish (Option.bind (pri_sourceSpaceSnapshots input) (\<lambda>m. get_key m (wm_sourceSpaceId mount))) (wm_snapshotId mount)))
       (ws_mounts workspace))"

definition new_revision :: "string \<Rightarrow> PublishRevisionInput \<Rightarrow> Coordinator \<Rightarrow> Change \<Rightarrow> Workspace \<Rightarrow> ChangeRevision" where
  "new_revision uuid input s change workspace = \<lparr>
     rev_id = opaqueId ''change-revision'' uuid,
     rev_changeId = ch_id change,
     rev_projectRevisionId = ws_projectRevisionId workspace,
     rev_projectViewId = ws_projectViewId workspace,
     rev_sequence = nullish (map_option rev_sequence (prior_revision s change)) 0 + 1,
     rev_parentRevisionId = map_option rev_id (prior_revision s change),
     rev_declaredEffects = pri_declaredEffects input,
     rev_baseProjectRevisionId = Some (ws_projectRevisionId workspace),
     rev_workspaceId = Some (ws_id workspace),
     rev_sourceSpaceSnapshots = Some (revision_snapshots input workspace),
     rev_affectedSourceSpaceIds = Some (map wm_sourceSpaceId (ws_mounts workspace)),
     rev_affectedModuleIds = pri_affectedModuleIds input,
     rev_affectedTargetIds = pri_affectedTargetIds input,
     rev_author = (case pri_actor input of Some actor \<Rightarrow> Some actor | None \<Rightarrow> ch_author change),
     rev_conflictIds = Some (nullish (pri_conflictIds input) (map conf_id (relevant_conflicts s change workspace))),
     rev_kind = Some (nullish (pri_kind input) KindImplementation)\<rparr>"

text \<open>The writes of \<open>publishRevision\<close>.\<close>

definition publish_commit :: "ChangeRevision \<Rightarrow> Change \<Rightarrow> Workspace \<Rightarrow> Coordinator \<Rightarrow> Coordinator" where
  "publish_commit revision change workspace s = s\<lparr>
     cc_revisions := set_key (rev_id revision) revision (cc_revisions s),
     cc_changes := set_key (ch_id change) (change\<lparr>ch_latestRevisionId := Some (rev_id revision), ch_status := ChSubmitted,
       ch_workspaceId := Some (ws_id workspace)\<rparr>) (cc_changes s),
     cc_conflicts := foldl (\<lambda>m conflict. if conf_state conflict = ConfResolved
         then set_key (conf_id conflict) (conflict\<lparr>conf_resolutionRevisionId := Some (rev_id revision)\<rparr>) m else m)
       (cc_conflicts s) (relevant_conflicts s change workspace)\<rparr>"

definition publishRevision :: "string \<Rightarrow> PublishRevisionInput \<Rightarrow> Coordinator \<Rightarrow> ChangeRevision cc_outcome" where
  "publishRevision uuid input s =
     (case requireChange s (pri_changeId input) of
        Inl e \<Rightarrow> raise e s
      | Inr change \<Rightarrow>
          (let workspaceId = (case pri_workspaceId input of Some i \<Rightarrow> Some i | None \<Rightarrow> ch_workspaceId change)
           in if \<not> truthy workspaceId then raise (failure CcWorkspaceNotFound (ch_id change)) s
              else case requireWorkspace s workspaceId of
                Inl e \<Rightarrow> raise e s
              | Inr workspace \<Rightarrow>
                  (case publish_error input s change workspace of
                     Some e \<Rightarrow> raise e s
                   | None \<Rightarrow>
                       (let revision = new_revision uuid input s change workspace
                        in return revision (publish_commit revision change workspace s)))))"

section \<open>Rebase and revert\<close>

text \<open>What \<open>rebaseChange\<close> reads before it awaits the new Workspace.\<close>

definition rebase_begin :: "string \<Rightarrow> Coordinator \<Rightarrow> ChangeControlError + Change \<times> Workspace option" where
  "rebase_begin changeId s =
     (case requireChange s changeId of
        Inl e \<Rightarrow> Inl e
      | Inr change \<Rightarrow>
          if truthy (ch_workspaceId change)
          then (case requireWorkspace s (ch_workspaceId change) of
                  Inl e \<Rightarrow> Inl e | Inr workspace \<Rightarrow> Inr (change, Some workspace))
          else Inr (change, None))"

text \<open>The input of the publication inside \<open>rebaseChange\<close>, and the two writes before it, which bind the
  change to its new Workspace.\<close>

definition rebase_revision_input :: "Change \<Rightarrow> Workspace \<Rightarrow> string list \<Rightarrow> PublishRevisionInput" where
  "rebase_revision_input change rebased declaredEffects = \<lparr>pri_changeId = ch_id change, pri_workspaceId = Some (ws_id rebased),
     pri_declaredEffects = declaredEffects, pri_sourceSpaceSnapshots = None, pri_conflictIds = None,
     pri_kind = Some KindRebase, pri_actor = None, pri_affectedModuleIds = None, pri_affectedTargetIds = None\<rparr>"

definition rebase_bound :: "Change \<Rightarrow> Workspace \<Rightarrow> Coordinator \<Rightarrow> Coordinator" where
  "rebase_bound change rebased s =
     s\<lparr>cc_workspaces := set_key (ws_id rebased) rebased (cc_workspaces s),
       cc_changes := set_key (ch_id change) (change\<lparr>ch_baseProjectRevisionId := ws_projectRevisionId rebased,
         ch_workspaceId := Some (ws_id rebased), ch_status := ChActive\<rparr>) (cc_changes s)\<rparr>"

text \<open>What \<open>rebaseChange\<close> does after the await, with the \<open>change\<close> and the workspace it read before it.\<close>

definition rebase_finish :: "string \<Rightarrow> string list \<Rightarrow> Change \<Rightarrow> Workspace option \<Rightarrow> Workspace
    \<Rightarrow> Coordinator \<Rightarrow> (Workspace \<times> ChangeRevision) cc_outcome" where
  "rebase_finish uuid declaredEffects change previousWorkspace materialized s =
     (let rebased = materialized\<lparr>ws_changeId := Some (ch_id change)\<rparr>
      in case publishRevision uuid (rebase_revision_input change rebased declaredEffects) (rebase_bound change rebased s) of
           (Inl e, s') \<Rightarrow> raise e (s'\<lparr>cc_workspaces := delete_key (ws_id rebased) (cc_workspaces s'),
                                       cc_changes := set_key (ch_id change) change (cc_changes s')\<rparr>)
         | (Inr revision, s') \<Rightarrow>
             return (rebased, revision)
               (case previousWorkspace of
                  None \<Rightarrow> s'
                | Some previous \<Rightarrow>
                    if ws_id previous \<noteq> ws_id rebased
                    then s'\<lparr>cc_workspaces := set_key (ws_id previous)
                           (previous\<lparr>ws_changeId := None, ws_state := WsClosed\<rparr>) (cc_workspaces s')\<rparr>
                    else s'))"

definition rebase_workspace_input :: "RebaseChangeInput \<Rightarrow> MaterializeWorkspaceInput" where
  "rebase_workspace_input input = \<lparr>mw_view = rbi_view input, mw_sources = rbi_sources input, mw_mounts = rbi_mounts input,
     mw_directory = rbi_directory input, mw_id = None, mw_actorId = keep_truthy (rbi_actorId input)\<rparr>"

definition rebaseChange :: "(string \<Rightarrow> string) \<Rightarrow> (string \<Rightarrow> string) \<Rightarrow> (nat \<Rightarrow> string) \<Rightarrow> RebaseChangeInput
    \<Rightarrow> Coordinator \<Rightarrow> (Workspace \<times> ChangeRevision) cc_outcome" where
  "rebaseChange nfkc lower u input s =
     (case rebase_begin (rbi_changeId input) s of
        Inl e \<Rightarrow> raise e s
      | Inr (change, previousWorkspace) \<Rightarrow>
          (case createWorkspace nfkc lower (u 0) (rebase_workspace_input input) s of
             (Inl e, s') \<Rightarrow> raise e s'
           | (Inr workspace, s') \<Rightarrow> rebase_finish (u 1) (rbi_declaredEffects input) change previousWorkspace workspace s'))"

definition revertChange :: "string \<Rightarrow> RevertChangeInput \<Rightarrow> Coordinator \<Rightarrow> Change cc_outcome" where
  "revertChange uuid input s =
     (case get_key (cc_revisions s) (rvi_landedChangeRevisionId input) of
        None \<Rightarrow> raise (failure CcRevertSourceNotFound (rvi_landedChangeRevisionId input)) s
      | Some landedRevision \<Rightarrow>
          if \<not> list_ex (\<lambda>revision. prev_landedChangeRevisionId revision = Some (rev_id landedRevision))
                  (map_values (cc_projectRevisions s))
          then raise (failure CcRevertSourceNotFound (rev_id landedRevision)) s
          else case (if truthy (rvi_workspaceId input)
                     then (case requireWorkspace s (rvi_workspaceId input) of Inl e \<Rightarrow> Inl e | Inr w \<Rightarrow> Inr (Some w))
                     else Inr None) of
            Inl e \<Rightarrow> raise e s
          | Inr workspace \<Rightarrow>
              if (case workspace of None \<Rightarrow> False | Some w \<Rightarrow> ws_projectRevisionId w \<noteq> prev_id (cc_canonical s))
              then raise (failure CcChangeRevisionBaseMismatch (ws_id (the workspace))) s
              else (let change = \<lparr>ch_id = nullish (rvi_id input) (opaqueId ''change-revert'' uuid),
                          ch_projectId = proj_id (cc_project s),
                          ch_intentId = rvi_intentId input,
                          ch_baseProjectRevisionId = nullish (map_option ws_projectRevisionId workspace) (prev_id (cc_canonical s)),
                          ch_status = ChActive,
                          ch_latestRevisionId = None,
                          ch_workspaceId = map_option ws_id workspace,
                          ch_revertsChangeRevisionId = Some (rev_id landedRevision),
                          ch_author = None,
                          ch_origin = None\<rparr>
                    in return change (s\<lparr>cc_changes := set_key (ch_id change) change (cc_changes s)\<rparr>)))"

section \<open>Landing\<close>

type_synonym selected_member = "Change \<times> ChangeRevision"

text \<open>The body of the loop that selects the members of a cohort.\<close>

definition select_member :: "Coordinator \<Rightarrow> CohortMember \<Rightarrow> selected_member list \<Rightarrow> ChangeControlError + selected_member list" where
  "select_member s member selected =
     (case requireChange s (cm_changeId member) of
        Inl e \<Rightarrow> Inl e
      | Inr change \<Rightarrow>
          (case get_key (cc_revisions s) (cm_changeRevisionId member) of
             None \<Rightarrow> Inl (failure CcChangeRevisionNotFound (cm_changeRevisionId member))
           | Some revision \<Rightarrow>
               if rev_changeId revision \<noteq> ch_id change
               then Inl (failure CcChangeRevisionNotFound (cm_changeRevisionId member))
               else if ch_latestRevisionId change \<noteq> Some (rev_id revision)
               then Inl (failure CcChangeRevisionNotLatest (ch_id change))
               else (let openConflicts = filter (\<lambda>conflict. conf_changeId conflict = ch_id change
                            \<and> Some (conf_workspaceId conflict) = rev_workspaceId revision
                            \<and> conf_state conflict = ConfOpen) (map_values (cc_conflicts s))
                     in if length openConflicts > 0
                        then Inl \<lparr>cce_code = CcLandingBlocked, cce_affectedObject = ch_id change,
                                  cce_conflictingIds = map conf_id openConflicts\<rparr>
                        else Inr (selected @ [(change, revision)]))))"

definition member_base_error :: "Coordinator \<Rightarrow> selected_member \<Rightarrow> ChangeControlError option" where
  "member_base_error s member = (case member of (change, revision) \<Rightarrow>
     fail_if (nullish (rev_baseProjectRevisionId revision) (rev_projectRevisionId revision) \<noteq> prev_id (cc_canonical s)
               \<or> ch_baseProjectRevisionId change \<noteq> prev_id (cc_canonical s))
       (failure CcChangeRevisionBaseMismatch (ch_id change)))"

text \<open>The bodies of the two nested loops that compose the snapshots.\<close>

definition compose_entry :: "string option \<Rightarrow> Coordinator \<Rightarrow> Change \<Rightarrow> string \<times> string \<Rightarrow> (string, string) jsmap
    \<Rightarrow> ChangeControlError + (string, string) jsmap" where
  "compose_entry cohortId s change entry nextSnapshots =
     (case entry of (sourceSpaceId, snapshotId) \<Rightarrow>
       if sourceSpaceId \<notin> set (proj_sourceSpaceIds (cc_project s))
       then Inl (failure CcLandingSourceSpaceInvalid (ch_id change))
       else (case get_key nextSnapshots sourceSpaceId of
           Some existing \<Rightarrow>
             if existing \<noteq> snapshotId
                \<and> Some existing \<noteq> get_key (prev_sourceSpaceSnapshots (cc_canonical s)) sourceSpaceId
             then Inl (failure CcLandingBlocked (nullish cohortId (ch_id change)))
             else Inr (set_key sourceSpaceId snapshotId nextSnapshots)
         | None \<Rightarrow> Inr (set_key sourceSpaceId snapshotId nextSnapshots)))"

definition compose_member :: "string option \<Rightarrow> Coordinator \<Rightarrow> selected_member \<Rightarrow> (string, string) jsmap
    \<Rightarrow> ChangeControlError + (string, string) jsmap" where
  "compose_member cohortId s member nextSnapshots = (case member of (change, revision) \<Rightarrow>
     fold_loop (compose_entry cohortId s change) (nullish (rev_sourceSpaceSnapshots revision) []) nextSnapshots)"

definition land_commit :: "(nat \<Rightarrow> string) \<Rightarrow> LandCohortInput \<Rightarrow> selected_member list \<Rightarrow> (string, string) jsmap
    \<Rightarrow> Coordinator \<Rightarrow> Landing cc_outcome" where
  "land_commit u input selected nextSnapshots s =
     (let previousProjectRevisionId = prev_id (cc_canonical s);
          changeIds = map (ch_id \<circ> fst) selected;
          changeRevisionIds = map (rev_id \<circ> snd) selected;
          next = createProjectRevision (u 0) \<lparr>cpr_projectId = proj_id (cc_project s),
            cpr_sourceSpaceSnapshots = nextSnapshots,
            cpr_id = None,
            cpr_parentProjectRevisionId = Some previousProjectRevisionId,
            cpr_landedChangeRevisionId = Some (hd changeRevisionIds),
            cpr_landedChangeRevisionIds = Some changeRevisionIds,
            cpr_landingCohortId = keep_truthy (lci_cohortId input)\<rparr>
      in return \<lparr>land_id = opaqueId ''landing'' (u 1),
            land_projectId = proj_id (cc_project s),
            land_changeId = hd changeIds,
            land_changeRevisionId = hd changeRevisionIds,
            land_previousProjectRevisionId = previousProjectRevisionId,
            land_projectRevisionId = prev_id next,
            land_receipt = ''compare-and-swap=true; previous='' @ previousProjectRevisionId @ ''; next='' @ prev_id next
              @ ''; changes='' @ join_with '','' changeIds @ ''; cohort='' @ nullish (lci_cohortId input) ''single-change'',
            land_cohortId = keep_truthy (lci_cohortId input),
            land_changeIds = Some changeIds,
            land_changeRevisionIds = Some changeRevisionIds\<rparr>
          (s\<lparr>cc_projectRevisions := set_key (prev_id next) next (cc_projectRevisions s),
             cc_canonical := next,
             cc_changes := foldl (\<lambda>m (change, revision). set_key (ch_id change) (change\<lparr>ch_status := ChLanded\<rparr>) m)
               (cc_changes s) selected\<rparr>))"

definition landCohort :: "(nat \<Rightarrow> string) \<Rightarrow> LandCohortInput \<Rightarrow> Coordinator \<Rightarrow> Landing cc_outcome" where
  "landCohort u input s =
     (if length (lci_members input) = 0 then raise (failure CcLandingBlocked (nullish (lci_cohortId input) ''landing'')) s
      else if has_duplicates (map cm_changeId (lci_members input))
      then raise (failure CcLandingBlocked (nullish (lci_cohortId input) ''landing'')) s
      else case fold_loop (select_member s) (lci_members input) [] of
        Inl e \<Rightarrow> raise e s
      | Inr selected \<Rightarrow>
          if prev_id (cc_canonical s) \<noteq> lci_expectedCanonicalProjectRevisionId input
          then raise (failure CcStaleCanonicalRevision (nullish (lci_cohortId input) (ch_id (fst (hd selected))))) s
          else (case check_loop (member_base_error s) selected of
             Some e \<Rightarrow> raise e s
           | None \<Rightarrow>
               (case fold_loop (compose_member (lci_cohortId input) s) selected (prev_sourceSpaceSnapshots (cc_canonical s)) of
                  Inl e \<Rightarrow> raise e s
                | Inr nextSnapshots \<Rightarrow> land_commit u input selected nextSnapshots s)))"

definition landChange :: "(nat \<Rightarrow> string) \<Rightarrow> string \<Rightarrow> string \<Rightarrow> string \<Rightarrow> Coordinator \<Rightarrow> Landing cc_outcome" where
  "landChange u changeId changeRevisionId expected s =
     landCohort u \<lparr>lci_cohortId = None, lci_members = [\<lparr>cm_changeId = changeId, cm_changeRevisionId = changeRevisionId\<rparr>],
       lci_expectedCanonicalProjectRevisionId = expected\<rparr> s"

section \<open>One step of the coordinator\<close>

datatype cc_op =
    CreateWorkspace string MaterializeWorkspaceInput
  | CreateChange string CreateChangeInput
  | RegisterConflict string RegisterConflictInput
  | ResolveConflict string
  | PublishRevision string PublishRevisionInput
  | RebaseChange "nat \<Rightarrow> string" RebaseChangeInput
  | HandoffChange string string
  | RevertChange string RevertChangeInput
  | LandCohort "nat \<Rightarrow> string" LandCohortInput

fun cc_step :: "(string \<Rightarrow> string) \<Rightarrow> (string \<Rightarrow> string) \<Rightarrow> cc_op \<Rightarrow> Coordinator \<Rightarrow> unit cc_outcome" where
  "cc_step nfkc lower (CreateWorkspace uuid input) s = void (createWorkspace nfkc lower uuid input s)"
| "cc_step nfkc lower (CreateChange uuid input) s = void (createChange uuid input s)"
| "cc_step nfkc lower (RegisterConflict uuid input) s = void (registerConflict uuid input s)"
| "cc_step nfkc lower (ResolveConflict conflictId) s = void (resolveConflict conflictId s)"
| "cc_step nfkc lower (PublishRevision uuid input) s = void (publishRevision uuid input s)"
| "cc_step nfkc lower (RebaseChange u input) s = void (rebaseChange nfkc lower u input s)"
| "cc_step nfkc lower (HandoffChange changeId actorId) s = void (handoffChange changeId actorId s)"
| "cc_step nfkc lower (RevertChange uuid input) s = void (revertChange uuid input s)"
| "cc_step nfkc lower (LandCohort u input) s = void (landCohort u input s)"

end
