(* ===== verification/Change_Invariant.thy ===== *)
theory Change_Invariant
  imports Change_Control
begin

text \<open>
  The integrity of a \<open>LocalChangeCoordinator\<close> over any sequence of calls. The invariant \<open>cc_inv\<close> says
  that the maps are keyed by the ids of their values, that every reference between Workspaces, Changes,
  Change Revisions, Conflicts and Project Revisions resolves, that the Revisions of a Change form a
  numbered chain ending in its latest Revision, and that the Project Revisions form one line of history
  ending in the canonical one, each landed Change Revision being based on the parent. Every operation
  is a composition of a few kinds of write; there is one lemma per kind of write and one per operation.
  The ids the coordinator draws are assumed fresh (\<open>cc_ok\<close>).
\<close>

section \<open>The invariant\<close>

definition ids_match :: "('v \<Rightarrow> string) \<Rightarrow> (string, 'v) jsmap \<Rightarrow> bool" where
  "ids_match idf m \<longleftrightarrow> distinct_keys m \<and> (\<forall>k v. get_key m k = Some v \<longrightarrow> idf v = k)"

text \<open>The Change Revisions of a Change, in the order of publication.\<close>

definition revisions_of :: "Coordinator \<Rightarrow> string \<Rightarrow> ChangeRevision list" where
  "revisions_of s changeId = filter (\<lambda>r. rev_changeId r = changeId) (map_values (cc_revisions s))"

definition revision_chain :: "ChangeRevision list \<Rightarrow> string option \<Rightarrow> bool" where
  "revision_chain rs latest \<longleftrightarrow>
     map rev_sequence rs = [1..<Suc (length rs)]
   \<and> map rev_parentRevisionId rs = take (length rs) (None # map (Some \<circ> rev_id) rs)
   \<and> latest = (if rs = [] then None else Some (rev_id (last rs)))"

text \<open>The line of history: every Project Revision but the first names its predecessor as parent, and the
  Change Revisions it landed were published, and based on that parent.\<close>

definition landed_ids :: "ProjectRevision \<Rightarrow> string list" where
  "landed_ids p = nullish (prev_landedChangeRevisionIds p) []"

definition lands_on :: "(string, ChangeRevision) jsmap \<Rightarrow> ProjectRevision \<Rightarrow> ProjectRevision \<Rightarrow> bool" where
  "lands_on revisions p q \<longleftrightarrow>
     prev_parentProjectRevisionId q = Some (prev_id p)
   \<and> distinct (landed_ids q) \<and> landed_ids q \<noteq> []
   \<and> (\<forall>i\<in>set (landed_ids q). \<exists>r. get_key revisions i = Some r \<and> rev_projectRevisionId r = prev_id p)"

fun linear_history :: "(string, ChangeRevision) jsmap \<Rightarrow> ProjectRevision list \<Rightarrow> bool" where
  "linear_history revisions (p # q # ps) = (lands_on revisions p q \<and> linear_history revisions (q # ps))"
| "linear_history revisions _ = True"

definition workspace_ok :: "Coordinator \<Rightarrow> Workspace \<Rightarrow> bool" where
  "workspace_ok s w \<longleftrightarrow> has_key (cc_projectRevisions s) (ws_projectRevisionId w)"

definition change_ok :: "Coordinator \<Rightarrow> Change \<Rightarrow> bool" where
  "change_ok s c \<longleftrightarrow>
     has_key (cc_projectRevisions s) (ch_baseProjectRevisionId c)
   \<and> (\<forall>w. ch_workspaceId c = Some w \<longrightarrow> has_key (cc_workspaces s) w)
   \<and> revision_chain (revisions_of s (ch_id c)) (ch_latestRevisionId c)"

definition revision_ok :: "Coordinator \<Rightarrow> ChangeRevision \<Rightarrow> bool" where
  "revision_ok s r \<longleftrightarrow>
     has_key (cc_changes s) (rev_changeId r)
   \<and> has_key (cc_projectRevisions s) (rev_projectRevisionId r)
   \<and> rev_baseProjectRevisionId r = Some (rev_projectRevisionId r)
   \<and> rev_id r \<noteq> []"

definition conflict_ok :: "Coordinator \<Rightarrow> Conflict \<Rightarrow> bool" where
  "conflict_ok s c \<longleftrightarrow> has_key (cc_changes s) (conf_changeId c) \<and> has_key (cc_workspaces s) (conf_workspaceId c)"

definition history_ok :: "Coordinator \<Rightarrow> bool" where
  "history_ok s \<longleftrightarrow>
     cc_projectRevisions s \<noteq> []
   \<and> cc_canonical s = last (map_values (cc_projectRevisions s))
   \<and> (\<forall>p\<in>set (map_values (cc_projectRevisions s)). prev_projectId p = proj_id (cc_project s) \<and> prev_id p \<noteq> [])
   \<and> linear_history (cc_revisions s) (map_values (cc_projectRevisions s))"

definition keys_match :: "Coordinator \<Rightarrow> bool" where
  "keys_match s \<longleftrightarrow>
     ids_match prev_id (cc_projectRevisions s) \<and> ids_match ws_id (cc_workspaces s)
   \<and> ids_match ch_id (cc_changes s) \<and> ids_match rev_id (cc_revisions s) \<and> ids_match conf_id (cc_conflicts s)"

definition cc_inv :: "Coordinator \<Rightarrow> bool" where
  "cc_inv s \<longleftrightarrow> keys_match s \<and> history_ok s
   \<and> (\<forall>w\<in>set (map_values (cc_workspaces s)). workspace_ok s w)
   \<and> (\<forall>c\<in>set (map_values (cc_changes s)). change_ok s c)
   \<and> (\<forall>r\<in>set (map_values (cc_revisions s)). revision_ok s r)
   \<and> (\<forall>c\<in>set (map_values (cc_conflicts s)). conflict_ok s c)"

text \<open>The environment: ids drawn by the coordinator, or given by the caller for a new object, are not in use.\<close>

fun cc_ok :: "Coordinator \<Rightarrow> cc_op \<Rightarrow> bool" where
  "cc_ok s (CreateWorkspace uuid input) = (\<not> has_key (cc_workspaces s) (nullish (mw_id input) (opaqueId ''workspace'' uuid)))"
| "cc_ok s (CreateChange uuid input) = (\<not> has_key (cc_changes s) (nullish (cci_id input) (opaqueId ''change'' uuid)))"
| "cc_ok s (RegisterConflict uuid input) = (\<not> has_key (cc_conflicts s) (nullish (rci_id input) (opaqueId ''conflict'' uuid)))"
| "cc_ok s (PublishRevision uuid input) = (\<not> has_key (cc_revisions s) (opaqueId ''change-revision'' uuid))"
| "cc_ok s (RebaseChange u input) = (\<not> has_key (cc_workspaces s) (opaqueId ''workspace'' (u 0))
     \<and> \<not> has_key (cc_revisions s) (opaqueId ''change-revision'' (u 1)))"
| "cc_ok s (RevertChange uuid input) = (\<not> has_key (cc_changes s) (nullish (rvi_id input) (opaqueId ''change-revert'' uuid)))"
| "cc_ok s (LandCohort u input) = (\<not> has_key (cc_projectRevisions s) (opaqueId ''project-revision'' (u 0)))"
| "cc_ok s _ = True"

section \<open>Keyed maps\<close>

lemma ids_match_set_key [intro]: "ids_match idf m \<Longrightarrow> k = idf v \<Longrightarrow> ids_match idf (set_key k v m)"
  by (auto simp: ids_match_def split: if_splits)

lemma ids_match_get: "ids_match idf m \<Longrightarrow> get_key m k = Some v \<Longrightarrow> idf v = k"
  by (simp add: ids_match_def)

lemma ids_match_values: "ids_match idf m \<Longrightarrow> v \<in> set (map_values m) \<longleftrightarrow> get_key m (idf v) = Some v"
  by (auto simp: ids_match_def jsm.contents_lookup)

lemma values_set_keyD: "x \<in> set (map_values (set_key k v m)) \<Longrightarrow> x = v \<or> x \<in> set (map_values m)"
  by (induction m) (auto simp: set_key_def map_values_def split: if_splits)

lemma values_set_key_other:
  assumes "ids_match idf m" "x \<in> set (map_values (set_key (idf v) v m))"
  shows "x = v \<or> x \<in> set (map_values m) \<and> idf x \<noteq> idf v"
proof -
  from assms(2) have "get_key (set_key (idf v) v m) (idf x) = Some x"
    using ids_match_values [OF ids_match_set_key [OF assms(1) refl]] by blast
  then show ?thesis by (auto split: if_splits dest: get_key_mem)
qed

lemma map_values_fresh: "\<not> has_key m k \<Longrightarrow> map_values (set_key k v m) = map_values m @ [v]"
  by (simp add: set_key_fresh has_key_def map_values_def)

lemma has_key_get: "get_key m k = Some v \<Longrightarrow> has_key m k"
  by (simp add: has_key_def)

section \<open>Chains and history\<close>

lemma revision_chain_Nil: "revision_chain [] None"
  by (simp add: revision_chain_def)

lemma revision_chain_snoc:
  assumes "revision_chain rs latest" "rev_sequence r = Suc (length rs)" "rev_parentRevisionId r = latest"
  shows "revision_chain (rs @ [r]) (Some (rev_id r))"
proof (cases rs rule: rev_cases)
  case Nil
  then show ?thesis using assms by (simp add: revision_chain_def)
next
  case (snoc qs q)
  then show ?thesis using assms by (simp add: revision_chain_def)
qed

lemma linear_history_snoc:
  "ps \<noteq> [] \<Longrightarrow> linear_history m (ps @ [q]) \<longleftrightarrow> linear_history m ps \<and> lands_on m (last ps) q"
  by (induction m ps rule: linear_history.induct) auto

lemma linear_history_landed:
  "linear_history m ps \<Longrightarrow> i \<in> set (concat (map landed_ids (tl ps))) \<Longrightarrow>
   \<exists>r. get_key m i = Some r \<and> rev_projectRevisionId r \<in> set (map prev_id ps)"
  by (induction m ps rule: linear_history.induct) (fastforce simp: lands_on_def)+

lemma linear_history_landed_once:
  "linear_history m ps \<Longrightarrow> distinct (map prev_id ps) \<Longrightarrow> distinct (concat (map landed_ids (tl ps)))"
proof (induction m ps rule: linear_history.induct)
  case (1 m p q ps)
  then have rest: "distinct (concat (map landed_ids ps))" by simp
  have "i \<notin> set (concat (map landed_ids ps))" if i: "i \<in> set (landed_ids q)" for i
  proof
    assume "i \<in> set (concat (map landed_ids ps))"
    then obtain r where "get_key m i = Some r" "rev_projectRevisionId r \<in> set (map prev_id (q # ps))"
      using linear_history_landed [of m "q # ps" i] "1.prems"(1) by auto
    moreover obtain r' where "get_key m i = Some r'" "rev_projectRevisionId r' = prev_id p"
      using "1.prems"(1) i by (auto simp: lands_on_def)
    ultimately show False using "1.prems"(2) by auto
  qed
  with rest "1.prems"(1) show ?case by (auto simp: lands_on_def)
qed simp_all

lemma lands_on_mono:
  "(\<And>i r. get_key m i = Some r \<Longrightarrow> get_key m' i = Some r) \<Longrightarrow> lands_on m p q \<Longrightarrow> lands_on m' p q"
  by (fastforce simp: lands_on_def)

lemma linear_history_mono:
  "(\<And>i r. get_key m i = Some r \<Longrightarrow> get_key m' i = Some r) \<Longrightarrow> linear_history m ps \<Longrightarrow> linear_history m' ps"
  by (induction m ps rule: linear_history.induct) (auto intro: lands_on_mono)

section \<open>The kinds of write\<close>

lemma inv_write_fs: "cc_inv s \<Longrightarrow> cc_inv (s\<lparr>cc_fs := fs\<rparr>)"
  by (simp add: cc_inv_def keys_match_def history_ok_def workspace_ok_def change_ok_def revision_ok_def conflict_ok_def revisions_of_def)

lemma inv_write_workspace:
  assumes "cc_inv s" "workspace_ok s w"
  shows "cc_inv (s\<lparr>cc_workspaces := set_key (ws_id w) w (cc_workspaces s)\<rparr>)"
  using assms
  by (auto simp: cc_inv_def keys_match_def history_ok_def workspace_ok_def change_ok_def revision_ok_def conflict_ok_def
      revisions_of_def dest!: values_set_keyD)

lemma inv_write_change:
  assumes "cc_inv s" "change_ok s c"
  shows "cc_inv (s\<lparr>cc_changes := set_key (ch_id c) c (cc_changes s)\<rparr>)"
  using assms
  by (auto simp: cc_inv_def keys_match_def history_ok_def workspace_ok_def change_ok_def revision_ok_def conflict_ok_def
      revisions_of_def dest!: values_set_keyD)

lemma inv_write_conflict:
  assumes "cc_inv s" "conflict_ok s c"
  shows "cc_inv (s\<lparr>cc_conflicts := set_key (conf_id c) c (cc_conflicts s)\<rparr>)"
  using assms
  by (auto simp: cc_inv_def keys_match_def history_ok_def workspace_ok_def change_ok_def revision_ok_def conflict_ok_def
      revisions_of_def dest!: values_set_keyD)

section \<open>Operations that write Workspaces, Changes and Conflicts\<close>

lemma inv_workspaceD: "cc_inv s \<Longrightarrow> get_key (cc_workspaces s) i = Some w \<Longrightarrow> ws_id w = i \<and> workspace_ok s w"
  by (auto simp: cc_inv_def keys_match_def dest: ids_match_get get_key_mem)

lemma inv_changeD: "cc_inv s \<Longrightarrow> get_key (cc_changes s) i = Some c \<Longrightarrow> ch_id c = i \<and> change_ok s c"
  by (auto simp: cc_inv_def keys_match_def dest: ids_match_get get_key_mem)

lemma inv_conflictD: "cc_inv s \<Longrightarrow> get_key (cc_conflicts s) i = Some c \<Longrightarrow> conf_id c = i \<and> conflict_ok s c"
  by (auto simp: cc_inv_def keys_match_def dest: ids_match_get get_key_mem)

lemma inv_revisionD: "cc_inv s \<Longrightarrow> get_key (cc_revisions s) i = Some r \<Longrightarrow> rev_id r = i \<and> revision_ok s r"
  by (auto simp: cc_inv_def keys_match_def dest: ids_match_get get_key_mem)

lemma inv_projectRevisionD:
  "cc_inv s \<Longrightarrow> get_key (cc_projectRevisions s) i = Some p \<Longrightarrow> prev_id p = i \<and> prev_projectId p = proj_id (cc_project s)"
  by (auto simp: cc_inv_def keys_match_def history_ok_def dest: ids_match_get get_key_mem)

lemma canonical_stored:
  assumes "cc_inv s"
  shows "get_key (cc_projectRevisions s) (prev_id (cc_canonical s)) = Some (cc_canonical s)"
proof -
  have "last (map_values (cc_projectRevisions s)) \<in> set (map_values (cc_projectRevisions s))"
    using assms by (intro last_in_set) (simp add: cc_inv_def history_ok_def map_values_def)
  moreover have "ids_match prev_id (cc_projectRevisions s)" "cc_canonical s = last (map_values (cc_projectRevisions s))"
    using assms by (simp_all add: cc_inv_def history_ok_def keys_match_def)
  ultimately show ?thesis by (simp add: ids_match_values)
qed

lemma requireWorkspace_InrD: "requireWorkspace s i = Inr w \<Longrightarrow> \<exists>k. i = Some k \<and> k \<noteq> [] \<and> get_key (cc_workspaces s) k = Some w"
  by (auto simp: requireWorkspace_def split: option.splits if_splits)

lemma requireChange_InrD: "requireChange s i = Inr c \<Longrightarrow> get_key (cc_changes s) i = Some c"
  by (auto simp: requireChange_def split: option.splits)

lemma revisions_of_fresh: "cc_inv s \<Longrightarrow> \<not> has_key (cc_changes s) i \<Longrightarrow> revisions_of s i = []"
  by (auto simp: revisions_of_def filter_empty_conv cc_inv_def revision_ok_def)

lemma createWorkspace_inv:
  assumes "cc_inv s"
  shows "cc_inv (snd (createWorkspace nfkc lower uuid input s))"
proof (cases "createWorkspace nfkc lower uuid input s")
  case (Pair r s')
  show ?thesis
  proof (cases r)
    case (Inl e)
    then show ?thesis using assms Pair
      by (auto simp: createWorkspace_def Let_def intro: inv_write_fs split: option.splits if_splits prod.splits sum.splits)
  next
    case (Inr w)
    with Pair obtain p fs where w: "get_key (cc_projectRevisions s) (view_projectRevisionId (mw_view input)) = Some p"
      "materializeWorkspace nfkc lower uuid (cc_project s) input (cc_fs s) = (Inr w, fs)"
      "s' = s\<lparr>cc_workspaces := set_key (ws_id w) w (cc_workspaces s), cc_fs := fs\<rparr>"
      by (auto simp: createWorkspace_def Let_def split: option.splits if_splits prod.splits sum.splits)
    from w(2) have "ws_projectRevisionId w = view_projectRevisionId (mw_view input)"
      by (rule materialize_InrD) simp
    with w(1) have "workspace_ok s w" by (simp add: workspace_ok_def has_key_def)
    from inv_write_fs [OF inv_write_workspace [OF assms this]] show ?thesis by (simp add: Pair w(3))
  qed
qed

lemma createChange_inv:
  assumes "cc_inv s" "cc_ok s (CreateChange uuid input)"
  shows "cc_inv (snd (createChange uuid input s))"
proof (cases "fst (createChange uuid input s)")
  case (Inl e)
  then show ?thesis using assms(1) by (auto simp: createChange_def Let_def split: option.splits)
next
  case (Inr c)
  then obtain w where w: "get_key (cc_workspaces s) (cci_workspaceId input) = Some w"
    and c: "ch_id c = nullish (cci_id input) (opaqueId ''change'' uuid)" "ch_baseProjectRevisionId c = ws_projectRevisionId w"
      "ch_latestRevisionId c = None" "ch_workspaceId c = Some (ws_id w)"
    and s': "snd (createChange uuid input s) = s\<lparr>cc_changes := set_key (ch_id c) c (cc_changes s),
       cc_workspaces := set_key (ws_id w) (w\<lparr>ws_changeId := Some (ch_id c)\<rparr>) (cc_workspaces s)\<rparr>"
    by (auto simp: createChange_def Let_def split: option.splits if_splits)
  note wok = inv_workspaceD [OF assms(1) w]
  have "change_ok s c"
    using assms wok w by (simp add: change_ok_def c workspace_ok_def revisions_of_fresh revision_chain_Nil has_key_def)
  from inv_write_workspace [OF inv_write_change [OF assms(1) this], of "w\<lparr>ws_changeId := Some (ch_id c)\<rparr>"]
  show ?thesis using wok by (simp add: s' workspace_ok_def)
qed

lemma handoffChange_inv: "cc_inv s \<Longrightarrow> cc_inv (snd (handoffChange changeId actorId s))"
  by (auto simp: handoffChange_def Let_def workspace_ok_def dest!: requireWorkspace_InrD dest: inv_workspaceD
      split: sum.split intro!: inv_write_workspace [of s "w\<lparr>ws_actorId := Some actorId\<rparr>" for w, simplified])

lemma registerConflict_Inl: "fst (registerConflict uuid input s) = Inl e \<longrightarrow> snd (registerConflict uuid input s) = s"
  by (simp add: registerConflict_def Let_def split: option.split sum.split)

lemma registerConflict_inv:
  assumes "cc_inv s"
  shows "cc_inv (snd (registerConflict uuid input s))"
proof (cases "fst (registerConflict uuid input s)")
  case (Inl e)
  then show ?thesis using assms registerConflict_Inl by metis
next
  case (Inr f)
  then obtain c w where c: "requireChange s (rci_changeId input) = Inr c"
    and w: "requireWorkspace s (Some (rci_workspaceId input)) = Inr w"
    and f: "conf_changeId f = ch_id c" "conf_workspaceId f = ws_id w"
    and s': "snd (registerConflict uuid input s) = s\<lparr>cc_conflicts := set_key (conf_id f) f (cc_conflicts s),
       cc_workspaces := set_key (ws_id w) (w\<lparr>ws_state := WsBlocked\<rparr>) (cc_workspaces s)\<rparr>"
    by (auto simp: registerConflict_def Let_def split: option.splits sum.splits if_splits)
  from requireChange_InrD [OF c] inv_changeD [OF assms] have "has_key (cc_changes s) (ch_id c)"
    by (auto simp: has_key_def)
  moreover from requireWorkspace_InrD [OF w] inv_workspaceD [OF assms]
  have wok: "has_key (cc_workspaces s) (ws_id w)" "workspace_ok s w" by (auto simp: has_key_def)
  ultimately have "conflict_ok s f" by (simp add: conflict_ok_def f)
  from inv_write_workspace [OF inv_write_conflict [OF assms this], of "w\<lparr>ws_state := WsBlocked\<rparr>"]
  show ?thesis using wok by (simp add: s' workspace_ok_def)
qed

lemma resolveConflict_inv:
  assumes "cc_inv s"
  shows "cc_inv (snd (resolveConflict conflictId s))"
proof (cases "get_key (cc_conflicts s) conflictId")
  case None
  then show ?thesis using assms by (simp add: resolveConflict_def)
next
  case (Some c)
  let ?c = "c\<lparr>conf_state := ConfResolved\<rparr>"
  have "conflict_ok s ?c" using inv_conflictD [OF assms Some] by (simp add: conflict_ok_def)
  note inv' = inv_write_conflict [OF assms this]
  show ?thesis
  proof (cases "get_key (cc_workspaces s) (conf_workspaceId c)")
    case None
    then show ?thesis using inv' by (simp add: resolveConflict_def Some Let_def)
  next
    case w: (Some w)
    have "workspace_ok s w" using inv_workspaceD [OF assms w] by simp
    then show ?thesis using inv_write_workspace [OF inv', of "w\<lparr>ws_state := x\<rparr>" for x]
      by (simp add: resolveConflict_def Some w Let_def workspace_ok_def)
  qed
qed

lemma revertChange_Inl: "fst (revertChange uuid input s) = Inl e \<longrightarrow> snd (revertChange uuid input s) = s"
  by (simp add: revertChange_def Let_def split: option.split sum.split)

lemma revertChange_inv:
  assumes "cc_inv s" "cc_ok s (RevertChange uuid input)"
  shows "cc_inv (snd (revertChange uuid input s))"
proof (cases "fst (revertChange uuid input s)")
  case (Inl e)
  then show ?thesis using assms(1) revertChange_Inl by metis
next
  case (Inr c)
  define wo where "wo = (if truthy (rvi_workspaceId input)
    then (case requireWorkspace s (rvi_workspaceId input) of Inl _ \<Rightarrow> None | Inr w \<Rightarrow> Some w) else None)"
  from Inr have c: "ch_id c = nullish (rvi_id input) (opaqueId ''change-revert'' uuid)" "ch_latestRevisionId c = None"
      "ch_baseProjectRevisionId c = nullish (map_option ws_projectRevisionId wo) (prev_id (cc_canonical s))"
      "ch_workspaceId c = map_option ws_id wo"
    and s': "snd (revertChange uuid input s) = s\<lparr>cc_changes := set_key (ch_id c) c (cc_changes s)\<rparr>"
    by (auto simp: revertChange_def wo_def Let_def split: option.splits sum.splits if_splits)
  have wo: "requireWorkspace s (rvi_workspaceId input) = Inr w" if "wo = Some w" for w
    using that by (auto simp: wo_def split: if_splits sum.splits)
  have "has_key (cc_projectRevisions s) (prev_id (cc_canonical s))"
    using canonical_stored [OF assms(1)] by (rule has_key_get)
  moreover have "workspace_ok s w \<and> has_key (cc_workspaces s) (ws_id w)" if "wo = Some w" for w
    using requireWorkspace_InrD [OF wo [OF that]] inv_workspaceD [OF assms(1)] by (auto simp: has_key_def)
  ultimately have "change_ok s c"
    using assms by (cases wo) (auto simp: change_ok_def c workspace_ok_def revisions_of_fresh revision_chain_Nil)
  from inv_write_change [OF assms(1) this] show ?thesis by (simp add: s')
qed

section \<open>Publication and rebase\<close>

lemma inv_write_conflicts:
  "cc_inv s \<Longrightarrow> \<forall>f\<in>set fs. conflict_ok s f \<Longrightarrow>
   cc_inv (s\<lparr>cc_conflicts := foldl (\<lambda>m f. if conf_state f = ConfResolved
     then set_key (conf_id f) (f\<lparr>conf_resolutionRevisionId := x\<rparr>) m else m) (cc_conflicts s) fs\<rparr>)"
proof (induction fs arbitrary: s)
  case (Cons f fs)
  let ?f = "f\<lparr>conf_resolutionRevisionId := x\<rparr>"
  have "conflict_ok s ?f" using Cons.prems by (simp add: conflict_ok_def)
  from Cons.IH [OF inv_write_conflict [OF Cons.prems(1) this]] Cons.IH [OF Cons.prems(1)] Cons.prems
  show ?case by (simp add: conflict_ok_def)
qed simp

lemma prior_revision_chain:
  assumes "cc_inv s" "get_key (cc_changes s) i = Some c"
  defines "rs \<equiv> revisions_of s (ch_id c)"
  shows "prior_revision s c = (if rs = [] then None else Some (last rs))"
    and "map_option rev_id (prior_revision s c) = ch_latestRevisionId c"
    and "nullish (map_option rev_sequence (prior_revision s c)) 0 = length rs"
proof -
  have chain: "revision_chain rs (ch_latestRevisionId c)"
    using inv_changeD [OF assms(1,2)] by (auto simp: change_ok_def rs_def)
  have stored: "get_key (cc_revisions s) (rev_id r) = Some r \<and> rev_id r \<noteq> []" if "r \<in> set rs" for r
    using assms(1) that by (auto simp: rs_def revisions_of_def cc_inv_def keys_match_def revision_ok_def ids_match_values)
  show *: "prior_revision s c = (if rs = [] then None else Some (last rs))"
    using chain stored [of "last rs"] by (auto simp: prior_revision_def revision_chain_def)
  show "map_option rev_id (prior_revision s c) = ch_latestRevisionId c"
    using chain by (simp add: * revision_chain_def)
  have "rev_sequence (last rs) = length rs" if "rs \<noteq> []"
    using chain that last_map [of rs rev_sequence] by (simp add: revision_chain_def Suc_le_eq)
  then show "nullish (map_option rev_sequence (prior_revision s c)) 0 = length rs"
    by (simp add: *)
qed

lemma revisions_of_write:
  assumes "\<not> has_key (cc_revisions s) (rev_id r)"
  shows "revisions_of (s\<lparr>cc_revisions := set_key (rev_id r) r (cc_revisions s)\<rparr>) i
     = revisions_of s i @ (if rev_changeId r = i then [r] else [])"
  using assms by (simp add: revisions_of_def map_values_fresh)

lemma inv_write_revision:
  assumes inv: "cc_inv s" and c: "get_key (cc_changes s) i = Some c"
    and r: "revision_ok s r" "rev_changeId r = ch_id c" "\<not> has_key (cc_revisions s) (rev_id r)"
      "rev_sequence r = Suc (length (revisions_of s (ch_id c)))" "rev_parentRevisionId r = ch_latestRevisionId c"
    and c': "ch_id c' = ch_id c" "ch_latestRevisionId c' = Some (rev_id r)"
      "has_key (cc_projectRevisions s) (ch_baseProjectRevisionId c')"
      "\<forall>w. ch_workspaceId c' = Some w \<longrightarrow> has_key (cc_workspaces s) w"
  shows "cc_inv (s\<lparr>cc_revisions := set_key (rev_id r) r (cc_revisions s), cc_changes := set_key (ch_id c) c' (cc_changes s)\<rparr>)"
    (is "cc_inv ?s")
proof -
  have ro: "revisions_of ?s j = revisions_of s j @ (if rev_changeId r = j then [r] else [])" for j
    using revisions_of_write [OF r(3), of j] by (simp add: revisions_of_def)
  have "revision_chain (revisions_of s (ch_id c)) (ch_latestRevisionId c)"
    using inv_changeD [OF inv c] by (auto simp: change_ok_def)
  from revision_chain_snoc [OF this r(4) r(5)]
  have new: "change_ok ?s c'" using c' by (simp add: change_ok_def ro r(2))
  have "change_ok ?s d" if "d \<in> set (map_values (cc_changes ?s))" for d
  proof -
    have "d = c' \<or> d \<in> set (map_values (cc_changes s)) \<and> ch_id d \<noteq> ch_id c"
      using values_set_key_other [of ch_id "cc_changes s" d c'] that inv c' by (simp add: cc_inv_def keys_match_def)
    then show ?thesis
      using new inv r(2) by (auto simp: cc_inv_def change_ok_def ro)
  qed
  moreover have "linear_history (cc_revisions ?s) (map_values (cc_projectRevisions s))"
    using inv r(3) by (auto simp: cc_inv_def history_ok_def has_key_def elim!: linear_history_mono [rotated])
  moreover have "\<forall>q\<in>set (map_values (cc_revisions ?s)). revision_ok ?s q"
    using inv r(1) by (auto simp: cc_inv_def revision_ok_def dest!: values_set_keyD)
  ultimately show ?thesis
    using inv c' by (auto simp: cc_inv_def keys_match_def history_ok_def workspace_ok_def conflict_ok_def)
qed

lemma publish_commit_inv:
  assumes inv: "cc_inv s" and c: "get_key (cc_changes s) i = Some c" and w: "get_key (cc_workspaces s) k = Some w"
    and fresh: "\<not> has_key (cc_revisions s) (opaqueId ''change-revision'' uuid)"
  shows "cc_inv (publish_commit (new_revision uuid input s c w) c w s)"
proof -
  let ?r = "new_revision uuid input s c w"
  let ?c = "c\<lparr>ch_latestRevisionId := Some (rev_id ?r), ch_status := ChSubmitted, ch_workspaceId := Some (ws_id w)\<rparr>"
  let ?s = "s\<lparr>cc_revisions := set_key (rev_id ?r) ?r (cc_revisions s), cc_changes := set_key (ch_id c) ?c (cc_changes s)\<rparr>"
  note wok = inv_workspaceD [OF inv w] and cok = inv_changeD [OF inv c]
  have "cc_inv ?s"
  proof (rule inv_write_revision [OF inv c])
    show "revision_ok s ?r" using wok cok c
      by (simp add: revision_ok_def new_revision_def workspace_ok_def has_key_def)
    show "\<forall>k. ch_workspaceId ?c = Some k \<longrightarrow> has_key (cc_workspaces s) k" using w wok by (auto simp: has_key_def)
    show "has_key (cc_projectRevisions s) (ch_baseProjectRevisionId ?c)" using cok by (simp add: change_ok_def)
  qed (simp_all add: new_revision_def fresh prior_revision_chain(2,3) [OF inv c])
  moreover have "\<forall>f\<in>set (relevant_conflicts s c w). conflict_ok ?s f"
    using inv by (auto simp: relevant_conflicts_def cc_inv_def conflict_ok_def)
  ultimately show ?thesis
    using inv_write_conflicts [of ?s "relevant_conflicts s c w" "Some (rev_id ?r)"] by (simp add: publish_commit_def)
qed

lemma publishRevision_InrD:
  assumes "publishRevision uuid input s = (Inr r, s')"
  obtains c w k where "get_key (cc_changes s) (pri_changeId input) = Some c" "get_key (cc_workspaces s) k = Some w"
    "publish_error input s c w = None" "r = new_revision uuid input s c w" "s' = publish_commit r c w s"
  using assms
  by (auto simp: publishRevision_def Let_def split: sum.splits if_splits option.splits dest!: requireChange_InrD requireWorkspace_InrD)

lemma publishRevision_InlD: "publishRevision uuid input s = (Inl e, s') \<Longrightarrow> s' = s"
  by (auto simp: publishRevision_def Let_def split: sum.splits if_splits option.splits)

lemma publishRevision_inv:
  assumes "cc_inv s" "\<not> has_key (cc_revisions s) (opaqueId ''change-revision'' uuid)"
  shows "cc_inv (snd (publishRevision uuid input s))"
proof (cases "publishRevision uuid input s" rule: void.cases)
  case (1 e t)
  then show ?thesis using assms(1) by (auto dest!: publishRevision_InlD)
next
  case (2 r t)
  then show ?thesis using assms by (auto elim!: publishRevision_InrD intro!: publish_commit_inv)
qed

text \<open>From a state of the invariant, the publication inside a rebase cannot fail: the materialised
  Workspace is new, so no conflict names it, and it is active and bound to the change.\<close>

lemma rebase_bound_inv:
  assumes "cc_inv s" "change_ok s c" "workspace_ok s w"
  shows "cc_inv (rebase_bound c w s)"
proof -
  let ?c = "c\<lparr>ch_baseProjectRevisionId := ws_projectRevisionId w, ch_workspaceId := Some (ws_id w), ch_status := ChActive\<rparr>"
  let ?s = "s\<lparr>cc_workspaces := set_key (ws_id w) w (cc_workspaces s)\<rparr>"
  have "change_ok ?s ?c" using assms by (simp add: change_ok_def workspace_ok_def revisions_of_def)
  from inv_write_change [OF inv_write_workspace [OF assms(1,3)] this] show ?thesis by (simp add: rebase_bound_def)
qed

lemma createWorkspace_InrD:
  assumes "createWorkspace nfkc lower uuid input s = (Inr w, s')"
  shows "ws_id w = nullish (mw_id input) (opaqueId ''workspace'' uuid)" "ws_state w = WsActive"
    "workspace_ok s w" "\<exists>fs. s' = s\<lparr>cc_workspaces := set_key (ws_id w) w (cc_workspaces s), cc_fs := fs\<rparr>"
proof -
  from assms obtain p fs where w: "get_key (cc_projectRevisions s) (view_projectRevisionId (mw_view input)) = Some p"
    "materializeWorkspace nfkc lower uuid (cc_project s) input (cc_fs s) = (Inr w, fs)"
    "s' = s\<lparr>cc_workspaces := set_key (ws_id w) w (cc_workspaces s), cc_fs := fs\<rparr>"
    by (auto simp: createWorkspace_def Let_def split: option.splits if_splits prod.splits sum.splits)
  from w(2) have "ws_projectRevisionId w = view_projectRevisionId (mw_view input)
     \<and> ws_id w = nullish (mw_id input) (opaqueId ''workspace'' uuid) \<and> ws_state w = WsActive"
    by (rule materialize_InrD) simp
  with w show "ws_id w = nullish (mw_id input) (opaqueId ''workspace'' uuid)" "ws_state w = WsActive"
    "workspace_ok s w" "\<exists>fs. s' = s\<lparr>cc_workspaces := set_key (ws_id w) w (cc_workspaces s), cc_fs := fs\<rparr>"
    by (auto simp: workspace_ok_def has_key_def)
qed

lemma createWorkspace_InlD: "createWorkspace nfkc lower uuid input s = (Inl e, s') \<Longrightarrow> s' = s"
  by (auto simp: createWorkspace_def Let_def dest: materialize_InlD split: option.splits if_splits prod.splits sum.splits)

lemma rebase_publish_ok:
  assumes "\<forall>f\<in>set (map_values (cc_conflicts s)). conf_workspaceId f \<noteq> ws_id w" "ws_state w = WsActive" "ws_id w \<noteq> []"
  shows "\<exists>r s'. publishRevision uuid (rebase_revision_input c w effects) (rebase_bound c w s) = (Inr r, s')"
proof -
  let ?input = "rebase_revision_input c w effects"
  have "relevant_conflicts (rebase_bound c w s) d w = []" for d
    using assms(1) by (auto simp: relevant_conflicts_def rebase_bound_def filter_empty_conv)
  then have "publish_error ?input (rebase_bound c w s) d w = None" if "ch_workspaceId d = Some (ws_id w)" for d
    using assms(2) that by (simp add: publish_error_def rebase_revision_input_def Let_def loop_simps)
  moreover obtain d where "get_key (cc_changes (rebase_bound c w s)) (ch_id c) = Some d" "ch_workspaceId d = Some (ws_id w)"
    by (simp add: rebase_bound_def)
  moreover have "requireWorkspace (rebase_bound c w s) (Some (ws_id w)) = Inr w"
    using assms(3) by (simp add: requireWorkspace_def rebase_bound_def)
  ultimately show ?thesis using assms(3)
    by (simp add: publishRevision_def requireChange_def rebase_revision_input_def Let_def return_def)
qed

lemma rebase_finish_ok:
  assumes inv: "cc_inv s" "change_ok s c" "workspace_ok s w" "\<forall>p. prev = Some p \<longrightarrow> workspace_ok s p"
    and w: "\<forall>f\<in>set (map_values (cc_conflicts s)). conf_workspaceId f \<noteq> ws_id w" "ws_state w = WsActive" "ws_id w \<noteq> []"
    and fresh: "\<not> has_key (cc_revisions s) (opaqueId ''change-revision'' uuid)"
  obtains r s' where "rebase_finish uuid effects c prev w s = (Inr (w\<lparr>ws_changeId := Some (ch_id c)\<rparr>, r), s')" "cc_inv s'"
    "cc_projectRevisions s' = cc_projectRevisions s" "cc_revisions s' = set_key (rev_id r) r (cc_revisions s)"
    "rev_id r = opaqueId ''change-revision'' uuid"
proof -
  let ?w = "w\<lparr>ws_changeId := Some (ch_id c)\<rparr>"
  let ?b = "rebase_bound c ?w s"
  obtain r v where pub: "publishRevision uuid (rebase_revision_input c ?w effects) ?b = (Inr r, v)"
    using rebase_publish_ok [of s ?w uuid c effects] w by auto
  have b: "cc_revisions ?b = cc_revisions s" "cc_projectRevisions ?b = cc_projectRevisions s"
    by (simp_all add: rebase_bound_def)
  have "cc_inv ?b" using inv by (intro rebase_bound_inv) (simp_all add: workspace_ok_def)
  then have v: "cc_inv v" using publishRevision_inv [of ?b uuid] pub fresh b by (metis snd_conv)
  from pub have vr: "cc_revisions v = set_key (rev_id r) r (cc_revisions s)" "cc_projectRevisions v = cc_projectRevisions s"
      "rev_id r = opaqueId ''change-revision'' uuid"
    by (auto elim!: publishRevision_InrD simp: publish_commit_def new_revision_def b)
  define t where "t = (case prev of None \<Rightarrow> v | Some p \<Rightarrow> if ws_id p \<noteq> ws_id w
    then v\<lparr>cc_workspaces := set_key (ws_id p) (p\<lparr>ws_changeId := None, ws_state := WsClosed\<rparr>) (cc_workspaces v)\<rparr> else v)"
  have "cc_inv t"
  proof (cases prev)
    case (Some p)
    then have "workspace_ok v (p\<lparr>ws_changeId := None, ws_state := WsClosed\<rparr>)"
      using inv(4) vr(2) by (simp add: workspace_ok_def)
    from inv_write_workspace [OF v this] v show ?thesis by (simp add: t_def Some)
  qed (simp add: t_def v)
  moreover have "rebase_finish uuid effects c prev w s = (Inr (?w, r), t)"
    using pub by (simp add: rebase_finish_def t_def return_def split: option.split)
  moreover have "cc_revisions t = cc_revisions v" "cc_projectRevisions t = cc_projectRevisions v"
    by (simp_all add: t_def split: option.split)
  ultimately show thesis using that vr by simp
qed

lemma rebaseChange_cases:
  assumes inv: "cc_inv s" and ok: "cc_ok s (RebaseChange u input)"
  obtains e where "rebaseChange nfkc lower u input s = (Inl e, s)"
  | w r s' where "rebaseChange nfkc lower u input s = (Inr (w, r), s')" "cc_inv s'"
    "cc_projectRevisions s' = cc_projectRevisions s" "cc_revisions s' = set_key (rev_id r) r (cc_revisions s)"
    "rev_id r = opaqueId ''change-revision'' (u 1)"
proof (cases "rebase_begin (rbi_changeId input) s")
  case (Inl e)
  then show thesis using that(1) by (simp add: rebaseChange_def raise_def)
next
  case (Inr cp)
  then obtain c prev where cp: "cp = (c, prev)" and c: "get_key (cc_changes s) (rbi_changeId input) = Some c"
    and prev: "prev = None \<or> (\<exists>k p. prev = Some p \<and> get_key (cc_workspaces s) k = Some p)"
    by (auto simp: rebase_begin_def split: sum.splits if_splits dest!: requireChange_InrD requireWorkspace_InrD)
  show thesis
  proof (cases "createWorkspace nfkc lower (u 0) (rebase_workspace_input input) s" rule: void.cases)
    case (1 e t)
    then show thesis using that(1) Inr cp by (auto simp: rebaseChange_def raise_def dest: createWorkspace_InlD)
  next
    case (2 w t)
    note w = createWorkspace_InrD [OF 2]
    from w(4) obtain fs where t: "t = s\<lparr>cc_workspaces := set_key (ws_id w) w (cc_workspaces s), cc_fs := fs\<rparr>" by blast
    have wid: "ws_id w = opaqueId ''workspace'' (u 0)" using w(1) by (simp add: rebase_workspace_input_def)
    have tinv: "cc_inv t" using inv_write_fs [OF inv_write_workspace [OF inv w(3)]] by (simp add: t)
    have unused: "\<forall>f\<in>set (map_values (cc_conflicts t)). conf_workspaceId f \<noteq> ws_id w"
      using inv ok by (auto simp: t cc_inv_def conflict_ok_def wid)
    have oks: "change_ok t c" "workspace_ok t w" "\<forall>p. prev = Some p \<longrightarrow> workspace_ok t p"
      using inv_changeD [OF inv c] w(3) prev inv_workspaceD [OF inv]
      by (auto simp: change_ok_def workspace_ok_def t revisions_of_def)
    have new: "ws_id w \<noteq> []" "\<not> has_key (cc_revisions t) (opaqueId ''change-revision'' (u 1))"
      using ok by (simp_all add: wid t)
    obtain r s' where "rebase_finish (u 1) (rbi_declaredEffects input) c prev w t = (Inr (w\<lparr>ws_changeId := Some (ch_id c)\<rparr>, r), s')"
      "cc_inv s'" "cc_projectRevisions s' = cc_projectRevisions t" "cc_revisions s' = set_key (rev_id r) r (cc_revisions t)"
      "rev_id r = opaqueId ''change-revision'' (u 1)"
      by (rule rebase_finish_ok [OF tinv oks unused w(2) new])
    then show thesis using that(2) Inr cp 2 by (simp add: rebaseChange_def t)
  qed
qed

section \<open>Landing\<close>

text \<open>What the selection loop promises of a member and the pair it selects.\<close>

definition selects :: "Coordinator \<Rightarrow> CohortMember \<Rightarrow> selected_member \<Rightarrow> bool" where
  "selects s member pair = (case pair of (change, revision) \<Rightarrow>
     get_key (cc_changes s) (cm_changeId member) = Some change
   \<and> get_key (cc_revisions s) (cm_changeRevisionId member) = Some revision
   \<and> rev_changeId revision = ch_id change \<and> ch_latestRevisionId change = Some (rev_id revision)
   \<and> (\<forall>conflict\<in>set (map_values (cc_conflicts s)). conf_changeId conflict = ch_id change
        \<and> Some (conf_workspaceId conflict) = rev_workspaceId revision \<longrightarrow> conf_state conflict \<noteq> ConfOpen))"

lemma select_member_iff: "select_member s m acc = Inr sel \<longleftrightarrow> (\<exists>pair. selects s m pair \<and> sel = acc @ [pair])"
  by (auto simp: select_member_def selects_def requireChange_def Let_def filter_empty_conv split: option.splits)

lemma select_members_iff:
  "fold_loop (select_member s) ms acc = Inr sel \<longleftrightarrow> (\<exists>new. list_all2 (selects s) ms new \<and> sel = acc @ new)"
proof (induction ms arbitrary: acc)
  case (Cons m ms)
  have "fold_loop (select_member s) (m # ms) acc = Inr sel
      \<longleftrightarrow> (\<exists>mid. select_member s m acc = Inr mid \<and> fold_loop (select_member s) ms mid = Inr sel)"
    by (auto split: sum.splits)
  also have "\<dots> \<longleftrightarrow> (\<exists>pair new. selects s m pair \<and> list_all2 (selects s) ms new \<and> sel = acc @ pair # new)"
    unfolding select_member_iff Cons.IH by (metis append.assoc append_Cons append_Nil)
  also have "\<dots> \<longleftrightarrow> (\<exists>new. list_all2 (selects s) (m # ms) new \<and> sel = acc @ new)"
    by (auto simp: list_all2_Cons1)
  finally show ?case .
qed auto

text \<open>A landing that returns: the members are distinct changes at their latest revisions, the expected
  revision is the canonical one, every member is based on it, and the snapshots compose.\<close>

definition landing_selected :: "LandCohortInput \<Rightarrow> Coordinator \<Rightarrow> selected_member list \<Rightarrow> bool" where
  "landing_selected input s selected \<longleftrightarrow>
     lci_members input \<noteq> [] \<and> distinct (map cm_changeId (lci_members input))
   \<and> list_all2 (selects s) (lci_members input) selected
   \<and> lci_expectedCanonicalProjectRevisionId input = prev_id (cc_canonical s)
   \<and> (\<forall>m\<in>set selected. member_base_error s m = None)"

lemma landCohort_iff:
  "landCohort u input s = (Inr landing, s') \<longleftrightarrow>
     (\<exists>selected next. landing_selected input s selected
       \<and> fold_loop (compose_member (lci_cohortId input) s) selected (prev_sourceSpaceSnapshots (cc_canonical s)) = Inr next
       \<and> land_commit u input selected next s = (Inr landing, s'))"
proof -
  have "landing_selected input s selected \<longleftrightarrow> lci_members input \<noteq> [] \<and> distinct (map cm_changeId (lci_members input))
     \<and> fold_loop (select_member s) (lci_members input) [] = Inr selected
     \<and> lci_expectedCanonicalProjectRevisionId input = prev_id (cc_canonical s)
     \<and> check_loop (member_base_error s) selected = None" for selected
    by (simp add: landing_selected_def select_members_iff check_loop_None)
  then show ?thesis by (auto simp: landCohort_def split: sum.splits option.splits)
qed

lemma landCohort_InlD: "landCohort u input s = (Inl e, s') \<Longrightarrow> s' = s"
  by (auto simp: landCohort_def land_commit_def Let_def split: sum.splits option.splits if_splits)

lemma inv_write_changes:
  "cc_inv s \<Longrightarrow> \<forall>(c, r)\<in>set sel. change_ok s c \<Longrightarrow>
   cc_inv (s\<lparr>cc_changes := foldl (\<lambda>m (change, revision). set_key (ch_id change) (change\<lparr>ch_status := ChLanded\<rparr>) m)
     (cc_changes s) sel\<rparr>)"
proof (induction sel arbitrary: s)
  case (Cons m sel)
  obtain c r where m: "m = (c, r)" by (cases m)
  have "change_ok s (c\<lparr>ch_status := ChLanded\<rparr>)" using Cons.prems by (simp add: m change_ok_def)
  from Cons.IH [OF inv_write_change [OF Cons.prems(1) this]] Cons.prems
  show ?case by (auto simp: m change_ok_def revisions_of_def)
qed simp

lemma inv_write_canonical:
  assumes "cc_inv s" "\<not> has_key (cc_projectRevisions s) (prev_id p)" "prev_id p \<noteq> []"
    "prev_projectId p = proj_id (cc_project s)" "lands_on (cc_revisions s) (cc_canonical s) p"
  shows "cc_inv (s\<lparr>cc_projectRevisions := set_key (prev_id p) p (cc_projectRevisions s), cc_canonical := p\<rparr>)"
proof -
  have "set_key (prev_id p) p (cc_projectRevisions s) \<noteq> []"
    using assms(2) by (simp add: set_key_fresh has_key_def)
  moreover have "map_values (cc_projectRevisions s) \<noteq> []"
    using assms(1) by (simp add: cc_inv_def history_ok_def map_values_def)
  ultimately show ?thesis using assms
    by (auto simp: cc_inv_def keys_match_def history_ok_def workspace_ok_def change_ok_def revision_ok_def conflict_ok_def
        revisions_of_def map_values_fresh linear_history_snoc)
qed

lemma landing_selectedD:
  assumes "cc_inv s" "landing_selected input s selected"
  shows "selected \<noteq> []" "map (ch_id \<circ> fst) selected = map cm_changeId (lci_members input)"
    "map (rev_id \<circ> snd) selected = map cm_changeRevisionId (lci_members input)"
    "\<forall>m\<in>set selected. get_key (cc_changes s) (ch_id (fst m)) = Some (fst m)
       \<and> get_key (cc_revisions s) (rev_id (snd m)) = Some (snd m)
       \<and> rev_changeId (snd m) = ch_id (fst m) \<and> rev_projectRevisionId (snd m) = prev_id (cc_canonical s)"
    "distinct (map (rev_id \<circ> snd) selected)"
proof -
  have sel: "list_all2 (selects s) (lci_members input) selected" "lci_members input \<noteq> []"
      "distinct (map cm_changeId (lci_members input))" "\<forall>m\<in>set selected. member_base_error s m = None"
    using assms(2) by (simp_all add: landing_selected_def)
  have ids: "selects s m (c, r) \<Longrightarrow> ch_id c = cm_changeId m \<and> rev_id r = cm_changeRevisionId m" for m c r
    using inv_changeD [OF assms(1)] inv_revisionD [OF assms(1)] by (fastforce simp: selects_def)
  show "selected \<noteq> []" using sel(1,2) by auto
  show m1: "map (ch_id \<circ> fst) selected = map cm_changeId (lci_members input)"
    using sel(1) by (induction rule: list_all2_induct) (auto dest: ids)
  show "map (rev_id \<circ> snd) selected = map cm_changeRevisionId (lci_members input)"
    using sel(1) by (induction rule: list_all2_induct) (auto dest: ids)
  show stored: "\<forall>m\<in>set selected. get_key (cc_changes s) (ch_id (fst m)) = Some (fst m)
       \<and> get_key (cc_revisions s) (rev_id (snd m)) = Some (snd m)
       \<and> rev_changeId (snd m) = ch_id (fst m) \<and> rev_projectRevisionId (snd m) = prev_id (cc_canonical s)"
  proof
    fix m assume "m \<in> set selected"
    moreover obtain c r where m': "m = (c, r)" by (rule prod.exhaust)
    ultimately have cr: "(c, r) \<in> set selected" by simp
    from cr sel(1) obtain k where m: "selects s k (c, r)" by (auto simp: list_all2_conv_all_nth in_set_conv_nth)
    from m have r: "get_key (cc_revisions s) (cm_changeRevisionId k) = Some r" by (simp add: selects_def)
    from inv_revisionD [OF assms(1) r] have "rev_baseProjectRevisionId r = Some (rev_projectRevisionId r)"
      by (simp add: revision_ok_def)
    with sel(4) cr have "rev_projectRevisionId r = prev_id (cc_canonical s)"
      by (auto simp: member_base_error_def fail_if_None)
    with m ids [OF m] show "get_key (cc_changes s) (ch_id (fst m)) = Some (fst m)
       \<and> get_key (cc_revisions s) (rev_id (snd m)) = Some (snd m)
       \<and> rev_changeId (snd m) = ch_id (fst m) \<and> rev_projectRevisionId (snd m) = prev_id (cc_canonical s)"
      by (simp add: selects_def m')
  qed
  have inj: "distinct selected" "inj_on (ch_id \<circ> fst) (set selected)"
    using sel(3) m1 distinct_map [of "ch_id \<circ> fst" selected] by simp_all
  have "p = q" if "p \<in> set selected" "q \<in> set selected" "rev_id (snd p) = rev_id (snd q)" for p q
  proof -
    from stored that have "Some (snd p) = Some (snd q)" by metis
    moreover have "ch_id (fst p) = rev_changeId (snd p)" "ch_id (fst q) = rev_changeId (snd q)"
      using stored that by simp_all
    ultimately have "ch_id (fst p) = ch_id (fst q)" by simp
    then show ?thesis using inj(2) that by (simp add: inj_on_def)
  qed
  then show "distinct (map (rev_id \<circ> snd) selected)"
    using inj(1) by (simp add: distinct_map inj_on_def)
qed

definition landed_revision :: "(nat \<Rightarrow> string) \<Rightarrow> LandCohortInput \<Rightarrow> selected_member list \<Rightarrow> (string, string) jsmap
    \<Rightarrow> Coordinator \<Rightarrow> ProjectRevision" where
  "landed_revision u input selected next s = \<lparr>prev_id = opaqueId ''project-revision'' (u 0),
     prev_projectId = proj_id (cc_project s), prev_sourceSpaceSnapshots = next,
     prev_parentProjectRevisionId = keep_truthy (Some (prev_id (cc_canonical s))),
     prev_landedChangeRevisionId = keep_truthy (Some (rev_id (snd (hd selected)))),
     prev_landedChangeRevisionIds = Some (map (rev_id \<circ> snd) selected),
     prev_landingCohortId = keep_truthy (lci_cohortId input)\<rparr>"

lemma prev_id_landed [simp]: "prev_id (landed_revision u input selected next s) = opaqueId ''project-revision'' (u 0)"
  by (simp add: landed_revision_def)

lemma land_commit_eq:
  assumes "selected \<noteq> []" "land_commit u input selected next s = (Inr landing, s')"
  shows "s' = s\<lparr>cc_projectRevisions := set_key (opaqueId ''project-revision'' (u 0)) (landed_revision u input selected next s)
        (cc_projectRevisions s),
      cc_canonical := landed_revision u input selected next s,
      cc_changes := foldl (\<lambda>m (change, revision). set_key (ch_id change) (change\<lparr>ch_status := ChLanded\<rparr>) m) (cc_changes s) selected\<rparr>"
    "land_previousProjectRevisionId landing = prev_id (cc_canonical s)"
    "land_projectRevisionId landing = opaqueId ''project-revision'' (u 0)"
    "land_changeIds landing = Some (map (ch_id \<circ> fst) selected)"
    "land_changeRevisionIds landing = Some (map (rev_id \<circ> snd) selected)"
  using assms by (auto simp: land_commit_def landed_revision_def createProjectRevision_def Let_def hd_map keep_truthy_def)

lemma keep_truthy_Some: "x \<noteq> [] \<Longrightarrow> keep_truthy (Some x) = Some x"
  by (simp add: keep_truthy_def)

lemma landCohort_inv:
  assumes inv: "cc_inv s" and ok: "cc_ok s (LandCohort u input)"
  shows "cc_inv (snd (landCohort u input s))"
proof (cases "landCohort u input s" rule: void.cases)
  case (1 e t)
  then show ?thesis using inv by (auto dest!: landCohort_InlD)
next
  case (2 landing t)
  then obtain selected nxt where sel: "landing_selected input s selected"
    and commit: "land_commit u input selected nxt s = (Inr landing, t)" by (auto simp: landCohort_iff)
  note D = landing_selectedD [OF inv sel]
  let ?p = "landed_revision u input selected nxt s"
  have "prev_id (cc_canonical s) \<noteq> []"
    using inv canonical_stored [OF inv] by (auto simp: cc_inv_def history_ok_def dest: get_key_mem)
  then have "lands_on (cc_revisions s) (cc_canonical s) ?p"
    using D(1,4,5) by (force simp: lands_on_def landed_ids_def landed_revision_def keep_truthy_Some)
  then have "cc_inv (s\<lparr>cc_projectRevisions := set_key (prev_id ?p) ?p (cc_projectRevisions s), cc_canonical := ?p\<rparr>)" (is "cc_inv ?s")
    using ok by (intro inv_write_canonical [OF inv]) (simp_all add: landed_revision_def)
  moreover have "change_ok s (fst m)" if "m \<in> set selected" for m
    using D(4) inv_changeD [OF inv] that by blast
  then have "\<forall>(c, r)\<in>set selected. change_ok ?s c"
    by (fastforce simp: change_ok_def revisions_of_def)
  ultimately have "cc_inv (?s\<lparr>cc_changes := foldl (\<lambda>m (change, revision). set_key (ch_id change) (change\<lparr>ch_status := ChLanded\<rparr>) m)
     (cc_changes ?s) selected\<rparr>)" by (rule inv_write_changes)
  then show ?thesis by (simp add: 2 land_commit_eq(1) [OF D(1) commit])
qed

section \<open>The coordinator as a machine\<close>

lemma cc_step_inv:
  assumes "cc_inv s" "cc_ok s x"
  shows "cc_inv (snd (cc_step nfkc lower x s))"
proof (cases x)
  case (RebaseChange u input)
  with assms(2) have "cc_ok s (RebaseChange u input)" by simp
  then show ?thesis
    using assms(1) by (cases rule: rebaseChange_cases [OF assms(1) \<open>cc_ok s (RebaseChange u input)\<close>, of nfkc lower]) (simp_all add: RebaseChange)
qed (use assms in \<open>simp_all add: createWorkspace_inv createChange_inv registerConflict_inv resolveConflict_inv
  publishRevision_inv handoffChange_inv revertChange_inv landCohort_inv\<close>)

lemma cc_step_atomic:
  assumes "cc_inv s" "cc_ok s x" "fst (cc_step nfkc lower x s) = Inl e"
  shows "snd (cc_step nfkc lower x s) = s"
proof (cases x)
  case (RebaseChange u input)
  then show ?thesis using assms by (auto elim!: rebaseChange_cases [of s u input nfkc lower])
next
  case (CreateWorkspace uuid input)
  then show ?thesis using assms(3)
    by (cases "createWorkspace nfkc lower uuid input s") (auto dest: createWorkspace_InlD)
next
  case (PublishRevision uuid input)
  then show ?thesis using assms(3) by (cases "publishRevision uuid input s") (auto dest: publishRevision_InlD)
next
  case (LandCohort u input)
  then show ?thesis using assms(3) by (cases "landCohort u input s") (auto dest: landCohort_InlD)
next
  case (CreateChange uuid input)
  then show ?thesis using assms(3) by (auto simp: createChange_def Let_def split: option.splits if_splits)
next
  case (RegisterConflict uuid input)
  then show ?thesis using assms(3) by (simp add: registerConflict_Inl)
next
  case (ResolveConflict i)
  then show ?thesis using assms(3) by (auto simp: resolveConflict_def Let_def split: option.splits)
next
  case (HandoffChange c a)
  then show ?thesis using assms(3) by (auto simp: handoffChange_def Let_def split: sum.splits)
next
  case (RevertChange uuid input)
  then show ?thesis using assms(3) by (simp add: revertChange_Inl)
qed

interpretation coordinator: atomic_machine "cc_step nfkc lower" cc_ok cc_inv for nfkc lower
  by unfold_locales (simp_all add: cc_step_inv cc_step_atomic)

text \<open>Published Change Revisions and Project Revisions are immutable: the two maps only grow.\<close>

definition records_kept :: "Coordinator \<Rightarrow> Coordinator \<Rightarrow> bool" where
  "records_kept s t \<longleftrightarrow> (\<exists>ps. cc_projectRevisions t = cc_projectRevisions s @ ps) \<and> (\<exists>rs. cc_revisions t = cc_revisions s @ rs)"

lemma records_kept_refl: "cc_projectRevisions t = cc_projectRevisions s \<Longrightarrow> cc_revisions t = cc_revisions s \<Longrightarrow> records_kept s t"
  by (simp add: records_kept_def)

lemma records_kept_revision:
  "cc_projectRevisions t = cc_projectRevisions s \<Longrightarrow> cc_revisions t = set_key k r (cc_revisions s) \<Longrightarrow>
   \<not> has_key (cc_revisions s) k \<Longrightarrow> records_kept s t"
  by (simp add: records_kept_def set_key_fresh has_key_def)

lemma records_kept_project_revision:
  "cc_revisions t = cc_revisions s \<Longrightarrow> cc_projectRevisions t = set_key k p (cc_projectRevisions s) \<Longrightarrow>
   \<not> has_key (cc_projectRevisions s) k \<Longrightarrow> records_kept s t"
  by (simp add: records_kept_def set_key_fresh has_key_def)

lemma publishRevision_kept:
  assumes "\<not> has_key (cc_revisions s) (opaqueId ''change-revision'' uuid)"
  shows "records_kept s (snd (publishRevision uuid input s))"
proof (cases "publishRevision uuid input s" rule: void.cases)
  case (2 r t)
  then show ?thesis using assms
    by (auto elim!: publishRevision_InrD simp: publish_commit_def new_revision_def intro!: records_kept_revision)
qed (auto dest!: publishRevision_InlD intro: records_kept_refl)

lemma cc_step_kept:
  assumes "cc_inv s" "cc_ok s x"
  shows "records_kept s (snd (cc_step nfkc lower x s))"
proof (cases x)
  case (RebaseChange u input)
  with assms(2) have "cc_ok s (RebaseChange u input)" by simp
  then show ?thesis using assms
    by (cases rule: rebaseChange_cases [OF assms(1) \<open>cc_ok s (RebaseChange u input)\<close>, of nfkc lower])
      (auto simp: RebaseChange intro: records_kept_refl records_kept_revision)
next
  case (LandCohort u input)
  show ?thesis
  proof (cases "landCohort u input s" rule: void.cases)
    case (2 landing t)
    then obtain selected nxt where "selected \<noteq> []" "land_commit u input selected nxt s = (Inr landing, t)"
      using landing_selectedD(1) [OF assms(1)] by (auto simp: landCohort_iff)
    note t = land_commit_eq(1) [OF this]
    show ?thesis using assms(2) by (auto simp: LandCohort 2 t intro!: records_kept_project_revision)
  qed (auto simp: LandCohort dest!: landCohort_InlD intro: records_kept_refl)
next
  case (CreateWorkspace uuid input)
  then show ?thesis
    by (auto simp: createWorkspace_def Let_def intro!: records_kept_refl split: option.split prod.split sum.split)
qed (use assms in \<open>auto simp: createChange_def registerConflict_def resolveConflict_def handoffChange_def revertChange_def
  Let_def publishRevision_kept intro!: records_kept_refl split: option.split sum.split\<close>)

interpretation records: growing_machine "cc_step nfkc lower" "\<lambda>s x. cc_inv s \<and> cc_ok s x" records_kept for nfkc lower
proof (unfold_locales, goal_cases)
  case (2 s t u)
  then show ?case by (auto simp: records_kept_def)
qed (auto simp: cc_step_kept intro: records_kept_refl)

lemma admissible_inv:
  "cc_inv s \<Longrightarrow> admissible cc_ok (cc_step nfkc lower) xs s \<Longrightarrow> admissible (\<lambda>s x. cc_inv s \<and> cc_ok s x) (cc_step nfkc lower) xs s"
  by (induction xs arbitrary: s) (auto simp: cc_step_inv)

lemma new_coordinator_inv: "new_coordinator project spaces revision fs = Inr s \<Longrightarrow> prev_id revision \<noteq> [] \<Longrightarrow> cc_inv s"
  by (auto simp: new_coordinator_def cc_inv_def keys_match_def history_ok_def ids_match_def distinct_keys_def get_key_def
      map_values_def split: if_splits)

section \<open>Properties of every run\<close>


text \<open>
  C19. The Project Revisions form one line of history ending in the canonical revision: each but the
  first names its predecessor as parent, all belong to the project, and every Change Revision landed by
  it had been published on that very predecessor. No Change Revision ever lands twice.
\<close>

theorem canonical_history_linear:
  assumes "new_coordinator project sourceSpaces revision fs = Inr s0" and "prev_id revision \<noteq> []"
    and "admissible cc_ok (cc_step nfkc lower) ops s0"
  defines "s \<equiv> run_ops (cc_step nfkc lower) ops s0"
  shows "cc_canonical s = last (map_values (cc_projectRevisions s))
    \<and> list_all (\<lambda>p. prev_projectId p = proj_id (cc_project s)) (map_values (cc_projectRevisions s))
    \<and> linear_history (cc_revisions s) (map_values (cc_projectRevisions s))
    \<and> distinct (concat (map landed_ids (tl (map_values (cc_projectRevisions s)))))"
proof -
  have inv: "cc_inv s"
    unfolding s_def using assms(1-3) by (intro coordinator.run_inv) (auto intro: new_coordinator_inv)
  have "map prev_id (map_values (cc_projectRevisions s)) = map fst (cc_projectRevisions s)"
    using inv by (auto simp: cc_inv_def keys_match_def ids_match_def distinct_keys_def get_key_def map_values_def)
  then have "distinct (map prev_id (map_values (cc_projectRevisions s)))"
    using inv by (simp add: cc_inv_def keys_match_def ids_match_def distinct_keys_def)
  with inv have "distinct (concat (map landed_ids (tl (map_values (cc_projectRevisions s)))))"
    by (intro linear_history_landed_once [of "cc_revisions s"]) (simp add: cc_inv_def history_ok_def)
  then show ?thesis using inv by (simp add: cc_inv_def history_ok_def list_all_iff)
qed

text \<open>
  Published records are immutable. A Change Revision or a Project Revision the coordinator holds
  after some calls is held, unchanged, after any further calls.
\<close>

theorem published_records_immutable:
  assumes "new_coordinator project sourceSpaces revision fs = Inr s0" and "prev_id revision \<noteq> []"
    and "admissible cc_ok (cc_step nfkc lower) (ops @ later) s0"
  defines "s \<equiv> run_ops (cc_step nfkc lower) ops s0" and "t \<equiv> run_ops (cc_step nfkc lower) (ops @ later) s0"
  shows "(\<forall>i r. getRevision s i = Some r \<longrightarrow> getRevision t i = Some r)
    \<and> (\<forall>i p. get_key (cc_projectRevisions s) i = Some p \<longrightarrow> get_key (cc_projectRevisions t) i = Some p)"
proof -
  have inv: "cc_inv s"
    unfolding s_def using assms(1-3) by (intro coordinator.run_inv) (auto intro: new_coordinator_inv)
  have "records_kept s t" using assms(3)
    by (auto simp: t_def s_def intro!: records.run_grows admissible_inv inv [unfolded s_def])
  then show ?thesis
    by (auto simp: records_kept_def getRevision_def get_key_def)
qed

text \<open>
  C21. Failed calls leave no trace: a run ends in the state that its successful calls alone produce,
  file system included.
\<close>

theorem failed_calls_leave_no_trace:
  assumes "new_coordinator project sourceSpaces revision fs = Inr s0" and "prev_id revision \<noteq> []"
    and "admissible cc_ok (cc_step nfkc lower) ops s0"
  shows "run_ops (cc_step nfkc lower) (effective (cc_step nfkc lower) ops s0) s0 = run_ops (cc_step nfkc lower) ops s0"
  using assms by (intro coordinator.run_effective) (auto intro: new_coordinator_inv)

section \<open>A concrete run\<close>

definition demo_coordinator :: Coordinator where
  "demo_coordinator = \<lparr>cc_project = demo_project, cc_sourceSpaces = demo_spaces, cc_canonical = demo_revision,
     cc_projectRevisions = [(''r0'', demo_revision)], cc_workspaces = [], cc_changes = [], cc_revisions = [],
     cc_conflicts = [], cc_fs = []\<rparr>"

definition demo_workspace_input :: "string \<Rightarrow> MaterializeWorkspaceInput" where
  "demo_workspace_input directory = \<lparr>mw_view = demo_view,
     mw_sources = [\<lparr>src_sourceSpaceId = ''player'', src_snapshotId = ''s1'', src_files = [(''main.ts'', ''x'')]\<rparr>],
     mw_mounts = [\<lparr>wmc_sourceSpaceId = ''player'', wmc_mountPath = ''player''\<rparr>],
     mw_directory = directory, mw_id = None, mw_actorId = None\<rparr>"

definition demo_publish :: "string \<Rightarrow> string \<Rightarrow> PublishRevisionInput" where
  "demo_publish changeId snapshot = \<lparr>pri_changeId = changeId, pri_workspaceId = None, pri_declaredEffects = [''ui''],
     pri_sourceSpaceSnapshots = Some [(''player'', snapshot)], pri_conflictIds = None, pri_kind = None, pri_actor = None,
     pri_affectedModuleIds = None, pri_affectedTargetIds = None\<rparr>"

definition demo_change :: "string \<Rightarrow> CreateChangeInput" where
  "demo_change workspaceId = \<lparr>cci_intentId = ''i'', cci_workspaceId = workspaceId, cci_id = None, cci_author = None, cci_origin = None\<rparr>"

text \<open>The second call for a change on the same Workspace fails.\<close>

definition demo_work :: "cc_op list" where
  "demo_work = [CreateWorkspace ''1'' (demo_workspace_input ''/a''), CreateChange ''1'' (demo_change ''workspace:1''),
     CreateChange ''2'' (demo_change ''workspace:1''), PublishRevision ''1'' (demo_publish ''change:1'' ''s2''),
     PublishRevision ''2'' (demo_publish ''change:1'' ''s3'')]"

definition demo_land :: "string \<Rightarrow> cc_op" where
  "demo_land uuid = LandCohort (\<lambda>n. uuid) \<lparr>lci_cohortId = None,
     lci_members = [\<lparr>cm_changeId = ''change:1'', cm_changeRevisionId = ''change-revision:2''\<rparr>],
     lci_expectedCanonicalProjectRevisionId = ''r0''\<rparr>"

lemma demo_new: "new_coordinator demo_project demo_spaces demo_revision [] = Inr demo_coordinator" "prev_id demo_revision \<noteq> []"
  by (simp_all add: new_coordinator_def demo_coordinator_def demo_defs)

lemma demo_work_admissible: "admissible cc_ok (cc_step ascii_nfkc ascii_lower) demo_work demo_coordinator"
  by code_simp

definition demo_state :: "cc_op list \<Rightarrow> Coordinator" where
  "demo_state ops = run_ops (cc_step ascii_nfkc ascii_lower) ops demo_coordinator"


lemma demo_land_admissible: "admissible cc_ok (cc_step ascii_nfkc ascii_lower) (demo_work @ [demo_land ''1'', demo_land ''2'']) demo_coordinator"
  by code_simp

theorem canonical_history_linear_witness:
  "prev_id (cc_canonical (demo_state (demo_work @ [demo_land ''1'', demo_land ''2'']))) = ''project-revision:1''
     \<and> distinct (concat (map landed_ids (tl (map_values (cc_projectRevisions (demo_state (demo_work @ [demo_land ''1'', demo_land ''2''])))))))"
proof
  show "prev_id (cc_canonical (demo_state (demo_work @ [demo_land ''1'', demo_land ''2'']))) = ''project-revision:1''" by code_simp
  show "distinct (concat (map landed_ids (tl (map_values (cc_projectRevisions (demo_state (demo_work @ [demo_land ''1'', demo_land ''2''])))))))"
    using canonical_history_linear [OF demo_new demo_land_admissible] by (simp add: demo_state_def)
qed

theorem published_records_immutable_witness:
  "getRevision (demo_state (demo_work @ [demo_land ''1'', demo_land ''2''])) ''change-revision:1'' = getRevision (demo_state demo_work) ''change-revision:1''
     \<and> getRevision (demo_state demo_work) ''change-revision:1'' \<noteq> None"
proof -
  have "getRevision (demo_state demo_work) ''change-revision:1'' \<noteq> None" by code_simp
  then show ?thesis
    using published_records_immutable [OF demo_new demo_land_admissible] by (auto simp: demo_state_def)
qed

theorem failed_calls_leave_no_trace_witness:
  "length (effective (cc_step ascii_nfkc ascii_lower) (demo_work @ [demo_land ''1'', demo_land ''2'']) demo_coordinator) = 5
     \<and> demo_state (effective (cc_step ascii_nfkc ascii_lower) (demo_work @ [demo_land ''1'', demo_land ''2'']) demo_coordinator)
         = demo_state (demo_work @ [demo_land ''1'', demo_land ''2''])"
proof
  show "length (effective (cc_step ascii_nfkc ascii_lower) (demo_work @ [demo_land ''1'', demo_land ''2'']) demo_coordinator) = 5"
    by code_simp
  show "demo_state (effective (cc_step ascii_nfkc ascii_lower) (demo_work @ [demo_land ''1'', demo_land ''2'']) demo_coordinator)
         = demo_state (demo_work @ [demo_land ''1'', demo_land ''2''])"
    using failed_calls_leave_no_trace [OF demo_new demo_land_admissible] by (simp add: demo_state_def)
qed

end
