(* ===== verification/Landing.thy ===== *)
theory Landing
  imports Change_Invariant
begin

text \<open>
  The atomic Landing of an Integration Cohort (\<open>landCohort\<close> and \<open>landChange\<close> of
  \<open>src/src/change-control/local.ts\<close>): when it succeeds, what it does to the canonical revision, and
  what it refuses. The two nested loops that compose the snapshots of the members are shown to be one
  pass over the list of all entries, which succeeds exactly when the entries are \<open>composable\<close>. The last
  section proves some behaviours of the coordinator that differ from what its messages promise.
\<close>

section \<open>Composition of snapshots\<close>

definition write_all :: "(string \<times> string) list \<Rightarrow> (string, string) jsmap \<Rightarrow> (string, string) jsmap" where
  "write_all entries m = foldl (\<lambda>m (k, v). set_key k v m) m entries"

definition member_entries :: "selected_member list \<Rightarrow> (string \<times> string) list" where
  "member_entries selected = concat (map (\<lambda>m. nullish (rev_sourceSpaceSnapshots (snd m)) []) selected)"

text \<open>All Source Spaces are the project's, and of two entries for one Source Space the earlier one is
  equal to the later one or to the snapshot of the canonical revision.\<close>

definition composable :: "string list \<Rightarrow> (string, string) jsmap \<Rightarrow> (string \<times> string) list \<Rightarrow> bool" where
  "composable spaces base entries \<longleftrightarrow> list_all (\<lambda>(i, v). i \<in> set spaces) entries
     \<and> sorted_wrt (\<lambda>(i, v) (j, w). i = j \<longrightarrow> v = w \<or> get_key base i = Some v) entries"

fun entries_ok :: "string list \<Rightarrow> (string, string) jsmap \<Rightarrow> (string \<times> string) list \<Rightarrow> (string, string) jsmap \<Rightarrow> bool" where
  "entries_ok spaces base [] m = True"
| "entries_ok spaces base ((i, v) # es) m =
     (i \<in> set spaces \<and> (case get_key m i of None \<Rightarrow> True | Some w \<Rightarrow> w = v \<or> get_key base i = Some w)
      \<and> entries_ok spaces base es (set_key i v m))"

lemma write_all_simps [simp]:
  "write_all [] m = m" "write_all ((i, v) # es) m = write_all es (set_key i v m)"
  "write_all (es @ fs) m = write_all fs (write_all es m)"
  by (simp_all add: write_all_def)

lemma get_write_all: "get_key (write_all es m) i = (case map_of (rev es) i of Some v \<Rightarrow> Some v | None \<Rightarrow> get_key m i)"
  by (simp add: write_all_def get_foldl_set_key)

lemma entries_ok_append [simp]:
  "entries_ok spaces base (es @ fs) m \<longleftrightarrow> entries_ok spaces base es m \<and> entries_ok spaces base fs (write_all es m)"
  by (induction es arbitrary: m) auto

lemma compose_entry_iff:
  "compose_entry cohortId s change (i, v) m = Inr n \<longleftrightarrow>
     i \<in> set (proj_sourceSpaceIds (cc_project s)) \<and> n = set_key i v m
     \<and> (case get_key m i of None \<Rightarrow> True | Some w \<Rightarrow> w = v \<or> get_key (prev_sourceSpaceSnapshots (cc_canonical s)) i = Some w)"
  by (cases "get_key m i") (auto simp: compose_entry_def)

lemma compose_entries_iff:
  "fold_loop (compose_entry cohortId s change) es m = Inr n \<longleftrightarrow>
     entries_ok (proj_sourceSpaceIds (cc_project s)) (prev_sourceSpaceSnapshots (cc_canonical s)) es m \<and> n = write_all es m"
proof (induction es arbitrary: m)
  case (Cons e es)
  obtain i v where e: "e = (i, v)" by (rule prod.exhaust)
  show ?case unfolding e fold_loop_Cons_Inr compose_entry_iff Cons.IH by auto
qed auto

lemma compose_members_iff:
  "fold_loop (compose_member cohortId s) selected m = Inr n \<longleftrightarrow>
     entries_ok (proj_sourceSpaceIds (cc_project s)) (prev_sourceSpaceSnapshots (cc_canonical s)) (member_entries selected) m
     \<and> n = write_all (member_entries selected) m"
proof (induction selected arbitrary: m)
  case (Cons x selected)
  obtain change revision where x: "x = (change, revision)" by (rule prod.exhaust)
  have "compose_member cohortId s x m = Inr k \<longleftrightarrow>
      entries_ok (proj_sourceSpaceIds (cc_project s)) (prev_sourceSpaceSnapshots (cc_canonical s))
        (nullish (rev_sourceSpaceSnapshots revision) []) m
      \<and> k = write_all (nullish (rev_sourceSpaceSnapshots revision) []) m" for k
    by (simp add: compose_member_def x compose_entries_iff)
  then show ?case unfolding fold_loop_Cons_Inr Cons.IH by (auto simp: x member_entries_def)
qed (auto simp: member_entries_def)

lemma composable_snoc:
  "composable spaces base (es @ [(i, v)]) \<longleftrightarrow> composable spaces base es \<and> i \<in> set spaces
     \<and> (\<forall>w. (i, w) \<in> set es \<longrightarrow> w = v \<or> get_key base i = Some w)"
  by (auto simp: composable_def sorted_wrt_append)

lemma composable_last:
  assumes "composable spaces base es" "(i, v) \<in> set es" "get_key base i \<noteq> Some v"
  shows "map_of (rev es) i = Some v"
  using assms
proof (induction es rule: rev_induct)
  case (snoc e es)
  then show ?case by (cases e) (auto simp: composable_snoc)
qed simp

lemma entries_ok_iff_composable: "entries_ok spaces base es base \<longleftrightarrow> composable spaces base es"
proof (induction es rule: rev_induct)
  case (snoc e es)
  obtain i v where e: "e = (i, v)" by (rule prod.exhaust)
  have "(case get_key (write_all es base) i of None \<Rightarrow> True | Some w \<Rightarrow> w = v \<or> get_key base i = Some w)
     \<longleftrightarrow> (\<forall>w. (i, w) \<in> set es \<longrightarrow> w = v \<or> get_key base i = Some w)" if comp: "composable spaces base es"
  proof (cases "map_of (rev es) i")
    case None
    then have "(i, w) \<notin> set es" for w by (force simp: map_of_eq_None_iff)
    with None show ?thesis by (simp add: get_write_all split: option.split)
  next
    case (Some u)
    then have u: "(i, u) \<in> set es" by (auto dest: map_of_SomeD)
    moreover have "w = u \<or> get_key base i = Some w" if "(i, w) \<in> set es" for w
      using composable_last [OF comp that] Some by auto
    ultimately show ?thesis using Some by (auto simp: get_write_all)
  qed
  then show ?case using snoc.IH by (auto simp: e composable_snoc)
qed (simp add: composable_def)

section \<open>When a landing succeeds\<close>

text \<open>
  C1. A cohort lands exactly when it names at least one change, no change twice, every named Change and
  Change Revision exists, the revision is the change's latest and no open conflict of the change is
  registered for its Workspace, the caller expects the canonical revision, every member is based on it
  (\<open>landing_selected\<close>), and the snapshots of the members compose.
\<close>

theorem landCohort_succeeds_iff:
  "succeeded (landCohort u input s) \<longleftrightarrow>
     (\<exists>selected. landing_selected input s selected
        \<and> composable (proj_sourceSpaceIds (cc_project s)) (prev_sourceSpaceSnapshots (cc_canonical s)) (member_entries selected))"
proof -
  have "succeeded (landCohort u input s) \<longleftrightarrow> (\<exists>landing s'. landCohort u input s = (Inr landing, s'))"
    by (cases "landCohort u input s" rule: void.cases) (auto simp: succeeded_def)
  also have "\<dots> \<longleftrightarrow> (\<exists>selected. landing_selected input s selected
        \<and> composable (proj_sourceSpaceIds (cc_project s)) (prev_sourceSpaceSnapshots (cc_canonical s)) (member_entries selected))"
    unfolding landCohort_iff compose_members_iff entries_ok_iff_composable
    by (auto simp: land_commit_def Let_def)
  finally show ?thesis .
qed

section \<open>What a landing does\<close>

lemma get_landed_changes:
  "distinct (map (ch_id \<circ> fst) selected) \<Longrightarrow>
   get_key (foldl (\<lambda>m (change, revision). set_key (ch_id change) (change\<lparr>ch_status := ChLanded\<rparr>) m) changes selected) i
     = (if i \<in> set (map (ch_id \<circ> fst) selected) then map_option (\<lambda>m. (fst m)\<lparr>ch_status := ChLanded\<rparr>)
          (find (\<lambda>m. ch_id (fst m) = i) selected) else get_key changes i)"
proof (induction selected arbitrary: changes)
  case (Cons m selected)
  then show ?case by (cases m) auto
qed simp

lemma landCohort_InrD:
  assumes inv: "cc_inv s" and land: "landCohort u input s = (Inr landing, s')"
  obtains selected where "landing_selected input s selected" "selected \<noteq> []"
    "composable (proj_sourceSpaceIds (cc_project s)) (prev_sourceSpaceSnapshots (cc_canonical s)) (member_entries selected)"
    "land_commit u input selected (write_all (member_entries selected) (prev_sourceSpaceSnapshots (cc_canonical s))) s = (Inr landing, s')"
    "cc_canonical s' = landed_revision u input selected
       (write_all (member_entries selected) (prev_sourceSpaceSnapshots (cc_canonical s))) s"
proof -
  let ?next = "\<lambda>selected. write_all (member_entries selected) (prev_sourceSpaceSnapshots (cc_canonical s))"
  obtain selected where sel: "landing_selected input s selected"
    and comp: "composable (proj_sourceSpaceIds (cc_project s)) (prev_sourceSpaceSnapshots (cc_canonical s)) (member_entries selected)"
    and commit: "land_commit u input selected (?next selected) s = (Inr landing, s')"
    using land unfolding landCohort_iff compose_members_iff entries_ok_iff_composable by blast
  note ne = landing_selectedD(1) [OF inv sel]
  have "cc_canonical s' = landed_revision u input selected (?next selected) s"
    by (simp add: land_commit_eq(1) [OF ne commit])
  then show thesis using that sel ne comp commit by blast
qed

lemma find_member:
  assumes "\<forall>m\<in>set selected. get_key changes (ch_id (fst m)) = Some (fst m)" "i \<in> set (map (ch_id \<circ> fst) selected)"
  shows "map_option fst (find (\<lambda>m. ch_id (fst m) = i) selected) = get_key changes i"
  using assms
proof (induction selected)
  case (Cons m selected)
  then show ?case by (cases "ch_id (fst m) = i") simp_all
qed simp

text \<open>
  A landing is a compare-and-swap. It succeeds only if the caller expects the canonical revision;
  the new canonical revision is a child of that one and names exactly the landed Change Revisions, in
  order, and the receipt names both. Exactly the members' Changes become landed; Workspaces, Change
  Revisions, Conflicts and files are as before.
\<close>

theorem landCohort_compare_and_swap:
  assumes inv: "cc_inv s" and land: "landCohort u input s = (Inr landing, s')"
  shows "lci_expectedCanonicalProjectRevisionId input = prev_id (cc_canonical s)
    \<and> prev_parentProjectRevisionId (cc_canonical s') = Some (prev_id (cc_canonical s))
    \<and> land_previousProjectRevisionId landing = prev_id (cc_canonical s)
    \<and> land_projectRevisionId landing = prev_id (cc_canonical s')
    \<and> prev_landedChangeRevisionIds (cc_canonical s') = Some (map cm_changeRevisionId (lci_members input))
    \<and> (\<forall>i. getChange s' i = (if i \<in> set (map cm_changeId (lci_members input))
         then map_option (\<lambda>c. c\<lparr>ch_status := ChLanded\<rparr>) (getChange s i) else getChange s i))
    \<and> cc_workspaces s' = cc_workspaces s \<and> cc_revisions s' = cc_revisions s \<and> cc_conflicts s' = cc_conflicts s \<and> cc_fs s' = cc_fs s"
proof -
  obtain selected where sel: "landing_selected input s selected" "selected \<noteq> []"
    and commit: "land_commit u input selected (write_all (member_entries selected) (prev_sourceSpaceSnapshots (cc_canonical s))) s = (Inr landing, s')"
    by (rule landCohort_InrD [OF assms])
  note D = landing_selectedD [OF inv sel(1)] and E = land_commit_eq [OF sel(2) commit]
  have "prev_id (cc_canonical s) \<noteq> []"
    using inv canonical_stored [OF inv] by (auto simp: cc_inv_def history_ok_def dest: get_key_mem)
  moreover have "distinct (map (ch_id \<circ> fst) selected)" "lci_expectedCanonicalProjectRevisionId input = prev_id (cc_canonical s)"
    using sel(1) by (simp_all add: D(2) landing_selected_def)
  moreover have "getChange s' i = (if i \<in> set (map cm_changeId (lci_members input))
         then map_option (\<lambda>c. c\<lparr>ch_status := ChLanded\<rparr>) (getChange s i) else getChange s i)" for i
  proof -
    have stored: "\<forall>m\<in>set selected. get_key (cc_changes s) (ch_id (fst m)) = Some (fst m)" using D(4) by blast
    show ?thesis
      unfolding getChange_def E(1) using calculation(2) find_member [OF stored, of i, symmetric]
      by (simp add: get_landed_changes D(2) [symmetric] option.map_comp comp_def del: map_map)
  qed
  ultimately show ?thesis using D(3) by (simp add: E landed_revision_def keep_truthy_Some)
qed

text \<open>
  C2. No member's work is lost. Every snapshot a member publishes that differs from the previous
  canonical one is in the new canonical revision, and a Source Space that no member changes keeps its
  snapshot.
\<close>

theorem landCohort_loses_no_update:
  assumes inv: "cc_inv s" and land: "landCohort u input s = (Inr landing, s')"
  shows "(\<forall>m\<in>set (lci_members input). \<exists>r. getRevision s (cm_changeRevisionId m) = Some r
         \<and> (\<forall>(i, v)\<in>set (nullish (rev_sourceSpaceSnapshots r) []).
              get_key (prev_sourceSpaceSnapshots (cc_canonical s)) i \<noteq> Some v \<longrightarrow>
              get_key (prev_sourceSpaceSnapshots (cc_canonical s')) i = Some v))
    \<and> (\<forall>i. (\<forall>m\<in>set (lci_members input). \<forall>r v. getRevision s (cm_changeRevisionId m) = Some r \<longrightarrow>
              (i, v) \<in> set (nullish (rev_sourceSpaceSnapshots r) []) \<longrightarrow> get_key (prev_sourceSpaceSnapshots (cc_canonical s)) i = Some v) \<longrightarrow>
            get_key (prev_sourceSpaceSnapshots (cc_canonical s')) i = get_key (prev_sourceSpaceSnapshots (cc_canonical s)) i)"
proof -
  let ?base = "prev_sourceSpaceSnapshots (cc_canonical s)"
  obtain selected where sel: "landing_selected input s selected"
    and comp: "composable (proj_sourceSpaceIds (cc_project s)) ?base (member_entries selected)"
    and new: "prev_sourceSpaceSnapshots (cc_canonical s') = write_all (member_entries selected) ?base"
    by (rule landCohort_InrD [OF assms]) (simp add: landed_revision_def)
  have "list_all2 (selects s) (lci_members input) selected" using sel by (simp add: landing_selected_def)
  then have members: "\<forall>m\<in>set (lci_members input). \<exists>x\<in>set selected. getRevision s (cm_changeRevisionId m) = Some (snd x)"
    "\<forall>x\<in>set selected. \<exists>m\<in>set (lci_members input). getRevision s (cm_changeRevisionId m) = Some (snd x)"
    by (induction rule: list_all2_induct) (auto simp: selects_def getRevision_def)
  have "get_key (prev_sourceSpaceSnapshots (cc_canonical s')) i = Some v"
    if "x \<in> set selected" "(i, v) \<in> set (nullish (rev_sourceSpaceSnapshots (snd x)) [])" "get_key ?base i \<noteq> Some v" for x i v
  proof -
    have "(i, v) \<in> set (member_entries selected)" using that(1,2) by (auto simp: member_entries_def)
    then show ?thesis using composable_last [OF comp _ that(3)] by (simp add: new get_write_all)
  qed
  moreover have "get_key (prev_sourceSpaceSnapshots (cc_canonical s')) i = get_key ?base i"
    if "\<forall>x\<in>set selected. \<forall>v. (i, v) \<in> set (nullish (rev_sourceSpaceSnapshots (snd x)) []) \<longrightarrow> get_key ?base i = Some v" for i
    using that by (fastforce simp: new get_write_all member_entries_def split: option.split dest: map_of_SomeD)
  ultimately show ?thesis using members by (intro conjI ballI allI impI) (blast, metis)
qed

section \<open>Behaviours that differ from what the code says\<close>

text \<open>
  A cohort records all its Change Revisions in the new Project Revision, but \<open>revertChange\<close> only
  compares with the single \<open>landedChangeRevisionId\<close>, which is the first member's. Reverting any other
  member of a cohort that has just landed is refused with the code for a revision that is not landed,
  whatever the rest of the request is.
\<close>

theorem later_cohort_members_cannot_be_reverted:
  assumes inv: "cc_inv s" and land: "landCohort u input s = (Inr landing, s')"
    and m: "m \<in> set (tl (lci_members input))"
    and before: "list_all (\<lambda>p. prev_landedChangeRevisionId p \<noteq> Some (cm_changeRevisionId m)) (map_values (cc_projectRevisions s))"
  shows "cm_changeRevisionId m \<in> set (landed_ids (cc_canonical s'))
    \<and> revertChange uuid \<lparr>rvi_landedChangeRevisionId = cm_changeRevisionId m, rvi_intentId = intent, rvi_workspaceId = w, rvi_id = i\<rparr> s'
        = (Inl (failure CcRevertSourceNotFound (cm_changeRevisionId m)), s')"
proof -
  obtain selected where sel: "landing_selected input s selected" "selected \<noteq> []"
    and commit: "land_commit u input selected (write_all (member_entries selected) (prev_sourceSpaceSnapshots (cc_canonical s))) s = (Inr landing, s')"
    and can: "cc_canonical s' = landed_revision u input selected (write_all (member_entries selected) (prev_sourceSpaceSnapshots (cc_canonical s))) s"
    by (rule landCohort_InrD [OF inv land])
  note D = landing_selectedD [OF inv sel(1)] and E = land_commit_eq(1) [OF sel(2) commit]
  have mem: "m \<in> set (lci_members input)" using m by (cases "lci_members input") auto
  then have ids: "cm_changeRevisionId m \<in> set (map (rev_id \<circ> snd) selected)" by (simp add: D(3))
  then obtain x where x: "x \<in> set selected" "rev_id (snd x) = cm_changeRevisionId m" by auto
  with D(4) have found: "get_key (cc_revisions s') (cm_changeRevisionId m) = Some (snd x)" by (auto simp: E)
  obtain y ys where sy: "lci_members input = y # ys" using m by (cases "lci_members input") auto
  from m have "cm_changeRevisionId m \<in> cm_changeRevisionId ` set ys" by (simp add: sy)
  moreover have "cm_changeRevisionId y \<notin> cm_changeRevisionId ` set ys" using D(5) by (simp add: D(3) sy)
  ultimately have "cm_changeRevisionId m \<noteq> cm_changeRevisionId y" by metis
  moreover have "rev_id (snd (hd selected)) = cm_changeRevisionId y"
    using D(3) sel(2) by (cases selected) (auto simp: sy)
  ultimately have "prev_landedChangeRevisionId (cc_canonical s') \<noteq> Some (cm_changeRevisionId m)"
    by (simp add: can landed_revision_def keep_truthy_def)
  moreover have "p = cc_canonical s' \<or> p \<in> set (map_values (cc_projectRevisions s))" if "p \<in> set (map_values (cc_projectRevisions s'))" for p
    using that by (auto simp: E dest: values_set_keyD)
  ultimately have "\<not> list_ex (\<lambda>p. prev_landedChangeRevisionId p = Some (cm_changeRevisionId m)) (map_values (cc_projectRevisions s'))"
    using before by (auto simp: list_ex_iff list_all_iff)
  then show ?thesis using found x(2) ids by (simp add: revertChange_def raise_def can landed_revision_def landed_ids_def)
qed

text \<open>
  Resolving a conflict sets the state of its Workspace without looking at the state it has: a
  Workspace that was closed, for instance by the rebase of its Change, is active again once the last of
  its conflicts is resolved.
\<close>

theorem resolveConflict_reopens_closed_workspace:
  assumes "cc_inv s" and "get_key (cc_conflicts s) i = Some conflict"
    and "getWorkspace s (conf_workspaceId conflict) = Some w" and "ws_state w = WsClosed"
    and "list_all (\<lambda>c. conf_id c = i \<or> conf_workspaceId c \<noteq> ws_id w \<or> conf_state c = ConfResolved) (map_values (cc_conflicts s))"
  shows "map_option ws_state (getWorkspace (snd (resolveConflict i s)) (ws_id w)) = Some WsActive"
proof -
  have id: "conf_id conflict = i" using inv_conflictD [OF assms(1,2)] by simp
  let ?c = "conflict\<lparr>conf_state := ConfResolved\<rparr>"
  have "ids_match conf_id (cc_conflicts s)" using assms(1) by (simp add: cc_inv_def keys_match_def)
  note other = values_set_key_other [OF this, of _ ?c]
  have "\<not> list_ex (\<lambda>c. conf_workspaceId c = ws_id w \<and> conf_state c = ConfOpen) (map_values (set_key i ?c (cc_conflicts s)))"
  proof -
    have "conf_state c = ConfResolved" if "c \<in> set (map_values (set_key i ?c (cc_conflicts s)))" "conf_workspaceId c = ws_id w" for c
      using other [of c] that assms(5) by (auto simp: id list_all_iff)
    then show ?thesis by (fastforce simp: list_ex_iff)
  qed
  then show ?thesis using assms(2,3) by (simp add: resolveConflict_def Let_def getWorkspace_def id)
qed

text \<open>
  A rebase awaits the materialisation of its Workspace and then writes back the Change it had read
  before. A revision published in the meantime is not the parent of the rebase revision: both have the
  same parent and the same sequence number, and the Change points at the rebase revision, so the
  published one is off the chain.
\<close>

theorem interleaved_rebase_forks_chain:
  assumes inv: "cc_inv s" and start: "rebase_begin i s = Inr (c, previous)"
    and pub: "publishRevision uuid1 input s = (Inr r, s1)" and i: "pri_changeId input = i"
    and ws: "createWorkspace nfkc lower uuid2 winput s1 = (Inr w, s2)"
    and fin: "rebase_finish uuid3 effects c previous w s2 = (Inr (w', q), s3)"
    and fresh: "\<not> has_key (cc_revisions s) (opaqueId ''change-revision'' uuid1)"
  shows "rev_parentRevisionId q = rev_parentRevisionId r \<and> rev_sequence q = rev_sequence r
    \<and> map_option ch_latestRevisionId (getChange s3 i) = Some (Some (rev_id q))"
proof -
  have c: "get_key (cc_changes s) i = Some c"
    using start by (auto simp: rebase_begin_def split: sum.splits if_splits dest!: requireChange_InrD)
  obtain w1 where r: "r = new_revision uuid1 input s c w1" "s1 = publish_commit r c w1 s"
    using pub c i by (auto elim!: publishRevision_InrD)
  have "rev_id r = opaqueId ''change-revision'' uuid1" by (simp add: r new_revision_def)
  then have rev1: "cc_revisions s1 = set_key (rev_id r) r (cc_revisions s)" and new: "get_key (cc_revisions s) (rev_id r) = None"
    using fresh by (simp_all add: r(2) publish_commit_def has_key_def)
  have rev2: "cc_revisions s2 = cc_revisions s1" using createWorkspace_InrD(4) [OF ws] by auto
  let ?w = "w\<lparr>ws_changeId := Some (ch_id c)\<rparr>" and ?c = "\<lambda>b ws. c\<lparr>ch_baseProjectRevisionId := b, ch_workspaceId := ws, ch_status := ChActive\<rparr>"
  let ?b = "rebase_bound c ?w s2"
  obtain v where v: "publishRevision uuid3 (rebase_revision_input c ?w effects) ?b = (Inr q, v)"
    "cc_changes s3 = cc_changes v"
    using fin by (auto simp: rebase_finish_def Let_def split: sum.splits prod.splits option.splits if_splits)
  obtain x where q: "q = new_revision uuid3 (rebase_revision_input c ?w effects) ?b (?c (ws_projectRevisionId w) (Some (ws_id w))) x"
    and vq: "v = publish_commit q (?c (ws_projectRevisionId w) (Some (ws_id w))) x ?b"
    using v(1) by (auto elim!: publishRevision_InrD simp: rebase_revision_input_def rebase_bound_def)
  have "get_key (cc_revisions ?b) k = get_key (cc_revisions s) k" if "ch_latestRevisionId c = Some k" "truthy (Some k)" for k
  proof -
    have "get_key (cc_revisions s) k \<noteq> None"
      using prior_revision_chain(2) [OF inv c] that by (auto simp: prior_revision_def)
    then show ?thesis using new by (auto simp: rebase_bound_def rev2 rev1)
  qed
  then have "prior_revision ?b (?c b ws) = prior_revision s c" for b ws
    by (cases "ch_latestRevisionId c") (auto simp: prior_revision_def)
  then have "rev_parentRevisionId q = rev_parentRevisionId r \<and> rev_sequence q = rev_sequence r"
    by (simp add: q r new_revision_def)
  moreover have "ch_id c = i" using inv_changeD [OF inv c] by simp
  ultimately show ?thesis using v(2) by (simp add: vq getChange_def publish_commit_def)
qed

text \<open>
  The order of a cohort's members decides whether it lands: a member that mounts a Source Space without
  changing it may come before the member that changes it, but not after.
\<close>

lemma landing_order_matters:
  assumes "i \<in> set spaces" "get_key base i = Some b" "v \<noteq> b"
  shows "composable spaces base [(i, b), (i, v)]" "\<not> composable spaces base [(i, v), (i, b)]"
  using assms by (simp_all add: composable_def)

section \<open>Witnesses\<close>

definition demo_cohort_work :: "cc_op list" where
  "demo_cohort_work = [CreateWorkspace ''1'' (demo_workspace_input ''/a''), CreateChange ''1'' (demo_change ''workspace:1''),
     PublishRevision ''1'' (demo_publish ''change:1'' ''s2''),
     CreateWorkspace ''2'' (demo_workspace_input ''/b''), CreateChange ''2'' (demo_change ''workspace:2''),
     PublishRevision ''2'' (demo_publish ''change:2'' ''s2'')]"

definition demo_cohort :: LandCohortInput where
  "demo_cohort = \<lparr>lci_cohortId = Some ''k'',
     lci_members = [\<lparr>cm_changeId = ''change:1'', cm_changeRevisionId = ''change-revision:1''\<rparr>,
       \<lparr>cm_changeId = ''change:2'', cm_changeRevisionId = ''change-revision:2''\<rparr>],
     lci_expectedCanonicalProjectRevisionId = ''r0''\<rparr>"

lemma demo_state_inv:
  "admissible cc_ok (cc_step ascii_nfkc ascii_lower) ops demo_coordinator \<Longrightarrow> cc_inv (demo_state ops)"
  unfolding demo_state_def by (rule coordinator.run_inv [OF new_coordinator_inv [OF demo_new]])

lemma demo_cohort_inv: "cc_inv (demo_state demo_cohort_work)"
  by (rule demo_state_inv) code_simp

lemma succeededD: "succeeded x \<Longrightarrow> \<exists>a. x = (Inr a, snd x)"
  by (cases x rule: void.cases) (auto simp: succeeded_def)

lemma demo_cohort_lands: "\<exists>landing. landCohort (\<lambda>n. ''1'') demo_cohort (demo_state demo_cohort_work)
    = (Inr landing, snd (landCohort (\<lambda>n. ''1'') demo_cohort (demo_state demo_cohort_work)))"
  by (rule succeededD) code_simp

definition demo_landed :: Coordinator where
  "demo_landed = snd (landCohort (\<lambda>n. ''1'') demo_cohort (demo_state demo_cohort_work))"

theorem landCohort_compare_and_swap_witness:
  "prev_parentProjectRevisionId (cc_canonical demo_landed) = Some ''r0''
     \<and> map_option ch_status (getChange demo_landed ''change:2'') = Some ChLanded"
proof -
  obtain landing where land: "landCohort (\<lambda>n. ''1'') demo_cohort (demo_state demo_cohort_work) = (Inr landing, demo_landed)"
    using demo_cohort_lands unfolding demo_landed_def by blast
  have "getChange (demo_state demo_cohort_work) ''change:2'' \<noteq> None" by code_simp
  moreover have "lci_expectedCanonicalProjectRevisionId demo_cohort = ''r0''" "''change:2'' \<in> set (map cm_changeId (lci_members demo_cohort))"
    by (simp_all add: demo_cohort_def)
  ultimately show ?thesis using landCohort_compare_and_swap [OF demo_cohort_inv land] by auto
qed

theorem landCohort_loses_no_update_witness:
  "get_key (prev_sourceSpaceSnapshots (cc_canonical (demo_state demo_cohort_work))) ''codec'' = Some ''s2''
     \<and> get_key (prev_sourceSpaceSnapshots (cc_canonical demo_landed)) ''player'' = Some ''s2''"
proof -
  obtain landing where land: "landCohort (\<lambda>n. ''1'') demo_cohort (demo_state demo_cohort_work) = (Inr landing, demo_landed)"
    using demo_cohort_lands unfolding demo_landed_def by blast
  have base: "get_key (prev_sourceSpaceSnapshots (cc_canonical (demo_state demo_cohort_work))) ''player'' = Some ''s1''"
    "get_key (prev_sourceSpaceSnapshots (cc_canonical (demo_state demo_cohort_work))) ''codec'' = Some ''s2''" by code_simp+
  have rev: "map_option rev_sourceSpaceSnapshots (getRevision (demo_state demo_cohort_work) ''change-revision:1'') = Some (Some [(''player'', ''s2'')])"
    by code_simp
  show ?thesis
    using landCohort_loses_no_update [OF demo_cohort_inv land] rev base by (auto simp: demo_cohort_def)
qed

theorem later_cohort_members_cannot_be_reverted_witness:
  "''change-revision:2'' \<in> set (landed_ids (cc_canonical demo_landed))
     \<and> revertChange ''9'' \<lparr>rvi_landedChangeRevisionId = ''change-revision:2'', rvi_intentId = ''i'', rvi_workspaceId = None, rvi_id = None\<rparr> demo_landed
         = (Inl (failure CcRevertSourceNotFound ''change-revision:2''), demo_landed)"
proof -
  obtain landing where land: "landCohort (\<lambda>n. ''1'') demo_cohort (demo_state demo_cohort_work) = (Inr landing, demo_landed)"
    using demo_cohort_lands unfolding demo_landed_def by blast
  let ?m = "\<lparr>cm_changeId = ''change:2'', cm_changeRevisionId = ''change-revision:2''\<rparr>"
  have "?m \<in> set (tl (lci_members demo_cohort))" by (simp add: demo_cohort_def)
  moreover have "list_all (\<lambda>p. prev_landedChangeRevisionId p \<noteq> Some (cm_changeRevisionId ?m)) (map_values (cc_projectRevisions (demo_state demo_cohort_work)))"
    by code_simp
  ultimately show ?thesis
    using later_cohort_members_cannot_be_reverted [OF demo_cohort_inv land, of ?m "''9''" "''i''" None None] by simp
qed

definition demo_rebase :: RebaseChangeInput where
  "demo_rebase = \<lparr>rbi_changeId = ''change:1'', rbi_view = demo_view, rbi_sources = mw_sources (demo_workspace_input ''/c''),
     rbi_mounts = mw_mounts (demo_workspace_input ''/c''), rbi_directory = ''/c'', rbi_actorId = None, rbi_declaredEffects = []\<rparr>"

definition demo_conflict :: RegisterConflictInput where
  "demo_conflict = \<lparr>rci_changeId = ''change:1'', rci_workspaceId = ''workspace:1'', rci_kind = ConfTextual,
     rci_sourceSpaceIds = [''player''], rci_paths = [''main.ts''], rci_description = ''d'', rci_id = Some ''x''\<rparr>"

definition demo_rebased_work :: "cc_op list" where
  "demo_rebased_work = [CreateWorkspace ''1'' (demo_workspace_input ''/a''), CreateChange ''1'' (demo_change ''workspace:1''),
     RegisterConflict ''1'' demo_conflict, RebaseChange (\<lambda>n. if n = 0 then ''2'' else ''1'') demo_rebase]"

theorem resolveConflict_reopens_closed_workspace_witness:
  "map_option ws_state (getWorkspace (demo_state demo_rebased_work) ''workspace:1'') = Some WsClosed
     \<and> map_option ws_state (getWorkspace (snd (resolveConflict ''x'' (demo_state demo_rebased_work))) ''workspace:1'') = Some WsActive"
proof -
  have inv: "cc_inv (demo_state demo_rebased_work)" by (rule demo_state_inv) code_simp
  have "map_option conf_workspaceId (get_key (cc_conflicts (demo_state demo_rebased_work)) ''x'') = Some ''workspace:1''" by code_simp
  then obtain conflict where c: "get_key (cc_conflicts (demo_state demo_rebased_work)) ''x'' = Some conflict" "conf_workspaceId conflict = ''workspace:1''"
    by auto
  have closed: "map_option (\<lambda>w. (ws_state w, ws_id w)) (getWorkspace (demo_state demo_rebased_work) ''workspace:1'') = Some (WsClosed, ''workspace:1'')"
    by code_simp
  then obtain w where w: "getWorkspace (demo_state demo_rebased_work) ''workspace:1'' = Some w" "ws_state w = WsClosed" "ws_id w = ''workspace:1''"
    by auto
  have "list_all (\<lambda>c. conf_id c = ''x'' \<or> conf_workspaceId c \<noteq> ''workspace:1'' \<or> conf_state c = ConfResolved)
     (map_values (cc_conflicts (demo_state demo_rebased_work)))" by code_simp
  then show ?thesis
    using resolveConflict_reopens_closed_workspace [OF inv c(1), of w] w c(2) by simp
qed

text \<open>A revision published while the rebase of its change awaits the new Workspace.\<close>

definition demo_before :: Coordinator where
  "demo_before = demo_state [CreateWorkspace ''1'' (demo_workspace_input ''/a''), CreateChange ''1'' (demo_change ''workspace:1'')]"

definition demo_published :: "ChangeRevision cc_outcome" where
  "demo_published = publishRevision ''1'' (demo_publish ''change:1'' ''s2'') demo_before"

definition demo_created :: "Workspace cc_outcome" where
  "demo_created = createWorkspace ascii_nfkc ascii_lower ''2'' (rebase_workspace_input demo_rebase) (snd demo_published)"

definition demo_read :: "ChangeControlError + Change \<times> Workspace option" where
  "demo_read = rebase_begin ''change:1'' demo_before"

definition demo_finished :: "(Workspace \<times> ChangeRevision) cc_outcome" where
  "demo_finished = (case (demo_read, fst demo_created) of
     (Inr (change, previous), Inr w) \<Rightarrow> rebase_finish ''2'' [] change previous w (snd demo_created)
   | _ \<Rightarrow> raise (failure CcChangeNotFound []) (snd demo_created))"

theorem interleaved_rebase_forks_chain_witness:
  "map rev_sequence (revisions_of (snd demo_finished) ''change:1'') = [1, 1]
     \<and> map_option ch_latestRevisionId (getChange (snd demo_finished) ''change:1'') = Some (Some ''change-revision:2'')"
proof -
  have inv: "cc_inv demo_before" unfolding demo_before_def by (rule demo_state_inv) code_simp
  have fresh: "\<not> has_key (cc_revisions demo_before) (opaqueId ''change-revision'' ''1'')" by code_simp
  have ok: "succeeded demo_published" "succeeded demo_created" "succeeded demo_finished" "succeeded (demo_read, ())" by code_simp+
  obtain r where r: "publishRevision ''1'' (demo_publish ''change:1'' ''s2'') demo_before = (Inr r, snd demo_published)"
    using succeededD [OF ok(1)] unfolding demo_published_def by blast
  obtain w where w: "createWorkspace ascii_nfkc ascii_lower ''2'' (rebase_workspace_input demo_rebase) (snd demo_published)
      = (Inr w, snd demo_created)" "fst demo_created = Inr w"
    using succeededD [OF ok(2)] unfolding demo_created_def by (metis fst_conv)
  obtain c previous where cp: "rebase_begin ''change:1'' demo_before = Inr (c, previous)"
    using ok(4) unfolding demo_read_def by (auto simp: succeeded_def split: sum.splits)
  have "demo_finished = rebase_finish ''2'' [] c previous w (snd demo_created)"
    by (simp add: demo_finished_def demo_read_def cp w(2))
  with succeededD [OF ok(3)] obtain w' q where q: "rebase_finish ''2'' [] c previous w (snd demo_created) = (Inr (w', q), snd demo_finished)"
    by auto
  have "map_option rev_id (case fst demo_finished of Inr x \<Rightarrow> Some (snd x) | Inl _ \<Rightarrow> None) = Some ''change-revision:2''" by code_simp
  moreover have "fst demo_finished = Inr (w', q)" using arg_cong [OF q, of fst] \<open>demo_finished = _\<close> by simp
  ultimately have id: "rev_id q = ''change-revision:2''" by simp
  have "map rev_sequence (revisions_of (snd demo_finished) ''change:1'') = [1, 1]" by code_simp
  then show ?thesis
    using interleaved_rebase_forks_chain [OF inv cp r _ w(1) q fresh] id by (simp add: demo_publish_def)
qed

end
