(* ===== verification/Evidence_Gate.thy ===== *)
theory Evidence_Gate
  imports Contracts
begin

text \<open>
  \<open>src/src/kernel/evidence.ts\<close>: the append-only Evidence ledger and the Stage Gate that decides from
  the latest Evidence of every required key and from the residual risks. The decision and its
  blockers, messages included, are modelled as the code computes them.
\<close>

section \<open>The ledger\<close>

text \<open>
  \<open>EvidenceAppendInput\<close> is an Evidence record without protocol and version whose identifier and
  creation time are optional: \<open>eai_body\<close> carries the other fields, and its own \<open>ev_id\<close> and
  \<open>ev_createdAt\<close> are not read.
\<close>

record EvidenceAppendInput =
  eai_id :: "string option"
  eai_createdAt :: "string option"
  eai_body :: Evidence

type_synonym EvidenceLedger = "Evidence list"

definition ledger_append :: "string \<Rightarrow> string \<Rightarrow> EvidenceAppendInput \<Rightarrow> EvidenceLedger \<Rightarrow> (EvidenceLedger, unit, Evidence) outcome" where
  "ledger_append uuid now input records =
     (let r = (eai_body input)\<lparr>ev_id := nullish (eai_id input) (opaqueId ''evidence'' uuid),
                               ev_createdAt := nullish (eai_createdAt input) now\<rparr>
      in return r (records @ [r]))"

definition ledger_list :: "EvidenceLedger \<Rightarrow> Evidence list" where
  "ledger_list records = records"

section \<open>The Stage Gate\<close>

record EvidenceRequirement =
  req_key :: string
  req_currentValidityKey :: string
  req_expectedProjectRevisionId :: "string option"
  req_expectedProjectViewId :: "string option"
  req_expectedChangeRevisionId :: "string option"
  req_expectedTargetId :: "string option"
  req_expectedDisclosureClassification :: "DisclosureClassification option"

datatype RiskStatus = RiskAccepted | RiskOpen

record ResidualRisk =
  risk_id :: string
  risk_description :: string
  risk_owner :: string
  risk_mitigation :: string
  risk_status :: RiskStatus

datatype GateBlockerKind = BlockMissing | BlockRisk | BlockOutcome EvidenceOutcome

record GateBlocker =
  gb_stageGate :: string
  gb_evidenceKey :: string
  gb_kind :: GateBlockerKind
  gb_message :: string

datatype GateStatus = GateReady | GateBlocked

record StageGateDecision =
  sgd_stageGate :: string
  sgd_status :: GateStatus
  sgd_blockers :: "GateBlocker list"

fun outcome_text :: "EvidenceOutcome \<Rightarrow> string" where
  "outcome_text Passed = ''passed''"
| "outcome_text Failed = ''failed''"
| "outcome_text Stale = ''stale''"
| "outcome_text Indeterminate = ''indeterminate''"

text \<open>An expectation of a requirement that is \<open>undefined\<close> matches everything.\<close>

definition expects :: "'a option \<Rightarrow> 'a option \<Rightarrow> bool" where
  "expects expected actual \<longleftrightarrow> expected = None \<or> actual = expected"

definition context_mismatch :: "EvidenceRequirement \<Rightarrow> Evidence \<Rightarrow> bool" where
  "context_mismatch requirement r \<longleftrightarrow>
     (req_expectedProjectRevisionId requirement \<noteq> None
        \<and> Some (ev_projectRevisionId r) \<noteq> req_expectedProjectRevisionId requirement)
     \<or> (req_expectedProjectViewId requirement \<noteq> None
        \<and> Some (ev_projectViewId r) \<noteq> req_expectedProjectViewId requirement)
     \<or> (req_expectedChangeRevisionId requirement \<noteq> None
        \<and> ev_changeRevisionId r \<noteq> req_expectedChangeRevisionId requirement)
     \<or> (req_expectedTargetId requirement \<noteq> None
        \<and> ev_targetId r \<noteq> req_expectedTargetId requirement)
     \<or> (req_expectedDisclosureClassification requirement \<noteq> None
        \<and> Some (disc_classification (ev_disclosure r)) \<noteq> req_expectedDisclosureClassification requirement)"

definition normalized_outcome :: "EvidenceRequirement \<Rightarrow> Evidence \<Rightarrow> EvidenceOutcome" where
  "normalized_outcome requirement r =
     (let result = (if ev_outcome r = Passed
                       \<and> (ev_validityKey r \<noteq> req_currentValidityKey requirement \<or> context_mismatch requirement r)
                    then Stale else ev_outcome r)
      in if result = Passed \<and> (blank (ev_receipt r) \<or> blank (ev_owner r)) then Indeterminate else result)"

definition requirement_blockers :: "string \<Rightarrow> Evidence list \<Rightarrow> EvidenceRequirement \<Rightarrow> GateBlocker list" where
  "requirement_blockers gateId evidence requirement =
     (case find_last (\<lambda>candidate. ev_key candidate = req_key requirement) evidence of
        None \<Rightarrow> [\<lparr>gb_stageGate = gateId, gb_evidenceKey = req_key requirement, gb_kind = BlockMissing,
          gb_message = ''Evidence '' @ req_key requirement @ '' is missing for Stage Gate '' @ gateId @ ''.''\<rparr>]
      | Some r \<Rightarrow>
          (let result = normalized_outcome requirement r
           in if result \<noteq> Passed
              then [\<lparr>gb_stageGate = gateId, gb_evidenceKey = req_key requirement, gb_kind = BlockOutcome result,
                gb_message = ''Evidence '' @ req_key requirement @ '' is '' @ outcome_text result
                  @ '' for Stage Gate '' @ gateId @ ''.''\<rparr>]
              else []))"

definition risk_blockers :: "string \<Rightarrow> ResidualRisk \<Rightarrow> GateBlocker list" where
  "risk_blockers gateId risk =
     (if risk_status risk = RiskOpen \<or> blank (risk_owner risk)
      then [\<lparr>gb_stageGate = gateId, gb_evidenceKey = risk_id risk, gb_kind = BlockRisk,
        gb_message = ''Residual Risk '' @ risk_id risk @ '' is not accepted by Stage Gate '' @ gateId
          @ ''; owner and mitigation must be explicit.''\<rparr>]
      else [])"

definition evaluateStageGate ::
  "string \<Rightarrow> EvidenceRequirement list \<Rightarrow> Evidence list \<Rightarrow> ResidualRisk list option \<Rightarrow> StageGateDecision" where
  "evaluateStageGate gateId requiredEvidence evidence residualRisks =
     (let blockers = concat (map (requirement_blockers gateId evidence) requiredEvidence)
                   @ concat (map (risk_blockers gateId) (nullish residualRisks []))
      in \<lparr>sgd_stageGate = gateId,
          sgd_status = (if length blockers = 0 then GateReady else GateBlocked),
          sgd_blockers = blockers\<rparr>)"

section \<open>Lemmas\<close>

text \<open>The Evidence that satisfies a requirement: passed, current, in context, with a receipt and an owner.\<close>

definition satisfies :: "EvidenceRequirement \<Rightarrow> Evidence \<Rightarrow> bool" where
  "satisfies requirement r \<longleftrightarrow>
     ev_outcome r = Passed
     \<and> ev_validityKey r = req_currentValidityKey requirement
     \<and> expects (req_expectedProjectRevisionId requirement) (Some (ev_projectRevisionId r))
     \<and> expects (req_expectedProjectViewId requirement) (Some (ev_projectViewId r))
     \<and> expects (req_expectedChangeRevisionId requirement) (ev_changeRevisionId r)
     \<and> expects (req_expectedTargetId requirement) (ev_targetId r)
     \<and> expects (req_expectedDisclosureClassification requirement) (Some (disc_classification (ev_disclosure r)))
     \<and> \<not> blank (ev_receipt r) \<and> \<not> blank (ev_owner r)"

lemma normalized_outcome_Passed: "normalized_outcome requirement r = Passed \<longleftrightarrow> satisfies requirement r"
  unfolding normalized_outcome_def satisfies_def context_mismatch_def expects_def Let_def
  by (cases "ev_outcome r") auto

lemma requirement_blockers_Nil:
  "requirement_blockers gateId evidence requirement = [] \<longleftrightarrow>
     (\<exists>r. find_last (\<lambda>candidate. ev_key candidate = req_key requirement) evidence = Some r
        \<and> satisfies requirement r)"
  unfolding requirement_blockers_def Let_def
  by (auto simp: normalized_outcome_Passed split: option.splits)

lemma risk_blockers_Nil:
  "risk_blockers gateId risk = [] \<longleftrightarrow> risk_status risk = RiskAccepted \<and> \<not> blank (risk_owner risk)"
  unfolding risk_blockers_def by (cases "risk_status risk") auto

lemma gate_ready:
  "sgd_status (evaluateStageGate gateId required evidence risks) = GateReady \<longleftrightarrow>
     (\<forall>requirement\<in>set required. requirement_blockers gateId evidence requirement = [])
     \<and> (\<forall>risk\<in>set (nullish risks []). risk_blockers gateId risk = [])"
  unfolding evaluateStageGate_def Let_def by simp

lemma find_last_append_other:
  "\<not> P x \<Longrightarrow> find_last P (xs @ [x]) = find_last P xs"
  by simp

section \<open>Properties\<close>


text \<open>
  What appending one record to the ledger does to a gate: a record whose key no requirement names
  leaves the whole decision as it was, and a record that names a required key but does not satisfy the
  requirement blocks the gate, whatever passed before it.
\<close>

theorem gate_after_append:
  assumes "ledger_append uuid now input ledger = (Inr r, ledger')"
  shows "(ev_key r \<notin> req_key ` set required \<longrightarrow>
            evaluateStageGate gateId required (ledger_list ledger') risks
              = evaluateStageGate gateId required (ledger_list ledger) risks)
         \<and> ((\<exists>requirement\<in>set required. ev_key r = req_key requirement \<and> \<not> satisfies requirement r) \<longrightarrow>
            sgd_status (evaluateStageGate gateId required (ledger_list ledger') risks) = GateBlocked)"
proof -
  have ledger': "ledger' = ledger @ [r]"
    using assms by (auto simp: ledger_append_def Let_def)
  show ?thesis
  proof (intro conjI impI)
    assume "ev_key r \<notin> req_key ` set required"
    then have "map (requirement_blockers gateId (ledger @ [r])) required
        = map (requirement_blockers gateId ledger) required"
      by (intro map_cong) (auto simp: requirement_blockers_def)
    then show "evaluateStageGate gateId required (ledger_list ledger') risks
        = evaluateStageGate gateId required (ledger_list ledger) risks"
      by (simp add: evaluateStageGate_def ledger' ledger_list_def del: map_eq_conv)
  next
    assume "\<exists>requirement\<in>set required. ev_key r = req_key requirement \<and> \<not> satisfies requirement r"
    then have "sgd_status (evaluateStageGate gateId required (ledger @ [r]) risks) \<noteq> GateReady"
      by (auto simp: gate_ready requirement_blockers_Nil)
    then show "sgd_status (evaluateStageGate gateId required (ledger_list ledger') risks) = GateBlocked"
      by (metis GateStatus.exhaust ledger' ledger_list_def)
  qed
qed

text \<open>
  The message of a blocked risk asks for an explicit owner and mitigation, but the gate never reads
  the mitigation: replacing the mitigation and the description of every residual risk by anything,
  the empty text included, leaves the decision and all its blockers unchanged.
\<close>

theorem gate_ignores_mitigation:
  "evaluateStageGate gateId required evidence (Some risks)
     = evaluateStageGate gateId required evidence
         (Some (map (\<lambda>risk. risk\<lparr>risk_mitigation := m risk, risk_description := d risk\<rparr>) risks))"
proof -
  have "map (risk_blockers gateId) (map (\<lambda>risk. risk\<lparr>risk_mitigation := m risk, risk_description := d risk\<rparr>) risks)
      = map (risk_blockers gateId) risks"
    by (simp add: comp_def) (simp add: risk_blockers_def)
  then show ?thesis by (simp add: evaluateStageGate_def del: map_eq_conv map_map)
qed

text \<open>The ledger only grows: an instance of the growing machine over its single mutating operation.\<close>

definition ledger_step :: "string \<times> string \<times> EvidenceAppendInput \<Rightarrow> EvidenceLedger \<Rightarrow> (EvidenceLedger, unit, Evidence) outcome" where
  "ledger_step x s = (case x of (uuid, now, input) \<Rightarrow> ledger_append uuid now input s)"

definition ledger_before :: "EvidenceLedger \<Rightarrow> EvidenceLedger \<Rightarrow> bool" where
  "ledger_before xs ys \<longleftrightarrow> (\<exists>zs. ys = xs @ zs)"

interpretation ledger: growing_machine ledger_step "\<lambda>_ _. True" ledger_before
  by unfold_locales
    (auto simp: ledger_before_def ledger_step_def ledger_append_def Let_def split: prod.splits)

text \<open>
  Records are never removed or rewritten: after any sequence of appends the listing starts with
  what it listed before, in the same order.
\<close>

theorem ledger_append_only:
  "\<exists>later. ledger_list (run_ops ledger_step appends records) = ledger_list records @ later"
  using ledger.run_grows [of appends records] by (simp add: ledger_before_def ledger_list_def)

section \<open>Witnesses\<close>

definition demo_evidence :: "string \<Rightarrow> EvidenceOutcome \<Rightarrow> Evidence" where
  "demo_evidence key result = \<lparr>ev_id = ''e1'', ev_key = key, ev_criterion = ''c'', ev_outcome = result,
     ev_validityKey = ''k1'', ev_actionId = ''a'', ev_verifierId = ''v'', ev_toolchainDigest = ''t'',
     ev_dependencyDigest = ''d'', ev_environmentDigest = ''n'', ev_inputDigests = [], ev_effectDigests = [],
     ev_outputDigest = ''o'', ev_createdAt = ''now'',
     ev_producer = \<lparr>producer_kind = ProducerRun, producer_id = ''run'', producer_version = ''1''\<rparr>,
     ev_projectRevisionId = ''r0'', ev_projectViewId = ''v0'', ev_changeRevisionId = None, ev_runId = ''run'',
     ev_actor = \<lparr>actor_principalId = ''bot'', actor_actorId = ''bot-1'', actor_sessionId = ''s'', actor_clientId = ''ci''\<rparr>,
     ev_runnerId = ''rn'', ev_policyVersion = ''v1'', ev_authorizationEpoch = ''1'', ev_capabilityGrantId = ''g'',
     ev_disclosure = \<lparr>disc_projectionId = ''public'', disc_classification = DProject\<rparr>,
     ev_receipt = ''receipt'', ev_invalidators = [], ev_owner = ''owner'', ev_residualRiskId = None,
     ev_sourceSpaceSnapshots = None, ev_actionContractDigest = None, ev_verifierContractDigest = None,
     ev_targetId = None, ev_workspaceId = None\<rparr>"

definition demo_requirement :: EvidenceRequirement where
  "demo_requirement = \<lparr>req_key = ''unit-tests'', req_currentValidityKey = ''k1'',
     req_expectedProjectRevisionId = None, req_expectedProjectViewId = None,
     req_expectedChangeRevisionId = None, req_expectedTargetId = None,
     req_expectedDisclosureClassification = None\<rparr>"

theorem gate_after_append_witness:
  "sgd_status (evaluateStageGate ''K0'' [demo_requirement]
      (snd (ledger_append ''u'' ''now'' \<lparr>eai_id = None, eai_createdAt = None, eai_body = demo_evidence ''unit-tests'' Failed\<rparr>
        [demo_evidence ''unit-tests'' Passed])) None) = GateBlocked"
proof -
  let ?input = "\<lparr>eai_id = None, eai_createdAt = None, eai_body = demo_evidence ''unit-tests'' Failed\<rparr>"
  let ?r = "(demo_evidence ''unit-tests'' Failed)\<lparr>ev_id := opaqueId ''evidence'' ''u'', ev_createdAt := ''now''\<rparr>"
  have step: "ledger_append ''u'' ''now'' ?input [demo_evidence ''unit-tests'' Passed]
      = (Inr ?r, [demo_evidence ''unit-tests'' Passed, ?r])"
    by (simp add: ledger_append_def Let_def)
  have "\<exists>requirement\<in>set [demo_requirement]. ev_key ?r = req_key requirement \<and> \<not> satisfies requirement ?r"
    by (simp add: demo_evidence_def demo_requirement_def satisfies_def)
  with gate_after_append [OF step, of "[demo_requirement]"] step show ?thesis
    by (simp add: ledger_list_def)
qed

end
