(* ===== verification/Collaboration.thy ===== *)
theory Collaboration
  imports Landing Evidence_Gate
begin

text \<open>
  The class \<open>CollaborationCoordinator\<close> of \<open>src/src/change-control/collaboration.ts\<close>: Integration
  Cohorts with their conflicts, review findings and approvals, the policy that decides whether a cohort
  may land, the Landing through a trusted authority, and the projections of its records to a restricted
  audience. The private fields of the object are the fields of a record.

  Left out of the records are the protocol constants, the time stamps, and the ids of audit events and
  policy decisions: nothing in the class reads them. SHA-256 of a JSON text is a parameter (\<open>digest\<close>),
  as is lower-casing (\<open>lower\<close>). An analyzer is its id and the function it computes. The Landing
  authority is a function on a state of its own.
\<close>

section \<open>Data\<close>

datatype OwnershipScopeKind = ScopeModule | ScopeSourceSpace | ScopeTarget

record ReviewOwnershipRule =
  rule_id :: string
  rule_scopeKind :: OwnershipScopeKind
  rule_scopeId :: string
  rule_requiredReviewerPrincipalIds :: "string list"
  rule_requiredReviewerTeamIds :: "string list"
  rule_disclosure :: DisclosureClassification
  rule_label :: "string option"

record ReviewerDirectoryEntry =
  entry_principalId :: string
  entry_teamIds :: "string list"
  entry_active :: "bool option"

record ReviewRequirement =
  rr_id :: string
  rr_ruleId :: string
  rr_changeId :: string
  rr_changeRevisionId :: string
  rr_scopeKind :: OwnershipScopeKind
  rr_scopeId :: string
  rr_disclosure :: DisclosureClassification
  rr_requiredReviewerPrincipalIds :: "string list"
  rr_requiredReviewerTeamIds :: "string list"
  rr_candidatePrincipalIds :: "string list"
  rr_reason :: string

datatype ReviewFindingKind = FindComment | FindRequestChanges | FindSecurity | FindPolicy
datatype ReviewFindingSeverity = SevInfo | SevWarning | SevBlocking
datatype ReviewFindingState = FindOpen | FindResolved | FindDismissed

record ReviewScope =
  scope_moduleId :: "string option"
  scope_sourceSpaceId :: "string option"
  scope_targetId :: "string option"
  scope_path :: "string option"
  scope_symbol :: "string option"

record ReviewFinding =
  fi_id :: string
  fi_projectId :: string
  fi_cohortId :: string
  fi_changeId :: string
  fi_changeRevisionId :: string
  fi_author :: ActorRef
  fi_kind :: ReviewFindingKind
  fi_severity :: ReviewFindingSeverity
  fi_state :: ReviewFindingState
  fi_summary :: string
  fi_scope :: "ReviewScope option"
  fi_disclosure :: DisclosureClassification
  fi_resolution :: "string option"
  fi_resolvedBy :: "ActorRef option"
  fi_receipt :: string

record ReviewApproval =
  ap_id :: string
  ap_projectId :: string
  ap_cohortId :: string
  ap_requirementId :: string
  ap_changeId :: string
  ap_changeRevisionId :: string
  ap_reviewer :: ActorRef
  ap_authorActorId :: "string option"
  ap_verifierActorIds :: "string list"
  ap_evidenceIds :: "string list"
  ap_policyVersion :: string
  ap_receipt :: string

record IntegrationCohortMember =
  icm_changeId :: string
  icm_changeRevisionId :: string
  icm_baseProjectRevisionId :: string
  icm_author :: "ActorRef option"
  icm_authorActorId :: "string option"
  icm_verifierActorIds :: "string list"
  icm_affectedModuleIds :: "string list"
  icm_affectedSourceSpaceIds :: "string list"
  icm_affectedTargetIds :: "string list"
  icm_declaredEffects :: "string list"

datatype IntegrationConflictKind = IcTextual | IcSemantic | IcSchema | IcDependency | IcPolicy | IcDisclosure
datatype IntegrationConflictSeverity = IcBlocking | IcWarning
datatype IntegrationConflictState = IcOpen | IcResolved

record IntegrationConflictCandidate =
  cand_kind :: IntegrationConflictKind
  cand_severity :: IntegrationConflictSeverity
  cand_changeIds :: "string list"
  cand_scopeIds :: "string list"
  cand_description :: string
  cand_disclosure :: DisclosureClassification
  cand_receipt :: string
  cand_recoveryAction :: string

record IntegrationConflict =
  ic_id :: string
  ic_projectId :: string
  ic_cohortId :: string
  ic_kind :: IntegrationConflictKind
  ic_severity :: IntegrationConflictSeverity
  ic_state :: IntegrationConflictState
  ic_changeIds :: "string list"
  ic_changeRevisionIds :: "string list"
  ic_scopeIds :: "string list"
  ic_analyzerId :: string
  ic_description :: string
  ic_disclosure :: DisclosureClassification
  ic_resolutionRevisionIds :: "string list option"
  ic_receipt :: string
  ic_recoveryAction :: string

datatype IntegrationCohortState = CohortProposed | CohortBlocked | CohortReady | CohortStale | CohortLanded

record IntegrationCohort =
  coh_id :: string
  coh_projectId :: string
  coh_baseProjectRevisionId :: string
  coh_members :: "IntegrationCohortMember list"
  coh_conflictIds :: "string list"
  coh_state :: IntegrationCohortState
  coh_createdBy :: ActorRef
  coh_receipt :: string

record CollaborationPolicy =
  pol_version :: string
  pol_requiredEvidence :: "EvidenceRequirement list"
  pol_requiredEvidenceByEffect :: "(string, EvidenceRequirement list) jsmap option"

record IntegrationAnalyzerInput =
  iai_projectId :: string
  iai_baseProjectRevisionId :: string
  iai_members :: "IntegrationCohortMember list"

record IntegrationAnalyzer =
  an_id :: string
  an_analyze :: "IntegrationAnalyzerInput \<Rightarrow> IntegrationConflictCandidate list"

datatype CollaborationAuditRole = RoleAuthor | RoleVerifier | RoleReviewer | RoleLanding | RolePromotion | RoleAnalyzer
datatype AuditOutcome = AuditObserved | AuditSucceeded | AuditDenied

record CollaborationAuditEvent =
  aud_projectId :: string
  aud_cohortId :: "string option"
  aud_changeId :: "string option"
  aud_changeRevisionId :: "string option"
  aud_role :: CollaborationAuditRole
  aud_action :: string
  aud_outcome :: AuditOutcome
  aud_actor :: ActorRef
  aud_policyVersion :: string
  aud_disclosure :: DisclosureClassification
  aud_receipt :: string

datatype CollaborationBlockerKind =
    BlStaleBase | BlOpenConflict | BlOpenFinding | BlRequiredReviewer | BlStaleApproval
  | BlMissingEvidence | BlStaleEvidence | BlFailedEvidence | BlSeparationOfDuty | BlInvalidState

record CollaborationBlocker =
  bl_kind :: CollaborationBlockerKind
  bl_affectedObject :: string
  bl_changeId :: "string option"
  bl_scopeId :: "string option"
  bl_disclosure :: DisclosureClassification
  bl_message :: string
  bl_recoveryAction :: string
  bl_safeCommand :: string

datatype PolicyDecision = DecisionAllow | DecisionDeny | DecisionIndeterminate

record CollaborationPolicyExplanation =
  ex_projectId :: string
  ex_cohortId :: string
  ex_decision :: PolicyDecision
  ex_policyVersion :: string
  ex_authorizationEpoch :: "string option"
  ex_baseProjectRevisionId :: string
  ex_currentCanonicalProjectRevisionId :: string
  ex_blockers :: "CollaborationBlocker list"
  ex_safeNextCommands :: "string list"
  ex_receipt :: string

datatype CollaborationErrorCode =
    CoInvalidInput | CoProjectMismatch | CoDuplicateMember | CoChangeRevisionMismatch | CoChangeRevisionNotLatest
  | CoBaseMismatch | CoCohortNotFound | CoConflictNotFound | CoFindingNotFound | CoRequirementNotFound
  | CoReviewerNotRequired | CoSeparationOfDuty | CoIdempotencyConflict | CoPolicyBlocked
  | CoLandingAuthorityUnavailable | CoLandingResultMismatch

record CollaborationError =
  coe_code :: CollaborationErrorCode
  coe_affectedObject :: string
  coe_explanation :: "CollaborationPolicyExplanation option"

record CreateCohortMemberInput =
  ccm_change :: Change
  ccm_revision :: ChangeRevision
  ccm_verifierActors :: "ActorRef list option"

record CollaborationCoordinator =
  co_projectId :: string
  co_policy :: CollaborationPolicy
  co_ownershipRules :: "ReviewOwnershipRule list"
  co_reviewerDirectory :: "ReviewerDirectoryEntry list"
  co_analyzers :: "IntegrationAnalyzer list"
  co_authorizationEpoch :: "string option"
  co_canonicalRevision :: ProjectRevision
  co_cohorts :: "(string, IntegrationCohort) jsmap"
  co_conflicts :: "(string, IntegrationConflict) jsmap"
  co_findings :: "(string, ReviewFinding) jsmap"
  co_approvals :: "(string, ReviewApproval) jsmap"
  co_idempotency :: "(string, string) jsmap"
  co_audit :: "CollaborationAuditEvent list"

type_synonym 'a co_outcome = "(CollaborationCoordinator, CollaborationError, 'a) outcome"

section \<open>Helpers\<close>

definition co_failure :: "CollaborationErrorCode \<Rightarrow> string \<Rightarrow> CollaborationError" where
  "co_failure code affectedObject = \<lparr>coe_code = code, coe_affectedObject = affectedObject, coe_explanation = None\<rparr>"

definition nonEmpty :: "string \<Rightarrow> string \<Rightarrow> CollaborationError option" where
  "nonEmpty v fieldName = fail_if (blank v) (co_failure CoInvalidInput fieldName)"

fun disclosureRank :: "DisclosureClassification \<Rightarrow> nat" where
  "disclosureRank DPublic = 0"
| "disclosureRank DProject = 1"
| "disclosureRank DRestricted = 2"

fun conflict_kind_text :: "IntegrationConflictKind \<Rightarrow> string" where
  "conflict_kind_text IcTextual = ''textual''"
| "conflict_kind_text IcSemantic = ''semantic''"
| "conflict_kind_text IcSchema = ''schema''"
| "conflict_kind_text IcDependency = ''dependency''"
| "conflict_kind_text IcPolicy = ''policy''"
| "conflict_kind_text IcDisclosure = ''disclosure''"

fun finding_severity_text :: "ReviewFindingSeverity \<Rightarrow> string" where
  "finding_severity_text SevInfo = ''info''"
| "finding_severity_text SevWarning = ''warning''"
| "finding_severity_text SevBlocking = ''blocking''"

fun scope_kind_text :: "OwnershipScopeKind \<Rightarrow> string" where
  "scope_kind_text ScopeModule = ''module''"
| "scope_kind_text ScopeSourceSpace = ''source-space''"
| "scope_kind_text ScopeTarget = ''target''"

definition stableId :: "(js_value \<Rightarrow> string) \<Rightarrow> string \<Rightarrow> js_value \<Rightarrow> string" where
  "stableId digest pre v = pre @ '':'' @ digest v"

definition candidate_json :: "IntegrationConflictCandidate \<Rightarrow> js_value" where
  "candidate_json c = JObject [
     (''kind'', JString (conflict_kind_text (cand_kind c))),
     (''severity'', JString (if cand_severity c = IcBlocking then ''blocking'' else ''warning'')),
     (''changeIds'', JArray (map JString (cand_changeIds c))),
     (''scopeIds'', JArray (map JString (cand_scopeIds c))),
     (''description'', JString (cand_description c)),
     (''disclosure'', JString (disclosure_text (cand_disclosure c))),
     (''receipt'', JString (cand_receipt c)),
     (''recoveryAction'', JString (cand_recoveryAction c))]"

definition actorForId :: "string \<Rightarrow> ActorRef \<Rightarrow> ActorRef" where
  "actorForId actorId fallback = fallback\<lparr>actor_actorId := actorId\<rparr>"

text \<open>The first of several optional values that is defined.\<close>

definition first_defined :: "'a option \<Rightarrow> 'a option \<Rightarrow> 'a option" where
  "first_defined x y = (case x of Some v \<Rightarrow> Some v | None \<Rightarrow> y)"

text \<open>A loop whose body may throw and writes the state: a throw keeps the writes of the iterations before it.\<close>

fun state_loop :: "('x \<Rightarrow> 'b \<Rightarrow> 's \<Rightarrow> ('s, 'e, 'b) outcome) \<Rightarrow> 'x list \<Rightarrow> 'b \<Rightarrow> 's \<Rightarrow> ('s, 'e, 'b) outcome" where
  "state_loop f [] b s = return b s"
| "state_loop f (x # xs) b s = (case f x b s of (Inl e, s') \<Rightarrow> raise e s' | (Inr b', s') \<Rightarrow> state_loop f xs b' s')"

text \<open>An outcome without its result and its error.\<close>

fun forget :: "('s, 'e, 'a) outcome \<Rightarrow> ('s, unit, unit) outcome" where
  "forget (Inl e, s) = (Inl (), s)"
| "forget (Inr a, s) = (Inr (), s)"

lemma snd_forget [simp]: "snd (forget r) = snd r"
  by (cases r rule: forget.cases) auto

definition appendAudit :: "string option \<Rightarrow> CollaborationAuditEvent \<Rightarrow> CollaborationCoordinator \<Rightarrow> CollaborationCoordinator" where
  "appendAudit policyVersion event s = s\<lparr>co_audit := co_audit s @ [event\<lparr>
     aud_cohortId := keep_truthy (aud_cohortId event),
     aud_changeId := keep_truthy (aud_changeId event),
     aud_changeRevisionId := keep_truthy (aud_changeRevisionId event),
     aud_policyVersion := nullish policyVersion (pol_version (co_policy s))\<rparr>]\<rparr>"

section \<open>The baseline analyzer\<close>

definition classifyEffect :: "(string \<Rightarrow> string) \<Rightarrow> string \<Rightarrow> IntegrationConflictKind" where
  "classifyEffect lower eff =
     (let normalized = lower eff
      in if startsWith normalized ''textual.'' \<or> includesSub normalized ''text-conflict'' then IcTextual
         else if startsWith normalized ''schema.'' \<or> includesSub normalized ''migration'' then IcSchema
         else if startsWith normalized ''dependency.'' \<or> includesSub normalized ''lockfile'' then IcDependency
         else if startsWith normalized ''policy.'' \<or> includesSub normalized ''ownership'' then IcPolicy
         else if startsWith normalized ''disclosure.'' \<or> includesSub normalized ''private'' then IcDisclosure
         else IcSemantic)"

definition overlap_candidate :: "(string \<Rightarrow> string) \<Rightarrow> IntegrationCohortMember \<Rightarrow> IntegrationCohortMember \<Rightarrow> string
    \<Rightarrow> IntegrationConflictCandidate" where
  "overlap_candidate lower left right eff = \<lparr>
     cand_kind = classifyEffect lower eff,
     cand_severity = IcBlocking,
     cand_changeIds = [icm_changeId left, icm_changeId right],
     cand_scopeIds = uniq (icm_affectedModuleIds left @ icm_affectedSourceSpaceIds left @ icm_affectedTargetIds left
       @ icm_affectedModuleIds right @ icm_affectedSourceSpaceIds right @ icm_affectedTargetIds right),
     cand_description = ''Changes '' @ icm_changeId left @ '' and '' @ icm_changeId right @ '' both declare effect '' @ eff @ ''.'',
     cand_disclosure = DProject,
     cand_receipt = ''analyzer=analyzer:declared-effect-overlap/v1; effect='' @ eff @ ''; left='' @ icm_changeId left
       @ ''; right='' @ icm_changeId right,
     cand_recoveryAction = ''run a semantic analyzer or publish a new Change Revision that resolves the effect conflict''\<rparr>"

fun overlap_candidates :: "(string \<Rightarrow> string) \<Rightarrow> IntegrationCohortMember list \<Rightarrow> IntegrationConflictCandidate list" where
  "overlap_candidates lower [] = []"
| "overlap_candidates lower (left # rest) =
     concat (map (\<lambda>right. map (overlap_candidate lower left right)
       (filter (\<lambda>eff. eff \<in> set (icm_declaredEffects right)) (icm_declaredEffects left))) rest)
     @ overlap_candidates lower rest"

definition declaredEffectOverlapAnalyzer :: "(string \<Rightarrow> string) \<Rightarrow> IntegrationAnalyzer" where
  "declaredEffectOverlapAnalyzer lower = \<lparr>an_id = ''analyzer:declared-effect-overlap/v1'',
     an_analyze = (\<lambda>input. overlap_candidates lower (iai_members input))\<rparr>"

section \<open>Construction, policy and queries\<close>

definition new_collaboration :: "(string \<Rightarrow> string) \<Rightarrow> string \<Rightarrow> ProjectRevision \<Rightarrow> CollaborationPolicy \<Rightarrow> ReviewOwnershipRule list option
    \<Rightarrow> ReviewerDirectoryEntry list option \<Rightarrow> IntegrationAnalyzer list option \<Rightarrow> string option
    \<Rightarrow> CollaborationError + CollaborationCoordinator" where
  "new_collaboration lower projectId canonicalRevision policy ownershipRules reviewerDirectory analyzers authorizationEpoch =
     (case or_else (nonEmpty projectId ''projectId'')
            (or_else (fail_if (prev_projectId canonicalRevision \<noteq> projectId) (co_failure CoProjectMismatch (prev_id canonicalRevision)))
              (nonEmpty (pol_version policy) ''policy.version'')) of
        Some e \<Rightarrow> Inl e
      | None \<Rightarrow> Inr \<lparr>co_projectId = projectId, co_policy = policy,
          co_ownershipRules = nullish ownershipRules [],
          co_reviewerDirectory = nullish reviewerDirectory [],
          co_analyzers = nullish analyzers [declaredEffectOverlapAnalyzer lower],
          co_authorizationEpoch = authorizationEpoch,
          co_canonicalRevision = canonicalRevision,
          co_cohorts = [], co_conflicts = [], co_findings = [], co_approvals = [], co_idempotency = [], co_audit = []\<rparr>)"

definition setCanonicalProjectRevision :: "ProjectRevision \<Rightarrow> CollaborationCoordinator \<Rightarrow> unit co_outcome" where
  "setCanonicalProjectRevision revision s =
     (if prev_projectId revision \<noteq> co_projectId s then raise (co_failure CoProjectMismatch (prev_id revision)) s
      else return () (s\<lparr>co_canonicalRevision := revision\<rparr>))"

definition activatePolicy :: "CollaborationPolicy \<Rightarrow> CollaborationCoordinator \<Rightarrow> unit co_outcome" where
  "activatePolicy policy s =
     (case or_else (nonEmpty (pol_version policy) ''policy.version'')
            (fail_if (pol_version policy = pol_version (co_policy s)) (co_failure CoInvalidInput (pol_version policy))) of
        Some e \<Rightarrow> raise e s
      | None \<Rightarrow> return () (s\<lparr>co_policy := policy\<rparr>))"

definition requireCohort :: "CollaborationCoordinator \<Rightarrow> string \<Rightarrow> CollaborationError + IntegrationCohort" where
  "requireCohort s cohortId =
     (case get_key (co_cohorts s) cohortId of None \<Rightarrow> Inl (co_failure CoCohortNotFound cohortId) | Some cohort \<Rightarrow> Inr cohort)"

definition requireMember :: "IntegrationCohort \<Rightarrow> string \<Rightarrow> string \<Rightarrow> CollaborationError + IntegrationCohortMember" where
  "requireMember cohort changeId changeRevisionId =
     (case find (\<lambda>candidate. icm_changeId candidate = changeId \<and> icm_changeRevisionId candidate = changeRevisionId) (coh_members cohort) of
        None \<Rightarrow> Inl (co_failure CoChangeRevisionMismatch changeId) | Some member \<Rightarrow> Inr member)"

definition getCohort :: "CollaborationCoordinator \<Rightarrow> string \<Rightarrow> IntegrationCohort option" where
  "getCohort s cohortId = get_key (co_cohorts s) cohortId"

definition listIntegrationConflicts :: "CollaborationCoordinator \<Rightarrow> string \<Rightarrow> IntegrationConflict list" where
  "listIntegrationConflicts s cohortId = filter (\<lambda>conflict. ic_cohortId conflict = cohortId) (map_values (co_conflicts s))"

definition listFindings :: "CollaborationCoordinator \<Rightarrow> string \<Rightarrow> ReviewFinding list" where
  "listFindings s cohortId = filter (\<lambda>finding. fi_cohortId finding = cohortId) (map_values (co_findings s))"

definition listApprovals :: "CollaborationCoordinator \<Rightarrow> string \<Rightarrow> ReviewApproval list" where
  "listApprovals s cohortId = filter (\<lambda>approval. ap_cohortId approval = cohortId) (map_values (co_approvals s))"

definition listAuditEvents :: "CollaborationCoordinator \<Rightarrow> CollaborationAuditEvent list" where
  "listAuditEvents s = co_audit s"

section \<open>Cohorts\<close>

text \<open>The body of the loop over the proposed members: \<open>members\<close> are the ones accepted so far.\<close>

definition cohort_member_error :: "CollaborationCoordinator \<Rightarrow> string \<Rightarrow> CreateCohortMemberInput \<Rightarrow> IntegrationCohortMember list
    \<Rightarrow> CollaborationError option" where
  "cohort_member_error s baseProjectRevisionId candidate members =
     (let change = ccm_change candidate; revision = ccm_revision candidate;
          revisionBase = nullish (rev_baseProjectRevisionId revision) (rev_projectRevisionId revision)
      in or_else (fail_if (ch_projectId change \<noteq> co_projectId s) (co_failure CoProjectMismatch (ch_id change)))
        (or_else (fail_if (ch_id change \<in> set (map icm_changeId members) \<or> rev_id revision \<in> set (map icm_changeRevisionId members))
            (co_failure CoDuplicateMember (ch_id change)))
        (or_else (fail_if (rev_changeId revision \<noteq> ch_id change) (co_failure CoChangeRevisionMismatch (rev_id revision)))
        (or_else (fail_if (ch_latestRevisionId change \<noteq> Some (rev_id revision)) (co_failure CoChangeRevisionNotLatest (ch_id change)))
          (fail_if (revisionBase \<noteq> baseProjectRevisionId \<or> ch_baseProjectRevisionId change \<noteq> baseProjectRevisionId)
            (co_failure CoBaseMismatch (ch_id change)))))))"

definition cohort_member :: "CreateCohortMemberInput \<Rightarrow> IntegrationCohortMember" where
  "cohort_member candidate =
     (let change = ccm_change candidate; revision = ccm_revision candidate;
          author = first_defined (rev_author revision) (ch_author change)
      in \<lparr>icm_changeId = ch_id change,
          icm_changeRevisionId = rev_id revision,
          icm_baseProjectRevisionId = nullish (rev_baseProjectRevisionId revision) (rev_projectRevisionId revision),
          icm_author = author,
          icm_authorActorId = keep_truthy (map_option actor_actorId author),
          icm_verifierActorIds = map actor_actorId (nullish (ccm_verifierActors candidate) []),
          icm_affectedModuleIds = nullish (rev_affectedModuleIds revision) [],
          icm_affectedSourceSpaceIds = nullish (rev_affectedSourceSpaceIds revision) [],
          icm_affectedTargetIds = nullish (rev_affectedTargetIds revision) [],
          icm_declaredEffects = rev_declaredEffects revision\<rparr>)"

definition collect_member :: "CollaborationCoordinator \<Rightarrow> string \<Rightarrow> CreateCohortMemberInput \<Rightarrow> IntegrationCohortMember list
    \<Rightarrow> CollaborationError + IntegrationCohortMember list" where
  "collect_member s baseProjectRevisionId candidate members =
     (case cohort_member_error s baseProjectRevisionId candidate members of
        Some e \<Rightarrow> Inl e | None \<Rightarrow> Inr (members @ [cohort_member candidate]))"

definition new_conflict :: "(js_value \<Rightarrow> string) \<Rightarrow> string \<Rightarrow> string \<Rightarrow> IntegrationCohortMember list \<Rightarrow> string
    \<Rightarrow> IntegrationConflictCandidate \<Rightarrow> IntegrationConflict" where
  "new_conflict digest projectId cohortId members analyzerId candidate = \<lparr>
     ic_id = stableId digest ''integration-conflict'' (JObject [(''cohortId'', JString cohortId),
       (''analyzerId'', JString analyzerId), (''candidate'', candidate_json candidate)]),
     ic_projectId = projectId,
     ic_cohortId = cohortId,
     ic_kind = cand_kind candidate,
     ic_severity = cand_severity candidate,
     ic_state = IcOpen,
     ic_changeIds = uniq (cand_changeIds candidate),
     ic_changeRevisionIds = map icm_changeRevisionId
       (filter (\<lambda>member. icm_changeId member \<in> set (cand_changeIds candidate)) members),
     ic_scopeIds = cand_scopeIds candidate,
     ic_analyzerId = analyzerId,
     ic_description = cand_description candidate,
     ic_disclosure = cand_disclosure candidate,
     ic_resolutionRevisionIds = None,
     ic_receipt = cand_receipt candidate,
     ic_recoveryAction = cand_recoveryAction candidate\<rparr>"

definition register_candidate :: "(js_value \<Rightarrow> string) \<Rightarrow> ActorRef \<Rightarrow> string \<Rightarrow> IntegrationCohortMember list \<Rightarrow> string
    \<Rightarrow> IntegrationConflictCandidate \<Rightarrow> string list \<Rightarrow> CollaborationCoordinator \<Rightarrow> string list co_outcome" where
  "register_candidate digest actor cohortId members analyzerId candidate conflictIds s =
     (case or_else (fail_if (cand_changeIds candidate = [] \<or> \<not> set (cand_changeIds candidate) \<subseteq> set (map icm_changeId members))
              (co_failure CoInvalidInput analyzerId))
            (or_else (nonEmpty (cand_description candidate) ''conflict.description'')
              (nonEmpty (cand_receipt candidate) ''conflict.receipt'')) of
        Some e \<Rightarrow> raise e s
      | None \<Rightarrow>
          (let conflict = new_conflict digest (co_projectId s) cohortId members analyzerId candidate
           in return (conflictIds @ [ic_id conflict])
                (appendAudit None \<lparr>aud_projectId = co_projectId s, aud_cohortId = Some cohortId, aud_changeId = None,
                   aud_changeRevisionId = None, aud_role = RoleAnalyzer, aud_action = ''integration-conflict.detected'',
                   aud_outcome = AuditObserved, aud_actor = actor, aud_policyVersion = [], aud_disclosure = cand_disclosure candidate,
                   aud_receipt = cand_receipt candidate @ ''; conflict='' @ ic_id conflict\<rparr>
                 (s\<lparr>co_conflicts := set_key (ic_id conflict) conflict (co_conflicts s)\<rparr>))))"

definition run_analyzer :: "(js_value \<Rightarrow> string) \<Rightarrow> ActorRef \<Rightarrow> string \<Rightarrow> string \<Rightarrow> IntegrationCohortMember list
    \<Rightarrow> IntegrationAnalyzer \<Rightarrow> string list \<Rightarrow> CollaborationCoordinator \<Rightarrow> string list co_outcome" where
  "run_analyzer digest actor cohortId baseProjectRevisionId members analyzer conflictIds s =
     state_loop (register_candidate digest actor cohortId members (an_id analyzer))
       (an_analyze analyzer \<lparr>iai_projectId = co_projectId s, iai_baseProjectRevisionId = baseProjectRevisionId, iai_members = members\<rparr>)
       conflictIds s"

definition author_audit :: "string \<Rightarrow> ActorRef \<Rightarrow> IntegrationCohortMember \<Rightarrow> CollaborationCoordinator \<Rightarrow> CollaborationCoordinator" where
  "author_audit cohortId actor member s =
     (case icm_authorActorId member of
        None \<Rightarrow> s
      | Some authorActorId \<Rightarrow>
          if authorActorId = [] then s
          else appendAudit None \<lparr>aud_projectId = co_projectId s, aud_cohortId = Some cohortId,
            aud_changeId = Some (icm_changeId member), aud_changeRevisionId = Some (icm_changeRevisionId member),
            aud_role = RoleAuthor, aud_action = ''change-revision.authored'', aud_outcome = AuditObserved,
            aud_actor = nullish (icm_author member) (actorForId authorActorId actor), aud_policyVersion = [],
            aud_disclosure = DProject,
            aud_receipt = ''change='' @ icm_changeId member @ ''; revision='' @ icm_changeRevisionId member
              @ ''; author='' @ authorActorId\<rparr> s)"

definition createCohort :: "(js_value \<Rightarrow> string) \<Rightarrow> string \<Rightarrow> CreateCohortMemberInput list \<Rightarrow> ActorRef \<Rightarrow> string option \<Rightarrow> string option
    \<Rightarrow> CollaborationCoordinator \<Rightarrow> IntegrationCohort co_outcome" where
  "createCohort digest uuid candidates actor requestedBase requestedId s =
     (if length candidates = 0 then raise (co_failure CoInvalidInput (co_projectId s)) s
      else (let baseProjectRevisionId = nullish requestedBase (prev_id (co_canonicalRevision s))
       in case fold_loop (collect_member s baseProjectRevisionId) candidates [] of
            Inl e \<Rightarrow> raise e s
          | Inr members \<Rightarrow>
              (let cohortId = nullish requestedId (opaqueId ''integration-cohort'' uuid)
               in case state_loop (run_analyzer digest actor cohortId baseProjectRevisionId members) (co_analyzers s) [] s of
                    (Inl e, s1) \<Rightarrow> raise e s1
                  | (Inr conflictIds, s1) \<Rightarrow>
                      (let cohort = \<lparr>coh_id = cohortId, coh_projectId = co_projectId s1,
                             coh_baseProjectRevisionId = baseProjectRevisionId, coh_members = members, coh_conflictIds = conflictIds,
                             coh_state = (if list_ex (\<lambda>i. map_option ic_severity (get_key (co_conflicts s1) i) = Some IcBlocking) conflictIds
                                          then CohortBlocked else CohortProposed),
                             coh_createdBy = actor,
                             coh_receipt = ''cohort=created; project='' @ co_projectId s1 @ ''; base='' @ baseProjectRevisionId
                               @ ''; members='' @ join_with '','' (map icm_changeId members)
                               @ ''; conflicts='' @ show_nat (length conflictIds)\<rparr>
                       in return cohort (foldl (\<lambda>t member. author_audit cohortId actor member t)
                            (s1\<lparr>co_cohorts := set_key cohortId cohort (co_cohorts s1)\<rparr>) members)))))"

section \<open>Review\<close>

definition affected :: "ReviewOwnershipRule \<Rightarrow> IntegrationCohortMember \<Rightarrow> bool" where
  "affected rule member = (case rule_scopeKind rule of
     ScopeModule \<Rightarrow> rule_scopeId rule \<in> set (icm_affectedModuleIds member)
   | ScopeSourceSpace \<Rightarrow> rule_scopeId rule \<in> set (icm_affectedSourceSpaceIds member)
   | ScopeTarget \<Rightarrow> rule_scopeId rule \<in> set (icm_affectedTargetIds member))"

definition reviewer_candidates :: "ReviewOwnershipRule \<Rightarrow> ReviewerDirectoryEntry list \<Rightarrow> string list" where
  "reviewer_candidates rule directory = map entry_principalId (filter (\<lambda>entry. entry_active entry \<noteq> Some False
     \<and> (entry_principalId entry \<in> set (rule_requiredReviewerPrincipalIds rule)
        \<or> list_ex (\<lambda>teamId. teamId \<in> set (rule_requiredReviewerTeamIds rule)) (entry_teamIds entry))) directory)"

definition review_requirement :: "(js_value \<Rightarrow> string) \<Rightarrow> CollaborationCoordinator \<Rightarrow> string \<Rightarrow> IntegrationCohortMember \<Rightarrow> ReviewOwnershipRule
    \<Rightarrow> ReviewRequirement" where
  "review_requirement digest s cohortId member rule = \<lparr>
     rr_id = stableId digest ''review-requirement'' (JObject [(''cohortId'', JString cohortId), (''ruleId'', JString (rule_id rule)),
       (''changeId'', JString (icm_changeId member)), (''changeRevisionId'', JString (icm_changeRevisionId member))]),
     rr_ruleId = rule_id rule,
     rr_changeId = icm_changeId member,
     rr_changeRevisionId = icm_changeRevisionId member,
     rr_scopeKind = rule_scopeKind rule,
     rr_scopeId = rule_scopeId rule,
     rr_disclosure = rule_disclosure rule,
     rr_requiredReviewerPrincipalIds = rule_requiredReviewerPrincipalIds rule,
     rr_requiredReviewerTeamIds = rule_requiredReviewerTeamIds rule,
     rr_candidatePrincipalIds = uniq (reviewer_candidates rule (co_reviewerDirectory s)),
     rr_reason = nullish (rule_label rule) (scope_kind_text (rule_scopeKind rule) @ '' owner review is required'')\<rparr>"

definition requirementsFor :: "(js_value \<Rightarrow> string) \<Rightarrow> CollaborationCoordinator \<Rightarrow> IntegrationCohort \<Rightarrow> ReviewRequirement list" where
  "requirementsFor digest s cohort = concat (map (\<lambda>member.
     map (review_requirement digest s (coh_id cohort) member) (filter (\<lambda>rule. affected rule member) (co_ownershipRules s)))
     (coh_members cohort))"

definition listReviewRequirements :: "(js_value \<Rightarrow> string) \<Rightarrow> CollaborationCoordinator \<Rightarrow> string \<Rightarrow> CollaborationError + ReviewRequirement list" where
  "listReviewRequirements digest s cohortId =
     (case requireCohort s cohortId of Inl e \<Rightarrow> Inl e | Inr cohort \<Rightarrow> Inr (requirementsFor digest s cohort))"

definition requirementFor :: "(js_value \<Rightarrow> string) \<Rightarrow> CollaborationCoordinator \<Rightarrow> IntegrationCohort \<Rightarrow> string
    \<Rightarrow> CollaborationError + ReviewRequirement" where
  "requirementFor digest s cohort requirementId =
     (case find (\<lambda>candidate. rr_id candidate = requirementId) (requirementsFor digest s cohort) of
        None \<Rightarrow> Inl (co_failure CoRequirementNotFound requirementId) | Some requirement \<Rightarrow> Inr requirement)"

record SubmitFindingInput =
  sfi_cohortId :: string
  sfi_changeId :: string
  sfi_changeRevisionId :: string
  sfi_author :: ActorRef
  sfi_kind :: ReviewFindingKind
  sfi_severity :: ReviewFindingSeverity
  sfi_summary :: string
  sfi_disclosure :: "DisclosureClassification option"
  sfi_scope :: "ReviewScope option"
  sfi_idempotencyKey :: "string option"

text \<open>The object an idempotency key stands for, when the key was given and is in use.\<close>

definition idempotent_id :: "CollaborationCoordinator \<Rightarrow> string option \<Rightarrow> string option" where
  "idempotent_id s idempotencyKey =
     (if truthy idempotencyKey then keep_truthy (get_key (co_idempotency s) (the idempotencyKey)) else None)"

definition remember :: "string option \<Rightarrow> string \<Rightarrow> CollaborationCoordinator \<Rightarrow> CollaborationCoordinator" where
  "remember idempotencyKey i s =
     (if truthy idempotencyKey then s\<lparr>co_idempotency := set_key (the idempotencyKey) i (co_idempotency s)\<rparr> else s)"

definition new_finding :: "string \<Rightarrow> SubmitFindingInput \<Rightarrow> string \<Rightarrow> string \<Rightarrow> ReviewFinding" where
  "new_finding uuid input projectId cohortId = \<lparr>
     fi_id = opaqueId ''review-finding'' uuid, fi_projectId = projectId, fi_cohortId = cohortId,
     fi_changeId = sfi_changeId input, fi_changeRevisionId = sfi_changeRevisionId input, fi_author = sfi_author input,
     fi_kind = sfi_kind input, fi_severity = sfi_severity input, fi_state = FindOpen, fi_summary = sfi_summary input,
     fi_scope = sfi_scope input, fi_disclosure = nullish (sfi_disclosure input) DProject,
     fi_resolution = None, fi_resolvedBy = None,
     fi_receipt = ''finding=open; cohort='' @ cohortId @ ''; change='' @ sfi_changeId input @ ''; revision=''
       @ sfi_changeRevisionId input @ ''; severity='' @ finding_severity_text (sfi_severity input)\<rparr>"

definition submitFinding :: "string \<Rightarrow> SubmitFindingInput \<Rightarrow> CollaborationCoordinator \<Rightarrow> ReviewFinding co_outcome" where
  "submitFinding uuid input s =
     (case requireCohort s (sfi_cohortId input) of
        Inl e \<Rightarrow> raise e s
      | Inr cohort \<Rightarrow>
          (case requireMember cohort (sfi_changeId input) (sfi_changeRevisionId input) of
             Inl e \<Rightarrow> raise e s
           | Inr member \<Rightarrow>
               (case nonEmpty (sfi_summary input) ''review.summary'' of
                  Some e \<Rightarrow> raise e s
                | None \<Rightarrow>
                    (case idempotent_id s (sfi_idempotencyKey input) of
                       Some existingId \<Rightarrow>
                         (case get_key (co_findings s) existingId of
                            None \<Rightarrow> raise (co_failure CoIdempotencyConflict (the (sfi_idempotencyKey input))) s
                          | Some existing \<Rightarrow>
                              if fi_changeId existing \<noteq> sfi_changeId input \<or> fi_changeRevisionId existing \<noteq> sfi_changeRevisionId input
                              then raise (co_failure CoIdempotencyConflict (the (sfi_idempotencyKey input))) s
                              else return existing s)
                     | None \<Rightarrow>
                         (let finding = new_finding uuid input (co_projectId s) (coh_id cohort)
                          in return finding (appendAudit (Some (pol_version (co_policy s)))
                               \<lparr>aud_projectId = co_projectId s, aud_cohortId = Some (coh_id cohort),
                                aud_changeId = Some (fi_changeId finding), aud_changeRevisionId = Some (fi_changeRevisionId finding),
                                aud_role = RoleReviewer, aud_action = ''review.finding.submitted'', aud_outcome = AuditObserved,
                                aud_actor = sfi_author input, aud_policyVersion = [], aud_disclosure = fi_disclosure finding,
                                aud_receipt = fi_receipt finding\<rparr>
                               (remember (sfi_idempotencyKey input) (fi_id finding)
                                 (s\<lparr>co_findings := set_key (fi_id finding) finding (co_findings s)\<rparr>))))))))"

definition resolveFinding :: "string \<Rightarrow> ActorRef \<Rightarrow> string \<Rightarrow> CollaborationCoordinator \<Rightarrow> ReviewFinding co_outcome" where
  "resolveFinding findingId actor resolution s =
     (case get_key (co_findings s) findingId of
        None \<Rightarrow> raise (co_failure CoFindingNotFound findingId) s
      | Some finding \<Rightarrow>
          (case nonEmpty resolution ''review.resolution'' of
             Some e \<Rightarrow> raise e s
           | None \<Rightarrow>
               (let updated = finding\<lparr>fi_state := FindResolved, fi_resolution := Some resolution, fi_resolvedBy := Some actor,
                      fi_receipt := ''finding=resolved; id='' @ fi_id finding @ ''; resolutionActor='' @ actor_actorId actor\<rparr>
                in return updated (appendAudit (Some (pol_version (co_policy s)))
                     \<lparr>aud_projectId = co_projectId s, aud_cohortId = Some (fi_cohortId finding),
                      aud_changeId = Some (fi_changeId finding), aud_changeRevisionId = Some (fi_changeRevisionId finding),
                      aud_role = RoleReviewer, aud_action = ''review.finding.resolved'', aud_outcome = AuditSucceeded,
                      aud_actor = actor, aud_policyVersion = [], aud_disclosure = fi_disclosure finding,
                      aud_receipt = fi_receipt updated\<rparr>
                     (s\<lparr>co_findings := set_key (fi_id updated) updated (co_findings s)\<rparr>)))))"

record ApproveInput =
  apr_cohortId :: string
  apr_requirementId :: string
  apr_reviewer :: ActorRef
  apr_evidenceIds :: "string list option"
  apr_idempotencyKey :: "string option"

definition approve_error :: "ApproveInput \<Rightarrow> ReviewRequirement \<Rightarrow> IntegrationCohortMember \<Rightarrow> CollaborationError option" where
  "approve_error input requirement member =
     or_else (fail_if (Some (actor_actorId (apr_reviewer input)) = icm_authorActorId member
                \<or> actor_actorId (apr_reviewer input) \<in> set (icm_verifierActorIds member))
              (co_failure CoSeparationOfDuty (rr_id requirement)))
       (fail_if (actor_principalId (apr_reviewer input) \<notin> set (rr_candidatePrincipalIds requirement))
         (co_failure CoReviewerNotRequired (rr_id requirement)))"

definition new_approval :: "string \<Rightarrow> ApproveInput \<Rightarrow> CollaborationCoordinator \<Rightarrow> string \<Rightarrow> ReviewRequirement \<Rightarrow> IntegrationCohortMember
    \<Rightarrow> ReviewApproval" where
  "new_approval uuid input s cohortId requirement member = \<lparr>
     ap_id = opaqueId ''review-approval'' uuid, ap_projectId = co_projectId s, ap_cohortId = cohortId,
     ap_requirementId = rr_id requirement, ap_changeId = rr_changeId requirement,
     ap_changeRevisionId = rr_changeRevisionId requirement, ap_reviewer = apr_reviewer input,
     ap_authorActorId = keep_truthy (icm_authorActorId member), ap_verifierActorIds = icm_verifierActorIds member,
     ap_evidenceIds = nullish (apr_evidenceIds input) [], ap_policyVersion = pol_version (co_policy s),
     ap_receipt = ''approval=approved; requirement='' @ rr_id requirement @ ''; change='' @ rr_changeId requirement
       @ ''; revision='' @ rr_changeRevisionId requirement @ ''; reviewer='' @ actor_actorId (apr_reviewer input)\<rparr>"

definition existing_approval :: "ApproveInput \<Rightarrow> ReviewRequirement \<Rightarrow> CollaborationCoordinator \<Rightarrow> ReviewApproval option" where
  "existing_approval input requirement s =
     find (\<lambda>approval. ap_requirementId approval = rr_id requirement \<and> ap_changeRevisionId approval = rr_changeRevisionId requirement
       \<and> actor_actorId (ap_reviewer approval) = actor_actorId (apr_reviewer input)
       \<and> ap_policyVersion approval = pol_version (co_policy s)) (map_values (co_approvals s))"

definition record_approval :: "string \<Rightarrow> ApproveInput \<Rightarrow> IntegrationCohort \<Rightarrow> ReviewRequirement \<Rightarrow> IntegrationCohortMember
    \<Rightarrow> CollaborationCoordinator \<Rightarrow> ReviewApproval co_outcome" where
  "record_approval uuid input cohort requirement member s =
     (let approval = new_approval uuid input s (coh_id cohort) requirement member
      in return approval (appendAudit (Some (pol_version (co_policy s)))
           \<lparr>aud_projectId = co_projectId s, aud_cohortId = Some (coh_id cohort),
            aud_changeId = Some (ap_changeId approval), aud_changeRevisionId = Some (ap_changeRevisionId approval),
            aud_role = RoleReviewer, aud_action = ''review.approved'', aud_outcome = AuditSucceeded,
            aud_actor = apr_reviewer input, aud_policyVersion = [], aud_disclosure = rr_disclosure requirement,
            aud_receipt = ap_receipt approval\<rparr>
           (remember (apr_idempotencyKey input) (ap_id approval)
             (s\<lparr>co_approvals := set_key (ap_id approval) approval (co_approvals s)\<rparr>))))"

definition approve :: "(js_value \<Rightarrow> string) \<Rightarrow> string \<Rightarrow> ApproveInput \<Rightarrow> CollaborationCoordinator \<Rightarrow> ReviewApproval co_outcome" where
  "approve digest uuid input s =
     (case requireCohort s (apr_cohortId input) of
        Inl e \<Rightarrow> raise e s
      | Inr cohort \<Rightarrow>
          (case requirementFor digest s cohort (apr_requirementId input) of
             Inl e \<Rightarrow> raise e s
           | Inr requirement \<Rightarrow>
               (case requireMember cohort (rr_changeId requirement) (rr_changeRevisionId requirement) of
                  Inl e \<Rightarrow> raise e s
                | Inr member \<Rightarrow>
                    (case approve_error input requirement member of
                       Some e \<Rightarrow> raise e s
                     | None \<Rightarrow>
                         (case idempotent_id s (apr_idempotencyKey input) of
                            Some existingId \<Rightarrow>
                              (case get_key (co_approvals s) existingId of
                                 None \<Rightarrow> raise (co_failure CoIdempotencyConflict (the (apr_idempotencyKey input))) s
                               | Some existing \<Rightarrow>
                                   if ap_requirementId existing \<noteq> rr_id requirement
                                      \<or> ap_changeRevisionId existing \<noteq> rr_changeRevisionId requirement
                                   then raise (co_failure CoIdempotencyConflict (the (apr_idempotencyKey input))) s
                                   else return existing s)
                          | None \<Rightarrow>
                              (case existing_approval input requirement s of
                                 Some existing \<Rightarrow> return existing s
                               | None \<Rightarrow> record_approval uuid input cohort requirement member s))))))"

definition resolveIntegrationConflict :: "string \<Rightarrow> string list \<Rightarrow> ActorRef \<Rightarrow> CollaborationCoordinator \<Rightarrow> IntegrationConflict co_outcome" where
  "resolveIntegrationConflict conflictId resolutionRevisionIds actor s =
     (case get_key (co_conflicts s) conflictId of
        None \<Rightarrow> raise (co_failure CoConflictNotFound conflictId) s
      | Some conflict \<Rightarrow>
          (case requireCohort s (ic_cohortId conflict) of
             Inl e \<Rightarrow> raise e s
           | Inr cohort \<Rightarrow>
               if length resolutionRevisionIds = 0 \<or> \<not> set resolutionRevisionIds \<subseteq> set (map icm_changeRevisionId (coh_members cohort))
               then raise (co_failure CoInvalidInput (ic_id conflict)) s
               else (let updated = conflict\<lparr>ic_state := IcResolved, ic_resolutionRevisionIds := Some resolutionRevisionIds,
                           ic_receipt := ''conflict=resolved; id='' @ ic_id conflict @ ''; revisions='' @ join_with '','' resolutionRevisionIds\<rparr>
                     in return updated (appendAudit (Some (pol_version (co_policy s)))
                          \<lparr>aud_projectId = co_projectId s, aud_cohortId = Some (coh_id cohort), aud_changeId = None,
                           aud_changeRevisionId = None, aud_role = RoleReviewer, aud_action = ''integration-conflict.resolved'',
                           aud_outcome = AuditSucceeded, aud_actor = actor, aud_policyVersion = [],
                           aud_disclosure = ic_disclosure conflict, aud_receipt = ic_receipt updated\<rparr>
                          (s\<lparr>co_conflicts := set_key (ic_id updated) updated (co_conflicts s)\<rparr>)))))"

section \<open>The landing policy\<close>

record CollaborationEvaluationInput =
  cei_cohortId :: string
  cei_evidence :: "Evidence list"
  cei_audience :: "DisclosureClassification option"
  cei_visibleScopeIds :: "string list option"

definition state_blockers :: "IntegrationCohort \<Rightarrow> CollaborationBlocker list" where
  "state_blockers cohort = (if coh_state cohort = CohortLanded then [\<lparr>
     bl_kind = BlInvalidState, bl_affectedObject = coh_id cohort, bl_changeId = None, bl_scopeId = None, bl_disclosure = DProject,
     bl_message = ''Integration Cohort '' @ coh_id cohort @ '' has already Landed.'',
     bl_recoveryAction = ''create a new Change for any further work'',
     bl_safeCommand = ''anyam change create --from-cohort '' @ coh_id cohort\<rparr>] else [])"

definition base_blockers :: "CollaborationCoordinator \<Rightarrow> IntegrationCohort \<Rightarrow> CollaborationBlocker list" where
  "base_blockers s cohort = (if prev_id (co_canonicalRevision s) \<noteq> coh_baseProjectRevisionId cohort then [\<lparr>
     bl_kind = BlStaleBase, bl_affectedObject = coh_id cohort, bl_changeId = None, bl_scopeId = None, bl_disclosure = DProject,
     bl_message = ''Integration Cohort '' @ coh_id cohort @ '' is based on '' @ coh_baseProjectRevisionId cohort
       @ '', but canonical state is '' @ prev_id (co_canonicalRevision s) @ ''.'',
     bl_recoveryAction = ''rebase every Change in the Cohort onto the current canonical Project Revision and reverify'',
     bl_safeCommand = ''anyam change rebase --cohort '' @ coh_id cohort\<rparr>] else [])"

fun first_of :: "'a list \<Rightarrow> 'a option" where
  "first_of [] = None"
| "first_of (x # xs) = Some x"

definition conflict_blockers :: "CollaborationCoordinator \<Rightarrow> IntegrationCohort \<Rightarrow> CollaborationBlocker list" where
  "conflict_blockers s cohort = map (\<lambda>conflict. \<lparr>
     bl_kind = BlOpenConflict, bl_affectedObject = ic_id conflict,
     bl_changeId = keep_truthy (first_of (ic_changeIds conflict)),
     bl_scopeId = keep_truthy (first_of (ic_scopeIds conflict)),
     bl_disclosure = ic_disclosure conflict, bl_message = ic_description conflict,
     bl_recoveryAction = ic_recoveryAction conflict,
     bl_safeCommand = ''anyam cohort inspect '' @ coh_id cohort\<rparr>)
     (filter (\<lambda>c. ic_state c = IcOpen \<and> ic_severity c = IcBlocking) (listIntegrationConflicts s (coh_id cohort)))"

definition finding_scope :: "ReviewFinding \<Rightarrow> string option" where
  "finding_scope finding = (case fi_scope finding of None \<Rightarrow> None
     | Some sc \<Rightarrow> first_defined (scope_sourceSpaceId sc) (first_defined (scope_moduleId sc) (scope_targetId sc)))"

definition blocking_finding :: "ReviewFinding \<Rightarrow> bool" where
  "blocking_finding finding \<longleftrightarrow> fi_state finding = FindOpen \<and> (fi_severity finding = SevBlocking \<or> fi_kind finding = FindRequestChanges)"

definition finding_blockers :: "CollaborationCoordinator \<Rightarrow> IntegrationCohort \<Rightarrow> CollaborationBlocker list" where
  "finding_blockers s cohort = map (\<lambda>finding. \<lparr>
     bl_kind = BlOpenFinding, bl_affectedObject = fi_id finding, bl_changeId = Some (fi_changeId finding),
     bl_scopeId = keep_truthy (finding_scope finding), bl_disclosure = fi_disclosure finding,
     bl_message = ''Review Finding '' @ fi_id finding @ '' requests a new Change Revision before Landing.'',
     bl_recoveryAction = ''address the Finding, publish a new immutable Change Revision, and request review again'',
     bl_safeCommand = ''anyam change publish --fix '' @ fi_changeId finding\<rparr>)
     (filter blocking_finding (listFindings s (coh_id cohort)))"

definition current_approvals :: "CollaborationCoordinator \<Rightarrow> ReviewRequirement \<Rightarrow> ReviewApproval list" where
  "current_approvals s requirement = filter (\<lambda>a. ap_requirementId a = rr_id requirement
     \<and> ap_changeRevisionId a = rr_changeRevisionId requirement \<and> ap_policyVersion a = pol_version (co_policy s)) (map_values (co_approvals s))"

definition invalid_duty :: "ReviewApproval \<Rightarrow> bool" where
  "invalid_duty a \<longleftrightarrow> Some (actor_actorId (ap_reviewer a)) = ap_authorActorId a \<or> actor_actorId (ap_reviewer a) \<in> set (ap_verifierActorIds a)"

definition approval_blockers :: "CollaborationCoordinator \<Rightarrow> ReviewRequirement \<Rightarrow> CollaborationBlocker list" where
  "approval_blockers s requirement =
     (let approvals = filter (\<lambda>a. ap_requirementId a = rr_id requirement) (map_values (co_approvals s));
          current = current_approvals s requirement;
          stale = length approvals > 0
      in if list_ex invalid_duty current
         then [\<lparr>bl_kind = BlSeparationOfDuty, bl_affectedObject = rr_id requirement, bl_changeId = Some (rr_changeId requirement),
           bl_scopeId = Some (rr_scopeId requirement), bl_disclosure = rr_disclosure requirement,
           bl_message = ''Requirement '' @ rr_id requirement @ '' has an approval from the Change author or verifier.'',
           bl_recoveryAction = ''obtain approval from an independent reviewer for the exact Change Revision'',
           bl_safeCommand = ''anyam change review request '' @ rr_changeId requirement\<rparr>]
         else if length current = 0
         then [\<lparr>bl_kind = (if stale then BlStaleApproval else BlRequiredReviewer), bl_affectedObject = rr_id requirement,
           bl_changeId = Some (rr_changeId requirement), bl_scopeId = Some (rr_scopeId requirement),
           bl_disclosure = rr_disclosure requirement,
           bl_message = (if stale then ''Required review for '' @ rr_changeId requirement @ '' is stale for Change Revision ''
               @ rr_changeRevisionId requirement @ ''.''
             else if length (rr_candidatePrincipalIds requirement) = 0
             then ''No active reviewer candidate is configured for '' @ rr_changeId requirement @ '' Revision ''
               @ rr_changeRevisionId requirement @ ''.''
             else ''An eligible reviewer has not approved '' @ rr_changeId requirement @ '' Revision ''
               @ rr_changeRevisionId requirement @ ''.''),
           bl_recoveryAction = (if stale then ''review the latest immutable Change Revision and approve it again''
             else ''request review from the configured module, Source Space, or Target owner''),
           bl_safeCommand = ''anyam change review request '' @ rr_changeId requirement\<rparr>]
         else [])"

text \<open>The requirements of the policy, the ones its effects add for each member, without repetition of
  the concatenated key.\<close>

definition effect_requirements :: "CollaborationCoordinator \<Rightarrow> IntegrationCohortMember \<Rightarrow> EvidenceRequirement list" where
  "effect_requirements s member = concat (map (\<lambda>eff.
     map (\<lambda>requirement. if req_expectedChangeRevisionId requirement = None
            then requirement\<lparr>req_expectedChangeRevisionId := Some (icm_changeRevisionId member)\<rparr> else requirement)
       (nullish (Option.bind (pol_requiredEvidenceByEffect (co_policy s)) (\<lambda>m. get_key m eff)) []))
     (icm_declaredEffects member))"

definition requirement_key :: "EvidenceRequirement \<Rightarrow> string" where
  "requirement_key requirement = req_key requirement @ '':'' @ req_currentValidityKey requirement
     @ '':'' @ nullish (req_expectedChangeRevisionId requirement) [] @ '':'' @ nullish (req_expectedTargetId requirement) []"

fun dedupe :: "string list \<Rightarrow> EvidenceRequirement list \<Rightarrow> EvidenceRequirement list" where
  "dedupe seen [] = []"
| "dedupe seen (r # rs) = (if requirement_key r \<in> set seen then dedupe seen rs else r # dedupe (seen @ [requirement_key r]) rs)"

definition requiredEvidenceFor :: "CollaborationCoordinator \<Rightarrow> IntegrationCohort \<Rightarrow> EvidenceRequirement list" where
  "requiredEvidenceFor s cohort =
     dedupe [] (pol_requiredEvidence (co_policy s) @ concat (map (effect_requirements s) (coh_members cohort)))"

definition matchesContext :: "EvidenceRequirement \<Rightarrow> Evidence \<Rightarrow> bool" where
  "matchesContext requirement r \<longleftrightarrow>
     expects (req_expectedProjectRevisionId requirement) (Some (ev_projectRevisionId r))
   \<and> expects (req_expectedProjectViewId requirement) (Some (ev_projectViewId r))
   \<and> expects (req_expectedChangeRevisionId requirement) (ev_changeRevisionId r)
   \<and> expects (req_expectedTargetId requirement) (ev_targetId r)
   \<and> expects (req_expectedDisclosureClassification requirement) (Some (disc_classification (ev_disclosure r)))"

definition selected_record :: "Evidence list \<Rightarrow> EvidenceRequirement \<Rightarrow> Evidence option" where
  "selected_record evidence requirement =
     (let records = filter (\<lambda>r. ev_key r = req_key requirement) evidence
      in first_defined (find (matchesContext requirement) (rev records)) (first_of (rev records)))"

definition evidence_blocker :: "CollaborationBlockerKind \<Rightarrow> EvidenceRequirement \<Rightarrow> string \<Rightarrow> string \<Rightarrow> string \<Rightarrow> CollaborationBlocker" where
  "evidence_blocker kind requirement message recovery command = \<lparr>bl_kind = kind, bl_affectedObject = req_key requirement,
     bl_changeId = None, bl_scopeId = None, bl_disclosure = DProject, bl_message = message, bl_recoveryAction = recovery,
     bl_safeCommand = command\<rparr>"

definition evidence_blockers :: "IntegrationCohort \<Rightarrow> Evidence list \<Rightarrow> EvidenceRequirement \<Rightarrow> CollaborationBlocker list" where
  "evidence_blockers cohort evidence requirement =
     (case selected_record evidence requirement of
        None \<Rightarrow> [evidence_blocker BlMissingEvidence requirement
          (''Evidence '' @ req_key requirement @ '' is missing for Integration Cohort '' @ coh_id cohort @ ''.'')
          ''run the required Action or Verifier and attach its Evidence to the exact Change Revision''
          (''anyam check --cohort '' @ coh_id cohort)]
      | Some r \<Rightarrow>
          (let contextMismatch = \<not> matchesContext requirement r \<or> ev_validityKey r \<noteq> req_currentValidityKey requirement
           in if contextMismatch \<and> ev_outcome r = Passed
              then [evidence_blocker BlStaleEvidence requirement
                (''Evidence '' @ req_key requirement @ '' is stale for the current Integration Cohort state.'')
                ''rerun the required Action or Verifier against the exact Change Revision and current policy''
                (''anyam check --cohort '' @ coh_id cohort @ '' --refresh'')]
              else if ev_outcome r \<noteq> Passed
              then [evidence_blocker (if ev_outcome r = Failed then BlFailedEvidence else BlStaleEvidence) requirement
                (''Evidence '' @ req_key requirement @ '' is '' @ outcome_text (ev_outcome r) @ '' for Integration Cohort '' @ coh_id cohort @ ''.'')
                ''inspect the Evidence receipt, repair the failing Action, and produce a fresh Evidence record''
                (''anyam check --cohort '' @ coh_id cohort @ '' --refresh'')]
              else []))"

text \<open>The audit of the verifiers of the cohort, one event per Change Revision and actor.\<close>

fun verifier_audits :: "IntegrationCohort \<Rightarrow> string list \<Rightarrow> Evidence list \<Rightarrow> CollaborationCoordinator \<Rightarrow> CollaborationCoordinator" where
  "verifier_audits cohort seen [] s = s"
| "verifier_audits cohort seen (r # rs) s =
     (case ev_changeRevisionId r of
        None \<Rightarrow> verifier_audits cohort seen rs s
      | Some revisionId \<Rightarrow>
          if revisionId \<notin> set (map icm_changeRevisionId (coh_members cohort)) then verifier_audits cohort seen rs s
          else (let key = revisionId @ '':'' @ actor_actorId (ev_actor r)
            in if key \<in> set seen then verifier_audits cohort seen rs s
               else verifier_audits cohort (seen @ [key]) rs (appendAudit (Some (ev_policyVersion r))
                 \<lparr>aud_projectId = co_projectId s, aud_cohortId = Some (coh_id cohort), aud_changeId = None,
                  aud_changeRevisionId = Some revisionId, aud_role = RoleVerifier, aud_action = ''evidence.observed'',
                  aud_outcome = (if ev_outcome r = Passed then AuditSucceeded else AuditDenied), aud_actor = ev_actor r,
                  aud_policyVersion = [], aud_disclosure = disc_classification (ev_disclosure r),
                  aud_receipt = ''evidence='' @ ev_id r @ ''; key='' @ ev_key r @ ''; outcome='' @ outcome_text (ev_outcome r)\<rparr> s)))"

definition visible_blocker :: "DisclosureClassification \<Rightarrow> string list \<Rightarrow> CollaborationBlocker \<Rightarrow> bool" where
  "visible_blocker audience visibleScopeIds blocker \<longleftrightarrow>
     disclosureRank audience \<ge> disclosureRank (bl_disclosure blocker)
   \<and> (case bl_scopeId blocker of None \<Rightarrow> True | Some i \<Rightarrow> i \<in> set visibleScopeIds)"

definition redacted_blocker :: "string \<Rightarrow> CollaborationBlocker \<Rightarrow> CollaborationBlocker" where
  "redacted_blocker cohortId blocker = \<lparr>bl_kind = bl_kind blocker, bl_affectedObject = cohortId, bl_changeId = None,
     bl_scopeId = None, bl_disclosure = bl_disclosure blocker,
     bl_message = ''A restricted review, Evidence, or conflict requirement blocks this operation.'',
     bl_recoveryAction = ''request an authorized maintainer Review Projection for the next permitted action'',
     bl_safeCommand = ''anyam cohort inspect '' @ cohortId\<rparr>"

definition projectExplanation :: "CollaborationPolicyExplanation \<Rightarrow> DisclosureClassification \<Rightarrow> string list \<Rightarrow> CollaborationPolicyExplanation" where
  "projectExplanation explanation audience visibleScopeIds =
     (let blockers = map (\<lambda>blocker. if visible_blocker audience visibleScopeIds blocker then blocker
            else redacted_blocker (ex_cohortId explanation) blocker) (ex_blockers explanation)
      in explanation\<lparr>ex_blockers := blockers, ex_safeNextCommands := uniq (map bl_safeCommand blockers)\<rparr>)"

definition landing_blockers :: "(js_value \<Rightarrow> string) \<Rightarrow> CollaborationCoordinator \<Rightarrow> IntegrationCohort \<Rightarrow> Evidence list
    \<Rightarrow> CollaborationBlocker list" where
  "landing_blockers digest s cohort evidence =
     state_blockers cohort @ base_blockers s cohort @ conflict_blockers s cohort @ finding_blockers s cohort
     @ concat (map (approval_blockers s) (requirementsFor digest s cohort))
     @ concat (map (evidence_blockers cohort evidence) (requiredEvidenceFor s cohort))"

definition landing_explanation :: "CollaborationCoordinator \<Rightarrow> IntegrationCohort \<Rightarrow> CollaborationBlocker list \<Rightarrow> CollaborationPolicyExplanation" where
  "landing_explanation s cohort blockers =
     (let decision = (if length blockers = 0 then DecisionAllow else DecisionDeny)
      in \<lparr>ex_projectId = co_projectId s, ex_cohortId = coh_id cohort, ex_decision = decision,
          ex_policyVersion = pol_version (co_policy s), ex_authorizationEpoch = keep_truthy (co_authorizationEpoch s),
          ex_baseProjectRevisionId = coh_baseProjectRevisionId cohort,
          ex_currentCanonicalProjectRevisionId = prev_id (co_canonicalRevision s),
          ex_blockers = blockers, ex_safeNextCommands = uniq (map bl_safeCommand blockers),
          ex_receipt = ''cohort='' @ coh_id cohort @ ''; decision='' @ (if decision = DecisionAllow then ''allow'' else ''deny'')
            @ ''; blockers='' @ show_nat (length blockers) @ ''; policy='' @ pol_version (co_policy s)
            @ ''; base='' @ coh_baseProjectRevisionId cohort @ ''; canonical='' @ prev_id (co_canonicalRevision s)\<rparr>)"

definition evaluateLanding :: "(js_value \<Rightarrow> string) \<Rightarrow> CollaborationEvaluationInput \<Rightarrow> CollaborationCoordinator
    \<Rightarrow> CollaborationPolicyExplanation co_outcome" where
  "evaluateLanding digest input s =
     (case requireCohort s (cei_cohortId input) of
        Inl e \<Rightarrow> raise e s
      | Inr cohort \<Rightarrow>
          (let explanation = landing_explanation s cohort (landing_blockers digest s cohort (cei_evidence input))
           in return (if cei_audience input \<noteq> None \<or> cei_visibleScopeIds input \<noteq> None
                      then projectExplanation explanation (nullish (cei_audience input) DProject) (nullish (cei_visibleScopeIds input) [])
                      else explanation)
                (verifier_audits cohort [] (cei_evidence input) s)))"

section \<open>Landing\<close>

type_synonym ('l, 'e) landing_function = "LandCohortInput \<Rightarrow> 'l \<Rightarrow> ('l, 'e, Landing) outcome"

definition landing_request :: "IntegrationCohort \<Rightarrow> LandCohortInput" where
  "landing_request cohort = \<lparr>lci_cohortId = Some (coh_id cohort),
     lci_members = map (\<lambda>member. \<lparr>cm_changeId = icm_changeId member, cm_changeRevisionId = icm_changeRevisionId member\<rparr>) (coh_members cohort),
     lci_expectedCanonicalProjectRevisionId = coh_baseProjectRevisionId cohort\<rparr>"

definition landing_mismatch :: "CollaborationCoordinator \<Rightarrow> IntegrationCohort \<Rightarrow> Landing \<Rightarrow> bool" where
  "landing_mismatch s cohort landing \<longleftrightarrow>
     land_projectId landing \<noteq> co_projectId s \<or> land_cohortId landing \<noteq> Some (coh_id cohort)
   \<or> set (nullish (land_changeIds landing) []) \<noteq> set (map icm_changeId (coh_members cohort))
   \<or> set (nullish (land_changeRevisionIds landing) []) \<noteq> set (map icm_changeRevisionId (coh_members cohort))"

definition landed_cohort :: "IntegrationCohort \<Rightarrow> Landing \<Rightarrow> ActorRef \<Rightarrow> CollaborationCoordinator \<Rightarrow> CollaborationCoordinator" where
  "landed_cohort cohort landing actor s = appendAudit (Some (pol_version (co_policy s)))
     \<lparr>aud_projectId = co_projectId s, aud_cohortId = Some (coh_id cohort), aud_changeId = None, aud_changeRevisionId = None,
      aud_role = RoleLanding, aud_action = ''landing.completed'', aud_outcome = AuditSucceeded, aud_actor = actor,
      aud_policyVersion = [], aud_disclosure = DProject, aud_receipt = land_receipt landing\<rparr>
     (s\<lparr>co_cohorts := set_key (coh_id cohort) (cohort\<lparr>coh_state := CohortLanded,
        coh_receipt := ''cohort=landed; landing='' @ land_id landing @ ''; next='' @ land_projectRevisionId landing\<rparr>) (co_cohorts s)\<rparr>)"

definition land :: "(js_value \<Rightarrow> string) \<Rightarrow> ('l, 'e) landing_function option \<Rightarrow> CollaborationEvaluationInput \<Rightarrow> ActorRef
    \<Rightarrow> CollaborationCoordinator \<times> 'l
    \<Rightarrow> (CollaborationCoordinator \<times> 'l, CollaborationError + 'e, Landing \<times> CollaborationPolicyExplanation) outcome" where
  "land digest landingAuthority input actor st = (case st of (s, l) \<Rightarrow>
     (case evaluateLanding digest input s of
        (Inl e, s1) \<Rightarrow> raise (Inl e) (s1, l)
      | (Inr explanation, s1) \<Rightarrow>
          if ex_decision explanation \<noteq> DecisionAllow
          then raise (Inl \<lparr>coe_code = CoPolicyBlocked, coe_affectedObject = cei_cohortId input, coe_explanation = Some explanation\<rparr>) (s1, l)
          else (case landingAuthority of
             None \<Rightarrow> raise (Inl (co_failure CoLandingAuthorityUnavailable (cei_cohortId input))) (s1, l)
           | Some authority \<Rightarrow>
               (case requireCohort s1 (cei_cohortId input) of
                  Inl e \<Rightarrow> raise (Inl e) (s1, l)
                | Inr cohort \<Rightarrow>
                    (case authority (landing_request cohort) l of
                       (Inl e, l1) \<Rightarrow> raise (Inr e) (s1, l1)
                     | (Inr landing, l1) \<Rightarrow>
                         if landing_mismatch s1 cohort landing
                         then raise (Inl (co_failure CoLandingResultMismatch (coh_id cohort))) (s1, l1)
                         else return (landing, explanation) (landed_cohort cohort landing actor s1, l1))))))"

record PromotionAuthorityInput =
  pai_cohortId :: "string option"
  pai_promotionId :: string
  pai_targetId :: string
  pai_releaseId :: string
  pai_actor :: ActorRef
  pai_receipt :: string

definition recordPromotionAuthority :: "PromotionAuthorityInput \<Rightarrow> CollaborationCoordinator \<Rightarrow> CollaborationAuditEvent co_outcome" where
  "recordPromotionAuthority input s =
     (case or_else (nonEmpty (pai_promotionId input) ''promotionId'') (or_else (nonEmpty (pai_targetId input) ''targetId'')
            (or_else (nonEmpty (pai_releaseId input) ''releaseId'') (nonEmpty (pai_receipt input) ''promotion.receipt''))) of
        Some e \<Rightarrow> raise e s
      | None \<Rightarrow>
          (let s' = appendAudit (Some (pol_version (co_policy s)))
             \<lparr>aud_projectId = co_projectId s, aud_cohortId = keep_truthy (pai_cohortId input), aud_changeId = None,
              aud_changeRevisionId = None, aud_role = RolePromotion, aud_action = ''promotion.authority.observed'',
              aud_outcome = AuditObserved, aud_actor = pai_actor input, aud_policyVersion = [], aud_disclosure = DProject,
              aud_receipt = ''promotion='' @ pai_promotionId input @ ''; target='' @ pai_targetId input @ ''; release=''
                @ pai_releaseId input @ ''; '' @ pai_receipt input\<rparr> s
           in return (last (co_audit s')) s'))"

section \<open>Projection of a cohort\<close>

record ProjectedCohort =
  pc_cohort :: IntegrationCohort
  pc_conflicts :: "IntegrationConflict list"
  pc_findings :: "ReviewFinding list"
  pc_requirements :: "ReviewRequirement list"

definition scopeVisible :: "DisclosureClassification \<Rightarrow> string list \<Rightarrow> string list \<Rightarrow> DisclosureClassification \<Rightarrow> bool" where
  "scopeVisible audience visibleScopeIds scopeIds disclosure \<longleftrightarrow>
     disclosureRank audience \<ge> disclosureRank disclosure \<and> list_all (\<lambda>i. i \<in> set visibleScopeIds) scopeIds"

definition projected_member :: "string list \<Rightarrow> IntegrationCohortMember \<Rightarrow> IntegrationCohortMember" where
  "projected_member visibleScopeIds member = member\<lparr>
     icm_affectedModuleIds := filter (\<lambda>i. i \<in> set visibleScopeIds) (icm_affectedModuleIds member),
     icm_affectedSourceSpaceIds := filter (\<lambda>i. i \<in> set visibleScopeIds) (icm_affectedSourceSpaceIds member),
     icm_affectedTargetIds := filter (\<lambda>i. i \<in> set visibleScopeIds) (icm_affectedTargetIds member)\<rparr>"

definition projected_conflict :: "DisclosureClassification \<Rightarrow> string list \<Rightarrow> IntegrationConflict \<Rightarrow> IntegrationConflict" where
  "projected_conflict audience visibleScopeIds conflict =
     (if scopeVisible audience visibleScopeIds (ic_scopeIds conflict) (ic_disclosure conflict) then conflict
      else conflict\<lparr>ic_changeIds := [], ic_changeRevisionIds := [], ic_scopeIds := [], ic_analyzerId := [],
        ic_description := ''A restricted Integration Conflict requires maintainer review.'',
        ic_receipt := ''conflict='' @ ic_id conflict @ ''; disclosure=projection-only''\<rparr>)"

definition projected_finding :: "DisclosureClassification \<Rightarrow> string list \<Rightarrow> ReviewFinding \<Rightarrow> ReviewFinding" where
  "projected_finding audience visibleScopeIds finding =
     (let scopeIds = (case finding_scope finding of None \<Rightarrow> [] | Some i \<Rightarrow> [i])
      in if scopeVisible audience visibleScopeIds scopeIds (fi_disclosure finding) then finding
         else finding\<lparr>fi_summary := ''A restricted Review Finding requires maintainer attention.'',
           fi_receipt := ''finding='' @ fi_id finding @ ''; disclosure=projection-only'', fi_scope := None\<rparr>)"

definition projected_requirement :: "DisclosureClassification \<Rightarrow> string list \<Rightarrow> ReviewRequirement \<Rightarrow> ReviewRequirement" where
  "projected_requirement audience visibleScopeIds requirement =
     (if scopeVisible audience visibleScopeIds [rr_scopeId requirement] (rr_disclosure requirement) then requirement
      else requirement\<lparr>rr_ruleId := [], rr_scopeId := [], rr_reason := ''An authorized owner Review is required.'',
        rr_requiredReviewerPrincipalIds := [], rr_requiredReviewerTeamIds := [], rr_candidatePrincipalIds := []\<rparr>)"

definition projectCohort :: "(js_value \<Rightarrow> string) \<Rightarrow> string \<Rightarrow> DisclosureClassification \<Rightarrow> string list \<Rightarrow> CollaborationCoordinator
    \<Rightarrow> CollaborationError + ProjectedCohort" where
  "projectCohort digest cohortId audience visibleScopeIds s =
     (case requireCohort s cohortId of
        Inl e \<Rightarrow> Inl e
      | Inr cohort \<Rightarrow> Inr \<lparr>
          pc_cohort = cohort\<lparr>coh_members := map (projected_member visibleScopeIds) (coh_members cohort)\<rparr>,
          pc_conflicts = map (projected_conflict audience visibleScopeIds) (listIntegrationConflicts s (coh_id cohort)),
          pc_findings = map (projected_finding audience visibleScopeIds) (listFindings s (coh_id cohort)),
          pc_requirements = map (projected_requirement audience visibleScopeIds) (requirementsFor digest s cohort)\<rparr>)"

section \<open>One step of the coordinator\<close>

text \<open>The operations that do not involve the Landing authority, and the record of a landing it reported.\<close>

datatype co_op =
    SetCanonical ProjectRevision
  | ActivatePolicy CollaborationPolicy
  | CreateCohort string "CreateCohortMemberInput list" ActorRef "string option" "string option"
  | SubmitFinding string SubmitFindingInput
  | ResolveFinding string ActorRef string
  | Approve string ApproveInput
  | ResolveIntegrationConflict string "string list" ActorRef
  | EvaluateLanding CollaborationEvaluationInput
  | Land "Landing option" CollaborationEvaluationInput ActorRef
  | RecordPromotion PromotionAuthorityInput

text \<open>A landing with an authority that answers with the given result, or throws.\<close>

definition answering :: "Landing option \<Rightarrow> (unit, unit) landing_function" where
  "answering answer input l = (case answer of None \<Rightarrow> raise () l | Some landing \<Rightarrow> return landing l)"

fun co_step :: "(js_value \<Rightarrow> string) \<Rightarrow> co_op \<Rightarrow> CollaborationCoordinator \<Rightarrow> (CollaborationCoordinator, unit, unit) outcome" where
  "co_step digest (SetCanonical revision) s = forget (setCanonicalProjectRevision revision s)"
| "co_step digest (ActivatePolicy policy) s = forget (activatePolicy policy s)"
| "co_step digest (CreateCohort uuid candidates actor base i) s = forget (createCohort digest uuid candidates actor base i s)"
| "co_step digest (SubmitFinding uuid input) s = forget (submitFinding uuid input s)"
| "co_step digest (ResolveFinding i actor resolution) s = forget (resolveFinding i actor resolution s)"
| "co_step digest (Approve uuid input) s = forget (approve digest uuid input s)"
| "co_step digest (ResolveIntegrationConflict i revisions actor) s = forget (resolveIntegrationConflict i revisions actor s)"
| "co_step digest (EvaluateLanding input) s = forget (evaluateLanding digest input s)"
| "co_step digest (Land answer input actor) s =
     (case land digest (Some (answering answer)) input actor (s, ()) of (r, (s', l)) \<Rightarrow> forget (r, s'))"
| "co_step digest (RecordPromotion input) s = forget (recordPromotionAuthority input s)"

end
