(* ===== verification/Landing_Policy.thy ===== *)
theory Landing_Policy
  imports Collaboration
begin

text \<open>
  What the collaboration coordinator guarantees: when its policy allows a Landing, that author, verifier
  and reviewer of a Change stay separate over any sequence of calls, that its audit only grows, what a
  projection for a restricted audience reveals, and that a Landing through the local change coordinator
  is all or nothing across the two objects. The Landing authority is a locale: the facts about \<open>land\<close>
  are proved for any authority with its laws, and \<open>LocalChangeCoordinator.landCohort\<close> is shown to be one.
\<close>

section \<open>When the policy allows a landing\<close>

definition approved :: "CollaborationCoordinator \<Rightarrow> ReviewRequirement \<Rightarrow> bool" where
  "approved s requirement \<longleftrightarrow> current_approvals s requirement \<noteq> [] \<and> \<not> list_ex invalid_duty (current_approvals s requirement)"

definition evidenced :: "Evidence list \<Rightarrow> EvidenceRequirement \<Rightarrow> bool" where
  "evidenced evidence requirement \<longleftrightarrow> (case selected_record evidence requirement of None \<Rightarrow> False
     | Some r \<Rightarrow> ev_outcome r = Passed \<and> matchesContext requirement r \<and> ev_validityKey r = req_currentValidityKey requirement)"

lemma approval_blockers_Nil: "approval_blockers s requirement = [] \<longleftrightarrow> approved s requirement"
  by (simp add: approval_blockers_def approved_def Let_def)

lemma evidence_blockers_Nil: "evidence_blockers cohort evidence requirement = [] \<longleftrightarrow> evidenced evidence requirement"
  by (auto simp: evidence_blockers_def evidenced_def Let_def split: option.splits)

lemma ex_decision_projected [simp]: "ex_decision (projectExplanation e audience visible) = ex_decision e"
  by (simp add: projectExplanation_def Let_def)

lemma evaluateLanding_Inr:
  "getCohort s (cei_cohortId input) = Some cohort \<Longrightarrow>
   \<exists>e. evaluateLanding digest input s = (Inr e, verifier_audits cohort [] (cei_evidence input) s)
     \<and> (ex_decision e = DecisionAllow \<longleftrightarrow> landing_blockers digest s cohort (cei_evidence input) = [])"
  by (auto simp: evaluateLanding_def requireCohort_def getCohort_def landing_explanation_def Let_def return_def)

lemma landing_blockers_Nil:
  "landing_blockers digest s cohort evidence = [] \<longleftrightarrow>
     coh_state cohort \<noteq> CohortLanded
   \<and> coh_baseProjectRevisionId cohort = prev_id (co_canonicalRevision s)
   \<and> list_all (\<lambda>c. ic_state c = IcResolved \<or> ic_severity c = IcWarning) (listIntegrationConflicts s (coh_id cohort))
   \<and> list_all (\<lambda>f. \<not> blocking_finding f) (listFindings s (coh_id cohort))
   \<and> list_all (approved s) (requirementsFor digest s cohort)
   \<and> list_all (evidenced evidence) (requiredEvidenceFor s cohort)"
proof -
  have "(ic_state c = IcOpen \<longrightarrow> ic_severity c \<noteq> IcBlocking) \<longleftrightarrow> ic_state c = IcResolved \<or> ic_severity c = IcWarning" for c
    by (cases "ic_state c"; cases "ic_severity c") auto
  then show ?thesis
    by (auto simp: landing_blockers_def state_blockers_def base_blockers_def conflict_blockers_def finding_blockers_def
        filter_empty_conv approval_blockers_Nil evidence_blockers_Nil list_all_iff)
qed

text \<open>
  The policy allows the Landing of a known cohort exactly when the cohort has not landed, its base is
  the canonical revision, every conflict of it is resolved or a warning, no blocking finding is open,
  every review requirement has a current approval and no approval by the author or a verifier, and every
  required Evidence is there: the record chosen for it passed, matches the expected context and is valid.
\<close>

theorem evaluateLanding_allows_iff:
  assumes "getCohort s (cei_cohortId input) = Some cohort"
  shows "(\<exists>e. fst (evaluateLanding digest input s) = Inr e \<and> ex_decision e = DecisionAllow) \<longleftrightarrow>
     coh_state cohort \<noteq> CohortLanded
   \<and> coh_baseProjectRevisionId cohort = prev_id (co_canonicalRevision s)
   \<and> list_all (\<lambda>c. ic_state c = IcResolved \<or> ic_severity c = IcWarning) (listIntegrationConflicts s (coh_id cohort))
   \<and> list_all (\<lambda>f. \<not> blocking_finding f) (listFindings s (coh_id cohort))
   \<and> list_all (approved s) (requirementsFor digest s cohort)
   \<and> list_all (evidenced (cei_evidence input)) (requiredEvidenceFor s cohort)"
proof -
  obtain e where "evaluateLanding digest input s = (Inr e, verifier_audits cohort [] (cei_evidence input) s)"
    "ex_decision e = DecisionAllow \<longleftrightarrow> landing_blockers digest s cohort (cei_evidence input) = []"
    using evaluateLanding_Inr [OF assms] by blast
  then show ?thesis by (simp add: landing_blockers_Nil)
qed

lemma find_insert: "\<not> P r \<Longrightarrow> find P (xs @ r # ys) = find P (xs @ ys)"
  by (induction xs) auto

text \<open>
  A sibling's check cannot replace a member's result: once a requirement has a record of its own
  context, a record of another context, wherever it is in the Evidence, changes nothing for it.
\<close>

theorem foreign_evidence_is_ignored:
  assumes "\<not> matchesContext requirement r"
    and "list_ex (\<lambda>e. ev_key e = req_key requirement \<and> matchesContext requirement e) (xs @ ys)"
  shows "evidence_blockers cohort (xs @ r # ys) requirement = evidence_blockers cohort (xs @ ys) requirement"
proof -
  let ?k = "\<lambda>e. ev_key e = req_key requirement"
  have "find (matchesContext requirement) (rev (filter ?k (xs @ r # ys))) = find (matchesContext requirement) (rev (filter ?k (xs @ ys)))"
    using assms(1) by (simp add: find_insert)
  moreover have "find (matchesContext requirement) (rev (filter ?k (xs @ ys))) \<noteq> None"
    using assms(2) by (auto simp: find_None_iff list_ex_iff)
  ultimately have "selected_record (xs @ r # ys) requirement = selected_record (xs @ ys) requirement"
    by (auto simp: selected_record_def first_defined_def)
  then show ?thesis by (simp add: evidence_blockers_def)
qed

section \<open>What the operations write\<close>

text \<open>Appending to the audit touches nothing else.\<close>

lemma appendAudit_frames [simp]:
  "co_projectId (appendAudit v e s) = co_projectId s" "co_policy (appendAudit v e s) = co_policy s"
  "co_ownershipRules (appendAudit v e s) = co_ownershipRules s" "co_reviewerDirectory (appendAudit v e s) = co_reviewerDirectory s"
  "co_cohorts (appendAudit v e s) = co_cohorts s" "co_conflicts (appendAudit v e s) = co_conflicts s"
  "co_findings (appendAudit v e s) = co_findings s" "co_approvals (appendAudit v e s) = co_approvals s"
  "co_canonicalRevision (appendAudit v e s) = co_canonicalRevision s" "co_idempotency (appendAudit v e s) = co_idempotency s"
  by (simp_all add: appendAudit_def)

lemma remember_frames [simp]:
  "co_projectId (remember k i s) = co_projectId s" "co_policy (remember k i s) = co_policy s"
  "co_ownershipRules (remember k i s) = co_ownershipRules s" "co_reviewerDirectory (remember k i s) = co_reviewerDirectory s"
  "co_cohorts (remember k i s) = co_cohorts s" "co_conflicts (remember k i s) = co_conflicts s"
  "co_findings (remember k i s) = co_findings s" "co_approvals (remember k i s) = co_approvals s"
  "co_canonicalRevision (remember k i s) = co_canonicalRevision s" "co_audit (remember k i s) = co_audit s"
  by (simp_all add: remember_def)

text \<open>The state may differ in the conflicts and in a longer audit only.\<close>

definition analysed :: "CollaborationCoordinator \<Rightarrow> CollaborationCoordinator \<Rightarrow> bool" where
  "analysed s t \<longleftrightarrow> (\<exists>evs cs. t = s\<lparr>co_conflicts := cs, co_audit := co_audit s @ evs\<rparr>)"

lemma analysed_refl: "analysed s s"
  by (auto simp: analysed_def intro!: exI [of _ "[]"] exI [of _ "co_conflicts s"])

lemma analysed_trans: "analysed s t \<Longrightarrow> analysed t u \<Longrightarrow> analysed s u"
  unfolding analysed_def by clarsimp blast

lemma analysed_audit: "analysed s t \<Longrightarrow> analysed s (appendAudit v e t)"
  unfolding analysed_def appendAudit_def by clarsimp blast

lemma analysed_conflicts: "analysed s (s\<lparr>co_conflicts := cs\<rparr>)"
  by (auto simp: analysed_def intro!: exI [of _ "[]"] exI [of _ cs])

lemma analysed_frames:
  assumes "analysed s t"
  shows "co_projectId t = co_projectId s" "co_policy t = co_policy s" "co_cohorts t = co_cohorts s" "co_approvals t = co_approvals s"
    "\<exists>evs. co_audit t = co_audit s @ evs" "co_canonicalRevision t = co_canonicalRevision s"
  using assms by (auto simp: analysed_def)

lemma state_loop_analysed:
  assumes "\<And>x b s. analysed s (snd (f x b s))"
  shows "analysed s (snd (state_loop f xs b s))"
proof (induction xs arbitrary: b s)
  case (Cons x xs)
  show ?case
  proof (cases "f x b s" rule: void.cases)
    case (2 b' t)
    from assms [of s x b] have "analysed s t" by (simp add: 2)
    then show ?thesis using Cons.IH by (auto simp: 2 intro: analysed_trans)
  qed (use assms [of s x b] in simp)
qed (simp add: analysed_refl)

lemma register_candidate_analysed: "analysed s (snd (register_candidate digest actor i members an c ids s))"
  by (auto simp: register_candidate_def Let_def analysed_refl split: option.split intro!: analysed_audit analysed_conflicts)

lemma run_analyzers_analysed: "analysed s (snd (state_loop (run_analyzer digest actor i base members) analyzers ids s))"
  by (intro state_loop_analysed) (simp add: run_analyzer_def state_loop_analysed register_candidate_analysed)

lemma verifier_audits_analysed: "analysed s (verifier_audits cohort seen evidence s)"
proof (induction evidence arbitrary: seen s)
  case (Cons r rs)
  have step: "analysed s (verifier_audits cohort seen' rs (appendAudit v e s))" for seen' v e
    by (rule analysed_trans [OF analysed_audit [OF analysed_refl] Cons.IH])
  show ?case by (simp add: Let_def step Cons.IH split: option.split)
qed (simp add: analysed_refl)

lemma author_audits_analysed: "analysed s (foldl (\<lambda>t m. author_audit i actor m t) s members)"
proof (induction members arbitrary: s)
  case (Cons m ms)
  have "analysed s (author_audit i actor m s)"
    by (simp add: author_audit_def analysed_refl analysed_audit split: option.split)
  then show ?case using Cons.IH [of "author_audit i actor m s"] by (auto intro: analysed_trans)
qed (simp add: analysed_refl)

text \<open>What a call keeps: the audit grows, approvals are kept except by an approval, and cohorts are stored
  under their ids.\<close>

definition audit_grows :: "CollaborationCoordinator \<Rightarrow> CollaborationCoordinator \<Rightarrow> bool" where
  "audit_grows s t \<longleftrightarrow> (\<exists>evs. co_audit t = co_audit s @ evs)"

definition co_inv :: "CollaborationCoordinator \<Rightarrow> bool" where
  "co_inv s \<longleftrightarrow> (\<forall>a\<in>set (map_values (co_approvals s)). \<not> invalid_duty a) \<and> ids_match coh_id (co_cohorts s)"

definition keeps :: "CollaborationCoordinator \<Rightarrow> CollaborationCoordinator \<Rightarrow> bool" where
  "keeps s t \<longleftrightarrow> audit_grows s t \<and> (co_inv s \<longrightarrow> co_inv t)"

lemma keeps_refl: "keeps s s"
  by (simp add: keeps_def audit_grows_def)

lemma keeps_trans: "keeps s t \<Longrightarrow> keeps t u \<Longrightarrow> keeps s u"
  by (auto simp: keeps_def audit_grows_def)

lemma keeps_analysed: "analysed s t \<Longrightarrow> keeps s t"
  by (auto simp: keeps_def audit_grows_def co_inv_def analysed_def)

lemma keeps_audit: "keeps s t \<Longrightarrow> keeps s (appendAudit v e t)"
  by (auto simp: keeps_def audit_grows_def co_inv_def appendAudit_def)

lemma keeps_same:
  "co_audit t = co_audit s \<Longrightarrow> co_approvals t = co_approvals s \<Longrightarrow> co_cohorts t = co_cohorts s \<Longrightarrow> keeps s t"
  by (simp add: keeps_def audit_grows_def co_inv_def)

lemma keeps_cohort: "coh_id c = i \<Longrightarrow> keeps s (s\<lparr>co_cohorts := set_key i c (co_cohorts s)\<rparr>)"
  by (auto simp: keeps_def audit_grows_def co_inv_def)

lemma createCohort_keeps: "keeps s (snd (createCohort digest uuid candidates actor base i s))"
proof -
  let ?base = "nullish base (prev_id (co_canonicalRevision s))" and ?i = "nullish i (opaqueId ''integration-cohort'' uuid)"
  show ?thesis
  proof (cases "fold_loop (collect_member s ?base) candidates []")
    case (Inl e)
    then show ?thesis by (simp add: createCohort_def Let_def keeps_refl)
  next
    case (Inr members)
    let ?loop = "state_loop (run_analyzer digest actor ?i ?base members) (co_analyzers s) [] s"
    have loop: "keeps s (snd ?loop)" by (intro keeps_analysed run_analyzers_analysed)
    show ?thesis
    proof (cases ?loop rule: void.cases)
      case (1 e t)
      with loop Inr show ?thesis by (simp add: createCohort_def Let_def keeps_refl)
    next
      case (2 ids t)
      have "keeps t (foldl (\<lambda>u m. author_audit ?i actor m u) (t\<lparr>co_cohorts := set_key ?i c (co_cohorts t)\<rparr>) members)" if "coh_id c = ?i" for c
        using keeps_cohort [OF that] keeps_analysed [OF author_audits_analysed] by (rule keeps_trans)
      with loop 2 Inr show ?thesis
        by (auto simp: createCohort_def Let_def keeps_refl intro!: keeps_trans [of s t])
    qed
  qed
qed

lemma submitFinding_keeps: "keeps s (snd (submitFinding uuid input s))"
  by (auto simp: submitFinding_def Let_def keeps_refl split: sum.split option.split intro!: keeps_audit keeps_same)

lemma resolveFinding_keeps: "keeps s (snd (resolveFinding i actor resolution s))"
  by (auto simp: resolveFinding_def Let_def keeps_refl split: option.split intro!: keeps_audit keeps_same)

lemma resolveIntegrationConflict_keeps: "keeps s (snd (resolveIntegrationConflict i revisions actor s))"
  by (auto simp: resolveIntegrationConflict_def Let_def keeps_refl split: sum.split option.split intro!: keeps_audit keeps_same)

lemma keeps_approval:
  assumes "\<not> invalid_duty a"
  shows "keeps s (remember k i (s\<lparr>co_approvals := set_key (ap_id a) a (co_approvals s)\<rparr>))"
  using assms by (auto simp: keeps_def audit_grows_def co_inv_def dest!: values_set_keyD)

lemma approve_cases:
  obtains e where "approve digest uuid input s = (Inl e, s)"
  | a where "\<And>u. approve digest u input s = (Inr a, s)"
  | cohort requirement member where "approve digest uuid input s = record_approval uuid input cohort requirement member s"
    "requireCohort s (apr_cohortId input) = Inr cohort"
    "requirementFor digest s cohort (apr_requirementId input) = Inr requirement"
    "requireMember cohort (rr_changeId requirement) (rr_changeRevisionId requirement) = Inr member"
    "approve_error input requirement member = None" "idempotent_id s (apr_idempotencyKey input) = None"
    "existing_approval input requirement s = None"
proof (cases "requireCohort s (apr_cohortId input)")
  case (Inl e)
  then show thesis using that(1) by (simp add: approve_def raise_def)
next
  case cohort: (Inr cohort)
  show thesis
  proof (cases "requirementFor digest s cohort (apr_requirementId input)")
    case (Inl e)
    then show thesis using that(1) cohort by (simp add: approve_def raise_def)
  next
    case requirement: (Inr requirement)
    show thesis
    proof (cases "requireMember cohort (rr_changeId requirement) (rr_changeRevisionId requirement)")
      case (Inl e)
      then show thesis using that(1) cohort requirement by (simp add: approve_def raise_def)
    next
      case member: (Inr member)
      note known = cohort requirement member
      show thesis
      proof (cases "approve_error input requirement member = None \<and> idempotent_id s (apr_idempotencyKey input) = None
          \<and> existing_approval input requirement s = None")
        case True
        then show thesis using that(3) known by (simp add: approve_def)
      next
        case False
        then have "(\<exists>e. approve digest uuid input s = (Inl e, s)) \<or> (\<exists>a. \<forall>u. approve digest u input s = (Inr a, s))"
          by (auto simp: approve_def known raise_def return_def split: option.split)
        then show thesis using that(1,2) by blast
      qed
    qed
  qed
qed

lemma new_approval_valid: "approve_error input requirement member = None \<Longrightarrow> \<not> invalid_duty (new_approval uuid input s i requirement member)"
  by (auto simp: approve_error_def loop_simps new_approval_def invalid_duty_def keep_truthy_def split: if_splits)

lemma approve_keeps: "keeps s (snd (approve digest uuid input s))"
  by (cases rule: approve_cases [of digest uuid input s])
    (auto simp: keeps_refl record_approval_def Let_def intro!: keeps_audit keeps_approval new_approval_valid)

lemma evaluateLanding_analysed: "analysed s (snd (evaluateLanding digest input s))"
  by (simp add: evaluateLanding_def Let_def analysed_refl verifier_audits_analysed split: sum.split)

lemma landed_cohort_keeps: "keeps s (landed_cohort cohort landing actor s)"
  unfolding landed_cohort_def by (intro keeps_audit keeps_cohort) simp

lemma land_keeps:
  assumes "land digest authority input actor (s, l) = (r, (s', l'))"
  shows "keeps s s'"
proof -
  have e: "keeps s (snd (evaluateLanding digest input s))" by (intro keeps_analysed evaluateLanding_analysed)
  show ?thesis
  proof (cases "evaluateLanding digest input s" rule: void.cases)
    case (1 err t)
    then show ?thesis using assms e by (auto simp: land_def raise_def)
  next
    case (2 x t)
    have "s' = t \<or> (\<exists>cohort landing. s' = landed_cohort cohort landing actor t)"
      using assms by (auto simp: land_def 2 raise_def return_def split: if_splits option.splits sum.splits prod.splits)
    then show ?thesis using e landed_cohort_keeps by (auto simp: 2 intro: keeps_trans)
  qed
qed

lemma co_step_keeps: "keeps s (snd (co_step digest x s))"
proof (cases x)
  case (Land answer input actor)
  then show ?thesis
    by (cases "land digest (Some (answering answer)) input actor (s, ())") (auto dest: land_keeps)
next
  case (RecordPromotion input)
  then show ?thesis by (auto simp: recordPromotionAuthority_def Let_def keeps_refl keeps_audit split: option.split)
next
  case (SetCanonical revision)
  then show ?thesis by (auto simp: setCanonicalProjectRevision_def keeps_refl intro!: keeps_same)
next
  case (ActivatePolicy policy)
  then show ?thesis by (auto simp: activatePolicy_def keeps_refl split: option.split intro!: keeps_same)
qed (auto simp: createCohort_keeps submitFinding_keeps resolveFinding_keeps approve_keeps resolveIntegrationConflict_keeps
  intro: keeps_analysed evaluateLanding_analysed)

interpretation collaboration: invariant_machine "co_step digest" "\<lambda>_ _. True" co_inv for digest
  using co_step_keeps by unfold_locales (simp add: keeps_def)

interpretation collaboration_audit: growing_machine "co_step digest" "\<lambda>_ _. True" audit_grows for digest
proof (unfold_locales, goal_cases)
  case (3 s x)
  then show ?case using co_step_keeps by (simp add: keeps_def)
qed (auto simp: audit_grows_def)

lemma new_collaboration_inv: "new_collaboration lower p revision policy rules directory analyzers epoch = Inr s \<Longrightarrow> co_inv s"
  by (auto simp: new_collaboration_def co_inv_def ids_match_def split: option.splits)

section \<open>Separation of duties\<close>

text \<open>
  C36. Author, verifier and reviewer stay separate. After any sequence of calls on a new coordinator no
  approval it holds is by the author or by a verifier of the approved Change Revision, so an evaluation
  never has to report a violated separation of duties.
\<close>

theorem duties_stay_separate:
  fixes digest :: "js_value \<Rightarrow> string" and ops :: "co_op list"
  assumes "new_collaboration lower projectId revision policy rules directory analyzers epoch = Inr s0"
  defines "s \<equiv> run_ops (co_step digest) ops s0"
  shows "list_all (\<lambda>a. Some (actor_actorId (ap_reviewer a)) \<noteq> ap_authorActorId a
       \<and> actor_actorId (ap_reviewer a) \<notin> set (ap_verifierActorIds a)) (map_values (co_approvals s))
    \<and> (case fst (evaluateLanding digest input s) of Inl _ \<Rightarrow> True
       | Inr e \<Rightarrow> list_all (\<lambda>b. bl_kind b \<noteq> BlSeparationOfDuty) (ex_blockers e))"
proof -
  have "co_inv s" unfolding s_def
    using collaboration.run_inv [OF new_collaboration_inv [OF assms(1)]] by simp
  then have valid: "\<forall>a\<in>set (map_values (co_approvals s)). \<not> invalid_duty a" by (simp add: co_inv_def)
  have "\<not> list_ex invalid_duty (current_approvals s requirement)" for requirement
    using valid by (auto simp: current_approvals_def list_ex_iff)
  then have approvals: "b \<in> set (approval_blockers s requirement) \<Longrightarrow> bl_kind b \<noteq> BlSeparationOfDuty" for b requirement
    by (auto simp: approval_blockers_def Let_def split: if_splits)
  have "b \<in> set (landing_blockers digest s cohort evidence) \<Longrightarrow> bl_kind b \<noteq> BlSeparationOfDuty" for b cohort evidence
    by (auto simp: landing_blockers_def state_blockers_def base_blockers_def conflict_blockers_def finding_blockers_def
        evidence_blockers_def evidence_blocker_def Let_def split: if_splits option.splits dest: approvals)
  then have "list_all (\<lambda>b. bl_kind b \<noteq> BlSeparationOfDuty) (ex_blockers e)" if "fst (evaluateLanding digest input s) = Inr e" for e
    using that by (auto simp: evaluateLanding_def landing_explanation_def projectExplanation_def redacted_blocker_def Let_def
        list_all_iff split: sum.splits if_splits)
  then show ?thesis using valid by (auto simp: list_all_iff invalid_duty_def split: sum.split)
qed

text \<open>
  The audit is append-only: after any sequence of calls the listing starts with what it was before.
\<close>

theorem audit_is_append_only:
  "\<exists>later. listAuditEvents (run_ops (co_step digest) ops s) = listAuditEvents s @ later"
  using collaboration_audit.run_grows [of digest ops s] by (simp add: audit_grows_def listAuditEvents_def)

section \<open>Approvals\<close>

lemma requirementsFor_cong:
  "co_ownershipRules t = co_ownershipRules s \<Longrightarrow> co_reviewerDirectory t = co_reviewerDirectory s \<Longrightarrow>
   requirementsFor digest t cohort = requirementsFor digest s cohort"
proof -
  assume rules: "co_ownershipRules t = co_ownershipRules s" and "co_reviewerDirectory t = co_reviewerDirectory s"
  then have "review_requirement digest t = review_requirement digest s"
    by (intro ext) (simp add: review_requirement_def)
  then show ?thesis by (simp only: requirementsFor_def rules)
qed

lemma find_fresh_value:
  "find P (map_values m) = None \<Longrightarrow> P v \<Longrightarrow> find P (map_values (set_key k v m)) = Some v"
  by (induction m) (auto simp: set_key_def map_values_def split: if_splits)

text \<open>
  Approving is idempotent: repeating an approval, with or without an idempotency key, returns the
  approval of the first call and changes nothing.
\<close>

theorem approve_idempotent:
  assumes "approve digest uuid input s = (Inr a, s')"
  shows "approve digest uuid' input s' = (Inr a, s')"
proof (cases rule: approve_cases [of digest uuid input s])
  case (2 b)
  then show ?thesis using assms by auto
next
  case (3 cohort requirement member)
  let ?a = "new_approval uuid input s (coh_id cohort) requirement member"
  have a: "a = ?a" and s': "co_approvals s' = set_key (ap_id ?a) ?a (co_approvals s)" "co_cohorts s' = co_cohorts s"
      "co_policy s' = co_policy s" "co_ownershipRules s' = co_ownershipRules s" "co_reviewerDirectory s' = co_reviewerDirectory s"
      "co_idempotency s' = (if truthy (apr_idempotencyKey input)
         then set_key (the (apr_idempotencyKey input)) (ap_id ?a) (co_idempotency s) else co_idempotency s)"
    using assms 3(1) by (auto simp: record_approval_def Let_def return_def remember_def)
  have known: "requireCohort s' (apr_cohortId input) = Inr cohort"
      "requirementFor digest s' cohort (apr_requirementId input) = Inr requirement"
    using 3(2,3) by (simp_all add: requireCohort_def requirementFor_def s' requirementsFor_cong [OF s'(4,5)])
  show ?thesis
  proof (cases "truthy (apr_idempotencyKey input)")
    case True
    then have "idempotent_id s' (apr_idempotencyKey input) = Some (ap_id ?a)"
      by (simp add: idempotent_id_def s'(6) keep_truthy_def new_approval_def)
    moreover have "get_key (co_approvals s') (ap_id ?a) = Some ?a" by (simp add: s'(1))
    ultimately show ?thesis
      using 3(4,5) by (simp add: approve_def known a return_def) (simp add: new_approval_def)
  next
    case False
    then have "idempotent_id s' (apr_idempotencyKey input) = None" by (simp add: idempotent_id_def)
    moreover have "existing_approval input requirement s' = Some ?a"
      using 3(7) unfolding existing_approval_def s' by (rule find_fresh_value) (simp add: new_approval_def)
    ultimately show ?thesis using 3(4,5) by (simp add: approve_def known a return_def)
  qed
qed (use assms in simp)

section \<open>Policy versions\<close>

text \<open>
  Activating a policy under a version no approval was given under makes every approval stale: as long
  as a rule affects a member of the cohort, its Landing is denied until somebody approves again.
\<close>

theorem new_policy_version_stales_approvals:
  assumes "activatePolicy policy s = (Inr (), s')"
    and "list_all (\<lambda>a. ap_policyVersion a \<noteq> pol_version policy) (map_values (co_approvals s))"
    and "getCohort s (cei_cohortId input) = Some cohort" and "requirementsFor digest s cohort \<noteq> []"
  shows "\<exists>e. fst (evaluateLanding digest input s') = Inr e \<and> ex_decision e = DecisionDeny"
proof -
  have s': "s' = s\<lparr>co_policy := policy\<rparr>"
    using assms(1) by (auto simp: activatePolicy_def split: option.splits)
  obtain requirement where r: "requirement \<in> set (requirementsFor digest s' cohort)"
    using assms(4) requirementsFor_cong [of s' s digest cohort] by (cases "requirementsFor digest s cohort") (auto simp: s')
  have "current_approvals s' requirement = []"
    using assms(2) by (auto simp: current_approvals_def s' filter_empty_conv list_all_iff)
  then have "\<not> approved s' requirement" by (simp add: approved_def)
  then have "landing_blockers digest s' cohort (cei_evidence input) \<noteq> []"
    using r by (auto simp: landing_blockers_Nil list_all_iff)
  then show ?thesis
    using assms(3) by (auto simp: evaluateLanding_def requireCohort_def getCohort_def s' landing_explanation_def Let_def)
qed

text \<open>
  The version is the only thing that ties an approval to a policy, and an old version may come back:
  after another policy was active, a policy with the first one's version string, whatever it requires,
  is activated without objection, and the approvals given before count as current again.
\<close>

theorem reused_policy_version_revives_approvals:
  assumes "activatePolicy other s = (Inr (), s1)" and "pol_version policy = pol_version (co_policy s)"
    and "\<not> blank (pol_version policy)"
  shows "\<exists>s2. activatePolicy policy s1 = (Inr (), s2) \<and> co_policy s2 = policy
    \<and> current_approvals s2 requirement = current_approvals s requirement"
proof -
  have s1: "s1 = s\<lparr>co_policy := other\<rparr>" "pol_version other \<noteq> pol_version (co_policy s)"
    using assms(1) by (auto simp: activatePolicy_def loop_simps split: option.splits)
  then have "activatePolicy policy s1 = (Inr (), s1\<lparr>co_policy := policy\<rparr>)"
    using assms(2,3) by (simp add: activatePolicy_def nonEmpty_def fail_if_def return_def)
  then show ?thesis using assms(2) by (simp add: s1 current_approvals_def)
qed

section \<open>What a projection reveals\<close>

text \<open>
  Non-interference of the projected explanation. Take two explanations of the same decision whose
  blockers, position by position, are equal where the audience may see them and agree in kind and
  classification where it may not: the audience is shown the same. Messages, affected objects, changes,
  scopes, recovery actions and commands of hidden blockers have no influence.
\<close>

theorem projectExplanation_noninterference:
  assumes "list_all2 (\<lambda>b c. if visible_blocker audience visible b then b = c
       else \<not> visible_blocker audience visible c \<and> bl_kind b = bl_kind c \<and> bl_disclosure b = bl_disclosure c)
     (ex_blockers e) blockers"
  shows "projectExplanation (e\<lparr>ex_blockers := blockers, ex_safeNextCommands := commands\<rparr>) audience visible
     = projectExplanation e audience visible"
proof -
  let ?shown = "\<lambda>i b. if visible_blocker audience visible b then b else redacted_blocker i b"
  have redacted: "redacted_blocker i b = redacted_blocker i c" if "bl_kind b = bl_kind c" "bl_disclosure b = bl_disclosure c" for i b c
    using that by (simp only: redacted_blocker_def)
  have "map (?shown i) (ex_blockers e) = map (?shown i) blockers" for i
    using assms
  proof (induction rule: list_all2_induct)
    case (Cons b bs c cs)
    have "?shown i b = ?shown i c"
    proof (cases "visible_blocker audience visible b")
      case False
      with Cons.hyps(1) have "\<not> visible_blocker audience visible c" "redacted_blocker i b = redacted_blocker i c"
        using redacted [of b c i] by auto
      with False show ?thesis by simp
    qed (use Cons.hyps(1) in simp)
    with Cons.IH show ?case by (simp only: list.map)
  qed simp
  moreover have "ex_cohortId (e\<lparr>ex_blockers := blockers, ex_safeNextCommands := commands\<rparr>) = ex_cohortId e" by simp
  ultimately show ?thesis unfolding projectExplanation_def Let_def by (simp only:) simp
qed

lemma projected_resolutions [simp]:
  "fi_resolution (projected_finding audience visible f) = fi_resolution f"
  "ic_resolutionRevisionIds (projected_conflict audience visible c) = ic_resolutionRevisionIds c"
  by (simp_all add: projected_finding_def projected_conflict_def Let_def)

text \<open>
  The projection of a cohort is not as tight. For a hidden finding the summary, the scope and the
  receipt are replaced, but the free text of its resolution is shown; for a hidden conflict the Change
  Revisions it concerns are removed, but the ones that resolved it are shown.
\<close>

theorem projectCohort_shows_hidden_resolutions:
  assumes "projectCohort digest cohortId audience visible s = Inr p"
  shows "map fi_resolution (pc_findings p) = map fi_resolution (listFindings s (coh_id (pc_cohort p)))
    \<and> map ic_resolutionRevisionIds (pc_conflicts p) = map ic_resolutionRevisionIds (listIntegrationConflicts s (coh_id (pc_cohort p)))"
  using assms by (auto simp: projectCohort_def split: sum.splits)

section \<open>Landing through an authority\<close>

text \<open>
  The contract of a Landing authority for a project: a request that fails changes nothing, and a receipt
  identifies the project, the cohort and exactly the members of the request, for a request that names a
  cohort.
\<close>

locale landing_authority =
  fixes authority :: "('l, 'e) landing_function"
    and serves :: "'l \<Rightarrow> string \<Rightarrow> bool"
  assumes refused: "serves l p \<Longrightarrow> authority request l = (Inl e, l') \<Longrightarrow> l' = l"
    and receipt: "serves l p \<Longrightarrow> authority request l = (Inr landing, l') \<Longrightarrow> lci_cohortId request = Some i \<Longrightarrow> i \<noteq> [] \<Longrightarrow>
      land_projectId landing = p \<and> land_cohortId landing = Some i
      \<and> land_changeIds landing = Some (map cm_changeId (lci_members request))
      \<and> land_changeRevisionIds landing = Some (map cm_changeRevisionId (lci_members request))"
begin

lemma no_mismatch:
  assumes "serves l (co_projectId s)" "authority (landing_request cohort) l = (Inr landing, l')" "coh_id cohort \<noteq> []"
  shows "\<not> landing_mismatch s cohort landing"
  using receipt [OF assms(1,2), of "coh_id cohort"] assms(3)
  by (simp add: landing_mismatch_def landing_request_def comp_def)

text \<open>A landing either fails and leaves the cohorts and the authority as they were, or the policy allowed
  it, the authority performed it, and the cohort is recorded as landed.\<close>

lemma land_all_or_nothing:
  assumes serves: "serves l (co_projectId s)" and inv: "co_inv s" and named: "cei_cohortId input \<noteq> []"
  shows "case land digest (Some authority) input actor (s, l) of
      (Inl e, (s', l')) \<Rightarrow> l' = l \<and> co_cohorts s' = co_cohorts s
    | (Inr (landing, explanation), (s', l')) \<Rightarrow> \<exists>cohort. getCohort s (cei_cohortId input) = Some cohort
        \<and> landing_blockers digest s cohort (cei_evidence input) = []
        \<and> authority (landing_request cohort) l = (Inr landing, l')
        \<and> map_option coh_state (getCohort s' (cei_cohortId input)) = Some CohortLanded"
proof (cases "getCohort s (cei_cohortId input)")
  case None
  then show ?thesis by (simp add: land_def evaluateLanding_def requireCohort_def getCohort_def raise_def)
next
  case (Some cohort)
  obtain x where eval: "evaluateLanding digest input s = (Inr x, verifier_audits cohort [] (cei_evidence input) s)"
    and allow: "ex_decision x = DecisionAllow \<longleftrightarrow> landing_blockers digest s cohort (cei_evidence input) = []"
    using evaluateLanding_Inr [OF Some] by blast
  define t where "t = verifier_audits cohort [] (cei_evidence input) s"
  have t: "co_cohorts t = co_cohorts s" "co_projectId t = co_projectId s"
    using analysed_frames [OF verifier_audits_analysed] by (simp_all add: t_def)
  have found: "requireCohort t (cei_cohortId input) = Inr cohort" using Some by (simp add: requireCohort_def getCohort_def t)
  have id: "coh_id cohort = cei_cohortId input"
    using inv Some by (auto simp: co_inv_def getCohort_def dest: ids_match_get)
  show ?thesis
  proof (cases "ex_decision x = DecisionAllow")
    case False
    then show ?thesis by (simp add: land_def eval [folded t_def] raise_def t)
  next
    case True
    show ?thesis
    proof (cases "authority (landing_request cohort) l" rule: void.cases)
      case (1 e l1)
      then show ?thesis using True refused [OF serves 1] by (simp add: land_def eval [folded t_def] found raise_def t)
    next
      case (2 landing l1)
      have "\<not> landing_mismatch t cohort landing"
        using no_mismatch [of l t cohort landing l1] serves 2 named by (simp add: t id)
      then show ?thesis
        using True allow Some 2 id
        by (simp add: land_def eval [folded t_def] found return_def landed_cohort_def getCohort_def)
    qed
  qed
qed

end

lemma landed_facts:
  assumes "cc_inv l" "landCohort u request l = (Inr landing, l')"
  shows "prev_parentProjectRevisionId (cc_canonical l') = Some (lci_expectedCanonicalProjectRevisionId request)"
    "prev_landedChangeRevisionIds (cc_canonical l') = Some (map cm_changeRevisionId (lci_members request))"
proof -
  obtain selected where sel: "landing_selected request l selected"
    and can: "cc_canonical l' = landed_revision u request selected (write_all (member_entries selected) (prev_sourceSpaceSnapshots (cc_canonical l))) l"
    by (rule landCohort_InrD [OF assms])
  have "prev_id (cc_canonical l) \<noteq> []"
    using assms(1) canonical_stored [OF assms(1)] by (auto simp: cc_inv_def history_ok_def dest: get_key_mem)
  then show "prev_parentProjectRevisionId (cc_canonical l') = Some (lci_expectedCanonicalProjectRevisionId request)"
    "prev_landedChangeRevisionIds (cc_canonical l') = Some (map cm_changeRevisionId (lci_members request))"
    using sel landing_selectedD(3) [OF assms(1) sel] by (simp_all add: can landed_revision_def landing_selected_def keep_truthy_Some)
qed

text \<open>The local change coordinator is a Landing authority.\<close>

interpretation local_landing: landing_authority "landCohort u" "\<lambda>c p. cc_inv c \<and> proj_id (cc_project c) = p" for u
proof (unfold_locales, goal_cases)
  case (1 l p request e l')
  then show ?case by (simp add: landCohort_InlD)
next
  case (2 l p request landing l' i)
  then have inv: "cc_inv l" and p: "proj_id (cc_project l) = p" by simp_all
  obtain selected where sel: "landing_selected request l selected" "selected \<noteq> []"
    and commit: "land_commit u request selected (write_all (member_entries selected) (prev_sourceSpaceSnapshots (cc_canonical l))) l = (Inr landing, l')"
    by (rule landCohort_InrD [OF inv 2(2)])
  note D = landing_selectedD [OF inv sel(1)] and E = land_commit_eq [OF sel(2) commit]
  have "land_projectId landing = p" "land_cohortId landing = Some i"
    using commit 2(3,4) p by (auto simp: land_commit_def Let_def keep_truthy_def)
  then show ?case using E(4,5) D(2,3) by simp
qed


section \<open>Repeated requirements\<close>

text \<open>
  Requirements are told apart by key, validity key, Change Revision and Target only. Of two required
  Evidences of a policy that differ in the expected Project Revision, Project View or disclosure class,
  the second is dropped, and no Evidence for it is ever asked for.
\<close>

theorem context_requirement_dropped:
  assumes "pol_requiredEvidence (co_policy s) = [r, q]" and "pol_requiredEvidenceByEffect (co_policy s) = None"
    and "q = r\<lparr>req_expectedProjectRevisionId := p, req_expectedProjectViewId := v, req_expectedDisclosureClassification := d\<rparr>"
  shows "requiredEvidenceFor s cohort = [r]"
proof -
  have "requirement_key q = requirement_key r" by (simp add: assms(3) requirement_key_def)
  moreover have "concat (map (effect_requirements s) members) = []" for members
    by (simp add: effect_requirements_def assms(2))
  ultimately show ?thesis by (simp add: requiredEvidenceFor_def assms(1) del: concat_eq_Nil_conv)
qed

section \<open>A concrete review\<close>

definition demo_actor :: "string \<Rightarrow> ActorRef" where
  "demo_actor i = \<lparr>actor_principalId = i, actor_actorId = i, actor_sessionId = ''s'', actor_clientId = ''c''\<rparr>"

definition demo_check :: EvidenceRequirement where
  "demo_check = \<lparr>req_key = ''test'', req_currentValidityKey = ''k1'', req_expectedProjectRevisionId = None,
     req_expectedProjectViewId = None, req_expectedChangeRevisionId = None, req_expectedTargetId = None,
     req_expectedDisclosureClassification = None\<rparr>"

definition demo_policy :: "string \<Rightarrow> CollaborationPolicy" where
  "demo_policy version = \<lparr>pol_version = version, pol_requiredEvidence = [demo_check], pol_requiredEvidenceByEffect = None\<rparr>"

definition demo_rule :: ReviewOwnershipRule where
  "demo_rule = \<lparr>rule_id = ''owners'', rule_scopeKind = ScopeSourceSpace, rule_scopeId = ''player'',
     rule_requiredReviewerPrincipalIds = [''rita''], rule_requiredReviewerTeamIds = [], rule_disclosure = DProject, rule_label = None\<rparr>"

definition demo_digest :: "js_value \<Rightarrow> string" where
  "demo_digest v = ''h''"

definition demo_collaboration :: CollaborationCoordinator where
  "demo_collaboration = (case new_collaboration ascii_lower ''p'' demo_revision (demo_policy ''v1'') (Some [demo_rule])
     (Some [\<lparr>entry_principalId = ''rita'', entry_teamIds = [], entry_active = None\<rparr>]) None None of
       Inr s \<Rightarrow> s | Inl _ \<Rightarrow> undefined)"

lemma demo_collaboration_new: "new_collaboration ascii_lower ''p'' demo_revision (demo_policy ''v1'') (Some [demo_rule])
     (Some [\<lparr>entry_principalId = ''rita'', entry_teamIds = [], entry_active = None\<rparr>]) None None = Inr demo_collaboration"
proof -
  have "prev_projectId demo_revision = ''p''" by code_simp
  moreover have "\<not> blank ''p''" "\<not> blank ''v1''" by code_simp+
  ultimately show ?thesis
    by (simp add: demo_collaboration_def new_collaboration_def nonEmpty_def fail_if_def demo_policy_def)
qed

definition demo_candidate :: CreateCohortMemberInput where
  "demo_candidate = \<lparr>ccm_change = the (getChange (demo_state demo_cohort_work) ''change:1''),
     ccm_revision = (the (getRevision (demo_state demo_cohort_work) ''change-revision:1''))\<lparr>rev_author := Some (demo_actor ''alan'')\<rparr>,
     ccm_verifierActors = Some [demo_actor ''vera'']\<rparr>"

definition demo_approve :: "string \<Rightarrow> ApproveInput" where
  "demo_approve reviewer = \<lparr>apr_cohortId = ''k'', apr_requirementId = ''review-requirement:h'', apr_reviewer = demo_actor reviewer,
     apr_evidenceIds = None, apr_idempotencyKey = None\<rparr>"

definition demo_opened :: CollaborationCoordinator where
  "demo_opened = run_ops (co_step demo_digest) [CreateCohort ''1'' [demo_candidate] (demo_actor ''alan'') None (Some ''k''),
     Approve ''1'' (demo_approve ''vera'')] demo_collaboration"

definition demo_reviewed :: CollaborationCoordinator where
  "demo_reviewed = snd (approve demo_digest ''2'' (demo_approve ''rita'') demo_opened)"

definition demo_evaluation :: CollaborationEvaluationInput where
  "demo_evaluation = \<lparr>cei_cohortId = ''k'', cei_evidence = [demo_evidence ''test'' Passed], cei_audience = None, cei_visibleScopeIds = None\<rparr>"

definition demo_cohort_record :: IntegrationCohort where
  "demo_cohort_record = the (getCohort demo_reviewed ''k'')"

lemma demo_cohort_found: "getCohort demo_reviewed (cei_cohortId demo_evaluation) = Some demo_cohort_record"
proof -
  have "getCohort demo_reviewed ''k'' \<noteq> None" by code_simp
  then show ?thesis by (simp add: demo_evaluation_def demo_cohort_record_def)
qed

theorem evaluateLanding_allows_iff_witness:
  "\<exists>e. fst (evaluateLanding demo_digest demo_evaluation demo_reviewed) = Inr e \<and> ex_decision e = DecisionAllow"
  unfolding evaluateLanding_allows_iff [OF demo_cohort_found] by code_simp

definition demo_member_check :: EvidenceRequirement where
  "demo_member_check = demo_check\<lparr>req_expectedChangeRevisionId := Some ''change-revision:1''\<rparr>"

theorem foreign_evidence_is_ignored_witness:
  "evidence_blockers demo_cohort_record [(demo_evidence ''test'' Passed)\<lparr>ev_changeRevisionId := Some ''change-revision:1''\<rparr>,
        (demo_evidence ''test'' Failed)\<lparr>ev_changeRevisionId := Some ''change-revision:2''\<rparr>] demo_member_check = []"
proof -
  let ?own = "(demo_evidence ''test'' Passed)\<lparr>ev_changeRevisionId := Some ''change-revision:1''\<rparr>"
    and ?other = "(demo_evidence ''test'' Failed)\<lparr>ev_changeRevisionId := Some ''change-revision:2''\<rparr>"
  have "\<not> matchesContext demo_member_check ?other" by code_simp
  moreover have "list_ex (\<lambda>e. ev_key e = req_key demo_member_check \<and> matchesContext demo_member_check e) ([?own] @ [])" by code_simp
  ultimately have "evidence_blockers demo_cohort_record ([?own] @ ?other # []) demo_member_check
      = evidence_blockers demo_cohort_record ([?own] @ []) demo_member_check"
    by (rule foreign_evidence_is_ignored)
  moreover have "evidence_blockers demo_cohort_record [?own] demo_member_check = []"
    unfolding evidence_blockers_Nil by code_simp
  ultimately show ?thesis by simp
qed

theorem duties_stay_separate_witness:
  "map (actor_actorId \<circ> ap_reviewer) (map_values (co_approvals demo_reviewed)) = [''rita'']
     \<and> list_all (\<lambda>a. Some (actor_actorId (ap_reviewer a)) \<noteq> ap_authorActorId a
         \<and> actor_actorId (ap_reviewer a) \<notin> set (ap_verifierActorIds a)) (map_values (co_approvals demo_reviewed))"
proof
  show "map (actor_actorId \<circ> ap_reviewer) (map_values (co_approvals demo_reviewed)) = [''rita'']" by code_simp
  have "demo_reviewed = run_ops (co_step demo_digest) [CreateCohort ''1'' [demo_candidate] (demo_actor ''alan'') None (Some ''k''),
     Approve ''1'' (demo_approve ''vera''), Approve ''2'' (demo_approve ''rita'')] demo_collaboration"
    by (simp add: demo_reviewed_def demo_opened_def)
  then show "list_all (\<lambda>a. Some (actor_actorId (ap_reviewer a)) \<noteq> ap_authorActorId a
         \<and> actor_actorId (ap_reviewer a) \<notin> set (ap_verifierActorIds a)) (map_values (co_approvals demo_reviewed))"
    using duties_stay_separate [OF demo_collaboration_new, of demo_digest "[CreateCohort ''1'' [demo_candidate] (demo_actor ''alan'') None (Some ''k''),
     Approve ''1'' (demo_approve ''vera''), Approve ''2'' (demo_approve ''rita'')]"] by simp
qed

theorem approve_idempotent_witness:
  "\<exists>a. approve demo_digest ''2'' (demo_approve ''rita'') demo_opened = (Inr a, demo_reviewed)
     \<and> approve demo_digest ''3'' (demo_approve ''rita'') demo_reviewed = (Inr a, demo_reviewed)"
proof -
  have "succeeded (approve demo_digest ''2'' (demo_approve ''rita'') demo_opened)" by code_simp
  then obtain a where a: "approve demo_digest ''2'' (demo_approve ''rita'') demo_opened = (Inr a, demo_reviewed)"
    unfolding demo_reviewed_def by (blast dest: succeededD)
  with approve_idempotent [OF a, of "''3''"] show ?thesis by blast
qed

theorem new_policy_version_stales_approvals_witness:
  "\<exists>s'. activatePolicy (demo_policy ''v2'') demo_reviewed = (Inr (), s')
     \<and> (\<exists>e. fst (evaluateLanding demo_digest demo_evaluation s') = Inr e \<and> ex_decision e = DecisionDeny)"
proof -
  have "succeeded (activatePolicy (demo_policy ''v2'') demo_reviewed)" by code_simp
  then obtain s' where s': "activatePolicy (demo_policy ''v2'') demo_reviewed = (Inr (), s')" by (auto dest: succeededD)
  have old: "list_all (\<lambda>a. ap_policyVersion a \<noteq> pol_version (demo_policy ''v2'')) (map_values (co_approvals demo_reviewed))"
    by code_simp
  have "requirementsFor demo_digest demo_reviewed demo_cohort_record \<noteq> []" by code_simp
  from new_policy_version_stales_approvals [OF s' old demo_cohort_found this] s' show ?thesis by blast
qed

definition demo_requirement_slot :: ReviewRequirement where
  "demo_requirement_slot = hd (requirementsFor demo_digest demo_reviewed demo_cohort_record)"

theorem reused_policy_version_revives_approvals_witness:
  "\<exists>s1 s2. activatePolicy (demo_policy ''v2'') demo_reviewed = (Inr (), s1)
     \<and> activatePolicy ((demo_policy ''v1'')\<lparr>pol_requiredEvidence := []\<rparr>) s1 = (Inr (), s2)
     \<and> length (current_approvals s2 demo_requirement_slot) = 1"
proof -
  have "succeeded (activatePolicy (demo_policy ''v2'') demo_reviewed)" by code_simp
  then obtain s1 where s1: "activatePolicy (demo_policy ''v2'') demo_reviewed = (Inr (), s1)" by (auto dest: succeededD)
  have same: "pol_version ((demo_policy ''v1'')\<lparr>pol_requiredEvidence := []\<rparr>) = pol_version (co_policy demo_reviewed)" by code_simp
  have "\<not> blank (pol_version ((demo_policy ''v1'')\<lparr>pol_requiredEvidence := []\<rparr>))" by code_simp
  from reused_policy_version_revives_approvals [OF s1 same this, of demo_requirement_slot]
  obtain s2 where "activatePolicy ((demo_policy ''v1'')\<lparr>pol_requiredEvidence := []\<rparr>) s1 = (Inr (), s2)"
    "current_approvals s2 demo_requirement_slot = current_approvals demo_reviewed demo_requirement_slot" by blast
  moreover have "length (current_approvals demo_reviewed demo_requirement_slot) = 1" by code_simp
  ultimately show ?thesis using s1 by auto
qed

definition demo_blocker :: "string \<Rightarrow> CollaborationBlocker" where
  "demo_blocker secret = \<lparr>bl_kind = BlOpenFinding, bl_affectedObject = secret, bl_changeId = None, bl_scopeId = Some ''codec'',
     bl_disclosure = DRestricted, bl_message = secret, bl_recoveryAction = secret, bl_safeCommand = secret\<rparr>"

definition demo_explanation :: CollaborationPolicyExplanation where
  "demo_explanation = landing_explanation demo_reviewed demo_cohort_record [demo_blocker ''one'']"

theorem projectExplanation_noninterference_witness:
  "projectExplanation (demo_explanation\<lparr>ex_blockers := [demo_blocker ''two''], ex_safeNextCommands := [''two'']\<rparr>) DProject [''player'']
     = projectExplanation demo_explanation DProject [''player'']"
  by (rule projectExplanation_noninterference)
    (simp add: demo_explanation_def landing_explanation_def Let_def demo_blocker_def visible_blocker_def)

definition demo_finding :: SubmitFindingInput where
  "demo_finding = \<lparr>sfi_cohortId = ''k'', sfi_changeId = ''change:1'', sfi_changeRevisionId = ''change-revision:1'',
     sfi_author = demo_actor ''rita'', sfi_kind = FindSecurity, sfi_severity = SevBlocking, sfi_summary = ''key leak'',
     sfi_disclosure = Some DRestricted, sfi_scope = None, sfi_idempotencyKey = None\<rparr>"

definition demo_resolved :: CollaborationCoordinator where
  "demo_resolved = run_ops (co_step demo_digest) [SubmitFinding ''1'' demo_finding,
     ResolveFinding ''review-finding:1'' (demo_actor ''rita'') ''rotated the key''] demo_opened"

theorem projectCohort_shows_hidden_resolutions_witness:
  "\<exists>p. projectCohort demo_digest ''k'' DPublic [] demo_resolved = Inr p \<and> map fi_resolution (pc_findings p) = [Some ''rotated the key'']"
proof -
  have ok: "succeeded (projectCohort demo_digest ''k'' DPublic [] demo_resolved, ())" by code_simp
  then obtain p where p: "projectCohort demo_digest ''k'' DPublic [] demo_resolved = Inr p"
    by (auto dest: succeededD)
  have "coh_id (pc_cohort p) = ''k''"
  proof -
    have "map_option coh_id (getCohort demo_resolved ''k'') = Some ''k''" by code_simp
    then show ?thesis using p by (auto simp: projectCohort_def requireCohort_def getCohort_def split: option.splits)
  qed
  moreover have "map fi_resolution (listFindings demo_resolved ''k'') = [Some ''rotated the key'']" by code_simp
  ultimately show ?thesis using projectCohort_shows_hidden_resolutions [OF p] p by simp
qed

definition demo_land_run :: "(CollaborationCoordinator \<times> Coordinator, CollaborationError + ChangeControlError, Landing \<times> CollaborationPolicyExplanation) outcome" where
  "demo_land_run = land demo_digest (Some (landCohort (\<lambda>n. ''1''))) demo_evaluation (demo_actor ''olga'') (demo_reviewed, demo_state demo_cohort_work)"


theorem context_requirement_dropped_witness:
  "requiredEvidenceFor (demo_reviewed\<lparr>co_policy := (demo_policy ''v1'')\<lparr>pol_requiredEvidence :=
       [demo_check, demo_check\<lparr>req_expectedProjectViewId := Some ''public''\<rparr>]\<rparr>\<rparr>) demo_cohort_record = [demo_check]"
  by (rule context_requirement_dropped [where p = None and v = "Some ''public''" and d = None])
    (simp_all add: demo_policy_def demo_check_def)

end
