(* ===== verification/Public_Intake.thy ===== *)
theory Public_Intake
  imports Contracts Complex_Main
begin

text \<open>
  The class \<open>PublicIntakeController\<close> of \<open>src/src/disclosure/public-intake.ts\<close>: public contributions
  to a destination Realm, opened and suspended by its owner and limited by a measured quota. The
  methods are functions on a record of the private fields; the calls that return are the steps of a
  transition relation, over whose reachable states the counters are proved. The configured limit is a
  JavaScript number: a rational, or nothing when it is not finite. The prose of errors and decisions
  (message, next action, receipt) is left out.
\<close>

section \<open>Data\<close>

datatype PublicIntakeStatus = IntakeClosed | IntakeOpen | IntakeSuspended
datatype PublicIntakePolicyMode = RateLimited | ApprovalOnly
datatype PublicIntakeActorRole = IntakeOwner | IntakeModerator

record PublicIntakeMeasuredLimit =
  pim_value :: "rat option"
  pim_unit :: string
  pim_measuredAt :: string
  pim_method :: string
  pim_receipt :: string

record PublicIntakePolicy =
  pip_id :: string
  pip_realmId :: string
  pip_projectId :: string
  pip_publicSourceSpaceId :: string
  pip_mode :: PublicIntakePolicyMode
  pip_window :: string
  pip_configuredLimit :: "PublicIntakeMeasuredLimit option"
  pip_owner :: string
  pip_receipt :: string

datatype PublicIntakeDecisionStatus = IntakeAccepted | IntakeDenied | IntakeApprovalRequired
datatype PublicIntakeDisposition = Quarantined | NotMaterialized | AwaitingOwnerReview

record PublicIntakeDecision =
  pid_id :: string
  pid_requestId :: string
  pid_actorId :: string
  pid_contributionId :: string
  pid_projectId :: string
  pid_publicSourceSpaceId :: string
  pid_status :: PublicIntakeDecisionStatus
  pid_disposition :: PublicIntakeDisposition
  pid_requested :: nat
  pid_consumed :: nat
  pid_configuredLimit :: "PublicIntakeMeasuredLimit option"

record PublicIntakeController =
  pic_policy :: PublicIntakePolicy
  pic_status :: PublicIntakeStatus
  pic_requests :: nat
  pic_accepted :: nat
  pic_denied :: nat
  pic_pendingReview :: nat
  pic_preservedContributionIds :: "string list"
  pic_lastDecision :: "PublicIntakeDecision option"

datatype PublicIntakeErrorCode = PiInvalidPolicy | PiInvalidRequest | PiForbidden | PiInvalidState

type_synonym 'a pi_outcome = "(PublicIntakeController, PublicIntakeErrorCode, 'a) outcome"

record IntakeActor =
  ia_id :: string
  ia_role :: PublicIntakeActorRole

record IntakeSubmission =
  is_requestId :: string
  is_actorId :: string
  is_contributionId :: string

section \<open>Operations\<close>

definition required :: "string \<Rightarrow> PublicIntakeErrorCode option" where
  "required v = fail_if (blank v) PiInvalidRequest"

definition limit_error :: "PublicIntakeMeasuredLimit \<Rightarrow> PublicIntakeErrorCode option" where
  "limit_error limit =
     or_else (fail_if (case pim_value limit of None \<Rightarrow> True | Some v \<Rightarrow> v < 1) PiInvalidPolicy)
       (check_loop required [pim_unit limit, pim_measuredAt limit, pim_method limit, pim_receipt limit])"

definition validatePolicy :: "PublicIntakePolicy \<Rightarrow> PublicIntakeErrorCode option" where
  "validatePolicy policy =
     or_else (check_loop required [pip_id policy, pip_realmId policy, pip_projectId policy, pip_publicSourceSpaceId policy,
         pip_window policy, pip_owner policy, pip_receipt policy])
       (case pip_mode policy of
          ApprovalOnly \<Rightarrow> None
        | RateLimited \<Rightarrow> (case pip_configuredLimit policy of None \<Rightarrow> Some PiInvalidPolicy | Some limit \<Rightarrow> limit_error limit))"

definition new_intake :: "PublicIntakePolicy \<Rightarrow> PublicIntakeErrorCode + PublicIntakeController" where
  "new_intake policy = (case validatePolicy policy of
     Some e \<Rightarrow> Inl e
   | None \<Rightarrow> Inr \<lparr>pic_policy = policy, pic_status = IntakeClosed, pic_requests = 0, pic_accepted = 0, pic_denied = 0,
       pic_pendingReview = 0, pic_preservedContributionIds = [], pic_lastDecision = None\<rparr>)"

text \<open>\<open>snapshot\<close> returns a copy of the whole state: the operations that return it return the new state.\<close>

definition open_intake :: "IntakeActor \<Rightarrow> PublicIntakeController \<Rightarrow> PublicIntakeController pi_outcome" where
  "open_intake actor s = (case required (ia_id actor) of
     Some e \<Rightarrow> raise e s
   | None \<Rightarrow> if pic_status s = IntakeSuspended then raise PiInvalidState s
             else (let s' = s\<lparr>pic_status := IntakeOpen\<rparr> in return s' s'))"

definition decision_of :: "IntakeSubmission \<Rightarrow> PublicIntakeDecisionStatus \<Rightarrow> PublicIntakeDisposition \<Rightarrow> nat
    \<Rightarrow> PublicIntakeMeasuredLimit option \<Rightarrow> PublicIntakeController \<Rightarrow> PublicIntakeDecision" where
  "decision_of input status disposition requested configuredLimit s = \<lparr>
     pid_id = ''public-intake-decision:'' @ show_nat (pic_requests s), pid_requestId = is_requestId input,
     pid_actorId = is_actorId input, pid_contributionId = is_contributionId input,
     pid_projectId = pip_projectId (pic_policy s), pid_publicSourceSpaceId = pip_publicSourceSpaceId (pic_policy s),
     pid_status = status, pid_disposition = disposition, pid_requested = requested, pid_consumed = pic_accepted s,
     pid_configuredLimit = configuredLimit\<rparr>"

definition record_decision :: "PublicIntakeDecision \<Rightarrow> PublicIntakeController \<Rightarrow> PublicIntakeDecision pi_outcome" where
  "record_decision decision s = return decision (s\<lparr>pic_lastDecision := Some decision\<rparr>)"

definition recordDenied :: "IntakeSubmission \<Rightarrow> nat \<Rightarrow> PublicIntakeMeasuredLimit option \<Rightarrow> PublicIntakeController
    \<Rightarrow> PublicIntakeDecision pi_outcome" where
  "recordDenied input requested configuredLimit s =
     (let s' = s\<lparr>pic_denied := pic_denied s + 1\<rparr>
      in record_decision (decision_of input IntakeDenied NotMaterialized requested configuredLimit s') s')"

definition over_limit :: "nat \<Rightarrow> PublicIntakeMeasuredLimit \<Rightarrow> bool" where
  "over_limit requested limit = (case pim_value limit of None \<Rightarrow> False | Some v \<Rightarrow> of_nat requested > v)"

definition submit :: "IntakeSubmission \<Rightarrow> PublicIntakeController \<Rightarrow> PublicIntakeDecision pi_outcome" where
  "submit input s = (case check_loop required [is_requestId input, is_actorId input, is_contributionId input] of
     Some e \<Rightarrow> raise e s
   | None \<Rightarrow>
       (let requested = pic_requests s + 1; t = s\<lparr>pic_requests := requested\<rparr>
        in if pic_status t = IntakeSuspended then recordDenied input requested None t
           else if pic_status t \<noteq> IntakeOpen then recordDenied input requested None t
           else if pip_mode (pic_policy t) = ApprovalOnly
           then (let t' = t\<lparr>pic_pendingReview := pic_pendingReview t + 1\<rparr>
                 in record_decision (decision_of input IntakeApprovalRequired AwaitingOwnerReview requested None t') t')
           else (let limit = the (pip_configuredLimit (pic_policy t))
                 in if over_limit requested limit then recordDenied input requested (Some limit) t
                    else (let t' = t\<lparr>pic_accepted := pic_accepted t + 1,
                                      pic_preservedContributionIds := pic_preservedContributionIds t @ [is_contributionId input]\<rparr>
                          in record_decision (decision_of input IntakeAccepted Quarantined requested (Some limit) t') t'))))"

definition suspend :: "IntakeActor \<Rightarrow> string \<Rightarrow> string \<Rightarrow> PublicIntakeController \<Rightarrow> PublicIntakeController pi_outcome" where
  "suspend actor reason receipt s = (case check_loop required [ia_id actor, reason, receipt] of
     Some e \<Rightarrow> raise e s | None \<Rightarrow> (let s' = s\<lparr>pic_status := IntakeSuspended\<rparr> in return s' s'))"

definition reopen :: "IntakeActor \<Rightarrow> string \<Rightarrow> PublicIntakeController \<Rightarrow> PublicIntakeController pi_outcome" where
  "reopen actor reviewReceipt s = (case check_loop required [ia_id actor, reviewReceipt] of
     Some e \<Rightarrow> raise e s
   | None \<Rightarrow> if pic_status s \<noteq> IntakeSuspended then raise PiInvalidState s
             else (let s' = s\<lparr>pic_status := IntakeOpen\<rparr> in return s' s'))"

definition cleanup :: "IntakeActor \<Rightarrow> string \<Rightarrow> PublicIntakeController \<Rightarrow> PublicIntakeController pi_outcome" where
  "cleanup actor cleanupReceipt s = (case check_loop required [ia_id actor, cleanupReceipt] of
     Some e \<Rightarrow> raise e s | None \<Rightarrow> (let s' = s\<lparr>pic_status := IntakeClosed, pic_pendingReview := 0\<rparr> in return s' s'))"

section \<open>Reachable states\<close>

text \<open>One step is a call that returns; a call that throws leaves the state alone (\<open>thrown_call_changes_nothing\<close>).\<close>

inductive intake_step :: "PublicIntakeController \<Rightarrow> PublicIntakeController \<Rightarrow> bool" where
  open_step: "open_intake actor s = (Inr r, s') \<Longrightarrow> intake_step s s'"
| submit_step: "submit input s = (Inr d, s') \<Longrightarrow> intake_step s s'"
| suspend_step: "suspend actor reason receipt s = (Inr r, s') \<Longrightarrow> intake_step s s'"
| reopen_step: "reopen actor reviewReceipt s = (Inr r, s') \<Longrightarrow> intake_step s s'"
| cleanup_step: "cleanup actor cleanupReceipt s = (Inr r, s') \<Longrightarrow> intake_step s s'"

inductive_cases intake_stepE: "intake_step s s'"

lemma thrown_call_changes_nothing:
  "open_intake actor s = (Inl e, s') \<Longrightarrow> s' = s" "submit input s = (Inl e, s') \<Longrightarrow> s' = s"
  "suspend actor reason receipt s = (Inl e, s') \<Longrightarrow> s' = s" "reopen actor reviewReceipt s = (Inl e, s') \<Longrightarrow> s' = s"
  "cleanup actor cleanupReceipt s = (Inl e, s') \<Longrightarrow> s' = s"
  by (auto simp: open_intake_def submit_def suspend_def reopen_def cleanup_def recordDenied_def record_decision_def Let_def
      split: option.splits if_splits)

text \<open>The effect of a submission on the counters, by its decision.\<close>

lemma submit_effect:
  assumes "submit input s = (Inr d, s')"
  shows "pic_policy s' = pic_policy s \<and> pic_status s' = pic_status s \<and> pic_requests s' = pic_requests s + 1
    \<and> pic_lastDecision s' = Some d
    \<and> (case pid_status d of
         IntakeAccepted \<Rightarrow> pic_status s = IntakeOpen \<and> pip_mode (pic_policy s) = RateLimited
           \<and> \<not> over_limit (pic_requests s + 1) (the (pip_configuredLimit (pic_policy s)))
           \<and> pic_accepted s' = pic_accepted s + 1 \<and> pic_denied s' = pic_denied s \<and> pic_pendingReview s' = pic_pendingReview s
           \<and> pic_preservedContributionIds s' = pic_preservedContributionIds s @ [is_contributionId input]
       | IntakeDenied \<Rightarrow> pic_accepted s' = pic_accepted s \<and> pic_denied s' = pic_denied s + 1
           \<and> pic_pendingReview s' = pic_pendingReview s \<and> pic_preservedContributionIds s' = pic_preservedContributionIds s
       | IntakeApprovalRequired \<Rightarrow> pip_mode (pic_policy s) = ApprovalOnly
           \<and> pic_accepted s' = pic_accepted s \<and> pic_denied s' = pic_denied s \<and> pic_pendingReview s' = pic_pendingReview s + 1
           \<and> pic_preservedContributionIds s' = pic_preservedContributionIds s)"
  using assms
  by (cases "pip_mode (pic_policy s)")
    (auto simp: submit_def recordDenied_def record_decision_def decision_of_def Let_def split: option.splits if_splits)

lemma other_step_effect:
  assumes "intake_step s s'"
  obtains input d where "submit input s = (Inr d, s')"
  | "pic_policy s' = pic_policy s" "pic_requests s' = pic_requests s" "pic_accepted s' = pic_accepted s" "pic_denied s' = pic_denied s"
    "pic_preservedContributionIds s' = pic_preservedContributionIds s" "pic_pendingReview s' \<le> pic_pendingReview s"
  using assms
  by (cases rule: intake_stepE)
    (auto simp: open_intake_def suspend_def reopen_def cleanup_def Let_def split: option.splits if_splits)

definition intake_inv :: "PublicIntakePolicy \<Rightarrow> PublicIntakeController \<Rightarrow> bool" where
  "intake_inv policy s \<longleftrightarrow> pic_policy s = policy
   \<and> pic_accepted s = length (pic_preservedContributionIds s)
   \<and> (case pip_mode policy of
        ApprovalOnly \<Rightarrow> pic_accepted s = 0 \<and> pic_denied s + pic_pendingReview s \<le> pic_requests s
      | RateLimited \<Rightarrow> pic_accepted s + pic_denied s = pic_requests s
          \<and> (pic_accepted s = 0 \<or> \<not> over_limit (pic_accepted s) (the (pip_configuredLimit policy))))"

lemma over_limit_mono: "\<not> over_limit n limit \<Longrightarrow> m \<le> n \<Longrightarrow> \<not> over_limit m limit"
  by (cases "pim_value limit") (auto simp: over_limit_def dest: of_nat_mono [where 'a = rat])

lemma intake_step_inv:
  assumes "intake_inv policy s" "intake_step s s'"
  shows "intake_inv policy s'"
  using assms(2)
proof (cases rule: other_step_effect)
  case (1 input d)
  have "\<not> over_limit (pic_requests s + 1) limit \<Longrightarrow> pic_accepted s \<le> pic_requests s \<Longrightarrow> \<not> over_limit (pic_accepted s + 1) limit" for limit
    by (erule over_limit_mono) simp
  then show ?thesis using assms(1) submit_effect [OF 1]
    by (cases "pid_status d"; cases "pip_mode policy") (auto simp: intake_inv_def)
next
  case 2
  then show ?thesis using assms(1) by (auto simp: intake_inv_def split: PublicIntakePolicyMode.splits)
qed

lemma reachable_intake_inv:
  assumes "rtranclp intake_step s t" "intake_inv policy s"
  shows "intake_inv policy t"
  using assms by (induction rule: rtranclp_induct) (auto intro: intake_step_inv)

section \<open>Properties\<close>

text \<open>
  The counters of every reachable state. Exactly the accepted contributions are preserved. Under a
  rate limit every request was accepted or denied and the accepted ones do not exceed the measured
  limit; in approval-only mode nothing is ever accepted without a review.
\<close>

theorem intake_counters:
  assumes "new_intake policy = Inr s0" and "rtranclp intake_step s0 s"
  shows "length (pic_preservedContributionIds s) = pic_accepted s
    \<and> (case pip_mode policy of
         ApprovalOnly \<Rightarrow> pic_accepted s = 0 \<and> pic_denied s + pic_pendingReview s \<le> pic_requests s
       | RateLimited \<Rightarrow> pic_accepted s + pic_denied s = pic_requests s
           \<and> (\<exists>limit v. pip_configuredLimit policy = Some limit \<and> pim_value limit = Some v \<and> of_nat (pic_accepted s) \<le> v))"
proof -
  have valid: "validatePolicy policy = None" and "intake_inv policy s0"
    using assms(1) by (auto simp: new_intake_def intake_inv_def split: option.splits PublicIntakePolicyMode.split)
  from reachable_intake_inv [OF assms(2) this(2)] have inv: "intake_inv policy s" .
  show ?thesis
  proof (cases "pip_mode policy")
    case RateLimited
    then obtain limit v where limit: "pip_configuredLimit policy = Some limit" "pim_value limit = Some v" "1 \<le> v"
      using valid by (auto simp: validatePolicy_def limit_error_def loop_simps split: option.splits)
    then show ?thesis using inv RateLimited by (auto simp: intake_inv_def over_limit_def)
  next
    case ApprovalOnly
    then show ?thesis using inv by (auto simp: intake_inv_def)
  qed
qed

text \<open>
  A quota once used up stays used up. The count of requests is never reset, although the next action
  of a denial is to wait for the configured window to reset: once the next request is over the limit,
  whatever happens afterwards, every submission is denied.
\<close>

theorem exhausted_quota_never_recovers:
  assumes "pip_mode (pic_policy s) = RateLimited" and "pip_configuredLimit (pic_policy s) = Some limit"
    and "over_limit (pic_requests s + 1) limit"
    and "rtranclp intake_step s t" and "submit input t = (Inr d, t')"
  shows "pid_status d = IntakeDenied"
proof -
  have "pic_policy t = pic_policy s \<and> pic_requests s \<le> pic_requests t"
    using assms(4)
  proof (induction rule: rtranclp_induct)
    case (step t u)
    from step.hyps(2) show ?case
      by (cases rule: other_step_effect) (use step.IH in \<open>auto dest!: submit_effect\<close>)
  qed simp
  then have "over_limit (pic_requests t + 1) limit" "pic_policy t = pic_policy s"
    using assms(3) over_limit_mono [of "pic_requests t + 1" limit "pic_requests s + 1"] by auto
  then show ?thesis
    using submit_effect [OF assms(5)] assms(1,2) by (cases "pid_status d") auto
qed

text \<open>
  A suspension is to be lifted only by \<open>reopen\<close> with a review receipt, and \<open>open\<close> refuses a suspended
  intake. But \<open>cleanup\<close> closes a suspended intake without a review, after which \<open>open\<close> opens it: any
  actor, of either role, can lift the suspension with these two calls.
\<close>

theorem cleanup_lifts_suspension:
  assumes "pic_status s = IntakeSuspended" and "\<not> blank (ia_id actor)" and "\<not> blank receipt"
  shows "open_intake actor s = (Inl PiInvalidState, s)
    \<and> (\<exists>s1 s2. cleanup actor receipt s = (Inr s1, s1) \<and> open_intake actor s1 = (Inr s2, s2) \<and> pic_status s2 = IntakeOpen)"
  using assms by (simp add: open_intake_def cleanup_def required_def fail_if_def raise_def return_def Let_def)

section \<open>Witnesses\<close>

definition demo_limit :: PublicIntakeMeasuredLimit where
  "demo_limit = \<lparr>pim_value = Some 1, pim_unit = ''requests'', pim_measuredAt = ''t'', pim_method = ''m'', pim_receipt = ''r''\<rparr>"

definition demo_intake_policy :: PublicIntakePolicy where
  "demo_intake_policy = \<lparr>pip_id = ''i'', pip_realmId = ''r'', pip_projectId = ''p'', pip_publicSourceSpaceId = ''player'',
     pip_mode = RateLimited, pip_window = ''hour'', pip_configuredLimit = Some demo_limit, pip_owner = ''o'', pip_receipt = ''x''\<rparr>"

definition demo_intake :: PublicIntakeController where
  "demo_intake = \<lparr>pic_policy = demo_intake_policy, pic_status = IntakeClosed, pic_requests = 0, pic_accepted = 0, pic_denied = 0,
     pic_pendingReview = 0, pic_preservedContributionIds = [], pic_lastDecision = None\<rparr>"

definition demo_owner :: IntakeActor where
  "demo_owner = \<lparr>ia_id = ''o'', ia_role = IntakeOwner\<rparr>"

definition demo_submission :: IntakeSubmission where
  "demo_submission = \<lparr>is_requestId = ''q'', is_actorId = ''a'', is_contributionId = ''c''\<rparr>"

definition demo_opened_intake :: PublicIntakeController where
  "demo_opened_intake = snd (open_intake demo_owner demo_intake)"

definition demo_used_intake :: PublicIntakeController where
  "demo_used_intake = snd (submit demo_submission demo_opened_intake)"

lemma succeeded_outcome: "succeeded x \<Longrightarrow> \<exists>a. x = (Inr a, snd x)"
  by (cases x rule: void.cases) (auto simp: succeeded_def)

lemma demo_intake_run: "rtranclp intake_step demo_intake demo_used_intake"
proof -
  have "succeeded (open_intake demo_owner demo_intake)" "succeeded (submit demo_submission demo_opened_intake)" by code_simp+
  then have "intake_step demo_intake demo_opened_intake" "intake_step demo_opened_intake demo_used_intake"
    unfolding demo_opened_intake_def demo_used_intake_def by (blast dest: succeeded_outcome intro: open_step submit_step)+
  then show ?thesis by (meson converse_rtranclp_into_rtranclp rtranclp.rtrancl_refl)
qed

theorem intake_counters_witness:
  "pic_accepted demo_used_intake = 1 \<and> length (pic_preservedContributionIds demo_used_intake) = pic_accepted demo_used_intake"
proof -
  have "validatePolicy demo_intake_policy = None" by code_simp
  then have new: "new_intake demo_intake_policy = Inr demo_intake" by (simp add: new_intake_def demo_intake_def)
  have "pic_accepted demo_used_intake = 1" by code_simp
  then show ?thesis using intake_counters [OF new demo_intake_run] by simp
qed

theorem exhausted_quota_never_recovers_witness:
  "\<exists>d t'. submit demo_submission demo_used_intake = (Inr d, t') \<and> pid_status d = IntakeDenied"
proof -
  have "succeeded (submit demo_submission demo_used_intake)" by code_simp
  then obtain d t' where d: "submit demo_submission demo_used_intake = (Inr d, t')" by (auto dest: succeeded_outcome)
  have "pip_mode (pic_policy demo_used_intake) = RateLimited" "pip_configuredLimit (pic_policy demo_used_intake) = Some demo_limit"
    "over_limit (pic_requests demo_used_intake + 1) demo_limit" by code_simp+
  from exhausted_quota_never_recovers [OF this rtranclp.rtrancl_refl d] d show ?thesis by blast
qed

theorem cleanup_lifts_suspension_witness:
  "\<exists>s1 s2. cleanup demo_owner ''r'' (demo_intake\<lparr>pic_status := IntakeSuspended\<rparr>) = (Inr s1, s1)
     \<and> open_intake demo_owner s1 = (Inr s2, s2) \<and> pic_status s2 = IntakeOpen"
proof -
  have "pic_status (demo_intake\<lparr>pic_status := IntakeSuspended\<rparr>) = IntakeSuspended" "\<not> blank (ia_id demo_owner)" "\<not> blank ''r''"
    by code_simp+
  from cleanup_lifts_suspension [OF this] show ?thesis by blast
qed

end
