(* ===== verification/Releases.thy ===== *)
theory Releases
  imports Evidence_Gate
begin

text \<open>
  What a Target may consume: the records of Releases, Artifacts, Migration Plans and Targets of
  \<open>src/src/kernel/contracts.ts\<close>, the functions of \<open>migration-plan.ts\<close>, \<open>release-input.ts\<close> and
  \<open>target-deployment.ts\<close> under \<open>src/src/delivery/\<close>, and \<open>sealVerifiedRelease\<close> of \<open>promotion.ts\<close>, which
  checks a Release with its Artifacts and Evidence against a Target and freezes them.

  SHA-256 over canonical JSON is a parameter \<open>digest\<close> on JSON values; for the sealed Release it is a
  parameter \<open>releaseDigest\<close> on the records themselves. The scanner for credential-like text is a parameter
  \<open>credentialLike\<close>. Protocol literals and the prose of errors are left out.
\<close>

section \<open>Data\<close>

record Artifact =
  art_id :: string
  art_type :: string
  art_digest :: string
  art_projectRevisionId :: string
  art_changeRevisionId :: "string option"
  art_runId :: "string option"
  art_actionId :: "string option"
  art_outputPath :: "string option"
  art_provenanceDigest :: "string option"
  art_disclosure :: "DisclosurePolicyRef option"

datatype ReleaseStatus = ReleaseDraft | ReleaseReady | ReleasePromoted | ReleaseRecalled

record ReleaseInputSet =
  ris_buildDefinitionDigest :: string
  ris_dependencyDigest :: string
  ris_toolchainDigest :: string
  ris_environmentDigest :: string
  ris_artifactDigests :: "string list"
  ris_inputClosureDigest :: string

datatype MigrationStrategy = MigNone | MigExpandContract | MigManual | MigCustom
datatype MigrationCompatibility = BackwardCompatible | Bidirectional | ForwardOnly | Incompatible | CompatibilityUnknown
datatype MigrationRollback = RollbackSafe | RollbackApplicationOnly | RollbackManualDataAction | RollbackBlocked

record MigrationPlan =
  mp_strategy :: MigrationStrategy
  mp_beforeSchemaDigest :: "string option"
  mp_afterSchemaDigest :: "string option"
  mp_compatibility :: MigrationCompatibility
  mp_rollback :: MigrationRollback
  mp_migrationArtifactIds :: "string list"
  mp_requiredEvidenceKeys :: "string list"
  mp_planDigest :: string

record Release =
  rel_id :: string
  rel_projectRevisionId :: string
  rel_artifactIds :: "string list"
  rel_evidenceIds :: "string list"
  rel_configurationDigests :: "string list"
  rel_stateAssumptions :: "string list"
  rel_policyVersion :: string
  rel_status :: ReleaseStatus
  rel_name :: "string option"
  rel_changeRevisionId :: "string option"
  rel_provenanceDigest :: "string option"
  rel_inputSet :: "ReleaseInputSet option"
  rel_migrationPlan :: "MigrationPlan option"
  rel_receipt :: "string option"

datatype TargetState = TargetConfigured | TargetHealthy | TargetDegraded | TargetUnknown
datatype TargetEnvironment = EnvPreview | EnvDevelopment | EnvStaging | EnvProduction | EnvCustom
datatype TargetChannel = ChannelAlpha | ChannelBeta | ChannelStable | ChannelCustom
datatype TargetDataClass = DataSynthetic | DataIsolated | DataProductionShaped | DataProduction | DataCustom
datatype TargetResourceSharing = SharingIsolated | SharingOwnerApproved

datatype TargetPreviewStrategy =
    VersionUrl
  | IsolatedTarget string
  | CustomDomainVersionOverride string
  | StagingOnly "string list"

record TargetDeploymentProfile =
  tdp_environment :: TargetEnvironment
  tdp_channel :: TargetChannel
  tdp_audience :: string
  tdp_runtimeIdentity :: string
  tdp_routeIdentities :: "string list"
  tdp_bindingIdentities :: "string list"
  tdp_dataResourceIdentities :: "string list"
  tdp_configurationDigests :: "string list"
  tdp_secretUseAliases :: "string list"
  tdp_dataClass :: TargetDataClass
  tdp_resourceSharing :: TargetResourceSharing
  tdp_sharingPolicyDigest :: "string option"
  tdp_previewStrategy :: TargetPreviewStrategy
  tdp_profileDigest :: string

text \<open>The delivery pointer of a Target belongs to the Promotion coordinator, whose Targets always have one.\<close>

record Target =
  tgt_id :: string
  tgt_projectId :: string
  tgt_name :: string
  tgt_adapterId :: string
  tgt_acceptedArtifactTypes :: "string list"
  tgt_requiredEvidenceKeys :: "string list"
  tgt_state :: TargetState
  tgt_lastPromotionId :: "string option"
  tgt_deploymentProfile :: "TargetDeploymentProfile option"

datatype MigrationPlanErrorCode = MigInvalid | MigIncomplete | MigIncompatible
datatype ReleaseInputErrorCode = InputMissing | InputMismatch | InputInvalid
datatype TargetDeploymentProfileErrorCode = InvalidProfile | IncompleteProfile | ResourceConflict

datatype PromotionErrorCode =
    PromInvalidRelease | PromReleaseNotFound | PromTargetMismatch | PromAdapterMismatch | PromExpectedCurrentMismatch
  | PromIdempotencyConflict | PromInvalidState | PromCapabilityUnavailable | PromProviderResultMismatch | PromRollbackUnavailable

text \<open>The classes of errors that the functions of the delivery code throw.\<close>

datatype DeliveryError =
    PromotionError PromotionErrorCode
  | MigrationPlanError MigrationPlanErrorCode
  | ReleaseInputError ReleaseInputErrorCode
  | TargetDeploymentProfileError TargetDeploymentProfileErrorCode

section \<open>Migration Plans\<close>

record MigrationPlanInput =
  mpi_strategy :: "MigrationStrategy option"
  mpi_beforeSchemaDigest :: "string option"
  mpi_afterSchemaDigest :: "string option"
  mpi_compatibility :: "MigrationCompatibility option"
  mpi_rollback :: "MigrationRollback option"
  mpi_migrationArtifactIds :: "string list option"
  mpi_requiredEvidenceKeys :: "string list option"
  mpi_planDigest :: "string option"

text \<open>A plan passed where the input of \<open>createMigrationPlan\<close> is expected.\<close>

definition plan_input :: "MigrationPlan \<Rightarrow> MigrationPlanInput" where
  "plan_input p = \<lparr>mpi_strategy = Some (mp_strategy p), mpi_beforeSchemaDigest = mp_beforeSchemaDigest p,
     mpi_afterSchemaDigest = mp_afterSchemaDigest p, mpi_compatibility = Some (mp_compatibility p),
     mpi_rollback = Some (mp_rollback p), mpi_migrationArtifactIds = Some (mp_migrationArtifactIds p),
     mpi_requiredEvidenceKeys = Some (mp_requiredEvidenceKeys p), mpi_planDigest = Some (mp_planDigest p)\<rparr>"

fun strategy_text :: "MigrationStrategy \<Rightarrow> string" where
  "strategy_text MigNone = ''none''"
| "strategy_text MigExpandContract = ''expand-contract''"
| "strategy_text MigManual = ''manual''"
| "strategy_text MigCustom = ''custom''"

fun compatibility_text :: "MigrationCompatibility \<Rightarrow> string" where
  "compatibility_text BackwardCompatible = ''backward-compatible''"
| "compatibility_text Bidirectional = ''bidirectional''"
| "compatibility_text ForwardOnly = ''forward-only''"
| "compatibility_text Incompatible = ''incompatible''"
| "compatibility_text CompatibilityUnknown = ''unknown''"

fun rollback_text :: "MigrationRollback \<Rightarrow> string" where
  "rollback_text RollbackSafe = ''safe''"
| "rollback_text RollbackApplicationOnly = ''application-only''"
| "rollback_text RollbackManualDataAction = ''manual-data-action''"
| "rollback_text RollbackBlocked = ''blocked''"

text \<open>An optional property of an object literal: absent when undefined.\<close>

fun optional_field :: "string \<Rightarrow> string option \<Rightarrow> (string \<times> js_value) list" where
  "optional_field k None = []"
| "optional_field k (Some v) = [(k, JString v)]"

definition strings_json :: "string list \<Rightarrow> js_value" where
  "strings_json vs = JArray (map JString vs)"

definition plan_body :: "MigrationStrategy \<Rightarrow> string option \<Rightarrow> string option \<Rightarrow> MigrationCompatibility \<Rightarrow> MigrationRollback
    \<Rightarrow> string list \<Rightarrow> string list \<Rightarrow> js_value" where
  "plan_body strategy beforeDigest afterDigest compatibility rollback artifacts keys = JObject (
     [(''protocol'', JString ''anyam.migration/v1''), (''strategy'', JString (strategy_text strategy))]
     @ optional_field ''beforeSchemaDigest'' beforeDigest @ optional_field ''afterSchemaDigest'' afterDigest
     @ [(''compatibility'', JString (compatibility_text compatibility)), (''rollback'', JString (rollback_text rollback)),
        (''migrationArtifactIds'', strings_json artifacts), (''requiredEvidenceKeys'', strings_json keys)])"

definition unique_error :: "string list \<Rightarrow> MigrationPlanErrorCode option" where
  "unique_error values = or_else (fail_if (\<exists>v\<in>set values. blank v) MigInvalid)
     (fail_if (has_duplicates (map js_trim values)) MigInvalid)"

text \<open>A schema digest that is the empty string counts as absent; a blank one is refused.\<close>

definition schema_error :: "string option \<Rightarrow> MigrationPlanErrorCode option" where
  "schema_error d = fail_if (case keep_truthy d of None \<Rightarrow> False | Some v \<Rightarrow> blank v) MigInvalid"

definition createMigrationPlan :: "(js_value \<Rightarrow> string) \<Rightarrow> MigrationPlanInput \<Rightarrow> MigrationPlanErrorCode + MigrationPlan" where
  "createMigrationPlan digest input =
    (let strategy = nullish (mpi_strategy input) MigNone;
         compatibility = nullish (mpi_compatibility input) (if strategy = MigNone then BackwardCompatible else CompatibilityUnknown);
         rollback = nullish (mpi_rollback input) (if strategy = MigNone then RollbackSafe else RollbackBlocked);
         artifacts = nullish (mpi_migrationArtifactIds input) [];
         keys = nullish (mpi_requiredEvidenceKeys input) [];
         artifacts' = map js_trim artifacts; keys' = map js_trim keys;
         beforeDigest = map_option js_trim (keep_truthy (mpi_beforeSchemaDigest input));
         afterDigest = map_option js_trim (keep_truthy (mpi_afterSchemaDigest input));
         planDigest = digest (plan_body strategy beforeDigest afterDigest compatibility rollback artifacts' keys')
     in case or_else (unique_error artifacts)
          (or_else (unique_error keys)
          (or_else (fail_if (strategy = MigNone \<and> (artifacts' \<noteq> [] \<or> keys' \<noteq> [])) MigInvalid)
          (or_else (fail_if (strategy = MigExpandContract \<and> (mpi_beforeSchemaDigest input = None
              \<or> mpi_afterSchemaDigest input = None \<or> compatibility \<noteq> Bidirectional)) MigIncomplete)
          (or_else (schema_error (mpi_beforeSchemaDigest input))
          (or_else (schema_error (mpi_afterSchemaDigest input))
          (fail_if (case mpi_planDigest input of None \<Rightarrow> False | Some d \<Rightarrow> d \<noteq> planDigest) MigInvalid)))))) of
       Some e \<Rightarrow> Inl e
     | None \<Rightarrow> Inr \<lparr>mp_strategy = strategy, mp_beforeSchemaDigest = beforeDigest, mp_afterSchemaDigest = afterDigest,
         mp_compatibility = compatibility, mp_rollback = rollback, mp_migrationArtifactIds = artifacts',
         mp_requiredEvidenceKeys = keys', mp_planDigest = planDigest\<rparr>)"

definition defaultMigrationPlan :: "(js_value \<Rightarrow> string) \<Rightarrow> MigrationPlanErrorCode + MigrationPlan" where
  "defaultMigrationPlan digest = createMigrationPlan digest \<lparr>mpi_strategy = Some MigNone, mpi_beforeSchemaDigest = None,
     mpi_afterSchemaDigest = None, mpi_compatibility = None, mpi_rollback = None, mpi_migrationArtifactIds = None,
     mpi_requiredEvidenceKeys = None, mpi_planDigest = None\<rparr>"

definition productionSensitive :: "TargetEnvironment \<Rightarrow> TargetDataClass \<Rightarrow> bool" where
  "productionSensitive environment dataClass \<longleftrightarrow> environment = EnvProduction \<or> environment = EnvCustom
     \<or> dataClass = DataProduction \<or> dataClass = DataProductionShaped \<or> dataClass = DataCustom"

definition assertMigrationPlanSafeForTarget ::
  "(js_value \<Rightarrow> string) \<Rightarrow> MigrationPlan \<Rightarrow> TargetEnvironment \<Rightarrow> TargetDataClass \<Rightarrow> MigrationPlanErrorCode option" where
  "assertMigrationPlanSafeForTarget digest plan environment dataClass = (case createMigrationPlan digest (plan_input plan) of
     Inl e \<Rightarrow> Some e
   | Inr normalized \<Rightarrow> if \<not> productionSensitive environment dataClass then None
       else or_else (fail_if (mp_compatibility normalized = CompatibilityUnknown \<or> mp_compatibility normalized = Incompatible) MigIncompatible)
              (fail_if (mp_rollback normalized = RollbackBlocked) MigIncompatible))"

definition automaticMigrationRollbackDecision :: "(js_value \<Rightarrow> string) \<Rightarrow> MigrationPlan \<Rightarrow> MigrationPlanErrorCode + bool" where
  "automaticMigrationRollbackDecision digest plan = (case createMigrationPlan digest (plan_input plan) of
     Inl e \<Rightarrow> Inl e
   | Inr normalized \<Rightarrow> Inr (mp_rollback normalized = RollbackSafe
       \<or> mp_rollback normalized = RollbackApplicationOnly
         \<and> (mp_compatibility normalized = BackwardCompatible \<or> mp_compatibility normalized = Bidirectional)))"

section \<open>Release input sets\<close>

definition required_input :: "string \<Rightarrow> ReleaseInputErrorCode + string" where
  "required_input v = (if blank v then Inl InputMissing else Inr (js_trim v))"

definition input_body :: "string \<Rightarrow> string \<Rightarrow> string \<Rightarrow> string \<Rightarrow> string list \<Rightarrow> js_value" where
  "input_body build dependency toolchain environment artifacts = JObject [
     (''protocol'', JString ''anyam.release-input/v1''), (''buildDefinitionDigest'', JString build),
     (''dependencyDigest'', JString dependency), (''toolchainDigest'', JString toolchain),
     (''environmentDigest'', JString environment), (''artifactDigests'', strings_json artifacts)]"

record ReleaseInputSetInput =
  rii_buildDefinitionDigest :: string
  rii_dependencyDigest :: string
  rii_toolchainDigest :: string
  rii_environmentDigest :: string
  rii_artifactDigests :: "string list"

definition createReleaseInputSet :: "(js_value \<Rightarrow> string) \<Rightarrow> ReleaseInputSetInput \<Rightarrow> ReleaseInputErrorCode + ReleaseInputSet" where
  "createReleaseInputSet digest input =
    (let build = js_trim (rii_buildDefinitionDigest input); dependency = js_trim (rii_dependencyDigest input);
         toolchain = js_trim (rii_toolchainDigest input); environment = js_trim (rii_environmentDigest input);
         artifacts = map js_trim (rii_artifactDigests input)
     in case or_else (check_loop (\<lambda>v. fail_if (blank v) InputMissing)
               [rii_buildDefinitionDigest input, rii_dependencyDigest input, rii_toolchainDigest input, rii_environmentDigest input])
             (fail_if (\<exists>v\<in>set (rii_artifactDigests input). blank v) InputInvalid) of
       Some e \<Rightarrow> Inl e
     | None \<Rightarrow> Inr \<lparr>ris_buildDefinitionDigest = build, ris_dependencyDigest = dependency, ris_toolchainDigest = toolchain,
         ris_environmentDigest = environment, ris_artifactDigests = artifacts,
         ris_inputClosureDigest = digest (input_body build dependency toolchain environment artifacts)\<rparr>)"

definition commonEvidenceDigest :: "(Evidence \<Rightarrow> string) \<Rightarrow> Evidence list \<Rightarrow> ReleaseInputErrorCode + string" where
  "commonEvidenceDigest field evidence = (if evidence = [] then Inl InputMissing
     else (let values = uniq (map field evidence) in if length values \<noteq> 1 then Inl InputMismatch else required_input (hd values)))"

definition buildDefinitionDigest :: "(js_value \<Rightarrow> string) \<Rightarrow> string list \<Rightarrow> ReleaseInputErrorCode + string" where
  "buildDefinitionDigest digest configurationDigests = (case configurationDigests of
     [] \<Rightarrow> Inl InputMissing
   | [d] \<Rightarrow> required_input d
   | _ \<Rightarrow> Inr (digest (JObject [(''configurationDigests'', strings_json configurationDigests)])))"

definition deriveReleaseInputSet :: "(js_value \<Rightarrow> string) \<Rightarrow> string list \<Rightarrow> Artifact list \<Rightarrow> Evidence list
    \<Rightarrow> ReleaseInputErrorCode + ReleaseInputSet" where
  "deriveReleaseInputSet digest configurationDigests artifacts evidence =
     sum_then (buildDefinitionDigest digest configurationDigests) (\<lambda>build.
     sum_then (commonEvidenceDigest ev_dependencyDigest evidence) (\<lambda>dependency.
     sum_then (commonEvidenceDigest ev_toolchainDigest evidence) (\<lambda>toolchain.
     sum_then (commonEvidenceDigest ev_environmentDigest evidence) (\<lambda>environment.
       createReleaseInputSet digest \<lparr>rii_buildDefinitionDigest = build, rii_dependencyDigest = dependency,
         rii_toolchainDigest = toolchain, rii_environmentDigest = environment,
         rii_artifactDigests = map art_digest artifacts\<rparr>))))"

definition assertReleaseInputSetMatches :: "(js_value \<Rightarrow> string) \<Rightarrow> ReleaseInputSet \<Rightarrow> string list \<Rightarrow> Artifact list \<Rightarrow> Evidence list
    \<Rightarrow> ReleaseInputErrorCode option" where
  "assertReleaseInputSetMatches digest inputSet configurationDigests artifacts evidence =
    (case deriveReleaseInputSet digest configurationDigests artifacts evidence of
       Inl e \<Rightarrow> Some e
     | Inr expected \<Rightarrow>
         or_else (fail_if (ris_inputClosureDigest inputSet \<noteq> ris_inputClosureDigest expected) InputMismatch)
           (fail_if (ris_buildDefinitionDigest inputSet \<noteq> ris_buildDefinitionDigest expected
              \<or> ris_dependencyDigest inputSet \<noteq> ris_dependencyDigest expected
              \<or> ris_toolchainDigest inputSet \<noteq> ris_toolchainDigest expected
              \<or> ris_environmentDigest inputSet \<noteq> ris_environmentDigest expected
              \<or> ris_artifactDigests inputSet \<noteq> ris_artifactDigests expected) InputMismatch))"

section \<open>Deployment profiles of Targets\<close>

record TargetDeploymentProfileInput =
  tpi_environment :: TargetEnvironment
  tpi_channel :: TargetChannel
  tpi_audience :: string
  tpi_runtimeIdentity :: string
  tpi_routeIdentities :: "string list"
  tpi_bindingIdentities :: "string list"
  tpi_dataResourceIdentities :: "string list"
  tpi_configurationDigests :: "string list"
  tpi_secretUseAliases :: "string list"
  tpi_dataClass :: TargetDataClass
  tpi_resourceSharing :: TargetResourceSharing
  tpi_sharingPolicyDigest :: "string option"
  tpi_previewStrategy :: "TargetPreviewStrategy option"
  tpi_profileDigest :: "string option"

definition identity_error :: "(string \<Rightarrow> bool) \<Rightarrow> string \<Rightarrow> TargetDeploymentProfileErrorCode option" where
  "identity_error credentialLike v = or_else (fail_if (blank v) InvalidProfile) (fail_if (credentialLike (js_trim v)) InvalidProfile)"

definition list_error :: "(string \<Rightarrow> bool) \<Rightarrow> string list \<Rightarrow> TargetDeploymentProfileErrorCode option" where
  "list_error credentialLike values =
     or_else (fail_if (\<exists>v\<in>set values. blank v) InvalidProfile)
     (or_else (check_loop (\<lambda>v. fail_if (credentialLike (js_trim v)) InvalidProfile) values)
     (fail_if (has_duplicates (map js_trim values)) InvalidProfile))"

fun preview_error :: "(string \<Rightarrow> bool) \<Rightarrow> TargetPreviewStrategy \<Rightarrow> TargetDeploymentProfileErrorCode option" where
  "preview_error credentialLike VersionUrl = None"
| "preview_error credentialLike (IsolatedTarget targetId) = identity_error credentialLike targetId"
| "preview_error credentialLike (CustomDomainVersionOverride hostname) = identity_error credentialLike hostname"
| "preview_error credentialLike (StagingOnly keys) = list_error credentialLike keys"

fun normal_preview :: "TargetPreviewStrategy \<Rightarrow> TargetPreviewStrategy" where
  "normal_preview VersionUrl = VersionUrl"
| "normal_preview (IsolatedTarget targetId) = IsolatedTarget (js_trim targetId)"
| "normal_preview (CustomDomainVersionOverride hostname) = CustomDomainVersionOverride (js_trim hostname)"
| "normal_preview (StagingOnly keys) = StagingOnly (map js_trim keys)"

definition profile_error :: "(string \<Rightarrow> bool) \<Rightarrow> TargetDeploymentProfileInput \<Rightarrow> TargetDeploymentProfileErrorCode option" where
  "profile_error credentialLike input =
     or_else (case tpi_sharingPolicyDigest input of None \<Rightarrow> None | Some d \<Rightarrow> identity_error credentialLike d)
     (or_else (fail_if (tpi_resourceSharing input = SharingOwnerApproved \<and> tpi_sharingPolicyDigest input = None) InvalidProfile)
     (or_else (fail_if (tpi_resourceSharing input = SharingIsolated \<and> tpi_sharingPolicyDigest input \<noteq> None) InvalidProfile)
     (or_else (check_loop (identity_error credentialLike) [tpi_audience input, tpi_runtimeIdentity input])
     (or_else (check_loop (list_error credentialLike) [tpi_routeIdentities input, tpi_bindingIdentities input,
         tpi_dataResourceIdentities input, tpi_configurationDigests input, tpi_secretUseAliases input])
       (preview_error credentialLike (nullish (tpi_previewStrategy input) VersionUrl))))))"

text \<open>The fields of a profile under its digest; the digest of a profile is a parameter on this body.\<close>

definition profileBody :: "TargetDeploymentProfileInput \<Rightarrow> string \<Rightarrow> TargetDeploymentProfile" where
  "profileBody input digestText = \<lparr>
     tdp_environment = tpi_environment input, tdp_channel = tpi_channel input,
     tdp_audience = js_trim (tpi_audience input), tdp_runtimeIdentity = js_trim (tpi_runtimeIdentity input),
     tdp_routeIdentities = map js_trim (tpi_routeIdentities input),
     tdp_bindingIdentities = map js_trim (tpi_bindingIdentities input),
     tdp_dataResourceIdentities = map js_trim (tpi_dataResourceIdentities input),
     tdp_configurationDigests = map js_trim (tpi_configurationDigests input),
     tdp_secretUseAliases = map js_trim (tpi_secretUseAliases input),
     tdp_dataClass = tpi_dataClass input, tdp_resourceSharing = tpi_resourceSharing input,
     tdp_sharingPolicyDigest = map_option js_trim (tpi_sharingPolicyDigest input),
     tdp_previewStrategy = normal_preview (nullish (tpi_previewStrategy input) VersionUrl),
     tdp_profileDigest = digestText\<rparr>"

text \<open>
  The parameter \<open>profileDigest\<close> is the hash of the canonical JSON of a profile without its own digest, here of
  the profile with an empty one.
\<close>

definition createTargetDeploymentProfile :: "(string \<Rightarrow> bool) \<Rightarrow> (TargetDeploymentProfile \<Rightarrow> string) \<Rightarrow> TargetDeploymentProfileInput
    \<Rightarrow> TargetDeploymentProfileErrorCode + TargetDeploymentProfile" where
  "createTargetDeploymentProfile credentialLike profileDigest input = (case profile_error credentialLike input of
     Some e \<Rightarrow> Inl e
   | None \<Rightarrow> (let d = profileDigest (profileBody input [])
              in if (case tpi_profileDigest input of None \<Rightarrow> False | Some received \<Rightarrow> received \<noteq> d) then Inl InvalidProfile
                 else Inr (profileBody input d)))"

definition defaultTargetDeploymentProfile :: "(string \<Rightarrow> bool) \<Rightarrow> (TargetDeploymentProfile \<Rightarrow> string) \<Rightarrow> string
    \<Rightarrow> TargetDeploymentProfileErrorCode + TargetDeploymentProfile" where
  "defaultTargetDeploymentProfile credentialLike profileDigest targetId = createTargetDeploymentProfile credentialLike profileDigest \<lparr>
     tpi_environment = EnvCustom, tpi_channel = ChannelStable, tpi_audience = targetId, tpi_runtimeIdentity = ''target:'' @ targetId,
     tpi_routeIdentities = [], tpi_bindingIdentities = [], tpi_dataResourceIdentities = [], tpi_configurationDigests = [],
     tpi_secretUseAliases = [], tpi_dataClass = DataCustom, tpi_resourceSharing = SharingIsolated, tpi_sharingPolicyDigest = None,
     tpi_previewStrategy = None, tpi_profileDigest = None\<rparr>"

definition targetDeploymentProfile :: "(string \<Rightarrow> bool) \<Rightarrow> (TargetDeploymentProfile \<Rightarrow> string) \<Rightarrow> 'a Target_scheme
    \<Rightarrow> TargetDeploymentProfileErrorCode + TargetDeploymentProfile" where
  "targetDeploymentProfile credentialLike profileDigest target = (case tgt_deploymentProfile target of
     Some profile \<Rightarrow> Inr profile
   | None \<Rightarrow> defaultTargetDeploymentProfile credentialLike profileDigest (tgt_id target))"

definition assertTargetCanPromote :: "'a Target_scheme \<Rightarrow> TargetDeploymentProfileErrorCode + TargetDeploymentProfile" where
  "assertTargetCanPromote target = (case tgt_deploymentProfile target of
     None \<Rightarrow> Inl IncompleteProfile
   | Some profile \<Rightarrow> if tdp_configurationDigests profile = [] then Inl IncompleteProfile
       else if tdp_environment profile = EnvCustom \<or> tdp_dataClass profile = DataCustom then Inl IncompleteProfile
       else Inr profile)"

definition resourceIdentities :: "TargetDeploymentProfile \<Rightarrow> string list" where
  "resourceIdentities profile = [''runtime:'' @ tdp_runtimeIdentity profile]
     @ map (\<lambda>v. ''route:'' @ v) (tdp_routeIdentities profile)
     @ map (\<lambda>v. ''binding:'' @ v) (tdp_bindingIdentities profile)
     @ map (\<lambda>v. ''data:'' @ v) (tdp_dataResourceIdentities profile)
     @ map (\<lambda>v. ''secret-use:'' @ v) (tdp_secretUseAliases profile)"

definition matchingOwnerApproval :: "TargetDeploymentProfile \<Rightarrow> TargetDeploymentProfile \<Rightarrow> bool" where
  "matchingOwnerApproval candidate existing \<longleftrightarrow> tdp_resourceSharing candidate = SharingOwnerApproved
     \<and> tdp_resourceSharing existing = SharingOwnerApproved \<and> tdp_sharingPolicyDigest candidate \<noteq> None
     \<and> tdp_sharingPolicyDigest candidate = tdp_sharingPolicyDigest existing"

definition assertTargetResourceIsolation :: "(string \<Rightarrow> bool) \<Rightarrow> (TargetDeploymentProfile \<Rightarrow> string) \<Rightarrow> Target list \<Rightarrow> Target
    \<Rightarrow> TargetDeploymentProfileErrorCode option" where
  "assertTargetResourceIsolation credentialLike profileDigest existing candidate =
    (case targetDeploymentProfile credentialLike profileDigest candidate of
       Inl e \<Rightarrow> Some e
     | Inr candidateProfile \<Rightarrow> check_loop (\<lambda>other.
         if tgt_id other = tgt_id candidate then None
         else (case targetDeploymentProfile credentialLike profileDigest other of
             Inl e \<Rightarrow> Some e
           | Inr otherProfile \<Rightarrow>
               fail_if (filter (\<lambda>i. i \<in> set (resourceIdentities candidateProfile)) (resourceIdentities otherProfile) \<noteq> []
                 \<and> \<not> matchingOwnerApproval candidateProfile otherProfile) ResourceConflict)) existing)"

section \<open>Sealing a Release\<close>

record ImmutableRelease =
  ir_id :: string
  ir_projectId :: string
  ir_release :: Release
  ir_artifacts :: "Artifact list"
  ir_evidence :: "Evidence list"
  ir_releaseDigest :: string

text \<open>A Worker Target brings its own contract digest; for another Target it is derived.\<close>

record SealInput =
  si_projectId :: string
  si_release :: Release
  si_artifacts :: "Artifact list"
  si_evidence :: "Evidence list"
  si_target :: Target
  si_contractDigest :: "string option"

text \<open>
  The digests the sealing computes: of JSON bodies, of profiles, of the contract of a Target with its
  profile, and of everything sealed.
\<close>

record Digests =
  dg_digest :: "js_value \<Rightarrow> string"
  dg_profile :: "TargetDeploymentProfile \<Rightarrow> string"
  dg_contract :: "Target \<Rightarrow> TargetDeploymentProfile \<Rightarrow> string"
  dg_release :: "string \<Rightarrow> string \<Rightarrow> string \<Rightarrow> Release \<Rightarrow> Artifact list \<Rightarrow> Evidence list \<Rightarrow> string"

definition targetDeploymentContractDigest :: "(string \<Rightarrow> bool) \<Rightarrow> Digests \<Rightarrow> Target \<Rightarrow> TargetDeploymentProfileErrorCode + string" where
  "targetDeploymentContractDigest credentialLike dg target =
     sum_then (targetDeploymentProfile credentialLike (dg_profile dg) target) (\<lambda>profile. Inr (dg_contract dg target profile))"

abbreviation invalid_release_if :: "bool \<Rightarrow> DeliveryError option" where
  "invalid_release_if b \<equiv> fail_if b (PromotionError PromInvalidRelease)"

definition release_error :: "SealInput \<Rightarrow> DeliveryError option" where
  "release_error input = (let release = si_release input in
     check_loop invalid_release_if [
       blank (si_projectId input), blank (rel_id release), blank (rel_projectRevisionId release), blank (rel_policyVersion release),
       rel_configurationDigests release = [], rel_status release \<noteq> ReleaseReady,
       has_duplicates (rel_artifactIds release), has_duplicates (rel_evidenceIds release),
       has_duplicates (map art_id (si_artifacts input)), has_duplicates (map ev_id (si_evidence input)),
       rel_artifactIds release = []])"

definition artifactById :: "SealInput \<Rightarrow> (string, Artifact) jsmap" where
  "artifactById input = from_entries (map (\<lambda>a. (art_id a, a)) (si_artifacts input))"

definition evidenceById :: "SealInput \<Rightarrow> (string, Evidence) jsmap" where
  "evidenceById input = from_entries (map (\<lambda>e. (ev_id e, e)) (si_evidence input))"

definition artifact_error :: "SealInput \<Rightarrow> string \<Rightarrow> DeliveryError option" where
  "artifact_error input artifactId = invalid_release_if (case get_key (artifactById input) artifactId of
     None \<Rightarrow> True
   | Some artifact \<Rightarrow> art_projectRevisionId artifact \<noteq> rel_projectRevisionId (si_release input)
       \<or> blank (art_digest artifact)
       \<or> art_type artifact \<notin> set (tgt_acceptedArtifactTypes (si_target input)))"

definition evidence_error :: "SealInput \<Rightarrow> string \<Rightarrow> DeliveryError option" where
  "evidence_error input evidenceId = invalid_release_if (case get_key (evidenceById input) evidenceId of
     None \<Rightarrow> True
   | Some e \<Rightarrow> ev_projectRevisionId e \<noteq> rel_projectRevisionId (si_release input) \<or> ev_outcome e \<noteq> Passed)"

definition required_key_error :: "SealInput \<Rightarrow> string \<Rightarrow> DeliveryError option" where
  "required_key_error input key = invalid_release_if (case find (\<lambda>e. ev_key e = key) (si_evidence input) of
     None \<Rightarrow> True
   | Some e \<Rightarrow> ev_outcome e \<noteq> Passed \<or> ev_projectRevisionId e \<noteq> rel_projectRevisionId (si_release input)
       \<or> ev_targetId e \<noteq> Some (tgt_id (si_target input)))"

definition migration_artifact_error :: "SealInput \<Rightarrow> string \<Rightarrow> DeliveryError option" where
  "migration_artifact_error input artifactId = invalid_release_if
     (get_key (artifactById input) artifactId = None \<or> artifactId \<notin> set (rel_artifactIds (si_release input)))"

definition migration_key_error :: "SealInput \<Rightarrow> string \<Rightarrow> DeliveryError option" where
  "migration_key_error input key = invalid_release_if (case find (\<lambda>e. ev_key e = key) (si_evidence input) of
     None \<Rightarrow> True
   | Some e \<Rightarrow> ev_id e \<notin> set (rel_evidenceIds (si_release input)) \<or> ev_outcome e \<noteq> Passed
       \<or> ev_projectRevisionId e \<noteq> rel_projectRevisionId (si_release input)
       \<or> (ev_targetId e \<noteq> None \<and> ev_targetId e \<noteq> Some (tgt_id (si_target input))))"

text \<open>The checks on the Release, its Artifacts and its Evidence, in the order of the code.\<close>

definition content_error :: "SealInput \<Rightarrow> DeliveryError option" where
  "content_error input = (let release = si_release input in
     or_else (release_error input)
     (or_else (check_loop (artifact_error input) (rel_artifactIds release))
     (or_else (invalid_release_if (length (artifactById input) \<noteq> length (rel_artifactIds release)))
     (or_else (check_loop (evidence_error input) (rel_evidenceIds release))
     (or_else (check_loop (required_key_error input) (tgt_requiredEvidenceKeys (si_target input)))
       (invalid_release_if (length (evidenceById input) \<noteq> length (rel_evidenceIds release))))))))"

definition seal_inputSet :: "Digests \<Rightarrow> SealInput \<Rightarrow> ReleaseInputErrorCode + ReleaseInputSet" where
  "seal_inputSet dg input = (let configuration = rel_configurationDigests (si_release input) in
     case rel_inputSet (si_release input) of
       None \<Rightarrow> deriveReleaseInputSet (dg_digest dg) configuration (si_artifacts input) (si_evidence input)
     | Some inputSet \<Rightarrow> sum_then (checked (assertReleaseInputSetMatches (dg_digest dg) inputSet configuration (si_artifacts input) (si_evidence input)))
         (\<lambda>_. Inr inputSet))"

definition seal_plan :: "Digests \<Rightarrow> SealInput \<Rightarrow> MigrationPlanErrorCode + MigrationPlan" where
  "seal_plan dg input = sum_then
     (case rel_migrationPlan (si_release input) of None \<Rightarrow> defaultMigrationPlan (dg_digest dg) | Some plan \<Rightarrow> Inr plan)
     (\<lambda>plan. createMigrationPlan (dg_digest dg) (plan_input plan))"

definition seal_contractDigest :: "(string \<Rightarrow> bool) \<Rightarrow> Digests \<Rightarrow> SealInput \<Rightarrow> TargetDeploymentProfileErrorCode + string" where
  "seal_contractDigest credentialLike dg input = (case si_contractDigest input of
     Some d \<Rightarrow> Inr d
   | None \<Rightarrow> targetDeploymentContractDigest credentialLike dg (si_target input))"

definition sealVerifiedRelease :: "(string \<Rightarrow> bool) \<Rightarrow> Digests \<Rightarrow> string \<Rightarrow> SealInput \<Rightarrow> DeliveryError + ImmutableRelease" where
  "sealVerifiedRelease credentialLike dg uuid input =
     sum_then (checked (content_error input)) (\<lambda>_.
     sum_then (lift_error ReleaseInputError (seal_inputSet dg input)) (\<lambda>inputSet.
     sum_then (lift_error MigrationPlanError (seal_plan dg input)) (\<lambda>plan.
     sum_then (checked (check_loop (migration_artifact_error input) (mp_migrationArtifactIds plan))) (\<lambda>_.
     sum_then (checked (check_loop (migration_key_error input) (mp_requiredEvidenceKeys plan))) (\<lambda>_.
     sum_then (lift_error TargetDeploymentProfileError (targetDeploymentProfile credentialLike (dg_profile dg) (si_target input))) (\<lambda>profile.
     sum_then (lift_error MigrationPlanError (checked (assertMigrationPlanSafeForTarget (dg_digest dg) plan
         (tdp_environment profile) (tdp_dataClass profile)))) (\<lambda>_.
     sum_then (lift_error TargetDeploymentProfileError (seal_contractDigest credentialLike dg input)) (\<lambda>contractDigest.
       (let release = (si_release input)\<lparr>rel_inputSet := Some inputSet, rel_migrationPlan := Some plan\<rparr>
        in Inr \<lparr>ir_id = opaqueId ''verified-release'' uuid, ir_projectId = si_projectId input, ir_release = release,
             ir_artifacts = si_artifacts input, ir_evidence = si_evidence input,
             ir_releaseDigest = dg_release dg (si_projectId input) (tgt_id (si_target input)) contractDigest release
               (si_artifacts input) (si_evidence input)\<rparr>)))))))))"

section \<open>Properties of Migration Plans\<close>

lemma keep_truthy_trim [simp]: "schema_error d = None \<Longrightarrow> keep_truthy (map_option js_trim (keep_truthy d)) = map_option js_trim (keep_truthy d)"
  by (cases d) (auto simp: schema_error_def keep_truthy_def blank_def fail_if_def split: if_splits)

lemma schema_error_trim [simp]: "schema_error d = None \<Longrightarrow> schema_error (map_option js_trim (keep_truthy d)) = None"
  by (cases d) (auto simp: schema_error_def keep_truthy_def fail_if_def blank_def split: if_splits)

lemma unique_error_trim [simp]: "unique_error vs = None \<Longrightarrow> unique_error (map js_trim vs) = None"
  by (auto simp: unique_error_def loop_simps comp_def)

lemma trim_trim_option [simp]: "map_option js_trim (map_option js_trim d) = map_option js_trim d"
  by (cases d) auto

lemma keep_truthy_None: "keep_truthy d = None \<longleftrightarrow> d = None \<or> d = Some []"
  by (cases d) (auto simp: keep_truthy_def)

text \<open>What is in a created plan, and what was checked.\<close>

lemma createMigrationPlan_InrD:
  assumes "createMigrationPlan digest input = Inr p"
  shows "unique_error (nullish (mpi_migrationArtifactIds input) []) = None"
    and "unique_error (nullish (mpi_requiredEvidenceKeys input) []) = None"
    and "schema_error (mpi_beforeSchemaDigest input) = None" and "schema_error (mpi_afterSchemaDigest input) = None"
    and "mp_beforeSchemaDigest p = map_option js_trim (keep_truthy (mpi_beforeSchemaDigest input))"
    and "mp_afterSchemaDigest p = map_option js_trim (keep_truthy (mpi_afterSchemaDigest input))"
    and "mp_migrationArtifactIds p = map js_trim (nullish (mpi_migrationArtifactIds input) [])"
    and "mp_requiredEvidenceKeys p = map js_trim (nullish (mpi_requiredEvidenceKeys input) [])"
    and "mp_planDigest p = digest (plan_body (mp_strategy p) (mp_beforeSchemaDigest p) (mp_afterSchemaDigest p)
           (mp_compatibility p) (mp_rollback p) (mp_migrationArtifactIds p) (mp_requiredEvidenceKeys p))"
    and "mp_strategy p = nullish (mpi_strategy input) MigNone"
    and "mp_strategy p = MigNone \<Longrightarrow> mp_migrationArtifactIds p = [] \<and> mp_requiredEvidenceKeys p = []"
    and "mp_strategy p = MigExpandContract \<Longrightarrow> mpi_beforeSchemaDigest input \<noteq> None \<and> mpi_afterSchemaDigest input \<noteq> None
           \<and> mp_compatibility p = Bidirectional"
  using assms by (auto simp: createMigrationPlan_def Let_def loop_simps split: option.splits)

lemma created_plan_eq:
  assumes "createMigrationPlan digest input = Inr p"
  shows "createMigrationPlan digest (plan_input p) =
    (if mp_strategy p = MigExpandContract \<and> (mpi_beforeSchemaDigest input = Some [] \<or> mpi_afterSchemaDigest input = Some [])
     then Inl MigIncomplete else Inr p)"
proof -
  note D = createMigrationPlan_InrD [OF assms]
  have lists: "map js_trim (mp_migrationArtifactIds p) = mp_migrationArtifactIds p"
    "map js_trim (mp_requiredEvidenceKeys p) = mp_requiredEvidenceKeys p" by (simp_all add: D(7,8) comp_def)
  have errors: "unique_error (mp_migrationArtifactIds p) = None" "unique_error (mp_requiredEvidenceKeys p) = None"
    "schema_error (mp_beforeSchemaDigest p) = None" "schema_error (mp_afterSchemaDigest p) = None"
    using D(1-4) by (simp_all add: D(5-8))
  have digests: "map_option js_trim (keep_truthy (mp_beforeSchemaDigest p)) = mp_beforeSchemaDigest p"
    "map_option js_trim (keep_truthy (mp_afterSchemaDigest p)) = mp_afterSchemaDigest p"
    using D(3,4) by (simp_all add: D(5,6))
  have absent: "mp_strategy p = MigExpandContract \<Longrightarrow> mp_beforeSchemaDigest p = None \<longleftrightarrow> mpi_beforeSchemaDigest input = Some []"
    "mp_strategy p = MigExpandContract \<Longrightarrow> mp_afterSchemaDigest p = None \<longleftrightarrow> mpi_afterSchemaDigest input = Some []"
    using D(12) by (auto simp: D(5,6) keep_truthy_None)
  show ?thesis
    using D(9,11,12) absent
    by (auto simp: createMigrationPlan_def plan_input_def Let_def lists errors digests fail_if_def split: option.splits if_splits)
qed

text \<open>
  Normalising a created plan again gives the same plan with the same digest: what was sealed is what
  the Target checks later. The one exception is an expand-contract plan created with an empty string as
  a schema digest: it passes the check for missing digests, is created without the digest, and every
  later normalisation refuses it as incomplete.
\<close>

theorem migration_plan_renormalizes:
  assumes "createMigrationPlan digest input = Inr p"
  shows "createMigrationPlan digest (plan_input p) =
    (if mp_strategy p = MigExpandContract \<and> (mpi_beforeSchemaDigest input = Some [] \<or> mpi_afterSchemaDigest input = Some [])
     then Inl MigIncomplete else Inr p)"
  using assms by (rule created_plan_eq)

section \<open>Resource isolation\<close>

text \<open>Identities of different kinds never collide, since each carries the kind as a prefix.\<close>

definition disjoint_resources :: "TargetDeploymentProfile \<Rightarrow> TargetDeploymentProfile \<Rightarrow> bool" where
  "disjoint_resources a b \<longleftrightarrow> tdp_runtimeIdentity a \<noteq> tdp_runtimeIdentity b
     \<and> set (tdp_routeIdentities a) \<inter> set (tdp_routeIdentities b) = {}
     \<and> set (tdp_bindingIdentities a) \<inter> set (tdp_bindingIdentities b) = {}
     \<and> set (tdp_dataResourceIdentities a) \<inter> set (tdp_dataResourceIdentities b) = {}
     \<and> set (tdp_secretUseAliases a) \<inter> set (tdp_secretUseAliases b) = {}"

lemma no_overlap_iff:
  "filter (\<lambda>i. i \<in> set (resourceIdentities a)) (resourceIdentities b) = [] \<longleftrightarrow> disjoint_resources a b"
  by (auto simp: filter_empty_conv resourceIdentities_def disjoint_resources_def)

text \<open>
  A candidate Target is accepted exactly when every other Target has a readable profile that shares
  no runtime, route, binding, data resource or secret alias with the candidate's, or both profiles carry
  the same owner-approved sharing policy.
\<close>

theorem resource_isolation_iff:
  "assertTargetResourceIsolation credentialLike profileDigest existing candidate = None \<longleftrightarrow>
    (\<exists>c. targetDeploymentProfile credentialLike profileDigest candidate = Inr c
      \<and> list_all (\<lambda>other. tgt_id other = tgt_id candidate
          \<or> (\<exists>p. targetDeploymentProfile credentialLike profileDigest other = Inr p
               \<and> (disjoint_resources c p \<or> matchingOwnerApproval c p))) existing)"
  by (auto simp: assertTargetResourceIsolation_def loop_simps no_overlap_iff list_all_iff split: sum.splits)
    (metis sum.exhaust)

section \<open>What a sealed Release guarantees\<close>

lemma ids_exactly_declared:
  assumes "distinct declared" "distinct (map key xs)" "length (from_entries (map (\<lambda>x. (key x, x)) xs)) = length declared"
    and "\<forall>i\<in>set declared. \<exists>x. get_key (from_entries (map (\<lambda>x. (key x, x)) xs)) i = Some x"
  shows "set declared = key ` set xs"
proof -
  let ?m = "from_entries (map (\<lambda>x. (key x, x)) xs)"
  have get: "get_key ?m i = map_of (map (\<lambda>x. (key x, x)) xs) i" for i
    using assms(2) by (intro get_from_entries_distinct) (simp add: comp_def)
  have keys: "set (map_keys ?m) = key ` set xs"
    using get_key_None_iff [of ?m] by (auto simp: get map_of_eq_None_iff image_image)
  have "card (set (map_keys ?m)) = length ?m"
    by (metis distinct_card distinct_keys_def distinct_keys_from_entries length_map map_keys_def)
  then have "card (key ` set xs) = card (set declared)"
    using assms(1,3) by (simp add: keys distinct_card)
  moreover have "set declared \<subseteq> key ` set xs"
    using assms(4) by (fastforce simp: get dest: map_of_SomeD)
  ultimately show ?thesis by (intro card_subset_eq) auto
qed

text \<open>The stages a successful seal went through.\<close>

lemma sealVerifiedRelease_InrD:
  assumes "sealVerifiedRelease credentialLike dg uuid input = Inr r"
  obtains inputSet plan profile where "content_error input = None" "seal_inputSet dg input = Inr inputSet" "seal_plan dg input = Inr plan"
    "check_loop (migration_artifact_error input) (mp_migrationArtifactIds plan) = None"
    "check_loop (migration_key_error input) (mp_requiredEvidenceKeys plan) = None"
    "targetDeploymentProfile credentialLike (dg_profile dg) (si_target input) = Inr profile"
    "assertMigrationPlanSafeForTarget (dg_digest dg) plan (tdp_environment profile) (tdp_dataClass profile) = None"
    "ir_release r = (si_release input)\<lparr>rel_inputSet := Some inputSet, rel_migrationPlan := Some plan\<rparr>"
    "ir_artifacts r = si_artifacts input" "ir_evidence r = si_evidence input"
  using assms by (auto simp: sealVerifiedRelease_def loop_simps Let_def)

text \<open>A check that looks an id up accepts exactly when the record with that id is good.\<close>

lemma declared_records_good:
  assumes "distinct (map key xs)"
    and "\<forall>i\<in>set declared. case get_key (from_entries (map (\<lambda>x. (key x, x)) xs)) i of None \<Rightarrow> False | Some x \<Rightarrow> good x"
    and "set declared = key ` set xs"
  shows "\<forall>x\<in>set xs. good x"
proof
  fix x assume x: "x \<in> set xs"
  have d: "distinct (map fst (map (\<lambda>x. (key x, x)) xs))" using assms(1) by (simp add: comp_def)
  then have "get_key (from_entries (map (\<lambda>x. (key x, x)) xs)) (key x) = Some x"
    using x by (auto simp: get_from_entries_distinct intro!: map_of_is_SomeI)
  then show "good x" using assms(2,3) x by force
qed

lemma content_error_None:
  assumes "content_error input = None"
  shows "rel_status (si_release input) = ReleaseReady" "rel_artifactIds (si_release input) \<noteq> []"
    "distinct (rel_artifactIds (si_release input))" "distinct (map art_id (si_artifacts input))"
    "distinct (rel_evidenceIds (si_release input))" "distinct (map ev_id (si_evidence input))"
    "length (artifactById input) = length (rel_artifactIds (si_release input))"
    "length (evidenceById input) = length (rel_evidenceIds (si_release input))"
    "\<forall>i\<in>set (rel_artifactIds (si_release input)). artifact_error input i = None"
    "\<forall>i\<in>set (rel_evidenceIds (si_release input)). evidence_error input i = None"
    "\<forall>k\<in>set (tgt_requiredEvidenceKeys (si_target input)). required_key_error input k = None"
  using assms by (simp_all add: content_error_def release_error_def Let_def loop_simps del: check_loop.simps)

lemma content_artifacts:
  assumes "content_error input = None"
  shows "set (rel_artifactIds (si_release input)) = art_id ` set (si_artifacts input)"
    and "\<forall>a\<in>set (si_artifacts input). art_projectRevisionId a = rel_projectRevisionId (si_release input)
      \<and> \<not> blank (art_digest a) \<and> art_type a \<in> set (tgt_acceptedArtifactTypes (si_target input))"
proof -
  note checks = content_error_None(3,4,7) [OF assms] and loop = content_error_None(9) [OF assms]
  have good: "\<forall>i\<in>set (rel_artifactIds (si_release input)). case get_key (artifactById input) i of None \<Rightarrow> False
      | Some a \<Rightarrow> art_projectRevisionId a = rel_projectRevisionId (si_release input)
          \<and> \<not> blank (art_digest a) \<and> art_type a \<in> set (tgt_acceptedArtifactTypes (si_target input))"
    using loop by (auto simp: artifact_error_def loop_simps split: option.splits)
  then show ids: "set (rel_artifactIds (si_release input)) = art_id ` set (si_artifacts input)"
    using checks unfolding artifactById_def by (intro ids_exactly_declared) (auto split: option.splits)
  show "\<forall>a\<in>set (si_artifacts input). art_projectRevisionId a = rel_projectRevisionId (si_release input)
      \<and> \<not> blank (art_digest a) \<and> art_type a \<in> set (tgt_acceptedArtifactTypes (si_target input))"
    using checks(2) good [unfolded artifactById_def] ids by (rule declared_records_good)
qed

lemma content_evidence:
  assumes "content_error input = None"
  shows "set (rel_evidenceIds (si_release input)) = ev_id ` set (si_evidence input)"
    and "\<forall>e\<in>set (si_evidence input). ev_projectRevisionId e = rel_projectRevisionId (si_release input) \<and> ev_outcome e = Passed"
proof -
  note checks = content_error_None(5,6,8) [OF assms] and loop = content_error_None(10) [OF assms]
  have good: "\<forall>i\<in>set (rel_evidenceIds (si_release input)). case get_key (evidenceById input) i of None \<Rightarrow> False
      | Some e \<Rightarrow> ev_projectRevisionId e = rel_projectRevisionId (si_release input) \<and> ev_outcome e = Passed"
    using loop by (auto simp: evidence_error_def loop_simps split: option.splits)
  then show ids: "set (rel_evidenceIds (si_release input)) = ev_id ` set (si_evidence input)"
    using checks unfolding evidenceById_def by (intro ids_exactly_declared) (auto split: option.splits)
  show "\<forall>e\<in>set (si_evidence input). ev_projectRevisionId e = rel_projectRevisionId (si_release input) \<and> ev_outcome e = Passed"
    using checks(2) good [unfolded evidenceById_def] ids by (rule declared_records_good)
qed

lemma content_required_keys:
  assumes "content_error input = None" "k \<in> set (tgt_requiredEvidenceKeys (si_target input))"
  shows "\<exists>e\<in>set (si_evidence input). ev_key e = k \<and> ev_targetId e = Some (tgt_id (si_target input))"
proof -
  from content_error_None(11) [OF assms(1)] assms(2)
  obtain e where "find (\<lambda>e. ev_key e = k) (si_evidence input) = Some e" "ev_targetId e = Some (tgt_id (si_target input))"
    by (auto simp: loop_simps required_key_error_def split: option.splits)
  then show ?thesis by (auto dest: find_SomeD)
qed

lemma safe_plan:
  assumes "assertMigrationPlanSafeForTarget digest plan environment dataClass = None" "createMigrationPlan digest input = Inr plan"
  shows "createMigrationPlan digest (plan_input plan) = Inr plan
    \<and> (productionSensitive environment dataClass \<longrightarrow>
         mp_compatibility plan \<notin> {CompatibilityUnknown, Incompatible} \<and> mp_rollback plan \<noteq> RollbackBlocked)"
  using assms created_plan_eq [OF assms(2)]
  by (auto simp: assertMigrationPlanSafeForTarget_def loop_simps split: sum.splits if_splits)

text \<open>
  C34. What a sealed Release guarantees to the Target it was sealed for. The Release is ready; its Artifacts
  are exactly the declared ones, at least one, all built from the revision of the Release, with a digest
  and of a type the Target accepts; its Evidence is exactly the declared one, all passed and of that
  revision, and covers every key the Target requires with a record bound to the Target. Its Migration
  Plan is normalised, names only Artifacts of the Release, and for a production-sensitive Target is of
  known compatibility with a rollback that is not blocked.
\<close>

theorem sealed_release_sound:
  assumes "sealVerifiedRelease credentialLike dg uuid input = Inr r"
  shows "rel_status (ir_release r) = ReleaseReady
    \<and> ir_artifacts r \<noteq> [] \<and> distinct (map art_id (ir_artifacts r))
    \<and> set (rel_artifactIds (ir_release r)) = art_id ` set (ir_artifacts r)
    \<and> (\<forall>a\<in>set (ir_artifacts r). art_projectRevisionId a = rel_projectRevisionId (ir_release r)
         \<and> \<not> blank (art_digest a) \<and> art_type a \<in> set (tgt_acceptedArtifactTypes (si_target input)))
    \<and> distinct (map ev_id (ir_evidence r))
    \<and> set (rel_evidenceIds (ir_release r)) = ev_id ` set (ir_evidence r)
    \<and> (\<forall>e\<in>set (ir_evidence r). ev_projectRevisionId e = rel_projectRevisionId (ir_release r) \<and> ev_outcome e = Passed)
    \<and> (\<forall>k\<in>set (tgt_requiredEvidenceKeys (si_target input)).
         \<exists>e\<in>set (ir_evidence r). ev_key e = k \<and> ev_targetId e = Some (tgt_id (si_target input)))
    \<and> (\<exists>plan profile. rel_migrationPlan (ir_release r) = Some plan
         \<and> createMigrationPlan (dg_digest dg) (plan_input plan) = Inr plan
         \<and> set (mp_migrationArtifactIds plan) \<subseteq> set (rel_artifactIds (ir_release r))
         \<and> targetDeploymentProfile credentialLike (dg_profile dg) (si_target input) = Inr profile
         \<and> (productionSensitive (tdp_environment profile) (tdp_dataClass profile) \<longrightarrow>
              mp_compatibility plan \<notin> {CompatibilityUnknown, Incompatible} \<and> mp_rollback plan \<noteq> RollbackBlocked))"
  using assms
proof (cases rule: sealVerifiedRelease_InrD)
  case (1 inputSet plan profile)
  note basic = content_error_None(1,4,6,2) [OF 1(1)]
  note artifacts = content_artifacts [OF 1(1)] and evidence = content_evidence [OF 1(1)]
  obtain planInput where "createMigrationPlan (dg_digest dg) planInput = Inr plan"
    using 1(3) by (auto simp: seal_plan_def loop_simps)
  note plan = safe_plan [OF 1(7) this]
  have "set (mp_migrationArtifactIds plan) \<subseteq> set (rel_artifactIds (si_release input))"
    using 1(4) by (auto simp: loop_simps migration_artifact_error_def)
  moreover have "si_artifacts input \<noteq> []" using basic(4) artifacts(1) by auto
  ultimately show ?thesis
    using basic artifacts evidence content_required_keys [OF 1(1)] plan 1(6) by (simp add: 1(8-10))
qed

section \<open>Witnesses\<close>

definition demo_plan_input :: MigrationPlanInput where
  "demo_plan_input = \<lparr>mpi_strategy = Some MigExpandContract, mpi_beforeSchemaDigest = Some '' s1 '', mpi_afterSchemaDigest = Some ''s2'',
     mpi_compatibility = Some Bidirectional, mpi_rollback = Some RollbackApplicationOnly, mpi_migrationArtifactIds = Some [''bundle''],
     mpi_requiredEvidenceKeys = Some ['' tests ''], mpi_planDigest = None\<rparr>"

definition demo_plan :: MigrationPlan where
  "demo_plan = \<lparr>mp_strategy = MigExpandContract, mp_beforeSchemaDigest = Some ''s1'', mp_afterSchemaDigest = Some ''s2'',
     mp_compatibility = Bidirectional, mp_rollback = RollbackApplicationOnly, mp_migrationArtifactIds = [''bundle''],
     mp_requiredEvidenceKeys = [''tests''], mp_planDigest = ''digest''\<rparr>"

lemma demo_plan_created: "createMigrationPlan (\<lambda>_. ''digest'') demo_plan_input = Inr demo_plan"
  by code_simp

theorem migration_plan_renormalizes_witness:
  "createMigrationPlan (\<lambda>_. ''digest'') (plan_input demo_plan) = Inr demo_plan"
  using migration_plan_renormalizes [OF demo_plan_created] by (simp add: demo_plan_input_def)

definition demo_profile :: TargetDeploymentProfile where
  "demo_profile = \<lparr>tdp_environment = EnvProduction, tdp_channel = ChannelStable, tdp_audience = ''all'', tdp_runtimeIdentity = ''rt'',
     tdp_routeIdentities = [], tdp_bindingIdentities = [], tdp_dataResourceIdentities = [], tdp_configurationDigests = [''c''],
     tdp_secretUseAliases = [], tdp_dataClass = DataProduction, tdp_resourceSharing = SharingIsolated, tdp_sharingPolicyDigest = None,
     tdp_previewStrategy = VersionUrl, tdp_profileDigest = ''p''\<rparr>"

definition demo_target :: Target where
  "demo_target = \<lparr>tgt_id = ''target'', tgt_projectId = ''p'', tgt_name = ''production'', tgt_adapterId = ''worker'',
     tgt_acceptedArtifactTypes = [''worker''], tgt_requiredEvidenceKeys = [''tests''], tgt_state = TargetConfigured,
     tgt_lastPromotionId = None, tgt_deploymentProfile = Some demo_profile\<rparr>"

definition demo_artifact :: Artifact where
  "demo_artifact = \<lparr>art_id = ''bundle'', art_type = ''worker'', art_digest = ''sha'', art_projectRevisionId = ''r0'',
     art_changeRevisionId = None, art_runId = None, art_actionId = None, art_outputPath = None, art_provenanceDigest = None,
     art_disclosure = None\<rparr>"

definition demo_release :: "string \<Rightarrow> Release" where
  "demo_release releaseId = \<lparr>rel_id = releaseId, rel_projectRevisionId = ''r0'', rel_artifactIds = [''bundle''], rel_evidenceIds = [''e1''],
     rel_configurationDigests = [''c''], rel_stateAssumptions = [], rel_policyVersion = ''v1'', rel_status = ReleaseReady,
     rel_name = None, rel_changeRevisionId = None, rel_provenanceDigest = None, rel_inputSet = None,
     rel_migrationPlan = Some demo_plan, rel_receipt = None\<rparr>"

definition demo_seal :: "string \<Rightarrow> SealInput" where
  "demo_seal releaseId = \<lparr>si_projectId = ''p'', si_release = demo_release releaseId, si_artifacts = [demo_artifact],
     si_evidence = [(demo_evidence ''tests'' Passed)\<lparr>ev_targetId := Some ''target''\<rparr>],
     si_target = demo_target, si_contractDigest = None\<rparr>"

definition demo_digests :: Digests where
  "demo_digests = \<lparr>dg_digest = (\<lambda>_. ''digest''), dg_profile = (\<lambda>_. ''p''), dg_contract = (\<lambda>_ _. ''contract''),
     dg_release = (\<lambda>p t c r _ _. rel_id r @ c)\<rparr>"

definition demo_sealed :: "string \<Rightarrow> ImmutableRelease" where
  "demo_sealed releaseId = projr (sealVerifiedRelease (\<lambda>_. False) demo_digests ''u'' (demo_seal releaseId))"

theorem sealed_release_sound_witness:
  "rel_status (ir_release (demo_sealed ''rel-1'')) = ReleaseReady \<and> ir_artifacts (demo_sealed ''rel-1'') = [demo_artifact]"
proof -
  have sealed: "sealVerifiedRelease (\<lambda>_. False) demo_digests ''u'' (demo_seal ''rel-1'') = Inr (demo_sealed ''rel-1'')"
    by code_simp
  have "ir_artifacts (demo_sealed ''rel-1'') = [demo_artifact]" by code_simp
  with sealed_release_sound [OF sealed] show ?thesis by simp
qed

end
