(* ===== verification/Promotion.thy ===== *)
theory Promotion
  imports Releases Machines
begin

text \<open>
  The class \<open>WorkerPromotionCoordinator\<close> of \<open>src/src/delivery/promotion.ts\<close>, which moves sealed Releases to a
  Target through an adapter of a provider. Its asynchronous method \<open>execute\<close> awaits the adapter up to
  five times, and other methods run while it waits. It is therefore split at its awaits: an execution is a
  value \<open>Awaiting\<close> that holds the call the adapter was given and the local variables the rest of the method
  uses, and the reply of the adapter is an operation of its own that resumes it. Runs of these operations
  are all interleavings of the callers and the provider.

  The mutable Promotion record of the code is the entry of the map \<open>promotions\<close>; the functions thread it and
  store it back. The prose of errors and receipts, recovery actions, time stamps and the random ids of
  events are left out, as are the two fields of a Promotion that this file never writes
  (\<open>executionIdempotencyKey\<close>, \<open>reconciliationCheckpoint\<close>).
\<close>

section \<open>Data\<close>

record WorkerTargetCapabilities =
  cap_preview :: bool
  cap_promote :: bool
  cap_healthCheck :: bool
  cap_rollback :: bool

record WorkerTarget = Target +
  wt_currentReleaseId :: "string option"
  wt_releaseHistory :: "string list"
  wt_capabilities :: WorkerTargetCapabilities
  wt_contractDigest :: string

datatype HealthState = Healthy | Unhealthy | HealthUnknown

record HealthObservation =
  ho_id :: string
  ho_targetId :: string
  ho_releaseId :: string
  ho_state :: HealthState
  ho_checkId :: string
  ho_checkedAt :: string
  ho_outputDigest :: "string option"

datatype FailureOutcome = FailureFailed | FailureIndeterminate

record DeliveryAdapterFailure =
  daf_outcome :: FailureOutcome
  daf_errorCode :: string
  daf_retryable :: bool

datatype 'a DeliveryAdapterResult = AdapterSucceeded 'a | AdapterFailed DeliveryAdapterFailure

record WorkerPreview =
  wp_previewId :: string
  wp_providerVersionId :: string
  wp_releaseDigest :: string
  wp_artifactDigests :: "string list"

record WorkerDeployment =
  wd_deploymentId :: string
  wd_providerVersionId :: string
  wd_releaseDigest :: string
  wd_artifactDigests :: "string list"
  wd_providerOperationId :: "string option"

record WorkerAdapterInput =
  wi_promotionId :: string
  wi_attempt :: nat
  wi_release :: ImmutableRelease
  wi_target :: WorkerTarget

datatype HealthPhase = PhaseCandidate | PhaseRollback

record WorkerHealthInput = WorkerAdapterInput +
  whi_deploymentId :: "string option"
  whi_phase :: HealthPhase

record WorkerRollbackInput = WorkerAdapterInput +
  wri_previousRelease :: ImmutableRelease
  wri_deploymentId :: "string option"

datatype PromotionState =
    Proposed | Validating | Approved | Applying | PromHealthy | PromFailed | PromBlocked | PromDegraded | RolledBack

datatype PromotionKind = KindPromotion | KindRollback

datatype HealthFailure = HealthAdapterFailure | HealthForeign | HealthNot HealthState

record PromotionRecord =
  pr_id :: string
  pr_projectId :: string
  pr_targetId :: string
  pr_releaseId :: string
  pr_releaseDigest :: string
  pr_previousReleaseId :: "string option"
  pr_expectedCurrentReleaseId :: "string option"
  pr_state :: PromotionState
  pr_attempt :: nat
  pr_kind :: PromotionKind
  pr_idempotencyKey :: string
  pr_actor :: ActorRef
  pr_previewId :: "string option"
  pr_deploymentId :: "string option"
  pr_providerOperationId :: "string option"
  pr_health :: "HealthObservation option"
  pr_rollbackHealth :: "HealthObservation option"
  pr_healthFailure :: "HealthFailure option"
  pr_rollbackDeploymentId :: "string option"
  pr_rollbackProviderOperationId :: "string option"
  pr_rollbackOfPromotionId :: "string option"

record PromotionEvent =
  pe_promotionId :: string
  pe_sequence :: nat
  pe_from :: "PromotionState option"
  pe_to :: PromotionState
  pe_attempt :: nat
  pe_idempotencyKey :: string
  pe_actor :: ActorRef
  pe_providerOperationId :: "string option"

text \<open>\<open>expectedCurrentReleaseId\<close> may be left out, or be a Release, or be null.\<close>

record PromotionRequest =
  prq_releaseId :: string
  prq_idempotencyKey :: string
  prq_actor :: ActorRef
  prq_expectedCurrentReleaseId :: "string option option"
  prq_kind :: "PromotionKind option"
  prq_rollbackOfPromotionId :: "string option"

record PromotionRetryRequest =
  prr_promotionId :: string
  prr_idempotencyKey :: string
  prr_actor :: ActorRef

text \<open>
  Where an execution waits, with the input of the adapter call and the provider operation id of the
  deployment it goes on with.
\<close>

datatype Awaiting =
    AwaitPreview WorkerAdapterInput
  | AwaitApply WorkerAdapterInput
  | AwaitRollback WorkerRollbackInput
  | AwaitHealth WorkerHealthInput "string option"
  | AwaitRecoveryRollback WorkerRollbackInput
  | AwaitRecoveryHealth WorkerHealthInput "string option"

text \<open>A promise in \<open>executions\<close>: settled ones stay until their clean-up runs.\<close>

datatype Execution = Running Awaiting | Settled "DeliveryError + PromotionRecord"

record PromotionCoordinator =
  wc_projectId :: string
  wc_target :: WorkerTarget
  wc_releases :: "(string, ImmutableRelease) jsmap"
  wc_promotions :: "(string, PromotionRecord) jsmap"
  wc_idempotency :: "(string, string) jsmap"
  wc_executions :: "(string, Execution) jsmap"
  wc_events :: "PromotionEvent list"

type_synonym 'a prom_outcome = "(PromotionCoordinator, DeliveryError, 'a) outcome"

section \<open>Targets\<close>

text \<open>The contract digest is taken from the input or computed by the parameter \<open>digestOf\<close>.\<close>

definition createWorkerTarget :: "(Target \<Rightarrow> TargetDeploymentProfileErrorCode + string) \<Rightarrow> Target \<Rightarrow> WorkerTargetCapabilities
    \<Rightarrow> string option \<Rightarrow> string list \<Rightarrow> string option \<Rightarrow> DeliveryError + WorkerTarget" where
  "createWorkerTarget digestOf target capabilities currentReleaseId releaseHistory contractDigest =
     sum_then (checked (or_else (check_loop invalid_release_if [blank (tgt_projectId target), blank (tgt_adapterId target), has_duplicates releaseHistory])
         (fail_if (truthy currentReleaseId \<and> the currentReleaseId \<notin> set releaseHistory) (PromotionError PromTargetMismatch)))) (\<lambda>_.
     sum_then (case contractDigest of Some d \<Rightarrow> Inr d | None \<Rightarrow> lift_error TargetDeploymentProfileError (digestOf target)) (\<lambda>d.
       Inr (Target.extend target \<lparr>wt_currentReleaseId = currentReleaseId, wt_releaseHistory = releaseHistory,
         wt_capabilities = capabilities, wt_contractDigest = d\<rparr>)))"

section \<open>Transitions of a Promotion\<close>

fun allowedTransitions :: "PromotionState \<Rightarrow> PromotionState list" where
  "allowedTransitions Proposed = [Validating]"
| "allowedTransitions Validating = [Approved, PromFailed, PromBlocked]"
| "allowedTransitions Approved = [Applying, PromFailed, PromBlocked]"
| "allowedTransitions Applying = [PromHealthy, PromFailed, PromBlocked, PromDegraded, RolledBack]"
| "allowedTransitions PromHealthy = []"
| "allowedTransitions PromFailed = [Proposed]"
| "allowedTransitions PromBlocked = [Proposed]"
| "allowedTransitions PromDegraded = [Proposed, RolledBack]"
| "allowedTransitions RolledBack = [Proposed]"

definition set_promotion :: "PromotionRecord \<Rightarrow> PromotionCoordinator \<Rightarrow> PromotionCoordinator" where
  "set_promotion p s = s\<lparr>wc_promotions := set_key (pr_id p) p (wc_promotions s)\<rparr>"

definition set_target_state :: "TargetState \<Rightarrow> PromotionCoordinator \<Rightarrow> PromotionCoordinator" where
  "set_target_state st s = s\<lparr>wc_target := (wc_target s)\<lparr>tgt_state := st\<rparr>\<rparr>"

definition emit :: "PromotionRecord \<Rightarrow> PromotionState option \<Rightarrow> PromotionState \<Rightarrow> string option \<Rightarrow> PromotionCoordinator \<Rightarrow> PromotionCoordinator" where
  "emit p origin dest providerOperationId s = s\<lparr>wc_events := wc_events s @ [\<lparr>
     pe_promotionId = pr_id p, pe_sequence = length (wc_events s) + 1, pe_from = origin, pe_to = dest,
     pe_attempt = pr_attempt p, pe_idempotencyKey = pr_idempotencyKey p, pe_actor = pr_actor p,
     pe_providerOperationId = keep_truthy providerOperationId\<rparr>]\<rparr>"

text \<open>A refused transition throws; what was written to the record before it stays.\<close>

definition transition :: "PromotionRecord \<Rightarrow> PromotionState \<Rightarrow> string option \<Rightarrow> PromotionCoordinator \<Rightarrow> PromotionRecord prom_outcome" where
  "transition p dest providerOperationId s =
    (if dest \<in> set (allowedTransitions (pr_state p))
     then (let p' = p\<lparr>pr_state := dest\<rparr> in return p' (emit p' (Some (pr_state p)) dest providerOperationId (set_promotion p' s)))
     else raise (PromotionError PromInvalidState) (set_promotion p s))"

definition fail_promotion :: "PromotionRecord \<Rightarrow> PromotionState \<Rightarrow> PromotionCoordinator \<Rightarrow> PromotionRecord prom_outcome" where
  "fail_promotion p st s = transition p st None s"

definition degrade :: "PromotionRecord \<Rightarrow> PromotionCoordinator \<Rightarrow> PromotionRecord prom_outcome" where
  "degrade p s = transition p PromDegraded None (set_target_state TargetDegraded s)"

datatype AdapterOperation = OpPreview | OpApply | OpRollback

definition failFromAdapter :: "PromotionRecord \<Rightarrow> DeliveryAdapterFailure \<Rightarrow> AdapterOperation \<Rightarrow> PromotionCoordinator
    \<Rightarrow> PromotionRecord prom_outcome" where
  "failFromAdapter p failure operation s =
    (if daf_outcome failure = FailureIndeterminate
     then (if operation = OpApply then degrade p s else fail_promotion p PromFailed s)
     else fail_promotion p (if daf_retryable failure then PromFailed else PromBlocked) s)"

definition completeHealthy :: "PromotionRecord \<Rightarrow> ImmutableRelease \<Rightarrow> string option \<Rightarrow> PromotionCoordinator \<Rightarrow> PromotionRecord prom_outcome" where
  "completeHealthy p release providerOperationId s =
    (let releaseId = rel_id (ir_release release); target = wc_target s;
         history = (if wt_releaseHistory target \<noteq> [] \<and> last (wt_releaseHistory target) = releaseId
                    then wt_releaseHistory target else wt_releaseHistory target @ [releaseId])
     in transition p PromHealthy providerOperationId
          (s\<lparr>wc_target := target\<lparr>tgt_state := TargetHealthy, wt_currentReleaseId := Some releaseId, wt_releaseHistory := history\<rparr>\<rparr>))"

definition providerResultMatches :: "string \<Rightarrow> string list \<Rightarrow> ImmutableRelease \<Rightarrow> bool" where
  "providerResultMatches resultDigest artifactDigests release \<longleftrightarrow>
     resultDigest = ir_releaseDigest release \<and> artifactDigests = map art_digest (ir_artifacts release)"

text \<open>What comes back from an adapter call; a thrown error counts as an indeterminate, retryable failure.\<close>

datatype 'a reply = Replied "'a DeliveryAdapterResult" | Threw

definition failureFromThrown :: DeliveryAdapterFailure where
  "failureFromThrown = \<lparr>daf_outcome = FailureIndeterminate, daf_errorCode = ''adapter.threw'', daf_retryable = True\<rparr>"

fun invoke :: "'a reply \<Rightarrow> 'a DeliveryAdapterResult" where
  "invoke (Replied r) = r"
| "invoke Threw = AdapterFailed failureFromThrown"

section \<open>The execution of a Promotion, split at its awaits\<close>

text \<open>An execution either returns the Promotion or waits for the adapter.\<close>

datatype Progress = Finished PromotionRecord | Awaits Awaiting

definition finish :: "PromotionRecord prom_outcome \<Rightarrow> Progress prom_outcome" where
  "finish r = and_then r (\<lambda>p. return (Finished p))"

definition adapter_input :: "PromotionRecord \<Rightarrow> ImmutableRelease \<Rightarrow> PromotionCoordinator \<Rightarrow> WorkerAdapterInput" where
  "adapter_input p release s = \<lparr>wi_promotionId = pr_id p, wi_attempt = pr_attempt p, wi_release = release, wi_target = wc_target s\<rparr>"

definition health_input :: "PromotionRecord \<Rightarrow> ImmutableRelease \<Rightarrow> string option \<Rightarrow> HealthPhase \<Rightarrow> PromotionCoordinator \<Rightarrow> WorkerHealthInput" where
  "health_input p release deploymentId phase s =
     WorkerAdapterInput.extend (adapter_input p release s) \<lparr>whi_deploymentId = deploymentId, whi_phase = phase\<rparr>"

definition rollback_input :: "PromotionRecord \<Rightarrow> ImmutableRelease \<Rightarrow> ImmutableRelease \<Rightarrow> string option \<Rightarrow> PromotionCoordinator \<Rightarrow> WorkerRollbackInput" where
  "rollback_input p release previous deploymentId s =
     WorkerAdapterInput.extend (adapter_input p release s) \<lparr>wri_previousRelease = previous, wri_deploymentId = deploymentId\<rparr>"

definition execute :: "string \<Rightarrow> PromotionCoordinator \<Rightarrow> Progress prom_outcome" where
  "execute promotionId s = (case get_key (wc_promotions s) promotionId of
     None \<Rightarrow> raise (PromotionError PromReleaseNotFound) s
   | Some p \<Rightarrow>
       if pr_state p \<noteq> Proposed then return (Finished p) s
       else (case get_key (wc_releases s) (pr_releaseId p) of
           None \<Rightarrow> finish (fail_promotion p PromFailed s)
         | Some release \<Rightarrow>
             if isl (assertTargetCanPromote (wc_target s)) then finish (fail_promotion p PromBlocked s)
             else if \<not> cap_preview (wt_capabilities (wc_target s)) then finish (fail_promotion p PromBlocked s)
             else and_then (transition p Validating None s) (\<lambda>p s. return (Awaits (AwaitPreview (adapter_input p release s))) s)))"

definition after_preview :: "WorkerAdapterInput \<Rightarrow> WorkerPreview DeliveryAdapterResult \<Rightarrow> PromotionRecord \<Rightarrow> PromotionCoordinator
    \<Rightarrow> Progress prom_outcome" where
  "after_preview call preview p s = (let release = wi_release call in case preview of
     AdapterFailed failure \<Rightarrow> finish (failFromAdapter p failure OpPreview s)
   | AdapterSucceeded v \<Rightarrow>
       if \<not> providerResultMatches (wp_releaseDigest v) (wp_artifactDigests v) release then finish (fail_promotion p PromBlocked s)
       else and_then (transition (p\<lparr>pr_previewId := Some (wp_previewId v)\<rparr>) Approved None s) (\<lambda>p s.
         if \<not> cap_promote (wt_capabilities (wc_target s)) then finish (fail_promotion p PromBlocked s)
         else if pr_kind p = KindRollback \<and> \<not> cap_rollback (wt_capabilities (wc_target s)) then finish (fail_promotion p PromBlocked s)
         else and_then (transition p Applying None s) (\<lambda>p s.
           return (Awaits (if pr_kind p = KindRollback then AwaitRollback (rollback_input p release release None s)
                           else AwaitApply (adapter_input p release s))) s)))"

definition after_deployment :: "ImmutableRelease \<Rightarrow> AdapterOperation \<Rightarrow> WorkerDeployment DeliveryAdapterResult \<Rightarrow> PromotionRecord
    \<Rightarrow> PromotionCoordinator \<Rightarrow> Progress prom_outcome" where
  "after_deployment release operation deployment p s = (case deployment of
     AdapterFailed failure \<Rightarrow> finish (failFromAdapter p failure operation s)
   | AdapterSucceeded v \<Rightarrow>
       if \<not> providerResultMatches (wd_releaseDigest v) (wd_artifactDigests v) release then finish (degrade p s)
       else (let p' = p\<lparr>pr_deploymentId := Some (wd_deploymentId v),
                        pr_providerOperationId := (if truthy (wd_providerOperationId v) then wd_providerOperationId v else pr_providerOperationId p)\<rparr>
             in if \<not> cap_healthCheck (wt_capabilities (wc_target s)) then finish (degrade p' s)
                else return (Awaits (AwaitHealth (health_input p' release (Some (wd_deploymentId v)) PhaseCandidate s) (wd_providerOperationId v)))
                       (set_promotion p' s)))"

definition release_plan :: "(js_value \<Rightarrow> string) \<Rightarrow> ImmutableRelease \<Rightarrow> MigrationPlanErrorCode + MigrationPlan" where
  "release_plan digest release = (case rel_migrationPlan (ir_release release) of
     None \<Rightarrow> defaultMigrationPlan digest | Some plan \<Rightarrow> Inr plan)"

definition recoverAfterHealthFailure :: "(js_value \<Rightarrow> string) \<Rightarrow> PromotionRecord \<Rightarrow> ImmutableRelease \<Rightarrow> HealthFailure \<Rightarrow> PromotionCoordinator
    \<Rightarrow> Progress prom_outcome" where
  "recoverAfterHealthFailure digest p release message s =
     and_then (transition (p\<lparr>pr_healthFailure := Some message\<rparr>) PromDegraded None (set_target_state TargetDegraded s)) (\<lambda>p s.
       case sum_then (release_plan digest release) (automaticMigrationRollbackDecision digest) of
         Inl e \<Rightarrow> raise (MigrationPlanError e) s
       | Inr allowed \<Rightarrow>
           if \<not> allowed then return (Finished p) s
           else if \<not> truthy (pr_previousReleaseId p) \<or> \<not> cap_rollback (wt_capabilities (wc_target s)) then return (Finished p) s
           else (case get_key (wc_releases s) (the (pr_previousReleaseId p)) of
               None \<Rightarrow> return (Finished p) s
             | Some previous \<Rightarrow>
                 return (Awaits (AwaitRecoveryRollback (rollback_input p release previous (keep_truthy (pr_deploymentId p)) s))) s))"

definition after_health :: "(js_value \<Rightarrow> string) \<Rightarrow> WorkerHealthInput \<Rightarrow> string option \<Rightarrow> HealthObservation DeliveryAdapterResult \<Rightarrow> PromotionRecord
    \<Rightarrow> PromotionCoordinator \<Rightarrow> Progress prom_outcome" where
  "after_health digest call providerOperationId health p s = (let release = wi_release call in case health of
     AdapterFailed failure \<Rightarrow> recoverAfterHealthFailure digest p release HealthAdapterFailure s
   | AdapterSucceeded v \<Rightarrow>
       (let p' = p\<lparr>pr_health := Some v\<rparr>
        in if ho_targetId v \<noteq> tgt_id (wc_target s) \<or> ho_releaseId v \<noteq> rel_id (ir_release release)
           then recoverAfterHealthFailure digest p' release HealthForeign s
           else if ho_state v \<noteq> Healthy then recoverAfterHealthFailure digest p' release (HealthNot (ho_state v)) s
           else finish (completeHealthy p' release providerOperationId s)))"

definition after_recovery_rollback :: "WorkerRollbackInput \<Rightarrow> WorkerDeployment DeliveryAdapterResult \<Rightarrow> PromotionRecord
    \<Rightarrow> PromotionCoordinator \<Rightarrow> Progress prom_outcome" where
  "after_recovery_rollback call rollback p s = (let previous = wri_previousRelease call in case rollback of
     AdapterFailed failure \<Rightarrow> return (Finished p) s
   | AdapterSucceeded v \<Rightarrow>
       if \<not> providerResultMatches (wd_releaseDigest v) (wd_artifactDigests v) previous then return (Finished p) s
       else (let p' = p\<lparr>pr_rollbackDeploymentId := Some (wd_deploymentId v),
                        pr_rollbackProviderOperationId := (if truthy (wd_providerOperationId v) then wd_providerOperationId v
                                                           else pr_rollbackProviderOperationId p)\<rparr>
             in return (Awaits (AwaitRecoveryHealth (health_input p' previous (Some (wd_deploymentId v)) PhaseRollback s) (wd_providerOperationId v)))
                  (set_promotion p' s)))"

definition after_recovery_health :: "WorkerHealthInput \<Rightarrow> string option \<Rightarrow> HealthObservation DeliveryAdapterResult \<Rightarrow> PromotionRecord
    \<Rightarrow> PromotionCoordinator \<Rightarrow> Progress prom_outcome" where
  "after_recovery_health call providerOperationId health p s = (let previous = wi_release call in case health of
     AdapterFailed failure \<Rightarrow> return (Finished p) s
   | AdapterSucceeded v \<Rightarrow>
       (let p' = p\<lparr>pr_rollbackHealth := Some v\<rparr>
        in if ho_targetId v \<noteq> tgt_id (wc_target s) \<or> ho_releaseId v \<noteq> rel_id (ir_release previous) \<or> ho_state v \<noteq> Healthy
           then return (Finished p') (set_promotion p' s)
           else finish (transition p' RolledBack providerOperationId (set_target_state TargetHealthy s))))"

section \<open>The promises of executions\<close>

text \<open>The promise of an execution waits or is settled with what the execution returned or threw.\<close>

fun execution_of :: "DeliveryError + Progress \<Rightarrow> Execution" where
  "execution_of (Inl e) = Settled (Inl e)"
| "execution_of (Inr (Finished p)) = Settled (Inr p)"
| "execution_of (Inr (Awaits a)) = Running a"

definition set_execution :: "string \<Rightarrow> Progress prom_outcome \<Rightarrow> PromotionCoordinator" where
  "set_execution promotionId r = (snd r)\<lparr>wc_executions := set_key promotionId (execution_of (fst r)) (wc_executions (snd r))\<rparr>"

definition executeOnce :: "string \<Rightarrow> PromotionCoordinator \<Rightarrow> PromotionCoordinator" where
  "executeOnce promotionId s = (if has_key (wc_executions s) promotionId then s else set_execution promotionId (execute promotionId s))"

text \<open>The clean-up of a settled promise.\<close>

definition execution_cleanup :: "string \<Rightarrow> PromotionCoordinator \<Rightarrow> PromotionCoordinator" where
  "execution_cleanup promotionId s = (case get_key (wc_executions s) promotionId of
     Some (Settled _) \<Rightarrow> s\<lparr>wc_executions := delete_key promotionId (wc_executions s)\<rparr>
   | _ \<Rightarrow> s)"

text \<open>The adapter answers a call: the execution that waits for such an answer goes on.\<close>

fun resume_preview :: "Awaiting \<Rightarrow> WorkerPreview DeliveryAdapterResult \<Rightarrow> PromotionRecord \<Rightarrow> PromotionCoordinator \<Rightarrow> Progress prom_outcome option" where
  "resume_preview (AwaitPreview call) r p s = Some (after_preview call r p s)"
| "resume_preview _ r p s = None"

fun resume_deployment :: "Awaiting \<Rightarrow> WorkerDeployment DeliveryAdapterResult \<Rightarrow> PromotionRecord \<Rightarrow> PromotionCoordinator \<Rightarrow> Progress prom_outcome option" where
  "resume_deployment (AwaitApply call) r p s = Some (after_deployment (wi_release call) OpApply r p s)"
| "resume_deployment (AwaitRollback call) r p s = Some (after_deployment (wi_release call) OpRollback r p s)"
| "resume_deployment (AwaitRecoveryRollback call) r p s = Some (after_recovery_rollback call r p s)"
| "resume_deployment _ r p s = None"

fun resume_health :: "(js_value \<Rightarrow> string) \<Rightarrow> Awaiting \<Rightarrow> HealthObservation DeliveryAdapterResult \<Rightarrow> PromotionRecord \<Rightarrow> PromotionCoordinator
    \<Rightarrow> Progress prom_outcome option" where
  "resume_health digest (AwaitHealth call op) r p s = Some (after_health digest call op r p s)"
| "resume_health digest (AwaitRecoveryHealth call op) r p s = Some (after_recovery_health call op r p s)"
| "resume_health digest _ r p s = None"

definition resume :: "(Awaiting \<Rightarrow> PromotionRecord \<Rightarrow> PromotionCoordinator \<Rightarrow> Progress prom_outcome option) \<Rightarrow> string \<Rightarrow> PromotionCoordinator
    \<Rightarrow> PromotionCoordinator" where
  "resume continue promotionId s = (case (get_key (wc_executions s) promotionId, get_key (wc_promotions s) promotionId) of
     (Some (Running a), Some p) \<Rightarrow> (case continue a p s of Some r \<Rightarrow> set_execution promotionId r | None \<Rightarrow> s)
   | _ \<Rightarrow> s)"

section \<open>The methods callers use\<close>

definition registerRelease :: "ImmutableRelease \<Rightarrow> PromotionCoordinator \<Rightarrow> unit prom_outcome" where
  "registerRelease release s =
    (if ir_projectId release \<noteq> wc_projectId s then raise (PromotionError PromTargetMismatch) s
     else (case get_key (wc_releases s) (rel_id (ir_release release)) of
         Some current \<Rightarrow> if ir_releaseDigest current \<noteq> ir_releaseDigest release then raise (PromotionError PromInvalidRelease) s else return () s
       | None \<Rightarrow> return () (s\<lparr>wc_releases := set_key (rel_id (ir_release release)) release (wc_releases s)\<rparr>)))"

definition register_all :: "ImmutableRelease list \<Rightarrow> PromotionCoordinator \<Rightarrow> DeliveryError + PromotionCoordinator" where
  "register_all releases s = fold_loop (\<lambda>release s. case registerRelease release s of (Inl e, _) \<Rightarrow> Inl e | (Inr _, s') \<Rightarrow> Inr s') releases s"

definition new_promotions :: "string \<Rightarrow> WorkerTarget \<Rightarrow> string \<Rightarrow> ImmutableRelease list \<Rightarrow> DeliveryError + PromotionCoordinator" where
  "new_promotions projectId target adapterId releases =
     sum_then (checked (or_else (invalid_release_if (blank projectId))
       (or_else (fail_if (tgt_projectId target \<noteq> projectId) (PromotionError PromTargetMismatch))
         (fail_if (adapterId \<noteq> tgt_adapterId target) (PromotionError PromAdapterMismatch))))) (\<lambda>_.
       register_all releases \<lparr>wc_projectId = projectId, wc_target = target, wc_releases = [], wc_promotions = [],
         wc_idempotency = [], wc_executions = [], wc_events = []\<rparr>)"

definition new_promotion :: "string \<Rightarrow> PromotionRequest \<Rightarrow> ImmutableRelease \<Rightarrow> string option \<Rightarrow> PromotionCoordinator \<Rightarrow> PromotionRecord" where
  "new_promotion uuid input release expected s = \<lparr>pr_id = opaqueId ''promotion'' uuid, pr_projectId = wc_projectId s,
     pr_targetId = tgt_id (wc_target s), pr_releaseId = prq_releaseId input, pr_releaseDigest = ir_releaseDigest release,
     pr_previousReleaseId = wt_currentReleaseId (wc_target s), pr_expectedCurrentReleaseId = expected, pr_state = Proposed,
     pr_attempt = 0, pr_kind = nullish (prq_kind input) KindPromotion, pr_idempotencyKey = prq_idempotencyKey input,
     pr_actor = prq_actor input, pr_previewId = None, pr_deploymentId = None, pr_providerOperationId = None, pr_health = None,
     pr_rollbackHealth = None, pr_healthFailure = None, pr_rollbackDeploymentId = None, pr_rollbackProviderOperationId = None,
     pr_rollbackOfPromotionId = keep_truthy (prq_rollbackOfPromotionId input)\<rparr>"

definition requestPromotion :: "string \<Rightarrow> PromotionRequest \<Rightarrow> PromotionCoordinator \<Rightarrow> PromotionRecord prom_outcome" where
  "requestPromotion uuid input s = (case get_key (wc_idempotency s) (prq_idempotencyKey input) of
     Some existingId \<Rightarrow> (case get_key (wc_promotions s) existingId of
         None \<Rightarrow> raise (PromotionError PromIdempotencyConflict) s
       | Some existing \<Rightarrow>
           if pr_releaseId existing \<noteq> prq_releaseId input \<or> pr_targetId existing \<noteq> tgt_id (wc_target s)
           then raise (PromotionError PromIdempotencyConflict) s else return existing s)
   | None \<Rightarrow> (case get_key (wc_releases s) (prq_releaseId input) of
         None \<Rightarrow> raise (PromotionError PromReleaseNotFound) s
       | Some release \<Rightarrow>
           (let current = wt_currentReleaseId (wc_target s);
                expected = nullish (prq_expectedCurrentReleaseId input) current
            in if expected \<noteq> current then raise (PromotionError PromExpectedCurrentMismatch) s
               else (let p = new_promotion uuid input release expected s;
                         s1 = set_promotion p s;
                         s2 = s1\<lparr>wc_idempotency := set_key (prq_idempotencyKey input) (pr_id p) (wc_idempotency s1)\<rparr>
                     in return p (emit p None Proposed None s2)))))"

text \<open>A caller gets a Promotion at once or the promise of an execution.\<close>

datatype PromotionPromise = Resolved PromotionRecord | ExecutionOf string

definition promote :: "string \<Rightarrow> PromotionRequest \<Rightarrow> PromotionCoordinator \<Rightarrow> PromotionPromise prom_outcome" where
  "promote uuid input s = and_then (requestPromotion uuid input s) (\<lambda>requested s.
     if has_key (wc_executions s) (pr_id requested) then return (ExecutionOf (pr_id requested)) s
     else if pr_state requested \<noteq> Proposed then return (Resolved requested) s
     else return (ExecutionOf (pr_id requested)) (executeOnce (pr_id requested) s))"

definition retried :: "PromotionRetryRequest \<Rightarrow> PromotionRecord \<Rightarrow> PromotionCoordinator \<Rightarrow> PromotionRecord" where
  "retried input p s = p\<lparr>pr_idempotencyKey := prr_idempotencyKey input,
     pr_expectedCurrentReleaseId := wt_currentReleaseId (wc_target s), pr_previousReleaseId := wt_currentReleaseId (wc_target s),
     pr_attempt := pr_attempt p + 1, pr_previewId := None, pr_deploymentId := None, pr_providerOperationId := None,
     pr_health := None, pr_rollbackHealth := None, pr_healthFailure := None, pr_rollbackDeploymentId := None,
     pr_rollbackProviderOperationId := None\<rparr>"

definition retryPromotion :: "PromotionRetryRequest \<Rightarrow> PromotionCoordinator \<Rightarrow> PromotionPromise prom_outcome" where
  "retryPromotion input s = (case get_key (wc_idempotency s) (prr_idempotencyKey input) of
     Some existingId \<Rightarrow> (case get_key (wc_promotions s) existingId of
         None \<Rightarrow> raise (PromotionError PromIdempotencyConflict) s
       | Some existing \<Rightarrow>
           if pr_id existing \<noteq> prr_promotionId input then raise (PromotionError PromIdempotencyConflict) s
           else if has_key (wc_executions s) (pr_id existing) then return (ExecutionOf (pr_id existing)) s
           else return (Resolved existing) s)
   | None \<Rightarrow> (case get_key (wc_promotions s) (prr_promotionId input) of
         None \<Rightarrow> raise (PromotionError PromReleaseNotFound) s
       | Some p \<Rightarrow>
           if pr_state p \<notin> set [PromFailed, PromBlocked, PromDegraded, RolledBack] then raise (PromotionError PromInvalidState) s
           else and_then (transition (retried input p s) Proposed None
               (s\<lparr>wc_idempotency := set_key (prr_idempotencyKey input) (pr_id p) (wc_idempotency s)\<rparr>)) (\<lambda>p s.
             return (ExecutionOf (pr_id p)) (executeOnce (pr_id p) s))))"

text \<open>\<open>history.lastIndexOf(current)\<close>, when the entry exists.\<close>

fun last_index :: "'a \<Rightarrow> 'a list \<Rightarrow> nat option" where
  "last_index x [] = None"
| "last_index x (y # ys) = (case last_index x ys of Some i \<Rightarrow> Some (Suc i) | None \<Rightarrow> if y = x then Some 0 else None)"

definition previous_release :: "string \<Rightarrow> string list \<Rightarrow> string option" where
  "previous_release current history = (case last_index current history of
     Some (Suc i) \<Rightarrow> keep_truthy (Some (history ! i)) | _ \<Rightarrow> None)"

definition rollbackToPrevious :: "string \<Rightarrow> string \<Rightarrow> ActorRef \<Rightarrow> PromotionCoordinator \<Rightarrow> PromotionPromise prom_outcome" where
  "rollbackToPrevious uuid idempotencyKey actor s = (case keep_truthy (wt_currentReleaseId (wc_target s)) of
     None \<Rightarrow> raise (PromotionError PromRollbackUnavailable) s
   | Some current \<Rightarrow> (case previous_release current (wt_releaseHistory (wc_target s)) of
         None \<Rightarrow> raise (PromotionError PromRollbackUnavailable) s
       | Some previous \<Rightarrow> promote uuid \<lparr>prq_releaseId = previous, prq_idempotencyKey = idempotencyKey, prq_actor = actor,
             prq_expectedCurrentReleaseId = Some (Some current), prq_kind = Some KindRollback,
             prq_rollbackOfPromotionId = map_option pr_id
               (find_last (\<lambda>p. pr_releaseId p = current \<and> pr_state p = PromHealthy) (map_values (wc_promotions s)))\<rparr> s))"

section \<open>Runs\<close>

datatype prom_op =
    RegisterRelease ImmutableRelease
  | RequestPromotion string PromotionRequest
  | Promote string PromotionRequest
  | RetryPromotion PromotionRetryRequest
  | RollbackToPrevious string string ActorRef
  | PreviewReply string "WorkerPreview reply"
  | DeploymentReply string "WorkerDeployment reply"
  | HealthReply string "HealthObservation reply"
  | ExecutionCleanup string

fun prom_step :: "(js_value \<Rightarrow> string) \<Rightarrow> prom_op \<Rightarrow> PromotionCoordinator \<Rightarrow> unit prom_outcome" where
  "prom_step digest (RegisterRelease release) s = registerRelease release s"
| "prom_step digest (RequestPromotion uuid input) s = void (requestPromotion uuid input s)"
| "prom_step digest (Promote uuid input) s = void (promote uuid input s)"
| "prom_step digest (RetryPromotion input) s = void (retryPromotion input s)"
| "prom_step digest (RollbackToPrevious uuid key actor) s = void (rollbackToPrevious uuid key actor s)"
| "prom_step digest (PreviewReply promotionId r) s = return () (resume (\<lambda>a. resume_preview a (invoke r)) promotionId s)"
| "prom_step digest (DeploymentReply promotionId r) s = return () (resume (\<lambda>a. resume_deployment a (invoke r)) promotionId s)"
| "prom_step digest (HealthReply promotionId r) s = return () (resume (\<lambda>a. resume_health digest a (invoke r)) promotionId s)"
| "prom_step digest (ExecutionCleanup promotionId) s = return () (execution_cleanup promotionId s)"

text \<open>A random id is fresh when it is drawn.\<close>

fun prom_ok :: "PromotionCoordinator \<Rightarrow> prom_op \<Rightarrow> bool" where
  "prom_ok s (RequestPromotion uuid _) = (get_key (wc_promotions s) (opaqueId ''promotion'' uuid) = None)"
| "prom_ok s (Promote uuid _) = (get_key (wc_promotions s) (opaqueId ''promotion'' uuid) = None)"
| "prom_ok s (RollbackToPrevious uuid _ _) = (get_key (wc_promotions s) (opaqueId ''promotion'' uuid) = None)"
| "prom_ok s _ = True"

end
