(* ===== verification/Promotion_Invariant.thy ===== *)
theory Promotion_Invariant
  imports Promotion
begin

text \<open>
  The invariant of the Promotion coordinator over all interleavings of callers and provider. It has two
  parts. The ledger: the events of every Promotion form a path of allowed transitions that ends in its
  recorded state, and the pointer of the Target only names Releases with a healthy Promotion. The
  executions: a Promotion in a transient state has an execution that waits for the matching adapter
  call. Every stage of an execution is shown to keep the ledger and to leave the Promotion where the
  next stage expects it; the operations then keep the whole invariant, which interprets the contract of
  an invariant machine.
\<close>

section \<open>The ledger\<close>

text \<open>A list of events that starts in a state, each event from the state the one before led to.\<close>

fun follows :: "PromotionState option \<Rightarrow> PromotionEvent list \<Rightarrow> bool" where
  "follows origin [] = True"
| "follows origin (e # es) = (pe_from e = origin
     \<and> (case origin of None \<Rightarrow> pe_to e = Proposed | Some st \<Rightarrow> pe_to e \<in> set (allowedTransitions st))
     \<and> follows (Some (pe_to e)) es)"

fun final_state :: "PromotionState option \<Rightarrow> PromotionEvent list \<Rightarrow> PromotionState option" where
  "final_state origin [] = origin"
| "final_state origin (e # es) = final_state (Some (pe_to e)) es"

lemma final_state_snoc [simp]: "final_state origin (es @ [e]) = Some (pe_to e)"
  by (induction es arbitrary: origin) auto

lemma follows_snoc [simp]:
  "follows origin (es @ [e]) \<longleftrightarrow> follows origin es \<and> pe_from e = final_state origin es
     \<and> (case final_state origin es of None \<Rightarrow> pe_to e = Proposed | Some st \<Rightarrow> pe_to e \<in> set (allowedTransitions st))"
  by (induction es arbitrary: origin) auto

definition events_of :: "string \<Rightarrow> PromotionCoordinator \<Rightarrow> PromotionEvent list" where
  "events_of promotionId s = filter (\<lambda>e. pe_promotionId e = promotionId) (wc_events s)"

text \<open>A healthy observation of the very Release on the very Target.\<close>

definition healthy_evidence :: "PromotionRecord \<Rightarrow> bool" where
  "healthy_evidence p \<longleftrightarrow> (\<exists>h. pr_health p = Some h \<and> ho_state h = Healthy
     \<and> ho_targetId h = pr_targetId p \<and> ho_releaseId h = pr_releaseId p)"

definition promotion_ok :: "PromotionCoordinator \<Rightarrow> string \<Rightarrow> PromotionRecord \<Rightarrow> bool" where
  "promotion_ok s promotionId p \<longleftrightarrow> pr_id p = promotionId \<and> pr_targetId p = tgt_id (wc_target s)
     \<and> has_key (wc_releases s) (pr_releaseId p) \<and> (pr_state p = PromHealthy \<longrightarrow> healthy_evidence p)"

definition ledger :: "PromotionCoordinator \<Rightarrow> bool" where
  "ledger s \<longleftrightarrow> (\<forall>i p. get_key (wc_promotions s) i = Some p \<longrightarrow> promotion_ok s i p)
   \<and> (\<forall>i r. get_key (wc_releases s) i = Some r \<longrightarrow> rel_id (ir_release r) = i)
   \<and> map pe_sequence (wc_events s) = [1..<Suc (length (wc_events s))]
   \<and> (\<forall>i. follows None (events_of i s) \<and> final_state None (events_of i s) = map_option pr_state (get_key (wc_promotions s) i))"

lemma ledger_promotion_ok: "ledger s \<Longrightarrow> get_key (wc_promotions s) i = Some p \<Longrightarrow> promotion_ok s i p"
  by (simp add: ledger_def)

lemma healthy_evidence_state [simp]: "healthy_evidence (p\<lparr>pr_state := st\<rparr>) = healthy_evidence p"
  by (simp add: healthy_evidence_def)

text \<open>A Release was promoted when some Promotion of it is healthy.\<close>

definition promoted :: "string \<Rightarrow> PromotionCoordinator \<Rightarrow> bool" where
  "promoted releaseId s \<longleftrightarrow> (\<exists>i p. get_key (wc_promotions s) i = Some p \<and> pr_state p = PromHealthy \<and> pr_releaseId p = releaseId)"

text \<open>The pointer and the history of the Target, compared with the Target the coordinator started with.\<close>

definition pointer :: "WorkerTarget \<Rightarrow> PromotionCoordinator \<Rightarrow> bool" where
  "pointer t0 s \<longleftrightarrow> tgt_id (wc_target s) = tgt_id t0
   \<and> (\<exists>new. wt_releaseHistory (wc_target s) = wt_releaseHistory t0 @ new
       \<and> (\<forall>r\<in>set new. promoted r s)
       \<and> (new = [] \<and> wt_currentReleaseId (wc_target s) = wt_currentReleaseId t0
          \<or> (\<exists>r. wt_currentReleaseId (wc_target s) = Some r \<and> promoted r s
               \<and> wt_releaseHistory (wc_target s) \<noteq> [] \<and> last (wt_releaseHistory (wc_target s)) = r)))"

section \<open>One transition\<close>

text \<open>The state after an allowed transition.\<close>

definition moved :: "PromotionRecord \<Rightarrow> PromotionState \<Rightarrow> string option \<Rightarrow> PromotionCoordinator \<Rightarrow> PromotionCoordinator" where
  "moved p dest op s = emit (p\<lparr>pr_state := dest\<rparr>) (Some (pr_state p)) dest op (set_promotion (p\<lparr>pr_state := dest\<rparr>) s)"

lemma transition_allowed:
  "dest \<in> set (allowedTransitions (pr_state p)) \<Longrightarrow> transition p dest op s = (Inr (p\<lparr>pr_state := dest\<rparr>), moved p dest op s)"
  by (simp add: transition_def moved_def return_def Let_def)

lemma transition_refused:
  "dest \<notin> set (allowedTransitions (pr_state p)) \<Longrightarrow> transition p dest op s = (Inl (PromotionError PromInvalidState), set_promotion p s)"
  by (simp add: transition_def raise_def)

lemma moved_simps [simp]:
  "wc_projectId (moved p dest op s) = wc_projectId s" "wc_target (moved p dest op s) = wc_target s"
  "wc_releases (moved p dest op s) = wc_releases s" "wc_executions (moved p dest op s) = wc_executions s"
  "wc_idempotency (moved p dest op s) = wc_idempotency s"
  "get_key (wc_promotions (moved p dest op s)) i = (if i = pr_id p then Some (p\<lparr>pr_state := dest\<rparr>) else get_key (wc_promotions s) i)"
  by (simp_all add: moved_def emit_def set_promotion_def)

lemma set_promotion_simps [simp]:
  "wc_projectId (set_promotion p s) = wc_projectId s" "wc_target (set_promotion p s) = wc_target s"
  "wc_releases (set_promotion p s) = wc_releases s" "wc_executions (set_promotion p s) = wc_executions s"
  "wc_idempotency (set_promotion p s) = wc_idempotency s" "wc_events (set_promotion p s) = wc_events s"
  "get_key (wc_promotions (set_promotion p s)) i = (if i = pr_id p then Some p else get_key (wc_promotions s) i)"
  by (simp_all add: set_promotion_def)

lemma set_target_state_simps [simp]:
  "wc_projectId (set_target_state st s) = wc_projectId s"
  "wc_releases (set_target_state st s) = wc_releases s" "wc_executions (set_target_state st s) = wc_executions s"
  "wc_idempotency (set_target_state st s) = wc_idempotency s" "wc_events (set_target_state st s) = wc_events s"
  "wc_promotions (set_target_state st s) = wc_promotions s"
  "tgt_id (wc_target (set_target_state st s)) = tgt_id (wc_target s)"
  "wt_capabilities (wc_target (set_target_state st s)) = wt_capabilities (wc_target s)"
  "wt_releaseHistory (wc_target (set_target_state st s)) = wt_releaseHistory (wc_target s)"
  "wt_currentReleaseId (wc_target (set_target_state st s)) = wt_currentReleaseId (wc_target s)"
  by (simp_all add: set_target_state_def)

text \<open>A record that differs from the stored one only in what an execution may write.\<close>

definition stored :: "PromotionRecord \<Rightarrow> PromotionCoordinator \<Rightarrow> bool" where
  "stored p s \<longleftrightarrow> (\<exists>q. get_key (wc_promotions s) (pr_id p) = Some q \<and> pr_state q = pr_state p
     \<and> pr_targetId q = pr_targetId p \<and> pr_releaseId q = pr_releaseId p) \<and> pr_state p \<noteq> PromHealthy"

lemma stored_promotion_ok:
  assumes "ledger s" "stored p s"
  shows "pr_targetId p = tgt_id (wc_target s)" "has_key (wc_releases s) (pr_releaseId p)"
  using assms unfolding ledger_def stored_def promotion_ok_def by metis+

lemma events_of_moved:
  "events_of i (moved p dest op s) = events_of i s @ (if i = pr_id p then [last (wc_events (moved p dest op s))] else [])"
  by (simp add: events_of_def moved_def emit_def set_promotion_def)

lemma last_event_moved:
  "pe_from (last (wc_events (moved p dest op s))) = Some (pr_state p)" "pe_to (last (wc_events (moved p dest op s))) = dest"
  by (simp_all add: moved_def emit_def)

lemma ledger_moved:
  assumes "ledger s" "stored p s" "dest \<in> set (allowedTransitions (pr_state p))" "dest = PromHealthy \<Longrightarrow> healthy_evidence p"
  shows "ledger (moved p dest op s)"
  unfolding ledger_def
proof (intro conjI allI impI)
  fix i q assume "get_key (wc_promotions (moved p dest op s)) i = Some q"
  then show "promotion_ok (moved p dest op s) i q"
    using assms(4) stored_promotion_ok [OF assms(1,2)] ledger_promotion_ok [OF assms(1), of i q]
    by (auto simp: promotion_ok_def split: if_splits)
next
  show "map pe_sequence (wc_events (moved p dest op s)) = [1..<Suc (length (wc_events (moved p dest op s)))]"
    using assms(1) by (simp add: ledger_def moved_def emit_def set_promotion_def)
next
  fix i
  have "follows None (events_of i s)" "final_state None (events_of i s) = map_option pr_state (get_key (wc_promotions s) i)"
    using assms(1) by (auto simp: ledger_def)
  then show "follows None (events_of i (moved p dest op s))"
    and "final_state None (events_of i (moved p dest op s)) = map_option pr_state (get_key (wc_promotions (moved p dest op s)) i)"
    using assms(2,3) by (auto simp: events_of_moved last_event_moved stored_def)
qed (use assms(1) in \<open>auto simp: ledger_def\<close>)

lemma ledger_set_promotion: "ledger s \<Longrightarrow> stored p s \<Longrightarrow> ledger (set_promotion p s)"
  using stored_promotion_ok [of s p] by (auto simp: ledger_def promotion_ok_def events_of_def stored_def)

lemma ledger_set_target_state: "ledger s \<Longrightarrow> ledger (set_target_state st s)"
  by (auto simp: ledger_def promotion_ok_def events_of_def)

lemma stored_simps [simp]:
  "stored p (set_target_state st s) = stored p s"
  "stored (p\<lparr>pr_previewId := a\<rparr>) s = stored p s" "stored (p\<lparr>pr_healthFailure := b\<rparr>) s = stored p s" "stored (p\<lparr>pr_health := c\<rparr>) s = stored p s"
  "stored (p\<lparr>pr_rollbackHealth := c\<rparr>) s = stored p s"
  "stored (p\<lparr>pr_deploymentId := a\<rparr>) s = stored p s" "stored (p\<lparr>pr_providerOperationId := a\<rparr>) s = stored p s"
  "stored (p\<lparr>pr_rollbackDeploymentId := a\<rparr>) s = stored p s" "stored (p\<lparr>pr_rollbackProviderOperationId := a\<rparr>) s = stored p s"
  by (simp_all add: stored_def)

lemma stored_moved [simp]: "dest \<noteq> PromHealthy \<Longrightarrow> stored (p\<lparr>pr_state := dest\<rparr>) (moved p dest op s)"
  by (simp add: stored_def)

lemma pointer_keep:
  assumes "pointer t0 s" "\<And>r. promoted r s \<Longrightarrow> promoted r s'" "tgt_id (wc_target s') = tgt_id (wc_target s)"
    "wt_releaseHistory (wc_target s') = wt_releaseHistory (wc_target s)" "wt_currentReleaseId (wc_target s') = wt_currentReleaseId (wc_target s)"
  shows "pointer t0 s'"
  using assms unfolding pointer_def by metis

lemma promoted_moved: "stored p s \<Longrightarrow> promoted r s \<Longrightarrow> promoted r (moved p dest op s)"
  unfolding promoted_def stored_def by (auto; metis option.inject)

lemma promoted_set_promotion: "stored p s \<Longrightarrow> promoted r s \<Longrightarrow> promoted r (set_promotion p s)"
  unfolding promoted_def stored_def by (auto; metis option.inject)

lemma pointer_moved: "pointer t0 s \<Longrightarrow> stored p s \<Longrightarrow> pointer t0 (moved p dest op s)"
  by (erule pointer_keep) (auto intro: promoted_moved)

lemma pointer_set_promotion: "pointer t0 s \<Longrightarrow> stored p s \<Longrightarrow> pointer t0 (set_promotion p s)"
  by (erule pointer_keep) (auto intro: promoted_set_promotion)

lemma pointer_set_target_state: "pointer t0 s \<Longrightarrow> pointer t0 (set_target_state st s)"
  by (erule pointer_keep) (auto simp: promoted_def)

section \<open>The stages of an execution\<close>

text \<open>
  Where a Promotion is while its execution waits. Only during the recovery after a failed health check
  may it be back in the state \<open>Proposed\<close>: a retry is accepted while the rollback is under way.
\<close>

fun await_states :: "Awaiting \<Rightarrow> PromotionState set" where
  "await_states (AwaitPreview _) = {Validating}"
| "await_states (AwaitApply _) = {Applying}"
| "await_states (AwaitRollback _) = {Applying}"
| "await_states (AwaitHealth _ _) = {Applying}"
| "await_states (AwaitRecoveryRollback _) = {PromDegraded, Proposed}"
| "await_states (AwaitRecoveryHealth _ _) = {PromDegraded, Proposed}"

text \<open>The Release the adapter works on is the registered one of the Promotion.\<close>

fun await_release :: "Awaiting \<Rightarrow> string \<Rightarrow> (string, ImmutableRelease) jsmap \<Rightarrow> bool" where
  "await_release (AwaitPreview call) r m = (get_key m r = Some (wi_release call))"
| "await_release (AwaitApply call) r m = (get_key m r = Some (wi_release call))"
| "await_release (AwaitRollback call) r m = (get_key m r = Some (wi_release call))"
| "await_release (AwaitHealth call _) r m = (get_key m r = Some (wi_release call))"
| "await_release _ r m = True"

definition await_ok :: "string \<Rightarrow> Awaiting \<Rightarrow> PromotionCoordinator \<Rightarrow> bool" where
  "await_ok i a s \<longleftrightarrow> (\<exists>p. get_key (wc_promotions s) i = Some p \<and> pr_state p \<in> await_states a
     \<and> await_release a (pr_releaseId p) (wc_releases s))"

definition resting :: "PromotionState \<Rightarrow> bool" where
  "resting st \<longleftrightarrow> st \<notin> {Validating, Approved, Applying}"

definition at_rest :: "string \<Rightarrow> PromotionCoordinator \<Rightarrow> bool" where
  "at_rest i s \<longleftrightarrow> (\<forall>p. get_key (wc_promotions s) i = Some p \<longrightarrow> resting (pr_state p))"

fun rests :: "DeliveryError + Progress \<Rightarrow> string \<Rightarrow> PromotionCoordinator \<Rightarrow> bool" where
  "rests (Inr (Awaits a)) i s = await_ok i a s"
| "rests _ i s = at_rest i s"

definition stage_ok :: "WorkerTarget \<Rightarrow> string \<Rightarrow> PromotionCoordinator \<Rightarrow> Progress prom_outcome \<Rightarrow> bool" where
  "stage_ok t0 i s r \<longleftrightarrow> ledger (snd r) \<and> pointer t0 (snd r) \<and> rests (fst r) i (snd r)
     \<and> wc_executions (snd r) = wc_executions s \<and> wc_releases (snd r) = wc_releases s
     \<and> (\<forall>j. j \<noteq> i \<longrightarrow> get_key (wc_promotions (snd r)) j = get_key (wc_promotions s) j)"

lemma finish_simps [simp]: "finish (Inl e, s) = (Inl e, s)" "finish (Inr p, s) = (Inr (Finished p), s)"
  by (simp_all add: finish_def return_def)

lemma stored_self: "ledger s \<Longrightarrow> get_key (wc_promotions s) i = Some p \<Longrightarrow> pr_state p \<noteq> PromHealthy \<Longrightarrow> stored p s \<and> pr_id p = i"
  using ledger_promotion_ok [of s i p] by (auto simp: stored_def promotion_ok_def)

lemmas stage_simps = stage_ok_def transition_allowed transition_refused fail_promotion_def degrade_def return_def raise_def
  at_rest_def resting_def await_ok_def

lemmas ledger_intros = ledger_moved ledger_set_promotion ledger_set_target_state pointer_moved pointer_set_promotion
  pointer_set_target_state stored_moved

text \<open>What the stages of an execution start from.\<close>

definition stage_start :: "WorkerTarget \<Rightarrow> string \<Rightarrow> PromotionRecord \<Rightarrow> PromotionCoordinator \<Rightarrow> bool" where
  "stage_start t0 i p s \<longleftrightarrow> ledger s \<and> pointer t0 s \<and> stored p s \<and> pr_id p = i"

lemma execute_stage:
  assumes "ledger s" "pointer t0 s" "get_key (wc_promotions s) i = Some p" "resting (pr_state p)"
  shows "stage_ok t0 i s (execute i s)"
proof (cases "pr_state p = Proposed")
  case True
  with assms stored_self [OF assms(1,3)] have "stored p s" "pr_id p = i" by auto
  then show ?thesis using True assms
    by (auto simp: execute_def stage_simps adapter_input_def split: option.splits intro!: ledger_intros)
next
  case False
  then show ?thesis using assms by (auto simp: execute_def stage_simps)
qed

lemma failFromAdapter_stage:
  assumes "stage_start t0 i p s" "pr_state p \<in> {Validating, Applying}" "operation = OpApply \<Longrightarrow> pr_state p = Applying"
  shows "stage_ok t0 i s (finish (failFromAdapter p failure operation s))"
  using assms by (auto simp: stage_start_def failFromAdapter_def stage_simps intro!: ledger_intros)

lemma after_preview_stage:
  assumes "stage_start t0 i p s" "pr_state p = Validating" "get_key (wc_releases s) (pr_releaseId p) = Some (wi_release call)"
  shows "stage_ok t0 i s (after_preview call r p s)"
proof (cases r)
  case (AdapterFailed failure)
  with assms show ?thesis by (auto simp: after_preview_def intro: failFromAdapter_stage)
next
  case (AdapterSucceeded v)
  with assms show ?thesis
    by (auto simp: stage_start_def after_preview_def stage_simps adapter_input_def rollback_input_def
        WorkerAdapterInput.extend_def Let_def intro!: ledger_intros)
qed

lemma after_deployment_stage:
  assumes "stage_start t0 i p s" "pr_state p = Applying" "get_key (wc_releases s) (pr_releaseId p) = Some release"
  shows "stage_ok t0 i s (after_deployment release operation r p s)"
proof (cases r)
  case (AdapterFailed failure)
  with assms show ?thesis by (simp add: after_deployment_def failFromAdapter_stage)
next
  case (AdapterSucceeded v)
  with assms show ?thesis
    by (auto simp: stage_start_def after_deployment_def stage_simps adapter_input_def health_input_def
        WorkerAdapterInput.extend_def Let_def intro!: ledger_intros)
qed

lemma recover_stage:
  assumes "stage_start t0 i p s" "pr_state p = Applying"
  shows "stage_ok t0 i s (recoverAfterHealthFailure digest p release message s)"
  using assms
  by (auto simp: stage_start_def recoverAfterHealthFailure_def stage_simps split: sum.splits option.splits intro!: ledger_intros)

text \<open>The pointer moves to a Release in the same step that makes its Promotion healthy.\<close>

lemma completeHealthy_stage:
  assumes "stage_start t0 i p s" "pr_state p = Applying" "get_key (wc_releases s) (pr_releaseId p) = Some release"
    and "healthy_evidence p"
  shows "stage_ok t0 i s (finish (completeHealthy p release op s))"
proof -
  let ?r = "pr_releaseId p" and ?h = "wt_releaseHistory (wc_target s)"
  let ?new = "if ?h \<noteq> [] \<and> last ?h = ?r then [] else [?r]"
  let ?s = "s\<lparr>wc_target := (wc_target s)\<lparr>tgt_state := TargetHealthy, wt_currentReleaseId := Some ?r, wt_releaseHistory := ?h @ ?new\<rparr>\<rparr>"
  have start: "ledger s" "pointer t0 s" "stored p s" "pr_id p = i" using assms(1) by (auto simp: stage_start_def)
  have "rel_id (ir_release release) = ?r" using start(1) assms(3) by (auto simp: ledger_def)
  then have eq: "completeHealthy p release op s = (Inr (p\<lparr>pr_state := PromHealthy\<rparr>), moved p PromHealthy op ?s)"
    using assms(2) by (auto simp: completeHealthy_def transition_allowed Let_def)
  have "ledger ?s" using start(1) by (auto simp: ledger_def promotion_ok_def events_of_def)
  moreover have stored: "stored p ?s" using start(3) by (simp add: stored_def)
  ultimately have ledger: "ledger (moved p PromHealthy op ?s)" using assms(2,4) by (intro ledger_moved) auto
  have now: "promoted ?r (moved p PromHealthy op ?s)"
    by (auto simp: promoted_def intro!: exI [of _ "pr_id p"])
  have kept: "promoted r s \<Longrightarrow> promoted r (moved p PromHealthy op ?s)" for r
    using promoted_moved [OF stored] by (auto simp: promoted_def)
  obtain new where "wt_releaseHistory (wc_target s) = wt_releaseHistory t0 @ new" "\<forall>r\<in>set new. promoted r s"
    "tgt_id (wc_target s) = tgt_id t0" using start(2) by (auto simp: pointer_def)
  then have "pointer t0 (moved p PromHealthy op ?s)"
    unfolding pointer_def using kept now by (auto intro!: exI [of _ "new @ ?new"])
  with ledger start show ?thesis by (simp add: stage_ok_def eq at_rest_def resting_def)
qed

lemma after_health_stage:
  assumes "stage_start t0 i p s" "pr_state p = Applying" "get_key (wc_releases s) (pr_releaseId p) = Some (wi_release call)"
  shows "stage_ok t0 i s (after_health digest call op r p s)"
proof (cases r)
  case (AdapterFailed failure)
  with assms recover_stage [OF assms(1)] show ?thesis by (simp add: after_health_def)
next
  case (AdapterSucceeded v)
  have start: "stage_start t0 i (p\<lparr>pr_health := Some v\<rparr>) s" using assms(1) by (simp add: stage_start_def)
  have ids: "rel_id (ir_release (wi_release call)) = pr_releaseId p" "pr_targetId p = tgt_id (wc_target s)"
    using assms stored_promotion_ok [of s p] by (auto simp: stage_start_def ledger_def)
  show ?thesis using AdapterSucceeded assms(2,3) ids recover_stage [OF start] completeHealthy_stage [OF start]
    by (simp add: after_health_def Let_def healthy_evidence_def)
qed

lemma after_recovery_rollback_stage:
  assumes "stage_start t0 i p s" "pr_state p \<in> {PromDegraded, Proposed}" "get_key (wc_promotions s) i = Some p"
  shows "stage_ok t0 i s (after_recovery_rollback call r p s)"
  using assms by (auto simp: stage_start_def after_recovery_rollback_def stage_simps Let_def split: DeliveryAdapterResult.splits intro!: ledger_intros)

lemma after_recovery_health_stage:
  assumes "stage_start t0 i p s" "pr_state p \<in> {PromDegraded, Proposed}" "get_key (wc_promotions s) i = Some p"
  shows "stage_ok t0 i s (after_recovery_health call op r p s)"
  using assms by (auto simp: stage_start_def after_recovery_health_def stage_simps Let_def split: DeliveryAdapterResult.splits intro!: ledger_intros)

section \<open>The invariant\<close>

definition execution_ok :: "string \<Rightarrow> PromotionCoordinator \<Rightarrow> bool" where
  "execution_ok i s = (case get_key (wc_executions s) i of Some (Running a) \<Rightarrow> await_ok i a s | _ \<Rightarrow> at_rest i s)"

definition executions_ok :: "PromotionCoordinator \<Rightarrow> bool" where
  "executions_ok s \<longleftrightarrow> (\<forall>i. execution_ok i s)"

definition prom_inv :: "WorkerTarget \<Rightarrow> PromotionCoordinator \<Rightarrow> bool" where
  "prom_inv t0 s \<longleftrightarrow> ledger s \<and> pointer t0 s \<and> executions_ok s"

text \<open>Nothing but Promotions, executions and Releases is read by the second part.\<close>

lemma execution_ok_cong:
  "get_key (wc_promotions s) i = get_key (wc_promotions s') i \<Longrightarrow> wc_releases s = wc_releases s'
     \<Longrightarrow> get_key (wc_executions s) i = get_key (wc_executions s') i \<Longrightarrow> execution_ok i s = execution_ok i s'"
  by (auto simp: execution_ok_def await_ok_def at_rest_def split: option.splits Execution.splits)

lemma set_execution_simps [simp]:
  "wc_promotions (set_execution i r) = wc_promotions (snd r)" "wc_releases (set_execution i r) = wc_releases (snd r)"
  "wc_target (set_execution i r) = wc_target (snd r)" "wc_events (set_execution i r) = wc_events (snd r)"
  "wc_idempotency (set_execution i r) = wc_idempotency (snd r)"
  "wc_executions (set_execution i r) = set_key i (execution_of (fst r)) (wc_executions (snd r))"
  by (simp_all add: set_execution_def)

lemma ledger_cong:
  "wc_promotions s = wc_promotions s' \<Longrightarrow> wc_releases s = wc_releases s' \<Longrightarrow> wc_events s = wc_events s'
     \<Longrightarrow> tgt_id (wc_target s) = tgt_id (wc_target s') \<Longrightarrow> ledger s = ledger s'"
  by (simp add: ledger_def promotion_ok_def events_of_def)

lemma pointer_cong: "wc_promotions s = wc_promotions s' \<Longrightarrow> wc_target s = wc_target s' \<Longrightarrow> pointer t0 s = pointer t0 s'"
  by (simp add: pointer_def promoted_def)

lemma execution_ok_settled: "rests (fst r) i (snd r) \<Longrightarrow> execution_ok i (set_execution i r)"
  by (cases "(fst r, i, snd r)" rule: rests.cases) (auto simp: execution_ok_def await_ok_def at_rest_def)

lemma set_execution_inv:
  assumes "stage_ok t0 i s r" "executions_ok s"
  shows "prom_inv t0 (set_execution i r)"
proof -
  have "ledger (set_execution i r)" "pointer t0 (set_execution i r)"
    using assms(1) ledger_cong [of "snd r" "set_execution i r"] pointer_cong [of "snd r" "set_execution i r"]
    by (auto simp: stage_ok_def)
  moreover have "execution_ok j (set_execution i r)" for j
    using assms execution_ok_settled [of r i] execution_ok_cong [of s j "set_execution i r"]
    by (cases "j = i") (auto simp: stage_ok_def executions_ok_def)
  ultimately show ?thesis by (simp add: prom_inv_def executions_ok_def)
qed

lemma executeOnce_inv:
  assumes "prom_inv t0 s" "get_key (wc_promotions s) i = Some p"
  shows "prom_inv t0 (executeOnce i s)"
proof (cases "has_key (wc_executions s) i")
  case False
  moreover have "execution_ok i s" using assms(1) by (simp add: prom_inv_def executions_ok_def)
  ultimately have "resting (pr_state p)" using assms(2) by (simp add: execution_ok_def at_rest_def has_key_def)
  with assms False show ?thesis
    by (auto simp: executeOnce_def prom_inv_def intro!: set_execution_inv [unfolded prom_inv_def] execute_stage)
qed (use assms in \<open>simp add: executeOnce_def\<close>)

lemma resume_inv:
  assumes "prom_inv t0 s"
    and stage: "\<And>a p r. stage_start t0 i p s \<Longrightarrow> get_key (wc_promotions s) i = Some p \<Longrightarrow> pr_state p \<in> await_states a
      \<Longrightarrow> await_release a (pr_releaseId p) (wc_releases s) \<Longrightarrow> continue a p s = Some r \<Longrightarrow> stage_ok t0 i s r"
  shows "prom_inv t0 (resume continue i s)"
proof (cases "get_key (wc_executions s) i")
  case (Some x)
  show ?thesis
  proof (cases x)
    case (Running a)
    then obtain p where p: "get_key (wc_promotions s) i = Some p" "pr_state p \<in> await_states a" "await_release a (pr_releaseId p) (wc_releases s)"
      using assms(1) Some by (auto simp: prom_inv_def executions_ok_def execution_ok_def await_ok_def dest!: spec [of _ i])
    then have "stage_start t0 i p s"
      using assms(1) stored_self [of s i p] by (cases a) (auto simp: stage_start_def prom_inv_def)
    with p stage assms(1) show ?thesis
      by (auto simp: resume_def Some Running prom_inv_def split: option.splits intro!: set_execution_inv [unfolded prom_inv_def])
  qed (use assms Some in \<open>simp add: resume_def\<close>)
qed (use assms in \<open>simp add: resume_def\<close>)

lemma resume_preview_inv: "prom_inv t0 s \<Longrightarrow> prom_inv t0 (resume (\<lambda>a. resume_preview a r) i s)"
  by (rule resume_inv) (auto elim!: resume_preview.elims intro: after_preview_stage)

lemma resume_deployment_inv: "prom_inv t0 s \<Longrightarrow> prom_inv t0 (resume (\<lambda>a. resume_deployment a r) i s)"
  by (rule resume_inv) (auto elim!: resume_deployment.elims intro: after_deployment_stage after_recovery_rollback_stage)

lemma resume_health_inv: "prom_inv t0 s \<Longrightarrow> prom_inv t0 (resume (\<lambda>a. resume_health digest a r) i s)"
  by (rule resume_inv) (auto elim!: resume_health.elims intro: after_health_stage after_recovery_health_stage)

lemma cleanup_inv:
  assumes "prom_inv t0 s"
  shows "prom_inv t0 (execution_cleanup i s)"
proof (cases "\<exists>x. get_key (wc_executions s) i = Some (Settled x)")
  case True
  let ?s = "s\<lparr>wc_executions := delete_key i (wc_executions s)\<rparr>"
  have ok: "execution_ok j s" for j using assms by (simp add: prom_inv_def executions_ok_def)
  have "execution_ok j ?s" for j
    using True ok [of j] execution_ok_cong [of s j ?s] by (cases "j = i") (auto simp: execution_ok_def at_rest_def)
  moreover have "ledger ?s = ledger s" "pointer t0 ?s = pointer t0 s"
    by (rule ledger_cong; simp) (rule pointer_cong; simp)
  ultimately show ?thesis using True assms by (auto simp: execution_cleanup_def prom_inv_def executions_ok_def)
qed (use assms in \<open>auto simp: execution_cleanup_def split: option.splits Execution.splits\<close>)

lemma registerRelease_inv:
  assumes "prom_inv t0 s"
  shows "prom_inv t0 (snd (registerRelease release s))"
proof (cases "ir_projectId release = wc_projectId s \<and> get_key (wc_releases s) (rel_id (ir_release release)) = None")
  case True
  let ?s = "s\<lparr>wc_releases := set_key (rel_id (ir_release release)) release (wc_releases s)\<rparr>"
  have keep: "get_key (wc_releases s) j = Some r \<Longrightarrow> get_key (wc_releases ?s) j = Some r" for j r using True by auto
  have "ledger ?s" using assms by (auto simp: prom_inv_def ledger_def promotion_ok_def events_of_def)
  moreover have "pointer t0 ?s = pointer t0 s" by (rule pointer_cong; simp)
  moreover have "execution_ok j ?s" for j
  proof -
    have "await_release a r (wc_releases s) \<Longrightarrow> await_release a r (wc_releases ?s)" for a r using keep by (cases a) auto
    then have "await_ok j a s \<Longrightarrow> await_ok j a ?s" for a unfolding await_ok_def by (auto simp del: jsm.lookup_store)
    moreover have "execution_ok j s" using assms by (simp add: prom_inv_def executions_ok_def)
    ultimately show ?thesis by (auto simp: execution_ok_def at_rest_def split: option.splits Execution.splits)
  qed
  ultimately show ?thesis using True assms by (simp add: registerRelease_def prom_inv_def executions_ok_def)
qed (use assms in \<open>auto simp: registerRelease_def split: option.splits\<close>)

text \<open>The state after a request was recorded.\<close>

lemma requested_inv:
  fixes s p key
  defines "s' \<equiv> emit p None Proposed None ((set_promotion p s)\<lparr>wc_idempotency := key\<rparr>)"
  assumes "prom_inv t0 s" "get_key (wc_promotions s) (pr_id p) = None" "pr_state p = Proposed"
    and "pr_targetId p = tgt_id (wc_target s)" "has_key (wc_releases s) (pr_releaseId p)"
  shows "prom_inv t0 s' \<and> get_key (wc_promotions s') (pr_id p) = Some p"
proof -
  have get: "get_key (wc_promotions s') i = (if i = pr_id p then Some p else get_key (wc_promotions s) i)" for i
    by (simp add: s'_def emit_def)
  have same: "wc_target s' = wc_target s" "wc_releases s' = wc_releases s" "wc_executions s' = wc_executions s"
    by (simp_all add: s'_def emit_def)
  have events: "events_of i s' = events_of i s @ (if i = pr_id p then [last (wc_events s')] else [])"
    and last: "pe_from (last (wc_events s')) = None" "pe_to (last (wc_events s')) = Proposed" for i
    by (simp_all add: s'_def events_of_def emit_def)
  have old: "ledger s" "pointer t0 s" "execution_ok i s" for i
    using assms(2) by (auto simp: prom_inv_def executions_ok_def)
  have path: "follows None (events_of i s)" "final_state None (events_of i s) = map_option pr_state (get_key (wc_promotions s) i)" for i
    using old(1) by (auto simp: ledger_def)
  have "ledger s'" unfolding ledger_def
  proof (intro conjI allI impI)
    fix i q assume "get_key (wc_promotions s') i = Some q"
    then show "promotion_ok s' i q" using ledger_promotion_ok [OF old(1), of i q] assms(4-6)
      by (auto simp: get same promotion_ok_def split: if_splits)
  next
    show "map pe_sequence (wc_events s') = [1..<Suc (length (wc_events s'))]"
      using old(1) by (simp add: ledger_def s'_def emit_def)
  next
    fix i
    show "follows None (events_of i s')" "final_state None (events_of i s') = map_option pr_state (get_key (wc_promotions s') i)"
      using path [of i] assms(3,4) by (auto simp: events last get)
  qed (use old(1) in \<open>auto simp: same ledger_def\<close>)
  moreover have "promoted r s \<Longrightarrow> promoted r s'" for r
    using assms(3) unfolding promoted_def get by (metis option.distinct(1))
  then have "pointer t0 s'" using old(2) by (rule_tac pointer_keep) (auto simp: same)
  moreover have "execution_ok i s'" for i
  proof (cases "i = pr_id p")
    case True
    with old(3) [of i] assms(3,4) show ?thesis
      by (auto simp: execution_ok_def same await_ok_def at_rest_def get resting_def split: option.splits Execution.splits)
  next
    case False
    with old(3) [of i] execution_ok_cong [of s i s'] show ?thesis by (simp add: get same)
  qed
  ultimately show ?thesis by (simp add: prom_inv_def executions_ok_def get)
qed

lemma new_promotion_simps [simp]:
  "pr_id (new_promotion uuid input release expected s) = opaqueId ''promotion'' uuid"
  "pr_state (new_promotion uuid input release expected s) = Proposed"
  "pr_targetId (new_promotion uuid input release expected s) = tgt_id (wc_target s)"
  "pr_releaseId (new_promotion uuid input release expected s) = prq_releaseId input"
  by (simp_all add: new_promotion_def)

lemma requestPromotion_inv:
  assumes "prom_inv t0 s" "get_key (wc_promotions s) (opaqueId ''promotion'' uuid) = None"
  shows "prom_inv t0 (snd (requestPromotion uuid input s))
    \<and> (\<forall>p. fst (requestPromotion uuid input s) = Inr p \<longrightarrow> get_key (wc_promotions (snd (requestPromotion uuid input s))) (pr_id p) = Some p)"
proof (cases "get_key (wc_idempotency s) (prq_idempotencyKey input)")
  case None
  show ?thesis
  proof (cases "get_key (wc_releases s) (prq_releaseId input)")
    case release: (Some release)
    let ?p = "new_promotion uuid input release (wt_currentReleaseId (wc_target s)) s"
    show ?thesis
      using assms requested_inv [of t0 s ?p] release
      by (simp add: requestPromotion_def None Let_def has_key_def)
  qed (use assms(1) in \<open>simp add: requestPromotion_def None\<close>)
next
  case (Some existingId)
  have "get_key (wc_promotions s) existingId = Some p \<Longrightarrow> get_key (wc_promotions s) (pr_id p) = Some p" for p
    using assms(1) ledger_promotion_ok [of s existingId p] by (auto simp: prom_inv_def promotion_ok_def)
  then show ?thesis using assms(1) by (auto simp: requestPromotion_def Some split: option.splits)
qed

lemma promote_inv:
  assumes "prom_inv t0 s" "get_key (wc_promotions s) (opaqueId ''promotion'' uuid) = None"
  shows "prom_inv t0 (snd (promote uuid input s))"
  using requestPromotion_inv [OF assms, of input]
  by (cases "(requestPromotion uuid input s, undefined :: PromotionRecord \<Rightarrow> PromotionCoordinator \<Rightarrow> unit prom_outcome)" rule: and_then.cases)
    (auto simp: promote_def intro: executeOnce_inv)

lemma rollbackToPrevious_inv:
  assumes "prom_inv t0 s" "get_key (wc_promotions s) (opaqueId ''promotion'' uuid) = None"
  shows "prom_inv t0 (snd (rollbackToPrevious uuid key actor s))"
  using assms by (auto simp: rollbackToPrevious_def split: option.splits intro: promote_inv)

text \<open>A retry puts a settled Promotion, or one whose recovery is under way, back to \<open>Proposed\<close>.\<close>

lemma retryable_await: "await_ok i a s \<Longrightarrow> get_key (wc_promotions s) i = Some p \<Longrightarrow> pr_state p \<in> {PromFailed, PromBlocked, PromDegraded, RolledBack}
    \<Longrightarrow> Proposed \<in> await_states a \<and> await_release a r m"
  by (cases a) (auto simp: await_ok_def)

lemma retried_simps [simp]: "pr_id (retried input p s) = pr_id p" "pr_state (retried input p s) = pr_state p"
  "pr_targetId (retried input p s) = pr_targetId p" "pr_releaseId (retried input p s) = pr_releaseId p"
  by (simp_all add: retried_def)

lemma retry_moved_inv:
  assumes "prom_inv t0 s" "get_key (wc_promotions s) i = Some p" "pr_state p \<in> {PromFailed, PromBlocked, PromDegraded, RolledBack}"
  shows "prom_inv t0 (moved (retried input p s) Proposed None (s\<lparr>wc_idempotency := key\<rparr>))" (is "prom_inv t0 ?s")
proof -
  let ?k = "s\<lparr>wc_idempotency := key\<rparr>"
  have old: "ledger s" "pointer t0 s" "execution_ok j s" for j
    using assms(1) by (auto simp: prom_inv_def executions_ok_def)
  have "stored p s" "pr_id p = i" using stored_self [OF old(1) assms(2)] assms(3) by auto
  then have stored: "stored (retried input p s) ?k" by (simp add: stored_def)
  have "ledger ?k = ledger s" "pointer t0 ?k = pointer t0 s" by (rule ledger_cong; simp) (rule pointer_cong; simp)
  then have "ledger ?s" "pointer t0 ?s"
    using stored old assms(3) by (auto intro!: ledger_moved pointer_moved)
  moreover have "execution_ok j ?s" for j
  proof (cases "j = i")
    case True
    with old(3) [of i] assms(2,3) retryable_await [of i _ s p] \<open>pr_id p = i\<close> show ?thesis
      by (auto simp: execution_ok_def at_rest_def resting_def await_ok_def split: option.splits Execution.splits)
  next
    case False
    with old(3) [of j] execution_ok_cong [of s j ?s] \<open>pr_id p = i\<close> show ?thesis by simp
  qed
  ultimately show ?thesis by (simp add: prom_inv_def executions_ok_def)
qed

lemma retryPromotion_inv:
  assumes "prom_inv t0 s"
  shows "prom_inv t0 (snd (retryPromotion input s))"
proof (cases "get_key (wc_idempotency s) (prr_idempotencyKey input)")
  case None
  show ?thesis
  proof (cases "get_key (wc_promotions s) (prr_promotionId input)")
    case (Some p)
    show ?thesis
    proof (cases "pr_state p \<in> {PromFailed, PromBlocked, PromDegraded, RolledBack}")
      case True
      let ?key = "set_key (prr_idempotencyKey input) (pr_id p) (wc_idempotency s)"
      let ?s = "moved (retried input p s) Proposed None (s\<lparr>wc_idempotency := ?key\<rparr>)"
      have "prom_inv t0 (executeOnce (pr_id p) ?s)"
        using retry_moved_inv [OF assms Some True] by (rule executeOnce_inv) simp
      moreover have "Proposed \<in> set (allowedTransitions (pr_state p))" using True by auto
      ultimately show ?thesis using True by (simp add: retryPromotion_def None Some transition_allowed)
    qed (use assms in \<open>simp add: retryPromotion_def None Some\<close>)
  qed (use assms in \<open>simp add: retryPromotion_def None\<close>)
next
  case (Some existingId)
  then show ?thesis using assms by (auto simp: retryPromotion_def split: option.splits)
qed

lemma prom_step_inv:
  assumes "prom_inv t0 s" "prom_ok s x"
  shows "prom_inv t0 (snd (prom_step digest x s))"
  using assms
  by (cases x) (auto simp: registerRelease_inv requestPromotion_inv promote_inv retryPromotion_inv rollbackToPrevious_inv
      resume_preview_inv resume_deployment_inv resume_health_inv cleanup_inv)

interpretation promotions: invariant_machine "prom_step digest" prom_ok "prom_inv t0"
  by unfold_locales (rule prom_step_inv)

lemma new_promotions_inv:
  assumes "new_promotions projectId target adapterId releases = Inr s"
  shows "prom_inv target s"
proof -
  let ?s = "\<lparr>wc_projectId = projectId, wc_target = target, wc_releases = [], wc_promotions = [],
      wc_idempotency = [], wc_executions = [], wc_events = []\<rparr>"
  have "prom_inv target ?s"
    by (auto simp: prom_inv_def ledger_def pointer_def executions_ok_def execution_ok_def at_rest_def events_of_def)
  moreover have "prom_inv target t \<Longrightarrow> (case registerRelease release t of (Inl e, _) \<Rightarrow> Inl e | (Inr _, t') \<Rightarrow> Inr t') = Inr t' \<Longrightarrow> prom_inv target t'"
    for release t t' using registerRelease_inv [of target t release] by (auto split: prod.splits sum.splits)
  moreover have "register_all releases ?s = Inr s"
    using assms by (auto simp: new_promotions_def loop_simps)
  ultimately show ?thesis
    unfolding register_all_def by (rule_tac fold_loop_invariant [where P = "prom_inv target"]) assumption+
qed

end
