(* ===== verification/Delivery.thy ===== *)
theory Delivery
  imports Promotion_Invariant
begin

text \<open>
  What the Promotion coordinator promises, over all interleavings of its callers and the provider: the
  pointer of the Target, the event ledger, the progress of executions; and three behaviours in which the
  code does not do what its states and messages say.
\<close>

section \<open>The Target pointer and the ledger\<close>

text \<open>
  C29. The pointer of a Target follows verified health only. In every reachable state, with any number of
  Promotions under way and any replies of the adapter, the release history extends the initial one, and
  every added Release, and the current one once it has changed, is a registered Release with a Promotion
  that ended healthy on an observation of that very Release on that very Target in the state healthy.
  The current Release is then the last of the history.
\<close>

theorem target_pointer_follows_health:
  assumes "new_promotions projectId target adapterId releases = Inr s0" and "admissible prom_ok (prom_step digest) ops s0"
    and "s = run_ops (prom_step digest) ops s0"
  shows "\<exists>new. wt_releaseHistory (wc_target s) = wt_releaseHistory target @ new
    \<and> (new = [] \<and> wt_currentReleaseId (wc_target s) = wt_currentReleaseId target
       \<or> wt_releaseHistory (wc_target s) \<noteq> [] \<and> wt_currentReleaseId (wc_target s) = Some (last (wt_releaseHistory (wc_target s))))
    \<and> (\<forall>r\<in>set new \<union> (if wt_currentReleaseId (wc_target s) = wt_currentReleaseId target then {} else set_option (wt_currentReleaseId (wc_target s))).
         has_key (wc_releases s) r
         \<and> (\<exists>i p h. get_key (wc_promotions s) i = Some p \<and> pr_state p = PromHealthy \<and> pr_releaseId p = r \<and> pr_health p = Some h
              \<and> ho_state h = Healthy \<and> ho_targetId h = tgt_id target \<and> ho_releaseId h = r))"
proof -
  have inv: "ledger s" "pointer target s"
    using promotions.run_inv [OF new_promotions_inv [OF assms(1)] assms(2)] assms(3) by (auto simp: prom_inv_def)
  have verified: "has_key (wc_releases s) r
      \<and> (\<exists>i p h. get_key (wc_promotions s) i = Some p \<and> pr_state p = PromHealthy \<and> pr_releaseId p = r \<and> pr_health p = Some h
           \<and> ho_state h = Healthy \<and> ho_targetId h = tgt_id target \<and> ho_releaseId h = r)" if "promoted r s" for r
    using that inv ledger_promotion_ok [OF inv(1)]
    by (fastforce simp: promoted_def pointer_def promotion_ok_def healthy_evidence_def)
  from inv(2) obtain new where new: "wt_releaseHistory (wc_target s) = wt_releaseHistory target @ new" "\<forall>r\<in>set new. promoted r s"
    and current: "new = [] \<and> wt_currentReleaseId (wc_target s) = wt_currentReleaseId target
       \<or> (\<exists>r. wt_currentReleaseId (wc_target s) = Some r \<and> promoted r s
            \<and> wt_releaseHistory (wc_target s) \<noteq> [] \<and> last (wt_releaseHistory (wc_target s)) = r)"
    by (auto simp: pointer_def)
  show ?thesis
  proof (intro exI [of _ new] conjI ballI)
    fix r assume "r \<in> set new \<union> (if wt_currentReleaseId (wc_target s) = wt_currentReleaseId target then {} else set_option (wt_currentReleaseId (wc_target s)))"
    then have "promoted r s" using new(2) current by (auto split: if_splits)
    from verified [OF this] show "has_key (wc_releases s) r"
      and "\<exists>i p h. get_key (wc_promotions s) i = Some p \<and> pr_state p = PromHealthy \<and> pr_releaseId p = r \<and> pr_health p = Some h
        \<and> ho_state h = Healthy \<and> ho_targetId h = tgt_id target \<and> ho_releaseId h = r" by auto
  qed (use new(1) current in auto)
qed

text \<open>
  C30. The event ledger. In every reachable state the events are numbered from one without gaps, the events
  of every Promotion start with its proposal and follow the table of allowed transitions, each from
  the state the one before led to, and the last one leads to the state the Promotion records.
\<close>

theorem promotion_events_form_path:
  assumes "new_promotions projectId target adapterId releases = Inr s0" and "admissible prom_ok (prom_step digest) ops s0"
    and "s = run_ops (prom_step digest) ops s0"
  shows "map pe_sequence (wc_events s) = [1..<Suc (length (wc_events s))]
    \<and> follows None (events_of i s)
    \<and> final_state None (events_of i s) = map_option pr_state (get_key (wc_promotions s) i)"
  using promotions.run_inv [OF new_promotions_inv [OF assms(1)] assms(2)] assms(3)
  by (auto simp: prom_inv_def ledger_def simp del: upt_Suc)

section \<open>Progress\<close>

text \<open>The awaits an execution still has before it.\<close>

fun await_rank :: "Awaiting \<Rightarrow> nat" where
  "await_rank (AwaitPreview _) = 5"
| "await_rank (AwaitApply _) = 4"
| "await_rank (AwaitRollback _) = 4"
| "await_rank (AwaitHealth _ _) = 3"
| "await_rank (AwaitRecoveryRollback _) = 2"
| "await_rank (AwaitRecoveryHealth _ _) = 1"

text \<open>The answer to the call an execution waits for: one reply of each type is at hand.\<close>

fun answer :: "Awaiting \<Rightarrow> WorkerPreview reply \<Rightarrow> WorkerDeployment reply \<Rightarrow> HealthObservation reply \<Rightarrow> string \<Rightarrow> prom_op" where
  "answer (AwaitPreview _) v d h i = PreviewReply i v"
| "answer (AwaitApply _) v d h i = DeploymentReply i d"
| "answer (AwaitRollback _) v d h i = DeploymentReply i d"
| "answer (AwaitRecoveryRollback _) v d h i = DeploymentReply i d"
| "answer (AwaitHealth _ _) v d h i = HealthReply i h"
| "answer (AwaitRecoveryHealth _ _) v d h i = HealthReply i h"

fun rank_of :: "DeliveryError + Progress \<Rightarrow> nat" where
  "rank_of (Inr (Awaits a)) = await_rank a"
| "rank_of _ = 0"

lemma rank_finish [simp]: "rank_of (fst (finish r)) = 0"
  by (cases r; cases "fst r") auto

lemma rank_recover: "rank_of (fst (recoverAfterHealthFailure digest p release message s)) \<le> 2"
  by (auto simp: recoverAfterHealthFailure_def transition_def return_def raise_def Let_def split: sum.splits option.splits)

lemma rank_stages:
  "rank_of (fst (after_preview call v p s)) < 5"
  "rank_of (fst (after_deployment release operation d p s)) < 4"
  "rank_of (fst (after_health digest hcall op h p s)) < 3"
  "rank_of (fst (after_recovery_rollback rcall d p s)) < 2"
  "rank_of (fst (after_recovery_health hcall op h p s)) = 0"
  by (auto simp: after_preview_def after_deployment_def after_health_def after_recovery_rollback_def after_recovery_health_def
      transition_def return_def raise_def Let_def rank_recover split: DeliveryAdapterResult.splits intro: le_less_trans [OF rank_recover])

lemma settles_or_advances:
  "rank_of r < n \<Longrightarrow> case execution_of r of Running a \<Rightarrow> await_rank a < n | Settled x \<Rightarrow> True"
  by (cases r rule: execution_of.cases) auto

lemma never_approved: "Approved \<notin> await_states a"
  by (cases a) auto

text \<open>
  C31. Progress. In every reachable state a Promotion that is validating or applying has an execution that
  waits for the adapter, and no Promotion rests in the state approved. Whatever the adapter answers, or when it
  throws, the answer takes the execution to a settled promise or to a later await: after at most
  five answers it is settled.
\<close>

theorem executions_make_progress:
  assumes "new_promotions projectId target adapterId releases = Inr s0" and "admissible prom_ok (prom_step digest) ops s0"
    and "s = run_ops (prom_step digest) ops s0" and "get_key (wc_promotions s) i = Some p"
  shows "pr_state p \<noteq> Approved
    \<and> (pr_state p \<in> {Validating, Applying} \<longrightarrow> (\<exists>a. get_key (wc_executions s) i = Some (Running a)))
    \<and> (\<forall>a v d h. get_key (wc_executions s) i = Some (Running a) \<longrightarrow>
        (case get_key (wc_executions (snd (prom_step digest (answer a v d h i) s))) i of
           Some (Running a') \<Rightarrow> await_rank a' < await_rank a
         | Some (Settled _) \<Rightarrow> True
         | None \<Rightarrow> False))"
proof -
  have ok: "execution_ok i s"
    using promotions.run_inv [OF new_promotions_inv [OF assms(1)] assms(2)] assms(3) by (auto simp: prom_inv_def executions_ok_def)
  show ?thesis
  proof (intro conjI allI impI)
    show "pr_state p \<noteq> Approved"
      using ok assms(4) never_approved by (auto simp: execution_ok_def at_rest_def resting_def await_ok_def split: option.splits Execution.splits)
    show "\<exists>a. get_key (wc_executions s) i = Some (Running a)" if "pr_state p \<in> {Validating, Applying}"
      using that ok assms(4) by (auto simp: execution_ok_def at_rest_def resting_def split: option.splits Execution.splits)
    show "case get_key (wc_executions (snd (prom_step digest (answer a v d h i) s))) i of
        Some (Running a') \<Rightarrow> await_rank a' < await_rank a | Some (Settled _) \<Rightarrow> True | None \<Rightarrow> False"
      if "get_key (wc_executions s) i = Some (Running a)" for a v d h
      using that assms(4) by (cases a) (simp_all add: resume_def settles_or_advances rank_stages)
  qed
qed

section \<open>Where the code does not do what it says\<close>

text \<open>
  A Target that cannot be promoted to, for want of a deployment profile or of the preview capability,
  is to leave the Promotion blocked. But the table of transitions does not allow that from the state
  proposed: the execution throws an error of invalid state, and the Promotion stays proposed, without an
  event; every later attempt does the same.
\<close>

theorem unpromotable_target_is_not_blocked:
  assumes "get_key (wc_promotions s) i = Some p" and "pr_id p = i" and "pr_state p = Proposed" and "has_key (wc_releases s) (pr_releaseId p)"
    and "isl (assertTargetCanPromote (wc_target s)) \<or> \<not> cap_preview (wt_capabilities (wc_target s))"
  shows "execute i s = (Inl (PromotionError PromInvalidState), s)"
proof -
  have "set_promotion p s = s" using assms(1,2) by (simp add: set_promotion_def set_key_same)
  then show ?thesis using assms
    by (auto simp: execute_def has_key_def fail_promotion_def transition_refused)
qed

text \<open>
  A retry during the recovery of the same Promotion is lost. After a failed health check the Promotion
  is degraded while the adapter rolls back, so a retry is accepted: the Promotion becomes proposed
  with a new attempt, but the running execution is returned instead of a new one. When the rollback
  and its health check succeed, that execution throws an error of invalid state, since a proposed
  Promotion cannot be rolled back, and the Promotion stays proposed although the Target was marked
  healthy.
\<close>

theorem retry_during_recovery_is_lost:
  fixes s s1 s2 s3 :: PromotionCoordinator and digest :: "js_value \<Rightarrow> string"
  assumes "get_key (wc_promotions s) i = Some p" and "pr_id p = i" and "pr_state p = PromDegraded"
    and "get_key (wc_executions s) i = Some (Running (AwaitRecoveryRollback call))"
    and "prr_promotionId input = i" and "get_key (wc_idempotency s) (prr_idempotencyKey input) = None"
    and "providerResultMatches (wd_releaseDigest d) (wd_artifactDigests d) (wri_previousRelease call)"
    and "ho_targetId h = tgt_id (wc_target s)" and "ho_releaseId h = rel_id (ir_release (wri_previousRelease call))" and "ho_state h = Healthy"
  defines "s1 \<equiv> snd (retryPromotion input s)"
    and "s2 \<equiv> snd (prom_step digest (DeploymentReply i (Replied (AdapterSucceeded d))) s1)"
    and "s3 \<equiv> snd (prom_step digest (HealthReply i (Replied (AdapterSucceeded h))) s2)"
  shows "fst (retryPromotion input s) = Inr (ExecutionOf i)
    \<and> get_key (wc_executions s1) i = Some (Running (AwaitRecoveryRollback call))
    \<and> get_key (wc_executions s3) i = Some (Settled (Inl (PromotionError PromInvalidState)))
    \<and> tgt_state (wc_target s3) = TargetHealthy
    \<and> (\<exists>q. get_key (wc_promotions s3) i = Some q \<and> pr_state q = Proposed \<and> pr_attempt q = pr_attempt p + 1)"
proof -
  let ?r = "retried input p s"
  let ?s = "s\<lparr>wc_idempotency := set_key (prr_idempotencyKey input) i (wc_idempotency s)\<rparr>"
  have retry: "retryPromotion input s = (Inr (ExecutionOf i), moved ?r Proposed None ?s)"
    using assms(1-6) by (simp add: retryPromotion_def transition_allowed executeOnce_def has_key_def return_def)
  then have s1: "s1 = moved ?r Proposed None ?s" by (simp add: s1_def)
  let ?q = "?r\<lparr>pr_state := Proposed\<rparr>"
  have "get_key (wc_executions s2) i = Some (Running (AwaitRecoveryHealth
      (health_input (?q\<lparr>pr_rollbackDeploymentId := Some (wd_deploymentId d),
         pr_rollbackProviderOperationId := (if truthy (wd_providerOperationId d) then wd_providerOperationId d else pr_rollbackProviderOperationId ?q)\<rparr>)
         (wri_previousRelease call) (Some (wd_deploymentId d)) PhaseRollback s1) (wd_providerOperationId d)))"
    and p2: "\<exists>q. get_key (wc_promotions s2) i = Some q \<and> pr_id q = i \<and> pr_state q = Proposed \<and> pr_attempt q = pr_attempt p + 1"
    and "wc_target s2 = wc_target s"
    using assms(1-4,7) by (simp_all add: s2_def s1 resume_def after_recovery_rollback_def Let_def return_def retried_def)
  moreover from p2 obtain q where "get_key (wc_promotions s2) i = Some q" "pr_id q = i" "pr_state q = Proposed" "pr_attempt q = pr_attempt p + 1" by blast
  ultimately have "get_key (wc_executions s3) i = Some (Settled (Inl (PromotionError PromInvalidState)))"
    "tgt_state (wc_target s3) = TargetHealthy"
    "get_key (wc_promotions s3) i = Some (q\<lparr>pr_rollbackHealth := Some h\<rparr>)"
    using assms(8-10)
    by (simp_all add: s3_def resume_def after_recovery_health_def Let_def health_input_def adapter_input_def WorkerAdapterInput.extend_def
        transition_refused set_target_state_def)
  with retry s1 assms(4) \<open>pr_state q = Proposed\<close> \<open>pr_attempt q = pr_attempt p + 1\<close> show ?thesis by simp
qed

text \<open>
  The expected current Release is compared when a Promotion is requested and never again. Of two
  Promotions under way, let the first become healthy, so that the pointer names its Release, and the
  second fail its health check and be recovered. The recovery deploys and verifies the Release that was
  current when the second was requested, marks the Target healthy, and leaves the pointer on the
  Release of the first, which is no longer deployed.
\<close>

theorem stale_recovery_contradicts_pointer:
  fixes s s4 :: PromotionCoordinator and digest :: "js_value \<Rightarrow> string"
  assumes "ledger s" and "i \<noteq> j"
    and "get_key (wc_promotions s) i = Some p" and "pr_state p = Applying"
    and "get_key (wc_promotions s) j = Some q" and "pr_state q = Applying"
    and "get_key (wc_executions s) i = Some (Running (AwaitHealth call op))"
    and "get_key (wc_executions s) j = Some (Running (AwaitHealth call' op'))"
    and "get_key (wc_releases s) (pr_releaseId p) = Some (wi_release call)"
    and "cap_rollback (wt_capabilities (wc_target s))"
    and "pr_previousReleaseId q = Some r" and "r \<noteq> []" and "get_key (wc_releases s) r = Some previous"
    and "sum_then (release_plan digest (wi_release call')) (automaticMigrationRollbackDecision digest) = Inr True"
    and "ho_state h = Healthy" and "ho_targetId h = tgt_id (wc_target s)" and "ho_releaseId h = pr_releaseId p"
    and "providerResultMatches (wd_releaseDigest d) (wd_artifactDigests d) previous"
    and "ho_state h' = Healthy" and "ho_targetId h' = tgt_id (wc_target s)" and "ho_releaseId h' = r"
  defines "s4 \<equiv> run_ops (prom_step digest) [HealthReply i (Replied (AdapterSucceeded h)), HealthReply j Threw,
      DeploymentReply j (Replied (AdapterSucceeded d)), HealthReply j (Replied (AdapterSucceeded h'))] s"
  shows "tgt_state (wc_target s4) = TargetHealthy \<and> wt_currentReleaseId (wc_target s4) = Some (pr_releaseId p)
    \<and> (\<exists>q'. get_key (wc_promotions s4) j = Some q' \<and> pr_state q' = RolledBack \<and> pr_rollbackHealth q' = Some h')"
proof -
  have ids: "pr_id p = i" "pr_id q = j" "rel_id (ir_release (wi_release call)) = pr_releaseId p" "rel_id (ir_release previous) = r"
    using assms(1,9,13) ledger_promotion_ok [OF assms(1,3)] ledger_promotion_ok [OF assms(1,5)]
    by (auto simp: promotion_ok_def ledger_def)
  define s1 where "s1 = snd (prom_step digest (HealthReply i (Replied (AdapterSucceeded h))) s)"
  have s1: "get_key (wc_promotions s1) j = Some q" "get_key (wc_executions s1) j = Some (Running (AwaitHealth call' op'))"
    "wc_releases s1 = wc_releases s" "wt_currentReleaseId (wc_target s1) = Some (pr_releaseId p)"
    "tgt_id (wc_target s1) = tgt_id (wc_target s)" "wt_capabilities (wc_target s1) = wt_capabilities (wc_target s)"
    using assms(2-8,15-17) ids
    by (simp_all add: s1_def resume_def after_health_def Let_def completeHealthy_def transition_allowed)
  define s2 where "s2 = snd (prom_step digest (HealthReply j Threw) s1)"
  obtain q2 c2 where s2: "get_key (wc_promotions s2) j = Some q2" "pr_state q2 = PromDegraded" "pr_id q2 = j"
    "get_key (wc_executions s2) j = Some (Running (AwaitRecoveryRollback c2))" "wri_previousRelease c2 = previous"
    "wt_currentReleaseId (wc_target s2) = Some (pr_releaseId p)" "tgt_id (wc_target s2) = tgt_id (wc_target s)"
    using assms(6,10-14) ids s1
    by (simp add: s2_def resume_def after_health_def recoverAfterHealthFailure_def transition_allowed return_def rollback_input_def
        WorkerAdapterInput.extend_def adapter_input_def)
  define s3 where "s3 = snd (prom_step digest (DeploymentReply j (Replied (AdapterSucceeded d))) s2)"
  obtain q3 c3 op3 where s3: "get_key (wc_promotions s3) j = Some q3" "pr_state q3 = PromDegraded" "pr_id q3 = j"
    "get_key (wc_executions s3) j = Some (Running (AwaitRecoveryHealth c3 op3))" "wi_release c3 = previous"
    "wt_currentReleaseId (wc_target s3) = Some (pr_releaseId p)" "tgt_id (wc_target s3) = tgt_id (wc_target s)"
    using assms(18) s2
    by (simp add: s3_def resume_def after_recovery_rollback_def return_def Let_def health_input_def WorkerAdapterInput.extend_def adapter_input_def)
  have "s4 = snd (prom_step digest (HealthReply j (Replied (AdapterSucceeded h'))) s3)"
    by (simp add: s4_def s3_def s2_def s1_def)
  with s3 assms(19-21) ids show ?thesis
    by (simp add: resume_def after_recovery_health_def Let_def transition_allowed set_target_state_def)
qed

section \<open>Witnesses\<close>

definition demo_worker_target :: "bool \<Rightarrow> WorkerTarget" where
  "demo_worker_target preview = projr (createWorkerTarget (\<lambda>_. Inr ''contract'') demo_target
     \<lparr>cap_preview = preview, cap_promote = True, cap_healthCheck = True, cap_rollback = True\<rparr> None [] None)"

definition demo_promotions :: "bool \<Rightarrow> PromotionCoordinator" where
  "demo_promotions preview = projr (new_promotions ''p'' (demo_worker_target preview) ''worker''
     [demo_sealed ''rel-1'', demo_sealed ''rel-2'', demo_sealed ''rel-3''])"

definition demo_actor :: ActorRef where
  "demo_actor = \<lparr>actor_principalId = ''ann'', actor_actorId = ''ann-1'', actor_sessionId = ''s'', actor_clientId = ''cli''\<rparr>"

definition demo_promote :: "string \<Rightarrow> string \<Rightarrow> prom_op" where
  "demo_promote uuid releaseId = Promote uuid \<lparr>prq_releaseId = releaseId, prq_idempotencyKey = ''key-'' @ uuid, prq_actor = demo_actor,
     prq_expectedCurrentReleaseId = None, prq_kind = None, prq_rollbackOfPromotionId = None\<rparr>"

definition demo_deployment :: "string \<Rightarrow> WorkerDeployment" where
  "demo_deployment releaseId = \<lparr>wd_deploymentId = ''d'', wd_providerVersionId = ''1'',
     wd_releaseDigest = releaseId @ ''contract'', wd_artifactDigests = [''sha''], wd_providerOperationId = None\<rparr>"

definition demo_deployed :: "string \<Rightarrow> string \<Rightarrow> prom_op list" where
  "demo_deployed uuid releaseId = [demo_promote uuid releaseId,
     PreviewReply (''promotion:'' @ uuid) (Replied (AdapterSucceeded \<lparr>wp_previewId = ''v'', wp_providerVersionId = ''1'',
       wp_releaseDigest = releaseId @ ''contract'', wp_artifactDigests = [''sha'']\<rparr>)),
     DeploymentReply (''promotion:'' @ uuid) (Replied (AdapterSucceeded (demo_deployment releaseId)))]"

definition demo_observation :: "string \<Rightarrow> HealthState \<Rightarrow> HealthObservation" where
  "demo_observation releaseId st = \<lparr>ho_id = ''h'', ho_targetId = ''target'', ho_releaseId = releaseId, ho_state = st,
     ho_checkId = ''c'', ho_checkedAt = ''t'', ho_outputDigest = None\<rparr>"

definition demo_health :: "string \<Rightarrow> string \<Rightarrow> HealthState \<Rightarrow> prom_op" where
  "demo_health uuid releaseId st = HealthReply (''promotion:'' @ uuid) (Replied (AdapterSucceeded (demo_observation releaseId st)))"

abbreviation demo_prom_step :: "prom_op \<Rightarrow> PromotionCoordinator \<Rightarrow> unit prom_outcome" where
  "demo_prom_step \<equiv> prom_step (\<lambda>_. ''digest'')"

definition demo_run :: "prom_op list \<Rightarrow> PromotionCoordinator" where
  "demo_run ops = run_ops demo_prom_step ops (demo_promotions True)"

definition demo_first :: "prom_op list" where
  "demo_first = demo_deployed ''1'' ''rel-1'' @ [demo_health ''1'' ''rel-1'' Healthy, ExecutionCleanup ''promotion:1'']"

lemma demo_promotions_new: "new_promotions ''p'' (demo_worker_target True) ''worker''
    [demo_sealed ''rel-1'', demo_sealed ''rel-2'', demo_sealed ''rel-3''] = Inr (demo_promotions True)"
  by code_simp

lemma demo_first_admissible: "admissible prom_ok demo_prom_step demo_first (demo_promotions True)"
  by code_simp

theorem target_pointer_follows_health_witness:
  "wt_currentReleaseId (wc_target (demo_run demo_first)) = Some ''rel-1'' \<and> has_key (wc_releases (demo_run demo_first)) ''rel-1''"
proof -
  have "wt_releaseHistory (wc_target (demo_run demo_first)) = [''rel-1'']" "wt_releaseHistory (demo_worker_target True) = []"
    by code_simp+
  then show ?thesis
    using target_pointer_follows_health [OF demo_promotions_new demo_first_admissible demo_run_def [of demo_first]] by auto
qed

theorem promotion_events_form_path_witness:
  "map pe_to (wc_events (demo_run demo_first)) = [Proposed, Validating, Approved, Applying, PromHealthy]
   \<and> follows None (events_of ''promotion:1'' (demo_run demo_first))"
proof -
  have "map pe_to (wc_events (demo_run demo_first)) = [Proposed, Validating, Approved, Applying, PromHealthy]" by code_simp
  then show ?thesis
    using promotion_events_form_path [OF demo_promotions_new demo_first_admissible demo_run_def [of demo_first], of "''promotion:1''"] by simp
qed

text \<open>The value of an option that is known to be defined, for states given by a run.\<close>

definition demo_promotion :: "string \<Rightarrow> PromotionCoordinator \<Rightarrow> PromotionRecord" where
  "demo_promotion i s = the (get_key (wc_promotions s) i)"

definition demo_waiting :: "prom_op list" where
  "demo_waiting = [demo_promote ''1'' ''rel-1'']"

theorem executions_make_progress_witness:
  "pr_state (demo_promotion ''promotion:1'' (demo_run demo_waiting)) = Validating
   \<and> has_key (wc_executions (demo_run demo_waiting)) ''promotion:1''"
proof -
  have "admissible prom_ok demo_prom_step demo_waiting (demo_promotions True)" by code_simp
  moreover have "get_key (wc_promotions (demo_run demo_waiting)) ''promotion:1'' = Some (demo_promotion ''promotion:1'' (demo_run demo_waiting))"
    by code_simp
  moreover have "pr_state (demo_promotion ''promotion:1'' (demo_run demo_waiting)) = Validating" by code_simp
  ultimately show ?thesis
    using executions_make_progress [OF demo_promotions_new _ demo_run_def [of demo_waiting], of "''promotion:1''"] by (auto simp: has_key_def)
qed

definition demo_unpromotable :: PromotionCoordinator where
  "demo_unpromotable = run_ops demo_prom_step [demo_promote ''1'' ''rel-1''] (demo_promotions False)"

definition demo_recovering :: PromotionCoordinator where
  "demo_recovering = demo_run (demo_first @ demo_deployed ''2'' ''rel-2'' @ [demo_health ''2'' ''rel-2'' Unhealthy])"

definition demo_retry :: PromotionRetryRequest where
  "demo_retry = \<lparr>prr_promotionId = ''promotion:2'', prr_idempotencyKey = ''retry'', prr_actor = demo_actor\<rparr>"

definition demo_retry_facts :: "PromotionCoordinator \<Rightarrow> bool" where
  "demo_retry_facts s = (case (get_key (wc_promotions s) ''promotion:2'', get_key (wc_executions s) ''promotion:2'') of
     (Some p, Some (Running (AwaitRecoveryRollback call))) \<Rightarrow> pr_id p = ''promotion:2'' \<and> pr_state p = PromDegraded
       \<and> get_key (wc_idempotency s) (prr_idempotencyKey demo_retry) = None
       \<and> providerResultMatches (wd_releaseDigest (demo_deployment ''rel-1'')) (wd_artifactDigests (demo_deployment ''rel-1'')) (wri_previousRelease call)
       \<and> ho_targetId (demo_observation ''rel-1'' Healthy) = tgt_id (wc_target s)
       \<and> ho_releaseId (demo_observation ''rel-1'' Healthy) = rel_id (ir_release (wri_previousRelease call))
   | _ \<Rightarrow> False)"

theorem retry_during_recovery_is_lost_witness:
  "fst (retryPromotion demo_retry demo_recovering) = Inr (ExecutionOf ''promotion:2'')"
proof -
  have "demo_retry_facts demo_recovering" by code_simp
  then obtain p call where facts: "get_key (wc_promotions demo_recovering) ''promotion:2'' = Some p" "pr_id p = ''promotion:2''" "pr_state p = PromDegraded"
    "get_key (wc_executions demo_recovering) ''promotion:2'' = Some (Running (AwaitRecoveryRollback call))"
    "get_key (wc_idempotency demo_recovering) (prr_idempotencyKey demo_retry) = None"
    "providerResultMatches (wd_releaseDigest (demo_deployment ''rel-1'')) (wd_artifactDigests (demo_deployment ''rel-1'')) (wri_previousRelease call)"
    "ho_targetId (demo_observation ''rel-1'' Healthy) = tgt_id (wc_target demo_recovering)"
    "ho_releaseId (demo_observation ''rel-1'' Healthy) = rel_id (ir_release (wri_previousRelease call))"
    by (auto simp: demo_retry_facts_def split: option.splits Execution.splits Awaiting.splits)
  have "prr_promotionId demo_retry = ''promotion:2''" "ho_state (demo_observation ''rel-1'' Healthy) = Healthy" by code_simp+
  with retry_during_recovery_is_lost [OF facts(1-4) _ facts(5-8)] show ?thesis by blast
qed

definition demo_concurrent :: PromotionCoordinator where
  "demo_concurrent = demo_run (demo_first @ demo_deployed ''2'' ''rel-2'' @ demo_deployed ''3'' ''rel-3'')"

lemma demo_concurrent_ledger: "ledger demo_concurrent"
proof -
  have "admissible prom_ok demo_prom_step (demo_first @ demo_deployed ''2'' ''rel-2'' @ demo_deployed ''3'' ''rel-3'') (demo_promotions True)"
    by code_simp
  from promotions.run_inv [OF new_promotions_inv [OF demo_promotions_new] this] show ?thesis
    by (simp add: demo_concurrent_def demo_run_def prom_inv_def)
qed

definition demo_awaited :: "Execution option \<Rightarrow> (WorkerHealthInput \<times> string option) option" where
  "demo_awaited e = (case e of Some (Running (AwaitHealth call op)) \<Rightarrow> Some (call, op) | _ \<Rightarrow> None)"

lemma demo_awaited_Some: "demo_awaited e = Some (call, op) \<longleftrightarrow> e = Some (Running (AwaitHealth call op))"
  by (simp add: demo_awaited_def split: option.split Execution.split Awaiting.split)

definition demo_stale_facts :: "PromotionCoordinator \<Rightarrow> bool" where
  "demo_stale_facts s = (case (get_key (wc_promotions s) ''promotion:2'', get_key (wc_promotions s) ''promotion:3'',
       demo_awaited (get_key (wc_executions s) ''promotion:2''), demo_awaited (get_key (wc_executions s) ''promotion:3''),
       get_key (wc_releases s) ''rel-1'') of
     (Some p, Some q, Some (call, _), Some (call', _), Some previous) \<Rightarrow>
       pr_state p = Applying \<and> pr_state q = Applying \<and> get_key (wc_releases s) (pr_releaseId p) = Some (wi_release call)
       \<and> cap_rollback (wt_capabilities (wc_target s)) \<and> pr_previousReleaseId q = Some ''rel-1'' \<and> pr_releaseId p = ''rel-2''
       \<and> sum_then (release_plan (\<lambda>_. ''digest'') (wi_release call')) (automaticMigrationRollbackDecision (\<lambda>_. ''digest'')) = Inr True
       \<and> ho_targetId (demo_observation ''rel-2'' Healthy) = tgt_id (wc_target s) \<and> ho_releaseId (demo_observation ''rel-2'' Healthy) = pr_releaseId p
       \<and> providerResultMatches (wd_releaseDigest (demo_deployment ''rel-1'')) (wd_artifactDigests (demo_deployment ''rel-1'')) previous
       \<and> ho_targetId (demo_observation ''rel-1'' Healthy) = tgt_id (wc_target s)
   | _ \<Rightarrow> False)"

lemma demo_stale_factsD:
  assumes "demo_stale_facts s"
  shows "\<exists>p q call op call' op' previous. get_key (wc_promotions s) ''promotion:2'' = Some p \<and> pr_state p = Applying
    \<and> get_key (wc_promotions s) ''promotion:3'' = Some q \<and> pr_state q = Applying
    \<and> get_key (wc_executions s) ''promotion:2'' = Some (Running (AwaitHealth call op))
    \<and> get_key (wc_executions s) ''promotion:3'' = Some (Running (AwaitHealth call' op'))
    \<and> get_key (wc_releases s) (pr_releaseId p) = Some (wi_release call)
    \<and> cap_rollback (wt_capabilities (wc_target s)) \<and> pr_previousReleaseId q = Some ''rel-1''
    \<and> get_key (wc_releases s) ''rel-1'' = Some previous
    \<and> sum_then (release_plan (\<lambda>_. ''digest'') (wi_release call')) (automaticMigrationRollbackDecision (\<lambda>_. ''digest'')) = Inr True
    \<and> ho_targetId (demo_observation ''rel-2'' Healthy) = tgt_id (wc_target s) \<and> ho_releaseId (demo_observation ''rel-2'' Healthy) = pr_releaseId p
    \<and> providerResultMatches (wd_releaseDigest (demo_deployment ''rel-1'')) (wd_artifactDigests (demo_deployment ''rel-1'')) previous
    \<and> ho_targetId (demo_observation ''rel-1'' Healthy) = tgt_id (wc_target s) \<and> pr_releaseId p = ''rel-2''"
proof -
  show ?thesis
    using assms
    by (cases "get_key (wc_promotions s) ''promotion:2''"; cases "get_key (wc_promotions s) ''promotion:3''"; cases "get_key (wc_releases s) ''rel-1''";
        cases "demo_awaited (get_key (wc_executions s) ''promotion:2'')"; cases "demo_awaited (get_key (wc_executions s) ''promotion:3'')")
      (auto simp: demo_stale_facts_def demo_awaited_Some)
qed

theorem stale_recovery_contradicts_pointer_witness:
  "wt_currentReleaseId (wc_target (run_ops demo_prom_step [demo_health ''2'' ''rel-2'' Healthy, HealthReply ''promotion:3'' Threw,
      DeploymentReply ''promotion:3'' (Replied (AdapterSucceeded (demo_deployment ''rel-1''))), demo_health ''3'' ''rel-1'' Healthy] demo_concurrent))
    = Some ''rel-2''"
proof -
  have "demo_stale_facts demo_concurrent" by code_simp
  then obtain p q call op call' op' previous where facts:
    "get_key (wc_promotions demo_concurrent) ''promotion:2'' = Some p" "pr_state p = Applying"
    "get_key (wc_promotions demo_concurrent) ''promotion:3'' = Some q" "pr_state q = Applying"
    "get_key (wc_executions demo_concurrent) ''promotion:2'' = Some (Running (AwaitHealth call op))"
    "get_key (wc_executions demo_concurrent) ''promotion:3'' = Some (Running (AwaitHealth call' op'))"
    "get_key (wc_releases demo_concurrent) (pr_releaseId p) = Some (wi_release call)"
    "cap_rollback (wt_capabilities (wc_target demo_concurrent))" "pr_previousReleaseId q = Some ''rel-1''"
    "get_key (wc_releases demo_concurrent) ''rel-1'' = Some previous"
    "sum_then (release_plan (\<lambda>_. ''digest'') (wi_release call')) (automaticMigrationRollbackDecision (\<lambda>_. ''digest'')) = Inr True"
    "ho_targetId (demo_observation ''rel-2'' Healthy) = tgt_id (wc_target demo_concurrent)" "ho_releaseId (demo_observation ''rel-2'' Healthy) = pr_releaseId p"
    "providerResultMatches (wd_releaseDigest (demo_deployment ''rel-1'')) (wd_artifactDigests (demo_deployment ''rel-1'')) previous"
    "ho_targetId (demo_observation ''rel-1'' Healthy) = tgt_id (wc_target demo_concurrent)" "pr_releaseId p = ''rel-2''"
    using demo_stale_factsD by blast
  have replies: "ho_state (demo_observation r Healthy) = Healthy" "ho_releaseId (demo_observation r Healthy) = r" for r
    by (simp_all add: demo_observation_def)
  from stale_recovery_contradicts_pointer [OF demo_concurrent_ledger _ facts(1-9) _ facts(10,11) replies(1) facts(12-14) replies(1) facts(15) replies(2)] facts(16)
  show ?thesis by (simp add: demo_health_def)
qed

end
