(* ===== verification/Publication.thy ===== *)
theory Publication
  imports Promotion
begin

text \<open>
  The class \<open>ReleasePublicationCoordinator\<close> of \<open>src/src/delivery/release-publication.ts\<close>, which publishes an
  Artifact of a sealed Release to a registry or channel through an adapter of the provider. Its method \<open>execute\<close>
  awaits the adapter once; it is split there, so that a run of operations is any interleaving of callers and
  provider. The map \<open>executions\<close> holds the promises: one that has settled stays until its clean-up runs, which is an
  operation of its own. Prose, receipts, recovery actions, time stamps and the random ids of events are left out.
\<close>

section \<open>Data\<close>

datatype TargetPublicationState = AssetConfigured | AssetPublished | AssetDegraded | AssetUnknown

record ReleaseAssetTarget = Target +
  at_currentReleaseId :: "string option"
  at_currentArtifactId :: "string option"
  at_releaseHistory :: "string list"
  at_publicationState :: TargetPublicationState
  at_contractDigest :: string

record PublishedArtifact =
  pa_targetId :: string
  pa_releaseId :: string
  pa_artifactId :: string
  pa_releaseDigest :: string
  pa_artifactDigest :: string
  pa_providerObjectId :: string
  pa_providerReleaseId :: "string option"
  pa_providerAssetId :: "string option"
  pa_providerReleaseUrl :: "string option"
  pa_providerAssetUrl :: "string option"
  pa_providerAssetApiUrl :: "string option"
  pa_providerMediaType :: "string option"
  pa_providerByteLength :: "int option"
  pa_disclosure :: "DisclosureClassification option"
  pa_providerCapabilities :: "(string, bool) jsmap option"

datatype ReleasePublicationState = PubProposed | PubPublishing | PubPublished | PubFailed | PubBlocked | PubDegraded

record ReleasePublicationRecord =
  rp_id :: string
  rp_projectId :: string
  rp_targetId :: string
  rp_releaseId :: string
  rp_releaseDigest :: string
  rp_artifactId :: string
  rp_artifactDigest :: string
  rp_previousReleaseId :: "string option"
  rp_expectedCurrentReleaseId :: "string option"
  rp_state :: ReleasePublicationState
  rp_attempt :: nat
  rp_idempotencyKey :: string
  rp_actor :: ActorRef
  rp_providerObjectId :: "string option"
  rp_providerReleaseId :: "string option"
  rp_providerAssetId :: "string option"
  rp_providerReleaseUrl :: "string option"
  rp_providerAssetUrl :: "string option"
  rp_providerAssetApiUrl :: "string option"
  rp_providerMediaType :: "string option"
  rp_providerByteLength :: "int option"
  rp_disclosure :: "DisclosureClassification option"
  rp_providerCapabilities :: "(string, bool) jsmap option"

record ReleasePublicationEvent =
  re_publicationId :: string
  re_sequence :: nat
  re_from :: "ReleasePublicationState option"
  re_to :: ReleasePublicationState
  re_attempt :: nat
  re_idempotencyKey :: string
  re_actor :: ActorRef

record ReleasePublicationRequest =
  rpq_releaseId :: string
  rpq_artifactId :: string
  rpq_idempotencyKey :: string
  rpq_actor :: ActorRef
  rpq_expectedCurrentReleaseId :: "string option option"

record ReleasePublicationRetryRequest =
  rpr_publicationId :: string
  rpr_idempotencyKey :: string
  rpr_actor :: ActorRef

record ReleaseAssetTargetInput =
  ati_target :: Target
  ati_currentReleaseId :: "string option"
  ati_currentArtifactId :: "string option"
  ati_releaseHistory :: "string list option"
  ati_publicationState :: "TargetPublicationState option"
  ati_contractDigest :: "string option"

datatype ReleasePublicationErrorCode =
    PubInvalidTarget | PubTargetMismatch | PubAdapterMismatch | PubReleaseNotFound | PubArtifactNotFound | PubArtifactTypeMismatch
  | PubExpectedCurrentMismatch | PubIdempotencyConflict | PubInvalidState | PubProviderResultMismatch

datatype PublicationFailure =
    ReleasePublicationError ReleasePublicationErrorCode
  | PublicationProfileError TargetDeploymentProfileErrorCode

text \<open>The input of the adapter; the Release and the Artifact are the local variables an execution goes on with.\<close>

record PublishInput =
  pin_publicationId :: string
  pin_attempt :: nat
  pin_release :: ImmutableRelease
  pin_artifact :: Artifact
  pin_target :: ReleaseAssetTarget

datatype PublishingExecution = Publishing PublishInput | PublishingSettled "PublicationFailure + ReleasePublicationRecord"

record ReleasePublicationCoordinator =
  pb_projectId :: string
  pb_target :: ReleaseAssetTarget
  pb_releases :: "(string, ImmutableRelease) jsmap"
  pb_publications :: "(string, ReleasePublicationRecord) jsmap"
  pb_idempotency :: "(string, string) jsmap"
  pb_executions :: "(string, PublishingExecution) jsmap"
  pb_events :: "ReleasePublicationEvent list"

type_synonym 'a pb_outcome = "(ReleasePublicationCoordinator, PublicationFailure, 'a) outcome"

definition pub_error :: "ReleasePublicationErrorCode \<Rightarrow> PublicationFailure" where
  "pub_error code = ReleasePublicationError code"

section \<open>Targets\<close>

definition asset_target_error :: "ReleaseAssetTargetInput \<Rightarrow> PublicationFailure option" where
  "asset_target_error input =
     (let target = ati_target input; history = nullish (ati_releaseHistory input) [];
          invalid = (\<lambda>c. fail_if c (pub_error PubInvalidTarget))
      in check_loop invalid [blank (tgt_id target), blank (tgt_projectId target), blank (tgt_adapterId target), has_duplicates history,
           (ati_currentReleaseId input = None) \<noteq> (ati_currentArtifactId input = None),
           truthy (ati_currentReleaseId input) \<and> the (ati_currentReleaseId input) \<notin> set history])"

definition defaultContractDigest :: "(string \<Rightarrow> bool) \<Rightarrow> Digests \<Rightarrow> Target \<Rightarrow> TargetDeploymentProfileErrorCode + string" where
  "defaultContractDigest credentialLike dg target =
     sum_then (targetDeploymentProfile credentialLike (dg_profile dg) target) (\<lambda>profile.
       targetDeploymentContractDigest credentialLike dg (target\<lparr>tgt_deploymentProfile := Some profile\<rparr>))"

definition createReleaseAssetTarget :: "(string \<Rightarrow> bool) \<Rightarrow> Digests \<Rightarrow> ReleaseAssetTargetInput \<Rightarrow> PublicationFailure + ReleaseAssetTarget" where
  "createReleaseAssetTarget credentialLike dg input =
     sum_then (checked (asset_target_error input)) (\<lambda>_.
     sum_then (lift_error PublicationProfileError (targetDeploymentProfile credentialLike (dg_profile dg) (ati_target input))) (\<lambda>profile.
     sum_then (case ati_contractDigest input of Some d \<Rightarrow> Inr d
       | None \<Rightarrow> lift_error PublicationProfileError (defaultContractDigest credentialLike dg (ati_target input))) (\<lambda>d.
       Inr (Target.extend ((ati_target input)\<lparr>tgt_deploymentProfile := Some profile\<rparr>)
         \<lparr>at_currentReleaseId = ati_currentReleaseId input, at_currentArtifactId = ati_currentArtifactId input,
          at_releaseHistory = nullish (ati_releaseHistory input) [],
          at_publicationState = nullish (ati_publicationState input) AssetConfigured, at_contractDigest = d\<rparr>))))"

section \<open>Transitions of a publication\<close>

fun publication_transitions :: "ReleasePublicationState \<Rightarrow> ReleasePublicationState list" where
  "publication_transitions PubProposed = [PubPublishing]"
| "publication_transitions PubPublishing = [PubPublished, PubFailed, PubBlocked, PubDegraded]"
| "publication_transitions PubPublished = []"
| "publication_transitions PubFailed = [PubProposed]"
| "publication_transitions PubBlocked = [PubProposed]"
| "publication_transitions PubDegraded = [PubProposed]"

definition set_publication :: "ReleasePublicationRecord \<Rightarrow> ReleasePublicationCoordinator \<Rightarrow> ReleasePublicationCoordinator" where
  "set_publication p s = s\<lparr>pb_publications := set_key (rp_id p) p (pb_publications s)\<rparr>"

definition emit_publication :: "ReleasePublicationRecord \<Rightarrow> ReleasePublicationState option \<Rightarrow> ReleasePublicationState
    \<Rightarrow> ReleasePublicationCoordinator \<Rightarrow> ReleasePublicationCoordinator" where
  "emit_publication p origin dest s = s\<lparr>pb_events := pb_events s @ [\<lparr>re_publicationId = rp_id p, re_sequence = length (pb_events s) + 1,
     re_from = origin, re_to = dest, re_attempt = rp_attempt p, re_idempotencyKey = rp_idempotencyKey p, re_actor = rp_actor p\<rparr>]\<rparr>"

text \<open>A refused transition throws; what was written to the record before it stays.\<close>

definition publication_transition :: "ReleasePublicationRecord \<Rightarrow> ReleasePublicationState \<Rightarrow> ReleasePublicationCoordinator
    \<Rightarrow> ReleasePublicationRecord pb_outcome" where
  "publication_transition p dest s =
    (if dest \<in> set (publication_transitions (rp_state p))
     then (let p' = p\<lparr>rp_state := dest\<rparr> in return p' (emit_publication p' (Some (rp_state p)) dest (set_publication p' s)))
     else raise (pub_error PubInvalidState) (set_publication p s))"

definition fail_publication :: "ReleasePublicationRecord \<Rightarrow> ReleasePublicationState \<Rightarrow> ReleasePublicationCoordinator
    \<Rightarrow> ReleasePublicationRecord pb_outcome" where
  "fail_publication p st s = publication_transition p st s"

definition providerMatches :: "PublishedArtifact \<Rightarrow> ReleasePublicationRecord \<Rightarrow> bool" where
  "providerMatches result p \<longleftrightarrow> pa_targetId result = rp_targetId p \<and> pa_releaseId result = rp_releaseId p
     \<and> pa_artifactId result = rp_artifactId p \<and> pa_releaseDigest result = rp_releaseDigest p \<and> pa_artifactDigest result = rp_artifactDigest p"

text \<open>A thrown error counts as an indeterminate, retryable failure.\<close>

definition adapterThrown :: DeliveryAdapterFailure where
  "adapterThrown = \<lparr>daf_outcome = FailureIndeterminate, daf_errorCode = ''adapter.threw'', daf_retryable = True\<rparr>"

fun invoke_publish :: "PublishedArtifact reply \<Rightarrow> PublishedArtifact DeliveryAdapterResult" where
  "invoke_publish (Replied r) = r"
| "invoke_publish Threw = AdapterFailed adapterThrown"

section \<open>The execution of a publication, split at its await\<close>

datatype PublicationProgress = PublicationFinished ReleasePublicationRecord | AwaitsPublish PublishInput

definition finish_publication :: "ReleasePublicationRecord pb_outcome \<Rightarrow> PublicationProgress pb_outcome" where
  "finish_publication r = and_then r (\<lambda>p. return (PublicationFinished p))"

definition find_artifact :: "ImmutableRelease \<Rightarrow> string \<Rightarrow> Artifact option" where
  "find_artifact release artifactId = find (\<lambda>a. art_id a = artifactId) (ir_artifacts release)"

definition execute_publication :: "string \<Rightarrow> ReleasePublicationCoordinator \<Rightarrow> PublicationProgress pb_outcome" where
  "execute_publication publicationId s = (case get_key (pb_publications s) publicationId of
     None \<Rightarrow> raise (pub_error PubReleaseNotFound) s
   | Some p \<Rightarrow>
       if rp_state p \<noteq> PubProposed then return (PublicationFinished p) s
       else (case get_key (pb_releases s) (rp_releaseId p) of
           None \<Rightarrow> finish_publication (fail_publication p PubFailed s)
         | Some release \<Rightarrow> (case find_artifact release (rp_artifactId p) of
               None \<Rightarrow> finish_publication (fail_publication p PubBlocked s)
             | Some artifact \<Rightarrow> and_then (publication_transition p PubPublishing s) (\<lambda>p s.
                 return (AwaitsPublish \<lparr>pin_publicationId = rp_id p, pin_attempt = rp_attempt p, pin_release = release,
                   pin_artifact = artifact, pin_target = pb_target s\<rparr>) s))))"

definition set_publication_state :: "TargetPublicationState \<Rightarrow> ReleasePublicationCoordinator \<Rightarrow> ReleasePublicationCoordinator" where
  "set_publication_state st s = s\<lparr>pb_target := (pb_target s)\<lparr>at_publicationState := st\<rparr>\<rparr>"

definition failure_state :: "DeliveryAdapterFailure \<Rightarrow> ReleasePublicationState" where
  "failure_state failure = (if daf_outcome failure = FailureIndeterminate then PubDegraded
     else if daf_retryable failure then PubFailed else PubBlocked)"

text \<open>A member that is undefined leaves that of the record.\<close>

definition first_some :: "'a option \<Rightarrow> 'a option \<Rightarrow> 'a option" where
  "first_some x y = (case x of Some v \<Rightarrow> Some v | None \<Rightarrow> y)"

definition provider_fields :: "PublishedArtifact \<Rightarrow> ReleasePublicationRecord \<Rightarrow> ReleasePublicationRecord" where
  "provider_fields v p = p\<lparr>rp_providerObjectId := Some (pa_providerObjectId v),
     rp_providerReleaseId := first_some (pa_providerReleaseId v) (rp_providerReleaseId p),
     rp_providerAssetId := first_some (pa_providerAssetId v) (rp_providerAssetId p),
     rp_providerReleaseUrl := first_some (pa_providerReleaseUrl v) (rp_providerReleaseUrl p),
     rp_providerAssetUrl := first_some (pa_providerAssetUrl v) (rp_providerAssetUrl p),
     rp_providerAssetApiUrl := first_some (pa_providerAssetApiUrl v) (rp_providerAssetApiUrl p),
     rp_providerMediaType := first_some (pa_providerMediaType v) (rp_providerMediaType p),
     rp_providerByteLength := first_some (pa_providerByteLength v) (rp_providerByteLength p),
     rp_disclosure := first_some (pa_disclosure v) (rp_disclosure p),
     rp_providerCapabilities := first_some (pa_providerCapabilities v) (rp_providerCapabilities p)\<rparr>"

definition published_target :: "PublishInput \<Rightarrow> ReleaseAssetTarget \<Rightarrow> ReleaseAssetTarget" where
  "published_target call target =
    (let releaseId = rel_id (ir_release (pin_release call));
         history = (if at_releaseHistory target \<noteq> [] \<and> last (at_releaseHistory target) = releaseId
                    then at_releaseHistory target else at_releaseHistory target @ [releaseId])
     in target\<lparr>tgt_state := TargetHealthy, at_currentReleaseId := Some releaseId, at_currentArtifactId := Some (art_id (pin_artifact call)),
          at_releaseHistory := history, at_publicationState := AssetPublished\<rparr>)"

definition after_publish :: "PublishInput \<Rightarrow> PublishedArtifact DeliveryAdapterResult \<Rightarrow> ReleasePublicationRecord
    \<Rightarrow> ReleasePublicationCoordinator \<Rightarrow> PublicationProgress pb_outcome" where
  "after_publish call result p s = (case result of
     AdapterFailed failure \<Rightarrow>
       finish_publication (fail_publication p (failure_state failure)
         (if failure_state failure = PubDegraded then set_publication_state AssetDegraded s else s))
   | AdapterSucceeded v \<Rightarrow>
       if \<not> providerMatches v p then finish_publication (fail_publication p PubDegraded (set_publication_state AssetDegraded s))
       else finish_publication (publication_transition (provider_fields v p) PubPublished (s\<lparr>pb_target := published_target call (pb_target s)\<rparr>)))"

section \<open>The promises of executions\<close>

fun publishing_of :: "PublicationFailure + PublicationProgress \<Rightarrow> PublishingExecution" where
  "publishing_of (Inl e) = PublishingSettled (Inl e)"
| "publishing_of (Inr (PublicationFinished p)) = PublishingSettled (Inr p)"
| "publishing_of (Inr (AwaitsPublish call)) = Publishing call"

definition set_publishing :: "string \<Rightarrow> PublicationProgress pb_outcome \<Rightarrow> ReleasePublicationCoordinator" where
  "set_publishing publicationId r = (snd r)\<lparr>pb_executions := set_key publicationId (publishing_of (fst r)) (pb_executions (snd r))\<rparr>"

definition executePublicationOnce :: "string \<Rightarrow> ReleasePublicationCoordinator \<Rightarrow> ReleasePublicationCoordinator" where
  "executePublicationOnce publicationId s =
    (if has_key (pb_executions s) publicationId then s else set_publishing publicationId (execute_publication publicationId s))"

definition publishing_cleanup :: "string \<Rightarrow> ReleasePublicationCoordinator \<Rightarrow> ReleasePublicationCoordinator" where
  "publishing_cleanup publicationId s = (case get_key (pb_executions s) publicationId of
     Some (PublishingSettled _) \<Rightarrow> s\<lparr>pb_executions := delete_key publicationId (pb_executions s)\<rparr>
   | _ \<Rightarrow> s)"

text \<open>The adapter answers: the execution that waits goes on with the record as it is now.\<close>

definition publish_reply :: "string \<Rightarrow> PublishedArtifact reply \<Rightarrow> ReleasePublicationCoordinator \<Rightarrow> ReleasePublicationCoordinator" where
  "publish_reply publicationId r s = (case (get_key (pb_executions s) publicationId, get_key (pb_publications s) publicationId) of
     (Some (Publishing call), Some p) \<Rightarrow> set_publishing publicationId (after_publish call (invoke_publish r) p s)
   | _ \<Rightarrow> s)"

section \<open>The methods callers use\<close>

definition registerPublishable :: "ImmutableRelease \<Rightarrow> ReleasePublicationCoordinator \<Rightarrow> unit pb_outcome" where
  "registerPublishable release s =
    (if ir_projectId release \<noteq> pb_projectId s then raise (pub_error PubTargetMismatch) s
     else (case get_key (pb_releases s) (rel_id (ir_release release)) of
         Some current \<Rightarrow> if ir_releaseDigest current \<noteq> ir_releaseDigest release then raise (pub_error PubProviderResultMismatch) s else return () s
       | None \<Rightarrow> return () (s\<lparr>pb_releases := set_key (rel_id (ir_release release)) release (pb_releases s)\<rparr>)))"

definition register_publishables :: "ImmutableRelease list \<Rightarrow> ReleasePublicationCoordinator \<Rightarrow> PublicationFailure + ReleasePublicationCoordinator" where
  "register_publishables releases s =
     fold_loop (\<lambda>release s. case registerPublishable release s of (Inl e, _) \<Rightarrow> Inl e | (Inr _, s') \<Rightarrow> Inr s') releases s"

definition new_publications :: "string \<Rightarrow> ReleaseAssetTarget \<Rightarrow> string \<Rightarrow> ImmutableRelease list \<Rightarrow> PublicationFailure + ReleasePublicationCoordinator" where
  "new_publications projectId target adapterId releases =
     sum_then (checked (or_else (fail_if (blank projectId) (pub_error PubInvalidTarget))
       (or_else (fail_if (tgt_projectId target \<noteq> projectId) (pub_error PubTargetMismatch))
         (fail_if (adapterId \<noteq> tgt_adapterId target) (pub_error PubAdapterMismatch))))) (\<lambda>_.
       register_publishables releases \<lparr>pb_projectId = projectId, pb_target = target, pb_releases = [], pb_publications = [],
         pb_idempotency = [], pb_executions = [], pb_events = []\<rparr>)"

definition new_publication :: "string \<Rightarrow> ReleasePublicationRequest \<Rightarrow> ImmutableRelease \<Rightarrow> Artifact \<Rightarrow> string option
    \<Rightarrow> ReleasePublicationCoordinator \<Rightarrow> ReleasePublicationRecord" where
  "new_publication uuid input release artifact expected s = \<lparr>rp_id = opaqueId ''release-publication'' uuid, rp_projectId = pb_projectId s,
     rp_targetId = tgt_id (pb_target s), rp_releaseId = rel_id (ir_release release), rp_releaseDigest = ir_releaseDigest release,
     rp_artifactId = art_id artifact, rp_artifactDigest = art_digest artifact, rp_previousReleaseId = at_currentReleaseId (pb_target s),
     rp_expectedCurrentReleaseId = expected, rp_state = PubProposed, rp_attempt = 0, rp_idempotencyKey = rpq_idempotencyKey input,
     rp_actor = rpq_actor input, rp_providerObjectId = None, rp_providerReleaseId = None, rp_providerAssetId = None,
     rp_providerReleaseUrl = None, rp_providerAssetUrl = None, rp_providerAssetApiUrl = None, rp_providerMediaType = None,
     rp_providerByteLength = None, rp_disclosure = None, rp_providerCapabilities = None\<rparr>"

definition request_commit :: "ReleasePublicationRecord \<Rightarrow> string \<Rightarrow> ReleasePublicationCoordinator \<Rightarrow> ReleasePublicationRecord pb_outcome" where
  "request_commit p key s = return p (emit_publication p None PubProposed
     ((set_publication p s)\<lparr>pb_idempotency := set_key key (rp_id p) (pb_idempotency s)\<rparr>))"

definition requestPublication :: "string \<Rightarrow> ReleasePublicationRequest \<Rightarrow> ReleasePublicationCoordinator \<Rightarrow> ReleasePublicationRecord pb_outcome" where
  "requestPublication uuid input s = (case get_key (pb_idempotency s) (rpq_idempotencyKey input) of
     Some existingId \<Rightarrow> (case get_key (pb_publications s) existingId of
         None \<Rightarrow> raise (pub_error PubIdempotencyConflict) s
       | Some existing \<Rightarrow>
           if rp_releaseId existing \<noteq> rpq_releaseId input \<or> rp_artifactId existing \<noteq> rpq_artifactId input
           then raise (pub_error PubIdempotencyConflict) s else return existing s)
   | None \<Rightarrow> (case get_key (pb_releases s) (rpq_releaseId input) of
         None \<Rightarrow> raise (pub_error PubReleaseNotFound) s
       | Some release \<Rightarrow> (case find_artifact release (rpq_artifactId input) of
             None \<Rightarrow> raise (pub_error PubArtifactNotFound) s
           | Some artifact \<Rightarrow>
               if art_type artifact \<notin> set (tgt_acceptedArtifactTypes (pb_target s)) then raise (pub_error PubArtifactTypeMismatch) s
               else (let current = at_currentReleaseId (pb_target s); expected = nullish (rpq_expectedCurrentReleaseId input) current
                     in if expected \<noteq> current then raise (pub_error PubExpectedCurrentMismatch) s
                        else request_commit (new_publication uuid input release artifact expected s) (rpq_idempotencyKey input) s))))"

text \<open>A caller gets a publication at once or the promise of an execution.\<close>

datatype PublicationPromise = PublicationResolved ReleasePublicationRecord | PublicationOf string

definition publish :: "string \<Rightarrow> ReleasePublicationRequest \<Rightarrow> ReleasePublicationCoordinator \<Rightarrow> PublicationPromise pb_outcome" where
  "publish uuid input s = and_then (requestPublication uuid input s) (\<lambda>requested s.
     if has_key (pb_executions s) (rp_id requested) then return (PublicationOf (rp_id requested)) s
     else if rp_state requested \<noteq> PubProposed then return (PublicationResolved requested) s
     else return (PublicationOf (rp_id requested)) (executePublicationOnce (rp_id requested) s))"

definition retried_publication :: "ReleasePublicationRetryRequest \<Rightarrow> ReleasePublicationRecord \<Rightarrow> ReleasePublicationCoordinator \<Rightarrow> ReleasePublicationRecord" where
  "retried_publication input p s = p\<lparr>rp_idempotencyKey := rpr_idempotencyKey input,
     rp_expectedCurrentReleaseId := at_currentReleaseId (pb_target s), rp_previousReleaseId := at_currentReleaseId (pb_target s),
     rp_attempt := rp_attempt p + 1, rp_providerObjectId := None\<rparr>"

definition retryPublication :: "ReleasePublicationRetryRequest \<Rightarrow> ReleasePublicationCoordinator \<Rightarrow> PublicationPromise pb_outcome" where
  "retryPublication input s = (case get_key (pb_idempotency s) (rpr_idempotencyKey input) of
     Some existingId \<Rightarrow> (case get_key (pb_publications s) existingId of
         None \<Rightarrow> raise (pub_error PubIdempotencyConflict) s
       | Some existing \<Rightarrow>
           if rp_id existing \<noteq> rpr_publicationId input then raise (pub_error PubIdempotencyConflict) s
           else if has_key (pb_executions s) (rp_id existing) then return (PublicationOf (rp_id existing)) s
           else return (PublicationResolved existing) s)
   | None \<Rightarrow> (case get_key (pb_publications s) (rpr_publicationId input) of
         None \<Rightarrow> raise (pub_error PubReleaseNotFound) s
       | Some p \<Rightarrow>
           if rp_state p \<notin> set [PubFailed, PubBlocked, PubDegraded] then raise (pub_error PubInvalidState) s
           else and_then (publication_transition (retried_publication input p s) PubProposed
               (s\<lparr>pb_idempotency := set_key (rpr_idempotencyKey input) (rp_id p) (pb_idempotency s)\<rparr>)) (\<lambda>p s.
             return (PublicationOf (rp_id p)) (executePublicationOnce (rp_id p) s))))"

definition publishReleaseArtifact :: "string \<Rightarrow> string \<Rightarrow> string \<Rightarrow> string \<Rightarrow> ActorRef \<Rightarrow> string option option \<Rightarrow> ReleasePublicationCoordinator
    \<Rightarrow> PublicationPromise pb_outcome" where
  "publishReleaseArtifact uuid releaseId artifactId key actor expected s =
     publish uuid \<lparr>rpq_releaseId = releaseId, rpq_artifactId = artifactId, rpq_idempotencyKey = key, rpq_actor = actor,
       rpq_expectedCurrentReleaseId = expected\<rparr> s"

section \<open>Runs\<close>

datatype pb_op =
    RegisterPublishable ImmutableRelease
  | RequestPublication string ReleasePublicationRequest
  | Publish string ReleasePublicationRequest
  | RetryPublication ReleasePublicationRetryRequest
  | PublishReply string "PublishedArtifact reply"
  | PublishingCleanup string

fun pb_step :: "pb_op \<Rightarrow> ReleasePublicationCoordinator \<Rightarrow> unit pb_outcome" where
  "pb_step (RegisterPublishable release) s = registerPublishable release s"
| "pb_step (RequestPublication uuid input) s = void (requestPublication uuid input s)"
| "pb_step (Publish uuid input) s = void (publish uuid input s)"
| "pb_step (RetryPublication input) s = void (retryPublication input s)"
| "pb_step (PublishReply publicationId r) s = return () (publish_reply publicationId r s)"
| "pb_step (PublishingCleanup publicationId) s = return () (publishing_cleanup publicationId s)"

text \<open>A random id is fresh when it is drawn.\<close>

fun pb_ok :: "ReleasePublicationCoordinator \<Rightarrow> pb_op \<Rightarrow> bool" where
  "pb_ok s (RequestPublication uuid _) = (get_key (pb_publications s) (opaqueId ''release-publication'' uuid) = None)"
| "pb_ok s (Publish uuid _) = (get_key (pb_publications s) (opaqueId ''release-publication'' uuid) = None)"
| "pb_ok s _ = True"

end
