(* ===== verification/Publication_Safety.thy ===== *)
theory Publication_Safety
  imports Publication
begin

text \<open>
  What the coordinator of Release publications promises, over all interleavings of callers and provider. The
  invariant has four parts: every publication is bound to the digests of a registered Release and of one of its Artifacts,
  and its events form a path of allowed transitions; the pointer of the Target names published pairs only; an
  idempotency key names a publication; and a publication is publishing exactly while an execution waits for the
  adapter. Published records are final.
\<close>

section \<open>The ledger\<close>

fun publication_path :: "ReleasePublicationState option \<Rightarrow> ReleasePublicationEvent list \<Rightarrow> bool" where
  "publication_path origin [] = True"
| "publication_path origin (e # es) = (re_from e = origin
     \<and> (case origin of None \<Rightarrow> re_to e = PubProposed | Some st \<Rightarrow> re_to e \<in> set (publication_transitions st))
     \<and> publication_path (Some (re_to e)) es)"

fun publication_end :: "ReleasePublicationState option \<Rightarrow> ReleasePublicationEvent list \<Rightarrow> ReleasePublicationState option" where
  "publication_end origin [] = origin"
| "publication_end origin (e # es) = publication_end (Some (re_to e)) es"

lemma publication_end_snoc [simp]: "publication_end origin (es @ [e]) = Some (re_to e)"
  by (induction es arbitrary: origin) auto

lemma publication_path_snoc [simp]:
  "publication_path origin (es @ [e]) \<longleftrightarrow> publication_path origin es \<and> re_from e = publication_end origin es
     \<and> (case publication_end origin es of None \<Rightarrow> re_to e = PubProposed | Some st \<Rightarrow> re_to e \<in> set (publication_transitions st))"
  by (induction es arbitrary: origin) auto

definition publication_events :: "string \<Rightarrow> ReleasePublicationCoordinator \<Rightarrow> ReleasePublicationEvent list" where
  "publication_events i s = filter (\<lambda>e. re_publicationId e = i) (pb_events s)"

text \<open>The digests a publication records are those of the registered Release and of its Artifact.\<close>

lemma find_artifactD: "find_artifact r i = Some a \<Longrightarrow> a \<in> set (ir_artifacts r) \<and> art_id a = i"
  by (auto simp: find_artifact_def find_Some_iff)

definition bound_to_release :: "ReleasePublicationRecord \<Rightarrow> ReleasePublicationCoordinator \<Rightarrow> bool" where
  "bound_to_release p s \<longleftrightarrow> (\<exists>r a. get_key (pb_releases s) (rp_releaseId p) = Some r \<and> ir_releaseDigest r = rp_releaseDigest p
     \<and> find_artifact r (rp_artifactId p) = Some a \<and> art_digest a = rp_artifactDigest p
     \<and> art_type a \<in> set (tgt_acceptedArtifactTypes (pb_target s)))"

definition publication_ok :: "ReleasePublicationCoordinator \<Rightarrow> string \<Rightarrow> ReleasePublicationRecord \<Rightarrow> bool" where
  "publication_ok s i p \<longleftrightarrow> rp_id p = i \<and> rp_targetId p = tgt_id (pb_target s) \<and> bound_to_release p s
     \<and> (rp_state p = PubPublished \<longrightarrow> rp_providerObjectId p \<noteq> None)"

definition pub_ledger :: "ReleasePublicationCoordinator \<Rightarrow> bool" where
  "pub_ledger s \<longleftrightarrow> (\<forall>i p. get_key (pb_publications s) i = Some p \<longrightarrow> publication_ok s i p)
   \<and> (\<forall>i r. get_key (pb_releases s) i = Some r \<longrightarrow> rel_id (ir_release r) = i)
   \<and> map re_sequence (pb_events s) = [1..<Suc (length (pb_events s))]
   \<and> (\<forall>i. publication_path None (publication_events i s)
        \<and> publication_end None (publication_events i s) = map_option rp_state (get_key (pb_publications s) i))"

lemma pub_ledger_publication: "pub_ledger s \<Longrightarrow> get_key (pb_publications s) i = Some p \<Longrightarrow> publication_ok s i p"
  by (simp add: pub_ledger_def)

definition published_as :: "ReleasePublicationCoordinator \<Rightarrow> string \<Rightarrow> ReleasePublicationRecord \<Rightarrow> bool" where
  "published_as s i p \<longleftrightarrow> get_key (pb_publications s) i = Some p \<and> rp_state p = PubPublished"

text \<open>The pointers and the history of the Target, compared with the Target the coordinator started with.\<close>

definition pub_pointer :: "ReleaseAssetTarget \<Rightarrow> ReleasePublicationCoordinator \<Rightarrow> bool" where
  "pub_pointer t0 s \<longleftrightarrow> tgt_id (pb_target s) = tgt_id t0 \<and> tgt_acceptedArtifactTypes (pb_target s) = tgt_acceptedArtifactTypes t0
   \<and> (\<exists>new. at_releaseHistory (pb_target s) = at_releaseHistory t0 @ new
       \<and> (\<forall>r\<in>set new. \<exists>i p. published_as s i p \<and> rp_releaseId p = r)
       \<and> (new = [] \<and> at_currentReleaseId (pb_target s) = at_currentReleaseId t0 \<and> at_currentArtifactId (pb_target s) = at_currentArtifactId t0
          \<or> (\<exists>i p. published_as s i p \<and> at_currentReleaseId (pb_target s) = Some (rp_releaseId p)
               \<and> at_currentArtifactId (pb_target s) = Some (rp_artifactId p)
               \<and> at_releaseHistory (pb_target s) \<noteq> [] \<and> last (at_releaseHistory (pb_target s)) = rp_releaseId p)))"

definition pub_keys :: "ReleasePublicationCoordinator \<Rightarrow> bool" where
  "pub_keys s \<longleftrightarrow> (\<forall>k i. get_key (pb_idempotency s) k = Some i \<longrightarrow> has_key (pb_publications s) i)"

definition publishing_ok :: "string \<Rightarrow> ReleasePublicationCoordinator \<Rightarrow> bool" where
  "publishing_ok i s = (case get_key (pb_executions s) i of
     Some (Publishing call) \<Rightarrow> (\<exists>p. get_key (pb_publications s) i = Some p \<and> rp_state p = PubPublishing
       \<and> get_key (pb_releases s) (rp_releaseId p) = Some (pin_release call)
       \<and> find_artifact (pin_release call) (rp_artifactId p) = Some (pin_artifact call))
   | _ \<Rightarrow> map_option rp_state (get_key (pb_publications s) i) \<noteq> Some PubPublishing)"

definition pub_inv :: "ReleaseAssetTarget \<Rightarrow> ReleasePublicationCoordinator \<Rightarrow> bool" where
  "pub_inv t0 s \<longleftrightarrow> pub_ledger s \<and> pub_pointer t0 s \<and> pub_keys s \<and> (\<forall>i. publishing_ok i s)"

text \<open>What later calls keep.\<close>

definition same_publication :: "ReleasePublicationRecord \<Rightarrow> ReleasePublicationRecord \<Rightarrow> bool" where
  "same_publication p q \<longleftrightarrow> rp_id q = rp_id p \<and> rp_targetId q = rp_targetId p \<and> rp_releaseId q = rp_releaseId p
     \<and> rp_releaseDigest q = rp_releaseDigest p \<and> rp_artifactId q = rp_artifactId p \<and> rp_artifactDigest q = rp_artifactDigest p"

definition publication_before :: "ReleasePublicationCoordinator \<Rightarrow> ReleasePublicationCoordinator \<Rightarrow> bool" where
  "publication_before s t \<longleftrightarrow>
     (\<forall>i p. get_key (pb_publications s) i = Some p \<longrightarrow> (\<exists>q. get_key (pb_publications t) i = Some q \<and> same_publication p q
        \<and> (rp_state p = PubPublished \<longrightarrow> q = p)))
   \<and> (\<forall>k i. get_key (pb_idempotency s) k = Some i \<longrightarrow> get_key (pb_idempotency t) k = Some i)
   \<and> (\<forall>i r. get_key (pb_releases s) i = Some r \<longrightarrow> get_key (pb_releases t) i = Some r)
   \<and> (\<exists>es. pb_events t = pb_events s @ es)"

lemma same_publication_refl [simp]: "same_publication p p"
  by (simp add: same_publication_def)

lemma publication_before_refl [simp]: "publication_before s s"
  by (simp add: publication_before_def)

lemma publication_beforeD:
  "publication_before s t \<Longrightarrow> get_key (pb_publications s) i = Some p \<Longrightarrow>
     \<exists>q. get_key (pb_publications t) i = Some q \<and> same_publication p q \<and> (rp_state p = PubPublished \<longrightarrow> q = p)"
  "publication_before s t \<Longrightarrow> get_key (pb_idempotency s) k = Some i \<Longrightarrow> get_key (pb_idempotency t) k = Some i"
  by (simp_all add: publication_before_def)

lemma publication_before_trans: "publication_before s t \<Longrightarrow> publication_before t u \<Longrightarrow> publication_before s u"
proof -
  assume st: "publication_before s t" and tu: "publication_before t u"
  have "\<exists>q. get_key (pb_publications u) i = Some q \<and> same_publication p q \<and> (rp_state p = PubPublished \<longrightarrow> q = p)"
    if stored: "get_key (pb_publications s) i = Some p" for i p
  proof -
    obtain q where q: "get_key (pb_publications t) i = Some q" "same_publication p q" "rp_state p = PubPublished \<longrightarrow> q = p"
      using publication_beforeD(1) [OF st stored] by blast
    then obtain q' where "get_key (pb_publications u) i = Some q'" "same_publication q q'" "rp_state q = PubPublished \<longrightarrow> q' = q"
      using publication_beforeD(1) [OF tu] by blast
    with q show ?thesis by (auto simp: same_publication_def)
  qed
  moreover have "\<exists>es. pb_events u = pb_events s @ es" using st tu unfolding publication_before_def by (metis append.assoc)
  ultimately show ?thesis using st tu unfolding publication_before_def by blast
qed

section \<open>The primitive steps\<close>

text \<open>The state after an allowed transition.\<close>

definition publication_moved :: "ReleasePublicationRecord \<Rightarrow> ReleasePublicationState \<Rightarrow> ReleasePublicationCoordinator \<Rightarrow> ReleasePublicationCoordinator" where
  "publication_moved p dest s =
     emit_publication (p\<lparr>rp_state := dest\<rparr>) (Some (rp_state p)) dest (set_publication (p\<lparr>rp_state := dest\<rparr>) s)"

lemma publication_transition_allowed:
  "dest \<in> set (publication_transitions (rp_state p)) \<Longrightarrow> publication_transition p dest s = (Inr (p\<lparr>rp_state := dest\<rparr>), publication_moved p dest s)"
  by (simp add: publication_transition_def publication_moved_def return_def Let_def)

lemma publication_moved_simps [simp]:
  "pb_projectId (publication_moved p dest s) = pb_projectId s" "pb_target (publication_moved p dest s) = pb_target s"
  "pb_releases (publication_moved p dest s) = pb_releases s" "pb_executions (publication_moved p dest s) = pb_executions s"
  "pb_idempotency (publication_moved p dest s) = pb_idempotency s"
  "get_key (pb_publications (publication_moved p dest s)) i = (if i = rp_id p then Some (p\<lparr>rp_state := dest\<rparr>) else get_key (pb_publications s) i)"
  by (simp_all add: publication_moved_def emit_publication_def set_publication_def)

lemma has_key_moved [simp]: "has_key (pb_publications (publication_moved p dest s)) i \<longleftrightarrow> i = rp_id p \<or> has_key (pb_publications s) i"
  by (simp add: has_key_def)

text \<open>A record that differs from the stored one in what a call or an execution may write.\<close>

definition pub_stored :: "ReleasePublicationRecord \<Rightarrow> ReleasePublicationCoordinator \<Rightarrow> bool" where
  "pub_stored p s \<longleftrightarrow> (\<exists>q. get_key (pb_publications s) (rp_id p) = Some q \<and> rp_state q = rp_state p \<and> same_publication q p)
     \<and> rp_state p \<noteq> PubPublished"

lemma events_moved:
  "publication_events i (publication_moved p dest s)
     = publication_events i s @ (if i = rp_id p then [last (pb_events (publication_moved p dest s))] else [])"
  "re_from (last (pb_events (publication_moved p dest s))) = Some (rp_state p)" "re_to (last (pb_events (publication_moved p dest s))) = dest"
  by (simp_all add: publication_events_def publication_moved_def emit_publication_def set_publication_def)

lemma pub_stored_ok:
  assumes "pub_ledger s" "pub_stored p s"
  shows "rp_targetId p = tgt_id (pb_target s)" "bound_to_release p s"
proof -
  obtain q where q: "get_key (pb_publications s) (rp_id p) = Some q" "same_publication q p" using assms(2) by (auto simp: pub_stored_def)
  with pub_ledger_publication [OF assms(1)] have "publication_ok s (rp_id p) q" by blast
  with q(2) show "rp_targetId p = tgt_id (pb_target s)" "bound_to_release p s"
    by (simp_all add: publication_ok_def bound_to_release_def same_publication_def)
qed

lemma bound_to_release_cong [simp]: "bound_to_release (p\<lparr>rp_state := dest\<rparr>) s = bound_to_release p s"
  by (simp add: bound_to_release_def)

lemma bound_to_release_moved [simp]: "bound_to_release q (publication_moved p dest s) = bound_to_release q s"
  by (simp add: bound_to_release_def)

lemma pub_ledger_moved:
  assumes "pub_ledger s" "pub_stored p s" "dest \<in> set (publication_transitions (rp_state p))"
    and "dest = PubPublished \<Longrightarrow> rp_providerObjectId p \<noteq> None"
  shows "pub_ledger (publication_moved p dest s)"
  unfolding pub_ledger_def
proof (intro conjI allI impI)
  fix i q assume "get_key (pb_publications (publication_moved p dest s)) i = Some q"
  then show "publication_ok (publication_moved p dest s) i q"
    using assms(4) pub_stored_ok [OF assms(1,2)] pub_ledger_publication [OF assms(1), of i q]
    by (auto simp: publication_ok_def split: if_splits)
next
  show "map re_sequence (pb_events (publication_moved p dest s)) = [1..<Suc (length (pb_events (publication_moved p dest s)))]"
    using assms(1) by (simp add: pub_ledger_def publication_moved_def emit_publication_def set_publication_def)
next
  fix i
  have "publication_path None (publication_events i s)"
    "publication_end None (publication_events i s) = map_option rp_state (get_key (pb_publications s) i)"
    using assms(1) by (auto simp: pub_ledger_def)
  then show "publication_path None (publication_events i (publication_moved p dest s))"
    and "publication_end None (publication_events i (publication_moved p dest s)) = map_option rp_state (get_key (pb_publications (publication_moved p dest s)) i)"
    using assms(2,3) by (auto simp: events_moved pub_stored_def)
qed (use assms(1) in \<open>auto simp: pub_ledger_def\<close>)

lemma publication_before_moved: "pub_stored p s \<Longrightarrow> publication_before s (publication_moved p dest s)"
  by (auto simp: publication_before_def pub_stored_def same_publication_def publication_moved_def emit_publication_def set_publication_def)

text \<open>The Target may change its state only; the rest of the invariant does not read it.\<close>

definition same_pointer :: "ReleaseAssetTarget \<Rightarrow> ReleaseAssetTarget \<Rightarrow> bool" where
  "same_pointer t u \<longleftrightarrow> tgt_id u = tgt_id t \<and> tgt_acceptedArtifactTypes u = tgt_acceptedArtifactTypes t \<and> at_releaseHistory u = at_releaseHistory t
     \<and> at_currentReleaseId u = at_currentReleaseId t \<and> at_currentArtifactId u = at_currentArtifactId t"

lemma pub_pointer_keep:
  assumes "pub_pointer t0 s" "\<And>i p. published_as s i p \<Longrightarrow> published_as s' i p" "same_pointer (pb_target s) (pb_target s')"
  shows "pub_pointer t0 s'"
proof -
  obtain new where new: "at_releaseHistory (pb_target s) = at_releaseHistory t0 @ new"
      "\<forall>r\<in>set new. \<exists>i p. published_as s i p \<and> rp_releaseId p = r"
    and current: "new = [] \<and> at_currentReleaseId (pb_target s) = at_currentReleaseId t0 \<and> at_currentArtifactId (pb_target s) = at_currentArtifactId t0
      \<or> (\<exists>i p. published_as s i p \<and> at_currentReleaseId (pb_target s) = Some (rp_releaseId p)
           \<and> at_currentArtifactId (pb_target s) = Some (rp_artifactId p)
           \<and> at_releaseHistory (pb_target s) \<noteq> [] \<and> last (at_releaseHistory (pb_target s)) = rp_releaseId p)"
    using assms(1) unfolding pub_pointer_def by blast
  then show ?thesis
    unfolding pub_pointer_def using assms by (intro conjI exI [of _ new]) (auto simp: same_pointer_def pub_pointer_def, blast+)
qed

lemma published_moved: "pub_stored p s \<Longrightarrow> published_as s i q \<Longrightarrow> published_as (publication_moved p dest s) i q"
  by (auto simp: published_as_def pub_stored_def)

lemma pub_ledger_cong:
  "pb_publications s = pb_publications s' \<Longrightarrow> pb_releases s = pb_releases s' \<Longrightarrow> pb_events s = pb_events s'
     \<Longrightarrow> tgt_id (pb_target s) = tgt_id (pb_target s') \<Longrightarrow> tgt_acceptedArtifactTypes (pb_target s) = tgt_acceptedArtifactTypes (pb_target s')
     \<Longrightarrow> pub_ledger s = pub_ledger s'"
  by (simp add: pub_ledger_def publication_ok_def bound_to_release_def publication_events_def)

lemma publishing_ok_cong:
  "get_key (pb_publications s) i = get_key (pb_publications s') i \<Longrightarrow> pb_releases s = pb_releases s'
     \<Longrightarrow> get_key (pb_executions s) i = get_key (pb_executions s') i \<Longrightarrow> publishing_ok i s = publishing_ok i s'"
  by (auto simp: publishing_ok_def split: option.splits PublishingExecution.splits)

lemma pub_stored_self: "pub_ledger s \<Longrightarrow> get_key (pb_publications s) i = Some p \<Longrightarrow> rp_state p \<noteq> PubPublished \<Longrightarrow> pub_stored p s \<and> rp_id p = i"
  using pub_ledger_publication [of s i p] by (auto simp: pub_stored_def publication_ok_def)

text \<open>
  A step that moves one publication, writes its execution and at most the state of the Target, or its pointers when it is
  published.
\<close>

lemma pub_inv_moved:
  fixes s p
  assumes inv: "pub_inv t0 s" and stored: "pub_stored p s" and dest: "dest \<in> set (publication_transitions (rp_state p))"
    and object: "dest = PubPublished \<Longrightarrow> rp_providerObjectId p \<noteq> None"
    and target: "same_pointer (pb_target s) target \<or> dest = PubPublished \<and> tgt_id target = tgt_id (pb_target s)
       \<and> tgt_acceptedArtifactTypes target = tgt_acceptedArtifactTypes (pb_target s)
       \<and> at_currentReleaseId target = Some (rp_releaseId p) \<and> at_currentArtifactId target = Some (rp_artifactId p)
       \<and> at_releaseHistory target = at_releaseHistory (pb_target s)
           @ (if at_releaseHistory (pb_target s) \<noteq> [] \<and> last (at_releaseHistory (pb_target s)) = rp_releaseId p then [] else [rp_releaseId p])"
    and keys: "\<And>k i. get_key idempotency k = Some i \<Longrightarrow> get_key (pb_idempotency s) k = Some i \<or> i = rp_id p"
    and kept: "\<And>k i. get_key (pb_idempotency s) k = Some i \<Longrightarrow> get_key idempotency k = Some i"
    and others: "\<And>i. i \<noteq> rp_id p \<Longrightarrow> get_key executions i = get_key (pb_executions s) i"
    and mine: "publishing_ok (rp_id p) ((publication_moved p dest s)\<lparr>pb_executions := executions\<rparr>)"
  defines "t \<equiv> (publication_moved p dest s)\<lparr>pb_target := target, pb_idempotency := idempotency, pb_executions := executions\<rparr>"
  shows "pub_inv t0 t \<and> publication_before s t"
proof -
  have old: "pub_ledger s" "pub_pointer t0 s" "pub_keys s" "publishing_ok i s" for i using inv by (auto simp: pub_inv_def)
  have ids: "tgt_id target = tgt_id (pb_target s)" "tgt_acceptedArtifactTypes target = tgt_acceptedArtifactTypes (pb_target s)"
    using target by (auto simp: same_pointer_def)
  have "pub_ledger t = pub_ledger (publication_moved p dest s)" by (rule pub_ledger_cong) (simp_all add: t_def ids)
  then have "pub_ledger t" using pub_ledger_moved [OF old(1) stored dest object] by simp
  moreover have still: "published_as s i q \<Longrightarrow> published_as t i q" for i q
    using published_moved [OF stored, of i q dest] by (simp add: published_as_def t_def)
  have "pub_pointer t0 t"
    using target
  proof
    assume "same_pointer (pb_target s) target"
    with old(2) still show ?thesis by (rule_tac pub_pointer_keep [of t0 s]) (simp_all add: t_def)
  next
    assume new: "dest = PubPublished \<and> tgt_id target = tgt_id (pb_target s)
       \<and> tgt_acceptedArtifactTypes target = tgt_acceptedArtifactTypes (pb_target s)
       \<and> at_currentReleaseId target = Some (rp_releaseId p) \<and> at_currentArtifactId target = Some (rp_artifactId p)
       \<and> at_releaseHistory target = at_releaseHistory (pb_target s)
           @ (if at_releaseHistory (pb_target s) \<noteq> [] \<and> last (at_releaseHistory (pb_target s)) = rp_releaseId p then [] else [rp_releaseId p])"
    let ?h = "at_releaseHistory (pb_target s)"
    let ?new = "if ?h \<noteq> [] \<and> last ?h = rp_releaseId p then [] else [rp_releaseId p]"
    have now: "published_as t (rp_id p) (p\<lparr>rp_state := dest\<rparr>)" using new by (simp add: published_as_def t_def)
    obtain earlier where "?h = at_releaseHistory t0 @ earlier" "\<forall>r\<in>set earlier. \<exists>i q. published_as s i q \<and> rp_releaseId q = r"
      and "tgt_id (pb_target s) = tgt_id t0" "tgt_acceptedArtifactTypes (pb_target s) = tgt_acceptedArtifactTypes t0"
      using old(2) unfolding pub_pointer_def by blast
    moreover have "\<exists>i q. published_as t i q \<and> at_currentReleaseId target = Some (rp_releaseId q) \<and> at_currentArtifactId target = Some (rp_artifactId q)
        \<and> at_releaseHistory target \<noteq> [] \<and> last (at_releaseHistory target) = rp_releaseId q"
      using now new by (intro exI [of _ "rp_id p"] exI [of _ "p\<lparr>rp_state := dest\<rparr>"]) auto
    moreover have "\<forall>r\<in>set ?new. \<exists>i q. published_as t i q \<and> rp_releaseId q = r" using now by (auto intro!: exI)
    ultimately show ?thesis
      unfolding pub_pointer_def using new still by (intro conjI exI [of _ "earlier @ ?new"]) (auto simp: t_def, blast+)
  qed
  moreover have "pub_keys t" using old(3) keys by (auto simp: pub_keys_def t_def)
  moreover have "publishing_ok i t" for i
  proof (cases "i = rp_id p")
    case True
    have "publishing_ok (rp_id p) t = publishing_ok (rp_id p) ((publication_moved p dest s)\<lparr>pb_executions := executions\<rparr>)"
      by (rule publishing_ok_cong) (simp_all add: t_def)
    with mine True show ?thesis by simp
  next
    case False
    then have "publishing_ok i t = publishing_ok i s" using others by (intro publishing_ok_cong) (simp_all add: t_def)
    with old(4) show ?thesis by simp
  qed
  moreover have "publication_before s t"
    using publication_before_moved [OF stored, of dest] kept by (simp add: publication_before_def t_def)
  ultimately show ?thesis by (simp add: pub_inv_def)
qed

section \<open>The operations\<close>

lemma publication_moved_target: "publication_moved p dest (s\<lparr>pb_target := target\<rparr>) = (publication_moved p dest s)\<lparr>pb_target := target\<rparr>"
  "publication_moved p dest (s\<lparr>pb_idempotency := keys\<rparr>) = (publication_moved p dest s)\<lparr>pb_idempotency := keys\<rparr>"
  by (simp_all add: publication_moved_def emit_publication_def set_publication_def)

lemma same_target [simp]: "(publication_moved p dest s)\<lparr>pb_target := pb_target s\<rparr> = publication_moved p dest s"
  "(publication_moved p dest s)\<lparr>pb_idempotency := pb_idempotency s\<rparr> = publication_moved p dest s"
  "(publication_moved p dest s)\<lparr>pb_executions := pb_executions s\<rparr> = publication_moved p dest s"
  "(publication_moved p dest s)\<lparr>pb_idempotency := keys, pb_executions := pb_executions s\<rparr> = (publication_moved p dest s)\<lparr>pb_idempotency := keys\<rparr>"
  by (simp_all add: publication_moved_def emit_publication_def set_publication_def)

lemma finish_publication_simps [simp]: "finish_publication (Inl e, s) = (Inl e, s)" "finish_publication (Inr p, s) = (Inr (PublicationFinished p), s)"
  by (simp_all add: finish_publication_def return_def)

lemma same_pointer_refl [simp]: "same_pointer t t"
  by (simp add: same_pointer_def)

lemma execute_proposed:
  assumes "pub_ledger s" "get_key (pb_publications s) i = Some p" "rp_state p = PubProposed"
  obtains r a where "get_key (pb_releases s) (rp_releaseId p) = Some r" "find_artifact r (rp_artifactId p) = Some a"
    "execute_publication i s = (Inr (AwaitsPublish \<lparr>pin_publicationId = i, pin_attempt = rp_attempt p, pin_release = r,
       pin_artifact = a, pin_target = pb_target s\<rparr>), publication_moved p PubPublishing s)"
proof -
  have "publication_ok s i p" using pub_ledger_publication [OF assms(1,2)] .
  then obtain r a where "get_key (pb_releases s) (rp_releaseId p) = Some r" "find_artifact r (rp_artifactId p) = Some a" "rp_id p = i"
    by (auto simp: publication_ok_def bound_to_release_def)
  with assms show ?thesis
    by (intro that) (simp_all add: execute_publication_def publication_transition_allowed return_def)
qed

text \<open>A change of the executions alone.\<close>

lemma pub_inv_executions:
  assumes "pub_inv t0 s" "\<And>j. j \<noteq> i \<Longrightarrow> get_key executions j = get_key (pb_executions s) j" "publishing_ok i (s\<lparr>pb_executions := executions\<rparr>)"
  shows "pub_inv t0 (s\<lparr>pb_executions := executions\<rparr>) \<and> publication_before s (s\<lparr>pb_executions := executions\<rparr>)"
proof -
  let ?t = "s\<lparr>pb_executions := executions\<rparr>"
  have "publishing_ok j ?t" for j
    using assms publishing_ok_cong [of s j ?t] by (cases "j = i") (auto simp: pub_inv_def)
  moreover have "pub_ledger ?t = pub_ledger s" by (rule pub_ledger_cong) simp_all
  moreover have "pub_pointer t0 ?t" using assms(1) by (auto simp: pub_inv_def published_as_def intro: pub_pointer_keep)
  ultimately show ?thesis using assms(1) by (simp add: pub_inv_def pub_keys_def publication_before_def)
qed

lemma executePublicationOnce_inv:
  assumes inv: "pub_inv t0 s" and p: "get_key (pb_publications s) i = Some p"
  shows "pub_inv t0 (executePublicationOnce i s) \<and> publication_before s (executePublicationOnce i s)"
proof (cases "has_key (pb_executions s) i")
  case False
  have ledger: "pub_ledger s" and "publishing_ok i s" using inv by (auto simp: pub_inv_def)
  then have "rp_state p \<noteq> PubPublishing" using False p by (simp add: publishing_ok_def has_key_def)
  show ?thesis
  proof (cases "rp_state p = PubProposed")
    case True
    from execute_proposed [OF ledger p True] obtain r a where r: "get_key (pb_releases s) (rp_releaseId p) = Some r" "find_artifact r (rp_artifactId p) = Some a"
      and e: "execute_publication i s = (Inr (AwaitsPublish \<lparr>pin_publicationId = i, pin_attempt = rp_attempt p, pin_release = r,
        pin_artifact = a, pin_target = pb_target s\<rparr>), publication_moved p PubPublishing s)" .
    have stored: "pub_stored p s" "rp_id p = i" using pub_stored_self [OF ledger p] True by auto
    let ?e = "set_key i (Publishing \<lparr>pin_publicationId = i, pin_attempt = rp_attempt p, pin_release = r, pin_artifact = a, pin_target = pb_target s\<rparr>) (pb_executions s)"
    have "pub_inv t0 ((publication_moved p PubPublishing s)\<lparr>pb_target := pb_target s, pb_idempotency := pb_idempotency s, pb_executions := ?e\<rparr>)
       \<and> publication_before s ((publication_moved p PubPublishing s)\<lparr>pb_target := pb_target s, pb_idempotency := pb_idempotency s, pb_executions := ?e\<rparr>)"
      using inv stored True r by (intro pub_inv_moved) (simp_all add: publishing_ok_def)
    then show ?thesis using False by (simp add: executePublicationOnce_def e set_publishing_def)
  next
    case other: False
    then have "execute_publication i s = (Inr (PublicationFinished p), s)" using p by (simp add: execute_publication_def return_def)
    moreover have "pub_inv t0 (s\<lparr>pb_executions := set_key i (PublishingSettled (Inr p)) (pb_executions s)\<rparr>)
        \<and> publication_before s (s\<lparr>pb_executions := set_key i (PublishingSettled (Inr p)) (pb_executions s)\<rparr>)"
      using inv p \<open>rp_state p \<noteq> PubPublishing\<close> by (intro pub_inv_executions [where i = i]) (simp_all add: publishing_ok_def)
    ultimately show ?thesis using False by (simp add: executePublicationOnce_def set_publishing_def)
  qed
qed (use inv in \<open>simp add: executePublicationOnce_def\<close>)

text \<open>What an answer of the adapter does.\<close>

definition publish_accepted :: "PublishedArtifact reply \<Rightarrow> ReleasePublicationRecord \<Rightarrow> bool" where
  "publish_accepted reply p \<longleftrightarrow> (\<exists>v. reply = Replied (AdapterSucceeded v) \<and> providerMatches v p)"

lemma after_publish_moves:
  assumes "rp_state p = PubPublishing"
  obtains p' dest target where "after_publish call (invoke_publish reply) p s
      = (Inr (PublicationFinished (p'\<lparr>rp_state := dest\<rparr>)), (publication_moved p' dest s)\<lparr>pb_target := target\<rparr>)"
    "same_publication p p'" "rp_state p' = PubPublishing" "dest \<in> {PubPublished, PubFailed, PubBlocked, PubDegraded}"
    "dest = PubPublished \<longleftrightarrow> publish_accepted reply p" "dest = PubPublished \<Longrightarrow> rp_providerObjectId p' \<noteq> None"
    "if dest = PubPublished then target = published_target call (pb_target s) else same_pointer (pb_target s) target"
proof (cases "invoke_publish reply")
  case (AdapterFailed failure)
  let ?st = "failure_state failure"
  let ?target = "if ?st = PubDegraded then (pb_target s)\<lparr>at_publicationState := AssetDegraded\<rparr> else pb_target s"
  have st: "?st \<in> {PubFailed, PubBlocked, PubDegraded}" by (simp add: failure_state_def)
  have "after_publish call (invoke_publish reply) p s = (Inr (PublicationFinished (p\<lparr>rp_state := ?st\<rparr>)), (publication_moved p ?st s)\<lparr>pb_target := ?target\<rparr>)"
    using assms st by (auto simp: AdapterFailed after_publish_def fail_publication_def publication_transition_allowed set_publication_state_def publication_moved_target)
  moreover have "\<not> publish_accepted reply p" using AdapterFailed by (auto simp: publish_accepted_def)
  ultimately show ?thesis using assms st by (intro that [where p' = p and dest = ?st and target = ?target]) (auto simp: same_pointer_def)
next
  case (AdapterSucceeded v)
  then have reply: "reply = Replied (AdapterSucceeded v)" by (cases reply) (auto simp: adapterThrown_def)
  show ?thesis
  proof (cases "providerMatches v p")
    case True
    have "after_publish call (invoke_publish reply) p s = (Inr (PublicationFinished ((provider_fields v p)\<lparr>rp_state := PubPublished\<rparr>)),
        (publication_moved (provider_fields v p) PubPublished s)\<lparr>pb_target := published_target call (pb_target s)\<rparr>)"
      using assms True by (simp add: AdapterSucceeded after_publish_def publication_transition_allowed publication_moved_target provider_fields_def)
    then show ?thesis using assms True reply
      by (intro that [where p' = "provider_fields v p" and dest = PubPublished]) (auto simp: publish_accepted_def provider_fields_def same_publication_def)
  next
    case False
    let ?target = "(pb_target s)\<lparr>at_publicationState := AssetDegraded\<rparr>"
    have "after_publish call (invoke_publish reply) p s = (Inr (PublicationFinished (p\<lparr>rp_state := PubDegraded\<rparr>)),
        (publication_moved p PubDegraded s)\<lparr>pb_target := ?target\<rparr>)"
      using assms False by (simp add: AdapterSucceeded after_publish_def fail_publication_def publication_transition_allowed
          set_publication_state_def publication_moved_target)
    then show ?thesis using assms False reply by (intro that [where p' = p and dest = PubDegraded and target = ?target]) (auto simp: publish_accepted_def same_pointer_def)
  qed
qed

lemma publish_reply_moves:
  assumes inv: "pub_inv t0 s" and running: "get_key (pb_executions s) i = Some (Publishing call)"
  obtains p p' dest target where "get_key (pb_publications s) i = Some p" "rp_id p' = i" "dest \<in> {PubPublished, PubFailed, PubBlocked, PubDegraded}"
    "dest = PubPublished \<longleftrightarrow> publish_accepted reply p" "same_publication p p'"
    "publish_reply i reply s = (publication_moved p' dest s)\<lparr>pb_target := target, pb_idempotency := pb_idempotency s,
       pb_executions := set_key i (PublishingSettled (Inr (p'\<lparr>rp_state := dest\<rparr>))) (pb_executions s)\<rparr>"
    "pub_inv t0 (publish_reply i reply s)" "publication_before s (publish_reply i reply s)"
proof -
  have ledger: "pub_ledger s" and "publishing_ok i s" using inv by (auto simp: pub_inv_def)
  then obtain p where p: "get_key (pb_publications s) i = Some p" "rp_state p = PubPublishing"
    and call: "get_key (pb_releases s) (rp_releaseId p) = Some (pin_release call)" "find_artifact (pin_release call) (rp_artifactId p) = Some (pin_artifact call)"
    using running by (auto simp: publishing_ok_def)
  obtain p' dest target where after: "after_publish call (invoke_publish reply) p s
      = (Inr (PublicationFinished (p'\<lparr>rp_state := dest\<rparr>)), (publication_moved p' dest s)\<lparr>pb_target := target\<rparr>)"
    and same: "same_publication p p'" "rp_state p' = PubPublishing" and dest: "dest \<in> {PubPublished, PubFailed, PubBlocked, PubDegraded}"
    and accepted: "dest = PubPublished \<longleftrightarrow> publish_accepted reply p" and object: "dest = PubPublished \<Longrightarrow> rp_providerObjectId p' \<noteq> None"
    and target: "if dest = PubPublished then target = published_target call (pb_target s) else same_pointer (pb_target s) target"
    using after_publish_moves [OF p(2)] by metis
  have stored: "pub_stored p' s" "rp_id p' = i"
    using pub_stored_self [OF ledger p(1)] p same by (auto simp: pub_stored_def same_publication_def)
  let ?e = "set_key i (PublishingSettled (Inr (p'\<lparr>rp_state := dest\<rparr>))) (pb_executions s)"
  have eq: "publish_reply i reply s = (publication_moved p' dest s)\<lparr>pb_target := target, pb_idempotency := pb_idempotency s, pb_executions := ?e\<rparr>"
    by (simp add: publish_reply_def running p(1) after set_publishing_def publication_moved_def emit_publication_def set_publication_def)
  have "rel_id (ir_release (pin_release call)) = rp_releaseId p'" "art_id (pin_artifact call) = rp_artifactId p'"
    using ledger call same by (auto simp: pub_ledger_def same_publication_def find_artifact_def find_Some_iff)
  then have "same_pointer (pb_target s) target \<or> dest = PubPublished \<and> tgt_id target = tgt_id (pb_target s)
       \<and> tgt_acceptedArtifactTypes target = tgt_acceptedArtifactTypes (pb_target s)
       \<and> at_currentReleaseId target = Some (rp_releaseId p') \<and> at_currentArtifactId target = Some (rp_artifactId p')
       \<and> at_releaseHistory target = at_releaseHistory (pb_target s)
           @ (if at_releaseHistory (pb_target s) \<noteq> [] \<and> last (at_releaseHistory (pb_target s)) = rp_releaseId p' then [] else [rp_releaseId p'])"
    using target by (auto simp: published_target_def Let_def split: if_splits)
  then have "pub_inv t0 (publish_reply i reply s) \<and> publication_before s (publish_reply i reply s)"
    unfolding eq using inv stored same dest object by (intro pub_inv_moved) (auto simp: publishing_ok_def)
  then show ?thesis using that p(1) stored(2) dest accepted same(1) eq by blast
qed

lemma publish_reply_inv: "pub_inv t0 s \<Longrightarrow> pub_inv t0 (publish_reply i reply s) \<and> publication_before s (publish_reply i reply s)"
proof (cases "\<exists>call. get_key (pb_executions s) i = Some (Publishing call)")
  case False
  then have "publish_reply i reply s = s" by (auto simp: publish_reply_def split: option.split PublishingExecution.split)
  then show "pub_inv t0 s \<Longrightarrow> ?thesis" by simp
next
  case True
  assume "pub_inv t0 s"
  with True publish_reply_moves show ?thesis by blast
qed

lemma publishing_cleanup_inv: "pub_inv t0 s \<Longrightarrow> pub_inv t0 (publishing_cleanup i s) \<and> publication_before s (publishing_cleanup i s)"
proof -
  assume inv: "pub_inv t0 s"
  then have ok: "publishing_ok i s" by (simp add: pub_inv_def)
  show ?thesis
  proof (cases "\<exists>x. get_key (pb_executions s) i = Some (PublishingSettled x)")
    case True
    then have "pub_inv t0 (s\<lparr>pb_executions := delete_key i (pb_executions s)\<rparr>) \<and> publication_before s (s\<lparr>pb_executions := delete_key i (pb_executions s)\<rparr>)"
      using inv ok by (intro pub_inv_executions [where i = i]) (auto simp: publishing_ok_def)
    with True show ?thesis by (auto simp: publishing_cleanup_def)
  next
    case False
    then have "publishing_cleanup i s = s" by (auto simp: publishing_cleanup_def split: option.split PublishingExecution.split)
    with inv show ?thesis by simp
  qed
qed

lemma registerPublishable_inv:
  assumes inv: "pub_inv t0 s"
  shows "pub_inv t0 (snd (registerPublishable release s)) \<and> publication_before s (snd (registerPublishable release s))"
proof (cases "ir_projectId release = pb_projectId s \<and> get_key (pb_releases s) (rel_id (ir_release release)) = None")
  case True
  let ?t = "s\<lparr>pb_releases := set_key (rel_id (ir_release release)) release (pb_releases s)\<rparr>"
  have keep: "get_key (pb_releases s) j = Some r \<Longrightarrow> get_key (pb_releases ?t) j = Some r" for j r using True by auto
  have "bound_to_release p ?t" if "bound_to_release p s" for p
    using that keep unfolding bound_to_release_def by (auto simp del: jsm.lookup_store)
  then have "pub_ledger ?t" using inv by (auto simp: pub_inv_def pub_ledger_def publication_ok_def publication_events_def)
  moreover have "pub_pointer t0 ?t" using inv by (auto simp: pub_inv_def published_as_def intro: pub_pointer_keep)
  moreover have "publishing_ok j ?t" if "publishing_ok j s" for j
    using that keep by (auto simp: publishing_ok_def simp del: jsm.lookup_store split: option.splits PublishingExecution.splits)
  moreover have "registerPublishable release s = (Inr (), ?t)" using True by (simp add: registerPublishable_def return_def)
  ultimately show ?thesis using inv keep by (auto simp: pub_inv_def pub_keys_def publication_before_def simp del: jsm.lookup_store)
next
  case False
  then have "snd (registerPublishable release s) = s" by (auto simp: registerPublishable_def raise_def return_def split: option.split)
  with inv show ?thesis by simp
qed

text \<open>A request that is recorded: a fresh publication in the state proposed, its event and its key.\<close>

lemma request_commit_inv:
  fixes s p key
  defines "t \<equiv> snd (request_commit p key s)"
  assumes inv: "pub_inv t0 s" and fresh: "get_key (pb_publications s) (rp_id p) = None" and unused: "get_key (pb_idempotency s) key = None"
    and p: "rp_state p = PubProposed" "rp_targetId p = tgt_id (pb_target s)" "bound_to_release p s"
  shows "pub_inv t0 t \<and> publication_before s t \<and> get_key (pb_publications t) (rp_id p) = Some p \<and> get_key (pb_idempotency t) key = Some (rp_id p)"
proof -
  have get: "get_key (pb_publications t) i = (if i = rp_id p then Some p else get_key (pb_publications s) i)" for i
    by (simp add: t_def request_commit_def return_def emit_publication_def set_publication_def)
  have same: "pb_target t = pb_target s" "pb_releases t = pb_releases s" "pb_executions t = pb_executions s"
    "pb_idempotency t = set_key key (rp_id p) (pb_idempotency s)"
    by (simp_all add: t_def request_commit_def return_def emit_publication_def set_publication_def)
  have events: "pb_events t = pb_events s @ [last (pb_events t)]" "re_publicationId (last (pb_events t)) = rp_id p"
    "re_from (last (pb_events t)) = None" "re_to (last (pb_events t)) = PubProposed" "re_sequence (last (pb_events t)) = length (pb_events s) + 1"
    by (simp_all add: t_def request_commit_def return_def emit_publication_def set_publication_def)
  have path_events: "publication_events i t = publication_events i s @ (if i = rp_id p then [last (pb_events t)] else [])" for i
    by (subst publication_events_def, subst events(1)) (simp add: publication_events_def events(2))
  have old: "pub_ledger s" "pub_pointer t0 s" "pub_keys s" "publishing_ok i s" for i using inv by (auto simp: pub_inv_def)
  have "pub_ledger t" unfolding pub_ledger_def
  proof (intro conjI allI impI)
    fix i q assume "get_key (pb_publications t) i = Some q"
    then show "publication_ok t i q" using pub_ledger_publication [OF old(1), of i q] p
      by (auto simp: get same publication_ok_def bound_to_release_def split: if_splits)
  next
    show "map re_sequence (pb_events t) = [1..<Suc (length (pb_events t))]"
      using old(1) by (subst (1 2) events(1)) (simp add: pub_ledger_def events(5))
  next
    fix i
    have "publication_path None (publication_events i s)"
      "publication_end None (publication_events i s) = map_option rp_state (get_key (pb_publications s) i)"
      using old(1) by (auto simp: pub_ledger_def)
    then show "publication_path None (publication_events i t)"
      "publication_end None (publication_events i t) = map_option rp_state (get_key (pb_publications t) i)"
      using fresh p(1) by (auto simp: path_events events(3,4) get)
  qed (use old(1) in \<open>auto simp: same pub_ledger_def\<close>)
  moreover have "published_as s i q \<Longrightarrow> published_as t i q" for i q using fresh by (auto simp: published_as_def get)
  then have "pub_pointer t0 t" using old(2) by (rule_tac pub_pointer_keep [of t0 s]) (simp_all add: same)
  moreover have "pub_keys t" using old(3) by (auto simp: pub_keys_def same get has_key_def)
  moreover have "publishing_ok i t" for i
  proof (cases "i = rp_id p")
    case True
    with old(4) [of i] fresh p(1) show ?thesis by (auto simp: publishing_ok_def get same split: option.splits PublishingExecution.splits)
  next
    case False
    then have "publishing_ok i t = publishing_ok i s" by (intro publishing_ok_cong) (simp_all add: get same)
    with old(4) show ?thesis by simp
  qed
  moreover have "publication_before s t"
    using fresh unused events(1) unfolding publication_before_def by (auto simp: get same)
  ultimately show ?thesis by (simp add: pub_inv_def get same)
qed

lemma new_publication_simps [simp]:
  "rp_id (new_publication uuid input release artifact expected s) = opaqueId ''release-publication'' uuid"
  "rp_state (new_publication uuid input release artifact expected s) = PubProposed"
  "rp_targetId (new_publication uuid input release artifact expected s) = tgt_id (pb_target s)"
  "rp_releaseId (new_publication uuid input release artifact expected s) = rel_id (ir_release release)"
  "rp_releaseDigest (new_publication uuid input release artifact expected s) = ir_releaseDigest release"
  "rp_artifactId (new_publication uuid input release artifact expected s) = art_id artifact"
  "rp_artifactDigest (new_publication uuid input release artifact expected s) = art_digest artifact"
  by (simp_all add: new_publication_def)

text \<open>An accepted request names the publication of its key from then on.\<close>

definition answers_request :: "ReleasePublicationRequest \<Rightarrow> ReleasePublicationRecord \<Rightarrow> ReleasePublicationCoordinator \<Rightarrow> bool" where
  "answers_request input p s \<longleftrightarrow> get_key (pb_idempotency s) (rpq_idempotencyKey input) = Some (rp_id p)
     \<and> get_key (pb_publications s) (rp_id p) = Some p \<and> rp_releaseId p = rpq_releaseId input \<and> rp_artifactId p = rpq_artifactId input"

lemma requestPublication_cases:
  assumes inv: "pub_inv t0 s" and fresh: "get_key (pb_publications s) (opaqueId ''release-publication'' uuid) = None"
  shows "pub_inv t0 (snd (requestPublication uuid input s)) \<and> publication_before s (snd (requestPublication uuid input s))
    \<and> (\<forall>p. fst (requestPublication uuid input s) = Inr p \<longrightarrow> answers_request input p (snd (requestPublication uuid input s)))
    \<and> (isl (fst (requestPublication uuid input s)) \<longrightarrow> snd (requestPublication uuid input s) = s)"
proof -
  have ledger: "pub_ledger s" using inv by (simp add: pub_inv_def)
  have "(\<exists>i p. get_key (pb_idempotency s) (rpq_idempotencyKey input) = Some i \<and> get_key (pb_publications s) i = Some p
        \<and> requestPublication uuid input s = return p s \<and> rp_releaseId p = rpq_releaseId input \<and> rp_artifactId p = rpq_artifactId input)
    \<or> (\<exists>release artifact. get_key (pb_idempotency s) (rpq_idempotencyKey input) = None
        \<and> get_key (pb_releases s) (rpq_releaseId input) = Some release \<and> find_artifact release (rpq_artifactId input) = Some artifact
        \<and> art_type artifact \<in> set (tgt_acceptedArtifactTypes (pb_target s))
        \<and> requestPublication uuid input s
            = request_commit (new_publication uuid input release artifact (at_currentReleaseId (pb_target s)) s) (rpq_idempotencyKey input) s)
    \<or> (\<exists>e. requestPublication uuid input s = raise e s)"
    by (auto simp: requestPublication_def Let_def split: option.split)
  then consider (old) i p where "get_key (pb_idempotency s) (rpq_idempotencyKey input) = Some i" "get_key (pb_publications s) i = Some p"
      "requestPublication uuid input s = return p s" "rp_releaseId p = rpq_releaseId input" "rp_artifactId p = rpq_artifactId input"
    | (new) release artifact where "get_key (pb_idempotency s) (rpq_idempotencyKey input) = None"
      "get_key (pb_releases s) (rpq_releaseId input) = Some release" "find_artifact release (rpq_artifactId input) = Some artifact"
      "art_type artifact \<in> set (tgt_acceptedArtifactTypes (pb_target s))"
      "requestPublication uuid input s = request_commit (new_publication uuid input release artifact (at_currentReleaseId (pb_target s)) s) (rpq_idempotencyKey input) s"
    | (refused) e where "requestPublication uuid input s = raise e s"
    by blast
  then show ?thesis
  proof cases
    case old
    have "rp_id p = i" using pub_ledger_publication [OF ledger old(2)] by (simp add: publication_ok_def)
    with old inv show ?thesis by (simp add: return_def answers_request_def)
  next
    case new
    let ?p = "new_publication uuid input release artifact (at_currentReleaseId (pb_target s)) s"
    have ids: "rel_id (ir_release release) = rpq_releaseId input" "art_id artifact = rpq_artifactId input"
      using ledger new(2,3) by (auto simp: pub_ledger_def find_artifact_def find_Some_iff)
    have request_committed: "fst (request_commit ?p key s) = Inr ?p" for key by (simp add: request_commit_def return_def)
    have "bound_to_release ?p s" using new(2-4) ids by (simp add: bound_to_release_def)
    from request_commit_inv [OF inv _ new(1) _ _ this] fresh show ?thesis
      by (simp add: new(5) answers_request_def ids request_committed)
  qed (use inv in \<open>simp add: raise_def\<close>)
qed

lemma publish_inv:
  assumes "pub_inv t0 s" "get_key (pb_publications s) (opaqueId ''release-publication'' uuid) = None"
  shows "pub_inv t0 (snd (publish uuid input s)) \<and> publication_before s (snd (publish uuid input s))"
proof (cases "requestPublication uuid input s" rule: void.cases)
  case (1 e t)
  with requestPublication_cases [OF assms, of input] assms(1) show ?thesis by (simp add: publish_def)
next
  case (2 p t)
  then have t: "pub_inv t0 t" "publication_before s t" "get_key (pb_publications t) (rp_id p) = Some p"
    using requestPublication_cases [OF assms, of input] by (auto simp: answers_request_def)
  have "snd (publish uuid input s) = t \<or> snd (publish uuid input s) = executePublicationOnce (rp_id p) t"
    by (simp add: publish_def 2 return_def)
  with t executePublicationOnce_inv [OF t(1,3)] show ?thesis by (metis publication_before_trans)
qed

lemma retryPublication_inv:
  assumes inv: "pub_inv t0 s"
  shows "pub_inv t0 (snd (retryPublication input s)) \<and> publication_before s (snd (retryPublication input s))"
proof -
  have ledger: "pub_ledger s" using inv by (simp add: pub_inv_def)
  have "snd (retryPublication input s) = s \<or> (\<exists>p. get_key (pb_idempotency s) (rpr_idempotencyKey input) = None
      \<and> get_key (pb_publications s) (rpr_publicationId input) = Some p \<and> rp_state p \<in> {PubFailed, PubBlocked, PubDegraded})"
    by (auto simp: retryPublication_def raise_def return_def split: option.split)
  then consider (same) "snd (retryPublication input s) = s"
    | (retry) p where "get_key (pb_idempotency s) (rpr_idempotencyKey input) = None" "get_key (pb_publications s) (rpr_publicationId input) = Some p"
      "rp_state p \<in> {PubFailed, PubBlocked, PubDegraded}"
    by blast
  then show ?thesis
  proof cases
    case retry
    let ?q = "retried_publication input p s"
    let ?keys = "set_key (rpr_idempotencyKey input) (rp_id p) (pb_idempotency s)"
    let ?t = "(publication_moved ?q PubProposed s)\<lparr>pb_target := pb_target s, pb_idempotency := ?keys, pb_executions := pb_executions s\<rparr>"
    have stored: "pub_stored p s" "rp_id p = rpr_publicationId input" using pub_stored_self [OF ledger retry(2)] retry(3) by auto
    have q: "rp_state ?q = rp_state p" "rp_id ?q = rp_id p" "same_publication p ?q"
      by (simp_all add: retried_publication_def same_publication_def)
    have "pub_stored ?q s" using stored(1) q by (auto simp: pub_stored_def same_publication_def)
    moreover have "publishing_ok (rp_id p) s" using inv by (simp add: pub_inv_def)
    then have "publishing_ok (rp_id p) ((publication_moved ?q PubProposed s)\<lparr>pb_executions := pb_executions s\<rparr>)"
      using retry(2,3) stored(2) q(2) by (auto simp: publishing_ok_def split: option.splits PublishingExecution.splits)
    ultimately have t: "pub_inv t0 ?t \<and> publication_before s ?t"
      using inv retry(1,3) q(1,2) by (intro pub_inv_moved) (auto split: if_splits)
    have "snd (retryPublication input s) = executePublicationOnce (rp_id p) ?t"
      using retry q(1,2) by (auto simp: retryPublication_def publication_transition_allowed publication_moved_target return_def)
    moreover have "get_key (pb_publications ?t) (rp_id p) = Some (?q\<lparr>rp_state := PubProposed\<rparr>)" using q(2) by simp
    note once = executePublicationOnce_inv [OF conjunct1 [OF t] this]
    have "publication_before s (executePublicationOnce (rp_id p) ?t)" by (rule publication_before_trans [OF conjunct2 [OF t] conjunct2 [OF once]])
    with once have "pub_inv t0 (executePublicationOnce (rp_id p) ?t) \<and> publication_before s (executePublicationOnce (rp_id p) ?t)" by blast
    ultimately show ?thesis by presburger
  qed (use inv in simp)
qed

definition pub_good :: "ReleaseAssetTarget \<Rightarrow> ReleasePublicationCoordinator \<Rightarrow> ReleasePublicationCoordinator \<Rightarrow> bool" where
  "pub_good t0 s t \<longleftrightarrow> (pub_inv t0 s \<longrightarrow> pub_inv t0 t \<and> publication_before s t)"

lemma pb_step_good: "pb_ok s x \<Longrightarrow> pub_good t0 s (snd (pb_step x s))"
  unfolding pub_good_def
  by (cases x) (auto simp: requestPublication_cases publish_inv retryPublication_inv publish_reply_inv publishing_cleanup_inv registerPublishable_inv)

interpretation publications: invariant_machine pb_step pb_ok "pub_inv t0"
  by unfold_locales (use pb_step_good in \<open>auto simp: pub_good_def\<close>)

interpretation publication_records: growing_machine pb_step pb_ok "pub_good t0"
proof unfold_locales
  show "pub_good t0 s s" for s by (simp add: pub_good_def)
  show "pub_good t0 s t \<Longrightarrow> pub_good t0 t u \<Longrightarrow> pub_good t0 s u" for s t u unfolding pub_good_def using publication_before_trans by blast
qed (rule pb_step_good)

lemma new_publications_inv:
  assumes "new_publications projectId target adapterId releases = Inr s"
  shows "pub_inv target s"
proof -
  let ?s = "\<lparr>pb_projectId = projectId, pb_target = target, pb_releases = [], pb_publications = [], pb_idempotency = [], pb_executions = [], pb_events = []\<rparr>"
  have "pub_inv target ?s"
    by (auto simp: pub_inv_def pub_ledger_def pub_pointer_def pub_keys_def publishing_ok_def publication_events_def)
  moreover have "pub_inv target t \<Longrightarrow> (case registerPublishable release t of (Inl e, _) \<Rightarrow> Inl e | (Inr _, t') \<Rightarrow> Inr t') = Inr t' \<Longrightarrow> pub_inv target t'"
    for release t t' using registerPublishable_inv [of target t release] by (auto split: prod.splits sum.splits)
  moreover have "register_publishables releases ?s = Inr s" using assms by (auto simp: new_publications_def loop_simps)
  ultimately show ?thesis
    unfolding register_publishables_def by (rule_tac fold_loop_invariant [where P = "pub_inv target"]) assumption+
qed

section \<open>What the coordinator promises\<close>

definition pub_reachable :: "ReleaseAssetTarget \<Rightarrow> ReleasePublicationCoordinator \<Rightarrow> bool" where
  "pub_reachable target s \<longleftrightarrow> (\<exists>projectId adapterId releases s0 xs. new_publications projectId target adapterId releases = Inr s0
     \<and> admissible pb_ok pb_step xs s0 \<and> s = run_ops pb_step xs s0)"

lemma pub_reachable_inv: "pub_reachable target s \<Longrightarrow> pub_inv target s"
  unfolding pub_reachable_def using publications.run_inv new_publications_inv by blast


text \<open>
  C33. A published record is final: whatever calls and answers follow, it stays as it is, and no execution of it waits for
  the adapter again.
\<close>

theorem published_is_final:
  assumes "pub_reachable target s" "get_key (pb_publications s) i = Some p" "rp_state p = PubPublished"
    and "admissible pb_ok pb_step xs s" "t = run_ops pb_step xs s"
  shows "get_key (pb_publications t) i = Some p \<and> get_key (pb_executions t) i \<noteq> Some (Publishing call)"
proof -
  have "pub_inv target t \<and> publication_before s t"
    using publication_records.run_grows [OF assms(4)] pub_reachable_inv [OF assms(1)] by (simp add: pub_good_def assms(5))
  then have p: "get_key (pb_publications t) i = Some p" and "publishing_ok i t"
    using assms(2,3) unfolding publication_before_def pub_inv_def by blast+
  then have "get_key (pb_executions t) i \<noteq> Some (Publishing call)" using assms(3) by (auto simp: publishing_ok_def)
  with p show ?thesis ..
qed

text \<open>
  An idempotency key names one publication for good: once a request was accepted, a request with the same key, Release
  and Artifact is answered with that publication in every later state, and changes nothing.
\<close>

theorem repeated_request_is_answered:
  assumes "pub_reachable target s" "get_key (pb_publications s) (opaqueId ''release-publication'' uuid) = None"
    and "requestPublication uuid input s = (Inr p, t)" "admissible pb_ok pb_step xs t" "t' = run_ops pb_step xs t"
    and "rpq_idempotencyKey input' = rpq_idempotencyKey input" "rpq_releaseId input' = rpq_releaseId input" "rpq_artifactId input' = rpq_artifactId input"
  shows "\<exists>q. requestPublication uuid' input' t' = (Inr q, t') \<and> same_publication p q"
proof -
  have t: "pub_inv target t" "answers_request input p t"
    using requestPublication_cases [OF pub_reachable_inv [OF assms(1)] assms(2), of input] assms(3) by auto
  have "publication_before t t'" using publication_records.run_grows [OF assms(4)] t(1) by (simp add: pub_good_def assms(5))
  with t(2) obtain q where q: "get_key (pb_publications t') (rp_id p) = Some q" "same_publication p q"
    and "get_key (pb_idempotency t') (rpq_idempotencyKey input) = Some (rp_id p)"
    unfolding publication_before_def answers_request_def by blast
  then have "requestPublication uuid' input' t' = (Inr q, t')"
    using t(2) assms(6-8) by (auto simp: requestPublication_def answers_request_def same_publication_def return_def)
  with q(2) show ?thesis by blast
qed

text \<open>
  Progress. In every reachable state a publication that is publishing has an execution that waits for the adapter, and
  every answer, a thrown error included, settles it: it is published exactly when the adapter confirmed the very Target,
  Release, Artifact and digests, and failed, blocked or degraded otherwise.
\<close>

theorem publications_settle:
  assumes "pub_reachable target s" "get_key (pb_publications s) i = Some p" "rp_state p = PubPublishing"
  shows "(\<exists>call. get_key (pb_executions s) i = Some (Publishing call))
    \<and> (\<exists>q. get_key (pb_publications (publish_reply i reply s)) i = Some q
         \<and> get_key (pb_executions (publish_reply i reply s)) i = Some (PublishingSettled (Inr q))
         \<and> (rp_state q = PubPublished \<longleftrightarrow> publish_accepted reply p)
         \<and> rp_state q \<in> {PubPublished, PubFailed, PubBlocked, PubDegraded})"
proof -
  have inv: "pub_inv target s" by (rule pub_reachable_inv [OF assms(1)])
  then have "publishing_ok i s" by (simp add: pub_inv_def)
  then obtain call where call: "get_key (pb_executions s) i = Some (Publishing call)"
    using assms(2,3) by (auto simp: publishing_ok_def split: option.splits PublishingExecution.splits)
  show ?thesis
    by (rule publish_reply_moves [OF inv call, where reply = reply]) (use assms(2) call in auto)
qed

text \<open>The event ledger: numbered without gaps, and the events of a publication lead from its request to its state.\<close>

lemma publication_events_form_path:
  assumes "pub_reachable target s"
  shows "map re_sequence (pb_events s) = [1..<Suc (length (pb_events s))] \<and> publication_path None (publication_events i s)
    \<and> publication_end None (publication_events i s) = map_option rp_state (get_key (pb_publications s) i)"
  using pub_reachable_inv [OF assms] by (auto simp: pub_inv_def pub_ledger_def simp del: upt_Suc)

section \<open>Witnesses\<close>

definition demo_publishable :: "string \<Rightarrow> ImmutableRelease" where
  "demo_publishable i = \<lparr>ir_id = i, ir_projectId = ''p'', ir_release = demo_release i, ir_artifacts = [demo_artifact], ir_evidence = [],
     ir_releaseDigest = ''sha-'' @ i\<rparr>"

definition demo_asset_target :: ReleaseAssetTarget where
  "demo_asset_target = projr (createReleaseAssetTarget (\<lambda>_. False) demo_digests \<lparr>ati_target = demo_target, ati_currentReleaseId = None,
     ati_currentArtifactId = None, ati_releaseHistory = None, ati_publicationState = None, ati_contractDigest = Some ''contract''\<rparr>)"

definition demo_publications :: ReleasePublicationCoordinator where
  "demo_publications = projr (new_publications ''p'' demo_asset_target ''worker'' [demo_publishable ''rel-1'', demo_publishable ''rel-2''])"

definition demo_publish_request :: "string \<Rightarrow> string \<Rightarrow> ReleasePublicationRequest" where
  "demo_publish_request key releaseId = \<lparr>rpq_releaseId = releaseId, rpq_artifactId = ''bundle'', rpq_idempotencyKey = key,
     rpq_actor = \<lparr>actor_principalId = ''ann'', actor_actorId = ''ann-1'', actor_sessionId = ''s'', actor_clientId = ''cli''\<rparr>,
     rpq_expectedCurrentReleaseId = None\<rparr>"

definition demo_publish_call :: "string \<Rightarrow> string \<Rightarrow> pb_op" where
  "demo_publish_call uuid releaseId = Publish uuid (demo_publish_request (''key-'' @ uuid) releaseId)"

definition demo_confirmed :: "string \<Rightarrow> string \<Rightarrow> pb_op" where
  "demo_confirmed uuid releaseId = PublishReply (opaqueId ''release-publication'' uuid) (Replied (AdapterSucceeded
     \<lparr>pa_targetId = ''target'', pa_releaseId = releaseId, pa_artifactId = ''bundle'', pa_releaseDigest = ''sha-'' @ releaseId, pa_artifactDigest = ''sha'',
      pa_providerObjectId = ''o'', pa_providerReleaseId = None, pa_providerAssetId = None, pa_providerReleaseUrl = None, pa_providerAssetUrl = None,
      pa_providerAssetApiUrl = None, pa_providerMediaType = None, pa_providerByteLength = None, pa_disclosure = None, pa_providerCapabilities = None\<rparr>))"

definition demo_publishing :: "pb_op list \<Rightarrow> ReleasePublicationCoordinator" where
  "demo_publishing xs = run_ops pb_step xs demo_publications"

lemma demo_publications_new: "new_publications ''p'' demo_asset_target ''worker'' [demo_publishable ''rel-1'', demo_publishable ''rel-2''] = Inr demo_publications"
  by code_simp

lemma demo_publishing_reachable: "admissible pb_ok pb_step xs demo_publications \<Longrightarrow> pub_reachable demo_asset_target (demo_publishing xs)"
  unfolding pub_reachable_def demo_publishing_def using demo_publications_new by blast

definition demo_first_publication :: "pb_op list" where
  "demo_first_publication = [demo_publish_call ''1'' ''rel-1'', demo_confirmed ''1'' ''rel-1'', PublishingCleanup (opaqueId ''release-publication'' ''1'')]"

lemma demo_first_reachable: "pub_reachable demo_asset_target (demo_publishing demo_first_publication)"
  by (rule demo_publishing_reachable) code_simp


definition demo_second_publication :: "pb_op list" where
  "demo_second_publication = [demo_publish_call ''2'' ''rel-2'', demo_confirmed ''2'' ''rel-2'', Publish ''3'' (demo_publish_request ''key-1'' ''rel-1'')]"

definition demo_first_record :: "ReleasePublicationCoordinator \<Rightarrow> ReleasePublicationRecord" where
  "demo_first_record s = the (get_key (pb_publications s) (opaqueId ''release-publication'' ''1''))"

theorem published_is_final_witness:
  "get_key (pb_publications (run_ops pb_step demo_second_publication (demo_publishing demo_first_publication))) (opaqueId ''release-publication'' ''1'')
     = Some (demo_first_record (demo_publishing demo_first_publication))
   \<and> rp_state (demo_first_record (demo_publishing demo_first_publication)) = PubPublished"
proof -
  have facts: "get_key (pb_publications (demo_publishing demo_first_publication)) (opaqueId ''release-publication'' ''1'')
      = Some (demo_first_record (demo_publishing demo_first_publication))"
    "rp_state (demo_first_record (demo_publishing demo_first_publication)) = PubPublished"
    "admissible pb_ok pb_step demo_second_publication (demo_publishing demo_first_publication)"
    by code_simp+
  from published_is_final [OF demo_first_reachable facts refl] facts(2) show ?thesis by blast
qed

theorem repeated_request_is_answered_witness:
  "\<exists>q. requestPublication ''9'' (demo_publish_request ''key-1'' ''rel-1'') (run_ops pb_step demo_second_publication
       (snd (requestPublication ''1'' (demo_publish_request ''key-1'' ''rel-1'') demo_publications)))
     = (Inr q, run_ops pb_step demo_second_publication (snd (requestPublication ''1'' (demo_publish_request ''key-1'' ''rel-1'') demo_publications)))"
proof -
  let ?r = "requestPublication ''1'' (demo_publish_request ''key-1'' ''rel-1'') demo_publications"
  have reachable: "pub_reachable demo_asset_target demo_publications"
    using demo_publishing_reachable [of "[]"] by (simp add: demo_publishing_def)
  have "\<not> isl (fst ?r)" by code_simp
  then obtain p where request: "?r = (Inr p, snd ?r)" by (cases ?r rule: void.cases) auto
  have "get_key (pb_publications demo_publications) (opaqueId ''release-publication'' ''1'') = None"
    "admissible pb_ok pb_step demo_second_publication (snd ?r)" by code_simp+
  from repeated_request_is_answered [OF reachable this(1) request this(2) refl refl refl refl] show ?thesis by blast
qed

theorem publications_settle_witness:
  "\<exists>q. get_key (pb_publications (publish_reply (opaqueId ''release-publication'' ''1'') Threw (demo_publishing [demo_publish_call ''1'' ''rel-1''])))
         (opaqueId ''release-publication'' ''1'') = Some q \<and> rp_state q \<noteq> PubPublished"
proof -
  have "admissible pb_ok pb_step [demo_publish_call ''1'' ''rel-1''] demo_publications" by code_simp
  note reachable = demo_publishing_reachable [OF this]
  have "get_key (pb_publications (demo_publishing [demo_publish_call ''1'' ''rel-1''])) (opaqueId ''release-publication'' ''1'')
      = Some (demo_first_record (demo_publishing [demo_publish_call ''1'' ''rel-1'']))"
    "rp_state (demo_first_record (demo_publishing [demo_publish_call ''1'' ''rel-1''])) = PubPublishing" by code_simp+
  from publications_settle [OF reachable this, of Threw] show ?thesis by (auto simp: publish_accepted_def)
qed

section \<open>Where the code falls short\<close>

text \<open>
  The expected current Release is compared when a publication is requested and not when the provider answers. Of two
  publications requested over the same state, the answer that comes last decides: the first one overwrites the pointer
  of the second, although it expected that nothing was published.
\<close>

lemma stale_publication_overwrites:
  "at_currentReleaseId (pb_target (demo_publishing [demo_publish_call ''1'' ''rel-1'', demo_publish_call ''2'' ''rel-2'', demo_confirmed ''2'' ''rel-2'']))
     = Some ''rel-2''"
  "at_currentReleaseId (pb_target (demo_publishing [demo_publish_call ''1'' ''rel-1'', demo_publish_call ''2'' ''rel-2'', demo_confirmed ''2'' ''rel-2'',
       demo_confirmed ''1'' ''rel-1''])) = Some ''rel-1''"
  "rp_expectedCurrentReleaseId (demo_first_record (demo_publishing [demo_publish_call ''1'' ''rel-1'', demo_publish_call ''2'' ''rel-2'',
       demo_confirmed ''2'' ''rel-2'', demo_confirmed ''1'' ''rel-1''])) = None"
  by code_simp+

text \<open>
  Publishing a Release again after another one appends it to the history a second time. The constructor of a Target
  refuses a history with duplicates, so the state the coordinator wrote cannot be loaded.
\<close>

lemma republished_history_is_refused:
  "at_releaseHistory (pb_target (demo_publishing (demo_first_publication
       @ [demo_publish_call ''2'' ''rel-2'', demo_confirmed ''2'' ''rel-2'', demo_publish_call ''3'' ''rel-1'', demo_confirmed ''3'' ''rel-1''])))
     = [''rel-1'', ''rel-2'', ''rel-1'']"
  "ati_releaseHistory input = Some [''rel-1'', ''rel-2'', ''rel-1''] \<Longrightarrow> createReleaseAssetTarget credentialLike dg input = Inl (pub_error PubInvalidTarget)"
  by code_simp (auto simp: createReleaseAssetTarget_def asset_target_error_def loop_simps Let_def fail_if_def has_duplicates_def)

text \<open>
  A retry that comes before the clean-up of the failed execution gets the promise of that execution, which has settled.
  The publication stays proposed, with a new attempt that nobody executes.
\<close>

lemma early_retry_is_not_executed:
  "rp_state (demo_first_record (demo_publishing [demo_publish_call ''1'' ''rel-1'', PublishReply (opaqueId ''release-publication'' ''1'') Threw,
       RetryPublication \<lparr>rpr_publicationId = opaqueId ''release-publication'' ''1'', rpr_idempotencyKey = ''again'',
         rpr_actor = rpq_actor (demo_publish_request [] [])\<rparr>, PublishingCleanup (opaqueId ''release-publication'' ''1'')])) = PubProposed"
  "pb_executions (demo_publishing [demo_publish_call ''1'' ''rel-1'', PublishReply (opaqueId ''release-publication'' ''1'') Threw,
       RetryPublication \<lparr>rpr_publicationId = opaqueId ''release-publication'' ''1'', rpr_idempotencyKey = ''again'',
         rpr_actor = rpq_actor (demo_publish_request [] [])\<rparr>, PublishingCleanup (opaqueId ''release-publication'' ''1'')]) = []"
  by code_simp+

end
