(* ===== verification/Realm.thy ===== *)
theory Realm
  imports Contracts Complex_Main "HOL-Library.List_Lexorder" "HOL-Library.Char_ord"
begin

text \<open>
  The class \<open>RealmIdentityPolicy\<close> of \<open>src/src/identity/realm.ts\<close>: the Principals, Actors, Sessions, Tasks,
  Capability Grants and credentials of a Realm, and the policy decision over them. The private state is
  a record of dictionaries; every method is a function on it that returns a value or throws, with the
  state it leaves behind. Some methods mark a Session, a Grant or a credential as expired before they
  throw, so a failed call may change the state.

  Time is in milliseconds; a method reads the clock once, as its argument \<open>now\<close>. A time stamp is what
  \<open>Date.parse\<close> makes of it: a number, or nothing for a text it cannot read, which then compares as false.
  Random ids and tokens are arguments. The digest of a token is a parameter. Dictionaries are JavaScript
  objects whose keys are not names of \<open>Object.prototype\<close>. The prose of errors, factors and receipts, the
  details of audit events and the time stamps nobody reads are left out.
\<close>

section \<open>Data\<close>

datatype AuthenticationMethod = MethodPasskey | MethodOidc
datatype AuthenticationStrength = StrengthOidc | StrengthPasskey
datatype PrincipalStatus = PrincipalActive | PrincipalDisabled
datatype SessionStatus = SessionActive | SessionRevoked | SessionExpired
datatype GrantStatus = GrantActive | GrantRevoked | GrantExpired
datatype CredentialStatus = CredentialActive | CredentialRevoked | CredentialExpired
datatype ActorKind = ActorHuman | ActorAgent | ActorService | ActorRunner
datatype PolicyDecisionKind = DecideAllow | DecideDeny | DecideIndeterminate
datatype CredentialClass = ClassRealmApi | ClassGit | ClassMcp | ClassRunner | ClassIntegration | ClassDeployment | ClassPromotion
datatype AuthorityClass = AuthorityNone | AuthorityChange | AuthorityLanding | AuthorityPromotion
datatype RealmAgentStatus = AgentActive | AgentRevoked
datatype EntryStatus = EntryActive | EntryRevoked
datatype OidcProviderStatus = OidcActive | OidcDisabled
datatype TaskStatus = TaskActive | TaskClosed
datatype RelationshipKind = OrganizationMember | TeamMember

datatype ClientKind =
    ClientBrowser | ClientCli | ClientMcp | ClientGit | ClientRunner | ClientIntegration | ClientDeployment | ClientPromotion

datatype Capability =
    ProjectInspect | SourceRead | SourcePropose | WorkspaceInspect | WorkspaceWrite | ChangeInspect | ChangePublishRevision
  | IntentInspect | IntentWrite | PullRequestInspect | PullRequestWrite | ReviewSubmitFinding | ChangeApprove | RunInvoke
  | EvidenceRead | SecretUse | SecretValueRead | LandingRequest | ReleaseCreate | TargetConfigure | PromotionRequestCap
  | TargetRead | TargetPromote | ExtensionInstall | ExtensionManage | ExtensionInvoke | GovernanceProfileManage
  | GovernanceProfileEvaluate | AgentDelegate | PublicModerate | PolicyManage | IdentityManage

fun capability_text :: "Capability \<Rightarrow> string" where
  "capability_text ProjectInspect = ''project.inspect''"
| "capability_text SourceRead = ''source.read''"
| "capability_text SourcePropose = ''source.propose''"
| "capability_text WorkspaceInspect = ''workspace.inspect''"
| "capability_text WorkspaceWrite = ''workspace.write''"
| "capability_text ChangeInspect = ''change.inspect''"
| "capability_text ChangePublishRevision = ''change.publish_revision''"
| "capability_text IntentInspect = ''intent.inspect''"
| "capability_text IntentWrite = ''intent.write''"
| "capability_text PullRequestInspect = ''pullRequest.inspect''"
| "capability_text PullRequestWrite = ''pullRequest.write''"
| "capability_text ReviewSubmitFinding = ''review.submit_finding''"
| "capability_text ChangeApprove = ''change.approve''"
| "capability_text RunInvoke = ''run.invoke''"
| "capability_text EvidenceRead = ''evidence.read''"
| "capability_text SecretUse = ''secret.use''"
| "capability_text SecretValueRead = ''secret.value.read''"
| "capability_text LandingRequest = ''landing.request''"
| "capability_text ReleaseCreate = ''release.create''"
| "capability_text TargetConfigure = ''target.configure''"
| "capability_text PromotionRequestCap = ''promotion.request''"
| "capability_text TargetRead = ''target.read''"
| "capability_text TargetPromote = ''target.promote''"
| "capability_text ExtensionInstall = ''extension.install''"
| "capability_text ExtensionManage = ''extension.manage''"
| "capability_text ExtensionInvoke = ''extension.invoke''"
| "capability_text GovernanceProfileManage = ''governance.profile.manage''"
| "capability_text GovernanceProfileEvaluate = ''governance.profile.evaluate''"
| "capability_text AgentDelegate = ''agent.delegate''"
| "capability_text PublicModerate = ''public.moderate''"
| "capability_text PolicyManage = ''policy.manage''"
| "capability_text IdentityManage = ''identity.manage''"

definition AGENT_DEFAULT_CREDENTIAL_CLASSES :: "CredentialClass list" where
  "AGENT_DEFAULT_CREDENTIAL_CLASSES = [ClassRealmApi, ClassGit, ClassMcp]"

definition AGENT_PROHIBITED_CAPABILITIES :: "Capability list" where
  "AGENT_PROHIBITED_CAPABILITIES = [PolicyManage, IdentityManage, TargetPromote]"

fun CREDENTIAL_AUDIENCES :: "CredentialClass \<Rightarrow> string" where
  "CREDENTIAL_AUDIENCES ClassRealmApi = ''aud:anyam:realm-api''"
| "CREDENTIAL_AUDIENCES ClassGit = ''aud:anyam:git''"
| "CREDENTIAL_AUDIENCES ClassMcp = ''aud:anyam:mcp''"
| "CREDENTIAL_AUDIENCES ClassRunner = ''aud:anyam:runner''"
| "CREDENTIAL_AUDIENCES ClassIntegration = ''aud:anyam:integration''"
| "CREDENTIAL_AUDIENCES ClassDeployment = ''aud:anyam:deployment''"
| "CREDENTIAL_AUDIENCES ClassPromotion = ''aud:anyam:promotion''"

type_synonym timestamp = "int option"

record ResourceRef =
  rr_realmId :: string
  rr_organizationId :: "string option"
  rr_projectId :: "string option"
  rr_sourceSpaceId :: "string option"
  rr_workspaceId :: "string option"
  rr_changeId :: "string option"
  rr_pullRequestId :: "string option"
  rr_runId :: "string option"
  rr_releaseId :: "string option"
  rr_targetId :: "string option"

record Realm =
  realm_id :: string
  realm_name :: string
  realm_relyingPartyId :: string
  realm_policyVersion :: string
  realm_authorizationEpoch :: nat

record Principal =
  prin_id :: string
  prin_realmId :: string
  prin_displayName :: string
  prin_status :: PrincipalStatus

record PasskeyCredential =
  pk_id :: string
  pk_principalId :: string
  pk_realmId :: string
  pk_relyingPartyId :: string
  pk_signCount :: int
  pk_status :: EntryStatus

record OidcProvider =
  op_id :: string
  op_realmId :: string
  op_issuer :: string
  op_clientId :: string
  op_status :: OidcProviderStatus

record OidcIdentity =
  oi_issuer :: string
  oi_subject :: string
  oi_principalId :: string

record RealmClient =
  cl_id :: string
  cl_realmId :: string
  cl_kind :: ClientKind
  cl_status :: EntryStatus
  cl_allowedAudiences :: "CredentialClass list"
  cl_allowedOperations :: "string list"

record RealmActor = ActorRef +
  ra_realmId :: string
  ra_kind :: ActorKind
  ra_status :: RealmAgentStatus
  ra_agentId :: "string option"
  ra_delegatedByActorId :: "string option"
  ra_delegatedBySessionId :: "string option"
  ra_modelProvider :: "string option"

record RealmAgent =
  ag_id :: string
  ag_realmId :: string
  ag_principalId :: string
  ag_name :: string
  ag_runtime :: string
  ag_modelProvider :: string
  ag_clientId :: string
  ag_allowedCredentialClasses :: "CredentialClass list"
  ag_status :: RealmAgentStatus

record RealmSession =
  ses_id :: string
  ses_realmId :: string
  ses_principalId :: string
  ses_actorId :: string
  ses_clientId :: string
  ses_method :: AuthenticationMethod
  ses_strength :: AuthenticationStrength
  ses_expiresAt :: timestamp
  ses_authorizationEpoch :: nat
  ses_status :: SessionStatus
  ses_actorKind :: "ActorKind option"
  ses_agentId :: "string option"
  ses_delegatedByActorId :: "string option"
  ses_delegatedBySessionId :: "string option"

record RealmTask =
  tk_id :: string
  tk_realmId :: string
  tk_principalId :: string
  tk_actorId :: string
  tk_sessionId :: string
  tk_purpose :: string
  tk_workspaceId :: "string option"
  tk_changeId :: "string option"
  tk_modelProvider :: "string option"
  tk_agentId :: "string option"
  tk_delegatedByActorId :: "string option"
  tk_delegatedBySessionId :: "string option"
  tk_status :: TaskStatus

datatype RealmRole = RoleViewer | RoleContributor | RoleReviewer | RoleMaintainer | RoleReleaseManager | RoleSecurityReviewer | RoleModerator | RoleOwner

record Relationship =
  rl_id :: string
  rl_realmId :: string
  rl_principalId :: string
  rl_kind :: RelationshipKind
  rl_subjectId :: string
  rl_role :: RealmRole
  rl_resource :: ResourceRef
  rl_deniedCapabilities :: "Capability list"
  rl_status :: EntryStatus

record SourceSpacePolicy =
  sp_id :: string
  sp_realmId :: string
  sp_sourceSpaceId :: string
  sp_classification :: SourceSpaceClassification
  sp_allowedCapabilities :: "Capability list"
  sp_deniedCapabilities :: "Capability list"
  sp_readerPrincipalIds :: "string list"
  sp_allowedModelProviders :: "string list"
  sp_discoverable :: bool
  sp_policyVersion :: string

datatype BudgetValue = BudgetText string | BudgetNumber rat

record RealmCapabilityGrant =
  gr_id :: string
  gr_realmId :: string
  gr_subjectId :: string
  gr_resource :: ResourceRef
  gr_actions :: "Capability list"
  gr_expiresAt :: timestamp
  gr_status :: GrantStatus
  gr_principalId :: string
  gr_actorId :: string
  gr_clientId :: string
  gr_sessionId :: string
  gr_taskId :: string
  gr_sourceSpaceIds :: "string list"
  gr_effects :: "string list"
  gr_allowedModelProviders :: "string list"
  gr_allowedCredentialClasses :: "CredentialClass list"
  gr_deniedActions :: "Capability list"
  gr_budget :: "(string, BudgetValue) jsmap"
  gr_policyVersion :: string
  gr_authorizationEpoch :: nat
  gr_agentId :: "string option"
  gr_delegatedByActorId :: "string option"
  gr_delegatedBySessionId :: "string option"
  gr_parentGrantId :: "string option"

record IssuedCredentialRecord =
  cr_id :: string
  cr_realmId :: string
  cr_class :: CredentialClass
  cr_audience :: string
  cr_principalId :: string
  cr_actorId :: string
  cr_clientId :: string
  cr_sessionId :: string
  cr_taskId :: string
  cr_grantId :: string
  cr_resource :: ResourceRef
  cr_tokenDigest :: string
  cr_expiresAt :: timestamp
  cr_authorizationEpoch :: nat
  cr_status :: CredentialStatus

datatype FactorStatus = FactorSatisfied | FactorMissing | FactorDenied | FactorUnknown

record PolicyFactor =
  pf_name :: string
  pf_status :: FactorStatus

datatype ExplanationCode = CodeAllowed | CodeForbidden | CodeNotFound | CodeIndeterminate

record PolicyExplanation =
  px_decision :: PolicyDecisionKind
  px_code :: ExplanationCode
  px_operation :: string
  px_resource :: "ResourceRef option"
  px_policyVersion :: string
  px_authorizationEpoch :: nat
  px_satisfiedCapabilities :: "Capability list"
  px_missingCapabilities :: "Capability list"
  px_factors :: "PolicyFactor list"
  px_safeProjection :: bool

datatype RealmAuditOutcome = RaSucceeded | RaDenied | RaRevoked | RaObserved

record RealmAuditEvent =
  rae_eventType :: string
  rae_outcome :: RealmAuditOutcome
  rae_principalId :: "string option"
  rae_actorId :: "string option"
  rae_clientId :: "string option"
  rae_sessionId :: "string option"
  rae_taskId :: "string option"
  rae_grantId :: "string option"
  rae_sourceSpaceId :: "string option"

record RealmState =
  rs_realm :: Realm
  rs_principals :: "(string, Principal) jsmap"
  rs_agents :: "(string, RealmAgent) jsmap"
  rs_passkeys :: "(string, PasskeyCredential) jsmap"
  rs_oidcProviders :: "(string, OidcProvider) jsmap"
  rs_oidcIdentities :: "(string, OidcIdentity) jsmap"
  rs_clients :: "(string, RealmClient) jsmap"
  rs_actors :: "(string, RealmActor) jsmap"
  rs_sessions :: "(string, RealmSession) jsmap"
  rs_tasks :: "(string, RealmTask) jsmap"
  rs_relationships :: "(string, Relationship) jsmap"
  rs_sourceSpacePolicies :: "(string, SourceSpacePolicy) jsmap"
  rs_grants :: "(string, RealmCapabilityGrant) jsmap"
  rs_credentials :: "(string, IssuedCredentialRecord) jsmap"
  rs_audit :: "RealmAuditEvent list"
  rs_sessionLifetimeMs :: int
  rs_credentialLifetimeMs :: int

datatype RealmIdentityError = RealmIdentityError string "PolicyExplanation option"

type_synonym 'a rm_outcome = "(RealmState, RealmIdentityError, 'a) outcome"

definition rm_error :: "string \<Rightarrow> RealmIdentityError" where
  "rm_error code = RealmIdentityError code None"

section \<open>Roles and the helper functions\<close>

fun ROLE_CAPABILITIES :: "RealmRole \<Rightarrow> Capability list" where
  "ROLE_CAPABILITIES RoleViewer = [ProjectInspect, IntentInspect, SourceRead, WorkspaceInspect, ChangeInspect, PullRequestInspect, EvidenceRead, TargetRead]"
| "ROLE_CAPABILITIES RoleContributor = [ProjectInspect, IntentInspect, SourceRead, WorkspaceInspect, WorkspaceWrite, ChangeInspect,
     ChangePublishRevision, PullRequestInspect, PullRequestWrite, ReviewSubmitFinding, RunInvoke, EvidenceRead, TargetRead, AgentDelegate]"
| "ROLE_CAPABILITIES RoleReviewer = [ProjectInspect, IntentInspect, SourceRead, WorkspaceInspect, ChangeInspect, PullRequestInspect,
     PullRequestWrite, ReviewSubmitFinding, ChangeApprove, EvidenceRead, TargetRead]"
| "ROLE_CAPABILITIES RoleMaintainer = [ProjectInspect, IntentInspect, SourceRead, SourcePropose, WorkspaceInspect, WorkspaceWrite,
     ChangeInspect, ChangePublishRevision, PullRequestInspect, PullRequestWrite, ReviewSubmitFinding, ChangeApprove, RunInvoke,
     EvidenceRead, LandingRequest, TargetRead, ExtensionInstall, ExtensionManage, ExtensionInvoke, GovernanceProfileEvaluate, AgentDelegate]"
| "ROLE_CAPABILITIES RoleReleaseManager = [ProjectInspect, IntentInspect, SourceRead, ChangeInspect, PullRequestInspect, PullRequestWrite,
     ReviewSubmitFinding, ChangeApprove, EvidenceRead, TargetRead, TargetPromote, LandingRequest, ReleaseCreate, PromotionRequestCap, ExtensionInvoke]"
| "ROLE_CAPABILITIES RoleSecurityReviewer = [ProjectInspect, IntentInspect, SourceRead, WorkspaceInspect, ChangeInspect, PullRequestInspect,
     PullRequestWrite, ReviewSubmitFinding, ChangeApprove, RunInvoke, EvidenceRead, TargetRead, GovernanceProfileEvaluate]"
| "ROLE_CAPABILITIES RoleModerator = [ProjectInspect, IntentInspect, ChangeInspect, PullRequestInspect, EvidenceRead, PublicModerate]"
| "ROLE_CAPABILITIES RoleOwner = [ProjectInspect, IntentInspect, SourceRead, SourcePropose, WorkspaceInspect, WorkspaceWrite, ChangeInspect,
     ChangePublishRevision, PullRequestInspect, PullRequestWrite, ReviewSubmitFinding, ChangeApprove, RunInvoke, EvidenceRead, SecretUse,
     LandingRequest, ReleaseCreate, TargetConfigure, PromotionRequestCap, TargetRead, TargetPromote, ExtensionInstall, ExtensionManage,
     ExtensionInvoke, GovernanceProfileManage, GovernanceProfileEvaluate, AgentDelegate, PolicyManage, IdentityManage]"

definition expired :: "timestamp \<Rightarrow> int \<Rightarrow> bool" where
  "expired value now = (case value of None \<Rightarrow> False | Some t \<Rightarrow> t \<le> now)"

text \<open>\<open>a > b\<close> on what \<open>Date.parse\<close> returns.\<close>

definition later :: "timestamp \<Rightarrow> timestamp \<Rightarrow> bool" where
  "later a b = (case (a, b) of (Some x, Some y) \<Rightarrow> x > y | _ \<Rightarrow> False)"

definition earliest :: "timestamp \<Rightarrow> int \<Rightarrow> timestamp" where
  "earliest a b = map_option (\<lambda>x. min x b) a"

definition scope_field :: "string option \<Rightarrow> string option \<Rightarrow> bool" where
  "scope_field expected actual \<longleftrightarrow> expected = None \<or> actual = expected"

definition resourceMatches :: "ResourceRef \<Rightarrow> ResourceRef \<Rightarrow> bool" where
  "resourceMatches scope resource \<longleftrightarrow> rr_realmId scope = rr_realmId resource
     \<and> scope_field (rr_organizationId scope) (rr_organizationId resource) \<and> scope_field (rr_projectId scope) (rr_projectId resource)
     \<and> scope_field (rr_sourceSpaceId scope) (rr_sourceSpaceId resource) \<and> scope_field (rr_workspaceId scope) (rr_workspaceId resource)
     \<and> scope_field (rr_changeId scope) (rr_changeId resource) \<and> scope_field (rr_pullRequestId scope) (rr_pullRequestId resource)
     \<and> scope_field (rr_runId scope) (rr_runId resource) \<and> scope_field (rr_releaseId scope) (rr_releaseId resource)
     \<and> scope_field (rr_targetId scope) (rr_targetId resource)"

definition listIsSubset :: "'a list \<Rightarrow> 'a list \<Rightarrow> bool" where
  "listIsSubset candidate parent = list_all (\<lambda>v. v \<in> set parent) candidate"

fun budget_within :: "BudgetValue \<Rightarrow> BudgetValue \<Rightarrow> bool" where
  "budget_within (BudgetNumber v) (BudgetNumber w) = (v \<le> w)"
| "budget_within v w = (v = w)"

definition budgetIsNarrower :: "(string, BudgetValue) jsmap \<Rightarrow> (string, BudgetValue) jsmap \<Rightarrow> bool" where
  "budgetIsNarrower candidate parent = list_all (\<lambda>(key, v). case get_key parent key of
     None \<Rightarrow> True | Some w \<Rightarrow> budget_within v w) candidate"

definition capabilityForOperation :: "string \<Rightarrow> Capability option \<Rightarrow> RealmIdentityError + Capability" where
  "capabilityForOperation operation capability = (case capability of
     Some c \<Rightarrow> Inr c
   | None \<Rightarrow> (case find (\<lambda>c. capability_text c = operation) (ROLE_CAPABILITIES RoleOwner) of
       Some c \<Rightarrow> Inr c | None \<Rightarrow> Inl (rm_error ''policy.capability_missing'')))"

fun audiencesByKind :: "ClientKind \<Rightarrow> CredentialClass list" where
  "audiencesByKind ClientBrowser = [ClassRealmApi, ClassMcp]"
| "audiencesByKind ClientCli = [ClassRealmApi, ClassGit, ClassMcp]"
| "audiencesByKind ClientMcp = [ClassRealmApi, ClassMcp]"
| "audiencesByKind ClientGit = [ClassGit]"
| "audiencesByKind ClientRunner = [ClassRunner]"
| "audiencesByKind ClientIntegration = [ClassIntegration]"
| "audiencesByKind ClientDeployment = [ClassDeployment]"
| "audiencesByKind ClientPromotion = [ClassPromotion]"

abbreviation realmId :: "RealmState \<Rightarrow> string" where
  "realmId s \<equiv> realm_id (rs_realm s)"

abbreviation epoch :: "RealmState \<Rightarrow> nat" where
  "epoch s \<equiv> realm_authorizationEpoch (rs_realm s)"

section \<open>Chains of Sessions and Grants\<close>

text \<open>The records a chain has not visited yet: the measure of the two recursions.\<close>

definition unseen :: "('v \<Rightarrow> string) \<Rightarrow> ('k, 'v) jsmap \<Rightarrow> string list \<Rightarrow> nat" where
  "unseen key m seen = length (filter (\<lambda>v. key v \<notin> set seen) (map_values m))"

lemma unseen_decreases:
  assumes "get_key m k = Some v" "key v \<notin> set seen"
  shows "unseen key m (key v # seen) < unseen key m seen"
proof -
  have "length (filter (\<lambda>u. key u \<noteq> key v) (filter (\<lambda>u. key u \<notin> set seen) (map_values m)))
      < length (filter (\<lambda>u. key u \<notin> set seen) (map_values m))"
    using get_key_mem [OF assms(1)] assms(2) by (intro length_filter_less [of v]) auto
  then show ?thesis by (simp add: unseen_def conj_commute)
qed

definition actor_active :: "RealmState \<Rightarrow> RealmSession \<Rightarrow> bool" where
  "actor_active s session = (case get_key (rs_actors s) (ses_actorId session) of
     None \<Rightarrow> False
   | Some actor \<Rightarrow> ra_status actor = AgentActive \<and> ra_realmId actor = realmId s
       \<and> actor_principalId actor = ses_principalId session \<and> actor_sessionId actor = ses_id session
       \<and> (ra_kind actor \<noteq> ActorAgent \<or> truthy (ra_agentId actor)
            \<and> map_option ag_status (get_key (rs_agents s) (the (ra_agentId actor))) = Some AgentActive))"

definition session_live :: "int \<Rightarrow> RealmState \<Rightarrow> RealmSession \<Rightarrow> bool" where
  "session_live now s session \<longleftrightarrow> ses_realmId session = realmId s \<and> ses_status session = SessionActive
     \<and> \<not> expired (ses_expiresAt session) now \<and> ses_authorizationEpoch session = epoch s"

text \<open>
  \<open>sessionChainIsActive\<close> follows the delegating Sessions; its callers and its recursive call pass a Session
  looked up by its key, which is the argument here.
\<close>

function sessionChainIsActive :: "int \<Rightarrow> RealmState \<Rightarrow> string list \<Rightarrow> string \<Rightarrow> bool" where
  "sessionChainIsActive now s seen sessionId = (case get_key (rs_sessions s) sessionId of
     None \<Rightarrow> False
   | Some session \<Rightarrow>
       if ses_id session \<in> set seen \<or> \<not> session_live now s session then False
       else if \<not> actor_active s session then False
       else (case keep_truthy (ses_delegatedBySessionId session) of
           None \<Rightarrow> True
         | Some parentId \<Rightarrow> sessionChainIsActive now s (ses_id session # seen) parentId))"
  by pat_completeness auto
termination
  by (relation "measure (\<lambda>(now, s, seen, i). unseen ses_id (rs_sessions s) seen)") (auto intro: unseen_decreases)

definition grant_live :: "int \<Rightarrow> RealmState \<Rightarrow> RealmCapabilityGrant \<Rightarrow> bool" where
  "grant_live now s grant \<longleftrightarrow> gr_status grant = GrantActive \<and> \<not> expired (gr_expiresAt grant) now \<and> gr_authorizationEpoch grant = epoch s"

function grantChainIsActive :: "int \<Rightarrow> RealmState \<Rightarrow> string list \<Rightarrow> string \<Rightarrow> bool" where
  "grantChainIsActive now s seen grantId = (case get_key (rs_grants s) grantId of
     None \<Rightarrow> False
   | Some grant \<Rightarrow>
       if gr_id grant \<in> set seen then False
       else if \<not> grant_live now s grant then False
       else (case keep_truthy (gr_parentGrantId grant) of
           None \<Rightarrow> True
         | Some parentId \<Rightarrow> grantChainIsActive now s (gr_id grant # seen) parentId))"
  by pat_completeness auto
termination
  by (relation "measure (\<lambda>(now, s, seen, i). unseen gr_id (rs_grants s) seen)") (auto intro: unseen_decreases)

declare sessionChainIsActive.simps [simp del] grantChainIsActive.simps [simp del]

end
