(* ===== verification/Realm_Operations.thy ===== *)
theory Realm_Operations
  imports Realm
begin

text \<open>
  The methods of \<open>RealmIdentityPolicy\<close> that hand out authority: enrolment, authentication, Tasks,
  Capability Grants and delegation to agents. Credentials and revocation are in \<open>Realm_Revocation\<close>,
  the policy decision in \<open>Realm_Decision\<close>.
\<close>

section \<open>Lookups that throw\<close>

definition audit_event :: "string \<Rightarrow> RealmAuditOutcome \<Rightarrow> RealmAuditEvent" where
  "audit_event eventType outcome = \<lparr>rae_eventType = eventType, rae_outcome = outcome, rae_principalId = None, rae_actorId = None,
     rae_clientId = None, rae_sessionId = None, rae_taskId = None, rae_grantId = None, rae_sourceSpaceId = None\<rparr>"

definition audit :: "RealmAuditEvent \<Rightarrow> RealmState \<Rightarrow> RealmState" where
  "audit e s = s\<lparr>rs_audit := rs_audit s @ [e]\<rparr>"

definition set_session :: "RealmSession \<Rightarrow> RealmState \<Rightarrow> RealmState" where
  "set_session session s = s\<lparr>rs_sessions := set_key (ses_id session) session (rs_sessions s)\<rparr>"

definition set_grant :: "RealmCapabilityGrant \<Rightarrow> RealmState \<Rightarrow> RealmState" where
  "set_grant grant s = s\<lparr>rs_grants := set_key (gr_id grant) grant (rs_grants s)\<rparr>"

definition set_credential :: "IssuedCredentialRecord \<Rightarrow> RealmState \<Rightarrow> RealmState" where
  "set_credential credential s = s\<lparr>rs_credentials := set_key (cr_id credential) credential (rs_credentials s)\<rparr>"

definition requirePrincipal :: "string \<Rightarrow> RealmState \<Rightarrow> Principal rm_outcome" where
  "requirePrincipal principalId s = (case get_key (rs_principals s) principalId of
     Some prin \<Rightarrow> if prin_realmId prin = realmId s then return prin s else raise (rm_error ''identity.not_found'') s
   | None \<Rightarrow> raise (rm_error ''identity.not_found'') s)"

definition requireClient :: "string \<Rightarrow> RealmState \<Rightarrow> RealmClient rm_outcome" where
  "requireClient clientId s = (case get_key (rs_clients s) clientId of
     Some client \<Rightarrow> if cl_realmId client = realmId s \<and> cl_status client = EntryActive then return client s
                    else raise (rm_error ''client.invalid'') s
   | None \<Rightarrow> raise (rm_error ''client.invalid'') s)"

text \<open>A Session found to be past its expiry is marked before the call throws.\<close>

definition mark_expired :: "int \<Rightarrow> string \<Rightarrow> RealmSession \<Rightarrow> RealmState \<Rightarrow> RealmState" where
  "mark_expired now sessionId session s = (if ses_status session = SessionActive \<and> expired (ses_expiresAt session) now
     then s\<lparr>rs_sessions := set_key sessionId (session\<lparr>ses_status := SessionExpired\<rparr>) (rs_sessions s)\<rparr> else s)"

definition requireSession :: "int \<Rightarrow> string \<Rightarrow> RealmState \<Rightarrow> RealmSession rm_outcome" where
  "requireSession now sessionId s = (case get_key (rs_sessions s) sessionId of
     None \<Rightarrow> raise (rm_error ''session.not_found'') s
   | Some session \<Rightarrow>
       if ses_realmId session \<noteq> realmId s then raise (rm_error ''session.not_found'') s
       else (let s' = mark_expired now sessionId session s
             in if sessionChainIsActive now s' [] sessionId then return session s' else raise (rm_error ''session.inactive'') s'))"

definition validateSession :: "int \<Rightarrow> string \<Rightarrow> RealmState \<Rightarrow> RealmSession rm_outcome" where
  "validateSession = requireSession"

section \<open>Enrolment and authentication\<close>

record RegisterClientInput =
  rci_id :: string
  rci_kind :: ClientKind
  rci_allowedAudiences :: "CredentialClass list option"
  rci_allowedOperations :: "string list option"

definition registerClient :: "RegisterClientInput \<Rightarrow> RealmState \<Rightarrow> RealmClient rm_outcome" where
  "registerClient input s = (case map_option cl_status (get_key (rs_clients s) (rci_id input)) of
     Some EntryActive \<Rightarrow> raise (rm_error ''client.exists'') s
   | Some EntryRevoked \<Rightarrow> raise (rm_error ''client.revoked'') s
   | None \<Rightarrow>
       (let client = \<lparr>cl_id = rci_id input, cl_realmId = realmId s, cl_kind = rci_kind input, cl_status = EntryActive,
              cl_allowedAudiences = nullish (rci_allowedAudiences input) (audiencesByKind (rci_kind input)),
              cl_allowedOperations = nullish (rci_allowedOperations input) []\<rparr>
        in return client (s\<lparr>rs_clients := set_key (rci_id input) client (rs_clients s)\<rparr>)))"

record RealmIdentityPolicyOptions =
  rpo_realmId :: "string option"
  rpo_name :: "string option"
  rpo_relyingPartyId :: "string option"
  rpo_policyVersion :: "string option"
  rpo_sessionLifetimeMs :: "int option"
  rpo_credentialLifetimeMs :: "int option"

definition default_client :: "string \<Rightarrow> ClientKind \<Rightarrow> RegisterClientInput" where
  "default_client i kind = \<lparr>rci_id = i, rci_kind = kind, rci_allowedAudiences = None, rci_allowedOperations = None\<rparr>"

definition empty_realm :: "Realm \<Rightarrow> int \<Rightarrow> int \<Rightarrow> RealmState" where
  "empty_realm realm sessionLifetime credentialLifetime = \<lparr>rs_realm = realm, rs_principals = [], rs_agents = [], rs_passkeys = [],
     rs_oidcProviders = [], rs_oidcIdentities = [], rs_clients = [], rs_actors = [], rs_sessions = [], rs_tasks = [], rs_relationships = [],
     rs_sourceSpacePolicies = [], rs_grants = [], rs_credentials = [], rs_audit = [],
     rs_sessionLifetimeMs = sessionLifetime, rs_credentialLifetimeMs = credentialLifetime\<rparr>"

definition new_realm :: "string \<Rightarrow> RealmIdentityPolicyOptions \<Rightarrow> RealmIdentityError + RealmState" where
  "new_realm uuid options =
    (let sessionLifetime = nullish (rpo_sessionLifetimeMs options) (8 * 60 * 60 * 1000);
         credentialLifetime = nullish (rpo_credentialLifetimeMs options) (15 * 60 * 1000);
         i = nullish (rpo_realmId options) (opaqueId ''realm'' uuid);
         realm = \<lparr>realm_id = i, realm_name = nullish (rpo_name options) i,
           realm_relyingPartyId = nullish (rpo_relyingPartyId options) ''anyam.local'',
           realm_policyVersion = nullish (rpo_policyVersion options) (i @ '':policy:v1''), realm_authorizationEpoch = 1\<rparr>
     in if sessionLifetime \<le> 0 \<or> credentialLifetime \<le> 0 then Inl (rm_error ''realm.policy.invalid'')
        else (case and_then (registerClient (default_client ''client:anyam-web'' ClientBrowser) (empty_realm realm sessionLifetime credentialLifetime)) (\<lambda>_ s.
               and_then (registerClient (default_client ''client:anyam-cli'' ClientCli) s) (\<lambda>_ s.
                 registerClient (default_client ''client:anyam-mcp'' ClientMcp) s)) of
             (Inl e, _) \<Rightarrow> Inl e | (Inr _, s) \<Rightarrow> Inr s))"

definition createPrincipal :: "string \<Rightarrow> string option \<Rightarrow> string \<Rightarrow> RealmState \<Rightarrow> Principal rm_outcome" where
  "createPrincipal uuid givenId displayName s =
    (let prin = \<lparr>prin_id = nullish givenId (opaqueId ''principal'' uuid), prin_realmId = realmId s, prin_displayName = displayName,
           prin_status = PrincipalActive\<rparr>
     in if has_key (rs_principals s) (prin_id prin) then raise (rm_error ''identity.exists'') s
        else return prin (audit ((audit_event ''principal.created'' RaObserved)\<lparr>rae_principalId := Some (prin_id prin)\<rparr>)
               (s\<lparr>rs_principals := set_key (prin_id prin) prin (rs_principals s)\<rparr>)))"

record RegisterPasskeyInput =
  rpi_principalId :: string
  rpi_credentialId :: string
  rpi_relyingPartyId :: "string option"
  rpi_signCount :: "int option"

definition registerPasskey :: "RegisterPasskeyInput \<Rightarrow> RealmState \<Rightarrow> PasskeyCredential rm_outcome" where
  "registerPasskey input s = and_then (requirePrincipal (rpi_principalId input) s) (\<lambda>prin s.
     (let credential = \<lparr>pk_id = rpi_credentialId input, pk_principalId = prin_id prin, pk_realmId = realmId s,
            pk_relyingPartyId = nullish (rpi_relyingPartyId input) (realm_relyingPartyId (rs_realm s)),
            pk_signCount = nullish (rpi_signCount input) 0, pk_status = EntryActive\<rparr>
      in if has_key (rs_passkeys s) (pk_id credential) then raise (rm_error ''passkey.exists'') s
         else return credential (audit ((audit_event ''passkey.registered'' RaObserved)\<lparr>rae_principalId := Some (prin_id prin)\<rparr>)
                (s\<lparr>rs_passkeys := set_key (pk_id credential) credential (rs_passkeys s)\<rparr>))))"

definition registerOidcProvider :: "string \<Rightarrow> string option \<Rightarrow> string \<Rightarrow> string \<Rightarrow> RealmState \<Rightarrow> OidcProvider rm_outcome" where
  "registerOidcProvider uuid givenId issuer clientId s =
    (let provider = \<lparr>op_id = nullish givenId (opaqueId ''oidc-provider'' uuid), op_realmId = realmId s, op_issuer = issuer,
           op_clientId = clientId, op_status = OidcActive\<rparr>
     in if \<exists>existing\<in>set (map_values (rs_oidcProviders s)). op_issuer existing = issuer then raise (rm_error ''oidc.provider_exists'') s
        else return provider (audit (audit_event ''oidc.provider.registered'' RaObserved)
               (s\<lparr>rs_oidcProviders := set_key (op_id provider) provider (rs_oidcProviders s)\<rparr>)))"

definition active_provider :: "string \<Rightarrow> RealmState \<Rightarrow> OidcProvider option" where
  "active_provider issuer s = find (\<lambda>p. op_issuer p = issuer \<and> op_status p = OidcActive) (map_values (rs_oidcProviders s))"

definition oidc_key :: "string \<Rightarrow> string \<Rightarrow> string" where
  "oidc_key issuer subject = issuer @ ''|'' @ subject"

definition linkOidcIdentity :: "string \<Rightarrow> string \<Rightarrow> string \<Rightarrow> RealmState \<Rightarrow> OidcIdentity rm_outcome" where
  "linkOidcIdentity principalId issuer subject s = and_then (requirePrincipal principalId s) (\<lambda>prin s.
     case active_provider issuer s of
       None \<Rightarrow> raise (rm_error ''oidc.provider_not_found'') s
     | Some provider \<Rightarrow>
         if has_key (rs_oidcIdentities s) (oidc_key issuer subject) then raise (rm_error ''oidc.identity_exists'') s
         else (let identity = \<lparr>oi_issuer = op_issuer provider, oi_subject = subject, oi_principalId = prin_id prin\<rparr>
               in return identity (audit ((audit_event ''oidc.identity.linked'' RaObserved)\<lparr>rae_principalId := Some (prin_id prin)\<rparr>)
                    (s\<lparr>rs_oidcIdentities := set_key (oidc_key issuer subject) identity (rs_oidcIdentities s)\<rparr>))))"

text \<open>The random ids a method draws: of a Session, an Actor, a Task and a Grant.\<close>

record RealmIds =
  fresh_session :: string
  fresh_actor :: string
  fresh_task :: string
  fresh_grant :: string

definition human_actor :: "RealmIds \<Rightarrow> Principal \<Rightarrow> RealmClient \<Rightarrow> RealmState \<Rightarrow> RealmActor" where
  "human_actor u prin client s = \<lparr>actor_principalId = prin_id prin, actor_actorId = opaqueId ''actor'' (fresh_actor u),
     actor_sessionId = opaqueId ''session'' (fresh_session u), actor_clientId = cl_id client, ra_realmId = realmId s, ra_kind = ActorHuman,
     ra_status = AgentActive, ra_agentId = None, ra_delegatedByActorId = None, ra_delegatedBySessionId = None, ra_modelProvider = None\<rparr>"

definition human_session :: "int \<Rightarrow> RealmIds \<Rightarrow> Principal \<Rightarrow> RealmClient \<Rightarrow> AuthenticationMethod \<Rightarrow> AuthenticationStrength \<Rightarrow> RealmState \<Rightarrow> RealmSession" where
  "human_session now u prin client authMethod strength s = \<lparr>ses_id = opaqueId ''session'' (fresh_session u), ses_realmId = realmId s,
     ses_principalId = prin_id prin, ses_actorId = opaqueId ''actor'' (fresh_actor u), ses_clientId = cl_id client,
     ses_method = authMethod, ses_strength = strength, ses_expiresAt = Some (now + rs_sessionLifetimeMs s),
     ses_authorizationEpoch = epoch s, ses_status = SessionActive, ses_actorKind = Some ActorHuman, ses_agentId = None,
     ses_delegatedByActorId = None, ses_delegatedBySessionId = None\<rparr>"

definition store_session :: "RealmActor \<Rightarrow> RealmSession \<Rightarrow> string \<Rightarrow> RealmState \<Rightarrow> RealmState" where
  "store_session actor session eventType s = audit ((audit_event eventType RaSucceeded)\<lparr>rae_principalId := Some (ses_principalId session),
       rae_actorId := Some (ses_actorId session), rae_clientId := Some (ses_clientId session), rae_sessionId := Some (ses_id session)\<rparr>)
     (set_session session (s\<lparr>rs_actors := set_key (actor_actorId actor) actor (rs_actors s)\<rparr>))"

definition createHumanSession :: "int \<Rightarrow> RealmIds \<Rightarrow> string \<Rightarrow> string \<Rightarrow> AuthenticationMethod \<Rightarrow> AuthenticationStrength \<Rightarrow> RealmState \<Rightarrow> RealmSession rm_outcome" where
  "createHumanSession now u principalId clientId authMethod strength s =
     and_then (requirePrincipal principalId s) (\<lambda>prin s.
     and_then (requireClient clientId s) (\<lambda>client s.
       if prin_status prin \<noteq> PrincipalActive then raise (rm_error ''identity.disabled'') s
       else (let session = human_session now u prin client authMethod strength s
             in return session (store_session (human_actor u prin client s) session ''session.authenticated'' s))))"

record PasskeyAssertion =
  pa_credentialId :: string
  pa_relyingPartyId :: "string option"
  pa_challenge :: string
  pa_verified :: bool
  pa_signCount :: "int option"
  pa_clientId :: "string option"

text \<open>A counter that is not a safe integer is refused like one that went back; the counters here are integers.\<close>

definition authenticatePasskey :: "int \<Rightarrow> RealmIds \<Rightarrow> PasskeyAssertion \<Rightarrow> RealmState \<Rightarrow> RealmSession rm_outcome" where
  "authenticatePasskey now u input s = (case get_key (rs_passkeys s) (pa_credentialId input) of
     None \<Rightarrow> raise (rm_error ''auth.passkey_invalid'') s
   | Some credential \<Rightarrow>
       if pk_status credential \<noteq> EntryActive
          \<or> pk_relyingPartyId credential \<noteq> nullish (pa_relyingPartyId input) (realm_relyingPartyId (rs_realm s))
       then raise (rm_error ''auth.passkey_invalid'') s
       else if pa_challenge input = [] \<or> \<not> pa_verified input then raise (rm_error ''auth.passkey_unverified'') s
       else if (case pa_signCount input of None \<Rightarrow> False | Some c \<Rightarrow> \<bar>c\<bar> > 2 ^ 53 - 1 \<or> c < pk_signCount credential)
       then raise (rm_error ''auth.passkey_counter_regression'') s
       else (let credential' = credential\<lparr>pk_signCount := nullish (pa_signCount input) (pk_signCount credential + 1)\<rparr>
             in createHumanSession now u (pk_principalId credential) (nullish (pa_clientId input) ''client:anyam-web'') MethodPasskey StrengthPasskey
                  (s\<lparr>rs_passkeys := set_key (pa_credentialId input) credential' (rs_passkeys s)\<rparr>)))"

definition authenticateOidc :: "int \<Rightarrow> RealmIds \<Rightarrow> string \<Rightarrow> string \<Rightarrow> bool \<Rightarrow> string option \<Rightarrow> RealmState \<Rightarrow> RealmSession rm_outcome" where
  "authenticateOidc now u issuer subject verified clientId s =
    (if active_provider issuer s = None \<or> \<not> verified then raise (rm_error ''auth.oidc_invalid'') s
     else (case get_key (rs_oidcIdentities s) (oidc_key issuer subject) of
         None \<Rightarrow> raise (rm_error ''auth.oidc_unlinked'') s
       | Some identity \<Rightarrow> createHumanSession now u (oi_principalId identity) (nullish clientId ''client:anyam-web'') MethodOidc StrengthOidc s))"

record RegisterAgentInput =
  rai_principalId :: string
  rai_name :: string
  rai_runtime :: string
  rai_modelProvider :: string
  rai_id :: "string option"
  rai_clientId :: "string option"
  rai_allowedCredentialClasses :: "CredentialClass list option"

definition agent_client :: "string \<Rightarrow> CredentialClass list \<Rightarrow> RealmState \<Rightarrow> RealmClient rm_outcome" where
  "agent_client clientId classes s = (case get_key (rs_clients s) clientId of
     Some client \<Rightarrow> return client s
   | None \<Rightarrow> registerClient \<lparr>rci_id = clientId, rci_kind = ClientMcp, rci_allowedAudiences = Some classes,
       rci_allowedOperations = Some [''agent.task'']\<rparr> s)"

definition registerAgent :: "string \<Rightarrow> RegisterAgentInput \<Rightarrow> RealmState \<Rightarrow> RealmAgent rm_outcome" where
  "registerAgent uuid input s = and_then (requirePrincipal (rai_principalId input) s) (\<lambda>prin s.
     if prin_status prin \<noteq> PrincipalActive then raise (rm_error ''agent.principal_disabled'') s
     else if blank (rai_name input) \<or> blank (rai_runtime input) \<or> blank (rai_modelProvider input) then raise (rm_error ''agent.registration_invalid'') s
     else (let i = nullish (rai_id input) (opaqueId ''agent'' uuid);
               clientId = nullish (rai_clientId input) (''client:'' @ i);
               classes = nullish (rai_allowedCredentialClasses input) AGENT_DEFAULT_CREDENTIAL_CLASSES
           in if has_key (rs_agents s) i then raise (rm_error ''agent.exists'') s
              else if classes = [] then raise (rm_error ''agent.registration_invalid'') s
              else and_then (agent_client clientId classes s) (\<lambda>client s.
                if cl_status client \<noteq> EntryActive \<or> \<not> listIsSubset classes (cl_allowedAudiences client)
                then raise (rm_error ''agent.client_audience_denied'') s
                else (let agent = \<lparr>ag_id = i, ag_realmId = realmId s, ag_principalId = prin_id prin, ag_name = rai_name input,
                            ag_runtime = rai_runtime input, ag_modelProvider = rai_modelProvider input, ag_clientId = clientId,
                            ag_allowedCredentialClasses = classes, ag_status = AgentActive\<rparr>
                      in return agent (audit ((audit_event ''agent.registered'' RaObserved)\<lparr>rae_principalId := Some (prin_id prin), rae_clientId := Some clientId\<rparr>)
                           (s\<lparr>rs_agents := set_key i agent (rs_agents s)\<rparr>))))))"

record AddRelationshipInput =
  ari_principalId :: string
  ari_kind :: RelationshipKind
  ari_subjectId :: string
  ari_role :: RealmRole
  ari_resource :: "ResourceRef option"
  ari_deniedCapabilities :: "Capability list option"

definition whole_realm :: "string \<Rightarrow> ResourceRef" where
  "whole_realm i = \<lparr>rr_realmId = i, rr_organizationId = None, rr_projectId = None, rr_sourceSpaceId = None, rr_workspaceId = None,
     rr_changeId = None, rr_pullRequestId = None, rr_runId = None, rr_releaseId = None, rr_targetId = None\<rparr>"

definition addRelationship :: "string \<Rightarrow> AddRelationshipInput \<Rightarrow> RealmState \<Rightarrow> Relationship rm_outcome" where
  "addRelationship uuid input s = and_then (requirePrincipal (ari_principalId input) s) (\<lambda>prin s.
     (let relationship = \<lparr>rl_id = opaqueId ''relationship'' uuid, rl_realmId = realmId s, rl_principalId = prin_id prin,
            rl_kind = ari_kind input, rl_subjectId = ari_subjectId input, rl_role = ari_role input,
            rl_resource = nullish (ari_resource input) (whole_realm (realmId s)),
            rl_deniedCapabilities = nullish (ari_deniedCapabilities input) [], rl_status = EntryActive\<rparr>
      in return relationship (audit ((audit_event ''relationship.granted'' RaObserved)\<lparr>rae_principalId := Some (prin_id prin)\<rparr>)
           (s\<lparr>rs_relationships := set_key (rl_id relationship) relationship (rs_relationships s)\<rparr>))))"

record SetSourceSpacePolicyInput =
  ssi_sourceSpaceId :: string
  ssi_classification :: SourceSpaceClassification
  ssi_allowedCapabilities :: "Capability list"
  ssi_deniedCapabilities :: "Capability list option"
  ssi_readerPrincipalIds :: "string list option"
  ssi_allowedModelProviders :: "string list option"
  ssi_discoverable :: "bool option"

definition setSourceSpacePolicy :: "string \<Rightarrow> SetSourceSpacePolicyInput \<Rightarrow> RealmState \<Rightarrow> SourceSpacePolicy rm_outcome" where
  "setSourceSpacePolicy uuid input s =
    (let policy = \<lparr>sp_id = opaqueId ''source-space-policy'' uuid, sp_realmId = realmId s, sp_sourceSpaceId = ssi_sourceSpaceId input,
           sp_classification = ssi_classification input, sp_allowedCapabilities = ssi_allowedCapabilities input,
           sp_deniedCapabilities = nullish (ssi_deniedCapabilities input) [], sp_readerPrincipalIds = nullish (ssi_readerPrincipalIds input) [],
           sp_allowedModelProviders = nullish (ssi_allowedModelProviders input) [], sp_discoverable = nullish (ssi_discoverable input) True,
           sp_policyVersion = realm_policyVersion (rs_realm s)\<rparr>
     in return policy (audit ((audit_event ''source-space.policy.updated'' RaObserved)\<lparr>rae_sourceSpaceId := Some (sp_sourceSpaceId policy)\<rparr>)
          (s\<lparr>rs_sourceSpacePolicies := set_key (sp_sourceSpaceId policy) policy (rs_sourceSpacePolicies s)\<rparr>)))"

section \<open>Tasks and Capability Grants\<close>

record CreateTaskInput =
  cti_principalId :: string
  cti_actorId :: string
  cti_sessionId :: string
  cti_purpose :: string
  cti_workspaceId :: "string option"
  cti_changeId :: "string option"
  cti_modelProvider :: "string option"

definition is_agent :: "RealmActor option \<Rightarrow> bool" where
  "is_agent actor = (case actor of None \<Rightarrow> False | Some a \<Rightarrow> ra_kind a = ActorAgent)"

text \<open>The enrolled agent of an agent Actor.\<close>

definition agent_of :: "RealmActor option \<Rightarrow> RealmState \<Rightarrow> RealmAgent option" where
  "agent_of actor s = (case actor of
     None \<Rightarrow> None
   | Some a \<Rightarrow> if ra_kind a = ActorAgent \<and> truthy (ra_agentId a) then get_key (rs_agents s) (the (ra_agentId a)) else None)"

definition agent_inactive :: "RealmAgent option \<Rightarrow> bool" where
  "agent_inactive agent = (case agent of None \<Rightarrow> True | Some g \<Rightarrow> ag_status g \<noteq> AgentActive)"

definition new_task :: "RealmIds \<Rightarrow> CreateTaskInput \<Rightarrow> RealmSession \<Rightarrow> RealmAgent option \<Rightarrow> RealmState \<Rightarrow> RealmTask" where
  "new_task u input session agent s = \<lparr>tk_id = opaqueId ''task'' (fresh_task u), tk_realmId = realmId s,
     tk_principalId = cti_principalId input, tk_actorId = cti_actorId input, tk_sessionId = cti_sessionId input, tk_purpose = cti_purpose input,
     tk_workspaceId = keep_truthy (cti_workspaceId input), tk_changeId = keep_truthy (cti_changeId input),
     tk_modelProvider = keep_truthy (cti_modelProvider input), tk_agentId = map_option ag_id agent,
     tk_delegatedByActorId = keep_truthy (ses_delegatedByActorId session), tk_delegatedBySessionId = keep_truthy (ses_delegatedBySessionId session),
     tk_status = TaskActive\<rparr>"

definition createTask :: "int \<Rightarrow> RealmIds \<Rightarrow> CreateTaskInput \<Rightarrow> RealmState \<Rightarrow> RealmTask rm_outcome" where
  "createTask now u input s = and_then (requireSession now (cti_sessionId input) s) (\<lambda>session s.
     if ses_authorizationEpoch session \<noteq> epoch s then raise (rm_error ''task.session_stale'') s
     else if ses_principalId session \<noteq> cti_principalId input \<or> ses_actorId session \<noteq> cti_actorId input then raise (rm_error ''task.actor_mismatch'') s
     else (let actor = get_key (rs_actors s) (cti_actorId input); agent = agent_of actor s
           in if is_agent actor \<and> (agent_inactive agent \<or> cti_modelProvider input \<noteq> map_option ag_modelProvider agent)
              then raise (rm_error ''task.agent_model_mismatch'') s
              else (let task = new_task u input session agent s
                    in return task (audit ((audit_event ''task.created'' RaObserved)\<lparr>rae_principalId := Some (tk_principalId task),
                           rae_actorId := Some (tk_actorId task), rae_clientId := Some (ses_clientId session),
                           rae_sessionId := Some (tk_sessionId task), rae_taskId := Some (tk_id task)\<rparr>)
                         (s\<lparr>rs_tasks := set_key (tk_id task) task (rs_tasks s)\<rparr>)))))"

record CreateTaskGrantInput =
  cgi_principalId :: string
  cgi_actorId :: string
  cgi_clientId :: string
  cgi_sessionId :: string
  cgi_taskId :: string
  cgi_resource :: ResourceRef
  cgi_sourceSpaceIds :: "string list"
  cgi_actions :: "Capability list"
  cgi_effects :: "string list option"
  cgi_allowedModelProviders :: "string list option"
  cgi_allowedCredentialClasses :: "CredentialClass list option"
  cgi_deniedActions :: "Capability list option"
  cgi_budget :: "(string, BudgetValue) jsmap option"
  cgi_expiresAt :: "timestamp option"
  cgi_parentGrantId :: "string option"
  cgi_agentId :: "string option"
  cgi_delegatedByActorId :: "string option"
  cgi_delegatedBySessionId :: "string option"

definition grant_models :: "CreateTaskGrantInput \<Rightarrow> RealmAgent option \<Rightarrow> string list" where
  "grant_models input agent = nullish (cgi_allowedModelProviders input) (case agent of None \<Rightarrow> [] | Some g \<Rightarrow> [ag_modelProvider g])"

definition grant_classes :: "CreateTaskGrantInput \<Rightarrow> RealmAgent option \<Rightarrow> CredentialClass list" where
  "grant_classes input agent = nullish (cgi_allowedCredentialClasses input) (case agent of
     None \<Rightarrow> [ClassRealmApi, ClassGit, ClassMcp, ClassRunner, ClassIntegration, ClassDeployment, ClassPromotion]
   | Some g \<Rightarrow> ag_allowedCredentialClasses g)"

definition task_mismatch :: "CreateTaskGrantInput \<Rightarrow> RealmState \<Rightarrow> bool" where
  "task_mismatch input s = (case get_key (rs_tasks s) (cgi_taskId input) of
     None \<Rightarrow> True
   | Some task \<Rightarrow> tk_status task \<noteq> TaskActive \<or> tk_principalId task \<noteq> cgi_principalId input \<or> tk_actorId task \<noteq> cgi_actorId input
       \<or> tk_sessionId task \<noteq> cgi_sessionId input)"

text \<open>The parent belongs to the same human chain, or to the human who delegated this agent.\<close>

definition same_chain :: "CreateTaskGrantInput \<Rightarrow> RealmActor option \<Rightarrow> RealmCapabilityGrant \<Rightarrow> bool" where
  "same_chain input actor parent \<longleftrightarrow> \<not> is_agent actor \<and> gr_actorId parent = cgi_actorId input \<and> gr_clientId parent = cgi_clientId input
     \<and> gr_sessionId parent = cgi_sessionId input"

definition delegated_agent_chain :: "CreateTaskGrantInput \<Rightarrow> RealmActor option \<Rightarrow> RealmAgent option \<Rightarrow> RealmSession \<Rightarrow> RealmCapabilityGrant \<Rightarrow> RealmState \<Rightarrow> bool" where
  "delegated_agent_chain input actor agent session parent s \<longleftrightarrow> is_agent actor
     \<and> (case agent of None \<Rightarrow> False | Some g \<Rightarrow> cgi_agentId input = Some (ag_id g)
          \<and> (case get_key (rs_tasks s) (cgi_taskId input) of None \<Rightarrow> False | Some task \<Rightarrow> tk_agentId task = Some (ag_id g)))
     \<and> map_option ra_kind (get_key (rs_actors s) (gr_actorId parent)) = Some ActorHuman
     \<and> cgi_delegatedByActorId input = Some (gr_actorId parent) \<and> cgi_delegatedBySessionId input = Some (gr_sessionId parent)
     \<and> ses_delegatedByActorId session = Some (gr_actorId parent) \<and> ses_delegatedBySessionId session = Some (gr_sessionId parent)"

definition widens :: "CreateTaskGrantInput \<Rightarrow> RealmAgent option \<Rightarrow> RealmCapabilityGrant \<Rightarrow> bool" where
  "widens input agent parent \<longleftrightarrow> later (nullish (cgi_expiresAt input) (gr_expiresAt parent)) (gr_expiresAt parent)
     \<or> \<not> listIsSubset (cgi_actions input) (gr_actions parent)
     \<or> \<not> listIsSubset (cgi_sourceSpaceIds input) (gr_sourceSpaceIds parent)
     \<or> (gr_allowedModelProviders parent \<noteq> [] \<and> (grant_models input agent = [] \<or> \<not> listIsSubset (grant_models input agent) (gr_allowedModelProviders parent)))
     \<or> \<not> listIsSubset (grant_classes input agent) (gr_allowedCredentialClasses parent)
     \<or> \<not> listIsSubset (nullish (cgi_effects input) []) (gr_effects parent)
     \<or> \<not> budgetIsNarrower (nullish (cgi_budget input) []) (gr_budget parent)"

definition parent_error :: "int \<Rightarrow> CreateTaskGrantInput \<Rightarrow> RealmActor option \<Rightarrow> RealmAgent option \<Rightarrow> RealmSession \<Rightarrow> RealmState \<Rightarrow> RealmIdentityError option" where
  "parent_error now input actor agent session s =
    (if \<not> truthy (cgi_parentGrantId input) then None
     else (case get_key (rs_grants s) (the (cgi_parentGrantId input)) of
         None \<Rightarrow> Some (rm_error ''grant.parent_invalid'')
       | Some parent \<Rightarrow>
           or_else (fail_if (gr_principalId parent \<noteq> cgi_principalId input
               \<or> \<not> same_chain input actor parent \<and> \<not> delegated_agent_chain input actor agent session parent s
               \<or> \<not> grantChainIsActive now s [] (the (cgi_parentGrantId input))) (rm_error ''grant.parent_invalid''))
             (fail_if (widens input agent parent) (rm_error ''grant.widening''))))"

definition grant_error :: "int \<Rightarrow> CreateTaskGrantInput \<Rightarrow> RealmSession \<Rightarrow> RealmState \<Rightarrow> RealmIdentityError option" where
  "grant_error now input session s =
    (let actor = get_key (rs_actors s) (cgi_actorId input); agent = agent_of actor s
     in or_else (fail_if (cgi_agentId input \<noteq> None \<and> cgi_agentId input \<noteq> map_option ag_id agent) (rm_error ''grant.agent_mismatch''))
       (or_else (fail_if (\<not> is_agent actor \<and> (cgi_delegatedByActorId input \<noteq> None \<or> cgi_delegatedBySessionId input \<noteq> None)) (rm_error ''grant.delegation_metadata_invalid''))
       (or_else (fail_if (is_agent actor \<and> agent_inactive agent) (rm_error ''grant.agent_revoked''))
       (or_else (fail_if (is_agent actor \<and> \<not> truthy (cgi_parentGrantId input)) (rm_error ''grant.agent_parent_required''))
       (or_else (fail_if (ses_authorizationEpoch session \<noteq> epoch s) (rm_error ''grant.session_stale''))
       (or_else (fail_if (ses_principalId session \<noteq> cgi_principalId input \<or> ses_actorId session \<noteq> cgi_actorId input \<or> ses_clientId session \<noteq> cgi_clientId input) (rm_error ''grant.actor_mismatch''))
       (or_else (fail_if (task_mismatch input s) (rm_error ''grant.task_invalid''))
       (or_else (case agent of None \<Rightarrow> None | Some g \<Rightarrow> fail_if (\<not> listIsSubset (grant_models input agent) [ag_modelProvider g]
            \<or> \<not> listIsSubset (grant_classes input agent) (ag_allowedCredentialClasses g)
            \<or> (\<exists>a\<in>set (cgi_actions input). a \<in> set AGENT_PROHIBITED_CAPABILITIES)) (rm_error ''grant.agent_scope_invalid''))
       (or_else (parent_error now input actor agent session s)
         (case cgi_expiresAt input of None \<Rightarrow> None
          | Some t \<Rightarrow> fail_if (t = None \<or> expired t now) (rm_error ''grant.expiry_invalid'')))))))))))"

definition new_grant :: "int \<Rightarrow> RealmIds \<Rightarrow> CreateTaskGrantInput \<Rightarrow> RealmState \<Rightarrow> RealmCapabilityGrant" where
  "new_grant now u input s = (let agent = agent_of (get_key (rs_actors s) (cgi_actorId input)) s in \<lparr>
     gr_id = opaqueId ''grant'' (fresh_grant u), gr_realmId = realmId s, gr_subjectId = cgi_actorId input,
     gr_resource = (cgi_resource input)\<lparr>rr_realmId := realmId s\<rparr>, gr_actions = cgi_actions input,
     gr_expiresAt = nullish (cgi_expiresAt input) (Some (now + rs_credentialLifetimeMs s)), gr_status = GrantActive,
     gr_principalId = cgi_principalId input, gr_actorId = cgi_actorId input, gr_clientId = cgi_clientId input,
     gr_sessionId = cgi_sessionId input, gr_taskId = cgi_taskId input, gr_sourceSpaceIds = cgi_sourceSpaceIds input,
     gr_effects = nullish (cgi_effects input) [], gr_allowedModelProviders = grant_models input agent,
     gr_allowedCredentialClasses = grant_classes input agent, gr_deniedActions = nullish (cgi_deniedActions input) [],
     gr_budget = nullish (cgi_budget input) [], gr_policyVersion = realm_policyVersion (rs_realm s), gr_authorizationEpoch = epoch s,
     gr_agentId = (case agent of Some g \<Rightarrow> Some (ag_id g) | None \<Rightarrow> keep_truthy (cgi_agentId input)),
     gr_delegatedByActorId = keep_truthy (cgi_delegatedByActorId input), gr_delegatedBySessionId = keep_truthy (cgi_delegatedBySessionId input),
     gr_parentGrantId = keep_truthy (cgi_parentGrantId input)\<rparr>)"

text \<open>
  The ids of the Principal, the Client and the Session looked up are those of the input; the code writes
  some of them from the records.
\<close>

definition createCapabilityGrant :: "int \<Rightarrow> RealmIds \<Rightarrow> CreateTaskGrantInput \<Rightarrow> RealmState \<Rightarrow> RealmCapabilityGrant rm_outcome" where
  "createCapabilityGrant now u input s =
     and_then (requirePrincipal (cgi_principalId input) s) (\<lambda>prin s.
     and_then (requireSession now (cgi_sessionId input) s) (\<lambda>session s.
     and_then (requireClient (cgi_clientId input) s) (\<lambda>client s.
       case grant_error now input session s of
         Some e \<Rightarrow> raise e s
       | None \<Rightarrow> (let grant = new_grant now u input s
                  in return grant (audit ((audit_event ''grant.issued'' RaSucceeded)\<lparr>rae_principalId := Some (gr_principalId grant),
                         rae_actorId := Some (gr_actorId grant), rae_clientId := Some (gr_clientId grant),
                         rae_sessionId := Some (gr_sessionId grant), rae_taskId := Some (gr_taskId grant), rae_grantId := Some (gr_id grant)\<rparr>)
                       (set_grant grant s))))))"

section \<open>Delegation to agents\<close>

definition bindings_for :: "string \<Rightarrow> ResourceRef \<Rightarrow> RealmState \<Rightarrow> Relationship list" where
  "bindings_for principalId resource s = filter (\<lambda>b. rl_status b = EntryActive \<and> rl_realmId b = realmId s \<and> rl_principalId b = principalId
     \<and> resourceMatches (rl_resource b) resource) (map_values (rs_relationships s))"

definition role_allows :: "Relationship list \<Rightarrow> Capability \<Rightarrow> bool" where
  "role_allows bindings c \<longleftrightarrow> (\<exists>b\<in>set bindings. c \<in> set (ROLE_CAPABILITIES (rl_role b)))"

definition relationship_denies :: "Relationship list \<Rightarrow> Capability \<Rightarrow> bool" where
  "relationship_denies bindings c \<longleftrightarrow> (\<exists>b\<in>set bindings. c \<in> set (rl_deniedCapabilities b))"

record AgentDelegationInput =
  adi_humanSessionId :: string
  adi_parentGrantId :: string
  adi_agentId :: string
  adi_purpose :: string
  adi_resource :: ResourceRef
  adi_sourceSpaceIds :: "string list"
  adi_actions :: "Capability list"
  adi_effects :: "string list option"
  adi_allowedCredentialClasses :: "CredentialClass list option"
  adi_budget :: "(string, BudgetValue) jsmap option"
  adi_expiresAt :: "timestamp option"
  adi_workspaceId :: "string option"
  adi_changeId :: "string option"

definition agent_session :: "int \<Rightarrow> RealmIds \<Rightarrow> RealmSession \<Rightarrow> RealmActor \<Rightarrow> RealmAgent \<Rightarrow> RealmState \<Rightarrow> RealmSession" where
  "agent_session now u parentSession parentActor agent s = \<lparr>ses_id = opaqueId ''session'' (fresh_session u), ses_realmId = realmId s,
     ses_principalId = ses_principalId parentSession, ses_actorId = opaqueId ''actor'' (fresh_actor u), ses_clientId = ag_clientId agent,
     ses_method = ses_method parentSession, ses_strength = ses_strength parentSession,
     ses_expiresAt = earliest (ses_expiresAt parentSession) (now + rs_sessionLifetimeMs s), ses_authorizationEpoch = epoch s,
     ses_status = SessionActive, ses_actorKind = Some ActorAgent, ses_agentId = Some (ag_id agent),
     ses_delegatedByActorId = Some (actor_actorId parentActor), ses_delegatedBySessionId = Some (ses_id parentSession)\<rparr>"

definition agent_actor :: "RealmIds \<Rightarrow> RealmSession \<Rightarrow> RealmActor \<Rightarrow> RealmAgent \<Rightarrow> RealmState \<Rightarrow> RealmActor" where
  "agent_actor u parentSession parentActor agent s = \<lparr>actor_principalId = ses_principalId parentSession,
     actor_actorId = opaqueId ''actor'' (fresh_actor u), actor_sessionId = opaqueId ''session'' (fresh_session u),
     actor_clientId = ag_clientId agent, ra_realmId = realmId s, ra_kind = ActorAgent, ra_status = AgentActive, ra_agentId = Some (ag_id agent),
     ra_delegatedByActorId = Some (actor_actorId parentActor), ra_delegatedBySessionId = Some (ses_id parentSession),
     ra_modelProvider = Some (ag_modelProvider agent)\<rparr>"

definition parent_actor_error :: "RealmActor option \<Rightarrow> RealmIdentityError option" where
  "parent_actor_error actor = fail_if (case actor of None \<Rightarrow> True | Some a \<Rightarrow> ra_kind a \<noteq> ActorHuman \<or> ra_status a \<noteq> AgentActive)
     (rm_error ''delegation.parent_actor_invalid'')"

definition createAgentSession :: "int \<Rightarrow> RealmIds \<Rightarrow> RealmSession \<Rightarrow> RealmAgent \<Rightarrow> RealmState \<Rightarrow> RealmSession rm_outcome" where
  "createAgentSession now u parentSession agent s =
    (let parentActor = get_key (rs_actors s) (ses_actorId parentSession)
     in case parent_actor_error parentActor of
          Some e \<Rightarrow> raise e s
        | None \<Rightarrow> (let session = agent_session now u parentSession (the parentActor) agent s
                   in return session (store_session (agent_actor u parentSession (the parentActor) agent s) session ''session.agent_delegated'' s)))"

definition parent_chain_broken :: "int \<Rightarrow> AgentDelegationInput \<Rightarrow> RealmSession \<Rightarrow> RealmState \<Rightarrow> bool" where
  "parent_chain_broken now input session s = (case get_key (rs_grants s) (adi_parentGrantId input) of
     None \<Rightarrow> True
   | Some grant \<Rightarrow> (case get_key (rs_tasks s) (gr_taskId grant) of
         None \<Rightarrow> True
       | Some task \<Rightarrow> gr_principalId grant \<noteq> ses_principalId session \<or> gr_actorId grant \<noteq> ses_actorId session
           \<or> gr_clientId grant \<noteq> ses_clientId session \<or> gr_sessionId grant \<noteq> ses_id session
           \<or> tk_principalId task \<noteq> ses_principalId session \<or> tk_actorId task \<noteq> ses_actorId session \<or> tk_sessionId task \<noteq> ses_id session
           \<or> tk_status task \<noteq> TaskActive \<or> \<not> grantChainIsActive now s [] (adi_parentGrantId input)))"

definition delegation_scope_error :: "int \<Rightarrow> AgentDelegationInput \<Rightarrow> RealmSession \<Rightarrow> RealmAgent \<Rightarrow> RealmCapabilityGrant \<Rightarrow> RealmState \<Rightarrow> RealmIdentityError option" where
  "delegation_scope_error now input session agent parent s =
    (let bindings = bindings_for (ses_principalId session) (adi_resource input) s;
         classes = nullish (adi_allowedCredentialClasses input) (ag_allowedCredentialClasses agent);
         expiresAt = nullish (adi_expiresAt input) (gr_expiresAt parent)
     in or_else (fail_if (AgentDelegate \<notin> set (gr_actions parent)) (rm_error ''delegation.capability_missing''))
       (or_else (fail_if (\<not> role_allows bindings AgentDelegate \<or> relationship_denies bindings AgentDelegate) (rm_error ''delegation.relationship_denied''))
       (or_else (fail_if (\<not> resourceMatches (gr_resource parent) (adi_resource input)) (rm_error ''delegation.resource_widening''))
       (or_else (fail_if (\<not> listIsSubset (adi_sourceSpaceIds input) (gr_sourceSpaceIds parent)) (rm_error ''delegation.source_space_widening''))
       (or_else (fail_if (\<not> listIsSubset (adi_actions input) (gr_actions parent)
            \<or> (\<exists>a\<in>set (adi_actions input). a \<in> set AGENT_PROHIBITED_CAPABILITIES)) (rm_error ''delegation.action_widening''))
       (or_else (fail_if (\<not> listIsSubset (nullish (adi_effects input) []) (gr_effects parent)) (rm_error ''delegation.effect_widening''))
       (or_else (fail_if (\<not> listIsSubset classes (ag_allowedCredentialClasses agent) \<or> \<not> listIsSubset classes (gr_allowedCredentialClasses parent)) (rm_error ''delegation.audience_widening''))
       (or_else (fail_if (gr_allowedModelProviders parent \<noteq> [] \<and> ag_modelProvider agent \<notin> set (gr_allowedModelProviders parent)) (rm_error ''delegation.model_denied''))
       (or_else (fail_if (\<not> budgetIsNarrower (nullish (adi_budget input) []) (gr_budget parent)) (rm_error ''delegation.budget_widening''))
         (fail_if (expiresAt = None \<or> expired expiresAt now \<or> later expiresAt (gr_expiresAt parent)) (rm_error ''delegation.expiry_invalid'')))))))))))"

definition delegation_error :: "int \<Rightarrow> AgentDelegationInput \<Rightarrow> RealmSession \<Rightarrow> RealmState \<Rightarrow> RealmIdentityError option" where
  "delegation_error now input session s =
     or_else (parent_actor_error (get_key (rs_actors s) (ses_actorId session)))
     (or_else (fail_if (blank (adi_purpose input)) (rm_error ''delegation.purpose_invalid''))
     (case get_key (rs_agents s) (adi_agentId input) of
        None \<Rightarrow> Some (rm_error ''delegation.agent_invalid'')
      | Some agent \<Rightarrow>
          or_else (fail_if (ag_realmId agent \<noteq> realmId s \<or> ag_principalId agent \<noteq> ses_principalId session \<or> ag_status agent \<noteq> AgentActive) (rm_error ''delegation.agent_invalid''))
          (or_else (fail_if (parent_chain_broken now input session s) (rm_error ''delegation.parent_grant_invalid''))
            (delegation_scope_error now input session agent (the (get_key (rs_grants s) (adi_parentGrantId input))) s))))"

definition delegated_task_input :: "AgentDelegationInput \<Rightarrow> RealmSession \<Rightarrow> RealmAgent \<Rightarrow> CreateTaskInput" where
  "delegated_task_input input session agent = \<lparr>cti_principalId = ses_principalId session, cti_actorId = ses_actorId session,
     cti_sessionId = ses_id session, cti_purpose = adi_purpose input, cti_workspaceId = keep_truthy (adi_workspaceId input),
     cti_changeId = keep_truthy (adi_changeId input), cti_modelProvider = Some (ag_modelProvider agent)\<rparr>"

definition delegated_grant_input :: "AgentDelegationInput \<Rightarrow> RealmSession \<Rightarrow> RealmTask \<Rightarrow> RealmAgent \<Rightarrow> RealmCapabilityGrant \<Rightarrow> RealmActor \<Rightarrow> RealmSession \<Rightarrow> CreateTaskGrantInput" where
  "delegated_grant_input input session task agent parent parentActor parentSession = \<lparr>cgi_principalId = ses_principalId session,
     cgi_actorId = ses_actorId session, cgi_clientId = ag_clientId agent, cgi_sessionId = ses_id session, cgi_taskId = tk_id task,
     cgi_resource = adi_resource input, cgi_sourceSpaceIds = adi_sourceSpaceIds input, cgi_actions = adi_actions input,
     cgi_effects = Some (nullish (adi_effects input) []), cgi_allowedModelProviders = Some [ag_modelProvider agent],
     cgi_allowedCredentialClasses = Some (nullish (adi_allowedCredentialClasses input) (ag_allowedCredentialClasses agent)),
     cgi_deniedActions = None, cgi_budget = Some (nullish (adi_budget input) []),
     cgi_expiresAt = Some (nullish (adi_expiresAt input) (gr_expiresAt parent)), cgi_parentGrantId = Some (gr_id parent),
     cgi_agentId = Some (ag_id agent), cgi_delegatedByActorId = Some (actor_actorId parentActor),
     cgi_delegatedBySessionId = Some (ses_id parentSession)\<rparr>"

definition delegateAgent :: "int \<Rightarrow> RealmIds \<Rightarrow> AgentDelegationInput \<Rightarrow> RealmState \<Rightarrow> (RealmSession \<times> RealmTask \<times> RealmCapabilityGrant) rm_outcome" where
  "delegateAgent now u input s = and_then (requireSession now (adi_humanSessionId input) s) (\<lambda>parentSession s.
     case delegation_error now input parentSession s of
       Some e \<Rightarrow> raise e s
     | None \<Rightarrow>
         (let parentActor = the (get_key (rs_actors s) (ses_actorId parentSession));
              agent = the (get_key (rs_agents s) (adi_agentId input));
              parent = the (get_key (rs_grants s) (adi_parentGrantId input))
          in and_then (createAgentSession now u parentSession agent s) (\<lambda>session s.
             and_then (createTask now u (delegated_task_input input session agent) s) (\<lambda>task s.
             and_then (createCapabilityGrant now u (delegated_grant_input input session task agent parent parentActor parentSession) s) (\<lambda>grant s.
               return (session, task, grant) s)))))"

text \<open>The requested expiry of an owner Grant is not the empty text, which the code treats as omitted.\<close>

record OwnerGrantInput =
  ogi_sessionId :: string
  ogi_purpose :: string
  ogi_resource :: ResourceRef
  ogi_sourceSpaceIds :: "string list"
  ogi_actions :: "Capability list"
  ogi_effects :: "string list option"
  ogi_expiresAt :: "timestamp option"

definition owner_grant_error :: "OwnerGrantInput \<Rightarrow> RealmSession \<Rightarrow> RealmState \<Rightarrow> RealmIdentityError option" where
  "owner_grant_error input session s =
    (let bindings = bindings_for (ses_principalId session) (ogi_resource input) s
     in or_else (fail_if (map_option ra_kind (get_key (rs_actors s) (ses_actorId session)) \<noteq> Some ActorHuman) (rm_error ''mcp.delivery_owner_required''))
       (or_else (fail_if (ogi_sourceSpaceIds input = []) (rm_error ''mcp.delivery_source_spaces_required''))
       (or_else (fail_if (\<not> list_all (role_allows bindings) (ogi_actions input) \<or> (\<exists>a\<in>set (ogi_actions input). relationship_denies bindings a)) (rm_error ''mcp.delivery_owner_denied''))
         (fail_if (\<exists>e\<in>set (nullish (ogi_effects input) []). e \<in> set [''canonical.write'', ''production.deploy'', ''target.promote'']) (rm_error ''mcp.delivery_effect_denied'')))))"

definition owner_task_input :: "OwnerGrantInput \<Rightarrow> RealmSession \<Rightarrow> CreateTaskInput" where
  "owner_task_input input session = \<lparr>cti_principalId = ses_principalId session, cti_actorId = ses_actorId session, cti_sessionId = ses_id session,
     cti_purpose = ogi_purpose input, cti_workspaceId = keep_truthy (rr_workspaceId (ogi_resource input)),
     cti_changeId = keep_truthy (rr_changeId (ogi_resource input)), cti_modelProvider = None\<rparr>"

definition owner_grant_input :: "OwnerGrantInput \<Rightarrow> RealmSession \<Rightarrow> RealmTask \<Rightarrow> CreateTaskGrantInput" where
  "owner_grant_input input session task = \<lparr>cgi_principalId = ses_principalId session, cgi_actorId = ses_actorId session,
     cgi_clientId = ses_clientId session, cgi_sessionId = ses_id session, cgi_taskId = tk_id task, cgi_resource = ogi_resource input,
     cgi_sourceSpaceIds = ogi_sourceSpaceIds input, cgi_actions = ogi_actions input, cgi_effects = Some (nullish (ogi_effects input) []),
     cgi_allowedModelProviders = None, cgi_allowedCredentialClasses = Some [], cgi_deniedActions = None, cgi_budget = None,
     cgi_expiresAt = ogi_expiresAt input, cgi_parentGrantId = None, cgi_agentId = None, cgi_delegatedByActorId = None,
     cgi_delegatedBySessionId = None\<rparr>"

definition createOwnerTaskGrant :: "int \<Rightarrow> RealmIds \<Rightarrow> OwnerGrantInput \<Rightarrow> RealmState \<Rightarrow> (RealmTask \<times> RealmCapabilityGrant) rm_outcome" where
  "createOwnerTaskGrant now u input s = and_then (requireSession now (ogi_sessionId input) s) (\<lambda>session s.
     case owner_grant_error input session s of
       Some e \<Rightarrow> raise e s
     | None \<Rightarrow> and_then (createTask now u (owner_task_input input session) s) (\<lambda>task s.
         and_then (createCapabilityGrant now u (owner_grant_input input session task) s) (\<lambda>grant s. return (task, grant) s)))"

end
