(* ===== verification/Realm_Revocation.thy ===== *)
theory Realm_Revocation
  imports Realm_Operations
begin

text \<open>
  The methods of \<open>RealmIdentityPolicy\<close> that check and close authority: validation of a Task Grant,
  credentials, revocation with its two closure loops, policy activation, and the snapshots.
\<close>

section \<open>Validation of a Task Grant\<close>

record TaskGrantValidationInput =
  tgi_principalId :: string
  tgi_actorId :: string
  tgi_clientId :: string
  tgi_sessionId :: string
  tgi_taskId :: string
  tgi_grantId :: string
  tgi_resource :: ResourceRef
  tgi_sourceSpaceIds :: "string list"
  tgi_action :: Capability
  tgi_effects :: "string list option"

datatype TaskGrantValidationResult =
    TaskGrantValid string string timestamp nat nat
  | TaskGrantInvalid string

definition task_grant_mismatch :: "TaskGrantValidationInput \<Rightarrow> RealmSession \<Rightarrow> RealmTask \<Rightarrow> RealmCapabilityGrant \<Rightarrow> RealmState \<Rightarrow> bool" where
  "task_grant_mismatch input session task grant s \<longleftrightarrow> tk_realmId task \<noteq> realmId s \<or> gr_realmId grant \<noteq> realmId s \<or> tk_status task \<noteq> TaskActive
     \<or> gr_taskId grant \<noteq> tk_id task \<or> tk_principalId task \<noteq> tgi_principalId input \<or> tk_actorId task \<noteq> tgi_actorId input
     \<or> tk_sessionId task \<noteq> ses_id session \<or> gr_principalId grant \<noteq> tgi_principalId input \<or> gr_actorId grant \<noteq> tgi_actorId input
     \<or> gr_clientId grant \<noteq> tgi_clientId input \<or> gr_sessionId grant \<noteq> ses_id session"

text \<open>\<open>find\<close> returns the first missing effect and the test reads its truth value: an empty effect is not missed.\<close>

definition missing_effect :: "TaskGrantValidationInput \<Rightarrow> RealmCapabilityGrant \<Rightarrow> bool" where
  "missing_effect input grant = truthy (find (\<lambda>e. e \<notin> set (gr_effects grant)) (nullish (tgi_effects input) []))"

definition task_grant_verdict :: "int \<Rightarrow> TaskGrantValidationInput \<Rightarrow> RealmSession \<Rightarrow> RealmState \<Rightarrow> TaskGrantValidationResult" where
  "task_grant_verdict now input session s = (case (get_key (rs_tasks s) (tgi_taskId input), get_key (rs_grants s) (tgi_grantId input)) of
     (Some task, Some grant) \<Rightarrow>
       if task_grant_mismatch input session task grant s then TaskGrantInvalid ''mcp.delivery_task_grant_invalid''
       else if \<not> grantChainIsActive now s [] (tgi_grantId input) then TaskGrantInvalid ''mcp.delivery_task_grant_inactive''
       else if \<not> resourceMatches (gr_resource grant) (tgi_resource input) then TaskGrantInvalid ''mcp.delivery_resource_denied''
       else if tgi_sourceSpaceIds input = [] \<or> \<not> listIsSubset (tgi_sourceSpaceIds input) (gr_sourceSpaceIds grant)
       then TaskGrantInvalid ''mcp.delivery_source_space_denied''
       else if tgi_action input \<notin> set (gr_actions grant) then TaskGrantInvalid ''mcp.delivery_action_denied''
       else if missing_effect input grant then TaskGrantInvalid ''mcp.delivery_effect_denied''
       else TaskGrantValid (tk_id task) (gr_id grant) (gr_expiresAt grant) (epoch s) (length (gr_sourceSpaceIds grant))
   | _ \<Rightarrow> TaskGrantInvalid ''mcp.delivery_task_grant_invalid'')"

definition validateTaskGrant :: "int \<Rightarrow> TaskGrantValidationInput \<Rightarrow> RealmState \<Rightarrow> TaskGrantValidationResult rm_outcome" where
  "validateTaskGrant now input s = (case requireSession now (tgi_sessionId input) s of
     (Inl (RealmIdentityError code _), s') \<Rightarrow> return (TaskGrantInvalid code) s'
   | (Inr session, s') \<Rightarrow> return (task_grant_verdict now input session s') s')"

section \<open>Revocation\<close>

text \<open>\<open>Set.prototype.add\<close> on a set listed in insertion order.\<close>

definition add_member :: "'a \<Rightarrow> 'a list \<Rightarrow> 'a list" where
  "add_member x xs = (if x \<in> set xs then xs else xs @ [x])"

lemma set_add_member [simp]: "set (add_member x xs) = insert x (set xs)"
  by (auto simp: add_member_def)

text \<open>
  One pass of the loop that revokes derived Grants: it goes over the Grants in the order of the
  dictionary, and a Grant revoked by the pass already counts for those after it. \<open>hit\<close> is the test of the
  loop without the status. The last component is the flag \<open>expanded\<close>.
\<close>

fun grant_pass :: "(RealmCapabilityGrant \<Rightarrow> string list \<Rightarrow> bool) \<Rightarrow> string list \<Rightarrow> (string, RealmCapabilityGrant) jsmap
    \<Rightarrow> string list \<times> (string, RealmCapabilityGrant) jsmap \<times> bool" where
  "grant_pass hit revoked [] = (revoked, [], False)"
| "grant_pass hit revoked ((k, g) # m) =
     (if hit g revoked \<and> gr_status g = GrantActive
      then (case grant_pass hit (add_member (gr_id g) revoked) m of (r, m', _) \<Rightarrow> (r, (k, g\<lparr>gr_status := GrantRevoked\<rparr>) # m', True))
      else (case grant_pass hit revoked m of (r, m', b) \<Rightarrow> (r, (k, g) # m', b)))"

definition active_grants :: "(string, RealmCapabilityGrant) jsmap \<Rightarrow> nat" where
  "active_grants m = length (filter (\<lambda>(k, g). gr_status g = GrantActive) m)"

lemma grant_pass_active:
  "grant_pass hit revoked m = (r, m', b) \<Longrightarrow> if b then active_grants m' < active_grants m else r = revoked \<and> m' = m"
proof (induction hit revoked m arbitrary: r m' b rule: grant_pass.induct)
  case (2 hit revoked k g m)
  show ?case
  proof (cases "hit g revoked \<and> gr_status g = GrantActive")
    case True
    obtain r1 m1 b1 where p: "grant_pass hit (add_member (gr_id g) revoked) m = (r1, m1, b1)"
      by (cases "grant_pass hit (add_member (gr_id g) revoked) m") auto
    with True "2.IH"(1) have "if b1 then active_grants m1 < active_grants m else m1 = m" by (simp split: if_splits)
    with p True "2.prems" show ?thesis by (auto simp: active_grants_def split: if_splits)
  next
    case False
    obtain r1 m1 b1 where p: "grant_pass hit revoked m = (r1, m1, b1)"
      by (cases "grant_pass hit revoked m") auto
    with False "2.IH"(2) have "if b1 then active_grants m1 < active_grants m else r1 = revoked \<and> m1 = m" by simp
    with p False "2.prems" show ?thesis by (auto simp: active_grants_def split: if_splits)
  qed
qed (auto simp: active_grants_def)

text \<open>The loop runs passes until one revokes nothing; every other pass lowers the number of active Grants.\<close>

function grant_loop :: "(RealmCapabilityGrant \<Rightarrow> string list \<Rightarrow> bool) \<Rightarrow> string list \<Rightarrow> (string, RealmCapabilityGrant) jsmap
    \<Rightarrow> string list \<times> (string, RealmCapabilityGrant) jsmap" where
  "grant_loop hit revoked m = (case grant_pass hit revoked m of (r, m', b) \<Rightarrow> if b then grant_loop hit r m' else (r, m'))"
  by pat_completeness auto
termination
  by (relation "measure (\<lambda>(hit, r, m). active_grants m)") (auto dest!: grant_pass_active [OF sym])

declare grant_loop.simps [simp del]

definition revoke_credentials :: "(IssuedCredentialRecord \<Rightarrow> bool) \<Rightarrow> RealmState \<Rightarrow> string list \<times> RealmState" where
  "revoke_credentials hit s =
    (map cr_id (filter (\<lambda>c. hit c \<and> cr_status c = CredentialActive) (map_values (rs_credentials s))),
     s\<lparr>rs_credentials := map (\<lambda>(k, c). (k, if hit c \<and> cr_status c = CredentialActive then c\<lparr>cr_status := CredentialRevoked\<rparr> else c)) (rs_credentials s)\<rparr>)"

definition derived_grant :: "RealmCapabilityGrant \<Rightarrow> string list \<Rightarrow> bool" where
  "derived_grant g revoked \<longleftrightarrow> truthy (gr_parentGrantId g) \<and> the (gr_parentGrantId g) \<in> set revoked"

definition revokeGrant :: "string \<Rightarrow> RealmState \<Rightarrow> string list rm_outcome" where
  "revokeGrant grantId s = (case get_key (rs_grants s) grantId of
     None \<Rightarrow> raise (rm_error ''grant.not_found'') s
   | Some grant \<Rightarrow>
       (let (revoked, grants) = grant_loop derived_grant [grantId] (set_key grantId (grant\<lparr>gr_status := GrantRevoked\<rparr>) (rs_grants s));
            (credentialIds, s1) = revoke_credentials (\<lambda>c. cr_grantId c \<in> set revoked) (s\<lparr>rs_grants := grants\<rparr>)
        in return credentialIds (audit ((audit_event ''grant.revoked'' RaRevoked)\<lparr>rae_principalId := Some (gr_principalId grant),
             rae_actorId := Some (gr_actorId grant), rae_clientId := Some (gr_clientId grant), rae_sessionId := Some (gr_sessionId grant),
             rae_taskId := Some (gr_taskId grant), rae_grantId := Some grantId, rae_sourceSpaceId := rr_sourceSpaceId (gr_resource grant)\<rparr>) s1)))"

text \<open>The Sessions delegated from one, directly or not, again in passes over the dictionary.\<close>

fun session_pass :: "string list \<Rightarrow> RealmSession list \<Rightarrow> string list" where
  "session_pass ids [] = ids"
| "session_pass ids (x # xs) =
     (if truthy (ses_delegatedBySessionId x) \<and> the (ses_delegatedBySessionId x) \<in> set ids \<and> ses_id x \<notin> set ids
      then session_pass (ids @ [ses_id x]) xs else session_pass ids xs)"

lemma session_pass_prefix: "\<exists>new. session_pass ids xs = ids @ new \<and> set new \<subseteq> ses_id ` set xs - set ids"
proof (induction ids xs rule: session_pass.induct)
  case (2 ids x xs)
  then show ?case by fastforce
qed simp

lemma session_pass_unseen:
  assumes "session_pass ids (map_values m) \<noteq> ids"
  shows "unseen ses_id m (session_pass ids (map_values m)) < unseen ses_id m ids"
proof -
  obtain new where new: "session_pass ids (map_values m) = ids @ new" "set new \<subseteq> ses_id ` set (map_values m) - set ids"
    using session_pass_prefix by blast
  with assms obtain i rest where "new = i # rest" by (cases new) auto
  with new obtain x where "x \<in> set (map_values m)" "ses_id x \<notin> set ids" "ses_id x \<in> set new" by auto
  then have "length (filter (\<lambda>v. ses_id v \<notin> set new) (filter (\<lambda>v. ses_id v \<notin> set ids) (map_values m)))
      < length (filter (\<lambda>v. ses_id v \<notin> set ids) (map_values m))"
    by (intro length_filter_less [of x]) auto
  with new show ?thesis by (simp add: unseen_def conj_commute)
qed

function session_loop :: "string list \<Rightarrow> (string, RealmSession) jsmap \<Rightarrow> string list" where
  "session_loop ids m = (let ids' = session_pass ids (map_values m) in if ids' \<noteq> ids then session_loop ids' m else ids')"
  by pat_completeness auto
termination
  by (relation "measure (\<lambda>(ids, m). unseen ses_id m ids)") (auto intro: session_pass_unseen)

declare session_loop.simps [simp del]

definition close_task :: "string \<Rightarrow> RealmTask \<Rightarrow> RealmTask" where
  "close_task i task = (if tk_sessionId task = i \<and> tk_status task = TaskActive then task\<lparr>tk_status := TaskClosed\<rparr> else task)"

definition revoke_actor :: "string \<Rightarrow> (string, RealmActor) jsmap \<Rightarrow> (string, RealmActor) jsmap" where
  "revoke_actor i m = (case get_key m i of None \<Rightarrow> m | Some actor \<Rightarrow> set_key i (actor\<lparr>ra_status := AgentRevoked\<rparr>) m)"

definition revoke_affected :: "string \<Rightarrow> RealmState \<Rightarrow> RealmState" where
  "revoke_affected i s = (case get_key (rs_sessions s) i of
     None \<Rightarrow> s
   | Some session \<Rightarrow> s\<lparr>rs_sessions := set_key i (session\<lparr>ses_status := SessionRevoked\<rparr>) (rs_sessions s),
       rs_actors := revoke_actor (ses_actorId session) (rs_actors s),
       rs_tasks := map (\<lambda>(k, task). (k, close_task i task)) (rs_tasks s)\<rparr>)"

definition session_grant :: "string list \<Rightarrow> RealmCapabilityGrant \<Rightarrow> string list \<Rightarrow> bool" where
  "session_grant ids g revoked \<longleftrightarrow> gr_sessionId g \<in> set ids \<or> (case gr_parentGrantId g of None \<Rightarrow> False | Some parentId \<Rightarrow> parentId \<in> set revoked)"

record SessionRevocation =
  sr_revokedGrantIds :: "string list"
  sr_revokedCredentialIds :: "string list"

definition revokeSession :: "string \<Rightarrow> RealmState \<Rightarrow> SessionRevocation rm_outcome" where
  "revokeSession sessionId s = (case get_key (rs_sessions s) sessionId of
     None \<Rightarrow> raise (rm_error ''session.not_found'') s
   | Some session \<Rightarrow>
       (let ids = session_loop [sessionId] (rs_sessions s);
            s1 = fold revoke_affected ids s;
            (revoked, grants) = grant_loop (session_grant ids) [] (rs_grants s1);
            (credentialIds, s2) = revoke_credentials (\<lambda>c. cr_sessionId c \<in> set ids \<or> cr_grantId c \<in> set revoked) (s1\<lparr>rs_grants := grants\<rparr>)
        in return \<lparr>sr_revokedGrantIds = revoked, sr_revokedCredentialIds = credentialIds\<rparr>
             (audit ((audit_event ''session.revoked'' RaRevoked)\<lparr>rae_principalId := Some (ses_principalId session),
               rae_actorId := Some (ses_actorId session), rae_clientId := Some (ses_clientId session), rae_sessionId := Some sessionId\<rparr>) s2)))"

record AgentRevocation =
  av_revokedActorIds :: "string list"
  av_revokedSessionIds :: "string list"
  av_revokedGrantIds :: "string list"
  av_revokedCredentialIds :: "string list"

fun revoke_actors :: "string \<Rightarrow> RealmActor list \<Rightarrow> AgentRevocation \<Rightarrow> RealmState \<Rightarrow> AgentRevocation rm_outcome" where
  "revoke_actors agentId [] acc s = return acc s"
| "revoke_actors agentId (actor # actors) acc s =
     (if ra_agentId actor \<noteq> Some agentId then revoke_actors agentId actors acc s
      else and_then (revokeSession (actor_sessionId actor) s) (\<lambda>result s.
        revoke_actors agentId actors \<lparr>av_revokedActorIds = av_revokedActorIds acc @ [actor_actorId actor],
          av_revokedSessionIds = av_revokedSessionIds acc @ [actor_sessionId actor],
          av_revokedGrantIds = fold add_member (sr_revokedGrantIds result) (av_revokedGrantIds acc),
          av_revokedCredentialIds = fold add_member (sr_revokedCredentialIds result) (av_revokedCredentialIds acc)\<rparr> s))"

definition revokeAgent :: "string \<Rightarrow> RealmState \<Rightarrow> AgentRevocation rm_outcome" where
  "revokeAgent agentId s = (case get_key (rs_agents s) agentId of
     None \<Rightarrow> raise (rm_error ''agent.not_found'') s
   | Some agent \<Rightarrow>
       if ag_realmId agent \<noteq> realmId s then raise (rm_error ''agent.not_found'') s
       else if ag_status agent \<noteq> AgentActive then raise (rm_error ''agent.revoked'') s
       else and_then (revoke_actors agentId (map_values (rs_actors s))
              \<lparr>av_revokedActorIds = [], av_revokedSessionIds = [], av_revokedGrantIds = [], av_revokedCredentialIds = []\<rparr>
              (s\<lparr>rs_agents := set_key agentId (agent\<lparr>ag_status := AgentRevoked\<rparr>) (rs_agents s)\<rparr>)) (\<lambda>result s.
            return result (audit ((audit_event ''agent.revoked'' RaRevoked)\<lparr>rae_principalId := Some (ag_principalId agent),
              rae_clientId := Some (ag_clientId agent)\<rparr>) s)))"

section \<open>Credentials\<close>

definition credential_event :: "string \<Rightarrow> RealmAuditOutcome \<Rightarrow> IssuedCredentialRecord \<Rightarrow> RealmAuditEvent" where
  "credential_event eventType outcome c = (audit_event eventType outcome)\<lparr>rae_principalId := Some (cr_principalId c), rae_actorId := Some (cr_actorId c),
     rae_clientId := Some (cr_clientId c), rae_sessionId := Some (cr_sessionId c), rae_taskId := Some (cr_taskId c), rae_grantId := Some (cr_grantId c)\<rparr>"

definition revokeCredential :: "string \<Rightarrow> RealmState \<Rightarrow> IssuedCredentialRecord rm_outcome" where
  "revokeCredential credentialId s = (case get_key (rs_credentials s) credentialId of
     None \<Rightarrow> raise (rm_error ''credential.not_found'') s
   | Some credential \<Rightarrow>
       (let revoked = credential\<lparr>cr_status := CredentialRevoked\<rparr>
        in return revoked (audit (credential_event ''credential.revoked'' RaRevoked revoked)
             (s\<lparr>rs_credentials := set_key credentialId revoked (rs_credentials s)\<rparr>))))"

record IssueCredentialInput =
  ici_class :: CredentialClass
  ici_principalId :: string
  ici_actorId :: string
  ici_clientId :: string
  ici_sessionId :: string
  ici_taskId :: string
  ici_grantId :: string
  ici_resource :: ResourceRef

definition credential_chain_broken :: "IssueCredentialInput \<Rightarrow> RealmState \<Rightarrow> bool" where
  "credential_chain_broken input s = (case (get_key (rs_grants s) (ici_grantId input), get_key (rs_tasks s) (ici_taskId input)) of
     (Some grant, Some task) \<Rightarrow> gr_taskId grant \<noteq> tk_id task \<or> tk_id task \<noteq> ici_taskId input \<or> gr_principalId grant \<noteq> ici_principalId input
       \<or> gr_actorId grant \<noteq> ici_actorId input \<or> gr_clientId grant \<noteq> ici_clientId input \<or> gr_sessionId grant \<noteq> ici_sessionId input
       \<or> tk_principalId task \<noteq> ici_principalId input \<or> tk_actorId task \<noteq> ici_actorId input \<or> tk_sessionId task \<noteq> ici_sessionId input
   | _ \<Rightarrow> True)"

definition credential_error :: "int \<Rightarrow> IssueCredentialInput \<Rightarrow> RealmClient \<Rightarrow> RealmState \<Rightarrow> RealmIdentityError option" where
  "credential_error now input client s =
    (let grant = the (get_key (rs_grants s) (ici_grantId input))
     in or_else (fail_if (credential_chain_broken input s) (rm_error ''credential.chain_invalid''))
       (or_else (fail_if (\<not> grantChainIsActive now s [] (ici_grantId input)) (rm_error ''credential.grant_inactive''))
       (or_else (fail_if (ici_class input \<notin> set (cl_allowedAudiences client)) (rm_error ''credential.audience_denied''))
       (or_else (fail_if (ici_class input \<notin> set (gr_allowedCredentialClasses grant)) (rm_error ''credential.class_denied''))
         (fail_if (\<not> resourceMatches (gr_resource grant) (ici_resource input)) (rm_error ''credential.resource_denied''))))))"

definition new_credential :: "(string \<Rightarrow> string) \<Rightarrow> int \<Rightarrow> string \<Rightarrow> string \<Rightarrow> IssueCredentialInput \<Rightarrow> RealmState \<Rightarrow> IssuedCredentialRecord" where
  "new_credential tokenDigest now uuid token input s = \<lparr>cr_id = opaqueId ''credential'' uuid, cr_realmId = realmId s, cr_class = ici_class input,
     cr_audience = CREDENTIAL_AUDIENCES (ici_class input), cr_principalId = ici_principalId input, cr_actorId = ici_actorId input,
     cr_clientId = ici_clientId input, cr_sessionId = ici_sessionId input, cr_taskId = ici_taskId input, cr_grantId = ici_grantId input,
     cr_resource = (ici_resource input)\<lparr>rr_realmId := realmId s\<rparr>, cr_tokenDigest = tokenDigest token,
     cr_expiresAt = earliest (gr_expiresAt (the (get_key (rs_grants s) (ici_grantId input)))) (now + rs_credentialLifetimeMs s),
     cr_authorizationEpoch = epoch s, cr_status = CredentialActive\<rparr>"

definition issueCredential :: "(string \<Rightarrow> string) \<Rightarrow> int \<Rightarrow> string \<Rightarrow> string \<Rightarrow> IssueCredentialInput \<Rightarrow> RealmState \<Rightarrow> (IssuedCredentialRecord \<times> string) rm_outcome" where
  "issueCredential tokenDigest now uuid token input s =
     and_then (requirePrincipal (ici_principalId input) s) (\<lambda>prin s.
     and_then (requireSession now (ici_sessionId input) s) (\<lambda>session s.
     and_then (requireClient (ici_clientId input) s) (\<lambda>client s.
       case credential_error now input client s of
         Some e \<Rightarrow> raise e s
       | None \<Rightarrow> (let record = new_credential tokenDigest now uuid token input s
                  in return (record, token) (audit (credential_event ''credential.issued'' RaSucceeded record) (set_credential record s))))))"

record CredentialValidationInput =
  cvi_class :: "CredentialClass option"
  cvi_audience :: "string option"
  cvi_resource :: "ResourceRef option"

datatype CredentialCode = CredentialInvalid | CredentialIsExpired | CredentialIsRevoked | CredentialStale | CredentialAudienceMismatch | CredentialResourceMismatch

datatype CredentialValidationResult = CredentialValid IssuedCredentialRecord | CredentialRefused CredentialCode

definition credential_stale :: "int \<Rightarrow> IssuedCredentialRecord \<Rightarrow> RealmState \<Rightarrow> bool" where
  "credential_stale now c s \<longleftrightarrow> get_key (rs_grants s) (cr_grantId c) = None \<or> get_key (rs_sessions s) (cr_sessionId c) = None
     \<or> get_key (rs_clients s) (cr_clientId c) = None
     \<or> map_option prin_status (get_key (rs_principals s) (cr_principalId c)) \<noteq> Some PrincipalActive
     \<or> \<not> sessionChainIsActive now s [] (cr_sessionId c) \<or> \<not> grantChainIsActive now s [] (cr_grantId c)
     \<or> cr_authorizationEpoch c \<noteq> epoch s"

definition credential_mismatch :: "CredentialValidationInput \<Rightarrow> IssuedCredentialRecord \<Rightarrow> CredentialCode option" where
  "credential_mismatch input c =
     or_else (fail_if (cvi_class input \<noteq> None \<and> cvi_class input \<noteq> Some (cr_class c)) CredentialAudienceMismatch)
     (or_else (fail_if (cvi_audience input \<noteq> None \<and> cvi_audience input \<noteq> Some (cr_audience c)) CredentialAudienceMismatch)
       (case cvi_resource input of None \<Rightarrow> None | Some r \<Rightarrow> fail_if (\<not> resourceMatches (cr_resource c) r) CredentialResourceMismatch))"

definition set_credential_status :: "string \<Rightarrow> IssuedCredentialRecord \<Rightarrow> CredentialStatus \<Rightarrow> RealmState \<Rightarrow> RealmState" where
  "set_credential_status k c status s = s\<lparr>rs_credentials := set_key k (c\<lparr>cr_status := status\<rparr>) (rs_credentials s)\<rparr>"

definition validateCredential :: "(string \<Rightarrow> string) \<Rightarrow> int \<Rightarrow> string \<Rightarrow> CredentialValidationInput \<Rightarrow> RealmState \<Rightarrow> CredentialValidationResult rm_outcome" where
  "validateCredential tokenDigest now token input s = (case find (\<lambda>(k, c). cr_tokenDigest c = tokenDigest token) (rs_credentials s) of
     None \<Rightarrow> return (CredentialRefused CredentialInvalid) s
   | Some (k, c) \<Rightarrow>
       if cr_status c = CredentialRevoked then return (CredentialRefused CredentialIsRevoked) s
       else if cr_status c = CredentialExpired \<or> expired (cr_expiresAt c) now
       then return (CredentialRefused CredentialIsExpired) (set_credential_status k c CredentialExpired s)
       else if credential_stale now c s then return (CredentialRefused CredentialStale) (set_credential_status k c CredentialRevoked s)
       else (case credential_mismatch input c of
           Some code \<Rightarrow> return (CredentialRefused code) s
         | None \<Rightarrow> return (CredentialValid c) (audit (credential_event ''credential.validated'' RaSucceeded c) s)))"

section \<open>Policy activation and snapshots\<close>

definition activateRealmPolicy :: "string \<Rightarrow> RealmState \<Rightarrow> Realm rm_outcome" where
  "activateRealmPolicy policyVersion s =
    (if blank policyVersion then raise (rm_error ''policy.version_invalid'') s
     else (let realm = (rs_realm s)\<lparr>realm_policyVersion := policyVersion, realm_authorizationEpoch := epoch s + 1\<rparr>
           in return realm (audit (audit_event ''policy.activated'' RaObserved) (s\<lparr>rs_realm := realm\<rparr>))))"

text \<open>
  A recovery snapshot is the state without its credentials: here the state itself with the flag, its
  credentials never read. The lifetimes are no part of it; they stay those of the object.
\<close>

record RealmRecoverySnapshot =
  snap_state :: RealmState
  snap_credentialFree :: bool

definition getRecoverySnapshot :: "RealmState \<Rightarrow> RealmRecoverySnapshot" where
  "getRecoverySnapshot s = \<lparr>snap_state = s\<lparr>rs_credentials := []\<rparr>, snap_credentialFree = True\<rparr>"

definition captureOperationalRollback :: "RealmState \<Rightarrow> RealmState \<Rightarrow> RealmState" where
  "captureOperationalRollback before s = before\<lparr>rs_sessionLifetimeMs := rs_sessionLifetimeMs s, rs_credentialLifetimeMs := rs_credentialLifetimeMs s\<rparr>"

definition map_entries :: "('v \<Rightarrow> 'v) \<Rightarrow> ('k, 'v) jsmap \<Rightarrow> ('k, 'v) jsmap" where
  "map_entries f m = map (\<lambda>(k, v). (k, f v)) m"

definition loadSnapshot :: "RealmState \<Rightarrow> bool \<Rightarrow> RealmState \<Rightarrow> Realm rm_outcome" where
  "loadSnapshot snapshot revokeAuthority s =
    (let restoredRealm = (rs_realm snapshot)\<lparr>realm_authorizationEpoch := (if revokeAuthority then max (epoch s) (epoch snapshot) + 1 else epoch snapshot)\<rparr>;
         restored = snapshot\<lparr>rs_realm := restoredRealm,
           rs_sessions := (if revokeAuthority then map_entries (\<lambda>x. x\<lparr>ses_status := SessionRevoked\<rparr>) (rs_sessions snapshot) else rs_sessions snapshot),
           rs_tasks := (if revokeAuthority then map_entries (\<lambda>x. x\<lparr>tk_status := TaskClosed\<rparr>) (rs_tasks snapshot) else rs_tasks snapshot),
           rs_grants := (if revokeAuthority then map_entries (\<lambda>x. x\<lparr>gr_status := GrantRevoked\<rparr>) (rs_grants snapshot) else rs_grants snapshot),
           rs_credentials := [], rs_sessionLifetimeMs := rs_sessionLifetimeMs s, rs_credentialLifetimeMs := rs_credentialLifetimeMs s\<rparr>
     in return restoredRealm (if revokeAuthority then audit (audit_event ''realm.recovery.restored'' RaObserved) restored else restored))"

definition snapshot_error :: "RealmRecoverySnapshot \<Rightarrow> RealmState \<Rightarrow> RealmIdentityError option" where
  "snapshot_error snapshot s = or_else (fail_if (\<not> snap_credentialFree snapshot) (rm_error ''recovery.credentials_present''))
     (fail_if (realmId (snap_state snapshot) \<noteq> realmId s) (rm_error ''recovery.realm_mismatch''))"

definition restoreRecoverySnapshot :: "RealmRecoverySnapshot \<Rightarrow> RealmState \<Rightarrow> Realm rm_outcome" where
  "restoreRecoverySnapshot snapshot s = (case snapshot_error snapshot s of
     Some e \<Rightarrow> raise e s | None \<Rightarrow> loadSnapshot (snap_state snapshot) True s)"

definition restoreOperationalSnapshot :: "RealmRecoverySnapshot \<Rightarrow> RealmState \<Rightarrow> Realm rm_outcome" where
  "restoreOperationalSnapshot snapshot s = (case snapshot_error snapshot s of
     Some e \<Rightarrow> raise e s | None \<Rightarrow> loadSnapshot (snap_state snapshot) False s)"

end
