(* ===== verification/Realm_Decision.thy ===== *)
theory Realm_Decision
  imports Realm_Revocation
begin

text \<open>
  The policy decision of \<open>RealmIdentityPolicy\<close>: \<open>evaluateDecision\<close> collects factors and two flags,
  \<open>denied\<close> and \<open>unknown\<close>, from one check after another. Each check is a function here; the decision is
  their concatenation. The theory ends with the characterisation of the decisions that allow.
\<close>

section \<open>What a human may observe\<close>

definition activeCapabilitiesForPrincipal :: "string \<Rightarrow> ResourceRef \<Rightarrow> RealmState \<Rightarrow> Capability list" where
  "activeCapabilitiesForPrincipal principalId resource s = (case get_key (rs_principals s) principalId of
     None \<Rightarrow> []
   | Some prin \<Rightarrow>
       if prin_realmId prin \<noteq> realmId s \<or> prin_status prin \<noteq> PrincipalActive then []
       else (let bindings = bindings_for principalId resource s;
                 allowed = uniq (concat (map (\<lambda>b. ROLE_CAPABILITIES (rl_role b)) bindings));
                 denied = concat (map rl_deniedCapabilities bindings)
             in sort_key capability_text (filter (\<lambda>c. c \<notin> set denied) allowed)))"

record MetadataReadInput =
  mri_sessionId :: string
  mri_resource :: ResourceRef
  mri_classification :: SourceSpaceClassification
  mri_capability :: "Capability option"

definition source_policy :: "string option \<Rightarrow> RealmState \<Rightarrow> SourceSpacePolicy option" where
  "source_policy sourceId s = (if truthy sourceId then get_key (rs_sourceSpacePolicies s) (the sourceId) else None)"

definition metadata_policy_allows :: "SourceSpacePolicy \<Rightarrow> Capability \<Rightarrow> string \<Rightarrow> bool" where
  "metadata_policy_allows policy capability principalId \<longleftrightarrow> SourceRead \<in> set (sp_allowedCapabilities policy)
     \<and> SourceRead \<notin> set (sp_deniedCapabilities policy) \<and> capability \<notin> set (sp_deniedCapabilities policy)
     \<and> (sp_discoverable policy \<or> principalId \<in> set (sp_readerPrincipalIds policy))
     \<and> (sp_readerPrincipalIds policy = [] \<or> principalId \<in> set (sp_readerPrincipalIds policy))"

definition canReadSourceSpaceMetadata :: "int \<Rightarrow> MetadataReadInput \<Rightarrow> RealmState \<Rightarrow> bool rm_outcome" where
  "canReadSourceSpaceMetadata now input s = and_then (validateSession now (mri_sessionId input) s) (\<lambda>session s.
     case source_policy (rr_sourceSpaceId (mri_resource input)) s of
       None \<Rightarrow> return False s
     | Some policy \<Rightarrow>
         (let capabilities = activeCapabilitiesForPrincipal (ses_principalId session) (mri_resource input) s;
              capability = nullish (mri_capability input) SourceRead
          in return (map_option ra_kind (get_key (rs_actors s) (ses_actorId session)) = Some ActorHuman
               \<and> rr_realmId (mri_resource input) = realmId s \<and> sp_classification policy = mri_classification input
               \<and> sp_policyVersion policy = realm_policyVersion (rs_realm s)
               \<and> SourceRead \<in> set capabilities \<and> capability \<in> set capabilities
               \<and> metadata_policy_allows policy capability (ses_principalId session)) s))"

section \<open>The checks of a decision\<close>

record PolicyApproval =
  ap_required :: "bool option"
  ap_approved :: "bool option"
  ap_approverActorId :: "string option"
  ap_authorActorId :: "string option"
  ap_verifierActorId :: "string option"

record PolicyEvaluationInput =
  pei_operation :: string
  pei_capability :: "Capability option"
  pei_principalId :: string
  pei_actorId :: string
  pei_clientId :: string
  pei_sessionId :: string
  pei_taskId :: "string option"
  pei_grantId :: "string option"
  pei_resource :: ResourceRef
  pei_sourceSpaceId :: "string option"
  pei_effect :: "string option"
  pei_modelProvider :: "string option"
  pei_requiredCredentialClass :: "CredentialClass option"
  pei_requiredAuthStrength :: "AuthenticationStrength option"
  pei_authorityClass :: "AuthorityClass option"
  pei_promotionId :: "string option"
  pei_approval :: "PolicyApproval option"
  pei_discoverable :: "bool option"
  pei_protected :: "bool option"

text \<open>What a check adds: factors, the two flags, and the capability as satisfied or missing.\<close>

record verdict =
  vd_factors :: "PolicyFactor list"
  vd_denied :: bool
  vd_unknown :: bool
  vd_satisfied :: "Capability list"
  vd_missing :: "Capability list"

definition verdict_of :: "string \<Rightarrow> FactorStatus \<Rightarrow> bool \<Rightarrow> bool \<Rightarrow> verdict" where
  "verdict_of name status denied unknown = \<lparr>vd_factors = [\<lparr>pf_name = name, pf_status = status\<rparr>], vd_denied = denied, vd_unknown = unknown,
     vd_satisfied = [], vd_missing = []\<rparr>"

definition satisfied :: "string \<Rightarrow> verdict" where
  "satisfied name = verdict_of name FactorSatisfied False False"

definition denied :: "string \<Rightarrow> verdict" where
  "denied name = verdict_of name FactorDenied True False"

definition missing :: "string \<Rightarrow> verdict" where
  "missing name = verdict_of name FactorMissing True False"

definition undecided :: "string \<Rightarrow> verdict" where
  "undecided name = verdict_of name FactorUnknown False True"

definition no_verdict :: verdict where
  "no_verdict = \<lparr>vd_factors = [], vd_denied = False, vd_unknown = False, vd_satisfied = [], vd_missing = []\<rparr>"

definition join_verdicts :: "verdict list \<Rightarrow> verdict" where
  "join_verdicts vs = \<lparr>vd_factors = concat (map vd_factors vs), vd_denied = list_ex vd_denied vs, vd_unknown = list_ex vd_unknown vs,
     vd_satisfied = concat (map vd_satisfied vs), vd_missing = concat (map vd_missing vs)\<rparr>"

definition requestedSourceSpaceId :: "PolicyEvaluationInput \<Rightarrow> string option" where
  "requestedSourceSpaceId input = (case pei_sourceSpaceId input of Some i \<Rightarrow> Some i | None \<Rightarrow> rr_sourceSpaceId (pei_resource input))"

definition hidden :: "PolicyEvaluationInput \<Rightarrow> RealmState \<Rightarrow> bool" where
  "hidden input s \<longleftrightarrow> (case source_policy (requestedSourceSpaceId input) s of
       None \<Rightarrow> False
     | Some policy \<Rightarrow> \<not> sp_discoverable policy \<and> pei_principalId input \<notin> set (sp_readerPrincipalIds policy))
     \<or> pei_discoverable input = Some False"

definition principal_check :: "PolicyEvaluationInput \<Rightarrow> RealmState \<Rightarrow> verdict" where
  "principal_check input s = (case get_key (rs_principals s) (pei_principalId input) of
     None \<Rightarrow> verdict_of ''principal'' FactorUnknown True False
   | Some prin \<Rightarrow> if prin_realmId prin \<noteq> realmId s \<or> prin_status prin \<noteq> PrincipalActive then denied ''principal'' else satisfied ''principal'')"

definition actor_check :: "PolicyEvaluationInput \<Rightarrow> RealmState \<Rightarrow> verdict" where
  "actor_check input s = (case get_key (rs_actors s) (pei_actorId input) of
     None \<Rightarrow> denied ''actor-chain''
   | Some actor \<Rightarrow>
       if ra_status actor \<noteq> AgentActive \<or> actor_principalId actor \<noteq> pei_principalId input \<or> ra_realmId actor \<noteq> realmId s
          \<or> ra_kind actor = ActorAgent \<and> (\<not> truthy (ra_agentId actor)
              \<or> map_option ag_status (get_key (rs_agents s) (the (ra_agentId actor))) \<noteq> Some AgentActive)
       then denied ''actor-chain'' else satisfied ''actor-chain'')"

definition client_check :: "PolicyEvaluationInput \<Rightarrow> Capability \<Rightarrow> RealmState \<Rightarrow> verdict" where
  "client_check input capability s = (case get_key (rs_clients s) (pei_clientId input) of
     None \<Rightarrow> undecided ''client''
   | Some client \<Rightarrow>
       if cl_status client \<noteq> EntryActive \<or> cl_realmId client \<noteq> realmId s then undecided ''client''
       else if cl_allowedOperations client \<noteq> [] \<and> pei_operation input \<notin> set (cl_allowedOperations client)
          \<and> capability_text capability \<notin> set (cl_allowedOperations client) then denied ''client-consent''
       else satisfied ''client-consent'')"

definition audience_check :: "PolicyEvaluationInput \<Rightarrow> RealmState \<Rightarrow> verdict" where
  "audience_check input s = (case pei_requiredCredentialClass input of
     None \<Rightarrow> no_verdict
   | Some cls \<Rightarrow> (case get_key (rs_clients s) (pei_clientId input) of
         None \<Rightarrow> denied ''client-audience''
       | Some client \<Rightarrow> if cls \<in> set (cl_allowedAudiences client) then satisfied ''client-audience'' else denied ''client-audience''))"

definition session_matches :: "PolicyEvaluationInput \<Rightarrow> RealmSession \<Rightarrow> bool" where
  "session_matches input session \<longleftrightarrow> ses_principalId session = pei_principalId input \<and> ses_actorId session = pei_actorId input
     \<and> ses_clientId session = pei_clientId input"

definition session_check :: "int \<Rightarrow> PolicyEvaluationInput \<Rightarrow> RealmState \<Rightarrow> verdict" where
  "session_check now input s = (case get_key (rs_sessions s) (pei_sessionId input) of
     None \<Rightarrow> undecided ''session-chain''
   | Some session \<Rightarrow>
       if \<not> session_matches input session then undecided ''session-chain''
       else if \<not> sessionChainIsActive now s [] (pei_sessionId input) then denied ''session''
       else if pei_requiredAuthStrength input = Some StrengthPasskey \<and> ses_strength session \<noteq> StrengthPasskey then denied ''authentication-strength''
       else satisfied ''session'')"

definition role_check :: "PolicyEvaluationInput \<Rightarrow> Capability \<Rightarrow> RealmState \<Rightarrow> verdict" where
  "role_check input capability s =
    (if role_allows (bindings_for (pei_principalId input) (pei_resource input) s) capability
     then (satisfied ''role-and-relationships'')\<lparr>vd_satisfied := [capability]\<rparr>
     else (missing ''role-and-relationships'')\<lparr>vd_missing := [capability]\<rparr>)"

definition relationship_deny_check :: "PolicyEvaluationInput \<Rightarrow> Capability \<Rightarrow> RealmState \<Rightarrow> verdict" where
  "relationship_deny_check input capability s =
    (if relationship_denies (bindings_for (pei_principalId input) (pei_resource input) s) capability then denied ''relationship-deny'' else no_verdict)"

definition source_policy_required :: "PolicyEvaluationInput \<Rightarrow> Capability \<Rightarrow> bool" where
  "source_policy_required input capability \<longleftrightarrow> requestedSourceSpaceId input \<noteq> None \<or> capability = SourceRead \<or> capability = SourcePropose"

definition source_check :: "PolicyEvaluationInput \<Rightarrow> Capability \<Rightarrow> RealmState \<Rightarrow> verdict" where
  "source_check input capability s = (case source_policy (requestedSourceSpaceId input) s of
     None \<Rightarrow>
       if source_policy_required input capability \<and> pei_protected input \<noteq> Some False then undecided ''source-space-policy''
       else satisfied ''source-space-policy''
   | Some policy \<Rightarrow>
       if hidden input s then undecided ''source-space-policy''
       else if sp_policyVersion policy \<noteq> realm_policyVersion (rs_realm s) then undecided ''source-space-policy''
       else if sp_readerPrincipalIds policy \<noteq> [] \<and> pei_principalId input \<notin> set (sp_readerPrincipalIds policy) then denied ''source-space-readers''
       else if capability \<notin> set (sp_allowedCapabilities policy) then denied ''source-space-policy''
       else satisfied ''source-space-policy'')"

definition source_deny_check :: "PolicyEvaluationInput \<Rightarrow> Capability \<Rightarrow> RealmState \<Rightarrow> verdict" where
  "source_deny_check input capability s = (case source_policy (requestedSourceSpaceId input) s of
     None \<Rightarrow> no_verdict
   | Some policy \<Rightarrow> if capability \<in> set (sp_deniedCapabilities policy) then denied ''source-space-deny'' else no_verdict)"

definition model_check :: "PolicyEvaluationInput \<Rightarrow> RealmState \<Rightarrow> verdict" where
  "model_check input s = (case source_policy (requestedSourceSpaceId input) s of
     None \<Rightarrow> no_verdict
   | Some policy \<Rightarrow> if truthy (pei_modelProvider input) \<and> sp_allowedModelProviders policy \<noteq> []
          \<and> the (pei_modelProvider input) \<notin> set (sp_allowedModelProviders policy) then denied ''model-provider'' else no_verdict)"

definition grant_matches :: "PolicyEvaluationInput \<Rightarrow> RealmCapabilityGrant \<Rightarrow> bool" where
  "grant_matches input grant \<longleftrightarrow> Some (gr_taskId grant) = pei_taskId input \<and> gr_sessionId grant = pei_sessionId input
     \<and> gr_principalId grant = pei_principalId input \<and> gr_actorId grant = pei_actorId input \<and> gr_clientId grant = pei_clientId input"

definition grant_scope_check :: "PolicyEvaluationInput \<Rightarrow> Capability \<Rightarrow> RealmCapabilityGrant \<Rightarrow> verdict" where
  "grant_scope_check input capability grant =
    (if \<not> resourceMatches (gr_resource grant) (pei_resource input) then denied ''grant-resource''
     else if capability \<notin> set (gr_actions grant) then (missing ''grant-capability'')\<lparr>vd_missing := [capability]\<rparr>
     else if capability \<in> set (gr_deniedActions grant) then denied ''grant-deny''
     else if truthy (requestedSourceSpaceId input) \<and> the (requestedSourceSpaceId input) \<notin> set (gr_sourceSpaceIds grant) then denied ''grant-source-space''
     else if truthy (pei_effect input) \<and> the (pei_effect input) \<notin> set (gr_effects grant) then missing ''grant-effect''
     else if truthy (pei_modelProvider input) \<and> gr_allowedModelProviders grant \<noteq> []
        \<and> the (pei_modelProvider input) \<notin> set (gr_allowedModelProviders grant) then denied ''grant-model-provider''
     else if pei_requiredCredentialClass input \<noteq> None \<and> the (pei_requiredCredentialClass input) \<notin> set (gr_allowedCredentialClasses grant)
     then denied ''grant-audience''
     else satisfied ''task-grant'')"

definition grant_check :: "int \<Rightarrow> PolicyEvaluationInput \<Rightarrow> Capability \<Rightarrow> RealmState \<Rightarrow> verdict" where
  "grant_check now input capability s =
    (if \<not> truthy (pei_grantId input) \<or> \<not> truthy (pei_taskId input) then missing ''task-grant''
     else (case (get_key (rs_grants s) (the (pei_grantId input)), get_key (rs_tasks s) (the (pei_taskId input))) of
         (Some grant, Some task) \<Rightarrow>
           if \<not> grant_matches input grant then undecided ''task-grant''
           else if \<not> grantChainIsActive now s [] (the (pei_grantId input)) then denied ''task-grant''
           else grant_scope_check input capability grant
       | _ \<Rightarrow> undecided ''task-grant''))"

definition approval_check :: "PolicyEvaluationInput \<Rightarrow> verdict" where
  "approval_check input = (case pei_approval input of
     None \<Rightarrow> no_verdict
   | Some approval \<Rightarrow>
       if ap_required approval \<noteq> Some True then no_verdict
       else if truthy (ap_approverActorId approval)
          \<and> (ap_approverActorId approval = ap_authorActorId approval \<or> ap_approverActorId approval = ap_verifierActorId approval)
       then denied ''separation-of-duty''
       else if ap_approved approval = Some True then satisfied ''approval'' else missing ''approval'')"

definition promotion_check :: "PolicyEvaluationInput \<Rightarrow> verdict" where
  "promotion_check input =
    (if pei_authorityClass input = Some AuthorityPromotion \<and> \<not> truthy (pei_promotionId input) then missing ''promotion-authority'' else no_verdict)"

section \<open>The decision\<close>

definition collect_verdict :: "int \<Rightarrow> PolicyEvaluationInput \<Rightarrow> Capability \<Rightarrow> RealmState \<Rightarrow> verdict" where
  "collect_verdict now input capability s = join_verdicts [principal_check input s, actor_check input s, client_check input capability s,
     audience_check input s, session_check now input s, role_check input capability s, relationship_deny_check input capability s,
     source_check input capability s, source_deny_check input capability s, model_check input s, grant_check now input capability s,
     approval_check input, promotion_check input]"

definition decision_kind :: "bool \<Rightarrow> verdict \<Rightarrow> PolicyDecisionKind" where
  "decision_kind hid v = (if hid then DecideDeny else if vd_denied v then DecideDeny else if vd_unknown v then DecideIndeterminate else DecideAllow)"

definition explain :: "PolicyEvaluationInput \<Rightarrow> verdict \<Rightarrow> RealmState \<Rightarrow> PolicyExplanation" where
  "explain input v s =
    (let hid = hidden input s; decision = decision_kind hid v
     in \<lparr>px_decision = decision,
         px_code = (if hid then CodeNotFound else if decision = DecideAllow then CodeAllowed
           else if decision = DecideIndeterminate then CodeIndeterminate else CodeForbidden),
         px_operation = pei_operation input, px_resource = (if hid then None else Some (pei_resource input)),
         px_policyVersion = realm_policyVersion (rs_realm s), px_authorizationEpoch = epoch s,
         px_satisfiedCapabilities = vd_satisfied v, px_missingCapabilities = uniq (vd_missing v), px_factors = vd_factors v,
         px_safeProjection = \<not> hid\<rparr>)"

text \<open>
  What an observing evaluation writes: a matching Session or Grant that is past its expiry is marked, then
  the decision is audited. No check of the same evaluation reads what was marked: the Session is marked
  after its own check, and the chain of Grants does not look at Sessions.
\<close>

definition observe_session :: "int \<Rightarrow> PolicyEvaluationInput \<Rightarrow> RealmState \<Rightarrow> RealmState" where
  "observe_session now input s = (case get_key (rs_sessions s) (pei_sessionId input) of
     None \<Rightarrow> s
   | Some session \<Rightarrow> if session_matches input session then mark_expired now (pei_sessionId input) session s else s)"

definition mark_grant_expired :: "int \<Rightarrow> string \<Rightarrow> RealmCapabilityGrant \<Rightarrow> RealmState \<Rightarrow> RealmState" where
  "mark_grant_expired now grantId grant s = (if gr_status grant = GrantActive \<and> expired (gr_expiresAt grant) now
     then s\<lparr>rs_grants := set_key grantId (grant\<lparr>gr_status := GrantExpired\<rparr>) (rs_grants s)\<rparr> else s)"

definition observe_grant :: "int \<Rightarrow> PolicyEvaluationInput \<Rightarrow> RealmState \<Rightarrow> RealmState" where
  "observe_grant now input s =
    (if \<not> truthy (pei_grantId input) \<or> \<not> truthy (pei_taskId input) then s
     else (case (get_key (rs_grants s) (the (pei_grantId input)), get_key (rs_tasks s) (the (pei_taskId input))) of
         (Some grant, Some task) \<Rightarrow> if grant_matches input grant then mark_grant_expired now (the (pei_grantId input)) grant s else s
       | _ \<Rightarrow> s))"

definition decision_event :: "PolicyEvaluationInput \<Rightarrow> PolicyExplanation \<Rightarrow> RealmAuditEvent" where
  "decision_event input e = (audit_event ''policy.evaluated'' (if px_decision e = DecideAllow then RaSucceeded else RaDenied))\<lparr>
     rae_principalId := Some (pei_principalId input), rae_actorId := Some (pei_actorId input), rae_clientId := Some (pei_clientId input),
     rae_sessionId := Some (pei_sessionId input), rae_taskId := pei_taskId input, rae_grantId := pei_grantId input,
     rae_sourceSpaceId := (if px_safeProjection e then requestedSourceSpaceId input else None)\<rparr>"

definition evaluateDecision :: "int \<Rightarrow> PolicyEvaluationInput \<Rightarrow> bool \<Rightarrow> RealmState \<Rightarrow> (bool \<times> PolicyExplanation) rm_outcome" where
  "evaluateDecision now input observe s = (case capabilityForOperation (pei_operation input) (pei_capability input) of
     Inl e \<Rightarrow> raise e s
   | Inr capability \<Rightarrow>
       (let explanation = explain input (collect_verdict now input capability s) s
        in return (px_decision explanation = DecideAllow, explanation)
             (if observe then audit (decision_event input explanation) (observe_grant now input (observe_session now input s)) else s)))"

definition evaluateReadOnly :: "int \<Rightarrow> PolicyEvaluationInput \<Rightarrow> RealmState \<Rightarrow> (bool \<times> PolicyExplanation) rm_outcome" where
  "evaluateReadOnly now input s = evaluateDecision now input False s"

definition evaluate :: "int \<Rightarrow> PolicyEvaluationInput \<Rightarrow> RealmState \<Rightarrow> (bool \<times> PolicyExplanation) rm_outcome" where
  "evaluate now input s = evaluateDecision now input True s"

fun code_text :: "ExplanationCode \<Rightarrow> string" where
  "code_text CodeAllowed = ''allowed''"
| "code_text CodeForbidden = ''forbidden''"
| "code_text CodeNotFound = ''not_found''"
| "code_text CodeIndeterminate = ''indeterminate''"

definition authorize :: "int \<Rightarrow> PolicyEvaluationInput \<Rightarrow> RealmState \<Rightarrow> PolicyExplanation rm_outcome" where
  "authorize now input s = and_then (evaluate now input s) (\<lambda>(allowed, explanation) s.
     if \<not> allowed then raise (RealmIdentityError (code_text (px_code explanation)) (Some explanation)) s else return explanation s)"

end
