(* ===== verification/Tables.thy ===== *)
theory Tables
  imports Machines
begin

text \<open>
  Relations between two states of a table of records: every record of the old table is still there, related to
  the record it has become. Used by the growth relations of the coordinators.
\<close>

text \<open>Two tables with the same keys and related records, and a table that may also have gained keys.\<close>

definition table_same :: "('v \<Rightarrow> 'v \<Rightarrow> bool) \<Rightarrow> ('k, 'v) jsmap \<Rightarrow> ('k, 'v) jsmap \<Rightarrow> bool" where
  "table_same R m m' \<longleftrightarrow> (\<forall>k. rel_option R (get_key m k) (get_key m' k))"

definition table_grows :: "('v \<Rightarrow> 'v \<Rightarrow> bool) \<Rightarrow> ('k, 'v) jsmap \<Rightarrow> ('k, 'v) jsmap \<Rightarrow> bool" where
  "table_grows R m m' \<longleftrightarrow> (\<forall>k x. get_key m k = Some x \<longrightarrow> (\<exists>y. get_key m' k = Some y \<and> R x y))"

lemma table_same_grows: "table_same R m m' \<Longrightarrow> table_grows R m m'"
  unfolding table_same_def table_grows_def by (metis option_rel_Some1)

lemma table_same_refl: "(\<And>x. R x x) \<Longrightarrow> table_same R m m"
  by (simp add: table_same_def option.rel_refl)

lemma table_grows_refl: "(\<And>x. R x x) \<Longrightarrow> table_grows R m m"
  by (simp add: table_grows_def)

lemma table_grows_trans:
  assumes "\<And>x y z. R x y \<Longrightarrow> R y z \<Longrightarrow> R x z" "table_grows R m m'" "table_grows R m' m''"
  shows "table_grows R m m''"
  using assms unfolding table_grows_def by meson

lemma table_same_trans:
  assumes "\<And>x y z. R x y \<Longrightarrow> R y z \<Longrightarrow> R x z" "table_same R m m'" "table_same R m' m''"
  shows "table_same R m m''"
  unfolding table_same_def
proof
  fix k
  have "rel_option R (get_key m k) (get_key m' k)" "rel_option R (get_key m' k) (get_key m'' k)"
    using assms(2,3) by (simp_all add: table_same_def)
  then show "rel_option R (get_key m k) (get_key m'' k)"
    by (cases rule: option.rel_cases; cases "get_key m'' k") (simp_all, metis assms(1))
qed

lemma table_same_update:
  "(\<And>x. R x x) \<Longrightarrow> get_key m k = Some x \<Longrightarrow> R x y \<Longrightarrow> table_same R m (set_key k y m)"
  by (simp add: table_same_def option.rel_refl)

lemma table_grows_insert:
  "(\<And>x. R x x) \<Longrightarrow> get_key m k = None \<Longrightarrow> table_grows R m (set_key k y m)"
  by (auto simp: table_grows_def)

lemma table_same_pointwise:
  assumes "list_all2 (\<lambda>(k, x) (k', y). k = k' \<and> R x y) m m'"
  shows "table_same R m m'"
proof -
  have "rel_option R (get_key m k) (get_key m' k)" for k
    using assms unfolding get_key_def by (induction rule: list_all2_induct) auto
  then show ?thesis by (simp add: table_same_def)
qed

lemma table_same_map:
  "(\<And>x. R x (f x)) \<Longrightarrow> table_same R m (map (\<lambda>(k, x). (k, f x)) m)"
  by (rule table_same_pointwise) (induction m, auto)

lemma table_growsD: "table_grows R m m' \<Longrightarrow> get_key m k = Some x \<Longrightarrow> \<exists>y. get_key m' k = Some y \<and> R x y"
  by (simp add: table_grows_def)

lemma table_grows_update:
  "(\<And>x. R x x) \<Longrightarrow> (\<And>x. get_key m k = Some x \<Longrightarrow> R x y) \<Longrightarrow> table_grows R m (set_key k y m)"
  by (auto simp: table_grows_def)

lemma table_grows_map:
  "(\<And>x. R x (f x)) \<Longrightarrow> table_grows R m (map (\<lambda>(k, x). (k, f x)) m)"
  by (simp add: table_same_grows table_same_map)

lemma get_key_map: "get_key (map (\<lambda>(k, x). (k, f x)) m) k = map_option f (get_key m k)"
  unfolding get_key_def by (induction m) auto

lemma distinct_keys_map [simp]: "distinct_keys (map (\<lambda>(k, x). (k, f x)) m) = distinct_keys m"
  unfolding distinct_keys_def by (simp add: comp_def case_prod_unfold)

end
