(* ===== verification/Realm_Invariant.thy ===== *)
theory Realm_Invariant
  imports Realm_Decision Tables
begin

text \<open>
  Runs of a Realm: the methods as operations of one machine, the random ids they draw assumed fresh. Two
  facts hold of every run that restores no snapshot. The invariant \<open>realm_inv\<close>: every Session, Actor and
  Grant refers to records that exist, no record is newer than the authorization epoch, a derived Grant
  stays within its parent, and a Grant of an agent Actor is derived and holds none of the prohibited
  capabilities. And \<open>authority_before\<close>: records keep everything but their status, and no status becomes
  active again.
\<close>

section \<open>Records that only lose their status\<close>

definition same_session :: "RealmSession \<Rightarrow> RealmSession \<Rightarrow> bool" where
  "same_session x y \<longleftrightarrow> (\<exists>st. y = x\<lparr>ses_status := st\<rparr> \<and> (st = SessionActive \<longrightarrow> ses_status x = SessionActive))"

definition same_actor :: "RealmActor \<Rightarrow> RealmActor \<Rightarrow> bool" where
  "same_actor x y \<longleftrightarrow> (\<exists>st. y = x\<lparr>ra_status := st\<rparr> \<and> (st = AgentActive \<longrightarrow> ra_status x = AgentActive))"

definition same_agent :: "RealmAgent \<Rightarrow> RealmAgent \<Rightarrow> bool" where
  "same_agent x y \<longleftrightarrow> (\<exists>st. y = x\<lparr>ag_status := st\<rparr> \<and> (st = AgentActive \<longrightarrow> ag_status x = AgentActive))"

definition same_grant :: "RealmCapabilityGrant \<Rightarrow> RealmCapabilityGrant \<Rightarrow> bool" where
  "same_grant x y \<longleftrightarrow> (\<exists>st. y = x\<lparr>gr_status := st\<rparr> \<and> (st = GrantActive \<longrightarrow> gr_status x = GrantActive))"

definition same_credential :: "IssuedCredentialRecord \<Rightarrow> IssuedCredentialRecord \<Rightarrow> bool" where
  "same_credential x y \<longleftrightarrow> (\<exists>st. y = x\<lparr>cr_status := st\<rparr> \<and> (st = CredentialActive \<longrightarrow> cr_status x = CredentialActive))"

lemmas same_defs = same_session_def same_actor_def same_agent_def same_grant_def same_credential_def

lemma same_session_refl [simp, intro]: "same_session x x"
  by (auto simp: same_session_def intro: exI [of _ "ses_status x"])

lemma same_actor_refl [simp, intro]: "same_actor x x"
  by (auto simp: same_actor_def intro: exI [of _ "ra_status x"])

lemma same_agent_refl [simp, intro]: "same_agent x x"
  by (auto simp: same_agent_def intro: exI [of _ "ag_status x"])

lemma same_grant_refl [simp, intro]: "same_grant x x"
  by (auto simp: same_grant_def intro: exI [of _ "gr_status x"])

lemma same_credential_refl [simp, intro]: "same_credential x x"
  by (auto simp: same_credential_def intro: exI [of _ "cr_status x"])

lemma same_closed [simp, intro]:
  "same_session x (x\<lparr>ses_status := SessionRevoked\<rparr>)" "same_session x (x\<lparr>ses_status := SessionExpired\<rparr>)"
  "same_actor a (a\<lparr>ra_status := AgentRevoked\<rparr>)" "same_agent g (g\<lparr>ag_status := AgentRevoked\<rparr>)"
  "same_grant h (h\<lparr>gr_status := GrantRevoked\<rparr>)" "same_grant h (h\<lparr>gr_status := GrantExpired\<rparr>)"
  "same_credential c (c\<lparr>cr_status := CredentialRevoked\<rparr>)" "same_credential c (c\<lparr>cr_status := CredentialExpired\<rparr>)"
  by (auto simp: same_defs)

lemma same_session_trans: "same_session x y \<Longrightarrow> same_session y z \<Longrightarrow> same_session x z"
  by (auto simp: same_defs)

lemma same_actor_trans: "same_actor x y \<Longrightarrow> same_actor y z \<Longrightarrow> same_actor x z"
  by (auto simp: same_defs)

lemma same_agent_trans: "same_agent x y \<Longrightarrow> same_agent y z \<Longrightarrow> same_agent x z"
  by (auto simp: same_defs)

lemma same_grant_trans: "same_grant x y \<Longrightarrow> same_grant y z \<Longrightarrow> same_grant x z"
  by (auto simp: same_defs)

lemma same_credential_trans: "same_credential x y \<Longrightarrow> same_credential y z \<Longrightarrow> same_credential x z"
  by (auto simp: same_defs)

lemmas same_trans = same_session_trans same_actor_trans same_agent_trans same_grant_trans same_credential_trans

definition weaker :: "RealmState \<Rightarrow> RealmState \<Rightarrow> bool" where
  "weaker s t \<longleftrightarrow> rs_realm t = rs_realm s \<and> table_same same_session (rs_sessions s) (rs_sessions t)
     \<and> table_same same_actor (rs_actors s) (rs_actors t) \<and> table_same same_agent (rs_agents s) (rs_agents t)
     \<and> table_same same_grant (rs_grants s) (rs_grants t) \<and> table_same same_credential (rs_credentials s) (rs_credentials t)
     \<and> map_keys (rs_credentials t) = map_keys (rs_credentials s) \<and> map_keys (rs_sessions t) = map_keys (rs_sessions s)"

definition authority_before :: "RealmState \<Rightarrow> RealmState \<Rightarrow> bool" where
  "authority_before s t \<longleftrightarrow> realmId t = realmId s \<and> epoch s \<le> epoch t \<and> table_grows same_session (rs_sessions s) (rs_sessions t)
     \<and> table_grows same_actor (rs_actors s) (rs_actors t) \<and> table_grows same_agent (rs_agents s) (rs_agents t)
     \<and> table_grows same_grant (rs_grants s) (rs_grants t) \<and> table_grows same_credential (rs_credentials s) (rs_credentials t)"

lemma weaker_refl [simp, intro]: "weaker s s"
  by (simp add: weaker_def table_same_refl)

lemma weaker_trans: "weaker s t \<Longrightarrow> weaker t u \<Longrightarrow> weaker s u"
  unfolding weaker_def by (auto intro: table_same_trans same_trans)

lemma authority_before_refl [simp, intro]: "authority_before s s"
  by (simp add: authority_before_def table_grows_refl)

lemma authority_before_trans: "authority_before s t \<Longrightarrow> authority_before t u \<Longrightarrow> authority_before s u"
  unfolding authority_before_def by (auto intro: table_grows_trans same_trans)

lemma weaker_before: "weaker s t \<Longrightarrow> authority_before s t"
  by (simp add: weaker_def authority_before_def table_same_grows)

lemma before_session: "authority_before s t \<Longrightarrow> get_key (rs_sessions s) k = Some x \<Longrightarrow> \<exists>y. get_key (rs_sessions t) k = Some y \<and> same_session x y"
  by (auto simp: authority_before_def dest: table_growsD)

lemma before_actor: "authority_before s t \<Longrightarrow> get_key (rs_actors s) k = Some x \<Longrightarrow> \<exists>y. get_key (rs_actors t) k = Some y \<and> same_actor x y"
  by (auto simp: authority_before_def dest: table_growsD)

lemma before_agent: "authority_before s t \<Longrightarrow> get_key (rs_agents s) k = Some x \<Longrightarrow> \<exists>y. get_key (rs_agents t) k = Some y \<and> same_agent x y"
  by (auto simp: authority_before_def dest: table_growsD)

lemma before_grant: "authority_before s t \<Longrightarrow> get_key (rs_grants s) k = Some x \<Longrightarrow> \<exists>y. get_key (rs_grants t) k = Some y \<and> same_grant x y"
  by (auto simp: authority_before_def dest: table_growsD)

lemma before_credential: "authority_before s t \<Longrightarrow> get_key (rs_credentials s) k = Some x \<Longrightarrow> \<exists>y. get_key (rs_credentials t) k = Some y \<and> same_credential x y"
  by (auto simp: authority_before_def dest: table_growsD)

section \<open>The invariant\<close>

definition within_parent :: "RealmCapabilityGrant \<Rightarrow> RealmCapabilityGrant \<Rightarrow> bool" where
  "within_parent p g \<longleftrightarrow> gr_principalId g = gr_principalId p \<and> set (gr_actions g) \<subseteq> set (gr_actions p)
     \<and> set (gr_sourceSpaceIds g) \<subseteq> set (gr_sourceSpaceIds p) \<and> set (gr_effects g) \<subseteq> set (gr_effects p)
     \<and> set (gr_allowedCredentialClasses g) \<subseteq> set (gr_allowedCredentialClasses p)
     \<and> (gr_allowedModelProviders p \<noteq> [] \<longrightarrow> gr_allowedModelProviders g \<noteq> [] \<and> set (gr_allowedModelProviders g) \<subseteq> set (gr_allowedModelProviders p))"

definition session_ok :: "RealmState \<Rightarrow> string \<Rightarrow> RealmSession \<Rightarrow> bool" where
  "session_ok s k x \<longleftrightarrow> ses_id x = k \<and> ses_authorizationEpoch x \<le> epoch s \<and> has_key (rs_actors s) (ses_actorId x)
     \<and> (case keep_truthy (ses_delegatedBySessionId x) of None \<Rightarrow> True | Some parentId \<Rightarrow> has_key (rs_sessions s) parentId)"

definition actor_ok :: "RealmState \<Rightarrow> RealmActor \<Rightarrow> bool" where
  "actor_ok s a \<longleftrightarrow> (truthy (ra_agentId a) \<longrightarrow> has_key (rs_agents s) (the (ra_agentId a)))"

definition agent_grant_ok :: "RealmCapabilityGrant \<Rightarrow> RealmActor \<Rightarrow> bool" where
  "agent_grant_ok g a \<longleftrightarrow> (ra_kind a = ActorAgent \<longrightarrow> truthy (gr_parentGrantId g) \<and> set (gr_actions g) \<inter> set AGENT_PROHIBITED_CAPABILITIES = {})"

definition grant_ok :: "RealmState \<Rightarrow> string \<Rightarrow> RealmCapabilityGrant \<Rightarrow> bool" where
  "grant_ok s k g \<longleftrightarrow> gr_id g = k \<and> gr_authorizationEpoch g \<le> epoch s
     \<and> (case get_key (rs_actors s) (gr_actorId g) of None \<Rightarrow> False | Some a \<Rightarrow> agent_grant_ok g a)
     \<and> (case keep_truthy (gr_parentGrantId g) of None \<Rightarrow> True
        | Some parentId \<Rightarrow> (case get_key (rs_grants s) parentId of None \<Rightarrow> False | Some p \<Rightarrow> within_parent p g))"

definition credential_ok :: "RealmState \<Rightarrow> IssuedCredentialRecord \<Rightarrow> bool" where
  "credential_ok s c \<longleftrightarrow> cr_authorizationEpoch c \<le> epoch s"

definition realm_inv :: "RealmState \<Rightarrow> bool" where
  "realm_inv s \<longleftrightarrow> (\<forall>k x. get_key (rs_sessions s) k = Some x \<longrightarrow> session_ok s k x)
     \<and> (\<forall>k a. get_key (rs_actors s) k = Some a \<longrightarrow> actor_ok s a)
     \<and> (\<forall>k g. get_key (rs_agents s) k = Some g \<longrightarrow> ag_id g = k)
     \<and> (\<forall>k g. get_key (rs_grants s) k = Some g \<longrightarrow> grant_ok s k g)
     \<and> (\<forall>k c. get_key (rs_credentials s) k = Some c \<longrightarrow> credential_ok s c) \<and> distinct_keys (rs_credentials s)
     \<and> distinct_keys (rs_sessions s)"

lemma inv_session: "realm_inv s \<Longrightarrow> get_key (rs_sessions s) k = Some x \<Longrightarrow> session_ok s k x"
  by (simp add: realm_inv_def)

lemma inv_actor: "realm_inv s \<Longrightarrow> get_key (rs_actors s) k = Some a \<Longrightarrow> actor_ok s a"
  by (simp add: realm_inv_def)

lemma inv_agent: "realm_inv s \<Longrightarrow> get_key (rs_agents s) k = Some g \<Longrightarrow> ag_id g = k"
  by (simp add: realm_inv_def)

lemma inv_grant: "realm_inv s \<Longrightarrow> get_key (rs_grants s) k = Some g \<Longrightarrow> grant_ok s k g"
  by (simp add: realm_inv_def)

lemma inv_distinct [intro]:
  "realm_inv s \<Longrightarrow> distinct_keys (rs_credentials s)" "realm_inv s \<Longrightarrow> distinct_keys (rs_sessions s)"
  by (simp_all add: realm_inv_def)

lemma inv_credential: "realm_inv s \<Longrightarrow> get_key (rs_credentials s) k = Some c \<Longrightarrow> credential_ok s c"
  by (simp add: realm_inv_def)

text \<open>A record that was fine stays fine when the other tables grow.\<close>

lemma table_grows_has: "table_grows R m m' \<Longrightarrow> has_key m k \<Longrightarrow> has_key m' k"
  unfolding has_key_def table_grows_def by fastforce

lemma session_ok_mono: "authority_before s t \<Longrightarrow> session_ok s k x \<Longrightarrow> same_session x y \<Longrightarrow> session_ok t k y"
  unfolding authority_before_def session_ok_def
  by (auto simp: same_session_def dest: table_grows_has split: option.splits)

lemma actor_ok_mono: "authority_before s t \<Longrightarrow> actor_ok s a \<Longrightarrow> same_actor a b \<Longrightarrow> actor_ok t b"
  unfolding authority_before_def actor_ok_def by (auto simp: same_actor_def dest: table_grows_has)

lemma within_parent_same: "within_parent p g \<Longrightarrow> same_grant p p' \<Longrightarrow> same_grant g g' \<Longrightarrow> within_parent p' g'"
  by (auto simp: within_parent_def same_grant_def)

lemma agent_grant_ok_same: "agent_grant_ok g a \<Longrightarrow> same_grant g g' \<Longrightarrow> same_actor a b \<Longrightarrow> agent_grant_ok g' b"
  by (auto simp: agent_grant_ok_def same_defs)

lemma grant_ok_mono:
  assumes "authority_before s t" "grant_ok s k g" "same_grant g h"
  shows "grant_ok t k h"
proof -
  obtain st where h: "h = g\<lparr>gr_status := st\<rparr>" using assms(3) by (auto simp: same_grant_def)
  obtain a where a: "get_key (rs_actors s) (gr_actorId g) = Some a" "agent_grant_ok g a"
    using assms(2) by (auto simp: grant_ok_def split: option.splits)
  then obtain b where b: "get_key (rs_actors t) (gr_actorId g) = Some b" "same_actor a b"
    using before_actor [OF assms(1)] by blast
  have parent: "case keep_truthy (gr_parentGrantId h) of None \<Rightarrow> True
     | Some parentId \<Rightarrow> (case get_key (rs_grants t) parentId of None \<Rightarrow> False | Some p \<Rightarrow> within_parent p h)"
  proof (cases "keep_truthy (gr_parentGrantId g)")
    case (Some parentId)
    then obtain p where p: "get_key (rs_grants s) parentId = Some p" "within_parent p g"
      using assms(2) by (auto simp: grant_ok_def split: option.splits)
    then obtain p' where "get_key (rs_grants t) parentId = Some p'" "same_grant p p'"
      using before_grant [OF assms(1)] by blast
    with Some p assms(3) h show ?thesis by (auto intro: within_parent_same)
  qed (simp add: h)
  show ?thesis
    using assms b parent agent_grant_ok_same [OF a(2) assms(3) b(2)] h by (auto simp: grant_ok_def authority_before_def)
qed

lemma credential_ok_mono: "authority_before s t \<Longrightarrow> credential_ok s c \<Longrightarrow> same_credential c d \<Longrightarrow> credential_ok t d"
  by (auto simp: authority_before_def credential_ok_def same_credential_def)

text \<open>A step keeps the invariant when the records it leaves are either old ones or fine themselves.\<close>

lemma realm_inv_step:
  assumes inv: "realm_inv s" and before: "authority_before s t"
    and "\<And>k y. get_key (rs_sessions t) k = Some y \<Longrightarrow> (\<exists>x. get_key (rs_sessions s) k = Some x \<and> same_session x y) \<or> session_ok t k y"
    and "\<And>k y. get_key (rs_actors t) k = Some y \<Longrightarrow> (\<exists>x. get_key (rs_actors s) k = Some x \<and> same_actor x y) \<or> actor_ok t y"
    and "\<And>k y. get_key (rs_agents t) k = Some y \<Longrightarrow> (\<exists>x. get_key (rs_agents s) k = Some x \<and> same_agent x y) \<or> ag_id y = k"
    and "\<And>k y. get_key (rs_grants t) k = Some y \<Longrightarrow> (\<exists>x. get_key (rs_grants s) k = Some x \<and> same_grant x y) \<or> grant_ok t k y"
    and "\<And>k y. get_key (rs_credentials t) k = Some y \<Longrightarrow> (\<exists>x. get_key (rs_credentials s) k = Some x \<and> same_credential x y) \<or> credential_ok t y"
    and "distinct_keys (rs_credentials t)" "distinct_keys (rs_sessions t)"
  shows "realm_inv t"
  unfolding realm_inv_def
proof (intro conjI allI impI)
  fix k g assume "get_key (rs_agents t) k = Some g"
  with assms(5) [of k g] show "ag_id g = k" by (auto dest!: inv_agent [OF inv] simp: same_agent_def)
qed (use assms in \<open>(assumption | meson session_ok_mono actor_ok_mono grant_ok_mono credential_ok_mono inv_session inv_actor inv_grant inv_credential)\<close>)+

definition grows :: "RealmState \<Rightarrow> RealmState \<Rightarrow> bool" where
  "grows s t \<longleftrightarrow> (realm_inv s \<longrightarrow> realm_inv t \<and> authority_before s t)"

lemma grows_refl [simp, intro]: "grows s s"
  by (simp add: grows_def)

lemma grows_trans: "grows s t \<Longrightarrow> grows t u \<Longrightarrow> grows s u"
  unfolding grows_def by (auto intro: authority_before_trans)

lemma table_same_old: "table_same R m m' \<Longrightarrow> get_key m' k = Some y \<Longrightarrow> \<exists>x. get_key m k = Some x \<and> R x y"
  unfolding table_same_def by (metis option_rel_Some2)

lemma distinct_keys_cong: "map_keys m = map_keys m' \<Longrightarrow> distinct_keys m = distinct_keys m'"
  by (simp add: distinct_keys_def map_keys_def)

lemma weaker_grows: "weaker s t \<Longrightarrow> grows s t"
  unfolding grows_def
  by (intro impI conjI realm_inv_step [of s t] weaker_before disjI1)
     (auto simp: weaker_def dest: table_same_old inv_distinct distinct_keys_cong)

lemma grows_and_then:
  assumes "grows s (snd r)" and "\<And>a s'. r = (Inr a, s') \<Longrightarrow> grows s' (snd (f a s'))"
  shows "grows s (snd (and_then r f))"
  using assms by (cases r rule: void.cases) (auto intro: grows_trans)

section \<open>The lookups\<close>

lemma realm_inv_audit [simp]: "realm_inv (audit e s) = realm_inv s"
  by (simp add: realm_inv_def audit_def session_ok_def actor_ok_def grant_ok_def credential_ok_def cong: option.case_cong)

lemma before_audit [simp]: "authority_before s (audit e t) = authority_before s t"
  by (simp add: authority_before_def audit_def)

lemma grows_audit [simp]: "grows s (audit e t) = grows s t"
  by (simp add: grows_def)

lemma frame_grows:
  "rs_realm t = rs_realm s \<Longrightarrow> rs_sessions t = rs_sessions s \<Longrightarrow> rs_actors t = rs_actors s \<Longrightarrow> rs_agents t = rs_agents s
     \<Longrightarrow> rs_grants t = rs_grants s \<Longrightarrow> rs_credentials t = rs_credentials s \<Longrightarrow> grows s t"
  by (rule weaker_grows) (simp add: weaker_def table_same_refl)

lemma grows_other_tables [simp]:
  "grows s (s\<lparr>rs_principals := p\<rparr>)" "grows s (s\<lparr>rs_passkeys := k\<rparr>)" "grows s (s\<lparr>rs_oidcProviders := q\<rparr>)"
  "grows s (s\<lparr>rs_oidcIdentities := i\<rparr>)" "grows s (s\<lparr>rs_clients := c\<rparr>)" "grows s (s\<lparr>rs_tasks := t\<rparr>)"
  "grows s (s\<lparr>rs_relationships := r\<rparr>)" "grows s (s\<lparr>rs_sourceSpacePolicies := v\<rparr>)"
  by (rule frame_grows; simp)+

lemma snd_requirePrincipal [simp]: "snd (requirePrincipal i s) = s"
  by (simp add: requirePrincipal_def split: option.splits)

lemma requirePrincipal_Inr: "requirePrincipal i s = (Inr prin, s') \<Longrightarrow> s' = s \<and> get_key (rs_principals s) i = Some prin"
  by (auto simp: requirePrincipal_def split: option.splits if_splits)

lemma snd_requireClient [simp]: "snd (requireClient i s) = s"
  by (simp add: requireClient_def split: option.splits)

lemma requireClient_Inr: "requireClient i s = (Inr client, s') \<Longrightarrow> s' = s \<and> get_key (rs_clients s) i = Some client"
  by (auto simp: requireClient_def split: option.splits if_splits)

lemma map_keys_overwrite: "get_key m k = Some x \<Longrightarrow> map_keys (set_key k y m) = map_keys m"
  using get_key_None_iff [of m k] by (auto simp: map_keys_set_key)

lemma mark_expired_weaker:
  "get_key (rs_sessions s) i = Some x \<Longrightarrow> weaker s (mark_expired now i x s)"
  by (auto simp: mark_expired_def weaker_def map_keys_overwrite intro!: table_same_refl table_same_update)

lemma sessionChain_found:
  "sessionChainIsActive now s seen i \<Longrightarrow> \<exists>x. get_key (rs_sessions s) i = Some x \<and> session_live now s x \<and> actor_active s x"
  by (subst (asm) sessionChainIsActive.simps) (auto split: option.splits if_splits)

lemma grantChain_found:
  "grantChainIsActive now s seen i \<Longrightarrow> \<exists>g. get_key (rs_grants s) i = Some g \<and> grant_live now s g"
  by (subst (asm) grantChainIsActive.simps) (auto split: option.splits if_splits)

text \<open>A Session that is accepted was not marked: the call changed nothing.\<close>

lemma requireSession_Inr:
  assumes "requireSession now i s = (Inr x, s')"
  shows "s' = s \<and> get_key (rs_sessions s) i = Some x \<and> sessionChainIsActive now s [] i"
proof -
  from assms have found: "get_key (rs_sessions s) i = Some x" and s': "s' = mark_expired now i x s"
    and chain: "sessionChainIsActive now s' [] i"
    by (auto simp: requireSession_def Let_def split: option.splits if_splits)
  from sessionChain_found [OF chain] obtain y where y: "get_key (rs_sessions s') i = Some y" "ses_status y = SessionActive"
    by (auto simp: session_live_def)
  have "s' = s"
    using y by (auto simp: s' mark_expired_def split: if_splits)
  with found chain show ?thesis by simp
qed

lemma requireSession_grows [simp]: "grows s (snd (requireSession now i s))"
  by (auto simp: requireSession_def Let_def intro: weaker_grows mark_expired_weaker split: option.splits)

lemma actor_of_session:
  assumes "sessionChainIsActive now s seen i" "get_key (rs_sessions s) i = Some x"
  shows "\<exists>a. get_key (rs_actors s) (ses_actorId x) = Some a \<and> actor_principalId a = ses_principalId x \<and> actor_sessionId a = ses_id x"
  using sessionChain_found [OF assms(1)] assms(2) by (auto simp: actor_active_def split: option.splits)

section \<open>Operations that only add to other tables\<close>

lemma registerClient_grows [simp]: "grows s (snd (registerClient input s))"
  by (auto simp: registerClient_def Let_def split: option.splits EntryStatus.splits)

lemma createPrincipal_grows: "grows s (snd (createPrincipal uuid i name s))"
  by (auto simp: createPrincipal_def Let_def)

lemma registerPasskey_grows: "grows s (snd (registerPasskey input s))"
  by (auto simp: registerPasskey_def Let_def intro!: grows_and_then)

lemma registerOidcProvider_grows: "grows s (snd (registerOidcProvider uuid i issuer clientId s))"
  by (auto simp: registerOidcProvider_def Let_def)

lemma linkOidcIdentity_grows: "grows s (snd (linkOidcIdentity i issuer subject s))"
  by (auto simp: linkOidcIdentity_def Let_def intro!: grows_and_then split: option.splits)

lemma addRelationship_grows: "grows s (snd (addRelationship uuid input s))"
  by (auto simp: addRelationship_def Let_def intro!: grows_and_then)

lemma setSourceSpacePolicy_grows: "grows s (snd (setSourceSpacePolicy uuid input s))"
  by (auto simp: setSourceSpacePolicy_def Let_def)

lemma createTask_grows [simp]: "grows s (snd (createTask now u input s))"
  by (auto simp: createTask_def Let_def intro!: grows_and_then)

section \<open>New Sessions, Actors and agents\<close>

lemma add_agent_grows:
  assumes "m = rs_agents s" "get_key m i = None" "ag_id agent = i"
  shows "grows s (s\<lparr>rs_agents := set_key i agent m\<rparr>)"
proof -
  let ?t = "s\<lparr>rs_agents := set_key i agent m\<rparr>"
  have "authority_before s ?t"
    using assms by (simp add: authority_before_def table_grows_refl table_grows_insert)
  then show ?thesis
    unfolding grows_def
    by (intro impI conjI realm_inv_step [of s ?t]) (use assms in \<open>auto split: if_splits\<close>)
qed

lemma registerAgent_grows: "grows s (snd (registerAgent uuid input s))"
proof -
  have client: "grows t (snd (agent_client i classes t))" for t i classes
    by (simp add: agent_client_def split: option.split)
  have agents: "rs_agents t' = rs_agents t" if "agent_client i classes t = (Inr c, t')" for t t' i classes c
    using that by (auto simp: agent_client_def registerClient_def Let_def split: option.splits EntryStatus.splits)
  show ?thesis
    unfolding registerAgent_def Let_def
    by (rule grows_and_then)
       (auto simp: has_key_def intro!: grows_and_then client add_agent_grows dest!: agents split: option.splits)
qed

definition session_fresh :: "RealmState \<Rightarrow> RealmIds \<Rightarrow> bool" where
  "session_fresh s u \<longleftrightarrow> \<not> has_key (rs_sessions s) (opaqueId ''session'' (fresh_session u)) \<and> \<not> has_key (rs_actors s) (opaqueId ''actor'' (fresh_actor u))"

lemma store_session_grows:
  assumes fresh: "get_key (rs_sessions s) (ses_id x) = None" "get_key (rs_actors s) (actor_actorId a) = None"
    and chain: "ses_actorId x = actor_actorId a" "ses_authorizationEpoch x = epoch s"
    and parent: "case keep_truthy (ses_delegatedBySessionId x) of None \<Rightarrow> True | Some p \<Rightarrow> has_key (rs_sessions s) p"
    and agent: "truthy (ra_agentId a) \<longrightarrow> has_key (rs_agents s) (the (ra_agentId a))"
  shows "grows s (store_session a x eventType s)"
proof -
  define t where "t = set_session x (s\<lparr>rs_actors := set_key (actor_actorId a) a (rs_actors s)\<rparr>)"
  have before: "authority_before s t"
    by (simp add: t_def set_session_def authority_before_def table_grows_refl table_grows_insert fresh)
  have session: "session_ok t (ses_id x) x"
    using chain parent by (auto simp: t_def set_session_def session_ok_def split: option.splits)
  have actor: "actor_ok t a"
    using agent by (simp add: t_def set_session_def actor_ok_def)
  have "grows s t"
    unfolding grows_def
    by (intro impI conjI before realm_inv_step [of s t])
       (use session actor in \<open>auto simp: t_def set_session_def split: if_splits\<close>)
  then show ?thesis by (simp add: store_session_def t_def)
qed

lemma createHumanSession_grows:
  "session_fresh s u \<Longrightarrow> grows s (snd (createHumanSession now u i c m st s))"
  unfolding createHumanSession_def
  by (auto simp: Let_def session_fresh_def has_key_def human_actor_def human_session_def keep_truthy_def
      intro!: grows_and_then store_session_grows dest!: requirePrincipal_Inr requireClient_Inr)

lemma authenticatePasskey_grows: "session_fresh s u \<Longrightarrow> grows s (snd (authenticatePasskey now u input s))"
  unfolding authenticatePasskey_def Let_def
  by (auto split: option.splits simp: session_fresh_def intro!: grows_trans [OF grows_other_tables(2) createHumanSession_grows])

lemma authenticateOidc_grows: "session_fresh s u \<Longrightarrow> grows s (snd (authenticateOidc now u issuer subject verified c s))"
  unfolding authenticateOidc_def by (auto split: option.splits intro!: createHumanSession_grows)

section \<open>New Grants\<close>

lemma truthy_keep [simp]: "truthy (keep_truthy x) = truthy x"
  by (cases x) (auto simp: keep_truthy_def)

lemma keep_truthy_idem [simp]: "keep_truthy (keep_truthy x) = keep_truthy x"
  by (cases x) (auto simp: keep_truthy_def)

lemma listIsSubset_iff [simp]: "listIsSubset xs ys \<longleftrightarrow> set xs \<subseteq> set ys"
  by (auto simp: listIsSubset_def list_all_iff)

lemma gr_id_new_grant [simp]: "gr_id (new_grant now u input s) = opaqueId ''grant'' (fresh_grant u)"
  by (simp add: new_grant_def Let_def)

lemma grant_error_parent:
  assumes "grant_error now input session s = None" "keep_truthy (cgi_parentGrantId input) = Some parentId"
  shows "\<exists>p. get_key (rs_grants s) parentId = Some p \<and> within_parent p (new_grant now u input s) \<and> grantChainIsActive now s [] parentId"
proof -
  let ?actor = "get_key (rs_actors s) (cgi_actorId input)"
  from assms(1) have "parent_error now input ?actor (agent_of ?actor s) session s = None"
    by (simp add: grant_error_def Let_def or_else_None)
  moreover have "cgi_parentGrantId input = Some parentId" "parentId \<noteq> []"
    using assms(2) by (auto simp: keep_truthy_Some_iff)
  ultimately obtain p where "get_key (rs_grants s) parentId = Some p" "gr_principalId p = cgi_principalId input"
    "\<not> widens input (agent_of ?actor s) p" "grantChainIsActive now s [] parentId"
    by (auto simp: parent_error_def loop_simps split: option.splits)
  then show ?thesis
    by (auto simp: within_parent_def new_grant_def Let_def widens_def)
qed

lemma grant_error_agent:
  assumes "grant_error now input session s = None" "get_key (rs_actors s) (cgi_actorId input) = Some a"
  shows "agent_grant_ok (new_grant now u input s) a"
  using assms
  by (auto simp: grant_error_def Let_def loop_simps agent_grant_ok_def new_grant_def is_agent_def agent_inactive_def split: option.splits)

lemma set_grant_other [simp]: "rs_actors (set_grant g s) = rs_actors s" "rs_realm (set_grant g s) = rs_realm s"
  by (simp_all add: set_grant_def)

lemma set_grant_grows:
  assumes "get_key (rs_grants s) (gr_id g) = None" "grant_ok (set_grant g s) (gr_id g) g"
  shows "grows s (set_grant g s)"
proof -
  have before: "authority_before s (set_grant g s)"
    using assms(1) by (simp add: set_grant_def authority_before_def table_grows_refl table_grows_insert)
  show ?thesis
    unfolding grows_def
    by (intro impI conjI before realm_inv_step [of s "set_grant g s"]) (use assms(2) in \<open>auto simp: set_grant_def split: if_splits\<close>)
qed

lemma new_grant_ok:
  assumes error: "grant_error now input session s = None" and chain: "sessionChainIsActive now s [] (cgi_sessionId input)"
    and found: "get_key (rs_sessions s) (cgi_sessionId input) = Some session"
    and fresh: "get_key (rs_grants s) (opaqueId ''grant'' (fresh_grant u)) = None"
  shows "grant_ok (set_grant (new_grant now u input s) s) (gr_id (new_grant now u input s)) (new_grant now u input s)"
proof -
  let ?g = "new_grant now u input s"
  have "ses_actorId session = cgi_actorId input"
    using error by (simp add: grant_error_def Let_def loop_simps)
  with actor_of_session [OF chain found] obtain a where a: "get_key (rs_actors s) (cgi_actorId input) = Some a" by auto
  have parent: "case keep_truthy (cgi_parentGrantId input) of None \<Rightarrow> True
      | Some i \<Rightarrow> (case get_key (rs_grants (set_grant ?g s)) i of None \<Rightarrow> False | Some p \<Rightarrow> within_parent p ?g)"
  proof (cases "keep_truthy (cgi_parentGrantId input)")
    case (Some i)
    with grant_error_parent [OF error Some, of u] obtain p where p: "get_key (rs_grants s) i = Some p" "within_parent p ?g" by auto
    with fresh have "i \<noteq> gr_id ?g" by auto
    with Some p show ?thesis by (simp add: set_grant_def)
  qed simp
  have "gr_actorId ?g = cgi_actorId input" "gr_authorizationEpoch ?g = epoch s" "gr_parentGrantId ?g = keep_truthy (cgi_parentGrantId input)"
    by (simp_all add: new_grant_def Let_def)
  with a parent grant_error_agent [OF error a] show ?thesis
    by (simp add: grant_ok_def)
qed

definition grant_fresh :: "RealmState \<Rightarrow> RealmIds \<Rightarrow> bool" where
  "grant_fresh s u \<longleftrightarrow> \<not> has_key (rs_grants s) (opaqueId ''grant'' (fresh_grant u))"

lemma createCapabilityGrant_grows:
  assumes "grant_fresh s u"
  shows "grows s (snd (createCapabilityGrant now u input s))"
  unfolding createCapabilityGrant_def Let_def
  using assms
  by (auto simp: grant_fresh_def has_key_def intro!: grows_and_then set_grant_grows new_grant_ok
      dest!: requirePrincipal_Inr requireClient_Inr requireSession_Inr split: option.splits)

lemma createTask_grants:
  "createTask now u input s = (Inr task, s') \<Longrightarrow> rs_grants s' = rs_grants s"
  by (cases "requireSession now (cti_sessionId input) s" rule: void.cases)
     (auto simp: createTask_def Let_def audit_def return_def dest!: requireSession_Inr split: if_splits)

lemma createOwnerTaskGrant_grows:
  assumes "grant_fresh s u"
  shows "grows s (snd (createOwnerTaskGrant now u input s))"
  unfolding createOwnerTaskGrant_def
  using assms
  by (auto simp: grant_fresh_def intro!: grows_and_then createCapabilityGrant_grows
      dest!: requireSession_Inr createTask_grants split: option.splits)

lemma createAgentSession_grows:
  assumes "session_fresh s u" "get_key (rs_sessions s) (ses_id parentSession) \<noteq> None" "has_key (rs_agents s) (ag_id agent)"
  shows "grows s (snd (createAgentSession now u parentSession agent s))"
  using assms
  by (auto simp: createAgentSession_def Let_def session_fresh_def has_key_def agent_session_def agent_actor_def keep_truthy_def
      intro!: store_session_grows split: option.splits)

lemma createAgentSession_grants:
  "createAgentSession now u parentSession agent s = (Inr x, s') \<Longrightarrow> rs_grants s' = rs_grants s"
  by (auto simp: createAgentSession_def Let_def store_session_def audit_def set_session_def split: option.splits)

lemma delegation_agent:
  assumes "delegation_error now input session s = None"
  shows "\<exists>agent. get_key (rs_agents s) (adi_agentId input) = Some agent"
  using assms by (auto simp: delegation_error_def loop_simps split: option.splits)

lemma delegateAgent_grows:
  assumes "session_fresh s u" "grant_fresh s u"
  shows "grows s (snd (delegateAgent now u input s))"
proof (cases "realm_inv s")
  case inv: True
  have agent_session: "grows s (snd (createAgentSession now u x (the (get_key (rs_agents s) (adi_agentId input))) s))"
    if error: "delegation_error now input x s = None" and found: "get_key (rs_sessions s) (adi_humanSessionId input) = Some x" for x
  proof -
    obtain agent where agent: "get_key (rs_agents s) (adi_agentId input) = Some agent" using delegation_agent [OF error] by blast
    with inv_agent [OF inv] have "has_key (rs_agents s) (ag_id agent)" by (auto simp: has_key_def)
    moreover have "get_key (rs_sessions s) (ses_id x) \<noteq> None" using inv_session [OF inv found] found by (simp add: session_ok_def)
    ultimately show ?thesis using assms(1) agent by (simp add: createAgentSession_grows)
  qed
  show ?thesis
    unfolding delegateAgent_def Let_def
    by (rule grows_and_then)
       (auto intro!: grows_and_then agent_session createCapabilityGrant_grows split: option.splits
         dest!: requireSession_Inr createAgentSession_grants createTask_grants simp: assms(2) [unfolded grant_fresh_def] grant_fresh_def)
qed (simp add: grows_def)

section \<open>Closing authority\<close>

lemma grant_pass_pointwise:
  "grant_pass hit revoked m = (r, m', b) \<Longrightarrow> list_all2 (\<lambda>(k, x) (k', y). k = k' \<and> same_grant x y) m m'"
  by (induction hit revoked m arbitrary: r m' b rule: grant_pass.induct) (auto split: prod.splits if_splits)

lemma table_same_grant_trans:
  "table_same same_grant m m' \<Longrightarrow> table_same same_grant m' m'' \<Longrightarrow> table_same same_grant m m''"
  by (rule table_same_trans [OF same_grant_trans])

lemma grant_loop_same:
  "grant_loop hit revoked m = (r, m') \<Longrightarrow> table_same same_grant m m'"
proof (induction hit revoked m arbitrary: r m' rule: grant_loop.induct)
  case (1 hit revoked m)
  obtain r1 m1 b1 where p: "grant_pass hit revoked m = (r1, m1, b1)" by (cases "grant_pass hit revoked m") auto
  with "1.prems" have loop: "if b1 then grant_loop hit r1 m1 = (r, m') else m' = m1"
    by (subst (asm) grant_loop.simps) (auto split: if_splits)
  have "table_same same_grant m m1"
    by (rule table_same_pointwise [OF grant_pass_pointwise [OF p]])
  with loop "1.IH" p show ?case by (auto intro: table_same_grant_trans split: if_splits)
qed

lemma map_keys_pointwise: "map_keys (map (\<lambda>(k, v). (k, f v)) m) = map_keys m"
  by (induction m) (auto simp: map_keys_def)

lemma revoke_credentials_weaker: "weaker s t \<Longrightarrow> weaker s (snd (revoke_credentials hit t))"
  by (rule weaker_trans) (auto simp: weaker_def revoke_credentials_def map_keys_pointwise intro!: table_same_refl table_same_map)

lemma set_grants_weaker: "weaker s t \<Longrightarrow> table_same same_grant (rs_grants t) m \<Longrightarrow> weaker s (t\<lparr>rs_grants := m\<rparr>)"
  by (rule weaker_trans) (auto simp: weaker_def intro!: table_same_refl)

lemma weaker_audit [simp]: "weaker s (audit e t) = weaker s t"
  by (simp add: weaker_def audit_def)

lemma revokeGrant_weaker: "weaker s (snd (revokeGrant i s))"
proof (cases "get_key (rs_grants s) i")
  case (Some g)
  obtain r m where loop: "grant_loop derived_grant [i] (set_key i (g\<lparr>gr_status := GrantRevoked\<rparr>) (rs_grants s)) = (r, m)"
    by (meson surj_pair)
  have "table_same same_grant (rs_grants s) m"
    by (rule table_same_grant_trans [OF _ grant_loop_same [OF loop]]) (rule table_same_update, auto simp: Some)
  then have "weaker s (snd (revoke_credentials (\<lambda>c. cr_grantId c \<in> set r) (s\<lparr>rs_grants := m\<rparr>)))"
    by (intro revoke_credentials_weaker set_grants_weaker) auto
  then show ?thesis
    by (auto simp: revokeGrant_def Some loop Let_def split: prod.splits)
qed (simp add: revokeGrant_def)

lemma revoke_affected_weaker: "weaker s (revoke_affected i s)"
  by (auto simp: revoke_affected_def weaker_def revoke_actor_def map_keys_overwrite intro!: table_same_refl table_same_update split: option.splits)

lemma fold_revoke_affected: "weaker s (fold revoke_affected ids s)"
proof (induction ids arbitrary: s)
  case (Cons i ids)
  then show ?case by (auto intro: weaker_trans [OF revoke_affected_weaker])
qed simp

lemma revokeSession_weaker: "weaker s (snd (revokeSession i s))"
proof (cases "get_key (rs_sessions s) i")
  case (Some x)
  define ids where "ids = session_loop [i] (rs_sessions s)"
  obtain r m where loop: "grant_loop (session_grant ids) [] (rs_grants (fold revoke_affected ids s)) = (r, m)" by (meson surj_pair)
  have "weaker s (snd (revoke_credentials (\<lambda>c. cr_sessionId c \<in> set ids \<or> cr_grantId c \<in> set r) ((fold revoke_affected ids s)\<lparr>rs_grants := m\<rparr>)))"
    by (intro revoke_credentials_weaker set_grants_weaker fold_revoke_affected grant_loop_same [OF loop])
  then show ?thesis
    by (auto simp: revokeSession_def Some ids_def [symmetric] loop Let_def split: prod.splits)
qed (simp add: revokeSession_def)

lemma revoke_actors_weaker: "weaker s (snd (revoke_actors agentId actors acc s))"
proof (induction agentId actors acc s rule: revoke_actors.induct)
  case (2 agentId actor actors acc s)
  show ?case
  proof (cases "revokeSession (actor_sessionId actor) s" rule: void.cases)
    case (2 r t)
    then have "weaker s t" using revokeSession_weaker [of s "actor_sessionId actor"] by simp
    with 2 "2.IH" show ?thesis by (auto intro: weaker_trans)
  qed (use revokeSession_weaker [of s "actor_sessionId actor"] "2.IH" in auto)
qed simp

lemma revokeAgent_weaker: "weaker s (snd (revokeAgent i s))"
proof (cases "get_key (rs_agents s) i")
  case (Some agent)
  let ?t = "s\<lparr>rs_agents := set_key i (agent\<lparr>ag_status := AgentRevoked\<rparr>) (rs_agents s)\<rparr>"
  let ?r = "revoke_actors i (map_values (rs_actors s)) \<lparr>av_revokedActorIds = [], av_revokedSessionIds = [], av_revokedGrantIds = [], av_revokedCredentialIds = []\<rparr> ?t"
  have "weaker s ?t"
    using Some by (auto simp: weaker_def intro!: table_same_refl table_same_update)
  then have "weaker s (snd ?r)" by (rule weaker_trans [OF _ revoke_actors_weaker])
  then show ?thesis
    by (cases ?r rule: void.cases) (simp_all add: revokeAgent_def Some)
qed (simp add: revokeAgent_def)

lemma set_credential_weaker:
  assumes "get_key (rs_credentials s) k = Some c" "same_credential c d"
  shows "weaker s (s\<lparr>rs_credentials := set_key k d (rs_credentials s)\<rparr>)"
  using assms by (auto simp: weaker_def map_keys_overwrite intro!: table_same_refl table_same_update)

lemma revokeCredential_weaker: "weaker s (snd (revokeCredential i s))"
  by (auto simp: revokeCredential_def Let_def intro!: set_credential_weaker split: option.splits)

lemma find_entry: "find (\<lambda>(k, v). P v) m = Some (k, v) \<Longrightarrow> distinct_keys m \<Longrightarrow> get_key m k = Some v \<and> P v"
  by (auto simp: get_key_def distinct_keys_def dest!: find_SomeD)

lemma observe_session_weaker: "weaker s (observe_session now input s)"
  by (auto simp: observe_session_def intro: mark_expired_weaker split: option.splits)

lemma observe_grant_weaker: "weaker s (observe_grant now input s)"
  by (auto simp: observe_grant_def mark_grant_expired_def weaker_def intro!: table_same_refl table_same_update split: option.splits)

lemma evaluateDecision_weaker: "weaker s (snd (evaluateDecision now input observe s))"
  by (auto simp: evaluateDecision_def Let_def intro: weaker_trans [OF observe_session_weaker observe_grant_weaker] split: sum.splits)

lemma authorize_weaker: "weaker s (snd (authorize now input s))"
  using evaluateDecision_weaker [of s now input True]
  by (cases "evaluateDecision now input True s" rule: void.cases) (auto simp: authorize_def evaluate_def)

lemma activateRealmPolicy_grows: "grows s (snd (activateRealmPolicy v s))"
proof -
  let ?t = "s\<lparr>rs_realm := (rs_realm s)\<lparr>realm_policyVersion := v, realm_authorizationEpoch := epoch s + 1\<rparr>\<rparr>"
  have before: "authority_before s ?t" by (simp add: authority_before_def table_grows_refl)
  have "grows s ?t"
    unfolding grows_def by (intro impI conjI before realm_inv_step [of s ?t] disjI1) auto
  then show ?thesis by (simp add: activateRealmPolicy_def Let_def)
qed

lemma issueCredential_grows:
  assumes "\<not> has_key (rs_credentials s) (opaqueId ''credential'' uuid)"
  shows "grows s (snd (issueCredential tokenDigest now uuid token input s))"
proof -
  have "grows s (set_credential (new_credential tokenDigest now uuid token input s) s)" (is "grows s ?t")
  proof -
    have before: "authority_before s ?t"
      using assms by (simp add: set_credential_def authority_before_def table_grows_refl table_grows_insert has_key_def new_credential_def)
    show ?thesis
      unfolding grows_def
      by (intro impI conjI before realm_inv_step [of s ?t])
         (auto simp: set_credential_def new_credential_def credential_ok_def split: if_splits)
  qed
  then show ?thesis
    unfolding issueCredential_def Let_def
    by (auto intro!: grows_and_then dest!: requirePrincipal_Inr requireSession_Inr requireClient_Inr split: option.splits)
qed

lemma validateCredential_weaker:
  assumes "distinct_keys (rs_credentials s)"
  shows "weaker s (snd (validateCredential tokenDigest now token input s))"
  using find_entry [OF _ assms]
  by (auto simp: validateCredential_def set_credential_status_def intro!: set_credential_weaker split: option.splits prod.splits)

lemma validateTaskGrant_grows: "grows s (snd (validateTaskGrant now input s))"
proof -
  have "snd (validateTaskGrant now input s) = snd (requireSession now (tgi_sessionId input) s)"
    by (auto simp: validateTaskGrant_def return_def split: prod.splits sum.splits RealmIdentityError.splits)
  then show ?thesis by simp
qed

section \<open>Runs\<close>

datatype realm_op =
    OpRegisterClient RegisterClientInput
  | OpCreatePrincipal string "string option" string
  | OpRegisterPasskey RegisterPasskeyInput
  | OpRegisterOidcProvider string "string option" string string
  | OpLinkOidcIdentity string string string
  | OpAuthenticatePasskey int RealmIds PasskeyAssertion
  | OpAuthenticateOidc int RealmIds string string bool "string option"
  | OpRegisterAgent string RegisterAgentInput
  | OpAddRelationship string AddRelationshipInput
  | OpSetSourceSpacePolicy string SetSourceSpacePolicyInput
  | OpValidateSession int string
  | OpCreateTask int RealmIds CreateTaskInput
  | OpCreateCapabilityGrant int RealmIds CreateTaskGrantInput
  | OpDelegateAgent int RealmIds AgentDelegationInput
  | OpCreateOwnerTaskGrant int RealmIds OwnerGrantInput
  | OpValidateTaskGrant int TaskGrantValidationInput
  | OpRevokeGrant string
  | OpRevokeAgent string
  | OpRevokeSession string
  | OpRevokeCredential string
  | OpIssueCredential int string string IssueCredentialInput
  | OpValidateCredential int string CredentialValidationInput
  | OpActivatePolicy string
  | OpCanReadSourceSpaceMetadata int MetadataReadInput
  | OpEvaluate int PolicyEvaluationInput
  | OpAuthorize int PolicyEvaluationInput

fun realm_step :: "(string \<Rightarrow> string) \<Rightarrow> realm_op \<Rightarrow> RealmState \<Rightarrow> unit rm_outcome" where
  "realm_step d (OpRegisterClient input) s = void (registerClient input s)"
| "realm_step d (OpCreatePrincipal uuid i name) s = void (createPrincipal uuid i name s)"
| "realm_step d (OpRegisterPasskey input) s = void (registerPasskey input s)"
| "realm_step d (OpRegisterOidcProvider uuid i issuer clientId) s = void (registerOidcProvider uuid i issuer clientId s)"
| "realm_step d (OpLinkOidcIdentity i issuer subject) s = void (linkOidcIdentity i issuer subject s)"
| "realm_step d (OpAuthenticatePasskey now u input) s = void (authenticatePasskey now u input s)"
| "realm_step d (OpAuthenticateOidc now u issuer subject verified clientId) s = void (authenticateOidc now u issuer subject verified clientId s)"
| "realm_step d (OpRegisterAgent uuid input) s = void (registerAgent uuid input s)"
| "realm_step d (OpAddRelationship uuid input) s = void (addRelationship uuid input s)"
| "realm_step d (OpSetSourceSpacePolicy uuid input) s = void (setSourceSpacePolicy uuid input s)"
| "realm_step d (OpValidateSession now i) s = void (validateSession now i s)"
| "realm_step d (OpCreateTask now u input) s = void (createTask now u input s)"
| "realm_step d (OpCreateCapabilityGrant now u input) s = void (createCapabilityGrant now u input s)"
| "realm_step d (OpDelegateAgent now u input) s = void (delegateAgent now u input s)"
| "realm_step d (OpCreateOwnerTaskGrant now u input) s = void (createOwnerTaskGrant now u input s)"
| "realm_step d (OpValidateTaskGrant now input) s = void (validateTaskGrant now input s)"
| "realm_step d (OpRevokeGrant i) s = void (revokeGrant i s)"
| "realm_step d (OpRevokeAgent i) s = void (revokeAgent i s)"
| "realm_step d (OpRevokeSession i) s = void (revokeSession i s)"
| "realm_step d (OpRevokeCredential i) s = void (revokeCredential i s)"
| "realm_step d (OpIssueCredential now uuid token input) s = void (issueCredential d now uuid token input s)"
| "realm_step d (OpValidateCredential now token input) s = void (validateCredential d now token input s)"
| "realm_step d (OpActivatePolicy v) s = void (activateRealmPolicy v s)"
| "realm_step d (OpCanReadSourceSpaceMetadata now input) s = void (canReadSourceSpaceMetadata now input s)"
| "realm_step d (OpEvaluate now input) s = void (evaluate now input s)"
| "realm_step d (OpAuthorize now input) s = void (authorize now input s)"

text \<open>Random ids are not in use yet.\<close>

fun realm_ok :: "RealmState \<Rightarrow> realm_op \<Rightarrow> bool" where
  "realm_ok s (OpAuthenticatePasskey now u input) = session_fresh s u"
| "realm_ok s (OpAuthenticateOidc now u issuer subject verified clientId) = session_fresh s u"
| "realm_ok s (OpCreateCapabilityGrant now u input) = grant_fresh s u"
| "realm_ok s (OpDelegateAgent now u input) = (session_fresh s u \<and> grant_fresh s u)"
| "realm_ok s (OpCreateOwnerTaskGrant now u input) = grant_fresh s u"
| "realm_ok s (OpIssueCredential now uuid token input) = (\<not> has_key (rs_credentials s) (opaqueId ''credential'' uuid))"
| "realm_ok s x = True"

lemma canRead_grows: "grows s (snd (canReadSourceSpaceMetadata now input s))"
  by (auto simp: canReadSourceSpaceMetadata_def validateSession_def Let_def intro!: grows_and_then split: option.splits)

lemma validateCredential_grows: "grows s (snd (validateCredential d now token input s))"
proof (cases "realm_inv s")
  case True
  then show ?thesis by (intro weaker_grows validateCredential_weaker inv_distinct)
qed (simp add: grows_def)

lemma evaluate_grows: "grows s (snd (evaluate now input s))"
  unfolding evaluate_def by (rule weaker_grows [OF evaluateDecision_weaker])

lemmas realm_grows = createPrincipal_grows registerPasskey_grows registerOidcProvider_grows linkOidcIdentity_grows authenticatePasskey_grows
  authenticateOidc_grows registerAgent_grows addRelationship_grows setSourceSpacePolicy_grows createCapabilityGrant_grows delegateAgent_grows
  createOwnerTaskGrant_grows validateTaskGrant_grows issueCredential_grows validateCredential_grows activateRealmPolicy_grows canRead_grows
  evaluate_grows
  weaker_grows [OF revokeGrant_weaker] weaker_grows [OF revokeAgent_weaker] weaker_grows [OF revokeSession_weaker]
  weaker_grows [OF revokeCredential_weaker] weaker_grows [OF authorize_weaker]

lemma realm_step_grows: "realm_ok s x \<Longrightarrow> grows s (snd (realm_step d x s))"
  by (cases x) (simp_all add: realm_grows validateSession_def)

interpretation realm: invariant_machine "realm_step d" realm_ok realm_inv for d
  by unfold_locales (use realm_step_grows in \<open>auto simp: grows_def\<close>)

interpretation realm_authority: growing_machine "realm_step d" "\<lambda>s x. realm_ok s x" grows for d
  by unfold_locales (auto intro: grows_trans realm_step_grows)

lemma new_realm_inv: "new_realm uuid options = Inr s \<Longrightarrow> realm_inv s"
  by (auto simp: new_realm_def Let_def empty_realm_def registerClient_def default_client_def realm_inv_def
      return_def raise_def get_key_def set_key_def audit_def split: if_splits)

definition realm_reachable :: "(string \<Rightarrow> string) \<Rightarrow> RealmState \<Rightarrow> bool" where
  "realm_reachable d s \<longleftrightarrow> (\<exists>uuid options s0 xs. new_realm uuid options = Inr s0 \<and> admissible realm_ok (realm_step d) xs s0
     \<and> s = run_ops (realm_step d) xs s0)"

lemma realm_reachable_inv: "realm_reachable d s \<Longrightarrow> realm_inv s"
  unfolding realm_reachable_def using realm.run_inv new_realm_inv by blast

lemma realm_run_before:
  "realm_inv s \<Longrightarrow> admissible realm_ok (realm_step d) xs s \<Longrightarrow> authority_before s (run_ops (realm_step d) xs s)"
  using realm_authority.run_grows [of d xs s] by (simp add: grows_def)

end
