(* ===== verification/Extensions.thy ===== *)
theory Extensions
  imports Realm_Invariant
begin

text \<open>
  The class \<open>ExtensionRegistry\<close> of \<open>src/src/extensions/registry.ts\<close>: manifests are registered under an immutable
  version pin, installed for a scope with a part of the effects and capabilities they request, replaced,
  suspended, deprecated or revoked, and invoked. Every step that hands out authority asks the Realm policy of
  \<open>Realm_Decision\<close>, which the registry shares with its other callers: the Realm is the field \<open>er_realm\<close>, and a
  policy decision writes to it. The protocol, kind and trust of a manifest are texts, since the code checks them.
\<close>

section \<open>Data\<close>

datatype ExtensionLifecycle =
    ExtProposed | ExtInstalled | ExtEnabled | ExtSuspended | ExtDeprecated | ExtReplaced | ExtRevoked | ExtBlocked

record ExtensionProvenance =
  pv_source :: string
  pv_publisher :: string
  pv_signer :: "string option"
  pv_attestation :: "string option"
  pv_receipt :: string

record ExtensionManifest =
  em_protocol :: string
  em_id :: string
  em_name :: string
  em_version :: string
  em_kind :: string
  em_trust :: string
  em_source :: string
  em_digest :: string
  em_requestedEffects :: "string list"
  em_requestedCapabilities :: "string list"
  em_lifecycle :: ExtensionLifecycle
  em_compatibility :: "string list"
  em_provenance :: ExtensionProvenance
  em_deprecationReason :: "string option"

datatype ExtensionScope =
    RealmScope string
  | OrganizationScope string string
  | ProjectScope string "string option" string

record ExtensionInstallation =
  ei_id :: string
  ei_manifestId :: string
  ei_manifestVersion :: string
  ei_manifestDigest :: string
  ei_scope :: ExtensionScope
  ei_lifecycle :: ExtensionLifecycle
  ei_grantedEffects :: "string list"
  ei_grantedCapabilities :: "string list"
  ei_grantId :: string
  ei_policyVersion :: string
  ei_authorizationEpoch :: nat
  ei_installedBy :: ActorRef
  ei_lineageId :: string
  ei_replacesInstallationId :: "string option"
  ei_providerMigrationFrom :: "string option"

datatype ExtensionEventKind =
    EvRegistered | EvInstallRequested | EvInstalled | EvEnabled | EvSuspended | EvDeprecated | EvReplaced
  | EvProviderMigrated | EvRevoked | EvBlocked | EvInvocationProposed | EvInvoked | EvInvocationBlocked

record ExtensionEvent =
  xe_kind :: ExtensionEventKind
  xe_installationId :: "string option"
  xe_manifestId :: string
  xe_previousInstallationId :: "string option"
  xe_nextInstallationId :: "string option"
  xe_actor :: "ActorRef option"

record ExtensionAuthorization =
  xa_principalId :: string
  xa_actorId :: string
  xa_clientId :: string
  xa_sessionId :: string
  xa_taskId :: string
  xa_grantId :: string
  xa_resource :: ResourceRef
  xa_modelProvider :: "string option"
  xa_requiredAuthStrength :: "AuthenticationStrength option"
  xa_authorityClass :: "AuthorityClass option"
  xa_promotionId :: "string option"
  xa_approval :: "PolicyApproval option"

record RegisterExtensionInput =
  rxi_manifest :: ExtensionManifest
  rxi_packageDigest :: string

text \<open>\<open>InstallExtensionInput\<close>, and what \<open>ReplaceExtensionInput\<close> leaves of it.\<close>

record ReplacementInput =
  xi_manifestId :: string
  xi_manifestVersion :: string
  xi_packageDigest :: string
  xi_scope :: ExtensionScope
  xi_grantedEffects :: "string list"
  xi_grantedCapabilities :: "Capability list"
  xi_authorization :: ExtensionAuthorization

record InstallExtensionInput = ReplacementInput +
  xi_replacesInstallationId :: "string option"
  xi_providerMigrationFrom :: "string option"

record ExtensionTransitionInput =
  xt_installationId :: string
  xt_authorization :: ExtensionAuthorization

record ReplaceExtensionInput =
  xp_installationId :: string
  xp_replacement :: ReplacementInput
  xp_authorization :: ExtensionAuthorization
  xp_providerMigration :: "bool option"

record InvokeExtensionInput =
  xv_installationId :: string
  xv_requestedEffects :: "string list"
  xv_requestedCapabilities :: "Capability list"
  xv_resource :: ResourceRef
  xv_authorization :: ExtensionAuthorization
  xv_operation :: "string option"

datatype ExtensionInvocationStatus = InvocationAllowed | InvocationBlocked | InvocationProposal

record ExtensionInvocationResult =
  xr_status :: ExtensionInvocationStatus
  xr_installationId :: string
  xr_requestedEffects :: "string list"
  xr_requestedCapabilities :: "Capability list"
  xr_policyExplanations :: "PolicyExplanation list"

datatype ExtensionErrorCode =
    ExInvalidInput | ExManifestInvalid | ExManifestNotFound | ExDigestMismatch | ExCompatibilityMismatch | ExTrustBoundary
  | ExInstallationNotFound | ExScopeMismatch | ExGrantWidening | ExPolicyDenied | ExLifecycleBlocked | ExLineageInvalid

text \<open>What a call may throw: an error of the registry, or one that comes up from the Realm.\<close>

datatype ExtensionFailure =
    ExtensionError ExtensionErrorCode string "PolicyExplanation option"
  | RealmThrew RealmIdentityError

record ExtensionRegistry =
  er_realm :: RealmState
  er_kernelCompatibility :: "string list"
  er_manifests :: "(string, ExtensionManifest) jsmap"
  er_installations :: "(string, ExtensionInstallation) jsmap"
  er_events :: "ExtensionEvent list"

type_synonym 'a er_outcome = "(ExtensionRegistry, ExtensionFailure, 'a) outcome"

section \<open>Constants and helpers\<close>

definition extension_protocol :: string where
  "extension_protocol = ''anyam.extension/v1''"

definition HIGH_RISK_EFFECTS :: "string list" where
  "HIGH_RISK_EFFECTS = [''canonical.write'', ''change.approve'', ''identity.manage'', ''policy.manage'', ''secret.value.read'',
     ''target-promote'', ''target.promote'']"

definition KERNEL_AUTHORITY_CAPABILITIES :: "Capability list" where
  "KERNEL_AUTHORITY_CAPABILITIES = [ChangeApprove, LandingRequest, PolicyManage, IdentityManage, TargetPromote]"

definition ALL_EXTENSION_KINDS :: "string list" where
  "ALL_EXTENSION_KINDS = [''repository-driver'', ''action'', ''verifier'', ''target-adapter'', ''project-experience'', ''ide'',
     ''agent-skill'', ''app'']"

definition ALL_TRUST_LEVELS :: "string list" where
  "ALL_TRUST_LEVELS = [''first-party'', ''verified'', ''unverified'']"

definition extension_error :: "ExtensionErrorCode \<Rightarrow> string \<Rightarrow> ExtensionFailure" where
  "extension_error code affected = ExtensionError code affected None"

definition text_error :: "string \<Rightarrow> string \<Rightarrow> ExtensionErrorCode \<Rightarrow> ExtensionFailure option" where
  "text_error value field code = fail_if (blank value) (extension_error code field)"

definition values_error :: "string list \<Rightarrow> string \<Rightarrow> ExtensionFailure option" where
  "values_error xs field = or_else (fail_if (list_ex blank xs) (extension_error ExInvalidInput field))
     (fail_if (has_duplicates xs) (extension_error ExInvalidInput field))"

definition digest_error :: "string \<Rightarrow> string \<Rightarrow> ExtensionFailure option" where
  "digest_error value field = or_else (text_error value field ExDigestMismatch)
     (fail_if (\<not> startsWith value ''sha256:'') (extension_error ExDigestMismatch field))"

definition manifestKey :: "string \<Rightarrow> string \<Rightarrow> string \<Rightarrow> string" where
  "manifestKey i version digest = i @ ''@'' @ version @ ''#'' @ digest"

fun scope_realmId :: "ExtensionScope \<Rightarrow> string" where
  "scope_realmId (RealmScope r) = r"
| "scope_realmId (OrganizationScope r org) = r"
| "scope_realmId (ProjectScope r org project) = r"

fun same_scope_kind :: "ExtensionScope \<Rightarrow> ExtensionScope \<Rightarrow> bool" where
  "same_scope_kind (RealmScope _) (RealmScope _) = True"
| "same_scope_kind (OrganizationScope _ _) (OrganizationScope _ _) = True"
| "same_scope_kind (ProjectScope _ _ _) (ProjectScope _ _ _) = True"
| "same_scope_kind _ _ = False"

fun scopeResource :: "ExtensionScope \<Rightarrow> ResourceRef" where
  "scopeResource (RealmScope r) = whole_realm r"
| "scopeResource (OrganizationScope r org) = (whole_realm r)\<lparr>rr_organizationId := Some org\<rparr>"
| "scopeResource (ProjectScope r org project) = (whole_realm r)\<lparr>rr_organizationId := org, rr_projectId := Some project\<rparr>"

fun scopeContains :: "ExtensionScope \<Rightarrow> ResourceRef \<Rightarrow> bool" where
  "scopeContains (RealmScope r) resource = (r = rr_realmId resource)"
| "scopeContains (OrganizationScope r org) resource = (r = rr_realmId resource \<and> rr_organizationId resource = Some org)"
| "scopeContains (ProjectScope r org project) resource = (r = rr_realmId resource \<and> rr_organizationId resource = org \<and> rr_projectId resource = Some project)"

definition extension_actor :: "ExtensionAuthorization \<Rightarrow> ActorRef" where
  "extension_actor auth = \<lparr>actor_principalId = xa_principalId auth, actor_actorId = xa_actorId auth, actor_sessionId = xa_sessionId auth,
     actor_clientId = xa_clientId auth\<rparr>"

definition highRisk :: "string list \<Rightarrow> string list" where
  "highRisk = filter (\<lambda>v. v \<in> set HIGH_RISK_EFFECTS)"

definition asPolicyInput :: "ExtensionAuthorization \<Rightarrow> string \<Rightarrow> Capability \<Rightarrow> ResourceRef \<Rightarrow> string option \<Rightarrow> PolicyEvaluationInput" where
  "asPolicyInput auth operation capability resource effect = \<lparr>pei_operation = operation, pei_capability = Some capability,
     pei_principalId = xa_principalId auth, pei_actorId = xa_actorId auth, pei_clientId = xa_clientId auth, pei_sessionId = xa_sessionId auth,
     pei_taskId = Some (xa_taskId auth), pei_grantId = Some (xa_grantId auth), pei_resource = resource,
     pei_sourceSpaceId = keep_truthy (rr_sourceSpaceId resource), pei_effect = keep_truthy effect,
     pei_modelProvider = keep_truthy (xa_modelProvider auth), pei_requiredCredentialClass = None,
     pei_requiredAuthStrength = xa_requiredAuthStrength auth, pei_authorityClass = xa_authorityClass auth,
     pei_promotionId = keep_truthy (xa_promotionId auth), pei_approval = xa_approval auth, pei_discoverable = None, pei_protected = Some True\<rparr>"

definition new_registry :: "RealmState \<Rightarrow> string list option \<Rightarrow> ExtensionFailure + ExtensionRegistry" where
  "new_registry realm compatibility =
     (let versions = nullish compatibility [''anyam.kernel/v1''] in
      case values_error versions ''kernelCompatibility'' of
        Some e \<Rightarrow> Inl e
      | None \<Rightarrow> Inr \<lparr>er_realm = realm, er_kernelCompatibility = versions, er_manifests = [], er_installations = [], er_events = []\<rparr>)"

definition extension_event :: "ExtensionEventKind \<Rightarrow> string \<Rightarrow> ExtensionEvent" where
  "extension_event kind manifestId = \<lparr>xe_kind = kind, xe_installationId = None, xe_manifestId = manifestId,
     xe_previousInstallationId = None, xe_nextInstallationId = None, xe_actor = None\<rparr>"

definition record_event :: "ExtensionEvent \<Rightarrow> ExtensionRegistry \<Rightarrow> ExtensionRegistry" where
  "record_event e s = s\<lparr>er_events := er_events s @ [e]\<rparr>"

text \<open>The events of an installation.\<close>

definition installation_event :: "ExtensionEventKind \<Rightarrow> ExtensionInstallation \<Rightarrow> ExtensionAuthorization \<Rightarrow> ExtensionRegistry \<Rightarrow> ExtensionRegistry" where
  "installation_event kind installation auth = record_event ((extension_event kind (ei_manifestId installation))\<lparr>
     xe_installationId := keep_truthy (Some (ei_id installation)), xe_actor := Some (extension_actor auth)\<rparr>)"

definition set_installation :: "ExtensionInstallation \<Rightarrow> ExtensionRegistry \<Rightarrow> ExtensionRegistry" where
  "set_installation i s = s\<lparr>er_installations := set_key (ei_id i) i (er_installations s)\<rparr>"

section \<open>Manifests\<close>

definition getManifest :: "ExtensionRegistry \<Rightarrow> string \<Rightarrow> string option \<Rightarrow> string option \<Rightarrow> ExtensionManifest option" where
  "getManifest s i version digest =
     (let candidates = filter (\<lambda>m. em_id m = i) (map_values (er_manifests s));
          versioned = (if truthy version then filter (\<lambda>m. Some (em_version m) = version) candidates else candidates);
          digested = (if truthy digest then filter (\<lambda>m. Some (em_digest m) = digest) versioned else versioned)
      in case digested of [] \<Rightarrow> None | m # _ \<Rightarrow> Some m)"

definition register_error :: "ExtensionRegistry \<Rightarrow> ExtensionManifest \<Rightarrow> string \<Rightarrow> ExtensionFailure option" where
  "register_error s m packageDigest =
     or_else (text_error (em_id m) ''manifest.id'' ExInvalidInput)
     (or_else (text_error (em_name m) ''manifest.name'' ExInvalidInput)
     (or_else (text_error (em_version m) ''manifest.version'' ExInvalidInput)
     (or_else (text_error (em_source m) ''manifest.source'' ExInvalidInput)
     (or_else (text_error (pv_source (em_provenance m)) ''manifest.provenance.source'' ExInvalidInput)
     (or_else (text_error (pv_publisher (em_provenance m)) ''manifest.provenance.publisher'' ExInvalidInput)
     (or_else (text_error (pv_receipt (em_provenance m)) ''manifest.provenance.receipt'' ExInvalidInput)
     (or_else (digest_error (em_digest m) ''manifest.digest'')
     (or_else (digest_error packageDigest ''packageDigest'')
     (or_else (fail_if (em_digest m \<noteq> packageDigest) (extension_error ExDigestMismatch (em_id m)))
     (or_else (fail_if (em_protocol m \<noteq> extension_protocol \<or> em_kind m \<notin> set ALL_EXTENSION_KINDS) (extension_error ExManifestInvalid (em_id m)))
     (or_else (fail_if (em_trust m \<notin> set ALL_TRUST_LEVELS) (extension_error ExManifestInvalid (em_id m)))
     (or_else (values_error (em_compatibility m) ''manifest.compatibility'')
     (or_else (fail_if (list_ex (\<lambda>v. v \<notin> set (em_compatibility m)) (er_kernelCompatibility s) \<or> extension_protocol \<notin> set (em_compatibility m))
                 (extension_error ExCompatibilityMismatch (em_id m)))
     (or_else (values_error (em_requestedEffects m) ''manifest.requestedEffects'')
       (values_error (em_requestedCapabilities m) ''manifest.requestedCapabilities'')))))))))))))))"

definition unverifiedHighRisk :: "ExtensionManifest \<Rightarrow> string list" where
  "unverifiedHighRisk m = (if em_trust m = ''unverified'' then highRisk (em_requestedEffects m @ em_requestedCapabilities m) else [])"

definition normalized_manifest :: "ExtensionManifest \<Rightarrow> ExtensionManifest" where
  "normalized_manifest m = m\<lparr>em_lifecycle := (if unverifiedHighRisk m \<noteq> [] then ExtBlocked
       else if em_lifecycle m = ExtDeprecated \<or> em_lifecycle m = ExtRevoked then em_lifecycle m else ExtProposed),
     em_provenance := (em_provenance m)\<lparr>pv_source := em_source m\<rparr>\<rparr>"

definition manifest_key :: "ExtensionManifest \<Rightarrow> string" where
  "manifest_key m = manifestKey (em_id m) (em_version m) (em_digest m)"

definition registerManifest :: "RegisterExtensionInput \<Rightarrow> ExtensionRegistry \<Rightarrow> ExtensionManifest er_outcome" where
  "registerManifest input s =
     (case register_error s (rxi_manifest input) (rxi_packageDigest input) of
        Some e \<Rightarrow> raise e s
      | None \<Rightarrow>
          let m = normalized_manifest (rxi_manifest input)
          in (case get_key (er_manifests s) (manifest_key m) of
                Some existing \<Rightarrow> return existing s
              | None \<Rightarrow>
                  if list_ex (\<lambda>c. em_id c = em_id m \<and> em_version c = em_version m \<and> em_digest c \<noteq> em_digest m) (map_values (er_manifests s))
                  then raise (extension_error ExDigestMismatch (em_id m)) s
                  else return m (record_event (extension_event (if em_lifecycle m = ExtBlocked then EvBlocked else EvRegistered) (em_id m))
                         (s\<lparr>er_manifests := set_key (manifest_key m) m (er_manifests s)\<rparr>))))"

section \<open>Policy decisions\<close>

fun in_realm :: "'a rm_outcome \<Rightarrow> ExtensionRegistry \<Rightarrow> 'a er_outcome" where
  "in_realm (Inl e, r) s = raise (RealmThrew e) (s\<lparr>er_realm := r\<rparr>)"
| "in_realm (Inr a, r) s = return a (s\<lparr>er_realm := r\<rparr>)"

definition authorizeExtension :: "int \<Rightarrow> ExtensionAuthorization \<Rightarrow> string \<Rightarrow> Capability \<Rightarrow> ResourceRef \<Rightarrow> string option \<Rightarrow> ExtensionRegistry
    \<Rightarrow> PolicyExplanation er_outcome" where
  "authorizeExtension now auth operation capability resource effect s =
     and_then (in_realm (evaluate now (asPolicyInput auth operation capability resource effect) (er_realm s)) s) (\<lambda>(allowed, explanation) s.
       if \<not> allowed then raise (ExtensionError ExPolicyDenied (nullish (rr_projectId resource) (rr_realmId resource)) (Some explanation)) s
       else return explanation s)"

definition matching_effect :: "string list \<Rightarrow> Capability \<Rightarrow> string option" where
  "matching_effect effects c = find (\<lambda>candidate. candidate = capability_text c \<or> replaceChar CHR ''-'' CHR ''.'' candidate = capability_text c) effects"

fun authorize_grants :: "int \<Rightarrow> ExtensionAuthorization \<Rightarrow> string list \<Rightarrow> Capability list \<Rightarrow> ExtensionRegistry \<Rightarrow> unit er_outcome" where
  "authorize_grants now auth effects [] s = return () s"
| "authorize_grants now auth effects (c # cs) s =
     and_then (authorizeExtension now auth (''extension.grant.'' @ capability_text c) c (xa_resource auth)
        (Some (nullish (matching_effect effects c) (capability_text c))) s)
       (\<lambda>_. authorize_grants now auth effects cs)"

section \<open>Installations\<close>

fun scope_error :: "ExtensionScope \<Rightarrow> ExtensionFailure option" where
  "scope_error (RealmScope r) = text_error r ''scope.realmId'' ExInvalidInput"
| "scope_error (OrganizationScope r org) = or_else (text_error r ''scope.realmId'' ExInvalidInput) (text_error org ''scope.organizationId'' ExInvalidInput)"
| "scope_error (ProjectScope r org project) = or_else (text_error r ''scope.realmId'' ExInvalidInput)
     (or_else (text_error project ''scope.projectId'' ExInvalidInput)
       (case org of None \<Rightarrow> None | Some i \<Rightarrow> text_error i ''scope.organizationId'' ExInvalidInput))"

definition validateScope :: "ExtensionScope \<Rightarrow> ExtensionRegistry \<Rightarrow> ExtensionFailure option" where
  "validateScope scope s = or_else (scope_error scope)
     (fail_if (scope_realmId scope \<noteq> realmId (er_realm s)) (extension_error ExScopeMismatch (scope_realmId scope)))"

definition install_error :: "'a ReplacementInput_scheme \<Rightarrow> ExtensionManifest \<Rightarrow> ExtensionRegistry \<Rightarrow> ExtensionFailure option" where
  "install_error input m s =
     (let effects = xi_grantedEffects input; capabilities = map capability_text (xi_grantedCapabilities input) in
      or_else (fail_if (em_lifecycle m \<in> set [ExtBlocked, ExtDeprecated, ExtRevoked]) (extension_error ExLifecycleBlocked (em_id m)))
      (or_else (validateScope (xi_scope input) s)
      (or_else (fail_if (\<not> scopeContains (xi_scope input) (xa_resource (xi_authorization input))) (extension_error ExScopeMismatch (em_id m)))
      (or_else (values_error effects ''grantedEffects'')
      (or_else (values_error capabilities ''grantedCapabilities'')
      (or_else (fail_if (list_ex (\<lambda>e. e \<notin> set (em_requestedEffects m)) effects \<or> list_ex (\<lambda>c. c \<notin> set (em_requestedCapabilities m)) capabilities)
                  (extension_error ExGrantWidening (em_id m)))
        (fail_if (''canonical.write'' \<in> set effects \<or> ''landing.request'' \<in> set capabilities \<and> ''canonical.write'' \<in> set effects)
          (extension_error ExTrustBoundary (em_id m)))))))))"

definition new_lineage :: "string \<Rightarrow> string option \<Rightarrow> ExtensionRegistry \<Rightarrow> string" where
  "new_lineage uuid replaces s = (case keep_truthy replaces of
     None \<Rightarrow> opaqueId ''extension-lineage'' uuid
   | Some i \<Rightarrow> (case get_key (er_installations s) i of None \<Rightarrow> opaqueId ''extension-lineage'' uuid | Some old \<Rightarrow> ei_lineageId old))"

definition new_installation :: "(nat \<Rightarrow> string) \<Rightarrow> InstallExtensionInput \<Rightarrow> ExtensionManifest \<Rightarrow> ExtensionRegistry \<Rightarrow> ExtensionInstallation" where
  "new_installation u input m s = \<lparr>ei_id = opaqueId ''extension-installation'' (u 0), ei_manifestId = em_id m, ei_manifestVersion = em_version m,
     ei_manifestDigest = em_digest m, ei_scope = xi_scope input, ei_lifecycle = ExtEnabled, ei_grantedEffects = xi_grantedEffects input,
     ei_grantedCapabilities = map capability_text (xi_grantedCapabilities input), ei_grantId = xa_grantId (xi_authorization input),
     ei_policyVersion = realm_policyVersion (rs_realm (er_realm s)), ei_authorizationEpoch = epoch (er_realm s),
     ei_installedBy = extension_actor (xi_authorization input), ei_lineageId = new_lineage (u 1) (xi_replacesInstallationId input) s,
     ei_replacesInstallationId = keep_truthy (xi_replacesInstallationId input),
     ei_providerMigrationFrom = keep_truthy (xi_providerMigrationFrom input)\<rparr>"

definition install_commit :: "ExtensionInstallation \<Rightarrow> ExtensionAuthorization \<Rightarrow> ExtensionRegistry \<Rightarrow> ExtensionRegistry" where
  "install_commit i auth s = installation_event EvEnabled i auth (installation_event EvInstalled i auth
     (installation_event EvInstallRequested i auth (set_installation i s)))"

definition install :: "int \<Rightarrow> (nat \<Rightarrow> string) \<Rightarrow> InstallExtensionInput \<Rightarrow> ExtensionRegistry \<Rightarrow> ExtensionInstallation er_outcome" where
  "install now u input s =
     (case getManifest s (xi_manifestId input) (Some (xi_manifestVersion input)) (Some (xi_packageDigest input)) of
        None \<Rightarrow> raise (extension_error ExManifestNotFound (xi_manifestId input)) s
      | Some m \<Rightarrow>
          (case install_error input m s of
             Some e \<Rightarrow> raise e s
           | None \<Rightarrow>
               and_then (authorizeExtension now (xi_authorization input) ''extension.install'' ExtensionInstall (scopeResource (xi_scope input))
                           (Some ''extension.install'') s) (\<lambda>_ s.
               and_then (authorize_grants now (xi_authorization input) (xi_grantedEffects input) (xi_grantedCapabilities input) s) (\<lambda>_ s.
                 let i = new_installation u input m s in return i (install_commit i (xi_authorization input) s)))))"

definition requireInstallation :: "ExtensionRegistry \<Rightarrow> string \<Rightarrow> ExtensionFailure + ExtensionInstallation" where
  "requireInstallation s i = (case get_key (er_installations s) i of None \<Rightarrow> Inl (extension_error ExInstallationNotFound i) | Some x \<Rightarrow> Inr x)"

definition requireManifest :: "ExtensionRegistry \<Rightarrow> ExtensionInstallation \<Rightarrow> ExtensionFailure + ExtensionManifest" where
  "requireManifest s i = (case getManifest s (ei_manifestId i) (Some (ei_manifestVersion i)) (Some (ei_manifestDigest i)) of
     None \<Rightarrow> Inl (extension_error ExManifestNotFound (ei_manifestId i)) | Some m \<Rightarrow> Inr m)"

text \<open>An installation with its manifest, as \<open>replace\<close> and \<open>invoke\<close> read them.\<close>

definition installed :: "ExtensionRegistry \<Rightarrow> string \<Rightarrow> ExtensionFailure + (ExtensionInstallation \<times> ExtensionManifest)" where
  "installed s i = sum_then (requireInstallation s i) (\<lambda>x. sum_then (requireManifest s x) (\<lambda>m. Inr (x, m)))"

definition replacement_input :: "ReplaceExtensionInput \<Rightarrow> ExtensionInstallation \<Rightarrow> ExtensionManifest \<Rightarrow> InstallExtensionInput" where
  "replacement_input input current m = ReplacementInput.extend ((xp_replacement input)\<lparr>xi_authorization := xp_authorization input\<rparr>)
     (InstallExtensionInput.fields (Some (ei_id current)) (if xp_providerMigration input = Some True then Some (em_source m) else None))"

definition replace_commit :: "ReplaceExtensionInput \<Rightarrow> ExtensionInstallation \<Rightarrow> ExtensionInstallation \<Rightarrow> ExtensionRegistry \<Rightarrow> ExtensionRegistry" where
  "replace_commit input current replacement s =
     record_event ((extension_event (if xp_providerMigration input = Some True then EvProviderMigrated else EvReplaced) (ei_manifestId current))\<lparr>
         xe_installationId := keep_truthy (Some (ei_id current)), xe_previousInstallationId := keep_truthy (Some (ei_id current)),
         xe_nextInstallationId := keep_truthy (Some (ei_id replacement)), xe_actor := Some (extension_actor (xp_authorization input))\<rparr>)
       (set_installation (current\<lparr>ei_lifecycle := ExtReplaced\<rparr>) s)"

definition replaceExtension :: "int \<Rightarrow> (nat \<Rightarrow> string) \<Rightarrow> ReplaceExtensionInput \<Rightarrow> ExtensionRegistry \<Rightarrow> ExtensionInstallation er_outcome" where
  "replaceExtension now u input s =
     (case installed s (xp_installationId input) of
        Inl e \<Rightarrow> raise e s
      | Inr (current, m) \<Rightarrow>
          if \<not> scopeContains (ei_scope current) (xa_resource (xp_authorization input)) then raise (extension_error ExScopeMismatch (ei_id current)) s
          else and_then (authorizeExtension now (xp_authorization input) ''extension.replace'' ExtensionManage (scopeResource (ei_scope current))
                           (Some ''extension.replace'') s) (\<lambda>_ s.
               if \<not> same_scope_kind (xi_scope (xp_replacement input)) (ei_scope current)
                  \<or> scope_realmId (xi_scope (xp_replacement input)) \<noteq> scope_realmId (ei_scope current)
               then raise (extension_error ExScopeMismatch (ei_id current)) s
               else and_then (install now u (replacement_input input current m) s)
                      (\<lambda>replacement s. return replacement (replace_commit input current replacement s))))"

definition migrateProvider :: "int \<Rightarrow> (nat \<Rightarrow> string) \<Rightarrow> ReplaceExtensionInput \<Rightarrow> ExtensionRegistry \<Rightarrow> ExtensionInstallation er_outcome" where
  "migrateProvider now u input = replaceExtension now u (input\<lparr>xp_providerMigration := Some True\<rparr>)"

fun lifecycle_text :: "ExtensionLifecycle \<Rightarrow> string" where
  "lifecycle_text ExtProposed = ''proposed''"
| "lifecycle_text ExtInstalled = ''installed''"
| "lifecycle_text ExtEnabled = ''enabled''"
| "lifecycle_text ExtSuspended = ''suspended''"
| "lifecycle_text ExtDeprecated = ''deprecated''"
| "lifecycle_text ExtReplaced = ''replaced''"
| "lifecycle_text ExtRevoked = ''revoked''"
| "lifecycle_text ExtBlocked = ''blocked''"

definition transition_extension :: "ExtensionLifecycle \<Rightarrow> ExtensionEventKind \<Rightarrow> int \<Rightarrow> ExtensionTransitionInput \<Rightarrow> ExtensionRegistry
    \<Rightarrow> ExtensionInstallation er_outcome" where
  "transition_extension lifecycle kind now input s =
     (case requireInstallation s (xt_installationId input) of
        Inl e \<Rightarrow> raise e s
      | Inr i \<Rightarrow>
          and_then (authorizeExtension now (xt_authorization input) (''extension.'' @ lifecycle_text lifecycle) ExtensionManage (scopeResource (ei_scope i))
                      (Some (''extension.'' @ lifecycle_text lifecycle)) s) (\<lambda>_ s.
            if ei_lifecycle i = ExtReplaced \<or> ei_lifecycle i = ExtRevoked then raise (extension_error ExLifecycleBlocked (ei_id i)) s
            else return (i\<lparr>ei_lifecycle := lifecycle\<rparr>)
                   (installation_event kind (i\<lparr>ei_lifecycle := lifecycle\<rparr>) (xt_authorization input) (set_installation (i\<lparr>ei_lifecycle := lifecycle\<rparr>) s))))"

definition deprecateExtension :: "int \<Rightarrow> ExtensionTransitionInput \<Rightarrow> ExtensionRegistry \<Rightarrow> ExtensionInstallation er_outcome" where
  "deprecateExtension = transition_extension ExtDeprecated EvDeprecated"

definition suspendExtension :: "int \<Rightarrow> ExtensionTransitionInput \<Rightarrow> ExtensionRegistry \<Rightarrow> ExtensionInstallation er_outcome" where
  "suspendExtension = transition_extension ExtSuspended EvSuspended"

definition revokeExtension :: "int \<Rightarrow> ExtensionTransitionInput \<Rightarrow> ExtensionRegistry \<Rightarrow> ExtensionInstallation er_outcome" where
  "revokeExtension = transition_extension ExtRevoked EvRevoked"

section \<open>Invocations\<close>

definition invocation_result :: "ExtensionInvocationStatus \<Rightarrow> InvokeExtensionInput \<Rightarrow> ExtensionInstallation \<Rightarrow> PolicyExplanation list \<Rightarrow> ExtensionInvocationResult" where
  "invocation_result status input i explanations = \<lparr>xr_status = status, xr_installationId = ei_id i, xr_requestedEffects = xv_requestedEffects input,
     xr_requestedCapabilities = xv_requestedCapabilities input, xr_policyExplanations = explanations\<rparr>"

definition blockedInvocation :: "InvokeExtensionInput \<Rightarrow> ExtensionInstallation \<Rightarrow> PolicyExplanation list \<Rightarrow> ExtensionRegistry
    \<Rightarrow> ExtensionInvocationResult er_outcome" where
  "blockedInvocation input i explanations s =
     return (invocation_result InvocationBlocked input i explanations) (installation_event EvInvocationBlocked i (xv_authorization input) s)"

text \<open>The reasons to block an invocation before the policy is asked, in the order of the code.\<close>

definition invocation_blocked :: "InvokeExtensionInput \<Rightarrow> ExtensionInstallation \<Rightarrow> ExtensionManifest \<Rightarrow> bool" where
  "invocation_blocked input i m \<longleftrightarrow> \<not> scopeContains (ei_scope i) (xv_resource input) \<or> ei_lifecycle i \<noteq> ExtEnabled
     \<or> SecretValueRead \<in> set (xv_requestedCapabilities input)
     \<or> list_ex (\<lambda>e. e \<notin> set (ei_grantedEffects i) \<or> e \<notin> set (em_requestedEffects m)) (xv_requestedEffects input)
     \<or> list_ex (\<lambda>c. capability_text c \<notin> set (ei_grantedCapabilities i) \<or> capability_text c \<notin> set (em_requestedCapabilities m)) (xv_requestedCapabilities input)"

definition invoke_operation :: "InvokeExtensionInput \<Rightarrow> Capability \<Rightarrow> string" where
  "invoke_operation input c = nullish (xv_operation input) (''extension.invoke.'' @ capability_text c)"

text \<open>The loop over the requested capabilities: the explanations so far, as an error when a decision does not allow.\<close>

fun authorize_invocation :: "int \<Rightarrow> InvokeExtensionInput \<Rightarrow> Capability list \<Rightarrow> PolicyExplanation list \<Rightarrow> ExtensionRegistry
    \<Rightarrow> (ExtensionRegistry, PolicyExplanation list, PolicyExplanation list) outcome" where
  "authorize_invocation now input [] explanations s = return explanations s"
| "authorize_invocation now input (c # cs) explanations s =
     (case authorizeExtension now (xv_authorization input) (invoke_operation input c) c (xv_resource input)
             (matching_effect (xv_requestedEffects input) c) s of
        (Inr explanation, s') \<Rightarrow> authorize_invocation now input cs (explanations @ [explanation]) s'
      | (Inl (ExtensionError code affected (Some explanation)), s') \<Rightarrow> raise (explanations @ [explanation]) s'
      | (Inl _, s') \<Rightarrow> raise explanations s')"

definition invokeExtension :: "int \<Rightarrow> InvokeExtensionInput \<Rightarrow> ExtensionRegistry \<Rightarrow> ExtensionInvocationResult er_outcome" where
  "invokeExtension now input s =
     (case sum_then (installed s (xv_installationId input)) (\<lambda>(i, m).
           sum_then (checked (or_else (values_error (xv_requestedEffects input) ''requestedEffects'')
             (values_error (map capability_text (xv_requestedCapabilities input)) ''requestedCapabilities''))) (\<lambda>_. Inr (i, m))) of
        Inl e \<Rightarrow> raise e s
      | Inr (i, m) \<Rightarrow>
          if invocation_blocked input i m then blockedInvocation input i [] s
          else (case authorize_invocation now input (xv_requestedCapabilities input) [] s of
              (Inl explanations, s) \<Rightarrow> blockedInvocation input i explanations s
            | (Inr explanations, s) \<Rightarrow>
                let proposal = list_ex (\<lambda>c. c \<in> set KERNEL_AUTHORITY_CAPABILITIES) (xv_requestedCapabilities input)
                in return (invocation_result (if proposal then InvocationProposal else InvocationAllowed) input i explanations)
                     (installation_event (if proposal then EvInvocationProposed else EvInvoked) i (xv_authorization input) s)))"

section \<open>The registry and its Realm as a machine\<close>

text \<open>The Realm has other callers: their calls are operations of the machine too.\<close>

datatype er_op =
    RegisterManifest RegisterExtensionInput
  | InstallExtension int "nat \<Rightarrow> string" InstallExtensionInput
  | ReplaceExtension int "nat \<Rightarrow> string" ReplaceExtensionInput
  | MigrateProvider int "nat \<Rightarrow> string" ReplaceExtensionInput
  | DeprecateExtension int ExtensionTransitionInput
  | SuspendExtension int ExtensionTransitionInput
  | RevokeExtension int ExtensionTransitionInput
  | InvokeExtension int InvokeExtensionInput
  | RealmCall realm_op

fun er_step :: "(string \<Rightarrow> string) \<Rightarrow> er_op \<Rightarrow> ExtensionRegistry \<Rightarrow> unit er_outcome" where
  "er_step d (RegisterManifest input) s = void (registerManifest input s)"
| "er_step d (InstallExtension now u input) s = void (install now u input s)"
| "er_step d (ReplaceExtension now u input) s = void (replaceExtension now u input s)"
| "er_step d (MigrateProvider now u input) s = void (migrateProvider now u input s)"
| "er_step d (DeprecateExtension now input) s = void (deprecateExtension now input s)"
| "er_step d (SuspendExtension now input) s = void (suspendExtension now input s)"
| "er_step d (RevokeExtension now input) s = void (revokeExtension now input s)"
| "er_step d (InvokeExtension now input) s = void (invokeExtension now input s)"
| "er_step d (RealmCall x) s = in_realm (realm_step d x (er_realm s)) s"

text \<open>Random ids are not in use yet.\<close>

fun er_ok :: "ExtensionRegistry \<Rightarrow> er_op \<Rightarrow> bool" where
  "er_ok s (InstallExtension now u input) = (\<not> has_key (er_installations s) (opaqueId ''extension-installation'' (u 0)))"
| "er_ok s (ReplaceExtension now u input) = (\<not> has_key (er_installations s) (opaqueId ''extension-installation'' (u 0)))"
| "er_ok s (MigrateProvider now u input) = (\<not> has_key (er_installations s) (opaqueId ''extension-installation'' (u 0)))"
| "er_ok s (RealmCall x) = realm_ok (er_realm s) x"
| "er_ok s x = True"

end
