(* ===== verification/Realm_Authority.thy ===== *)
theory Realm_Authority
  imports Realm_Invariant
begin

text \<open>
  What the Realm policy promises: which decisions allow, that no agent ever holds a prohibited
  capability, that derived Grants stay within the Grants they come from, that closed authority stays
  closed, what a revocation closes, and that a new policy and a recovery leave no live authority. At the
  end, where the code does not keep a promise of its comments.
\<close>

section \<open>The decisions that allow\<close>

definition passes :: "verdict \<Rightarrow> bool" where
  "passes v \<longleftrightarrow> \<not> vd_denied v \<and> \<not> vd_unknown v"

lemma passes_verdicts [simp]:
  "passes (satisfied n)" "\<not> passes (denied n)" "\<not> passes (missing n)" "\<not> passes (undecided n)" "passes no_verdict"
  "\<not> passes (verdict_of n st True u)" "passes (v\<lparr>vd_satisfied := xs\<rparr>) = passes v" "passes (v\<lparr>vd_missing := xs\<rparr>) = passes v"
  by (auto simp: passes_def satisfied_def denied_def missing_def undecided_def no_verdict_def verdict_of_def)

lemma passes_join [simp]: "passes (join_verdicts vs) = list_all passes vs"
  by (auto simp: passes_def join_verdicts_def list_ex_iff list_all_iff)

lemma principal_check_passes:
  "passes (principal_check input s) \<longleftrightarrow> (\<exists>prin. get_key (rs_principals s) (pei_principalId input) = Some prin
     \<and> prin_realmId prin = realmId s \<and> prin_status prin = PrincipalActive)"
  by (auto simp: principal_check_def split: option.splits)

lemma actor_check_passes:
  "passes (actor_check input s) \<longleftrightarrow> (\<exists>actor. get_key (rs_actors s) (pei_actorId input) = Some actor \<and> ra_status actor = AgentActive
     \<and> actor_principalId actor = pei_principalId input \<and> ra_realmId actor = realmId s
     \<and> (ra_kind actor = ActorAgent \<longrightarrow> truthy (ra_agentId actor)
          \<and> map_option ag_status (get_key (rs_agents s) (the (ra_agentId actor))) = Some AgentActive))"
  by (auto simp: actor_check_def split: option.splits)

lemma client_checks_pass:
  "passes (client_check input c s) \<and> passes (audience_check input s) \<longleftrightarrow> (\<exists>client. get_key (rs_clients s) (pei_clientId input) = Some client
     \<and> cl_status client = EntryActive \<and> cl_realmId client = realmId s
     \<and> (cl_allowedOperations client = [] \<or> pei_operation input \<in> set (cl_allowedOperations client) \<or> capability_text c \<in> set (cl_allowedOperations client))
     \<and> (case pei_requiredCredentialClass input of None \<Rightarrow> True | Some cls \<Rightarrow> cls \<in> set (cl_allowedAudiences client)))"
  by (auto simp: client_check_def audience_check_def split: option.splits if_splits)

lemma session_check_passes:
  "passes (session_check now input s) \<longleftrightarrow> (\<exists>session. get_key (rs_sessions s) (pei_sessionId input) = Some session \<and> session_matches input session
     \<and> sessionChainIsActive now s [] (pei_sessionId input)
     \<and> (pei_requiredAuthStrength input = Some StrengthPasskey \<longrightarrow> ses_strength session = StrengthPasskey))"
  by (auto simp: session_check_def split: option.splits)

lemma role_checks_pass:
  "passes (role_check input c s) \<and> passes (relationship_deny_check input c s)
     \<longleftrightarrow> role_allows (bindings_for (pei_principalId input) (pei_resource input) s) c
       \<and> \<not> relationship_denies (bindings_for (pei_principalId input) (pei_resource input) s) c"
  by (auto simp: role_check_def relationship_deny_check_def)

lemma source_checks_pass:
  "\<not> hidden input s \<Longrightarrow> passes (source_check input c s) \<and> passes (source_deny_check input c s) \<and> passes (model_check input s)
     \<longleftrightarrow> (case source_policy (requestedSourceSpaceId input) s of
          None \<Rightarrow> \<not> source_policy_required input c \<or> pei_protected input = Some False
        | Some policy \<Rightarrow> sp_policyVersion policy = realm_policyVersion (rs_realm s)
            \<and> (sp_readerPrincipalIds policy = [] \<or> pei_principalId input \<in> set (sp_readerPrincipalIds policy))
            \<and> c \<in> set (sp_allowedCapabilities policy) \<and> c \<notin> set (sp_deniedCapabilities policy)
            \<and> (\<not> truthy (pei_modelProvider input) \<or> sp_allowedModelProviders policy = [] \<or> the (pei_modelProvider input) \<in> set (sp_allowedModelProviders policy)))"
  by (auto simp: source_check_def source_deny_check_def model_check_def split: option.splits if_splits)

lemma grant_scope_check_passes:
  "passes (grant_scope_check input c grant) \<longleftrightarrow> resourceMatches (gr_resource grant) (pei_resource input)
     \<and> c \<in> set (gr_actions grant) \<and> c \<notin> set (gr_deniedActions grant)
     \<and> (\<not> truthy (requestedSourceSpaceId input) \<or> the (requestedSourceSpaceId input) \<in> set (gr_sourceSpaceIds grant))
     \<and> (\<not> truthy (pei_effect input) \<or> the (pei_effect input) \<in> set (gr_effects grant))
     \<and> (\<not> truthy (pei_modelProvider input) \<or> gr_allowedModelProviders grant = [] \<or> the (pei_modelProvider input) \<in> set (gr_allowedModelProviders grant))
     \<and> (case pei_requiredCredentialClass input of None \<Rightarrow> True | Some cls \<Rightarrow> cls \<in> set (gr_allowedCredentialClasses grant))"
  by (auto simp: grant_scope_check_def split: option.splits)

lemma grant_check_passes:
  "passes (grant_check now input c s) \<longleftrightarrow> (\<exists>grantId taskId grant task. pei_grantId input = Some grantId \<and> grantId \<noteq> [] \<and> pei_taskId input = Some taskId
     \<and> taskId \<noteq> [] \<and> get_key (rs_grants s) grantId = Some grant \<and> get_key (rs_tasks s) taskId = Some task \<and> grant_matches input grant
     \<and> grantChainIsActive now s [] grantId \<and> passes (grant_scope_check input c grant))"
  by (auto simp: grant_check_def truthy_iff split: option.splits)

lemma grant_check_full:
  "passes (grant_check now input c s) \<longleftrightarrow> (\<exists>grantId taskId grant task. pei_grantId input = Some grantId \<and> grantId \<noteq> [] \<and> pei_taskId input = Some taskId \<and> taskId \<noteq> []
        \<and> get_key (rs_grants s) grantId = Some grant \<and> get_key (rs_tasks s) taskId = Some task \<and> gr_taskId grant = taskId
        \<and> gr_sessionId grant = pei_sessionId input \<and> gr_principalId grant = pei_principalId input \<and> gr_actorId grant = pei_actorId input
        \<and> gr_clientId grant = pei_clientId input \<and> grantChainIsActive now s [] grantId
        \<and> resourceMatches (gr_resource grant) (pei_resource input) \<and> c \<in> set (gr_actions grant) \<and> c \<notin> set (gr_deniedActions grant)
        \<and> (\<not> truthy (requestedSourceSpaceId input) \<or> the (requestedSourceSpaceId input) \<in> set (gr_sourceSpaceIds grant))
        \<and> (\<not> truthy (pei_effect input) \<or> the (pei_effect input) \<in> set (gr_effects grant))
        \<and> (\<not> truthy (pei_modelProvider input) \<or> gr_allowedModelProviders grant = [] \<or> the (pei_modelProvider input) \<in> set (gr_allowedModelProviders grant))
        \<and> (case pei_requiredCredentialClass input of None \<Rightarrow> True | Some cls \<Rightarrow> cls \<in> set (gr_allowedCredentialClasses grant)))"
  unfolding grant_check_passes grant_scope_check_passes grant_matches_def by fastforce

lemma approval_check_passes:
  "passes (approval_check input) \<longleftrightarrow> (case pei_approval input of None \<Rightarrow> True | Some a \<Rightarrow> ap_required a = Some True
     \<longrightarrow> ap_approved a = Some True \<and> (truthy (ap_approverActorId a) \<longrightarrow> ap_approverActorId a \<noteq> ap_authorActorId a \<and> ap_approverActorId a \<noteq> ap_verifierActorId a))"
  by (auto simp: approval_check_def split: option.splits)

lemma promotion_check_passes:
  "passes (promotion_check input) \<longleftrightarrow> (pei_authorityClass input = Some AuthorityPromotion \<longrightarrow> truthy (pei_promotionId input))"
  by (auto simp: promotion_check_def)

lemma collect_passes:
  "passes (collect_verdict now input c s) \<longleftrightarrow> passes (principal_check input s) \<and> passes (actor_check input s)
     \<and> (passes (client_check input c s) \<and> passes (audience_check input s)) \<and> passes (session_check now input s)
     \<and> (passes (role_check input c s) \<and> passes (relationship_deny_check input c s))
     \<and> (passes (source_check input c s) \<and> passes (source_deny_check input c s) \<and> passes (model_check input s))
     \<and> passes (grant_check now input c s) \<and> passes (approval_check input) \<and> passes (promotion_check input)"
  by (auto simp: collect_verdict_def)

lemma evaluate_allowed:
  assumes "capabilityForOperation (pei_operation input) (pei_capability input) = Inr c"
  shows "(\<exists>e t. evaluate now input s = (Inr (True, e), t)) \<longleftrightarrow> \<not> hidden input s \<and> passes (collect_verdict now input c s)"
  using assms
  by (auto simp: evaluate_def evaluateDecision_def Let_def return_def explain_def decision_kind_def passes_def)

lemma evaluate_allowedD:
  assumes "evaluate now input s = (Inr (True, e), t)"
  shows "\<exists>c. capabilityForOperation (pei_operation input) (pei_capability input) = Inr c \<and> \<not> hidden input s \<and> passes (collect_verdict now input c s)"
proof (cases "capabilityForOperation (pei_operation input) (pei_capability input)")
  case (Inl e)
  with assms show ?thesis by (simp add: evaluate_def evaluateDecision_def)
next
  case (Inr c)
  with evaluate_allowed [OF Inr] assms show ?thesis by blast
qed

section \<open>Closed authority stays closed\<close>

lemma expired_mono: "expired t n \<Longrightarrow> n \<le> n' \<Longrightarrow> expired t n'"
  by (auto simp: expired_def split: option.splits)

lemma session_live_back:
  assumes "session_live n' t y" "same_session x y" "authority_before s t" "n \<le> n'" "ses_authorizationEpoch x \<le> epoch s"
  shows "session_live n s x"
  using assms by (auto simp: session_live_def same_session_def authority_before_def dest: expired_mono)

lemma actor_active_back:
  assumes inv: "realm_inv s" and before: "authority_before s t" and same: "same_session x y"
    and found: "has_key (rs_actors s) (ses_actorId x)" and active: "actor_active t y"
  shows "actor_active s x"
proof -
  obtain a where a: "get_key (rs_actors s) (ses_actorId x) = Some a" using found by (auto simp: has_key_def)
  then obtain b where b: "get_key (rs_actors t) (ses_actorId x) = Some b" "same_actor a b" using before_actor [OF before] by blast
  have active': "ra_status a = AgentActive" "ra_realmId a = realmId s" "actor_principalId a = ses_principalId x" "actor_sessionId a = ses_id x"
    using active b same before by (auto simp: actor_active_def same_session_def same_actor_def authority_before_def)
  have agent: "ra_kind a \<noteq> ActorAgent \<or> truthy (ra_agentId a) \<and> map_option ag_status (get_key (rs_agents s) (the (ra_agentId a))) = Some AgentActive"
  proof (cases "ra_kind a = ActorAgent")
    case True
    with active b same have tr: "truthy (ra_agentId a)" and st: "map_option ag_status (get_key (rs_agents t) (the (ra_agentId a))) = Some AgentActive"
      by (auto simp: actor_active_def same_session_def same_actor_def)
    from inv_actor [OF inv a] tr obtain g where g: "get_key (rs_agents s) (the (ra_agentId a)) = Some g" by (auto simp: actor_ok_def has_key_def)
    with before_agent [OF before g] st have "ag_status g = AgentActive" by (auto simp: same_agent_def)
    with g tr show ?thesis by simp
  qed simp
  show ?thesis using a active' agent by (simp add: actor_active_def)
qed

lemma sessionChain_back:
  assumes inv: "realm_inv s" and before: "authority_before s t" and le: "n \<le> n'"
  shows "sessionChainIsActive n' t seen i \<Longrightarrow> has_key (rs_sessions s) i \<Longrightarrow> sessionChainIsActive n s seen i"
  using before le
proof (induction n' t seen i rule: sessionChainIsActive.induct)
  case (1 n' t seen i)
  obtain x where x: "get_key (rs_sessions s) i = Some x" using "1.prems"(2) by (auto simp: has_key_def)
  then obtain y where y: "get_key (rs_sessions t) i = Some y" "same_session x y" using before_session [OF "1.prems"(3)] by blast
  from "1.prems"(1) y have active: "ses_id y \<notin> set seen" "session_live n' t y" "actor_active t y"
    and up: "case keep_truthy (ses_delegatedBySessionId y) of None \<Rightarrow> True | Some p \<Rightarrow> sessionChainIsActive n' t (ses_id y # seen) p"
    by (subst (asm) sessionChainIsActive.simps, simp split: if_splits option.splits)+
  have ok: "session_ok s i x" by (rule inv_session [OF inv x])
  have live: "session_live n s x" "actor_active s x"
    using session_live_back [OF active(2) y(2) "1.prems"(3,4)] actor_active_back [OF inv "1.prems"(3) y(2) _ active(3)] ok
    by (auto simp: session_ok_def)
  have "case keep_truthy (ses_delegatedBySessionId x) of None \<Rightarrow> True | Some p \<Rightarrow> sessionChainIsActive n s (ses_id x # seen) p"
  proof (cases "keep_truthy (ses_delegatedBySessionId x)")
    case (Some p)
    then have p: "keep_truthy (ses_delegatedBySessionId y) = Some p" "ses_id y = ses_id x" using y(2) by (auto simp: same_session_def)
    have "has_key (rs_sessions s) p" using ok Some by (simp add: session_ok_def)
    with "1.IH" [OF y(1) _ _ p(1)] active up p "1.prems"(3,4) Some show ?thesis by simp
  qed simp
  with live x active(1) y(2) show ?case
    by (subst sessionChainIsActive.simps) (auto simp: same_session_def split: option.splits)
qed

lemma grantChain_back:
  assumes inv: "realm_inv s" and before: "authority_before s t" and le: "n \<le> n'"
  shows "grantChainIsActive n' t seen i \<Longrightarrow> has_key (rs_grants s) i \<Longrightarrow> grantChainIsActive n s seen i"
  using before le
proof (induction n' t seen i rule: grantChainIsActive.induct)
  case (1 n' t seen i)
  obtain g where g: "get_key (rs_grants s) i = Some g" using "1.prems"(2) by (auto simp: has_key_def)
  then obtain h where h: "get_key (rs_grants t) i = Some h" "same_grant g h" using before_grant [OF "1.prems"(3)] by blast
  from "1.prems"(1) h have active: "gr_id h \<notin> set seen" "grant_live n' t h"
    and up: "case keep_truthy (gr_parentGrantId h) of None \<Rightarrow> True | Some p \<Rightarrow> grantChainIsActive n' t (gr_id h # seen) p"
    by (subst (asm) grantChainIsActive.simps, simp split: if_splits option.splits)+
  have live: "grant_live n s g"
    using active(2) h(2) inv_grant [OF inv g] "1.prems"(3,4)
    by (auto simp: grant_live_def same_grant_def grant_ok_def authority_before_def dest: expired_mono)
  have "case keep_truthy (gr_parentGrantId g) of None \<Rightarrow> True | Some p \<Rightarrow> grantChainIsActive n s (gr_id g # seen) p"
  proof (cases "keep_truthy (gr_parentGrantId g)")
    case (Some p)
    then have p: "keep_truthy (gr_parentGrantId h) = Some p" "gr_id h = gr_id g" using h(2) by (auto simp: same_grant_def)
    have "has_key (rs_grants s) p" using inv_grant [OF inv g] Some by (auto simp: grant_ok_def has_key_def split: option.splits)
    with "1.IH" [OF h(1) active(1) _ p(1)] active(2) up p "1.prems"(3,4) Some show ?thesis by simp
  qed simp
  with live g active(1) h(2) show ?case
    by (subst grantChainIsActive.simps) (auto simp: same_grant_def split: option.splits)
qed

section \<open>A Realm for the examples\<close>

text \<open>
  Alice owns a Realm with one Source Space. She signs in with a passkey, takes a Task and a Grant,
  enrols an agent, delegates a narrower Grant to it, and gets a credential.
\<close>

definition demo_options :: RealmIdentityPolicyOptions where
  "demo_options = \<lparr>rpo_realmId = Some ''r'', rpo_name = None, rpo_relyingPartyId = None, rpo_policyVersion = Some ''v1'',
     rpo_sessionLifetimeMs = Some 1000, rpo_credentialLifetimeMs = Some 100\<rparr>"

definition demo_new :: RealmState where
  "demo_new = (case new_realm ''u'' demo_options of Inl _ \<Rightarrow> undefined | Inr s \<Rightarrow> s)"

definition demo_ids :: "string \<Rightarrow> RealmIds" where
  "demo_ids u = \<lparr>fresh_session = u, fresh_actor = u, fresh_task = u, fresh_grant = u\<rparr>"

definition demo_human_grant :: CreateTaskGrantInput where
  "demo_human_grant = \<lparr>cgi_principalId = ''alice'', cgi_actorId = opaqueId ''actor'' ''1'', cgi_clientId = ''client:anyam-web'',
     cgi_sessionId = opaqueId ''session'' ''1'', cgi_taskId = opaqueId ''task'' ''1'', cgi_resource = whole_realm ''r'', cgi_sourceSpaceIds = [''src''],
     cgi_actions = [SourceRead, AgentDelegate, PolicyManage], cgi_effects = None, cgi_allowedModelProviders = None, cgi_allowedCredentialClasses = None,
     cgi_deniedActions = None, cgi_budget = None, cgi_expiresAt = None, cgi_parentGrantId = None, cgi_agentId = None,
     cgi_delegatedByActorId = None, cgi_delegatedBySessionId = None\<rparr>"

definition demo_delegation :: AgentDelegationInput where
  "demo_delegation = \<lparr>adi_humanSessionId = opaqueId ''session'' ''1'', adi_parentGrantId = opaqueId ''grant'' ''1'', adi_agentId = ''bot'',
     adi_purpose = ''fix'', adi_resource = whole_realm ''r'', adi_sourceSpaceIds = [''src''], adi_actions = [SourceRead], adi_effects = None,
     adi_allowedCredentialClasses = None, adi_budget = None, adi_expiresAt = None, adi_workspaceId = None, adi_changeId = None\<rparr>"

definition demo_setup :: "realm_op list" where
  "demo_setup = [OpCreatePrincipal ''u'' (Some ''alice'') ''Alice'',
     OpRegisterPasskey \<lparr>rpi_principalId = ''alice'', rpi_credentialId = ''pk'', rpi_relyingPartyId = None, rpi_signCount = None\<rparr>,
     OpAuthenticatePasskey 0 (demo_ids ''1'') \<lparr>pa_credentialId = ''pk'', pa_relyingPartyId = None, pa_challenge = ''c'', pa_verified = True,
       pa_signCount = None, pa_clientId = None\<rparr>,
     OpAddRelationship ''1'' \<lparr>ari_principalId = ''alice'', ari_kind = OrganizationMember, ari_subjectId = ''org'', ari_role = RoleOwner,
       ari_resource = None, ari_deniedCapabilities = None\<rparr>,
     OpSetSourceSpacePolicy ''1'' \<lparr>ssi_sourceSpaceId = ''src'', ssi_classification = SpaceRestricted, ssi_allowedCapabilities = [SourceRead],
       ssi_deniedCapabilities = None, ssi_readerPrincipalIds = None, ssi_allowedModelProviders = None, ssi_discoverable = None\<rparr>,
     OpCreateTask 0 (demo_ids ''1'') \<lparr>cti_principalId = ''alice'', cti_actorId = opaqueId ''actor'' ''1'', cti_sessionId = opaqueId ''session'' ''1'',
       cti_purpose = ''work'', cti_workspaceId = None, cti_changeId = None, cti_modelProvider = None\<rparr>,
     OpCreateCapabilityGrant 0 (demo_ids ''1'') demo_human_grant,
     OpRegisterAgent ''u'' \<lparr>rai_principalId = ''alice'', rai_name = ''Bot'', rai_runtime = ''rt'', rai_modelProvider = ''m'', rai_id = Some ''bot'',
       rai_clientId = None, rai_allowedCredentialClasses = None\<rparr>,
     OpDelegateAgent 0 (demo_ids ''2'') demo_delegation,
     OpIssueCredential 0 ''1'' ''tok'' \<lparr>ici_class = ClassMcp, ici_principalId = ''alice'', ici_actorId = opaqueId ''actor'' ''1'',
       ici_clientId = ''client:anyam-web'', ici_sessionId = opaqueId ''session'' ''1'', ici_taskId = opaqueId ''task'' ''1'',
       ici_grantId = opaqueId ''grant'' ''1'', ici_resource = whole_realm ''r''\<rparr>]"

definition demo_realm :: RealmState where
  "demo_realm = run_ops (realm_step id) demo_setup demo_new"

definition demo_request :: "string \<Rightarrow> string \<Rightarrow> string \<Rightarrow> Capability \<Rightarrow> PolicyEvaluationInput" where
  "demo_request i client operation c = \<lparr>pei_operation = operation, pei_capability = Some c, pei_principalId = ''alice'',
     pei_actorId = opaqueId ''actor'' i, pei_clientId = client, pei_sessionId = opaqueId ''session'' i, pei_taskId = Some (opaqueId ''task'' i),
     pei_grantId = Some (opaqueId ''grant'' i), pei_resource = whole_realm ''r'', pei_sourceSpaceId = (if c = SourceRead then Some ''src'' else None),
     pei_effect = None, pei_modelProvider = None, pei_requiredCredentialClass = None, pei_requiredAuthStrength = None, pei_authorityClass = None,
     pei_promotionId = None, pei_approval = None, pei_discoverable = None, pei_protected = None\<rparr>"

lemma demo_new_ok: "new_realm ''u'' demo_options = Inr demo_new"
  by (simp add: demo_new_def demo_options_def new_realm_def Let_def empty_realm_def registerClient_def default_client_def
      return_def raise_def get_key_def set_key_def)

lemma demo_admissible: "admissible realm_ok (realm_step id) demo_setup demo_new"
  by code_simp

lemma demo_reachable: "realm_reachable id demo_realm"
  unfolding realm_reachable_def demo_realm_def using demo_new_ok demo_admissible by blast

lemma demo_allowed_runs:
  "case evaluate 1 (demo_request ''1'' ''client:anyam-web'' ''policy'' PolicyManage) demo_realm of (Inr (b, e), t) \<Rightarrow> b | _ \<Rightarrow> False"
  "case evaluate 1 (demo_request ''2'' ''client:bot'' ''agent.task'' SourceRead) demo_realm of (Inr (b, e), t) \<Rightarrow> b | _ \<Rightarrow> False"
  by code_simp+

lemma demo_allows:
  "\<exists>e t. evaluate 1 (demo_request ''1'' ''client:anyam-web'' ''policy'' PolicyManage) demo_realm = (Inr (True, e), t)"
  "\<exists>e t. evaluate 1 (demo_request ''2'' ''client:bot'' ''agent.task'' SourceRead) demo_realm = (Inr (True, e), t)"
  using demo_allowed_runs by (auto split: prod.splits sum.splits)

text \<open>Alice's Session is revoked; then she signs in again and activates another policy.\<close>

definition demo_revoked :: RealmState where
  "demo_revoked = run_ops (realm_step id) [OpRevokeSession (opaqueId ''session'' ''1'')] demo_realm"

definition demo_later :: "realm_op list" where
  "demo_later = [OpAuthenticatePasskey 6 (demo_ids ''3'') \<lparr>pa_credentialId = ''pk'', pa_relyingPartyId = None, pa_challenge = ''c'', pa_verified = True,
       pa_signCount = None, pa_clientId = None\<rparr>, OpActivatePolicy ''v2'']"

lemma realm_reachable_run:
  assumes "realm_reachable d s" "admissible realm_ok (realm_step d) xs s"
  shows "realm_reachable d (run_ops (realm_step d) xs s)"
proof -
  obtain uuid options s0 ys where "new_realm uuid options = Inr s0" "admissible realm_ok (realm_step d) ys s0" "s = run_ops (realm_step d) ys s0"
    using assms(1) by (auto simp: realm_reachable_def)
  with assms(2) show ?thesis
    unfolding realm_reachable_def by (intro exI [of _ uuid] exI [of _ options] exI [of _ s0] exI [of _ "ys @ xs"]) simp
qed

lemma demo_revoked_reachable: "realm_reachable id demo_revoked"
  unfolding demo_revoked_def by (rule realm_reachable_run [OF demo_reachable]) simp

section \<open>Ancestors of a Grant\<close>

inductive grant_ancestor :: "RealmState \<Rightarrow> string \<Rightarrow> string \<Rightarrow> bool" for s where
  ancestor_self: "has_key (rs_grants s) i \<Longrightarrow> grant_ancestor s i i"
| ancestor_up: "get_key (rs_grants s) i = Some g \<Longrightarrow> keep_truthy (gr_parentGrantId g) = Some j \<Longrightarrow> grant_ancestor s k j \<Longrightarrow> grant_ancestor s k i"

lemma within_parent_refl: "within_parent g g"
  by (simp add: within_parent_def)

lemma within_parent_trans: "within_parent p q \<Longrightarrow> within_parent q g \<Longrightarrow> within_parent p g"
  by (auto simp: within_parent_def)

lemma ancestor_within:
  assumes "realm_inv s"
  shows "grant_ancestor s k i \<Longrightarrow> \<exists>p g. get_key (rs_grants s) k = Some p \<and> get_key (rs_grants s) i = Some g \<and> within_parent p g"
proof (induction rule: grant_ancestor.induct)
  case (ancestor_self i)
  then show ?case using within_parent_refl by (auto simp: has_key_def)
next
  case (ancestor_up i g j k)
  then obtain p q where "get_key (rs_grants s) k = Some p" "get_key (rs_grants s) j = Some q" "within_parent p q" by blast
  moreover have "within_parent q g"
    using inv_grant [OF assms ancestor_up(1)] ancestor_up(2) calculation(2) by (simp add: grant_ok_def)
  ultimately show ?case using ancestor_up(1) within_parent_trans by blast
qed

lemma ancestor_live:
  "grant_ancestor s k i \<Longrightarrow> grantChainIsActive now s seen i \<Longrightarrow> \<exists>p. get_key (rs_grants s) k = Some p \<and> grant_live now s p"
proof (induction arbitrary: seen rule: grant_ancestor.induct)
  case (ancestor_self i)
  then show ?case using grantChain_found by blast
next
  case (ancestor_up i g j k)
  then have "grantChainIsActive now s (gr_id g # seen) j"
    by (subst (asm) grantChainIsActive.simps) (simp split: if_splits)
  with ancestor_up.IH show ?case by blast
qed

section \<open>What a revocation closes\<close>

inductive delegated_from :: "RealmState \<Rightarrow> string \<Rightarrow> string \<Rightarrow> bool" for s origin where
  delegated_origin: "delegated_from s origin origin"
| delegated_step: "get_key (rs_sessions s) i = Some x \<Longrightarrow> keep_truthy (ses_delegatedBySessionId x) = Some j \<Longrightarrow> delegated_from s origin j
    \<Longrightarrow> delegated_from s origin i"

lemma session_pass_sound:
  assumes "\<And>x. x \<in> set xs \<Longrightarrow> get_key (rs_sessions s) (ses_id x) = Some x" "\<And>i. i \<in> set ids \<Longrightarrow> delegated_from s origin i"
  shows "i \<in> set (session_pass ids xs) \<Longrightarrow> delegated_from s origin i"
  using assms
proof (induction ids xs rule: session_pass.induct)
  case (2 ids x xs)
  show ?case
  proof (cases "truthy (ses_delegatedBySessionId x) \<and> the (ses_delegatedBySessionId x) \<in> set ids \<and> ses_id x \<notin> set ids")
    case True
    then obtain j where j: "keep_truthy (ses_delegatedBySessionId x) = Some j" "j \<in> set ids"
      by (auto simp: keep_truthy_def truthy_iff)
    then have "delegated_from s origin (ses_id x)"
      using "2.prems"(2) [of x] "2.prems"(3) [of j] by (auto intro: delegated_step)
    with True "2.IH"(1) "2.prems" show ?thesis by auto
  qed (use "2.IH"(2) "2.prems" in auto)
qed simp

lemma session_pass_stable:
  "session_pass ids xs = ids \<Longrightarrow> x \<in> set xs \<Longrightarrow> keep_truthy (ses_delegatedBySessionId x) = Some j \<Longrightarrow> j \<in> set ids \<Longrightarrow> ses_id x \<in> set ids"
proof (induction ids xs rule: session_pass.induct)
  case (2 ids y xs)
  show ?case
  proof (cases "truthy (ses_delegatedBySessionId y) \<and> the (ses_delegatedBySessionId y) \<in> set ids \<and> ses_id y \<notin> set ids")
    case True
    obtain new where "session_pass (ids @ [ses_id y]) xs = (ids @ [ses_id y]) @ new" using session_pass_prefix by blast
    with True "2.prems"(1) show ?thesis by simp
  next
    case False
    with 2 show ?thesis by (auto simp: keep_truthy_Some_iff)
  qed
qed simp

lemma session_loop_delegated:
  assumes inv: "realm_inv s"
  shows "i \<in> set (session_loop [origin] (rs_sessions s)) \<longleftrightarrow> delegated_from s origin i"
proof -
  have entries: "get_key (rs_sessions s) (ses_id x) = Some x" if x: "x \<in> set (map_values (rs_sessions s))" for x
  proof -
    have "\<exists>k. get_key (rs_sessions s) k = Some x"
      using x jsm.contents_lookup [OF inv_distinct(2) [OF inv], of x] by simp
    then obtain k where "get_key (rs_sessions s) k = Some x" by blast
    with inv_session [OF inv this] show ?thesis by (simp add: session_ok_def)
  qed
  have loop: "(\<forall>i\<in>set ids. delegated_from s origin i) \<Longrightarrow> origin \<in> set ids \<Longrightarrow> m = rs_sessions s \<Longrightarrow>
      (\<forall>i\<in>set (session_loop ids m). delegated_from s origin i) \<and> origin \<in> set (session_loop ids m)
        \<and> session_pass (session_loop ids m) (map_values m) = session_loop ids m" for ids m
  proof (induction ids m rule: session_loop.induct)
    case (1 ids m)
    let ?ids = "session_pass ids (map_values m)"
    have sound: "\<forall>i\<in>set ?ids. delegated_from s origin i"
      using session_pass_sound [of "map_values m" s ids origin] entries "1.prems" by auto
    have origin: "origin \<in> set ?ids"
      using session_pass_prefix [of ids "map_values m"] "1.prems"(2) by auto
    show ?case
    proof (cases "?ids = ids")
      case True
      then show ?thesis using sound origin by (simp add: session_loop.simps [of ids m])
    next
      case False
      then have "session_loop ids m = session_loop ?ids m" by (subst session_loop.simps) (simp add: Let_def)
      with "1.IH" [OF refl False sound origin "1.prems"(3)] show ?thesis by simp
    qed
  qed
  let ?ids = "session_loop [origin] (rs_sessions s)"
  have ids: "\<forall>i\<in>set ?ids. delegated_from s origin i" "origin \<in> set ?ids" "session_pass ?ids (map_values (rs_sessions s)) = ?ids"
    using loop [of "[origin]"] by (auto intro: delegated_origin)
  have "delegated_from s origin i \<Longrightarrow> i \<in> set ?ids"
  proof (induction rule: delegated_from.induct)
    case (delegated_step i x j)
    have "ses_id x \<in> set ?ids"
      using session_pass_stable [OF ids(3) get_key_mem [OF delegated_step(1)] delegated_step(2) delegated_step.IH] .
    with inv_session [OF inv delegated_step(1)] show ?case by (simp add: session_ok_def)
  qed (rule ids(2))
  with ids(1) show ?thesis by blast
qed

lemma grant_pass_idle:
  "grant_pass hit revoked m = (r, m', False) \<Longrightarrow> (k, g) \<in> set m \<Longrightarrow> gr_status g = GrantActive \<Longrightarrow> \<not> hit g revoked"
  by (induction hit revoked m arbitrary: r m' rule: grant_pass.induct) (auto split: prod.splits if_splits)

lemma grant_loop_closed:
  "grant_loop hit revoked m = (r, m') \<Longrightarrow> get_key m' k = Some g \<Longrightarrow> gr_status g = GrantActive \<Longrightarrow> \<not> hit g r"
proof (induction hit revoked m arbitrary: r m' rule: grant_loop.induct)
  case (1 hit revoked m)
  obtain r1 m1 b1 where p: "grant_pass hit revoked m = (r1, m1, b1)" by (cases "grant_pass hit revoked m") auto
  with "1.prems"(1) have loop: "if b1 then grant_loop hit r1 m1 = (r, m') else r1 = r \<and> m1 = m'"
    by (subst (asm) grant_loop.simps) (auto split: if_splits)
  show ?case
  proof (cases b1)
    case True
    with loop "1.IH" [OF p [symmetric] refl True] "1.prems" show ?thesis by simp
  next
    case False
    with p grant_pass_active [OF p] loop have "r = revoked" "m' = m" by auto
    moreover have "(k, g) \<in> set m'" using "1.prems"(2) by (auto simp: get_key_def dest: map_of_SomeD)
    ultimately show ?thesis using grant_pass_idle [of hit revoked m r1 m1] p False "1.prems"(3) by auto
  qed
qed

lemma fold_revoke_sessions:
  "get_key (rs_sessions (fold revoke_affected ids s)) i
     = (if i \<in> set ids then map_option (\<lambda>x. x\<lparr>ses_status := SessionRevoked\<rparr>) (get_key (rs_sessions s) i) else get_key (rs_sessions s) i)"
proof (induction ids arbitrary: s)
  case (Cons j ids)
  have "get_key (rs_sessions (revoke_affected j s)) i
     = (if i = j then map_option (\<lambda>x. x\<lparr>ses_status := SessionRevoked\<rparr>) (get_key (rs_sessions s) i) else get_key (rs_sessions s) i)"
    by (auto simp: revoke_affected_def split: option.splits)
  then show ?case by (auto simp: Cons.IH option.map_comp comp_def)
qed simp

lemma fold_revoke_grants [simp]: "rs_grants (fold revoke_affected ids s) = rs_grants s"
  by (induction ids arbitrary: s) (auto simp: revoke_affected_def split: option.splits)

lemma get_key_pointwise: "get_key (map (\<lambda>(k, v). (k, f v)) m) k = map_option f (get_key m k)"
  by (induction m) (auto simp: get_key_def)

lemma fold_revoke_tasks:
  "get_key (rs_tasks (fold revoke_affected ids s)) k = Some task \<Longrightarrow> tk_sessionId task \<in> set ids
     \<Longrightarrow> (\<And>i. i \<in> set ids \<Longrightarrow> has_key (rs_sessions s) i) \<Longrightarrow> tk_status task = TaskClosed"
proof (induction ids arbitrary: s rule: rev_induct)
  case (snoc i ids)
  let ?t = "fold revoke_affected ids s"
  have "has_key (rs_sessions ?t) i" using snoc.prems(3) [of i] by (auto simp: has_key_def fold_revoke_sessions)
  then obtain x where "get_key (rs_sessions ?t) i = Some x" by (auto simp: has_key_def)
  then have "rs_tasks (revoke_affected i ?t) = map (\<lambda>(k, task). (k, close_task i task)) (rs_tasks ?t)"
    by (simp add: revoke_affected_def [of i ?t])
  with snoc.prems(1) obtain old where old: "get_key (rs_tasks ?t) k = Some old" "task = close_task i old"
    by (auto simp: get_key_pointwise)
  show ?case
  proof (cases "tk_sessionId old = i")
    case True
    with old show ?thesis by (cases "tk_status old") (auto simp: close_task_def)
  next
    case False
    with old snoc.prems snoc.IH [of s] show ?thesis by (auto simp: close_task_def split: if_splits)
  qed
qed simp

section \<open>Properties\<close>

text \<open>
  C5. An evaluation allows exactly when the resource is not hidden, the Principal is active in this Realm,
  the Actor is active, of that Principal and, for an agent, of an active agent, the Client is active and
  consented to the operation and audience, the Session belongs to the three and its chain of delegations
  is live, with the required strength, a role gives the capability and no relationship denies it, the
  Source Space policy is of the active version and allows the capability, the reader and the model
  provider, a live Task Grant of the same chain covers the resource, the capability, the Source Space, the
  effect, the provider and the audience, and a required approval is there from a third Actor. Nothing else
  in the request or the state can make it allow.
\<close>

theorem evaluate_allows_iff:
  assumes "capabilityForOperation (pei_operation input) (pei_capability input) = Inr c"
  shows "(\<exists>e t. evaluate now input s = (Inr (True, e), t)) \<longleftrightarrow>
     \<not> hidden input s
   \<and> (\<exists>prin. get_key (rs_principals s) (pei_principalId input) = Some prin \<and> prin_realmId prin = realmId s \<and> prin_status prin = PrincipalActive)
   \<and> (\<exists>actor. get_key (rs_actors s) (pei_actorId input) = Some actor \<and> ra_status actor = AgentActive
        \<and> actor_principalId actor = pei_principalId input \<and> ra_realmId actor = realmId s
        \<and> (ra_kind actor = ActorAgent \<longrightarrow> truthy (ra_agentId actor)
             \<and> map_option ag_status (get_key (rs_agents s) (the (ra_agentId actor))) = Some AgentActive))
   \<and> (\<exists>client. get_key (rs_clients s) (pei_clientId input) = Some client \<and> cl_status client = EntryActive \<and> cl_realmId client = realmId s
        \<and> (cl_allowedOperations client = [] \<or> pei_operation input \<in> set (cl_allowedOperations client) \<or> capability_text c \<in> set (cl_allowedOperations client))
        \<and> (case pei_requiredCredentialClass input of None \<Rightarrow> True | Some cls \<Rightarrow> cls \<in> set (cl_allowedAudiences client)))
   \<and> (\<exists>session. get_key (rs_sessions s) (pei_sessionId input) = Some session \<and> ses_principalId session = pei_principalId input
        \<and> ses_actorId session = pei_actorId input \<and> ses_clientId session = pei_clientId input
        \<and> sessionChainIsActive now s [] (pei_sessionId input)
        \<and> (pei_requiredAuthStrength input = Some StrengthPasskey \<longrightarrow> ses_strength session = StrengthPasskey))
   \<and> role_allows (bindings_for (pei_principalId input) (pei_resource input) s) c
   \<and> \<not> relationship_denies (bindings_for (pei_principalId input) (pei_resource input) s) c
   \<and> (case source_policy (requestedSourceSpaceId input) s of
        None \<Rightarrow> \<not> source_policy_required input c \<or> pei_protected input = Some False
      | Some policy \<Rightarrow> sp_policyVersion policy = realm_policyVersion (rs_realm s)
          \<and> (sp_readerPrincipalIds policy = [] \<or> pei_principalId input \<in> set (sp_readerPrincipalIds policy))
          \<and> c \<in> set (sp_allowedCapabilities policy) \<and> c \<notin> set (sp_deniedCapabilities policy)
          \<and> (\<not> truthy (pei_modelProvider input) \<or> sp_allowedModelProviders policy = [] \<or> the (pei_modelProvider input) \<in> set (sp_allowedModelProviders policy)))
   \<and> (\<exists>grantId taskId grant task. pei_grantId input = Some grantId \<and> grantId \<noteq> [] \<and> pei_taskId input = Some taskId \<and> taskId \<noteq> []
        \<and> get_key (rs_grants s) grantId = Some grant \<and> get_key (rs_tasks s) taskId = Some task \<and> gr_taskId grant = taskId
        \<and> gr_sessionId grant = pei_sessionId input \<and> gr_principalId grant = pei_principalId input \<and> gr_actorId grant = pei_actorId input
        \<and> gr_clientId grant = pei_clientId input \<and> grantChainIsActive now s [] grantId
        \<and> resourceMatches (gr_resource grant) (pei_resource input) \<and> c \<in> set (gr_actions grant) \<and> c \<notin> set (gr_deniedActions grant)
        \<and> (\<not> truthy (requestedSourceSpaceId input) \<or> the (requestedSourceSpaceId input) \<in> set (gr_sourceSpaceIds grant))
        \<and> (\<not> truthy (pei_effect input) \<or> the (pei_effect input) \<in> set (gr_effects grant))
        \<and> (\<not> truthy (pei_modelProvider input) \<or> gr_allowedModelProviders grant = [] \<or> the (pei_modelProvider input) \<in> set (gr_allowedModelProviders grant))
        \<and> (case pei_requiredCredentialClass input of None \<Rightarrow> True | Some cls \<Rightarrow> cls \<in> set (gr_allowedCredentialClasses grant)))
   \<and> (case pei_approval input of None \<Rightarrow> True | Some a \<Rightarrow> ap_required a = Some True
        \<longrightarrow> ap_approved a = Some True \<and> (truthy (ap_approverActorId a) \<longrightarrow> ap_approverActorId a \<noteq> ap_authorActorId a \<and> ap_approverActorId a \<noteq> ap_verifierActorId a))
   \<and> (pei_authorityClass input = Some AuthorityPromotion \<longrightarrow> truthy (pei_promotionId input))"
proof (cases "hidden input s")
  case False
  show ?thesis
    unfolding evaluate_allowed [OF assms] collect_passes principal_check_passes actor_check_passes client_checks_pass session_check_passes
      role_checks_pass source_checks_pass [OF False] grant_check_full approval_check_passes promotion_check_passes session_matches_def conj_assoc
    using False by (simp only: not_False_eq_True simp_thms)
qed (simp add: evaluate_allowed [OF assms])

theorem evaluate_allows_iff_witness:
  "\<not> hidden (demo_request ''2'' ''client:bot'' ''agent.task'' SourceRead) demo_realm
     \<and> role_allows (bindings_for ''alice'' (whole_realm ''r'') demo_realm) SourceRead"
  using demo_allows(2) evaluate_allows_iff [of "demo_request ''2'' ''client:bot'' ''agent.task'' SourceRead" SourceRead 1 demo_realm]
  by (simp add: demo_request_def capabilityForOperation_def)

text \<open>
  C4. In every state a Realm reaches, an evaluation that allows \<open>policy.manage\<close>, \<open>identity.manage\<close> or
  \<open>target.promote\<close> is for an Actor that is not an agent, whatever was delegated, derived or registered on
  the way.
\<close>

theorem agents_never_hold_prohibited_authority:
  assumes "realm_reachable d s" "evaluate now input s = (Inr (True, e), t)"
    and "capabilityForOperation (pei_operation input) (pei_capability input) = Inr c" "c \<in> set AGENT_PROHIBITED_CAPABILITIES"
  shows "\<exists>actor. get_key (rs_actors s) (pei_actorId input) = Some actor \<and> ra_kind actor \<noteq> ActorAgent"
proof -
  have inv: "realm_inv s" by (rule realm_reachable_inv [OF assms(1)])
  have pass: "passes (collect_verdict now input c s)" using evaluate_allowedD [OF assms(2)] assms(3) by auto
  then obtain i g where g: "get_key (rs_grants s) i = Some g" "gr_actorId g = pei_actorId input" "c \<in> set (gr_actions g)"
    by (auto simp: collect_passes grant_check_passes grant_scope_check_passes grant_matches_def)
  with inv_grant [OF inv g(1)] obtain a where "get_key (rs_actors s) (pei_actorId input) = Some a" "agent_grant_ok g a"
    by (auto simp: grant_ok_def split: option.splits)
  with g(3) assms(4) show ?thesis by (auto simp: agent_grant_ok_def)
qed

theorem agents_never_hold_prohibited_authority_witness:
  "\<exists>actor. get_key (rs_actors demo_realm) (opaqueId ''actor'' ''1'') = Some actor \<and> ra_kind actor \<noteq> ActorAgent"
  using demo_allows(1) agents_never_hold_prohibited_authority [OF demo_reachable, where c = PolicyManage]
  by (fastforce simp: demo_request_def capabilityForOperation_def AGENT_PROHIBITED_CAPABILITIES_def)

text \<open>
  C3. Authority that is closed stays closed. Take a state a Realm reaches and any calls after it that
  restore no snapshot. A Session or a Grant that is there and whose chain is not active now is never active
  again, at any later time; a credential that is not active never becomes active.
\<close>

theorem closed_authority_stays_closed:
  assumes "realm_reachable d s" "admissible realm_ok (realm_step d) xs s" "n \<le> n'"
  shows "(has_key (rs_sessions s) i \<and> \<not> sessionChainIsActive n s [] i \<longrightarrow> \<not> sessionChainIsActive n' (run_ops (realm_step d) xs s) [] i)
     \<and> (has_key (rs_grants s) i \<and> \<not> grantChainIsActive n s [] i \<longrightarrow> \<not> grantChainIsActive n' (run_ops (realm_step d) xs s) [] i)
     \<and> (\<forall>c. get_key (rs_credentials s) i = Some c \<and> cr_status c \<noteq> CredentialActive
          \<longrightarrow> (\<exists>c'. get_key (rs_credentials (run_ops (realm_step d) xs s)) i = Some c' \<and> cr_status c' \<noteq> CredentialActive))"
proof -
  have inv: "realm_inv s" by (rule realm_reachable_inv [OF assms(1)])
  note before = realm_run_before [OF inv assms(2)]
  show ?thesis
    using sessionChain_back [OF inv before assms(3)] grantChain_back [OF inv before assms(3)] before_credential [OF before]
    by (fastforce simp: same_credential_def)
qed

theorem closed_authority_stays_closed_witness:
  "\<not> sessionChainIsActive 7 (run_ops (realm_step id) demo_later demo_revoked) [] (opaqueId ''session'' ''2'')"
proof -
  have "admissible realm_ok (realm_step id) demo_later demo_revoked" by code_simp
  moreover have "has_key (rs_sessions demo_revoked) (opaqueId ''session'' ''2'')" by code_simp
  moreover have "\<not> sessionChainIsActive 5 demo_revoked [] (opaqueId ''session'' ''2'')" by code_simp
  ultimately show ?thesis
    using closed_authority_stays_closed [OF demo_revoked_reachable, of demo_later 5 7 "opaqueId ''session'' ''2''"] by simp
qed



text \<open>
  C6. Revoking a Session of a Realm state revokes exactly the Sessions delegated from it, directly or through
  others, and leaves every other Session as it was. Afterwards no chain through a revoked Session is active
  at any time, its Tasks are closed, no active Grant belongs to it or is derived from a Grant the call
  revoked, and no active credential was issued on it or on such a Grant.
\<close>

theorem revokeSession_closes_delegation:
  assumes "realm_reachable d s" "revokeSession origin s = (Inr result, t)"
  shows "(\<forall>i. get_key (rs_sessions t) i = (if delegated_from s origin i
        then map_option (\<lambda>x. x\<lparr>ses_status := SessionRevoked\<rparr>) (get_key (rs_sessions s) i) else get_key (rs_sessions s) i))
     \<and> (\<forall>i now seen. delegated_from s origin i \<longrightarrow> \<not> sessionChainIsActive now t seen i)
     \<and> (\<forall>k task. get_key (rs_tasks t) k = Some task \<and> delegated_from s origin (tk_sessionId task) \<longrightarrow> tk_status task = TaskClosed)
     \<and> (\<forall>k g. get_key (rs_grants t) k = Some g \<and> gr_status g = GrantActive
          \<longrightarrow> \<not> delegated_from s origin (gr_sessionId g) \<and> (\<forall>p. gr_parentGrantId g = Some p \<longrightarrow> p \<notin> set (sr_revokedGrantIds result)))
     \<and> (\<forall>k c. get_key (rs_credentials t) k = Some c \<and> cr_status c = CredentialActive
          \<longrightarrow> \<not> delegated_from s origin (cr_sessionId c) \<and> cr_grantId c \<notin> set (sr_revokedGrantIds result))"
proof -
  have inv: "realm_inv s" by (rule realm_reachable_inv [OF assms(1)])
  define ids where "ids = session_loop [origin] (rs_sessions s)"
  have ids: "i \<in> set ids \<longleftrightarrow> delegated_from s origin i" for i by (simp add: ids_def session_loop_delegated [OF inv])
  obtain r m where loop: "grant_loop (session_grant ids) [] (rs_grants s) = (r, m)" by (meson surj_pair)
  from assms(2) obtain x where x: "get_key (rs_sessions s) origin = Some x" by (auto simp: revokeSession_def split: option.splits)
  have t: "rs_sessions t = rs_sessions (fold revoke_affected ids s)" "rs_tasks t = rs_tasks (fold revoke_affected ids s)" "rs_grants t = m"
    and creds: "\<exists>m'. rs_credentials t = map (\<lambda>(k, c). (k, if (cr_sessionId c \<in> set ids \<or> cr_grantId c \<in> set r) \<and> cr_status c = CredentialActive
         then c\<lparr>cr_status := CredentialRevoked\<rparr> else c)) m'" and result: "sr_revokedGrantIds result = r"
    using assms(2) by (auto simp: revokeSession_def x ids_def [symmetric] loop Let_def revoke_credentials_def audit_def return_def)
  have found: "has_key (rs_sessions s) i" if "i \<in> set ids" for i
    using that x unfolding ids by (induction rule: delegated_from.induct) (auto simp: has_key_def)
  have sessions: "get_key (rs_sessions t) i = (if i \<in> set ids
        then map_option (\<lambda>x. x\<lparr>ses_status := SessionRevoked\<rparr>) (get_key (rs_sessions s) i) else get_key (rs_sessions s) i)" for i
    by (simp add: t fold_revoke_sessions)
  have chain: "\<not> sessionChainIsActive now t seen i" if "i \<in> set ids" for now seen i
    using that sessions [of i] by (cases "get_key (rs_sessions s) i") (auto dest!: sessionChain_found simp: session_live_def)
  have tasks: "tk_status task = TaskClosed" if "get_key (rs_tasks t) k = Some task" "tk_sessionId task \<in> set ids" for k task
    using fold_revoke_tasks [of ids s k task] that found by (simp add: t)
  have grants: "gr_sessionId g \<notin> set ids \<and> (\<forall>p. gr_parentGrantId g = Some p \<longrightarrow> p \<notin> set r)" if "get_key (rs_grants t) k = Some g" "gr_status g = GrantActive" for k g
    using grant_loop_closed [OF loop, of k g] that by (auto simp: t session_grant_def)
  have credentials: "cr_sessionId c \<notin> set ids \<and> cr_grantId c \<notin> set r" if "get_key (rs_credentials t) k = Some c" "cr_status c = CredentialActive" for k c
  proof -
    let ?f = "\<lambda>c. if (cr_sessionId c \<in> set ids \<or> cr_grantId c \<in> set r) \<and> cr_status c = CredentialActive then c\<lparr>cr_status := CredentialRevoked\<rparr> else c"
    obtain m' where "rs_credentials t = map (\<lambda>(k, c). (k, ?f c)) m'" using creds by blast
    with that(1) have "map_option ?f (get_key m' k) = Some c" by (simp only: get_key_pointwise)
    then obtain old where "c = ?f old" by blast
    with that(2) show ?thesis by (auto split: if_splits)
  qed
  show ?thesis
    unfolding result using sessions chain tasks grants credentials by (auto simp: ids)
qed

theorem revokeSession_closes_delegation_witness:
  "\<exists>result t. revokeSession (opaqueId ''session'' ''1'') demo_realm = (Inr result, t) \<and> \<not> sessionChainIsActive 1 t [] (opaqueId ''session'' ''2'')"
proof -
  let ?r = "revokeSession (opaqueId ''session'' ''1'') demo_realm"
  have "case ?r of (Inr _, _) \<Rightarrow> True | _ \<Rightarrow> False" by code_simp
  then obtain result t where r: "?r = (Inr result, t)" by (auto split: prod.splits sum.splits)
  have "map_option (\<lambda>x. keep_truthy (ses_delegatedBySessionId x)) (get_key (rs_sessions demo_realm) (opaqueId ''session'' ''2'')) = Some (Some (opaqueId ''session'' ''1''))"
    by code_simp
  then have "delegated_from demo_realm (opaqueId ''session'' ''1'') (opaqueId ''session'' ''2'')"
    by (auto intro: delegated_step delegated_origin)
  with revokeSession_closes_delegation [OF demo_reachable r] r show ?thesis by blast
qed

text \<open>
  C8. Activating a policy fences everything issued before it: in the state it leaves, at any time, no Session
  and no Grant is live, no evaluation allows anything and no credential is valid, until someone signs in
  again.
\<close>

theorem policy_activation_fences:
  assumes "realm_reachable d s" "activateRealmPolicy v s = (Inr r, t)"
  shows "\<not> sessionChainIsActive now t seen i \<and> \<not> grantChainIsActive now t seen i
     \<and> \<not> (\<exists>e u. evaluate now input t = (Inr (True, e), u))
     \<and> \<not> (\<exists>c u. validateCredential tokenDigest now token request t = (Inr (CredentialValid c), u))"
proof -
  have inv: "realm_inv s" by (rule realm_reachable_inv [OF assms(1)])
  have t: "epoch t = epoch s + 1" "rs_sessions t = rs_sessions s" "rs_grants t = rs_grants s" "rs_credentials t = rs_credentials s"
    using assms(2) by (auto simp: activateRealmPolicy_def Let_def audit_def return_def split: if_splits)
  have session: "\<not> sessionChainIsActive now t seen i" for seen i
    using t inv_session [OF inv] by (fastforce dest!: sessionChain_found simp: session_live_def session_ok_def)
  have grant: "\<not> grantChainIsActive now t seen i" for seen i
    using t inv_grant [OF inv] by (fastforce dest!: grantChain_found simp: grant_live_def grant_ok_def)
  have "\<not> (\<exists>e u. evaluate now input t = (Inr (True, e), u))"
    using session by (auto dest!: evaluate_allowedD simp: collect_passes session_check_passes)
  moreover have "\<not> (\<exists>c u. validateCredential tokenDigest now token request t = (Inr (CredentialValid c), u))"
    using session by (auto simp: validateCredential_def credential_stale_def split: option.splits prod.splits if_splits)
  ultimately show ?thesis using session grant by blast
qed

theorem policy_activation_fences_witness:
  "\<exists>r t. activateRealmPolicy ''v2'' demo_realm = (Inr r, t) \<and> \<not> sessionChainIsActive 1 t [] (opaqueId ''session'' ''1'')"
proof -
  have "\<not> blank ''v2''" by code_simp
  then obtain r t where "activateRealmPolicy ''v2'' demo_realm = (Inr r, t)" by (auto simp: activateRealmPolicy_def Let_def return_def)
  then show ?thesis using policy_activation_fences [OF demo_reachable] by blast
qed

text \<open>
  C9. A Realm restored from a recovery snapshot, whatever the snapshot holds, has no live authority: its
  epoch is newer than the one before and than the snapshot's, no Session and no Grant is live, every Task is
  closed, no token is recognised and no evaluation allows.
\<close>

theorem recovery_restores_no_authority:
  assumes "restoreRecoverySnapshot snapshot s = (Inr r, t)"
  shows "epoch t > epoch s \<and> epoch t > epoch (snap_state snapshot) \<and> realmId t = realmId s
     \<and> \<not> sessionChainIsActive now t seen i \<and> \<not> grantChainIsActive now t seen i
     \<and> (\<forall>task. get_key (rs_tasks t) i = Some task \<longrightarrow> tk_status task = TaskClosed)
     \<and> validateCredential tokenDigest now token request t = (Inr (CredentialRefused CredentialInvalid), t)
     \<and> \<not> (\<exists>e u. evaluate now input t = (Inr (True, e), u))"
proof -
  let ?s = "snap_state snapshot"
  have t: "epoch t = max (epoch s) (epoch ?s) + 1" "rs_sessions t = map_entries (\<lambda>x. x\<lparr>ses_status := SessionRevoked\<rparr>) (rs_sessions ?s)"
    "rs_grants t = map_entries (\<lambda>x. x\<lparr>gr_status := GrantRevoked\<rparr>) (rs_grants ?s)" "rs_credentials t = []"
    "rs_tasks t = map_entries (\<lambda>x. x\<lparr>tk_status := TaskClosed\<rparr>) (rs_tasks ?s)" "realmId t = realmId s"
    using assms by (auto simp: restoreRecoverySnapshot_def loadSnapshot_def Let_def audit_def return_def snapshot_error_def loop_simps split: option.splits)
  have session: "\<not> sessionChainIsActive now t seen i" for seen i
    using t(2) by (auto dest!: sessionChain_found simp: session_live_def map_entries_def get_key_pointwise)
  have grant: "\<not> grantChainIsActive now t seen i"
    using t(3) by (auto dest!: grantChain_found simp: grant_live_def map_entries_def get_key_pointwise)
  have task: "\<forall>task. get_key (rs_tasks t) i = Some task \<longrightarrow> tk_status task = TaskClosed"
    using t(5) by (auto simp: map_entries_def get_key_pointwise)
  have "\<not> (\<exists>e u. evaluate now input t = (Inr (True, e), u))"
    using session by (auto dest!: evaluate_allowedD simp: collect_passes session_check_passes)
  with t session grant task show ?thesis by (simp add: validateCredential_def return_def less_Suc_eq_le)
qed

theorem recovery_restores_no_authority_witness:
  "\<exists>r t. restoreRecoverySnapshot (getRecoverySnapshot demo_realm) demo_realm = (Inr r, t)
     \<and> \<not> sessionChainIsActive 1 t [] (opaqueId ''session'' ''1'') \<and> epoch t > epoch demo_realm"
proof -
  obtain r t where "restoreRecoverySnapshot (getRecoverySnapshot demo_realm) demo_realm = (Inr r, t)"
    by (auto simp: restoreRecoverySnapshot_def getRecoverySnapshot_def snapshot_error_def fail_if_def loadSnapshot_def Let_def return_def)
  then show ?thesis using recovery_restores_no_authority by blast
qed

section \<open>Where the code falls short\<close>

text \<open>Alice derives from a Grant that lists and denies a capability; the derived Grant only lists it.\<close>

definition demo_denying_grant :: CreateTaskGrantInput where
  "demo_denying_grant = demo_human_grant\<lparr>cgi_deniedActions := Some [PolicyManage]\<rparr>"

definition demo_escape :: "realm_op list" where
  "demo_escape = [OpCreateCapabilityGrant 0 (demo_ids ''7'') demo_denying_grant,
     OpCreateCapabilityGrant 0 (demo_ids ''8'') (demo_human_grant\<lparr>cgi_parentGrantId := Some (opaqueId ''grant'' ''7'')\<rparr>)]"

definition demo_escaped :: RealmState where
  "demo_escaped = run_ops (realm_step id) demo_escape demo_realm"

definition demo_by_grant :: "string \<Rightarrow> PolicyEvaluationInput" where
  "demo_by_grant i = (demo_request ''1'' ''client:anyam-web'' ''policy'' PolicyManage)\<lparr>pei_grantId := Some (opaqueId ''grant'' i)\<rparr>"

text \<open>
  A Grant derived from a parent does not take over what the parent explicitly denies. In a state a Realm
  reaches, a Grant forbids a capability, a Grant derived from it is accepted as no wider, and the same request
  is denied through the first and allowed through the second.
\<close>

theorem derived_grant_escapes_denial:
  "realm_reachable id demo_escaped
     \<and> map_option gr_parentGrantId (get_key (rs_grants demo_escaped) (opaqueId ''grant'' ''8'')) = Some (Some (opaqueId ''grant'' ''7''))
     \<and> map_sum id (\<lambda>(b, e). (b, px_code e)) (fst (evaluate 1 (demo_by_grant ''7'') demo_escaped)) = Inr (False, CodeForbidden)
     \<and> map_sum id (\<lambda>(b, e). (b, px_code e)) (fst (evaluate 1 (demo_by_grant ''8'') demo_escaped)) = Inr (True, CodeAllowed)"
proof (intro conjI)
  have "admissible realm_ok (realm_step id) demo_escape demo_realm" by code_simp
  then show "realm_reachable id demo_escaped" unfolding demo_escaped_def by (rule realm_reachable_run [OF demo_reachable])
qed code_simp+

lemma succeeded_and_then_cong:
  "(\<And>a t. succeeded (f a t) = succeeded (g a t)) \<Longrightarrow> succeeded (and_then x f) = succeeded (and_then x g)"
  by (cases x rule: void.cases) (auto simp: succeeded_def)

text \<open>
  The resource of a Grant is never compared with that of its parent: whether \<open>createCapabilityGrant\<close>
  accepts a request does not depend on the resource it asks for. Only \<open>delegateAgent\<close> looks at it.
\<close>

theorem grant_resource_unchecked:
  "succeeded (createCapabilityGrant now u (input\<lparr>cgi_resource := r\<rparr>) s) = succeeded (createCapabilityGrant now u input s)"
proof -
  have error: "grant_error n (input\<lparr>cgi_resource := r\<rparr>) session t = grant_error n input session t" for n session t
    by (simp add: grant_error_def parent_error_def task_mismatch_def same_chain_def delegated_agent_chain_def widens_def grant_models_def grant_classes_def
        Let_def cong: option.case_cong)
  have fields: "cgi_principalId (input\<lparr>cgi_resource := r\<rparr>) = cgi_principalId input" "cgi_sessionId (input\<lparr>cgi_resource := r\<rparr>) = cgi_sessionId input"
    "cgi_clientId (input\<lparr>cgi_resource := r\<rparr>) = cgi_clientId input" by simp_all
  show ?thesis
    unfolding createCapabilityGrant_def error fields
    by (intro succeeded_and_then_cong) (simp add: Let_def succeeded_def split: option.split)
qed

text \<open>
  The answer gives away that a hidden Source Space exists. For a Principal who is not among its readers
  the code is \<open>not_found\<close> when the Source Space has a policy that is not discoverable, and never \<open>not_found\<close>
  when there is no such Source Space.
\<close>

theorem hidden_space_is_distinguishable:
  assumes "capabilityForOperation (pei_operation input) (pei_capability input) = Inr c" "pei_discoverable input \<noteq> Some False"
    and "source_policy (requestedSourceSpaceId input) s = Some policy" "\<not> sp_discoverable policy" "pei_principalId input \<notin> set (sp_readerPrincipalIds policy)"
    and "source_policy (requestedSourceSpaceId input) s' = None"
  shows "map_sum id (\<lambda>(b, e). px_code e) (fst (evaluate now input s)) = Inr CodeNotFound
     \<and> map_sum id (\<lambda>(b, e). px_code e) (fst (evaluate now input s')) \<in> Inr ` {CodeAllowed, CodeForbidden, CodeIndeterminate}"
proof -
  have "hidden input s" "\<not> hidden input s'" using assms by (simp_all add: hidden_def)
  then show ?thesis using assms(1) by (simp add: evaluate_def evaluateDecision_def explain_def Let_def)
qed

definition demo_secret_op :: realm_op where
  "demo_secret_op = OpSetSourceSpacePolicy ''9'' \<lparr>ssi_sourceSpaceId = ''secret'', ssi_classification = SpaceRestricted, ssi_allowedCapabilities = [SourceRead],
     ssi_deniedCapabilities = None, ssi_readerPrincipalIds = Some [''bob''], ssi_allowedModelProviders = None, ssi_discoverable = Some False\<rparr>"

theorem hidden_space_is_distinguishable_witness:
  "map_sum id (\<lambda>(b, e). px_code e) (fst (evaluate 1 ((demo_request ''1'' ''client:anyam-web'' ''read'' SourceRead)\<lparr>pei_sourceSpaceId := Some ''secret''\<rparr>)
        (run_ops (realm_step id) [demo_secret_op] demo_realm))) = Inr CodeNotFound
     \<and> map_sum id (\<lambda>(b, e). px_code e) (fst (evaluate 1 ((demo_request ''1'' ''client:anyam-web'' ''read'' SourceRead)\<lparr>pei_sourceSpaceId := Some ''secret''\<rparr>)
        demo_realm)) \<noteq> Inr CodeNotFound"
proof -
  let ?input = "(demo_request ''1'' ''client:anyam-web'' ''read'' SourceRead)\<lparr>pei_sourceSpaceId := Some ''secret''\<rparr>"
  have "map_option (\<lambda>p. \<not> sp_discoverable p \<and> pei_principalId ?input \<notin> set (sp_readerPrincipalIds p))
      (source_policy (requestedSourceSpaceId ?input) (run_ops (realm_step id) [demo_secret_op] demo_realm)) = Some True"
    "source_policy (requestedSourceSpaceId ?input) demo_realm = None" by code_simp+
  moreover have "capabilityForOperation (pei_operation ?input) (pei_capability ?input) = Inr SourceRead" "pei_discoverable ?input \<noteq> Some False"
    by (simp_all add: demo_request_def capabilityForOperation_def)
  ultimately show ?thesis
    using hidden_space_is_distinguishable [of ?input SourceRead "run_ops (realm_step id) [demo_secret_op] demo_realm" _ demo_realm 1] by fastforce
qed

end
