(* ===== verification/Extension_Authority.thy ===== *)
theory Extension_Authority
  imports Extensions Realm_Authority
begin

text \<open>
  What the extension registry promises. A decision of the Realm policy that allows does not change a later
  decision, so the decisions of one call are decisions of the state it starts in. On every run of the registry
  and of the other callers of its Realm, the grants of an installation stay within its pinned manifest, and an
  installation that is not enabled, or authority that is closed, invokes nothing again. At the end, where the
  code falls short.
\<close>

section \<open>Decisions that follow each other\<close>

text \<open>
  A component that decides questions one after another, each decision leaving an observation in its state. When
  an allowed decision is not seen by the next ones, asking a list of questions until one is refused is asking
  all of them in the first state.
\<close>

locale policy_authority =
  fixes decide :: "'q \<Rightarrow> 's \<Rightarrow> bool"
    and observe :: "'q \<Rightarrow> 's \<Rightarrow> 's"
  assumes unseen: "decide q s \<Longrightarrow> decide q' (observe q s) = decide q' s"
begin

fun decide_all :: "'q list \<Rightarrow> 's \<Rightarrow> bool" where
  "decide_all [] s = True"
| "decide_all (q # qs) s = (decide q s \<and> decide_all qs (observe q s))"

lemma decide_all_unseen: "decide q s \<Longrightarrow> decide_all qs (observe q s) = decide_all qs s"
proof (induction qs arbitrary: q s)
  case (Cons p qs)
  show ?case
  proof (cases "decide p s")
    case True
    with Cons.prems have p: "decide p (observe q s)" by (simp add: unseen)
    have "decide_all qs (observe p (observe q s)) = decide_all qs s"
      using Cons.IH [OF p] Cons.IH [OF Cons.prems] by simp
    moreover have "decide_all qs (observe p s) = decide_all qs s" using Cons.IH [OF True] .
    ultimately show ?thesis using True p by simp
  qed (use Cons.prems in \<open>simp add: unseen\<close>)
qed simp

lemma decide_all_iff: "decide_all qs s = list_all (\<lambda>q. decide q s) qs"
  by (induction qs) (auto simp: decide_all_unseen)

end

text \<open>The Realm policy decides so: what an allowed evaluation writes is an audit event.\<close>

definition realm_allows :: "int \<times> PolicyEvaluationInput \<Rightarrow> RealmState \<Rightarrow> bool" where
  "realm_allows q s = (case fst (evaluate (fst q) (snd q) s) of Inl _ \<Rightarrow> False | Inr (allowed, _) \<Rightarrow> allowed)"

definition realm_observes :: "int \<times> PolicyEvaluationInput \<Rightarrow> RealmState \<Rightarrow> RealmState" where
  "realm_observes q s = snd (evaluate (fst q) (snd q) s)"

lemma realm_allows_iff: "realm_allows (now, input) s \<longleftrightarrow> (\<exists>e t. evaluate now input s = (Inr (True, e), t))"
  by (cases "evaluate now input s" rule: void.cases) (auto simp: realm_allows_def)

lemma observe_session_live:
  assumes "passes (session_check now input s)"
  shows "observe_session now input s = s"
proof -
  obtain x where x: "get_key (rs_sessions s) (pei_sessionId input) = Some x" "sessionChainIsActive now s [] (pei_sessionId input)"
    using assms by (auto simp: session_check_passes)
  then have "session_live now s x" by (auto dest: sessionChain_found)
  with x show ?thesis by (auto simp: observe_session_def mark_expired_def session_live_def)
qed

lemma observe_grant_live:
  assumes "passes (grant_check now input c s)"
  shows "observe_grant now input s = s"
proof -
  obtain i g where g: "pei_grantId input = Some i" "get_key (rs_grants s) i = Some g" "grantChainIsActive now s [] i"
    using assms by (auto simp: grant_check_passes)
  then have "grant_live now s g" by (auto dest: grantChain_found)
  with g show ?thesis by (auto simp: observe_grant_def mark_grant_expired_def grant_live_def split: option.splits)
qed

lemma allowed_only_audits:
  assumes "realm_allows (now, input) s"
  shows "\<exists>e. realm_observes (now, input) s = audit e s"
proof -
  obtain e t where ev: "evaluate now input s = (Inr (True, e), t)" using assms by (auto simp: realm_allows_iff)
  then obtain c where c: "capabilityForOperation (pei_operation input) (pei_capability input) = Inr c" "passes (collect_verdict now input c s)"
    using evaluate_allowedD by blast
  then have "observe_session now input s = s" "observe_grant now input s = s"
    by (auto simp: collect_passes observe_session_live intro: observe_grant_live)
  with c(1) show ?thesis
    by (auto simp: realm_observes_def evaluate_def evaluateDecision_def Let_def return_def)
qed

text \<open>No check reads the audit.\<close>

lemma audit_tables [simp]:
  "rs_sessions (audit e s) = rs_sessions s" "rs_grants (audit e s) = rs_grants s" "rs_actors (audit e s) = rs_actors s"
  "rs_agents (audit e s) = rs_agents s" "rs_realm (audit e s) = rs_realm s" "rs_principals (audit e s) = rs_principals s"
  "rs_clients (audit e s) = rs_clients s" "rs_tasks (audit e s) = rs_tasks s" "source_policy i (audit e s) = source_policy i s"
  "bindings_for p r (audit e s) = bindings_for p r s"
  by (simp_all add: audit_def source_policy_def bindings_for_def)

lemma sessionChain_audit [simp]: "sessionChainIsActive now (audit e s) seen i = sessionChainIsActive now s seen i"
proof (induction now s seen i rule: sessionChainIsActive.induct)
  case (1 now s seen i)
  show ?case
    by (subst (1 2) sessionChainIsActive.simps) (auto simp: session_live_def actor_active_def 1 split: option.splits)
qed

lemma grantChain_audit [simp]: "grantChainIsActive now (audit e s) seen i = grantChainIsActive now s seen i"
proof (induction now s seen i rule: grantChainIsActive.induct)
  case (1 now s seen i)
  show ?case
    by (subst (1 2) grantChainIsActive.simps) (auto simp: grant_live_def 1 split: option.splits)
qed

lemma check_audit [simp]:
  "hidden input (audit e s) = hidden input s" "principal_check input (audit e s) = principal_check input s"
  "actor_check input (audit e s) = actor_check input s" "client_check input c (audit e s) = client_check input c s"
  "audience_check input (audit e s) = audience_check input s" "session_check now input (audit e s) = session_check now input s"
  "role_check input c (audit e s) = role_check input c s" "relationship_deny_check input c (audit e s) = relationship_deny_check input c s"
  "source_check input c (audit e s) = source_check input c s" "source_deny_check input c (audit e s) = source_deny_check input c s"
  "model_check input (audit e s) = model_check input s" "grant_check now input c (audit e s) = grant_check now input c s"
  by (simp_all add: hidden_def principal_check_def actor_check_def client_check_def audience_check_def session_check_def role_check_def
      relationship_deny_check_def source_check_def source_deny_check_def model_check_def grant_check_def split: option.split)

lemma evaluate_audit: "fst (evaluate now input (audit e s)) = fst (evaluate now input s)"
  by (simp add: evaluate_def evaluateDecision_def explain_def collect_verdict_def Let_def return_def raise_def split: sum.split)

interpretation realm_policy: policy_authority realm_allows realm_observes
proof
  fix q q' s assume "realm_allows q s"
  then obtain e where "realm_observes q s = audit e s" using allowed_only_audits [of "fst q" "snd q" s] by auto
  then show "realm_allows q' (realm_observes q s) = realm_allows q' s" by (simp add: realm_allows_def evaluate_audit)
qed

section \<open>The invariant of the registry\<close>

definition manifest_ok :: "string \<Rightarrow> ExtensionManifest \<Rightarrow> bool" where
  "manifest_ok k m \<longleftrightarrow> k = manifest_key m \<and> \<not> blank (em_id m) \<and> \<not> blank (em_version m) \<and> \<not> blank (em_digest m)
     \<and> em_lifecycle m \<in> {ExtProposed, ExtBlocked, ExtDeprecated, ExtRevoked} \<and> (em_lifecycle m = ExtBlocked \<longleftrightarrow> unverifiedHighRisk m \<noteq> [])"

definition pins_manifest :: "ExtensionInstallation \<Rightarrow> ExtensionManifest \<Rightarrow> bool" where
  "pins_manifest i m \<longleftrightarrow> ei_manifestId i = em_id m \<and> ei_manifestVersion i = em_version m \<and> ei_manifestDigest i = em_digest m"

text \<open>What an installation may hold of its manifest.\<close>

definition within_manifest :: "ExtensionInstallation \<Rightarrow> ExtensionManifest \<Rightarrow> bool" where
  "within_manifest i m \<longleftrightarrow> em_lifecycle m = ExtProposed \<and> set (ei_grantedEffects i) \<subseteq> set (em_requestedEffects m)
     \<and> set (ei_grantedCapabilities i) \<subseteq> set (em_requestedCapabilities m) \<and> ''canonical.write'' \<notin> set (ei_grantedEffects i)"

definition installation_ok :: "ExtensionRegistry \<Rightarrow> string \<Rightarrow> ExtensionInstallation \<Rightarrow> bool" where
  "installation_ok s k i \<longleftrightarrow> ei_id i = k \<and> scope_realmId (ei_scope i) = realmId (er_realm s)
     \<and> (\<exists>m. get_key (er_manifests s) (manifest_key m) = Some m \<and> pins_manifest i m \<and> within_manifest i m)"

definition one_digest :: "(string, ExtensionManifest) jsmap \<Rightarrow> bool" where
  "one_digest ms \<longleftrightarrow> (\<forall>k m k' m'. get_key ms k = Some m \<and> get_key ms k' = Some m' \<and> em_id m = em_id m' \<and> em_version m = em_version m' \<longrightarrow> m = m')"

definition ext_inv :: "ExtensionRegistry \<Rightarrow> bool" where
  "ext_inv s \<longleftrightarrow> realm_inv (er_realm s) \<and> distinct_keys (er_manifests s) \<and> one_digest (er_manifests s)
     \<and> (\<forall>k m. get_key (er_manifests s) k = Some m \<longrightarrow> manifest_ok k m)
     \<and> (\<forall>k i. get_key (er_installations s) k = Some i \<longrightarrow> installation_ok s k i)"

lemma ext_inv_realm: "ext_inv s \<Longrightarrow> realm_inv (er_realm s)"
  by (simp add: ext_inv_def)

lemma ext_inv_manifest: "ext_inv s \<Longrightarrow> get_key (er_manifests s) k = Some m \<Longrightarrow> manifest_ok k m"
  by (simp add: ext_inv_def)

lemma ext_inv_installation: "ext_inv s \<Longrightarrow> get_key (er_installations s) k = Some i \<Longrightarrow> installation_ok s k i"
  by (simp add: ext_inv_def)

lemma mem_manifests: "ext_inv s \<Longrightarrow> m \<in> set (map_values (er_manifests s)) \<longleftrightarrow> get_key (er_manifests s) (manifest_key m) = Some m"
  using jsm.contents_lookup [of "er_manifests s" m] ext_inv_manifest [of s] by (auto simp: ext_inv_def manifest_ok_def)

text \<open>What a later state keeps of an earlier one.\<close>

definition same_installation :: "ExtensionInstallation \<Rightarrow> ExtensionInstallation \<Rightarrow> bool" where
  "same_installation x y \<longleftrightarrow> (\<exists>lc. y = x\<lparr>ei_lifecycle := lc\<rparr> \<and> (lc = ExtEnabled \<longrightarrow> ei_lifecycle x = ExtEnabled))"

definition ext_before :: "ExtensionRegistry \<Rightarrow> ExtensionRegistry \<Rightarrow> bool" where
  "ext_before s t \<longleftrightarrow> authority_before (er_realm s) (er_realm t) \<and> table_grows (=) (er_manifests s) (er_manifests t)
     \<and> table_grows same_installation (er_installations s) (er_installations t)"

definition ext_grows :: "ExtensionRegistry \<Rightarrow> ExtensionRegistry \<Rightarrow> bool" where
  "ext_grows s t \<longleftrightarrow> (ext_inv s \<longrightarrow> ext_inv t \<and> ext_before s t)"

lemma same_installation_refl [simp, intro]: "same_installation x x"
  by (auto simp: same_installation_def intro: exI [of _ "ei_lifecycle x"])

lemma same_installation_trans: "same_installation x y \<Longrightarrow> same_installation y z \<Longrightarrow> same_installation x z"
  by (auto simp: same_installation_def)

lemma ext_grows_refl [simp, intro]: "ext_grows s s"
  by (simp add: ext_grows_def ext_before_def table_grows_refl)

lemma ext_before_trans: "ext_before s t \<Longrightarrow> ext_before t u \<Longrightarrow> ext_before s u"
  unfolding ext_before_def by (auto intro: authority_before_trans table_grows_trans same_installation_trans)

lemma ext_grows_trans: "ext_grows s t \<Longrightarrow> ext_grows t u \<Longrightarrow> ext_grows s u"
  unfolding ext_grows_def by (auto intro: ext_before_trans)

lemma ext_grows_and_then:
  assumes "ext_grows s (snd r)" and "\<And>a s'. r = (Inr a, s') \<Longrightarrow> ext_grows s' (snd (f a s'))"
  shows "ext_grows s (snd (and_then r f))"
  using assms by (cases r rule: void.cases) (auto intro: ext_grows_trans)

lemma installation_ok_mono:
  assumes "installation_ok s k x" "ext_before s t" "same_installation x y"
  shows "installation_ok t k y"
proof -
  obtain m where m: "get_key (er_manifests s) (manifest_key m) = Some m" "pins_manifest x m" "within_manifest x m"
    using assms(1) by (auto simp: installation_ok_def)
  have kept: "get_key (er_manifests t) (manifest_key m) = Some m" "realmId (er_realm t) = realmId (er_realm s)"
    using assms(2) m(1) by (auto simp: ext_before_def authority_before_def dest: table_growsD)
  have "pins_manifest y m" "within_manifest y m" "ei_id y = ei_id x" "ei_scope y = ei_scope x"
    using assms(3) m(2,3) by (auto simp: same_installation_def pins_manifest_def within_manifest_def)
  with assms(1) kept show ?thesis by (auto simp: installation_ok_def)
qed

text \<open>The events of the registry are not part of it.\<close>

lemma ext_grows_event [simp]: "ext_grows s (record_event e t) = ext_grows s t"
  by (simp add: ext_grows_def ext_inv_def ext_before_def record_event_def installation_ok_def)

lemma ext_grows_installation_event [simp]: "ext_grows s (installation_event kind i auth t) = ext_grows s t"
  by (simp add: installation_event_def)

text \<open>The Realm moves on under the registry.\<close>

lemma realm_grows_ext:
  assumes "grows (er_realm s) r"
  shows "ext_grows s (s\<lparr>er_realm := r\<rparr>)"
  unfolding ext_grows_def
proof
  assume inv: "ext_inv s"
  then have r: "realm_inv r" "authority_before (er_realm s) r" using assms by (auto simp: grows_def ext_inv_def)
  then have before: "ext_before s (s\<lparr>er_realm := r\<rparr>)" by (simp add: ext_before_def table_grows_refl)
  moreover have "installation_ok (s\<lparr>er_realm := r\<rparr>) k i" if "get_key (er_installations s) k = Some i" for k i
    using installation_ok_mono [OF ext_inv_installation [OF inv that] before] by simp
  ultimately show "ext_inv (s\<lparr>er_realm := r\<rparr>) \<and> ext_before s (s\<lparr>er_realm := r\<rparr>)"
    using inv r by (simp add: ext_inv_def)
qed

lemma and_then_Inr: "and_then x f = (Inr b, t) \<longleftrightarrow> (\<exists>a r. x = (Inr a, r) \<and> f a r = (Inr b, t))"
  by (cases x rule: void.cases) auto

lemma in_realm_grows: "grows (er_realm s) (snd x) \<Longrightarrow> ext_grows s (snd (in_realm x s))"
  by (cases "(x, s)" rule: in_realm.cases) (auto intro: realm_grows_ext)

lemma authorizeExtension_grows: "ext_grows s (snd (authorizeExtension now auth operation c resource effect s))"
  unfolding authorizeExtension_def
  by (rule ext_grows_and_then [OF in_realm_grows [OF evaluate_grows]]) (simp split: prod.split)

lemma authorize_grants_grows: "ext_grows s (snd (authorize_grants now auth effects cs s))"
  by (induction now auth effects cs s rule: authorize_grants.induct)
     (auto intro!: ext_grows_and_then authorizeExtension_grows)

section \<open>Every operation keeps it\<close>

lemma filter_ConsD: "filter P xs = x # ys \<Longrightarrow> x \<in> set xs \<and> P x"
  by (induction xs) (auto split: if_splits)

lemma getManifest_Some:
  assumes "ext_inv s" "getManifest s i v d = Some m"
  shows "get_key (er_manifests s) (manifest_key m) = Some m" "em_id m = i"
    "truthy v \<Longrightarrow> v = Some (em_version m)" "truthy d \<Longrightarrow> d = Some (em_digest m)"
proof -
  have "m \<in> set (map_values (er_manifests s))" "em_id m = i" "truthy v \<Longrightarrow> Some (em_version m) = v" "truthy d \<Longrightarrow> Some (em_digest m) = d"
    using assms(2) by (auto simp: getManifest_def Let_def dest!: filter_ConsD split: list.splits if_splits)
  then show "get_key (er_manifests s) (manifest_key m) = Some m" "em_id m = i"
    "truthy v \<Longrightarrow> v = Some (em_version m)" "truthy d \<Longrightarrow> d = Some (em_digest m)"
    using mem_manifests [OF assms(1)] by auto
qed

lemma register_error_ok:
  assumes "register_error s m digest = None"
  shows "manifest_ok (manifest_key (normalized_manifest m)) (normalized_manifest m)"
  using assms
  by (auto simp: register_error_def text_error_def digest_error_def loop_simps manifest_ok_def normalized_manifest_def unverifiedHighRisk_def)

lemma set_manifest_grows:
  assumes ok: "manifest_ok (manifest_key m) m" and new: "get_key (er_manifests s) (manifest_key m) = None"
    and pin: "\<not> list_ex (\<lambda>c. em_id c = em_id m \<and> em_version c = em_version m \<and> em_digest c \<noteq> em_digest m) (map_values (er_manifests s))"
  shows "ext_grows s (s\<lparr>er_manifests := set_key (manifest_key m) m (er_manifests s)\<rparr>)" (is "ext_grows s ?t")
  unfolding ext_grows_def
proof
  assume inv: "ext_inv s"
  have before: "ext_before s ?t" using new by (simp add: ext_before_def table_grows_refl table_grows_insert)
  have other: "em_id x \<noteq> em_id m \<or> em_version x \<noteq> em_version m" if "get_key (er_manifests s) k = Some x" for k x
  proof (rule ccontr)
    assume "\<not> ?thesis"
    then have same: "em_id x = em_id m" "em_version x = em_version m" by auto
    moreover have "em_digest x = em_digest m"
      using pin get_key_mem [OF that] same by (auto simp: list_ex_iff)
    ultimately have "manifest_key x = manifest_key m" by (simp add: manifest_key_def)
    with ext_inv_manifest [OF inv that] that new show False by (simp add: manifest_ok_def)
  qed
  have "one_digest (er_manifests ?t)"
    using inv other by (auto simp: one_digest_def ext_inv_def split: if_splits) metis+
  moreover have "installation_ok ?t k i" if "get_key (er_installations s) k = Some i" for k i
    using installation_ok_mono [OF ext_inv_installation [OF inv that] before] by simp
  ultimately show "ext_inv ?t \<and> ext_before s ?t"
    using inv before ok by (auto simp: ext_inv_def)
qed

lemma registerManifest_grows: "ext_grows s (snd (registerManifest input s))"
proof (cases "register_error s (rxi_manifest input) (rxi_packageDigest input)")
  case None
  then show ?thesis
    using register_error_ok [OF None]
    by (auto simp: registerManifest_def Let_def intro!: set_manifest_grows split: option.split)
qed (simp add: registerManifest_def)

text \<open>A new or changed installation.\<close>

lemma set_installation_grows:
  assumes "ext_inv s \<Longrightarrow> installation_ok s (ei_id i) i"
    and "\<And>x. get_key (er_installations s) (ei_id i) = Some x \<Longrightarrow> same_installation x i"
  shows "ext_grows s (set_installation i s)"
  unfolding ext_grows_def
proof
  assume inv: "ext_inv s"
  have before: "ext_before s (set_installation i s)"
    using assms(2) by (auto simp: ext_before_def set_installation_def table_grows_refl intro!: table_grows_update)
  have "installation_ok (set_installation i s) k x" if "get_key (er_installations (set_installation i s)) k = Some x" for k x
  proof (cases "k = ei_id i")
    case True
    with that installation_ok_mono [OF assms(1) [OF inv] before] show ?thesis by (simp add: set_installation_def)
  next
    case False
    with that have "get_key (er_installations s) k = Some x" by (simp add: set_installation_def)
    with installation_ok_mono [OF ext_inv_installation [OF inv] before] show ?thesis by blast
  qed
  with before inv show "ext_inv (set_installation i s) \<and> ext_before s (set_installation i s)"
    by (auto simp: ext_inv_def set_installation_def)
qed

lemma requireInstallation_Inr: "requireInstallation s k = Inr i \<longleftrightarrow> get_key (er_installations s) k = Some i"
  by (auto simp: requireInstallation_def split: option.splits)

lemma change_installation_grows:
  assumes "get_key (er_installations s) k = Some i" "lc \<noteq> ExtEnabled"
  shows "ext_grows s (set_installation (i\<lparr>ei_lifecycle := lc\<rparr>) s)"
proof (cases "ext_inv s")
  case True
  have ok: "installation_ok s k i" by (rule ext_inv_installation [OF True assms(1)])
  then have k: "ei_id i = k" by (simp add: installation_ok_def)
  have same: "same_installation i (i\<lparr>ei_lifecycle := lc\<rparr>)" using assms(2) by (auto simp: same_installation_def)
  have "installation_ok s k (i\<lparr>ei_lifecycle := lc\<rparr>)"
    by (rule installation_ok_mono [OF ok _ same]) (simp add: ext_before_def table_grows_refl)
  with same k assms(1) show ?thesis by (intro set_installation_grows) auto
qed (simp add: ext_grows_def)

text \<open>A policy decision leaves the tables alone.\<close>

definition same_tables :: "ExtensionRegistry \<Rightarrow> ExtensionRegistry \<Rightarrow> bool" where
  "same_tables s t \<longleftrightarrow> er_installations t = er_installations s \<and> er_manifests t = er_manifests s \<and> realmId (er_realm t) = realmId (er_realm s)"

lemma same_tables_refl [simp]: "same_tables s s"
  by (simp add: same_tables_def)

lemma same_tables_trans: "same_tables s t \<Longrightarrow> same_tables t u \<Longrightarrow> same_tables s u"
  by (simp add: same_tables_def)

lemma authorizeExtension_tables: "same_tables s (snd (authorizeExtension now auth operation c resource effect s))"
proof -
  let ?x = "evaluate now (asPolicyInput auth operation c resource effect) (er_realm s)"
  have "realmId (snd ?x) = realmId (er_realm s)"
    using evaluateDecision_weaker [of "er_realm s"] by (simp add: evaluate_def weaker_def)
  then show ?thesis
    by (cases ?x rule: void.cases) (auto simp: authorizeExtension_def same_tables_def return_def raise_def split: prod.split)
qed

lemma authorize_grants_tables: "same_tables s (snd (authorize_grants now auth effects cs s))"
proof (induction now auth effects cs s rule: authorize_grants.induct)
  case (2 now auth effects c cs s)
  let ?x = "authorizeExtension now auth (''extension.grant.'' @ capability_text c) c (xa_resource auth)
    (Some (nullish (matching_effect effects c) (capability_text c))) s"
  have "same_tables s (snd ?x)" by (rule authorizeExtension_tables)
  with 2 show ?case by (cases ?x rule: void.cases) (auto intro: same_tables_trans)
qed simp

lemma new_installation_ok:
  assumes inv: "ext_inv s" and m: "getManifest s i v d = Some m" and ok: "install_error input m s = None" and tables: "same_tables s t"
  shows "installation_ok t (opaqueId ''extension-installation'' (u 0)) (new_installation u input m t)"
proof -
  have "get_key (er_manifests s) (manifest_key m) = Some m" by (rule getManifest_Some [OF inv m])
  moreover from this have "em_lifecycle m \<in> {ExtProposed, ExtBlocked, ExtDeprecated, ExtRevoked}"
    using ext_inv_manifest [OF inv] by (auto simp: manifest_ok_def)
  ultimately show ?thesis
    using ok tables
    by (intro installation_ok_def [THEN iffD2] conjI exI [of _ m])
       (auto simp: install_error_def validateScope_def loop_simps Let_def list_ex_iff same_tables_def new_installation_def pins_manifest_def within_manifest_def)
qed

lemma install_Inr:
  assumes "install now u input s = (Inr i, t)"
  shows "\<exists>m x q r. getManifest s (xi_manifestId input) (Some (xi_manifestVersion input)) (Some (xi_packageDigest input)) = Some m
     \<and> install_error input m s = None
     \<and> authorizeExtension now (xi_authorization input) ''extension.install'' ExtensionInstall (scopeResource (xi_scope input)) (Some ''extension.install'') s = (Inr x, q)
     \<and> authorize_grants now (xi_authorization input) (xi_grantedEffects input) (xi_grantedCapabilities input) q = (Inr (), r)
     \<and> i = new_installation u input m r \<and> t = install_commit i (xi_authorization input) r"
  using assms by (auto simp: install_def Let_def and_then_Inr split: option.splits)

lemma authorized_tables:
  assumes "authorizeExtension now auth op c res eff s = (Inr x, q)" "authorize_grants now auth effects cs q = (y, r)"
  shows "same_tables s r"
  using authorizeExtension_tables [of s now auth op c res eff] authorize_grants_tables [of q now auth effects cs] assms
  by (auto intro: same_tables_trans)

lemma install_grows:
  assumes fresh: "\<not> has_key (er_installations s) (opaqueId ''extension-installation'' (u 0))"
  shows "ext_grows s (snd (install now u input s))"
proof (cases "ext_inv s")
  case inv: True
  show ?thesis
  proof (cases "getManifest s (xi_manifestId input) (Some (xi_manifestVersion input)) (Some (xi_packageDigest input))")
    case (Some m)
    show ?thesis
    proof (cases "install_error input m s")
      case None
      have "ext_grows r (install_commit (new_installation u input m r) (xi_authorization input) r)" if "same_tables s r" for r
        using new_installation_ok [OF inv Some None that] fresh that
        by (auto simp: install_commit_def new_installation_def same_tables_def has_key_def intro!: set_installation_grows)
      then show ?thesis
        unfolding install_def Some option.case None Let_def
        by (intro ext_grows_and_then authorizeExtension_grows authorize_grants_grows) (simp add: return_def authorized_tables)
    qed (simp add: install_def Some)
  qed (simp add: install_def)
qed (simp add: ext_grows_def)

lemma install_keeps:
  assumes "install now u input s = (Inr i, t)" "get_key (er_installations s) k = Some x"
    and fresh: "\<not> has_key (er_installations s) (opaqueId ''extension-installation'' (u 0))"
  shows "get_key (er_installations t) k = Some x"
proof -
  obtain m r where r: "same_tables s r" "t = install_commit (new_installation u input m r) (xi_authorization input) r"
    using install_Inr [OF assms(1)] authorized_tables by blast
  have "k \<noteq> opaqueId ''extension-installation'' (u 0)" using assms(2) fresh by (auto simp: has_key_def)
  with r assms(2) show ?thesis
    by (simp add: same_tables_def install_commit_def set_installation_def new_installation_def installation_event_def record_event_def)
qed

lemma replaceExtension_grows:
  assumes fresh: "\<not> has_key (er_installations s) (opaqueId ''extension-installation'' (u 0))"
  shows "ext_grows s (snd (replaceExtension now u input s))"
proof (cases "installed s (xp_installationId input)")
  case (Inr p)
  obtain current m where p: "p = (current, m)" by (cases p)
  with Inr have current: "get_key (er_installations s) (xp_installationId input) = Some current"
    by (auto simp: installed_def loop_simps requireInstallation_Inr)
  let ?auth = "authorizeExtension now (xp_authorization input) ''extension.replace'' ExtensionManage (scopeResource (ei_scope current))
    (Some ''extension.replace'') s"
  have installs: "ext_grows r (snd (install now u (replacement_input input current m) r))" "get_key (er_installations r) (xp_installationId input) = Some current"
    "\<not> has_key (er_installations r) (opaqueId ''extension-installation'' (u 0))" if "?auth = (Inr x, r)" for x r
  proof -
    have tables: "same_tables s r" using authorizeExtension_tables that by (metis snd_conv)
    with fresh show fresh': "\<not> has_key (er_installations r) (opaqueId ''extension-installation'' (u 0))"
      by (simp add: same_tables_def has_key_def)
    then show "ext_grows r (snd (install now u (replacement_input input current m) r))" by (rule install_grows)
    show "get_key (er_installations r) (xp_installationId input) = Some current" using tables current by (simp add: same_tables_def)
  qed
  have commit: "ext_grows t (replace_commit input current i t)" if "get_key (er_installations t) (xp_installationId input) = Some current" for i t
    using change_installation_grows [OF that, of ExtReplaced] by (simp add: replace_commit_def)
  have "ext_grows r (snd (and_then (install now u (replacement_input input current m) r)
      (\<lambda>replacement s. return replacement (replace_commit input current replacement s))))" if "?auth = (Inr x, r)" for x r
    using installs [OF that] install_keeps commit by (intro ext_grows_and_then) (simp, metis snd_return)
  then show ?thesis
    unfolding replaceExtension_def Inr p sum.case prod.case
    by (auto intro!: ext_grows_and_then [where r = ?auth] authorizeExtension_grows)
qed (simp add: replaceExtension_def)

lemma transition_grows:
  assumes "lc \<noteq> ExtEnabled"
  shows "ext_grows s (snd (transition_extension lc kind now input s))"
proof (cases "requireInstallation s (xt_installationId input)")
  case (Inr i)
  let ?auth = "authorizeExtension now (xt_authorization input) (''extension.'' @ lifecycle_text lc) ExtensionManage (scopeResource (ei_scope i))
    (Some (''extension.'' @ lifecycle_text lc)) s"
  have "ext_grows t (set_installation (i\<lparr>ei_lifecycle := lc\<rparr>) t)" if "?auth = (Inr x, t)" for x t
  proof -
    have "same_tables s t" using authorizeExtension_tables that by (metis snd_conv)
    with Inr have "get_key (er_installations t) (xt_installationId input) = Some i" by (simp add: requireInstallation_Inr same_tables_def)
    then show ?thesis using assms by (rule change_installation_grows)
  qed
  then show ?thesis
    unfolding transition_extension_def Inr sum.case
    by (intro ext_grows_and_then authorizeExtension_grows) simp
qed (simp add: transition_extension_def)

lemma authorize_invocation_frame:
  "ext_grows s (snd (authorize_invocation now input cs es s)) \<and> same_tables s (snd (authorize_invocation now input cs es s))"
proof (induction now input cs es s rule: authorize_invocation.induct)
  case (2 now input c cs es s)
  let ?x = "authorizeExtension now (xv_authorization input) (invoke_operation input c) c (xv_resource input)
    (matching_effect (xv_requestedEffects input) c) s"
  have x: "ext_grows s (snd ?x)" "same_tables s (snd ?x)" by (rule authorizeExtension_grows authorizeExtension_tables)+
  show ?case
  proof (cases ?x rule: void.cases)
    case (1 e t)
    with x show ?thesis by (auto split: ExtensionFailure.split option.split)
  next
    case (2 e t)
    with x "2.IH" [OF 2 [symmetric] refl] show ?thesis by (auto intro: ext_grows_trans same_tables_trans)
  qed
qed simp

lemma invokeExtension_grows: "ext_grows s (snd (invokeExtension now input s))"
proof -
  have "ext_grows s t" if "authorize_invocation now input cs es s = (x, t)" for cs es x t
    using authorize_invocation_frame [of s now input cs es] that by simp
  then show ?thesis
    by (auto simp: invokeExtension_def blockedInvocation_def Let_def split: sum.split prod.split)
qed

lemma er_step_grows: "er_ok s x \<Longrightarrow> ext_grows s (snd (er_step d x s))"
  by (cases x) (simp_all add: registerManifest_grows install_grows replaceExtension_grows transition_grows migrateProvider_def
      deprecateExtension_def suspendExtension_def revokeExtension_def invokeExtension_grows in_realm_grows realm_step_grows)

interpretation registry: invariant_machine "er_step d" er_ok ext_inv for d
  by unfold_locales (use er_step_grows in \<open>auto simp: ext_grows_def\<close>)

interpretation registry_authority: growing_machine "er_step d" er_ok ext_grows for d
  by unfold_locales (auto intro: ext_grows_trans er_step_grows)


lemma new_registry_inv: "realm_inv realm \<Longrightarrow> new_registry realm versions = Inr s \<Longrightarrow> ext_inv s"
  by (auto simp: new_registry_def Let_def ext_inv_def one_digest_def get_key_def split: option.splits)

definition ext_reachable :: "(string \<Rightarrow> string) \<Rightarrow> ExtensionRegistry \<Rightarrow> bool" where
  "ext_reachable d s \<longleftrightarrow> (\<exists>realm versions s0 xs. realm_reachable d realm \<and> new_registry realm versions = Inr s0
     \<and> admissible er_ok (er_step d) xs s0 \<and> s = run_ops (er_step d) xs s0)"

lemma ext_reachable_inv: "ext_reachable d s \<Longrightarrow> ext_inv s"
  unfolding ext_reachable_def using registry.run_inv new_registry_inv realm_reachable_inv by blast

lemma registry_run_before:
  "ext_inv s \<Longrightarrow> admissible er_ok (er_step d) xs s \<Longrightarrow> ext_before s (run_ops (er_step d) xs s)"
  using registry_authority.run_grows [of d xs s] by (simp add: ext_grows_def)

section \<open>The decisions of a call\<close>

lemma authorizeExtension_Inr:
  "authorizeExtension now auth operation c resource effect s = (Inr e, t)
     \<Longrightarrow> realm_allows (now, asPolicyInput auth operation c resource effect) (er_realm s)
       \<and> t = s\<lparr>er_realm := realm_observes (now, asPolicyInput auth operation c resource effect) (er_realm s)\<rparr>"
  by (cases "evaluate now (asPolicyInput auth operation c resource effect) (er_realm s)" rule: void.cases)
     (auto simp: authorizeExtension_def realm_allows_def realm_observes_def return_def raise_def split: if_splits)

lemma authorizeExtension_allowed:
  assumes "realm_allows (now, asPolicyInput auth operation c resource effect) (er_realm s)"
  shows "\<exists>e. authorizeExtension now auth operation c resource effect s
     = (Inr e, s\<lparr>er_realm := realm_observes (now, asPolicyInput auth operation c resource effect) (er_realm s)\<rparr>)"
  using assms
  by (cases "evaluate now (asPolicyInput auth operation c resource effect) (er_realm s)" rule: void.cases)
     (auto simp: authorizeExtension_def realm_allows_def realm_observes_def return_def)

text \<open>The questions an invocation asks, and those of an installation about its capabilities.\<close>

definition invocation_question :: "int \<Rightarrow> InvokeExtensionInput \<Rightarrow> Capability \<Rightarrow> int \<times> PolicyEvaluationInput" where
  "invocation_question now input c = (now, asPolicyInput (xv_authorization input) (invoke_operation input c) c (xv_resource input)
     (matching_effect (xv_requestedEffects input) c))"

definition grant_question :: "int \<Rightarrow> ExtensionAuthorization \<Rightarrow> string list \<Rightarrow> Capability \<Rightarrow> int \<times> PolicyEvaluationInput" where
  "grant_question now auth effects c = (now, asPolicyInput auth (''extension.grant.'' @ capability_text c) c (xa_resource auth)
     (Some (nullish (matching_effect effects c) (capability_text c))))"

lemma authorize_invocation_asks:
  "(\<exists>es' t. authorize_invocation now input cs es s = (Inr es', t))
     \<longleftrightarrow> realm_policy.decide_all (map (invocation_question now input) cs) (er_realm s)"
proof (induction now input cs es s rule: authorize_invocation.induct)
  case (2 now input c cs es s)
  let ?x = "authorizeExtension now (xv_authorization input) (invoke_operation input c) c (xv_resource input)
    (matching_effect (xv_requestedEffects input) c) s"
  show ?case
  proof (cases "realm_allows (invocation_question now input c) (er_realm s)")
    case True
    then obtain e where x: "?x = (Inr e, s\<lparr>er_realm := realm_observes (invocation_question now input c) (er_realm s)\<rparr>)"
      using authorizeExtension_allowed [of now "xv_authorization input" "invoke_operation input c"] unfolding invocation_question_def by blast
    with True "2.IH" [OF x [symmetric] refl] show ?thesis by simp
  next
    case False
    then have "\<not> (\<exists>e t. ?x = (Inr e, t))" by (auto simp: invocation_question_def dest: authorizeExtension_Inr)
    with False show ?thesis
      by (cases ?x rule: void.cases) (auto split: ExtensionFailure.splits option.splits)
  qed
qed simp

lemma authorize_grants_asks:
  "(\<exists>t. authorize_grants now auth effects cs s = (Inr (), t))
     \<longleftrightarrow> realm_policy.decide_all (map (grant_question now auth effects) cs) (er_realm s)"
proof (induction now auth effects cs s rule: authorize_grants.induct)
  case (2 now auth effects c cs s)
  let ?x = "authorizeExtension now auth (''extension.grant.'' @ capability_text c) c (xa_resource auth)
    (Some (nullish (matching_effect effects c) (capability_text c))) s"
  show ?case
  proof (cases "realm_allows (grant_question now auth effects c) (er_realm s)")
    case True
    then obtain e where x: "?x = (Inr e, s\<lparr>er_realm := realm_observes (grant_question now auth effects c) (er_realm s)\<rparr>)"
      using authorizeExtension_allowed [of now auth "''extension.grant.'' @ capability_text c"] unfolding grant_question_def by blast
    with True "2.IH" show ?thesis by simp
  next
    case False
    then have "\<not> (\<exists>e t. ?x = (Inr e, t))" by (auto simp: grant_question_def dest: authorizeExtension_Inr)
    with False show ?thesis by (cases ?x rule: void.cases) auto
  qed
qed simp

section \<open>A registry for the examples\<close>

text \<open>Alice takes a Grant for extensions, registers and installs a linter for the Realm, and revokes the Grant.\<close>

definition demo_extension_grant :: CreateTaskGrantInput where
  "demo_extension_grant = demo_human_grant\<lparr>cgi_actions := [ExtensionInstall, ExtensionManage, RunInvoke],
     cgi_effects := Some [''extension.install'', ''extension.replace'', ''extension.revoked'', ''run.invoke'']\<rparr>"

definition demo_extension_auth :: ExtensionAuthorization where
  "demo_extension_auth = \<lparr>xa_principalId = ''alice'', xa_actorId = opaqueId ''actor'' ''1'', xa_clientId = ''client:anyam-web'',
     xa_sessionId = opaqueId ''session'' ''1'', xa_taskId = opaqueId ''task'' ''1'', xa_grantId = opaqueId ''grant'' ''5'',
     xa_resource = whole_realm ''r'', xa_modelProvider = None, xa_requiredAuthStrength = None, xa_authorityClass = None,
     xa_promotionId = None, xa_approval = None\<rparr>"

definition demo_manifest :: ExtensionManifest where
  "demo_manifest = \<lparr>em_protocol = extension_protocol, em_id = ''lint'', em_name = ''Lint'', em_version = ''1'', em_kind = ''action'',
     em_trust = ''unverified'', em_source = ''reg'', em_digest = ''sha256:a'', em_requestedEffects = [''lint''], em_requestedCapabilities = [''run.invoke''],
     em_lifecycle = ExtProposed, em_compatibility = [''anyam.kernel/v1'', extension_protocol],
     em_provenance = \<lparr>pv_source = ''reg'', pv_publisher = ''acme'', pv_signer = None, pv_attestation = None, pv_receipt = ''x''\<rparr>,
     em_deprecationReason = None\<rparr>"

definition demo_install :: InstallExtensionInput where
  "demo_install = \<lparr>xi_manifestId = ''lint'', xi_manifestVersion = ''1'', xi_packageDigest = ''sha256:a'', xi_scope = RealmScope ''r'',
     xi_grantedEffects = [''lint''], xi_grantedCapabilities = [RunInvoke], xi_authorization = demo_extension_auth,
     xi_replacesInstallationId = None, xi_providerMigrationFrom = None\<rparr>"

definition demo_installation :: string where
  "demo_installation = opaqueId ''extension-installation'' ''i1''"

definition demo_invocation :: "Capability list \<Rightarrow> InvokeExtensionInput" where
  "demo_invocation cs = \<lparr>xv_installationId = demo_installation, xv_requestedEffects = [''lint''], xv_requestedCapabilities = cs,
     xv_resource = whole_realm ''r'', xv_authorization = demo_extension_auth, xv_operation = None\<rparr>"

definition demo_empty_registry :: ExtensionRegistry where
  "demo_empty_registry = (case new_registry demo_realm None of Inl _ \<Rightarrow> undefined | Inr s \<Rightarrow> s)"

definition demo_installing :: "er_op list" where
  "demo_installing = [RealmCall (OpCreateCapabilityGrant 0 (demo_ids ''5'') demo_extension_grant),
     RegisterManifest \<lparr>rxi_manifest = demo_manifest, rxi_packageDigest = ''sha256:a''\<rparr>, InstallExtension 1 (\<lambda>n. ''i1'') demo_install]"

definition demo_registry :: ExtensionRegistry where
  "demo_registry = run_ops (er_step id) demo_installing demo_empty_registry"

definition demo_closing :: "er_op list" where
  "demo_closing = [RealmCall (OpRevokeGrant (opaqueId ''grant'' ''5''))]"

definition demo_closed_registry :: ExtensionRegistry where
  "demo_closed_registry = run_ops (er_step id) demo_closing demo_registry"

definition invocation_status :: "int \<Rightarrow> InvokeExtensionInput \<Rightarrow> ExtensionRegistry \<Rightarrow> ExtensionInvocationStatus option" where
  "invocation_status now input s = (case fst (invokeExtension now input s) of Inl _ \<Rightarrow> None | Inr r \<Rightarrow> Some (xr_status r))"

lemma demo_empty_registry_ok: "new_registry demo_realm None = Inr demo_empty_registry"
proof -
  have "\<not> blank ''anyam.kernel/v1''" by code_simp
  then show ?thesis by (simp add: demo_empty_registry_def new_registry_def values_error_def fail_if_def)
qed

lemma demo_installing_admissible: "admissible er_ok (er_step id) demo_installing demo_empty_registry"
  by code_simp

lemma demo_registry_reachable: "ext_reachable id demo_registry"
  unfolding ext_reachable_def demo_registry_def using demo_reachable demo_empty_registry_ok demo_installing_admissible by blast

lemma demo_has_installation: "has_key (er_installations demo_registry) demo_installation"
  by code_simp

lemma demo_invocation_runs: "invocation_status 2 (demo_invocation [RunInvoke]) demo_registry = Some InvocationAllowed"
  by code_simp

lemma demo_effects_only: "invocation_status 2 (demo_invocation []) demo_closed_registry = Some InvocationAllowed"
  by code_simp

section \<open>Properties\<close>

lemma installed_Inr:
  "installed s k = Inr (i, m) \<longleftrightarrow> get_key (er_installations s) k = Some i
     \<and> getManifest s (ei_manifestId i) (Some (ei_manifestVersion i)) (Some (ei_manifestDigest i)) = Some m"
  by (auto simp: installed_def loop_simps requireInstallation_Inr requireManifest_def split: option.splits)

text \<open>The pin of an installation leads to one manifest.\<close>

lemma installed_pinned:
  assumes inv: "ext_inv s" and i: "get_key (er_installations s) k = Some i"
  shows "\<exists>m. installed s k = Inr (i, m) \<and> get_key (er_manifests s) (manifest_key m) = Some m \<and> pins_manifest i m \<and> within_manifest i m"
proof -
  obtain m where m: "get_key (er_manifests s) (manifest_key m) = Some m" "pins_manifest i m" "within_manifest i m"
    using ext_inv_installation [OF inv i] by (auto simp: installation_ok_def)
  have full: "truthy (Some (ei_manifestVersion i))" "truthy (Some (ei_manifestDigest i))"
    using ext_inv_manifest [OF inv m(1)] m(2) by (auto simp: manifest_ok_def pins_manifest_def truthy_iff)
  let ?P = "\<lambda>x. (em_id x = ei_manifestId i \<and> em_version x = ei_manifestVersion i) \<and> em_digest x = ei_manifestDigest i"
  have get: "getManifest s (ei_manifestId i) (Some (ei_manifestVersion i)) (Some (ei_manifestDigest i))
      = (case filter ?P (map_values (er_manifests s)) of [] \<Rightarrow> None | x # _ \<Rightarrow> Some x)"
    using full by (simp add: getManifest_def conj_ac)
  have "m \<in> set (filter ?P (map_values (er_manifests s)))"
    using m mem_manifests [OF inv] by (simp add: pins_manifest_def)
  then have "filter ?P (map_values (er_manifests s)) \<noteq> []" by (metis empty_iff empty_set)
  then obtain x xs where x: "filter ?P (map_values (er_manifests s)) = x # xs" by (meson neq_Nil_conv)
  then have "x \<in> set (map_values (er_manifests s)) \<and> ?P x" by (rule filter_ConsD)
  then have "x = m"
    using inv m mem_manifests [OF inv, of x] unfolding ext_inv_def one_digest_def pins_manifest_def by metis
  with get x m i show ?thesis by (auto simp: installed_Inr)
qed

text \<open>
  C10. In every state the registry reaches, an installation is served by the one manifest it pins by id, version
  and digest, is in the Realm of the registry, and holds only effects and capabilities that manifest requests;
  it never holds \<open>canonical.write\<close>, and nothing of high risk when the manifest is unverified.
\<close>

theorem extension_trust_boundary:
  assumes "ext_reachable d s" "get_key (er_installations s) k = Some i"
  shows "\<exists>m. installed s k = Inr (i, m) \<and> em_id m = ei_manifestId i \<and> em_version m = ei_manifestVersion i \<and> em_digest m = ei_manifestDigest i
     \<and> set (ei_grantedEffects i) \<subseteq> set (em_requestedEffects m) \<and> set (ei_grantedCapabilities i) \<subseteq> set (em_requestedCapabilities m)
     \<and> ''canonical.write'' \<notin> set (ei_grantedEffects i) \<and> scope_realmId (ei_scope i) = realmId (er_realm s)
     \<and> (em_trust m = ''unverified'' \<longrightarrow> set (ei_grantedEffects i @ ei_grantedCapabilities i) \<inter> set HIGH_RISK_EFFECTS = {})"
proof -
  have inv: "ext_inv s" by (rule ext_reachable_inv [OF assms(1)])
  obtain m where m: "installed s k = Inr (i, m)" "get_key (er_manifests s) (manifest_key m) = Some m" "pins_manifest i m" "within_manifest i m"
    using installed_pinned [OF inv assms(2)] by blast
  have "unverifiedHighRisk m = []"
    using ext_inv_manifest [OF inv m(2)] m(4) by (auto simp: manifest_ok_def within_manifest_def)
  then have "set (ei_grantedEffects i @ ei_grantedCapabilities i) \<inter> set HIGH_RISK_EFFECTS = {}" if "em_trust m = ''unverified''"
    using m(4) that by (auto simp: unverifiedHighRisk_def highRisk_def within_manifest_def filter_empty_conv)
  with m ext_inv_installation [OF inv assms(2)] show ?thesis
    by (auto simp: pins_manifest_def within_manifest_def installation_ok_def)
qed

theorem extension_trust_boundary_witness:
  "\<exists>i m. installed demo_registry demo_installation = Inr (i, m) \<and> set (ei_grantedEffects i) \<subseteq> set (em_requestedEffects m)"
proof -
  obtain i where "get_key (er_installations demo_registry) demo_installation = Some i"
    using demo_has_installation by (auto simp: has_key_def)
  from extension_trust_boundary [OF demo_registry_reachable this] show ?thesis by blast
qed

text \<open>When an invocation is not blocked.\<close>

definition invocation_admitted :: "int \<Rightarrow> InvokeExtensionInput \<Rightarrow> ExtensionRegistry \<Rightarrow> bool" where
  "invocation_admitted now input s \<longleftrightarrow> (\<exists>i m. installed s (xv_installationId input) = Inr (i, m) \<and> ei_lifecycle i = ExtEnabled
     \<and> scopeContains (ei_scope i) (xv_resource input)
     \<and> set (xv_requestedEffects input) \<subseteq> set (ei_grantedEffects i) \<inter> set (em_requestedEffects m)
     \<and> capability_text ` set (xv_requestedCapabilities input) \<subseteq> set (ei_grantedCapabilities i) \<inter> set (em_requestedCapabilities m)
     \<and> SecretValueRead \<notin> set (xv_requestedCapabilities input)
     \<and> \<not> list_ex blank (xv_requestedEffects input @ map capability_text (xv_requestedCapabilities input))
     \<and> \<not> has_duplicates (xv_requestedEffects input) \<and> \<not> has_duplicates (map capability_text (xv_requestedCapabilities input))
     \<and> list_all (\<lambda>c. realm_allows (invocation_question now input c) (er_realm s)) (xv_requestedCapabilities input))"

lemma authorize_invocation_iff:
  "(\<exists>es' t. authorize_invocation now input cs es s = (Inr es', t))
     \<longleftrightarrow> list_all (\<lambda>c. realm_allows (invocation_question now input c) (er_realm s)) cs"
  by (simp add: authorize_invocation_asks realm_policy.decide_all_iff list_all_iff)

lemma values_error_None: "values_error xs field = None \<longleftrightarrow> \<not> list_ex blank xs \<and> \<not> has_duplicates xs"
  by (auto simp: values_error_def loop_simps)

text \<open>What the code checks before it asks the policy.\<close>

definition invocation_ready :: "InvokeExtensionInput \<Rightarrow> ExtensionRegistry \<Rightarrow> ExtensionInstallation \<Rightarrow> ExtensionManifest \<Rightarrow> bool" where
  "invocation_ready input s i m \<longleftrightarrow> installed s (xv_installationId input) = Inr (i, m) \<and> values_error (xv_requestedEffects input) ''requestedEffects'' = None
     \<and> values_error (map capability_text (xv_requestedCapabilities input)) ''requestedCapabilities'' = None \<and> \<not> invocation_blocked input i m"

lemma not_blocked_iff:
  "\<not> invocation_blocked input i m \<longleftrightarrow> ei_lifecycle i = ExtEnabled \<and> scopeContains (ei_scope i) (xv_resource input)
     \<and> set (xv_requestedEffects input) \<subseteq> set (ei_grantedEffects i) \<inter> set (em_requestedEffects m)
     \<and> capability_text ` set (xv_requestedCapabilities input) \<subseteq> set (ei_grantedCapabilities i) \<inter> set (em_requestedCapabilities m)
     \<and> SecretValueRead \<notin> set (xv_requestedCapabilities input)"
  by (auto simp: invocation_blocked_def list_ex_iff subset_iff)

lemma admitted_iff_ready:
  "invocation_admitted now input s \<longleftrightarrow> (\<exists>i m. invocation_ready input s i m)
     \<and> list_all (\<lambda>c. realm_allows (invocation_question now input c) (er_realm s)) (xv_requestedCapabilities input)"
  unfolding invocation_admitted_def invocation_ready_def values_error_None not_blocked_iff list_ex_append de_Morgan_disj
  by (intro iffI; elim exE conjE; intro exI conjI; assumption)

lemma invoke_not_ready:
  assumes "invokeExtension now input s = (Inr r, t)" "xr_status r \<noteq> InvocationBlocked"
  shows "\<exists>i m. invocation_ready input s i m"
  using assms
  by (auto simp: invokeExtension_def invocation_ready_def loop_simps blockedInvocation_def invocation_result_def
      split: sum.splits prod.splits if_splits)

lemma invoke_ready:
  assumes "invocation_ready input s i m"
  shows "invokeExtension now input s = (case authorize_invocation now input (xv_requestedCapabilities input) [] s of
      (Inl es, t) \<Rightarrow> blockedInvocation input i es t
    | (Inr es, t) \<Rightarrow> (let proposal = list_ex (\<lambda>c. c \<in> set KERNEL_AUTHORITY_CAPABILITIES) (xv_requestedCapabilities input)
        in return (invocation_result (if proposal then InvocationProposal else InvocationAllowed) input i es)
             (installation_event (if proposal then EvInvocationProposed else EvInvoked) i (xv_authorization input) t)))"
  using assms by (simp add: invokeExtension_def invocation_ready_def loop_simps)

lemma invoke_status:
  "(\<exists>r t. invokeExtension now input s = (Inr r, t) \<and> xr_status r \<noteq> InvocationBlocked \<and> xr_status r = st)
     \<longleftrightarrow> invocation_admitted now input s
       \<and> st = (if list_ex (\<lambda>c. c \<in> set KERNEL_AUTHORITY_CAPABILITIES) (xv_requestedCapabilities input) then InvocationProposal else InvocationAllowed)"
proof (cases "\<exists>i m. invocation_ready input s i m")
  case True
  then obtain i m where ready: "invocation_ready input s i m" by blast
  let ?a = "authorize_invocation now input (xv_requestedCapabilities input) [] s"
  have "invocation_admitted now input s \<longleftrightarrow> (\<exists>es t. ?a = (Inr es, t))"
    using True by (simp add: admitted_iff_ready authorize_invocation_iff)
  then show ?thesis
    unfolding invoke_ready [OF ready]
    by (cases ?a rule: void.cases) (auto simp: Let_def return_def blockedInvocation_def invocation_result_def)
next
  case False
  then show ?thesis using invoke_not_ready by (fastforce simp: admitted_iff_ready)
qed

text \<open>
  An invocation is carried out exactly when the installation and its manifest are there and it is enabled,
  the resource is in its scope, the effects and capabilities asked for are without blanks and duplicates, among
  those granted and those the manifest requests, without \<open>secret.value.read\<close>, and the Realm policy allows each
  capability in the state the call starts in. It is only a proposal when, and only when, one of them is an
  authority of the kernel.
\<close>

theorem invokeExtension_runs_iff:
  "((\<exists>r t. invokeExtension now input s = (Inr r, t) \<and> xr_status r = InvocationAllowed)
      \<longleftrightarrow> invocation_admitted now input s \<and> set (xv_requestedCapabilities input) \<inter> set KERNEL_AUTHORITY_CAPABILITIES = {})
   \<and> ((\<exists>r t. invokeExtension now input s = (Inr r, t) \<and> xr_status r = InvocationProposal)
      \<longleftrightarrow> invocation_admitted now input s \<and> set (xv_requestedCapabilities input) \<inter> set KERNEL_AUTHORITY_CAPABILITIES \<noteq> {})"
  using invoke_status [of now input s InvocationAllowed] invoke_status [of now input s InvocationProposal]
  by (auto simp: list_ex_iff split: if_splits)

lemma realm_allows_live:
  assumes "realm_allows (now, input) s"
  shows "sessionChainIsActive now s [] (pei_sessionId input) \<and> (\<exists>i. pei_grantId input = Some i \<and> grantChainIsActive now s [] i)"
proof -
  obtain c where "passes (collect_verdict now input c s)" using assms evaluate_allowedD by (fastforce simp: realm_allows_iff)
  then show ?thesis by (auto simp: collect_passes session_check_passes grant_check_passes)
qed

text \<open>Closed for an authorization: its Session or its Grant is there and not active.\<close>

definition authority_closed :: "int \<Rightarrow> ExtensionAuthorization \<Rightarrow> RealmState \<Rightarrow> bool" where
  "authority_closed now auth s \<longleftrightarrow> has_key (rs_sessions s) (xa_sessionId auth) \<and> \<not> sessionChainIsActive now s [] (xa_sessionId auth)
     \<or> has_key (rs_grants s) (xa_grantId auth) \<and> \<not> grantChainIsActive now s [] (xa_grantId auth)"

lemma admitted_open:
  assumes "invocation_admitted now input s"
  shows "(\<exists>i. get_key (er_installations s) (xv_installationId input) = Some i \<and> ei_lifecycle i = ExtEnabled)
     \<and> (xv_requestedCapabilities input \<noteq> [] \<longrightarrow> sessionChainIsActive now (er_realm s) [] (xa_sessionId (xv_authorization input))
          \<and> grantChainIsActive now (er_realm s) [] (xa_grantId (xv_authorization input)))"
proof -
  have "sessionChainIsActive now (er_realm s) [] (xa_sessionId (xv_authorization input))
      \<and> grantChainIsActive now (er_realm s) [] (xa_grantId (xv_authorization input))" if "c \<in> set (xv_requestedCapabilities input)" for c
  proof -
    have "realm_allows (invocation_question now input c) (er_realm s)"
      using assms that by (auto simp: invocation_admitted_def list_all_iff)
    from realm_allows_live [OF this [unfolded invocation_question_def]] show ?thesis by (simp add: asPolicyInput_def)
  qed
  moreover have "\<exists>i. get_key (er_installations s) (xv_installationId input) = Some i \<and> ei_lifecycle i = ExtEnabled"
    using assms by (auto simp: invocation_admitted_def installed_Inr)
  ultimately show ?thesis using list.set_sel(1) by blast
qed



section \<open>Where the code falls short\<close>

text \<open>
  An invocation that asks for effects and no capability is not put to the policy: its result does not depend on
  the Realm at all. The revoked Grant of the example still carries one out.
\<close>

theorem effects_only_asks_no_policy:
  assumes "xv_requestedCapabilities input = []"
  shows "invocation_status now input (s\<lparr>er_realm := r\<rparr>) = invocation_status now input s"
proof -
  have "installed (s\<lparr>er_realm := r\<rparr>) k = installed s k" for k
    by (simp add: installed_def requireInstallation_def requireManifest_def getManifest_def)
  then show ?thesis
    using assms
    by (auto simp: invocation_status_def invokeExtension_def blockedInvocation_def invocation_result_def Let_def return_def raise_def
        split: sum.split prod.split)
qed

theorem effects_only_asks_no_policy_witness:
  "invocation_status 2 (demo_invocation []) demo_closed_registry = Some InvocationAllowed
     \<and> invocation_status 2 (demo_invocation [])
         (demo_closed_registry\<lparr>er_realm := snd (activateRealmPolicy ''v2'' (er_realm demo_closed_registry))\<rparr>) = Some InvocationAllowed"
  using demo_effects_only effects_only_asks_no_policy [of "demo_invocation []"] by (simp add: demo_invocation_def)

text \<open>
  A replacement does not look at the state of the installation it replaces. Alice revokes the linter and replaces
  it: the replacement is enabled, in the lineage that was revoked.
\<close>

definition demo_transition :: ExtensionTransitionInput where
  "demo_transition = \<lparr>xt_installationId = demo_installation, xt_authorization = demo_extension_auth\<rparr>"

definition demo_replacement :: ReplaceExtensionInput where
  "demo_replacement = \<lparr>xp_installationId = demo_installation, xp_replacement = ReplacementInput.truncate demo_install,
     xp_authorization = demo_extension_auth, xp_providerMigration = None\<rparr>"

definition lifecycles :: "ExtensionRegistry \<Rightarrow> (ExtensionLifecycle \<times> string) list" where
  "lifecycles s = map (\<lambda>i. (ei_lifecycle i, ei_lineageId i)) (map_values (er_installations s))"

definition demo_revoked_registry :: ExtensionRegistry where
  "demo_revoked_registry = run_ops (er_step id) [RevokeExtension 2 demo_transition] demo_registry"

lemma demo_revoked_lineage: "lifecycles demo_revoked_registry = [(ExtRevoked, opaqueId ''extension-lineage'' ''i1'')]"
  by code_simp

theorem replacement_revives_revoked_lineage:
  "lifecycles (run_ops (er_step id) [ReplaceExtension 3 (\<lambda>n. ''i2'') demo_replacement] demo_revoked_registry)
     = [(ExtReplaced, opaqueId ''extension-lineage'' ''i1''), (ExtEnabled, opaqueId ''extension-lineage'' ''i1'')]"
  by code_simp

end
