(* ===== verification/Stable_Json.thy ===== *)
theory Stable_Json
  imports Prelude
begin

text \<open>
  \<open>stableJson\<close> of \<open>src/src/execution/runner.ts\<close> and \<open>runner-proof.ts\<close> (the same function is written out in
  several files of the repository): the text that is hashed into manifest and result digests and signed by a
  Runner. Keys are sorted by code units, which is the order of \<open>sort()\<close> without a comparator. The numbers of
  the model are integers; the sources hash integers below 2^53 only, which \<open>JSON.stringify\<close> writes in decimal.

  The lemmas end in \<open>stableJson_eq_iff\<close>: two values have the same text exactly when they are equal up to the
  order of the keys of their objects, so that a digest or a signature over the text binds the whole value.
\<close>

section \<open>The text\<close>

definition hex_digit :: "nat \<Rightarrow> char" where
  "hex_digit n = char_of (if n < 10 then 48 + n else 87 + n)"

definition json_char :: "char \<Rightarrow> string" where
  "json_char c =
     (if c = CHR 0x22 then [CHR 0x5C, CHR 0x22]
      else if c = CHR 0x5C then [CHR 0x5C, CHR 0x5C]
      else if c = CHR 0x08 then [CHR 0x5C, CHR ''b'']
      else if c = CHR 0x09 then [CHR 0x5C, CHR ''t'']
      else if c = CHR 0x0A then [CHR 0x5C, CHR ''n'']
      else if c = CHR 0x0C then [CHR 0x5C, CHR ''f'']
      else if c = CHR 0x0D then [CHR 0x5C, CHR ''r'']
      else if of_char c < (32 :: nat)
        then [CHR 0x5C, CHR ''u'', CHR ''0'', CHR ''0'', hex_digit (of_char c div 16), hex_digit (of_char c mod 16)]
      else [c])"

definition json_string :: "string \<Rightarrow> string" where
  "json_string s = CHR 0x22 # concat (map json_char s) @ [CHR 0x22]"

definition show_int :: "int \<Rightarrow> string" where
  "show_int n = (if n < 0 then ''-'' @ show_nat (nat (- n)) else show_nat (nat n))"

definition json_member :: "string \<times> string \<Rightarrow> string" where
  "json_member m = json_string (fst m) @ '':'' @ snd m"

fun stableJson :: "js_value \<Rightarrow> string"
  and stable_elements :: "js_value list \<Rightarrow> string list"
  and stable_members :: "(string \<times> js_value) list \<Rightarrow> (string \<times> string) list" where
  "stableJson JUndefined = ''undefined''"
| "stableJson JNull = ''null''"
| "stableJson (JBool b) = (if b then ''true'' else ''false'')"
| "stableJson (JNumber n) = show_int n"
| "stableJson (JString s) = json_string s"
| "stableJson (JArray vs) = ''['' @ join_with '','' (stable_elements vs) @ '']''"
| "stableJson (JObject fs) = ''{'' @ join_with '','' (map json_member (sort_key fst (stable_members fs))) @ ''}''"
| "stable_elements [] = []"
| "stable_elements (v # vs) = stableJson v # stable_elements vs"
| "stable_members [] = []"
| "stable_members (m # ms) = (fst m, stableJson (snd m)) # stable_members ms"

text \<open>The value with the keys of every object sorted.\<close>

fun sorted_json :: "js_value \<Rightarrow> js_value"
  and sorted_elements :: "js_value list \<Rightarrow> js_value list"
  and sorted_members :: "(string \<times> js_value) list \<Rightarrow> (string \<times> js_value) list" where
  "sorted_json (JArray vs) = JArray (sorted_elements vs)"
| "sorted_json (JObject fs) = JObject (sort_key fst (sorted_members fs))"
| "sorted_json v = v"
| "sorted_elements [] = []"
| "sorted_elements (v # vs) = sorted_json v # sorted_elements vs"
| "sorted_members [] = []"
| "sorted_members (m # ms) = (fst m, sorted_json (snd m)) # sorted_members ms"

section \<open>The same text without sorting, and how it is read back\<close>

fun plain_json :: "js_value \<Rightarrow> string"
  and plain_elements :: "js_value list \<Rightarrow> string"
  and plain_members :: "(string \<times> js_value) list \<Rightarrow> string" where
  "plain_json JUndefined = ''undefined''"
| "plain_json JNull = ''null''"
| "plain_json (JBool b) = (if b then ''true'' else ''false'')"
| "plain_json (JNumber n) = show_int n"
| "plain_json (JString s) = json_string s"
| "plain_json (JArray vs) = CHR ''['' # (case vs of [] \<Rightarrow> '']'' | v # vs' \<Rightarrow> plain_json v @ plain_elements vs')"
| "plain_json (JObject fs) = CHR ''{'' # (case fs of [] \<Rightarrow> ''}''
     | m # ms \<Rightarrow> json_string (fst m) @ CHR '':'' # plain_json (snd m) @ plain_members ms)"
| "plain_elements [] = '']''"
| "plain_elements (v # vs) = CHR '','' # plain_json v @ plain_elements vs"
| "plain_members [] = ''}''"
| "plain_members (m # ms) = CHR '','' # json_string (fst m) @ CHR '':'' # plain_json (snd m) @ plain_members ms"

text \<open>What may follow a value: nothing, a comma or a closing bracket.\<close>

definition delimited :: "string \<Rightarrow> bool" where
  "delimited r \<longleftrightarrow> r = [] \<or> hd r \<in> set '',]}''"

lemma delimited_simps [simp]:
  "delimited []" "delimited (c # r) \<longleftrightarrow> c \<in> set '',]}''"
  by (auto simp: delimited_def)

subsection \<open>Characters and strings\<close>

definition read_hex :: "char \<Rightarrow> nat" where
  "read_hex c = (if of_char c < (58 :: nat) then of_char c - 48 else of_char c - 87)"

fun read_char :: "string \<Rightarrow> (char \<times> string) option" where
  "read_char [] = None"
| "read_char (c # r) =
     (if c \<noteq> CHR 0x5C then Some (c, r)
      else (case r of
          [] \<Rightarrow> None
        | d # r' \<Rightarrow>
            (if d = CHR ''b'' then Some (CHR 0x08, r') else if d = CHR ''t'' then Some (CHR 0x09, r')
             else if d = CHR ''n'' then Some (CHR 0x0A, r') else if d = CHR ''f'' then Some (CHR 0x0C, r')
             else if d = CHR ''r'' then Some (CHR 0x0D, r')
             else if d = CHR ''u'' then Some (char_of (16 * read_hex (r' ! 2) + read_hex (r' ! 3)), drop 4 r')
             else Some (d, r'))))"

lemma read_hex_digit: "n < 16 \<Longrightarrow> read_hex (hex_digit n) = n"
  by (auto simp: read_hex_def hex_digit_def)

lemma read_json_char: "read_char (json_char c @ r) = Some (c, r)"
proof -
  have "16 * (of_char c div 16) + of_char c mod 16 = (of_char c :: nat)" by simp
  then show ?thesis
    by (auto simp: json_char_def read_hex_digit numeral_eq_Suc [of num.One] simp del: mult_div_mod_eq)
qed

lemma json_char_inject: "json_char c @ r = json_char d @ s \<longleftrightarrow> c = d \<and> r = s"
proof
  assume "json_char c @ r = json_char d @ s"
  then have "read_char (json_char c @ r) = read_char (json_char d @ s)" by (rule arg_cong)
  then show "c = d \<and> r = s" by (simp only: read_json_char option.inject prod.inject)
qed simp

lemma json_char_not_quote [simp]: "json_char c @ r \<noteq> CHR 0x22 # s" "CHR 0x22 # s \<noteq> json_char c @ r"
  by (simp_all add: json_char_def)

lemma chars_inject:
  "concat (map json_char s) @ CHR 0x22 # r = concat (map json_char t) @ CHR 0x22 # r' \<longleftrightarrow> s = t \<and> r = r'"
proof (induction s arbitrary: t)
  case Nil
  show ?case by (cases t) simp_all
next
  case (Cons c s)
  show ?case by (cases t) (simp_all add: json_char_inject Cons.IH)
qed

lemma json_string_inject: "json_string s @ r = json_string t @ r' \<longleftrightarrow> s = t \<and> r = r'"
  by (simp add: json_string_def chars_inject)

subsection \<open>Numbers\<close>

lemma digit_char_range: "n < 10 \<Longrightarrow> digit_char n \<in> set ''0123456789''"
proof -
  assume "n < 10"
  have "list_all (\<lambda>n. digit_char n \<in> set ''0123456789'') [0..<10]" by code_simp
  with \<open>n < 10\<close> show ?thesis by (simp add: list_all_iff)
qed

lemma show_nat_digits: "set (show_nat n) \<subseteq> set ''0123456789''"
proof (induction n rule: show_nat.induct)
  case (1 n)
  then show ?case using digit_char_range by (subst show_nat.simps) (auto simp del: digit_char.simps)
qed

definition read_nat :: "string \<Rightarrow> nat" where
  "read_nat s = foldl (\<lambda>n c. 10 * n + (of_char c - 48)) 0 s"

lemma read_show_nat: "read_nat (show_nat n) = n"
proof (induction n rule: show_nat.induct)
  case (1 n)
  then show ?case by (subst show_nat.simps) (auto simp: read_nat_def)
qed

lemma show_nat_nonempty: "show_nat n \<noteq> []"
  by (subst show_nat.simps) simp

lemma show_int_inject: "show_int m = show_int n \<longleftrightarrow> m = n"
proof
  assume eq: "show_int m = show_int n"
  have neg: "show_nat k \<noteq> CHR ''-'' # r" for k r
    using show_nat_digits [of k] by auto
  have pos: "nat a = nat b" if "show_nat (nat a) = show_nat (nat b)" for a b
    using that by (metis read_show_nat)
  show "m = n"
    using eq neg neg [symmetric] pos [of m n] pos [of "- m" "- n"] by (auto simp: show_int_def split: if_splits)
qed simp

lemma show_int_chars: "set (show_int n) \<subseteq> set ''-0123456789''"
proof -
  have "set (show_nat k) \<subseteq> set ''-0123456789''" for k
    by (rule subset_trans [OF show_nat_digits]) (simp add: subset_insertI)
  then show ?thesis by (simp add: show_int_def)
qed

lemma show_int_prefix:
  assumes "show_int m @ r = show_int n @ s" "delimited r" "delimited s"
  shows "m = n \<and> r = s"
proof -
  let ?P = "\<lambda>c. c \<in> set ''-0123456789''"
  have stop: "takeWhile ?P (show_int k @ t) = show_int k" if "delimited t" for k t
  proof -
    have "takeWhile ?P t = []" using that by (cases t) auto
    moreover have "\<forall>c\<in>set (show_int k). ?P c" using show_int_chars by blast
    ultimately show ?thesis by (simp add: takeWhile_append2)
  qed
  with assms have "show_int m = show_int n" by metis
  with assms(1) show ?thesis by (simp add: show_int_inject)
qed

lemma show_int_head: "show_int n @ r = c # t \<Longrightarrow> c \<in> set ''-0123456789''"
proof -
  assume eq: "show_int n @ r = c # t"
  have "show_int n \<noteq> []" using show_nat_nonempty by (simp add: show_int_def)
  then obtain cs where "show_int n = c # cs" using eq by (cases "show_int n") simp_all
  with show_int_chars [of n] show ?thesis by simp
qed

subsection \<open>Values\<close>

text \<open>The first character of a text tells the kind of the value.\<close>

fun json_kind :: "js_value \<Rightarrow> nat" where
  "json_kind JUndefined = 0"
| "json_kind JNull = 1"
| "json_kind (JBool b) = 2"
| "json_kind (JNumber n) = 3"
| "json_kind (JString s) = 4"
| "json_kind (JArray vs) = 5"
| "json_kind (JObject fs) = 6"

definition char_kind :: "char \<Rightarrow> nat" where
  "char_kind c = (if c = CHR ''u'' then 0 else if c = CHR ''n'' then 1 else if c = CHR ''t'' \<or> c = CHR ''f'' then 2
     else if c = CHR 0x22 then 4 else if c = CHR ''['' then 5 else if c = CHR ''{'' then 6 else 3)"

lemma plain_nonempty: "plain_json v \<noteq> []"
  using show_nat_nonempty by (cases v) (simp_all add: show_int_def json_string_def)

lemma plain_kind: "plain_json v @ r = c # t \<Longrightarrow> char_kind c = json_kind v"
proof (cases v)
  case (JNumber n)
  assume "plain_json v @ r = c # t"
  with JNumber have "c \<in> set ''-0123456789''" by (simp only: plain_json.simps show_int_head)
  then have "char_kind c = 3" by (auto simp: char_kind_def)
  with JNumber show ?thesis by simp
qed (auto simp: char_kind_def json_string_def split: if_splits)

lemma same_kind: "plain_json v @ r = plain_json w @ s \<Longrightarrow> json_kind v = json_kind w"
proof -
  assume eq: "plain_json v @ r = plain_json w @ s"
  obtain c t where "plain_json v = c # t" using plain_nonempty [of v] by (cases "plain_json v") auto
  then show ?thesis using plain_kind [of v r c "t @ r"] plain_kind [of w s c "t @ r"] eq by simp
qed

lemma delimited_elements [simp]: "delimited (plain_elements vs @ r)" "delimited (plain_members ms @ r)"
  by (cases vs; simp) (cases ms; simp)

lemma plain_not_bracket [simp]: "plain_json v @ r \<noteq> CHR '']'' # s" "CHR '']'' # s \<noteq> plain_json v @ r"
proof -
  have "json_kind v \<le> 6 \<and> char_kind (CHR '']'') = 3 \<and> CHR '']'' \<notin> set ''-0123456789''"
    by (cases v) (simp_all add: char_kind_def)
  then show "plain_json v @ r \<noteq> CHR '']'' # s"
    using plain_kind [of v r "CHR '']''" s] show_int_head by (cases v) auto
  then show "CHR '']'' # s \<noteq> plain_json v @ r" by metis
qed

lemma json_string_not_bracket [simp]: "json_string t @ r \<noteq> CHR ''}'' # s" "CHR ''}'' # s \<noteq> json_string t @ r"
  by (simp_all add: json_string_def)

lemma plain_prefix:
  "plain_json v @ r = plain_json w @ s \<Longrightarrow> delimited r \<Longrightarrow> delimited s \<Longrightarrow> v = w \<and> r = s"
  "plain_elements vs @ r = plain_elements ws @ s \<Longrightarrow> vs = ws \<and> r = s"
  "plain_members ms @ r = plain_members ns @ s \<Longrightarrow> ms = ns \<and> r = s"
proof (induction v and vs and ms arbitrary: w r s and ws r s and ns r s rule: plain_json_plain_elements_plain_members.induct)
  case 1
  from same_kind [OF 1(1)] 1 show ?case by (cases w) simp_all
next
  case 2
  from same_kind [OF 2(1)] 2 show ?case by (cases w) simp_all
next
  case (3 b)
  from same_kind [OF 3(1)] 3 show ?case by (cases w) (simp_all split: if_splits)
next
  case (4 n)
  from same_kind [OF 4(1)] obtain m where w: "w = JNumber m" by (cases w) simp_all
  with 4 show_int_prefix [of n r m s] show ?case by simp
next
  case (5 t)
  from same_kind [OF 5(1)] 5 show ?case by (cases w) (simp_all add: json_string_inject)
next
  case (6 vs)
  from same_kind [OF 6(3)] obtain us where w: "w = JArray us" by (cases w) simp_all
  show ?case
  proof (cases vs)
    case Nil
    with 6(3) w show ?thesis by (cases us) simp_all
  next
    case (Cons v vs')
    then obtain u us' where us: "us = u # us'" using 6(3) w by (cases us) simp_all
    with 6(3) w Cons have "plain_json v @ plain_elements vs' @ r = plain_json u @ plain_elements us' @ s" by simp
    from 6(1) [OF Cons this] have "v = u" "plain_elements vs' @ r = plain_elements us' @ s" by simp_all
    with 6(2) [OF Cons] us w Cons show ?thesis by simp
  qed
next
  case (7 ms)
  from same_kind [OF 7(3)] obtain ns where w: "w = JObject ns" by (cases w) simp_all
  show ?case
  proof (cases ms)
    case Nil
    with 7(3) w show ?thesis by (cases ns) simp_all
  next
    case (Cons m ms')
    then obtain n ns' where ns: "ns = n # ns'" using 7(3) w by (cases ns) simp_all
    with 7(3) w Cons have "fst m = fst n" "plain_json (snd m) @ plain_members ms' @ r = plain_json (snd n) @ plain_members ns' @ s"
      by (simp_all add: json_string_inject)
    moreover from 7(1) [OF Cons this(2)] have "snd m = snd n" "plain_members ms' @ r = plain_members ns' @ s" by simp_all
    ultimately show ?thesis using 7(2) [OF Cons] ns w Cons by (simp add: prod_eq_iff)
  qed
next
  case (8 ws)
  from 8(1) show ?case by (cases ws) simp_all
next
  case (9 v vs ws)
  from 9(3) obtain u us where ws: "ws = u # us" by (cases ws) simp_all
  with 9(3) have "plain_json v @ plain_elements vs @ r = plain_json u @ plain_elements us @ s" by simp
  with 9(1) [OF this] have "v = u" "plain_elements vs @ r = plain_elements us @ s" by simp_all
  with 9(2) [OF this(2)] ws show ?case by simp
next
  case (10 ns)
  from 10(1) show ?case by (cases ns) simp_all
next
  case (11 m ms ns)
  from 11(3) obtain n ns' where ns: "ns = n # ns'" by (cases ns) simp_all
  with 11(3) have eq: "fst m = fst n" "plain_json (snd m) @ plain_members ms @ r = plain_json (snd n) @ plain_members ns' @ s"
    by (simp_all add: json_string_inject)
  with 11(1) [OF eq(2)] have "snd m = snd n" "plain_members ms @ r = plain_members ns' @ s" by simp_all
  with 11(2) [OF this(2)] eq(1) ns show ?case by (simp add: prod_eq_iff)
qed

section \<open>The text determines the value\<close>

lemma join_with_Cons: "join_with sep (w # ws) = w @ (if ws = [] then [] else sep @ join_with sep ws)"
  by (cases ws) simp_all

lemma plain_elements_join:
  "plain_elements vs = (if vs = [] then [] else CHR '','' # join_with '','' (map plain_json vs)) @ '']''"
  by (induction vs) (simp_all add: join_with_Cons)

lemma plain_members_join:
  "plain_members ms = (if ms = [] then []
     else CHR '','' # join_with '','' (map (\<lambda>m. json_member (fst m, plain_json (snd m))) ms)) @ ''}''"
  by (induction ms) (simp_all add: join_with_Cons json_member_def)

lemma plain_array: "plain_json (JArray vs) = ''['' @ join_with '','' (map plain_json vs) @ '']''"
  by (cases vs) (simp_all add: plain_elements_join join_with_Cons)

lemma plain_object:
  "plain_json (JObject ms) = ''{'' @ join_with '','' (map (\<lambda>m. json_member (fst m, plain_json (snd m))) ms) @ ''}''"
  by (cases ms) (simp_all add: plain_members_join json_member_def join_with_Cons)

lemma sort_key_map_snd: "sort_key fst (map (\<lambda>m. (fst m, f (snd m))) ms) = map (\<lambda>m. (fst m, f (snd m))) (sort_key fst ms)"
proof (induction ms)
  case (Cons m ms)
  have "insort_key fst (fst m, f (snd m)) (map (\<lambda>m. (fst m, f (snd m))) xs) = map (\<lambda>m. (fst m, f (snd m))) (insort_key fst m xs)" for xs
    by (induction xs) auto
  with Cons show ?case by simp
qed simp

lemma plain_sorted:
  "plain_json (sorted_json v) = stableJson v"
  "map plain_json (sorted_elements vs) = stable_elements vs"
  "map (\<lambda>m. (fst m, plain_json (snd m))) (sorted_members ms) = stable_members ms"
proof (induction v and vs and ms rule: stableJson_stable_elements_stable_members.induct)
  case (7 fs)
  have "map (\<lambda>m. json_member (fst m, plain_json (snd m))) (sort_key fst (sorted_members fs))
      = map json_member (sort_key fst (stable_members fs))"
    unfolding 7 [symmetric] sort_key_map_snd by simp
  then show ?case by (simp only: sorted_json.simps plain_object stableJson.simps)
qed (simp_all add: plain_array del: plain_json.simps(6,7))

text \<open>
  C40. Two values have the same canonical text exactly when they are equal up to the order of the keys of their
  objects: a digest or signature of the text covers every field, string and number of the value.
\<close>

theorem stableJson_eq_iff: "stableJson v = stableJson w \<longleftrightarrow> sorted_json v = sorted_json w"
  using plain_prefix(1) [of "sorted_json v" "[]" "sorted_json w" "[]"] by (auto simp flip: plain_sorted(1))

end
