(* ===== verification/Stable_Values.thy ===== *)
theory Stable_Values
  imports Stable_Json
begin

text \<open>
  The digest of a value that \<open>disclosure/hybrid.ts\<close> and \<open>governance/profiles.ts\<close> compute with the same functions: the
  keys of every object are sorted with \<open>localeCompare\<close>, the value is written with \<open>JSON.stringify\<close> and hashed. The
  lemmas show what the digest determines: up to a collision, every field of the value.
\<close>

section \<open>Sorted objects and their digest\<close>

text \<open>
  \<open>localeCompare\<close> orders texts by a collation key. It is not the order of code units, and two texts may have one
  key, but it is total and transitive, and \<open>sort\<close> is stable.
\<close>

record Platform =
  pl_sha256 :: "string \<Rightarrow> string"
  pl_collation :: "string \<Rightarrow> string"

definition locale_sort :: "Platform \<Rightarrow> string list \<Rightarrow> string list" where
  "locale_sort pl xs = sort_key (pl_collation pl) xs"

text \<open>
  The order of the keys of a JavaScript object: array indices first, by number, then the others as they were
  added. \<open>stableValue\<close> sorts the keys and builds an object of them, so its keys are in this order.
\<close>

definition array_index :: "string \<Rightarrow> bool" where
  "array_index k \<longleftrightarrow> k \<noteq> [] \<and> list_all (\<lambda>c. c \<in> set ''0123456789'') k \<and> (k = ''0'' \<or> hd k \<noteq> CHR ''0'') \<and> read_nat k < 4294967295"

definition own_order :: "(string \<times> 'v) list \<Rightarrow> (string \<times> 'v) list" where
  "own_order ms = sort_key (\<lambda>m. read_nat (fst m)) (filter (\<lambda>m. array_index (fst m)) ms) @ filter (\<lambda>m. \<not> array_index (fst m)) ms"

definition sorted_object :: "Platform \<Rightarrow> (string \<times> 'v) list \<Rightarrow> (string \<times> 'v) list" where
  "sorted_object pl ms = own_order (sort_key (\<lambda>m. pl_collation pl (fst m)) ms)"

fun stableValue :: "Platform \<Rightarrow> js_value \<Rightarrow> js_value"
  and stable_value_elements :: "Platform \<Rightarrow> js_value list \<Rightarrow> js_value list"
  and stable_value_members :: "Platform \<Rightarrow> (string \<times> js_value) list \<Rightarrow> (string \<times> js_value) list" where
  "stableValue pl (JArray vs) = JArray (stable_value_elements pl vs)"
| "stableValue pl (JObject ms) = JObject (sorted_object pl (stable_value_members pl ms))"
| "stableValue pl v = v"
| "stable_value_elements pl [] = []"
| "stable_value_elements pl (v # vs) = stableValue pl v # stable_value_elements pl vs"
| "stable_value_members pl [] = []"
| "stable_value_members pl (m # ms) = (fst m, stableValue pl (snd m)) # stable_value_members pl ms"

text \<open>\<open>JSON.stringify\<close> is \<^const>\<open>plain_json\<close>: the members in the order of the object. Absent members are left out.\<close>

definition stable_text :: "Platform \<Rightarrow> js_value \<Rightarrow> string" where
  "stable_text pl v = plain_json (stableValue pl v)"

definition stable_digest :: "Platform \<Rightarrow> js_value \<Rightarrow> string" where
  "stable_digest pl v = ''sha256:'' @ pl_sha256 pl (stable_text pl v)"

definition texts_json :: "string list \<Rightarrow> js_value" where
  "texts_json xs = JArray (map JString xs)"

definition record_json :: "(string, string) jsmap \<Rightarrow> js_value" where
  "record_json m = JObject (map (\<lambda>(k, v). (k, JString v)) m)"

lemma set_locale_sort [simp]: "set (locale_sort pl xs) = set xs" and distinct_locale_sort [simp]: "distinct (locale_sort pl xs) = distinct xs"
  by (simp_all add: locale_sort_def)

section \<open>What a digest determines\<close>

lemma set_own_order [simp]: "set (own_order ms) = set ms"
  by (auto simp: own_order_def)

lemma set_sorted_object [simp]: "set (sorted_object pl ms) = set ms"
  by (simp add: sorted_object_def)

lemma mset_own_order [simp]: "mset (own_order ms) = mset ms"
  by (simp add: own_order_def multiset_partition [symmetric])

lemma mset_sorted_object [simp]: "mset (sorted_object pl ms) = mset ms"
  by (simp add: sorted_object_def)

lemma distinct_sorted_object [simp]: "distinct (map fst (sorted_object pl ms)) = distinct (map fst ms)"
  by (metis mset_eq_imp_distinct_iff mset_map mset_sorted_object)

lemma map_of_sorted_object: "distinct (map fst ms) \<Longrightarrow> map_of (sorted_object pl ms) = map_of ms"
  by (metis distinct_sorted_object map_of_inject_set set_sorted_object)

text \<open>Array indices are written without leading zeros, so the number determines the key.\<close>

lemma read_nat_append: "read_nat (s @ [c]) = 10 * read_nat s + (of_char c - 48)"
  by (simp add: read_nat_def)

lemma digit_cases: "c \<in> set ''0123456789'' \<Longrightarrow> c = CHR ''0'' \<or> (0 < of_char c - (48::nat) \<and> of_char c - (48::nat) < 10)"
  by auto

lemma char_of_digit:
  assumes "c \<in> set ''0123456789''"
  shows "digit_char (of_char c - 48 :: nat) = c"
proof -
  have "list_all (\<lambda>c. digit_char (of_char c - 48 :: nat) = c) ''0123456789''" by code_simp
  with assms show ?thesis by (simp only: list_all_iff)
qed

lemma read_nat_pos: "list_all (\<lambda>c. c \<in> set ''0123456789'') k \<Longrightarrow> k \<noteq> [] \<Longrightarrow> hd k \<noteq> CHR ''0'' \<Longrightarrow> 0 < read_nat k"
proof (induction k rule: rev_induct)
  case (snoc c k)
  then show ?case using digit_cases [of c] by (cases k) (auto simp: read_nat_append read_nat_def)
qed simp

lemma show_read_nat:
  "list_all (\<lambda>c. c \<in> set ''0123456789'') k \<Longrightarrow> k \<noteq> [] \<Longrightarrow> k = ''0'' \<or> hd k \<noteq> CHR ''0'' \<Longrightarrow> show_nat (read_nat k) = k"
proof (induction k rule: rev_induct)
  case (snoc c k)
  let ?d = "of_char c - 48 :: nat"
  have c: "c \<in> set ''0123456789''" using snoc.prems by simp
  then have d: "?d < 10" "digit_char ?d = c" using digit_cases [of c] char_of_digit [of c] by auto
  show ?case
  proof (cases "k = []")
    case True
    with d show ?thesis by (simp add: read_nat_def show_nat.simps [of "?d"])
  next
    case False
    then have "hd k \<noteq> CHR ''0''" and k: "list_all (\<lambda>c. c \<in> set ''0123456789'') k" using snoc.prems by auto
    then have "0 < read_nat k" "show_nat (read_nat k) = k" using False snoc.IH read_nat_pos by blast+
    with d show ?thesis by (simp add: read_nat_append show_nat.simps [of "10 * read_nat k + ?d"])
  qed
qed simp

lemma array_index_inject: "array_index k \<Longrightarrow> array_index k' \<Longrightarrow> read_nat k = read_nat k' \<Longrightarrow> k = k'"
  unfolding array_index_def by (metis show_read_nat)

lemma filter_sort_key_id: "sorted (map f xs) \<Longrightarrow> sort_key f (filter P xs) = filter P xs"
  by (simp add: filter_sort [symmetric] sort_key_id_if_sorted)

lemma sorted_object_idem:
  assumes "distinct (map fst ms)"
  shows "sorted_object pl (sorted_object pl ms) = sorted_object pl ms"
proof -
  let ?coll = "\<lambda>m. pl_collation pl (fst m)" and ?num = "\<lambda>m. read_nat (fst m)" and ?index = "\<lambda>m. array_index (fst m)"
  define S where "S = sort_key ?coll ms"
  define A where "A = sort_key ?num (filter ?index S)"
  define B where "B = filter (\<lambda>m. \<not> ?index m) S"
  have first: "sorted_object pl ms = A @ B" by (simp add: sorted_object_def own_order_def S_def A_def B_def)
  have "distinct (map fst S)" using assms by (metis S_def mset_eq_imp_distinct_iff mset_map mset_sort)
  then have inj: "m = m'" if "m \<in> set S" "m' \<in> set S" "fst m = fst m'" for m m' using that by (metis distinct_map inj_onD)
  have "inj_on ?num (set (filter ?index S))"
    by (rule inj_onI) (use inj array_index_inject in auto)
  then have "sort_key ?num (sort_key ?coll A) = A"
    unfolding A_def by (intro sort_key_inj_key_eq) (auto simp: inj_on_def)
  moreover have "sort_key ?coll B = B" unfolding B_def by (rule filter_sort_key_id) (simp add: S_def)
  moreover have "filter ?index (A @ B) = A" "filter (\<lambda>m. \<not> ?index m) (A @ B) = B"
    by (auto simp: A_def B_def filter_sort filter_id_conv filter_empty_conv)
  ultimately show ?thesis
    unfolding first unfolding sorted_object_def own_order_def by (simp add: filter_sort)
qed

lemma stable_value_members_map: "stable_value_members pl ms = map (\<lambda>(k, v). (k, stableValue pl v)) ms"
  by (induction ms) (auto simp: case_prod_unfold)

lemma stable_value_elements_map: "stable_value_elements pl vs = map (stableValue pl) vs"
  by (induction vs) simp_all

lemma stable_text_inject: "stable_text pl v = stable_text pl w \<longleftrightarrow> stableValue pl v = stableValue pl w"
  using plain_prefix(1) [of "stableValue pl v" "[]" "stableValue pl w" "[]"] by (auto simp: stable_text_def)

lemma stable_object_field:
  assumes "stableValue pl (JObject ms) = stableValue pl (JObject ns)" "distinct (map fst ms)" "distinct (map fst ns)"
  shows "map_option (stableValue pl) (map_of ms k) = map_option (stableValue pl) (map_of ns k)"
proof -
  have stable: "map_of (sorted_object pl (map (\<lambda>(k, v). (k, stableValue pl v)) xs)) k = map_option (stableValue pl) (map_of xs k)"
    if "distinct (map fst xs)" for xs
  proof -
    have "distinct (map fst (map (\<lambda>(k, v). (k, stableValue pl v)) xs))" using that by (simp add: comp_def case_prod_unfold)
    then show ?thesis by (simp add: map_of_sorted_object map_of_map)
  qed
  from assms(1) have "sorted_object pl (map (\<lambda>(k, v). (k, stableValue pl v)) ms) = sorted_object pl (map (\<lambda>(k, v). (k, stableValue pl v)) ns)"
    by (simp add: stable_value_members_map)
  then have "map_of (sorted_object pl (map (\<lambda>(k, v). (k, stableValue pl v)) ms)) k = map_of (sorted_object pl (map (\<lambda>(k, v). (k, stableValue pl v)) ns)) k"
    by (rule arg_cong)
  with assms(2,3) show ?thesis by (simp only: stable)
qed

text \<open>Two texts with one hash.\<close>

definition collision :: "Platform \<Rightarrow> bool" where
  "collision pl \<longleftrightarrow> (\<exists>x y. x \<noteq> y \<and> pl_sha256 pl x = pl_sha256 pl y)"

lemma stable_digest_inject: "stable_digest pl v = stable_digest pl w \<Longrightarrow> collision pl \<or> stableValue pl v = stableValue pl w"
  by (auto simp: stable_digest_def collision_def stable_text_inject [symmetric])

lemma sort_key_map_values: "sort_key f (map (\<lambda>(k, v). (k, g v)) ms) = map (\<lambda>(k, v). (k, g v)) (sort_key (\<lambda>(k, v). f (k, g v)) ms)"
proof -
  have insort: "insort_key f (case m of (k, v) \<Rightarrow> (k, g v)) (map (\<lambda>(k, v). (k, g v)) xs) = map (\<lambda>(k, v). (k, g v)) (insort_key (\<lambda>(k, v). f (k, g v)) m xs)" for m xs
    by (induction xs) (auto simp: case_prod_unfold)
  show ?thesis by (induction ms) (simp_all add: insort)
qed

lemma sort_key_fst_map: "sort_key (\<lambda>m. h (fst m)) (map (\<lambda>(k, v). (k, g v)) ms) = map (\<lambda>(k, v). (k, g v)) (sort_key (\<lambda>m. h (fst m)) ms)"
  using sort_key_map_values [of "\<lambda>m. h (fst m)" g ms] by (simp add: case_prod_unfold)

lemma filter_fst_map: "filter (\<lambda>m. h (fst m)) (map (\<lambda>(k, v). (k, g v)) ms) = map (\<lambda>(k, v). (k, g v)) (filter (\<lambda>m. h (fst m)) ms)"
  by (induction ms) auto

lemma sorted_object_map: "sorted_object pl (map (\<lambda>(k, v). (k, g v)) ms) = map (\<lambda>(k, v). (k, g v)) (sorted_object pl ms)"
  by (simp add: sorted_object_def own_order_def filter_fst_map sort_key_fst_map [of "pl_collation pl"] sort_key_fst_map [of read_nat]
      filter_fst_map [of "\<lambda>k. \<not> array_index k"])

lemma stable_texts: "stableValue pl (texts_json xs) = texts_json xs"
  by (simp add: texts_json_def stable_value_elements_map)

lemma texts_json_inject [simp]: "texts_json xs = texts_json ys \<longleftrightarrow> xs = ys"
  by (simp add: texts_json_def inj_map_eq_map inj_def)

lemma stable_record: "stableValue pl (record_json m) = record_json (sorted_object pl m)"
  by (simp add: record_json_def stable_value_members_map comp_def case_prod_unfold sorted_object_map [of _ JString, simplified case_prod_unfold])

lemma record_json_inject [simp]: "record_json m = record_json m' \<longleftrightarrow> m = m'"
  by (simp add: record_json_def case_prod_unfold inj_map_eq_map inj_def prod_eq_iff)

text \<open>Two objects with the same keys and one stable text agree on every key.\<close>

lemma stable_fields:
  assumes "stableValue pl (JObject ms) = stableValue pl (JObject ns)" "distinct (map fst ms)" "map fst ns = map fst ms"
  shows "map (\<lambda>m. stableValue pl (snd m)) ms = map (\<lambda>m. stableValue pl (snd m)) ns"
proof (rule nth_equalityI)
  show length: "length (map (\<lambda>m. stableValue pl (snd m)) ms) = length (map (\<lambda>m. stableValue pl (snd m)) ns)" using assms(3) by (metis length_map)
  fix i assume "i < length (map (\<lambda>m. stableValue pl (snd m)) ms)"
  then have i: "i < length ms" "i < length ns" using length by simp_all
  then have key: "fst (ns ! i) = fst (ms ! i)" using assms(3) by (metis nth_map)
  have ms: "map_of ms (fst (ms ! i)) = Some (snd (ms ! i))" using assms(2) i by (intro map_of_is_SomeI) auto
  have ns: "map_of ns (fst (ms ! i)) = Some (snd (ns ! i))"
    using assms(2,3) i by (intro map_of_is_SomeI) (auto simp: key [symmetric])
  have "map_option (stableValue pl) (Some (snd (ms ! i))) = map_option (stableValue pl) (Some (snd (ns ! i)))"
    using stable_object_field [OF assms(1,2), of "fst (ms ! i)"] assms(2) unfolding assms(3) ms ns by blast
  then show "map (\<lambda>m. stableValue pl (snd m)) ms ! i = map (\<lambda>m. stableValue pl (snd m)) ns ! i" using i by simp
qed

end
