(* ===== verification/Governance.thy ===== *)
theory Governance
  imports Extensions Stable_Values
begin

text \<open>
  The class \<open>GovernanceProfileRegistry\<close> of \<open>src/src/governance/profiles.ts\<close>: versioned profiles of controls are registered
  under a digest, activated for a scope, evaluated against observations, exported as a bundle with an integrity
  digest and replayed from such a bundle. Activation and evaluation ask the Realm policy, which is the field
  \<open>gr_realm\<close> and shared with its other callers. Digests are those of \<open>Stable_Values\<close>; what is hashed keeps its texts,
  receipts included. The credential scanner is a parameter \<open>scan\<close>.
\<close>

section \<open>Data\<close>

datatype GovernanceLifecycle = GovDraft | GovActive | GovRetired

record GovernanceScope =
  gs_realmId :: string
  gs_organizationId :: "string option"
  gs_projectId :: "string option"

record GovernanceControl =
  gc_id :: string
  gc_title :: string
  gc_requirement :: string
  gc_owner :: string
  gc_required :: bool
  gc_evidenceKinds :: "string list"
  gc_customerResponsibility :: "string option"

record GovernanceProfile =
  gp_protocol :: string
  gp_id :: string
  gp_name :: string
  gp_version :: string
  gp_digest :: string
  gp_scope :: GovernanceScope
  gp_controls :: "GovernanceControl list"
  gp_provenance :: ExtensionProvenance
  gp_policyVersion :: string
  gp_lifecycle :: GovernanceLifecycle
  gp_receipt :: string

record CreateGovernanceProfileInput =
  cgp_id :: string
  cgp_name :: string
  cgp_version :: string
  cgp_scope :: GovernanceScope
  cgp_controls :: "GovernanceControl list"
  cgp_provenance :: ExtensionProvenance
  cgp_policyVersion :: string
  cgp_lifecycle :: "GovernanceLifecycle option"
  cgp_receipt :: string

datatype ControlStatus = ControlSatisfied | ControlFailed | ControlIndeterminate

record GovernanceControlObservation =
  go_controlId :: string
  go_status :: ControlStatus
  go_evidenceRefs :: "string list"
  go_observedAt :: string
  go_owner :: string
  go_nextAction :: string
  go_disclosure :: DisclosurePolicyRef
  go_receipt :: string

record GovernanceControlEvidence =
  ge_id :: string
  ge_profileId :: string
  ge_profileDigest :: string
  ge_scope :: GovernanceScope
  ge_controlId :: string
  ge_status :: ControlStatus
  ge_evidenceRefs :: "string list"
  ge_policyVersion :: string
  ge_authorizationEpoch :: nat
  ge_observedAt :: string
  ge_owner :: string
  ge_nextAction :: string
  ge_disclosure :: DisclosurePolicyRef
  ge_receipt :: string

datatype GovernanceStatus = GovReady | GovBlocked | GovIndeterminate

record GovernanceEvaluation =
  gv_id :: string
  gv_profileId :: string
  gv_profileDigest :: string
  gv_scope :: GovernanceScope
  gv_status :: GovernanceStatus
  gv_evidenceIds :: "string list"
  gv_blockers :: "string list"
  gv_advisories :: "string list"
  gv_policyVersion :: string
  gv_authorizationEpoch :: nat
  gv_receipt :: string

record GovernanceProfileExport =
  gx_protocol :: string
  gx_version :: string
  gx_exportId :: string
  gx_createdAt :: string
  gx_profile :: GovernanceProfile
  gx_observations :: "GovernanceControlObservation list"
  gx_evaluation :: GovernanceEvaluation
  gx_credentialFree :: bool
  gx_integrityDigest :: string
  gx_receipt :: string

record ActivateGovernanceProfileInput =
  agp_profileId :: string
  agp_scope :: GovernanceScope
  agp_authorization :: ExtensionAuthorization

record EvaluateGovernanceProfileInput =
  egp_profileId :: string
  egp_scope :: GovernanceScope
  egp_observations :: "GovernanceControlObservation list"
  egp_authorization :: ExtensionAuthorization

record ReplayGovernanceProfileInput =
  rgp_scope :: GovernanceScope
  rgp_authorization :: ExtensionAuthorization
  rgp_observations :: "GovernanceControlObservation list option"

datatype ApplicationStatus = ApplicationActive | ApplicationRetired

record GovernanceProfileApplication =
  ga_id :: string
  ga_profileId :: string
  ga_profileDigest :: string
  ga_scope :: GovernanceScope
  ga_policyVersion :: string
  ga_authorizationEpoch :: nat
  ga_status :: ApplicationStatus
  ga_activatedBy :: string

datatype GovernanceErrorCode =
    GovInvalidInput | GovProfileInvalid | GovProfileNotFound | GovDigestMismatch | GovScopeMismatch | GovProfileInactive
  | GovPolicyDenied | GovExportInvalid

datatype GovernanceFailure =
    GovernanceProfileError GovernanceErrorCode string "PolicyExplanation option"
  | GovernanceRealmThrew RealmIdentityError

record GovernanceRegistry =
  gr_realm :: RealmState
  gr_profiles :: "(string, GovernanceProfile) jsmap"
  gr_applications :: "(string, GovernanceProfileApplication) jsmap"
  gr_evidence :: "(string, GovernanceControlEvidence) jsmap"
  gr_evaluations :: "(string, GovernanceEvaluation) jsmap"

type_synonym 'a gr_outcome = "(GovernanceRegistry, GovernanceFailure, 'a) outcome"

definition gov_error :: "GovernanceErrorCode \<Rightarrow> string \<Rightarrow> GovernanceFailure" where
  "gov_error code affected = GovernanceProfileError code affected None"

section \<open>What is hashed\<close>

definition governance_profile_protocol :: string where
  "governance_profile_protocol = ''anyam.governance-profile/v1''"

definition governance_export_protocol :: string where
  "governance_export_protocol = ''anyam.governance-profile-export/v1''"

definition governance_evaluation_protocol :: string where
  "governance_evaluation_protocol = ''anyam.governance-evaluation/v1''"

text \<open>A field that is absent is not written.\<close>

definition optional_member :: "string \<Rightarrow> string option \<Rightarrow> (string \<times> js_value) list" where
  "optional_member k v = (case v of None \<Rightarrow> [] | Some x \<Rightarrow> [(k, JString x)])"

definition governance_scope_json :: "GovernanceScope \<Rightarrow> js_value" where
  "governance_scope_json g = JObject ((''realmId'', JString (gs_realmId g)) # optional_member ''organizationId'' (gs_organizationId g)
     @ optional_member ''projectId'' (gs_projectId g))"

definition control_json :: "GovernanceControl \<Rightarrow> js_value" where
  "control_json c = JObject ([(''id'', JString (gc_id c)), (''title'', JString (gc_title c)), (''requirement'', JString (gc_requirement c)),
     (''owner'', JString (gc_owner c)), (''required'', JBool (gc_required c)), (''evidenceKinds'', texts_json (gc_evidenceKinds c))]
     @ optional_member ''customerResponsibility'' (gc_customerResponsibility c))"

definition provenance_json :: "ExtensionProvenance \<Rightarrow> js_value" where
  "provenance_json p = JObject ([(''source'', JString (pv_source p)), (''publisher'', JString (pv_publisher p)), (''receipt'', JString (pv_receipt p))]
     @ optional_member ''signer'' (pv_signer p) @ optional_member ''attestation'' (pv_attestation p))"

text \<open>Of the texts, only what a profile requires: not its scope, policy version, lifecycle and receipt.\<close>

definition profileDigestInput :: "GovernanceProfile \<Rightarrow> js_value" where
  "profileDigestInput p = JObject [(''protocol'', JString (gp_protocol p)), (''id'', JString (gp_id p)), (''name'', JString (gp_name p)),
     (''version'', JString (gp_version p)), (''controls'', JArray (map control_json (gp_controls p))), (''provenance'', provenance_json (gp_provenance p))]"

definition governanceProfileDigest :: "Platform \<Rightarrow> GovernanceProfile \<Rightarrow> string" where
  "governanceProfileDigest pl p = stable_digest pl (profileDigestInput p)"

definition createGovernanceProfile :: "Platform \<Rightarrow> CreateGovernanceProfileInput \<Rightarrow> GovernanceProfile" where
  "createGovernanceProfile pl input =
     (let p = \<lparr>gp_protocol = governance_profile_protocol, gp_id = cgp_id input, gp_name = cgp_name input, gp_version = cgp_version input,
            gp_digest = [], gp_scope = cgp_scope input, gp_controls = cgp_controls input, gp_provenance = cgp_provenance input,
            gp_policyVersion = cgp_policyVersion input, gp_lifecycle = nullish (cgp_lifecycle input) GovDraft, gp_receipt = cgp_receipt input\<rparr>
      in p\<lparr>gp_digest := governanceProfileDigest pl p\<rparr>)"

fun governance_lifecycle_text :: "GovernanceLifecycle \<Rightarrow> string" where
  "governance_lifecycle_text GovDraft = ''draft''"
| "governance_lifecycle_text GovActive = ''active''"
| "governance_lifecycle_text GovRetired = ''retired''"

fun control_status_text :: "ControlStatus \<Rightarrow> string" where
  "control_status_text ControlSatisfied = ''satisfied''"
| "control_status_text ControlFailed = ''failed''"
| "control_status_text ControlIndeterminate = ''indeterminate''"

fun governance_status_text :: "GovernanceStatus \<Rightarrow> string" where
  "governance_status_text GovReady = ''ready''"
| "governance_status_text GovBlocked = ''blocked''"
| "governance_status_text GovIndeterminate = ''indeterminate''"

definition profile_json :: "GovernanceProfile \<Rightarrow> js_value" where
  "profile_json p = JObject [(''protocol'', JString (gp_protocol p)), (''id'', JString (gp_id p)), (''name'', JString (gp_name p)),
     (''version'', JString (gp_version p)), (''digest'', JString (gp_digest p)), (''scope'', governance_scope_json (gp_scope p)),
     (''controls'', JArray (map control_json (gp_controls p))), (''provenance'', provenance_json (gp_provenance p)),
     (''policyVersion'', JString (gp_policyVersion p)), (''lifecycle'', JString (governance_lifecycle_text (gp_lifecycle p))),
     (''receipt'', JString (gp_receipt p))]"

definition governance_disclosure_json :: "DisclosurePolicyRef \<Rightarrow> js_value" where
  "governance_disclosure_json d = JObject [(''projectionId'', JString (disc_projectionId d)), (''classification'', JString (disclosure_text (disc_classification d)))]"

definition observation_json :: "GovernanceControlObservation \<Rightarrow> js_value" where
  "observation_json o1 = JObject [(''controlId'', JString (go_controlId o1)), (''status'', JString (control_status_text (go_status o1))),
     (''evidenceRefs'', texts_json (go_evidenceRefs o1)), (''observedAt'', JString (go_observedAt o1)), (''owner'', JString (go_owner o1)),
     (''nextAction'', JString (go_nextAction o1)), (''disclosure'', governance_disclosure_json (go_disclosure o1)), (''receipt'', JString (go_receipt o1))]"

definition evaluation_json :: "GovernanceEvaluation \<Rightarrow> js_value" where
  "evaluation_json v = JObject [(''protocol'', JString governance_evaluation_protocol), (''id'', JString (gv_id v)),
     (''profileId'', JString (gv_profileId v)), (''profileDigest'', JString (gv_profileDigest v)), (''scope'', governance_scope_json (gv_scope v)),
     (''status'', JString (governance_status_text (gv_status v))), (''evidenceIds'', texts_json (gv_evidenceIds v)),
     (''blockers'', texts_json (gv_blockers v)), (''advisories'', texts_json (gv_advisories v)), (''policyVersion'', JString (gv_policyVersion v)),
     (''authorizationEpoch'', JNumber (int (gv_authorizationEpoch v))), (''certificationClaim'', JBool False), (''receipt'', JString (gv_receipt v))]"

definition export_json :: "GovernanceProfileExport \<Rightarrow> js_value" where
  "export_json b = JObject [(''protocol'', JString (gx_protocol b)), (''version'', JString (gx_version b)), (''exportId'', JString (gx_exportId b)),
     (''createdAt'', JString (gx_createdAt b)), (''profile'', profile_json (gx_profile b)), (''observations'', JArray (map observation_json (gx_observations b))),
     (''evaluation'', evaluation_json (gx_evaluation b)), (''credentialFree'', JBool (gx_credentialFree b)), (''receipt'', JString (gx_receipt b))]"

definition exportDigest :: "Platform \<Rightarrow> GovernanceProfileExport \<Rightarrow> string" where
  "exportDigest pl b = stable_digest pl (export_json b)"

definition observationsDigest :: "Platform \<Rightarrow> GovernanceControlObservation list \<Rightarrow> string" where
  "observationsDigest pl observations = stable_digest pl (JArray (map observation_json observations))"

section \<open>Checks\<close>

definition gov_text_error :: "string \<Rightarrow> string \<Rightarrow> GovernanceFailure option" where
  "gov_text_error value field = fail_if (blank value) (gov_error GovInvalidInput field)"

definition gov_unique_error :: "string list \<Rightarrow> string \<Rightarrow> GovernanceFailure option" where
  "gov_unique_error xs field = fail_if (list_ex blank xs \<or> has_duplicates xs) (gov_error GovInvalidInput field)"

definition gov_scope_error :: "GovernanceScope \<Rightarrow> GovernanceRegistry \<Rightarrow> GovernanceFailure option" where
  "gov_scope_error scope s =
     or_else (gov_text_error (gs_realmId scope) ''scope.realmId'')
     (or_else (case gs_organizationId scope of None \<Rightarrow> None | Some i \<Rightarrow> gov_text_error i ''scope.organizationId'')
     (or_else (case gs_projectId scope of None \<Rightarrow> None | Some i \<Rightarrow> gov_text_error i ''scope.projectId'')
       (fail_if (gs_realmId scope \<noteq> realmId (gr_realm s)) (gov_error GovScopeMismatch (gs_realmId scope)))))"

definition governance_resource :: "GovernanceScope \<Rightarrow> ResourceRef" where
  "governance_resource scope = (whole_realm (gs_realmId scope))\<lparr>rr_organizationId := gs_organizationId scope, rr_projectId := gs_projectId scope\<rparr>"

definition scopeKey :: "GovernanceScope \<Rightarrow> string" where
  "scopeKey scope = gs_realmId scope @ ''|'' @ nullish (gs_organizationId scope) [] @ ''|'' @ nullish (gs_projectId scope) []"

definition control_error :: "GovernanceControl \<Rightarrow> GovernanceFailure option" where
  "control_error c =
     or_else (gov_text_error (gc_id c) ''control.id'')
     (or_else (gov_text_error (gc_title c) (''control.'' @ gc_id c @ ''.title''))
     (or_else (gov_text_error (gc_requirement c) (''control.'' @ gc_id c @ ''.requirement''))
     (or_else (gov_text_error (gc_owner c) (''control.'' @ gc_id c @ ''.owner''))
       (gov_unique_error (gc_evidenceKinds c) (''control.'' @ gc_id c @ ''.evidenceKinds'')))))"

definition add_control :: "GovernanceControl \<Rightarrow> (string, GovernanceControl) jsmap \<Rightarrow> GovernanceFailure + (string, GovernanceControl) jsmap" where
  "add_control c m = sum_then (checked (or_else (control_error c) (fail_if (has_key m (gc_id c)) (gov_error GovProfileInvalid (gc_id c)))))
     (\<lambda>_. Inr (set_key (gc_id c) c m))"

definition controlMap :: "GovernanceControl list \<Rightarrow> GovernanceFailure + (string, GovernanceControl) jsmap" where
  "controlMap controls = sum_then (fold_loop add_control controls []) (\<lambda>m.
     if m = [] then Inl (gov_error GovProfileInvalid ''controls'') else Inr m)"

definition observation_error :: "GovernanceControlObservation \<Rightarrow> GovernanceFailure option" where
  "observation_error x =
     or_else (gov_text_error (go_owner x) (''observation.'' @ go_controlId x @ ''.owner''))
     (or_else (gov_text_error (go_nextAction x) (''observation.'' @ go_controlId x @ ''.nextAction''))
     (or_else (gov_text_error (go_receipt x) (''observation.'' @ go_controlId x @ ''.receipt''))
     (or_else (gov_text_error (go_observedAt x) (''observation.'' @ go_controlId x @ ''.observedAt''))
       (gov_unique_error (go_evidenceRefs x) (''observation.'' @ go_controlId x @ ''.evidenceRefs'')))))"

definition add_observation :: "(string, GovernanceControl) jsmap \<Rightarrow> GovernanceControlObservation \<Rightarrow> (string, GovernanceControlObservation) jsmap
    \<Rightarrow> GovernanceFailure + (string, GovernanceControlObservation) jsmap" where
  "add_observation controls x m =
     sum_then (checked (or_else (fail_if (\<not> has_key controls (go_controlId x)) (gov_error GovProfileInvalid (go_controlId x)))
       (or_else (fail_if (has_key m (go_controlId x)) (gov_error GovProfileInvalid (go_controlId x))) (observation_error x))))
     (\<lambda>_. Inr (set_key (go_controlId x) x m))"

definition observed_controls :: "(string, GovernanceControl) jsmap \<Rightarrow> GovernanceControlObservation list
    \<Rightarrow> GovernanceFailure + (string, GovernanceControlObservation) jsmap" where
  "observed_controls controls observations = fold_loop (add_observation controls) observations []"

section \<open>Export bundles\<close>

definition verifyGovernanceProfileExport :: "Platform \<Rightarrow> (js_value \<Rightarrow> string option) \<Rightarrow> GovernanceProfileExport \<Rightarrow> GovernanceFailure + GovernanceProfileExport" where
  "verifyGovernanceProfileExport pl scan b =
     sum_then (checked
       (or_else (fail_if (gx_protocol b \<noteq> governance_export_protocol \<or> gx_version b \<noteq> ''v1'' \<or> \<not> gx_credentialFree b) (gov_error GovExportInvalid (gx_exportId b)))
       (or_else (fail_if (exportDigest pl b \<noteq> gx_integrityDigest b) (gov_error GovExportInvalid (gx_exportId b)))
       (or_else (fail_if (truthy (scan (export_json b))) (gov_error GovExportInvalid (gx_exportId b)))
         (fail_if (governanceProfileDigest pl (gx_profile b) \<noteq> gp_digest (gx_profile b)) (gov_error GovDigestMismatch (gp_id (gx_profile b))))))))
     (\<lambda>_. Inr b)"

section \<open>The registry\<close>

definition new_governance :: "RealmState \<Rightarrow> GovernanceRegistry" where
  "new_governance realm = \<lparr>gr_realm = realm, gr_profiles = [], gr_applications = [], gr_evidence = [], gr_evaluations = []\<rparr>"

definition governance_profile_error :: "Platform \<Rightarrow> GovernanceProfile \<Rightarrow> GovernanceRegistry \<Rightarrow> GovernanceFailure option" where
  "governance_profile_error pl p s =
     or_else (gov_text_error (gp_id p) ''profile.id'')
     (or_else (gov_text_error (gp_name p) ''profile.name'')
     (or_else (gov_text_error (gp_version p) ''profile.version'')
     (or_else (gov_text_error (gp_policyVersion p) ''profile.policyVersion'')
     (or_else (gov_text_error (pv_source (gp_provenance p)) ''profile.provenance.source'')
     (or_else (gov_text_error (pv_publisher (gp_provenance p)) ''profile.provenance.publisher'')
     (or_else (gov_text_error (pv_receipt (gp_provenance p)) ''profile.provenance.receipt'')
     (or_else (gov_scope_error (gp_scope p) s)
     (or_else (case controlMap (gp_controls p) of Inl e \<Rightarrow> Some e | Inr _ \<Rightarrow> None)
     (or_else (fail_if (gp_protocol p \<noteq> governance_profile_protocol) (gov_error GovProfileInvalid (gp_id p)))
       (fail_if (governanceProfileDigest pl p \<noteq> gp_digest p) (gov_error GovDigestMismatch (gp_id p))))))))))))"

definition profile_key :: "GovernanceProfile \<Rightarrow> string" where
  "profile_key p = gp_id p @ ''@'' @ gp_version p @ ''#'' @ gp_digest p"

definition registerProfile :: "Platform \<Rightarrow> GovernanceProfile \<Rightarrow> GovernanceRegistry \<Rightarrow> GovernanceProfile gr_outcome" where
  "registerProfile pl p s = (case governance_profile_error pl p s of
     Some e \<Rightarrow> raise e s
   | None \<Rightarrow> (case get_key (gr_profiles s) (profile_key p) of
         Some existing \<Rightarrow> return existing s
       | None \<Rightarrow> return p (s\<lparr>gr_profiles := set_key (profile_key p) p (gr_profiles s)\<rparr>)))"

text \<open>Profiles are found by their id alone: the first one that was registered.\<close>

definition getProfile :: "GovernanceRegistry \<Rightarrow> string \<Rightarrow> GovernanceProfile option" where
  "getProfile s i = find (\<lambda>p. gp_id p = i) (map_values (gr_profiles s))"

definition requireProfile :: "GovernanceRegistry \<Rightarrow> string \<Rightarrow> GovernanceFailure + GovernanceProfile" where
  "requireProfile s i = (case getProfile s i of None \<Rightarrow> Inl (gov_error GovProfileNotFound i) | Some p \<Rightarrow> Inr p)"

definition application_key :: "GovernanceProfile \<Rightarrow> GovernanceScope \<Rightarrow> string" where
  "application_key p scope = gp_id p @ ''#'' @ gp_digest p @ ''|'' @ scopeKey scope"

definition applicationFor :: "GovernanceRegistry \<Rightarrow> GovernanceProfile \<Rightarrow> GovernanceScope \<Rightarrow> GovernanceProfileApplication option" where
  "applicationFor s p scope = get_key (gr_applications s) (application_key p scope)"

definition governance_question :: "ExtensionAuthorization \<Rightarrow> Capability \<Rightarrow> ResourceRef \<Rightarrow> string \<Rightarrow> PolicyEvaluationInput" where
  "governance_question auth capability resource operation = \<lparr>pei_operation = operation, pei_capability = Some capability,
     pei_principalId = xa_principalId auth, pei_actorId = xa_actorId auth, pei_clientId = xa_clientId auth, pei_sessionId = xa_sessionId auth,
     pei_taskId = Some (xa_taskId auth), pei_grantId = Some (xa_grantId auth), pei_resource = resource,
     pei_sourceSpaceId = keep_truthy (rr_sourceSpaceId resource), pei_effect = None,
     pei_modelProvider = keep_truthy (xa_modelProvider auth), pei_requiredCredentialClass = None,
     pei_requiredAuthStrength = xa_requiredAuthStrength auth, pei_authorityClass = None,
     pei_promotionId = None, pei_approval = None, pei_discoverable = None, pei_protected = Some True\<rparr>"

fun in_governed_realm :: "'a rm_outcome \<Rightarrow> GovernanceRegistry \<Rightarrow> 'a gr_outcome" where
  "in_governed_realm (Inl e, r) s = raise (GovernanceRealmThrew e) (s\<lparr>gr_realm := r\<rparr>)"
| "in_governed_realm (Inr a, r) s = return a (s\<lparr>gr_realm := r\<rparr>)"

definition authorizeGovernance :: "int \<Rightarrow> ExtensionAuthorization \<Rightarrow> Capability \<Rightarrow> ResourceRef \<Rightarrow> string \<Rightarrow> GovernanceRegistry \<Rightarrow> PolicyExplanation gr_outcome" where
  "authorizeGovernance now auth capability resource operation s =
     and_then (in_governed_realm (evaluate now (governance_question auth capability resource operation) (gr_realm s)) s) (\<lambda>(allowed, explanation) s.
       if \<not> allowed then raise (GovernanceProfileError GovPolicyDenied (nullish (rr_projectId resource) (rr_realmId resource)) (Some explanation)) s
       else return explanation s)"

section \<open>Activation\<close>

text \<open>The profile is changed in place; it is stored under its own key.\<close>

definition activate_commit :: "string \<Rightarrow> GovernanceProfile \<Rightarrow> ActivateGovernanceProfileInput \<Rightarrow> GovernanceRegistry \<Rightarrow> GovernanceProfileApplication gr_outcome" where
  "activate_commit uuid p input s =
     (let key = application_key p (agp_scope input);
          application = \<lparr>ga_id = nullish (map_option ga_id (get_key (gr_applications s) key)) (opaqueId ''governance-application'' uuid),
            ga_profileId = gp_id p, ga_profileDigest = gp_digest p, ga_scope = agp_scope input,
            ga_policyVersion = realm_policyVersion (rs_realm (gr_realm s)), ga_authorizationEpoch = epoch (gr_realm s), ga_status = ApplicationActive,
            ga_activatedBy = xa_principalId (agp_authorization input)\<rparr>
      in return application (s\<lparr>gr_profiles := set_key (profile_key p) (p\<lparr>gp_lifecycle := GovActive\<rparr>) (gr_profiles s),
           gr_applications := set_key key application (gr_applications s)\<rparr>))"

definition activateProfile :: "int \<Rightarrow> string \<Rightarrow> ActivateGovernanceProfileInput \<Rightarrow> GovernanceRegistry \<Rightarrow> GovernanceProfileApplication gr_outcome" where
  "activateProfile now uuid input s = (case requireProfile s (agp_profileId input) of
     Inl e \<Rightarrow> raise e s
   | Inr p \<Rightarrow>
       if gp_lifecycle p = GovRetired then raise (gov_error GovProfileInactive (gp_id p)) s
       else (case gov_scope_error (agp_scope input) s of
           Some e \<Rightarrow> raise e s
         | None \<Rightarrow> and_then (authorizeGovernance now (agp_authorization input) GovernanceProfileManage (governance_resource (agp_scope input)) ''governance.profile.activate'' s)
             (\<lambda>_. activate_commit uuid p input)))"

section \<open>Evaluation\<close>

text \<open>What the loop over the controls writes for a control and its observation, if there is one.\<close>

fun blocker_of :: "GovernanceControl \<times> GovernanceControlObservation option \<Rightarrow> string option" where
  "blocker_of (c, None) = (if gc_required c
     then Some (''Control '' @ gc_id c @ '' is missing an observation; next=record exact-context control Evidence.'') else None)"
| "blocker_of (c, Some x) = (if \<not> gc_required c then None
     else case go_status x of
         ControlFailed \<Rightarrow> Some (''Control '' @ gc_id c @ '' failed; next='' @ go_nextAction x @ ''.'')
       | ControlIndeterminate \<Rightarrow> Some (''Control '' @ gc_id c @ '' is indeterminate; next='' @ go_nextAction x @ ''.'')
       | ControlSatisfied \<Rightarrow> None)"

fun advisory_of :: "GovernanceControl \<times> GovernanceControlObservation option \<Rightarrow> string option" where
  "advisory_of (c, None) = (if gc_required c then None
     else Some (''Control '' @ gc_id c @ '' is missing an observation; next=record or explicitly defer the optional control.''))"
| "advisory_of (c, Some x) = (if gc_required c \<or> go_status x = ControlSatisfied then None
     else Some (''Control '' @ gc_id c @ '' is '' @ control_status_text (go_status x) @ ''; next='' @ go_nextAction x @ ''.''))"

definition control_evidence :: "Platform \<Rightarrow> string \<Rightarrow> GovernanceProfile \<Rightarrow> GovernanceScope \<Rightarrow> GovernanceRegistry \<Rightarrow> GovernanceControl
    \<Rightarrow> GovernanceControlObservation \<Rightarrow> GovernanceControlEvidence" where
  "control_evidence pl uuid p scope s c x = \<lparr>ge_id = opaqueId ''governance-evidence'' uuid, ge_profileId = gp_id p, ge_profileDigest = gp_digest p,
     ge_scope = scope, ge_controlId = gc_id c, ge_status = go_status x, ge_evidenceRefs = go_evidenceRefs x,
     ge_policyVersion = realm_policyVersion (rs_realm (gr_realm s)), ge_authorizationEpoch = epoch (gr_realm s), ge_observedAt = go_observedAt x,
     ge_owner = go_owner x, ge_nextAction = go_nextAction x, ge_disclosure = go_disclosure x,
     ge_receipt = ''profile='' @ gp_id p @ ''; control='' @ gc_id c @ ''; status='' @ control_status_text (go_status x) @ ''; source='' @ observationsDigest pl [x]\<rparr>"

definition seen_controls :: "(GovernanceControl \<times> GovernanceControlObservation option) list \<Rightarrow> (GovernanceControl \<times> GovernanceControlObservation) list" where
  "seen_controls pairs = concat (map (\<lambda>(c, ox). case ox of None \<Rightarrow> [] | Some x \<Rightarrow> [(c, x)]) pairs)"

text \<open>The Evidence of an evaluation; the ids are drawn in the order of the controls.\<close>

definition evaluation_evidence :: "Platform \<Rightarrow> (nat \<Rightarrow> string) \<Rightarrow> GovernanceProfile \<Rightarrow> GovernanceScope \<Rightarrow> GovernanceRegistry
    \<Rightarrow> (GovernanceControl \<times> GovernanceControlObservation option) list \<Rightarrow> GovernanceControlEvidence list" where
  "evaluation_evidence pl u p scope s pairs =
     map (\<lambda>(k, c, x). control_evidence pl (u k) p scope s c x)
       (enumerate 0 (seen_controls pairs))"

definition evaluation_status :: "string list \<Rightarrow> string list \<Rightarrow> (string, GovernanceControlEvidence) jsmap \<Rightarrow> GovernanceStatus" where
  "evaluation_status blockers evidenceIds evidence =
     (if blockers \<noteq> [] then GovBlocked
      else if list_ex (\<lambda>i. map_option ge_status (get_key evidence i) = Some ControlIndeterminate) evidenceIds then GovIndeterminate
      else GovReady)"

definition evaluation_commit :: "Platform \<Rightarrow> (nat \<Rightarrow> string) \<Rightarrow> string \<Rightarrow> GovernanceProfile \<Rightarrow> GovernanceScope
    \<Rightarrow> (GovernanceControl \<times> GovernanceControlObservation option) list \<Rightarrow> GovernanceRegistry \<Rightarrow> GovernanceEvaluation gr_outcome" where
  "evaluation_commit pl u uuid p scope pairs s =
     (let added = evaluation_evidence pl u p scope s pairs;
          evidence = foldl (\<lambda>m (k, e). set_key k e m) (gr_evidence s) (map (\<lambda>e. (ge_id e, e)) added);
          ids = map ge_id added;
          blockers = List.map_filter blocker_of pairs;
          status = evaluation_status blockers ids evidence;
          evaluation = \<lparr>gv_id = opaqueId ''governance-evaluation'' uuid, gv_profileId = gp_id p, gv_profileDigest = gp_digest p, gv_scope = scope,
            gv_status = status, gv_evidenceIds = ids, gv_blockers = blockers, gv_advisories = List.map_filter advisory_of pairs,
            gv_policyVersion = realm_policyVersion (rs_realm (gr_realm s)), gv_authorizationEpoch = epoch (gr_realm s),
            gv_receipt = ''profile='' @ gp_id p @ ''; digest='' @ gp_digest p @ ''; status='' @ governance_status_text status @ ''; evidence=''
              @ show_nat (length ids) @ ''; certificationClaim=false''\<rparr>
      in return evaluation (s\<lparr>gr_evidence := evidence, gr_evaluations := set_key (gv_id evaluation) evaluation (gr_evaluations s)\<rparr>))"

definition observed_pairs :: "(string, GovernanceControl) jsmap \<Rightarrow> (string, GovernanceControlObservation) jsmap
    \<Rightarrow> (GovernanceControl \<times> GovernanceControlObservation option) list" where
  "observed_pairs controls observed = map (\<lambda>c. (c, get_key observed (gc_id c))) (map_values controls)"

definition profile_pairs :: "GovernanceProfile \<Rightarrow> GovernanceControlObservation list
    \<Rightarrow> GovernanceFailure + (GovernanceControl \<times> GovernanceControlObservation option) list" where
  "profile_pairs p observations = sum_then (controlMap (gp_controls p)) (\<lambda>controls.
     sum_then (observed_controls controls observations) (\<lambda>observed. Inr (observed_pairs controls observed)))"

definition evaluateProfile :: "Platform \<Rightarrow> int \<Rightarrow> (nat \<Rightarrow> string) \<Rightarrow> string \<Rightarrow> EvaluateGovernanceProfileInput \<Rightarrow> GovernanceRegistry \<Rightarrow> GovernanceEvaluation gr_outcome" where
  "evaluateProfile pl now u uuid input s = (case requireProfile s (egp_profileId input) of
     Inl e \<Rightarrow> raise e s
   | Inr p \<Rightarrow> (case gov_scope_error (egp_scope input) s of
       Some e \<Rightarrow> raise e s
     | None \<Rightarrow>
         if map_option ga_status (applicationFor s p (egp_scope input)) \<noteq> Some ApplicationActive then raise (gov_error GovProfileInactive (gp_id p)) s
         else and_then (authorizeGovernance now (egp_authorization input) GovernanceProfileEvaluate (governance_resource (egp_scope input)) ''governance.profile.evaluate'' s)
           (\<lambda>_ s. (case profile_pairs p (egp_observations input) of
               Inl e \<Rightarrow> raise e s
             | Inr pairs \<Rightarrow> evaluation_commit pl u uuid p (egp_scope input) pairs s))))"

section \<open>Export and replay\<close>

definition new_export :: "Platform \<Rightarrow> string \<Rightarrow> string \<Rightarrow> GovernanceProfile \<Rightarrow> GovernanceControlObservation list \<Rightarrow> GovernanceEvaluation \<Rightarrow> GovernanceProfileExport" where
  "new_export pl uuid createdAt p observations evaluation =
     (let b = \<lparr>gx_protocol = governance_export_protocol, gx_version = ''v1'', gx_exportId = opaqueId ''governance-export'' uuid, gx_createdAt = createdAt,
            gx_profile = p, gx_observations = observations, gx_evaluation = evaluation, gx_credentialFree = True, gx_integrityDigest = [],
            gx_receipt = ''profile='' @ gp_id p @ ''; digest='' @ gp_digest p @ ''; evaluation='' @ gv_id evaluation @ ''; credentialFree=true''\<rparr>
      in b\<lparr>gx_integrityDigest := exportDigest pl b\<rparr>)"

definition exportProfile :: "Platform \<Rightarrow> int \<Rightarrow> string \<Rightarrow> (nat \<Rightarrow> string) \<Rightarrow> string \<Rightarrow> string \<Rightarrow> string \<Rightarrow> EvaluateGovernanceProfileInput \<Rightarrow> GovernanceRegistry
    \<Rightarrow> GovernanceProfileExport gr_outcome" where
  "exportProfile pl now createdAt u uuid exportUuid profileId input s =
     (if egp_profileId input \<noteq> profileId then raise (gov_error GovProfileInvalid profileId) s
      else (case requireProfile s profileId of
          Inl e \<Rightarrow> raise e s
        | Inr p \<Rightarrow> and_then (evaluateProfile pl now u uuid input s) (\<lambda>evaluation s.
            return (new_export pl exportUuid createdAt p (egp_observations input) evaluation) s)))"

definition replay_target :: "GovernanceProfileExport \<Rightarrow> GovernanceScope \<Rightarrow> GovernanceProfile" where
  "replay_target b scope = (gx_profile b)\<lparr>gp_scope := scope, gp_lifecycle := GovDraft\<rparr>"

definition replay_activation :: "int \<Rightarrow> string \<Rightarrow> GovernanceProfile \<Rightarrow> ReplayGovernanceProfileInput \<Rightarrow> GovernanceRegistry \<Rightarrow> unit gr_outcome" where
  "replay_activation now uuid target input s =
     (if applicationFor s target (rgp_scope input) = None
      then void (activateProfile now uuid \<lparr>agp_profileId = gp_id target, agp_scope = rgp_scope input, agp_authorization = rgp_authorization input\<rparr> s)
      else return () s)"

definition replayProfile :: "Platform \<Rightarrow> (js_value \<Rightarrow> string option) \<Rightarrow> int \<Rightarrow> (nat \<Rightarrow> string) \<Rightarrow> string \<Rightarrow> string \<Rightarrow> GovernanceProfileExport
    \<Rightarrow> ReplayGovernanceProfileInput \<Rightarrow> GovernanceRegistry \<Rightarrow> GovernanceEvaluation gr_outcome" where
  "replayProfile pl scan now u uuid applicationUuid b input s =
     (case verifyGovernanceProfileExport pl scan b of
        Inl e \<Rightarrow> raise e s
      | Inr verified \<Rightarrow> (case gov_scope_error (rgp_scope input) s of
            Some e \<Rightarrow> raise e s
          | None \<Rightarrow>
              let target = replay_target verified (rgp_scope input) in
              and_then (registerProfile pl target s) (\<lambda>_ s.
              and_then (replay_activation now applicationUuid target input s) (\<lambda>_ s.
                evaluateProfile pl now u uuid \<lparr>egp_profileId = gp_id target, egp_scope = rgp_scope input,
                  egp_observations = nullish (rgp_observations input) (gx_observations verified), egp_authorization = rgp_authorization input\<rparr> s))))"

section \<open>Operations\<close>

datatype gr_op =
    RegisterProfile GovernanceProfile
  | ActivateProfile int string ActivateGovernanceProfileInput
  | EvaluateProfile int "nat \<Rightarrow> string" string EvaluateGovernanceProfileInput
  | ExportProfile int string "nat \<Rightarrow> string" string string string EvaluateGovernanceProfileInput
  | ReplayProfile int "nat \<Rightarrow> string" string string GovernanceProfileExport ReplayGovernanceProfileInput
  | GovernedRealmCall realm_op

fun gr_step :: "Platform \<Rightarrow> (js_value \<Rightarrow> string option) \<Rightarrow> (string \<Rightarrow> string) \<Rightarrow> gr_op \<Rightarrow> GovernanceRegistry \<Rightarrow> unit gr_outcome" where
  "gr_step pl scan d (RegisterProfile p) s = void (registerProfile pl p s)"
| "gr_step pl scan d (ActivateProfile now uuid input) s = void (activateProfile now uuid input s)"
| "gr_step pl scan d (EvaluateProfile now u uuid input) s = void (evaluateProfile pl now u uuid input s)"
| "gr_step pl scan d (ExportProfile now createdAt u uuid exportUuid i input) s = void (exportProfile pl now createdAt u uuid exportUuid i input s)"
| "gr_step pl scan d (ReplayProfile now u uuid applicationUuid b input) s = void (replayProfile pl scan now u uuid applicationUuid b input s)"
| "gr_step pl scan d (GovernedRealmCall x) s = in_governed_realm (realm_step d x (gr_realm s)) s"

text \<open>The random ids of new Evidence, at most one for each observation, are distinct and not in use.\<close>

definition evidence_fresh :: "GovernanceRegistry \<Rightarrow> (nat \<Rightarrow> string) \<Rightarrow> nat \<Rightarrow> bool" where
  "evidence_fresh s u n \<longleftrightarrow> distinct (map u [0..<n]) \<and> list_all (\<lambda>k. \<not> has_key (gr_evidence s) (opaqueId ''governance-evidence'' (u k))) [0..<n]"

fun gr_ok :: "GovernanceRegistry \<Rightarrow> gr_op \<Rightarrow> bool" where
  "gr_ok s (EvaluateProfile now u uuid input) = evidence_fresh s u (length (egp_observations input))"
| "gr_ok s (ExportProfile now createdAt u uuid exportUuid i input) = evidence_fresh s u (length (egp_observations input))"
| "gr_ok s (ReplayProfile now u uuid applicationUuid b input) = evidence_fresh s u (length (nullish (rgp_observations input) (gx_observations b)))"
| "gr_ok s x = True"

end
