(* ===== verification/Governance_Safety.thy ===== *)
theory Governance_Safety
  imports Governance Extension_Authority
begin

text \<open>
  What the registry of Governance Profiles promises: a digest determines what was hashed, so an export bundle that
  verifies is the one that was sealed; an evaluation in the state ready rests on satisfied Evidence for every
  required control of the profile its digest names; an exported bundle verifies and replaying it into a registry
  that does not know the profile gives the same result; a refused call changes no record. At the end, where the
  code falls short.
\<close>

section \<open>What the digests determine\<close>

lemma keys_optional: "map fst (optional_member k v) = (if v = None then [] else [k])"
  by (simp add: optional_member_def split: option.split)

lemma map_of_optional:
  "map_of (optional_member k v) k = map_option JString v" "j \<noteq> k \<Longrightarrow> map_of (optional_member k v) j = None"
  "m k = None \<Longrightarrow> (m ++ map_of (optional_member k v)) k = map_option JString v" "j \<noteq> k \<Longrightarrow> (m ++ map_of (optional_member k v)) j = m j"
  by (auto simp: optional_member_def map_add_def split: option.split)

text \<open>The keys of the objects with optional members are distinct.\<close>

lemma optional_keys_distinct:
  "distinct (map fst ((''realmId'', a) # optional_member ''organizationId'' x @ optional_member ''projectId'' y))"
  "distinct (map fst ([(''id'', a), (''title'', b), (''requirement'', c), (''owner'', d), (''required'', e), (''evidenceKinds'', f)]
     @ optional_member ''customerResponsibility'' x))"
  "distinct (map fst ([(''source'', a), (''publisher'', b), (''receipt'', c)] @ optional_member ''signer'' x @ optional_member ''attestation'' y))"
  by (simp_all add: keys_optional)

lemma stable_option_inject [simp]: "map_option (stableValue pl) (map_option JString v) = map_option (stableValue pl) (map_option JString w) \<longleftrightarrow> v = w"
  by (cases v; cases w) simp_all

lemma lifecycle_text_inject [simp]: "governance_lifecycle_text a = governance_lifecycle_text b \<longleftrightarrow> a = b"
  by (cases a; cases b) simp_all

lemma control_status_text_inject [simp]: "control_status_text a = control_status_text b \<longleftrightarrow> a = b"
  by (cases a; cases b) simp_all

lemma status_text_inject [simp]: "governance_status_text a = governance_status_text b \<longleftrightarrow> a = b"
  by (cases a; cases b) simp_all

lemma disclosure_text_inject [simp]: "disclosure_text a = disclosure_text b \<longleftrightarrow> a = b"
  by (cases a; cases b) simp_all

lemma governance_scope_json_inject:
  assumes "stableValue pl (governance_scope_json a) = stableValue pl (governance_scope_json b)"
  shows "a = b"
proof -
  note field = stable_object_field [OF assms [unfolded governance_scope_json_def] optional_keys_distinct(1) optional_keys_distinct(1)]
  have "gs_realmId a = gs_realmId b" using field [of "''realmId''"] by (simp add: map_of_optional)
  moreover have "gs_organizationId a = gs_organizationId b" using field [of "''organizationId''"] by (simp add: map_of_optional)
  moreover have "gs_projectId a = gs_projectId b" using field [of "''projectId''"] by (simp add: map_of_optional)
  ultimately show ?thesis by simp
qed

lemma control_json_inject:
  assumes "stableValue pl (control_json a) = stableValue pl (control_json b)"
  shows "a = b"
proof -
  note field = stable_object_field [OF assms [unfolded control_json_def] optional_keys_distinct(2) optional_keys_distinct(2)]
  have "gc_id a = gc_id b" using field [of "''id''"] by (simp add: map_of_optional)
  moreover have "gc_title a = gc_title b" using field [of "''title''"] by (simp add: map_of_optional)
  moreover have "gc_requirement a = gc_requirement b" using field [of "''requirement''"] by (simp add: map_of_optional)
  moreover have "gc_owner a = gc_owner b" using field [of "''owner''"] by (simp add: map_of_optional)
  moreover have "gc_required a = gc_required b" using field [of "''required''"] by (simp add: map_of_optional)
  moreover have "gc_evidenceKinds a = gc_evidenceKinds b" using field [of "''evidenceKinds''"] by (simp add: map_of_optional stable_texts)
  moreover have "gc_customerResponsibility a = gc_customerResponsibility b" using field [of "''customerResponsibility''"] by (simp add: map_of_optional)
  ultimately show ?thesis by simp
qed

lemma provenance_json_inject:
  assumes "stableValue pl (provenance_json a) = stableValue pl (provenance_json b)"
  shows "a = b"
proof -
  note field = stable_object_field [OF assms [unfolded provenance_json_def] optional_keys_distinct(3) optional_keys_distinct(3)]
  have "pv_source a = pv_source b" using field [of "''source''"] by (simp add: map_of_optional)
  moreover have "pv_publisher a = pv_publisher b" using field [of "''publisher''"] by (simp add: map_of_optional)
  moreover have "pv_receipt a = pv_receipt b" using field [of "''receipt''"] by (simp add: map_of_optional)
  moreover have "pv_signer a = pv_signer b" using field [of "''signer''"] by (simp add: map_of_optional)
  moreover have "pv_attestation a = pv_attestation b" using field [of "''attestation''"] by (simp add: map_of_optional)
  ultimately show ?thesis by simp
qed

text \<open>The other objects have fixed keys.\<close>

lemma disclosure_json_inject: "stableValue pl (governance_disclosure_json a) = stableValue pl (governance_disclosure_json b) \<Longrightarrow> a = b"
  unfolding governance_disclosure_json_def by (drule stable_fields) simp_all

lemma observation_json_inject: "stableValue pl (observation_json a) = stableValue pl (observation_json b) \<Longrightarrow> a = b"
  unfolding observation_json_def by (drule stable_fields) (auto simp: stable_texts dest!: disclosure_json_inject)

lemma stable_array_inject:
  assumes "\<And>a b. stableValue pl (f a) = stableValue pl (f b) \<Longrightarrow> a = b" "stableValue pl (JArray (map f xs)) = stableValue pl (JArray (map f ys))"
  shows "xs = ys"
  using assms by (intro map_injective [of "\<lambda>x. stableValue pl (f x)"]) (auto simp: stable_value_elements_map comp_def intro: injI)

lemma controls_json_inject: "stableValue pl (JArray (map control_json xs)) = stableValue pl (JArray (map control_json ys)) \<Longrightarrow> xs = ys"
  by (rule stable_array_inject) (rule control_json_inject)

lemma observations_json_inject: "stableValue pl (JArray (map observation_json xs)) = stableValue pl (JArray (map observation_json ys)) \<Longrightarrow> xs = ys"
  by (rule stable_array_inject) (rule observation_json_inject)

lemma profile_json_inject: "stableValue pl (profile_json a) = stableValue pl (profile_json b) \<Longrightarrow> a = b"
  unfolding profile_json_def
  by (drule stable_fields)
     (auto simp del: stableValue.simps(1) dest!: governance_scope_json_inject provenance_json_inject controls_json_inject)

lemma evaluation_json_inject: "stableValue pl (evaluation_json a) = stableValue pl (evaluation_json b) \<Longrightarrow> a = b"
  unfolding evaluation_json_def by (drule stable_fields) (auto simp: stable_texts dest!: governance_scope_json_inject)

lemma export_json_inject:
  "stableValue pl (export_json a) = stableValue pl (export_json b) \<Longrightarrow> gx_integrityDigest a = gx_integrityDigest b \<Longrightarrow> a = b"
  unfolding export_json_def
  by (drule stable_fields)
     (auto simp del: stableValue.simps(1) dest!: profile_json_inject evaluation_json_inject observations_json_inject)

lemma profileDigestInput_inject:
  "stableValue pl (profileDigestInput a) = stableValue pl (profileDigestInput b)
     \<Longrightarrow> gp_id a = gp_id b \<and> gp_name a = gp_name b \<and> gp_version a = gp_version b \<and> gp_controls a = gp_controls b \<and> gp_provenance a = gp_provenance b"
  unfolding profileDigestInput_def
  by (drule stable_fields) (auto simp del: stableValue.simps(1) dest!: provenance_json_inject controls_json_inject)

section \<open>Bundles\<close>

lemma verify_Inr:
  "verifyGovernanceProfileExport pl scan b = Inr c \<longleftrightarrow> c = b \<and> gx_protocol b = governance_export_protocol \<and> gx_version b = ''v1'' \<and> gx_credentialFree b
     \<and> exportDigest pl b = gx_integrityDigest b \<and> \<not> truthy (scan (export_json b)) \<and> governanceProfileDigest pl (gx_profile b) = gp_digest (gx_profile b)"
  by (auto simp: verifyGovernanceProfileExport_def loop_simps)

text \<open>
  The integrity digest of a bundle that verifies determines the bundle: its profile, observations, evaluation and
  receipts. Otherwise two texts have one hash.
\<close>

theorem verified_bundle_is_bound:
  assumes "verifyGovernanceProfileExport pl scan a = Inr a'" "verifyGovernanceProfileExport pl scan' b = Inr b'" "gx_integrityDigest a = gx_integrityDigest b"
  shows "a' = b' \<or> collision pl"
  using assms stable_digest_inject [of pl "export_json a" "export_json b"] export_json_inject [of pl a b]
  by (auto simp: verify_Inr exportDigest_def)

section \<open>Controls and observations\<close>

lemma add_controls_Inr:
  "fold_loop add_control cs m = Inr r \<Longrightarrow> r = m @ map (\<lambda>c. (gc_id c, c)) cs \<and> distinct (map gc_id cs) \<and> (\<forall>c\<in>set cs. \<not> has_key m (gc_id c))"
proof (induction cs arbitrary: m)
  case (Cons c cs)
  from Cons.prems obtain m' where m': "add_control c m = Inr m'" "fold_loop add_control cs m' = Inr r" by (auto simp only: fold_loop_Cons_Inr)
  then have new: "\<not> has_key m (gc_id c)" and "m' = set_key (gc_id c) c m" by (auto simp: add_control_def loop_simps)
  then have m'_def: "m' = m @ [(gc_id c, c)]" by (simp add: has_key_def set_key_fresh)
  have key: "has_key (m @ [(gc_id c, c)]) i \<longleftrightarrow> has_key m i \<or> i = gc_id c" for i by (auto simp: has_key_def get_key_def map_add_def split: option.splits)
  from Cons.IH [OF m'(2)] new show ?case by (auto simp: m'_def key image_iff)
qed simp

lemma controlMap_Inr: "controlMap cs = Inr m \<Longrightarrow> m = map (\<lambda>c. (gc_id c, c)) cs \<and> distinct (map gc_id cs)"
  by (auto simp: controlMap_def loop_simps dest!: add_controls_Inr split: if_splits)

lemma add_observations_Inr:
  "fold_loop (add_observation controls) xs m = Inr r \<Longrightarrow> r = m @ map (\<lambda>x. (go_controlId x, x)) xs \<and> distinct (map go_controlId xs)
     \<and> (\<forall>x\<in>set xs. \<not> has_key m (go_controlId x))"
proof (induction xs arbitrary: m)
  case (Cons x xs)
  from Cons.prems obtain m' where m': "add_observation controls x m = Inr m'" "fold_loop (add_observation controls) xs m' = Inr r"
    by (auto simp only: fold_loop_Cons_Inr)
  then have new: "\<not> has_key m (go_controlId x)" and "m' = set_key (go_controlId x) x m" by (auto simp: add_observation_def loop_simps)
  then have m'_def: "m' = m @ [(go_controlId x, x)]" by (simp add: has_key_def set_key_fresh)
  have key: "has_key (m @ [(go_controlId x, x)]) i \<longleftrightarrow> has_key m i \<or> i = go_controlId x" for i by (auto simp: has_key_def get_key_def map_add_def split: option.splits)
  from Cons.IH [OF m'(2)] new show ?case by (auto simp: m'_def key image_iff)
qed simp

text \<open>The pairs an evaluation looks at: every control of the profile, with its observation.\<close>

definition observation_of :: "GovernanceControlObservation list \<Rightarrow> GovernanceControl \<Rightarrow> GovernanceControlObservation option" where
  "observation_of xs c = find (\<lambda>x. go_controlId x = gc_id c) xs"

lemma map_of_find: "map_of (map (\<lambda>x. (f x, x)) xs) k = find (\<lambda>x. f x = k) xs"
  by (induction xs) auto

lemma profile_pairs_Inr:
  assumes "profile_pairs p xs = Inr pairs"
  shows "pairs = map (\<lambda>c. (c, observation_of xs c)) (gp_controls p)" "distinct (map gc_id (gp_controls p))" "distinct (map go_controlId xs)"
proof -
  obtain controls observed where "controlMap (gp_controls p) = Inr controls" "observed_controls controls xs = Inr observed"
    and pairs: "pairs = observed_pairs controls observed"
    using assms by (auto simp: profile_pairs_def loop_simps)
  then have "controls = map (\<lambda>c. (gc_id c, c)) (gp_controls p) \<and> distinct (map gc_id (gp_controls p))"
    and "observed = map (\<lambda>x. (go_controlId x, x)) xs \<and> distinct (map go_controlId xs)"
    using controlMap_Inr add_observations_Inr [of controls xs "[]" observed] by (auto simp: observed_controls_def)
  then show "pairs = map (\<lambda>c. (c, observation_of xs c)) (gp_controls p)" "distinct (map gc_id (gp_controls p))" "distinct (map go_controlId xs)"
    by (simp_all add: pairs observed_pairs_def map_values_def observation_of_def get_key_def map_of_find comp_def)
qed

lemma set_seen_controls: "(c, x) \<in> set (seen_controls pairs) \<longleftrightarrow> (c, Some x) \<in> set pairs"
  by (induction pairs) (auto simp: seen_controls_def split: option.splits)

lemma find_found: "Some x = find P xs \<Longrightarrow> x \<in> set xs \<and> P x" "find P xs = Some x \<Longrightarrow> x \<in> set xs \<and> P x"
  by (induction xs) (auto split: if_splits)

lemma seen_controls_bound:
  assumes "profile_pairs p xs = Inr pairs"
  shows "length (seen_controls pairs) \<le> length xs"
proof -
  note pairs = profile_pairs_Inr [OF assms]
  have ids: "map (gc_id \<circ> fst) (seen_controls (map (\<lambda>c. (c, observation_of xs c)) cs)) = map gc_id (filter (\<lambda>c. observation_of xs c \<noteq> None) cs)" for cs
    by (induction cs) (auto simp: seen_controls_def split: option.split)
  have "distinct (map (gc_id \<circ> fst) (seen_controls pairs))" using pairs(2) by (simp add: pairs(1) ids distinct_map_filter)
  moreover have "set (map (gc_id \<circ> fst) (seen_controls pairs)) \<subseteq> set (map go_controlId xs)"
    by (auto simp: pairs(1) set_seen_controls observation_of_def dest!: find_found) (metis image_eqI)
  ultimately have "length (map (gc_id \<circ> fst) (seen_controls pairs)) \<le> length (map go_controlId xs)"
    by (metis card_length card_mono distinct_card finite_set le_trans)
  then show ?thesis by simp
qed

section \<open>What a call does\<close>

lemma authorizeGovernance_cases:
  assumes "authorizeGovernance now auth c r operation s = (res, t)"
  shows "\<exists>realm. t = s\<lparr>gr_realm := realm\<rparr>" "res = Inr e \<Longrightarrow> realm_allows (now, governance_question auth c r operation) (gr_realm s)"
  using assms
  by (cases "evaluate now (governance_question auth c r operation) (gr_realm s)" rule: void.cases;
      auto simp: authorizeGovernance_def realm_allows_def return_def raise_def split: if_splits)+

lemma evaluateProfile_Inl: "evaluateProfile pl now u uuid input s = (Inl e, t) \<Longrightarrow> \<exists>realm. t = s\<lparr>gr_realm := realm\<rparr>"
  by (cases "authorizeGovernance now (egp_authorization input) GovernanceProfileEvaluate (governance_resource (egp_scope input)) ''governance.profile.evaluate'' s"
        rule: void.cases)
     (auto simp: evaluateProfile_def raise_def evaluation_commit_def Let_def return_def split: sum.splits option.splits if_splits
       dest: authorizeGovernance_cases(1) intro: exI [of _ "gr_realm s"])

lemma evaluateProfile_Inr:
  assumes "evaluateProfile pl now u uuid input s = (Inr v, t)"
  obtains p pairs realm where "requireProfile s (egp_profileId input) = Inr p"
    "map_option ga_status (applicationFor s p (egp_scope input)) = Some ApplicationActive" "profile_pairs p (egp_observations input) = Inr pairs"
    "evaluation_commit pl u uuid p (egp_scope input) pairs (s\<lparr>gr_realm := realm\<rparr>) = (Inr v, t)"
  using assms
  by (cases "authorizeGovernance now (egp_authorization input) GovernanceProfileEvaluate (governance_resource (egp_scope input)) ''governance.profile.evaluate'' s"
        rule: void.cases)
     (auto simp: evaluateProfile_def raise_def split: sum.splits option.splits if_splits dest: authorizeGovernance_cases(1))

lemma activateProfile_cases:
  assumes "activateProfile now uuid input s = (res, t)"
  shows "(\<exists>realm. t = s\<lparr>gr_realm := realm\<rparr>) \<and> (\<forall>a. res \<noteq> Inr a)
     \<or> (\<exists>realm p. requireProfile s (agp_profileId input) = Inr p \<and> gp_lifecycle p \<noteq> GovRetired
        \<and> activate_commit uuid p input (s\<lparr>gr_realm := realm\<rparr>) = (res, t))"
  using assms
  by (cases "authorizeGovernance now (agp_authorization input) GovernanceProfileManage (governance_resource (agp_scope input)) ''governance.profile.activate'' s"
        rule: void.cases)
     (auto simp: activateProfile_def raise_def split: sum.splits option.splits if_splits
       dest: authorizeGovernance_cases(1) intro: exI [of _ "gr_realm s"])

text \<open>The records of an evaluation.\<close>

definition pairs_status :: "(GovernanceControl \<times> GovernanceControlObservation option) list \<Rightarrow> GovernanceStatus" where
  "pairs_status pairs = (if List.map_filter blocker_of pairs \<noteq> [] then GovBlocked
     else if list_ex (\<lambda>(c, x). go_status x = ControlIndeterminate) (seen_controls pairs) then GovIndeterminate else GovReady)"

definition evidence_id :: "(nat \<Rightarrow> string) \<Rightarrow> nat \<Rightarrow> string" where
  "evidence_id u k = opaqueId ''governance-evidence'' (u k)"

lemma ids_of_evidence: "map ge_id (evaluation_evidence pl u p scope s pairs) = map (evidence_id u) [0..<length (seen_controls pairs)]"
  by (rule nth_equalityI)
     (auto simp: evaluation_evidence_def nth_enumerate_eq control_evidence_def evidence_id_def case_prod_unfold)

lemma nth_evidence:
  "k < length (seen_controls pairs) \<Longrightarrow> evaluation_evidence pl u p scope s pairs ! k
     = control_evidence pl (u k) p scope s (fst (seen_controls pairs ! k)) (snd (seen_controls pairs ! k))"
  by (simp add: evaluation_evidence_def nth_enumerate_eq case_prod_unfold)

lemma length_evidence [simp]: "length (evaluation_evidence pl u p scope s pairs) = length (seen_controls pairs)"
  by (simp add: evaluation_evidence_def)

lemma evidence_keys:
  assumes "evidence_fresh s u n" "length (seen_controls pairs) \<le> n"
  shows "distinct (map (evidence_id u) [0..<length (seen_controls pairs)])"
    and "i \<in> set (map (evidence_id u) [0..<length (seen_controls pairs)]) \<Longrightarrow> get_key (gr_evidence s) i = None"
proof -
  have "inj_on u {0..<n}" using assms(1) by (simp add: evidence_fresh_def distinct_map)
  then have "inj_on (evidence_id u) {0..<length (seen_controls pairs)}"
    using assms(2) by (auto simp: inj_on_def evidence_id_def)
  then show "distinct (map (evidence_id u) [0..<length (seen_controls pairs)])" by (simp add: distinct_map)
  show "i \<in> set (map (evidence_id u) [0..<length (seen_controls pairs)]) \<Longrightarrow> get_key (gr_evidence s) i = None"
    using assms by (auto simp: evidence_fresh_def list_all_iff has_key_def evidence_id_def)
qed

lemma commit_records:
  assumes "evaluation_commit pl u uuid p scope pairs s = (Inr v, t)"
  shows "gr_profiles t = gr_profiles s" "gr_applications t = gr_applications s" "gr_evaluations t = set_key (gv_id v) v (gr_evaluations s)"
    "gr_evidence t = foldl (\<lambda>m (k, e). set_key k e m) (gr_evidence s) (map (\<lambda>e. (ge_id e, e)) (evaluation_evidence pl u p scope s pairs))"
    "gv_profileId v = gp_id p" "gv_profileDigest v = gp_digest p" "gv_scope v = scope" "gv_blockers v = List.map_filter blocker_of pairs"
    "gv_advisories v = List.map_filter advisory_of pairs" "gv_evidenceIds v = map (evidence_id u) [0..<length (seen_controls pairs)]"
    "gv_policyVersion v = realm_policyVersion (rs_realm (gr_realm s))" "gv_authorizationEpoch v = epoch (gr_realm s)"
    "gv_status v = evaluation_status (gv_blockers v) (gv_evidenceIds v) (gr_evidence t)"
  using assms by (auto simp: evaluation_commit_def Let_def return_def ids_of_evidence)

lemma commit_evidence:
  assumes commit: "evaluation_commit pl u uuid p scope pairs s = (Inr v, t)"
    and fresh: "evidence_fresh s u n" "length (seen_controls pairs) \<le> n"
  shows "get_key (gr_evidence s) i = Some e \<Longrightarrow> get_key (gr_evidence t) i = Some e"
    and "k < length (seen_controls pairs) \<Longrightarrow> get_key (gr_evidence t) (evidence_id u k)
       = Some (control_evidence pl (u k) p scope s (fst (seen_controls pairs ! k)) (snd (seen_controls pairs ! k)))"
    and "gv_status v = pairs_status pairs"
proof -
  define es where "es = map (\<lambda>e. (ge_id e, e)) (evaluation_evidence pl u p scope s pairs)"
  note keys = evidence_keys [OF fresh]
  have fst_es: "map fst es = map (evidence_id u) [0..<length (seen_controls pairs)]" by (simp add: es_def comp_def ids_of_evidence)
  have get: "get_key (gr_evidence t) i = (case map_of es i of Some e \<Rightarrow> Some e | None \<Rightarrow> get_key (gr_evidence s) i)" for i
    using commit_records(4) [OF commit] keys(1) by (simp add: es_def [symmetric] get_foldl_set_key map_of_rev_distinct fst_es)
  show kept: "get_key (gr_evidence t) i = Some e" if "get_key (gr_evidence s) i = Some e"
  proof -
    have "map_of es i = None" using keys(2) [of i] that by (auto simp: map_of_eq_None_iff fst_es [symmetric])
    with that show ?thesis by (simp add: get)
  qed
  show new: "get_key (gr_evidence t) (evidence_id u k)
       = Some (control_evidence pl (u k) p scope s (fst (seen_controls pairs ! k)) (snd (seen_controls pairs ! k)))"
    if k: "k < length (seen_controls pairs)" for k
  proof -
    have "es ! k = (evidence_id u k, control_evidence pl (u k) p scope s (fst (seen_controls pairs ! k)) (snd (seen_controls pairs ! k)))"
      using k by (simp add: es_def nth_evidence) (simp add: control_evidence_def evidence_id_def)
    moreover have "es ! k \<in> set es" using k by (simp add: es_def)
    ultimately have "map_of es (evidence_id u k) = Some (control_evidence pl (u k) p scope s (fst (seen_controls pairs ! k)) (snd (seen_controls pairs ! k)))"
      using keys(1) by (intro map_of_is_SomeI) (simp_all add: fst_es)
    then show ?thesis by (simp add: get)
  qed
  have status: "map_option ge_status (get_key (gr_evidence t) (map (evidence_id u) [0..<length (seen_controls pairs)] ! k))
      = Some (go_status (snd (seen_controls pairs ! k)))" if "k < length (seen_controls pairs)" for k
    using new [OF that] that by (simp add: control_evidence_def)
  have "list_ex (\<lambda>i. map_option ge_status (get_key (gr_evidence t) i) = Some ControlIndeterminate) (gv_evidenceIds v)
      \<longleftrightarrow> list_ex (\<lambda>(c, x). go_status x = ControlIndeterminate) (seen_controls pairs)"
    unfolding commit_records(10) [OF commit] list_ex_length length_map length_upt by (simp only: status case_prod_unfold option.inject diff_zero cong: conj_cong)
  then show "gv_status v = pairs_status pairs"
    by (simp add: commit_records(13) [OF commit] commit_records(8) [OF commit] evaluation_status_def pairs_status_def)
qed

section \<open>Reachable registries\<close>

text \<open>Evidence of an evaluation for a control, in the state of the registry that recorded both.\<close>

definition evidence_of :: "GovernanceRegistry \<Rightarrow> GovernanceEvaluation \<Rightarrow> GovernanceControl \<Rightarrow> GovernanceControlEvidence \<Rightarrow> bool" where
  "evidence_of s v c e \<longleftrightarrow> ge_id e \<in> set (gv_evidenceIds v) \<and> get_key (gr_evidence s) (ge_id e) = Some e \<and> ge_controlId e = gc_id c
     \<and> ge_profileId e = gv_profileId v \<and> ge_profileDigest e = gv_profileDigest v \<and> ge_scope e = gv_scope v
     \<and> ge_policyVersion e = gv_policyVersion v \<and> ge_authorizationEpoch e = gv_authorizationEpoch v"

definition backed :: "GovernanceRegistry \<Rightarrow> GovernanceEvaluation \<Rightarrow> bool" where
  "backed s v \<longleftrightarrow> (\<exists>p. get_key (gr_profiles s) (profile_key p) = Some p \<and> gp_id p = gv_profileId v \<and> gp_digest p = gv_profileDigest v
     \<and> (gv_status v = GovReady \<longrightarrow> (\<forall>c\<in>set (gp_controls p). gc_required c \<longrightarrow> (\<exists>e. evidence_of s v c e \<and> ge_status e = ControlSatisfied))))"

definition profile_ok :: "Platform \<Rightarrow> string \<Rightarrow> GovernanceProfile \<Rightarrow> bool" where
  "profile_ok pl k p \<longleftrightarrow> k = profile_key p \<and> governanceProfileDigest pl p = gp_digest p"

definition application_ok :: "GovernanceRegistry \<Rightarrow> string \<Rightarrow> GovernanceProfileApplication \<Rightarrow> bool" where
  "application_ok s k a \<longleftrightarrow> ga_status a = ApplicationActive \<and> (\<exists>p. get_key (gr_profiles s) (profile_key p) = Some p \<and> gp_lifecycle p = GovActive
     \<and> ga_profileId a = gp_id p \<and> ga_profileDigest a = gp_digest p \<and> k = application_key p (ga_scope a))"

definition gov_inv :: "Platform \<Rightarrow> GovernanceRegistry \<Rightarrow> bool" where
  "gov_inv pl s \<longleftrightarrow> distinct_keys (gr_profiles s) \<and> (\<forall>k p. get_key (gr_profiles s) k = Some p \<longrightarrow> profile_ok pl k p)
     \<and> (\<forall>k a. get_key (gr_applications s) k = Some a \<longrightarrow> application_ok s k a) \<and> (\<forall>k v. get_key (gr_evaluations s) k = Some v \<longrightarrow> backed s v)"

text \<open>Profiles are never removed and only their lifecycle changes, Evidence never changes.\<close>

definition profile_before :: "GovernanceProfile \<Rightarrow> GovernanceProfile \<Rightarrow> bool" where
  "profile_before p p' \<longleftrightarrow> p' = p\<lparr>gp_lifecycle := gp_lifecycle p'\<rparr> \<and> (gp_lifecycle p = GovActive \<longrightarrow> gp_lifecycle p' = GovActive)"

definition gov_before :: "GovernanceRegistry \<Rightarrow> GovernanceRegistry \<Rightarrow> bool" where
  "gov_before s t \<longleftrightarrow> table_grows profile_before (gr_profiles s) (gr_profiles t) \<and> table_grows (=) (gr_evidence s) (gr_evidence t)"

lemma profile_before_refl [simp]: "profile_before p p"
  by (simp add: profile_before_def)

lemma profile_before_trans: "profile_before p p' \<Longrightarrow> profile_before p' p'' \<Longrightarrow> profile_before p p''"
  unfolding profile_before_def by (cases p; cases p'; cases p'') auto

lemma profile_beforeD:
  assumes "profile_before p p'"
  shows "profile_key p' = profile_key p" "gp_id p' = gp_id p" "gp_digest p' = gp_digest p" "gp_controls p' = gp_controls p"
    "application_key p' scope = application_key p scope" "gp_lifecycle p = GovActive \<Longrightarrow> gp_lifecycle p' = GovActive"
    "governanceProfileDigest pl p' = governanceProfileDigest pl p"
proof -
  from assms have p': "p' = p\<lparr>gp_lifecycle := gp_lifecycle p'\<rparr>" "gp_lifecycle p = GovActive \<Longrightarrow> gp_lifecycle p' = GovActive"
    by (simp_all add: profile_before_def)
  show "gp_lifecycle p = GovActive \<Longrightarrow> gp_lifecycle p' = GovActive" by (rule p'(2))
  show "profile_key p' = profile_key p" "gp_id p' = gp_id p" "gp_digest p' = gp_digest p" "gp_controls p' = gp_controls p"
    "application_key p' scope = application_key p scope" "governanceProfileDigest pl p' = governanceProfileDigest pl p"
    by (subst p'(1), simp add: profile_key_def application_key_def governanceProfileDigest_def profileDigestInput_def)+
qed

lemma gov_before_refl [simp]: "gov_before s s"
  by (simp add: gov_before_def table_grows_refl)

lemma gov_before_trans: "gov_before s t \<Longrightarrow> gov_before t u \<Longrightarrow> gov_before s u"
  unfolding gov_before_def by (auto intro: table_grows_trans [OF profile_before_trans] table_grows_trans)

lemma before_profile:
  assumes "gov_before s t" "get_key (gr_profiles s) (profile_key p) = Some p"
  shows "\<exists>p'. get_key (gr_profiles t) (profile_key p') = Some p' \<and> profile_before p p'"
proof -
  obtain p' where "get_key (gr_profiles t) (profile_key p) = Some p'" "profile_before p p'"
    using assms unfolding gov_before_def table_grows_def by blast
  then show ?thesis using profile_beforeD(1) by metis
qed

lemma evidence_of_before: "gov_before s t \<Longrightarrow> evidence_of s v c e \<Longrightarrow> evidence_of t v c e"
  unfolding evidence_of_def gov_before_def table_grows_def by blast

lemma backed_before:
  assumes before: "gov_before s t" and backed: "backed s v"
  shows "backed t v"
proof -
  from backed obtain p where p: "get_key (gr_profiles s) (profile_key p) = Some p" "gp_id p = gv_profileId v" "gp_digest p = gv_profileDigest v"
    and ready: "gv_status v = GovReady \<Longrightarrow> \<forall>c\<in>set (gp_controls p). gc_required c \<longrightarrow> (\<exists>e. evidence_of s v c e \<and> ge_status e = ControlSatisfied)"
    by (auto simp: backed_def)
  obtain p' where p': "get_key (gr_profiles t) (profile_key p') = Some p'" "profile_before p p'" using before_profile [OF before p(1)] by blast
  have "gv_status v = GovReady \<longrightarrow> (\<forall>c\<in>set (gp_controls p'). gc_required c \<longrightarrow> (\<exists>e. evidence_of t v c e \<and> ge_status e = ControlSatisfied))"
    using ready evidence_of_before [OF before] unfolding profile_beforeD(4) [OF p'(2)] by blast
  with p p' show ?thesis unfolding backed_def by (intro exI [of _ p'] conjI) (simp_all only: profile_beforeD [OF p'(2)])
qed

lemma application_ok_before:
  assumes before: "gov_before s t" and ok: "application_ok s k a"
  shows "application_ok t k a"
proof -
  from ok obtain p where p: "get_key (gr_profiles s) (profile_key p) = Some p" and rest: "ga_status a = ApplicationActive" "gp_lifecycle p = GovActive"
    "ga_profileId a = gp_id p" "ga_profileDigest a = gp_digest p" "k = application_key p (ga_scope a)"
    by (auto simp: application_ok_def)
  obtain p' where p': "get_key (gr_profiles t) (profile_key p') = Some p'" "profile_before p p'" using before_profile [OF before p] by blast
  with rest show ?thesis unfolding application_ok_def by (intro conjI exI [of _ p']) (simp_all add: profile_beforeD [OF p'(2)])
qed

text \<open>The calls keep the invariant and only add.\<close>

lemma gov_inv_records:
  "gr_profiles t = gr_profiles s \<Longrightarrow> gr_applications t = gr_applications s \<Longrightarrow> gr_evidence t = gr_evidence s
     \<Longrightarrow> gr_evaluations t = gr_evaluations s \<Longrightarrow> (gov_inv pl t \<longleftrightarrow> gov_inv pl s) \<and> gov_before s t"
  by (auto simp: gov_inv_def gov_before_def application_ok_def backed_def evidence_of_def table_grows_refl)

lemma gov_inv_realm [simp]: "gov_inv pl (s\<lparr>gr_realm := realm\<rparr>) = gov_inv pl s" and gov_before_realm [simp]: "gov_before s (s\<lparr>gr_realm := realm\<rparr>)"
  using gov_inv_records [of "s\<lparr>gr_realm := realm\<rparr>" s pl] by simp_all

lemma gov_before_realm_left [simp]: "gov_before (s\<lparr>gr_realm := realm\<rparr>) t = gov_before s t"
  by (simp add: gov_before_def)

lemma requireProfile_stored:
  assumes "gov_inv pl s" "requireProfile s i = Inr p"
  shows "get_key (gr_profiles s) (profile_key p) = Some p \<and> gp_id p = i \<and> governanceProfileDigest pl p = gp_digest p"
proof -
  from assms(2) have "find (\<lambda>p. gp_id p = i) (map_values (gr_profiles s)) = Some p" by (auto simp: requireProfile_def getProfile_def split: option.splits)
  then have p: "p \<in> set (map_values (gr_profiles s))" "gp_id p = i" by (auto dest: find_found)
  have "distinct_keys (gr_profiles s)" using assms(1) by (simp add: gov_inv_def)
  with p(1) obtain k where "get_key (gr_profiles s) k = Some p" by (auto simp: jsm.contents_lookup)
  with assms(1) p(2) show ?thesis by (auto simp: gov_inv_def profile_ok_def)
qed

lemma registerProfile_good:
  assumes "gov_inv pl s" "registerProfile pl p s = (res, t)"
  shows "gov_inv pl t \<and> gov_before s t \<and> gr_evidence t = gr_evidence s"
proof (cases "governance_profile_error pl p s = None \<and> get_key (gr_profiles s) (profile_key p) = None")
  case False
  with assms show ?thesis by (auto simp: registerProfile_def raise_def return_def split: option.splits)
next
  case True
  with assms(2) have t: "t = s\<lparr>gr_profiles := set_key (profile_key p) p (gr_profiles s)\<rparr>" by (simp add: registerProfile_def return_def)
  have before: "gov_before s t"
    using True by (simp add: gov_before_def t table_grows_refl table_grows_insert)
  have "profile_ok pl (profile_key p) p" using True by (simp add: profile_ok_def governance_profile_error_def loop_simps)
  with assms(1) have "gov_inv pl t"
    unfolding gov_inv_def by (auto simp: t jsm.keys_ok_store intro: application_ok_before [OF before, unfolded t] backed_before [OF before, unfolded t])
  with before show ?thesis by (simp add: t)
qed

lemma activate_commit_good:
  assumes inv: "gov_inv pl s" and p: "requireProfile s i = Inr p" and commit: "activate_commit uuid p input s = (res, t)"
  shows "gov_inv pl t \<and> gov_before s t \<and> gr_evidence t = gr_evidence s"
proof -
  note stored = requireProfile_stored [OF inv p]
  let ?active = "p\<lparr>gp_lifecycle := GovActive\<rparr>" and ?key = "application_key p (agp_scope input)"
  obtain a where t: "t = s\<lparr>gr_profiles := set_key (profile_key p) ?active (gr_profiles s), gr_applications := set_key ?key a (gr_applications s)\<rparr>"
    and a: "ga_status a = ApplicationActive" "ga_profileId a = gp_id p" "ga_profileDigest a = gp_digest p" "ga_scope a = agp_scope input"
    using commit by (auto simp: activate_commit_def Let_def return_def)
  have active: "profile_before p ?active" by (simp add: profile_before_def)
  have before: "gov_before s t"
    using stored active by (auto simp: gov_before_def t table_grows_refl intro!: table_grows_update)
  have here: "get_key (gr_profiles t) (profile_key ?active) = Some ?active" by (simp add: t profile_beforeD(1) [OF active])
  have "application_ok t ?key a"
    unfolding application_ok_def using a here by (intro conjI exI [of _ ?active]) (simp_all add: application_key_def)
  moreover have "profile_ok pl (profile_key p) ?active"
    using stored by (simp add: profile_ok_def profile_beforeD(1,3,7) [OF active])
  ultimately have "gov_inv pl t"
    using inv unfolding gov_inv_def
    by (auto simp: t jsm.keys_ok_store intro: application_ok_before [OF before, unfolded t] backed_before [OF before, unfolded t])
  with before show ?thesis by (simp add: t)
qed

lemma activateProfile_good:
  assumes "gov_inv pl s" "activateProfile now uuid input s = (res, t)"
  shows "gov_inv pl t \<and> gov_before s t \<and> gr_evidence t = gr_evidence s"
  using activateProfile_cases [OF assms(2)]
proof (elim disjE exE conjE)
  fix realm p assume p: "requireProfile s (agp_profileId input) = Inr p"
    and commit: "activate_commit uuid p input (s\<lparr>gr_realm := realm\<rparr>) = (res, t)"
  have "requireProfile (s\<lparr>gr_realm := realm\<rparr>) (agp_profileId input) = Inr p" using p by (simp add: requireProfile_def getProfile_def)
  from activate_commit_good [OF _ this commit, of pl] assms(1) show ?thesis by simp
qed (use assms(1) in simp)

lemma blocker_ready: "gc_required c \<Longrightarrow> blocker_of (c, ox) = None \<Longrightarrow> \<exists>x. ox = Some x \<and> go_status x = ControlSatisfied"
  by (cases ox) (auto split: ControlStatus.splits)

lemma map_filter_Nil: "List.map_filter f xs = [] \<longleftrightarrow> (\<forall>x\<in>set xs. f x = None)"
  by (induction xs) (auto split: option.split)

lemma commit_backed:
  assumes commit: "evaluation_commit pl u uuid p scope pairs s = (Inr v, t)"
    and fresh: "evidence_fresh s u n" "length (seen_controls pairs) \<le> n"
    and pairs: "profile_pairs p xs = Inr pairs" and stored: "get_key (gr_profiles s) (profile_key p) = Some p"
  shows "backed t v"
proof -
  note records = commit_records [OF commit] and evidence = commit_evidence [OF commit fresh]
  have "\<exists>e. evidence_of t v c e \<and> ge_status e = ControlSatisfied"
    if ready: "gv_status v = GovReady" and c: "c \<in> set (gp_controls p)" "gc_required c" for c
  proof -
    have "blocker_of (c, observation_of xs c) = None"
      using ready c(1) by (auto simp: evidence(3) pairs_status_def map_filter_Nil profile_pairs_Inr(1) [OF pairs] split: if_splits)
    with c(2) obtain x where x: "observation_of xs c = Some x" "go_status x = ControlSatisfied" by (auto dest: blocker_ready)
    then have "(c, x) \<in> set (seen_controls pairs)" using c(1) by (auto simp: set_seen_controls profile_pairs_Inr(1) [OF pairs])
    then obtain k where k: "k < length (seen_controls pairs)" "seen_controls pairs ! k = (c, x)" by (auto simp: in_set_conv_nth)
    let ?e = "control_evidence pl (u k) p scope s c x"
    have "ge_id ?e = evidence_id u k" by (simp add: control_evidence_def evidence_id_def)
    moreover have "get_key (gr_evidence t) (evidence_id u k) = Some ?e" using evidence(2) [OF k(1)] by (simp add: k(2))
    ultimately have "evidence_of t v c ?e" using k(1) by (simp add: evidence_of_def records) (simp add: control_evidence_def)
    then show ?thesis using x(2) by (intro exI [of _ ?e]) (simp add: control_evidence_def)
  qed
  with stored show ?thesis unfolding backed_def by (intro exI [of _ p]) (simp add: records)
qed

lemma evaluateProfile_good:
  assumes inv: "gov_inv pl s" and fresh: "evidence_fresh s u n" "length (egp_observations input) \<le> n"
    and evaluated: "evaluateProfile pl now u uuid input s = (res, t)"
  shows "gov_inv pl t \<and> gov_before s t"
proof (cases res)
  case (Inl e)
  with evaluateProfile_Inl [of pl now u uuid input s e t] evaluated inv show ?thesis by auto
next
  case (Inr v)
  obtain p pairs realm where p: "requireProfile s (egp_profileId input) = Inr p"
    and pairs: "profile_pairs p (egp_observations input) = Inr pairs"
    and commit: "evaluation_commit pl u uuid p (egp_scope input) pairs (s\<lparr>gr_realm := realm\<rparr>) = (Inr v, t)"
    using evaluated Inr by (auto elim: evaluateProfile_Inr)
  note stored = requireProfile_stored [OF inv p]
  have fresh': "evidence_fresh (s\<lparr>gr_realm := realm\<rparr>) u n" "length (seen_controls pairs) \<le> n"
    using fresh seen_controls_bound [OF pairs] by (simp_all add: evidence_fresh_def)
  note records = commit_records [OF commit] and evidence = commit_evidence [OF commit fresh']
  have before: "gov_before s t" using evidence(1) records(1) by (auto simp: gov_before_def table_grows_refl table_grows_def)
  have "backed t v" using commit_backed [OF commit fresh' pairs] stored by simp
  with inv have "gov_inv pl t"
    unfolding gov_inv_def records(1,2,3) by (auto intro: application_ok_before [OF before] backed_before [OF before])
  with before show ?thesis by simp
qed

lemma exportProfile_cases:
  assumes "exportProfile pl now createdAt u uuid exportUuid i input s = (res, t)"
  shows "(t = s \<and> (\<forall>b. res \<noteq> Inr b)) \<or> (\<exists>r p. evaluateProfile pl now u uuid input s = (r, t) \<and> requireProfile s i = Inr p \<and> egp_profileId input = i
     \<and> (\<forall>b. res = Inr b \<longrightarrow> (\<exists>v. r = Inr v \<and> b = new_export pl exportUuid createdAt p (egp_observations input) v)))"
  using assms
  by (cases "evaluateProfile pl now u uuid input s" rule: void.cases)
     (auto simp: exportProfile_def raise_def return_def split: if_splits sum.splits)

lemma replayProfile_cases:
  assumes "replayProfile pl scan now u uuid applicationUuid b input s = (res, t)"
  obtains "t = s" "\<forall>v. res \<noteq> Inr v"
  | r t1 where "registerProfile pl (replay_target b (rgp_scope input)) s = (r, t1)" "t = t1" "\<forall>v. res \<noteq> Inr v"
  | r t1 e where "registerProfile pl (replay_target b (rgp_scope input)) s = (r, t1)"
      "replay_activation now applicationUuid (replay_target b (rgp_scope input)) input t1 = (Inl e, t)" "\<forall>v. res \<noteq> Inr v"
  | p t1 t2 where "registerProfile pl (replay_target b (rgp_scope input)) s = (Inr p, t1)"
      "replay_activation now applicationUuid (replay_target b (rgp_scope input)) input t1 = (Inr (), t2)"
      "evaluateProfile pl now u uuid \<lparr>egp_profileId = gp_id (gx_profile b), egp_scope = rgp_scope input,
         egp_observations = nullish (rgp_observations input) (gx_observations b), egp_authorization = rgp_authorization input\<rparr> t2 = (res, t)"
proof (cases "verifyGovernanceProfileExport pl scan b = Inr b \<and> gov_scope_error (rgp_scope input) s = None")
  case False
  then have "t = s" "\<forall>v. res \<noteq> Inr v"
    using assms by (auto simp: replayProfile_def verify_Inr raise_def split: sum.splits option.splits)
  then show ?thesis by (rule that(1))
next
  case True
  let ?target = "replay_target b (rgp_scope input)"
  obtain r t1 where r: "registerProfile pl ?target s = (r, t1)" by fastforce
  show ?thesis
  proof (cases r)
    case (Inl e)
    with r True assms have "t = t1" "\<forall>v. res \<noteq> Inr v" by (auto simp: replayProfile_def Let_def)
    with r show ?thesis by (rule that(2))
  next
    case (Inr p)
    obtain r2 t2 where r2: "replay_activation now applicationUuid ?target input t1 = (r2, t2)" by fastforce
    show ?thesis
    proof (cases r2)
      case (Inl e)
      with r r2 Inr True assms show ?thesis by (intro that(3)) (auto simp: replayProfile_def Let_def)
    next
      case (Inr y)
      with r r2 \<open>r = Inr p\<close> True assms show ?thesis by (intro that(4)) (auto simp: replayProfile_def Let_def replay_target_def)
    qed
  qed
qed

lemma replay_activation_good:
  assumes "gov_inv pl s" "replay_activation now uuid target input s = (res, t)"
  shows "gov_inv pl t \<and> gov_before s t \<and> gr_evidence t = gr_evidence s"
proof (cases "applicationFor s target (rgp_scope input) = None")
  case True
  let ?activation = "activateProfile now uuid \<lparr>agp_profileId = gp_id target, agp_scope = rgp_scope input, agp_authorization = rgp_authorization input\<rparr> s"
  have "snd ?activation = t" using assms(2) True snd_void [of ?activation] by (simp add: replay_activation_def)
  then have "?activation = (fst ?activation, t)" by (metis prod.collapse)
  then show ?thesis by (rule activateProfile_good [OF assms(1)])
qed (use assms in \<open>auto simp: replay_activation_def return_def\<close>)

definition gov_good :: "Platform \<Rightarrow> GovernanceRegistry \<Rightarrow> GovernanceRegistry \<Rightarrow> bool" where
  "gov_good pl s t \<longleftrightarrow> (gov_inv pl s \<longrightarrow> gov_inv pl t \<and> gov_before s t)"

lemma replayProfile_good:
  assumes inv: "gov_inv pl s" and fresh: "evidence_fresh s u (length (nullish (rgp_observations input) (gx_observations b)))"
    and replayed: "replayProfile pl scan now u uuid applicationUuid b input s = (res, t)"
  shows "gov_inv pl t \<and> gov_before s t"
  using replayed
proof (cases rule: replayProfile_cases)
  case (2 r t1)
  then show ?thesis using registerProfile_good [OF inv] by simp
next
  case (3 r t1 e)
  then show ?thesis using registerProfile_good [OF inv 3(1)] replay_activation_good [OF _ 3(2), of pl] by (blast intro: gov_before_trans)
next
  case (4 p t1 t2)
  have first: "gov_inv pl t1" "gov_before s t1" "gr_evidence t1 = gr_evidence s" using registerProfile_good [OF inv 4(1)] by simp_all
  have second: "gov_inv pl t2" "gov_before t1 t2" "gr_evidence t2 = gr_evidence t1" using replay_activation_good [OF first(1) 4(2)] by simp_all
  have "evidence_fresh t2 u (length (nullish (rgp_observations input) (gx_observations b)))" using fresh first(3) second(3) by (simp add: evidence_fresh_def)
  from evaluateProfile_good [OF second(1) this _ 4(3)] first second show ?thesis by (auto intro: gov_before_trans)
qed (use inv in simp)

lemma gr_step_good: "gov_inv pl s \<Longrightarrow> gr_ok s x \<Longrightarrow> gov_inv pl (snd (gr_step pl scan d x s)) \<and> gov_before s (snd (gr_step pl scan d x s))"
proof (cases x)
  case (RegisterProfile p)
  assume "gov_inv pl s"
  from registerProfile_good [OF this, of p] show ?thesis by (simp add: RegisterProfile) (metis prod.collapse)
next
  case (ActivateProfile now uuid input)
  assume "gov_inv pl s"
  from activateProfile_good [OF this, of now uuid input] show ?thesis by (simp add: ActivateProfile) (metis prod.collapse)
next
  case (EvaluateProfile now u uuid input)
  assume "gov_inv pl s" "gr_ok s x"
  from evaluateProfile_good [OF this(1), of u "length (egp_observations input)" input now uuid] this(2) show ?thesis
    by (simp add: EvaluateProfile) (metis prod.collapse)
next
  case (ExportProfile now createdAt u uuid exportUuid i input)
  assume inv: "gov_inv pl s" and ok: "gr_ok s x"
  let ?call = "exportProfile pl now createdAt u uuid exportUuid i input s"
  from exportProfile_cases [of pl now createdAt u uuid exportUuid i input s "fst ?call" "snd ?call"]
  have "snd ?call = s \<or> (\<exists>r. evaluateProfile pl now u uuid input s = (r, snd ?call))" by auto
  with evaluateProfile_good [OF inv, of u "length (egp_observations input)" input now uuid] inv ok show ?thesis by (auto simp: ExportProfile)
next
  case (ReplayProfile now u uuid applicationUuid b input)
  assume "gov_inv pl s" "gr_ok s x"
  from replayProfile_good [OF this(1), of u input b scan now uuid applicationUuid] this(2) show ?thesis
    by (simp add: ReplayProfile) (metis prod.collapse)
next
  case (GovernedRealmCall y)
  assume "gov_inv pl s"
  then show ?thesis by (cases "realm_step d y (gr_realm s)" rule: void.cases) (simp_all add: GovernedRealmCall raise_def return_def)
qed

interpretation governance: invariant_machine "gr_step pl scan d" gr_ok "gov_inv pl" for pl scan d
  by unfold_locales (simp add: gr_step_good)

interpretation governance_records: growing_machine "gr_step pl scan d" gr_ok "\<lambda>s t. gov_good pl s t" for pl scan d
  by unfold_locales (auto simp: gov_good_def gr_step_good intro: gov_before_trans)

definition gov_reachable :: "Platform \<Rightarrow> (js_value \<Rightarrow> string option) \<Rightarrow> (string \<Rightarrow> string) \<Rightarrow> GovernanceRegistry \<Rightarrow> bool" where
  "gov_reachable pl scan d s \<longleftrightarrow> (\<exists>realm xs. admissible gr_ok (gr_step pl scan d) xs (new_governance realm)
     \<and> s = run_ops (gr_step pl scan d) xs (new_governance realm))"

lemma new_governance_inv: "gov_inv pl (new_governance realm)"
  by (simp add: gov_inv_def new_governance_def distinct_keys_def get_key_def)

lemma gov_reachable_inv: "gov_reachable pl scan d s \<Longrightarrow> gov_inv pl s"
  unfolding gov_reachable_def using governance.run_inv new_governance_inv by blast

text \<open>
  C12. An evaluation that says ready, recorded in a reachable registry, names by id and digest a registered profile
  whose digest is that of its content, and for every required control of that profile there is Evidence of this
  evaluation, for its scope, policy version and authorization epoch, with the control satisfied. It stays so
  whatever calls follow.
\<close>

theorem ready_rests_on_evidence:
  assumes "gov_reachable pl scan d s" "get_key (gr_evaluations s) i = Some v" "gv_status v = GovReady"
    and "admissible gr_ok (gr_step pl scan d) xs s" "t = run_ops (gr_step pl scan d) xs s"
  shows "\<exists>p. get_key (gr_profiles t) (profile_key p) = Some p \<and> gp_id p = gv_profileId v \<and> gp_digest p = gv_profileDigest v
     \<and> governanceProfileDigest pl p = gv_profileDigest v
     \<and> (\<forall>c\<in>set (gp_controls p). gc_required c \<longrightarrow> (\<exists>e. evidence_of t v c e \<and> ge_status e = ControlSatisfied))"
proof -
  have inv: "gov_inv pl s" by (rule gov_reachable_inv [OF assms(1)])
  then have "backed s v" using assms(2) by (auto simp: gov_inv_def)
  moreover have "gov_before s t" "gov_inv pl t" using governance_records.run_grows [OF assms(4)] inv by (simp_all add: gov_good_def assms(5))
  ultimately have "backed t v" "gov_inv pl t" by (simp_all add: backed_before)
  then show ?thesis using assms(3) unfolding backed_def gov_inv_def profile_ok_def by metis
qed

section \<open>Results of an evaluation\<close>

text \<open>What a control and its observation must be for the evaluation to be ready.\<close>

fun control_settled :: "bool \<Rightarrow> GovernanceControlObservation option \<Rightarrow> bool" where
  "control_settled required None = (\<not> required)"
| "control_settled required (Some x) = (go_status x = ControlSatisfied \<or> (go_status x = ControlFailed \<and> \<not> required))"

lemma pairs_status_ready: "pairs_status pairs = GovReady \<longleftrightarrow> (\<forall>(c, ox)\<in>set pairs. control_settled (gc_required c) ox)"
proof -
  have settled: "control_settled (gc_required c) ox \<longleftrightarrow> blocker_of (c, ox) = None \<and> (\<forall>x. ox = Some x \<longrightarrow> go_status x \<noteq> ControlIndeterminate)" for c ox
    by (cases ox) (auto split: ControlStatus.split)
  have "pairs_status pairs = GovReady \<longleftrightarrow> (\<forall>y\<in>set pairs. blocker_of y = None) \<and> (\<forall>(c, x)\<in>set (seen_controls pairs). go_status x \<noteq> ControlIndeterminate)"
    by (auto simp: pairs_status_def map_filter_Nil list_ex_iff)
  also have "\<dots> \<longleftrightarrow> (\<forall>(c, ox)\<in>set pairs. control_settled (gc_required c) ox)"
    by (fastforce simp: settled set_seen_controls)
  finally show ?thesis .
qed

text \<open>The result of an evaluation that returns, as a function of profile and observations.\<close>

lemma evaluation_result:
  assumes "evaluateProfile pl now u uuid input s = (Inr v, t)" "evidence_fresh s u (length (egp_observations input))"
  obtains p pairs where "requireProfile s (egp_profileId input) = Inr p" "profile_pairs p (egp_observations input) = Inr pairs"
    "gv_status v = pairs_status pairs" "gv_blockers v = List.map_filter blocker_of pairs" "gv_advisories v = List.map_filter advisory_of pairs"
    "gv_profileDigest v = gp_digest p" "gv_profileId v = gp_id p"
proof -
  obtain p pairs realm where p: "requireProfile s (egp_profileId input) = Inr p"
    and pairs: "profile_pairs p (egp_observations input) = Inr pairs"
    and commit: "evaluation_commit pl u uuid p (egp_scope input) pairs (s\<lparr>gr_realm := realm\<rparr>) = (Inr v, t)"
    using evaluateProfile_Inr [OF assms(1)] by metis
  have "evidence_fresh (s\<lparr>gr_realm := realm\<rparr>) u (length (egp_observations input))" using assms(2) by (simp add: evidence_fresh_def)
  from commit_evidence(3) [OF commit this seen_controls_bound [OF pairs]] commit_records [OF commit] p pairs show ?thesis
    by (intro that) simp_all
qed

text \<open>
  When an evaluation is ready: every required control has an observation that it is satisfied, and no control has
  one that is indeterminate. A missing or failed optional control does not block.
\<close>

theorem evaluation_ready_iff:
  assumes "evaluateProfile pl now u uuid input s = (Inr v, t)" "evidence_fresh s u (length (egp_observations input))"
    and "getProfile s (egp_profileId input) = Some p"
  shows "gv_status v = GovReady \<longleftrightarrow> (\<forall>c\<in>set (gp_controls p). control_settled (gc_required c) (observation_of (egp_observations input) c))"
proof -
  obtain pairs where pairs: "profile_pairs p (egp_observations input) = Inr pairs" "gv_status v = pairs_status pairs"
    using evaluation_result [OF assms(1,2)] assms(3) by (metis requireProfile_def option.simps(5) sum.inject(2))
  then show ?thesis by (simp add: pairs_status_ready profile_pairs_Inr(1) [OF pairs(1)])
qed

section \<open>Export and replay\<close>

text \<open>
  C13. In a reachable registry an exported bundle verifies, and verification gives it back, exactly when the
  credential scanner finds nothing in it. The integrity digest and the digest of the profile match in any case.
\<close>

theorem exported_bundle_verifies:
  assumes "gov_reachable pl scan d s" "exportProfile pl now createdAt u uuid exportUuid i input s = (Inr b, t)"
  shows "verifyGovernanceProfileExport pl scan' b = (if truthy (scan' (export_json b)) then Inl (gov_error GovExportInvalid (gx_exportId b)) else Inr b)"
proof -
  obtain p v where p: "requireProfile s i = Inr p" and b: "b = new_export pl exportUuid createdAt p (egp_observations input) v"
    using exportProfile_cases [OF assms(2)] by auto
  have "governanceProfileDigest pl p = gp_digest p" using requireProfile_stored [OF gov_reachable_inv [OF assms(1)] p] by simp
  moreover have "exportDigest pl b = gx_integrityDigest b" by (simp add: b new_export_def Let_def exportDigest_def export_json_def)
  ultimately show ?thesis
    by (simp add: verifyGovernanceProfileExport_def loop_simps b new_export_def Let_def fail_if_def)
qed

lemma requireProfile_realm [simp]: "requireProfile (s\<lparr>gr_realm := realm\<rparr>) i = requireProfile s i"
  by (simp add: requireProfile_def getProfile_def)

lemma registered_unknown:
  assumes "getProfile s (gp_id p) = None" "registerProfile pl p s = (Inr q, t)"
  shows "getProfile t (gp_id p) = None \<or> get_key (gr_profiles s) (profile_key p) = None \<and> gr_profiles t = set_key (profile_key p) p (gr_profiles s)"
  using assms by (auto simp: registerProfile_def raise_def return_def split: option.splits)

lemma find_append: "find P (xs @ ys) = (case find P xs of None \<Rightarrow> find P ys | Some x \<Rightarrow> Some x)"
  by (induction xs) auto

lemma getProfile_added:
  assumes "getProfile s (gp_id p) = None" "get_key (gr_profiles s) (profile_key p) = None" "gr_profiles t = set_key (profile_key p) p' (gr_profiles s)" "gp_id p' = gp_id p"
  shows "getProfile t (gp_id p) = Some p'"
  using assms by (simp add: getProfile_def set_key_fresh map_values_def find_append)

text \<open>After the activation of a replay, the profile that is evaluated has the content of the bundle, if it is found at all.\<close>

lemma replayed_profile:
  assumes unknown: "getProfile s (gp_id target) = None" and registered: "registerProfile pl target s = (Inr q, t1)"
    and activated: "replay_activation now uuid target input t1 = (Inr (), t2)" and found: "requireProfile t2 (gp_id target) = Inr p"
  shows "gp_controls p = gp_controls target \<and> gp_digest p = gp_digest target \<and> gp_id p = gp_id target"
proof -
  let ?activation = "activateProfile now uuid \<lparr>agp_profileId = gp_id target, agp_scope = rgp_scope input, agp_authorization = rgp_authorization input\<rparr> t1"
  have t2: "t2 = t1 \<or> (\<exists>a. ?activation = (Inr a, t2))"
    using activated by (cases ?activation rule: void.cases) (auto simp: replay_activation_def return_def split: if_splits)
  show ?thesis
  proof (cases "getProfile t1 (gp_id target)")
    case None
    then have "t2 = t1" using t2 activateProfile_cases [of now uuid _ t1] by (fastforce simp: requireProfile_def)
    with None found show ?thesis by (simp add: requireProfile_def)
  next
    case (Some p1)
    then have free: "get_key (gr_profiles s) (profile_key target) = None" and t1: "gr_profiles t1 = set_key (profile_key target) target (gr_profiles s)"
      using registered_unknown [OF unknown registered] by auto
    from getProfile_added [OF unknown free t1] have p1: "getProfile t1 (gp_id target) = Some target" by simp
    from t2 show ?thesis
    proof
      assume "t2 = t1"
      with found p1 show ?thesis by (simp add: requireProfile_def)
    next
      assume "\<exists>a. ?activation = (Inr a, t2)"
      then obtain a realm where "activate_commit uuid target \<lparr>agp_profileId = gp_id target, agp_scope = rgp_scope input, agp_authorization = rgp_authorization input\<rparr>
          (t1\<lparr>gr_realm := realm\<rparr>) = (Inr a, t2)"
        using activateProfile_cases [of now uuid _ t1] p1 by (fastforce simp: requireProfile_def)
      then have "gr_profiles t2 = set_key (profile_key target) (target\<lparr>gp_lifecycle := GovActive\<rparr>) (gr_profiles s)"
        by (auto simp: activate_commit_def Let_def return_def t1)
      from getProfile_added [OF unknown free this] found show ?thesis by (auto simp: requireProfile_def)
    qed
  qed
qed

text \<open>Registration and activation record no Evidence.\<close>

lemma registration_evidence: "registerProfile pl p s = (res, t) \<Longrightarrow> gr_evidence t = gr_evidence s"
  by (auto simp: registerProfile_def raise_def return_def split: option.splits)

lemma activation_evidence:
  assumes "replay_activation now uuid target input s = (res, t)"
  shows "gr_evidence t = gr_evidence s"
proof (cases "applicationFor s target (rgp_scope input) = None")
  case True
  let ?activation = "activateProfile now uuid \<lparr>agp_profileId = gp_id target, agp_scope = rgp_scope input, agp_authorization = rgp_authorization input\<rparr> s"
  have "snd ?activation = t" using assms True snd_void [of ?activation] by (simp add: replay_activation_def)
  then have "?activation = (fst ?activation, t)" by (metis prod.collapse)
  from activateProfile_cases [OF this] show ?thesis by (auto simp: activate_commit_def Let_def return_def)
qed (use assms in \<open>auto simp: replay_activation_def return_def\<close>)

text \<open>
  C14. Replaying an exported bundle into a registry that has no profile of that id, with the observations of the bundle,
  gives the same status, blockers and advisories, for the profile digest of the bundle.
\<close>

theorem replay_reproduces_evaluation:
  assumes "exportProfile pl now createdAt u uuid exportUuid i input s = (Inr b, t)" "evidence_fresh s u (length (egp_observations input))"
    and "replayProfile pl scan now' u' uuid' applicationUuid b rinput s' = (Inr v, t')" "rgp_observations rinput = None"
    and "getProfile s' i = None" "evidence_fresh s' u' (length (egp_observations input))"
  shows "gv_profileDigest v = gp_digest (gx_profile b) \<and> gv_profileDigest v = gv_profileDigest (gx_evaluation b) \<and> gv_status v = gv_status (gx_evaluation b)
     \<and> gv_blockers v = gv_blockers (gx_evaluation b) \<and> gv_advisories v = gv_advisories (gx_evaluation b)"
proof -
  obtain p w where p: "requireProfile s i = Inr p" "egp_profileId input = i" and w: "evaluateProfile pl now u uuid input s = (Inr w, t)"
    and b: "b = new_export pl exportUuid createdAt p (egp_observations input) w"
    using exportProfile_cases [OF assms(1)] by auto
  have parts: "gx_profile b = p" "gx_observations b = egp_observations input" "gx_evaluation b = w" by (simp_all add: b new_export_def Let_def)
  have i: "gp_id p = i" using p(1) by (auto simp: requireProfile_def getProfile_def dest!: find_found split: option.splits)
  obtain pairs where pairs: "profile_pairs p (egp_observations input) = Inr pairs" "gv_status w = pairs_status pairs"
    "gv_blockers w = List.map_filter blocker_of pairs" "gv_advisories w = List.map_filter advisory_of pairs" "gv_profileDigest w = gp_digest p"
    using evaluation_result [OF w assms(2)] p by (metis sum.inject(2))
  from assms(3) show ?thesis
  proof (cases rule: replayProfile_cases)
    case (4 q t1 t2)
    let ?target = "replay_target b (rgp_scope rinput)" and ?input = "\<lparr>egp_profileId = gp_id (gx_profile b), egp_scope = rgp_scope rinput,
         egp_observations = nullish (rgp_observations rinput) (gx_observations b), egp_authorization = rgp_authorization rinput\<rparr>"
    have xs: "egp_observations ?input = egp_observations input" using assms(4) by (simp add: parts(2))
    have "getProfile s' (gp_id ?target) = None" using assms(5) i by (simp add: replay_target_def parts(1))
    note same = replayed_profile [OF this 4(1) 4(2)]
    have "gr_evidence t2 = gr_evidence s'" using registration_evidence [OF 4(1)] activation_evidence [OF 4(2)] by simp
    then have "evidence_fresh t2 u' (length (egp_observations ?input))" using assms(6) xs by (simp add: evidence_fresh_def)
    note result = evaluation_result [OF 4(3) this, unfolded xs, simplified]
    obtain p' pairs' where p': "requireProfile t2 (gp_id (gx_profile b)) = Inr p'"
      and pairs': "profile_pairs p' (egp_observations input) = Inr pairs'" "gv_status v = pairs_status pairs'"
        "gv_blockers v = List.map_filter blocker_of pairs'" "gv_advisories v = List.map_filter advisory_of pairs'" "gv_profileDigest v = gp_digest p'"
      by (rule result) blast
    have "gp_controls p' = gp_controls p" "gp_digest p' = gp_digest p" using same p' by (simp_all add: replay_target_def parts(1))
    moreover from this have "pairs' = pairs" using pairs(1) pairs'(1) by (simp add: profile_pairs_def)
    ultimately show ?thesis using pairs pairs' by (simp add: parts)
  qed simp_all
qed

section \<open>Refused calls\<close>

text \<open>
  A refused call changes no profile, application, Evidence or evaluation. Only \<open>replay\<close>, which is made of three calls,
  may leave the profile registered and activated when its evaluation is refused.
\<close>

definition gov_records :: "GovernanceRegistry \<Rightarrow> (string, GovernanceProfile) jsmap \<times> (string, GovernanceProfileApplication) jsmap
    \<times> (string, GovernanceControlEvidence) jsmap \<times> (string, GovernanceEvaluation) jsmap" where
  "gov_records s = (gr_profiles s, gr_applications s, gr_evidence s, gr_evaluations s)"

lemma refused_calls_change_no_record:
  "registerProfile pl p s = (Inl e, t) \<Longrightarrow> gov_records t = gov_records s"
  "activateProfile now uuid ainput s = (Inl e, t) \<Longrightarrow> gov_records t = gov_records s"
  "evaluateProfile pl now u uuid input s = (Inl e, t) \<Longrightarrow> gov_records t = gov_records s"
  "exportProfile pl now createdAt u uuid exportUuid i input s = (Inl e, t) \<Longrightarrow> gov_records t = gov_records s"
proof -
  show "registerProfile pl p s = (Inl e, t) \<Longrightarrow> gov_records t = gov_records s"
    by (auto simp: registerProfile_def raise_def return_def split: option.splits)
  show "activateProfile now uuid ainput s = (Inl e, t) \<Longrightarrow> gov_records t = gov_records s"
    by (drule activateProfile_cases) (auto simp: gov_records_def activate_commit_def Let_def return_def)
  show evaluation: "evaluateProfile pl now u uuid input s = (Inl e, t) \<Longrightarrow> gov_records t = gov_records s"
    by (drule evaluateProfile_Inl) (auto simp: gov_records_def)
  show "exportProfile pl now createdAt u uuid exportUuid i input s = (Inl e, t) \<Longrightarrow> gov_records t = gov_records s"
    using evaluation
    by (cases "evaluateProfile pl now u uuid input s" rule: void.cases)
       (auto simp: exportProfile_def raise_def return_def split: if_splits sum.splits)
qed

section \<open>A registry for the examples\<close>

text \<open>Alice owns the Realm, and her session holds one Grant. She registers, activates and evaluates a profile with one required and one optional control.\<close>

definition demo_governed_realm :: RealmState where
  "demo_governed_realm = \<lparr>rs_realm = \<lparr>realm_id = ''r'', realm_name = ''r'', realm_relyingPartyId = ''anyam.local'', realm_policyVersion = ''v1'',
       realm_authorizationEpoch = 1\<rparr>,
     rs_principals = [(''alice'', \<lparr>prin_id = ''alice'', prin_realmId = ''r'', prin_displayName = ''Alice'', prin_status = PrincipalActive\<rparr>)],
     rs_agents = [], rs_passkeys = [], rs_oidcProviders = [], rs_oidcIdentities = [],
     rs_clients = [(''web'', \<lparr>cl_id = ''web'', cl_realmId = ''r'', cl_kind = ClientBrowser, cl_status = EntryActive,
       cl_allowedAudiences = [ClassRealmApi], cl_allowedOperations = []\<rparr>)],
     rs_actors = [(''actor'', \<lparr>actor_principalId = ''alice'', actor_actorId = ''actor'', actor_sessionId = ''session'', actor_clientId = ''web'',
       ra_realmId = ''r'', ra_kind = ActorHuman, ra_status = AgentActive, ra_agentId = None, ra_delegatedByActorId = None,
       ra_delegatedBySessionId = None, ra_modelProvider = None\<rparr>)],
     rs_sessions = [(''session'', \<lparr>ses_id = ''session'', ses_realmId = ''r'', ses_principalId = ''alice'', ses_actorId = ''actor'', ses_clientId = ''web'',
       ses_method = MethodPasskey, ses_strength = StrengthPasskey, ses_expiresAt = Some 1000, ses_authorizationEpoch = 1, ses_status = SessionActive,
       ses_actorKind = Some ActorHuman, ses_agentId = None, ses_delegatedByActorId = None, ses_delegatedBySessionId = None\<rparr>)],
     rs_tasks = [(''task'', \<lparr>tk_id = ''task'', tk_realmId = ''r'', tk_principalId = ''alice'', tk_actorId = ''actor'', tk_sessionId = ''session'',
       tk_purpose = ''work'', tk_workspaceId = None, tk_changeId = None, tk_modelProvider = None, tk_agentId = None, tk_delegatedByActorId = None,
       tk_delegatedBySessionId = None, tk_status = TaskActive\<rparr>)],
     rs_relationships = [(''relationship'', \<lparr>rl_id = ''relationship'', rl_realmId = ''r'', rl_principalId = ''alice'', rl_kind = OrganizationMember,
       rl_subjectId = ''org'', rl_role = RoleOwner, rl_resource = whole_realm ''r'', rl_deniedCapabilities = [], rl_status = EntryActive\<rparr>)],
     rs_sourceSpacePolicies = [],
     rs_grants = [(''grant'', \<lparr>gr_id = ''grant'', gr_realmId = ''r'', gr_subjectId = ''actor'', gr_resource = whole_realm ''r'',
       gr_actions = [GovernanceProfileManage, GovernanceProfileEvaluate], gr_expiresAt = Some 100, gr_status = GrantActive, gr_principalId = ''alice'',
       gr_actorId = ''actor'', gr_clientId = ''web'', gr_sessionId = ''session'', gr_taskId = ''task'', gr_sourceSpaceIds = [], gr_effects = [],
       gr_allowedModelProviders = [], gr_allowedCredentialClasses = [ClassRealmApi], gr_deniedActions = [], gr_budget = [], gr_policyVersion = ''v1'',
       gr_authorizationEpoch = 1, gr_agentId = None, gr_delegatedByActorId = None, gr_delegatedBySessionId = None, gr_parentGrantId = None\<rparr>)],
     rs_credentials = [], rs_audit = [], rs_sessionLifetimeMs = 1000, rs_credentialLifetimeMs = 100\<rparr>"

definition demo_governance_auth :: ExtensionAuthorization where
  "demo_governance_auth = demo_extension_auth\<lparr>xa_actorId := ''actor'', xa_clientId := ''web'', xa_sessionId := ''session'', xa_taskId := ''task'',
     xa_grantId := ''grant''\<rparr>"

text \<open>The examples use a constant as digest. It is applied before the text is computed.\<close>

definition demo_hashing :: Platform where
  "demo_hashing = \<lparr>pl_sha256 = (\<lambda>_. ''h''), pl_collation = (\<lambda>x. x)\<rparr>"

definition digest_by :: "(string \<Rightarrow> string) \<Rightarrow> Platform \<Rightarrow> js_value \<Rightarrow> string" where
  "digest_by f pl v = ''sha256:'' @ f (stable_text pl v)"

lemma stable_digest_by [code]: "stable_digest pl v = digest_by (pl_sha256 pl) pl v"
  by (simp add: stable_digest_def digest_by_def)

definition demo_scope :: "string \<Rightarrow> GovernanceScope" where
  "demo_scope project = \<lparr>gs_realmId = ''r'', gs_organizationId = Some ''o'', gs_projectId = (if project = [] then None else Some project)\<rparr>"

definition demo_control :: "string \<Rightarrow> bool \<Rightarrow> GovernanceControl" where
  "demo_control i required = \<lparr>gc_id = i, gc_title = ''t'', gc_requirement = ''q'', gc_owner = ''alice'', gc_required = required, gc_evidenceKinds = [''log''],
     gc_customerResponsibility = None\<rparr>"

definition demo_profile :: "string \<Rightarrow> GovernanceControl list \<Rightarrow> GovernanceProfile" where
  "demo_profile version controls = createGovernanceProfile demo_hashing \<lparr>cgp_id = ''soc'', cgp_name = ''SOC'', cgp_version = version, cgp_scope = demo_scope [],
     cgp_controls = controls, cgp_provenance = \<lparr>pv_source = ''s'', pv_publisher = ''p'', pv_signer = None, pv_attestation = None, pv_receipt = ''x''\<rparr>,
     cgp_policyVersion = ''v1'', cgp_lifecycle = None, cgp_receipt = ''x''\<rparr>"

definition demo_soc :: GovernanceProfile where
  "demo_soc = demo_profile ''1'' [demo_control ''access'' True, demo_control ''backup'' False]"

definition demo_observation :: "string \<Rightarrow> ControlStatus \<Rightarrow> GovernanceControlObservation" where
  "demo_observation i status = \<lparr>go_controlId = i, go_status = status, go_evidenceRefs = [''e''], go_observedAt = ''now'', go_owner = ''alice'', go_nextAction = ''n'',
     go_disclosure = \<lparr>disc_projectionId = ''p'', disc_classification = DProject\<rparr>, go_receipt = ''x''\<rparr>"

definition demo_assessment :: "string \<Rightarrow> GovernanceControlObservation list \<Rightarrow> EvaluateGovernanceProfileInput" where
  "demo_assessment project observations = \<lparr>egp_profileId = ''soc'', egp_scope = demo_scope project, egp_observations = observations,
     egp_authorization = demo_governance_auth\<rparr>"

definition demo_activation :: "string \<Rightarrow> gr_op" where
  "demo_activation project = ActivateProfile 1 ''a1'' \<lparr>agp_profileId = ''soc'', agp_scope = demo_scope project, agp_authorization = demo_governance_auth\<rparr>"

definition demo_governing :: "gr_op list" where
  "demo_governing = [RegisterProfile demo_soc, demo_activation [],
     EvaluateProfile 2 (\<lambda>n. show_nat n) ''v1'' (demo_assessment [] [demo_observation ''access'' ControlSatisfied, demo_observation ''backup'' ControlFailed])]"

definition demo_governed :: GovernanceRegistry where
  "demo_governed = run_ops (gr_step demo_hashing (\<lambda>_. None) id) demo_governing (new_governance demo_governed_realm)"

lemma demo_governing_admissible: "admissible gr_ok (gr_step demo_hashing (\<lambda>_. None) id) demo_governing (new_governance demo_governed_realm)"
  by code_simp

lemma demo_evaluated: "map gv_status (map_values (gr_evaluations demo_governed)) = [GovReady]"
  by code_simp

lemma demo_governed_reachable: "gov_reachable demo_hashing (\<lambda>_. None) id demo_governed"
  unfolding gov_reachable_def demo_governed_def using demo_governing_admissible by blast

lemma get_key_value: "get_key m k = Some x \<Longrightarrow> x \<in> set (map_values m)"
  by (auto simp: get_key_def map_values_def dest!: map_of_SomeD intro: rev_image_eqI)

text \<open>The Evidence is still there when the Grant is revoked.\<close>

definition demo_revoking :: "gr_op list" where
  "demo_revoking = [GovernedRealmCall (OpRevokeGrant ''grant'')]"

definition demo_later :: GovernanceRegistry where
  "demo_later = run_ops (gr_step demo_hashing (\<lambda>_. None) id) demo_revoking demo_governed"

theorem ready_rests_on_evidence_witness:
  "\<exists>v e. get_key (gr_evaluations demo_governed) (opaqueId ''governance-evaluation'' ''v1'') = Some v
     \<and> evidence_of demo_later v (demo_control ''access'' True) e \<and> ge_status e = ControlSatisfied"
proof -
  have "map_option gv_status (get_key (gr_evaluations demo_governed) (opaqueId ''governance-evaluation'' ''v1'')) = Some GovReady" by code_simp
  then obtain v where v: "get_key (gr_evaluations demo_governed) (opaqueId ''governance-evaluation'' ''v1'') = Some v" "gv_status v = GovReady" by auto
  have admissible: "admissible gr_ok (gr_step demo_hashing (\<lambda>_. None) id) demo_revoking demo_governed" by code_simp
  obtain p where "get_key (gr_profiles demo_later) (profile_key p) = Some p"
    and evidence: "\<forall>c\<in>set (gp_controls p). gc_required c \<longrightarrow> (\<exists>e. evidence_of demo_later v c e \<and> ge_status e = ControlSatisfied)"
    using ready_rests_on_evidence [OF demo_governed_reachable v admissible demo_later_def] by blast
  then have "gp_controls p \<in> set (map gp_controls (map_values (gr_profiles demo_later)))" by (auto dest: get_key_value)
  also have "map gp_controls (map_values (gr_profiles demo_later)) = [[demo_control ''access'' True, demo_control ''backup'' False]]" by code_simp
  finally have "demo_control ''access'' True \<in> set (gp_controls p)" by simp
  moreover have "gc_required (demo_control ''access'' True)" by (simp add: demo_control_def)
  ultimately show ?thesis using v(1) evidence by blast
qed

text \<open>An export, and its replay into an empty registry.\<close>

definition demo_findings :: "GovernanceControlObservation list" where
  "demo_findings = [demo_observation ''access'' ControlSatisfied, demo_observation ''backup'' ControlFailed]"

definition demo_export :: "GovernanceProfileExport gr_outcome" where
  "demo_export = exportProfile demo_hashing 3 ''now'' (\<lambda>n. CHR ''e'' # show_nat n) ''v2'' ''x1'' ''soc'' (demo_assessment [] demo_findings) demo_governed"

definition demo_bundle :: GovernanceProfileExport where
  "demo_bundle = projr (fst demo_export)"

lemma demo_exported: "exportProfile demo_hashing 3 ''now'' (\<lambda>n. CHR ''e'' # show_nat n) ''v2'' ''x1'' ''soc'' (demo_assessment [] demo_findings) demo_governed
    = (Inr demo_bundle, snd demo_export)"
proof -
  have "\<not> isl (fst demo_export)" by code_simp
  then show ?thesis by (simp add: demo_bundle_def demo_export_def [symmetric])
qed

theorem exported_bundle_verifies_witness:
  "verifyGovernanceProfileExport demo_hashing (\<lambda>_. None) demo_bundle = Inr demo_bundle
   \<and> verifyGovernanceProfileExport demo_hashing (\<lambda>_. Some ''profile.name'') demo_bundle = Inl (gov_error GovExportInvalid (gx_exportId demo_bundle))"
  using exported_bundle_verifies [OF demo_governed_reachable demo_exported] by (simp add: truthy_iff)

definition demo_replaying :: ReplayGovernanceProfileInput where
  "demo_replaying = \<lparr>rgp_scope = demo_scope ''other'', rgp_authorization = demo_governance_auth, rgp_observations = None\<rparr>"

definition demo_replay :: "GovernanceProfileExport \<Rightarrow> GovernanceRegistry \<Rightarrow> GovernanceEvaluation gr_outcome" where
  "demo_replay b s = replayProfile demo_hashing (\<lambda>_. None) 4 (\<lambda>n. CHR ''r'' # show_nat n) ''v3'' ''a2'' b demo_replaying s"

theorem replay_reproduces_evaluation_witness:
  "\<exists>v. fst (demo_replay demo_bundle (new_governance demo_governed_realm)) = Inr v \<and> gv_status v = GovReady \<and> gv_profileDigest v = gp_digest demo_soc"
proof -
  have "\<not> isl (fst (demo_replay demo_bundle (new_governance demo_governed_realm)))" by code_simp
  then obtain v t where replay: "replayProfile demo_hashing (\<lambda>_. None) 4 (\<lambda>n. CHR ''r'' # show_nat n) ''v3'' ''a2'' demo_bundle demo_replaying
      (new_governance demo_governed_realm) = (Inr v, t)"
    unfolding demo_replay_def by (cases "replayProfile demo_hashing (\<lambda>_. None) 4 (\<lambda>n. CHR ''r'' # show_nat n) ''v3'' ''a2'' demo_bundle demo_replaying
      (new_governance demo_governed_realm)" rule: void.cases) auto
  have "evidence_fresh demo_governed (\<lambda>n. CHR ''e'' # show_nat n) (length (egp_observations (demo_assessment [] demo_findings)))" by code_simp
  moreover have "evidence_fresh (new_governance demo_governed_realm) (\<lambda>n. CHR ''r'' # show_nat n) (length (egp_observations (demo_assessment [] demo_findings)))" by code_simp
  moreover have "rgp_observations demo_replaying = None" "getProfile (new_governance demo_governed_realm) ''soc'' = None"
    by (simp_all add: demo_replaying_def getProfile_def new_governance_def map_values_def)
  moreover have "gv_status (gx_evaluation demo_bundle) = GovReady" "gp_digest (gx_profile demo_bundle) = gp_digest demo_soc" by code_simp+
  ultimately show ?thesis
    using replay_reproduces_evaluation [OF demo_exported _ replay] replay by (intro exI [of _ v]) (simp add: demo_replay_def)
qed

section \<open>Where the code falls short\<close>

text \<open>
  A profile is looked up by its id alone, which finds the version registered first. A later version is never
  activated or evaluated. Replaying a bundle of it evaluates the other version: here the second version requires the
  backup control, its bundle says blocked, and its replay says ready.
\<close>

definition demo_second :: GovernanceProfile where
  "demo_second = demo_profile ''2'' [demo_control ''access'' True, demo_control ''backup'' True]"

definition demo_second_bundle :: GovernanceProfileExport where
  "demo_second_bundle = projr (fst (exportProfile demo_hashing 3 ''now'' (\<lambda>n. CHR ''e'' # show_nat n) ''v2'' ''x1'' ''soc'' (demo_assessment [] demo_findings)
     (run_ops (gr_step demo_hashing (\<lambda>_. None) id) [RegisterProfile demo_second, demo_activation []] (new_governance demo_governed_realm))))"

lemma second_version_is_not_replayed:
  "gv_status (gx_evaluation demo_second_bundle) = GovBlocked"
  "map_option gv_status (case fst (demo_replay demo_second_bundle demo_governed) of Inl _ \<Rightarrow> None | Inr v \<Rightarrow> Some v) = Some GovReady"
  by code_simp+

text \<open>The parts of a scope key are not delimited, so two scopes may have one application.\<close>

lemma scope_keys_collide:
  "scopeKey \<lparr>gs_realmId = ''r'', gs_organizationId = Some ''o'', gs_projectId = Some ''x|''\<rparr>
     = scopeKey \<lparr>gs_realmId = ''r'', gs_organizationId = Some ''o|x'', gs_projectId = None\<rparr>"
  by (simp add: scopeKey_def)

text \<open>A replay that is refused in its evaluation leaves the profile registered and active.\<close>

lemma refused_replay_activates:
  "isl (fst (replayProfile demo_hashing (\<lambda>_. None) 4 (\<lambda>n. CHR ''r'' # show_nat n) ''v3'' ''a2'' demo_bundle
       (demo_replaying\<lparr>rgp_observations := Some [demo_observation ''mfa'' ControlSatisfied]\<rparr>) (new_governance demo_governed_realm)))"
  "map gp_lifecycle (map_values (gr_profiles (snd (replayProfile demo_hashing (\<lambda>_. None) 4 (\<lambda>n. CHR ''r'' # show_nat n) ''v3'' ''a2'' demo_bundle
       (demo_replaying\<lparr>rgp_observations := Some [demo_observation ''mfa'' ControlSatisfied]\<rparr>) (new_governance demo_governed_realm))))) = [GovActive]"
  by code_simp+

end
