(* ===== verification/Artifact_Outputs.thy ===== *)
theory Artifact_Outputs
  imports Prelude
begin

text \<open>
  The portable declaration of typed Artifacts, \<open>packages/create-anyam/src/action-artifact-output.ts\<close>: parsing a
  declaration that crossed a boundary, and checking what a Runner returns against the declaration and against
  the signed digests of the Action. The reason of an \<open>ActionArtifactOutputError\<close> is a constructor.
\<close>

datatype ArtifactOutputReason =
    ExpectedOutputs | ExpectedCanonical | DuplicatePath | OutsideOutputs | PathWithoutContract
  | BadOutputDigest | PathOnNonArtifact | BadArtifactPath | DigestDiffers | MissingArtifacts

record ArtifactOutput =
  ao_path :: string
  ao_type :: string

type_synonym ActionArtifactOutputContract = "ArtifactOutput list"

section \<open>Parsing\<close>

definition exactKeys :: "(string \<times> js_value) list \<Rightarrow> string list \<Rightarrow> bool" where
  "exactKeys fs keys \<longleftrightarrow> length fs = length keys \<and> list_all (\<lambda>k. k \<in> set keys) (map fst fs)"

text \<open>\<open>toLowerCase\<close> on the code units of the model.\<close>

definition js_lower :: "string \<Rightarrow> string" where
  "js_lower = map (\<lambda>c. let n = of_char c :: nat in
     if 65 \<le> n \<and> n \<le> 90 \<or> 192 \<le> n \<and> n \<le> 222 \<and> n \<noteq> 215 then char_of (n + 32) else c)"

definition control_or_separator :: "char \<Rightarrow> bool" where
  "control_or_separator c \<longleftrightarrow> c = CHR 0x5C \<or> c = CHR '':'' \<or> of_char c < (32 :: nat) \<or> c = CHR 0x7F"

definition canonicalArtifactOutputPath :: "string \<Rightarrow> bool" where
  "canonicalArtifactOutputPath p \<longleftrightarrow> p \<noteq> [] \<and> js_trim p = p \<and> list_all (\<lambda>c. \<not> control_or_separator c) p
     \<and> list_all (\<lambda>segment. segment \<noteq> [] \<and> segment \<noteq> ''.'' \<and> segment \<noteq> ''..'' \<and> js_lower segment \<noteq> ''.git'') (split_on CHR ''/'' p)"

text \<open>The expression \<open>^[a-z][a-z0-9]*(?:[.-][a-z0-9]+)*$\<close>.\<close>

definition lower_alpha :: "char \<Rightarrow> bool" where
  "lower_alpha c \<longleftrightarrow> 97 \<le> (of_char c :: nat) \<and> (of_char c :: nat) \<le> 122"

definition lower_alnum :: "char \<Rightarrow> bool" where
  "lower_alnum c \<longleftrightarrow> lower_alpha c \<or> 48 \<le> (of_char c :: nat) \<and> (of_char c :: nat) \<le> 57"

definition artifact_type_text :: "string \<Rightarrow> bool" where
  "artifact_type_text t \<longleftrightarrow> list_all (\<lambda>w. w \<noteq> [] \<and> list_all lower_alnum w) (split_on CHR ''.'' (replaceChar CHR ''-'' CHR ''.'' t))
     \<and> (t \<noteq> [] \<longrightarrow> lower_alpha (hd t))"

fun parse_entry :: "js_value \<Rightarrow> ArtifactOutput option" where
  "parse_entry (JObject fs) =
     (case (js_field fs ''path'', js_field fs ''type'') of
        (JString path, JString typ) \<Rightarrow>
          if exactKeys fs [''path'', ''type''] \<and> canonicalArtifactOutputPath path \<and> artifact_type_text typ
          then Some \<lparr>ao_path = path, ao_type = typ\<rparr> else None
      | _ \<Rightarrow> None)"
| "parse_entry _ = None"

definition add_entry :: "string list option \<Rightarrow> js_value \<Rightarrow> ArtifactOutput list \<Rightarrow> ArtifactOutputReason + ArtifactOutput list" where
  "add_entry declaredPaths entry outputs =
     (case parse_entry entry of
        None \<Rightarrow> Inl ExpectedCanonical
      | Some out \<Rightarrow>
          if ao_path out \<in> set (map ao_path outputs) then Inl DuplicatePath
          else if (case declaredPaths of None \<Rightarrow> False | Some paths \<Rightarrow> ao_path out \<notin> set paths) then Inl OutsideOutputs
          else Inr (outputs @ [out]))"

fun parseActionArtifactOutputContract :: "js_value \<Rightarrow> string list option \<Rightarrow> ArtifactOutputReason + ActionArtifactOutputContract" where
  "parseActionArtifactOutputContract (JObject fs) declaredPaths =
     (case js_field fs ''outputs'' of
        JArray entries \<Rightarrow>
          if exactKeys fs [''protocol'', ''outputs''] \<and> js_field fs ''protocol'' = JString ''anyam.action-artifact-outputs/v1'' \<and> entries \<noteq> []
          then fold_loop (add_entry declaredPaths) entries [] else Inl ExpectedOutputs
      | _ \<Rightarrow> Inl ExpectedOutputs)"
| "parseActionArtifactOutputContract _ declaredPaths = Inl ExpectedOutputs"

text \<open>The parsed declaration as the value that is passed on.\<close>

definition contract_json :: "ActionArtifactOutputContract \<Rightarrow> js_value" where
  "contract_json outs = JObject [(''protocol'', JString ''anyam.action-artifact-outputs/v1''),
     (''outputs'', JArray (map (\<lambda>out. JObject [(''path'', JString (ao_path out)), (''type'', JString (ao_type out))]) outs))]"

section \<open>Checking what a Runner returns\<close>

datatype RunnerOutputKind = OutputLog | OutputArtifact | OutputEvidence

datatype ResultStatus = ResultSucceeded | ResultFailed | ResultIndeterminate

record SubmittedOutput =
  so_kind :: RunnerOutputKind
  so_outputPath :: "string option"
  so_digest :: string

text \<open>The text before and after the last occurrence of a character, \<open>lastIndexOf\<close> and two slices.\<close>

definition split_last :: "char \<Rightarrow> string \<Rightarrow> (string \<times> string) option" where
  "split_last c s = (if c \<notin> set s then None
     else let after = takeWhile (\<lambda>d. d \<noteq> c) (rev s) in Some (take (length s - length after - 1) s, rev after))"

definition hex_text :: "char \<Rightarrow> bool" where
  "hex_text c \<longleftrightarrow> 48 \<le> (of_char c :: nat) \<and> (of_char c :: nat) \<le> 57 \<or> 97 \<le> (of_char c :: nat) \<and> (of_char c :: nat) \<le> 102"

definition sha256_text :: "string \<Rightarrow> bool" where
  "sha256_text d \<longleftrightarrow> startsWith d ''sha256:'' \<and> length (drop 7 d) = 64 \<and> list_all hex_text (drop 7 d)"

definition add_digest :: "string list \<Rightarrow> string \<Rightarrow> (string, string) jsmap \<Rightarrow> ArtifactOutputReason + (string, string) jsmap" where
  "add_digest declaredPaths entry digests =
     (case split_last CHR ''='' entry of
        None \<Rightarrow> Inl BadOutputDigest
      | Some (path, digest) \<Rightarrow>
          if path = [] \<or> path \<notin> set declaredPaths \<or> has_key digests path \<or> \<not> sha256_text digest then Inl BadOutputDigest
          else Inr (set_key path digest digests))"

definition see_output ::
  "ActionArtifactOutputContract \<Rightarrow> (string, string) jsmap \<Rightarrow> 'a SubmittedOutput_scheme \<Rightarrow> string list \<Rightarrow> ArtifactOutputReason + string list" where
  "see_output contract digests out seen =
     (if so_kind out \<noteq> OutputArtifact then (if so_outputPath out \<noteq> None then Inl PathOnNonArtifact else Inr seen)
      else case find (\<lambda>entry. Some (ao_path entry) = so_outputPath out) contract of
          None \<Rightarrow> Inl BadArtifactPath
        | Some declaration \<Rightarrow>
            if ao_path declaration \<in> set seen then Inl BadArtifactPath
            else if get_key digests (ao_path declaration) \<noteq> Some (so_digest out) then Inl DigestDiffers
            else Inr (seen @ [ao_path declaration]))"

definition validateActionArtifactOutputs ::
  "ActionArtifactOutputContract option \<Rightarrow> string list \<Rightarrow> ResultStatus \<Rightarrow> string list \<Rightarrow> 'a SubmittedOutput_scheme list \<Rightarrow> ArtifactOutputReason option" where
  "validateActionArtifactOutputs stored declaredPaths status outputDigests outputs =
     (case stored of
        None \<Rightarrow> fail_if (list_ex (\<lambda>out. so_outputPath out \<noteq> None) outputs) PathWithoutContract
      | Some c \<Rightarrow>
          (case parseActionArtifactOutputContract (contract_json c) (Some declaredPaths) of
             Inl e \<Rightarrow> Some e
           | Inr contract \<Rightarrow>
               (case fold_loop (add_digest declaredPaths) outputDigests [] of
                  Inl e \<Rightarrow> Some e
                | Inr digests \<Rightarrow>
                    (case fold_loop (see_output contract digests) outputs [] of
                       Inl e \<Rightarrow> Some e
                     | Inr seen \<Rightarrow> fail_if (status = ResultSucceeded \<and> length seen \<noteq> length contract) MissingArtifacts))))"

section \<open>What a parsed declaration guarantees\<close>

definition output_ok :: "ArtifactOutput \<Rightarrow> bool" where
  "output_ok out \<longleftrightarrow> canonicalArtifactOutputPath (ao_path out) \<and> artifact_type_text (ao_type out)"

definition contract_ok :: "string list option \<Rightarrow> ActionArtifactOutputContract \<Rightarrow> bool" where
  "contract_ok declaredPaths outs \<longleftrightarrow> outs \<noteq> [] \<and> distinct (map ao_path outs) \<and> list_all output_ok outs
     \<and> (case declaredPaths of None \<Rightarrow> True | Some paths \<Rightarrow> list_all (\<lambda>out. ao_path out \<in> set paths) outs)"

lemma parse_entry_ok: "parse_entry entry = Some out \<Longrightarrow> output_ok out"
  by (cases entry) (auto simp: output_ok_def split: js_value.splits if_splits)

lemma add_entry_Inr: "add_entry declaredPaths entry outs = Inr outs' \<longleftrightarrow> (\<exists>out. parse_entry entry = Some out \<and> outs' = outs @ [out]
    \<and> ao_path out \<notin> ao_path ` set outs \<and> (case declaredPaths of None \<Rightarrow> True | Some paths \<Rightarrow> ao_path out \<in> set paths))"
  by (auto simp: add_entry_def split: option.splits)

lemma add_entries_ok:
  assumes "fold_loop (add_entry declaredPaths) entries outs = Inr outs'"
    and "distinct (map ao_path outs)" "list_all output_ok outs"
    and "case declaredPaths of None \<Rightarrow> True | Some paths \<Rightarrow> list_all (\<lambda>out. ao_path out \<in> set paths) outs"
  shows "distinct (map ao_path outs') \<and> list_all output_ok outs' \<and> length outs' = length outs + length entries
    \<and> (case declaredPaths of None \<Rightarrow> True | Some paths \<Rightarrow> list_all (\<lambda>out. ao_path out \<in> set paths) outs')"
  using assms
proof (induction entries arbitrary: outs)
  case (Cons entry entries)
  then obtain out where out: "parse_entry entry = Some out" "ao_path out \<notin> ao_path ` set outs"
    "case declaredPaths of None \<Rightarrow> True | Some paths \<Rightarrow> ao_path out \<in> set paths"
    "fold_loop (add_entry declaredPaths) entries (outs @ [out]) = Inr outs'"
    by (auto simp: add_entry_Inr split: sum.splits)
  have "distinct (map ao_path outs') \<and> list_all output_ok outs' \<and> length outs' = length (outs @ [out]) + length entries
    \<and> (case declaredPaths of None \<Rightarrow> True | Some paths \<Rightarrow> list_all (\<lambda>out. ao_path out \<in> set paths) outs')"
    using Cons.prems(2-) out(2,3) parse_entry_ok [OF out(1)]
    by (intro Cons.IH [OF out(4)]) (auto split: option.splits)
  then show ?case by simp
qed simp

lemma parse_contract_ok:
  assumes "parseActionArtifactOutputContract v declaredPaths = Inr outs"
  shows "contract_ok declaredPaths outs"
proof -
  obtain entries where entries: "fold_loop (add_entry declaredPaths) entries [] = Inr outs" "entries \<noteq> []"
    using assms by (cases v) (auto split: js_value.splits if_splits)
  from entries(2) show ?thesis
    using add_entries_ok [OF entries(1)] by (cases declaredPaths) (auto simp: contract_ok_def)
qed

lemma parse_entry_json: "output_ok out \<Longrightarrow> parse_entry (JObject [(''path'', JString (ao_path out)), (''type'', JString (ao_type out))]) = Some out"
  by (simp add: js_field_def exactKeys_def output_ok_def)

lemma add_entries_json:
  assumes "distinct (map ao_path (acc @ outs))" "list_all output_ok outs"
    and "case declaredPaths of None \<Rightarrow> True | Some paths \<Rightarrow> list_all (\<lambda>out. ao_path out \<in> set paths) outs"
  shows "fold_loop (add_entry declaredPaths) (map (\<lambda>out. JObject [(''path'', JString (ao_path out)), (''type'', JString (ao_type out))]) outs) acc = Inr (acc @ outs)"
  using assms
proof (induction outs arbitrary: acc)
  case (Cons out outs)
  then have "add_entry declaredPaths (JObject [(''path'', JString (ao_path out)), (''type'', JString (ao_type out))]) acc = Inr (acc @ [out])"
    by (auto simp: add_entry_def parse_entry_json simp del: parse_entry.simps split: option.splits)
  with Cons.IH [of "acc @ [out]"] Cons.prems show ?case by (auto split: option.splits)
qed simp

text \<open>A parsed declaration parses again to itself, so the copies the coordinator makes of it never throw.\<close>

lemma parse_contract_json: "contract_ok declaredPaths outs \<Longrightarrow> parseActionArtifactOutputContract (contract_json outs) declaredPaths = Inr outs"
  using add_entries_json [of "[]" outs declaredPaths]
  by (simp add: contract_json_def contract_ok_def js_field_def exactKeys_def)

section \<open>What a checked Result guarantees\<close>

lemma parse_contract_json_iff:
  "parseActionArtifactOutputContract (contract_json c) declaredPaths = Inr outs \<longleftrightarrow> outs = c \<and> contract_ok declaredPaths c"
proof -
  have entries: "outs' = outs @ c"
    if "fold_loop (add_entry declaredPaths) (map (\<lambda>out. JObject [(''path'', JString (ao_path out)), (''type'', JString (ao_type out))]) c) outs = Inr outs'"
    for outs outs'
    using that
  proof (induction c arbitrary: outs)
    case (Cons out c)
    then obtain out' where out: "parse_entry (JObject [(''path'', JString (ao_path out)), (''type'', JString (ao_type out))]) = Some out'"
      "fold_loop (add_entry declaredPaths) (map (\<lambda>out. JObject [(''path'', JString (ao_path out)), (''type'', JString (ao_type out))]) c) (outs @ [out']) = Inr outs'"
      by (auto simp: add_entry_Inr simp del: parse_entry.simps split: sum.splits)
    moreover from out(1) have "out' = out" by (auto simp: js_field_def split: if_splits)
    ultimately show ?case using Cons.IH by fastforce
  qed simp
  show ?thesis
  proof
    assume parsed: "parseActionArtifactOutputContract (contract_json c) declaredPaths = Inr outs"
    with entries [of "[]" outs] have "outs = c" by (auto simp: contract_json_def js_field_def split: if_splits)
    with parse_contract_ok [OF parsed] show "outs = c \<and> contract_ok declaredPaths c" by simp
  qed (auto simp: parse_contract_json)
qed

lemma split_last_append: "c \<notin> set v \<Longrightarrow> split_last c (u @ c # v) = Some (u, v)"
proof -
  assume "c \<notin> set v"
  then have "takeWhile (\<lambda>d. d \<noteq> c) (rev v @ c # rev u) = rev v"
    by (subst takeWhile_append2) auto
  then show ?thesis by (simp add: split_last_def)
qed

lemma split_last_Some: "split_last c s = Some (u, v) \<longleftrightarrow> s = u @ c # v \<and> c \<notin> set v"
proof
  assume split: "split_last c s = Some (u, v)"
  then have "c \<in> set s" by (simp add: split_last_def split: if_splits)
  then obtain u' v' where s: "s = u' @ c # v'" "c \<notin> set v'"
    using split_list_last by metis
  with split show "s = u @ c # v \<and> c \<notin> set v" by (simp add: split_last_append)
qed (simp add: split_last_append)

definition digest_pair_ok :: "string list \<Rightarrow> string \<times> string \<Rightarrow> bool" where
  "digest_pair_ok declaredPaths pd \<longleftrightarrow> fst pd \<noteq> [] \<and> fst pd \<in> set declaredPaths \<and> sha256_text (snd pd)"

lemma has_key_append: "has_key (m @ [(k, v)]) k' \<longleftrightarrow> has_key m k' \<or> k' = k"
  by (auto simp: has_key_def get_key_def map_add_def split: option.splits)

lemma has_key_fst: "has_key m k \<longleftrightarrow> k \<in> fst ` set m"
  by (simp add: has_key_def get_key_None_iff map_keys_def)

lemma digests_Inr:
  "fold_loop (add_digest declaredPaths) entries m = Inr m' \<longleftrightarrow>
     (\<exists>pairs. map (split_last CHR ''='') entries = map Some pairs \<and> list_all (digest_pair_ok declaredPaths) pairs
        \<and> distinct (map fst pairs) \<and> fst ` set pairs \<inter> fst ` set m = {} \<and> m' = m @ pairs)"
proof (induction entries arbitrary: m)
  case (Cons entry entries)
  show ?case (is "?L \<longleftrightarrow> ?R")
  proof (cases "split_last CHR ''='' entry")
    case None
    then show ?thesis by (auto simp: add_digest_def)
  next
    case (Some pd)
    show ?thesis
    proof (cases "digest_pair_ok declaredPaths pd \<and> fst pd \<notin> fst ` set m")
      case True
      then have "add_digest declaredPaths entry m = Inr (m @ [pd])"
        using Some by (cases pd) (auto simp: add_digest_def digest_pair_ok_def has_key_fst set_key_fresh get_key_None_iff map_keys_def)
      then have "?L \<longleftrightarrow> (\<exists>pairs. map (split_last CHR ''='') entries = map Some pairs \<and> list_all (digest_pair_ok declaredPaths) pairs
          \<and> distinct (map fst pairs) \<and> fst ` set pairs \<inter> fst ` set (m @ [pd]) = {} \<and> m' = (m @ [pd]) @ pairs)"
        using Cons.IH by simp
      also have "\<dots> \<longleftrightarrow> (\<exists>pairs. map (split_last CHR ''='') (entry # entries) = map Some (pd # pairs) \<and> list_all (digest_pair_ok declaredPaths) (pd # pairs)
          \<and> distinct (map fst (pd # pairs)) \<and> fst ` set (pd # pairs) \<inter> fst ` set m = {} \<and> m' = m @ pd # pairs)"
        using Some True by auto
      also have "\<dots> \<longleftrightarrow> ?R"
        using Some by (auto simp: Cons_eq_map_conv)
      finally show ?thesis .
    next
      case False
      then have "add_digest declaredPaths entry m = Inl BadOutputDigest"
        using Some by (cases pd) (auto simp: add_digest_def digest_pair_ok_def has_key_fst)
      then have "\<not> ?L" by simp
      moreover have "\<not> ?R"
      proof
        assume ?R
        then obtain pairs where pairs: "map (split_last CHR ''='') (entry # entries) = map Some pairs" "list_all (digest_pair_ok declaredPaths) pairs"
          "fst ` set pairs \<inter> fst ` set m = {}" by blast
        then obtain qs where "pairs = pd # qs" using Some by (cases pairs) simp_all
        with pairs(2,3) False show False by simp
      qed
      ultimately show ?thesis by blast
    qed
  qed
qed auto

definition is_artifact :: "'a SubmittedOutput_scheme \<Rightarrow> bool" where
  "is_artifact out \<longleftrightarrow> so_kind out = OutputArtifact"

definition bound_to :: "ActionArtifactOutputContract \<Rightarrow> (string, string) jsmap \<Rightarrow> 'a SubmittedOutput_scheme \<Rightarrow> string \<Rightarrow> bool" where
  "bound_to contract digests out path \<longleftrightarrow> so_outputPath out = Some path \<and> path \<in> ao_path ` set contract \<and> get_key digests path = Some (so_digest out)"

lemma find_path:
  "find (\<lambda>entry. Some (ao_path entry) = Some path) contract = None \<longleftrightarrow> path \<notin> ao_path ` set contract"
  "find (\<lambda>entry. Some (ao_path entry) = Some path) contract = Some d \<Longrightarrow> ao_path d = path \<and> path \<in> ao_path ` set contract"
  by (auto simp: find_None_iff dest: find_SomeD)

lemma see_artifact: "is_artifact out \<Longrightarrow> see_output contract digests out seen = Inr seen' \<longleftrightarrow>
    (\<exists>path. bound_to contract digests out path \<and> path \<notin> set seen \<and> seen' = seen @ [path])"
proof (cases "so_outputPath out")
  case None
  assume "is_artifact out"
  moreover have "find (\<lambda>entry. False) contract = None" by (simp add: find_None_iff)
  ultimately show ?thesis using None by (simp add: see_output_def is_artifact_def bound_to_def)
next
  case (Some path)
  assume art: "is_artifact out"
  show ?thesis
  proof (cases "find (\<lambda>entry. Some (ao_path entry) = Some path) contract")
    case None
    with find_path(1) [of path contract] have "path \<notin> ao_path ` set contract" by blast
    with None Some art show ?thesis by (simp add: see_output_def is_artifact_def bound_to_def)
  next
    case (Some d)
    from find_path(2) [OF Some] have "ao_path d = path" "path \<in> ao_path ` set contract" by simp_all
    with Some \<open>so_outputPath out = Some path\<close> art show ?thesis by (auto simp add: see_output_def is_artifact_def bound_to_def)
  qed
qed

lemma see_other: "\<not> is_artifact out \<Longrightarrow> see_output contract digests out seen = Inr seen' \<longleftrightarrow> so_outputPath out = None \<and> seen' = seen"
  by (auto simp: see_output_def is_artifact_def)

lemma outputs_Inr:
  "fold_loop (see_output contract digests) outputs seen = Inr seen' \<longleftrightarrow>
     (\<forall>out\<in>set outputs. \<not> is_artifact out \<longrightarrow> so_outputPath out = None)
     \<and> (\<exists>paths. list_all2 (bound_to contract digests) (filter is_artifact outputs) paths \<and> distinct paths
          \<and> set paths \<inter> set seen = {} \<and> seen' = seen @ paths)"
proof (induction outputs arbitrary: seen)
  case (Cons out outputs)
  show ?case
  proof (cases "is_artifact out")
    case True
    then show ?thesis
      unfolding fold_loop_Cons_Inr see_artifact [OF True] Cons.IH by (fastforce simp: list_all2_Cons1)
  next
    case False
    then show ?thesis unfolding fold_loop_Cons_Inr see_other [OF False] Cons.IH by auto
  qed
qed auto

text \<open>
  What a Runner returns for a typed Action is accepted exactly when the declaration is well-formed, every
  normalized digest names one declared output path once with a SHA-256 text, every Artifact is bound to a
  declared path of its own and carries exactly the digest signed for that path, other outputs name no path, and
  a successful Result holds every declared Artifact.
\<close>

theorem artifact_outputs_accepted_iff:
  "validateActionArtifactOutputs (Some contract) declaredPaths status outputDigests outputs = None \<longleftrightarrow>
     contract_ok (Some declaredPaths) contract
     \<and> (\<exists>pairs paths. map (split_last CHR ''='') outputDigests = map Some pairs \<and> list_all (digest_pair_ok declaredPaths) pairs
          \<and> distinct (map fst pairs) \<and> list_all2 (bound_to contract pairs) (filter is_artifact outputs) paths \<and> distinct paths
          \<and> (status = ResultSucceeded \<longrightarrow> set paths = ao_path ` set contract))
     \<and> list_all (\<lambda>out. is_artifact out \<or> so_outputPath out = None) outputs" (is "_ \<longleftrightarrow> ?ok \<and> ?bound \<and> ?rest")
proof -
  have all: "length paths = length contract \<longleftrightarrow> set paths = ao_path ` set contract"
    if "contract_ok (Some declaredPaths) contract" "list_all2 (bound_to contract pairs) arts paths" "distinct paths" for pairs arts paths
  proof -
    have "set paths \<subseteq> ao_path ` set contract"
      using that(2) by (auto simp: bound_to_def list_all2_conv_all_nth in_set_conv_nth)
    moreover have "length contract = card (ao_path ` set contract)" "length paths = card (set paths)"
      using that(1,3) distinct_card [of "map ao_path contract"] distinct_card [of paths] by (auto simp: contract_ok_def)
    ultimately show ?thesis by (metis List.finite_set card_subset_eq finite_imageI)
  qed
  have "validateActionArtifactOutputs (Some contract) declaredPaths status outputDigests outputs = None \<longleftrightarrow>
      ?ok \<and> (\<exists>digests seen. fold_loop (add_digest declaredPaths) outputDigests [] = Inr digests
        \<and> fold_loop (see_output contract digests) outputs [] = Inr seen \<and> (status = ResultSucceeded \<longrightarrow> length seen = length contract))"
  proof (cases "parseActionArtifactOutputContract (contract_json contract) (Some declaredPaths)")
    case (Inl e)
    then have "\<not> ?ok" using parse_contract_json [of "Some declaredPaths" contract] by auto
    with Inl show ?thesis by (simp add: validateActionArtifactOutputs_def)
  next
    case (Inr c)
    then have "c = contract" "?ok" using parse_contract_json_iff [of contract "Some declaredPaths" c] by simp_all
    with Inr show ?thesis by (simp add: validateActionArtifactOutputs_def fail_if_None split: sum.split)
  qed
  also have "\<dots> \<longleftrightarrow> ?ok \<and> (\<exists>pairs paths. map (split_last CHR ''='') outputDigests = map Some pairs \<and> list_all (digest_pair_ok declaredPaths) pairs
          \<and> distinct (map fst pairs) \<and> list_all2 (bound_to contract pairs) (filter is_artifact outputs) paths \<and> distinct paths
          \<and> (status = ResultSucceeded \<longrightarrow> length paths = length contract)) \<and> ?rest"
  proof -
    have rest: "(\<forall>out\<in>set outputs. \<not> is_artifact out \<longrightarrow> so_outputPath out = None) \<longleftrightarrow> ?rest"
      by (auto simp: list_all_iff)
    show ?thesis unfolding digests_Inr outputs_Inr rest by (cases ?rest) simp_all
  qed
  also have "\<dots> \<longleftrightarrow> ?ok \<and> ?bound \<and> ?rest"
    by (cases ?ok) (simp_all add: all cong: conj_cong)
  finally show ?thesis .
qed

definition demo_artifact_digest :: string where
  "demo_artifact_digest = ''sha256:'' @ replicate 64 CHR ''0''"

definition demo_declared :: ActionArtifactOutputContract where
  "demo_declared = [\<lparr>ao_path = ''dist/a'', ao_type = ''bundle''\<rparr>]"

theorem artifact_outputs_accepted_iff_witness:
  "\<exists>pairs. map (split_last CHR ''='') [''dist/a='' @ demo_artifact_digest] = map Some pairs \<and> distinct (map fst pairs)
     \<and> contract_ok (Some [''dist/a'']) demo_declared"
proof -
  have "validateActionArtifactOutputs (Some demo_declared) [''dist/a''] ResultSucceeded [''dist/a='' @ demo_artifact_digest]
      [\<lparr>so_kind = OutputArtifact, so_outputPath = Some ''dist/a'', so_digest = demo_artifact_digest\<rparr>] = None"
    by code_simp
  then show ?thesis unfolding artifact_outputs_accepted_iff by blast
qed

end
