(* ===== verification/Runner_Contracts.thy ===== *)
theory Runner_Contracts
  imports Contracts Stable_Json Artifact_Outputs
begin

text \<open>
  The data of the external Runner protocol, from \<open>src/src/kernel/contracts.ts\<close>, \<open>src/src/execution/local.ts\<close>
  and \<open>src/src/execution/runner.ts\<close>, and the texts that are hashed and signed: the input manifest, the
  challenge of a claim, the context and message of a Result. Prose (messages, receipts nobody reads, recovery
  actions) is left out; a time stamp keeps its text and what \<open>Date.parse\<close> reads from it, \<open>None\<close> for \<open>NaN\<close>.

  Hashing and signatures come from \<open>node:crypto\<close> and are arguments, the record \<open>RunnerCrypto\<close>.
\<close>

record RunnerCrypto =
  rx_sha256 :: "string \<Rightarrow> string"
  rx_parses :: "string \<Rightarrow> bool"
  rx_verifies :: "string \<Rightarrow> string \<Rightarrow> string \<Rightarrow> bool"

record Timestamp =
  ts_text :: string
  ts_time :: "int option"

section \<open>Runners, Jobs, Attempts and Runs\<close>

datatype RunnerStatus = RunnerEnrolled | RunnerActive | RunnerUnavailable | RunnerDisabled | RunnerQuarantined

datatype RunnerNetworkEnforcement = DenyAll | CloudflareSandbox | CustomerEgressProxy

fun enforcement_text :: "RunnerNetworkEnforcement \<Rightarrow> string" where
  "enforcement_text DenyAll = ''deny-all''"
| "enforcement_text CloudflareSandbox = ''cloudflare-sandbox''"
| "enforcement_text CustomerEgressProxy = ''customer-egress-proxy''"

datatype RunnerSecretUse = SecretBrokered | SecretNone | SecretUnverified

record RunnerPlatform =
  pf_operatingSystem :: string
  pf_architecture :: string
  pf_isolation :: string

record RunnerProfile =
  rp_id :: string
  rp_realmId :: string
  rp_provider :: string
  rp_publicKey :: string
  rp_platform :: RunnerPlatform
  rp_capabilities :: "string list"
  rp_networkDestinations :: "string list"
  rp_networkEnforcement :: RunnerNetworkEnforcement
  rp_networkBoundaryReceipt :: string
  rp_secretUse :: RunnerSecretUse
  rp_canUploadArtifacts :: bool
  rp_canUploadEvidence :: bool
  rp_status :: RunnerStatus

text \<open>\<open>RunnerJobState\<close> and \<open>RunnerAttemptState\<close> are the same union.\<close>

datatype RunnerJobState =
    StQueued | StOffered | StClaimed | StRunning | StCancelRequested
  | StSucceeded | StFailed | StIndeterminate | StCancelled | StExpired | StQuarantined

fun state_text :: "RunnerJobState \<Rightarrow> string" where
  "state_text StQueued = ''queued''"
| "state_text StOffered = ''offered''"
| "state_text StClaimed = ''claimed''"
| "state_text StRunning = ''running''"
| "state_text StCancelRequested = ''cancel-requested''"
| "state_text StSucceeded = ''succeeded''"
| "state_text StFailed = ''failed''"
| "state_text StIndeterminate = ''indeterminate''"
| "state_text StCancelled = ''cancelled''"
| "state_text StExpired = ''expired''"
| "state_text StQuarantined = ''quarantined''"

type_synonym RunnerAttemptState = RunnerJobState

record RunnerOutputLocations =
  ol_logs :: string
  ol_artifacts :: string
  ol_evidence :: string

text \<open>The part of a Job that is fixed when it is enqueued, and the part the protocol changes.\<close>

record RunnerJobManifest =
  rj_id :: string
  rj_projectId :: string
  rj_runId :: string
  rj_actionId :: string
  rj_actionContractDigest :: string
  rj_artifactOutputContract :: "ActionArtifactOutputContract option"
  rj_verifierId :: "string option"
  rj_verifierContractDigest :: "string option"
  rj_projectRevisionId :: string
  rj_projectViewId :: string
  rj_sourceSpaceSnapshots :: "(string, string) jsmap"
  rj_changeRevisionId :: "string option"
  rj_workspaceId :: "string option"
  rj_targetId :: "string option"
  rj_inputManifestDigest :: string
  rj_inputDigests :: "string list"
  rj_outputPaths :: "string list"
  rj_effectDigests :: "string list"
  rj_dependencyDigest :: string
  rj_toolchainDigest :: string
  rj_environmentDigest :: string
  rj_policyVersion :: string
  rj_authorizationEpoch :: string
  rj_capabilityGrantId :: string
  rj_actor :: ActorRef
  rj_disclosure :: DisclosurePolicyRef
  rj_runnerRequirements :: "string list"
  rj_networkDestinations :: "string list"
  rj_secretUseAliases :: "string list"
  rj_outputLocations :: RunnerOutputLocations
  rj_idempotencyKey :: string
  rj_createdAt :: int

record RunnerJob = RunnerJobManifest +
  rj_networkEnforcement :: "RunnerNetworkEnforcement option"
  rj_networkBoundaryReceipt :: "string option"
  rj_state :: RunnerJobState
  rj_attemptIds :: "string list"
  rj_currentAttemptId :: string
  rj_currentRunnerId :: "string option"

record RunnerAttempt =
  rt_id :: string
  rt_jobId :: string
  rt_runId :: string
  rt_runnerId :: "string option"
  rt_state :: RunnerAttemptState
  rt_leaseExpiresAt :: Timestamp
  rt_challengeDigest :: "string option"
  rt_jobCredentialDigest :: "string option"
  rt_claimedAt :: "int option"
  rt_lastHeartbeatAt :: "int option"
  rt_completedAt :: "int option"
  rt_resultDigest :: "string option"

datatype RunStatus = RunQueued | RunRunning | RunSucceeded | RunFailed | RunIndeterminate

record Run =
  run_id :: string
  run_actionId :: string
  run_projectRevisionId :: string
  run_projectViewId :: string
  run_runnerId :: string
  run_attemptId :: "string option"
  run_verifierId :: "string option"
  run_actionContractDigest :: "string option"
  run_artifactOutputContract :: "ActionArtifactOutputContract option"
  run_verifierContractDigest :: "string option"
  run_status :: RunStatus
  run_outputDigest :: "string option"
  run_changeRevisionId :: "string option"
  run_workspaceId :: "string option"
  run_inputDigests :: "string list option"
  run_outputDigests :: "string list option"
  run_effectDigests :: "string list option"
  run_dependencyDigest :: "string option"
  run_toolchainDigest :: "string option"
  run_environmentDigest :: "string option"
  run_policyVersion :: "string option"
  run_targetId :: "string option"
  run_actor :: "ActorRef option"
  run_capabilityGrantId :: "string option"
  run_exitCode :: "int option"
  run_stdoutDigest :: "string option"
  run_stderrDigest :: "string option"

record RunnerOutputReference =
  ro_id :: string
  ro_kind :: RunnerOutputKind
  ro_runId :: string
  ro_attemptId :: string
  ro_location :: string
  ro_outputPath :: "string option"
  ro_digest :: string
  ro_disclosure :: DisclosurePolicyRef
  ro_receipt :: string

record RunnerEvent =
  rv_sequence :: nat
  rv_type :: string
  rv_runnerId :: "string option"
  rv_jobId :: "string option"
  rv_attemptId :: "string option"
  rv_runId :: "string option"
  rv_actor :: "ActorRef option"
  rv_from :: "RunnerJobState option"
  rv_to :: "RunnerJobState option"

section \<open>Actions and the requests of the protocol\<close>

record Action =
  act_id :: string
  act_moduleId :: string
  act_moduleRoot :: string
  act_dependencyIds :: "string list"
  act_command :: string
  act_inputGlobs :: "string list"
  act_outputPaths :: "string list"
  act_artifactOutputContract :: "js_value option"
  act_network :: "string list"
  act_resources :: "(string, js_value) jsmap"
  act_contractDigest :: string

datatype VerifierDisclosure = DiscloseFull | DiscloseResultOnly

record Verifier =
  ver_id :: string
  ver_actionId :: string
  ver_disclosure :: VerifierDisclosure
  ver_requiredFor :: "string list"
  ver_contractDigest :: string

record NormalizedActionInput =
  nai_action :: Action
  nai_verifier :: "Verifier option"
  nai_projectRevisionId :: string
  nai_projectViewId :: string
  nai_sourceSpaceSnapshots :: "(string, string) jsmap"
  nai_changeRevisionId :: "string option"
  nai_workspaceId :: "string option"
  nai_inputDigests :: "string list"
  nai_effectDigests :: "string list"
  nai_dependencyDigest :: string
  nai_toolchainDigest :: string
  nai_environmentDigest :: string
  nai_policyVersion :: string
  nai_authorizationEpoch :: string
  nai_targetId :: "string option"
  nai_targetDeploymentProfileDigest :: "string option"
  nai_disclosure :: DisclosurePolicyRef
  nai_actor :: ActorRef
  nai_capabilityGrantId :: string
  nai_runnerId :: string

record NormalizedActionOutput =
  nao_status :: ResultStatus
  nao_exitCode :: "int option"
  nao_inputDigests :: "string list"
  nao_outputDigests :: "string list"
  nao_outputDigest :: string
  nao_stdoutDigest :: string
  nao_stderrDigest :: string

record RunnerEnrollmentInput =
  re_id :: string
  re_provider :: string
  re_publicKey :: string
  re_platform :: RunnerPlatform
  re_capabilities :: "string list"
  re_networkDestinations :: "string list"
  re_networkEnforcement :: RunnerNetworkEnforcement
  re_networkBoundaryReceipt :: string
  re_secretUse :: RunnerSecretUse
  re_canUploadArtifacts :: bool
  re_canUploadEvidence :: bool
  re_approvedBy :: ActorRef
  re_enrollmentReceipt :: string

record ExternalRunRequest =
  xr_idempotencyKey :: string
  xr_runId :: "string option"
  xr_actionInput :: NormalizedActionInput
  xr_runnerRequirements :: "string list"
  xr_secretUseAliases :: "string list option"
  xr_outputLocations :: RunnerOutputLocations
  xr_leaseExpiresAt :: Timestamp

record RunnerJobCredential =
  jc_id :: string
  jc_audience :: string
  jc_jobId :: string
  jc_attemptId :: string
  jc_runnerId :: string
  jc_expiresAt :: Timestamp
  jc_token :: string

record RunnerJobOffer =
  off_job :: RunnerJob
  off_attempt :: RunnerAttempt
  off_challenge :: string

record RunnerJobLease =
  ls_job :: RunnerJob
  ls_attempt :: RunnerAttempt
  ls_credential :: RunnerJobCredential

record RunnerOutputInput = SubmittedOutput +
  ri_id :: "string option"
  ri_location :: string
  ri_disclosure :: DisclosurePolicyRef
  ri_receipt :: string
  ri_runId :: "js_value option"
  ri_attemptId :: "js_value option"

text \<open>The context of a Result is whatever value the Runner sent.\<close>

record RunnerResult =
  rslt_status :: ResultStatus
  rslt_output :: NormalizedActionOutput
  rslt_outputs :: "RunnerOutputInput list"
  rslt_context :: js_value
  rslt_recoveryAction :: "string option"
  rslt_signature :: string

record RunnerCompletion =
  rcp_job :: RunnerJob
  rcp_attempt :: RunnerAttempt
  rcp_run :: Run
  rcp_outputs :: "RunnerOutputReference list"
  rcp_resultDigest :: "string option"

record SignedRunnerCompletion = RunnerCompletion +
  rcp_result :: RunnerResult
  rcp_runnerProfile :: RunnerProfile

datatype RunnerCancellationOutcome = CancelStopped | CancelForced | CancelUnknown

datatype RunnerErrorCode =
    RnInvalidInput | RnRunnerExists | RnRunnerNotFound | RnRunnerNotEligible | RnProofInvalid | RnRunnerState
  | RnJobNotFound | RnIdempotencyConflict | RnJobState | RnAttemptNotFound | RnAttemptMismatch | RnLeaseInvalid
  | RnLeaseExpired | RnLeaseNotExpired | RnCredentialInvalid | RnSignatureInvalid | RnResultReplay
  | RnInputMismatch | RnOutputInvalid | RnOutputScope | RnCancellationInvalid | RnRetryInvalid

record RunnerError =
  rn_code :: RunnerErrorCode
  rn_affectedObject :: string

definition runner_error :: "RunnerErrorCode \<Rightarrow> string \<Rightarrow> RunnerError" where
  "runner_error code affected = \<lparr>rn_code = code, rn_affectedObject = affected\<rparr>"

datatype JobCredentialStatus = JobCredentialActive | JobCredentialRevoked

record StoredCredential =
  sc_id :: string
  sc_digest :: string
  sc_jobId :: string
  sc_attemptId :: string
  sc_runnerId :: string
  sc_expiresAt :: Timestamp
  sc_status :: JobCredentialStatus

record StoredJob =
  sj_job :: RunnerJob
  sj_run :: Run
  sj_requestDigest :: string

section \<open>The values that are hashed and signed\<close>

definition string_array :: "string list \<Rightarrow> js_value" where
  "string_array xs = JArray (map JString xs)"

definition string_record :: "(string, string) jsmap \<Rightarrow> js_value" where
  "string_record m = JObject (map (\<lambda>(k, v). (k, JString v)) m)"

text \<open>An optional property: absent when it is \<open>undefined\<close>.\<close>

definition optional :: "string \<Rightarrow> js_value option \<Rightarrow> (string \<times> js_value) list" where
  "optional k v = (case v of None \<Rightarrow> [] | Some x \<Rightarrow> [(k, x)])"

definition actor_json :: "ActorRef \<Rightarrow> js_value" where
  "actor_json a = JObject [(''principalId'', JString (actor_principalId a)), (''actorId'', JString (actor_actorId a)),
     (''sessionId'', JString (actor_sessionId a)), (''clientId'', JString (actor_clientId a))]"

fun classification_text :: "DisclosureClassification \<Rightarrow> string" where
  "classification_text DPublic = ''public''"
| "classification_text DProject = ''project''"
| "classification_text DRestricted = ''restricted''"

definition disclosure_json :: "DisclosurePolicyRef \<Rightarrow> js_value" where
  "disclosure_json d = JObject [(''projectionId'', JString (disc_projectionId d)), (''classification'', JString (classification_text (disc_classification d)))]"

definition action_json :: "Action \<Rightarrow> js_value" where
  "action_json a = JObject ([(''protocol'', JString ''anyam.action/v1''), (''id'', JString (act_id a)), (''moduleId'', JString (act_moduleId a)),
     (''moduleRoot'', JString (act_moduleRoot a)), (''dependencyIds'', string_array (act_dependencyIds a)), (''command'', JString (act_command a)),
     (''inputGlobs'', string_array (act_inputGlobs a)), (''outputPaths'', string_array (act_outputPaths a))]
     @ optional ''artifactOutputContract'' (act_artifactOutputContract a)
     @ [(''network'', string_array (act_network a)), (''resources'', JObject (act_resources a)), (''contractDigest'', JString (act_contractDigest a))])"

definition verifier_json :: "Verifier \<Rightarrow> js_value" where
  "verifier_json v = JObject [(''protocol'', JString ''anyam.verifier/v1''), (''id'', JString (ver_id v)), (''actionId'', JString (ver_actionId v)),
     (''disclosure'', JString (case ver_disclosure v of DiscloseFull \<Rightarrow> ''full'' | DiscloseResultOnly \<Rightarrow> ''result-only'')),
     (''requiredFor'', string_array (ver_requiredFor v)), (''contractDigest'', JString (ver_contractDigest v))]"

definition action_input_json :: "NormalizedActionInput \<Rightarrow> js_value" where
  "action_input_json i = JObject ([(''action'', action_json (nai_action i))] @ optional ''verifier'' (map_option verifier_json (nai_verifier i))
     @ [(''projectRevisionId'', JString (nai_projectRevisionId i)), (''projectViewId'', JString (nai_projectViewId i)),
        (''sourceSpaceSnapshots'', string_record (nai_sourceSpaceSnapshots i))]
     @ optional ''changeRevisionId'' (map_option JString (nai_changeRevisionId i)) @ optional ''workspaceId'' (map_option JString (nai_workspaceId i))
     @ [(''inputDigests'', string_array (nai_inputDigests i)), (''effectDigests'', string_array (nai_effectDigests i)),
        (''dependencyDigest'', JString (nai_dependencyDigest i)), (''toolchainDigest'', JString (nai_toolchainDigest i)),
        (''environmentDigest'', JString (nai_environmentDigest i)), (''policyVersion'', JString (nai_policyVersion i)),
        (''authorizationEpoch'', JString (nai_authorizationEpoch i))]
     @ optional ''targetId'' (map_option JString (nai_targetId i))
     @ optional ''targetDeploymentProfileDigest'' (map_option JString (nai_targetDeploymentProfileDigest i))
     @ [(''disclosure'', disclosure_json (nai_disclosure i)), (''actor'', actor_json (nai_actor i)),
        (''capabilityGrantId'', JString (nai_capabilityGrantId i)), (''runnerId'', JString (nai_runnerId i))])"

definition locations_json :: "RunnerOutputLocations \<Rightarrow> js_value" where
  "locations_json l = JObject [(''logs'', JString (ol_logs l)), (''artifacts'', JString (ol_artifacts l)), (''evidence'', JString (ol_evidence l))]"

text \<open>A text is hashed as it is, any other value through its canonical text.\<close>

fun runner_digest :: "RunnerCrypto \<Rightarrow> js_value \<Rightarrow> string" where
  "runner_digest cr (JString t) = ''sha256:'' @ rx_sha256 cr t"
| "runner_digest cr v = ''sha256:'' @ rx_sha256 cr (stableJson v)"

definition manifest_json :: "NormalizedActionInput \<Rightarrow> string list \<Rightarrow> string list \<Rightarrow> RunnerOutputLocations \<Rightarrow> js_value" where
  "manifest_json input requirements aliases locations = JObject [(''actionInput'', action_input_json input),
     (''runnerRequirements'', string_array requirements), (''secretUseAliases'', string_array aliases), (''outputLocations'', locations_json locations)]"

definition runnerInputManifestDigest ::
  "RunnerCrypto \<Rightarrow> NormalizedActionInput \<Rightarrow> string list \<Rightarrow> string list \<Rightarrow> RunnerOutputLocations \<Rightarrow> string" where
  "runnerInputManifestDigest cr input requirements aliases locations = runner_digest cr (manifest_json input requirements aliases locations)"

definition claimMessage :: "string \<Rightarrow> string" where
  "claimMessage challenge = ''anyam.runner-claim/v1|'' @ challenge"

definition runnerResultContextClaims :: "RunnerJob \<Rightarrow> RunnerAttempt \<Rightarrow> (string \<times> js_value) list" where
  "runnerResultContextClaims job attempt =
     [(''protocol'', JString ''anyam.runner-result-context/v1''), (''replayId'', JString (rj_id job @ '':'' @ rt_id attempt)),
      (''jobId'', JString (rj_id job)), (''attemptId'', JString (rt_id attempt)),
      (''runnerId'', JString (nullish (rt_runnerId attempt) (nullish (rj_currentRunnerId job) ''runner:unassigned''))),
      (''leaseExpiresAt'', JString (ts_text (rt_leaseExpiresAt attempt))), (''inputManifestDigest'', JString (rj_inputManifestDigest job)),
      (''sourceSpaceSnapshots'', string_record (rj_sourceSpaceSnapshots job)), (''actionId'', JString (rj_actionId job)),
      (''actionContractDigest'', JString (rj_actionContractDigest job))]
     @ optional ''artifactOutputContract'' (map_option contract_json (rj_artifactOutputContract job))
     @ optional ''verifierId'' (map_option JString (keep_truthy (rj_verifierId job)))
     @ optional ''verifierContractDigest'' (map_option JString (keep_truthy (rj_verifierContractDigest job)))
     @ [(''projectRevisionId'', JString (rj_projectRevisionId job)), (''projectViewId'', JString (rj_projectViewId job))]
     @ optional ''changeRevisionId'' (map_option JString (keep_truthy (rj_changeRevisionId job)))
     @ optional ''workspaceId'' (map_option JString (keep_truthy (rj_workspaceId job)))
     @ [(''policyVersion'', JString (rj_policyVersion job)), (''authorizationEpoch'', JString (rj_authorizationEpoch job)),
        (''capabilityGrantId'', JString (rj_capabilityGrantId job))]"

text \<open>The context is not issued before a claim has recorded the network boundary of the Runner.\<close>

definition runnerResultContext :: "RunnerJob \<Rightarrow> RunnerAttempt \<Rightarrow> RunnerError + js_value" where
  "runnerResultContext job attempt =
     (case (rj_networkEnforcement job, keep_truthy (rj_networkBoundaryReceipt job)) of
        (Some enforcement, Some boundary) \<Rightarrow> Inr (JObject (runnerResultContextClaims job attempt
          @ [(''networkEnforcement'', JString (enforcement_text enforcement)), (''networkBoundaryReceipt'', JString boundary)]))
      | _ \<Rightarrow> Inl (runner_error RnInputMismatch (rj_id job)))"

fun result_text :: "ResultStatus \<Rightarrow> string" where
  "result_text ResultSucceeded = ''succeeded''"
| "result_text ResultFailed = ''failed''"
| "result_text ResultIndeterminate = ''indeterminate''"

fun kind_text :: "RunnerOutputKind \<Rightarrow> string" where
  "kind_text OutputLog = ''log''"
| "kind_text OutputArtifact = ''artifact''"
| "kind_text OutputEvidence = ''evidence''"

definition output_json :: "NormalizedActionOutput \<Rightarrow> js_value" where
  "output_json out = JObject [(''status'', JString (result_text (nao_status out))),
     (''exitCode'', case nao_exitCode out of None \<Rightarrow> JUndefined | Some n \<Rightarrow> JNumber n), (''inputDigests'', string_array (nao_inputDigests out)),
     (''outputDigests'', string_array (nao_outputDigests out)), (''outputDigest'', JString (nao_outputDigest out)),
     (''stdoutDigest'', JString (nao_stdoutDigest out)), (''stderrDigest'', JString (nao_stderrDigest out))]"

definition output_input_json :: "RunnerOutputInput \<Rightarrow> js_value" where
  "output_input_json out = JObject ([(''kind'', JString (kind_text (so_kind out)))] @ optional ''id'' (map_option JString (ri_id out))
     @ [(''location'', JString (ri_location out))] @ optional ''outputPath'' (map_option JString (so_outputPath out))
     @ [(''digest'', JString (so_digest out)), (''disclosure'', disclosure_json (ri_disclosure out)), (''receipt'', JString (ri_receipt out))]
     @ optional ''runId'' (ri_runId out) @ optional ''attemptId'' (ri_attemptId out))"

definition message_json :: "js_value \<Rightarrow> RunnerResult \<Rightarrow> js_value" where
  "message_json context result = JObject [(''context'', context), (''status'', JString (result_text (rslt_status result))),
     (''output'', output_json (rslt_output result)), (''outputs'', JArray (map output_input_json (rslt_outputs result))),
     (''recoveryAction'', case keep_truthy (rslt_recoveryAction result) of None \<Rightarrow> JUndefined | Some t \<Rightarrow> JString t)]"

definition runnerResultMessage :: "js_value \<Rightarrow> RunnerResult \<Rightarrow> string" where
  "runnerResultMessage context result = ''anyam.runner-result/v1|'' @ stableJson (message_json context result)"

definition result_json :: "RunnerResult \<Rightarrow> js_value" where
  "result_json result = JObject ([(''status'', JString (result_text (rslt_status result))), (''output'', output_json (rslt_output result)),
     (''outputs'', JArray (map output_input_json (rslt_outputs result))), (''context'', rslt_context result)]
     @ optional ''recoveryAction'' (map_option JString (rslt_recoveryAction result)) @ [(''signature'', JString (rslt_signature result))])"

end
