(* ===== verification/Runner.thy ===== *)
theory Runner
  imports Runner_Contracts Mounts
begin

text \<open>
  \<open>ExternalRunnerCoordinator\<close> of \<open>src/src/execution/runner.ts\<close>: Runners enrol and are activated, a Job is
  enqueued with an immutable manifest, a matching Runner pulls it, proves its identity to claim it, keeps its
  lease with heartbeats, and submits a signed Result or the outcome of a cancellation; a lease can expire, a
  Runner can become unavailable or be quarantined, and a closed Job can be retried with a fresh Attempt.

  The maps of the class are the fields of \<open>RunnerCoordinator\<close>. The records in them are mutated in place; here
  they are written back under their id. A call reads the clock once, as \<open>now\<close>; random identifiers and secrets
  are arguments. The copies a method returns are the records themselves (\<open>parse_contract_json\<close> shows that
  copying a stored declaration does not change it).
\<close>

record RunnerCoordinator =
  rc_realmId :: string
  rc_projectId :: string
  rc_runners :: "(string, RunnerProfile) jsmap"
  rc_jobs :: "(string, StoredJob) jsmap"
  rc_attempts :: "(string, RunnerAttempt) jsmap"
  rc_offers :: "(string, string) jsmap"
  rc_credentials :: "(string, StoredCredential) jsmap"
  rc_outputs :: "(string, RunnerOutputReference list) jsmap"
  rc_idempotency :: "(string, string) jsmap"
  rc_retryIdempotency :: "(string, string) jsmap"
  rc_events :: "RunnerEvent list"

type_synonym 'a rn_outcome = "(RunnerCoordinator, RunnerError, 'a) outcome"

section \<open>Checks and helpers\<close>

definition require_text :: "string \<Rightarrow> string \<Rightarrow> RunnerError option" where
  "require_text value field = fail_if (blank value) (runner_error RnInvalidInput field)"

definition require_unique :: "string list \<Rightarrow> string \<Rightarrow> RunnerError option" where
  "require_unique xs field = fail_if (has_duplicates xs) (runner_error RnInvalidInput field)"

text \<open>\<open>Date.parse(x) <= Date.parse(now)\<close>, which is false when the text is not a time.\<close>

definition lease_over :: "Timestamp \<Rightarrow> int \<Rightarrow> bool" where
  "lease_over t now = (case ts_time t of None \<Rightarrow> False | Some n \<Rightarrow> n \<le> now)"

definition futureTimestamp :: "Timestamp \<Rightarrow> int \<Rightarrow> string \<Rightarrow> RunnerError option" where
  "futureTimestamp t now field = fail_if (ts_time t = None \<or> lease_over t now) (runner_error RnInvalidInput field)"

fun runner_disclosureRank :: "DisclosureClassification \<Rightarrow> nat" where
  "runner_disclosureRank DPublic = 0"
| "runner_disclosureRank DProject = 1"
| "runner_disclosureRank DRestricted = 2"

definition disclosureAllows :: "DisclosureClassification \<Rightarrow> DisclosureClassification \<Rightarrow> bool" where
  "disclosureAllows outer inner \<longleftrightarrow> runner_disclosureRank inner \<le> runner_disclosureRank outer"

definition pathFromDigest :: "string \<Rightarrow> string option" where
  "pathFromDigest v = (case split_last CHR ''='' v of Some (path, _) \<Rightarrow> if path \<noteq> [] then Some path else None | None \<Rightarrow> None)"

definition strip_slash :: "string \<Rightarrow> string" where
  "strip_slash s = (if s \<noteq> [] \<and> last s = CHR ''/'' then butlast s else s)"

definition locationWithin :: "string \<Rightarrow> string \<Rightarrow> bool" where
  "locationWithin location root \<longleftrightarrow> location = root \<or> startsWith location (strip_slash root @ ''/'')"

fun drive_location :: "string \<Rightarrow> bool" where
  "drive_location (a # b # c # s) = (ascii_letter a \<and> b = CHR '':'' \<and> c = CHR ''/'')"
| "drive_location s = False"

definition normal_location :: "string \<Rightarrow> string" where
  "normal_location value = rev (dropWhile (\<lambda>c. c = CHR ''/'') (rev (replaceChar CHR 0x5C CHR ''/'' value)))"

definition unsafe_location :: "string \<Rightarrow> bool" where
  "unsafe_location normalized \<longleftrightarrow> startsWith normalized ''/'' \<or> drive_location normalized
     \<or> list_ex (\<lambda>segment. segment = ''..'' \<or> segment = ''.'') (split_on CHR ''/'' normalized)"

definition safeLocation :: "string \<Rightarrow> string \<Rightarrow> RunnerErrorCode \<Rightarrow> RunnerError + string" where
  "safeLocation value field code =
     (case require_text value field of
        Some e \<Rightarrow> Inl e
      | None \<Rightarrow>
          if unsafe_location (normal_location value) \<or> normal_location value = [] then Inl (runner_error code field)
          else Inr (normal_location value))"

definition normalizeOutputLocations :: "RunnerOutputLocations \<Rightarrow> RunnerError + RunnerOutputLocations" where
  "normalizeOutputLocations l =
     sum_then (safeLocation (ol_logs l) ''outputLocations.logs'' RnInvalidInput) (\<lambda>logs.
     sum_then (safeLocation (ol_artifacts l) ''outputLocations.artifacts'' RnInvalidInput) (\<lambda>artifacts.
     sum_then (safeLocation (ol_evidence l) ''outputLocations.evidence'' RnInvalidInput) (\<lambda>evidence.
     Inr \<lparr>ol_logs = logs, ol_artifacts = artifacts, ol_evidence = evidence\<rparr>)))"

section \<open>State\<close>

definition set_runner :: "RunnerProfile \<Rightarrow> RunnerCoordinator \<Rightarrow> RunnerCoordinator" where
  "set_runner r s = s\<lparr>rc_runners := set_key (rp_id r) r (rc_runners s)\<rparr>"

definition set_stored :: "StoredJob \<Rightarrow> RunnerCoordinator \<Rightarrow> RunnerCoordinator" where
  "set_stored st s = s\<lparr>rc_jobs := set_key (rj_id (sj_job st)) st (rc_jobs s)\<rparr>"

definition set_attempt :: "RunnerAttempt \<Rightarrow> RunnerCoordinator \<Rightarrow> RunnerCoordinator" where
  "set_attempt a s = s\<lparr>rc_attempts := set_key (rt_id a) a (rc_attempts s)\<rparr>"

definition set_job_credential :: "StoredCredential \<Rightarrow> RunnerCoordinator \<Rightarrow> RunnerCoordinator" where
  "set_job_credential c s = s\<lparr>rc_credentials := set_key (sc_id c) c (rc_credentials s)\<rparr>"

definition runner_event :: "string \<Rightarrow> RunnerEvent" where
  "runner_event typ = \<lparr>rv_sequence = 0, rv_type = typ, rv_runnerId = None, rv_jobId = None, rv_attemptId = None,
     rv_runId = None, rv_actor = None, rv_from = None, rv_to = None\<rparr>"

definition runner_emit :: "RunnerEvent \<Rightarrow> RunnerCoordinator \<Rightarrow> RunnerCoordinator" where
  "runner_emit e s = s\<lparr>rc_events := rc_events s @ [e\<lparr>rv_sequence := length (rc_events s) + 1\<rparr>]\<rparr>"

text \<open>The event of a change of a Job.\<close>

definition job_event :: "string \<Rightarrow> string option \<Rightarrow> StoredJob \<Rightarrow> RunnerAttempt \<Rightarrow> ActorRef option \<Rightarrow> RunnerJobState option \<Rightarrow> RunnerJobState option \<Rightarrow> RunnerEvent" where
  "job_event typ runnerId st attempt actor frm to = (runner_event typ)\<lparr>rv_runnerId := runnerId, rv_jobId := Some (rj_id (sj_job st)),
     rv_attemptId := Some (rt_id attempt), rv_runId := Some (run_id (sj_run st)), rv_actor := actor, rv_from := frm, rv_to := to\<rparr>"

definition requireRunner :: "RunnerCoordinator \<Rightarrow> string \<Rightarrow> RunnerError + RunnerProfile" where
  "requireRunner s runnerId = (case get_key (rc_runners s) runnerId of None \<Rightarrow> Inl (runner_error RnRunnerNotFound runnerId) | Some r \<Rightarrow> Inr r)"

definition requireJob :: "RunnerCoordinator \<Rightarrow> string \<Rightarrow> RunnerError + StoredJob" where
  "requireJob s jobId = (case get_key (rc_jobs s) jobId of None \<Rightarrow> Inl (runner_error RnJobNotFound jobId) | Some st \<Rightarrow> Inr st)"

definition requireAttempt :: "RunnerCoordinator \<Rightarrow> string \<Rightarrow> RunnerError + RunnerAttempt" where
  "requireAttempt s attemptId = (case get_key (rc_attempts s) attemptId of None \<Rightarrow> Inl (runner_error RnAttemptNotFound attemptId) | Some a \<Rightarrow> Inr a)"

definition new_runner_coordinator :: "string \<Rightarrow> string \<Rightarrow> RunnerError + RunnerCoordinator" where
  "new_runner_coordinator realmId projectId =
     (case or_else (require_text realmId ''realmId'') (require_text projectId ''projectId'') of
        Some e \<Rightarrow> Inl e
      | None \<Rightarrow> Inr \<lparr>rc_realmId = realmId, rc_projectId = projectId, rc_runners = [], rc_jobs = [], rc_attempts = [], rc_offers = [],
          rc_credentials = [], rc_outputs = [], rc_idempotency = [], rc_retryIdempotency = [], rc_events = []\<rparr>)"

section \<open>Runners\<close>

definition enroll_error :: "RunnerCrypto \<Rightarrow> RunnerEnrollmentInput \<Rightarrow> RunnerCoordinator \<Rightarrow> RunnerError option" where
  "enroll_error cr input s =
     or_else (require_text (re_id input) ''runner.id'')
     (or_else (require_text (re_provider input) ''runner.provider'')
     (or_else (require_text (re_publicKey input) ''runner.publicKey'')
     (or_else (require_text (re_enrollmentReceipt input) ''runner.enrollmentReceipt'')
     (or_else (fail_if (\<not> rx_parses cr (re_publicKey input)) (runner_error RnInvalidInput (re_id input)))
     (or_else (fail_if (has_key (rc_runners s) (re_id input)) (runner_error RnRunnerExists (re_id input)))
     (or_else (require_unique (re_capabilities input) ''runner.capabilities'')
     (or_else (require_unique (re_networkDestinations input) ''runner.networkDestinations'')
     (or_else (fail_if (\<not> includesSub (re_networkBoundaryReceipt input) (''networkEnforcement='' @ enforcement_text (re_networkEnforcement input)))
                 (runner_error RnInvalidInput (re_id input)))
     (or_else (fail_if (re_networkDestinations input = [] \<and> re_networkEnforcement input \<noteq> DenyAll) (runner_error RnInvalidInput (re_id input)))
       (fail_if (re_networkDestinations input \<noteq> [] \<and> re_networkEnforcement input = DenyAll) (runner_error RnInvalidInput (re_id input))))))))))))"

definition new_profile :: "RunnerEnrollmentInput \<Rightarrow> RunnerCoordinator \<Rightarrow> RunnerProfile" where
  "new_profile input s = \<lparr>rp_id = re_id input, rp_realmId = rc_realmId s, rp_provider = re_provider input, rp_publicKey = re_publicKey input,
     rp_platform = re_platform input, rp_capabilities = re_capabilities input, rp_networkDestinations = re_networkDestinations input,
     rp_networkEnforcement = re_networkEnforcement input, rp_networkBoundaryReceipt = re_networkBoundaryReceipt input,
     rp_secretUse = re_secretUse input, rp_canUploadArtifacts = re_canUploadArtifacts input, rp_canUploadEvidence = re_canUploadEvidence input,
     rp_status = RunnerEnrolled\<rparr>"

definition enrollRunner :: "RunnerCrypto \<Rightarrow> RunnerEnrollmentInput \<Rightarrow> RunnerCoordinator \<Rightarrow> RunnerProfile rn_outcome" where
  "enrollRunner cr input s =
     (case enroll_error cr input s of
        Some e \<Rightarrow> raise e s
      | None \<Rightarrow>
          let profile = new_profile input s
          in return profile (runner_emit ((runner_event ''runner.enrolled'')\<lparr>rv_runnerId := Some (rp_id profile), rv_actor := Some (re_approvedBy input)\<rparr>)
               (set_runner profile s)))"

text \<open>The assignment of a status with its event, the same in four methods.\<close>

definition change_runner :: "RunnerStatus \<Rightarrow> string \<Rightarrow> ActorRef \<Rightarrow> RunnerProfile \<Rightarrow> RunnerCoordinator \<Rightarrow> RunnerCoordinator" where
  "change_runner status typ actor runner s =
     runner_emit ((runner_event typ)\<lparr>rv_runnerId := Some (rp_id runner), rv_actor := Some actor\<rparr>) (set_runner (runner\<lparr>rp_status := status\<rparr>) s)"

definition activateRunner :: "string \<Rightarrow> ActorRef \<Rightarrow> RunnerCoordinator \<Rightarrow> RunnerProfile rn_outcome" where
  "activateRunner runnerId actor s =
     (case requireRunner s runnerId of
        Inl e \<Rightarrow> raise e s
      | Inr runner \<Rightarrow>
          if rp_status runner \<noteq> RunnerEnrolled \<and> rp_status runner \<noteq> RunnerUnavailable then raise (runner_error RnRunnerState (rp_id runner)) s
          else return (runner\<lparr>rp_status := RunnerActive\<rparr>) (change_runner RunnerActive ''runner.activated'' actor runner s))"

definition disableRunner :: "string \<Rightarrow> ActorRef \<Rightarrow> string \<Rightarrow> RunnerCoordinator \<Rightarrow> RunnerProfile rn_outcome" where
  "disableRunner runnerId actor reason s =
     (case require_text reason ''reason'' of
        Some e \<Rightarrow> raise e s
      | None \<Rightarrow>
          (case requireRunner s runnerId of
             Inl e \<Rightarrow> raise e s
           | Inr runner \<Rightarrow> return (runner\<lparr>rp_status := RunnerDisabled\<rparr>) (change_runner RunnerDisabled ''runner.disabled'' actor runner s)))"

section \<open>Jobs\<close>

type_synonym job_view = "RunnerJob \<times> Run \<times> RunnerAttempt"

definition view_job :: "RunnerCoordinator \<Rightarrow> StoredJob \<Rightarrow> RunnerError + job_view" where
  "view_job s st = sum_then (requireAttempt s (rj_currentAttemptId (sj_job st))) (\<lambda>attempt. Inr (sj_job st, sj_run st, attempt))"

definition parsed_contract :: "Action \<Rightarrow> RunnerError + ActionArtifactOutputContract option" where
  "parsed_contract action =
     (case act_artifactOutputContract action of
        None \<Rightarrow> Inr None
      | Some v \<Rightarrow>
          (case parseActionArtifactOutputContract v (Some (act_outputPaths action)) of
             Inl _ \<Rightarrow> Inl (runner_error RnInvalidInput (act_id action))
           | Inr contract \<Rightarrow> Inr (Some contract)))"

definition enqueue_error :: "int \<Rightarrow> ExternalRunRequest \<Rightarrow> string \<Rightarrow> RunnerError option" where
  "enqueue_error now input runId =
     (let action_input = xr_actionInput input in
      or_else (require_text (nai_projectRevisionId action_input) ''actionInput.projectRevisionId'')
      (or_else (require_text (nai_projectViewId action_input) ''actionInput.projectViewId'')
      (or_else (require_text (nai_capabilityGrantId action_input) ''actionInput.capabilityGrantId'')
      (or_else (require_text (nai_policyVersion action_input) ''actionInput.policyVersion'')
      (or_else (require_text (nai_authorizationEpoch action_input) ''actionInput.authorizationEpoch'')
      (or_else (futureTimestamp (xr_leaseExpiresAt input) now ''leaseExpiresAt'')
      (or_else (fail_if (list_ex blank (act_network (nai_action action_input))) (runner_error RnInvalidInput (act_id (nai_action action_input))))
      (or_else (require_unique (xr_runnerRequirements input) ''runnerRequirements'')
        (require_text runId ''runId'')))))))))"

definition new_run :: "NormalizedActionInput \<Rightarrow> ActionArtifactOutputContract option \<Rightarrow> string \<Rightarrow> string \<Rightarrow> Run" where
  "new_run i contract runId attemptId = \<lparr>run_id = runId, run_actionId = act_id (nai_action i), run_projectRevisionId = nai_projectRevisionId i,
     run_projectViewId = nai_projectViewId i, run_runnerId = ''runner:unassigned'', run_attemptId = Some attemptId,
     run_verifierId = map_option ver_id (nai_verifier i), run_actionContractDigest = Some (act_contractDigest (nai_action i)),
     run_artifactOutputContract = contract, run_verifierContractDigest = map_option ver_contractDigest (nai_verifier i), run_status = RunQueued,
     run_outputDigest = None, run_changeRevisionId = keep_truthy (nai_changeRevisionId i), run_workspaceId = keep_truthy (nai_workspaceId i),
     run_inputDigests = Some (nai_inputDigests i), run_outputDigests = None, run_effectDigests = Some (nai_effectDigests i),
     run_dependencyDigest = Some (nai_dependencyDigest i), run_toolchainDigest = Some (nai_toolchainDigest i),
     run_environmentDigest = Some (nai_environmentDigest i), run_policyVersion = Some (nai_policyVersion i), run_targetId = keep_truthy (nai_targetId i),
     run_actor = Some (nai_actor i), run_capabilityGrantId = Some (nai_capabilityGrantId i), run_exitCode = None, run_stdoutDigest = None, run_stderrDigest = None\<rparr>"

definition new_job :: "int \<Rightarrow> ExternalRunRequest \<Rightarrow> ActionArtifactOutputContract option \<Rightarrow> string list \<Rightarrow> RunnerOutputLocations \<Rightarrow> string
    \<Rightarrow> string \<Rightarrow> string \<Rightarrow> string \<Rightarrow> string \<Rightarrow> RunnerJob" where
  "new_job now input contract aliases locations requestDigest projectId jobId runId attemptId = (let i = xr_actionInput input in
     \<lparr>rj_id = jobId, rj_projectId = projectId, rj_runId = runId, rj_actionId = act_id (nai_action i), rj_actionContractDigest = act_contractDigest (nai_action i),
      rj_artifactOutputContract = contract, rj_verifierId = map_option ver_id (nai_verifier i),
      rj_verifierContractDigest = map_option ver_contractDigest (nai_verifier i), rj_projectRevisionId = nai_projectRevisionId i,
      rj_projectViewId = nai_projectViewId i, rj_sourceSpaceSnapshots = nai_sourceSpaceSnapshots i,
      rj_changeRevisionId = keep_truthy (nai_changeRevisionId i), rj_workspaceId = keep_truthy (nai_workspaceId i),
      rj_targetId = keep_truthy (nai_targetId i), rj_inputManifestDigest = requestDigest, rj_inputDigests = nai_inputDigests i,
      rj_outputPaths = act_outputPaths (nai_action i), rj_effectDigests = nai_effectDigests i, rj_dependencyDigest = nai_dependencyDigest i,
      rj_toolchainDigest = nai_toolchainDigest i, rj_environmentDigest = nai_environmentDigest i, rj_policyVersion = nai_policyVersion i,
      rj_authorizationEpoch = nai_authorizationEpoch i, rj_capabilityGrantId = nai_capabilityGrantId i, rj_actor = nai_actor i,
      rj_disclosure = nai_disclosure i, rj_runnerRequirements = xr_runnerRequirements input, rj_networkDestinations = act_network (nai_action i),
      rj_secretUseAliases = aliases, rj_outputLocations = locations, rj_idempotencyKey = xr_idempotencyKey input, rj_createdAt = now,
      rj_networkEnforcement = None, rj_networkBoundaryReceipt = None, rj_state = StQueued, rj_attemptIds = [attemptId],
      rj_currentAttemptId = attemptId, rj_currentRunnerId = None\<rparr>)"

definition new_attempt :: "string \<Rightarrow> string \<Rightarrow> string \<Rightarrow> Timestamp \<Rightarrow> RunnerAttempt" where
  "new_attempt attemptId jobId runId lease = \<lparr>rt_id = attemptId, rt_jobId = jobId, rt_runId = runId, rt_runnerId = None, rt_state = StQueued,
     rt_leaseExpiresAt = lease, rt_challengeDigest = None, rt_jobCredentialDigest = None, rt_claimedAt = None, rt_lastHeartbeatAt = None,
     rt_completedAt = None, rt_resultDigest = None\<rparr>"

text \<open>The writes of \<open>enqueue\<close>.\<close>

definition enqueue_commit :: "StoredJob \<Rightarrow> RunnerAttempt \<Rightarrow> RunnerCoordinator \<Rightarrow> RunnerCoordinator" where
  "enqueue_commit st attempt s =
     (let s1 = set_attempt attempt (set_stored st s);
          s2 = s1\<lparr>rc_idempotency := set_key (rj_idempotencyKey (sj_job st)) (rj_id (sj_job st)) (rc_idempotency s1)\<rparr>
      in runner_emit (job_event ''runner.job.queued'' None st attempt (Some (rj_actor (sj_job st))) None (Some StQueued)) s2)"

definition existing_job :: "RunnerCoordinator \<Rightarrow> string \<Rightarrow> string \<Rightarrow> string \<Rightarrow> RunnerError + job_view" where
  "existing_job s key jobId requestDigest =
     (case get_key (rc_jobs s) jobId of
        None \<Rightarrow> Inl (runner_error RnIdempotencyConflict key)
      | Some st \<Rightarrow> if sj_requestDigest st \<noteq> requestDigest then Inl (runner_error RnIdempotencyConflict key) else view_job s st)"

text \<open>What \<open>enqueue\<close> computes before it looks at the idempotency key.\<close>

definition enqueue_prepared :: "RunnerCrypto \<Rightarrow> ExternalRunRequest \<Rightarrow> RunnerError + (ActionArtifactOutputContract option \<times> string list \<times> RunnerOutputLocations \<times> string)" where
  "enqueue_prepared cr input =
     sum_then (checked (require_text (xr_idempotencyKey input) ''idempotencyKey'')) (\<lambda>_.
     let aliases = nullish (xr_secretUseAliases input) [] in
     sum_then (checked (require_unique aliases ''secretUseAliases'')) (\<lambda>_.
     sum_then (normalizeOutputLocations (xr_outputLocations input)) (\<lambda>locations.
     sum_then (parsed_contract (nai_action (xr_actionInput input))) (\<lambda>contract.
     Inr (contract, aliases, locations, runnerInputManifestDigest cr (xr_actionInput input) (xr_runnerRequirements input) aliases locations)))))"

definition enqueue :: "RunnerCrypto \<Rightarrow> (nat \<Rightarrow> string) \<Rightarrow> int \<Rightarrow> ExternalRunRequest \<Rightarrow> RunnerCoordinator \<Rightarrow> job_view rn_outcome" where
  "enqueue cr u now input s =
     (case enqueue_prepared cr input of
        Inl e \<Rightarrow> raise e s
      | Inr (contract, aliases, locations, requestDigest) \<Rightarrow>
          (case keep_truthy (get_key (rc_idempotency s) (xr_idempotencyKey input)) of
             Some existingId \<Rightarrow>
               (case existing_job s (xr_idempotencyKey input) existingId requestDigest of Inl e \<Rightarrow> raise e s | Inr v \<Rightarrow> return v s)
           | None \<Rightarrow>
               let runId = nullish (xr_runId input) (opaqueId ''run'' (u 0)) in
               (case enqueue_error now input runId of
                  Some e \<Rightarrow> raise e s
                | None \<Rightarrow>
                    let attemptId = opaqueId ''runner-attempt'' (u 1);
                        jobId = opaqueId ''runner-job'' (u 2);
                        job = new_job now input contract aliases locations requestDigest (rc_projectId s) jobId runId attemptId;
                        run = new_run (xr_actionInput input) contract runId attemptId;
                        st = \<lparr>sj_job = job, sj_run = run, sj_requestDigest = requestDigest\<rparr>;
                        attempt = new_attempt attemptId jobId runId (xr_leaseExpiresAt input)
                    in return (job, run, attempt) (enqueue_commit st attempt s))))"

section \<open>Offers and claims\<close>

definition runnerMatchesJob :: "RunnerProfile \<Rightarrow> RunnerJob \<Rightarrow> bool" where
  "runnerMatchesJob runner job \<longleftrightarrow> rp_status runner = RunnerActive
     \<and> list_all (\<lambda>required. required \<in> set (rp_capabilities runner)) (rj_runnerRequirements job)
     \<and> list_all (\<lambda>destination. destination \<in> set (rp_networkDestinations runner)) (rj_networkDestinations job)
     \<and> \<not> (rj_networkDestinations job = [] \<and> rp_networkEnforcement runner \<noteq> DenyAll)
     \<and> \<not> (rj_networkDestinations job \<noteq> [] \<and> rp_networkEnforcement runner = DenyAll)
     \<and> \<not> (rj_secretUseAliases job \<noteq> [] \<and> rp_secretUse runner \<noteq> SecretBrokered)
     \<and> \<not> (rj_outputPaths job \<noteq> [] \<and> \<not> rp_canUploadArtifacts runner)
     \<and> \<not> (truthy (rj_verifierId job) \<and> \<not> rp_canUploadEvidence runner)"

text \<open>The queued Jobs a Runner matches, oldest first and by id among those created at the same time.\<close>

definition pull_candidates :: "RunnerProfile \<Rightarrow> RunnerCoordinator \<Rightarrow> StoredJob list" where
  "pull_candidates runner s = sort_key (\<lambda>st. rj_createdAt (sj_job st)) (sort_key (\<lambda>st. rj_id (sj_job st))
     (filter (\<lambda>st. rj_state (sj_job st) = StQueued \<and> runnerMatchesJob runner (sj_job st)) (map_values (rc_jobs s))))"

definition offer :: "RunnerCrypto \<Rightarrow> string \<Rightarrow> RunnerProfile \<Rightarrow> StoredJob \<Rightarrow> RunnerAttempt \<Rightarrow> RunnerCoordinator \<Rightarrow> RunnerJobOffer \<times> RunnerCoordinator" where
  "offer cr challenge runner st attempt s =
     (let attempt' = attempt\<lparr>rt_challengeDigest := Some (runner_digest cr (JString challenge)), rt_state := StOffered\<rparr>;
          st' = st\<lparr>sj_job := (sj_job st)\<lparr>rj_state := StOffered, rj_currentRunnerId := Some (rp_id runner)\<rparr>\<rparr>;
          s1 = set_stored st' (set_attempt attempt' (s\<lparr>rc_offers := set_key (rt_id attempt) challenge (rc_offers s)\<rparr>))
      in (\<lparr>off_job = sj_job st', off_attempt = attempt', off_challenge = challenge\<rparr>,
          runner_emit (job_event ''runner.job.offered'' (Some (rp_id runner)) st' attempt' None None (Some StOffered)) s1))"

definition pull :: "RunnerCrypto \<Rightarrow> string \<Rightarrow> string \<Rightarrow> RunnerCoordinator \<Rightarrow> RunnerJobOffer option rn_outcome" where
  "pull cr challenge runnerId s =
     (case requireRunner s runnerId of
        Inl e \<Rightarrow> raise e s
      | Inr runner \<Rightarrow>
          if rp_status runner \<noteq> RunnerActive then raise (runner_error RnRunnerNotEligible (rp_id runner)) s
          else (case pull_candidates runner s of
              [] \<Rightarrow> return None s
            | st # _ \<Rightarrow>
                (case requireAttempt s (rj_currentAttemptId (sj_job st)) of
                   Inl e \<Rightarrow> raise e s
                 | Inr attempt \<Rightarrow>
                     if rt_state attempt \<noteq> StQueued then return None s
                     else let (off, s') = offer cr challenge runner st attempt s in return (Some off) s')))"

definition revokeAttemptCredentials :: "string \<Rightarrow> RunnerCoordinator \<Rightarrow> RunnerCoordinator" where
  "revokeAttemptCredentials attemptId s =
     s\<lparr>rc_credentials := map (\<lambda>(k, c). (k, if sc_attemptId c = attemptId then c\<lparr>sc_status := JobCredentialRevoked\<rparr> else c)) (rc_credentials s)\<rparr>"

definition closed_states :: "RunnerJobState list" where
  "closed_states = [StSucceeded, StFailed, StIndeterminate, StCancelled, StExpired, StQuarantined]"

text \<open>\<open>expire\<close> always throws; when the lease is over it has closed the Attempt before.\<close>

definition expire_commit :: "int \<Rightarrow> StoredJob \<Rightarrow> RunnerAttempt \<Rightarrow> RunnerCoordinator \<Rightarrow> RunnerCoordinator" where
  "expire_commit now st attempt s =
     (let s1 = revokeAttemptCredentials (rt_id attempt) s;
          attempt' = attempt\<lparr>rt_state := StExpired, rt_completedAt := Some now\<rparr>;
          st' = st\<lparr>sj_job := (sj_job st)\<lparr>rj_state := StExpired\<rparr>, sj_run := (sj_run st)\<lparr>run_status := RunIndeterminate\<rparr>\<rparr>
      in runner_emit (job_event ''runner.attempt.expired'' (keep_truthy (rt_runnerId attempt)) st' attempt' None (Some (rj_state (sj_job st))) (Some StExpired))
           (set_stored st' (set_attempt attempt' s1)))"

definition expire :: "int \<Rightarrow> string \<Rightarrow> RunnerCoordinator \<Rightarrow> 'a rn_outcome" where
  "expire now jobId s =
     (case requireJob s jobId of
        Inl e \<Rightarrow> raise e s
      | Inr st \<Rightarrow>
          (case requireAttempt s (rj_currentAttemptId (sj_job st)) of
             Inl e \<Rightarrow> raise e s
           | Inr attempt \<Rightarrow>
               if ts_time (rt_leaseExpiresAt attempt) \<noteq> None \<and> \<not> lease_over (rt_leaseExpiresAt attempt) now
               then raise (runner_error RnLeaseNotExpired (rt_id attempt)) s
               else if rt_state attempt \<in> set closed_states then raise (runner_error RnResultReplay (rt_id attempt)) s
               else raise (runner_error RnLeaseExpired (rt_id attempt)) (expire_commit now st attempt s)))"

record ClaimInput =
  cl_runnerId :: string
  cl_jobId :: string
  cl_attemptId :: string
  cl_challenge :: string
  cl_signature :: string

definition claim_error :: "RunnerProfile \<Rightarrow> StoredJob \<Rightarrow> RunnerAttempt \<Rightarrow> RunnerError option" where
  "claim_error runner st attempt =
     or_else (fail_if (rp_status runner \<noteq> RunnerActive) (runner_error RnRunnerNotEligible (rp_id runner)))
     (or_else (fail_if (rt_jobId attempt \<noteq> rj_id (sj_job st) \<or> rj_currentAttemptId (sj_job st) \<noteq> rt_id attempt) (runner_error RnAttemptMismatch (rt_id attempt)))
       (fail_if (rj_state (sj_job st) \<noteq> StOffered \<or> rt_state attempt \<noteq> StOffered) (runner_error RnJobState (rj_id (sj_job st)))))"

definition claim_proved :: "RunnerCrypto \<Rightarrow> ClaimInput \<Rightarrow> RunnerProfile \<Rightarrow> RunnerAttempt \<Rightarrow> RunnerCoordinator \<Rightarrow> bool" where
  "claim_proved cr input runner attempt s \<longleftrightarrow>
     (case keep_truthy (get_key (rc_offers s) (rt_id attempt)) of
        None \<Rightarrow> False
      | Some challenge \<Rightarrow> challenge = cl_challenge input \<and> rt_challengeDigest attempt = Some (runner_digest cr (JString (cl_challenge input)))
          \<and> rx_verifies cr (rp_publicKey runner) (claimMessage (cl_challenge input)) (cl_signature input))"

definition claim_commit :: "RunnerCrypto \<Rightarrow> string \<Rightarrow> string \<Rightarrow> int \<Rightarrow> RunnerProfile \<Rightarrow> StoredJob \<Rightarrow> RunnerAttempt \<Rightarrow> RunnerCoordinator
    \<Rightarrow> RunnerJobLease \<times> RunnerCoordinator" where
  "claim_commit cr credentialId token now runner st attempt s =
     (let credential = \<lparr>sc_id = credentialId, sc_digest = runner_digest cr (JString token), sc_jobId = rj_id (sj_job st), sc_attemptId = rt_id attempt,
            sc_runnerId = rp_id runner, sc_expiresAt = rt_leaseExpiresAt attempt, sc_status = JobCredentialActive\<rparr>;
          attempt' = attempt\<lparr>rt_runnerId := Some (rp_id runner), rt_state := StRunning, rt_claimedAt := Some now, rt_lastHeartbeatAt := Some now,
            rt_jobCredentialDigest := Some (sc_digest credential)\<rparr>;
          st' = st\<lparr>sj_job := (sj_job st)\<lparr>rj_state := StRunning, rj_currentRunnerId := Some (rp_id runner),
              rj_networkEnforcement := Some (rp_networkEnforcement runner), rj_networkBoundaryReceipt := Some (rp_networkBoundaryReceipt runner)\<rparr>,
            sj_run := (sj_run st)\<lparr>run_runnerId := rp_id runner, run_status := RunRunning\<rparr>\<rparr>;
          s1 = set_stored st' (set_attempt attempt' (set_job_credential credential s))
      in (\<lparr>ls_job = sj_job st', ls_attempt = attempt', ls_credential = \<lparr>jc_id = credentialId, jc_audience = ''runner-job'', jc_jobId = rj_id (sj_job st),
             jc_attemptId = rt_id attempt, jc_runnerId = rp_id runner, jc_expiresAt = rt_leaseExpiresAt attempt, jc_token = token\<rparr>\<rparr>,
          runner_emit (job_event ''runner.job.claimed'' (Some (rp_id runner)) st' attempt' None None (Some StRunning)) s1))"

definition claim :: "RunnerCrypto \<Rightarrow> string \<Rightarrow> string \<Rightarrow> int \<Rightarrow> ClaimInput \<Rightarrow> RunnerCoordinator \<Rightarrow> RunnerJobLease rn_outcome" where
  "claim cr uuid token now input s =
     (case sum_then (requireRunner s (cl_runnerId input)) (\<lambda>runner. sum_then (requireJob s (cl_jobId input)) (\<lambda>st.
           sum_then (requireAttempt s (cl_attemptId input)) (\<lambda>attempt. sum_then (checked (claim_error runner st attempt)) (\<lambda>_. Inr (runner, st, attempt))))) of
        Inl e \<Rightarrow> raise e s
      | Inr (runner, st, attempt) \<Rightarrow>
          if lease_over (rt_leaseExpiresAt attempt) now then expire now (cl_jobId input) s
          else if \<not> claim_proved cr input runner attempt s then raise (runner_error RnProofInvalid (rp_id runner)) s
          else let (lease, s') = claim_commit cr (opaqueId ''runner-job-credential'' uuid) token now runner st attempt s in return lease s')"

section \<open>The credential of an Attempt\<close>

definition find_credential :: "RunnerCrypto \<Rightarrow> RunnerJobCredential \<Rightarrow> RunnerCoordinator \<Rightarrow> StoredCredential option" where
  "find_credential cr token s =
     find (\<lambda>c. sc_id c = jc_id token \<and> sc_digest c = runner_digest cr (JString (jc_token token))) (map_values (rc_credentials s))"

definition authorizeCredential :: "RunnerCrypto \<Rightarrow> int \<Rightarrow> RunnerJobCredential \<Rightarrow> RunnerCoordinator
    \<Rightarrow> (StoredJob \<times> RunnerAttempt \<times> StoredCredential) rn_outcome" where
  "authorizeCredential cr now token s =
     (if jc_audience token \<noteq> ''runner-job'' then raise (runner_error RnCredentialInvalid (jc_id token)) s
      else case find_credential cr token s of
          None \<Rightarrow> raise (runner_error RnCredentialInvalid (jc_id token)) s
        | Some credential \<Rightarrow>
            if sc_status credential \<noteq> JobCredentialActive then raise (runner_error RnCredentialInvalid (jc_id token)) s
            else if sc_jobId credential \<noteq> jc_jobId token \<or> sc_attemptId credential \<noteq> jc_attemptId token \<or> sc_runnerId credential \<noteq> jc_runnerId token
              then raise (runner_error RnLeaseInvalid (jc_id token)) s
            else if lease_over (sc_expiresAt credential) now
              then raise (runner_error RnLeaseExpired (jc_id token)) (set_job_credential (credential\<lparr>sc_status := JobCredentialRevoked\<rparr>) s)
            else case sum_then (requireJob s (sc_jobId credential)) (\<lambda>st. sum_then (requireAttempt s (sc_attemptId credential)) (\<lambda>attempt. Inr (st, attempt))) of
                Inl e \<Rightarrow> raise e s
              | Inr (st, attempt) \<Rightarrow>
                  if rt_runnerId attempt \<noteq> Some (sc_runnerId credential) \<or> rj_currentAttemptId (sj_job st) \<noteq> rt_id attempt
                  then raise (runner_error RnLeaseInvalid (jc_id token)) s
                  else return (st, attempt, credential) s)"

definition heartbeat :: "RunnerCrypto \<Rightarrow> int \<Rightarrow> RunnerJobCredential \<Rightarrow> RunnerCoordinator \<Rightarrow> RunnerAttempt rn_outcome" where
  "heartbeat cr now token s =
     and_then (authorizeCredential cr now token s) (\<lambda>(st, attempt, credential) s.
       if rj_state (sj_job st) \<noteq> StRunning \<and> rj_state (sj_job st) \<noteq> StCancelRequested then raise (runner_error RnJobState (rj_id (sj_job st))) s
       else let attempt' = attempt\<lparr>rt_lastHeartbeatAt := Some now\<rparr>
            in return attempt' (runner_emit (job_event ''runner.attempt.heartbeat'' (Some (sc_runnerId credential)) st attempt' None None None) (set_attempt attempt' s)))"

section \<open>Closing an Attempt\<close>

definition completed_run :: "string \<Rightarrow> RunStatus \<Rightarrow> string \<Rightarrow> NormalizedActionOutput option \<Rightarrow> Run \<Rightarrow> Run" where
  "completed_run runnerId status resultDigest normalized run =
     (let run1 = run\<lparr>run_runnerId := runnerId, run_status := status,
            run_outputDigest := Some (case normalized of None \<Rightarrow> resultDigest | Some out \<Rightarrow> nao_outputDigest out)\<rparr>
      in case normalized of
           None \<Rightarrow> run1
         | Some out \<Rightarrow> run1\<lparr>run_inputDigests := Some (nao_inputDigests out), run_outputDigests := Some (nao_outputDigests out),
             run_exitCode := (case nao_exitCode out of None \<Rightarrow> run_exitCode run1 | Some n \<Rightarrow> Some n),
             run_stdoutDigest := Some (nao_stdoutDigest out), run_stderrDigest := Some (nao_stderrDigest out)\<rparr>)"

definition completed_attempt :: "int \<Rightarrow> RunnerAttemptState \<Rightarrow> string \<Rightarrow> RunnerAttempt \<Rightarrow> RunnerAttempt" where
  "completed_attempt now state resultDigest attempt = attempt\<lparr>rt_state := state, rt_completedAt := Some now, rt_resultDigest := Some resultDigest\<rparr>"

definition completed_job :: "RunnerJobState \<Rightarrow> Run \<Rightarrow> StoredJob \<Rightarrow> StoredJob" where
  "completed_job state run st = st\<lparr>sj_job := (sj_job st)\<lparr>rj_state := state\<rparr>, sj_run := run\<rparr>"

definition completeAttempt :: "int \<Rightarrow> StoredJob \<Rightarrow> RunnerAttempt \<Rightarrow> string \<Rightarrow> RunnerJobState \<Rightarrow> RunnerAttemptState \<Rightarrow> RunStatus \<Rightarrow> string
    \<Rightarrow> NormalizedActionOutput option \<Rightarrow> RunnerCoordinator \<Rightarrow> RunnerCoordinator" where
  "completeAttempt now st attempt runnerId jobState attemptState runStatus resultDigest normalized s =
     (let s1 = revokeAttemptCredentials (rt_id attempt) s;
          attempt' = completed_attempt now attemptState resultDigest attempt;
          st' = completed_job jobState (completed_run runnerId runStatus resultDigest normalized (sj_run st)) st
      in runner_emit (job_event (''runner.job.'' @ state_text jobState) (Some runnerId) st' attempt' None (Some (rj_state (sj_job st))) (Some jobState))
           (set_stored st' (set_attempt attempt' s1)))"

text \<open>The completion handed out after the writes, read back from the state.\<close>

definition completion :: "RunnerCoordinator \<Rightarrow> string \<Rightarrow> string \<Rightarrow> RunnerError + RunnerCompletion" where
  "completion s jobId attemptId =
     sum_then (requireJob s jobId) (\<lambda>st. sum_then (requireAttempt s attemptId) (\<lambda>attempt.
       Inr \<lparr>rcp_job = sj_job st, rcp_attempt = attempt, rcp_run = sj_run st, rcp_outputs = nullish (get_key (rc_outputs s) attemptId) [],
            rcp_resultDigest = rt_resultDigest attempt\<rparr>))"

definition requestCancellation :: "string \<Rightarrow> ActorRef \<Rightarrow> string \<Rightarrow> RunnerCoordinator \<Rightarrow> RunnerJob rn_outcome" where
  "requestCancellation jobId actor reason s =
     (case sum_then (checked (require_text reason ''reason'')) (\<lambda>_. sum_then (requireJob s jobId) (\<lambda>st.
           sum_then (requireAttempt s (rj_currentAttemptId (sj_job st))) (\<lambda>attempt. Inr (st, attempt)))) of
        Inl e \<Rightarrow> raise e s
      | Inr (st, attempt) \<Rightarrow>
          if rj_state (sj_job st) \<notin> set [StRunning, StOffered, StClaimed] then raise (runner_error RnCancellationInvalid (rj_id (sj_job st))) s
          else let attempt' = attempt\<lparr>rt_state := StCancelRequested\<rparr>;
                   st' = st\<lparr>sj_job := (sj_job st)\<lparr>rj_state := StCancelRequested\<rparr>\<rparr>
               in return (sj_job st') (runner_emit (job_event ''runner.job.cancel-requested'' (keep_truthy (rt_runnerId attempt)) st' attempt' (Some actor)
                    (Some (rj_state (sj_job st))) (Some StCancelRequested)) (set_stored st' (set_attempt attempt' s))))"

fun cancellation_outcome_text :: "RunnerCancellationOutcome \<Rightarrow> string" where
  "cancellation_outcome_text CancelStopped = ''stopped''"
| "cancellation_outcome_text CancelForced = ''forced''"
| "cancellation_outcome_text CancelUnknown = ''unknown''"

definition cancelled_state :: "RunnerCancellationOutcome \<Rightarrow> RunnerJobState" where
  "cancelled_state out = (if out = CancelUnknown then StQuarantined else StCancelled)"

definition cancellation_digest :: "RunnerCrypto \<Rightarrow> RunnerCancellationOutcome \<Rightarrow> string \<Rightarrow> string" where
  "cancellation_digest cr out receipt = runner_digest cr (JObject [(''outcome'', JString (cancellation_outcome_text out)), (''receipt'', JString receipt)])"

definition finalizeCancellation :: "RunnerCrypto \<Rightarrow> int \<Rightarrow> RunnerJobCredential \<Rightarrow> RunnerCancellationOutcome \<Rightarrow> string \<Rightarrow> RunnerCoordinator
    \<Rightarrow> RunnerCompletion rn_outcome" where
  "finalizeCancellation cr now token out receipt s =
     (case require_text receipt ''receipt'' of
        Some e \<Rightarrow> raise e s
      | None \<Rightarrow>
          and_then (authorizeCredential cr now token s) (\<lambda>(st, attempt, credential) s.
            if rj_state (sj_job st) \<noteq> StCancelRequested \<or> rt_state attempt \<noteq> StCancelRequested then raise (runner_error RnCancellationInvalid (rj_id (sj_job st))) s
            else let s' = completeAttempt now st attempt (sc_runnerId credential) (cancelled_state out) (cancelled_state out) RunIndeterminate
                       (cancellation_digest cr out receipt) None s
                 in case completion s' (rj_id (sj_job st)) (rt_id attempt) of Inl e \<Rightarrow> raise e s' | Inr c \<Rightarrow> return c s'))"

section \<open>Results\<close>

definition expected_location :: "RunnerJob \<Rightarrow> RunnerOutputKind \<Rightarrow> string" where
  "expected_location job kind = (case kind of OutputLog \<Rightarrow> ol_logs (rj_outputLocations job)
     | OutputArtifact \<Rightarrow> ol_artifacts (rj_outputLocations job) | OutputEvidence \<Rightarrow> ol_evidence (rj_outputLocations job))"

definition output_error :: "RunnerJob \<Rightarrow> RunnerAttempt \<Rightarrow> RunnerOutputInput \<Rightarrow> RunnerError option" where
  "output_error job attempt out =
     (case safeLocation (ri_location out) ''runnerOutput.location'' RnOutputScope of
        Inl e \<Rightarrow> Some e
      | Inr location \<Rightarrow>
          or_else (require_text (so_digest out) ''runnerOutput.digest'')
          (or_else (require_text (ri_receipt out) ''runnerOutput.receipt'')
          (or_else (fail_if (ri_runId out \<noteq> None \<or> ri_attemptId out \<noteq> None) (runner_error RnOutputInvalid (rj_id job)))
          (or_else (fail_if (\<not> locationWithin location (expected_location job (so_kind out))) (runner_error RnOutputScope (rj_id job)))
          (or_else (fail_if (\<not> disclosureAllows (disc_classification (rj_disclosure job)) (disc_classification (ri_disclosure out)))
                      (runner_error RnOutputScope (rj_id job)))
            (fail_if (so_kind out = OutputArtifact \<and> \<not> includesSub location (rt_id attempt)) (runner_error RnOutputScope (rj_id job))))))))"

definition validateOutput :: "RunnerJob \<Rightarrow> RunnerAttempt \<Rightarrow> RunnerResult \<Rightarrow> RunnerError option" where
  "validateOutput job attempt result =
     (case validateActionArtifactOutputs (rj_artifactOutputContract job) (rj_outputPaths job) (rslt_status result)
             (nao_outputDigests (rslt_output result)) (rslt_outputs result) of
        Some _ \<Rightarrow> Some (runner_error RnOutputInvalid (rj_id job))
      | None \<Rightarrow>
          let expectedPaths = uniq (rj_outputPaths job);
              receivedPaths = map pathFromDigest (nao_outputDigests (rslt_output result))
          in or_else (fail_if (nao_status (rslt_output result) \<noteq> rslt_status result) (runner_error RnOutputInvalid (rj_id job)))
             (or_else (fail_if (list_ex (\<lambda>path. path \<notin> Some ` set expectedPaths) receivedPaths) (runner_error RnOutputInvalid (rj_id job)))
             (or_else (fail_if (has_duplicates receivedPaths \<or> rslt_status result = ResultSucceeded \<and> length receivedPaths \<noteq> length expectedPaths)
                         (runner_error RnOutputInvalid (rj_id job)))
               (check_loop (output_error job attempt) (rslt_outputs result)))))"

fun job_state_of :: "ResultStatus \<Rightarrow> RunnerJobState" where
  "job_state_of ResultSucceeded = StSucceeded"
| "job_state_of ResultFailed = StFailed"
| "job_state_of ResultIndeterminate = StIndeterminate"

fun run_status_of :: "ResultStatus \<Rightarrow> RunStatus" where
  "run_status_of ResultSucceeded = RunSucceeded"
| "run_status_of ResultFailed = RunFailed"
| "run_status_of ResultIndeterminate = RunIndeterminate"

text \<open>The stored references; an output without an id draws one.\<close>

definition output_reference :: "string \<Rightarrow> StoredJob \<Rightarrow> RunnerAttempt \<Rightarrow> RunnerOutputInput \<Rightarrow> RunnerError + RunnerOutputReference" where
  "output_reference uuid st attempt out =
     sum_then (safeLocation (ri_location out) ''runnerOutput.location'' RnOutputScope) (\<lambda>location.
       Inr \<lparr>ro_id = nullish (ri_id out) (opaqueId ''runner-output'' uuid), ro_kind = so_kind out, ro_runId = run_id (sj_run st),
            ro_attemptId = rt_id attempt, ro_location = location, ro_outputPath = so_outputPath out, ro_digest = so_digest out,
            ro_disclosure = ri_disclosure out, ro_receipt = ri_receipt out\<rparr>)"

fun output_references :: "(nat \<Rightarrow> string) \<Rightarrow> nat \<Rightarrow> StoredJob \<Rightarrow> RunnerAttempt \<Rightarrow> RunnerOutputInput list \<Rightarrow> RunnerError + RunnerOutputReference list" where
  "output_references u n st attempt [] = Inr []"
| "output_references u n st attempt (out # outs) =
     sum_then (output_reference (u n) st attempt out) (\<lambda>ref. sum_then (output_references u (Suc n) st attempt outs) (\<lambda>refs. Inr (ref # refs)))"

definition result_digest :: "RunnerCrypto \<Rightarrow> StoredJob \<Rightarrow> RunnerAttempt \<Rightarrow> RunnerResult \<Rightarrow> string" where
  "result_digest cr st attempt result = runner_digest cr (JObject [(''jobId'', JString (rj_id (sj_job st))), (''attemptId'', JString (rt_id attempt)),
     (''result'', result_json result)])"

definition submit_state_error :: "StoredJob \<Rightarrow> RunnerError option" where
  "submit_state_error st =
     (let state = rj_state (sj_job st); jobId = rj_id (sj_job st) in
      if state \<noteq> StRunning \<and> state \<noteq> StCancelRequested
      then Some (runner_error (if state \<in> set closed_states then RnResultReplay else RnJobState) jobId)
      else fail_if (state = StCancelRequested) (runner_error RnCancellationInvalid jobId))"

text \<open>The checks of a Result: the issued context, the signature over it, the inputs, the outputs.\<close>

definition result_error :: "RunnerCrypto \<Rightarrow> StoredJob \<Rightarrow> RunnerAttempt \<Rightarrow> StoredCredential \<Rightarrow> RunnerResult \<Rightarrow> RunnerCoordinator \<Rightarrow> RunnerError option" where
  "result_error cr st attempt credential result s =
     (case runnerResultContext (sj_job st) attempt of
        Inl e \<Rightarrow> Some e
      | Inr expected \<Rightarrow>
          if stableJson (rslt_context result) \<noteq> stableJson expected then Some (runner_error RnInputMismatch (rt_id attempt))
          else case requireRunner s (sc_runnerId credential) of
              Inl e \<Rightarrow> Some e
            | Inr runner \<Rightarrow>
                or_else (fail_if (\<not> rx_verifies cr (rp_publicKey runner) (runnerResultMessage expected result) (rslt_signature result))
                           (runner_error RnSignatureInvalid (rt_id attempt)))
                (or_else (fail_if (nao_inputDigests (rslt_output result) \<noteq> rj_inputDigests (sj_job st)) (runner_error RnInputMismatch (rj_id (sj_job st))))
                  (validateOutput (sj_job st) attempt result)))"

definition submit_commit :: "RunnerCrypto \<Rightarrow> int \<Rightarrow> StoredJob \<Rightarrow> RunnerAttempt \<Rightarrow> StoredCredential \<Rightarrow> RunnerResult \<Rightarrow> RunnerCoordinator \<Rightarrow> RunnerCoordinator" where
  "submit_commit cr now st attempt credential result s =
     completeAttempt now st attempt (sc_runnerId credential) (job_state_of (rslt_status result)) (job_state_of (rslt_status result))
       (run_status_of (rslt_status result)) (result_digest cr st attempt result) (Some (rslt_output result)) s"

definition submit_result :: "RunnerCrypto \<Rightarrow> (nat \<Rightarrow> string) \<Rightarrow> int \<Rightarrow> RunnerJobCredential \<Rightarrow> RunnerResult \<Rightarrow> RunnerCoordinator \<Rightarrow> SignedRunnerCompletion rn_outcome" where
  "submit_result cr u now token result s =
     and_then (authorizeCredential cr now token s) (\<lambda>(st, attempt, credential) s.
       case or_else (submit_state_error st) (result_error cr st attempt credential result s) of
         Some e \<Rightarrow> raise e s
       | None \<Rightarrow>
           let s1 = submit_commit cr now st attempt credential result s
           in case output_references u 0 st attempt (rslt_outputs result) of
                Inl e \<Rightarrow> raise e s1
              | Inr refs \<Rightarrow>
                  let s2 = s1\<lparr>rc_outputs := set_key (rt_id attempt) refs (rc_outputs s1)\<rparr>
                  in case sum_then (completion s2 (rj_id (sj_job st)) (rt_id attempt)) (\<lambda>c. sum_then (requireRunner s2 (sc_runnerId credential))
                            (\<lambda>runner. Inr (RunnerCompletion.extend c (SignedRunnerCompletion.fields result runner)))) of
                       Inl e \<Rightarrow> raise e s2
                     | Inr c \<Rightarrow> return c s2)"

section \<open>Runners that fail, and retries\<close>

text \<open>The loops of \<open>markRunnerUnavailable\<close> and \<open>quarantineRunner\<close> over the Jobs differ in the final state and the event.\<close>

definition stop_commit :: "int \<Rightarrow> RunnerJobState \<Rightarrow> string \<Rightarrow> string \<Rightarrow> StoredJob \<Rightarrow> RunnerAttempt \<Rightarrow> RunnerCoordinator \<Rightarrow> RunnerCoordinator" where
  "stop_commit now state typ runnerId st attempt s =
     (let s1 = revokeAttemptCredentials (rt_id attempt) s;
          attempt' = attempt\<lparr>rt_state := state, rt_completedAt := Some now\<rparr>;
          st' = st\<lparr>sj_job := (sj_job st)\<lparr>rj_state := state\<rparr>, sj_run := (sj_run st)\<lparr>run_status := RunIndeterminate\<rparr>\<rparr>
      in runner_emit (job_event typ (Some runnerId) st' attempt' None (Some (rj_state (sj_job st))) (Some state)) (set_stored st' (set_attempt attempt' s1)))"

definition live_states :: "RunnerJobState list" where
  "live_states = [StOffered, StClaimed, StRunning, StCancelRequested]"

fun stop_jobs :: "int \<Rightarrow> RunnerJobState \<Rightarrow> string \<Rightarrow> string \<Rightarrow> string list \<Rightarrow> RunnerCoordinator \<Rightarrow> unit rn_outcome" where
  "stop_jobs now state typ runnerId [] s = return () s"
| "stop_jobs now state typ runnerId (jobId # jobIds) s =
     (case get_key (rc_jobs s) jobId of
        None \<Rightarrow> stop_jobs now state typ runnerId jobIds s
      | Some st \<Rightarrow>
          if rj_currentRunnerId (sj_job st) \<noteq> Some runnerId \<or> rj_state (sj_job st) \<notin> set live_states then stop_jobs now state typ runnerId jobIds s
          else case requireAttempt s (rj_currentAttemptId (sj_job st)) of
              Inl e \<Rightarrow> raise e s
            | Inr attempt \<Rightarrow> stop_jobs now state typ runnerId jobIds (stop_commit now state typ runnerId st attempt s))"

definition stop_runner :: "RunnerStatus \<Rightarrow> string \<Rightarrow> RunnerJobState \<Rightarrow> string \<Rightarrow> int \<Rightarrow> string \<Rightarrow> ActorRef \<Rightarrow> string \<Rightarrow> RunnerCoordinator \<Rightarrow> RunnerProfile rn_outcome" where
  "stop_runner status typ state job_typ now runnerId actor reason s =
     (case sum_then (checked (require_text reason ''reason'')) (\<lambda>_. requireRunner s runnerId) of
        Inl e \<Rightarrow> raise e s
      | Inr runner \<Rightarrow>
          and_then (stop_jobs now state job_typ (rp_id runner) (map_keys (rc_jobs s)) (change_runner status typ actor runner s))
            (\<lambda>_. return (runner\<lparr>rp_status := status\<rparr>)))"

definition markRunnerUnavailable :: "int \<Rightarrow> string \<Rightarrow> ActorRef \<Rightarrow> string \<Rightarrow> RunnerCoordinator \<Rightarrow> RunnerProfile rn_outcome" where
  "markRunnerUnavailable = stop_runner RunnerUnavailable ''runner.unavailable'' StIndeterminate ''runner.job.indeterminate''"

definition quarantineRunner :: "int \<Rightarrow> string \<Rightarrow> ActorRef \<Rightarrow> string \<Rightarrow> RunnerCoordinator \<Rightarrow> RunnerProfile rn_outcome" where
  "quarantineRunner = stop_runner RunnerQuarantined ''runner.quarantined'' StQuarantined ''runner.job.quarantined''"

record RetryInput =
  ret_jobId :: string
  ret_idempotencyKey :: string
  ret_leaseExpiresAt :: Timestamp
  ret_actor :: ActorRef

definition retriable_states :: "RunnerJobState list" where
  "retriable_states = [StFailed, StIndeterminate, StCancelled, StExpired, StQuarantined]"

definition retry_commit :: "string \<Rightarrow> RetryInput \<Rightarrow> StoredJob \<Rightarrow> RunnerCoordinator \<Rightarrow> job_view \<times> RunnerCoordinator" where
  "retry_commit attemptId input st s =
     (let attempt = new_attempt attemptId (rj_id (sj_job st)) (run_id (sj_run st)) (ret_leaseExpiresAt input);
          st' = st\<lparr>sj_job := (sj_job st)\<lparr>rj_attemptIds := rj_attemptIds (sj_job st) @ [attemptId], rj_currentAttemptId := attemptId,
              rj_currentRunnerId := None, rj_state := StQueued\<rparr>,
            sj_run := (sj_run st)\<lparr>run_runnerId := ''runner:unassigned'', run_status := RunQueued, run_attemptId := Some attemptId\<rparr>\<rparr>;
          s1 = set_stored st' (set_attempt attempt s);
          s2 = s1\<lparr>rc_retryIdempotency := set_key (ret_idempotencyKey input) (rj_id (sj_job st)) (rc_retryIdempotency s1)\<rparr>
      in ((sj_job st', sj_run st', attempt), runner_emit (job_event ''runner.job.retried'' None st' attempt (Some (ret_actor input)) None (Some StQueued)) s2))"

definition retry_error :: "int \<Rightarrow> RetryInput \<Rightarrow> StoredJob \<Rightarrow> RunnerError option" where
  "retry_error now input st =
     or_else (fail_if (rj_state (sj_job st) \<notin> set retriable_states) (runner_error RnRetryInvalid (rj_id (sj_job st))))
       (futureTimestamp (ret_leaseExpiresAt input) now ''leaseExpiresAt'')"

definition retry :: "string \<Rightarrow> int \<Rightarrow> RetryInput \<Rightarrow> RunnerCoordinator \<Rightarrow> job_view rn_outcome" where
  "retry uuid now input s =
     (case require_text (ret_idempotencyKey input) ''idempotencyKey'' of
        Some e \<Rightarrow> raise e s
      | None \<Rightarrow>
          (case keep_truthy (get_key (rc_retryIdempotency s) (ret_idempotencyKey input)) of
             Some existingJobId \<Rightarrow>
               if existingJobId \<noteq> ret_jobId input then raise (runner_error RnIdempotencyConflict (ret_idempotencyKey input)) s
               else (case sum_then (requireJob s (ret_jobId input)) (view_job s) of Inl e \<Rightarrow> raise e s | Inr v \<Rightarrow> return v s)
           | None \<Rightarrow>
               (case sum_then (requireJob s (ret_jobId input)) (\<lambda>st. sum_then (checked (retry_error now input st)) (\<lambda>_.
                     sum_then (requireAttempt s (rj_currentAttemptId (sj_job st))) (\<lambda>_. Inr st))) of
                  Inl e \<Rightarrow> raise e s
                | Inr st \<Rightarrow> let (v, s') = retry_commit (opaqueId ''runner-attempt'' uuid) input st s in return v s')))"

definition listAttempts :: "RunnerCoordinator \<Rightarrow> string \<Rightarrow> RunnerError + RunnerAttempt list" where
  "listAttempts s jobId = sum_then (requireJob s jobId) (\<lambda>st.
     fold_loop (\<lambda>attemptId attempts. sum_then (requireAttempt s attemptId) (\<lambda>a. Inr (attempts @ [a]))) (rj_attemptIds (sj_job st)) [])"

definition listOutputs :: "RunnerCoordinator \<Rightarrow> string \<Rightarrow> RunnerOutputReference list" where
  "listOutputs s attemptId = nullish (get_key (rc_outputs s) attemptId) []"

section \<open>The coordinator as a machine\<close>

datatype rn_op =
    EnrollRunner RunnerEnrollmentInput
  | ActivateRunner string ActorRef
  | DisableRunner string ActorRef string
  | Enqueue "nat \<Rightarrow> string" int ExternalRunRequest
  | Pull string string
  | Claim string string int ClaimInput
  | Heartbeat int RunnerJobCredential
  | RequestCancellation string ActorRef string
  | FinalizeCancellation int RunnerJobCredential RunnerCancellationOutcome string
  | Submit "nat \<Rightarrow> string" int RunnerJobCredential RunnerResult
  | Expire int string
  | MarkRunnerUnavailable int string ActorRef string
  | QuarantineRunner int string ActorRef string
  | Retry string int RetryInput

fun rn_step :: "RunnerCrypto \<Rightarrow> rn_op \<Rightarrow> RunnerCoordinator \<Rightarrow> unit rn_outcome" where
  "rn_step cr (EnrollRunner input) s = void (enrollRunner cr input s)"
| "rn_step cr (ActivateRunner r actor) s = void (activateRunner r actor s)"
| "rn_step cr (DisableRunner r actor reason) s = void (disableRunner r actor reason s)"
| "rn_step cr (Enqueue u now input) s = void (enqueue cr u now input s)"
| "rn_step cr (Pull challenge r) s = void (pull cr challenge r s)"
| "rn_step cr (Claim uuid token now input) s = void (claim cr uuid token now input s)"
| "rn_step cr (Heartbeat now token) s = void (heartbeat cr now token s)"
| "rn_step cr (RequestCancellation j actor reason) s = void (requestCancellation j actor reason s)"
| "rn_step cr (FinalizeCancellation now token out receipt) s = void (finalizeCancellation cr now token out receipt s)"
| "rn_step cr (Submit u now token result) s = void (submit_result cr u now token result s)"
| "rn_step cr (Expire now j) s = expire now j s"
| "rn_step cr (MarkRunnerUnavailable now r actor reason) s = void (markRunnerUnavailable now r actor reason s)"
| "rn_step cr (QuarantineRunner now r actor reason) s = void (quarantineRunner now r actor reason s)"
| "rn_step cr (Retry uuid now input) s = void (retry uuid now input s)"

end
