(* ===== verification/Runner_Invariant.thy ===== *)
theory Runner_Invariant
  imports Runner Tables "HOL-Library.Sublist"
begin

text \<open>
  Runs of the Runner coordinator: its methods as operations of one machine, the random identifiers they draw
  assumed fresh. \<open>rn_inv\<close> is the invariant: every Job has a chain of Attempts of its own whose last is current
  and in the state of the Job, earlier Attempts are closed without success, a credential is bound to an Attempt
  that was claimed by its Runner, and is active only while that Attempt is current and live, and every stored
  output is in scope. \<open>rn_before\<close> says how the state grows: manifests, leases and closed Attempts never change,
  and a revoked credential stays revoked.

  Every change of a claimed or offered Job writes the Job and its current Attempt together; \<open>progresses\<close> is
  that pattern, and each method is shown to follow it once.
\<close>

section \<open>The invariant\<close>

definition same_manifest :: "RunnerJob \<Rightarrow> RunnerJob \<Rightarrow> bool" where
  "same_manifest j j' \<longleftrightarrow> RunnerJobManifest.truncate j = RunnerJobManifest.truncate j'"

lemma same_manifest_refl [simp]: "same_manifest j j"
  by (simp add: same_manifest_def)

lemma same_manifest_trans: "same_manifest j k \<Longrightarrow> same_manifest k l \<Longrightarrow> same_manifest j l"
  by (simp add: same_manifest_def)

lemma same_manifest_updates [simp]:
  "same_manifest j (k\<lparr>rj_networkEnforcement := a\<rparr>) = same_manifest j k" "same_manifest j (k\<lparr>rj_networkBoundaryReceipt := b\<rparr>) = same_manifest j k"
  "same_manifest j (k\<lparr>rj_state := c\<rparr>) = same_manifest j k" "same_manifest j (k\<lparr>rj_attemptIds := d\<rparr>) = same_manifest j k"
  "same_manifest j (k\<lparr>rj_currentAttemptId := e\<rparr>) = same_manifest j k" "same_manifest j (k\<lparr>rj_currentRunnerId := f\<rparr>) = same_manifest j k"
  by (simp_all add: same_manifest_def RunnerJobManifest.truncate_def)

lemma same_manifestD:
  assumes "same_manifest j j'"
  shows "rj_id j' = rj_id j" "rj_runId j' = rj_runId j" "rj_artifactOutputContract j' = rj_artifactOutputContract j"
    "rj_outputPaths j' = rj_outputPaths j" "rj_outputLocations j' = rj_outputLocations j" "rj_disclosure j' = rj_disclosure j"
    "rj_idempotencyKey j' = rj_idempotencyKey j" "rj_inputManifestDigest j' = rj_inputManifestDigest j" "rj_createdAt j' = rj_createdAt j"
  using assms by (simp_all add: same_manifest_def RunnerJobManifest.truncate_def)

definition live_state :: "RunnerJobState \<Rightarrow> bool" where
  "live_state state \<longleftrightarrow> state = StRunning \<or> state = StCancelRequested"

definition closed_state :: "RunnerJobState \<Rightarrow> bool" where
  "closed_state state \<longleftrightarrow> state \<in> set closed_states"

definition pair_ok :: "RunnerJob \<Rightarrow> RunnerAttempt \<Rightarrow> bool" where
  "pair_ok job a \<longleftrightarrow> rt_state a = rj_state job \<and> rj_state job \<noteq> StClaimed
     \<and> (rj_state job = StQueued \<longrightarrow> rt_runnerId a = None \<and> rj_currentRunnerId job = None)
     \<and> (rj_state job = StOffered \<longrightarrow> rt_runnerId a = None \<and> rj_currentRunnerId job \<noteq> None)
     \<and> (rj_state job = StRunning \<longrightarrow> rt_runnerId a \<noteq> None)
     \<and> (rt_runnerId a \<noteq> None \<longrightarrow> rj_currentRunnerId job = rt_runnerId a \<and> rj_networkEnforcement job \<noteq> None \<and> truthy (rj_networkBoundaryReceipt job))"

fun status_for :: "RunnerJobState \<Rightarrow> string option \<Rightarrow> RunStatus" where
  "status_for StQueued r = RunQueued"
| "status_for StOffered r = RunQueued"
| "status_for StClaimed r = RunQueued"
| "status_for StRunning r = RunRunning"
| "status_for StCancelRequested r = (if r = None then RunQueued else RunRunning)"
| "status_for StSucceeded r = RunSucceeded"
| "status_for StFailed r = RunFailed"
| "status_for StIndeterminate r = RunIndeterminate"
| "status_for StCancelled r = RunIndeterminate"
| "status_for StExpired r = RunIndeterminate"
| "status_for StQuarantined r = RunIndeterminate"

definition run_ok :: "StoredJob \<Rightarrow> RunnerAttempt \<Rightarrow> bool" where
  "run_ok st a \<longleftrightarrow> run_id (sj_run st) = rj_runId (sj_job st) \<and> run_attemptId (sj_run st) = Some (rj_currentAttemptId (sj_job st))
     \<and> run_status (sj_run st) = status_for (rj_state (sj_job st)) (rt_runnerId a)"

definition runner_ok :: "string \<Rightarrow> RunnerProfile \<Rightarrow> bool" where
  "runner_ok k r \<longleftrightarrow> rp_id r = k \<and> rp_networkBoundaryReceipt r \<noteq> [] \<and> (rp_networkDestinations r = [] \<longleftrightarrow> rp_networkEnforcement r = DenyAll)"

definition chain_ok :: "RunnerCoordinator \<Rightarrow> RunnerJob \<Rightarrow> bool" where
  "chain_ok s job \<longleftrightarrow> distinct (rj_attemptIds job) \<and> rj_attemptIds job \<noteq> [] \<and> last (rj_attemptIds job) = rj_currentAttemptId job
     \<and> (\<forall>x\<in>set (rj_attemptIds job). \<exists>a. get_key (rc_attempts s) x = Some a \<and> rt_jobId a = rj_id job
          \<and> (x \<noteq> rj_currentAttemptId job \<longrightarrow> rt_state a \<in> set retriable_states))"

definition job_ok :: "RunnerCoordinator \<Rightarrow> string \<Rightarrow> StoredJob \<Rightarrow> bool" where
  "job_ok s k st \<longleftrightarrow> k \<noteq> [] \<and> rj_id (sj_job st) = k \<and> chain_ok s (sj_job st)
     \<and> (\<exists>a. get_key (rc_attempts s) (rj_currentAttemptId (sj_job st)) = Some a \<and> pair_ok (sj_job st) a \<and> run_ok st a)
     \<and> sj_requestDigest st = rj_inputManifestDigest (sj_job st)
     \<and> (case rj_artifactOutputContract (sj_job st) of None \<Rightarrow> True | Some c \<Rightarrow> contract_ok (Some (rj_outputPaths (sj_job st))) c)"

definition attempt_ok :: "RunnerCoordinator \<Rightarrow> string \<Rightarrow> RunnerAttempt \<Rightarrow> bool" where
  "attempt_ok s k a \<longleftrightarrow> rt_id a = k \<and> ts_time (rt_leaseExpiresAt a) \<noteq> None
     \<and> (\<exists>st. get_key (rc_jobs s) (rt_jobId a) = Some st \<and> k \<in> set (rj_attemptIds (sj_job st)) \<and> rt_runId a = rj_runId (sj_job st))"

definition cred_ok :: "RunnerCoordinator \<Rightarrow> string \<Rightarrow> StoredCredential \<Rightarrow> bool" where
  "cred_ok s k c \<longleftrightarrow> sc_id c = k \<and> has_key (rc_runners s) (sc_runnerId c)
     \<and> (\<exists>a st. get_key (rc_attempts s) (sc_attemptId c) = Some a \<and> get_key (rc_jobs s) (sc_jobId c) = Some st \<and> rt_jobId a = sc_jobId c
          \<and> rt_runnerId a = Some (sc_runnerId c) \<and> rt_leaseExpiresAt a = sc_expiresAt c \<and> rt_jobCredentialDigest a = Some (sc_digest c)
          \<and> (sc_status c = JobCredentialActive \<longrightarrow> rj_currentAttemptId (sj_job st) = sc_attemptId c \<and> live_state (rt_state a)))"

definition in_scope :: "RunnerJob \<Rightarrow> string \<Rightarrow> RunnerOutputReference \<Rightarrow> bool" where
  "in_scope job k ref \<longleftrightarrow> ro_location ref \<noteq> [] \<and> \<not> unsafe_location (ro_location ref) \<and> locationWithin (ro_location ref) (expected_location job (ro_kind ref))
     \<and> disclosureAllows (disc_classification (rj_disclosure job)) (disc_classification (ro_disclosure ref))
     \<and> (ro_kind ref = OutputArtifact \<longrightarrow> includesSub (ro_location ref) k)"

definition outputs_ok :: "RunnerCoordinator \<Rightarrow> string \<Rightarrow> RunnerOutputReference list \<Rightarrow> bool" where
  "outputs_ok s k refs \<longleftrightarrow> (\<exists>a st. get_key (rc_attempts s) k = Some a \<and> get_key (rc_jobs s) (rt_jobId a) = Some st \<and> closed_state (rt_state a)
     \<and> (\<forall>ref\<in>set refs. ro_attemptId ref = k \<and> ro_runId ref = rt_runId a \<and> in_scope (sj_job st) k ref))"

definition keys_stored :: "RunnerCoordinator \<Rightarrow> bool" where
  "keys_stored s \<longleftrightarrow> (\<forall>key j. get_key (rc_idempotency s) key = Some j \<longrightarrow> (\<exists>st. get_key (rc_jobs s) j = Some st \<and> rj_idempotencyKey (sj_job st) = key))
     \<and> (\<forall>key j. get_key (rc_retryIdempotency s) key = Some j \<longrightarrow> has_key (rc_jobs s) j)"

definition numbered :: "RunnerEvent list \<Rightarrow> bool" where
  "numbered es \<longleftrightarrow> map rv_sequence es = [1..<length es + 1]"

text \<open>An Attempt has at most one credential.\<close>

definition one_credential :: "(string, StoredCredential) jsmap \<Rightarrow> bool" where
  "one_credential m \<longleftrightarrow> (\<forall>i j c d. get_key m i = Some c \<longrightarrow> get_key m j = Some d \<longrightarrow> sc_attemptId c = sc_attemptId d \<longrightarrow> i = j)"

definition rn_inv :: "RunnerCoordinator \<Rightarrow> bool" where
  "rn_inv s \<longleftrightarrow> distinct_keys (rc_jobs s) \<and> distinct_keys (rc_credentials s) \<and> one_credential (rc_credentials s)
     \<and> (\<forall>k r. get_key (rc_runners s) k = Some r \<longrightarrow> runner_ok k r) \<and> (\<forall>k st. get_key (rc_jobs s) k = Some st \<longrightarrow> job_ok s k st)
     \<and> (\<forall>k a. get_key (rc_attempts s) k = Some a \<longrightarrow> attempt_ok s k a) \<and> (\<forall>k c. get_key (rc_credentials s) k = Some c \<longrightarrow> cred_ok s k c)
     \<and> (\<forall>k refs. get_key (rc_outputs s) k = Some refs \<longrightarrow> outputs_ok s k refs) \<and> keys_stored s \<and> numbered (rc_events s)"

lemma inv_runner: "rn_inv s \<Longrightarrow> get_key (rc_runners s) k = Some r \<Longrightarrow> runner_ok k r"
  and inv_job: "rn_inv s \<Longrightarrow> get_key (rc_jobs s) k = Some st \<Longrightarrow> job_ok s k st"
  and inv_attempt: "rn_inv s \<Longrightarrow> get_key (rc_attempts s) k = Some a \<Longrightarrow> attempt_ok s k a"
  and inv_cred: "rn_inv s \<Longrightarrow> get_key (rc_credentials s) k = Some c \<Longrightarrow> cred_ok s k c"
  and inv_outputs: "rn_inv s \<Longrightarrow> get_key (rc_outputs s) k = Some refs \<Longrightarrow> outputs_ok s k refs"
  and inv_keys: "rn_inv s \<Longrightarrow> keys_stored s"
  and inv_numbered: "rn_inv s \<Longrightarrow> numbered (rc_events s)"
  and inv_one_credential: "rn_inv s \<Longrightarrow> one_credential (rc_credentials s)"
  and inv_distinct: "rn_inv s \<Longrightarrow> distinct_keys (rc_jobs s)" "rn_inv s \<Longrightarrow> distinct_keys (rc_credentials s)"
  by (simp_all add: rn_inv_def)

lemma job_okD:
  assumes "job_ok s k st"
  shows "rj_id (sj_job st) = k" "chain_ok s (sj_job st)" "k \<noteq> []" "sj_requestDigest st = rj_inputManifestDigest (sj_job st)"
    "\<exists>a. get_key (rc_attempts s) (rj_currentAttemptId (sj_job st)) = Some a \<and> pair_ok (sj_job st) a \<and> run_ok st a"
    "rj_artifactOutputContract (sj_job st) = Some c \<Longrightarrow> contract_ok (Some (rj_outputPaths (sj_job st))) c"
  using assms by (simp_all add: job_ok_def)

text \<open>The current Attempt of a stored Job.\<close>

lemma current_attempt:
  assumes "rn_inv s" "get_key (rc_jobs s) k = Some st"
  shows "\<exists>a. requireAttempt s (rj_currentAttemptId (sj_job st)) = Inr a \<and> get_key (rc_attempts s) (rj_currentAttemptId (sj_job st)) = Some a
    \<and> pair_ok (sj_job st) a \<and> run_ok st a \<and> rt_id a = rj_currentAttemptId (sj_job st) \<and> rt_jobId a = k \<and> rj_id (sj_job st) = k"
proof -
  from inv_job [OF assms] have ok: "job_ok s k st" .
  then obtain a where a: "get_key (rc_attempts s) (rj_currentAttemptId (sj_job st)) = Some a" "pair_ok (sj_job st) a" "run_ok st a"
    by (auto dest: job_okD(5))
  have "rj_currentAttemptId (sj_job st) \<in> set (rj_attemptIds (sj_job st))"
    using job_okD(2) [OF ok] unfolding chain_ok_def by (metis last_in_set)
  with job_okD(1,2) [OF ok] a(1) have "rt_jobId a = k" by (fastforce simp: chain_ok_def)
  with a inv_attempt [OF assms(1) a(1)] job_okD(1) [OF ok] show ?thesis by (simp add: requireAttempt_def attempt_ok_def)
qed

section \<open>How the state grows\<close>

definition same_runner :: "RunnerProfile \<Rightarrow> RunnerProfile \<Rightarrow> bool" where
  "same_runner r r' \<longleftrightarrow> (\<exists>status. r' = r\<lparr>rp_status := status\<rparr>)"

definition job_grows :: "StoredJob \<Rightarrow> StoredJob \<Rightarrow> bool" where
  "job_grows st st' \<longleftrightarrow> same_manifest (sj_job st) (sj_job st') \<and> sj_requestDigest st' = sj_requestDigest st
     \<and> prefix (rj_attemptIds (sj_job st)) (rj_attemptIds (sj_job st')) \<and> (rj_state (sj_job st) = StSucceeded \<longrightarrow> st' = st)"

definition same_lease :: "RunnerAttempt \<Rightarrow> RunnerAttempt \<Rightarrow> bool" where
  "same_lease a a' \<longleftrightarrow> rt_id a' = rt_id a \<and> rt_jobId a' = rt_jobId a \<and> rt_runId a' = rt_runId a \<and> rt_leaseExpiresAt a' = rt_leaseExpiresAt a
     \<and> (rt_runnerId a \<noteq> None \<longrightarrow> rt_runnerId a' = rt_runnerId a \<and> rt_jobCredentialDigest a' = rt_jobCredentialDigest a)"

definition attempt_grows :: "RunnerAttempt \<Rightarrow> RunnerAttempt \<Rightarrow> bool" where
  "attempt_grows a a' \<longleftrightarrow> same_lease a a' \<and> (closed_state (rt_state a) \<longrightarrow> a' = a)"

definition cred_grows :: "StoredCredential \<Rightarrow> StoredCredential \<Rightarrow> bool" where
  "cred_grows c c' \<longleftrightarrow> c' = c \<or> c' = c\<lparr>sc_status := JobCredentialRevoked\<rparr>"

definition rn_before :: "RunnerCoordinator \<Rightarrow> RunnerCoordinator \<Rightarrow> bool" where
  "rn_before s t \<longleftrightarrow> rc_projectId t = rc_projectId s \<and> table_grows same_runner (rc_runners s) (rc_runners t)
     \<and> table_grows job_grows (rc_jobs s) (rc_jobs t) \<and> table_grows attempt_grows (rc_attempts s) (rc_attempts t)
     \<and> table_grows cred_grows (rc_credentials s) (rc_credentials t) \<and> table_grows (=) (rc_idempotency s) (rc_idempotency t)
     \<and> table_grows (=) (rc_retryIdempotency s) (rc_retryIdempotency t) \<and> table_grows (=) (rc_outputs s) (rc_outputs t)
     \<and> prefix (rc_events s) (rc_events t)"

lemma same_runner_refl [simp]: "same_runner r r"
  by (auto simp: same_runner_def intro: exI [of _ "rp_status r"])

lemma rn_grows_refl [simp]: "job_grows st st" "same_lease a a" "attempt_grows a a" "cred_grows c c"
  by (simp_all add: job_grows_def same_lease_def attempt_grows_def cred_grows_def)

lemma rn_grows_trans:
  "same_runner x y \<Longrightarrow> same_runner y z \<Longrightarrow> same_runner x z"
  "job_grows st st' \<Longrightarrow> job_grows st' st'' \<Longrightarrow> job_grows st st''"
  "attempt_grows a a' \<Longrightarrow> attempt_grows a' a'' \<Longrightarrow> attempt_grows a a''"
  "cred_grows c c' \<Longrightarrow> cred_grows c' c'' \<Longrightarrow> cred_grows c c''"
  by (auto simp: same_runner_def job_grows_def attempt_grows_def same_lease_def cred_grows_def intro: same_manifest_trans prefix_order.trans)

lemma rn_before_refl [simp, intro]: "rn_before s s"
  by (simp add: rn_before_def table_grows_refl)

lemma rn_before_trans: "rn_before s t \<Longrightarrow> rn_before t u \<Longrightarrow> rn_before s u"
  unfolding rn_before_def by (auto intro: table_grows_trans [rotated] rn_grows_trans prefix_order.trans)

lemma before_job: "rn_before s t \<Longrightarrow> get_key (rc_jobs s) k = Some st \<Longrightarrow> \<exists>st'. get_key (rc_jobs t) k = Some st' \<and> job_grows st st'"
  and before_attempt: "rn_before s t \<Longrightarrow> get_key (rc_attempts s) k = Some a \<Longrightarrow> \<exists>a'. get_key (rc_attempts t) k = Some a' \<and> attempt_grows a a'"
  and before_runner: "rn_before s t \<Longrightarrow> get_key (rc_runners s) k = Some r \<Longrightarrow> \<exists>r'. get_key (rc_runners t) k = Some r' \<and> same_runner r r'"
  and before_cred: "rn_before s t \<Longrightarrow> get_key (rc_credentials s) k = Some c \<Longrightarrow> \<exists>c'. get_key (rc_credentials t) k = Some c' \<and> cred_grows c c'"
  and before_idempotency: "rn_before s t \<Longrightarrow> get_key (rc_idempotency s) k = Some j \<Longrightarrow> get_key (rc_idempotency t) k = Some j"
  and before_outputs: "rn_before s t \<Longrightarrow> get_key (rc_outputs s) k = Some refs \<Longrightarrow> get_key (rc_outputs t) k = Some refs"
  by (auto simp: rn_before_def dest: table_growsD)

section \<open>A Job and its current Attempt move together\<close>

definition moves :: "StoredJob \<Rightarrow> RunnerAttempt \<Rightarrow> StoredJob \<Rightarrow> RunnerAttempt \<Rightarrow> bool" where
  "moves st a st' a' \<longleftrightarrow> \<not> closed_state (rt_state a) \<and> same_manifest (sj_job st) (sj_job st') \<and> rj_attemptIds (sj_job st') = rj_attemptIds (sj_job st)
     \<and> rj_currentAttemptId (sj_job st') = rj_currentAttemptId (sj_job st) \<and> sj_requestDigest st' = sj_requestDigest st
     \<and> same_lease a a' \<and> pair_ok (sj_job st') a' \<and> run_ok st' a'"

definition progresses :: "RunnerCoordinator \<Rightarrow> string \<Rightarrow> StoredJob \<Rightarrow> RunnerAttempt \<Rightarrow> StoredJob \<Rightarrow> RunnerAttempt \<Rightarrow> RunnerCoordinator \<Rightarrow> bool" where
  "progresses s k st a st' a' t \<longleftrightarrow>
     get_key (rc_jobs s) k = Some st \<and> get_key (rc_attempts s) (rj_currentAttemptId (sj_job st)) = Some a \<and> moves st a st' a'
     \<and> rc_projectId t = rc_projectId s \<and> rc_runners t = rc_runners s \<and> rc_jobs t = set_key k st' (rc_jobs s)
     \<and> rc_attempts t = set_key (rj_currentAttemptId (sj_job st)) a' (rc_attempts s)
     \<and> rc_outputs t = rc_outputs s \<and> rc_idempotency t = rc_idempotency s \<and> rc_retryIdempotency t = rc_retryIdempotency s
     \<and> prefix (rc_events s) (rc_events t) \<and> numbered (rc_events t)
     \<and> distinct_keys (rc_credentials t) \<and> one_credential (rc_credentials t) \<and> table_grows cred_grows (rc_credentials s) (rc_credentials t)
     \<and> (\<forall>i c. get_key (rc_credentials t) i = Some c \<longrightarrow> cred_ok t i c)"

lemma closed_states_of [simp]:
  "closed_state StSucceeded" "closed_state StFailed" "closed_state StIndeterminate" "closed_state StCancelled" "closed_state StExpired" "closed_state StQuarantined"
  "\<not> closed_state StQueued" "\<not> closed_state StOffered" "\<not> closed_state StClaimed" "\<not> closed_state StRunning" "\<not> closed_state StCancelRequested"
  "live_state StRunning" "live_state StCancelRequested" "\<not> live_state StQueued" "\<not> live_state StOffered"
  by (simp_all add: closed_state_def closed_states_def live_state_def)

lemma closed_not_live: "closed_state x \<Longrightarrow> \<not> live_state x" and retriable_closed: "x \<in> set retriable_states \<Longrightarrow> closed_state x"
  and closed_retriable: "closed_state x \<Longrightarrow> x \<noteq> StSucceeded \<Longrightarrow> x \<in> set retriable_states"
  by (cases x; simp add: retriable_states_def live_state_def)+

lemma progresses_before:
  assumes "rn_inv s" "progresses s k st a st' a' t"
  shows "rn_before s t"
proof -
  have "pair_ok (sj_job st) a" using current_attempt [OF assms(1)] assms(2) by (fastforce simp: progresses_def)
  then have "rt_state a = rj_state (sj_job st)" by (simp add: pair_ok_def)
  then have "job_grows st st'" "attempt_grows a a'" using assms(2) by (auto simp: progresses_def moves_def job_grows_def attempt_grows_def)
  with assms(2) show ?thesis
    by (auto simp: rn_before_def progresses_def intro!: table_grows_refl table_grows_update)
qed

lemma progresses_inv:
  assumes inv: "rn_inv s" and p: "progresses s k st a st' a' t"
  shows "rn_inv t"
proof -
  let ?c = "rj_currentAttemptId (sj_job st)"
  have found: "get_key (rc_jobs s) k = Some st" "get_key (rc_attempts s) ?c = Some a"
    and new: "rc_jobs t = set_key k st' (rc_jobs s)" "rc_attempts t = set_key ?c a' (rc_attempts s)" "rc_runners t = rc_runners s"
      "rc_outputs t = rc_outputs s" "rc_idempotency t = rc_idempotency s" "rc_retryIdempotency t = rc_retryIdempotency s"
    and open_a: "\<not> closed_state (rt_state a)" and lease: "same_lease a a'" and pair: "pair_ok (sj_job st') a'" "run_ok st' a'"
    and ids: "rj_attemptIds (sj_job st') = rj_attemptIds (sj_job st)" "rj_currentAttemptId (sj_job st') = ?c" "sj_requestDigest st' = sj_requestDigest st"
    and man: "same_manifest (sj_job st) (sj_job st')"
    using p by (simp_all add: progresses_def moves_def)
  note same = same_manifestD [OF man]
  from current_attempt [OF inv found(1)] found(2) have cur: "pair_ok (sj_job st) a" "rt_id a = ?c" "rt_jobId a = k" "rj_id (sj_job st) = k" by auto
  have jobs: "job_ok t j x" if "get_key (rc_jobs t) j = Some x" for j x
  proof (cases "j = k")
    case True
    with that new have x: "x = st'" by simp
    from inv_job [OF inv found(1)] have ok: "job_ok s k st" .
    from job_okD(2) [OF this] have "chain_ok t (sj_job st')"
      using found(2) lease new(2) ids same(1) by (auto simp: chain_ok_def same_lease_def)
    with ok x True pair ids same new(2) show ?thesis by (simp add: job_ok_def cong: option.case_cong)
  next
    case False
    with that new have old: "get_key (rc_jobs s) j = Some x" by simp
    from inv_job [OF inv old] have ok: "job_ok s j x" .
    have other: "y \<noteq> ?c" if "y \<in> set (rj_attemptIds (sj_job x))" for y
      using that job_okD(1,2) [OF ok] found(2) cur(3) False by (fastforce simp: chain_ok_def)
    from job_okD(2) [OF ok] have "chain_ok t (sj_job x)" using other new(2) by (fastforce simp: chain_ok_def)
    moreover have "rj_currentAttemptId (sj_job x) \<noteq> ?c" using other job_okD(2) [OF ok] by (metis chain_ok_def last_in_set)
    ultimately show ?thesis using ok new(2) by (auto simp: job_ok_def)
  qed
  have attempts: "attempt_ok t i x" if "get_key (rc_attempts t) i = Some x" for i x
  proof -
    have "\<exists>y. get_key (rc_attempts s) i = Some y \<and> same_lease y x"
      using that new(2) found(2) lease by (cases "i = ?c") auto
    then obtain y where y: "get_key (rc_attempts s) i = Some y" "same_lease y x" by blast
    from inv_attempt [OF inv y(1)] have "attempt_ok s i y" .
    with y(2) new(1) found(1) ids(1) same(2) show ?thesis by (cases "rt_jobId y = k") (auto simp: attempt_ok_def same_lease_def)
  qed
  have outputs: "outputs_ok t i refs" if "get_key (rc_outputs t) i = Some refs" for i refs
  proof -
    from that new(4) have "get_key (rc_outputs s) i = Some refs" by simp
    from inv_outputs [OF inv this] obtain b x where b: "get_key (rc_attempts s) i = Some b" "get_key (rc_jobs s) (rt_jobId b) = Some x" "closed_state (rt_state b)"
      "\<forall>ref\<in>set refs. ro_attemptId ref = i \<and> ro_runId ref = rt_runId b \<and> in_scope (sj_job x) i ref"
      by (auto simp: outputs_ok_def)
    with found(2) open_a have "i \<noteq> ?c" by auto
    with b new found(1) same show ?thesis
      by (cases "rt_jobId b = k") (auto simp: outputs_ok_def in_scope_def expected_location_def split: RunnerOutputKind.splits)
  qed
  have "keys_stored t" using inv_keys [OF inv] new found(1) same(7) by (fastforce simp: keys_stored_def has_key_def)
  with jobs attempts outputs p inv new(3) show ?thesis by (auto simp: rn_inv_def progresses_def)
qed

lemma numbered_emit [simp]: "numbered es \<Longrightarrow> numbered (es @ [e\<lparr>rv_sequence := Suc (length es)\<rparr>])"
  by (simp add: numbered_def)

lemma emit_fields [simp]:
  "rc_runners (runner_emit e s) = rc_runners s" "rc_jobs (runner_emit e s) = rc_jobs s" "rc_attempts (runner_emit e s) = rc_attempts s"
  "rc_offers (runner_emit e s) = rc_offers s" "rc_credentials (runner_emit e s) = rc_credentials s" "rc_outputs (runner_emit e s) = rc_outputs s"
  "rc_idempotency (runner_emit e s) = rc_idempotency s" "rc_retryIdempotency (runner_emit e s) = rc_retryIdempotency s"
  "rc_projectId (runner_emit e s) = rc_projectId s" "rc_realmId (runner_emit e s) = rc_realmId s"
  "rc_events (runner_emit e s) = rc_events s @ [e\<lparr>rv_sequence := Suc (length (rc_events s))\<rparr>]"
  by (simp_all add: runner_emit_def)

lemmas setter_defs = set_stored_def set_attempt_def set_runner_def set_job_credential_def revokeAttemptCredentials_def

lemma one_credential_map:
  assumes "one_credential m" "\<And>c. sc_attemptId (f c) = sc_attemptId c"
  shows "one_credential (map (\<lambda>(k, c). (k, f c)) m)"
  unfolding one_credential_def get_key_map
proof (intro allI impI)
  fix i j c d
  assume "map_option f (get_key m i) = Some c" "map_option f (get_key m j) = Some d" "sc_attemptId c = sc_attemptId d"
  then obtain c0 d0 where "get_key m i = Some c0" "get_key m j = Some d0" "sc_attemptId c0 = sc_attemptId d0" using assms(2) by auto
  with assms(1) show "i = j" unfolding one_credential_def by blast
qed

lemma one_credential_set:
  assumes "one_credential m" "\<And>i d. get_key m i = Some d \<Longrightarrow> sc_attemptId d = sc_attemptId c \<Longrightarrow> i = k"
  shows "one_credential (set_key k c m)"
  using assms unfolding one_credential_def by (simp split: if_splits)

lemma cred_step:
  assumes inv: "rn_inv s" and old: "get_key (rc_credentials s) i = Some c" and grows: "cred_grows c c'"
    and found: "get_key (rc_jobs s) k = Some st" "get_key (rc_attempts s) (rj_currentAttemptId (sj_job st)) = Some a" and moves: "moves st a st' a'"
    and new: "rc_jobs t = set_key k st' (rc_jobs s)" "rc_attempts t = set_key (rj_currentAttemptId (sj_job st)) a' (rc_attempts s)" "rc_runners t = rc_runners s"
    and active: "sc_status c' = JobCredentialActive \<Longrightarrow> sc_attemptId c = rj_currentAttemptId (sj_job st) \<Longrightarrow> live_state (rt_state a')"
  shows "cred_ok t i c'"
proof -
  from inv_cred [OF inv old] obtain b x where b: "get_key (rc_attempts s) (sc_attemptId c) = Some b" "get_key (rc_jobs s) (sc_jobId c) = Some x"
    "rt_jobId b = sc_jobId c" "rt_runnerId b = Some (sc_runnerId c)" "rt_leaseExpiresAt b = sc_expiresAt c" "rt_jobCredentialDigest b = Some (sc_digest c)"
    "sc_status c = JobCredentialActive \<Longrightarrow> rj_currentAttemptId (sj_job x) = sc_attemptId c \<and> live_state (rt_state b)"
    "sc_id c = i" "has_key (rc_runners s) (sc_runnerId c)"
    by (auto simp: cred_ok_def)
  have c': "sc_id c' = sc_id c" "sc_jobId c' = sc_jobId c" "sc_attemptId c' = sc_attemptId c" "sc_runnerId c' = sc_runnerId c" "sc_expiresAt c' = sc_expiresAt c"
    "sc_digest c' = sc_digest c" "sc_status c' = JobCredentialActive \<Longrightarrow> sc_status c = JobCredentialActive"
    using grows by (auto simp: cred_grows_def)
  have job: "\<exists>x'. get_key (rc_jobs t) (sc_jobId c) = Some x' \<and> rj_currentAttemptId (sj_job x') = rj_currentAttemptId (sj_job x)"
    using b(2) found(1) moves new(1) by (auto simp: moves_def)
  show ?thesis
  proof (cases "sc_attemptId c = rj_currentAttemptId (sj_job st)")
    case True
    with b found(2) have "b = a" by simp
    with True b c' job moves new active show ?thesis by (auto simp: cred_ok_def moves_def same_lease_def)
  next
    case False
    with b c' job new show ?thesis by (auto simp: cred_ok_def)
  qed
qed

lemma moves_ids:
  assumes "rn_inv s" "get_key (rc_jobs s) k = Some st" "get_key (rc_attempts s) (rj_currentAttemptId (sj_job st)) = Some a" "moves st a st' a'"
  shows "rj_id (sj_job st') = k" "rt_id a' = rj_currentAttemptId (sj_job st)" "rt_id a = rj_currentAttemptId (sj_job st)"
  using current_attempt [OF assms(1,2)] assms(3,4) by (auto simp: moves_def same_lease_def dest: same_manifestD)

lemma progress_same:
  assumes inv: "rn_inv s" and found: "get_key (rc_jobs s) k = Some st" "get_key (rc_attempts s) (rj_currentAttemptId (sj_job st)) = Some a"
    and moves: "moves st a st' a'" and live: "live_state (rt_state a) \<Longrightarrow> live_state (rt_state a')"
  shows "progresses s k st a st' a' (runner_emit e (set_stored st' (set_attempt a' (s\<lparr>rc_offers := offers\<rparr>))))" (is "progresses s k st a st' a' ?t")
proof -
  note ids = moves_ids [OF inv found moves]
  have t: "rc_jobs ?t = set_key k st' (rc_jobs s)" "rc_attempts ?t = set_key (rj_currentAttemptId (sj_job st)) a' (rc_attempts s)" "rc_runners ?t = rc_runners s"
    "rc_credentials ?t = rc_credentials s"
    by (simp_all add: setter_defs ids)
  have "cred_ok ?t i c" if "get_key (rc_credentials ?t) i = Some c" for i c
  proof -
    from that have old: "get_key (rc_credentials s) i = Some c" unfolding t(4) .
    have "live_state (rt_state a')" if "sc_status c = JobCredentialActive" "sc_attemptId c = rj_currentAttemptId (sj_job st)"
      using inv_cred [OF inv old] that found(2) live by (auto simp: cred_ok_def)
    then show ?thesis by (intro cred_step [OF inv old rn_grows_refl(4) found moves t(1-3)])
  qed
  moreover have "table_grows cred_grows (rc_credentials s) (rc_credentials ?t)"
    unfolding t(4) by (rule table_grows_refl) simp
  moreover have "distinct_keys (rc_credentials ?t)" "one_credential (rc_credentials ?t)"
    unfolding t(4) by (rule inv_distinct [OF inv] inv_one_credential [OF inv])+
  ultimately show ?thesis
    unfolding progresses_def using found moves t(1-3) inv_numbered [OF inv] by (simp add: setter_defs)
qed

lemma progress_revoked:
  assumes inv: "rn_inv s" and found: "get_key (rc_jobs s) k = Some st" "get_key (rc_attempts s) (rj_currentAttemptId (sj_job st)) = Some a"
    and moves: "moves st a st' a'"
  shows "progresses s k st a st' a' (runner_emit e (set_stored st' (set_attempt a' (revokeAttemptCredentials (rt_id a) s))))" (is "progresses s k st a st' a' ?t")
proof -
  note ids = moves_ids [OF inv found moves]
  let ?f = "\<lambda>c. if sc_attemptId c = rt_id a then c\<lparr>sc_status := JobCredentialRevoked\<rparr> else c"
  have t: "rc_jobs ?t = set_key k st' (rc_jobs s)" "rc_attempts ?t = set_key (rj_currentAttemptId (sj_job st)) a' (rc_attempts s)" "rc_runners ?t = rc_runners s"
    "rc_credentials ?t = map (\<lambda>(i, c). (i, ?f c)) (rc_credentials s)"
    by (simp_all add: setter_defs ids)
  have grows: "cred_grows c (?f c)" for c by (simp add: cred_grows_def)
  have "cred_ok ?t i c" if new: "get_key (rc_credentials ?t) i = Some c" for i c
  proof -
    from new have "map_option ?f (get_key (rc_credentials s) i) = Some c" unfolding t(4) get_key_map .
    then obtain c0 where old: "get_key (rc_credentials s) i = Some c0" and c: "c = ?f c0" by blast
    show ?thesis unfolding c by (rule cred_step [OF inv old grows found moves t(1-3)]) (auto simp: ids split: if_splits)
  qed
  moreover have "table_grows cred_grows (rc_credentials s) (rc_credentials ?t)"
    unfolding t(4) by (rule table_grows_map) (rule grows)
  moreover have "distinct_keys (rc_credentials ?t)" unfolding t(4) distinct_keys_map by (rule inv_distinct [OF inv])
  moreover have "one_credential (rc_credentials ?t)"
    unfolding t(4) by (rule one_credential_map [OF inv_one_credential [OF inv]]) simp
  ultimately show ?thesis
    unfolding progresses_def using found moves t(1-3) inv_numbered [OF inv] by (simp add: setter_defs)
qed

lemma revoke_lookup:
  "get_key (rc_credentials (revokeAttemptCredentials x s)) i
     = map_option (\<lambda>c. if sc_attemptId c = x then c\<lparr>sc_status := JobCredentialRevoked\<rparr> else c) (get_key (rc_credentials s) i)"
  by (simp add: revokeAttemptCredentials_def get_key_map)

section \<open>Each method\<close>

lemma run_of_manifest: "run_ok st a \<Longrightarrow> rj_runId (sj_job st) = run_id (sj_run st) \<and> run_attemptId (sj_run st) = Some (rj_currentAttemptId (sj_job st))"
  by (simp add: run_ok_def)

lemma require_Inr [simp]:
  "requireRunner s k = Inr r \<longleftrightarrow> get_key (rc_runners s) k = Some r" "requireJob s k = Inr st \<longleftrightarrow> get_key (rc_jobs s) k = Some st"
  "requireAttempt s k = Inr a \<longleftrightarrow> get_key (rc_attempts s) k = Some a"
  by (auto simp: requireRunner_def requireJob_def requireAttempt_def split: option.splits)

lemma require_found [simp]:
  "get_key (rc_runners s) k = Some r \<Longrightarrow> requireRunner s k = Inr r" "get_key (rc_jobs s) k = Some st \<Longrightarrow> requireJob s k = Inr st"
  "get_key (rc_attempts s) k = Some a \<Longrightarrow> requireAttempt s k = Inr a"
  by simp_all

text \<open>A step keeps the invariant and only lets the state grow.\<close>

definition rn_good :: "RunnerCoordinator \<Rightarrow> RunnerCoordinator \<Rightarrow> bool" where
  "rn_good s t \<longleftrightarrow> rn_inv t \<and> rn_before s t"

lemma good_refl [simp, intro]: "rn_inv s \<Longrightarrow> rn_good s s"
  by (simp add: rn_good_def)

lemma good_trans: "rn_good s t \<Longrightarrow> rn_good t u \<Longrightarrow> rn_good s u"
  by (auto simp: rn_good_def intro: rn_before_trans)

lemma progresses_good: "rn_inv s \<Longrightarrow> progresses s k st a st' a' t \<Longrightarrow> rn_good s t"
  by (simp add: rn_good_def progresses_inv progresses_before)

lemma offer_progress:
  assumes inv: "rn_inv s" and st: "get_key (rc_jobs s) k = Some st" "rj_state (sj_job st) = StQueued"
    and a: "get_key (rc_attempts s) (rj_currentAttemptId (sj_job st)) = Some a"
  shows "\<exists>st' a'. progresses s k st a st' a' (snd (offer cr challenge r st a s)) \<and> rj_state (sj_job st') = StOffered"
proof (intro exI conjI)
  let ?a = "a\<lparr>rt_challengeDigest := Some (runner_digest cr (JString challenge)), rt_state := StOffered\<rparr>"
  let ?st = "st\<lparr>sj_job := (sj_job st)\<lparr>rj_state := StOffered, rj_currentRunnerId := Some (rp_id r)\<rparr>\<rparr>"
  have ok: "pair_ok (sj_job st) a" "run_ok st a" using current_attempt [OF inv st(1)] a by auto
  then have moves: "moves st a ?st ?a" and live: "live_state (rt_state a) \<Longrightarrow> live_state (rt_state ?a)"
    using st(2) by (auto simp: moves_def pair_ok_def run_ok_def same_lease_def)
  show "progresses s k st a ?st ?a (snd (offer cr challenge r st a s))"
    unfolding offer_def Let_def snd_conv by (rule progress_same [OF inv st(1) a moves live])
  show "rj_state (sj_job ?st) = StOffered" by simp
qed

lemma pull_cases:
  "snd (pull cr challenge runnerId s) = s \<or>
   (\<exists>runner st a. get_key (rc_runners s) runnerId = Some runner \<and> rp_status runner = RunnerActive \<and> pull_candidates runner s \<noteq> []
      \<and> st = hd (pull_candidates runner s) \<and> get_key (rc_attempts s) (rj_currentAttemptId (sj_job st)) = Some a \<and> rt_state a = StQueued
      \<and> pull cr challenge runnerId s = (case offer cr challenge runner st a s of (off, s') \<Rightarrow> return (Some off) s'))"
  by (auto simp: pull_def requireRunner_def requireAttempt_def split: option.split list.split)

lemma set_pull_candidates: "st \<in> set (pull_candidates runner s) \<longleftrightarrow>
    st \<in> set (map_values (rc_jobs s)) \<and> rj_state (sj_job st) = StQueued \<and> runnerMatchesJob runner (sj_job st)"
  by (simp add: pull_candidates_def)

lemma stored_value: "rn_inv s \<Longrightarrow> st \<in> set (map_values (rc_jobs s)) \<longleftrightarrow> get_key (rc_jobs s) (rj_id (sj_job st)) = Some st"
  using jsm.contents_lookup [OF inv_distinct(1)] by (auto dest: inv_job job_okD(1))

lemma pull_good: "rn_inv s \<Longrightarrow> rn_good s (snd (pull cr challenge runnerId s))"
proof -
  assume inv: "rn_inv s"
  show ?thesis
    using pull_cases [of cr challenge runnerId s]
  proof (elim disjE exE conjE)
    fix runner st a
    assume st: "st = hd (pull_candidates runner s)" and ne: "pull_candidates runner s \<noteq> []"
      and a: "get_key (rc_attempts s) (rj_currentAttemptId (sj_job st)) = Some a"
      and eq: "pull cr challenge runnerId s = (case offer cr challenge runner st a s of (off, s') \<Rightarrow> return (Some off) s')"
    have "st \<in> set (pull_candidates runner s)" using st ne by simp
    then have found: "get_key (rc_jobs s) (rj_id (sj_job st)) = Some st" "rj_state (sj_job st) = StQueued"
      using stored_value [OF inv] by (simp_all add: set_pull_candidates)
    have "snd (pull cr challenge runnerId s) = snd (offer cr challenge runner st a s)" unfolding eq by (simp split: prod.split)
    with offer_progress [OF inv found a] progresses_good [OF inv] show ?thesis by metis
  qed (simp add: inv)
qed

lemma expire_good:
  assumes inv: "rn_inv s"
  shows "rn_good s (snd (expire now jobId s))"
proof (cases "get_key (rc_jobs s) jobId")
  case None
  with inv show ?thesis by (simp add: expire_def requireJob_def)
next
  case (Some st)
  from current_attempt [OF inv Some] obtain a where req: "requireAttempt s (rj_currentAttemptId (sj_job st)) = Inr a" and
    a: "get_key (rc_attempts s) (rj_currentAttemptId (sj_job st)) = Some a" "pair_ok (sj_job st) a" "run_ok st a" by auto
  let ?a = "a\<lparr>rt_state := StExpired, rt_completedAt := Some now\<rparr>"
  let ?st = "st\<lparr>sj_job := (sj_job st)\<lparr>rj_state := StExpired\<rparr>, sj_run := (sj_run st)\<lparr>run_status := RunIndeterminate\<rparr>\<rparr>"
  have "rn_good s (expire_commit now st a s)" if "\<not> closed_state (rt_state a)"
  proof (rule progresses_good [OF inv])
    have "moves st a ?st ?a" using that a(2,3) by (auto simp: moves_def pair_ok_def run_ok_def same_lease_def)
    then show "progresses s jobId st a ?st ?a (expire_commit now st a s)"
      unfolding expire_commit_def Let_def by (rule progress_revoked [OF inv Some a(1)])
  qed
  with Some req inv show ?thesis by (auto simp: expire_def requireJob_def closed_state_def)
qed

lemma claim_found:
  "sum_then (requireRunner s (cl_runnerId input)) (\<lambda>runner. sum_then (requireJob s (cl_jobId input)) (\<lambda>st.
      sum_then (requireAttempt s (cl_attemptId input)) (\<lambda>attempt. sum_then (checked (claim_error runner st attempt)) (\<lambda>_. Inr (runner, st, attempt)))))
     = Inr (runner, st, a) \<longleftrightarrow>
   get_key (rc_runners s) (cl_runnerId input) = Some runner \<and> get_key (rc_jobs s) (cl_jobId input) = Some st
     \<and> get_key (rc_attempts s) (cl_attemptId input) = Some a \<and> claim_error runner st a = None"
  by (auto simp: loop_simps)

lemma claim_error_None: "claim_error runner st a = None \<longleftrightarrow> rp_status runner = RunnerActive \<and> rt_jobId a = rj_id (sj_job st)
    \<and> rj_currentAttemptId (sj_job st) = rt_id a \<and> rj_state (sj_job st) = StOffered \<and> rt_state a = StOffered"
  by (auto simp: claim_error_def loop_simps)

lemma claim_commit_progress:
  assumes inv: "rn_inv s" and st: "get_key (rc_jobs s) k = Some st" and a: "get_key (rc_attempts s) (rj_currentAttemptId (sj_job st)) = Some a"
    and r: "get_key (rc_runners s) r = Some runner" and offered: "rt_state a = StOffered" and fresh: "get_key (rc_credentials s) credentialId = None"
  shows "\<exists>st' a'. progresses s k st a st' a' (snd (claim_commit cr credentialId token now runner st a s)) \<and> rt_state a' = StRunning"
proof (intro exI conjI)
  define c where "c = \<lparr>sc_id = credentialId, sc_digest = runner_digest cr (JString token), sc_jobId = rj_id (sj_job st), sc_attemptId = rt_id a,
            sc_runnerId = rp_id runner, sc_expiresAt = rt_leaseExpiresAt a, sc_status = JobCredentialActive\<rparr>"
  define a' where "a' = a\<lparr>rt_runnerId := Some (rp_id runner), rt_state := StRunning, rt_claimedAt := Some now, rt_lastHeartbeatAt := Some now,
            rt_jobCredentialDigest := Some (sc_digest c)\<rparr>"
  define st' where "st' = st\<lparr>sj_job := (sj_job st)\<lparr>rj_state := StRunning, rj_currentRunnerId := Some (rp_id runner),
              rj_networkEnforcement := Some (rp_networkEnforcement runner), rj_networkBoundaryReceipt := Some (rp_networkBoundaryReceipt runner)\<rparr>,
            sj_run := (sj_run st)\<lparr>run_runnerId := rp_id runner, run_status := RunRunning\<rparr>\<rparr>"
  define t where "t = snd (claim_commit cr credentialId token now runner st a s)"
  have ok: "pair_ok (sj_job st) a" "run_ok st a" "rt_jobId a = k" using current_attempt [OF inv st] a by auto
  have runner: "rp_id runner = r" "rp_networkBoundaryReceipt runner \<noteq> []" using inv_runner [OF inv r] by (simp_all add: runner_ok_def)
  have moves: "moves st a st' a'"
    using ok offered runner by (auto simp: moves_def pair_ok_def run_ok_def same_lease_def a'_def st'_def)
  note ids = moves_ids [OF inv st a moves]
  have t_eq: "t = runner_emit (job_event ''runner.job.claimed'' (Some (rp_id runner)) st' a' None None (Some StRunning))
      (set_stored st' (set_attempt a' (set_job_credential c s)))"
    by (simp add: t_def claim_commit_def Let_def c_def a'_def st'_def)
  have t: "rc_jobs t = set_key k st' (rc_jobs s)" "rc_attempts t = set_key (rj_currentAttemptId (sj_job st)) a' (rc_attempts s)" "rc_runners t = rc_runners s"
    "rc_credentials t = set_key credentialId c (rc_credentials s)"
    by (simp_all add: t_eq setter_defs ids) (simp add: c_def)
  have creds: "cred_ok t i x" if new: "get_key (rc_credentials t) i = Some x" for i x
  proof (cases "i = credentialId")
    case True
    with new have "x = c" by (simp add: t)
    moreover have "rj_id (sj_job st) = k" using current_attempt [OF inv st] by auto
    ultimately show ?thesis
      using True moves t ids ok(3) r runner(1) by (auto simp: cred_ok_def c_def a'_def has_key_def moves_def)
  next
    case False
    with new have old: "get_key (rc_credentials s) i = Some x" by (simp add: t)
    show ?thesis by (rule cred_step [OF inv old rn_grows_refl(4) st a moves t(1-3)]) (simp add: a'_def)
  qed
  have "table_grows cred_grows (rc_credentials s) (rc_credentials t)"
    unfolding t(4) using fresh by (intro table_grows_insert) simp_all
  moreover have "distinct_keys (rc_credentials t)" unfolding t(4) using inv_distinct(2) [OF inv] by simp
  moreover have "one_credential (rc_credentials t)"
    unfolding t(4)
  proof (rule one_credential_set [OF inv_one_credential [OF inv]])
    fix i d
    assume "get_key (rc_credentials s) i = Some d" "sc_attemptId d = sc_attemptId c"
    with inv_cred [OF inv this(1)] a ok offered ids(3) show "i = credentialId" by (auto simp: cred_ok_def c_def pair_ok_def)
  qed
  moreover have "rc_projectId t = rc_projectId s" "rc_outputs t = rc_outputs s" "rc_idempotency t = rc_idempotency s"
    "rc_retryIdempotency t = rc_retryIdempotency s" "prefix (rc_events s) (rc_events t)" "numbered (rc_events t)"
    using inv_numbered [OF inv] by (simp_all add: t_eq setter_defs)
  ultimately show "progresses s k st a st' a' (snd (claim_commit cr credentialId token now runner st a s))"
    unfolding progresses_def t_def [symmetric] using st a moves t(1-3) creds by simp
  show "rt_state a' = StRunning" by (simp add: a'_def)
qed

lemma claim_good:
  assumes inv: "rn_inv s" and fresh: "get_key (rc_credentials s) (opaqueId ''runner-job-credential'' uuid) = None"
  shows "rn_good s (snd (claim cr uuid token now input s))"
proof (cases "sum_then (requireRunner s (cl_runnerId input)) (\<lambda>runner. sum_then (requireJob s (cl_jobId input)) (\<lambda>st.
      sum_then (requireAttempt s (cl_attemptId input)) (\<lambda>attempt. sum_then (checked (claim_error runner st attempt)) (\<lambda>_. Inr (runner, st, attempt)))))")
  case (Inl e)
  with inv show ?thesis by (simp add: claim_def)
next
  case (Inr x)
  obtain runner st a where x: "x = (runner, st, a)" by (cases x)
  with Inr have found: "get_key (rc_runners s) (cl_runnerId input) = Some runner" "get_key (rc_jobs s) (cl_jobId input) = Some st"
    "get_key (rc_attempts s) (cl_attemptId input) = Some a" "claim_error runner st a = None"
    by (simp_all add: claim_found)
  then have offered: "rt_state a = StOffered" "rj_currentAttemptId (sj_job st) = rt_id a" by (simp_all add: claim_error_None)
  have "rt_id a = cl_attemptId input" using inv_attempt [OF inv found(3)] by (simp add: attempt_ok_def)
  with offered found(3) have a: "get_key (rc_attempts s) (rj_currentAttemptId (sj_job st)) = Some a" by simp
  have "rn_good s (snd (claim_commit cr (opaqueId ''runner-job-credential'' uuid) token now runner st a s))"
    using claim_commit_progress [OF inv found(2) a found(1) offered(1) fresh] progresses_good [OF inv] by metis
  moreover obtain lease s' where "claim_commit cr (opaqueId ''runner-job-credential'' uuid) token now runner st a s = (lease, s')" by fastforce
  ultimately show ?thesis using Inr x inv by (simp add: claim_def expire_good)
qed

text \<open>Who holds an accepted credential.\<close>

lemma find_credential_Some:
  assumes "rn_inv s" "find_credential cr token s = Some c"
  shows "get_key (rc_credentials s) (jc_id token) = Some c" "sc_digest c = runner_digest cr (JString (jc_token token))" "sc_id c = jc_id token"
proof -
  from find_SomeD [OF assms(2) [unfolded find_credential_def]]
  have c: "c \<in> set (map_values (rc_credentials s))" "sc_id c = jc_id token" "sc_digest c = runner_digest cr (JString (jc_token token))" by auto
  then show "sc_digest c = runner_digest cr (JString (jc_token token))" "sc_id c = jc_id token" by simp_all
  from c(1) obtain i where "get_key (rc_credentials s) i = Some c"
    using jsm.contents_lookup [OF inv_distinct(2) [OF assms(1)]] by blast
  with inv_cred [OF assms(1) this] c(2) show "get_key (rc_credentials s) (jc_id token) = Some c" by (simp add: cred_ok_def)
qed

lemma find_credential_iff:
  assumes "rn_inv s"
  shows "find_credential cr token s = Some c \<longleftrightarrow> get_key (rc_credentials s) (jc_id token) = Some c \<and> sc_digest c = runner_digest cr (JString (jc_token token))"
proof
  assume "get_key (rc_credentials s) (jc_id token) = Some c \<and> sc_digest c = runner_digest cr (JString (jc_token token))"
  then have c: "get_key (rc_credentials s) (jc_id token) = Some c" "sc_digest c = runner_digest cr (JString (jc_token token))" by simp_all
  have "sc_id c = jc_id token" using inv_cred [OF assms c(1)] by (simp add: cred_ok_def)
  moreover have "c \<in> set (map_values (rc_credentials s))" using get_key_mem [OF c(1)] .
  ultimately have "find_credential cr token s \<noteq> None" using c(2) by (auto simp: find_credential_def find_None_iff)
  then obtain c' where "find_credential cr token s = Some c'" by blast
  with find_credential_Some(1) [OF assms this] c(1) show "find_credential cr token s = Some c" by simp
qed (auto dest: find_credential_Some [OF assms])

definition authorized :: "RunnerCrypto \<Rightarrow> int \<Rightarrow> RunnerJobCredential \<Rightarrow> RunnerCoordinator \<Rightarrow> StoredJob \<Rightarrow> RunnerAttempt \<Rightarrow> StoredCredential \<Rightarrow> bool" where
  "authorized cr now token s st a c \<longleftrightarrow> jc_audience token = ''runner-job'' \<and> get_key (rc_credentials s) (jc_id token) = Some c
     \<and> sc_digest c = runner_digest cr (JString (jc_token token)) \<and> sc_status c = JobCredentialActive
     \<and> sc_jobId c = jc_jobId token \<and> sc_attemptId c = jc_attemptId token \<and> sc_runnerId c = jc_runnerId token \<and> \<not> lease_over (sc_expiresAt c) now
     \<and> get_key (rc_jobs s) (jc_jobId token) = Some st \<and> get_key (rc_attempts s) (jc_attemptId token) = Some a"

lemma authorizedD:
  assumes inv: "rn_inv s" and auth: "authorized cr now token s st a c"
  shows "rj_currentAttemptId (sj_job st) = jc_attemptId token" "live_state (rt_state a)" "rt_runnerId a = Some (jc_runnerId token)"
    "rt_leaseExpiresAt a = sc_expiresAt c" "rt_id a = jc_attemptId token" "rt_state a = rj_state (sj_job st)" "rj_id (sj_job st) = jc_jobId token"
    "pair_ok (sj_job st) a" "run_ok st a" "rt_jobId a = jc_jobId token" "has_key (rc_runners s) (jc_runnerId token)"
proof -
  from auth have c: "get_key (rc_credentials s) (jc_id token) = Some c" "sc_status c = JobCredentialActive" "sc_jobId c = jc_jobId token"
    "sc_attemptId c = jc_attemptId token" "sc_runnerId c = jc_runnerId token" "get_key (rc_jobs s) (jc_jobId token) = Some st"
    "get_key (rc_attempts s) (jc_attemptId token) = Some a"
    by (simp_all add: authorized_def)
  with inv_cred [OF inv c(1)] show cur: "rj_currentAttemptId (sj_job st) = jc_attemptId token" and "live_state (rt_state a)"
    and "rt_runnerId a = Some (jc_runnerId token)" and "rt_leaseExpiresAt a = sc_expiresAt c" and "has_key (rc_runners s) (jc_runnerId token)"
    by (auto simp: cred_ok_def)
  from current_attempt [OF inv c(6)] c(7) cur
  show "rt_id a = jc_attemptId token" "rt_state a = rj_state (sj_job st)" "rj_id (sj_job st) = jc_jobId token" "pair_ok (sj_job st) a" "run_ok st a"
    "rt_jobId a = jc_jobId token"
    by (auto simp: pair_ok_def)
qed

lemma authorize_cases:
  assumes "rn_inv s"
  shows "(\<exists>st a c. authorizeCredential cr now token s = (Inr (st, a, c), s) \<and> authorized cr now token s st a c)
    \<or> (\<exists>e t. authorizeCredential cr now token s = (Inl e, t) \<and> (\<nexists>st a c. authorized cr now token s st a c)
         \<and> (t = s \<or> (\<exists>c. get_key (rc_credentials s) (jc_id token) = Some c \<and> t = set_job_credential (c\<lparr>sc_status := JobCredentialRevoked\<rparr>) s)))"
proof (cases "find_credential cr token s")
  case None
  then have "authorizeCredential cr now token s = (Inl (runner_error RnCredentialInvalid (jc_id token)), s)" by (simp add: authorizeCredential_def raise_def)
  moreover have "\<nexists>st a c. authorized cr now token s st a c" using find_credential_iff [OF assms, of cr token] None by (auto simp: authorized_def)
  ultimately show ?thesis by blast
next
  case (Some c)
  then have c: "get_key (rc_credentials s) (jc_id token) = Some c" "sc_digest c = runner_digest cr (JString (jc_token token))"
    by (simp_all add: find_credential_iff [OF assms])
  from inv_cred [OF assms c(1)] obtain a st where found: "get_key (rc_attempts s) (sc_attemptId c) = Some a" "get_key (rc_jobs s) (sc_jobId c) = Some st"
    "rt_runnerId a = Some (sc_runnerId c)" "sc_status c = JobCredentialActive \<Longrightarrow> rj_currentAttemptId (sj_job st) = sc_attemptId c"
    by (auto simp: cred_ok_def)
  have "rt_id a = sc_attemptId c" using inv_attempt [OF assms found(1)] by (simp add: attempt_ok_def)
  with Some c found show ?thesis
    by (auto simp: authorizeCredential_def authorized_def raise_def return_def)
qed

end
