(* ===== verification/Runner_Runs.thy ===== *)
theory Runner_Runs
  imports Runner_Invariant
begin

text \<open>
  The remaining methods keep the invariant, and runs of the coordinator: \<open>rn_ok\<close> says which random identifiers
  are assumed fresh, and the locales \<open>invariant_machine\<close> and \<open>growing_machine\<close> are interpreted on the methods.
\<close>

section \<open>Methods that take a credential\<close>

lemma frame_ok:
  assumes "rc_jobs t = rc_jobs s" "rc_attempts t = rc_attempts s"
  shows "job_ok t = job_ok s" "attempt_ok t = attempt_ok s" "outputs_ok t = outputs_ok s"
  by (intro ext, simp add: job_ok_def chain_ok_def attempt_ok_def outputs_ok_def assms)+

lemma frame_keys:
  "rc_jobs t = rc_jobs s \<Longrightarrow> rc_idempotency t = rc_idempotency s \<Longrightarrow> rc_retryIdempotency t = rc_retryIdempotency s \<Longrightarrow> keys_stored t = keys_stored s"
  by (simp add: keys_stored_def)

lemma revoke_credential_good:
  assumes inv: "rn_inv s" and c: "get_key (rc_credentials s) i = Some c"
  shows "rn_good s (set_job_credential (c\<lparr>sc_status := JobCredentialRevoked\<rparr>) s)" (is "rn_good s ?t")
proof -
  have id: "sc_id c = i" using inv_cred [OF inv c] by (simp add: cred_ok_def)
  have t: "rc_credentials ?t = set_key i (c\<lparr>sc_status := JobCredentialRevoked\<rparr>) (rc_credentials s)" "rc_jobs ?t = rc_jobs s"
    "rc_attempts ?t = rc_attempts s" "rc_runners ?t = rc_runners s" "rc_outputs ?t = rc_outputs s" "rc_idempotency ?t = rc_idempotency s"
    "rc_retryIdempotency ?t = rc_retryIdempotency s" "rc_events ?t = rc_events s" "rc_projectId ?t = rc_projectId s"
    by (simp_all add: set_job_credential_def id)
  have "cred_ok ?t j x" if "get_key (rc_credentials ?t) j = Some x" for j x
    using that inv_cred [OF inv, of j] c unfolding t(1) by (cases "j = i") (auto simp: cred_ok_def t)
  moreover note frame_ok [OF t(2,3)] frame_keys [OF t(2,6,7)]
  moreover have "one_credential (rc_credentials ?t)"
    unfolding t(1) by (rule one_credential_set [OF inv_one_credential [OF inv]])
      (use inv_one_credential [OF inv] c in \<open>auto simp: one_credential_def\<close>)
  ultimately have "rn_inv ?t" using inv t by (simp add: rn_inv_def)
  moreover have "rn_before s ?t"
    using c by (auto simp: rn_before_def t cred_grows_def intro!: table_grows_refl table_grows_update)
  ultimately show ?thesis by (simp add: rn_good_def)
qed

lemma authorize_good: "rn_inv s \<Longrightarrow> rn_good s (snd (authorizeCredential cr now token s))"
  using authorize_cases [of s cr now token] revoke_credential_good [of s] by auto

lemma with_credential_good:
  assumes inv: "rn_inv s" and body: "\<And>st a c. authorized cr now token s st a c \<Longrightarrow> rn_good s (snd (f (st, a, c) s))"
  shows "rn_good s (snd (and_then (authorizeCredential cr now token s) f))"
proof -
  consider st a c where "authorizeCredential cr now token s = (Inr (st, a, c), s)" "authorized cr now token s st a c"
    | e t where "authorizeCredential cr now token s = (Inl e, t)"
    using authorize_cases [OF inv, of cr now token] by blast
  then show ?thesis
  proof cases
    case 1
    with body show ?thesis by simp
  next
    case 2
    with authorize_good [OF inv, of cr now token] show ?thesis by simp
  qed
qed

lemma authorized_found:
  assumes "rn_inv s" "authorized cr now token s st a c"
  shows "get_key (rc_jobs s) (jc_jobId token) = Some st" "get_key (rc_attempts s) (rj_currentAttemptId (sj_job st)) = Some a"
  using authorizedD(1) [OF assms] assms(2) by (simp_all add: authorized_def)

lemma heartbeat_good: "rn_inv s \<Longrightarrow> rn_good s (snd (heartbeat cr now token s))"
  unfolding heartbeat_def
proof (rule with_credential_good, assumption)
  fix st a c
  assume inv: "rn_inv s" and auth: "authorized cr now token s st a c"
  note found = authorized_found [OF inv auth]
  let ?a = "a\<lparr>rt_lastHeartbeatAt := Some now\<rparr>"
  have moves: "moves st a st ?a" and live: "live_state (rt_state a) \<Longrightarrow> live_state (rt_state ?a)"
    using authorizedD [OF inv auth] closed_not_live by (auto simp: moves_def pair_ok_def run_ok_def same_lease_def)
  have same: "set_stored st s' = s'" if "rc_jobs s' = rc_jobs s" for s'
    using found(1) authorizedD(7) [OF inv auth] that by (simp add: set_stored_def set_key_same)
  have "set_stored st (set_attempt ?a (s\<lparr>rc_offers := rc_offers s\<rparr>)) = set_attempt ?a s"
    by (subst same) (simp_all add: set_attempt_def)
  with progress_same [OF inv found moves live, of "job_event ''runner.attempt.heartbeat'' (Some (sc_runnerId c)) st ?a None None None" "rc_offers s"]
  have "rn_good s (runner_emit (job_event ''runner.attempt.heartbeat'' (Some (sc_runnerId c)) st ?a None None None) (set_attempt ?a s))"
    by (metis progresses_good [OF inv])
  with inv show "rn_good s (snd ((\<lambda>(st, attempt, credential) s.
       if rj_state (sj_job st) \<noteq> StRunning \<and> rj_state (sj_job st) \<noteq> StCancelRequested then raise (runner_error RnJobState (rj_id (sj_job st))) s
       else let attempt' = attempt\<lparr>rt_lastHeartbeatAt := Some now\<rparr>
            in return attempt' (runner_emit (job_event ''runner.attempt.heartbeat'' (Some (sc_runnerId credential)) st attempt' None None None) (set_attempt attempt' s)))
       (st, a, c) s))"
    by (simp add: Let_def)
qed

lemma complete_progress:
  assumes inv: "rn_inv s" and auth: "authorized cr now token s st a c" and state: "closed_state state" "run_status run = status_for state None"
    "run_id run = run_id (sj_run st)" "run_attemptId run = run_attemptId (sj_run st)"
  shows "progresses s (jc_jobId token) st a (completed_job state run st) (completed_attempt now' state d a)
     (runner_emit e (set_stored (completed_job state run st) (set_attempt (completed_attempt now' state d a) (revokeAttemptCredentials (rt_id a) s))))"
proof (rule progress_revoked [OF inv authorized_found [OF inv auth]])
  have "status_for state (Some (jc_runnerId token)) = status_for state None"
    using state(1) by (cases state) (simp_all add: closed_state_def closed_states_def)
  with state authorizedD [OF inv auth] closed_not_live show "moves st a (completed_job state run st) (completed_attempt now' state d a)"
    by (auto simp: moves_def pair_ok_def run_ok_def same_lease_def completed_job_def completed_attempt_def)
qed

lemma completed_run_fields [simp]:
  "run_id (completed_run r status d out run) = run_id run" "run_attemptId (completed_run r status d out run) = run_attemptId run"
  "run_status (completed_run r status d out run) = status"
  by (simp_all add: completed_run_def Let_def split: option.split)

lemma completeAttempt_progress:
  assumes "rn_inv s" "authorized cr now token s st a c" "closed_state state" "status = status_for state None"
  shows "progresses s (jc_jobId token) st a (completed_job state (completed_run r status d out (sj_run st)) st) (completed_attempt now' state d a)
     (completeAttempt now' st a r state state status d out s)"
  unfolding completeAttempt_def Let_def by (rule complete_progress [OF assms(1-3)]) (simp_all add: assms(4))

lemma finalize_good: "rn_inv s \<Longrightarrow> rn_good s (snd (finalizeCancellation cr now token out receipt s))"
proof -
  assume inv: "rn_inv s"
  have "rn_good s (snd (and_then (authorizeCredential cr now token s) (\<lambda>(st, attempt, credential) s.
            if rj_state (sj_job st) \<noteq> StCancelRequested \<or> rt_state attempt \<noteq> StCancelRequested then raise (runner_error RnCancellationInvalid (rj_id (sj_job st))) s
            else let s' = completeAttempt now st attempt (sc_runnerId credential) (cancelled_state out) (cancelled_state out) RunIndeterminate
                       (cancellation_digest cr out receipt) None s
                 in case completion s' (rj_id (sj_job st)) (rt_id attempt) of Inl e \<Rightarrow> raise e s' | Inr c \<Rightarrow> return c s')))" (is "rn_good s (snd (and_then _ ?f))")
  proof (rule with_credential_good [OF inv])
    fix st a c
    assume auth: "authorized cr now token s st a c"
    have state: "closed_state (cancelled_state out)" "RunIndeterminate = status_for (cancelled_state out) None" by (simp_all add: cancelled_state_def)
    have "rn_good s (completeAttempt now st a (sc_runnerId c) (cancelled_state out) (cancelled_state out) RunIndeterminate (cancellation_digest cr out receipt) None s)"
      by (rule progresses_good [OF inv completeAttempt_progress [OF inv auth state]])
    with inv show "rn_good s (snd (?f (st, a, c) s))" by (auto simp: Let_def split: sum.split)
  qed
  with inv show ?thesis by (simp add: finalizeCancellation_def split: option.split)
qed

section \<open>Results\<close>

lemma safeLocation_Inr: "safeLocation v f code = Inr l \<longleftrightarrow> \<not> blank v \<and> l = normal_location v \<and> \<not> unsafe_location l \<and> l \<noteq> []"
  by (auto simp: safeLocation_def require_text_def fail_if_def)

lemma output_error_None: "output_error job a out = None \<longleftrightarrow> \<not> blank (ri_location out) \<and> \<not> unsafe_location (normal_location (ri_location out))
    \<and> normal_location (ri_location out) \<noteq> [] \<and> \<not> blank (so_digest out) \<and> \<not> blank (ri_receipt out) \<and> ri_runId out = None \<and> ri_attemptId out = None
    \<and> locationWithin (normal_location (ri_location out)) (expected_location job (so_kind out))
    \<and> disclosureAllows (disc_classification (rj_disclosure job)) (disc_classification (ri_disclosure out))
    \<and> (so_kind out = OutputArtifact \<longrightarrow> includesSub (normal_location (ri_location out)) (rt_id a))"
  by (auto simp: output_error_def loop_simps require_text_def safeLocation_def fail_if_def split: sum.splits)

lemma output_references_Inr:
  "output_references u n st a outs = Inr refs \<longleftrightarrow> length refs = length outs \<and> (\<forall>i<length outs. output_reference (u (n + i)) st a (outs ! i) = Inr (refs ! i))"
proof (induction outs arbitrary: n refs)
  case Nil
  show ?case by auto
next
  case (Cons out outs)
  show ?case (is "?L \<longleftrightarrow> ?R")
  proof
    assume ?L
    then obtain ref refs' where refs: "refs = ref # refs'" "output_reference (u n) st a out = Inr ref" "output_references u (Suc n) st a outs = Inr refs'"
      by (auto simp: loop_simps)
    from refs(3) have "length refs' = length outs \<and> (\<forall>i<length outs. output_reference (u (Suc n + i)) st a (outs ! i) = Inr (refs' ! i))"
      unfolding Cons.IH .
    with refs show ?R by (auto simp: less_Suc_eq_0_disj)
  next
    assume R: ?R
    then obtain ref refs' where refs: "refs = ref # refs'" by (cases refs) auto
    from R have "output_reference (u n) st a out = Inr ref" using refs by fastforce
    moreover have "\<forall>i<length outs. output_reference (u (Suc n + i)) st a (outs ! i) = Inr (refs' ! i)"
      using R unfolding refs by (auto dest!: spec [where x = "Suc i" for i])
    then have "output_references u (Suc n) st a outs = Inr refs'" unfolding Cons.IH using R refs by simp
    ultimately show ?L using refs by simp
  qed
qed

lemma references_of_valid:
  assumes "\<forall>out\<in>set outs. output_error job a out = None"
  shows "\<exists>refs. output_references u n st a outs = Inr refs"
  using assms
proof (induction outs arbitrary: n)
  case (Cons out outs)
  then have "output_reference (u n) st a out \<noteq> Inl e" for e
    by (simp add: output_error_None output_reference_def safeLocation_def require_text_def fail_if_def)
  then obtain ref where "output_reference (u n) st a out = Inr ref" by (cases "output_reference (u n) st a out") auto
  moreover from Cons obtain refs where "output_references u (Suc n) st a outs = Inr refs" by fastforce
  ultimately show ?case by simp
qed simp

lemma references_in_scope:
  assumes "output_references u n st a outs = Inr refs" "\<forall>out\<in>set outs. output_error (sj_job st) a out = None" "ref \<in> set refs"
  shows "ro_attemptId ref = rt_id a \<and> ro_runId ref = run_id (sj_run st) \<and> in_scope (sj_job st) (rt_id a) ref"
proof -
  from assms(3) obtain i where i: "i < length refs" "ref = refs ! i" by (metis in_set_conv_nth)
  with assms(1) have "i < length outs" "output_reference (u (n + i)) st a (outs ! i) = Inr ref" by (auto simp: output_references_Inr)
  moreover from this(1) assms(2) have "output_error (sj_job st) a (outs ! i) = None" by simp
  ultimately show ?thesis by (auto simp: output_reference_def loop_simps safeLocation_Inr output_error_None in_scope_def)
qed

lemma validateOutput_outputs: "validateOutput job a result = None \<Longrightarrow> \<forall>out\<in>set (rslt_outputs result). output_error job a out = None"
  by (auto simp: validateOutput_def Let_def loop_simps split: option.splits)

lemma result_error_outputs: "result_error cr st a c result s = None \<Longrightarrow> validateOutput (sj_job st) a result = None"
  by (auto simp: result_error_def loop_simps split: sum.splits if_splits)

lemma store_outputs_inv:
  assumes inv: "rn_inv s" and ok: "outputs_ok s k refs"
  shows "rn_inv (s\<lparr>rc_outputs := set_key k refs (rc_outputs s)\<rparr>)" (is "rn_inv ?t")
proof -
  have "cred_ok ?t = cred_ok s" by (intro ext) (simp add: cred_ok_def)
  moreover have "job_ok ?t = job_ok s" "attempt_ok ?t = attempt_ok s" "outputs_ok ?t = outputs_ok s" "keys_stored ?t = keys_stored s"
    by (rule frame_ok frame_keys; simp)+
  ultimately show ?thesis using inv ok by (simp add: rn_inv_def)
qed

lemma in_scope_state: "in_scope (job\<lparr>rj_state := x\<rparr>) = in_scope job"
proof -
  have "expected_location (job\<lparr>rj_state := x\<rparr>) kind = expected_location job kind" for kind
    by (simp add: expected_location_def split: RunnerOutputKind.split)
  then show ?thesis by (intro ext) (simp add: in_scope_def)
qed

definition accepted_state :: "RunnerCrypto \<Rightarrow> int \<Rightarrow> StoredJob \<Rightarrow> RunnerAttempt \<Rightarrow> StoredCredential \<Rightarrow> RunnerResult \<Rightarrow> RunnerOutputReference list
    \<Rightarrow> RunnerCoordinator \<Rightarrow> RunnerCoordinator" where
  "accepted_state cr now st a c result refs s = (let s1 = submit_commit cr now st a c result s in s1\<lparr>rc_outputs := set_key (rt_id a) refs (rc_outputs s1)\<rparr>)"

lemma submit_progress:
  assumes "rn_inv s" "authorized cr now token s st a c"
  shows "progresses s (jc_jobId token) st a
    (completed_job (job_state_of (rslt_status result)) (completed_run (sc_runnerId c) (run_status_of (rslt_status result)) (result_digest cr st a result)
        (Some (rslt_output result)) (sj_run st)) st)
    (completed_attempt now (job_state_of (rslt_status result)) (result_digest cr st a result) a) (submit_commit cr now st a c result s)"
  unfolding submit_commit_def by (rule completeAttempt_progress [OF assms]) (cases "rslt_status result"; simp)+

lemma accepted_good:
  assumes inv: "rn_inv s" and auth: "authorized cr now token s st a c" and ok: "validateOutput (sj_job st) a result = None"
    and refs: "output_references u n st a (rslt_outputs result) = Inr refs"
  shows "rn_good s (accepted_state cr now st a c result refs s)"
proof -
  let ?s1 = "submit_commit cr now st a c result s"
  note p = submit_progress [OF inv auth, of result]
  have good: "rn_good s ?s1" by (rule progresses_good [OF inv p])
  note d = authorizedD [OF inv auth]
  let ?st = "completed_job (job_state_of (rslt_status result)) (completed_run (sc_runnerId c) (run_status_of (rslt_status result)) (result_digest cr st a result)
        (Some (rslt_output result)) (sj_run st)) st"
  let ?a = "completed_attempt now (job_state_of (rslt_status result)) (result_digest cr st a result) a"
  have found: "get_key (rc_attempts ?s1) (rt_id a) = Some ?a" "get_key (rc_jobs ?s1) (jc_jobId token) = Some ?st" "rc_outputs ?s1 = rc_outputs s"
    using p d(1,5) by (auto simp: progresses_def)
  have "closed_state (job_state_of (rslt_status result))" by (cases "rslt_status result") simp_all
  moreover have "ro_attemptId ref = rt_id a \<and> ro_runId ref = rt_runId a \<and> in_scope (sj_job st) (rt_id a) ref" if "ref \<in> set refs" for ref
  proof -
    have "rt_runId a = run_id (sj_run st)" using inv_attempt [OF inv authorized_found(2) [OF inv auth]] d(9,10) authorized_found(1) [OF inv auth]
      by (auto simp: attempt_ok_def run_ok_def)
    with references_in_scope [OF refs validateOutput_outputs [OF ok] that] show ?thesis by simp
  qed
  ultimately have "outputs_ok ?s1 (rt_id a) refs"
    using found(1,2) d(10) unfolding outputs_ok_def
    by (intro exI [of _ ?a] exI [of _ ?st]) (auto simp: completed_attempt_def completed_job_def in_scope_state)
  with good have "rn_inv (accepted_state cr now st a c result refs s)" by (simp add: accepted_state_def Let_def rn_good_def store_outputs_inv)
  moreover have "get_key (rc_outputs s) (rt_id a) = None"
  proof (rule ccontr)
    assume "get_key (rc_outputs s) (rt_id a) \<noteq> None"
    then obtain old where "get_key (rc_outputs s) (rt_id a) = Some old" by blast
    from inv_outputs [OF inv this] authorized_found(2) [OF inv auth] d(1,2,5) show False by (auto simp: outputs_ok_def dest: closed_not_live)
  qed
  then have "rn_before ?s1 (accepted_state cr now st a c result refs s)"
    using found(3) by (auto simp: rn_before_def accepted_state_def Let_def intro!: table_grows_refl table_grows_insert)
  ultimately show ?thesis using good by (auto simp: rn_good_def intro: rn_before_trans)
qed

definition accepted_completion :: "RunnerCrypto \<Rightarrow> int \<Rightarrow> StoredJob \<Rightarrow> RunnerAttempt \<Rightarrow> StoredCredential \<Rightarrow> RunnerResult \<Rightarrow> RunnerOutputReference list \<Rightarrow> RunnerProfile
    \<Rightarrow> SignedRunnerCompletion" where
  "accepted_completion cr now st a c result refs runner = (let state = job_state_of (rslt_status result); d = result_digest cr st a result;
       run = completed_run (sc_runnerId c) (run_status_of (rslt_status result)) d (Some (rslt_output result)) (sj_run st) in
     \<lparr>rcp_job = sj_job (completed_job state run st), rcp_attempt = completed_attempt now state d a, rcp_run = run, rcp_outputs = refs,
      rcp_resultDigest = Some d, rcp_result = result, rcp_runnerProfile = runner\<rparr>)"

text \<open>Once the checks pass, the Result is accepted: no later step can throw.\<close>

lemma submit_accepts:
  assumes inv: "rn_inv s" and auth: "authorized cr now token s st a c"
    and ok: "submit_state_error st = None" "result_error cr st a c result s = None"
  shows "\<exists>refs runner. output_references u 0 st a (rslt_outputs result) = Inr refs \<and> get_key (rc_runners s) (sc_runnerId c) = Some runner
    \<and> submit_result cr u now token result s = return (accepted_completion cr now st a c result refs runner) (accepted_state cr now st a c result refs s)"
proof -
  from references_of_valid [OF validateOutput_outputs [OF result_error_outputs [OF ok(2)]]]
  obtain refs where refs: "output_references u 0 st a (rslt_outputs result) = Inr refs" by blast
  have "sc_runnerId c = jc_runnerId token" using auth by (simp add: authorized_def)
  with authorizedD(11) [OF inv auth] obtain runner where runner: "get_key (rc_runners s) (sc_runnerId c) = Some runner" by (auto simp: has_key_def)
  have auth': "authorizeCredential cr now token s = (Inr (st, a, c), s)"
    using authorize_cases [OF inv, of cr now token] auth by (auto simp: authorized_def)
  note p = submit_progress [OF inv auth, of result]
  note d = authorizedD [OF inv auth]
  have found: "get_key (rc_attempts (accepted_state cr now st a c result refs s)) (rt_id a)
        = Some (completed_attempt now (job_state_of (rslt_status result)) (result_digest cr st a result) a)"
    "get_key (rc_jobs (accepted_state cr now st a c result refs s)) (rj_id (sj_job st)) = Some (completed_job (job_state_of (rslt_status result))
        (completed_run (sc_runnerId c) (run_status_of (rslt_status result)) (result_digest cr st a result) (Some (rslt_output result)) (sj_run st)) st)"
    "get_key (rc_runners (accepted_state cr now st a c result refs s)) (sc_runnerId c) = Some runner"
    "get_key (rc_outputs (accepted_state cr now st a c result refs s)) (rt_id a) = Some refs"
    using p d(1,5,7) runner by (simp_all add: progresses_def accepted_state_def Let_def)
  have "rt_resultDigest (completed_attempt now state dg a) = Some dg" "sj_run (completed_job state run st) = run" for state dg run
    by (simp_all add: completed_attempt_def completed_job_def)
  then show ?thesis
    using auth' ok refs runner found
    by (simp add: submit_result_def accepted_state_def [unfolded Let_def, symmetric] completion_def accepted_completion_def Let_def RunnerCompletion.extend_def SignedRunnerCompletion.fields_def)
qed

lemma submit_good: "rn_inv s \<Longrightarrow> rn_good s (snd (submit_result cr u now token result s))"
proof -
  assume inv: "rn_inv s"
  consider st a c where "authorizeCredential cr now token s = (Inr (st, a, c), s)" "authorized cr now token s st a c"
    | e t where "authorizeCredential cr now token s = (Inl e, t)"
    using authorize_cases [OF inv, of cr now token] by blast
  then show ?thesis
  proof cases
    case 1
    show ?thesis
    proof (cases "or_else (submit_state_error st) (result_error cr st a c result s)")
      case None
      then have ok: "submit_state_error st = None" "result_error cr st a c result s = None" by (simp_all add: loop_simps)
      from submit_accepts [OF inv 1(2) ok, of u] obtain refs runner where refs: "output_references u 0 st a (rslt_outputs result) = Inr refs"
        and eq: "submit_result cr u now token result s = return (accepted_completion cr now st a c result refs runner) (accepted_state cr now st a c result refs s)"
        by blast
      from accepted_good [OF inv 1(2) result_error_outputs [OF ok(2)] refs] show ?thesis by (simp add: eq)
    next
      case (Some e)
      with 1 inv show ?thesis by (simp add: submit_result_def)
    qed
  next
    case 2
    with authorize_good [OF inv, of cr now token] show ?thesis by (simp add: submit_result_def)
  qed
qed

section \<open>Cancellation and Runners that fail\<close>

lemma progress_plain:
  assumes "rn_inv s" "get_key (rc_jobs s) k = Some st" "get_key (rc_attempts s) (rj_currentAttemptId (sj_job st)) = Some a"
    and "moves st a st' a'" "live_state (rt_state a) \<Longrightarrow> live_state (rt_state a')"
  shows "progresses s k st a st' a' (runner_emit e (set_stored st' (set_attempt a' s)))"
  using progress_same [OF assms(1-5), of e "rc_offers s"] by simp

lemma requestCancellation_good:
  assumes inv: "rn_inv s"
  shows "rn_good s (snd (requestCancellation jobId actor reason s))"
proof (cases "sum_then (checked (require_text reason ''reason'')) (\<lambda>_. sum_then (requireJob s jobId) (\<lambda>st.
      sum_then (requireAttempt s (rj_currentAttemptId (sj_job st))) (\<lambda>attempt. Inr (st, attempt))))")
  case (Inl e)
  with inv show ?thesis by (simp add: requestCancellation_def)
next
  case (Inr x)
  obtain st a where x: "x = (st, a)" by (cases x)
  with Inr have found: "get_key (rc_jobs s) jobId = Some st" "get_key (rc_attempts s) (rj_currentAttemptId (sj_job st)) = Some a"
    by (auto simp: loop_simps)
  let ?a = "a\<lparr>rt_state := StCancelRequested\<rparr>"
  let ?st = "st\<lparr>sj_job := (sj_job st)\<lparr>rj_state := StCancelRequested\<rparr>\<rparr>"
  have ok: "pair_ok (sj_job st) a" "run_ok st a" using current_attempt [OF inv found(1)] found(2) by auto
  have "rn_good s (runner_emit e (set_stored ?st (set_attempt ?a s)))" if "rj_state (sj_job st) \<in> set [StRunning, StOffered, StClaimed]" for e
  proof (rule progresses_good [OF inv progress_plain [OF inv found]])
    show "moves st a ?st ?a" using ok that by (auto simp: moves_def pair_ok_def run_ok_def same_lease_def)
  qed simp
  with Inr x inv show ?thesis by (auto simp: requestCancellation_def Let_def)
qed

lemma stop_commit_progress:
  assumes inv: "rn_inv s" and st: "get_key (rc_jobs s) k = Some st" "rj_state (sj_job st) \<in> set live_states"
    and a: "get_key (rc_attempts s) (rj_currentAttemptId (sj_job st)) = Some a" and state: "state = StIndeterminate \<or> state = StQuarantined"
  shows "\<exists>st' a'. progresses s k st a st' a' (stop_commit now state typ r st a s)"
proof (intro exI)
  let ?a = "a\<lparr>rt_state := state, rt_completedAt := Some now\<rparr>"
  let ?st = "st\<lparr>sj_job := (sj_job st)\<lparr>rj_state := state\<rparr>, sj_run := (sj_run st)\<lparr>run_status := RunIndeterminate\<rparr>\<rparr>"
  have "pair_ok (sj_job st) a" "run_ok st a" using current_attempt [OF inv st(1)] a by auto
  then have "moves st a ?st ?a" using st(2) state by (auto simp: live_states_def moves_def pair_ok_def run_ok_def same_lease_def)
  then show "progresses s k st a ?st ?a (stop_commit now state typ r st a s)"
    unfolding stop_commit_def Let_def by (rule progress_revoked [OF inv st(1) a])
qed

text \<open>The loops never throw, and leave no live or offered Job of the Runner.\<close>

lemma stop_jobs_good:
  assumes "rn_inv s" and "state = StIndeterminate \<or> state = StQuarantined"
  shows "rn_good s (snd (stop_jobs now state typ r ks s)) \<and> fst (stop_jobs now state typ r ks s) = Inr ()"
  using assms(1)
proof (induction ks arbitrary: s)
  case (Cons k ks)
  note inv = Cons.prems
  show ?case
  proof (cases "\<exists>st. get_key (rc_jobs s) k = Some st \<and> rj_currentRunnerId (sj_job st) = Some r \<and> rj_state (sj_job st) \<in> set live_states")
    case True
    then obtain st where st: "get_key (rc_jobs s) k = Some st" "rj_currentRunnerId (sj_job st) = Some r" "rj_state (sj_job st) \<in> set live_states" by blast
    from current_attempt [OF inv st(1)] obtain a where a: "get_key (rc_attempts s) (rj_currentAttemptId (sj_job st)) = Some a" by blast
    have good: "rn_good s (stop_commit now state typ r st a s)"
      using stop_commit_progress [OF inv st(1,3) a assms(2)] progresses_good [OF inv] by blast
    then have "rn_inv (stop_commit now state typ r st a s)" by (simp add: rn_good_def)
    from Cons.IH [OF this] good st a show ?thesis by (auto intro: good_trans)
  next
    case False
    then have "stop_jobs now state typ r (k # ks) s = stop_jobs now state typ r ks s" by (auto split: option.split)
    with Cons.IH [OF inv] show ?thesis by simp
  qed
qed simp

lemma runner_write_good:
  assumes inv: "rn_inv s" and old: "\<And>r'. get_key (rc_runners s) (rp_id r) = Some r' \<Longrightarrow> same_runner r' r" and ok: "runner_ok (rp_id r) r"
  shows "rn_good s (runner_emit e (set_runner r s))"
proof -
  define t where "t = runner_emit e (set_runner r s)"
  have t: "rc_runners t = set_key (rp_id r) r (rc_runners s)" "rc_jobs t = rc_jobs s" "rc_attempts t = rc_attempts s" "rc_credentials t = rc_credentials s"
    "rc_outputs t = rc_outputs s" "rc_idempotency t = rc_idempotency s" "rc_retryIdempotency t = rc_retryIdempotency s" "rc_projectId t = rc_projectId s"
    "numbered (rc_events t)" "prefix (rc_events s) (rc_events t)"
    using inv_numbered [OF inv] by (simp_all add: t_def set_runner_def)
  have creds: "cred_ok s i c \<Longrightarrow> cred_ok t i c" for i c by (auto simp: cred_ok_def t has_key_def)
  have "rn_inv t"
    using inv ok creds t(9) unfolding rn_inv_def frame_ok [OF t(2,3)] frame_keys [OF t(2,6,7)] t(1-5) by simp
  moreover have "rn_before s t"
    unfolding rn_before_def t using t(10) old by (auto intro!: table_grows_refl table_grows_update)
  ultimately show ?thesis by (simp add: rn_good_def t_def)
qed

lemma change_runner_good:
  assumes inv: "rn_inv s" and r: "get_key (rc_runners s) k = Some runner"
  shows "rn_good s (change_runner status typ actor runner s)"
proof -
  have ok: "runner_ok k runner" by (rule inv_runner [OF inv r])
  show ?thesis
    unfolding change_runner_def using r ok
    by (intro runner_write_good [OF inv]) (auto simp: runner_ok_def same_runner_def)
qed

lemma stop_runner_good:
  assumes inv: "rn_inv s" and state: "state = StIndeterminate \<or> state = StQuarantined"
  shows "rn_good s (snd (stop_runner status typ state job_typ now runnerId actor reason s))"
proof (cases "sum_then (checked (require_text reason ''reason'')) (\<lambda>_. requireRunner s runnerId)")
  case (Inl e)
  with inv show ?thesis by (simp add: stop_runner_def)
next
  case (Inr runner)
  then have r: "get_key (rc_runners s) runnerId = Some runner" by (auto simp: loop_simps)
  let ?s = "change_runner status typ actor runner s"
  have good: "rn_good s ?s" by (rule change_runner_good [OF inv r])
  then have "rn_inv ?s" by (simp add: rn_good_def)
  from stop_jobs_good [OF this state, of now job_typ "rp_id runner" "map_keys (rc_jobs s)"]
  obtain t where "stop_jobs now state job_typ (rp_id runner) (map_keys (rc_jobs s)) ?s = (Inr (), t)" "rn_good ?s t"
    by (metis prod.collapse)
  with Inr good show ?thesis by (auto simp: stop_runner_def intro: good_trans)
qed

lemma activate_good: "rn_inv s \<Longrightarrow> rn_good s (snd (activateRunner r actor s))"
  and disable_good: "rn_inv s \<Longrightarrow> rn_good s (snd (disableRunner r actor reason s))"
  by (auto simp: activateRunner_def disableRunner_def requireRunner_def change_runner_good split: option.split)

lemma enroll_error_None: "enroll_error cr input s = None \<Longrightarrow> \<not> has_key (rc_runners s) (re_id input) \<and> re_networkBoundaryReceipt input \<noteq> []
    \<and> (re_networkDestinations input = [] \<longleftrightarrow> re_networkEnforcement input = DenyAll)"
  by (auto simp: enroll_error_def loop_simps)

lemma enroll_good:
  assumes "rn_inv s"
  shows "rn_good s (snd (enrollRunner cr input s))"
proof (cases "enroll_error cr input s")
  case None
  then have "rn_good s (runner_emit e (set_runner (new_profile input s) s))" for e
    using enroll_error_None [OF None] by (intro runner_write_good [OF assms]) (auto simp: new_profile_def runner_ok_def has_key_def)
  with None show ?thesis by (simp add: enrollRunner_def Let_def)
next
  case (Some e)
  with assms show ?thesis by (simp add: enrollRunner_def)
qed

section \<open>A fresh Attempt\<close>

text \<open>\<open>enqueue\<close> adds a Job with its first Attempt, \<open>retry\<close> an Attempt to a closed Job.\<close>

definition attaches :: "RunnerCoordinator \<Rightarrow> string \<Rightarrow> StoredJob \<Rightarrow> string \<Rightarrow> RunnerAttempt \<Rightarrow> RunnerCoordinator \<Rightarrow> bool" where
  "attaches s k st' aid a' t \<longleftrightarrow> get_key (rc_attempts s) aid = None \<and> rc_jobs t = set_key k st' (rc_jobs s) \<and> rc_attempts t = set_key aid a' (rc_attempts s)
     \<and> rc_runners t = rc_runners s \<and> rc_credentials t = rc_credentials s \<and> rc_outputs t = rc_outputs s \<and> rc_projectId t = rc_projectId s
     \<and> prefix (rc_events s) (rc_events t) \<and> numbered (rc_events t)
     \<and> (\<forall>st. get_key (rc_jobs s) k = Some st \<longrightarrow> same_manifest (sj_job st) (sj_job st') \<and> sj_requestDigest st' = sj_requestDigest st
          \<and> prefix (rj_attemptIds (sj_job st)) (rj_attemptIds (sj_job st')) \<and> rj_state (sj_job st) \<in> set retriable_states)"

lemma attaches_good:
  assumes inv: "rn_inv s" and att: "attaches s k st' aid a' t" and job: "job_ok t k st'" and attempt: "attempt_ok t aid a'"
    and keys: "keys_stored t" "table_grows (=) (rc_idempotency s) (rc_idempotency t)" "table_grows (=) (rc_retryIdempotency s) (rc_retryIdempotency t)"
  shows "rn_good s t"
proof -
  have fresh: "get_key (rc_attempts s) aid = None"
    and t: "rc_jobs t = set_key k st' (rc_jobs s)" "rc_attempts t = set_key aid a' (rc_attempts s)" "rc_runners t = rc_runners s"
      "rc_credentials t = rc_credentials s" "rc_outputs t = rc_outputs s" "rc_projectId t = rc_projectId s"
    and events: "prefix (rc_events s) (rc_events t)" "numbered (rc_events t)"
    using att by (simp_all add: attaches_def)
  have old: "same_manifest (sj_job st) (sj_job st')" "sj_requestDigest st' = sj_requestDigest st"
    "prefix (rj_attemptIds (sj_job st)) (rj_attemptIds (sj_job st'))" "rj_state (sj_job st) \<in> set retriable_states"
    if "get_key (rc_jobs s) k = Some st" for st
    using att that by (simp_all add: attaches_def)
  have attempts: "get_key (rc_attempts t) i = Some b" if "get_key (rc_attempts s) i = Some b" for i b
    using that fresh t(2) by (cases "i = aid") auto
  have jobs: "\<exists>y. get_key (rc_jobs t) j = Some y \<and> same_manifest (sj_job x) (sj_job y) \<and> prefix (rj_attemptIds (sj_job x)) (rj_attemptIds (sj_job y))
      \<and> (j \<noteq> k \<longrightarrow> y = x)" if "get_key (rc_jobs s) j = Some x" for j x
    using that old t(1) by (cases "j = k") auto
  have "job_ok t j x" if new: "get_key (rc_jobs t) j = Some x" for j x
  proof (cases "j = k")
    case True
    with new t(1) job show ?thesis by simp
  next
    case False
    with new t(1) have "get_key (rc_jobs s) j = Some x" by simp
    from inv_job [OF inv this] have ok: "job_ok s j x" .
    then have "chain_ok t (sj_job x)" using attempts by (fastforce simp: job_ok_def chain_ok_def)
    with ok attempts show ?thesis by (auto simp: job_ok_def)
  qed
  moreover have "attempt_ok t i b" if new: "get_key (rc_attempts t) i = Some b" for i b
  proof (cases "i = aid")
    case True
    with new t(2) attempt show ?thesis by simp
  next
    case False
    with new t(2) have "get_key (rc_attempts s) i = Some b" by simp
    from inv_attempt [OF inv this] obtain x where x: "get_key (rc_jobs s) (rt_jobId b) = Some x" "i \<in> set (rj_attemptIds (sj_job x))"
      "rt_runId b = rj_runId (sj_job x)" "rt_id b = i" "ts_time (rt_leaseExpiresAt b) \<noteq> None" by (auto simp: attempt_ok_def)
    from jobs [OF x(1)] obtain y where y: "get_key (rc_jobs t) (rt_jobId b) = Some y" "same_manifest (sj_job x) (sj_job y)"
      "prefix (rj_attemptIds (sj_job x)) (rj_attemptIds (sj_job y))" by blast
    from set_mono_prefix [OF y(3)] x(2) have "i \<in> set (rj_attemptIds (sj_job y))" by blast
    with x y(1) same_manifestD(2) [OF y(2)] show ?thesis by (simp add: attempt_ok_def)
  qed
  moreover have "cred_ok t i c" if new: "get_key (rc_credentials t) i = Some c" for i c
  proof -
    from new t(4) have "get_key (rc_credentials s) i = Some c" by simp
    from inv_cred [OF inv this] obtain b x where x: "get_key (rc_attempts s) (sc_attemptId c) = Some b" "get_key (rc_jobs s) (sc_jobId c) = Some x"
      "rt_jobId b = sc_jobId c" "rt_runnerId b = Some (sc_runnerId c)" "rt_leaseExpiresAt b = sc_expiresAt c" "rt_jobCredentialDigest b = Some (sc_digest c)"
      "sc_status c = JobCredentialActive \<Longrightarrow> rj_currentAttemptId (sj_job x) = sc_attemptId c \<and> live_state (rt_state b)"
      "sc_id c = i" "has_key (rc_runners s) (sc_runnerId c)" by (auto simp: cred_ok_def)
    have "sc_jobId c \<noteq> k" if active: "sc_status c = JobCredentialActive"
    proof
      assume k: "sc_jobId c = k"
      from x(1,7) active have "live_state (rt_state b)" "rj_currentAttemptId (sj_job x) = sc_attemptId c" by simp_all
      moreover from this(2) current_attempt [OF inv x(2)] x(1) have "rt_state b = rj_state (sj_job x)" by (auto simp: pair_ok_def)
      moreover have "rj_state (sj_job x) \<in> set retriable_states" using old(4) x(2) k by simp
      ultimately show False using retriable_closed closed_not_live by metis
    qed
    with jobs [OF x(2)] attempts [OF x(1)] x(3-) t(3) show ?thesis by (auto simp: cred_ok_def)
  qed
  moreover have "outputs_ok t i refs" if new: "get_key (rc_outputs t) i = Some refs" for i refs
  proof -
    from new t(5) have "get_key (rc_outputs s) i = Some refs" by simp
    from inv_outputs [OF inv this] obtain b x where b: "get_key (rc_attempts s) i = Some b" "get_key (rc_jobs s) (rt_jobId b) = Some x" "closed_state (rt_state b)"
      "\<forall>ref\<in>set refs. ro_attemptId ref = i \<and> ro_runId ref = rt_runId b \<and> in_scope (sj_job x) i ref" by (auto simp: outputs_ok_def)
    from jobs [OF b(2)] obtain y where y: "get_key (rc_jobs t) (rt_jobId b) = Some y" "same_manifest (sj_job x) (sj_job y)" by blast
    have "in_scope (sj_job y) = in_scope (sj_job x)"
      by (intro ext) (simp add: in_scope_def expected_location_def same_manifestD [OF y(2)] split: RunnerOutputKind.split)
    with y b attempts [OF b(1)] show ?thesis by (auto simp: outputs_ok_def)
  qed
  ultimately have "rn_inv t" using inv keys(1) events(2) t by (simp add: rn_inv_def)
  moreover have "rn_before s t"
    using keys(2,3) events(1) fresh old unfolding rn_before_def t
    by (auto intro!: table_grows_refl table_grows_insert table_grows_update simp: job_grows_def retriable_states_def)
  ultimately show ?thesis by (simp add: rn_good_def)
qed

lemma stored_job_nonempty: "rn_inv s \<Longrightarrow> get_key (rc_jobs s) j = Some st \<Longrightarrow> keep_truthy (Some j) = Some j"
  by (auto simp: keep_truthy_def dest: inv_job job_okD(3))

lemma stored_key_nonempty: "rn_inv s \<Longrightarrow> get_key (rc_idempotency s) key = Some j \<Longrightarrow> keep_truthy (Some j) = Some j"
  and stored_retry_nonempty: "rn_inv s \<Longrightarrow> get_key (rc_retryIdempotency s) key = Some j \<Longrightarrow> keep_truthy (Some j) = Some j"
  using inv_keys [of s] stored_job_nonempty [of s] unfolding keys_stored_def has_key_def by (metis option.exhaust)+

lemma unused_key: "rn_inv s \<Longrightarrow> keep_truthy (get_key (rc_idempotency s) key) = None \<longleftrightarrow> get_key (rc_idempotency s) key = None"
  and unused_retry_key: "rn_inv s \<Longrightarrow> keep_truthy (get_key (rc_retryIdempotency s) key) = None \<longleftrightarrow> get_key (rc_retryIdempotency s) key = None"
  using stored_key_nonempty stored_retry_nonempty by (metis keep_truthy_def option.distinct(1) option.exhaust)+

lemma futureTimestamp_None: "futureTimestamp t now f = None \<longleftrightarrow> (\<exists>n. ts_time t = Some n \<and> now < n)"
  by (auto simp: futureTimestamp_def fail_if_def lease_over_def)

lemma retry_commit_good:
  assumes inv: "rn_inv s" and st: "get_key (rc_jobs s) (ret_jobId input) = Some st" "retry_error now input st = None"
    and fresh: "get_key (rc_attempts s) aid = None" and key: "get_key (rc_retryIdempotency s) (ret_idempotencyKey input) = None"
  shows "rn_good s (snd (retry_commit aid input st s))"
proof -
  define k where "k = ret_jobId input"
  define a' where "a' = new_attempt aid (rj_id (sj_job st)) (run_id (sj_run st)) (ret_leaseExpiresAt input)"
  define st' where "st' = st\<lparr>sj_job := (sj_job st)\<lparr>rj_attemptIds := rj_attemptIds (sj_job st) @ [aid], rj_currentAttemptId := aid,
              rj_currentRunnerId := None, rj_state := StQueued\<rparr>,
            sj_run := (sj_run st)\<lparr>run_runnerId := ''runner:unassigned'', run_status := RunQueued, run_attemptId := Some aid\<rparr>\<rparr>"
  define t where "t = snd (retry_commit aid input st s)"
  have st': "rj_attemptIds (sj_job st') = rj_attemptIds (sj_job st) @ [aid]" "rj_currentAttemptId (sj_job st') = aid" "same_manifest (sj_job st) (sj_job st')"
    "rj_currentRunnerId (sj_job st') = None" "rj_state (sj_job st') = StQueued" "run_status (sj_run st') = RunQueued" "run_attemptId (sj_run st') = Some aid"
    "run_id (sj_run st') = run_id (sj_run st)" "sj_requestDigest st' = sj_requestDigest st"
    by (simp_all add: st'_def)
  have a': "rt_id a' = aid" "rt_jobId a' = rj_id (sj_job st)" "rt_state a' = StQueued" "rt_runnerId a' = None" "rt_runId a' = run_id (sj_run st)"
    "rt_leaseExpiresAt a' = ret_leaseExpiresAt input"
    by (simp_all add: a'_def new_attempt_def)
  have found: "get_key (rc_jobs s) k = Some st" using st(1) by (simp add: k_def)
  from inv_job [OF inv found] have ok: "job_ok s k st" .
  note okD = job_okD [OF ok]
  from current_attempt [OF inv found] obtain a where a: "get_key (rc_attempts s) (rj_currentAttemptId (sj_job st)) = Some a" "pair_ok (sj_job st) a" "run_ok st a"
    by blast
  have state: "rj_state (sj_job st) \<in> set retriable_states" and lease: "ts_time (ret_leaseExpiresAt input) \<noteq> None"
    using st(2) by (auto simp: retry_error_def loop_simps futureTimestamp_None)
  have t: "rc_jobs t = set_key k st' (rc_jobs s)" "rc_attempts t = set_key aid a' (rc_attempts s)" "rc_runners t = rc_runners s" "rc_credentials t = rc_credentials s"
    "rc_outputs t = rc_outputs s" "rc_projectId t = rc_projectId s" "rc_idempotency t = rc_idempotency s"
    "rc_retryIdempotency t = set_key (ret_idempotencyKey input) k (rc_retryIdempotency s)" "prefix (rc_events s) (rc_events t)" "numbered (rc_events t)"
    using inv_numbered [OF inv] okD(1) by (simp_all add: t_def retry_commit_def Let_def setter_defs a'_def st'_def new_attempt_def)
  note man = same_manifestD [OF st'(3)]
  have "chain_ok t (sj_job st')"
  proof -
    have old: "x \<noteq> aid \<and> (\<exists>b. get_key (rc_attempts s) x = Some b \<and> rt_jobId b = rj_id (sj_job st) \<and> rt_state b \<in> set retriable_states)"
      if x: "x \<in> set (rj_attemptIds (sj_job st))" for x
    proof -
      from okD(2) x obtain b where b: "get_key (rc_attempts s) x = Some b" "rt_jobId b = rj_id (sj_job st)"
        "x \<noteq> rj_currentAttemptId (sj_job st) \<Longrightarrow> rt_state b \<in> set retriable_states" by (fastforce simp: chain_ok_def)
      have "rt_state b \<in> set retriable_states"
        using b a state by (cases "x = rj_currentAttemptId (sj_job st)") (auto simp: pair_ok_def)
      with b fresh show ?thesis by auto
    qed
    have "distinct (rj_attemptIds (sj_job st) @ [aid])" using okD(2) old by (auto simp: chain_ok_def)
    moreover have "\<exists>b. get_key (rc_attempts t) x = Some b \<and> rt_jobId b = rj_id (sj_job st) \<and> (x \<noteq> aid \<longrightarrow> rt_state b \<in> set retriable_states)"
      if "x \<in> set (rj_attemptIds (sj_job st) @ [aid])" for x
      using old [of x] that t(2) a'(2) by (cases "x = aid") auto
    ultimately show ?thesis unfolding chain_ok_def st'(1,2) man(1) by simp
  qed
  moreover have "pair_ok (sj_job st') a'" "run_ok st' a'" using st' a' a(3) man(2) by (simp_all add: pair_ok_def run_ok_def)
  ultimately have job: "job_ok t k st'"
    using okD(1,3,4) ok st' man t(2) by (simp add: job_ok_def cong: option.case_cong)
  have attempt: "attempt_ok t aid a'" using a' lease t(1) okD(1) st'(1) a(3) man(2) by (simp add: attempt_ok_def run_ok_def)
  have "attaches s k st' aid a' t" using fresh t found st' state by (simp add: attaches_def)
  moreover have "keys_stored t" using inv_keys [OF inv] t found man(7) by (fastforce simp: keys_stored_def has_key_def)
  moreover have "table_grows (=) (rc_idempotency s) (rc_idempotency t)" unfolding t by (rule table_grows_refl) simp
  moreover have "table_grows (=) (rc_retryIdempotency s) (rc_retryIdempotency t)" unfolding t using key by (intro table_grows_insert) simp_all
  ultimately show ?thesis unfolding t_def [symmetric] using attaches_good [OF inv _ job attempt] by blast
qed

lemma retry_good:
  assumes inv: "rn_inv s" and fresh: "get_key (rc_attempts s) (opaqueId ''runner-attempt'' uuid) = None"
  shows "rn_good s (snd (retry uuid now input s))"
proof -
  have "rn_good s (snd (case sum_then (requireJob s (ret_jobId input)) (\<lambda>st. sum_then (checked (retry_error now input st)) (\<lambda>_.
                     sum_then (requireAttempt s (rj_currentAttemptId (sj_job st))) (\<lambda>_. Inr st))) of
                  Inl e \<Rightarrow> raise e s
                | Inr st \<Rightarrow> let (v, s') = retry_commit (opaqueId ''runner-attempt'' uuid) input st s in return v s'))" (is "rn_good s (snd (case ?x of Inl e \<Rightarrow> _ e | Inr st \<Rightarrow> _ st))")
    if "keep_truthy (get_key (rc_retryIdempotency s) (ret_idempotencyKey input)) = None"
  proof (cases ?x)
    case (Inl e)
    with inv show ?thesis by simp
  next
    case (Inr st)
    then have "get_key (rc_jobs s) (ret_jobId input) = Some st" "retry_error now input st = None" by (auto simp: loop_simps)
    then have good: "rn_good s (snd (retry_commit (opaqueId ''runner-attempt'' uuid) input st s))"
      using retry_commit_good [OF inv _ _ fresh] that by (simp add: unused_retry_key [OF inv])
    moreover obtain v s' where "retry_commit (opaqueId ''runner-attempt'' uuid) input st s = (v, s')" by fastforce
    ultimately show ?thesis by (simp add: Inr)
  qed
  with inv show ?thesis by (auto simp: retry_def split: option.split sum.split)
qed

section \<open>Enqueue\<close>

lemma enqueue_prepared_Inr:
  "enqueue_prepared cr input = Inr (contract, aliases, locations, d) \<longleftrightarrow> \<not> blank (xr_idempotencyKey input)
     \<and> aliases = nullish (xr_secretUseAliases input) [] \<and> distinct aliases \<and> normalizeOutputLocations (xr_outputLocations input) = Inr locations
     \<and> parsed_contract (nai_action (xr_actionInput input)) = Inr contract
     \<and> d = runnerInputManifestDigest cr (xr_actionInput input) (xr_runnerRequirements input) aliases locations"
  by (auto simp: enqueue_prepared_def Let_def loop_simps require_text_def require_unique_def)

lemma parsed_contract_ok: "parsed_contract action = Inr (Some c) \<Longrightarrow> contract_ok (Some (act_outputPaths action)) c"
  by (auto simp: parsed_contract_def split: option.splits sum.splits dest: parse_contract_ok)

lemma enqueue_error_lease: "enqueue_error now input runId = None \<Longrightarrow> \<exists>n. ts_time (xr_leaseExpiresAt input) = Some n \<and> now < n"
  by (auto simp: enqueue_error_def Let_def loop_simps futureTimestamp_None)

text \<open>The fields of the new records the invariant is about.\<close>

lemma new_job_fields [simp]:
  "rj_id (new_job now input contract aliases locations d p jobId runId aid) = jobId"
  "rj_runId (new_job now input contract aliases locations d p jobId runId aid) = runId"
  "rj_state (new_job now input contract aliases locations d p jobId runId aid) = StQueued"
  "rj_attemptIds (new_job now input contract aliases locations d p jobId runId aid) = [aid]"
  "rj_currentAttemptId (new_job now input contract aliases locations d p jobId runId aid) = aid"
  "rj_currentRunnerId (new_job now input contract aliases locations d p jobId runId aid) = None"
  "rj_inputManifestDigest (new_job now input contract aliases locations d p jobId runId aid) = d"
  "rj_artifactOutputContract (new_job now input contract aliases locations d p jobId runId aid) = contract"
  "rj_outputPaths (new_job now input contract aliases locations d p jobId runId aid) = act_outputPaths (nai_action (xr_actionInput input))"
  "rj_idempotencyKey (new_job now input contract aliases locations d p jobId runId aid) = xr_idempotencyKey input"
  "run_id (new_run i contract runId aid) = runId" "run_attemptId (new_run i contract runId aid) = Some aid" "run_status (new_run i contract runId aid) = RunQueued"
  by (simp_all add: new_job_def new_run_def Let_def)

lemma new_attempt_fields [simp]:
  "rt_id (new_attempt aid jobId runId lease) = aid" "rt_jobId (new_attempt aid jobId runId lease) = jobId" "rt_runId (new_attempt aid jobId runId lease) = runId"
  "rt_state (new_attempt aid jobId runId lease) = StQueued" "rt_runnerId (new_attempt aid jobId runId lease) = None"
  "rt_leaseExpiresAt (new_attempt aid jobId runId lease) = lease"
  by (simp_all add: new_attempt_def)

definition fresh_job :: "RunnerCrypto \<Rightarrow> (nat \<Rightarrow> string) \<Rightarrow> int \<Rightarrow> ExternalRunRequest \<Rightarrow> RunnerCoordinator \<Rightarrow> ActionArtifactOutputContract option \<Rightarrow> string list
    \<Rightarrow> RunnerOutputLocations \<Rightarrow> string \<Rightarrow> StoredJob" where
  "fresh_job cr u now input s contract aliases locations d =
     (let runId = nullish (xr_runId input) (opaqueId ''run'' (u 0)); attemptId = opaqueId ''runner-attempt'' (u 1) in
     \<lparr>sj_job = new_job now input contract aliases locations d (rc_projectId s) (opaqueId ''runner-job'' (u 2)) runId attemptId,
      sj_run = new_run (xr_actionInput input) contract runId attemptId, sj_requestDigest = d\<rparr>)"

lemma enqueue_commit_good:
  assumes inv: "rn_inv s" and prepared: "enqueue_prepared cr input = Inr (contract, aliases, locations, d)"
    and ok: "enqueue_error now input (nullish (xr_runId input) (opaqueId ''run'' (u 0))) = None"
    and fresh: "get_key (rc_attempts s) (opaqueId ''runner-attempt'' (u 1)) = None" "get_key (rc_jobs s) (opaqueId ''runner-job'' (u 2)) = None"
    and key: "get_key (rc_idempotency s) (xr_idempotencyKey input) = None"
  shows "rn_good s (enqueue_commit (fresh_job cr u now input s contract aliases locations d)
    (new_attempt (opaqueId ''runner-attempt'' (u 1)) (opaqueId ''runner-job'' (u 2)) (nullish (xr_runId input) (opaqueId ''run'' (u 0))) (xr_leaseExpiresAt input)) s)"
proof -
  define aid where "aid = opaqueId ''runner-attempt'' (u 1)"
  define k where "k = opaqueId ''runner-job'' (u 2)"
  define st where "st = fresh_job cr u now input s contract aliases locations d"
  define a where "a = new_attempt aid k (nullish (xr_runId input) (opaqueId ''run'' (u 0))) (xr_leaseExpiresAt input)"
  define t where "t = enqueue_commit st a s"
  have st: "rj_id (sj_job st) = k" "rj_attemptIds (sj_job st) = [aid]" "rj_currentAttemptId (sj_job st) = aid" "rj_idempotencyKey (sj_job st) = xr_idempotencyKey input"
    "sj_requestDigest st = rj_inputManifestDigest (sj_job st)" "pair_ok (sj_job st) a" "run_ok st a" "rt_runId a = rj_runId (sj_job st)"
    "rj_artifactOutputContract (sj_job st) = contract" "rj_outputPaths (sj_job st) = act_outputPaths (nai_action (xr_actionInput input))"
    by (simp_all add: st_def fresh_job_def Let_def a_def aid_def k_def pair_ok_def run_ok_def)
  have a: "rt_id a = aid" "rt_jobId a = k" "ts_time (rt_leaseExpiresAt a) \<noteq> None"
    using enqueue_error_lease [OF ok] by (auto simp: a_def)
  have t: "rc_jobs t = set_key k st (rc_jobs s)" "rc_attempts t = set_key aid a (rc_attempts s)" "rc_runners t = rc_runners s" "rc_credentials t = rc_credentials s"
    "rc_outputs t = rc_outputs s" "rc_projectId t = rc_projectId s" "rc_retryIdempotency t = rc_retryIdempotency s"
    "rc_idempotency t = set_key (xr_idempotencyKey input) k (rc_idempotency s)" "prefix (rc_events s) (rc_events t)" "numbered (rc_events t)"
    using inv_numbered [OF inv] by (simp_all add: t_def enqueue_commit_def Let_def setter_defs st a)
  have no: "get_key (rc_attempts s) aid = None" "get_key (rc_jobs s) k = None" using fresh by (simp_all add: aid_def k_def)
  have contract: "case contract of None \<Rightarrow> True | Some c \<Rightarrow> contract_ok (Some (act_outputPaths (nai_action (xr_actionInput input)))) c"
    using prepared parsed_contract_ok by (auto simp: enqueue_prepared_Inr split: option.split)
  have "chain_ok t (sj_job st)" unfolding chain_ok_def st(1-3) using t(2) a(2) by simp
  moreover have "k \<noteq> []" by (simp add: k_def)
  ultimately have job: "job_ok t k st" using st t(2) contract by (simp add: job_ok_def cong: option.case_cong)
  have attempt: "attempt_ok t aid a" using a st t(1) by (simp add: attempt_ok_def)
  have "attaches s k st aid a t" using no t by (simp add: attaches_def)
  moreover have "keys_stored t" using inv_keys [OF inv] t st(4) no(2) by (fastforce simp: keys_stored_def has_key_def)
  moreover have "table_grows (=) (rc_idempotency s) (rc_idempotency t)" unfolding t using key by (intro table_grows_insert) simp_all
  moreover have "table_grows (=) (rc_retryIdempotency s) (rc_retryIdempotency t)" unfolding t by (rule table_grows_refl) simp
  ultimately show ?thesis unfolding st_def [symmetric] aid_def [symmetric] k_def [symmetric] a_def [symmetric] t_def [symmetric]
    using attaches_good [OF inv _ job attempt] by blast
qed

lemma enqueue_eval:
  assumes "enqueue_prepared cr input = Inr (contract, aliases, locations, d)" "keep_truthy (get_key (rc_idempotency s) (xr_idempotencyKey input)) = None"
    "enqueue_error now input (nullish (xr_runId input) (opaqueId ''run'' (u 0))) = None"
  shows "enqueue cr u now input s = (let st = fresh_job cr u now input s contract aliases locations d;
      a = new_attempt (opaqueId ''runner-attempt'' (u 1)) (opaqueId ''runner-job'' (u 2)) (nullish (xr_runId input) (opaqueId ''run'' (u 0))) (xr_leaseExpiresAt input)
    in return (sj_job st, sj_run st, a) (enqueue_commit st a s))"
  using assms by (simp add: enqueue_def fresh_job_def Let_def)

lemma enqueue_good:
  assumes inv: "rn_inv s" and fresh: "get_key (rc_attempts s) (opaqueId ''runner-attempt'' (u 1)) = None" "get_key (rc_jobs s) (opaqueId ''runner-job'' (u 2)) = None"
  shows "rn_good s (snd (enqueue cr u now input s))"
proof (cases "enqueue_prepared cr input")
  case (Inl e)
  with inv show ?thesis by (simp add: enqueue_def)
next
  case (Inr x)
  obtain contract aliases locations d where x: "x = (contract, aliases, locations, d)" by (cases x) auto
  show ?thesis
  proof (cases "keep_truthy (get_key (rc_idempotency s) (xr_idempotencyKey input)) = None \<and> enqueue_error now input (nullish (xr_runId input) (opaqueId ''run'' (u 0))) = None")
    case True
    then have none: "keep_truthy (get_key (rc_idempotency s) (xr_idempotencyKey input)) = None"
      and ok: "enqueue_error now input (nullish (xr_runId input) (opaqueId ''run'' (u 0))) = None" by simp_all
    from none have "get_key (rc_idempotency s) (xr_idempotencyKey input) = None" by (simp add: unused_key [OF inv])
    from enqueue_commit_good [OF inv Inr [unfolded x] ok fresh this] show ?thesis
      unfolding enqueue_eval [of cr input contract aliases locations d s now u, OF Inr [unfolded x] none ok] Let_def snd_return .
  next
    case False
    with Inr x inv show ?thesis by (auto simp: enqueue_def split: option.split sum.split)
  qed
qed

section \<open>Runs\<close>

text \<open>The random identifiers are fresh when they are drawn.\<close>

fun rn_ok :: "RunnerCoordinator \<Rightarrow> rn_op \<Rightarrow> bool" where
  "rn_ok s (Enqueue u now input) = (\<not> has_key (rc_attempts s) (opaqueId ''runner-attempt'' (u 1)) \<and> \<not> has_key (rc_jobs s) (opaqueId ''runner-job'' (u 2)))"
| "rn_ok s (Claim uuid token now input) = (\<not> has_key (rc_credentials s) (opaqueId ''runner-job-credential'' uuid))"
| "rn_ok s (Retry uuid now input) = (\<not> has_key (rc_attempts s) (opaqueId ''runner-attempt'' uuid))"
| "rn_ok s x = True"

lemma rn_step_good: "rn_inv s \<Longrightarrow> rn_ok s x \<Longrightarrow> rn_good s (snd (rn_step cr x s))"
  by (cases x) (simp_all add: enroll_good activate_good disable_good enqueue_good pull_good claim_good heartbeat_good requestCancellation_good
      finalize_good submit_good expire_good stop_runner_good markRunnerUnavailable_def quarantineRunner_def retry_good has_key_def)

lemma new_runner_coordinator_inv: "new_runner_coordinator realmId projectId = Inr s \<Longrightarrow> rn_inv s"
  by (auto simp: new_runner_coordinator_def rn_inv_def keys_stored_def numbered_def one_credential_def split: option.splits)

interpretation runners: invariant_machine "rn_step cr" rn_ok rn_inv for cr
  by unfold_locales (auto dest: rn_step_good simp: rn_good_def)

interpretation runner_records: growing_machine "rn_step cr" "\<lambda>s x. rn_inv s \<and> rn_ok s x" rn_before for cr
  by unfold_locales (auto dest: rn_step_good simp: rn_good_def intro: rn_before_trans)

lemma rn_admissible: "rn_inv s \<Longrightarrow> admissible rn_ok (rn_step cr) xs s \<Longrightarrow> admissible (\<lambda>s x. rn_inv s \<and> rn_ok s x) (rn_step cr) xs s"
  by (induction xs arbitrary: s) (auto intro: runners.step_inv)

lemma run_before: "rn_inv s \<Longrightarrow> admissible rn_ok (rn_step cr) xs s \<Longrightarrow> rn_before s (run_ops (rn_step cr) xs s)"
  by (intro runner_records.run_grows rn_admissible)

end
