(* ===== verification/Runner_Leases.thy ===== *)
theory Runner_Leases
  imports Runner_Runs
begin

text \<open>
  What the Runner coordinator promises: records refer to records, Attempts follow their Job, what makes a Result
  accepted and what is stored of it, that a closed Attempt and an expired lease stay closed to every later call,
  that repeated requests create nothing, and that pulling offers every matching Job. At the end, where the code
  does not keep what its messages say.
\<close>

section \<open>Facts about accepted calls\<close>

lemma succeeded_iff: "succeeded r \<longleftrightarrow> (\<exists>a t. r = (Inr a, t))"
  by (cases r; cases "fst r") (auto simp: succeeded_def)

lemma authorize_eval:
  assumes "rn_inv s" "authorized cr now token s st a c"
  shows "authorizeCredential cr now token s = (Inr (st, a, c), s)"
  using authorize_cases [OF assms(1), of cr now token] assms(2) by (auto simp: authorized_def)

lemma accepted_authorized:
  assumes "rn_inv s" "succeeded (and_then (authorizeCredential cr now token s) f)"
  shows "\<exists>st a c. authorized cr now token s st a c"
  using authorize_cases [OF assms(1), of cr now token] assms(2) by (auto simp: succeeded_def)

text \<open>No call is accepted when no credential authorises.\<close>

lemma calls_authorized:
  assumes inv: "rn_inv s"
  shows "succeeded (heartbeat cr now token s) \<Longrightarrow> \<exists>st a c. authorized cr now token s st a c"
    and "succeeded (finalizeCancellation cr now token out receipt s) \<Longrightarrow> \<exists>st a c. authorized cr now token s st a c"
    and "succeeded (submit_result cr u now token result s) \<Longrightarrow> \<exists>st a c. authorized cr now token s st a c"
proof -
  show "succeeded (heartbeat cr now token s) \<Longrightarrow> \<exists>st a c. authorized cr now token s st a c"
    unfolding heartbeat_def by (rule accepted_authorized [OF inv])
  show "succeeded (submit_result cr u now token result s) \<Longrightarrow> \<exists>st a c. authorized cr now token s st a c"
    unfolding submit_result_def by (rule accepted_authorized [OF inv])
  show "\<exists>st a c. authorized cr now token s st a c" if "succeeded (finalizeCancellation cr now token out receipt s)"
  proof (cases "require_text receipt ''receipt''")
    case None
    with that show ?thesis unfolding finalizeCancellation_def option.case by (rule_tac accepted_authorized [OF inv]) simp
  next
    case (Some e)
    with that show ?thesis by (simp add: finalizeCancellation_def succeeded_def)
  qed
qed

lemma unauthorized_calls:
  assumes "rn_inv s" "\<And>st a c. \<not> authorized cr now token s st a c"
  shows "\<not> succeeded (heartbeat cr now token s)" "\<not> succeeded (finalizeCancellation cr now token out receipt s)"
    "\<not> succeeded (submit_result cr u now token result s)"
  using calls_authorized [OF assms(1)] assms(2) by blast+

lemma expire_throws: "fst (expire now j s) \<noteq> Inr x"
  by (simp add: expire_def split: sum.split)

section \<open>The records\<close>

text \<open>
  C28. In every reachable state the references of the tables resolve: Attempts name stored Jobs and are listed by
  them, Jobs list stored Attempts, credentials name an enrolled Runner, a stored Job and a stored Attempt,
  outputs are stored under an Attempt, and idempotency keys name stored Jobs.
\<close>

theorem stored_references_resolve:
  assumes "new_runner_coordinator realmId projectId = Inr s0" and "admissible rn_ok (rn_step cr) xs s0"
  defines "s \<equiv> run_ops (rn_step cr) xs s0"
  shows "(\<forall>k a. get_key (rc_attempts s) k = Some a \<longrightarrow> rt_id a = k
            \<and> (\<exists>st. get_key (rc_jobs s) (rt_jobId a) = Some st \<and> k \<in> set (rj_attemptIds (sj_job st))))
    \<and> (\<forall>k st. get_key (rc_jobs s) k = Some st \<longrightarrow> rj_id (sj_job st) = k \<and> (\<forall>x\<in>set (rj_attemptIds (sj_job st)). has_key (rc_attempts s) x))
    \<and> (\<forall>k c. get_key (rc_credentials s) k = Some c \<longrightarrow> sc_id c = k \<and> has_key (rc_runners s) (sc_runnerId c) \<and> has_key (rc_jobs s) (sc_jobId c)
            \<and> has_key (rc_attempts s) (sc_attemptId c))
    \<and> (\<forall>k. has_key (rc_outputs s) k \<longrightarrow> has_key (rc_attempts s) k)
    \<and> (\<forall>key j. get_key (rc_idempotency s) key = Some j \<or> get_key (rc_retryIdempotency s) key = Some j \<longrightarrow> has_key (rc_jobs s) j)"
proof -
  have inv: "rn_inv s" unfolding s_def by (rule runners.run_inv [OF new_runner_coordinator_inv [OF assms(1)] assms(2)])
  have "has_key (rc_attempts s) x" if "get_key (rc_jobs s) k = Some st" "x \<in> set (rj_attemptIds (sj_job st))" for k st x
    using job_okD(2) [OF inv_job [OF inv that(1)]] that(2) by (fastforce simp: chain_ok_def has_key_def)
  moreover have "has_key (rc_attempts s) k" if "has_key (rc_outputs s) k" for k
    using that inv_outputs [OF inv, of k] by (auto simp: has_key_def outputs_ok_def)
  ultimately show ?thesis
    using inv_attempt [OF inv] inv_job [OF inv] inv_cred [OF inv] inv_keys [OF inv]
    by (fastforce simp: attempt_ok_def cred_ok_def keys_stored_def has_key_def dest: job_okD(1))
qed

text \<open>
  C25. In every reachable state the Attempts of a Job form a chain: its Attempt ids do not repeat and the last is
  current, the current Attempt is in the state of the Job and the Run shows it, every earlier Attempt is closed
  without success, and at most one credential for the Job is active, of the current Attempt while it is live.
\<close>

theorem attempts_follow_jobs:
  assumes "new_runner_coordinator realmId projectId = Inr s0" and "admissible rn_ok (rn_step cr) xs s0"
  defines "s \<equiv> run_ops (rn_step cr) xs s0"
  assumes "get_key (rc_jobs s) k = Some st"
  shows "distinct (rj_attemptIds (sj_job st)) \<and> last (rj_attemptIds (sj_job st)) = rj_currentAttemptId (sj_job st)
    \<and> (\<exists>a. get_key (rc_attempts s) (rj_currentAttemptId (sj_job st)) = Some a \<and> rt_state a = rj_state (sj_job st)
         \<and> run_status (sj_run st) = status_for (rj_state (sj_job st)) (rt_runnerId a))
    \<and> (\<forall>x\<in>set (butlast (rj_attemptIds (sj_job st))). \<exists>a. get_key (rc_attempts s) x = Some a \<and> rt_state a \<in> set retriable_states)
    \<and> (\<forall>i c j d. get_key (rc_credentials s) i = Some c \<and> sc_jobId c = k \<and> sc_status c = JobCredentialActive
         \<and> get_key (rc_credentials s) j = Some d \<and> sc_jobId d = k \<and> sc_status d = JobCredentialActive
         \<longrightarrow> i = j \<and> sc_attemptId c = rj_currentAttemptId (sj_job st) \<and> live_state (rj_state (sj_job st)))"
proof -
  have inv: "rn_inv s" unfolding s_def by (rule runners.run_inv [OF new_runner_coordinator_inv [OF assms(1)] assms(2)])
  from job_okD(2) [OF inv_job [OF inv assms(4)]] have chain: "chain_ok s (sj_job st)" .
  from current_attempt [OF inv assms(4)] obtain a where a: "get_key (rc_attempts s) (rj_currentAttemptId (sj_job st)) = Some a" "pair_ok (sj_job st) a" "run_ok st a"
    by blast
  have earlier: "\<exists>b. get_key (rc_attempts s) x = Some b \<and> rt_state b \<in> set retriable_states" if x: "x \<in> set (butlast (rj_attemptIds (sj_job st)))" for x
  proof -
    have "distinct (butlast (rj_attemptIds (sj_job st)) @ [rj_currentAttemptId (sj_job st)])"
      using chain by (metis append_butlast_last_id chain_ok_def)
    with x have "x \<noteq> rj_currentAttemptId (sj_job st)" by auto
    with chain in_set_butlastD [OF x] show ?thesis by (fastforce simp: chain_ok_def)
  qed
  have active: "sc_attemptId c = rj_currentAttemptId (sj_job st) \<and> live_state (rj_state (sj_job st))"
    if "get_key (rc_credentials s) i = Some c" "sc_jobId c = k" "sc_status c = JobCredentialActive" for i c
    using inv_cred [OF inv that(1)] that(2,3) assms(4) a by (auto simp: cred_ok_def pair_ok_def)
  have "i = j" if "get_key (rc_credentials s) i = Some c" "sc_jobId c = k" "sc_status c = JobCredentialActive"
    "get_key (rc_credentials s) j = Some d" "sc_jobId d = k" "sc_status d = JobCredentialActive" for i c j d
  proof -
    have "sc_attemptId c = sc_attemptId d" using active [OF that(1-3)] active [OF that(4-6)] by simp
    then show ?thesis using inv_one_credential [OF inv] that(1,4) unfolding one_credential_def by blast
  qed
  with chain a earlier active show ?thesis by (auto simp: chain_ok_def pair_ok_def run_ok_def)
qed

section \<open>Results\<close>

text \<open>
  C22. A Result is accepted exactly when it is sent with the active, unexpired credential of the running Attempt,
  echoes the issued context (up to the order of keys), is signed by the enrolled key of the Runner that claimed
  the Attempt over that context and the Result, names the inputs of the Job, and its outputs pass the checks.
\<close>

theorem submit_accepts_iff:
  assumes "new_runner_coordinator realmId projectId = Inr s0" and "admissible rn_ok (rn_step cr) xs s0"
  defines "s \<equiv> run_ops (rn_step cr) xs s0"
  shows "succeeded (submit_result cr u now token result s) \<longleftrightarrow>
    (\<exists>st a c runner expected. authorized cr now token s st a c \<and> rj_state (sj_job st) = StRunning
       \<and> get_key (rc_runners s) (jc_runnerId token) = Some runner \<and> runnerResultContext (sj_job st) a = Inr expected
       \<and> sorted_json (rslt_context result) = sorted_json expected
       \<and> rx_verifies cr (rp_publicKey runner) (runnerResultMessage expected result) (rslt_signature result)
       \<and> nao_inputDigests (rslt_output result) = rj_inputDigests (sj_job st) \<and> validateOutput (sj_job st) a result = None)"
    (is "_ \<longleftrightarrow> ?accepts")
proof -
  have inv: "rn_inv s" unfolding s_def by (rule runners.run_inv [OF new_runner_coordinator_inv [OF assms(1)] assms(2)])
  have state: "submit_state_error st = None \<longleftrightarrow> rj_state (sj_job st) = StRunning" for st
    by (auto simp: submit_state_error_def Let_def fail_if_def)
  have error: "result_error cr st a c result s = None \<longleftrightarrow> (\<exists>runner expected. get_key (rc_runners s) (sc_runnerId c) = Some runner
      \<and> runnerResultContext (sj_job st) a = Inr expected \<and> sorted_json (rslt_context result) = sorted_json expected
      \<and> rx_verifies cr (rp_publicKey runner) (runnerResultMessage expected result) (rslt_signature result)
      \<and> nao_inputDigests (rslt_output result) = rj_inputDigests (sj_job st) \<and> validateOutput (sj_job st) a result = None)" for st a c
    by (auto simp: result_error_def requireRunner_def loop_simps stableJson_eq_iff split: sum.split option.split)
  show ?thesis
  proof
    assume ok: "succeeded (submit_result cr u now token result s)"
    from calls_authorized(3) [OF inv this] obtain st a c where auth: "authorized cr now token s st a c" by blast
    have "or_else (submit_state_error st) (result_error cr st a c result s) = None"
      using ok authorize_eval [OF inv auth] by (cases "or_else (submit_state_error st) (result_error cr st a c result s)") (simp_all add: submit_result_def succeeded_def)
    with auth error state show ?accepts by (auto simp: loop_simps authorized_def)
  next
    assume ?accepts
    then obtain st a c where auth: "authorized cr now token s st a c" and "submit_state_error st = None" "result_error cr st a c result s = None"
      using state error by (fastforce simp: authorized_def)
    from submit_accepts [OF inv this, of u] show "succeeded (submit_result cr u now token result s)" by (auto simp: succeeded_def)
  qed
qed

text \<open>
  C26. In every reachable state a stored output belongs to a closed Attempt of its Job and Run, its location is
  normalised, relative and free of dot segments, lies at or below the location of the Job for its kind, an
  Artifact carries the id of the Attempt in its location, and it discloses no more than the Job.
\<close>

theorem accepted_outputs_in_scope:
  assumes "new_runner_coordinator realmId projectId = Inr s0" and "admissible rn_ok (rn_step cr) xs s0"
  defines "s \<equiv> run_ops (rn_step cr) xs s0"
  assumes "ref \<in> set (listOutputs s k)"
  shows "\<exists>a st. get_key (rc_attempts s) k = Some a \<and> get_key (rc_jobs s) (rt_jobId a) = Some st \<and> closed_state (rt_state a)
    \<and> ro_attemptId ref = k \<and> ro_runId ref = rj_runId (sj_job st)
    \<and> \<not> startsWith (ro_location ref) ''/'' \<and> ''..'' \<notin> set (split_on CHR ''/'' (ro_location ref)) \<and> ''.'' \<notin> set (split_on CHR ''/'' (ro_location ref))
    \<and> (ro_location ref = expected_location (sj_job st) (ro_kind ref)
         \<or> (\<exists>rest. ro_location ref = strip_slash (expected_location (sj_job st) (ro_kind ref)) @ ''/'' @ rest))
    \<and> (ro_kind ref = OutputArtifact \<longrightarrow> (\<exists>u v. ro_location ref = u @ k @ v))
    \<and> runner_disclosureRank (disc_classification (ro_disclosure ref)) \<le> runner_disclosureRank (disc_classification (rj_disclosure (sj_job st)))"
proof -
  have inv: "rn_inv s" unfolding s_def by (rule runners.run_inv [OF new_runner_coordinator_inv [OF assms(1)] assms(2)])
  from assms(4) obtain refs where refs: "get_key (rc_outputs s) k = Some refs" "ref \<in> set refs"
    by (cases "get_key (rc_outputs s) k") (auto simp: listOutputs_def)
  from inv_outputs [OF inv refs(1)] refs(2) obtain a st where found: "get_key (rc_attempts s) k = Some a" "get_key (rc_jobs s) (rt_jobId a) = Some st"
    and ok: "closed_state (rt_state a)" "ro_attemptId ref = k" "ro_runId ref = rt_runId a" "in_scope (sj_job st) k ref"
    by (auto simp: outputs_ok_def)
  have "rt_runId a = rj_runId (sj_job st)" using inv_attempt [OF inv found(1)] found(2) by (simp add: attempt_ok_def)
  with found ok show ?thesis
    by (intro exI [of _ a] exI [of _ st])
      (auto simp: in_scope_def unsafe_location_def locationWithin_def startsWith_iff disclosureAllows_def list_ex_iff includesSub_iff)
qed

section \<open>Leases\<close>

lemma closed_unauthorized:
  assumes "rn_inv s" "get_key (rc_attempts s) (jc_attemptId token) = Some a" "closed_state (rt_state a)"
  shows "\<not> authorized cr now token s st b c"
  using authorizedD(2) [OF assms(1)] assms(2,3) closed_not_live by (fastforce simp: authorized_def)

text \<open>
  C23. A closed Attempt is final: whatever calls follow, its record never changes, and no heartbeat, Result or
  cancellation outcome is accepted with a credential of that Attempt.
\<close>

theorem closed_attempts_are_final:
  assumes "new_runner_coordinator realmId projectId = Inr s0" and "admissible rn_ok (rn_step cr) (xs @ ys) s0"
  defines "s \<equiv> run_ops (rn_step cr) xs s0" and "t \<equiv> run_ops (rn_step cr) (xs @ ys) s0"
  assumes "get_key (rc_attempts s) (jc_attemptId token) = Some a" and "closed_state (rt_state a)"
  shows "get_key (rc_attempts t) (jc_attemptId token) = Some a \<and> \<not> succeeded (heartbeat cr now token t)
    \<and> \<not> succeeded (submit_result cr u now token result t) \<and> \<not> succeeded (finalizeCancellation cr now token out receipt t)"
proof -
  have adm: "admissible rn_ok (rn_step cr) xs s0" "admissible rn_ok (rn_step cr) ys s" using assms(2) by (simp_all add: s_def)
  have inv: "rn_inv s" unfolding s_def by (rule runners.run_inv [OF new_runner_coordinator_inv [OF assms(1)] adm(1)])
  have t: "t = run_ops (rn_step cr) ys s" by (simp add: t_def s_def)
  have inv_t: "rn_inv t" unfolding t by (rule runners.run_inv [OF inv adm(2)])
  from before_attempt [OF run_before [OF inv adm(2)] assms(5)] assms(6) have a: "get_key (rc_attempts t) (jc_attemptId token) = Some a"
    by (auto simp: t attempt_grows_def)
  show ?thesis
    using a unauthorized_calls [OF inv_t closed_unauthorized [OF inv_t a assms(6)]] by blast
qed

text \<open>
  C24. A lease bounds what its Attempt may do: whatever calls come in between, from the expiry recorded when the
  Attempt was created on, no heartbeat, Result, cancellation outcome or claim of that Attempt is accepted.
\<close>

theorem lease_bounds_attempt:
  assumes "new_runner_coordinator realmId projectId = Inr s0" and "admissible rn_ok (rn_step cr) (xs @ ys) s0"
  defines "s \<equiv> run_ops (rn_step cr) xs s0" and "t \<equiv> run_ops (rn_step cr) (xs @ ys) s0"
  assumes "get_key (rc_attempts s) (jc_attemptId token) = Some a" and "ts_time (rt_leaseExpiresAt a) = Some expiry" and "expiry \<le> now"
  shows "\<not> succeeded (heartbeat cr now token t) \<and> \<not> succeeded (submit_result cr u now token result t)
    \<and> \<not> succeeded (finalizeCancellation cr now token out receipt t)
    \<and> \<not> succeeded (claim cr uuid secret now (input\<lparr>cl_attemptId := jc_attemptId token\<rparr>) t)"
proof -
  have adm: "admissible rn_ok (rn_step cr) xs s0" "admissible rn_ok (rn_step cr) ys s" using assms(2) by (simp_all add: s_def)
  have inv: "rn_inv s" unfolding s_def by (rule runners.run_inv [OF new_runner_coordinator_inv [OF assms(1)] adm(1)])
  have t: "t = run_ops (rn_step cr) ys s" by (simp add: t_def s_def)
  have inv_t: "rn_inv t" unfolding t by (rule runners.run_inv [OF inv adm(2)])
  from before_attempt [OF run_before [OF inv adm(2)] assms(5)] obtain b where b: "get_key (rc_attempts t) (jc_attemptId token) = Some b"
    "rt_leaseExpiresAt b = rt_leaseExpiresAt a" by (auto simp: t attempt_grows_def same_lease_def)
  have over: "lease_over (rt_leaseExpiresAt b) now" using b(2) assms(6,7) by (simp add: lease_over_def)
  have "\<not> authorized cr now token t st x c" for st x c
    using authorizedD(4) [OF inv_t, of cr now token st x c] b over by (auto simp: authorized_def)
  then have calls: "\<not> succeeded (heartbeat cr now token t) \<and> \<not> succeeded (submit_result cr u now token result t)
      \<and> \<not> succeeded (finalizeCancellation cr now token out receipt t)"
    using unauthorized_calls [OF inv_t] by blast
  have "lease_over (rt_leaseExpiresAt x) now" if "get_key (rc_attempts t) (jc_attemptId token) = Some x" for x using that b over by simp
  then have "\<not> succeeded (claim cr uuid secret now (input\<lparr>cl_attemptId := jc_attemptId token\<rparr>) t)"
    by (auto simp: claim_def succeeded_def loop_simps expire_throws split: sum.split)
  with calls show ?thesis by blast
qed

section \<open>Repeated requests\<close>

text \<open>
  An idempotency key creates one Job: after it has been used, and whatever calls follow, a request with that
  key changes nothing; it returns that Job, its Run and its current Attempt when the digest of its input manifest
  is that of the Job, and is refused as a conflict when it is not.
\<close>

theorem enqueue_is_idempotent:
  assumes "new_runner_coordinator realmId projectId = Inr s0" and "admissible rn_ok (rn_step cr) (xs @ ys) s0"
  defines "s \<equiv> run_ops (rn_step cr) xs s0" and "t \<equiv> run_ops (rn_step cr) (xs @ ys) s0"
  assumes "get_key (rc_idempotency s) (xr_idempotencyKey input) = Some j" and "get_key (rc_jobs s) j = Some st"
    and "enqueue_prepared cr input = Inr (contract, aliases, locations, manifest)"
  shows "\<exists>st' a. get_key (rc_jobs t) j = Some st' \<and> same_manifest (sj_job st) (sj_job st')
    \<and> get_key (rc_attempts t) (rj_currentAttemptId (sj_job st')) = Some a
    \<and> enqueue cr u now input t = (if manifest = rj_inputManifestDigest (sj_job st) then Inr (sj_job st', sj_run st', a)
         else Inl (runner_error RnIdempotencyConflict (xr_idempotencyKey input)), t)"
proof -
  have adm: "admissible rn_ok (rn_step cr) xs s0" "admissible rn_ok (rn_step cr) ys s" using assms(2) by (simp_all add: s_def)
  have inv: "rn_inv s" unfolding s_def by (rule runners.run_inv [OF new_runner_coordinator_inv [OF assms(1)] adm(1)])
  have t: "t = run_ops (rn_step cr) ys s" by (simp add: t_def s_def)
  have inv_t: "rn_inv t" unfolding t by (rule runners.run_inv [OF inv adm(2)])
  note before = run_before [OF inv adm(2), folded t]
  from before_job [OF before assms(6)] obtain st' where st': "get_key (rc_jobs t) j = Some st'" "same_manifest (sj_job st) (sj_job st')"
    by (auto simp: job_grows_def)
  have key: "get_key (rc_idempotency t) (xr_idempotencyKey input) = Some j" by (rule before_idempotency [OF before assms(5)])
  have digest: "sj_requestDigest st' = rj_inputManifestDigest (sj_job st)"
    using job_okD(4) [OF inv_job [OF inv_t st'(1)]] same_manifestD(8) [OF st'(2)] by simp
  from current_attempt [OF inv_t st'(1)] obtain a where a: "get_key (rc_attempts t) (rj_currentAttemptId (sj_job st')) = Some a" by blast
  have "keep_truthy (Some j) = Some j" by (rule stored_key_nonempty [OF inv_t key])
  with st' key digest a assms(7) show ?thesis
    by (intro exI [of _ st'] exI [of _ a]) (auto simp: enqueue_def existing_job_def view_job_def return_def raise_def)
qed

section \<open>Pulling\<close>

definition pullable :: "RunnerProfile \<Rightarrow> RunnerCoordinator \<Rightarrow> string set" where
  "pullable runner s = (\<lambda>st. rj_id (sj_job st)) ` set (pull_candidates runner s)"

lemma in_pullable:
  "rn_inv s \<Longrightarrow> k \<in> pullable runner s \<longleftrightarrow>
     (\<exists>st. get_key (rc_jobs s) k = Some st \<and> rj_state (sj_job st) = StQueued \<and> runnerMatchesJob runner (sj_job st))"
  unfolding pullable_def by (fastforce simp: set_pull_candidates stored_value image_iff dest: inv_job job_okD(1))

lemma card_pullable:
  assumes inv: "rn_inv s"
  shows "card (pullable runner s) = length (pull_candidates runner s)"
proof -
  have "map (\<lambda>st. rj_id (sj_job st)) (map_values (rc_jobs s)) = map fst (rc_jobs s)"
    unfolding map_values_def map_map comp_def
  proof (rule map_cong [OF refl])
    fix x
    assume "x \<in> set (rc_jobs s)"
    then have "get_key (rc_jobs s) (fst x) = Some (snd x)"
      using inv_distinct(1) [OF inv] by (simp add: get_key_def distinct_keys_def)
    from inv_job [OF inv this] show "rj_id (sj_job (snd x)) = fst x" by (rule job_okD(1))
  qed
  then have "distinct (map (\<lambda>st. rj_id (sj_job st)) (map_values (rc_jobs s)))"
    using inv_distinct(1) [OF inv] by (simp add: distinct_keys_def)
  then have "distinct (map (\<lambda>st. rj_id (sj_job st)) (pull_candidates runner s))"
    unfolding pull_candidates_def by (simp add: distinct_map inj_on_def)
  then show ?thesis unfolding pullable_def by (metis distinct_card length_map set_map)
qed

definition offered_to :: "string \<Rightarrow> RunnerCoordinator \<Rightarrow> string \<Rightarrow> bool" where
  "offered_to r s k \<longleftrightarrow> (\<exists>st. get_key (rc_jobs s) k = Some st \<and> rj_state (sj_job st) = StOffered \<and> rj_currentRunnerId (sj_job st) = Some r)"

lemma pull_step:
  fixes cr :: RunnerCrypto and challenge :: string
  assumes inv: "rn_inv s" and r: "get_key (rc_runners s) r = Some runner" "rp_status runner = RunnerActive" and some: "pull_candidates runner s \<noteq> []"
  defines "t \<equiv> snd (pull cr challenge r s)"
  shows "\<exists>k\<in>pullable runner s. pullable runner t = pullable runner s - {k} \<and> offered_to r t k \<and> rc_runners t = rc_runners s
    \<and> (\<forall>j. j \<noteq> k \<longrightarrow> get_key (rc_jobs t) j = get_key (rc_jobs s) j)"
proof -
  let ?st = "hd (pull_candidates runner s)"
  let ?k = "rj_id (sj_job ?st)"
  have "?st \<in> set (pull_candidates runner s)" using some by simp
  then have st: "get_key (rc_jobs s) ?k = Some ?st" "rj_state (sj_job ?st) = StQueued" "?k \<in> pullable runner s"
    using stored_value [OF inv] by (simp_all add: set_pull_candidates pullable_def)
  from current_attempt [OF inv st(1)] st(2) obtain a where a: "get_key (rc_attempts s) (rj_currentAttemptId (sj_job ?st)) = Some a" "rt_state a = StQueued"
    by (auto simp: pair_ok_def)
  have t: "t = snd (offer cr challenge runner ?st a s)"
    using r some a by (cases "pull_candidates runner s") (auto simp: t_def pull_def split: prod.split)
  have id: "rp_id runner = r" using inv_runner [OF inv r(1)] by (simp add: runner_ok_def)
  have jobs: "rc_runners t = rc_runners s" "rc_jobs t = set_key ?k (?st\<lparr>sj_job := (sj_job ?st)\<lparr>rj_state := StOffered, rj_currentRunnerId := Some r\<rparr>\<rparr>) (rc_jobs s)"
    by (simp_all add: t offer_def Let_def setter_defs id)
  have inv_t: "rn_inv t" using pull_good [OF inv] by (simp add: t_def rn_good_def)
  have "pullable runner t = pullable runner s - {?k}"
  proof (rule set_eqI)
    fix j
    show "j \<in> pullable runner t \<longleftrightarrow> j \<in> pullable runner s - {?k}"
      unfolding in_pullable [OF inv_t] jobs(2) using in_pullable [OF inv, of j runner] by (cases "j = ?k") simp_all
  qed
  with jobs st(3) show ?thesis by (intro bexI [of _ ?k]) (auto simp: offered_to_def)
qed

lemma pulls_offer:
  assumes "rn_inv s" "get_key (rc_runners s) r = Some runner" "rp_status runner = RunnerActive" "length challenges = card (pullable runner s)"
  shows "pullable runner (run_ops (rn_step cr) (map (\<lambda>c. Pull c r) challenges) s) = {}
    \<and> (\<forall>k. k \<in> pullable runner s \<or> offered_to r s k \<longrightarrow> offered_to r (run_ops (rn_step cr) (map (\<lambda>c. Pull c r) challenges) s) k)"
  using assms
proof (induction challenges arbitrary: s)
  case Nil
  then have "pullable runner s = {}" by (simp add: pullable_def)
  then show ?case by simp
next
  case (Cons challenge challenges)
  let ?t = "snd (pull cr challenge r s)"
  from Cons.prems(4) card_pullable [OF Cons.prems(1), of runner] have "pull_candidates runner s \<noteq> []" by auto
  from pull_step [OF Cons.prems(1-3) this, of cr challenge] obtain k where k: "k \<in> pullable runner s" "pullable runner ?t = pullable runner s - {k}"
    "offered_to r ?t k" "rc_runners ?t = rc_runners s" "\<And>j. j \<noteq> k \<Longrightarrow> get_key (rc_jobs ?t) j = get_key (rc_jobs s) j" by blast
  have "finite (pullable runner s)" by (simp add: pullable_def)
  then have "length challenges = card (pullable runner ?t)" using Cons.prems(4) k(1,2) by simp
  with Cons.IH [of ?t] Cons.prems k(4) pull_good [OF Cons.prems(1)]
  have IH: "pullable runner (run_ops (rn_step cr) (map (\<lambda>c. Pull c r) challenges) ?t) = {}
    \<and> (\<forall>k. k \<in> pullable runner ?t \<or> offered_to r ?t k \<longrightarrow> offered_to r (run_ops (rn_step cr) (map (\<lambda>c. Pull c r) challenges) ?t) k)"
    by (simp add: rn_good_def)
  have "offered_to r s j \<Longrightarrow> offered_to r ?t j" for j using k(3,5) by (cases "j = k") (auto simp: offered_to_def)
  with IH k(2,3) show ?case by auto
qed


section \<open>Claims\<close>

text \<open>
  A claim is accepted exactly when the claiming Runner is active, the Attempt is the current one of the Job and
  both are offered, the lease is not over, and the stored challenge is signed with the enrolled key of that
  Runner; the Job then runs on it. Neither the Runner the Job was offered to nor what the Job requires matters.
\<close>

theorem claim_accepts_iff:
  assumes "new_runner_coordinator realmId projectId = Inr s0" and "admissible rn_ok (rn_step cr) xs s0"
  defines "s \<equiv> run_ops (rn_step cr) xs s0"
  shows "(succeeded (claim cr uuid secret now input s) \<longleftrightarrow>
      (\<exists>runner st a challenge. get_key (rc_runners s) (cl_runnerId input) = Some runner \<and> rp_status runner = RunnerActive
         \<and> get_key (rc_jobs s) (cl_jobId input) = Some st \<and> rj_state (sj_job st) = StOffered \<and> rj_currentAttemptId (sj_job st) = cl_attemptId input
         \<and> get_key (rc_attempts s) (cl_attemptId input) = Some a \<and> \<not> lease_over (rt_leaseExpiresAt a) now
         \<and> get_key (rc_offers s) (cl_attemptId input) = Some challenge \<and> challenge \<noteq> [] \<and> cl_challenge input = challenge
         \<and> rt_challengeDigest a = Some (runner_digest cr (JString challenge))
         \<and> rx_verifies cr (rp_publicKey runner) (claimMessage challenge) (cl_signature input)))
    \<and> (succeeded (claim cr uuid secret now input s) \<longrightarrow>
      (\<exists>st. get_key (rc_jobs (snd (claim cr uuid secret now input s))) (cl_jobId input) = Some st
         \<and> rj_state (sj_job st) = StRunning \<and> rj_currentRunnerId (sj_job st) = Some (cl_runnerId input)))"
    (is "(_ \<longleftrightarrow> ?accepts) \<and> (_ \<longrightarrow> ?running)")
proof -
  have inv: "rn_inv s" unfolding s_def by (rule runners.run_inv [OF new_runner_coordinator_inv [OF assms(1)] assms(2)])
  have claim: "claim cr uuid secret now input s = (let (lease, s') = claim_commit cr (opaqueId ''runner-job-credential'' uuid) secret now runner st a s in return lease s')"
    if "get_key (rc_runners s) (cl_runnerId input) = Some runner" "get_key (rc_jobs s) (cl_jobId input) = Some st" "get_key (rc_attempts s) (cl_attemptId input) = Some a"
      "claim_error runner st a = None" "\<not> lease_over (rt_leaseExpiresAt a) now" "claim_proved cr input runner a s" for runner st a
    using that by (simp add: claim_def)
  have found: "\<exists>runner st a. get_key (rc_runners s) (cl_runnerId input) = Some runner \<and> get_key (rc_jobs s) (cl_jobId input) = Some st
      \<and> get_key (rc_attempts s) (cl_attemptId input) = Some a \<and> claim_error runner st a = None \<and> \<not> lease_over (rt_leaseExpiresAt a) now
      \<and> claim_proved cr input runner a s" if "succeeded (claim cr uuid secret now input s)"
    using that by (auto simp: claim_def succeeded_def loop_simps expire_throws split: sum.splits if_splits)
  have "succeeded (claim cr uuid secret now input s) \<longleftrightarrow> ?accepts"
  proof
    assume "succeeded (claim cr uuid secret now input s)"
    from found [OF this] obtain runner st a where f: "get_key (rc_runners s) (cl_runnerId input) = Some runner" "get_key (rc_jobs s) (cl_jobId input) = Some st"
      "get_key (rc_attempts s) (cl_attemptId input) = Some a" "claim_error runner st a = None" "\<not> lease_over (rt_leaseExpiresAt a) now" "claim_proved cr input runner a s"
      by blast
    moreover have "rt_id a = cl_attemptId input" using inv_attempt [OF inv f(3)] by (simp add: attempt_ok_def)
    ultimately show ?accepts by (auto simp: claim_error_None claim_proved_def keep_truthy_Some_iff split: option.splits)
  next
    assume ?accepts
    then obtain runner st a challenge where f: "get_key (rc_runners s) (cl_runnerId input) = Some runner" "rp_status runner = RunnerActive"
      "get_key (rc_jobs s) (cl_jobId input) = Some st" "rj_state (sj_job st) = StOffered" "rj_currentAttemptId (sj_job st) = cl_attemptId input"
      "get_key (rc_attempts s) (cl_attemptId input) = Some a" "\<not> lease_over (rt_leaseExpiresAt a) now"
      "get_key (rc_offers s) (cl_attemptId input) = Some challenge" "challenge \<noteq> []" "cl_challenge input = challenge"
      "rt_challengeDigest a = Some (runner_digest cr (JString challenge))" "rx_verifies cr (rp_publicKey runner) (claimMessage challenge) (cl_signature input)"
      by blast
    have ids: "rt_id a = cl_attemptId input" "rt_state a = StOffered" "rt_jobId a = rj_id (sj_job st)"
      using inv_attempt [OF inv f(6)] current_attempt [OF inv f(3)] f(4,5,6) by (auto simp: attempt_ok_def pair_ok_def)
    have "claim_error runner st a = None" using f ids by (simp add: claim_error_None)
    moreover have "claim_proved cr input runner a s" using f ids by (simp add: claim_proved_def keep_truthy_def)
    ultimately show "succeeded (claim cr uuid secret now input s)"
      using claim [OF f(1,3,6) _ f(7)] by (auto simp: succeeded_def split: prod.splits)
  qed
  moreover have ?running if "succeeded (claim cr uuid secret now input s)"
  proof -
    from found [OF that] obtain runner st a where f: "get_key (rc_runners s) (cl_runnerId input) = Some runner" "get_key (rc_jobs s) (cl_jobId input) = Some st"
      "get_key (rc_attempts s) (cl_attemptId input) = Some a" "claim_error runner st a = None" "\<not> lease_over (rt_leaseExpiresAt a) now" "claim_proved cr input runner a s"
      by blast
    have "rp_id runner = cl_runnerId input" "rj_id (sj_job st) = cl_jobId input"
      using inv_runner [OF inv f(1)] job_okD(1) [OF inv_job [OF inv f(2)]] by (simp_all add: runner_ok_def)
    then show ?running unfolding claim [OF f] by (simp add: claim_commit_def Let_def setter_defs)
  qed
  ultimately show ?thesis by blast
qed

section \<open>Where the code does not keep what it says\<close>

text \<open>
  A quarantined Runner, or a disabled one, can be made active again: \<open>markRunnerUnavailable\<close> overwrites any
  status, and an unavailable Runner can be activated.
\<close>

lemma quarantine_can_be_left:
  assumes "rn_inv s" and "get_key (rc_runners s) r = Some runner" and "\<not> blank reason"
  shows "\<exists>runner'. get_key (rc_runners (run_ops (rn_step cr) [MarkRunnerUnavailable now r actor reason, ActivateRunner r actor] s)) r = Some runner'
    \<and> rp_status runner' = RunnerActive"
proof -
  let ?s = "change_runner RunnerUnavailable ''runner.unavailable'' actor runner s"
  have id: "rp_id runner = r" using inv_runner [OF assms(1,2)] by (simp add: runner_ok_def)
  have "rn_good s ?s" by (rule change_runner_good [OF assms(1,2)])
  then have inv: "rn_inv ?s" by (simp add: rn_good_def)
  have marked: "get_key (rc_runners ?s) r = Some (runner\<lparr>rp_status := RunnerUnavailable\<rparr>)" by (simp add: change_runner_def set_runner_def id)
  obtain t where t: "stop_jobs now StIndeterminate ''runner.job.indeterminate'' r (map_keys (rc_jobs s)) ?s = (Inr (), t)"
    using stop_jobs_good [OF inv, of StIndeterminate now "''runner.job.indeterminate''" r "map_keys (rc_jobs s)"] by (metis prod.collapse)
  have runners: "rc_runners (snd (stop_jobs now state ty r ks s')) = rc_runners s'" for state ty ks s'
    by (induction ks arbitrary: s') (simp_all add: stop_commit_def Let_def setter_defs split: option.split sum.split)
  have "get_key (rc_runners t) r = Some (runner\<lparr>rp_status := RunnerUnavailable\<rparr>)"
    using runners [of StIndeterminate "''runner.job.indeterminate''" "map_keys (rc_jobs s)" ?s] t marked by simp
  moreover have "snd (markRunnerUnavailable now r actor reason s) = t"
    using assms(2,3) t by (simp add: markRunnerUnavailable_def stop_runner_def require_text_def fail_if_def id)
  ultimately show ?thesis by (simp add: activateRunner_def change_runner_def set_runner_def id)
qed

text \<open>
  A Job that is cancelled while it is only offered has no credential: neither the outcome of the cancellation nor a
  Result nor a claim is accepted, although the recovery action asks the Runner to report.
\<close>

lemma unclaimed_cancellation_is_stuck:
  assumes "rn_inv s" and "get_key (rc_attempts s) (jc_attemptId token) = Some a" and "rt_runnerId a = None"
  shows "\<not> succeeded (finalizeCancellation cr now token out receipt s)" "\<not> succeeded (submit_result cr u now token result s)"
    "\<not> succeeded (heartbeat cr now token s)"
proof -
  have "\<not> authorized cr now token s st b c" for st b c
    using authorizedD(3) [OF assms(1)] assms(2,3) by (fastforce simp: authorized_def)
  with unauthorized_calls [OF assms(1)] show "\<not> succeeded (finalizeCancellation cr now token out receipt s)"
    "\<not> succeeded (submit_result cr u now token result s)" "\<not> succeeded (heartbeat cr now token s)" by blast+
qed

section \<open>The properties at work\<close>

text \<open>
  Two active Runners and a Job for the first: it is enqueued, offered, claimed, and closed with a Result.
\<close>

definition demo_crypto :: RunnerCrypto where
  "demo_crypto = \<lparr>rx_sha256 = (\<lambda>t. ''h''), rx_parses = (\<lambda>_. True), rx_verifies = (\<lambda>key message signature. signature = key)\<rparr>"

definition demo_operator :: ActorRef where
  "demo_operator = \<lparr>actor_principalId = ''ann'', actor_actorId = ''ann-1'', actor_sessionId = ''s'', actor_clientId = ''cli''\<rparr>"

definition demo_time :: "int \<Rightarrow> Timestamp" where
  "demo_time n = \<lparr>ts_text = ''t'', ts_time = Some n\<rparr>"

definition demo_enrollment :: "string \<Rightarrow> string list \<Rightarrow> string \<Rightarrow> RunnerEnrollmentInput" where
  "demo_enrollment i capabilities key = \<lparr>re_id = i, re_provider = ''lab'', re_publicKey = key,
     re_platform = \<lparr>pf_operatingSystem = ''linux'', pf_architecture = ''x64'', pf_isolation = ''vm''\<rparr>, re_capabilities = capabilities,
     re_networkDestinations = [], re_networkEnforcement = DenyAll, re_networkBoundaryReceipt = ''networkEnforcement=deny-all'',
     re_secretUse = SecretNone, re_canUploadArtifacts = True, re_canUploadEvidence = True, re_approvedBy = demo_operator, re_enrollmentReceipt = ''ok''\<rparr>"

definition demo_disclosure :: DisclosurePolicyRef where
  "demo_disclosure = \<lparr>disc_projectionId = ''p'', disc_classification = DProject\<rparr>"

definition demo_action_input :: NormalizedActionInput where
  "demo_action_input = \<lparr>nai_action = \<lparr>act_id = ''build'', act_moduleId = ''m'', act_moduleRoot = ''m'', act_dependencyIds = [], act_command = ''make'',
       act_inputGlobs = [], act_outputPaths = [''dist''], act_artifactOutputContract = None, act_network = [], act_resources = [], act_contractDigest = ''d''\<rparr>,
     nai_verifier = None, nai_projectRevisionId = ''rev'', nai_projectViewId = ''view'', nai_sourceSpaceSnapshots = [], nai_changeRevisionId = None,
     nai_workspaceId = None, nai_inputDigests = [''in''], nai_effectDigests = [], nai_dependencyDigest = ''d'', nai_toolchainDigest = ''d'',
     nai_environmentDigest = ''d'', nai_policyVersion = ''1'', nai_authorizationEpoch = ''1'', nai_targetId = None,
     nai_targetDeploymentProfileDigest = None, nai_disclosure = demo_disclosure, nai_actor = demo_operator, nai_capabilityGrantId = ''grant'', nai_runnerId = ''any''\<rparr>"

definition demo_run_request :: ExternalRunRequest where
  "demo_run_request = \<lparr>xr_idempotencyKey = ''key'', xr_runId = Some ''run:1'', xr_actionInput = demo_action_input, xr_runnerRequirements = [''gpu''],
     xr_secretUseAliases = None, xr_outputLocations = \<lparr>ol_logs = ''logs'', ol_artifacts = ''out/'', ol_evidence = ''proof''\<rparr>, xr_leaseExpiresAt = demo_time 9\<rparr>"

definition demo_uuid :: "nat \<Rightarrow> string" where
  "demo_uuid n = replicate n CHR ''u''"

definition demo_job :: string where
  "demo_job = ''runner-job:uu''"

definition demo_attempt :: string where
  "demo_attempt = ''runner-attempt:u''"

definition demo_enqueue :: rn_op where
  "demo_enqueue = Enqueue demo_uuid 0 demo_run_request"

definition demo_runners :: "rn_op list" where
  "demo_runners = [EnrollRunner (demo_enrollment ''r1'' [''gpu''] ''k1''), EnrollRunner (demo_enrollment ''r2'' [] ''k2''),
     ActivateRunner ''r1'' demo_operator, ActivateRunner ''r2'' demo_operator]"

definition demo_queue :: "rn_op list" where
  "demo_queue = demo_runners @ [demo_enqueue]"

definition demo_pull :: rn_op where
  "demo_pull = Pull ''c'' ''r1''"

definition demo_claim :: "string \<Rightarrow> string \<Rightarrow> ClaimInput" where
  "demo_claim r key = \<lparr>cl_runnerId = r, cl_jobId = demo_job, cl_attemptId = demo_attempt, cl_challenge = ''c'', cl_signature = key\<rparr>"

definition demo_claimed :: "rn_op list" where
  "demo_claimed = demo_queue @ [demo_pull, Claim ''1'' ''secret'' 1 (demo_claim ''r1'' ''k1'')]"

definition demo_token :: RunnerJobCredential where
  "demo_token = \<lparr>jc_id = ''runner-job-credential:1'', jc_audience = ''runner-job'', jc_jobId = demo_job, jc_attemptId = demo_attempt,
     jc_runnerId = ''r1'', jc_expiresAt = demo_time 9, jc_token = ''secret''\<rparr>"

definition demo_runners_initial :: RunnerCoordinator where
  "demo_runners_initial = \<lparr>rc_realmId = ''realm'', rc_projectId = ''p'', rc_runners = [], rc_jobs = [], rc_attempts = [], rc_offers = [],
     rc_credentials = [], rc_outputs = [], rc_idempotency = [], rc_retryIdempotency = [], rc_events = []\<rparr>"

definition demo_runs :: "rn_op list \<Rightarrow> RunnerCoordinator" where
  "demo_runs xs = run_ops (rn_step demo_crypto) xs demo_runners_initial"

definition demo_stored :: "RunnerCoordinator \<Rightarrow> StoredJob" where
  "demo_stored s = the (get_key (rc_jobs s) demo_job)"

definition demo_tried :: "RunnerCoordinator \<Rightarrow> RunnerAttempt" where
  "demo_tried s = the (get_key (rc_attempts s) demo_attempt)"

definition demo_held :: "RunnerCoordinator \<Rightarrow> StoredCredential" where
  "demo_held s = the (get_key (rc_credentials s) (jc_id demo_token))"

definition demo_runner :: "RunnerCoordinator \<Rightarrow> RunnerProfile" where
  "demo_runner s = the (get_key (rc_runners s) ''r1'')"

definition demo_holds :: "RunnerCoordinator \<Rightarrow> RunnerJobState \<Rightarrow> string list \<Rightarrow> bool" where
  "demo_holds s state attempts \<longleftrightarrow> has_key (rc_jobs s) demo_job \<and> has_key (rc_attempts s) demo_attempt \<and> has_key (rc_runners s) ''r1''
     \<and> (let job = sj_job (demo_stored s) in rj_state job = state \<and> rj_attemptIds job = attempts \<and> rj_currentAttemptId job = last attempts)
     \<and> ts_time (rt_leaseExpiresAt (demo_tried s)) = Some 9 \<and> get_key (rc_idempotency s) ''key'' = Some demo_job
     \<and> rp_status (demo_runner s) = RunnerActive \<and> rp_publicKey (demo_runner s) = ''k1''"

lemma demo_holdsD:
  assumes "demo_holds s state attempts"
  shows "get_key (rc_jobs s) demo_job = Some (demo_stored s)" "get_key (rc_attempts s) demo_attempt = Some (demo_tried s)"
    "rj_state (sj_job (demo_stored s)) = state" "rj_attemptIds (sj_job (demo_stored s)) = attempts" "rj_currentAttemptId (sj_job (demo_stored s)) = last attempts"
    "ts_time (rt_leaseExpiresAt (demo_tried s)) = Some 9" "get_key (rc_idempotency s) ''key'' = Some demo_job"
    "get_key (rc_runners s) ''r1'' = Some (demo_runner s)" "rp_status (demo_runner s) = RunnerActive" "rp_publicKey (demo_runner s) = ''k1''"
  using assms by (auto simp: demo_holds_def Let_def has_key_def demo_stored_def demo_tried_def demo_runner_def)

text \<open>
  The states of the run, each from the one before. The digest of every value is the same text, so the values that
  are hashed need not be written out.
\<close>

lemma demo_runner_digest: "runner_digest demo_crypto v = ''sha256:h''"
  by (cases v) (simp_all add: demo_crypto_def)

definition demo_locations :: RunnerOutputLocations where
  "demo_locations = \<lparr>ol_logs = ''logs'', ol_artifacts = ''out'', ol_evidence = ''proof''\<rparr>"

lemma demo_prepared: "enqueue_prepared demo_crypto demo_run_request = Inr (None, [], demo_locations, ''sha256:h'')"
proof -
  have "require_text (xr_idempotencyKey demo_run_request) ''idempotencyKey'' = None" "require_unique [] ''secretUseAliases'' = None"
    "normalizeOutputLocations (xr_outputLocations demo_run_request) = Inr demo_locations"
    by code_simp+
  moreover have "xr_secretUseAliases demo_run_request = None" "parsed_contract (nai_action (xr_actionInput demo_run_request)) = Inr None"
    by (simp_all add: demo_run_request_def demo_action_input_def parsed_contract_def)
  ultimately show ?thesis by (simp add: enqueue_prepared_def runnerInputManifestDigest_def demo_runner_digest)
qed

definition demo_activated :: RunnerCoordinator where
  "demo_activated = run_ops (rn_step demo_crypto) demo_runners demo_runners_initial"

definition demo_new_job :: StoredJob where
  "demo_new_job = \<lparr>sj_job = new_job 0 demo_run_request None [] demo_locations ''sha256:h'' ''p'' demo_job ''run:1'' demo_attempt,
     sj_run = new_run demo_action_input None ''run:1'' demo_attempt, sj_requestDigest = ''sha256:h''\<rparr>"

definition demo_queued :: RunnerCoordinator where
  "demo_queued = enqueue_commit demo_new_job (new_attempt demo_attempt demo_job ''run:1'' (demo_time 9)) demo_activated"

lemma demo_enqueued: "snd (enqueue demo_crypto demo_uuid 0 demo_run_request demo_activated) = demo_queued"
proof -
  have "get_key (rc_idempotency demo_activated) (xr_idempotencyKey demo_run_request) = None" "rc_projectId demo_activated = ''p''"
    "enqueue_error 0 demo_run_request ''run:1'' = None" "opaqueId ''runner-attempt'' (demo_uuid 1) = demo_attempt" "opaqueId ''runner-job'' (demo_uuid 2) = demo_job"
    by code_simp+
  moreover have "xr_runId demo_run_request = Some ''run:1''" "xr_actionInput demo_run_request = demo_action_input" "xr_leaseExpiresAt demo_run_request = demo_time 9"
    by (simp_all add: demo_run_request_def)
  ultimately show ?thesis
    by (simp add: enqueue_def demo_prepared keep_truthy_def demo_queued_def demo_new_job_def Let_def)
qed

definition demo_offered :: RunnerCoordinator where
  "demo_offered = snd (pull demo_crypto ''c'' ''r1'' demo_queued)"

definition demo_running :: RunnerCoordinator where
  "demo_running = snd (claim demo_crypto ''1'' ''secret'' 1 (demo_claim ''r1'' ''k1'') demo_offered)"

lemma demo_runs_queue [simp]: "demo_runs demo_runners = demo_activated" "demo_runs demo_queue = demo_queued"
  "demo_runs (demo_queue @ [demo_pull]) = demo_offered" "demo_runs demo_claimed = demo_running"
  by (simp_all add: demo_runs_def demo_activated_def [symmetric] demo_queue_def demo_claimed_def demo_enqueue_def demo_enqueued
      demo_pull_def demo_offered_def demo_running_def)

text \<open>The Result of the Runner, over the context the coordinator issues.\<close>

definition demo_context :: js_value where
  "demo_context = projr (runnerResultContext (sj_job (demo_stored demo_running)) (demo_tried demo_running))"

definition demo_normalized :: NormalizedActionOutput where
  "demo_normalized = \<lparr>nao_status = ResultFailed, nao_exitCode = Some 1, nao_inputDigests = [''in''], nao_outputDigests = [''dist=d''],
     nao_outputDigest = ''d'', nao_stdoutDigest = ''d'', nao_stderrDigest = ''d''\<rparr>"

definition demo_output :: "RunnerOutputKind \<Rightarrow> string \<Rightarrow> RunnerOutputInput" where
  "demo_output kind location = \<lparr>so_kind = kind, so_outputPath = None, so_digest = ''d'', ri_id = None, ri_location = location,
     ri_disclosure = demo_disclosure, ri_receipt = ''stored'', ri_runId = None, ri_attemptId = None\<rparr>"

definition demo_outputs :: "RunnerOutputInput list" where
  "demo_outputs = [demo_output OutputLog ''logs/1'', demo_output OutputArtifact ''out/runner-attempt:u/x'']"

definition demo_result :: RunnerResult where
  "demo_result = \<lparr>rslt_status = ResultFailed, rslt_output = demo_normalized, rslt_outputs = demo_outputs, rslt_context = demo_context,
     rslt_recoveryAction = None, rslt_signature = ''k1''\<rparr>"

definition demo_submitted :: "rn_op list" where
  "demo_submitted = demo_claimed @ [Submit (\<lambda>_. ''1'') 2 demo_token demo_result]"

definition demo_references :: "RunnerOutputReference list" where
  "demo_references = projr (output_references (\<lambda>_. ''1'') 0 (demo_stored demo_running) (demo_tried demo_running) demo_outputs)"

definition demo_closed :: RunnerCoordinator where
  "demo_closed = (let s = completeAttempt 2 (demo_stored demo_running) (demo_tried demo_running) ''r1'' StFailed StFailed RunFailed ''sha256:h''
       (Some demo_normalized) demo_running in s\<lparr>rc_outputs := set_key demo_attempt demo_references (rc_outputs s)\<rparr>)"

definition demo_again :: "rn_op list" where
  "demo_again = [Retry ''2'' 3 \<lparr>ret_jobId = demo_job, ret_idempotencyKey = ''again'', ret_leaseExpiresAt = demo_time 20, ret_actor = demo_operator\<rparr>, Pull ''c2'' ''r1'']"

definition demo_retried :: RunnerCoordinator where
  "demo_retried = run_ops (rn_step demo_crypto) demo_again demo_closed"

lemma demo_runners_new: "new_runner_coordinator ''realm'' ''p'' = Inr demo_runners_initial"
  by code_simp

lemma demo_claimed_admissible: "admissible rn_ok (rn_step demo_crypto) demo_claimed demo_runners_initial"
proof -
  have "admissible rn_ok (rn_step demo_crypto) demo_runners demo_runners_initial" "rn_ok demo_activated demo_enqueue"
    "rn_ok demo_offered (Claim ''1'' ''secret'' 1 (demo_claim ''r1'' ''k1''))"
    by code_simp+
  then show ?thesis
    using demo_runs_queue by (simp add: demo_claimed_def demo_queue_def demo_runs_def demo_pull_def)
qed

lemma demo_running_inv: "rn_inv demo_running"
  using runners.run_inv [OF new_runner_coordinator_inv [OF demo_runners_new] demo_claimed_admissible] by (simp add: demo_runs_def [symmetric])

lemma demo_queue_holds: "demo_holds demo_queued StQueued [demo_attempt]"
  by code_simp

lemma demo_running_holds: "demo_holds demo_running StRunning [demo_attempt]"
  by code_simp

lemma demo_authorized: "authorized demo_crypto 2 demo_token demo_running (demo_stored demo_running) (demo_tried demo_running) (demo_held demo_running)"
proof -
  define s where "s = demo_running"
  note facts = demo_holdsD [OF demo_running_holds, folded s_def]
  have "has_key (rc_credentials s) (jc_id demo_token)" "sc_digest (demo_held s) = ''sha256:h''" "sc_status (demo_held s) = JobCredentialActive"
    "sc_jobId (demo_held s) = demo_job" "sc_attemptId (demo_held s) = demo_attempt" "sc_runnerId (demo_held s) = ''r1''"
    "\<not> lease_over (sc_expiresAt (demo_held s)) 2"
    unfolding s_def by code_simp+
  then show ?thesis
    unfolding s_def [symmetric] by (simp add: authorized_def demo_runner_digest facts has_key_def demo_held_def demo_token_def del: runner_digest.simps)
qed

lemma demo_result_ok: "submit_state_error (demo_stored demo_running) = None"
  "result_error demo_crypto (demo_stored demo_running) (demo_tried demo_running) (demo_held demo_running) demo_result demo_running = None"
proof -
  define s where "s = demo_running"
  note facts = demo_holdsD [OF demo_running_holds, folded s_def]
  show "submit_state_error (demo_stored demo_running) = None" using facts(3) by (simp add: s_def submit_state_error_def fail_if_def)
  have "\<not> isl (runnerResultContext (sj_job (demo_stored s)) (demo_tried s))" "validateOutput (sj_job (demo_stored s)) (demo_tried s) demo_result = None"
    "rj_inputDigests (sj_job (demo_stored s)) = [''in'']" "sc_runnerId (demo_held s) = ''r1''"
    unfolding s_def by code_simp+
  moreover from this(1) have "runnerResultContext (sj_job (demo_stored s)) (demo_tried s) = Inr demo_context"
    by (simp add: demo_context_def s_def)
  moreover have "rx_verifies demo_crypto (rp_publicKey (demo_runner s)) m (rslt_signature demo_result)" for m
    using facts(10) by (simp add: demo_crypto_def demo_result_def)
  moreover have "rslt_context demo_result = demo_context" "nao_inputDigests (rslt_output demo_result) = [''in'']"
    by (simp_all add: demo_result_def demo_normalized_def)
  ultimately show "result_error demo_crypto (demo_stored demo_running) (demo_tried demo_running) (demo_held demo_running) demo_result demo_running = None"
    unfolding s_def [symmetric] using facts(8) by (simp add: result_error_def requireRunner_def fail_if_def)
qed

lemma demo_accepted: "succeeded (submit_result demo_crypto (\<lambda>_. ''1'') 2 demo_token demo_result demo_running)"
  "snd (submit_result demo_crypto (\<lambda>_. ''1'') 2 demo_token demo_result demo_running) = demo_closed"
proof -
  have fields: "rslt_outputs demo_result = demo_outputs" "rslt_status demo_result = ResultFailed" "rslt_output demo_result = demo_normalized"
    by (simp_all add: demo_result_def)
  from submit_accepts [OF demo_running_inv demo_authorized demo_result_ok, of "\<lambda>_. ''1''"] obtain refs runner
    where refs: "output_references (\<lambda>_. ''1'') 0 (demo_stored demo_running) (demo_tried demo_running) demo_outputs = Inr refs"
      and submit: "submit_result demo_crypto (\<lambda>_. ''1'') 2 demo_token demo_result demo_running
        = return (accepted_completion demo_crypto 2 (demo_stored demo_running) (demo_tried demo_running) (demo_held demo_running) demo_result refs runner)
            (accepted_state demo_crypto 2 (demo_stored demo_running) (demo_tried demo_running) (demo_held demo_running) demo_result refs demo_running)"
    unfolding fields by blast
  have digest: "result_digest demo_crypto st a result = ''sha256:h''" for st a result by (simp only: result_digest_def demo_runner_digest)
  have ids: "rt_id (demo_tried demo_running) = demo_attempt" "sc_runnerId (demo_held demo_running) = ''r1''" by code_simp+
  show "succeeded (submit_result demo_crypto (\<lambda>_. ''1'') 2 demo_token demo_result demo_running)" unfolding submit by (simp add: succeeded_def)
  show "snd (submit_result demo_crypto (\<lambda>_. ''1'') 2 demo_token demo_result demo_running) = demo_closed"
    unfolding submit by (simp add: accepted_state_def submit_commit_def Let_def digest fields ids refs demo_closed_def demo_references_def)
qed

lemma demo_runs_submitted [simp]: "demo_runs demo_submitted = demo_closed" "demo_runs (demo_submitted @ demo_again) = demo_retried"
  using demo_runs_queue(4) by (simp_all add: demo_runs_def demo_submitted_def demo_accepted demo_retried_def)

lemmas demo_states = demo_runs_queue demo_runs_submitted

lemma demo_submitted_admissible: "admissible rn_ok (rn_step demo_crypto) demo_submitted demo_runners_initial"
  using demo_claimed_admissible by (simp add: demo_submitted_def)

lemma demo_again_admissible: "admissible rn_ok (rn_step demo_crypto) (demo_submitted @ demo_again) demo_runners_initial"
proof -
  have "admissible rn_ok (rn_step demo_crypto) demo_again demo_closed" by code_simp
  with demo_submitted_admissible demo_runs_submitted(1) show ?thesis by (simp add: demo_runs_def)
qed

lemma demo_submitted_holds: "demo_holds demo_closed StFailed [demo_attempt]"
  by code_simp

lemma demo_again_holds: "demo_holds demo_retried StOffered [demo_attempt, ''runner-attempt:2'']"
  by code_simp

theorem stored_references_resolve_witness:
  "\<exists>a st. get_key (rc_attempts demo_retried) demo_attempt = Some a
     \<and> get_key (rc_jobs demo_retried) (rt_jobId a) = Some st \<and> demo_attempt \<in> set (rj_attemptIds (sj_job st))"
  using stored_references_resolve [OF demo_runners_new demo_again_admissible, folded demo_runs_def, unfolded demo_states] demo_holdsD(2) [OF demo_again_holds]
  by blast

theorem attempts_follow_jobs_witness:
  "rj_attemptIds (sj_job (demo_stored demo_retried)) = [demo_attempt, ''runner-attempt:2'']
   \<and> (\<exists>a. get_key (rc_attempts demo_retried) ''runner-attempt:2'' = Some a \<and> rt_state a = StOffered)"
proof -
  note facts = demo_holdsD [OF demo_again_holds]
  from attempts_follow_jobs [OF demo_runners_new demo_again_admissible, folded demo_runs_def, unfolded demo_states, OF facts(1)] facts(3-5) show ?thesis
    by auto
qed

theorem submit_accepts_iff_witness:
  "succeeded (submit_result demo_crypto (\<lambda>_. ''1'') 2 demo_token demo_result demo_running)
   \<and> (\<exists>st a c. authorized demo_crypto 2 demo_token demo_running st a c \<and> nao_inputDigests (rslt_output demo_result) = rj_inputDigests (sj_job st))"
  using submit_accepts_iff [OF demo_runners_new demo_claimed_admissible, folded demo_runs_def, unfolded demo_states, of "\<lambda>_. ''1''" 2 demo_token demo_result]
    demo_accepted(1) by blast

theorem accepted_outputs_in_scope_witness:
  "map ro_location (listOutputs demo_closed demo_attempt) = [''logs/1'', ''out/runner-attempt:u/x'']
   \<and> (\<exists>a. get_key (rc_attempts demo_closed) demo_attempt = Some a \<and> closed_state (rt_state a))"
proof -
  have locations: "map ro_location (listOutputs demo_closed demo_attempt) = [''logs/1'', ''out/runner-attempt:u/x'']" by code_simp
  then obtain ref where "ref \<in> set (listOutputs demo_closed demo_attempt)" by force
  from accepted_outputs_in_scope [OF demo_runners_new demo_submitted_admissible, folded demo_runs_def, unfolded demo_states, OF this] locations
  show ?thesis by blast
qed

theorem closed_attempts_are_final_witness:
  "\<not> succeeded (heartbeat demo_crypto 3 demo_token demo_retried)
   \<and> \<not> succeeded (submit_result demo_crypto (\<lambda>_. ''1'') 3 demo_token demo_result demo_retried)"
proof -
  have attempt: "jc_attemptId demo_token = demo_attempt" by (simp add: demo_token_def)
  have "closed_state (rt_state (demo_tried demo_closed))" by code_simp
  from closed_attempts_are_final [OF demo_runners_new demo_again_admissible, folded demo_runs_def, unfolded demo_states, of demo_token, unfolded attempt,
    OF demo_holdsD(2) [OF demo_submitted_holds] this] show ?thesis by blast
qed

theorem lease_bounds_attempt_witness:
  "\<not> succeeded (heartbeat demo_crypto 9 demo_token demo_running)"
proof -
  note facts = demo_holdsD [OF demo_queue_holds]
  have attempt: "jc_attemptId demo_token = demo_attempt" by (simp add: demo_token_def)
  from lease_bounds_attempt [OF demo_runners_new demo_claimed_admissible [unfolded demo_claimed_def], folded demo_runs_def demo_claimed_def, unfolded demo_states,
    of demo_token, unfolded attempt, OF facts(2,6), of 9] show ?thesis by simp
qed

theorem enqueue_is_idempotent_witness:
  "snd (enqueue demo_crypto (\<lambda>_. ''fresh'') 5 demo_run_request demo_running) = demo_running"
proof -
  note facts = demo_holdsD [OF demo_queue_holds]
  have key: "xr_idempotencyKey demo_run_request = ''key''" by (simp add: demo_run_request_def)
  from enqueue_is_idempotent [OF demo_runners_new demo_claimed_admissible [unfolded demo_claimed_def], folded demo_runs_def demo_claimed_def, unfolded demo_states,
    OF _ facts(1) demo_prepared, unfolded key, OF facts(7), of "\<lambda>_. ''fresh''" 5]
  obtain r where "enqueue demo_crypto (\<lambda>_. ''fresh'') 5 demo_run_request demo_running = (r, demo_running)" by blast
  then show ?thesis by simp
qed

definition demo_ready :: "RunnerCoordinator \<Rightarrow> bool" where
  "demo_ready s \<longleftrightarrow> has_key (rc_runners s) ''r1'' \<and> (let runner = demo_runner s in
     rp_status runner = RunnerActive \<and> length (pull_candidates runner s) = 1 \<and> runnerMatchesJob runner (sj_job (demo_stored s)))"


theorem claim_accepts_iff_witness:
  "rj_state (sj_job (demo_stored (snd (claim demo_crypto ''1'' ''secret'' 1 (demo_claim ''r1'' ''k1'') demo_offered)))) = StRunning"
proof -
  have "admissible rn_ok (rn_step demo_crypto) (demo_queue @ [demo_pull]) demo_runners_initial"
    using demo_claimed_admissible by (simp add: demo_claimed_def del: append.simps)
  note iff = claim_accepts_iff [OF demo_runners_new this, folded demo_runs_def, unfolded demo_states]
  have "succeeded (claim demo_crypto ''1'' ''secret'' 1 (demo_claim ''r1'' ''k1'') demo_offered)" by code_simp
  with iff [of "''1''" "''secret''" 1 "demo_claim ''r1'' ''k1''"] obtain st
    where "get_key (rc_jobs (snd (claim demo_crypto ''1'' ''secret'' 1 (demo_claim ''r1'' ''k1'') demo_offered))) (cl_jobId (demo_claim ''r1'' ''k1'')) = Some st"
      "rj_state (sj_job st) = StRunning" by blast
  then show ?thesis by (simp add: demo_stored_def demo_claim_def)
qed

text \<open>
  A Runner the Job was not offered to, and that does not have what the Job requires, can claim it with the challenge.
\<close>

definition demo_mismatch :: "RunnerCoordinator \<Rightarrow> bool" where
  "demo_mismatch s \<longleftrightarrow> \<not> runnerMatchesJob (the (get_key (rc_runners s) ''r2'')) (sj_job (demo_stored s)) \<and> rj_currentRunnerId (sj_job (demo_stored s)) = Some ''r1''
     \<and> succeeded (claim demo_crypto ''1'' ''secret'' 1 (demo_claim ''r2'' ''k2'') s)"

lemma demo_unmatched_claim: "demo_mismatch demo_offered"
  by code_simp

end
