(* ===== verification/Hybrid_Disclosure.thy ===== *)
theory Hybrid_Disclosure
  imports Evidence_Gate Workspace_Files Stable_Values
begin

text \<open>
  \<open>src/src/disclosure/hybrid.ts\<close>: what of a Project with public and private Source Spaces an audience is given.
  The public projection of a revision, its repository, the summaries of Intents, Pull Requests and Changes, the
  Sealed Verifier, which runs on private inputs and returns a safe part of its result, and the Publication Change.

  SHA-256 and the collation are the \<open>Platform\<close> of \<open>Stable_Values\<close>. The repository driver and the verifier are
  parameters too. An error is its code; prose, receipts nobody reads and time stamps that are only shown are left
  out.
\<close>

section \<open>Errors, audiences and paths\<close>

datatype HybridDisclosureErrorCode =
    HyProjectMismatch | HyDuplicateSourceSpace | HyUnknownSourceSpace | HySourceSpaceNotInProject | HyPublicSourceSpaceRequired
  | HyMissingPublicSnapshot | HySourceSnapshotMismatch | HySourceContentMissing | HyPublicFileInvalid | HyPublicFileCollision
  | HyPublicDestinationNotEmpty | HyRepositoryOperationFailed | HyAudienceNotAuthorized | HyPublicProjectionRequired
  | HyPrivateInputMismatch | HySealedOutputInvalid | HySealedSideChannel | HyPublicationState | HyPublicationNotPreviewed
  | HyPublicationNotLanded

fun audience_rank :: "DisclosureClassification \<Rightarrow> nat" where
  "audience_rank DPublic = 0"
| "audience_rank DProject = 1"
| "audience_rank DRestricted = 2"

definition sortedUnique :: "Platform \<Rightarrow> string list \<Rightarrow> HybridDisclosureErrorCode \<Rightarrow> HybridDisclosureErrorCode + string list" where
  "sortedUnique pl xs e = (if has_duplicates (locale_sort pl xs) then Inl e else Inr (locale_sort pl xs))"

definition normalizePublicPath :: "string \<Rightarrow> HybridDisclosureErrorCode + string" where
  "normalizePublicPath v =
     (let replaced = replaceChar (CHR 0x5C) (CHR ''/'') v;
          posix = posix_normalize replaced;
          normalized = (if startsWith posix ''./'' then drop 2 posix else posix);
          segments = split_on (CHR ''/'') replaced
      in if replaced = [] \<or> normalized = [] \<or> normalized = ''.'' \<or> startsWith normalized ''/''
            \<or> ''..'' \<in> set segments \<or> normalized = ''..'' \<or> startsWith normalized ''../''
            \<or> includesSub normalized ''/../'' \<or> CHR 0x00 \<in> set normalized \<or> ''.git'' \<in> set segments
         then Inl HyPublicFileInvalid else Inr normalized)"

definition catalogById :: "SourceSpace list \<Rightarrow> HybridDisclosureErrorCode + (string, SourceSpace) jsmap" where
  "catalogById spaces = (if has_duplicates (map space_id spaces) then Inl HyDuplicateSourceSpace
     else Inr (from_entries (map (\<lambda>sp. (space_id sp, sp)) spaces)))"

section \<open>The public projection\<close>

record PublicProjectionSource =
  pps_sourceSpaceId :: string
  pps_snapshotId :: string
  pps_files :: "(string, string) jsmap"
  pps_mountPath :: "string option"

record PublicProjectionInput =
  ppi_project :: Project
  ppi_canonicalRevision :: ProjectRevision
  ppi_sourceSpaces :: "SourceSpace list"
  ppi_publicSourceSpaceIds :: "string list"
  ppi_sources :: "PublicProjectionSource list"
  ppi_profileId :: "string option"

record PublicProjectionSourceDescriptor =
  ppd_id :: string
  ppd_name :: string
  ppd_snapshotId :: string

record PublicProjectionRevision =
  ppr_projectId :: string
  ppr_projectName :: string
  ppr_profileId :: string
  ppr_classification :: DisclosureClassification
  ppr_lineageId :: string
  ppr_projectionRevisionId :: string
  ppr_publicSnapshotId :: string
  ppr_contentDigest :: string
  ppr_sourceSpaces :: "PublicProjectionSourceDescriptor list"
  ppr_sourceSpaceIds :: "string list"
  ppr_sourceSpaceSnapshots :: "(string, string) jsmap"
  ppr_filePaths :: "string list"
  ppr_files :: "(string, string) jsmap"

text \<open>The loop over the requested ids.\<close>

definition public_space_error :: "Project \<Rightarrow> ProjectRevision \<Rightarrow> (string, SourceSpace) jsmap \<Rightarrow> string \<Rightarrow> HybridDisclosureErrorCode option" where
  "public_space_error project revision catalog i = (case get_key catalog i of
     None \<Rightarrow> Some HyUnknownSourceSpace
   | Some space \<Rightarrow>
       or_else (fail_if (i \<notin> set (proj_sourceSpaceIds project)) HySourceSpaceNotInProject)
       (or_else (fail_if (space_classification space \<noteq> SpacePublic) HyPublicSourceSpaceRequired)
         (fail_if (\<not> has_key (prev_sourceSpaceSnapshots revision) i) HyMissingPublicSnapshot)))"

definition publicSourceSpaceIds :: "Platform \<Rightarrow> PublicProjectionInput \<Rightarrow> HybridDisclosureErrorCode + string list" where
  "publicSourceSpaceIds pl input =
     (if prev_projectId (ppi_canonicalRevision input) \<noteq> proj_id (ppi_project input) then Inl HyProjectMismatch
      else sum_then (catalogById (ppi_sourceSpaces input)) (\<lambda>catalog.
        sum_then (sortedUnique pl (ppi_publicSourceSpaceIds input) HyDuplicateSourceSpace) (\<lambda>ids.
          sum_then (checked (check_loop (public_space_error (ppi_project input) (ppi_canonicalRevision input) catalog) ids)) (\<lambda>_. Inr ids))))"

text \<open>The sources by id, refusing a second source for the same Source Space.\<close>

definition index_source :: "PublicProjectionSource \<Rightarrow> (string, PublicProjectionSource) jsmap
    \<Rightarrow> HybridDisclosureErrorCode + (string, PublicProjectionSource) jsmap" where
  "index_source source m = (if has_key m (pps_sourceSpaceId source) then Inl HyDuplicateSourceSpace
     else Inr (set_key (pps_sourceSpaceId source) source m))"

definition sources_by_id :: "PublicProjectionSource list \<Rightarrow> HybridDisclosureErrorCode + (string, PublicProjectionSource) jsmap" where
  "sources_by_id sources = fold_loop index_source sources []"

definition source_mount :: "string list \<Rightarrow> string \<Rightarrow> PublicProjectionSource \<Rightarrow> HybridDisclosureErrorCode + string" where
  "source_mount ids i source = (case pps_mountPath source of
     None \<Rightarrow> Inr (if length ids = 1 then [] else i)
   | Some path \<Rightarrow> normalizePublicPath path)"

definition mounted_path :: "string \<Rightarrow> string \<Rightarrow> string" where
  "mounted_path mount path = (if mount = [] then path else mount @ ''/'' @ path)"

text \<open>\<open>files[mounted] = content\<close> on an object literal: assigning a text to \<open>__proto__\<close> has no effect.\<close>

definition assign_file :: "string \<Rightarrow> string \<Rightarrow> (string, string) jsmap \<Rightarrow> (string, string) jsmap" where
  "assign_file path content files = (if path = ''__proto__'' then files else set_key path content files)"

definition project_file :: "string \<Rightarrow> string \<times> string \<Rightarrow> (string, string) jsmap \<Rightarrow> HybridDisclosureErrorCode + (string, string) jsmap" where
  "project_file mount file files = sum_then (normalizePublicPath (fst file)) (\<lambda>path.
     if has_key files (mounted_path mount path) then Inl HyPublicFileCollision
     else Inr (assign_file (mounted_path mount path) (snd file) files))"

definition project_source :: "(string, PublicProjectionSource) jsmap \<Rightarrow> ProjectRevision \<Rightarrow> string list \<Rightarrow> string
    \<Rightarrow> (string, string) jsmap \<Rightarrow> HybridDisclosureErrorCode + (string, string) jsmap" where
  "project_source sources revision ids i files = (case get_key sources i of
     None \<Rightarrow> Inl HySourceContentMissing
   | Some source \<Rightarrow>
       if Some (pps_snapshotId source) \<noteq> get_key (prev_sourceSpaceSnapshots revision) i then Inl HySourceSnapshotMismatch
       else sum_then (source_mount ids i source) (\<lambda>mount. fold_loop (project_file mount) (pps_files source) files))"

definition projectionFiles :: "Platform \<Rightarrow> PublicProjectionSource list \<Rightarrow> string list \<Rightarrow> ProjectRevision \<Rightarrow> HybridDisclosureErrorCode + (string, string) jsmap" where
  "projectionFiles pl sources ids revision = sum_then (sources_by_id sources) (\<lambda>m.
     sum_then (fold_loop (project_source m revision ids) ids []) (\<lambda>files. Inr (sorted_object pl files)))"

definition public_descriptor :: "(string, SourceSpace) jsmap \<Rightarrow> ProjectRevision \<Rightarrow> string \<Rightarrow> HybridDisclosureErrorCode + PublicProjectionSourceDescriptor" where
  "public_descriptor catalog revision i = (case get_key catalog i of
     None \<Rightarrow> Inl HyUnknownSourceSpace
   | Some space \<Rightarrow> (case get_key (prev_sourceSpaceSnapshots revision) i of
         None \<Rightarrow> Inl HyMissingPublicSnapshot
       | Some snapshot \<Rightarrow> Inr \<lparr>ppd_id = i, ppd_name = space_name space, ppd_snapshotId = snapshot\<rparr>))"

definition public_descriptors :: "(string, SourceSpace) jsmap \<Rightarrow> ProjectRevision \<Rightarrow> string list
    \<Rightarrow> HybridDisclosureErrorCode + PublicProjectionSourceDescriptor list" where
  "public_descriptors catalog revision ids =
     fold_loop (\<lambda>i ds. sum_then (public_descriptor catalog revision i) (\<lambda>d. Inr (ds @ [d]))) ids []"

definition public_projection_protocol :: string where
  "public_projection_protocol = ''anyam.public-projection/v1''"

definition lineage_json :: "string \<Rightarrow> string \<Rightarrow> string list \<Rightarrow> js_value" where
  "lineage_json projectId profileId ids = JObject [(''protocol'', JString public_projection_protocol), (''projectId'', JString projectId),
     (''profileId'', JString profileId), (''sourceSpaceIds'', texts_json ids)]"

definition descriptor_json :: "PublicProjectionSourceDescriptor \<Rightarrow> js_value" where
  "descriptor_json d = JObject [(''id'', JString (ppd_id d)), (''name'', JString (ppd_name d)), (''snapshotId'', JString (ppd_snapshotId d))]"

definition snapshot_json :: "string \<Rightarrow> PublicProjectionSourceDescriptor list \<Rightarrow> (string, string) jsmap \<Rightarrow> js_value" where
  "snapshot_json lineageId spaces files = JObject [(''protocol'', JString public_projection_protocol), (''lineageId'', JString lineageId),
     (''sourceSpaces'', JArray (map descriptor_json spaces)), (''files'', record_json files)]"

definition revision_json :: "string \<Rightarrow> string \<Rightarrow> js_value" where
  "revision_json lineageId publicSnapshotId = JObject [(''protocol'', JString public_projection_protocol), (''lineageId'', JString lineageId),
     (''publicSnapshotId'', JString publicSnapshotId)]"

definition new_projection :: "Platform \<Rightarrow> Project \<Rightarrow> string \<Rightarrow> string list \<Rightarrow> PublicProjectionSourceDescriptor list
    \<Rightarrow> (string, string) jsmap \<Rightarrow> PublicProjectionRevision" where
  "new_projection pl project profileId ids spaces files =
     (let lineageId = stable_digest pl (lineage_json (proj_id project) profileId ids);
          publicSnapshotId = stable_digest pl (snapshot_json lineageId spaces files)
      in \<lparr>ppr_projectId = proj_id project, ppr_projectName = proj_name project, ppr_profileId = profileId, ppr_classification = DPublic,
        ppr_lineageId = lineageId, ppr_projectionRevisionId = stable_digest pl (revision_json lineageId publicSnapshotId),
        ppr_publicSnapshotId = publicSnapshotId, ppr_contentDigest = stable_digest pl (record_json files), ppr_sourceSpaces = spaces,
        ppr_sourceSpaceIds = ids, ppr_sourceSpaceSnapshots = own_order (map (\<lambda>d. (ppd_id d, ppd_snapshotId d)) spaces),
        ppr_filePaths = map_keys files, ppr_files = files\<rparr>)"

definition createPublicProjection :: "Platform \<Rightarrow> PublicProjectionInput \<Rightarrow> HybridDisclosureErrorCode + PublicProjectionRevision" where
  "createPublicProjection pl input =
     sum_then (publicSourceSpaceIds pl input) (\<lambda>ids.
     sum_then (catalogById (ppi_sourceSpaces input)) (\<lambda>catalog.
     sum_then (projectionFiles pl (ppi_sources input) ids (ppi_canonicalRevision input)) (\<lambda>files.
     sum_then (public_descriptors catalog (ppi_canonicalRevision input) ids) (\<lambda>spaces.
       Inr (new_projection pl (ppi_project input) (nullish (ppi_profileId input) ''public'') ids spaces files)))))"

section \<open>The repository of a projection\<close>

record RepositoryHandle =
  rh_repositoryId :: string
  rh_sourceSpaceId :: string

text \<open>
  The driver works on the same file system, a map from directories to the files below them. A call of the
  driver returns \<open>None\<close> when its status is \<open>failed\<close>.
\<close>

record RepositoryDriver =
  rd_createRepository :: "string \<Rightarrow> string \<Rightarrow> filesystem \<Rightarrow> RepositoryHandle option \<times> filesystem"
  rd_commitRepository :: "RepositoryHandle \<Rightarrow> string \<Rightarrow> filesystem \<Rightarrow> string option \<times> filesystem"

record PublicProjectionPublishResult =
  ppp_projection :: PublicProjectionRevision
  ppp_repository :: RepositoryHandle
  ppp_commitId :: string

definition assertEmptyDestination :: "string \<Rightarrow> filesystem \<Rightarrow> HybridDisclosureErrorCode option" where
  "assertEmptyDestination directory fs = (case get_key fs directory of
     None \<Rightarrow> None | Some tree \<Rightarrow> fail_if (tree \<noteq> []) HyPublicDestinationNotEmpty)"

text \<open>\<open>join(destination, ...path.split("/"))\<close>, below the destination.\<close>

definition projection_target :: "string \<Rightarrow> string" where
  "projection_target path = strip_trailing_slash (posix_normalize (join_with ''/'' (filter (\<lambda>w. w \<noteq> []) (split_on (CHR ''/'') path))))"

definition write_projection :: "string \<Rightarrow> PublicProjectionRevision \<Rightarrow> filesystem \<Rightarrow> filesystem" where
  "write_projection directory projection fs =
     set_key directory (foldl (\<lambda>tree (path, content). set_key (projection_target path) content tree) (nullish (get_key fs directory) []) (ppr_files projection)) fs"

definition materializePublicProjection :: "RepositoryDriver \<Rightarrow> string \<Rightarrow> PublicProjectionRevision \<Rightarrow> filesystem
    \<Rightarrow> (filesystem, HybridDisclosureErrorCode, PublicProjectionPublishResult) outcome" where
  "materializePublicProjection driver directory projection fs =
     (case assertEmptyDestination directory fs of
        Some e \<Rightarrow> raise e fs
      | None \<Rightarrow>
          (case rd_createRepository driver (case ppr_sourceSpaceIds projection of [] \<Rightarrow> ''public-projection:'' @ ppr_lineageId projection | i # _ \<Rightarrow> i) directory fs of
             (None, fs) \<Rightarrow> raise HyRepositoryOperationFailed fs
           | (Some repository, fs) \<Rightarrow>
               (case rd_commitRepository driver repository (''Publish public projection '' @ ppr_projectionRevisionId projection)
                       (write_projection directory projection fs) of
                  (None, fs) \<Rightarrow> raise HyRepositoryOperationFailed fs
                | (Some commitId, fs) \<Rightarrow> return \<lparr>ppp_projection = projection, ppp_repository = repository, ppp_commitId = commitId\<rparr> fs)))"

section \<open>Summaries for an audience\<close>

datatype IntentStatus = IntentOpen | IntentClosed

record Intent =
  int_id :: string
  int_projectId :: string
  int_title :: string
  int_description :: string
  int_status :: IntentStatus
  int_author :: ActorRef
  int_assigneePrincipalIds :: "string list"
  int_labels :: "string list"
  int_disclosure :: DisclosureClassification

record IntentComment =
  ic_id :: string
  ic_intentId :: string
  ic_projectId :: string
  ic_author :: ActorRef
  ic_body :: string
  ic_disclosure :: DisclosureClassification
  ic_createdAt :: string

datatype PullRequestStatus = PullOpen | PullClosed | PullMerged | PullBlocked

datatype PullRequestReviewState = ReviewPending | ReviewChangesRequested | ReviewApproved

text \<open>A Pull Request without its reviews and time stamps.\<close>

record PullRequest =
  pq_id :: string
  pq_projectId :: string
  pq_changeId :: string
  pq_provider :: string
  pq_externalKey :: "string option"
  pq_remoteRepository :: "string option"
  pq_sourceSpaceId :: "string option"
  pq_headRef :: string
  pq_baseRef :: string
  pq_headCommit :: string
  pq_baseCommit :: string
  pq_title :: string
  pq_description :: string
  pq_status :: PullRequestStatus
  pq_reviewState :: PullRequestReviewState
  pq_revisionIds :: "string list"
  pq_disclosure :: DisclosureClassification

record PublicChangeEffect =
  pce_sourceSpaceId :: string
  pce_publicLabel :: string
  pce_internalLabel :: "string option"

record AudienceEvidenceProjection =
  aep_id :: string
  aep_outcome :: EvidenceOutcome
  aep_disclosure :: DisclosureClassification

record AudienceChangeSummary =
  acs_audience :: DisclosureClassification
  acs_projectId :: string
  acs_changeId :: string
  acs_revisionId :: string
  acs_summary :: string
  acs_affectedSourceSpaceIds :: "string list"
  acs_declaredEffects :: "string list"
  acs_evidence :: "AudienceEvidenceProjection list"

record AudienceComment =
  acm_id :: string
  acm_body :: string
  acm_disclosure :: DisclosureClassification

record AudienceIntentSummary =
  ais_audience :: DisclosureClassification
  ais_projectId :: string
  ais_intentId :: string
  ais_title :: string
  ais_description :: string
  ais_status :: IntentStatus
  ais_labels :: "string list"
  ais_comments :: "AudienceComment list"

record AudiencePullRequestSummary =
  aps_audience :: DisclosureClassification
  aps_projectId :: string
  aps_pullRequestId :: string
  aps_changeId :: "string option"
  aps_title :: string
  aps_description :: string
  aps_status :: PullRequestStatus
  aps_reviewState :: PullRequestReviewState
  aps_headRef :: string
  aps_baseRef :: string
  aps_revisionCount :: nat

definition above_audience :: "DisclosureClassification \<Rightarrow> DisclosureClassification \<Rightarrow> bool" where
  "above_audience disclosure audience \<longleftrightarrow> audience_rank disclosure > audience_rank audience"

text \<open>The comments sorted by creation, those of one moment by id.\<close>

definition visible_comments :: "Platform \<Rightarrow> Intent \<Rightarrow> DisclosureClassification \<Rightarrow> IntentComment list \<Rightarrow> AudienceComment list" where
  "visible_comments pl intent audience comments =
     map (\<lambda>c. \<lparr>acm_id = ic_id c, acm_body = ic_body c, acm_disclosure = ic_disclosure c\<rparr>)
       (sort_key (\<lambda>c. pl_collation pl (ic_createdAt c)) (sort_key (\<lambda>c. pl_collation pl (ic_id c))
         (filter (\<lambda>c. ic_intentId c = int_id intent \<and> \<not> above_audience (ic_disclosure c) audience) comments)))"

definition summarizeIntentForAudience :: "Platform \<Rightarrow> Project \<Rightarrow> Intent \<Rightarrow> IntentComment list option \<Rightarrow> DisclosureClassification
    \<Rightarrow> HybridDisclosureErrorCode + AudienceIntentSummary option" where
  "summarizeIntentForAudience pl project intent comments audience =
     (if int_projectId intent \<noteq> proj_id project then Inl HyProjectMismatch
      else if above_audience (int_disclosure intent) audience then Inr None
      else Inr (Some \<lparr>ais_audience = audience, ais_projectId = proj_id project, ais_intentId = int_id intent, ais_title = int_title intent,
        ais_description = int_description intent, ais_status = int_status intent, ais_labels = int_labels intent,
        ais_comments = visible_comments pl intent audience (nullish comments [])\<rparr>))"

definition summarizePullRequestForAudience :: "Project \<Rightarrow> PullRequest \<Rightarrow> DisclosureClassification
    \<Rightarrow> HybridDisclosureErrorCode + AudiencePullRequestSummary option" where
  "summarizePullRequestForAudience project pull audience =
     (if pq_projectId pull \<noteq> proj_id project then Inl HyProjectMismatch
      else if above_audience (pq_disclosure pull) audience then Inr None
      else Inr (Some \<lparr>aps_audience = audience, aps_projectId = proj_id project, aps_pullRequestId = pq_id pull,
        aps_changeId = (if audience = DPublic then None else Some (pq_changeId pull)), aps_title = pq_title pull,
        aps_description = pq_description pull, aps_status = pq_status pull, aps_reviewState = pq_reviewState pull,
        aps_headRef = pq_headRef pull, aps_baseRef = pq_baseRef pull, aps_revisionCount = length (pq_revisionIds pull)\<rparr>))"

record ChangeSummaryInput =
  csi_project :: Project
  csi_changeRevision :: ChangeRevision
  csi_sourceSpaces :: "SourceSpace list"
  csi_audience :: DisclosureClassification
  csi_publicSummary :: string
  csi_internalSummary :: "string option"
  csi_publicProjection :: "PublicProjectionRevision option"
  csi_effects :: "PublicChangeEffect list option"
  csi_evidence :: "Evidence list option"

definition effect_error :: "ChangeSummaryInput \<Rightarrow> (string, SourceSpace) jsmap \<Rightarrow> PublicChangeEffect \<Rightarrow> HybridDisclosureErrorCode option" where
  "effect_error input catalog effect = or_else (fail_if (\<not> has_key catalog (pce_sourceSpaceId effect)) HyUnknownSourceSpace)
     (fail_if (pce_sourceSpaceId effect \<notin> set (proj_sourceSpaceIds (csi_project input))) HySourceSpaceNotInProject)"

definition is_public_space :: "(string, SourceSpace) jsmap \<Rightarrow> string \<Rightarrow> bool" where
  "is_public_space catalog i \<longleftrightarrow> map_option space_classification (get_key catalog i) = Some SpacePublic"

definition visible_effects :: "ChangeSummaryInput \<Rightarrow> (string, SourceSpace) jsmap \<Rightarrow> PublicChangeEffect list" where
  "visible_effects input catalog = filter (\<lambda>e. is_public_space catalog (pce_sourceSpaceId e)) (nullish (csi_effects input) [])"

definition affected_ids :: "Platform \<Rightarrow> ChangeSummaryInput \<Rightarrow> (string, SourceSpace) jsmap \<Rightarrow> string list" where
  "affected_ids pl input catalog =
     (let ids = nullish (rev_affectedSourceSpaceIds (csi_changeRevision input)) [] in
      if csi_audience input = DPublic
      then locale_sort pl (uniq (filter (is_public_space catalog) ids @ map pce_sourceSpaceId (visible_effects input catalog)))
      else locale_sort pl (uniq (ids @ map pce_sourceSpaceId (nullish (csi_effects input) []))))"

definition effect_labels :: "ChangeSummaryInput \<Rightarrow> (string, SourceSpace) jsmap \<Rightarrow> string list" where
  "effect_labels input catalog =
     (if csi_audience input = DPublic then map pce_publicLabel (visible_effects input catalog)
      else map (\<lambda>e. nullish (pce_internalLabel e) (pce_publicLabel e)) (nullish (csi_effects input) []))"

definition summary_projection_id :: "ChangeSummaryInput \<Rightarrow> string" where
  "summary_projection_id input = (case csi_publicProjection input of
     None \<Rightarrow> ''project:'' @ proj_id (csi_project input) | Some p \<Rightarrow> ppr_projectionRevisionId p)"

definition summary_change_id :: "Platform \<Rightarrow> ChangeSummaryInput \<Rightarrow> string" where
  "summary_change_id pl input = (if csi_audience input = DPublic
     then stable_digest pl (JObject [(''domain'', JString ''public-change''), (''projectionId'', JString (summary_projection_id input)),
       (''changeId'', JString (rev_changeId (csi_changeRevision input)))])
     else rev_changeId (csi_changeRevision input))"

definition summary_revision_id :: "Platform \<Rightarrow> ChangeSummaryInput \<Rightarrow> string" where
  "summary_revision_id pl input = (if csi_audience input = DPublic
     then stable_digest pl (JObject [(''domain'', JString ''public-change-revision''), (''projectionId'', JString (summary_projection_id input)),
       (''changeId'', JString (summary_change_id pl input)), (''sequence'', JNumber (int (rev_sequence (csi_changeRevision input))))])
     else rev_id (csi_changeRevision input))"

definition evidence_projection :: "Platform \<Rightarrow> ChangeSummaryInput \<Rightarrow> Evidence \<Rightarrow> AudienceEvidenceProjection" where
  "evidence_projection pl input e = \<lparr>
     aep_id = (if csi_audience input = DPublic
       then stable_digest pl (JObject [(''domain'', JString ''public-evidence''), (''projectionId'', JString (summary_projection_id input)),
         (''evidence'', JString (ev_id e))])
       else ev_id e),
     aep_outcome = ev_outcome e,
     aep_disclosure = (if csi_audience input = DPublic then DPublic else disc_classification (ev_disclosure e))\<rparr>"

definition visible_evidence :: "ChangeSummaryInput \<Rightarrow> Evidence list" where
  "visible_evidence input = filter (\<lambda>e. csi_audience input \<noteq> DPublic \<or> disc_classification (ev_disclosure e) = DPublic) (nullish (csi_evidence input) [])"

definition summarizeChangeForAudience :: "Platform \<Rightarrow> ChangeSummaryInput \<Rightarrow> HybridDisclosureErrorCode + AudienceChangeSummary" where
  "summarizeChangeForAudience pl input =
     sum_then (catalogById (csi_sourceSpaces input)) (\<lambda>catalog.
     sum_then (checked (or_else (fail_if (csi_audience input = DPublic \<and> csi_publicProjection input = None) HyPublicProjectionRequired)
                (check_loop (effect_error input catalog) (nullish (csi_effects input) [])))) (\<lambda>_.
       Inr \<lparr>acs_audience = csi_audience input, acs_projectId = proj_id (csi_project input), acs_changeId = summary_change_id pl input,
         acs_revisionId = summary_revision_id pl input,
         acs_summary = (if csi_audience input = DPublic then csi_publicSummary input else nullish (csi_internalSummary input) (csi_publicSummary input)),
         acs_affectedSourceSpaceIds = affected_ids pl input catalog, acs_declaredEffects = effect_labels input catalog,
         acs_evidence = map (evidence_projection pl input) (visible_evidence input)\<rparr>))"

section \<open>The Sealed Verifier\<close>

datatype SealedDisclosureClass = SealedStatus | SealedSafeSummary | SealedRedactedFindings | SealedAuthorizedDetail

datatype AcceptedInput = AcceptsProjectView | AcceptsChangeRevision

datatype SideChannelPolicy = SideChannelCoarse | SideChannelOwner

datatype AppealPolicy = AppealMaintainer | AppealRerun | AppealNone

record SealedVerifierContract =
  svc_id :: string
  svc_name :: string
  svc_actionId :: string
  svc_actionContractDigest :: string
  svc_contractDigest :: string
  svc_acceptedInput :: AcceptedInput
  svc_privateSourceSpaceIds :: "string list"
  svc_allowedAudiences :: "DisclosureClassification list"
  svc_disclosure :: SealedDisclosureClass
  svc_sideChannelPolicy :: SideChannelPolicy
  svc_appealPolicy :: AppealPolicy

record SealedVerifierPrivateInput =
  spi_sourceSpaceIds :: "string list"
  spi_files :: "(string, string) jsmap"
  spi_inputDigests :: "string list"

record SealedVerifierExecutionContext =
  sec_publicProjection :: PublicProjectionRevision
  sec_changeRevision :: ChangeRevision
  sec_privateInput :: SealedVerifierPrivateInput

datatype SealedStatus = VerifierPassed | VerifierFailed | VerifierIndeterminate

record SafeFinding =
  sf_code :: string
  sf_summary :: string

record SealedVerifierPrivateResult =
  spr_status :: SealedStatus
  spr_safeSummary :: "string option"
  spr_safeFindings :: "SafeFinding list option"
  spr_outputDigest :: string
  spr_privateReceipt :: string

record SealedEvidenceProjection =
  sep_id :: string
  sep_outcome :: EvidenceOutcome
  sep_disclosure :: DisclosureClassification
  sep_verifierId :: string
  sep_projectViewId :: string

datatype AppealStatus = AppealEligible | AppealNotAvailable

record SealedVerificationAppeal =
  sva_id :: string
  sva_runId :: string
  sva_status :: AppealStatus
  sva_audience :: DisclosureClassification
  sva_projectViewId :: string

record SealedVerificationResult =
  svr_id :: string
  svr_runId :: string
  svr_verifierId :: string
  svr_audience :: DisclosureClassification
  svr_status :: SealedStatus
  svr_disclosure :: SealedDisclosureClass
  svr_projectViewId :: string
  svr_summary :: "string option"
  svr_findings :: "SafeFinding list option"
  svr_evidence :: SealedEvidenceProjection
  svr_appeal :: SealedVerificationAppeal
  svr_contractDigest :: string

record SealedRunInput =
  sri_projectId :: string
  sri_publicProjection :: PublicProjectionRevision
  sri_changeRevision :: ChangeRevision
  sri_contract :: SealedVerifierContract
  sri_audience :: DisclosureClassification
  sri_privateInput :: SealedVerifierPrivateInput
  sri_actor :: ActorRef
  sri_runnerId :: string
  sri_policyVersion :: string
  sri_authorizationEpoch :: string
  sri_capabilityGrantId :: string
  sri_owner :: string

text \<open>
  The regular expression for exact counts, timings and resource details, ignoring the case of ASCII letters:
  \<open>\b\d+\s+tests?\b\<close>, \<open>\b(duration|elapsed|cache)\s*[:=]\<close> and \<open>\b(cpu|memory|resource)\s+(usage|cost)\s*[:=]\<close>,
  looked for at every position. The text before a position matters for \<open>\b\<close> only by its last character.
\<close>

definition word_char :: "char \<Rightarrow> bool" where
  "word_char c \<longleftrightarrow> ascii_letter c \<or> c \<in> set ''0123456789_''"

definition word_boundary :: "char option \<Rightarrow> string \<Rightarrow> bool" where
  "word_boundary before s \<longleftrightarrow> (case before of None \<Rightarrow> False | Some c \<Rightarrow> word_char c) \<noteq> (case s of [] \<Rightarrow> False | c # _ \<Rightarrow> word_char c)"

definition skip_space :: "string \<Rightarrow> string" where
  "skip_space s = dropWhile js_whitespace s"

definition starts_space :: "string \<Rightarrow> bool" where
  "starts_space s \<longleftrightarrow> s \<noteq> [] \<and> js_whitespace (hd s)"

definition separator_next :: "string \<Rightarrow> bool" where
  "separator_next s \<longleftrightarrow> skip_space s \<noteq> [] \<and> hd (skip_space s) \<in> {CHR '':'', CHR ''=''}"

definition test_count :: "string \<Rightarrow> bool" where
  "test_count s \<longleftrightarrow>
     (let digit = (\<lambda>c. c \<in> set ''0123456789''); rest = dropWhile digit s; word = skip_space rest; tail = drop 4 word
      in s \<noteq> [] \<and> digit (hd s) \<and> starts_space rest \<and> startsWith word ''test''
         \<and> (word_boundary (Some CHR ''t'') tail \<or> tail \<noteq> [] \<and> hd tail = CHR ''s'' \<and> word_boundary (Some CHR ''s'') (tl tail)))"

definition timing_field :: "string \<Rightarrow> bool" where
  "timing_field s \<longleftrightarrow> list_ex (\<lambda>w. startsWith s w \<and> separator_next (drop (length w) s)) [''duration'', ''elapsed'', ''cache'']"

definition resource_field :: "string \<Rightarrow> bool" where
  "resource_field s \<longleftrightarrow> list_ex (\<lambda>w. startsWith s w \<and> starts_space (drop (length w) s)
     \<and> list_ex (\<lambda>v. startsWith (skip_space (drop (length w) s)) v \<and> separator_next (drop (length v) (skip_space (drop (length w) s)))) [''usage'', ''cost''])
     [''cpu'', ''memory'', ''resource'']"

fun side_channel_from :: "char option \<Rightarrow> string \<Rightarrow> bool" where
  "side_channel_from before [] = False"
| "side_channel_from before (c # s) = (word_boundary before (c # s) \<and> (test_count (c # s) \<or> timing_field (c # s) \<or> resource_field (c # s))
     \<or> side_channel_from (Some c) s)"

definition side_channel :: "string \<Rightarrow> bool" where
  "side_channel text = side_channel_from None (ascii_lower text)"

definition finding_json :: "SafeFinding \<Rightarrow> js_value" where
  "finding_json f = JObject [(''code'', JString (sf_code f)), (''summary'', JString (sf_summary f))]"

definition safe_payload :: "SealedVerifierPrivateResult \<Rightarrow> js_value" where
  "safe_payload r = JObject ((case spr_safeSummary r of None \<Rightarrow> [] | Some x \<Rightarrow> [(''safeSummary'', JString x)])
     @ (case spr_safeFindings r of None \<Rightarrow> [] | Some fs \<Rightarrow> [(''safeFindings'', JArray (map finding_json fs))]))"

definition restricted_markers :: "SealedVerifierPrivateInput \<Rightarrow> string list" where
  "restricted_markers p = spi_sourceSpaceIds p @ map_keys (spi_files p) @ spi_inputDigests p"

definition containsRestrictedMarker :: "Platform \<Rightarrow> js_value \<Rightarrow> SealedVerifierPrivateInput \<Rightarrow> bool" where
  "containsRestrictedMarker pl v p \<longleftrightarrow> list_ex (\<lambda>marker. marker \<noteq> [] \<and> includesSub (stable_text pl v) marker) (restricted_markers p)
     \<or> side_channel (stable_text pl v)"

definition validatePrivateInput :: "Platform \<Rightarrow> SealedVerifierContract \<Rightarrow> SealedVerifierPrivateInput \<Rightarrow> HybridDisclosureErrorCode option" where
  "validatePrivateInput pl contract p =
     (case sortedUnique pl (svc_privateSourceSpaceIds contract) HyDuplicateSourceSpace of
        Inl e \<Rightarrow> Some e
      | Inr expected \<Rightarrow> (case sortedUnique pl (spi_sourceSpaceIds p) HyDuplicateSourceSpace of
            Inl e \<Rightarrow> Some e
          | Inr actual \<Rightarrow> fail_if (stable_text pl (texts_json expected) \<noteq> stable_text pl (texts_json actual)) HyPrivateInputMismatch))"

text \<open>The checks before the verifier runs, and those of what it returns.\<close>

definition sealed_input_error :: "Platform \<Rightarrow> SealedRunInput \<Rightarrow> HybridDisclosureErrorCode option" where
  "sealed_input_error pl input =
     or_else (fail_if (sri_audience input \<notin> set (svc_allowedAudiences (sri_contract input))) HyAudienceNotAuthorized)
     (or_else (fail_if (ppr_projectId (sri_publicProjection input) \<noteq> sri_projectId input \<or> ppr_classification (sri_publicProjection input) \<noteq> DPublic)
                 HyPublicProjectionRequired)
     (or_else (validatePrivateInput pl (sri_contract input) (sri_privateInput input))
       (fail_if (sri_audience input = DPublic \<and> svc_disclosure (sri_contract input) = SealedAuthorizedDetail) HyAudienceNotAuthorized)))"

definition no_feedback :: "SealedVerifierPrivateResult \<Rightarrow> bool" where
  "no_feedback r \<longleftrightarrow> (case spr_safeSummary r of None \<Rightarrow> True | Some x \<Rightarrow> blank x) \<and> (case spr_safeFindings r of None \<Rightarrow> True | Some fs \<Rightarrow> fs = [])"

definition sealed_output_error :: "Platform \<Rightarrow> SealedRunInput \<Rightarrow> SealedVerifierPrivateResult \<Rightarrow> HybridDisclosureErrorCode option" where
  "sealed_output_error pl input r =
     (let disclosure = svc_disclosure (sri_contract input) in
      or_else (fail_if (blank (spr_outputDigest r) \<or> blank (spr_privateReceipt r)) HySealedOutputInvalid)
      (or_else (fail_if ((sri_audience input = DPublic \<or> disclosure \<noteq> SealedAuthorizedDetail)
                  \<and> containsRestrictedMarker pl (safe_payload r) (sri_privateInput input)) HySealedSideChannel)
        (fail_if ((disclosure = SealedSafeSummary \<or> disclosure = SealedRedactedFindings) \<and> no_feedback r) HySealedOutputInvalid)))"

fun sealed_outcome :: "SealedStatus \<Rightarrow> EvidenceOutcome" where
  "sealed_outcome VerifierPassed = Passed"
| "sealed_outcome VerifierFailed = Failed"
| "sealed_outcome VerifierIndeterminate = Indeterminate"

definition sealed_evidence_id :: "Platform \<Rightarrow> SealedRunInput \<Rightarrow> string \<Rightarrow> string" where
  "sealed_evidence_id pl input runId = stable_digest pl (JObject [(''domain'', JString ''sealed-evidence''), (''runId'', JString runId),
     (''projection'', JString (ppr_projectionRevisionId (sri_publicProjection input)))])"

definition sealed_input_digests :: "SealedRunInput \<Rightarrow> string list" where
  "sealed_input_digests input = ppr_contentDigest (sri_publicProjection input) # spi_inputDigests (sri_privateInput input)"

definition sealed_validity_key :: "Platform \<Rightarrow> SealedRunInput \<Rightarrow> string" where
  "sealed_validity_key pl input = stable_digest pl (JObject [(''projectViewId'', JString (ppr_projectionRevisionId (sri_publicProjection input))),
     (''changeRevisionId'', JString (rev_id (sri_changeRevision input))), (''verifierContractDigest'', JString (svc_contractDigest (sri_contract input))),
     (''inputDigests'', texts_json (sealed_input_digests input))])"

definition sealed_evidence :: "Platform \<Rightarrow> SealedRunInput \<Rightarrow> string \<Rightarrow> SealedVerifierPrivateResult \<Rightarrow> Evidence" where
  "sealed_evidence pl input runId r =
     (let contract = sri_contract input; projection = sri_publicProjection input in
      \<lparr>ev_id = sealed_evidence_id pl input runId, ev_key = ''sealed-verifier:'' @ svc_id contract, ev_criterion = ''sealed-verifier:'' @ svc_id contract,
       ev_outcome = sealed_outcome (spr_status r), ev_validityKey = sealed_validity_key pl input, ev_actionId = svc_actionId contract,
       ev_verifierId = svc_id contract, ev_toolchainDigest = svc_actionContractDigest contract,
       ev_dependencyDigest = stable_digest pl (texts_json (spi_inputDigests (sri_privateInput input))),
       ev_environmentDigest = stable_digest pl (JObject [(''runnerId'', JString (sri_runnerId input)), (''contract'', JString (svc_contractDigest contract))]),
       ev_inputDigests = sealed_input_digests input, ev_effectDigests = [], ev_outputDigest = spr_outputDigest r, ev_createdAt = [],
       ev_producer = \<lparr>producer_kind = ProducerRun, producer_id = runId, producer_version = ''v1''\<rparr>,
       ev_projectRevisionId = rev_projectRevisionId (sri_changeRevision input), ev_projectViewId = ppr_projectionRevisionId projection,
       ev_changeRevisionId = Some (rev_id (sri_changeRevision input)), ev_runId = runId, ev_actor = sri_actor input, ev_runnerId = sri_runnerId input,
       ev_policyVersion = sri_policyVersion input, ev_authorizationEpoch = sri_authorizationEpoch input, ev_capabilityGrantId = sri_capabilityGrantId input,
       ev_disclosure = \<lparr>disc_projectionId = ppr_projectionRevisionId projection, disc_classification = sri_audience input\<rparr>,
       ev_receipt = spr_privateReceipt r,
       ev_invalidators = [''project-view-revision'', ''change-revision'', ''sealed-verifier-contract'', ''private-inputs'', ''policy''],
       ev_owner = sri_owner input, ev_residualRiskId = None, ev_sourceSpaceSnapshots = Some (ppr_sourceSpaceSnapshots projection),
       ev_actionContractDigest = Some (svc_actionContractDigest contract), ev_verifierContractDigest = Some (svc_contractDigest contract),
       ev_targetId = None, ev_workspaceId = None\<rparr>)"

text \<open>To a public audience the names of verifier and contract are digests.\<close>

definition disclosed_name :: "Platform \<Rightarrow> SealedRunInput \<Rightarrow> string \<Rightarrow> string \<Rightarrow> string" where
  "disclosed_name pl input domain name = (if sri_audience input = DPublic
     then stable_digest pl (JObject [(''domain'', JString domain), (''contractDigest'', JString (svc_contractDigest (sri_contract input))),
       (''projection'', JString (ppr_projectionRevisionId (sri_publicProjection input)))])
     else name)"

definition disclosed_findings :: "SealedVerifierContract \<Rightarrow> SealedVerifierPrivateResult \<Rightarrow> SafeFinding list option" where
  "disclosed_findings contract r =
     (if svc_disclosure contract = SealedRedactedFindings \<or> svc_disclosure contract = SealedAuthorizedDetail then spr_safeFindings r else None)"

definition sealed_result :: "Platform \<Rightarrow> SealedRunInput \<Rightarrow> (nat \<Rightarrow> string) \<Rightarrow> SealedVerifierPrivateResult \<Rightarrow> SealedVerificationResult" where
  "sealed_result pl input u r =
     (let contract = sri_contract input; projectionId = ppr_projectionRevisionId (sri_publicProjection input); runId = opaqueId ''sealed-run'' (u 0);
          verifierId = disclosed_name pl input ''public-sealed-verifier'' (svc_id contract)
      in \<lparr>svr_id = opaqueId ''sealed-result'' (u 2), svr_runId = runId, svr_verifierId = verifierId, svr_audience = sri_audience input,
        svr_status = spr_status r, svr_disclosure = svc_disclosure contract, svr_projectViewId = projectionId,
        svr_summary = (if svc_disclosure contract = SealedStatus then None else keep_truthy (spr_safeSummary r)),
        svr_findings = disclosed_findings contract r,
        svr_evidence = \<lparr>sep_id = sealed_evidence_id pl input runId, sep_outcome = sealed_outcome (spr_status r), sep_disclosure = sri_audience input,
          sep_verifierId = verifierId, sep_projectViewId = projectionId\<rparr>,
        svr_appeal = \<lparr>sva_id = opaqueId ''sealed-appeal'' (u 1), sva_runId = runId,
          sva_status = (if svc_appealPolicy contract = AppealNone then AppealNotAvailable else AppealEligible), sva_audience = sri_audience input,
          sva_projectViewId = projectionId\<rparr>,
        svr_contractDigest = disclosed_name pl input ''public-sealed-contract'' (svc_contractDigest contract)\<rparr>)"

text \<open>
  The verifier is the parameter \<open>execute\<close>; what it may do to the ledger while it runs is not part of the model.
  The ledger of the caller is the state.
\<close>

definition runSealedVerifier :: "Platform \<Rightarrow> (SealedVerifierExecutionContext \<Rightarrow> SealedVerifierPrivateResult) \<Rightarrow> string \<Rightarrow> (nat \<Rightarrow> string)
    \<Rightarrow> SealedRunInput \<Rightarrow> EvidenceLedger \<Rightarrow> (EvidenceLedger, HybridDisclosureErrorCode, SealedVerificationResult) outcome" where
  "runSealedVerifier pl execute now u input ledger =
     (case sealed_input_error pl input of
        Some e \<Rightarrow> raise e ledger
      | None \<Rightarrow>
          let r = execute \<lparr>sec_publicProjection = sri_publicProjection input, sec_changeRevision = sri_changeRevision input,
                    sec_privateInput = sri_privateInput input\<rparr>;
              runId = opaqueId ''sealed-run'' (u 0)
          in (case sealed_output_error pl input r of
                Some e \<Rightarrow> raise e ledger
              | None \<Rightarrow> return (sealed_result pl input u r)
                  (snd (ledger_append [] now \<lparr>eai_id = Some (sealed_evidence_id pl input runId), eai_createdAt = None,
                     eai_body = sealed_evidence pl input runId r\<rparr> ledger))))"

definition appealSealedVerification :: "string \<Rightarrow> SealedVerificationResult \<Rightarrow> string \<Rightarrow> HybridDisclosureErrorCode + SealedVerificationAppeal" where
  "appealSealedVerification uuid result reason =
     (if sva_status (svr_appeal result) = AppealNotAvailable then Inl HyAudienceNotAuthorized
      else if blank reason then Inl HySealedOutputInvalid
      else Inr ((svr_appeal result)\<lparr>sva_id := opaqueId ''sealed-appeal'' uuid, sva_status := AppealEligible\<rparr>))"

section \<open>Publication Changes\<close>

datatype PublicationHistoryPolicy = HistoryCurated | HistorySelected | HistoryFull

datatype MetadataDisclosure = MetadataNone | MetadataSafe

datatype PublicationState = PubDraft | PubPreviewed | PubApproved | PubLanded | PubRevoked

record PublicationChange =
  pch_id :: string
  pch_projectId :: string
  pch_publicSourceSpaceId :: string
  pch_publicProjection :: PublicProjectionRevision
  pch_historyPolicy :: PublicationHistoryPolicy
  pch_metadataDisclosure :: MetadataDisclosure
  pch_state :: PublicationState
  pch_landedAt :: "string option"
  pch_revokedAt :: "string option"

record CreatePublicationInput =
  cpi_projectId :: string
  cpi_publicProjection :: PublicProjectionRevision
  cpi_historyPolicy :: "PublicationHistoryPolicy option"
  cpi_metadataDisclosure :: "MetadataDisclosure option"
  cpi_id :: "string option"

definition createPublicationChange :: "string \<Rightarrow> CreatePublicationInput \<Rightarrow> HybridDisclosureErrorCode + PublicationChange" where
  "createPublicationChange uuid input =
     (if ppr_projectId (cpi_publicProjection input) \<noteq> cpi_projectId input \<or> ppr_classification (cpi_publicProjection input) \<noteq> DPublic
      then Inl HyProjectMismatch
      else (case ppr_sourceSpaceIds (cpi_publicProjection input) of
          [] \<Rightarrow> Inl HySourceContentMissing
        | i # _ \<Rightarrow>
            if i = [] then Inl HySourceContentMissing
            else Inr \<lparr>pch_id = nullish (cpi_id input) (opaqueId ''publication-change'' uuid), pch_projectId = cpi_projectId input,
              pch_publicSourceSpaceId = i, pch_publicProjection = cpi_publicProjection input,
              pch_historyPolicy = nullish (cpi_historyPolicy input) HistoryCurated,
              pch_metadataDisclosure = nullish (cpi_metadataDisclosure input) MetadataNone, pch_state = PubDraft, pch_landedAt = None, pch_revokedAt = None\<rparr>))"

definition previewPublicationChange :: "PublicationChange \<Rightarrow> HybridDisclosureErrorCode + PublicationChange" where
  "previewPublicationChange c = (if pch_state c \<noteq> PubDraft \<and> pch_state c \<noteq> PubPreviewed then Inl HyPublicationState
     else Inr (c\<lparr>pch_state := PubPreviewed\<rparr>))"

definition approvePublicationChange :: "PublicationChange \<Rightarrow> HybridDisclosureErrorCode + PublicationChange" where
  "approvePublicationChange c = (if pch_state c \<noteq> PubPreviewed then Inl HyPublicationNotPreviewed else Inr (c\<lparr>pch_state := PubApproved\<rparr>))"

definition landPublicationChange :: "string \<Rightarrow> PublicationChange \<Rightarrow> HybridDisclosureErrorCode + PublicationChange" where
  "landPublicationChange landedAt c = (if pch_state c \<noteq> PubApproved \<and> pch_state c \<noteq> PubPreviewed then Inl HyPublicationNotPreviewed
     else Inr (c\<lparr>pch_state := PubLanded, pch_landedAt := Some landedAt\<rparr>))"

definition revokePublicationChange :: "string \<Rightarrow> PublicationChange \<Rightarrow> HybridDisclosureErrorCode + PublicationChange" where
  "revokePublicationChange revokedAt c = (if pch_state c \<noteq> PubLanded then Inl HyPublicationNotLanded
     else Inr (c\<lparr>pch_state := PubRevoked, pch_revokedAt := Some revokedAt\<rparr>))"

end
