(* ===== verification/Disclosure_Safety.thy ===== *)
theory Disclosure_Safety
  imports Hybrid_Disclosure
begin

text \<open>
  What the hybrid disclosure boundary promises: a public projection and a public summary can be computed from the
  public part of their input alone, the identity of a projection determines its content, a Sealed Verifier gives
  away nothing but the safe part of its result, and a published lineage never changes. At the end, where the code
  falls short.
\<close>

section \<open>The Sealed Verifier\<close>

definition sealed_context :: "SealedRunInput \<Rightarrow> SealedVerifierExecutionContext" where
  "sealed_context input = \<lparr>sec_publicProjection = sri_publicProjection input, sec_changeRevision = sri_changeRevision input,
     sec_privateInput = sri_privateInput input\<rparr>"

lemma runSealedVerifier_Inr:
  assumes "runSealedVerifier pl execute now u input ledger = (Inr result, t)"
  shows "sealed_input_error pl input = None" "sealed_output_error pl input (execute (sealed_context input)) = None"
    "result = sealed_result pl input u (execute (sealed_context input))"
  using assms by (auto simp: runSealedVerifier_def sealed_context_def Let_def split: option.splits)

text \<open>What a public result is made of: the public side of the contract and the safe part of the outcome.\<close>

definition public_run :: "SealedRunInput \<Rightarrow> PublicProjectionRevision \<times> string \<times> SealedDisclosureClass \<times> AppealPolicy" where
  "public_run input = (sri_publicProjection input, svc_contractDigest (sri_contract input), svc_disclosure (sri_contract input),
     svc_appealPolicy (sri_contract input))"

definition safe_part :: "SealedVerifierPrivateResult \<Rightarrow> SealedStatus \<times> string option \<times> SafeFinding list option" where
  "safe_part r = (spr_status r, spr_safeSummary r, spr_safeFindings r)"


section \<open>Publication Changes\<close>

text \<open>A Publication Change under the calls of its owner; a refused call leaves it as it is.\<close>

datatype pub_op = PreviewPublication | ApprovePublication | LandPublication string | RevokePublication string

fun pub_call :: "pub_op \<Rightarrow> PublicationChange \<Rightarrow> HybridDisclosureErrorCode + PublicationChange" where
  "pub_call PreviewPublication c = previewPublicationChange c"
| "pub_call ApprovePublication c = approvePublicationChange c"
| "pub_call (LandPublication at) c = landPublicationChange at c"
| "pub_call (RevokePublication at) c = revokePublicationChange at c"

definition pub_step :: "pub_op \<Rightarrow> PublicationChange \<Rightarrow> (PublicationChange, HybridDisclosureErrorCode, unit) outcome" where
  "pub_step x c = (case pub_call x c of Inl e \<Rightarrow> raise e c | Inr c' \<Rightarrow> return () c')"

text \<open>What stays: the published lineage, and from Landing on the moment of Landing and the fact of revocation.\<close>

definition pub_published :: "PublicationState \<Rightarrow> bool" where
  "pub_published st \<longleftrightarrow> st = PubLanded \<or> st = PubRevoked"

definition pub_before :: "PublicationChange \<Rightarrow> PublicationChange \<Rightarrow> bool" where
  "pub_before c c' \<longleftrightarrow> c' = c\<lparr>pch_state := pch_state c', pch_landedAt := pch_landedAt c', pch_revokedAt := pch_revokedAt c'\<rparr>
     \<and> (pub_published (pch_state c) \<longrightarrow> pub_published (pch_state c') \<and> pch_landedAt c' = pch_landedAt c)
     \<and> (pch_state c = PubRevoked \<longrightarrow> c' = c)"

lemmas pub_calls = previewPublicationChange_def approvePublicationChange_def landPublicationChange_def revokePublicationChange_def

lemma pub_call_before: "pub_call x c = Inr c' \<Longrightarrow> pub_before c c'"
  by (cases x) (auto simp: pub_calls pub_before_def pub_published_def split: if_splits)

interpretation publication: atomic_machine pub_step "\<lambda>_ _. True" "\<lambda>_. True"
  by unfold_locales (auto simp: pub_step_def split: sum.splits)

interpretation publication_lineage: growing_machine pub_step "\<lambda>_ _. True" pub_before
proof
  show "pub_before c (snd (pub_step x c))" for x c
    by (auto simp: pub_step_def pub_before_def [of c c] split: sum.split intro: pub_call_before)
  show "pub_before c c''" if "pub_before c c'" "pub_before c' c''" for c c' c''
    using that unfolding pub_before_def by (cases c; cases c'; cases c'') auto
qed (simp add: pub_before_def)

text \<open>
  Whatever calls follow, a Publication Change keeps its project, lineage, projection and policies. Once it is
  landed it stays published with the same moment of Landing, landed or revoked, and a revoked one never changes.
\<close>

theorem published_lineage_is_final:
  "pub_before c (run_ops pub_step xs c)
   \<and> pch_publicProjection (run_ops pub_step xs c) = pch_publicProjection c \<and> pch_historyPolicy (run_ops pub_step xs c) = pch_historyPolicy c
   \<and> pch_projectId (run_ops pub_step xs c) = pch_projectId c
   \<and> (pch_state c \<in> {PubLanded, PubRevoked} \<longrightarrow> pch_state (run_ops pub_step xs c) \<in> {PubLanded, PubRevoked} \<and> pch_landedAt (run_ops pub_step xs c) = pch_landedAt c)
   \<and> (pch_state c = PubRevoked \<longrightarrow> run_ops pub_step xs c = c)"
proof -
  have before: "pub_before c (run_ops pub_step xs c)" by (rule publication_lineage.run_grows) simp
  then have "run_ops pub_step xs c = c\<lparr>pch_state := pch_state (run_ops pub_step xs c), pch_landedAt := pch_landedAt (run_ops pub_step xs c),
      pch_revokedAt := pch_revokedAt (run_ops pub_step xs c)\<rparr>" by (simp add: pub_before_def)
  then have "pch_publicProjection (run_ops pub_step xs c) = pch_publicProjection c" "pch_historyPolicy (run_ops pub_step xs c) = pch_historyPolicy c"
    "pch_projectId (run_ops pub_step xs c) = pch_projectId c" by (metis PublicationChange.select_convs PublicationChange.surjective PublicationChange.update_convs)+
  with before show ?thesis by (auto simp: pub_before_def pub_published_def)
qed

section \<open>Summaries\<close>

lemma catalogById_Inr: "catalogById spaces = Inr catalog \<longleftrightarrow> distinct (map space_id spaces) \<and> catalog = from_entries (map (\<lambda>sp. (space_id sp, sp)) spaces)"
  by (auto simp: catalogById_def)

lemma option_eq_by_values: "(\<And>v. x = Some v \<longleftrightarrow> y = Some v) \<Longrightarrow> x = y"
  by (cases x; cases y) auto

definition spaces_catalog :: "SourceSpace list \<Rightarrow> (string, SourceSpace) jsmap" where
  "spaces_catalog spaces = from_entries (map (\<lambda>sp. (space_id sp, sp)) spaces)"

lemma catalogById_eq: "distinct (map space_id spaces) \<Longrightarrow> catalogById spaces = Inr (spaces_catalog spaces)"
  by (simp add: catalogById_Inr spaces_catalog_def)

lemma get_spaces_catalog:
  assumes "distinct (map space_id spaces)"
  shows "get_key (spaces_catalog spaces) i = Some sp \<longleftrightarrow> sp \<in> set spaces \<and> space_id sp = i"
proof -
  have "distinct (map fst (map (\<lambda>sp. (space_id sp, sp)) spaces))" using assms by (simp add: comp_def)
  then show ?thesis by (auto simp: spaces_catalog_def get_from_entries_distinct map_of_eq_Some_iff)
qed

text \<open>A catalogue without some of its entries answers as before for the others.\<close>

lemma get_filtered_spaces:
  assumes "distinct (map space_id spaces)"
  shows "get_key (spaces_catalog (filter P spaces)) i
     = (case get_key (spaces_catalog spaces) i of None \<Rightarrow> None | Some sp \<Rightarrow> if P sp then Some sp else None)"
proof (rule option_eq_by_values)
  fix sp
  have "distinct (map space_id (filter P spaces))" using assms by (simp add: distinct_map_filter)
  then have "get_key (spaces_catalog (filter P spaces)) i = Some sp \<longleftrightarrow> sp \<in> set spaces \<and> P sp \<and> space_id sp = i"
    by (auto simp: get_spaces_catalog)
  also have "\<dots> \<longleftrightarrow> get_key (spaces_catalog spaces) i = Some sp \<and> P sp" using get_spaces_catalog [OF assms] by blast
  also have "\<dots> \<longleftrightarrow> (case get_key (spaces_catalog spaces) i of None \<Rightarrow> None | Some sp \<Rightarrow> if P sp then Some sp else None) = Some sp"
    by (auto split: option.split)
  finally show "get_key (spaces_catalog (filter P spaces)) i = Some sp
     \<longleftrightarrow> (case get_key (spaces_catalog spaces) i of None \<Rightarrow> None | Some sp \<Rightarrow> if P sp then Some sp else None) = Some sp" .
qed

text \<open>
  The public part of what a Change is summarised from: the public Source Spaces, the effects on them without
  internal labels, the public summary, and of public Evidence and of the revision only what is shown.
\<close>

definition public_evidence :: "Evidence \<Rightarrow> Evidence" where
  "public_evidence e = \<lparr>ev_id = ev_id e, ev_key = [], ev_criterion = [], ev_outcome = ev_outcome e, ev_validityKey = [], ev_actionId = [],
     ev_verifierId = [], ev_toolchainDigest = [], ev_dependencyDigest = [], ev_environmentDigest = [], ev_inputDigests = [], ev_effectDigests = [],
     ev_outputDigest = [], ev_createdAt = [], ev_producer = \<lparr>producer_kind = ProducerRun, producer_id = [], producer_version = []\<rparr>,
     ev_projectRevisionId = [], ev_projectViewId = [], ev_changeRevisionId = None, ev_runId = [],
     ev_actor = \<lparr>actor_principalId = [], actor_actorId = [], actor_sessionId = [], actor_clientId = []\<rparr>, ev_runnerId = [], ev_policyVersion = [],
     ev_authorizationEpoch = [], ev_capabilityGrantId = [], ev_disclosure = \<lparr>disc_projectionId = [], disc_classification = DPublic\<rparr>, ev_receipt = [],
     ev_invalidators = [], ev_owner = [], ev_residualRiskId = None, ev_sourceSpaceSnapshots = None, ev_actionContractDigest = None,
     ev_verifierContractDigest = None, ev_targetId = None, ev_workspaceId = None\<rparr>"

definition public_revision :: "(string, SourceSpace) jsmap \<Rightarrow> ChangeRevision \<Rightarrow> ChangeRevision" where
  "public_revision catalog r = \<lparr>rev_id = [], rev_changeId = rev_changeId r, rev_projectRevisionId = [], rev_projectViewId = [],
     rev_sequence = rev_sequence r, rev_parentRevisionId = None, rev_declaredEffects = [], rev_baseProjectRevisionId = None, rev_workspaceId = None,
     rev_sourceSpaceSnapshots = None, rev_affectedSourceSpaceIds = Some (filter (is_public_space catalog) (nullish (rev_affectedSourceSpaceIds r) [])),
     rev_affectedModuleIds = None, rev_affectedTargetIds = None, rev_author = None, rev_conflictIds = None, rev_kind = None\<rparr>"

definition public_change_part :: "ChangeSummaryInput \<Rightarrow> ChangeSummaryInput" where
  "public_change_part input =
     (let catalog = spaces_catalog (csi_sourceSpaces input) in
      input\<lparr>csi_changeRevision := public_revision catalog (csi_changeRevision input),
        csi_sourceSpaces := filter (\<lambda>sp. space_classification sp = SpacePublic) (csi_sourceSpaces input), csi_internalSummary := None,
        csi_effects := Some (map (\<lambda>e. e\<lparr>pce_internalLabel := None\<rparr>) (visible_effects input catalog)),
        csi_evidence := Some (map public_evidence (filter (\<lambda>e. disc_classification (ev_disclosure e) = DPublic) (nullish (csi_evidence input) [])))\<rparr>)"

lemma public_space_filtered:
  assumes "distinct (map space_id spaces)"
  shows "is_public_space (spaces_catalog (filter (\<lambda>sp. space_classification sp = SpacePublic) spaces)) = is_public_space (spaces_catalog spaces)"
  using assms by (auto simp: fun_eq_iff is_public_space_def get_filtered_spaces split: option.split)

text \<open>
  C17. A summary for the public is the summary of the public part of its input: what is private in the catalogue,
  in the effects, in the Evidence, in the revision and in the internal summary makes no difference.
\<close>

theorem public_change_summary_from_public_part:
  assumes "summarizeChangeForAudience pl input = Inr summary" "csi_audience input = DPublic"
  shows "summarizeChangeForAudience pl (public_change_part input) = Inr summary"
proof -
  let ?in = "public_change_part input"
  define catalog where "catalog = spaces_catalog (csi_sourceSpaces input)"
  define catalog' where "catalog' = spaces_catalog (csi_sourceSpaces ?in)"
  have distinct: "distinct (map space_id (csi_sourceSpaces input))"
    using assms(1) by (auto simp: summarizeChangeForAudience_def loop_simps catalogById_Inr)
  then have cat': "catalogById (csi_sourceSpaces ?in) = Inr catalog'"
    unfolding catalog'_def by (intro catalogById_eq) (simp add: public_change_part_def Let_def distinct_map_filter)
  have cat: "catalogById (csi_sourceSpaces input) = Inr catalog"
    using distinct by (simp add: catalogById_eq catalog_def)
  have shown: "is_public_space catalog' = is_public_space catalog"
    using public_space_filtered [OF distinct] by (simp add: catalog_def catalog'_def public_change_part_def Let_def)
  have fields: "csi_project ?in = csi_project input" "csi_audience ?in = DPublic" "csi_publicSummary ?in = csi_publicSummary input"
    "csi_publicProjection ?in = csi_publicProjection input" "rev_changeId (csi_changeRevision ?in) = rev_changeId (csi_changeRevision input)"
    "rev_sequence (csi_changeRevision ?in) = rev_sequence (csi_changeRevision input)"
    using assms(2) by (simp_all add: public_change_part_def public_revision_def Let_def)
  have effects: "visible_effects ?in catalog' = map (\<lambda>e. e\<lparr>pce_internalLabel := None\<rparr>) (visible_effects input catalog)"
    unfolding visible_effects_def shown
    by (simp add: public_change_part_def Let_def visible_effects_def catalog_def [symmetric] filter_map comp_def)
  then have labels: "effect_labels ?in catalog' = effect_labels input catalog" "affected_ids pl ?in catalog' = affected_ids pl input catalog"
    unfolding effect_labels_def affected_ids_def shown fields(2) assms(2)
    by (simp_all add: comp_def public_change_part_def public_revision_def Let_def catalog_def [symmetric])
  have projection: "summary_projection_id ?in = summary_projection_id input" using fields by (simp add: summary_projection_id_def split: option.split)
  have shown_evidence: "visible_evidence ?in = map public_evidence (visible_evidence input)"
    using assms(2) by (simp add: visible_evidence_def filter_map comp_def public_change_part_def public_evidence_def Let_def)
  have evidence: "map (evidence_projection pl ?in) (visible_evidence ?in) = map (evidence_projection pl input) (visible_evidence input)"
    unfolding shown_evidence evidence_projection_def projection fields(2) assms(2) by (simp add: comp_def public_evidence_def)
  have ids: "summary_change_id pl ?in = summary_change_id pl input" "summary_revision_id pl ?in = summary_revision_id pl input"
    using assms(2) fields projection by (simp_all add: summary_change_id_def summary_revision_id_def)
  have "check_loop (effect_error ?in catalog') (nullish (csi_effects ?in) []) = None"
    using assms(1) cat shown
    by (auto simp: summarizeChangeForAudience_def loop_simps effect_error_def public_change_part_def Let_def visible_effects_def
        catalog_def [symmetric] is_public_space_def has_key_def fun_eq_iff)
  with assms cat cat' fields labels evidence ids show ?thesis
    by (auto simp: summarizeChangeForAudience_def loop_simps)
qed

section \<open>Public projections\<close>

lemma fold_loop_cong: "(\<And>x b. x \<in> set xs \<Longrightarrow> f x b = g x b) \<Longrightarrow> fold_loop f xs b = fold_loop g xs b"
  by (induction xs arbitrary: b) (auto split: sum.split)

lemma check_loop_cong: "(\<And>x. x \<in> set xs \<Longrightarrow> f x = g x) \<Longrightarrow> check_loop f xs = check_loop g xs"
  by (induction xs) (auto split: option.split)

lemma index_sources_Inr:
  "fold_loop index_source sources m = Inr r \<Longrightarrow> distinct (map pps_sourceSpaceId sources)
     \<and> (\<forall>source\<in>set sources. \<not> has_key m (pps_sourceSpaceId source))
     \<and> (\<forall>i. get_key r i = (case find (\<lambda>source. pps_sourceSpaceId source = i) sources of None \<Rightarrow> get_key m i | Some source \<Rightarrow> Some source))"
proof (induction sources arbitrary: m)
  case (Cons source sources)
  from Cons.prems obtain m' where m': "index_source source m = Inr m'" "fold_loop index_source sources m' = Inr r"
    by (auto simp only: fold_loop_Cons_Inr)
  from m'(1) have new: "\<not> has_key m (pps_sourceSpaceId source)" and m'_def: "m' = set_key (pps_sourceSpaceId source) source m"
    by (auto simp: index_source_def split: if_splits)
  have rest: "fold_loop index_source sources (set_key (pps_sourceSpaceId source) source m) = Inr r" using m'(2) m'_def by simp
  note IH = Cons.IH [OF rest]
  have "get_key r i = (case find (\<lambda>source. pps_sourceSpaceId source = i) (source # sources) of None \<Rightarrow> get_key m i | Some source \<Rightarrow> Some source)" for i
  proof (cases "pps_sourceSpaceId source = i")
    case True
    then have "find (\<lambda>source. pps_sourceSpaceId source = i) sources = None" using IH by (auto simp: find_None_iff)
    with IH True show ?thesis by simp
  qed (use IH in \<open>auto split: option.split\<close>)
  with IH new show ?case by (auto simp: image_iff)
qed simp

lemma index_sources_distinct:
  "distinct (map pps_sourceSpaceId sources) \<Longrightarrow> (\<forall>source\<in>set sources. \<not> has_key m (pps_sourceSpaceId source)) \<Longrightarrow> \<exists>r. fold_loop index_source sources m = Inr r"
proof (induction sources arbitrary: m)
  case (Cons source sources)
  then have "\<forall>x\<in>set sources. \<not> has_key (set_key (pps_sourceSpaceId source) source m) (pps_sourceSpaceId x)" by (auto simp: image_iff)
  with Cons show ?case by (auto simp: index_source_def)
qed simp

lemma sources_by_id_Inr:
  "sources_by_id sources = Inr r \<Longrightarrow> distinct (map pps_sourceSpaceId sources) \<and> (\<forall>i. get_key r i = find (\<lambda>source. pps_sourceSpaceId source = i) sources)"
  using index_sources_Inr [of sources "[]" r] by (auto simp: sources_by_id_def split: option.splits)

lemma sources_by_id_distinct: "distinct (map pps_sourceSpaceId sources) \<Longrightarrow> \<exists>r. sources_by_id sources = Inr r"
  unfolding sources_by_id_def by (rule index_sources_distinct) (simp_all add: has_key_def)

lemma find_filter: "(\<And>x. P x \<Longrightarrow> Q x) \<Longrightarrow> find P (filter Q xs) = find P xs"
  by (induction xs) auto

text \<open>
  The public part of the input of a projection: the catalogue, the sources and the snapshots of the Source Spaces
  that were asked for, and of the revision nothing else.
\<close>

definition public_snapshots :: "string list \<Rightarrow> (string, string) jsmap \<Rightarrow> (string, string) jsmap" where
  "public_snapshots ids m = filter (\<lambda>(k, v). k \<in> set ids) m"

definition public_projection_part :: "PublicProjectionInput \<Rightarrow> PublicProjectionInput" where
  "public_projection_part input = (let ids = ppi_publicSourceSpaceIds input in
     input\<lparr>ppi_project := (ppi_project input)\<lparr>proj_sourceSpaceIds := filter (\<lambda>i. i \<in> set ids) (proj_sourceSpaceIds (ppi_project input)), proj_referenceType := []\<rparr>,
       ppi_canonicalRevision := \<lparr>prev_id = [], prev_projectId = prev_projectId (ppi_canonicalRevision input),
         prev_sourceSpaceSnapshots = public_snapshots ids (prev_sourceSpaceSnapshots (ppi_canonicalRevision input)), prev_parentProjectRevisionId = None,
         prev_landedChangeRevisionId = None, prev_landedChangeRevisionIds = None, prev_landingCohortId = None\<rparr>,
       ppi_sourceSpaces := filter (\<lambda>sp. space_id sp \<in> set ids) (ppi_sourceSpaces input),
       ppi_sources := filter (\<lambda>source. pps_sourceSpaceId source \<in> set ids) (ppi_sources input)\<rparr>)"

lemma get_public_snapshots: "i \<in> set ids \<Longrightarrow> get_key (public_snapshots ids m) i = get_key m i"
  by (induction m) (auto simp: public_snapshots_def get_key_def)

lemma sortedUnique_Inr: "sortedUnique pl xs e = Inr ys \<longleftrightarrow> distinct xs \<and> ys = locale_sort pl xs"
  by (auto simp: sortedUnique_def)

lemma publicSourceSpaceIds_Inr:
  "publicSourceSpaceIds pl input = Inr ids \<longleftrightarrow> prev_projectId (ppi_canonicalRevision input) = proj_id (ppi_project input)
     \<and> distinct (map space_id (ppi_sourceSpaces input)) \<and> distinct (ppi_publicSourceSpaceIds input) \<and> ids = locale_sort pl (ppi_publicSourceSpaceIds input)
     \<and> (\<forall>i\<in>set (ppi_publicSourceSpaceIds input). public_space_error (ppi_project input) (ppi_canonicalRevision input) (spaces_catalog (ppi_sourceSpaces input)) i = None)"
  by (auto simp: publicSourceSpaceIds_def loop_simps catalogById_Inr spaces_catalog_def sortedUnique_Inr)

lemma createPublicProjection_Inr:
  "createPublicProjection pl input = Inr p \<longleftrightarrow> (\<exists>ids files spaces. publicSourceSpaceIds pl input = Inr ids
     \<and> projectionFiles pl (ppi_sources input) ids (ppi_canonicalRevision input) = Inr files
     \<and> public_descriptors (spaces_catalog (ppi_sourceSpaces input)) (ppi_canonicalRevision input) ids = Inr spaces
     \<and> p = new_projection pl (ppi_project input) (nullish (ppi_profileId input) ''public'') ids spaces files)"
  by (auto simp: createPublicProjection_def loop_simps catalogById_Inr spaces_catalog_def publicSourceSpaceIds_Inr)

text \<open>The public part answers as before for the ids that were asked for.\<close>

lemma public_part_snapshots:
  assumes "i \<in> set (ppi_publicSourceSpaceIds input)"
  shows "get_key (prev_sourceSpaceSnapshots (ppi_canonicalRevision (public_projection_part input))) i
     = get_key (prev_sourceSpaceSnapshots (ppi_canonicalRevision input)) i"
  using assms by (simp add: public_projection_part_def Let_def get_public_snapshots)

lemma public_part_catalog:
  assumes "i \<in> set (ppi_publicSourceSpaceIds input)" "distinct (map space_id (ppi_sourceSpaces input))"
  shows "get_key (spaces_catalog (ppi_sourceSpaces (public_projection_part input))) i = get_key (spaces_catalog (ppi_sourceSpaces input)) i"
proof (cases "get_key (spaces_catalog (ppi_sourceSpaces input)) i")
  case (Some sp)
  then have "space_id sp = i" by (simp add: get_spaces_catalog [OF assms(2)])
  with Some assms(1) show ?thesis by (simp add: public_projection_part_def Let_def get_filtered_spaces [OF assms(2)])
qed (simp add: public_projection_part_def Let_def get_filtered_spaces [OF assms(2)])

lemma public_part_source:
  assumes "i \<in> set (ppi_publicSourceSpaceIds input)"
  shows "find (\<lambda>source. pps_sourceSpaceId source = i) (ppi_sources (public_projection_part input))
     = find (\<lambda>source. pps_sourceSpaceId source = i) (ppi_sources input)"
  using assms find_filter [of "\<lambda>source. pps_sourceSpaceId source = i" "\<lambda>source. pps_sourceSpaceId source \<in> set (ppi_publicSourceSpaceIds input)" "ppi_sources input"]
  by (simp add: public_projection_part_def Let_def)

lemma public_part_ids:
  assumes ids: "publicSourceSpaceIds pl input = Inr ids"
  shows "publicSourceSpaceIds pl (public_projection_part input) = Inr ids"
proof -
  let ?in = "public_projection_part input"
  have distinct: "distinct (map space_id (ppi_sourceSpaces input))" using ids by (simp add: publicSourceSpaceIds_Inr)
  have "public_space_error (ppi_project ?in) (ppi_canonicalRevision ?in) (spaces_catalog (ppi_sourceSpaces ?in)) i
      = public_space_error (ppi_project input) (ppi_canonicalRevision input) (spaces_catalog (ppi_sourceSpaces input)) i"
    if "i \<in> set (ppi_publicSourceSpaceIds input)" for i
    unfolding public_space_error_def public_part_catalog [OF that distinct] has_key_def public_part_snapshots [OF that]
    using that by (simp add: public_projection_part_def Let_def cong: option.case_cong)
  with ids show ?thesis
    unfolding publicSourceSpaceIds_Inr by (auto simp: public_projection_part_def Let_def distinct_map_filter)
qed

lemma public_part_files:
  assumes ids: "publicSourceSpaceIds pl input = Inr ids" and files: "projectionFiles pl (ppi_sources input) ids (ppi_canonicalRevision input) = Inr files"
  shows "projectionFiles pl (ppi_sources (public_projection_part input)) ids (ppi_canonicalRevision (public_projection_part input)) = Inr files"
proof -
  let ?in = "public_projection_part input"
  have requested: "set ids = set (ppi_publicSourceSpaceIds input)" using ids by (auto simp: publicSourceSpaceIds_Inr)
  from files obtain m fs where m: "sources_by_id (ppi_sources input) = Inr m"
    and fs: "fold_loop (project_source m (ppi_canonicalRevision input) ids) ids [] = Inr fs" and files_fs: "files = sorted_object pl fs"
    by (auto simp: projectionFiles_def loop_simps)
  note old = sources_by_id_Inr [OF m]
  obtain m' where m': "sources_by_id (ppi_sources ?in) = Inr m'"
    using old sources_by_id_distinct [of "ppi_sources ?in"] by (auto simp: public_projection_part_def Let_def distinct_map_filter)
  note new = sources_by_id_Inr [OF m']
  have "fold_loop (project_source m' (ppi_canonicalRevision ?in) ids) ids [] = fold_loop (project_source m (ppi_canonicalRevision input) ids) ids []"
    using old new requested
    by (intro fold_loop_cong) (simp add: project_source_def public_part_snapshots public_part_source cong: option.case_cong)
  with fs files_fs m' show ?thesis by (simp add: projectionFiles_def loop_simps)
qed

lemma public_part_descriptors:
  assumes ids: "publicSourceSpaceIds pl input = Inr ids"
  shows "public_descriptors (spaces_catalog (ppi_sourceSpaces (public_projection_part input))) (ppi_canonicalRevision (public_projection_part input)) ids
     = public_descriptors (spaces_catalog (ppi_sourceSpaces input)) (ppi_canonicalRevision input) ids"
proof -
  have requested: "set ids = set (ppi_publicSourceSpaceIds input)" and distinct: "distinct (map space_id (ppi_sourceSpaces input))"
    using ids by (auto simp: publicSourceSpaceIds_Inr)
  then show ?thesis
    unfolding public_descriptors_def
    by (intro fold_loop_cong) (simp add: public_descriptor_def public_part_catalog public_part_snapshots cong: option.case_cong)
qed


section \<open>The identity of a projection\<close>

lemma stable_descriptor_inject: "stableValue pl (descriptor_json d) = stableValue pl (descriptor_json d') \<Longrightarrow> d = d'"
  unfolding descriptor_json_def by (drule stable_fields) simp_all

lemma stable_descriptors_inject: "map (\<lambda>d. stableValue pl (descriptor_json d)) ds = map (\<lambda>d. stableValue pl (descriptor_json d)) ds' \<Longrightarrow> ds = ds'"
  by (rule map_injective) (auto intro!: injI stable_descriptor_inject)

lemma stable_lineage_inject: "stableValue pl (lineage_json a b ids) = stableValue pl (lineage_json a' b' ids') \<Longrightarrow> a = a' \<and> b = b' \<and> ids = ids'"
  unfolding lineage_json_def by (drule stable_fields) (simp_all add: stable_texts)

lemma stable_revision_inject: "stableValue pl (revision_json l s) = stableValue pl (revision_json l' s') \<Longrightarrow> l = l' \<and> s = s'"
  unfolding revision_json_def by (drule stable_fields) simp_all

lemma stable_snapshot_inject:
  "stableValue pl (snapshot_json l ds m) = stableValue pl (snapshot_json l' ds' m') \<Longrightarrow> ds = ds' \<and> sorted_object pl m = sorted_object pl m'"
  unfolding snapshot_json_def
  by (drule stable_fields) (auto simp: stable_record stable_value_elements_map comp_def intro: stable_descriptors_inject)

text \<open>The files of a projection are an object in its own order.\<close>

lemma project_file_distinct: "distinct_keys files \<Longrightarrow> project_file mount file files = Inr files' \<Longrightarrow> distinct_keys files'"
  by (auto simp: project_file_def assign_file_def loop_simps split: if_splits intro: jsm.keys_ok_store)

lemma projectionFiles_sorted:
  assumes "projectionFiles pl sources ids revision = Inr files"
  shows "sorted_object pl files = files"
proof -
  obtain m fs where fs: "fold_loop (project_source m revision ids) ids [] = Inr fs" and files: "files = sorted_object pl fs"
    using assms by (auto simp: projectionFiles_def loop_simps)
  have step: "distinct_keys files'" if "distinct_keys files" "project_source m revision ids i files = Inr files'" for i files files'
    using that by (auto simp: project_source_def loop_simps split: option.splits if_splits elim!: fold_loop_invariant [rotated -1] intro: project_file_distinct)
  have "distinct_keys fs"
    by (rule fold_loop_invariant [where P = distinct_keys, OF _ _ fs]) (rule step, assumption+, simp add: distinct_keys_def)
  then show ?thesis by (simp add: files sorted_object_idem distinct_keys_def)
qed

text \<open>
  C18. The identity of a projection determines it: two projections with one projection revision id are of the same
  Project, profile and Source Spaces, and hold the same snapshots and files, so they differ at most in the name
  of the Project, which is not hashed. Otherwise there are two texts with one hash.
\<close>

theorem projection_id_binds_content:
  assumes "createPublicProjection pl a = Inr p" "createPublicProjection pl b = Inr q" "ppr_projectionRevisionId p = ppr_projectionRevisionId q"
  shows "collision pl \<or> p = q\<lparr>ppr_projectName := ppr_projectName p\<rparr>"
proof (cases "collision pl")
  case False
  then have inject: "stable_digest pl v = stable_digest pl w \<Longrightarrow> stableValue pl v = stableValue pl w" for v w by (blast dest: stable_digest_inject)
  obtain pa i ids spaces files pb j ids' spaces' files' where p: "p = new_projection pl pa i ids spaces files" "sorted_object pl files = files"
    and q: "q = new_projection pl pb j ids' spaces' files'" "sorted_object pl files' = files'"
    using assms(1,2) by (auto simp: createPublicProjection_Inr dest!: projectionFiles_sorted)
  from assms(3) have lineage: "ppr_lineageId p = ppr_lineageId q" and snapshot: "ppr_publicSnapshotId p = ppr_publicSnapshotId q"
    by (auto simp: p q new_projection_def Let_def dest!: inject stable_revision_inject)
  have "proj_id pa = proj_id pb \<and> i = j \<and> ids = ids'" "spaces = spaces' \<and> files = files'"
    using lineage snapshot p(2) q(2)
    by (auto simp: p q new_projection_def Let_def dest!: inject stable_lineage_inject stable_snapshot_inject)
  then show ?thesis by (simp add: p q new_projection_def Let_def)
qed simp

section \<open>Concrete runs\<close>

definition demo_platform :: Platform where
  "demo_platform = \<lparr>pl_sha256 = (\<lambda>x. x), pl_collation = (\<lambda>x. x)\<rparr>"

text \<open>Where the hash does not matter it is constant.\<close>

definition demo_hash :: Platform where
  "demo_hash = \<lparr>pl_sha256 = (\<lambda>x. ''h''), pl_collation = (\<lambda>x. x)\<rparr>"

text \<open>The public player, with the codec that is not asked for; \<open>x\<close> is private.\<close>

definition demo_hybrid_input :: "string \<Rightarrow> PublicProjectionInput" where
  "demo_hybrid_input x = \<lparr>ppi_project = demo_project, ppi_canonicalRevision = demo_revision, ppi_sourceSpaces = demo_spaces,
     ppi_publicSourceSpaceIds = [''player''],
     ppi_sources = [\<lparr>pps_sourceSpaceId = ''player'', pps_snapshotId = ''s1'', pps_files = [(''f'', ''t'')], pps_mountPath = None\<rparr>,
       \<lparr>pps_sourceSpaceId = ''codec'', pps_snapshotId = ''s2'', pps_files = [(''k'', x)], pps_mountPath = None\<rparr>],
     ppi_profileId = None\<rparr>"

definition demo_projection :: PublicProjectionRevision where
  "demo_projection = projr (createPublicProjection demo_hash (demo_hybrid_input ''secret''))"

lemma demo_projection: "createPublicProjection demo_hash (demo_hybrid_input ''secret'') = Inr demo_projection"
proof -
  have "\<not> isl (createPublicProjection demo_hash (demo_hybrid_input ''secret''))" by code_simp
  then show ?thesis by (simp add: demo_projection_def)
qed


text \<open>Another name of the Project and other private sources: one projection id. Here the hash is the identity.\<close>

definition demo_named_projection :: "string \<Rightarrow> string \<Rightarrow> PublicProjectionRevision" where
  "demo_named_projection name x = projr (createPublicProjection demo_platform ((demo_hybrid_input x)\<lparr>ppi_project := demo_project\<lparr>proj_name := name\<rparr>\<rparr>))"

theorem projection_id_binds_content_witness:
  "demo_named_projection ''renamed'' ''other'' = (demo_named_projection ''player'' ''secret'')\<lparr>ppr_projectName := ''renamed''\<rparr>"
proof -
  have made: "createPublicProjection demo_platform ((demo_hybrid_input x)\<lparr>ppi_project := demo_project\<lparr>proj_name := name\<rparr>\<rparr>) = Inr (demo_named_projection name x)"
    if "\<not> isl (createPublicProjection demo_platform ((demo_hybrid_input x)\<lparr>ppi_project := demo_project\<lparr>proj_name := name\<rparr>\<rparr>))" for name x
    using that by (simp add: demo_named_projection_def)
  have "\<not> isl (createPublicProjection demo_platform ((demo_hybrid_input ''other'')\<lparr>ppi_project := demo_project\<lparr>proj_name := ''renamed''\<rparr>\<rparr>))" by code_simp
  moreover have "\<not> isl (createPublicProjection demo_platform ((demo_hybrid_input ''secret'')\<lparr>ppi_project := demo_project\<lparr>proj_name := ''player''\<rparr>\<rparr>))" by code_simp
  moreover have "ppr_projectName (demo_named_projection ''renamed'' ''other'') = ''renamed''" by code_simp
  moreover have "ppr_projectionRevisionId (demo_named_projection ''renamed'' ''other'') = ppr_projectionRevisionId (demo_named_projection ''player'' ''secret'')" by code_simp
  moreover have "\<not> collision demo_platform" by (simp add: collision_def demo_platform_def)
  ultimately show ?thesis using projection_id_binds_content [OF made [of "''renamed''" "''other''"] made [of "''player''" "''secret''"]] by simp
qed

text \<open>A Change of both Source Spaces, with public and restricted Evidence.\<close>

definition demo_hybrid_revision :: ChangeRevision where
  "demo_hybrid_revision = \<lparr>rev_id = ''cr'', rev_changeId = ''c'', rev_projectRevisionId = ''r0'', rev_projectViewId = ''v'', rev_sequence = 1,
     rev_parentRevisionId = None, rev_declaredEffects = [], rev_baseProjectRevisionId = None, rev_workspaceId = None,
     rev_sourceSpaceSnapshots = None, rev_affectedSourceSpaceIds = Some [''player'', ''codec''], rev_affectedModuleIds = None,
     rev_affectedTargetIds = None, rev_author = None, rev_conflictIds = None, rev_kind = None\<rparr>"

definition demo_summary_input :: "DisclosureClassification \<Rightarrow> ChangeSummaryInput" where
  "demo_summary_input audience = \<lparr>csi_project = demo_project, csi_changeRevision = demo_hybrid_revision, csi_sourceSpaces = demo_spaces,
     csi_audience = audience, csi_publicSummary = ''s'', csi_internalSummary = Some ''i'', csi_publicProjection = Some demo_projection,
     csi_effects = Some [\<lparr>pce_sourceSpaceId = ''player'', pce_publicLabel = ''p1'', pce_internalLabel = Some ''i1''\<rparr>,
       \<lparr>pce_sourceSpaceId = ''codec'', pce_publicLabel = ''p2'', pce_internalLabel = Some ''i2''\<rparr>],
     csi_evidence = Some [(demo_evidence ''unit-tests'' Passed)\<lparr>ev_disclosure := \<lparr>disc_projectionId = ''v'', disc_classification = DPublic\<rparr>\<rparr>,
       (demo_evidence ''fuzz'' Failed)\<lparr>ev_disclosure := \<lparr>disc_projectionId = ''v'', disc_classification = DRestricted\<rparr>\<rparr>]\<rparr>"

definition demo_summary :: "DisclosureClassification \<Rightarrow> AudienceChangeSummary" where
  "demo_summary audience = projr (summarizeChangeForAudience demo_hash (demo_summary_input audience))"

theorem public_change_summary_from_public_part_witness:
  "summarizeChangeForAudience demo_hash (public_change_part (demo_summary_input DPublic)) = Inr (demo_summary DPublic)
   \<and> acs_affectedSourceSpaceIds (demo_summary DPublic) = [''player''] \<and> acs_declaredEffects (demo_summary DPublic) = [''p1'']
   \<and> map aep_outcome (acs_evidence (demo_summary DPublic)) = [Passed]"
proof -
  have "\<not> isl (summarizeChangeForAudience demo_hash (demo_summary_input DPublic))" by code_simp
  then have made: "summarizeChangeForAudience demo_hash (demo_summary_input DPublic) = Inr (demo_summary DPublic)" by (simp add: demo_summary_def)
  have "acs_affectedSourceSpaceIds (demo_summary DPublic) = [''player'']" by code_simp
  moreover have "acs_declaredEffects (demo_summary DPublic) = [''p1'']" by code_simp
  moreover have "map aep_outcome (acs_evidence (demo_summary DPublic)) = [Passed]" by code_simp
  ultimately show ?thesis using public_change_summary_from_public_part [OF made] by (simp add: demo_summary_input_def)
qed

text \<open>A Sealed Verifier for the codec; the private inputs and what it keeps to itself are \<open>x\<close>.\<close>

definition demo_contract :: SealedVerifierContract where
  "demo_contract = \<lparr>svc_id = ''sv'', svc_name = ''codec fuzz'', svc_actionId = ''a'', svc_actionContractDigest = ''d1'', svc_contractDigest = ''d2'',
     svc_acceptedInput = AcceptsChangeRevision, svc_privateSourceSpaceIds = [''codec''], svc_allowedAudiences = [DPublic, DProject],
     svc_disclosure = SealedSafeSummary, svc_sideChannelPolicy = SideChannelCoarse, svc_appealPolicy = AppealRerun\<rparr>"

definition demo_sealed_run :: "string \<Rightarrow> string \<Rightarrow> SealedRunInput" where
  "demo_sealed_run runner x = \<lparr>sri_projectId = ''p'', sri_publicProjection = demo_projection, sri_changeRevision = demo_hybrid_revision,
     sri_contract = demo_contract, sri_audience = DPublic, sri_privateInput = \<lparr>spi_sourceSpaceIds = [''codec''], spi_files = [(''k.c'', x)], spi_inputDigests = [x]\<rparr>,
     sri_actor = \<lparr>actor_principalId = ''bot'', actor_actorId = ''b'', actor_sessionId = ''s'', actor_clientId = ''ci''\<rparr>, sri_runnerId = runner,
     sri_policyVersion = ''1'', sri_authorizationEpoch = ''1'', sri_capabilityGrantId = ''g'', sri_owner = ''o''\<rparr>"

definition demo_verifier :: "SealedVerifierExecutionContext \<Rightarrow> SealedVerifierPrivateResult" where
  "demo_verifier ctx = (let x = concat (spi_inputDigests (sec_privateInput ctx)) in
     \<lparr>spr_status = VerifierFailed, spr_safeSummary = Some ''the decoder is not memory safe'', spr_safeFindings = None, spr_outputDigest = ''out'' @ x,
      spr_privateReceipt = ''crash at '' @ x\<rparr>)"

lemma demo_verifier_accepted:
  "sealed_input_error demo_hash (demo_sealed_run ''r'' ''0xaa'') = None" "sealed_input_error demo_hash (demo_sealed_run ''q'' ''0xbb'') = None"
  "sealed_output_error demo_hash (demo_sealed_run ''r'' ''0xaa'') (demo_verifier (sealed_context (demo_sealed_run ''r'' ''0xaa''))) = None"
  "sealed_output_error demo_hash (demo_sealed_run ''q'' ''0xbb'') (demo_verifier (sealed_context (demo_sealed_run ''q'' ''0xbb''))) = None"
  by code_simp+

lemma runSealedVerifier_accepted:
  assumes "sealed_input_error pl input = None" "sealed_output_error pl input (execute (sealed_context input)) = None"
  shows "runSealedVerifier pl execute now u input ledger
     = (Inr (sealed_result pl input u (execute (sealed_context input))), snd (runSealedVerifier pl execute now u input ledger))"
  using assms by (simp add: runSealedVerifier_def sealed_context_def Let_def return_def)


text \<open>A landed Publication Change.\<close>

definition demo_publication :: PublicationChange where
  "demo_publication = \<lparr>pch_id = ''pc'', pch_projectId = ''p'', pch_publicSourceSpaceId = ''player'', pch_publicProjection = demo_projection,
     pch_historyPolicy = HistoryCurated, pch_metadataDisclosure = MetadataNone, pch_state = PubLanded, pch_landedAt = Some ''t1'', pch_revokedAt = None\<rparr>"

theorem published_lineage_is_final_witness:
  "pch_landedAt (run_ops pub_step [LandPublication ''t2'', RevokePublication ''t3'', PreviewPublication] demo_publication) = Some ''t1''
   \<and> pch_state (run_ops pub_step [LandPublication ''t2'', RevokePublication ''t3'', PreviewPublication] demo_publication) = PubRevoked"
proof -
  have "pch_state (run_ops pub_step [LandPublication ''t2'', RevokePublication ''t3'', PreviewPublication] demo_publication) = PubRevoked"
    by (simp add: demo_publication_def pub_step_def pub_calls)
  moreover have "pch_state demo_publication = PubLanded" "pch_landedAt demo_publication = Some ''t1''" by (simp_all add: demo_publication_def)
  ultimately show ?thesis using published_lineage_is_final [of demo_publication "[LandPublication ''t2'', RevokePublication ''t3'', PreviewPublication]"] by simp
qed

section \<open>Where the code falls short\<close>

text \<open>The message of \<open>landPublicationChange\<close> asks for a previewed and approved change; a previewed one lands.\<close>

lemma publication_lands_unapproved:
  "pch_state c = PubPreviewed \<Longrightarrow> landPublicationChange t c = Inr (c\<lparr>pch_state := PubLanded, pch_landedAt := Some t\<rparr>)"
  by (simp add: landPublicationChange_def)

text \<open>
  The markers are looked for in the JSON text. A private file name with a quote or a backslash is written with
  escapes there, so a summary that names it passes.
\<close>

definition demo_leak :: SealedVerifierPrivateResult where
  "demo_leak = \<lparr>spr_status = VerifierFailed, spr_safeSummary = Some ''see a\"b'', spr_safeFindings = None, spr_outputDigest = ''o'', spr_privateReceipt = ''r''\<rparr>"

lemma escaped_marker_passes:
  "sealed_output_error demo_hash
     ((demo_sealed_run ''r'' ''0xaa'')\<lparr>sri_privateInput := \<lparr>spi_sourceSpaceIds = [''codec''], spi_files = [(''a\"b'', [])], spi_inputDigests = []\<rparr>\<rparr>) demo_leak = None"
  by code_simp

text \<open>The Evidence of a public run is classified as public, and carries the private receipt and input digests.\<close>

lemma sealed_evidence_is_classified_public:
  assumes "sri_audience input = DPublic"
  shows "disc_classification (ev_disclosure (sealed_evidence pl input runId r)) = DPublic
     \<and> ev_receipt (sealed_evidence pl input runId r) = spr_privateReceipt r
     \<and> set (spi_inputDigests (sri_privateInput input)) \<subseteq> set (ev_inputDigests (sealed_evidence pl input runId r))"
  using assms by (auto simp: sealed_evidence_def Let_def sealed_input_digests_def)

text \<open>A file whose projected path is \<open>__proto__\<close> is dropped, and a path with a trailing slash is another path but the same file.\<close>

lemma proto_file_is_dropped: "project_file [] (''__proto__'', content) files = Inr files \<or> has_key files ''__proto__''"
proof -
  have "normalizePublicPath ''__proto__'' = Inr ''__proto__''" by code_simp
  then show ?thesis by (simp add: project_file_def mounted_path_def assign_file_def)
qed

lemma trailing_slash_is_another_path:
  "project_file [] (''a/'', y) [(''a'', x)] = Inr [(''a'', x), (''a/'', y)] \<and> projection_target ''a/'' = projection_target ''a''"
proof -
  have "normalizePublicPath ''a/'' = Inr ''a/''" by code_simp
  moreover have "projection_target ''a/'' = projection_target ''a''" by code_simp
  ultimately show ?thesis by (simp add: project_file_def mounted_path_def assign_file_def has_key_def get_key_def set_key_def)
qed

text \<open>To a Project audience the summary of a Change shows restricted Evidence.\<close>

lemma project_audience_sees_restricted_evidence:
  "map aep_disclosure (acs_evidence (demo_summary DProject)) = [DPublic, DRestricted]"
  by code_simp

end
