(* ===== verification/Spec2Isabelle.thy ===== *)
theory Spec2Isabelle
  imports Landing_Policy Public_Intake Delivery Publication_Safety Extension_Authority Governance_Safety Runner_Leases Disclosure_Safety
begin

text \<open>
  \<^bold>\<open>Anyam: a verification development for its coordinators\<close>

  Anyam (TypeScript, \<open>src/src\<close>) is a control plane for software projects. A Project is made of Source Spaces; a
  Change collects Change Revisions written in Workspaces; an Integration Cohort of Change Revisions lands on the
  canonical Project Revision when policy, approvals, Evidence and conflicts allow it; Actions run on external
  Runners and return signed Results; Releases are sealed from Artifacts and Evidence and promoted to Targets; a
  Realm says who may do any of this. Each of these parts is a class whose methods guard and mutate maps of
  records. The parts meet in shared records (\<open>src/src/kernel/contracts.ts\<close>) and in a few calls: the
  collaboration coordinator lands through the local coordinator, Evidence feeds both Stage Gates and Release
  sealing, Action outputs are checked against the declaration the client package parses.

  \<^bold>\<open>Theories and what they model\<close>

  \<^item> \<open>Prelude\<close>: what the sources use of JavaScript (strings, \<open>Map\<close> as \<open>jsmap\<close>, an association list in
    insertion order, \<open>??\<close> as \<open>nullish\<close>, truthiness as \<open>keep_truthy\<close>, JSON values as \<open>js_value\<close>), methods that may
    throw (\<open>outcome\<close>: an error or a value, and the state as it is then), loops that may throw (\<open>fold_loop\<close>,
    \<open>check_loop\<close>).
  \<^item> \<open>Machines\<close>: runs of operations and three contracts as locales: an invariant every operation keeps, a
    machine whose failed calls leave no trace, and a machine that only grows. \<open>Tables\<close>: growth of tables of
    records. Every coordinator below interprets these locales.
  \<^item> \<open>Contracts\<close>: \<open>kernel/contracts.ts\<close>, with \<open>createProjectRevision\<close> and \<open>deriveProjectView\<close>.
  \<^item> \<open>Mounts\<close>: \<open>kernel/workspace-mounts.ts\<close>. \<open>Workspace_Files\<close>: materialisation, from \<open>change-control/local.ts\<close>.
  \<^item> \<open>Change_Control\<close>, \<open>Change_Invariant\<close>, \<open>Landing\<close>: \<open>LocalChangeCoordinator\<close> of \<open>change-control/local.ts\<close>.
  \<^item> \<open>Evidence_Gate\<close>: \<open>kernel/evidence.ts\<close>. \<open>Collaboration\<close>, \<open>Landing_Policy\<close>: \<open>change-control/collaboration.ts\<close>;
    the Landing authority it calls is the locale \<open>landing_authority\<close>, interpreted by \<open>landCohort\<close>.
  \<^item> \<open>Public_Intake\<close>: \<open>disclosure/public-intake.ts\<close>. \<open>Hybrid_Disclosure\<close>, \<open>Disclosure_Safety\<close>: \<open>disclosure/hybrid.ts\<close>,
    over the digests of \<open>Stable_Values\<close>, the file systems of \<open>Workspace_Files\<close> and the ledger of \<open>Evidence_Gate\<close>.
  \<^item> \<open>Releases\<close>: \<open>delivery/migration-plan.ts\<close>, \<open>release-input.ts\<close>, \<open>target-deployment.ts\<close> and the sealing of
    \<open>promotion.ts\<close>. \<open>Promotion\<close>, \<open>Promotion_Invariant\<close>, \<open>Delivery\<close>: \<open>WorkerPromotionCoordinator\<close>.
    \<open>Publication\<close>, \<open>Publication_Safety\<close>: \<open>ReleasePublicationCoordinator\<close> of \<open>delivery/release-publication.ts\<close>.
  \<^item> \<open>Realm\<close>, \<open>Realm_Operations\<close>, \<open>Realm_Revocation\<close>, \<open>Realm_Decision\<close>, \<open>Realm_Invariant\<close>, \<open>Realm_Authority\<close>:
    \<open>RealmIdentityPolicy\<close> of \<open>identity/realm.ts\<close>.
  \<^item> \<open>Extensions\<close>, \<open>Extension_Authority\<close>: \<open>ExtensionRegistry\<close> of \<open>extensions/registry.ts\<close>, which asks that policy; what
    it needs of a policy is the locale \<open>policy_authority\<close>, interpreted by \<open>evaluate\<close>.
  \<^item> \<open>Governance\<close>, \<open>Governance_Safety\<close>: \<open>GovernanceProfileRegistry\<close> of \<open>governance/profiles.ts\<close>, which asks the same policy
    and hashes profiles and bundles with the digests of \<open>Stable_Values\<close>.
  \<^item> \<open>Stable_Json\<close>: the canonical text of a value, \<open>stableJson\<close> of \<open>execution/runner-proof.ts\<close>.
    \<open>Artifact_Outputs\<close>: \<open>packages/create-anyam/src/action-artifact-output.ts\<close>.
  \<^item> \<open>Runner_Contracts\<close>, \<open>Runner\<close>, \<open>Runner_Invariant\<close>, \<open>Runner_Runs\<close>, \<open>Runner_Leases\<close>:
    \<open>ExternalRunnerCoordinator\<close> of \<open>execution/runner.ts\<close> and the context and message of a Result of
    \<open>runner-proof.ts\<close>.

  Definitions keep the names of the source, with a suffix or prefix where two files use one name for different
  things. A class is a record of its maps, a method is a definition on that record; its guards are an \<open>_error\<close>
  definition in the order of the code, its writes a \<open>_commit\<close> definition. The datatype of operations of a
  coordinator (\<open>cc_op\<close>, \<open>prom_op\<close>, \<open>realm_op\<close>, \<open>rn_op\<close> and so on) has one constructor per method, with what the method
  reads from outside as arguments.
\<close>

text \<open>
  \<^bold>\<open>Conventions\<close>

  \<^item> Random identifiers, challenges and secrets are arguments. Runs assume that a drawn identifier is not yet a
    key of the map it goes into; this is the only assumption on a run (\<open>cc_ok\<close>, \<open>prom_ok\<close>, \<open>realm_ok\<close>, \<open>er_ok\<close>, \<open>gr_ok\<close>,
    \<open>rn_ok\<close>, \<open>pb_ok\<close>).
  \<^item> A call reads the clock once. A time stamp is what \<open>Date.parse\<close> reads, \<open>None\<close> for \<open>NaN\<close>, and a \<open>Timestamp\<close>
    keeps the text too where it is hashed. Time stamps nobody reads are left out.
  \<^item> Hashing, signatures, Unicode normalisation, lower-casing of paths and the credential scanner are parameters.
    No law is assumed of them, except where a theorem names one.
  \<^item> Prose (messages, receipts, recovery actions) and the literal protocol names are left out, except where they
    are hashed, signed or compared.
  \<^item> \<open>rebaseChange\<close> is split at its \<open>await\<close>; an execution of a Promotion or of a publication is split at each call of the
    provider, whose answer, or a thrown error, is an operation of the machine. Runs therefore cover every interleaving of
    callers and provider. The methods of the other classes do not suspend while they hold the state.
  \<^item> Nothing runs on fuel. Recursion is structural or has a measure: the revocation loops of the Realm decrease
    the number of records not yet closed, chains of Sessions and Grants the ids not yet visited.
  \<^item> Texts are lists of 8-bit code units. \<open>localeCompare\<close> of identifiers and ISO time stamps is the order of code
    units or of the parsed times. Only \<open>hybrid.ts\<close> and \<open>profiles.ts\<close> sort file paths and hashed keys with it: there the
    collation is a parameter, and the order of the keys of a JavaScript object is written out.

  \<^bold>\<open>What the theorems show\<close>

  \<^item> Landing: exactly when a cohort lands and that no update is lost (\<open>Landing\<close>); the canonical history is one
    line, the revisions of a Change form a chain, published records never change and a failed call leaves no
    trace (\<open>Change_Invariant\<close>); a Landing through policy and coordinator is all or nothing, when the policy
    allows it, that author, verifier and reviewer stay separate, and what a restricted audience can learn
    (\<open>Landing_Policy\<close>).
  \<^item> Realm: when an evaluation allows, what agents can never hold, that closed authority stays closed and derived
    authority stays within its ancestors, and what a revocation, a new policy and a recovery close. Extensions:
    the trust boundary of an installation, when an invocation is carried out, and that closed installations and
    closed authority carry out nothing, whatever the other callers of the Realm do. Governance: a ready evaluation
    rests on stored Evidence for every required control, when an evaluation is ready, blocked or indeterminate,
    an exported bundle verifies unless the scanner finds something, and its replay reproduces the evaluation.
  \<^item> Runners: exactly when a Result or a claim is accepted, that a closed Attempt and an expired lease stay closed
    to all later calls, that Attempts follow their Job with at most one live credential, that outputs stay in
    scope, that requests are idempotent and that every matching Job is offered; canonical texts determine
    values, so the signature over a text covers every field; and what typed Artifact outputs guarantee.
  \<^item> Delivery: what a sealed Release guarantees, that the pointer of a Target follows verified health, the path of
    the events and the progress of an execution under every interleaving; that a published pointer is bound to the
    digests the provider confirmed, that a published record is final and that a key names one publication.
  \<^item> Disclosure: a public projection and a public summary are those of the public part of their input, the id of a
    projection determines its content, a Sealed Verifier gives away the part it declared safe and no more, and a
    published lineage is final.
  \<^item> Mounts, materialisation, views, Stage Gates, Migration Plans and the public intake: exact acceptance
    conditions, containment, noninterference, a round trip and counters.
  \<^item> Each of these theories ends with the behaviours in which the code does not do what its messages, comments or
    names say; they are theorems about the same definitions.

  Each property with hypotheses is applied at a concrete state of a run, evaluated in the kernel; the definitions
  of these states begin with \<open>demo_\<close>.
\<close>

text \<open>
  \<^bold>\<open>Not modelled\<close>

  \<^item> \<open>execution/local.ts\<close> (processes, containers, its cache and journal) and the divergence rules of \<open>portability/mirror.ts\<close>: logic of the program's
    own, to be modelled next, in this order of interest: mirrors, local execution.
  \<^item> \<open>cloudflare/\<close>, \<open>apps/\<close>: Durable Objects, HTTP routing and storage around the coordinators; what they
    decide themselves (command dispatch of the authority plane, abuse budgets, nonces) comes after them.
  \<^item> \<open>portability/\<close> otherwise (Git, GitHub and archive formats), \<open>installation/\<close>, \<open>operations/\<close>, \<open>qualification/\<close>,
    \<open>harness/\<close>, \<open>fixtures/\<close>, the OAuth pages and the command-line client: adapters, reports and user interface.
  \<^item> Of the modelled files: prose, receipts nobody reads, \<open>containsKnownCredentialMaterial\<close>, the profile digests of
    Runners, the WebCrypto verifier of \<open>runner-proof.ts\<close>, and the constructors \<open>createProject\<close>, \<open>createCommand\<close>
    and \<open>createDomainEvent\<close> of the kernel contracts.
\<close>

end
